(* ===== verification/GoPrelude.thy ===== *)
theory GoPrelude
  imports Complex_Main "HOL-Library.AList" "HOL-Library.Char_ord" "HOL-Library.List_Lexorder"
    "HOL-Library.Sublist"
begin

text \<open>
  What the components share of the Go language and its standard library.

  Strings are Go's byte strings (\<open>string\<close>, compared byte by byte); \<open>strings.TrimSpace\<close>,
  \<open>strings.ToLower\<close> and \<open>strings.EqualFold\<close> are modelled on ASCII, where every identifier,
  key and level of the program lives. A Go map is an association list without repeated
  keys: the list order is one of the orders in which Go may iterate over the map, so a
  statement about every such list is a statement about every iteration order. A pointer
  that may be nil is an option, an error return is the left summand. A Go \<open>int\<close> is \<open>int\<close>;
  where 64-bit wrap-around matters the model applies \<open>wrap64\<close>. \<open>time.Time\<close> and
  \<open>time.Duration\<close> are integers counting nanoseconds.
\<close>

named_theorems go_map_simps \<open>lookup and key facts of Go maps\<close>
named_theorems go_str_simps \<open>facts of the Go string functions\<close>

section \<open>Go maps\<close>

type_synonym ('k, 'v) gomap = "('k \<times> 'v) list"

definition gm_get :: "('k, 'v) gomap \<Rightarrow> 'k \<Rightarrow> 'v option" where
  "gm_get m k = map_of m k"

definition gm_put :: "'k \<Rightarrow> 'v \<Rightarrow> ('k, 'v) gomap \<Rightarrow> ('k, 'v) gomap" where
  "gm_put k v m = AList.update k v m"

definition gm_del :: "'k \<Rightarrow> ('k, 'v) gomap \<Rightarrow> ('k, 'v) gomap" where
  "gm_del k m = AList.delete k m"

definition gm_keys :: "('k, 'v) gomap \<Rightarrow> 'k list" where
  "gm_keys m = map fst m"

definition gm_wf :: "('k, 'v) gomap \<Rightarrow> bool" where
  "gm_wf m \<longleftrightarrow> distinct (map fst m)"

text \<open>The interface every component uses: what a lookup returns after each operation.\<close>

locale go_map =
  fixes mnil :: "'m"
    and get :: "'m \<Rightarrow> 'k \<Rightarrow> 'v option"
    and put :: "'k \<Rightarrow> 'v \<Rightarrow> 'm \<Rightarrow> 'm"
    and del :: "'k \<Rightarrow> 'm \<Rightarrow> 'm"
    and keys :: "'m \<Rightarrow> 'k list"
    and wf :: "'m \<Rightarrow> bool"
  assumes get_nil: "get mnil k = None"
    and get_put: "get (put k v m) k' = (if k' = k then Some v else get m k')"
    and get_del: "wf m \<Longrightarrow> get (del k m) k' = (if k' = k then None else get m k')"
    and keys_get: "(k \<in> set (keys m)) = (get m k \<noteq> None)"
    and wf_nil: "wf mnil"
    and wf_put: "wf m \<Longrightarrow> wf (put k v m)"
    and wf_del: "wf m \<Longrightarrow> wf (del k m)"
begin

text \<open>\<open>maps.Copy(dst, src)\<close> stores every entry of \<open>src\<close> into \<open>dst\<close>.\<close>

lemma wf_copy: "wf dst \<Longrightarrow> wf (foldl (\<lambda>m (k, v). put k v m) dst src)"
  by (induction src arbitrary: dst) (auto intro: wf_put)

lemma get_copy:
  "distinct (map fst src) \<Longrightarrow>
   get (foldl (\<lambda>m (k, v). put k v m) dst src) k
     = (case map_of src k of None \<Rightarrow> get dst k | Some v \<Rightarrow> Some v)"
proof (induction src arbitrary: dst)
  case Nil
  then show ?case by simp
next
  case (Cons p src)
  then show ?case
    by (cases p) (auto simp: get_put split: option.splits dest: map_of_SomeD intro: rev_image_eqI)
qed

lemma keys_put: "set (keys (put k v m)) = insert k (set (keys m))"
  by (auto simp: keys_get get_put split: if_splits)

end

interpretation gm: go_map "[]" gm_get gm_put gm_del gm_keys gm_wf
proof unfold_locales
  fix m :: "('k, 'v) gomap" and k k' :: 'k and v :: 'v
  show "gm_get [] k = (None :: 'v option)" by (simp add: gm_get_def)
  show "gm_get (gm_put k v m) k' = (if k' = k then Some v else gm_get m k')"
    by (simp add: gm_get_def gm_put_def update_conv)
  show "gm_get (gm_del k m) k' = (if k' = k then None else gm_get m k')"
    by (simp add: gm_get_def gm_del_def delete_conv)
  show "(k \<in> set (gm_keys m)) = (gm_get m k \<noteq> None)"
    by (simp add: gm_keys_def gm_get_def map_of_eq_None_iff)
  show "gm_wf []" by (simp add: gm_wf_def)
  show "gm_wf m \<Longrightarrow> gm_wf (gm_put k v m)" by (simp add: gm_wf_def gm_put_def distinct_update)
  show "gm_wf m \<Longrightarrow> gm_wf (gm_del k m)" by (simp add: gm_wf_def gm_del_def distinct_delete)
qed

declare gm.get_nil [simp, go_map_simps] gm.get_put [simp, go_map_simps] gm.get_del [go_map_simps]
  gm.wf_nil [simp, go_map_simps] gm.wf_put [simp, intro] gm.wf_del [simp, intro] gm.keys_put [simp]

definition gm_copy :: "('k, 'v) gomap \<Rightarrow> ('k, 'v) gomap \<Rightarrow> ('k, 'v) gomap" where
  "gm_copy dst src = foldl (\<lambda>m (k, v). gm_put k v m) dst src"

lemma gm_wf_copy [simp, intro]: "gm_wf dst \<Longrightarrow> gm_wf (gm_copy dst src)"
  by (simp add: gm_copy_def gm.wf_copy)

lemma gm_get_copy [go_map_simps]:
  "gm_wf src \<Longrightarrow> gm_get (gm_copy dst src) k = (case gm_get src k of None \<Rightarrow> gm_get dst k | Some v \<Rightarrow> Some v)"
  using gm.get_copy [of src dst k] by (simp add: gm_copy_def gm_wf_def gm_get_def)

lemma gm_get_Some_in: "gm_get m k = Some v \<Longrightarrow> (k, v) \<in> set m"
  by (simp add: gm_get_def map_of_SomeD)

lemma gm_get_in [intro]: "gm_wf m \<Longrightarrow> (k, v) \<in> set m \<Longrightarrow> gm_get m k = Some v"
  by (simp add: gm_get_def gm_wf_def)

lemma gm_put_entries: "(k', v') \<in> set (gm_put k v m) \<Longrightarrow> (k', v') = (k, v) \<or> (k', v') \<in> set m"
  unfolding gm_put_def by (induction m) (auto split: if_splits)

lemma gm_del_entries: "e \<in> set (gm_del k m) \<Longrightarrow> e \<in> set m"
  by (auto simp: gm_del_def AList.delete_eq)

lemma gm_keys_iff: "k \<in> set (gm_keys m) \<longleftrightarrow> (\<exists>v. gm_get m k = Some v)"
  by (simp add: gm.keys_get)

lemma gm_keys_Cons [simp]: "gm_keys ((k, v) # m) = k # gm_keys m" and gm_keys_Nil [simp]: "gm_keys [] = []"
  by (simp_all add: gm_keys_def)

lemma gm_get_Cons [simp]: "gm_get ((k, v) # m) k' = (if k' = k then Some v else gm_get m k')"
  by (simp add: gm_get_def)

text \<open>Reading a missing key yields the zero value of the element type.\<close>

definition gm_at :: "'v \<Rightarrow> ('k, 'v) gomap \<Rightarrow> 'k \<Rightarrow> 'v" where
  "gm_at zero m k = (case gm_get m k of None \<Rightarrow> zero | Some v \<Rightarrow> v)"

lemma gm_at_put [simp]: "gm_at z (gm_put k v m) k' = (if k' = k then v else gm_at z m k')"
  by (simp add: gm_at_def)

lemma gm_at_nil [simp]: "gm_at z [] k = z"
  by (simp add: gm_at_def)

lemma length_gm_keys: "gm_wf m \<Longrightarrow> length (gm_keys m) = card (set (gm_keys m))"
  using distinct_card [of "map fst m"] by (simp add: gm_wf_def gm_keys_def)

text \<open>
  The step of a search that marks keys as visited: either a key of the table is marked for
  the first time, or the marked name has no entry and its list of successors is empty.
\<close>

lemma gm_at_not_key: "k \<notin> set (gm_keys m) \<Longrightarrow> gm_at z m k = z"
  by (simp add: gm_at_def gm.keys_get)

lemma unseen_step:
  assumes "m \<notin> S"
  shows "card (set (gm_keys dr) - insert m S) < card (set (gm_keys dr) - S) \<or>
    card (set (gm_keys dr) - insert m S) = card (set (gm_keys dr) - S) \<and> gm_at z dr m = z"
proof (cases "m \<in> set (gm_keys dr)")
  case True
  then have "set (gm_keys dr) - insert m S \<subset> set (gm_keys dr) - S" using assms by blast
  then show ?thesis by (simp add: psubset_card_mono)
next
  case False
  then have "set (gm_keys dr) - insert m S = set (gm_keys dr) - S" by blast
  then show ?thesis using False by (simp add: gm_at_not_key)
qed

lemma unseen_key_step:
  assumes "gm_get m k = Some v" and "k \<notin> S"
  shows "card (set (gm_keys m) - insert k S) < card (set (gm_keys m) - S)"
proof -
  have "k \<in> set (gm_keys m)" using assms(1) by (simp add: gm_keys_iff)
  then have "set (gm_keys m) - insert k S \<subset> set (gm_keys m) - S" using assms(2) by blast
  then show ?thesis by (simp add: psubset_card_mono)
qed

section \<open>Nil, override and lists\<close>

text \<open>A non-nil override replaces the base, a nil one inherits it.\<close>

definition override :: "'a option \<Rightarrow> 'a option \<Rightarrow> 'a option" where
  "override base over = (case over of None \<Rightarrow> base | Some v \<Rightarrow> Some v)"

lemma override_None [simp]: "override b None = b" and override_None_left [simp]: "override None b = b"
  and override_Some [simp]: "override b (Some v) = Some v"
  by (simp_all add: override_def split: option.splits)

lemma override_assoc: "override (override a b) c = override a (override b c)"
  by (simp add: override_def split: option.splits)

lemma override_Some_iff: "override b x = Some v \<longleftrightarrow> x = Some v \<or> (x = None \<and> b = Some v)"
  by (auto simp: override_def split: option.splits)

lemma override_eq_None [simp]: "override b x = None \<longleftrightarrow> b = None \<and> x = None"
  by (cases x) auto

lemma override_map_option: "override (map_option f b) (map_option f x) = map_option f (override b x)"
  by (cases x) auto

text \<open>The last value set by a sequence of layers.\<close>

fun last_set :: "'a option list \<Rightarrow> 'a option" where
  "last_set [] = None"
| "last_set (x # xs) = override x (last_set xs)"

lemma last_set_append [simp]: "last_set (xs @ ys) = override (last_set xs) (last_set ys)"
  by (induction xs) (simp_all add: override_assoc)

lemma foldl_override: "foldl override a xs = override a (last_set xs)"
  by (induction xs arbitrary: a) (simp_all add: override_assoc)

lemma last_set_None_iff: "last_set xs = None \<longleftrightarrow> (\<forall>x\<in>set xs. x = None)"
  by (induction xs) auto

text \<open>
  Configuration layers: a merge whose result, observed at any key, is the override of the
  observations. Merging a sequence of layers then yields the last value set.
\<close>

locale override_layers =
  fixes view :: "'k \<Rightarrow> 'l \<Rightarrow> 'v option"
    and unset :: "'l"
    and merge :: "'l \<Rightarrow> 'l \<Rightarrow> 'l"
    and wf :: "'l \<Rightarrow> bool"
  assumes view_unset: "view k unset = None"
    and view_merge: "wf a \<Longrightarrow> wf b \<Longrightarrow> view k (merge a b) = override (view k a) (view k b)"
    and wf_unset: "wf unset"
    and wf_merge: "wf a \<Longrightarrow> wf b \<Longrightarrow> wf (merge a b)"
begin

lemma wf_foldl: "wf a \<Longrightarrow> \<forall>l\<in>set ls. wf l \<Longrightarrow> wf (foldl merge a ls)"
  by (induction ls arbitrary: a) (auto intro: wf_merge)

lemma view_foldl:
  "wf a \<Longrightarrow> \<forall>l\<in>set ls. wf l \<Longrightarrow> view k (foldl merge a ls) = override (view k a) (last_set (map (view k) ls))"
  by (induction ls arbitrary: a) (simp_all add: wf_merge view_merge override_assoc)

lemma view_layers:
  "\<forall>l\<in>set ls. wf l \<Longrightarrow> view k (foldl merge unset ls) = last_set (map (view k) ls)"
  using view_foldl [OF wf_unset, of ls k] by (simp add: view_unset)

end

lemma in_map_filter: "y \<in> set (List.map_filter f xs) \<longleftrightarrow> (\<exists>x\<in>set xs. f x = Some y)"
  by (force simp: List.map_filter_def)

lemma map_filter_Nil_iff: "List.map_filter f xs = [] \<longleftrightarrow> (\<forall>x\<in>set xs. f x = None)"
  by (simp add: List.map_filter_def filter_empty_conv)

lemma length_filter_eq_iff: "length (filter P xs) = length xs \<longleftrightarrow> (\<forall>x\<in>set xs. P x)"
proof
  assume eq: "length (filter P xs) = length xs"
  show "\<forall>x\<in>set xs. P x"
  proof
    fix x assume "x \<in> set xs"
    then show "P x" using length_filter_less [of x xs P] eq by linarith
  qed
qed simp

lemma find_None_filter: "List.find P xs = None \<longleftrightarrow> filter P xs = []"
  by (induction xs) auto

lemma find_SomeE:
  assumes "List.find P xs = Some x"
  obtains before after where "xs = before @ x # after" and "list_all (\<lambda>y. \<not> P y) before" and "P x"
  using assms
proof (induction xs arbitrary: thesis)
  case (Cons y xs)
  show ?case
  proof (cases "P y")
    case True
    then show ?thesis using Cons.prems(1) [of "[]" xs] Cons.prems(2) by auto
  next
    case False
    then have "List.find P xs = Some x" using Cons.prems(2) by simp
    then obtain bef aft where "xs = bef @ x # aft" "list_all (\<lambda>y. \<not> P y) bef" "P x" using Cons.IH by blast
    then show ?thesis using Cons.prems(1) [of "y # bef" aft] False by auto
  qed
qed simp

section \<open>Strings\<close>

definition is_space :: "char \<Rightarrow> bool" where
  "is_space c \<longleftrightarrow> (of_char c :: nat) = 32 \<or> (9 \<le> (of_char c :: nat) \<and> (of_char c :: nat) \<le> 13)"

definition trim_with :: "(char \<Rightarrow> bool) \<Rightarrow> string \<Rightarrow> string" where
  "trim_with p s = rev (dropWhile p (rev (dropWhile p s)))"

definition trim_space :: "string \<Rightarrow> string" where
  "trim_space s = trim_with is_space s"

definition lower_char :: "char \<Rightarrow> char" where
  "lower_char c = (let n = (of_char c :: nat) in if 65 \<le> n \<and> n \<le> 90 then char_of (n + 32) else c)"

definition to_lower :: "string \<Rightarrow> string" where
  "to_lower s = map lower_char s"

definition equal_fold :: "string \<Rightarrow> string \<Rightarrow> bool" where
  "equal_fold s t \<longleftrightarrow> to_lower s = to_lower t"

definition contains :: "string \<Rightarrow> string \<Rightarrow> bool" where
  "contains s sub \<longleftrightarrow> sublist sub s"

definition replace_char :: "char \<Rightarrow> string \<Rightarrow> string \<Rightarrow> string" where
  "replace_char c new s = concat (map (\<lambda>x. if x = c then new else [x]) s)"

definition trim_suffix :: "string \<Rightarrow> string \<Rightarrow> string" where
  "trim_suffix s suf = (if suffix suf s then take (length s - length suf) s else s)"

fun split_on :: "char \<Rightarrow> string \<Rightarrow> string list" where
  "split_on c [] = [[]]"
| "split_on c (x # xs) =
     (if x = c then [] # split_on c xs
      else (case split_on c xs of [] \<Rightarrow> [[x]] | seg # segs \<Rightarrow> (x # seg) # segs))"

fun join :: "string \<Rightarrow> string list \<Rightarrow> string" where
  "join sep [] = []"
| "join sep [s] = s"
| "join sep (s # t # ss) = s @ sep @ join sep (t # ss)"

fun show_nat :: "nat \<Rightarrow> string" where
  "show_nat n = (if n < 10 then [char_of (48 + n)] else show_nat (n div 10) @ [char_of (48 + n mod 10)])"

declare show_nat.simps [simp del]

definition show_int :: "int \<Rightarrow> string" where
  "show_int i = (if i < 0 then ''-'' @ show_nat (nat (- i)) else show_nat (nat i))"

lemma split_on_not_Nil [simp]: "split_on c s \<noteq> []"
  by (induction s) (auto split: list.splits)

lemma split_on_no_sep [go_str_simps]: "c \<notin> set s \<Longrightarrow> split_on c s = [s]"
  by (induction s) auto

lemma split_on_segment: "seg \<in> set (split_on c s) \<Longrightarrow> c \<notin> set seg"
  by (induction s arbitrary: seg) (auto split: list.splits if_splits)

lemma split_on_append: "split_on c (s @ c # t) = split_on c s @ split_on c t"
  by (induction s) (auto split: list.splits)

lemma join_split_on: "join [c] (split_on c s) = s"
proof (induction s)
  case Nil
  then show ?case by simp
next
  case (Cons x s)
  then show ?case
    by (cases "split_on c s") (auto, (metis append_Cons append_Nil join.simps(2,3) list.exhaust)+)
qed

lemma split_on_join: "ls \<noteq> [] \<Longrightarrow> \<forall>x\<in>set ls. c \<notin> set x \<Longrightarrow> split_on c (join [c] ls) = ls"
  by (induction "[c]" ls rule: join.induct) (auto simp: split_on_append split_on_no_sep)

lemma join_append: "xs \<noteq> [] \<Longrightarrow> ys \<noteq> [] \<Longrightarrow> join sep (xs @ ys) = join sep xs @ sep @ join sep ys"
  by (induction sep xs rule: join.induct) (auto simp: neq_Nil_conv)

lemma join_snoc: "ss \<noteq> [] \<Longrightarrow> join sep (ss @ [s]) = join sep ss @ sep @ s"
  by (induction sep ss rule: join.induct) auto

lemma lower_char_idem [simp]: "lower_char (lower_char c) = lower_char c"
  by (simp add: lower_char_def Let_def)

lemma to_lower_idem [simp]: "to_lower (to_lower s) = to_lower s"
  by (simp add: to_lower_def)

lemma equal_fold_refl [simp]: "equal_fold s s" and equal_fold_sym: "equal_fold s t = equal_fold t s"
  by (auto simp: equal_fold_def)

lemma equal_fold_trans: "equal_fold s t \<Longrightarrow> equal_fold t u \<Longrightarrow> equal_fold s u"
  by (simp add: equal_fold_def)

lemma is_space_lower [simp]: "is_space (lower_char c) = is_space c"
  by (auto simp: is_space_def lower_char_def Let_def)

lemma trim_space_lower: "trim_space (to_lower s) = to_lower (trim_space s)"
  by (simp add: trim_space_def trim_with_def to_lower_def dropWhile_map rev_map o_def)

lemma trim_with_idem [simp]: "trim_with p (trim_with p s) = trim_with p s"
proof -
  define t where "t = dropWhile p s"
  have "dropWhile p (rev (dropWhile p (rev t))) = rev (dropWhile p (rev t))"
  proof (cases "dropWhile p (rev t) = []")
    case True
    show ?thesis unfolding True by simp
  next
    case False
    obtain ys where t: "t = rev (dropWhile p (rev t)) @ ys"
      by (metis rev_append rev_rev_ident takeWhile_dropWhile_id)
    have "t \<noteq> []" using False by auto
    then have "\<not> p (hd t)" unfolding t_def by (metis hd_dropWhile)
    then have "\<not> p (hd (rev (dropWhile p (rev t))))" using False t by (metis hd_append2 rev_is_Nil_conv)
    then show ?thesis by (metis False dropWhile_eq_self_iff rev_is_Nil_conv)
  qed
  then show ?thesis by (simp add: trim_with_def t_def)
qed

lemma trim_space_idem [simp]: "trim_space (trim_space s) = trim_space s"
  by (simp add: trim_space_def)

text \<open>
  \<open>os.Expand\<close>: \<open>$name\<close> and \<open>${name}\<close> are replaced by the value of the variable; a brace without
  its end is dropped, a dollar sign before anything else is kept.
\<close>

definition is_special_var :: "char \<Rightarrow> bool" where
  "is_special_var c \<longleftrightarrow> c \<in> set ''*#$@!?-0123456789''"

definition is_alnum :: "char \<Rightarrow> bool" where
  "is_alnum c \<longleftrightarrow> (let n = (of_char c :: nat) in
     n = 95 \<or> (48 \<le> n \<and> n \<le> 57) \<or> (97 \<le> n \<and> n \<le> 122) \<or> (65 \<le> n \<and> n \<le> 90))"

definition shell_name :: "string \<Rightarrow> string \<times> nat" where
  "shell_name s =
     (case s of
        [] \<Rightarrow> ([], 0)
      | c # rest \<Rightarrow>
          if c = CHR ''{'' then
            (if 2 < length s \<and> is_special_var (rest ! 0) \<and> rest ! 1 = CHR ''}'' then ([rest ! 0], 3)
             else let name = takeWhile (\<lambda>x. x \<noteq> CHR ''}'') rest in
               if length name = length rest then ([], 1) else (name, length name + 2))
          else if is_special_var c then ([c], 1)
          else let name = takeWhile is_alnum s in (name, length name))"

function os_expand :: "(string \<Rightarrow> string) \<Rightarrow> string \<Rightarrow> string" where
  "os_expand mapping [] = []"
| "os_expand mapping (c # s) =
     (if c = CHR ''$'' \<and> s \<noteq> [] then
        (case shell_name s of (name, w) \<Rightarrow>
           (if name \<noteq> [] then mapping name else if 0 < w then [] else ''$'') @ os_expand mapping (drop w s))
      else c # os_expand mapping s)"
  by pat_completeness auto
termination by (relation "measure (\<lambda>(m, s). length s)") auto

lemma os_expand_no_dollar: "CHR ''$'' \<notin> set s \<Longrightarrow> os_expand mapping s = s"
  by (induction s) auto

text \<open>\<open>path.Base\<close>: the last element of a slash-separated path.\<close>

definition path_base :: "string \<Rightarrow> string" where
  "path_base p =
     (if p = [] then ''.''
      else let q = rev (dropWhile (\<lambda>c. c = CHR ''/'') (rev p));
               b = rev (takeWhile (\<lambda>c. c \<noteq> CHR ''/'') (rev q))
           in if b = [] then ''/'' else b)"

text \<open>
  \<open>path.Clean\<close> and \<open>filepath.Join\<close>: empty and dot elements vanish, a double dot takes back the
  element before it, unless the path is relative and has none.
\<close>

fun clean_elements :: "bool \<Rightarrow> string list \<Rightarrow> string list \<Rightarrow> string list" where
  "clean_elements rooted out [] = rev out"
| "clean_elements rooted out (e # es) =
     (if e = [] \<or> e = ''.'' then clean_elements rooted out es
      else if e = ''..'' then
        (case out of
           [] \<Rightarrow> clean_elements rooted (if rooted then [] else [e]) es
         | prev # rest \<Rightarrow>
             if prev = ''..'' then clean_elements rooted (e # out) es else clean_elements rooted rest es)
      else clean_elements rooted (e # out) es)"

definition path_clean :: "string \<Rightarrow> string" where
  "path_clean p =
     (let rooted = (p \<noteq> [] \<and> hd p = CHR ''/'');
          body = join ''/'' (clean_elements rooted [] (split_on (CHR ''/'') p))
      in if rooted then CHR ''/'' # body else if body = [] then ''.'' else body)"

definition path_join :: "string list \<Rightarrow> string" where
  "path_join elems =
     (let es = filter (\<lambda>e. e \<noteq> []) elems in if es = [] then [] else path_clean (join ''/'' es))"

lemma clean_elements_plain:
  "list_all (\<lambda>s. s \<noteq> [] \<and> s \<noteq> ''.'' \<and> s \<noteq> ''..'') ss \<Longrightarrow> clean_elements rooted out ss = rev out @ ss"
  by (induction ss arbitrary: out) auto

text \<open>Elements of a path that cleaning keeps.\<close>

definition plain_element :: "string \<Rightarrow> bool" where
  "plain_element e \<longleftrightarrow> e \<noteq> [] \<and> e \<noteq> ''.'' \<and> e \<noteq> ''..'' \<and> CHR ''/'' \<notin> set e"

definition rooted_path :: "string list \<Rightarrow> string" where
  "rooted_path es = CHR ''/'' # join ''/'' es"

lemma path_clean_rooted: "list_all plain_element es \<Longrightarrow> path_clean (rooted_path es) = rooted_path es"
proof (cases "es = []")
  case False
  assume p: "list_all plain_element es"
  have s: "split_on (CHR ''/'') (join ''/'' es) = es"
    by (rule split_on_join) (use False p in \<open>auto simp: plain_element_def list_all_iff\<close>)
  have "list_all (\<lambda>s. s \<noteq> [] \<and> s \<noteq> ''.'' \<and> s \<noteq> ''..'') es" using p by (auto simp: plain_element_def list_all_iff)
  then show ?thesis by (simp add: path_clean_def rooted_path_def Let_def s clean_elements_plain)
qed (simp add: path_clean_def rooted_path_def)

lemma path_join_rooted:
  assumes "list_all plain_element (es @ fs)" and "es \<noteq> []"
  shows "path_join (rooted_path es # fs) = rooted_path (es @ fs)"
proof -
  have f: "filter (\<lambda>e. e \<noteq> []) fs = fs" using assms(1) by (auto simp: filter_id_conv plain_element_def list_all_iff)
  have "join ''/'' (rooted_path es # fs) = rooted_path (es @ fs)"
    using assms(2) by (cases "fs = []") (auto simp: rooted_path_def join_append neq_Nil_conv [of fs])
  then show ?thesis using path_clean_rooted [OF assms(1)] f by (simp add: path_join_def rooted_path_def)
qed

section \<open>Ranked names\<close>

text \<open>
  Several components rank names by a table and ask whether one outranks another; a name
  outside the table outranks nothing and is outranked by nothing.
\<close>

locale ranked_names =
  fixes level :: "string \<Rightarrow> int option"
    and outranks :: "string \<Rightarrow> string \<Rightarrow> bool"
  assumes outranks_iff: "outranks a b \<longleftrightarrow> (\<exists>x y. level a = Some x \<and> level b = Some y \<and> y < x)"
begin

lemma outranks_irrefl: "\<not> outranks a a"
  by (auto simp: outranks_iff)

lemma outranks_asym: "outranks a b \<Longrightarrow> \<not> outranks b a"
  by (auto simp: outranks_iff)

lemma outranks_trans: "outranks a b \<Longrightarrow> outranks b c \<Longrightarrow> outranks a c"
  by (auto simp: outranks_iff)

lemma unranked: "level a = None \<Longrightarrow> \<not> outranks a b \<and> \<not> outranks b a"
  by (auto simp: outranks_iff)

end

section \<open>64-bit integers\<close>

text \<open>The value a Go \<open>int64\<close> (an \<open>int\<close> on the supported platforms) holds after an operation.\<close>

definition wrap64 :: "int \<Rightarrow> int" where
  "wrap64 x = (x + 2 ^ 63) mod 2 ^ 64 - 2 ^ 63"

lemma wrap64_id: "- (2 ^ 63) \<le> x \<Longrightarrow> x < 2 ^ 63 \<Longrightarrow> wrap64 x = x"
  by (simp add: wrap64_def)

lemma wrap64_range: "- (2 ^ 63) \<le> wrap64 x" "wrap64 x < 2 ^ 63"
  by (simp_all add: wrap64_def)

text \<open>\<open>Time.Sub\<close> and \<open>time.Since\<close> saturate.\<close>

definition time_sub :: "int \<Rightarrow> int \<Rightarrow> int" where
  "time_sub a b = max (- (2 ^ 63)) (min (2 ^ 63 - 1) (a - b))"

definition nanosecond_second :: int where
  "nanosecond_second = 1000000000"

section \<open>Numbers\<close>

definition is_digit :: "char \<Rightarrow> bool" where
  "is_digit c \<longleftrightarrow> (48 \<le> (of_char c :: nat) \<and> (of_char c :: nat) \<le> 57)"

definition digit_value :: "char \<Rightarrow> int" where
  "digit_value c = of_char c - 48"

definition number_of :: "string \<Rightarrow> int" where
  "number_of s = foldl (\<lambda>n c. 10 * n + digit_value c) 0 s"

text \<open>
  \<open>strconv.Atoi\<close> and \<open>strconv.ParseInt(s, 10, 64)\<close>: an optional sign and at least one digit,
  with a value that fits 64 bits.
\<close>

definition atoi :: "string \<Rightarrow> int option" where
  "atoi s =
     (let digits = (case s of [] \<Rightarrow> [] | c # cs \<Rightarrow> if c = CHR ''-'' \<or> c = CHR ''+'' then cs else s);
          v = (case s of CHR ''-'' # _ \<Rightarrow> - number_of digits | _ \<Rightarrow> number_of digits)
      in if digits \<noteq> [] \<and> list_all is_digit digits \<and> - (2 ^ 63) \<le> v \<and> v < 2 ^ 63 then Some v else None)"

lemma atoi_range: "atoi s = Some v \<Longrightarrow> - (2 ^ 63) \<le> v \<and> v < 2 ^ 63"
  by (auto simp: atoi_def Let_def split: if_splits)

lemma is_digit_char_of [simp]: "k < (10 :: nat) \<Longrightarrow> is_digit (char_of (48 + k))"
  by (simp add: is_digit_def of_char_of)

lemma digit_value_char_of [simp]: "k < 10 \<Longrightarrow> digit_value (char_of (48 + k :: nat)) = int k"
proof -
  assume k: "k < 10"
  have "(of_char (char_of (48 + k :: nat) :: char) :: int) = int (of_char (char_of (48 + k :: nat)))" by (rule of_nat_of_char [symmetric])
  then show ?thesis using k by (simp add: digit_value_def of_char_of)
qed

lemma number_of_show_nat: "number_of (show_nat n) = int n \<and> list_all is_digit (show_nat n) \<and> show_nat n \<noteq> []"
proof (induction n rule: show_nat.induct)
  case (1 n)
  show ?case
  proof (cases "n < 10")
    case True
    then show ?thesis by (simp add: show_nat.simps [of n] number_of_def)
  next
    case False
    have d: "10 * int (n div 10) + int (n mod 10) = int n" by (simp add: zdiv_int zmod_int)
    show ?thesis using False 1 d by (simp add: show_nat.simps [of n] number_of_def)
  qed
qed

lemma show_nat_first: "show_nat n = c # cs \<Longrightarrow> is_digit c"
  using number_of_show_nat [of n] by simp

lemma atoi_show_int: "- (2 ^ 63) \<le> i \<Longrightarrow> i < 2 ^ 63 \<Longrightarrow> atoi (show_int i) = Some i"
proof -
  assume r: "- (2 ^ 63) \<le> i" "i < 2 ^ 63"
  obtain c cs where n: "show_nat (nat i) = c # cs" using number_of_show_nat [of "nat i"] by (cases "show_nat (nat i)") auto
  have c: "c \<noteq> CHR ''-''" "c \<noteq> CHR ''+''" using show_nat_first [OF n] by (auto simp: is_digit_def)
  show ?thesis
  proof (cases "i < 0")
    case True
    then show ?thesis using r number_of_show_nat [of "nat (- i)"] by (simp add: atoi_def show_int_def)
  next
    case False
    have "(case c # cs of CHR ''-'' # _ \<Rightarrow> - number_of (c # cs) | _ \<Rightarrow> number_of (c # cs)) = number_of (c # cs)"
      using c(1) by (cases "c = CHR ''-''") (auto split: char.splits bool.splits)
    then show ?thesis using r False c number_of_show_nat [of "nat i"] by (simp add: atoi_def show_int_def n)
  qed
qed

lemma map_sum_InrE:
  assumes "map_sum g f x = Inr y"
  obtains r where "x = Inr r" and "f r = y"
  using assms by (cases x) auto

end
