(* ===== verification/DependencyResolver.thy ===== *)
theory DependencyResolver
  imports GoPrelude
begin

text \<open>
  The dependency resolver of the package-manager bootstrap
  (\<open>internal/pm/bootstrap/dependencies.go\<close>): the dependency table, the construction of the
  graph of the requested managers by depth-first search, Kahn's topological sort over it,
  the transitive closure of one manager and the cycle check. The lemmas show that the
  search terminates and records exactly the edges between reachable managers, that the sort
  returns each requested manager once and after its dependencies, and that it fails exactly
  when the reachable dependencies contain a cycle.
\<close>

section \<open>The dependency table\<close>

type_synonym dep_table = "(string, string list) gomap"

datatype dep_error = CircularDependency | CircularInvolving string

definition new_dependency_resolver :: dep_table where
  "new_dependency_resolver = []"

definition add_dependency :: "string \<Rightarrow> string list \<Rightarrow> dep_table \<Rightarrow> dep_table" where
  "add_dependency manager deps dr = gm_put manager deps dr"

definition get_dependencies :: "dep_table \<Rightarrow> string \<Rightarrow> string list" where
  "get_dependencies dr manager = (case gm_get dr manager of None \<Rightarrow> [] | Some deps \<Rightarrow> deps)"

definition has_dependency :: "dep_table \<Rightarrow> string \<Rightarrow> string \<Rightarrow> bool" where
  "has_dependency dr manager dependency \<longleftrightarrow> dependency \<in> set (gm_at [] dr manager)"

section \<open>Building the graph\<close>

text \<open>
  The three maps the search mutates: the successor lists, the in-degrees and the visited
  flags. The recursion over the dependencies of dependencies runs on an explicit stack of
  pending calls, in the order in which the Go recursion makes them: \<open>Visit m\<close> is one
  iteration of the loop over the managers, \<open>Edge d m\<close> one iteration of the loop over
  the dependencies of \<open>m\<close>.
\<close>

record kgraph =
  kg_edges :: "(string, string list) gomap"
  kg_indeg :: "(string, int) gomap"
  kg_seen :: "string list"

datatype frame = Visit string | Edge string string

definition init_node :: "string \<Rightarrow> kgraph \<Rightarrow> kgraph" where
  "init_node n g =
     (if gm_get (kg_edges g) n = None
      then g\<lparr>kg_edges := gm_put n [] (kg_edges g), kg_indeg := gm_put n 0 (kg_indeg g)\<rparr>
      else g)"

definition add_edge :: "string \<Rightarrow> string \<Rightarrow> kgraph \<Rightarrow> kgraph" where
  "add_edge d m g0 =
     (let g = init_node d g0 in
      g\<lparr>kg_edges := gm_put d (gm_at [] (kg_edges g) d @ [m]) (kg_edges g),
        kg_indeg := gm_put m (gm_at 0 (kg_indeg g) m + 1) (kg_indeg g)\<rparr>)"

fun frame_weight :: "frame \<Rightarrow> nat" where
  "frame_weight (Visit _) = 1"
| "frame_weight (Edge _ _) = 2"

lemma init_node_seen [simp]: "kg_seen (init_node n g) = kg_seen g"
  by (simp add: init_node_def)

lemma add_edge_seen [simp]: "kg_seen (add_edge d m g) = kg_seen g"
  by (simp add: add_edge_def Let_def)

function add_dependencies_to_graph :: "dep_table \<Rightarrow> frame list \<Rightarrow> kgraph \<Rightarrow> kgraph" where
  "add_dependencies_to_graph dr [] g = g"
| "add_dependencies_to_graph dr (Visit m # fs) g =
     (if m \<in> set (kg_seen g) then add_dependencies_to_graph dr fs g
      else add_dependencies_to_graph dr (map (\<lambda>d. Edge d m) (gm_at [] dr m) @ fs)
             (g\<lparr>kg_seen := m # kg_seen g\<rparr>))"
| "add_dependencies_to_graph dr (Edge d m # fs) g =
     add_dependencies_to_graph dr (Visit d # fs) (add_edge d m g)"
  by pat_completeness auto

termination
proof (relation "measures [\<lambda>(dr, fs, g). card (set (gm_keys dr) - set (kg_seen g)),
                           \<lambda>(dr, fs, g). sum_list (map frame_weight fs)]", goal_cases)
  case (3 dr m fs g)
  then show ?case
    using unseen_step [of m "set (kg_seen g)" dr "[]"] by (auto simp del: card_Diff_insert)
qed auto

section \<open>Kahn's algorithm\<close>

fun relax :: "string list \<Rightarrow> (string, int) gomap \<times> string list \<Rightarrow> (string, int) gomap \<times> string list" where
  "relax [] st = st"
| "relax (n # ns) (deg, queue) =
     (let deg' = gm_put n (gm_at 0 deg n - 1) deg in
      relax ns (deg', if gm_at 0 deg' n = 0 then sort (queue @ [n]) else queue))"

definition pos_keys :: "(string, int) gomap \<Rightarrow> string set" where
  "pos_keys deg = {n. 0 < gm_at 0 deg n}"

lemma finite_pos_keys [simp]: "finite (pos_keys deg)"
  by (rule finite_subset [of _ "set (gm_keys deg)"])
    (auto simp: pos_keys_def gm_at_def gm_keys_iff split: option.splits)

lemma relax_measure:
  "relax ns (deg, queue) = (deg', queue') \<Longrightarrow>
   card (pos_keys deg') + length queue' = card (pos_keys deg) + length queue"
proof (induction ns arbitrary: deg queue)
  case Nil
  then show ?case by simp
next
  case (Cons n ns)
  let ?d = "gm_put n (gm_at 0 deg n - 1) deg"
  consider "gm_at 0 deg n = 1" | "gm_at 0 deg n \<noteq> 1" by blast
  then show ?case
  proof cases
    case 1
    have "pos_keys deg = insert n (pos_keys ?d)" "n \<notin> pos_keys ?d"
      using 1 by (auto simp: pos_keys_def)
    then show ?thesis using Cons 1 by (auto simp: Let_def)
  next
    case 2
    then have "pos_keys ?d = pos_keys deg" by (auto simp: pos_keys_def)
    then show ?thesis using Cons 2 by (auto simp: Let_def)
  qed
qed

function kahn :: "(string, string list) gomap \<Rightarrow> (string, int) gomap \<Rightarrow> string list \<Rightarrow> string list \<Rightarrow> string list" where
  "kahn edges deg [] result = result"
| "kahn edges deg (current # queue) result =
     (case relax (gm_at [] edges current) (deg, queue) of
        (deg', queue') \<Rightarrow> kahn edges deg' queue' (result @ [current]))"
  by pat_completeness auto
termination
  by (relation "measure (\<lambda>(edges, deg, queue, result). card (pos_keys deg) + length queue)")
    (auto dest: relax_measure [OF sym])

definition build_graph :: "dep_table \<Rightarrow> string list \<Rightarrow> kgraph" where
  "build_graph dr managers =
     add_dependencies_to_graph dr (map Visit managers)
       (fold init_node managers \<lparr>kg_edges = [], kg_indeg = [], kg_seen = []\<rparr>)"

definition resolve_dependencies :: "dep_table \<Rightarrow> string list \<Rightarrow> dep_error + string list" where
  "resolve_dependencies dr managers =
     (if managers = [] then Inr []
      else let g = build_graph dr managers;
               queue = sort (filter (\<lambda>n. gm_at 0 (kg_indeg g) n = 0) (gm_keys (kg_indeg g)));
               result = kahn (kg_edges g) (kg_indeg g) queue []
           in if length result \<noteq> length (gm_keys (kg_indeg g)) then Inl CircularDependency
              else Inr (filter (\<lambda>m. m \<in> set managers) result))"

definition validate_no_cycles :: "dep_table \<Rightarrow> dep_error option" where
  "validate_no_cycles dr =
     (case resolve_dependencies dr (gm_keys dr) of Inl e \<Rightarrow> Some e | Inr _ \<Rightarrow> None)"

section \<open>The transitive closure of one manager\<close>

text \<open>
  \<open>visited\<close> is reset when a call returns, so it holds the managers of the current path;
  the error value carries the manager it was raised at.
\<close>

function collect_dependencies :: "dep_table \<Rightarrow> string \<Rightarrow> string list \<Rightarrow> dep_error + string list"
  and collect_all :: "dep_table \<Rightarrow> string list \<Rightarrow> string list \<Rightarrow> dep_error + string list" where
  "collect_dependencies dr manager visited =
     (if manager \<in> set visited then Inl (CircularInvolving manager)
      else (case collect_all dr (gm_at [] dr manager) (manager # visited) of
              Inl e \<Rightarrow> Inl e | Inr rs \<Rightarrow> Inr (manager # rs)))"
| "collect_all dr [] visited = Inr []"
| "collect_all dr (dep # deps) visited =
     (case collect_dependencies dr dep visited of
        Inl e \<Rightarrow> Inl e
      | Inr r \<Rightarrow> (case collect_all dr deps visited of Inl e \<Rightarrow> Inl e | Inr rs \<Rightarrow> Inr (r @ rs)))"
  by pat_completeness auto
termination
proof (relation "measures
    [\<lambda>x. case x of Inl (dr, m, vis) \<Rightarrow> card (set (gm_keys dr) - set vis)
               | Inr (dr, ds, vis) \<Rightarrow> card (set (gm_keys dr) - set vis),
     \<lambda>x. case x of Inl (dr, m, vis) \<Rightarrow> 1 | Inr (dr, ds, vis) \<Rightarrow> 2 * length ds]", goal_cases)
  case (2 dr m vis)
  then show ?case
    using unseen_step [of m "set vis" dr "[]"] by (auto simp del: card_Diff_insert)
qed auto

definition get_all_dependencies :: "dep_table \<Rightarrow> string \<Rightarrow> dep_error + string list" where
  "get_all_dependencies dr manager =
     (case collect_dependencies dr manager [] of
        Inl e \<Rightarrow> Inl e | Inr result \<Rightarrow> Inr (filter (\<lambda>d. d \<noteq> manager) result))"

section \<open>The search records the reachable edges\<close>

definition dep_rel :: "dep_table \<Rightarrow> (string \<times> string) set" where
  "dep_rel dr = {(m, d). d \<in> set (gm_at [] dr m)}"

definition reachable_deps :: "dep_table \<Rightarrow> string list \<Rightarrow> string set" where
  "reachable_deps dr managers = (dep_rel dr)\<^sup>* `` set managers"

abbreviation succs :: "kgraph \<Rightarrow> string \<Rightarrow> string list" where
  "succs g u \<equiv> gm_at [] (kg_edges g) u"

abbreviation degree :: "kgraph \<Rightarrow> string \<Rightarrow> int" where
  "degree g n \<equiv> gm_at 0 (kg_indeg g) n"

abbreviation nodes :: "kgraph \<Rightarrow> string set" where
  "nodes g \<equiv> set (gm_keys (kg_edges g))"

text \<open>The two maps have the same keys, and a degree counts the edges into its node.\<close>

definition graph_wf :: "kgraph \<Rightarrow> bool" where
  "graph_wf g \<longleftrightarrow> gm_wf (kg_edges g) \<and> gm_wf (kg_indeg g) \<and> set (gm_keys (kg_indeg g)) = nodes g \<and>
     (\<forall>n. degree g n = (\<Sum>u\<in>nodes g. int (count_list (succs g u) n)))"

lemma graph_wfD:
  assumes "graph_wf g"
  shows "gm_wf (kg_indeg g)" "set (gm_keys (kg_indeg g)) = nodes g"
proof -
  note g = assms [unfolded graph_wf_def]
  show "gm_wf (kg_indeg g)" using g by (elim conjE)
  show "set (gm_keys (kg_indeg g)) = nodes g" using g by (elim conjE)
qed

lemma graph_wf_nodes: "graph_wf g \<Longrightarrow> u \<notin> nodes g \<Longrightarrow> succs g u = [] \<and> degree g u = 0"
  unfolding graph_wf_def by (metis gm_at_not_key)

lemma init_node_values:
  assumes "graph_wf g"
  shows "succs (init_node n g) u = succs g u" "degree (init_node n g) u = degree g u"
    "nodes (init_node n g) = insert n (nodes g)"
  using assms graph_wf_nodes [OF assms, of u] graph_wf_nodes [OF assms, of n]
  by (auto simp: init_node_def gm.keys_get)

lemma graph_wf_init:
  assumes "graph_wf g"
  shows "graph_wf (init_node n g)"
proof -
  have "(\<Sum>u\<in>insert n (nodes g). int (count_list (succs g u) k)) = (\<Sum>u\<in>nodes g. int (count_list (succs g u) k))" for k
    by (rule sum.mono_neutral_right) (use graph_wf_nodes [OF assms, of n] in auto)
  moreover have "set (gm_keys (kg_indeg (init_node n g))) = nodes (init_node n g)"
    using assms by (auto simp: graph_wf_def init_node_def)
  moreover have "gm_wf (kg_edges (init_node n g)) \<and> gm_wf (kg_indeg (init_node n g))"
    using assms by (auto simp: graph_wf_def init_node_def)
  ultimately show ?thesis using assms by (simp add: graph_wf_def init_node_values [OF assms])
qed

lemma add_edge_values:
  assumes "graph_wf g"
  shows "succs (add_edge d m g) u = (if u = d then succs g d @ [m] else succs g u)"
    "degree (add_edge d m g) n = (if n = m then degree g m + 1 else degree g n)"
    "nodes (add_edge d m g) = insert d (nodes g)"
  by (auto simp: add_edge_def Let_def init_node_values [OF assms])

lemma graph_wf_add_edge:
  assumes g: "graph_wf g" and m: "m \<in> nodes g"
  shows "graph_wf (add_edge d m g)"
proof -
  let ?N = "insert d (nodes g)"
  have i: "graph_wf (init_node d g)" by (rule graph_wf_init [OF g])
  have eq: "int (count_list (succs (add_edge d m g) u) n)
      = int (count_list (succs g u) n) + (if u = d then (if n = m then 1 else 0) else 0)" for u n
    by (simp add: add_edge_values [OF g])
  have "(\<Sum>u\<in>?N. int (count_list (succs (add_edge d m g) u) n))
      = (\<Sum>u\<in>?N. int (count_list (succs g u) n)) + (if n = m then 1 else 0)" for n
    unfolding eq sum.distrib by (simp add: sum.delta)
  moreover have "(\<Sum>u\<in>?N. int (count_list (succs g u) n)) = degree g n" for n
    using i by (simp add: graph_wf_def init_node_values [OF g])
  moreover have "set (gm_keys (kg_indeg (add_edge d m g))) = ?N"
    using i m by (auto simp: graph_wf_def add_edge_def Let_def init_node_values [OF g])
  moreover have "gm_wf (kg_edges (add_edge d m g)) \<and> gm_wf (kg_indeg (add_edge d m g))"
    using i by (auto simp: graph_wf_def add_edge_def Let_def)
  ultimately show ?thesis by (simp add: graph_wf_def add_edge_values [OF g])
qed

definition search_inv :: "dep_table \<Rightarrow> string list \<Rightarrow> frame list \<Rightarrow> kgraph \<Rightarrow> bool" where
  "search_inv dr managers fs g \<longleftrightarrow> graph_wf g \<and>
     (\<forall>u n. n \<in> set (succs g u) \<longrightarrow> n \<in> set (kg_seen g) \<and> u \<in> set (gm_at [] dr n)) \<and>
     (\<forall>n u. n \<in> set (kg_seen g) \<longrightarrow> u \<in> set (gm_at [] dr n) \<longrightarrow> n \<in> set (succs g u) \<or> Edge u n \<in> set fs) \<and>
     (\<forall>k. k \<in> nodes g \<longrightarrow> k \<in> set (kg_seen g) \<or> Visit k \<in> set fs) \<and>
     (\<forall>k. Visit k \<in> set fs \<longrightarrow> k \<in> nodes g) \<and>
     (\<forall>d m. Edge d m \<in> set fs \<longrightarrow> m \<in> set (kg_seen g) \<and> d \<in> set (gm_at [] dr m)) \<and>
     set (kg_seen g) \<subseteq> nodes g \<and> set managers \<subseteq> nodes g \<and> nodes g \<subseteq> reachable_deps dr managers"

lemma search_inv_wf: "search_inv dr managers fs g \<Longrightarrow> graph_wf g"
  by (simp add: search_inv_def)

lemma reachable_step:
  "m \<in> reachable_deps dr managers \<Longrightarrow> d \<in> set (gm_at [] dr m) \<Longrightarrow> d \<in> reachable_deps dr managers"
  by (auto simp: reachable_deps_def dep_rel_def intro: rtrancl_into_rtrancl)

lemma search_inv_visit_seen:
  "search_inv dr managers (Visit m # fs) g \<Longrightarrow> m \<in> set (kg_seen g) \<Longrightarrow> search_inv dr managers fs g"
  by (auto simp: search_inv_def)

lemma search_inv_visit_new:
  "search_inv dr managers (Visit m # fs) g \<Longrightarrow>
   search_inv dr managers (map (\<lambda>d. Edge d m) (gm_at [] dr m) @ fs) (g\<lparr>kg_seen := m # kg_seen g\<rparr>)"
  unfolding search_inv_def graph_wf_def by auto

lemma search_inv_edge:
  assumes inv: "search_inv dr managers (Edge d m # fs) g"
  shows "search_inv dr managers (Visit d # fs) (add_edge d m g)"
proof -
  have g: "graph_wf g" and m: "m \<in> set (kg_seen g)" "m \<in> nodes g" and d: "d \<in> set (gm_at [] dr m)"
    and sub: "nodes g \<subseteq> reachable_deps dr managers" "set (kg_seen g) \<subseteq> nodes g" "set managers \<subseteq> nodes g"
    using inv by (auto simp: search_inv_def)
  have "d \<in> reachable_deps dr managers" using sub m d by (blast intro: reachable_step)
  moreover have "n \<in> set (succs (add_edge d m g) u) \<longrightarrow> n \<in> set (kg_seen g) \<and> u \<in> set (gm_at [] dr n)" for u n
    using inv m d by (auto simp: search_inv_def add_edge_values [OF g])
  moreover have "n \<in> set (kg_seen g) \<longrightarrow> u \<in> set (gm_at [] dr n) \<longrightarrow>
      n \<in> set (succs (add_edge d m g) u) \<or> Edge u n \<in> set fs" for u n
    using inv by (auto simp: search_inv_def add_edge_values [OF g])
  moreover have "k \<in> insert d (nodes g) \<longrightarrow> k \<in> set (kg_seen g) \<or> Visit k \<in> set (Visit d # fs)" for k
    using inv by (auto simp: search_inv_def)
  moreover have "Visit k \<in> set (Visit d # fs) \<longrightarrow> k \<in> insert d (nodes g)" for k
    using inv by (auto simp: search_inv_def)
  moreover have "Edge d' m' \<in> set (Visit d # fs) \<longrightarrow> m' \<in> set (kg_seen g) \<and> d' \<in> set (gm_at [] dr m')" for d' m'
    using inv by (auto simp: search_inv_def)
  ultimately show ?thesis
    unfolding search_inv_def add_edge_values(3) [OF g] add_edge_seen
    using graph_wf_add_edge [OF g m(2), of d] sub by (intro conjI allI) (assumption | auto)+
qed

lemma search_inv_final:
  "search_inv dr managers fs g \<Longrightarrow> search_inv dr managers [] (add_dependencies_to_graph dr fs g)"
proof (induction dr fs g rule: add_dependencies_to_graph.induct)
  case (1 dr g)
  then show ?case by simp
next
  case (2 dr m fs g)
  then show ?case
    by (cases "m \<in> set (kg_seen g)") (simp_all add: search_inv_visit_seen search_inv_visit_new)
next
  case (3 dr d m fs g)
  then show ?case by (simp add: search_inv_edge)
qed

lemma fold_init_nodes:
  "graph_wf g \<Longrightarrow> graph_wf (fold init_node ns g) \<and> kg_seen (fold init_node ns g) = kg_seen g \<and>
     nodes (fold init_node ns g) = set ns \<union> nodes g \<and> (\<forall>u. succs (fold init_node ns g) u = succs g u)"
  by (induction ns arbitrary: g) (auto simp: graph_wf_init init_node_values)

lemma build_graph_inv: "search_inv dr managers [] (build_graph dr managers)"
  unfolding build_graph_def
proof (rule search_inv_final)
  let ?e = "\<lparr>kg_edges = [], kg_indeg = [], kg_seen = []\<rparr>"
  have "graph_wf ?e" by (simp add: graph_wf_def)
  from fold_init_nodes [OF this, of managers]
  show "search_inv dr managers (map Visit managers) (fold init_node managers ?e)"
    by (auto simp: search_inv_def reachable_deps_def)
qed

text \<open>The graph has exactly the reachable managers as nodes and their dependencies as edges.\<close>

lemma search_done:
  assumes "search_inv dr managers [] g"
  shows "set (kg_seen g) = nodes g"
    and "n \<in> set (succs g u) \<longleftrightarrow> n \<in> nodes g \<and> u \<in> set (gm_at [] dr n)"
proof -
  note inv = assms [unfolded search_inv_def list.set empty_iff simp_thms]
  have fwd: "\<forall>u n. n \<in> set (succs g u) \<longrightarrow> n \<in> set (kg_seen g) \<and> u \<in> set (gm_at [] dr n)"
    using inv by (elim conjE)
  have bwd: "\<forall>n u. n \<in> set (kg_seen g) \<longrightarrow> u \<in> set (gm_at [] dr n) \<longrightarrow> n \<in> set (succs g u)"
    using inv by (elim conjE)
  have all: "\<forall>k. k \<in> nodes g \<longrightarrow> k \<in> set (kg_seen g)" using inv by (elim conjE)
  have sub: "set (kg_seen g) \<subseteq> nodes g" using inv by (elim conjE)
  from all sub show seen: "set (kg_seen g) = nodes g" by blast
  from fwd bwd show "n \<in> set (succs g u) \<longleftrightarrow> n \<in> nodes g \<and> u \<in> set (gm_at [] dr n)"
    unfolding seen by blast
qed

lemma build_graph_nodes: "nodes (build_graph dr managers) = reachable_deps dr managers"
proof
  let ?g = "build_graph dr managers"
  note inv = build_graph_inv [of dr managers]
  show "nodes ?g \<subseteq> reachable_deps dr managers" using inv by (simp add: search_inv_def)
  have "k \<in> nodes ?g" if "(r, k) \<in> (dep_rel dr)\<^sup>*" "r \<in> set managers" for r k
    using that
  proof (induction rule: rtrancl_induct)
    case base
    then show ?case using inv unfolding search_inv_def by blast
  next
    case (step y z)
    then have "y \<in> set (succs ?g z)" by (simp add: search_done(2) [OF inv] dep_rel_def)
    then have "succs ?g z \<noteq> []" by auto
    then show ?case by (rule contrapos_np) (rule gm_at_not_key)
  qed
  then show "reachable_deps dr managers \<subseteq> nodes ?g" unfolding reachable_deps_def by blast
qed

lemma build_graph_edges:
  "n \<in> set (succs (build_graph dr managers) u) \<longleftrightarrow>
     n \<in> reachable_deps dr managers \<and> u \<in> set (gm_at [] dr n)"
  by (simp only: search_done(2) [OF build_graph_inv] build_graph_nodes)

lemma build_graph_wf: "graph_wf (build_graph dr managers)"
  by (rule search_inv_wf [OF build_graph_inv])

section \<open>Kahn's algorithm sorts\<close>

lemma relax_effect:
  "relax ns (deg, queue) = (deg', queue') \<Longrightarrow> distinct queue \<Longrightarrow> \<forall>q\<in>set queue. gm_at 0 deg q \<le> 0 \<Longrightarrow>
   (\<forall>n. gm_at 0 deg' n = gm_at 0 deg n - int (count_list ns n)) \<and> distinct queue' \<and>
   set queue' = set queue \<union> {n. 0 < gm_at 0 deg n \<and> gm_at 0 deg n \<le> int (count_list ns n)} \<and>
   (\<forall>q\<in>set queue'. gm_at 0 deg' q \<le> 0)"
proof (induction ns arbitrary: deg queue)
  case Nil
  then show ?case by auto
next
  case (Cons n ns)
  let ?d = "gm_put n (gm_at 0 deg n - 1) deg"
  let ?q = "if gm_at 0 ?d n = 0 then sort (queue @ [n]) else queue"
  have step: "relax ns (?d, ?q) = (deg', queue')" using Cons.prems(1) by (simp add: Let_def)
  have notin: "n \<notin> set queue" if "gm_at 0 ?d n = 0" using Cons.prems(3) that by auto
  have q: "distinct ?q" "\<forall>q\<in>set ?q. gm_at 0 ?d q \<le> 0"
    using Cons.prems(2,3) notin by auto
  note IH = Cons.IH [OF step q]
  note ih = IH [THEN conjunct1] IH [THEN conjunct2, THEN conjunct1]
    IH [THEN conjunct2, THEN conjunct2, THEN conjunct2] IH [THEN conjunct2, THEN conjunct2, THEN conjunct1]
  have "\<forall>k. gm_at 0 deg' k = gm_at 0 deg k - int (count_list (n # ns) k)"
    using ih(1) by simp
  moreover have "set queue' = set queue \<union> {k. 0 < gm_at 0 deg k \<and> gm_at 0 deg k \<le> int (count_list (n # ns) k)}"
    unfolding ih(4) by auto
  ultimately show ?case using ih(2,3) by (intro conjI)
qed

definition precedes :: "string list \<Rightarrow> string \<Rightarrow> string \<Rightarrow> bool" where
  "precedes xs a b \<longleftrightarrow> (\<exists>us vs ws. xs = us @ a # vs @ b # ws)"

text \<open>
  Kahn's invariant over the graph \<open>E\<close> with nodes \<open>N\<close>: the output and the queue hold
  each node once, namely those whose remaining degree is zero; the remaining degree counts
  the edges from nodes not yet output; the predecessors of an output node are output first.
\<close>

definition kahn_inv :: "(string, string list) gomap \<Rightarrow> string set \<Rightarrow> (string, int) gomap \<Rightarrow> string list \<Rightarrow> string list \<Rightarrow> bool" where
  "kahn_inv E N deg queue result \<longleftrightarrow> distinct (result @ queue) \<and>
     set result \<union> set queue = {n \<in> N. gm_at 0 deg n = 0} \<and>
     (\<forall>n. gm_at 0 deg n = (\<Sum>u\<in>N - set result. int (count_list (gm_at [] E u) n))) \<and>
     (\<forall>us n vs. result = us @ n # vs \<longrightarrow> {u \<in> N. n \<in> set (gm_at [] E u)} \<subseteq> set us)"

lemma kahn_inv_degree_zero:
  assumes "kahn_inv E N deg queue result" "finite N" "gm_at 0 deg n = 0"
  shows "{u \<in> N. n \<in> set (gm_at [] E u)} \<subseteq> set result"
proof -
  have "\<forall>u\<in>N - set result. int (count_list (gm_at [] E u) n) = 0"
    using assms by (subst sum_nonneg_eq_0_iff [symmetric]) (auto simp: kahn_inv_def)
  then show ?thesis by (auto simp: count_list_0_iff)
qed

lemma kahn_inv_step:
  assumes inv: "kahn_inv E N deg (current # queue) result" and fin: "finite N"
    and targets: "\<forall>u\<in>N. set (gm_at [] E u) \<subseteq> N"
    and step: "relax (gm_at [] E current) (deg, queue) = (deg', queue')"
  shows "kahn_inv E N deg' queue' (result @ [current])"
proof -
  let ?c = "\<lambda>u n. int (count_list (gm_at [] E u) n)"
  have cur: "current \<in> N" "gm_at 0 deg current = 0" "current \<notin> set result" "current \<notin> set queue"
    and dist: "distinct result" "distinct queue" "set result \<inter> set queue = {}"
    and deg: "\<And>n. gm_at 0 deg n = (\<Sum>u\<in>N - set result. ?c u n)"
    and zero: "set result \<union> insert current (set queue) = {n \<in> N. gm_at 0 deg n = 0}"
    and order: "\<forall>us n vs. result = us @ n # vs \<longrightarrow> {u \<in> N. n \<in> set (gm_at [] E u)} \<subseteq> set us"
    using inv by (auto simp: kahn_inv_def)
  have "gm_at 0 deg q = 0" if "q \<in> set queue" for q using zero that by blast
  then have q0: "\<forall>q\<in>set queue. gm_at 0 deg q \<le> 0" by simp
  note EFF = relax_effect [OF step dist(2) q0]
  note eff = EFF [THEN conjunct1, THEN spec] EFF [THEN conjunct2, THEN conjunct1]
    EFF [THEN conjunct2, THEN conjunct2, THEN conjunct1]
  have split: "gm_at 0 deg n = ?c current n + (\<Sum>u\<in>N - set (result @ [current]). ?c u n)" for n
  proof -
    have "N - set result - {current} = N - set (result @ [current])" by auto
    then show ?thesis
      unfolding deg [of n] using cur(1,3) fin sum.remove [of "N - set result" current "\<lambda>u. ?c u n"] by simp
  qed
  have deg': "gm_at 0 deg' n = (\<Sum>u\<in>N - set (result @ [current]). ?c u n)" for n
    unfolding eff(1) split by simp
  have nonneg: "0 \<le> gm_at 0 deg n" for n unfolding deg by (rule sum_nonneg) simp
  have nonneg': "0 \<le> gm_at 0 deg' n" for n unfolding deg' by (rule sum_nonneg) simp
  have "(gm_at 0 deg n \<le> ?c current n) = (gm_at 0 deg' n = 0)" for n
    using eff(1) [of n] nonneg' [of n] by linarith
  then have q': "set queue' = set queue \<union> {n. 0 < gm_at 0 deg n \<and> gm_at 0 deg' n = 0}"
    unfolding eff(3) by simp
  have in_N: "n \<in> N" if "0 < gm_at 0 deg n" "gm_at 0 deg' n = 0" for n
  proof -
    have "count_list (gm_at [] E current) n \<noteq> 0" using that eff(1) [of n] by auto
    then show ?thesis using targets cur(1) by (auto simp: count_list_0_iff)
  qed
  have mono: "gm_at 0 deg' n = 0" if "gm_at 0 deg n = 0" for n
    using eff(1) [of n] that nonneg' [of n] by simp
  have zero_iff: "n \<in> set result \<or> n = current \<or> n \<in> set queue \<longleftrightarrow> n \<in> N \<and> gm_at 0 deg n = 0" for n
    using zero by blast
  have set': "set (result @ [current]) \<union> set queue' = {n \<in> N. gm_at 0 deg' n = 0}"
  proof (rule set_eqI)
    fix n
    have "0 < gm_at 0 deg n \<or> gm_at 0 deg n = 0" using nonneg [of n] by linarith
    then show "n \<in> set (result @ [current]) \<union> set queue' \<longleftrightarrow> n \<in> {n \<in> N. gm_at 0 deg' n = 0}"
      using zero_iff [of n] in_N [of n] mono [of n] unfolding q' by auto
  qed
  have "n \<notin> set queue'" if "n \<in> set result \<or> n = current" for n
    using zero_iff [of n] that dist(3) cur(4) unfolding q' by auto
  then have dist': "distinct ((result @ [current]) @ queue')"
    using dist(1) cur(3) eff(2) by auto
  have order': "\<forall>us n vs. result @ [current] = us @ n # vs \<longrightarrow> {u \<in> N. n \<in> set (gm_at [] E u)} \<subseteq> set us"
  proof (intro allI impI)
    fix us n vs assume eq: "result @ [current] = us @ n # vs"
    show "{u \<in> N. n \<in> set (gm_at [] E u)} \<subseteq> set us"
    proof (cases vs rule: rev_cases)
      case Nil
      then show ?thesis using eq kahn_inv_degree_zero [OF inv fin cur(2)] by auto
    next
      case (snoc ws w)
      then have "result = us @ n # ws" using eq by simp
      then show ?thesis using order by blast
    qed
  qed
  show ?thesis unfolding kahn_inv_def using dist' set' deg' order' by blast
qed

lemma kahn_inv_final:
  "kahn_inv E N deg queue result \<Longrightarrow> finite N \<Longrightarrow> \<forall>u\<in>N. set (gm_at [] E u) \<subseteq> N \<Longrightarrow>
   \<exists>deg'. kahn_inv E N deg' [] (kahn E deg queue result)"
proof (induction E deg queue result rule: kahn.induct)
  case (1 E deg result)
  then show ?case by auto
next
  case (2 E deg current queue result)
  obtain deg' queue' where st: "relax (gm_at [] E current) (deg, queue) = (deg', queue')" by force
  from 2(1) [OF st [symmetric] kahn_inv_step [OF 2(2,3,4) st] 2(3,4)] show ?case by (simp add: st)
qed

section \<open>Correctness of the resolution\<close>

lemma kahn_inv_start:
  assumes "graph_wf g"
  shows "kahn_inv (kg_edges g) (nodes g) (kg_indeg g)
    (sort (filter (\<lambda>n. degree g n = 0) (gm_keys (kg_indeg g)))) []"
  using assms by (auto simp: kahn_inv_def graph_wf_def gm_wf_def gm_keys_def)

text \<open>What the sort leaves behind: the output is ordered, and a node left out waits for another one.\<close>

lemma kahn_output:
  fixes dr managers
  defines "g \<equiv> build_graph dr managers"
  defines "result \<equiv> kahn (kg_edges g) (kg_indeg g)
      (sort (filter (\<lambda>n. degree g n = 0) (gm_keys (kg_indeg g)))) []"
  shows "distinct result" "set result \<subseteq> reachable_deps dr managers"
    and "length result = length (gm_keys (kg_indeg g)) \<longleftrightarrow> set result = reachable_deps dr managers"
    and "result = us @ m # vs \<Longrightarrow> set (gm_at [] dr m) \<subseteq> set us"
    and "m \<in> reachable_deps dr managers - set result \<Longrightarrow>
           \<exists>d \<in> set (gm_at [] dr m). d \<in> reachable_deps dr managers - set result"
proof -
  have g: "graph_wf g" unfolding g_def by (rule build_graph_wf)
  have N: "nodes g = reachable_deps dr managers" unfolding g_def by (rule build_graph_nodes)
  have E: "n \<in> set (succs g u) \<longleftrightarrow> n \<in> nodes g \<and> u \<in> set (gm_at [] dr n)" for u n
    unfolding g_def build_graph_edges build_graph_nodes ..
  obtain deg' where inv: "kahn_inv (kg_edges g) (nodes g) deg' [] result"
    using kahn_inv_final [OF kahn_inv_start [OF g]] E unfolding result_def by blast
  note inv' = inv [unfolded kahn_inv_def append_Nil2 list.set Un_empty_right]
  show dist: "distinct result" using inv' by (elim conjE)
  have sub: "set result = {n \<in> nodes g. gm_at 0 deg' n = 0}" using inv' by (elim conjE)
  then show "set result \<subseteq> reachable_deps dr managers" using N by blast
  note wfi = graph_wfD [OF g]
  have cards: "length (gm_keys (kg_indeg g)) = card (nodes g)" "length result = card (set result)"
    using length_gm_keys [OF wfi(1)] dist unfolding wfi(2) by (simp_all add: distinct_card)
  have "set result \<subseteq> nodes g" using sub by blast
  then have "card (set result) = card (nodes g) \<longleftrightarrow> set result = nodes g"
    using card_subset_eq [of "nodes g" "set result", OF List.finite_set] by (metis (no_types))
  then show "length result = length (gm_keys (kg_indeg g)) \<longleftrightarrow> set result = reachable_deps dr managers"
    unfolding cards N .
  have closed: "d \<in> nodes g" if "m \<in> nodes g" "d \<in> set (gm_at [] dr m)" for m d
    using that unfolding N by (rule reachable_step)
  show "set (gm_at [] dr m) \<subseteq> set us" if r: "result = us @ m # vs"
  proof -
    have "{u \<in> nodes g. m \<in> set (succs g u)} \<subseteq> set us" using inv r unfolding kahn_inv_def by blast
    moreover have "m \<in> nodes g" using sub r by auto
    ultimately show ?thesis using closed E by blast
  qed
  show "\<exists>d \<in> set (gm_at [] dr m). d \<in> reachable_deps dr managers - set result"
    if m: "m \<in> reachable_deps dr managers - set result"
  proof (rule ccontr)
    assume none: "\<not> ?thesis"
    have "gm_at 0 deg' m = (\<Sum>u\<in>nodes g - set result. int (count_list (succs g u) m))"
      using inv unfolding kahn_inv_def by blast
    also have "\<dots> = 0"
      using none E unfolding N [symmetric] by (intro sum.neutral) (auto simp: count_list_0_iff)
    finally show False using m sub unfolding N [symmetric] by auto
  qed
qed

lemma precedes_filter: "precedes xs a b \<Longrightarrow> P a \<Longrightarrow> P b \<Longrightarrow> precedes (filter P xs) a b"
  unfolding precedes_def by (metis (no_types, lifting) filter.simps(2) filter_append)

text \<open>An output in which every dependency comes first leaves no room for a cycle.\<close>

lemma ordered_acyclic:
  assumes "\<And>us m vs. result = us @ m # vs \<Longrightarrow> set (gm_at [] dr m) \<subseteq> set us" "distinct result"
  shows "acyclic (dep_rel dr \<inter> set result \<times> UNIV)"
proof -
  let ?rank = "\<lambda>x. length (takeWhile (\<lambda>y. y \<noteq> x) result)"
  have "?rank d < ?rank m" if "(m, d) \<in> dep_rel dr \<inter> set result \<times> UNIV" for m d
  proof -
    have "m \<in> set result" using that by blast
    then obtain us vs where r: "result = us @ m # vs" by (meson split_list)
    then have d: "d \<in> set us" using that assms(1) by (auto simp: dep_rel_def)
    then obtain us1 us2 where us: "us = us1 @ d # us2" "d \<notin> set us1" by (meson split_list_first)
    have "m \<notin> set us" using assms(2) r by simp
    then have "takeWhile (\<lambda>y. y \<noteq> m) result = us" unfolding r by (subst takeWhile_append2) auto
    moreover have "takeWhile (\<lambda>y. y \<noteq> d) result = us1"
      unfolding r us(1) append_assoc using us(2) by (subst takeWhile_append2) auto
    ultimately show ?thesis using us by simp
  qed
  then have "(dep_rel dr \<inter> set result \<times> UNIV)\<inverse> \<subseteq> measure ?rank" by auto
  then have "acyclic ((dep_rel dr \<inter> set result \<times> UNIV)\<inverse>)"
    by (rule acyclic_subset [OF wf_acyclic [OF wf_measure]])
  then show ?thesis by (simp only: acyclic_converse)
qed

lemma precedes_dependency:
  assumes "\<And>us m vs. result = us @ m # vs \<Longrightarrow> set (gm_at [] dr m) \<subseteq> set us"
    and "m \<in> set result" "d \<in> set (gm_at [] dr m)"
  shows "precedes result d m"
proof -
  obtain us vs where r: "result = us @ m # vs" using assms(2) by (auto dest: split_list)
  then have "d \<in> set us" using assms(1,3) by blast
  then obtain us1 us2 where "us = us1 @ d # us2" by (auto dest: split_list)
  then show ?thesis using r unfolding precedes_def by auto
qed

text \<open>A node left out starts an infinite chain of nodes left out, so the graph has a cycle.\<close>

lemma left_out_cyclic:
  assumes "finite X" "m \<in> X" "\<And>n. n \<in> X \<Longrightarrow> \<exists>d\<in>set (gm_at [] dr n). d \<in> X"
  shows "\<not> acyclic (dep_rel dr \<inter> X \<times> X)"
proof
  let ?r = "dep_rel dr \<inter> X \<times> X"
  assume "acyclic ?r"
  then have "acyclic (?r\<inverse>)" by (simp only: acyclic_converse)
  moreover have "finite (?r\<inverse>)" using assms(1) by auto
  ultimately have "wf (?r\<inverse>)" by (rule finite_acyclic_wf [rotated])
  then show False
  proof (rule wfE_min [OF _ assms(2)])
    fix z assume z: "z \<in> X" "\<And>y. (y, z) \<in> ?r\<inverse> \<Longrightarrow> y \<notin> X"
    from assms(3) [OF z(1)] obtain d where d: "d \<in> set (gm_at [] dr z)" "d \<in> X" ..
    then have "(d, z) \<in> ?r\<inverse>" using z(1) by (simp add: dep_rel_def)
    then show False using z(2) d(2) by blast
  qed
qed

lemma resolve_unfold:
  fixes dr managers
  defines "g \<equiv> build_graph dr managers"
  defines "result \<equiv> kahn (kg_edges g) (kg_indeg g)
      (sort (filter (\<lambda>n. degree g n = 0) (gm_keys (kg_indeg g)))) []"
  shows "resolve_dependencies dr managers =
    (if managers = [] then Inr []
     else if set result \<noteq> reachable_deps dr managers then Inl CircularDependency
     else Inr (filter (\<lambda>m. m \<in> set managers) result))"
  using kahn_output(3) [where dr = dr and managers = managers]
  unfolding resolve_dependencies_def g_def result_def Let_def by auto

lemma finite_reachable: "finite (reachable_deps dr managers)"
  unfolding build_graph_nodes [symmetric] by simp

lemma resolve_dependencies_Inr:
  assumes "resolve_dependencies dr managers = Inr out"
  shows "distinct out" "set out = set managers"
    and "\<forall>m\<in>set managers. \<forall>d\<in>set (gm_at [] dr m) \<inter> set managers. precedes out d m"
    and "acyclic (dep_rel dr \<inter> reachable_deps dr managers \<times> UNIV)"
proof -
  let ?R = "reachable_deps dr managers" and ?M = "\<lambda>m. m \<in> set managers"
  obtain result where out: "distinct result" "set result = ?R" "out = filter ?M result"
      "\<And>us m vs. result = us @ m # vs \<Longrightarrow> set (gm_at [] dr m) \<subseteq> set us"
  proof (cases "managers = []")
    case True
    then show ?thesis using assms that [of "[]"] by (auto simp: resolve_dependencies_def reachable_deps_def)
  next
    case False
    then show ?thesis
      using assms that kahn_output(1,4) [where dr = dr and managers = managers] unfolding resolve_unfold
      by (auto split: if_splits)
  qed
  have sub: "set managers \<subseteq> ?R" by (auto simp: reachable_deps_def)
  show "distinct out" "set out = set managers" using out sub by auto
  show "\<forall>m\<in>set managers. \<forall>d\<in>set (gm_at [] dr m) \<inter> set managers. precedes out d m"
  proof (intro ballI)
    fix m d assume md: "m \<in> set managers" "d \<in> set (gm_at [] dr m) \<inter> set managers"
    then have "m \<in> set result" using sub out(2) by blast
    then have "precedes result d m" using precedes_dependency [where result = result and dr = dr] out(4) md by blast
    then show "precedes out d m" using md unfolding out(3) by (auto intro: precedes_filter)
  qed
  show "acyclic (dep_rel dr \<inter> ?R \<times> UNIV)"
    using ordered_acyclic [OF out(4,1)] unfolding out(2) .
qed

lemma resolve_dependencies_acyclic:
  assumes "acyclic (dep_rel dr \<inter> reachable_deps dr managers \<times> UNIV)"
  shows "\<exists>out. resolve_dependencies dr managers = Inr out"
proof -
  let ?R = "reachable_deps dr managers"
  let ?g = "build_graph dr managers"
  let ?result = "kahn (kg_edges ?g) (kg_indeg ?g)
      (sort (filter (\<lambda>n. degree ?g n = 0) (gm_keys (kg_indeg ?g)))) []"
  have "?R - set ?result = {}"
  proof (rule ccontr)
    assume "?R - set ?result \<noteq> {}"
    then obtain m where m: "m \<in> ?R - set ?result" by blast
    from left_out_cyclic [OF _ m kahn_output(5) [where dr = dr and managers = managers]]
    have "\<not> acyclic (dep_rel dr \<inter> (?R - set ?result) \<times> (?R - set ?result))"
      using finite_reachable by blast
    moreover have "dep_rel dr \<inter> (?R - set ?result) \<times> (?R - set ?result) \<subseteq> dep_rel dr \<inter> ?R \<times> UNIV" by blast
    ultimately show False using assms acyclic_subset by blast
  qed
  then have "set ?result = ?R" using kahn_output(2) [where dr = dr and managers = managers] by blast
  then show ?thesis unfolding resolve_unfold by auto
qed

section \<open>Correctness of the transitive closure\<close>

declare collect_dependencies.simps [simp del]

lemma rtrancl_unfold_dep:
  "(m, x) \<in> (dep_rel dr)\<^sup>* \<longleftrightarrow> x = m \<or> (\<exists>d\<in>set (gm_at [] dr m). (d, x) \<in> (dep_rel dr)\<^sup>*)"
  by (auto simp: dep_rel_def intro: converse_rtrancl_into_rtrancl elim: converse_rtranclE)

lemma trancl_unfold_dep:
  "(m, x) \<in> (dep_rel dr)\<^sup>+ \<longleftrightarrow> (\<exists>d\<in>set (gm_at [] dr m). (d, x) \<in> (dep_rel dr)\<^sup>*)"
  by (auto simp: dep_rel_def trancl_unfold_left)

lemma collect_Inr:
  "collect_dependencies dr m vis = Inr rs \<Longrightarrow>
     set rs = {x. (m, x) \<in> (dep_rel dr)\<^sup>*} \<and>
     (\<forall>x. (m, x) \<in> (dep_rel dr)\<^sup>* \<longrightarrow> x \<notin> set vis \<and> (x, x) \<notin> (dep_rel dr)\<^sup>+)"
  "collect_all dr ds vis = Inr rs \<Longrightarrow>
     set rs = {x. \<exists>d\<in>set ds. (d, x) \<in> (dep_rel dr)\<^sup>*} \<and>
     (\<forall>d\<in>set ds. \<forall>x. (d, x) \<in> (dep_rel dr)\<^sup>* \<longrightarrow> x \<notin> set vis \<and> (x, x) \<notin> (dep_rel dr)\<^sup>+)"
proof (induction dr m vis and dr ds vis arbitrary: rs and rs
    rule: collect_dependencies_collect_all.induct)
  case (1 dr m vis)
  from "1.prems" obtain rs' where m: "m \<notin> set vis" and rs': "rs = m # rs'"
    "collect_all dr (gm_at [] dr m) (m # vis) = Inr rs'"
    by (auto simp: collect_dependencies.simps [of dr m vis] split: if_splits sum.splits)
  note IH = "1.IH" [OF m rs'(2)]
  have "set rs = {x. (m, x) \<in> (dep_rel dr)\<^sup>*}"
    using IH unfolding rs'(1) by (auto simp: rtrancl_unfold_dep [of m])
  moreover have "x \<notin> set vis \<and> (x, x) \<notin> (dep_rel dr)\<^sup>+" if "(m, x) \<in> (dep_rel dr)\<^sup>*" for x
  proof (cases "x = m")
    case True
    then show ?thesis using IH m by (auto simp: trancl_unfold_dep)
  next
    case False
    then show ?thesis using IH that by (auto simp: rtrancl_unfold_dep [of m])
  qed
  ultimately show ?case by blast
next
  case (2 dr vis)
  then show ?case by simp
next
  case (3 dr d ds vis)
  from "3.prems" obtain r rs' where "collect_dependencies dr d vis = Inr r" "collect_all dr ds vis = Inr rs'"
    "rs = r @ rs'"
    by (auto split: sum.splits)
  with "3.IH" show ?case by auto
qed

lemma collect_Inl:
  "collect_dependencies dr m vis = Inl e \<Longrightarrow>
     \<exists>x. e = CircularInvolving x \<and> (m, x) \<in> (dep_rel dr)\<^sup>* \<and> (x \<in> set vis \<or> (x, x) \<in> (dep_rel dr)\<^sup>+)"
  "collect_all dr ds vis = Inl e \<Longrightarrow>
     \<exists>x. e = CircularInvolving x \<and> (\<exists>d\<in>set ds. (d, x) \<in> (dep_rel dr)\<^sup>*) \<and>
         (x \<in> set vis \<or> (x, x) \<in> (dep_rel dr)\<^sup>+)"
proof (induction dr m vis and dr ds vis arbitrary: e and e
    rule: collect_dependencies_collect_all.induct)
  case (1 dr m vis)
  show ?case
  proof (cases "m \<in> set vis")
    case True
    then show ?thesis using "1.prems" by (auto simp: collect_dependencies.simps [of dr m vis])
  next
    case False
    then have "collect_all dr (gm_at [] dr m) (m # vis) = Inl e"
      using "1.prems" by (auto simp: collect_dependencies.simps [of dr m vis] split: sum.splits)
    from "1.IH" [OF False this] show ?thesis
      by (auto simp: rtrancl_unfold_dep [of m] trancl_unfold_dep [of m])
  qed
next
  case (2 dr vis)
  then show ?case by simp
next
  case (3 dr d ds vis)
  then show ?case by (fastforce split: sum.splits)
qed

section \<open>Properties\<close>

text \<open>
  Property C1. When the resolution succeeds, it returns every requested manager exactly
  once and every requested dependency of a requested manager before that manager.
\<close>

theorem resolve_order:
  assumes "resolve_dependencies dr managers = Inr out"
  shows "distinct out \<and> set out = set managers \<and>
    (\<forall>m\<in>set managers. \<forall>d\<in>set (get_dependencies dr m) \<inter> set managers. precedes out d m)"
  using resolve_dependencies_Inr(1,2,3) [OF assms]
  by (simp add: get_dependencies_def gm_at_def)

definition sample_table :: dep_table where
  "sample_table = add_dependency ''rbenv'' [''brew'', ''asdf''] (add_dependency ''asdf'' [''brew''] new_dependency_resolver)"

theorem resolve_order_witness:
  "resolve_dependencies sample_table [''rbenv'', ''brew'', ''asdf''] = Inr [''brew'', ''asdf'', ''rbenv''] \<and>
   precedes [''brew'', ''asdf'', ''rbenv''] ''asdf'' ''rbenv''"
proof -
  have r: "resolve_dependencies sample_table [''rbenv'', ''brew'', ''asdf''] = Inr [''brew'', ''asdf'', ''rbenv'']"
    by code_simp
  have "''asdf'' \<in> set (get_dependencies sample_table ''rbenv'')" by code_simp
  then show ?thesis using r resolve_order [OF r] by simp
qed

text \<open>
  Property C2. The resolution fails exactly when the dependencies reachable from the
  requested managers contain a cycle; the only error is the circular-dependency error.
\<close>

theorem resolve_fails_iff_cycle:
  "resolve_dependencies dr managers = Inl CircularDependency \<longleftrightarrow>
     (\<exists>m\<in>set managers. \<exists>x. (m, x) \<in> (dep_rel dr)\<^sup>* \<and> (x, x) \<in> (dep_rel dr)\<^sup>+)"
proof -
  let ?R = "reachable_deps dr managers"
  have restrict: "(x, y) \<in> (dep_rel dr)\<^sup>+ \<Longrightarrow> x \<in> ?R \<Longrightarrow> (x, y) \<in> (dep_rel dr \<inter> ?R \<times> UNIV)\<^sup>+" for x y
  proof (induction rule: converse_trancl_induct)
    case (base y)
    then show ?case by auto
  next
    case (step y z)
    then have "z \<in> ?R" by (auto simp: dep_rel_def intro: reachable_step)
    then show ?case using step by (auto intro: trancl_into_trancl2)
  qed
  have "acyclic (dep_rel dr \<inter> ?R \<times> UNIV) \<longleftrightarrow> (\<forall>x\<in>?R. (x, x) \<notin> (dep_rel dr)\<^sup>+)"
  proof
    show "acyclic (dep_rel dr \<inter> ?R \<times> UNIV) \<Longrightarrow> \<forall>x\<in>?R. (x, x) \<notin> (dep_rel dr)\<^sup>+"
      using restrict by (auto simp: acyclic_def)
    assume none: "\<forall>x\<in>?R. (x, x) \<notin> (dep_rel dr)\<^sup>+"
    have "x \<in> ?R \<and> (x, x) \<in> (dep_rel dr)\<^sup>+" if "(x, x) \<in> (dep_rel dr \<inter> ?R \<times> UNIV)\<^sup>+" for x
      using that tranclD [OF that] trancl_mono [OF that, of "dep_rel dr"] by auto
    then show "acyclic (dep_rel dr \<inter> ?R \<times> UNIV)" using none by (auto simp: acyclic_def)
  qed
  moreover have "resolve_dependencies dr managers = Inl CircularDependency \<longleftrightarrow>
      (\<nexists>out. resolve_dependencies dr managers = Inr out)"
    unfolding resolve_unfold by auto
  ultimately show ?thesis
    using resolve_dependencies_Inr(4) [of dr managers] resolve_dependencies_acyclic [of dr managers]
    by (auto simp: reachable_deps_def)
qed

text \<open>
  Property C3. The transitive closure of a manager succeeds exactly when no cycle is
  reachable from it, and then lists exactly the managers it depends on, directly or not.
\<close>

theorem get_all_dependencies_closure:
  "case get_all_dependencies dr m of
     Inr out \<Rightarrow> set out = {x. (m, x) \<in> (dep_rel dr)\<^sup>+} \<and> (\<nexists>x. (m, x) \<in> (dep_rel dr)\<^sup>* \<and> (x, x) \<in> (dep_rel dr)\<^sup>+)
   | Inl e \<Rightarrow> (\<exists>x. e = CircularInvolving x \<and> (m, x) \<in> (dep_rel dr)\<^sup>* \<and> (x, x) \<in> (dep_rel dr)\<^sup>+)"
proof (cases "collect_dependencies dr m []")
  case (Inl e)
  then show ?thesis using collect_Inl(1) [OF Inl] by (simp add: get_all_dependencies_def)
next
  case (Inr rs)
  have "x \<noteq> m \<and> (m, x) \<in> (dep_rel dr)\<^sup>* \<longleftrightarrow> (m, x) \<in> (dep_rel dr)\<^sup>+" for x
    using collect_Inr(1) [OF Inr] by (auto simp: rtrancl_eq_or_trancl)
  then show ?thesis using collect_Inr(1) [OF Inr] by (auto simp: get_all_dependencies_def Inr)
qed

text \<open>The closure of a diamond lists the shared dependency once per path.\<close>

lemma get_all_dependencies_diamond:
  "get_all_dependencies sample_table ''rbenv'' = Inr [''brew'', ''asdf'', ''brew'']"
  by code_simp

text \<open>
  The validation of the whole table reports the circular-dependency error
  exactly when some manager depends on itself, whatever order the table is iterated in.
\<close>

theorem validate_no_cycles_iff:
  "validate_no_cycles dr = None \<longleftrightarrow> acyclic (dep_rel dr)"
proof -
  have key: "x \<in> set (gm_keys dr)" if "(x, y) \<in> (dep_rel dr)\<^sup>+" for x y
  proof -
    have "gm_at [] dr x \<noteq> []" using tranclD [OF that] by (auto simp: dep_rel_def)
    then show ?thesis by (rule contrapos_np) (rule gm_at_not_key)
  qed
  have "validate_no_cycles dr = None \<longleftrightarrow> resolve_dependencies dr (gm_keys dr) \<noteq> Inl CircularDependency"
    unfolding validate_no_cycles_def resolve_unfold by auto
  then show ?thesis unfolding resolve_fails_iff_cycle acyclic_def by (blast dest: key)
qed

end
