(* ===== verification/RepoSchema.thy ===== *)
theory RepoSchema
  imports GoPrelude
begin

text \<open>
  The repository configuration schema: the structs of \<open>pkg/config/repo_config_schema.go\<close> that a
  YAML file is read into.

  A pointer field is an option (nil is None), and so is a slice whose nil-ness is tested.
  Entries of the template and policy maps are non-nil, as in every file that gives them a
  body (a YAML \<open>name: null\<close> entry would be dereferenced by the code); the
  branch-protection rules, for which the code tests nil, keep their option.
\<close>

section \<open>The schema\<close>

text \<open>A value of Go type \<open>any\<close> as the YAML decoder builds it.\<close>

datatype go_value = VNil | VString string | VBool bool | VInt int | VInt64 int | VFloat64 rat | VComposite

record repo_settings =
  rs_Description :: "string option"
  rs_Homepage :: "string option"
  rs_Topics :: "string list option"
  rs_Private :: "bool option"
  rs_Archived :: "bool option"
  rs_HasIssues :: "bool option"
  rs_HasProjects :: "bool option"
  rs_HasWiki :: "bool option"
  rs_HasDownloads :: "bool option"
  rs_HasDiscussions :: "bool option"
  rs_HasPages :: "bool option"
  rs_AllowSquashMerge :: "bool option"
  rs_AllowMergeCommit :: "bool option"
  rs_AllowRebaseMerge :: "bool option"
  rs_AllowAutoMerge :: "bool option"
  rs_DeleteBranchOnMerge :: "bool option"
  rs_AllowForking :: "bool option"
  rs_WebCommitSignoffRequired :: "bool option"
  rs_DefaultBranch :: "string option"

record deployment_protection_rule =
  dr_Environment :: string

record branch_protection_rule =
  bp_RequiredReviews :: "int option"
  bp_DismissStaleReviews :: "bool option"
  bp_RequireCodeOwnerReviews :: "bool option"
  bp_RequiredStatusChecks :: "string list option"
  bp_StrictStatusChecks :: "bool option"
  bp_RestrictPushes :: "bool option"
  bp_AllowedUsers :: "string list option"
  bp_AllowedTeams :: "string list option"
  bp_RequireUpToDateBranch :: "bool option"
  bp_EnforceAdmins :: "bool option"
  bp_RequireConversationResolution :: "bool option"
  bp_AllowForcePushes :: "bool option"
  bp_AllowDeletions :: "bool option"
  bp_DeploymentProtectionRules :: "deployment_protection_rule list option"

record webhook_config =
  wh_URL :: string
  wh_Events :: "string list"
  wh_Active :: "bool option"
  wh_ContentType :: string
  wh_Secret :: string

record security_settings =
  ss_VulnerabilityAlerts :: "bool option"
  ss_AutomatedSecurityFixes :: "bool option"
  ss_SecurityAdvisories :: "bool option"
  ss_PrivateVulnerabilityReporting :: "bool option"
  ss_SecretScanning :: "bool option"
  ss_SecretScanningPushProtection :: "bool option"
  ss_BranchProtection :: "(string, branch_protection_rule option) gomap"
  ss_Webhooks :: "webhook_config list option"

record permission_settings =
  pm_TeamPermissions :: "(string, string) gomap"
  pm_UserPermissions :: "(string, string) gomap"

record policy_exception =
  px_PolicyName :: string
  px_RuleName :: string
  px_Reason :: string
  px_ApprovedBy :: string
  px_ApprovalDate :: string
  px_ExpiresAt :: string
  px_Conditions :: "string list"

record policy_rule =
  pr_Type :: string
  pr_Value :: go_value
  pr_Enforcement :: string
  pr_Message :: string

record policy_template =
  pt_Description :: string
  pt_Group :: string
  pt_Severity :: string
  pt_Rules :: "(string, policy_rule) gomap"
  pt_Tags :: "string list"

record policy_group =
  pg_Name :: string
  pg_Description :: string
  pg_Weight :: rat
  pg_Policies :: "string list"
  pg_Required :: bool
  pg_Tags :: "string list"

record rule_override =
  ro_Value :: go_value
  ro_Enforcement :: string
  ro_Disabled :: bool

record policy_override =
  po_Enforcement :: string
  po_Rules :: "(string, rule_override) gomap"

record policy_preset =
  ps_Name :: string
  ps_Description :: string
  ps_Framework :: string
  ps_Version :: string
  ps_Groups :: "string list"
  ps_Policies :: "string list"
  ps_Overrides :: "(string, policy_override) gomap"

record required_file =
  rf_Path :: string
  rf_Content :: string

record deployment_branch_policy =
  dp_ProtectedBranches :: "bool option"
  dp_CustomBranchPolicies :: "string list"

record environment_protection_rules =
  ep_RequiredReviewers :: "string list"
  ep_WaitTimer :: int
  ep_PreventSelfReview :: "bool option"
  ep_DeploymentBranchPolicy :: "deployment_branch_policy option"

record environment_config =
  ec_Name :: string
  ec_ProtectionRules :: "environment_protection_rules option"

record repo_template =
  rt_Base :: string
  rt_Description :: string
  rt_Settings :: "repo_settings option"
  rt_Security :: "security_settings option"
  rt_Permissions :: "permission_settings option"
  rt_Topics :: "string list"
  rt_RequiredFiles :: "required_file list"
  rt_Webhooks :: "webhook_config list"
  rt_Environments :: "environment_config list"

text \<open>Defaults of the whole file, and the default of the repositories section, have one shape.\<close>

record repo_defaults =
  rd_Template :: string
  rd_Settings :: "repo_settings option"
  rd_Security :: "security_settings option"
  rd_Permissions :: "permission_settings option"

record repo_specific_config =
  sc_Name :: string
  sc_Template :: string
  sc_Settings :: "repo_settings option"
  sc_Security :: "security_settings option"
  sc_Permissions :: "permission_settings option"
  sc_Exceptions :: "policy_exception list"

record repo_pattern_config =
  pc_Match :: string
  pc_Template :: string
  pc_Settings :: "repo_settings option"
  pc_Security :: "security_settings option"
  pc_Permissions :: "permission_settings option"
  pc_Exceptions :: "policy_exception list"

record repo_targets =
  tg_Specific :: "repo_specific_config list"
  tg_Patterns :: "repo_pattern_config list"
  tg_Default :: "repo_defaults option"

record repo_config =
  rc_Version :: string
  rc_Organization :: string
  rc_Defaults :: "repo_defaults option"
  rc_Templates :: "(string, repo_template) gomap"
  rc_Repositories :: "repo_targets option"
  rc_Policies :: "(string, policy_template) gomap"
  rc_PolicyGroups :: "(string, policy_group) gomap"
  rc_PolicyPresets :: "(string, policy_preset) gomap"

end
