(* ===== verification/RepoMerge.thy ===== *)
theory RepoMerge
  imports RepoSchema
begin

text \<open>
  The merge functions of \<open>pkg/config/repo_config_schema.go\<close>. Values are copied, so the deep
  copies of the code are copies field by field. The second half states what a merge does to
  one field: the override wins where it says something, and the base is inherited otherwise.
\<close>

section \<open>Merging\<close>

definition empty_repo_settings :: repo_settings where
  "empty_repo_settings = \<lparr>rs_Description = None, rs_Homepage = None, rs_Topics = None, rs_Private = None, rs_Archived = None, rs_HasIssues = None, rs_HasProjects = None, rs_HasWiki = None, rs_HasDownloads = None, rs_HasDiscussions = None, rs_HasPages = None, rs_AllowSquashMerge = None, rs_AllowMergeCommit = None, rs_AllowRebaseMerge = None, rs_AllowAutoMerge = None, rs_DeleteBranchOnMerge = None, rs_AllowForking = None, rs_WebCommitSignoffRequired = None, rs_DefaultBranch = None\<rparr>"

definition merge_repo_settings :: "repo_settings option \<Rightarrow> repo_settings option \<Rightarrow> repo_settings option" where
  "merge_repo_settings base over =
     (if base = None \<and> over = None then None
      else let result = (case base of None \<Rightarrow> empty_repo_settings | Some b \<Rightarrow> b) in
      Some (case over of None \<Rightarrow> result | Some ov \<Rightarrow> result\<lparr>
        rs_Description := override (rs_Description result) (rs_Description ov),
        rs_Homepage := override (rs_Homepage result) (rs_Homepage ov),
        rs_DefaultBranch := override (rs_DefaultBranch result) (rs_DefaultBranch ov),
        rs_Private := override (rs_Private result) (rs_Private ov),
        rs_Archived := override (rs_Archived result) (rs_Archived ov),
        rs_HasIssues := override (rs_HasIssues result) (rs_HasIssues ov),
        rs_HasProjects := override (rs_HasProjects result) (rs_HasProjects ov),
        rs_HasWiki := override (rs_HasWiki result) (rs_HasWiki ov),
        rs_HasDownloads := override (rs_HasDownloads result) (rs_HasDownloads ov),
        rs_AllowSquashMerge := override (rs_AllowSquashMerge result) (rs_AllowSquashMerge ov),
        rs_AllowMergeCommit := override (rs_AllowMergeCommit result) (rs_AllowMergeCommit ov),
        rs_AllowRebaseMerge := override (rs_AllowRebaseMerge result) (rs_AllowRebaseMerge ov),
        rs_DeleteBranchOnMerge := override (rs_DeleteBranchOnMerge result) (rs_DeleteBranchOnMerge ov),
        rs_Topics := override (rs_Topics result) (rs_Topics ov)\<rparr>))"

definition copy_branch_protection_rule :: "branch_protection_rule option \<Rightarrow> branch_protection_rule option" where
  "copy_branch_protection_rule rule =
     (case rule of None \<Rightarrow> None
      | Some r \<Rightarrow> Some \<lparr>bp_RequiredReviews = bp_RequiredReviews r,
          bp_DismissStaleReviews = bp_DismissStaleReviews r,
          bp_RequireCodeOwnerReviews = bp_RequireCodeOwnerReviews r,
          bp_RequiredStatusChecks = bp_RequiredStatusChecks r,
          bp_StrictStatusChecks = bp_StrictStatusChecks r,
          bp_RestrictPushes = bp_RestrictPushes r,
          bp_AllowedUsers = bp_AllowedUsers r,
          bp_AllowedTeams = bp_AllowedTeams r,
          bp_RequireUpToDateBranch = bp_RequireUpToDateBranch r,
          bp_EnforceAdmins = bp_EnforceAdmins r,
          bp_RequireConversationResolution = bp_RequireConversationResolution r,
          bp_AllowForcePushes = bp_AllowForcePushes r,
          bp_AllowDeletions = bp_AllowDeletions r,
          bp_DeploymentProtectionRules = bp_DeploymentProtectionRules r\<rparr>)"

definition merge_branch_protection_rule ::
  "branch_protection_rule option \<Rightarrow> branch_protection_rule option \<Rightarrow> branch_protection_rule option" where
  "merge_branch_protection_rule base over =
     (case base of None \<Rightarrow> copy_branch_protection_rule over
      | Some _ \<Rightarrow> (case over of None \<Rightarrow> copy_branch_protection_rule base
        | Some ov \<Rightarrow> map_option (\<lambda>result. result\<lparr>
        bp_RequiredReviews := override (bp_RequiredReviews result) (bp_RequiredReviews ov),
        bp_DismissStaleReviews := override (bp_DismissStaleReviews result) (bp_DismissStaleReviews ov),
        bp_RequireCodeOwnerReviews := override (bp_RequireCodeOwnerReviews result) (bp_RequireCodeOwnerReviews ov),
        bp_RequiredStatusChecks := override (bp_RequiredStatusChecks result) (bp_RequiredStatusChecks ov),
        bp_StrictStatusChecks := override (bp_StrictStatusChecks result) (bp_StrictStatusChecks ov),
        bp_RestrictPushes := override (bp_RestrictPushes result) (bp_RestrictPushes ov),
        bp_AllowedUsers := override (bp_AllowedUsers result) (bp_AllowedUsers ov),
        bp_AllowedTeams := override (bp_AllowedTeams result) (bp_AllowedTeams ov),
        bp_RequireUpToDateBranch := override (bp_RequireUpToDateBranch result) (bp_RequireUpToDateBranch ov),
        bp_EnforceAdmins := override (bp_EnforceAdmins result) (bp_EnforceAdmins ov),
        bp_RequireConversationResolution := override (bp_RequireConversationResolution result) (bp_RequireConversationResolution ov),
        bp_AllowForcePushes := override (bp_AllowForcePushes result) (bp_AllowForcePushes ov),
        bp_AllowDeletions := override (bp_AllowDeletions result) (bp_AllowDeletions ov),
        bp_DeploymentProtectionRules := override (bp_DeploymentProtectionRules result) (bp_DeploymentProtectionRules ov)\<rparr>)
          (copy_branch_protection_rule base)))"

definition empty_security_settings :: security_settings where
  "empty_security_settings =
     \<lparr>ss_VulnerabilityAlerts = None, ss_AutomatedSecurityFixes = None, ss_SecurityAdvisories = None,
      ss_PrivateVulnerabilityReporting = None, ss_SecretScanning = None,
      ss_SecretScanningPushProtection = None, ss_BranchProtection = [], ss_Webhooks = None\<rparr>"

definition copy_security_base :: "security_settings \<Rightarrow> security_settings" where
  "copy_security_base base = empty_security_settings\<lparr>
     ss_VulnerabilityAlerts := ss_VulnerabilityAlerts base,
     ss_SecurityAdvisories := ss_SecurityAdvisories base,
     ss_PrivateVulnerabilityReporting := ss_PrivateVulnerabilityReporting base,
     ss_BranchProtection := foldl (\<lambda>m (branch, rule). gm_put branch (copy_branch_protection_rule rule) m) []
        (ss_BranchProtection base),
     ss_Webhooks := ss_Webhooks base\<rparr>"

definition override_security :: "security_settings \<Rightarrow> security_settings \<Rightarrow> security_settings" where
  "override_security result over = result\<lparr>
     ss_VulnerabilityAlerts := override (ss_VulnerabilityAlerts result) (ss_VulnerabilityAlerts over),
     ss_SecurityAdvisories := override (ss_SecurityAdvisories result) (ss_SecurityAdvisories over),
     ss_PrivateVulnerabilityReporting :=
       override (ss_PrivateVulnerabilityReporting result) (ss_PrivateVulnerabilityReporting over),
     ss_BranchProtection :=
       foldl (\<lambda>m (branch, rule). gm_put branch (merge_branch_protection_rule (gm_at None m branch) rule) m)
         (ss_BranchProtection result) (ss_BranchProtection over),
     ss_Webhooks := override (ss_Webhooks result) (ss_Webhooks over)\<rparr>"

definition merge_security_settings ::
  "security_settings option \<Rightarrow> security_settings option \<Rightarrow> security_settings option" where
  "merge_security_settings base over =
     (if base = None \<and> over = None then None
      else let result = (case base of None \<Rightarrow> empty_security_settings | Some b \<Rightarrow> copy_security_base b) in
      Some (case over of None \<Rightarrow> result | Some ov \<Rightarrow> override_security result ov))"

definition merge_permission_settings ::
  "permission_settings option \<Rightarrow> permission_settings option \<Rightarrow> permission_settings option" where
  "merge_permission_settings base over =
     (if base = None \<and> over = None then None
      else let empty = \<lparr>pm_TeamPermissions = [], pm_UserPermissions = []\<rparr>;
               copy_all = (\<lambda>res src. \<lparr>pm_TeamPermissions = gm_copy (pm_TeamPermissions res) (pm_TeamPermissions src),
                 pm_UserPermissions = gm_copy (pm_UserPermissions res) (pm_UserPermissions src)\<rparr>);
               result = (case base of None \<Rightarrow> empty | Some b \<Rightarrow> copy_all empty b)
           in Some (case over of None \<Rightarrow> result | Some ov \<Rightarrow> copy_all result ov))"

section \<open>Fields and layers\<close>

text \<open>
  A key names one field of the configuration of a repository: a setting, a security setting,
  a field of the protection rule of one branch, the permission of a team or of a user. The
  keys are those the merge functions handle; the fields they forget are the subject of
  \<open>merge_forgotten_settings\<close> and \<open>merge_forgotten_security\<close>.
\<close>

datatype field_value =
    FString string | FBool bool | FInt int | FStrings "string list"
  | FHooks "webhook_config list" | FDeployments "deployment_protection_rule list"

datatype settings_key =
    S_Description | S_Homepage | S_DefaultBranch | S_Private | S_Archived
  | S_HasIssues | S_HasProjects | S_HasWiki | S_HasDownloads | S_AllowSquashMerge
  | S_AllowMergeCommit | S_AllowRebaseMerge | S_DeleteBranchOnMerge | S_Topics

datatype security_key =
    C_VulnerabilityAlerts | C_SecurityAdvisories | C_PrivateVulnerabilityReporting | C_Webhooks

datatype branch_key =
    B_RequiredReviews | B_DismissStaleReviews | B_RequireCodeOwnerReviews | B_RequiredStatusChecks | B_StrictStatusChecks
  | B_RestrictPushes | B_AllowedUsers | B_AllowedTeams | B_RequireUpToDateBranch | B_EnforceAdmins
  | B_RequireConversationResolution | B_AllowForcePushes | B_AllowDeletions | B_DeploymentProtectionRules

fun settings_field :: "settings_key \<Rightarrow> repo_settings \<Rightarrow> field_value option" where
  "settings_field S_Description r = map_option FString (rs_Description r)"
| "settings_field S_Homepage r = map_option FString (rs_Homepage r)"
| "settings_field S_DefaultBranch r = map_option FString (rs_DefaultBranch r)"
| "settings_field S_Private r = map_option FBool (rs_Private r)"
| "settings_field S_Archived r = map_option FBool (rs_Archived r)"
| "settings_field S_HasIssues r = map_option FBool (rs_HasIssues r)"
| "settings_field S_HasProjects r = map_option FBool (rs_HasProjects r)"
| "settings_field S_HasWiki r = map_option FBool (rs_HasWiki r)"
| "settings_field S_HasDownloads r = map_option FBool (rs_HasDownloads r)"
| "settings_field S_AllowSquashMerge r = map_option FBool (rs_AllowSquashMerge r)"
| "settings_field S_AllowMergeCommit r = map_option FBool (rs_AllowMergeCommit r)"
| "settings_field S_AllowRebaseMerge r = map_option FBool (rs_AllowRebaseMerge r)"
| "settings_field S_DeleteBranchOnMerge r = map_option FBool (rs_DeleteBranchOnMerge r)"
| "settings_field S_Topics r = map_option FStrings (rs_Topics r)"

fun security_field :: "security_key \<Rightarrow> security_settings \<Rightarrow> field_value option" where
  "security_field C_VulnerabilityAlerts r = map_option FBool (ss_VulnerabilityAlerts r)"
| "security_field C_SecurityAdvisories r = map_option FBool (ss_SecurityAdvisories r)"
| "security_field C_PrivateVulnerabilityReporting r = map_option FBool (ss_PrivateVulnerabilityReporting r)"
| "security_field C_Webhooks r = map_option FHooks (ss_Webhooks r)"

fun branch_field :: "branch_key \<Rightarrow> branch_protection_rule \<Rightarrow> field_value option" where
  "branch_field B_RequiredReviews r = map_option FInt (bp_RequiredReviews r)"
| "branch_field B_DismissStaleReviews r = map_option FBool (bp_DismissStaleReviews r)"
| "branch_field B_RequireCodeOwnerReviews r = map_option FBool (bp_RequireCodeOwnerReviews r)"
| "branch_field B_RequiredStatusChecks r = map_option FStrings (bp_RequiredStatusChecks r)"
| "branch_field B_StrictStatusChecks r = map_option FBool (bp_StrictStatusChecks r)"
| "branch_field B_RestrictPushes r = map_option FBool (bp_RestrictPushes r)"
| "branch_field B_AllowedUsers r = map_option FStrings (bp_AllowedUsers r)"
| "branch_field B_AllowedTeams r = map_option FStrings (bp_AllowedTeams r)"
| "branch_field B_RequireUpToDateBranch r = map_option FBool (bp_RequireUpToDateBranch r)"
| "branch_field B_EnforceAdmins r = map_option FBool (bp_EnforceAdmins r)"
| "branch_field B_RequireConversationResolution r = map_option FBool (bp_RequireConversationResolution r)"
| "branch_field B_AllowForcePushes r = map_option FBool (bp_AllowForcePushes r)"
| "branch_field B_AllowDeletions r = map_option FBool (bp_AllowDeletions r)"
| "branch_field B_DeploymentProtectionRules r = map_option FDeployments (bp_DeploymentProtectionRules r)"

datatype config_key =
    Setting settings_key
  | Security security_key
  | Branch string branch_key
  | Team string
  | User string

type_synonym layer = "repo_settings option \<times> security_settings option \<times> permission_settings option"

definition branch_rule :: "security_settings \<Rightarrow> string \<Rightarrow> branch_protection_rule option" where
  "branch_rule c b = gm_at None (ss_BranchProtection c) b"

fun config_view :: "config_key \<Rightarrow> layer \<Rightarrow> field_value option" where
  "config_view (Setting k) (s, c, p) = Option.bind s (settings_field k)"
| "config_view (Security k) (s, c, p) = Option.bind c (security_field k)"
| "config_view (Branch b k) (s, c, p) = Option.bind c (\<lambda>x. Option.bind (branch_rule x b) (branch_field k))"
| "config_view (Team t) (s, c, p) = Option.bind p (\<lambda>x. map_option FString (gm_get (pm_TeamPermissions x) t))"
| "config_view (User u) (s, c, p) = Option.bind p (\<lambda>x. map_option FString (gm_get (pm_UserPermissions x) u))"

definition merge_layer :: "layer \<Rightarrow> layer \<Rightarrow> layer" where
  "merge_layer a b =
     (case a of (s1, c1, p1) \<Rightarrow> case b of (s2, c2, p2) \<Rightarrow>
       (merge_repo_settings s1 s2, merge_security_settings c1 c2, merge_permission_settings p1 p2))"

text \<open>The maps of a layer hold one entry per branch, team and user, as Go maps do.\<close>

definition security_wf :: "security_settings option \<Rightarrow> bool" where
  "security_wf c \<longleftrightarrow> (case c of None \<Rightarrow> True | Some x \<Rightarrow> gm_wf (ss_BranchProtection x))"

definition permission_wf :: "permission_settings option \<Rightarrow> bool" where
  "permission_wf p \<longleftrightarrow>
     (case p of None \<Rightarrow> True | Some x \<Rightarrow> gm_wf (pm_TeamPermissions x) \<and> gm_wf (pm_UserPermissions x))"

definition layer_wf :: "layer \<Rightarrow> bool" where
  "layer_wf l \<longleftrightarrow> (case l of (s, c, p) \<Rightarrow> security_wf c \<and> permission_wf p)"

section \<open>One field of a merge\<close>

lemma merge_settings_field:
  "Option.bind (merge_repo_settings s1 s2) (settings_field k)
     = override (Option.bind s1 (settings_field k)) (Option.bind s2 (settings_field k))"
  by (cases s1; cases s2; cases k)
    (simp_all add: merge_repo_settings_def empty_repo_settings_def override_map_option)

lemma copy_rule_id [simp]: "copy_branch_protection_rule r = r"
  by (cases r) (simp_all add: copy_branch_protection_rule_def)

lemma merge_branch_field:
  "Option.bind (merge_branch_protection_rule r1 r2) (branch_field k)
     = override (Option.bind r1 (branch_field k)) (Option.bind r2 (branch_field k))"
  by (cases r1; cases r2; cases k) (simp_all add: merge_branch_protection_rule_def override_map_option)

lemma copied_branches:
  "gm_wf m \<Longrightarrow> gm_get (foldl (\<lambda>a (b, r). gm_put b (copy_branch_protection_rule r) a) [] m) b = gm_get m b"
  using gm_get_copy [of m "[]" b] by (simp add: gm_copy_def split: option.splits)

lemma copied_branches_wf: "gm_wf (foldl (\<lambda>a (b, r). gm_put b (copy_branch_protection_rule r) a) [] m)"
  using gm_wf_copy [of "[]" m] by (simp add: gm_copy_def)

lemma merge_rule_None [simp]:
  "merge_branch_protection_rule r None = r" "merge_branch_protection_rule None r = r"
  by (cases r; simp add: merge_branch_protection_rule_def)+

text \<open>The loop over the override's branches merges each rule into the entry of its branch.\<close>

lemma merged_branches:
  "gm_wf m2 \<Longrightarrow>
   gm_at None (foldl (\<lambda>m (b, r). gm_put b (merge_branch_protection_rule (gm_at None m b) r) m) m1 m2) b
     = merge_branch_protection_rule (gm_at None m1 b) (gm_at None m2 b)"
proof (induction m2 arbitrary: m1)
  case Nil
  then show ?case by (simp add: gm_at_def)
next
  case (Cons e m2)
  obtain b' r where e: "e = (b', r)" by (cases e)
  have wf: "gm_wf m2" and fresh: "gm_get m2 b' = None"
    using Cons.prems by (auto simp: e gm_wf_def gm_get_def map_of_eq_None_iff)
  show ?case using Cons.IH [OF wf] fresh by (simp add: e gm_at_def)
qed

lemma merged_branches_wf:
  "gm_wf m1 \<Longrightarrow> gm_wf (foldl (\<lambda>m (b, r). gm_put b (merge_branch_protection_rule (gm_at None m b) r) m) m1 m2)"
  by (induction m2 arbitrary: m1) auto

lemma override_branch_rule:
  "security_wf (Some ov) \<Longrightarrow>
   Option.bind (branch_rule (override_security c ov) b) (branch_field k)
     = override (Option.bind (branch_rule c b) (branch_field k)) (Option.bind (branch_rule ov b) (branch_field k))"
  by (simp add: branch_rule_def override_security_def security_wf_def merged_branches merge_branch_field)

lemma copy_branch_rule:
  "security_wf (Some c) \<Longrightarrow> branch_rule (copy_security_base c) b = branch_rule c b"
  by (simp add: branch_rule_def copy_security_base_def security_wf_def gm_at_def copied_branches
      del: copy_rule_id)

lemma empty_branch_rule [simp]: "branch_rule empty_security_settings b = None"
  by (simp add: branch_rule_def empty_security_settings_def)

lemma security_field_simps [simp]:
  "security_field k empty_security_settings = None"
  "security_field k (copy_security_base c) = security_field k c"
  "security_field k (override_security c ov) = override (security_field k c) (security_field k ov)"
  by (cases k; simp add: empty_security_settings_def copy_security_base_def override_security_def
      override_map_option)+

lemma merge_permission_get:
  assumes "permission_wf p1" and "permission_wf p2"
  shows "Option.bind (merge_permission_settings p1 p2) (\<lambda>x. gm_get (pm_TeamPermissions x) t)
      = override (Option.bind p1 (\<lambda>x. gm_get (pm_TeamPermissions x) t)) (Option.bind p2 (\<lambda>x. gm_get (pm_TeamPermissions x) t))"
    and "Option.bind (merge_permission_settings p1 p2) (\<lambda>x. gm_get (pm_UserPermissions x) t)
      = override (Option.bind p1 (\<lambda>x. gm_get (pm_UserPermissions x) t)) (Option.bind p2 (\<lambda>x. gm_get (pm_UserPermissions x) t))"
  using assms
  by (cases p1; cases p2; simp add: merge_permission_settings_def permission_wf_def Let_def
      gm_get_copy override_def split: option.splits)+

lemma merge_security_field:
  "Option.bind (merge_security_settings c1 c2) (security_field k)
     = override (Option.bind c1 (security_field k)) (Option.bind c2 (security_field k))"
  by (cases c1; cases c2) (simp_all add: merge_security_settings_def)

lemma merge_security_branch:
  "security_wf c1 \<Longrightarrow> security_wf c2 \<Longrightarrow>
   Option.bind (merge_security_settings c1 c2) (\<lambda>x. Option.bind (branch_rule x b) (branch_field k))
     = override (Option.bind c1 (\<lambda>x. Option.bind (branch_rule x b) (branch_field k)))
         (Option.bind c2 (\<lambda>x. Option.bind (branch_rule x b) (branch_field k)))"
  by (cases c1; cases c2) (simp_all add: merge_security_settings_def override_branch_rule copy_branch_rule)

lemma bind_map_option: "Option.bind p (\<lambda>x. map_option f (g x)) = map_option f (Option.bind p g)"
  by (cases p) simp_all

lemma merge_layer_view:
  assumes "layer_wf a" and "layer_wf b"
  shows "config_view k (merge_layer a b) = override (config_view k a) (config_view k b)"
proof -
  obtain s1 c1 p1 s2 c2 p2 where ab: "a = (s1, c1, p1)" "b = (s2, c2, p2)" by (metis prod_cases3)
  have wf: "security_wf c1" "permission_wf p1" "security_wf c2" "permission_wf p2"
    using assms by (simp_all add: ab layer_wf_def)
  show ?thesis
    by (cases k) (simp_all add: ab merge_layer_def merge_settings_field merge_security_field
        merge_security_branch [OF wf(1,3)] bind_map_option merge_permission_get [OF wf(2,4)] override_map_option)
qed

lemma merge_layer_wf: "layer_wf a \<Longrightarrow> layer_wf b \<Longrightarrow> layer_wf (merge_layer a b)"
  by (auto simp: layer_wf_def merge_layer_def security_wf_def permission_wf_def merge_security_settings_def
      merge_permission_settings_def Let_def override_security_def copy_security_base_def
      empty_security_settings_def copied_branches_wf merged_branches_wf simp del: copy_rule_id
      split: prod.splits option.splits)

interpretation layers: override_layers config_view "(None, None, None)" merge_layer layer_wf
proof unfold_locales
  show "config_view k (None, None, None) = None" for k by (cases k) simp_all
  show "layer_wf (None, None, None)" by (simp add: layer_wf_def security_wf_def permission_wf_def)
qed (auto intro: merge_layer_view merge_layer_wf)

section \<open>The fields the merges forget\<close>

text \<open>
  Five settings and three security settings have no line in the merge functions: the value
  of the override is ignored, and the security ones lose the base's value too.
\<close>

lemma merge_forgotten_settings:
  "map_option (\<lambda>m. (rs_HasDiscussions m, rs_HasPages m, rs_AllowAutoMerge m, rs_AllowForking m,
       rs_WebCommitSignoffRequired m)) (merge_repo_settings (Some b) ov)
     = Some (rs_HasDiscussions b, rs_HasPages b, rs_AllowAutoMerge b, rs_AllowForking b,
       rs_WebCommitSignoffRequired b)"
  by (simp add: merge_repo_settings_def split: option.splits)

definition forgotten_unset :: "layer \<Rightarrow> bool" where
  "forgotten_unset l \<longleftrightarrow> (case l of (s, c, p) \<Rightarrow>
     (case s of None \<Rightarrow> True
      | Some x \<Rightarrow> rs_HasDiscussions x = None \<and> rs_HasPages x = None \<and> rs_AllowAutoMerge x = None \<and>
          rs_AllowForking x = None \<and> rs_WebCommitSignoffRequired x = None) \<and>
     (case c of None \<Rightarrow> True
      | Some x \<Rightarrow> ss_AutomatedSecurityFixes x = None \<and> ss_SecretScanning x = None \<and>
          ss_SecretScanningPushProtection x = None))"

lemma merge_forgotten: "forgotten_unset a \<Longrightarrow> forgotten_unset (merge_layer a b)"
  by (auto simp: forgotten_unset_def merge_layer_def merge_repo_settings_def merge_security_settings_def Let_def
      empty_repo_settings_def empty_security_settings_def copy_security_base_def override_security_def
      simp del: copy_rule_id split: prod.splits option.splits)

end
