(* ===== verification/RepoTemplates.thy ===== *)
theory RepoTemplates
  imports RepoMerge
begin

text \<open>
  Template inheritance (\<open>pkg/config/repo_config_schema.go\<close>): validation, the three traversals of
  the base chain and the resolution of a template.
\<close>

section \<open>Template inheritance\<close>

datatype template_error =
    CircularInheritance
  | BaseNotFound string
  | CircularChain string
  | TemplateNotFound string
  | CircularTemplatePath "string list"

function check_template_inheritance ::
  "string \<Rightarrow> repo_template \<Rightarrow> (string, repo_template) gomap \<Rightarrow> string list \<Rightarrow> template_error option" where
  "check_template_inheritance name template templates visited =
     (if name \<in> set visited then Some CircularInheritance
      else if rt_Base template = '''' then None
      else (case gm_get templates (rt_Base template) of
              None \<Rightarrow> Some (BaseNotFound (rt_Base template))
            | Some base_template \<Rightarrow>
                check_template_inheritance (rt_Base template) base_template templates (name # visited)))"
  by pat_completeness auto
termination
proof (relation "measures [\<lambda>(name, template, templates, visited).
          card (insert name (set (gm_keys templates)) - set visited)]", goal_cases)
  case (2 name template templates visited base)
  then have "rt_Base template \<in> set (gm_keys templates)" by (simp add: gm_keys_iff)
  then have "insert (rt_Base template) (set (gm_keys templates)) - set (name # visited)
      \<subset> insert name (set (gm_keys templates)) - set visited" using 2(1) by auto
  then show ?case by (simp add: psubset_card_mono del: card_Diff_insert insert_subset)
qed simp

declare check_template_inheritance.simps [simp del]

definition validate_template_inheritance ::
  "string \<Rightarrow> repo_template \<Rightarrow> (string, repo_template) gomap \<Rightarrow> template_error option" where
  "validate_template_inheritance name template templates =
     check_template_inheritance name template templates []"

datatype config_error =
    VersionRequired
  | OrganizationRequired
  | TemplateInvalid string template_error
  | PatternMatchRequired nat
  | NothingToMerge
  | ReadFailed string
  | ParseFailed string

definition validate_repo_config :: "repo_config \<Rightarrow> config_error option" where
  "validate_repo_config config =
     (if rc_Version config = '''' then Some VersionRequired
      else if rc_Organization config = '''' then Some OrganizationRequired
      else case List.map_filter (\<lambda>(name, template).
                  map_option (TemplateInvalid name)
                    (validate_template_inheritance name template (rc_Templates config)))
                (rc_Templates config) of
             e # _ \<Rightarrow> Some e
           | [] \<Rightarrow> (case rc_Repositories config of None \<Rightarrow> None
               | Some targets \<Rightarrow>
                   (case List.find (\<lambda>(i, pattern). pc_Match pattern = '''')
                           (zip [0..<length (tg_Patterns targets)] (tg_Patterns targets)) of
                      None \<Rightarrow> None | Some (i, _) \<Rightarrow> Some (PatternMatchRequired i))))"

function inheritance_chain_loop ::
  "(string, repo_template) gomap \<Rightarrow> string \<Rightarrow> string \<Rightarrow> string list \<Rightarrow> string list \<Rightarrow> template_error + string list" where
  "inheritance_chain_loop templates templateName current chain visited =
     (if current = '''' then Inr chain
      else if current \<in> set visited then Inl (CircularChain templateName)
      else (case gm_get templates current of
              None \<Rightarrow> Inl (TemplateNotFound current)
            | Some template \<Rightarrow>
                inheritance_chain_loop templates templateName (rt_Base template) (chain @ [current]) (current # visited)))"
  by pat_completeness auto
termination
proof (relation "measures [\<lambda>(templates, name, current, chain, visited). card (set (gm_keys templates) - set visited)]",
    goal_cases)
  case (2 templates name current chain visited template)
  then show ?case
    using unseen_key_step [of templates current template "set visited"] by (simp del: card_Diff_insert)
qed simp

declare inheritance_chain_loop.simps [simp del]

definition get_template_inheritance_chain :: "repo_config \<Rightarrow> string \<Rightarrow> template_error + string list" where
  "get_template_inheritance_chain rc templateName =
     inheritance_chain_loop (rc_Templates rc) templateName templateName [] []"

definition get_all_template_chains :: "repo_config \<Rightarrow> (string, string list) gomap" where
  "get_all_template_chains rc =
     foldl (\<lambda>chains name. case get_template_inheritance_chain rc name of
              Inl _ \<Rightarrow> chains | Inr chain \<Rightarrow> gm_put name chain chains)
       [] (gm_keys (rc_Templates rc))"

definition merge_template :: "repo_template \<Rightarrow> repo_template \<Rightarrow> repo_template" where
  "merge_template baseTemplate template =
     \<lparr>rt_Base = '''', rt_Description = rt_Description template,
      rt_Settings = merge_repo_settings (rt_Settings baseTemplate) (rt_Settings template),
      rt_Security = merge_security_settings (rt_Security baseTemplate) (rt_Security template),
      rt_Permissions = merge_permission_settings (rt_Permissions baseTemplate) (rt_Permissions template),
      rt_Topics = (if rt_Topics template \<noteq> [] then rt_Topics template else rt_Topics baseTemplate),
      rt_RequiredFiles =
        (if rt_RequiredFiles template \<noteq> [] then rt_RequiredFiles template else rt_RequiredFiles baseTemplate),
      rt_Webhooks = (if rt_Webhooks template \<noteq> [] then rt_Webhooks template else rt_Webhooks baseTemplate),
      rt_Environments =
        (if rt_Environments template \<noteq> [] then rt_Environments template else rt_Environments baseTemplate)\<rparr>"

function resolve_template_with_chain ::
  "(string, repo_template) gomap \<Rightarrow> string \<Rightarrow> string list \<Rightarrow> template_error + repo_template" where
  "resolve_template_with_chain templates templateName chain =
     (if templateName \<in> set chain then Inl (CircularTemplatePath (chain @ [templateName]))
      else (case gm_get templates templateName of
              None \<Rightarrow> Inl (TemplateNotFound templateName)
            | Some template \<Rightarrow>
                (if rt_Base template = '''' then Inr template
                 else (case resolve_template_with_chain templates (rt_Base template) (chain @ [templateName]) of
                         Inl e \<Rightarrow> Inl e
                       | Inr baseTemplate \<Rightarrow> Inr (merge_template baseTemplate template)))))"
  by pat_completeness auto
termination
proof (relation "measures [\<lambda>(templates, name, chain). card (set (gm_keys templates) - set chain)]", goal_cases)
  case (2 templates name chain template)
  then show ?case
    using unseen_key_step [of templates name template "set chain"] by (simp del: card_Diff_insert)
qed simp

declare resolve_template_with_chain.simps [simp del]

definition resolve_template :: "repo_config \<Rightarrow> string \<Rightarrow> template_error + repo_template" where
  "resolve_template rc templateName = resolve_template_with_chain (rc_Templates rc) templateName []"

section \<open>The chain of base templates\<close>

text \<open>
  The specification of the three traversals: \<open>base_chain T n ns\<close> holds when following the base
  names from \<open>n\<close> visits \<open>ns\<close> and ends at a template without a base.
\<close>

inductive base_chain :: "(string, repo_template) gomap \<Rightarrow> string \<Rightarrow> string list \<Rightarrow> bool" for T where
  root: "gm_get T n = Some t \<Longrightarrow> rt_Base t = '''' \<Longrightarrow> base_chain T n [n]"
| step: "gm_get T n = Some t \<Longrightarrow> rt_Base t \<noteq> '''' \<Longrightarrow> base_chain T (rt_Base t) ns \<Longrightarrow> base_chain T n (n # ns)"

lemma base_chain_unfold:
  "base_chain T n ns \<longleftrightarrow>
   (\<exists>t. gm_get T n = Some t \<and>
     (rt_Base t = '''' \<and> ns = [n] \<or> rt_Base t \<noteq> '''' \<and> (\<exists>ms. base_chain T (rt_Base t) ms \<and> ns = n # ms)))"
  by (subst base_chain.simps) auto

lemma base_chain_step_ex:
  "gm_get T n = Some t \<Longrightarrow> rt_Base t \<noteq> '''' \<Longrightarrow>
   (\<exists>ns. base_chain T n ns \<and> P ns) \<longleftrightarrow> (\<exists>ms. base_chain T (rt_Base t) ms \<and> P (n # ms))"
  by (subst base_chain_unfold) auto

lemma base_chain_unique: "base_chain T n ns \<Longrightarrow> base_chain T n ms \<Longrightarrow> ns = ms"
proof (induction arbitrary: ms rule: base_chain.induct)
  case (root n t)
  note ms = root.prems [unfolded base_chain_unfold [of T n]]
  show ?case using ms root.hyps by auto
next
  case (step n t ns)
  note ms = step.prems [unfolded base_chain_unfold [of T n]]
  then obtain ms' where "base_chain T (rt_Base t) ms'" "ms = n # ms'" using step.hyps(1,2) by auto
  then show ?case using step.IH by simp
qed

lemma base_chain_member:
  "base_chain T n ns \<Longrightarrow> x \<in> set ns \<Longrightarrow> \<exists>ms. base_chain T x ms \<and> length ms \<le> length ns"
proof (induction rule: base_chain.induct)
  case (root n t)
  then show ?case using base_chain.root by force
next
  case (step n t ns)
  then show ?case using base_chain.step [OF step.hyps] by (cases "x = n") force+
qed

lemma base_chain_distinct: "base_chain T n ns \<Longrightarrow> distinct ns"
proof (induction rule: base_chain.induct)
  case (root n t)
  then show ?case by simp
next
  case (step n t ns)
  have "n \<notin> set ns"
  proof
    assume "n \<in> set ns"
    then obtain ms where "base_chain T n ms" "length ms \<le> length ns"
      using base_chain_member [OF step.hyps(3)] by blast
    then show False using base_chain_unique [OF base_chain.step [OF step.hyps]] by fastforce
  qed
  then show ?case using step.IH by simp
qed

lemma base_chain_head: "base_chain T n ns \<Longrightarrow> ns \<noteq> [] \<and> hd ns = n"
  by (induction rule: base_chain.induct) simp_all

lemma check_iff_chain:
  "gm_get templates name = Some template \<Longrightarrow>
   check_template_inheritance name template templates visited = None \<longleftrightarrow>
     (\<exists>ns. base_chain templates name ns \<and> set ns \<inter> set visited = {})"
proof (induction name template templates visited rule: check_template_inheritance.induct)
  case (1 name template templates visited)
  have dist: "base_chain templates (rt_Base template) ns \<Longrightarrow> rt_Base template \<noteq> '''' \<Longrightarrow> name \<notin> set ns" for ns
    using base_chain_distinct [OF base_chain.step [OF 1(2)]] by simp
  consider "name \<in> set visited" | "name \<notin> set visited" "rt_Base template = ''''"
    | "name \<notin> set visited" "rt_Base template \<noteq> ''''" "gm_get templates (rt_Base template) = None"
    | b where "name \<notin> set visited" "rt_Base template \<noteq> ''''" "gm_get templates (rt_Base template) = Some b"
    by auto
  then show ?case
  proof cases
    case 1
    then show ?thesis using \<open>gm_get templates name = Some template\<close>
      by (subst check_template_inheritance.simps, subst base_chain_unfold) auto
  next
    case 2
    then show ?thesis using \<open>gm_get templates name = Some template\<close>
      by (subst check_template_inheritance.simps, subst base_chain_unfold) auto
  next
    case 3
    then have "\<not> base_chain templates (rt_Base template) ns" for ns by (subst base_chain_unfold) simp
    then show ?thesis using 3 \<open>gm_get templates name = Some template\<close>
      by (subst check_template_inheritance.simps, subst base_chain_unfold) auto
  next
    case 4
    note ih = "1.IH" [OF 4 4(3)]
    show ?thesis using 4 dist
      by (subst check_template_inheritance.simps, subst base_chain_step_ex [OF \<open>gm_get templates name = Some template\<close> 4(2)])
        (auto simp: ih)
  qed
qed

lemma loop_iff_chain:
  "inheritance_chain_loop templates nm current chain visited = Inr out \<longleftrightarrow>
     (if current = '''' then out = chain
      else \<exists>ns. base_chain templates current ns \<and> set ns \<inter> set visited = {} \<and> out = chain @ ns)"
proof (induction templates nm current chain visited rule: inheritance_chain_loop.induct)
  case (1 templates nm current chain visited)
  have dist: "gm_get templates current = Some t \<Longrightarrow> base_chain templates (rt_Base t) ns \<Longrightarrow>
      rt_Base t \<noteq> '''' \<Longrightarrow> current \<notin> set ns" for t ns
    using base_chain_distinct [OF base_chain.step] by fastforce
  consider "current = ''''" | "current \<noteq> ''''" "current \<in> set visited \<or> gm_get templates current = None"
    | t where "current \<noteq> ''''" "current \<notin> set visited" "gm_get templates current = Some t" by auto
  then show ?case
  proof cases
    case 1
    then show ?thesis by (auto simp: inheritance_chain_loop.simps)
  next
    case 2
    then show ?thesis
      by (subst inheritance_chain_loop.simps, subst base_chain_unfold) (auto split: option.splits)
  next
    case 3
    note ih = "1.IH" [OF 3]
    show ?thesis
      by (subst inheritance_chain_loop.simps, subst base_chain_unfold) (use 3 dist [OF 3(3)] in \<open>auto simp: ih\<close>)
  qed
qed

lemma chain_iff: "name \<noteq> '''' \<Longrightarrow>
  get_template_inheritance_chain rc name = Inr ns \<longleftrightarrow> base_chain (rc_Templates rc) name ns"
  by (simp add: get_template_inheritance_chain_def loop_iff_chain)

text \<open>The value of a chain: each template merged over the resolution of its bases.\<close>

fun merged_chain :: "(string, repo_template) gomap \<Rightarrow> string list \<Rightarrow> repo_template" where
  "merged_chain T [] = undefined"
| "merged_chain T [n] = the (gm_get T n)"
| "merged_chain T (n # m # ns) = merge_template (merged_chain T (m # ns)) (the (gm_get T n))"

lemma merged_chain_step: "ns \<noteq> [] \<Longrightarrow> merged_chain T (n # ns) = merge_template (merged_chain T ns) (the (gm_get T n))"
  by (cases ns) simp_all

lemma resolve_iff_chain:
  "resolve_template_with_chain T name chain = Inr r \<longleftrightarrow>
     (\<exists>ns. base_chain T name ns \<and> set ns \<inter> set chain = {} \<and> r = merged_chain T ns)"
proof (induction T name chain arbitrary: r rule: resolve_template_with_chain.induct)
  case (1 T name chain)
  have dist: "gm_get T name = Some t \<Longrightarrow> base_chain T (rt_Base t) ns \<Longrightarrow>
      rt_Base t \<noteq> '''' \<Longrightarrow> name \<notin> set ns \<and> ns \<noteq> []" for t ns
    using base_chain_distinct [OF base_chain.step] base_chain_head by fastforce
  consider "name \<in> set chain \<or> gm_get T name = None"
    | t where "name \<notin> set chain" "gm_get T name = Some t" by auto
  then show ?case
  proof cases
    case 1
    then show ?thesis
      by (subst resolve_template_with_chain.simps, subst base_chain_unfold) (auto split: option.splits)
  next
    case 2
    show ?thesis
    proof (cases "rt_Base t = ''''")
      case True
      then show ?thesis
        by (subst resolve_template_with_chain.simps, subst base_chain_unfold) (use 2 in auto)
    next
      case False
      note ih = "1.IH" [OF 2 False]
      have "resolve_template_with_chain T name chain = Inr r \<longleftrightarrow>
          (\<exists>b. resolve_template_with_chain T (rt_Base t) (chain @ [name]) = Inr b \<and> r = merge_template b t)"
        by (subst resolve_template_with_chain.simps) (use 2 False in \<open>auto split: sum.splits\<close>)
      also have "\<dots> \<longleftrightarrow> (\<exists>ns. base_chain T (rt_Base t) ns \<and> set ns \<inter> set (chain @ [name]) = {} \<and>
          r = merge_template (merged_chain T ns) t)"
        unfolding ih by blast
      also have "\<dots> \<longleftrightarrow> (\<exists>ns. base_chain T name ns \<and> set ns \<inter> set chain = {} \<and> r = merged_chain T ns)"
        using 2 False dist [OF 2(2)]
        by (subst base_chain_step_ex [OF 2(2) False]) (auto simp: merged_chain_step cong: conj_cong)
      finally show ?thesis .
    qed
  qed
qed

lemma resolve_iff: "resolve_template rc name = Inr r \<longleftrightarrow>
    (\<exists>ns. base_chain (rc_Templates rc) name ns \<and> r = merged_chain (rc_Templates rc) ns)"
  by (simp add: resolve_template_def resolve_iff_chain)

section \<open>The fields of a resolved template\<close>

definition template_layer :: "repo_template \<Rightarrow> layer" where
  "template_layer t = (rt_Settings t, rt_Security t, rt_Permissions t)"

definition templates_wf :: "(string, repo_template) gomap \<Rightarrow> bool" where
  "templates_wf T \<longleftrightarrow> gm_wf T \<and> (\<forall>(n, t)\<in>set T. layer_wf (template_layer t))"

lemma templates_wf_layer: "templates_wf T \<Longrightarrow> gm_get T n = Some t \<Longrightarrow> layer_wf (template_layer t)"
  by (auto simp: templates_wf_def dest: gm_get_Some_in)

lemma template_layer_merge:
  "template_layer (merge_template b t) = merge_layer (template_layer b) (template_layer t)"
  by (simp add: template_layer_def merge_template_def merge_layer_def)

lemma merged_chain_fields:
  assumes "base_chain T n ns" and "templates_wf T"
  shows "config_view k (template_layer (merged_chain T ns))
      = last_set (map (\<lambda>m. config_view k (template_layer (the (gm_get T m)))) (rev ns))
    \<and> layer_wf (template_layer (merged_chain T ns))"
  using assms(1)
proof (induction rule: base_chain.induct)
  case (root n t)
  then show ?case using templates_wf_layer [OF assms(2)] by simp
next
  case (step n t ns)
  then show ?case using templates_wf_layer [OF assms(2) step.hyps(1)] base_chain_head [OF step.hyps(3)]
    by (simp add: merged_chain_step template_layer_merge merge_layer_view merge_layer_wf)
qed

lemma merged_chain_lists:
  "base_chain T n ns \<Longrightarrow>
   rt_Topics (merged_chain T ns) = (case List.find (\<lambda>xs. xs \<noteq> []) (map (\<lambda>m. rt_Topics (the (gm_get T m))) ns) of
     None \<Rightarrow> [] | Some xs \<Rightarrow> xs)"
proof (induction rule: base_chain.induct)
  case (root n t)
  then show ?case by simp
next
  case (step n t ns)
  then show ?case using base_chain_head [OF step.hyps(3)]
    by (simp add: merged_chain_step merge_template_def)
qed

section \<open>Properties\<close>

text \<open>
  The validation of one template, the computation of its inheritance chain and
  its resolution agree on which templates are sound: they succeed together.
\<close>

theorem inheritance_checks_agree:
  assumes "gm_get (rc_Templates rc) name = Some template" and "name \<noteq> ''''"
  shows "(validate_template_inheritance name template (rc_Templates rc) = None
      \<longleftrightarrow> (\<exists>ns. get_template_inheritance_chain rc name = Inr ns))
    \<and> ((\<exists>ns. get_template_inheritance_chain rc name = Inr ns) \<longleftrightarrow> (\<exists>r. resolve_template rc name = Inr r))"
  using assms by (auto simp: chain_iff resolve_iff validate_template_inheritance_def check_iff_chain)

definition sample_template :: "string \<Rightarrow> bool option \<Rightarrow> string list \<Rightarrow> repo_template" where
  "sample_template base private topics =
     \<lparr>rt_Base = base, rt_Description = [], rt_Settings = Some (empty_repo_settings\<lparr>rs_Private := private\<rparr>),
      rt_Security = None, rt_Permissions = None, rt_Topics = topics, rt_RequiredFiles = [],
      rt_Webhooks = [], rt_Environments = []\<rparr>"

definition sample_config :: repo_config where
  "sample_config =
     \<lparr>rc_Version = ''1.0.0'', rc_Organization = ''acme'', rc_Defaults = None,
      rc_Templates = [(''go'', sample_template ''base'' None [''go'']), (''base'', sample_template '''' (Some True) [''base'']),
        (''loop'', sample_template ''loop'' None [])],
      rc_Repositories = None, rc_Policies = [], rc_PolicyGroups = [], rc_PolicyPresets = []\<rparr>"

theorem inheritance_checks_agree_witness:
  "get_template_inheritance_chain sample_config ''go'' = Inr [''go'', ''base''] \<and>
   validate_template_inheritance ''go'' (sample_template ''base'' None [''go'']) (rc_Templates sample_config) = None"
proof -
  have c: "get_template_inheritance_chain sample_config ''go'' = Inr [''go'', ''base'']" by code_simp
  have "gm_get (rc_Templates sample_config) ''go'' = Some (sample_template ''base'' None [''go''])"
    by (simp add: sample_config_def)
  from inheritance_checks_agree [OF this] c show ?thesis by simp
qed

text \<open>
  In a configuration that validation accepts, every template resolves and
  every named template has an inheritance chain, which starts at it and repeats nothing.
\<close>

theorem validated_templates_resolve:
  assumes "validate_repo_config rc = None" and "gm_wf (rc_Templates rc)"
    and "gm_get (rc_Templates rc) name = Some template"
  shows "(\<exists>r. resolve_template rc name = Inr r) \<and>
    (name \<noteq> '''' \<longrightarrow> (\<exists>ns. get_template_inheritance_chain rc name = Inr (name # ns) \<and> distinct (name # ns)))"
proof -
  have "List.map_filter (\<lambda>(name, template). map_option (TemplateInvalid name)
      (validate_template_inheritance name template (rc_Templates rc))) (rc_Templates rc) = []"
    using assms(1) by (auto simp: validate_repo_config_def split: if_splits list.splits)
  then have "\<forall>(n, t)\<in>set (rc_Templates rc). validate_template_inheritance n t (rc_Templates rc) = None"
    by (fastforce simp: List.map_filter_def filter_empty_conv)
  then have "validate_template_inheritance name template (rc_Templates rc) = None"
    using gm_get_Some_in [OF assms(3)] by blast
  then obtain ns where ns: "base_chain (rc_Templates rc) name ns"
    using assms(3) by (auto simp: validate_template_inheritance_def check_iff_chain)
  then show ?thesis using base_chain_head [OF ns] base_chain_distinct [OF ns]
    by (cases ns) (auto simp: resolve_iff chain_iff)
qed

theorem validated_templates_resolve_witness:
  "\<exists>r. resolve_template (sample_config\<lparr>rc_Templates := take 2 (rc_Templates sample_config)\<rparr>) ''go'' = Inr r"
proof -
  let ?rc = "sample_config\<lparr>rc_Templates := take 2 (rc_Templates sample_config)\<rparr>"
  have "validate_repo_config ?rc = None" by code_simp
  moreover have "gm_wf (rc_Templates ?rc)" by code_simp
  moreover have "gm_get (rc_Templates ?rc) ''go'' = Some (sample_template ''base'' None [''go''])"
    by (simp add: sample_config_def)
  ultimately show ?thesis using validated_templates_resolve by blast
qed

text \<open>
  Property C5. A template resolves to the merge of its inheritance chain: every mergeable
  field has the value set by the template nearest to it in the chain, and the topics are
  those of the nearest template that lists any.
\<close>

theorem resolve_template_fields:
  assumes "resolve_template rc name = Inr r" and "name \<noteq> ''''" and "templates_wf (rc_Templates rc)"
  shows "\<exists>ns. get_template_inheritance_chain rc name = Inr ns \<and>
    config_view k (template_layer r)
      = last_set (map (\<lambda>m. config_view k (template_layer (the (gm_get (rc_Templates rc) m)))) (rev ns)) \<and>
    rt_Topics r = (case List.find (\<lambda>xs. xs \<noteq> []) (map (\<lambda>m. rt_Topics (the (gm_get (rc_Templates rc) m))) ns) of
      None \<Rightarrow> [] | Some xs \<Rightarrow> xs)"
proof -
  obtain ns where ns: "base_chain (rc_Templates rc) name ns" "r = merged_chain (rc_Templates rc) ns"
    using assms(1) by (auto simp: resolve_iff)
  then show ?thesis
    using merged_chain_fields [OF ns(1) assms(3), of k] merged_chain_lists [OF ns(1)] assms(2)
    by (auto simp: chain_iff)
qed

theorem resolve_template_fields_witness:
  "\<exists>r. resolve_template sample_config ''go'' = Inr r \<and>
     config_view (Setting S_Private) (template_layer r) = Some (FBool True) \<and> rt_Topics r = [''go'']"
proof -
  obtain r where r: "resolve_template sample_config ''go'' = Inr r"
    by (cases "resolve_template sample_config ''go''") (code_simp, blast)
  have wf: "templates_wf (rc_Templates sample_config)" by code_simp
  have c: "get_template_inheritance_chain sample_config ''go'' = Inr [''go'', ''base'']" by code_simp
  show ?thesis using r c resolve_template_fields [OF r _ wf, of "Setting S_Private"]
    by (simp add: sample_config_def sample_template_def template_layer_def)
qed

end
