(* ===== verification/RepoEffective.thy ===== *)
theory RepoEffective
  imports RepoTemplates
begin

text \<open>
  The operations on a whole configuration file (\<open>pkg/config/repo_config_schema.go\<close>): loading,
  merging several files, the conflicts between a template and its base, the effective
  configuration of one repository, and the policy exceptions.

  Reading the file, decoding YAML and the environment are arguments of \<open>load_repo_config\<close>.
\<close>

section \<open>Loading\<close>

datatype load_error = ReadFailed string | ParseFailed string | InvalidRepoConfig config_error

definition expand_hooks :: "(string \<Rightarrow> string) \<Rightarrow> security_settings option \<Rightarrow> security_settings option" where
  "expand_hooks env sec =
     map_option (\<lambda>c. c\<lparr>ss_Webhooks := map_option (map (\<lambda>h. h\<lparr>wh_URL := os_expand env (wh_URL h),
        wh_Secret := os_expand env (wh_Secret h)\<rparr>)) (ss_Webhooks c)\<rparr>) sec"

definition expand_repo_config_env_vars :: "(string \<Rightarrow> string) \<Rightarrow> repo_config \<Rightarrow> repo_config" where
  "expand_repo_config_env_vars env config = config\<lparr>
     rc_Templates := map (\<lambda>(name, t). (name, t\<lparr>rt_Security := expand_hooks env (rt_Security t)\<rparr>)) (rc_Templates config),
     rc_Repositories := map_option (\<lambda>targets. targets\<lparr>
        tg_Specific := map (\<lambda>r. r\<lparr>sc_Security := expand_hooks env (sc_Security r)\<rparr>) (tg_Specific targets)\<rparr>)
       (rc_Repositories config)\<rparr>"

definition load_repo_config ::
  "(string \<Rightarrow> string) \<Rightarrow> (string \<Rightarrow> string + string) \<Rightarrow> (string \<Rightarrow> string + repo_config) \<Rightarrow> string \<Rightarrow>
   load_error + repo_config" where
  "load_repo_config env read_file yaml_unmarshal path =
     (case read_file (os_expand env path) of
        Inl e \<Rightarrow> Inl (ReadFailed e)
      | Inr data \<Rightarrow> (case yaml_unmarshal data of
          Inl e \<Rightarrow> Inl (ParseFailed e)
        | Inr config0 \<Rightarrow>
            let config = expand_repo_config_env_vars env config0 in
            (case validate_repo_config config of
               Some e \<Rightarrow> Inl (InvalidRepoConfig e)
             | None \<Rightarrow> Inr config)))"

section \<open>Merging files\<close>

text \<open>The first configuration must not be nil: its version is read before the nil check.\<close>

definition merge_repo_config :: "repo_config \<Rightarrow> repo_config option \<Rightarrow> repo_config" where
  "merge_repo_config result config =
     (case config of None \<Rightarrow> result
      | Some c \<Rightarrow> result\<lparr>rc_Templates := gm_copy (rc_Templates result) (rc_Templates c),
          rc_Policies := gm_copy (rc_Policies result) (rc_Policies c),
          rc_Defaults := override (rc_Defaults result) (rc_Defaults c),
          rc_Repositories := override (rc_Repositories result) (rc_Repositories c)\<rparr>)"

datatype merge_outcome = MergePanic | NothingToMerge | Merged repo_config

definition merge_repo_configs :: "repo_config option list \<Rightarrow> merge_outcome" where
  "merge_repo_configs configs =
     (case configs of
        [] \<Rightarrow> NothingToMerge
      | None # _ \<Rightarrow> MergePanic
      | Some first # _ \<Rightarrow> Merged (foldl merge_repo_config
          \<lparr>rc_Version = rc_Version first, rc_Organization = rc_Organization first, rc_Defaults = None,
           rc_Templates = [], rc_Repositories = None, rc_Policies = [], rc_PolicyGroups = [],
           rc_PolicyPresets = []\<rparr> configs))"

section \<open>Conflicts between a template and its base\<close>

definition permission_level :: "string \<Rightarrow> int option" where
  "permission_level p =
     gm_get [(''read'', 1), (''triage'', 2), (''write'', 3), (''maintain'', 4), (''admin'', 5)] p"

definition is_higher_permission :: "string \<Rightarrow> string \<Rightarrow> bool" where
  "is_higher_permission perm1 perm2 =
     (case (permission_level (to_lower perm1), permission_level (to_lower perm2)) of
        (Some level1, Some level2) \<Rightarrow> level2 < level1
      | _ \<Rightarrow> False)"

interpretation config_permissions: ranked_names "\<lambda>p. permission_level (to_lower p)" is_higher_permission
  by unfold_locales (auto simp: is_higher_permission_def split: option.splits)

datatype override_warning =
    UnresolvedBase string template_error
  | ReducesReviews string string int int
  | DisablesAdmins string string
  | EscalatesTeam string string string string
  | MadePublic string

text \<open>A nil rule on either side is dereferenced: None is the panic.\<close>

definition check_branch_protection_conflicts ::
  "string \<Rightarrow> string \<Rightarrow> branch_protection_rule option \<Rightarrow> branch_protection_rule option \<Rightarrow> override_warning list option" where
  "check_branch_protection_conflicts templateName branch derivedRule baseRule =
     (case (derivedRule, baseRule) of
        (Some d, Some b) \<Rightarrow> Some (
          (case (bp_RequiredReviews d, bp_RequiredReviews b) of
             (Some dr, Some br) \<Rightarrow> if dr < br then [ReducesReviews templateName branch br dr] else []
           | _ \<Rightarrow> []) @
          (if bp_EnforceAdmins b = Some True \<and> bp_EnforceAdmins d = Some False
           then [DisablesAdmins templateName branch] else []))
      | _ \<Rightarrow> None)"

fun check_branches ::
  "string \<Rightarrow> (string, branch_protection_rule option) gomap \<Rightarrow> (string \<times> branch_protection_rule option) list \<Rightarrow>
   override_warning list option" where
  "check_branches templateName baseRules [] = Some []"
| "check_branches templateName baseRules ((branch, derivedRule) # rest) =
     (case gm_get baseRules branch of
        None \<Rightarrow> check_branches templateName baseRules rest
      | Some baseRule \<Rightarrow>
          (case check_branch_protection_conflicts templateName branch derivedRule baseRule of
             None \<Rightarrow> None
           | Some cs \<Rightarrow> map_option (\<lambda>rs. cs @ rs) (check_branches templateName baseRules rest)))"

definition check_security_conflicts :: "string \<Rightarrow> repo_template \<Rightarrow> repo_template \<Rightarrow> override_warning list option" where
  "check_security_conflicts templateName derived base =
     (case (rt_Security derived, rt_Security base) of
        (Some d, Some b) \<Rightarrow> check_branches templateName (ss_BranchProtection b) (ss_BranchProtection d)
      | _ \<Rightarrow> Some [])"

definition check_permission_conflicts :: "string \<Rightarrow> repo_template \<Rightarrow> repo_template \<Rightarrow> override_warning list" where
  "check_permission_conflicts templateName derived base =
     (case (rt_Permissions derived, rt_Permissions base) of
        (Some d, Some b) \<Rightarrow> List.map_filter (\<lambda>(team, derivedPerm).
            case gm_get (pm_TeamPermissions b) team of
              None \<Rightarrow> None
            | Some basePerm \<Rightarrow>
                if is_higher_permission derivedPerm basePerm
                then Some (EscalatesTeam templateName team basePerm derivedPerm) else None)
          (pm_TeamPermissions d)
      | _ \<Rightarrow> [])"

definition check_visibility_conflicts :: "string \<Rightarrow> repo_template \<Rightarrow> repo_template \<Rightarrow> override_warning list" where
  "check_visibility_conflicts templateName derived base =
     (case (rt_Settings derived, rt_Settings base) of
        (Some d, Some b) \<Rightarrow>
          if rs_Private b = Some True \<and> rs_Private d = Some False then [MadePublic templateName] else []
      | _ \<Rightarrow> [])"

definition check_template_conflicts :: "string \<Rightarrow> repo_template \<Rightarrow> repo_template \<Rightarrow> override_warning list option" where
  "check_template_conflicts templateName derived base =
     map_option (\<lambda>cs. cs @ check_permission_conflicts templateName derived base @
        check_visibility_conflicts templateName derived base)
       (check_security_conflicts templateName derived base)"

fun validate_overrides_loop :: "repo_config \<Rightarrow> (string \<times> repo_template) list \<Rightarrow> override_warning list option" where
  "validate_overrides_loop rc [] = Some []"
| "validate_overrides_loop rc ((name, template) # rest) =
     (if rt_Base template = '''' then validate_overrides_loop rc rest
      else (case resolve_template rc (rt_Base template) of
              Inl e \<Rightarrow> map_option (\<lambda>ws. UnresolvedBase name e # ws) (validate_overrides_loop rc rest)
            | Inr baseTemplate \<Rightarrow>
                (case check_template_conflicts name template baseTemplate of
                   None \<Rightarrow> None
                 | Some cs \<Rightarrow> map_option (\<lambda>ws. cs @ ws) (validate_overrides_loop rc rest))))"

definition validate_template_overrides :: "repo_config \<Rightarrow> override_warning list option" where
  "validate_template_overrides rc = validate_overrides_loop rc (rc_Templates rc)"

section \<open>The effective configuration of a repository\<close>

text \<open>A pattern with an asterisk is escaped, anchored, and then stripped of all its ends.\<close>

definition match_pattern :: "string \<Rightarrow> string \<Rightarrow> bool" where
  "match_pattern str pattern =
     (if CHR ''*'' \<in> set pattern then
        let p1 = replace_char (CHR ''.'') [CHR 0x5C, CHR ''.''] pattern;
            p2 = replace_char (CHR ''*'') ''.*'' p1;
            p3 = ''^'' @ p2 @ ''$''
        in contains str (trim_with (\<lambda>c. c \<in> set ''^.*$'') p3)
      else str = pattern)"

record effective_config =
  ef_settings :: "repo_settings option"
  ef_security :: "security_settings option"
  ef_permissions :: "permission_settings option"
  ef_exceptions :: "policy_exception list"

definition apply_config_layer ::
  "repo_config \<Rightarrow> string \<Rightarrow> repo_settings option \<Rightarrow> security_settings option \<Rightarrow> permission_settings option \<Rightarrow>
   policy_exception list \<Rightarrow> effective_config \<Rightarrow> effective_config" where
  "apply_config_layer rc templateName settings security permissions exceptions config0 =
     (let config = (if templateName \<noteq> '''' then
                      (case resolve_template rc templateName of
                         Inr template \<Rightarrow> config0\<lparr>
                           ef_settings := merge_repo_settings (ef_settings config0) (rt_Settings template),
                           ef_security := merge_security_settings (ef_security config0) (rt_Security template),
                           ef_permissions := merge_permission_settings (ef_permissions config0) (rt_Permissions template)\<rparr>
                       | Inl _ \<Rightarrow> config0)
                    else config0)
      in config\<lparr>ef_settings := merge_repo_settings (ef_settings config) settings,
           ef_security := merge_security_settings (ef_security config) security,
           ef_permissions := merge_permission_settings (ef_permissions config) permissions,
           ef_exceptions := ef_exceptions config @ exceptions\<rparr>)"

definition apply_defaults :: "repo_config \<Rightarrow> repo_defaults option \<Rightarrow> effective_config \<Rightarrow> effective_config" where
  "apply_defaults rc defaults config =
     (case defaults of None \<Rightarrow> config
      | Some d \<Rightarrow> apply_config_layer rc (rd_Template d) (rd_Settings d) (rd_Security d) (rd_Permissions d) [] config)"

definition get_effective_config :: "repo_config \<Rightarrow> string \<Rightarrow> effective_config" where
  "get_effective_config rc repoName =
     (let config = apply_defaults rc (rc_Defaults rc)
            \<lparr>ef_settings = None, ef_security = None, ef_permissions = None, ef_exceptions = []\<rparr>
      in case rc_Repositories rc of
           None \<Rightarrow> config
         | Some targets \<Rightarrow>
             (case List.find (\<lambda>specific. sc_Name specific = repoName) (tg_Specific targets) of
                Some s \<Rightarrow> apply_config_layer rc (sc_Template s) (sc_Settings s) (sc_Security s)
                   (sc_Permissions s) (sc_Exceptions s) config
              | None \<Rightarrow> apply_defaults rc (tg_Default targets)
                  (foldl (\<lambda>config p. if match_pattern repoName (pc_Match p)
                       then apply_config_layer rc (pc_Template p) (pc_Settings p) (pc_Security p)
                              (pc_Permissions p) (pc_Exceptions p) config
                       else config) config (tg_Patterns targets))))"

section \<open>Policy exceptions\<close>

datatype exception_error =
    NoSuchPolicy string
  | NoSuchRule string string
  | MissingReason string string
  | MissingApprover string string
  | BadExpiration string string

definition validate_policy_exception ::
  "policy_exception \<Rightarrow> (string, policy_template) gomap \<Rightarrow> exception_error option" where
  "validate_policy_exception e policies =
     (case gm_get policies (px_PolicyName e) of
        None \<Rightarrow> Some (NoSuchPolicy (px_PolicyName e))
      | Some policy \<Rightarrow>
          if gm_get (pt_Rules policy) (px_RuleName e) = None then Some (NoSuchRule (px_RuleName e) (px_PolicyName e))
          else if px_Reason e = '''' then Some (MissingReason (px_PolicyName e) (px_RuleName e))
          else if px_ApprovedBy e = '''' then Some (MissingApprover (px_PolicyName e) (px_RuleName e))
          else if px_ExpiresAt e \<noteq> '''' \<and> length (px_ExpiresAt e) < 10
          then Some (BadExpiration (px_PolicyName e) (px_RuleName e))
          else None)"

datatype exception_location = InRepository string | InPattern string

definition validate_policy_exceptions :: "repo_config \<Rightarrow> (exception_location \<times> exception_error) list" where
  "validate_policy_exceptions rc =
     (case rc_Repositories rc of
        None \<Rightarrow> []
      | Some targets \<Rightarrow>
          concat (map (\<lambda>s. List.map_filter (\<lambda>e. map_option (Pair (InRepository (sc_Name s)))
             (validate_policy_exception e (rc_Policies rc))) (sc_Exceptions s)) (tg_Specific targets)) @
          concat (map (\<lambda>p. List.map_filter (\<lambda>e. map_option (Pair (InPattern (pc_Match p)))
             (validate_policy_exception e (rc_Policies rc))) (pc_Exceptions p)) (tg_Patterns targets)))"

record policy_exception_report =
  xr_Repository :: string
  xr_Exception :: policy_exception
  xr_Type :: string

definition get_policy_exception_report :: "repo_config \<Rightarrow> (string, policy_exception_report list) gomap" where
  "get_policy_exception_report rc =
     (case rc_Repositories rc of
        None \<Rightarrow> []
      | Some targets \<Rightarrow>
          foldl (\<lambda>report p. if pc_Exceptions p = [] then report
              else gm_put (''pattern:'' @ pc_Match p)
                (map (\<lambda>e. \<lparr>xr_Repository = pc_Match p, xr_Exception = e, xr_Type = ''pattern''\<rparr>) (pc_Exceptions p)) report)
            (foldl (\<lambda>report s. if sc_Exceptions s = [] then report
                else gm_put (sc_Name s)
                  (map (\<lambda>e. \<lparr>xr_Repository = sc_Name s, xr_Exception = e, xr_Type = ''specific''\<rparr>) (sc_Exceptions s)) report)
              [] (tg_Specific targets))
            (tg_Patterns targets))"

definition is_exception_active :: "policy_exception \<Rightarrow> bool" where
  "is_exception_active e = (if px_ExpiresAt e = '''' then True else True)"

section \<open>The sources of an effective configuration\<close>

text \<open>
  The specification: the sources that apply to a repository, in order, and the layers each one
  contributes. The defaults come first; a specific entry excludes the patterns and the
  default of the repositories section, which otherwise is the last source.
\<close>

type_synonym config_source = "string \<times> layer \<times> policy_exception list"

definition default_source :: "repo_defaults option \<Rightarrow> config_source list" where
  "default_source d = (case d of None \<Rightarrow> []
     | Some x \<Rightarrow> [(rd_Template x, (rd_Settings x, rd_Security x, rd_Permissions x), [])])"

definition applied_sources :: "repo_config \<Rightarrow> string \<Rightarrow> config_source list" where
  "applied_sources rc repo = default_source (rc_Defaults rc) @
     (case rc_Repositories rc of
        None \<Rightarrow> []
      | Some targets \<Rightarrow>
          (case List.find (\<lambda>s. sc_Name s = repo) (tg_Specific targets) of
             Some s \<Rightarrow> [(sc_Template s, (sc_Settings s, sc_Security s, sc_Permissions s), sc_Exceptions s)]
           | None \<Rightarrow> map (\<lambda>p. (pc_Template p, (pc_Settings p, pc_Security p, pc_Permissions p), pc_Exceptions p))
                 (filter (\<lambda>p. match_pattern repo (pc_Match p)) (tg_Patterns targets)) @
               default_source (tg_Default targets)))"

definition source_layers :: "repo_config \<Rightarrow> config_source \<Rightarrow> layer list" where
  "source_layers rc src = (case src of (template, l, _) \<Rightarrow>
     (if template = '''' then []
      else (case resolve_template rc template of Inl _ \<Rightarrow> [] | Inr t \<Rightarrow> [template_layer t])) @ [l])"

definition ef_layer :: "effective_config \<Rightarrow> layer" where
  "ef_layer c = (ef_settings c, ef_security c, ef_permissions c)"

definition apply_source :: "repo_config \<Rightarrow> effective_config \<Rightarrow> config_source \<Rightarrow> effective_config" where
  "apply_source rc config src =
     (case src of (template, (s, c, p), xs) \<Rightarrow> apply_config_layer rc template s c p xs config)"

lemma apply_source_layer:
  "ef_layer (apply_source rc config src) = foldl merge_layer (ef_layer config) (source_layers rc src)"
  "ef_exceptions (apply_source rc config src) = ef_exceptions config @ snd (snd src)"
  by (auto simp: apply_source_def apply_config_layer_def ef_layer_def source_layers_def merge_layer_def
      template_layer_def Let_def split: prod.splits sum.splits)

lemma apply_defaults_source: "apply_defaults rc d config = foldl (apply_source rc) config (default_source d)"
  by (simp add: apply_defaults_def default_source_def apply_source_def split: option.splits)

lemma apply_patterns_source:
  "foldl (\<lambda>config p. if match_pattern repo (pc_Match p)
       then apply_config_layer rc (pc_Template p) (pc_Settings p) (pc_Security p) (pc_Permissions p) (pc_Exceptions p) config
       else config) config ps
     = foldl (apply_source rc) config
         (map (\<lambda>p. (pc_Template p, (pc_Settings p, pc_Security p, pc_Permissions p), pc_Exceptions p))
           (filter (\<lambda>p. match_pattern repo (pc_Match p)) ps))"
  by (induction ps arbitrary: config) (simp_all add: apply_source_def)

lemma effective_config_sources:
  "get_effective_config rc repo =
     foldl (apply_source rc) \<lparr>ef_settings = None, ef_security = None, ef_permissions = None, ef_exceptions = []\<rparr>
       (applied_sources rc repo)"
  by (simp add: get_effective_config_def applied_sources_def Let_def apply_defaults_source
      apply_patterns_source apply_source_def split: option.splits)

lemma foldl_apply_source:
  "ef_layer (foldl (apply_source rc) config srcs)
     = foldl merge_layer (ef_layer config) (concat (map (source_layers rc) srcs))"
  "ef_exceptions (foldl (apply_source rc) config srcs) = ef_exceptions config @ concat (map (\<lambda>s. snd (snd s)) srcs)"
  by (induction srcs arbitrary: config) (simp_all add: apply_source_layer)

lemma effective_layer:
  "ef_layer (get_effective_config rc repo)
     = foldl merge_layer (None, None, None) (concat (map (source_layers rc) (applied_sources rc repo)))"
  unfolding effective_config_sources foldl_apply_source by (simp add: ef_layer_def)

lemma source_layers_wf:
  "templates_wf (rc_Templates rc) \<Longrightarrow> layer_wf (fst (snd src)) \<Longrightarrow> l \<in> set (source_layers rc src) \<Longrightarrow> layer_wf l"
proof (cases "resolve_template rc (fst src)")
  case (Inr t)
  then obtain ns where "base_chain (rc_Templates rc) (fst src) ns" "t = merged_chain (rc_Templates rc) ns"
    by (auto simp: resolve_iff)
  then show "templates_wf (rc_Templates rc) \<Longrightarrow> layer_wf (fst (snd src)) \<Longrightarrow> l \<in> set (source_layers rc src) \<Longrightarrow> layer_wf l"
    using Inr merged_chain_fields [of "rc_Templates rc"]
    by (auto simp: source_layers_def split: prod.splits if_splits)
qed (auto simp: source_layers_def split: prod.splits if_splits)

lemma forgotten_foldl: "forgotten_unset l \<Longrightarrow> forgotten_unset (foldl merge_layer l ls)"
  by (induction ls arbitrary: l) (simp_all add: merge_forgotten)

section \<open>Lemmas on conflicts and exceptions\<close>

lemma escalation_in_conflicts:
  "EscalatesTeam n team old new \<in> set (check_permission_conflicts name derived base) \<longleftrightarrow>
     (\<exists>d b. n = name \<and> rt_Permissions derived = Some d \<and> rt_Permissions base = Some b \<and>
        (team, new) \<in> set (pm_TeamPermissions d) \<and> gm_get (pm_TeamPermissions b) team = Some old \<and>
        is_higher_permission new old)"
  by (auto simp: check_permission_conflicts_def in_map_filter split: option.splits if_splits; force)

lemma branches_no_escalation:
  "check_branches name bs ds = Some cs \<Longrightarrow> EscalatesTeam n team old new \<notin> set cs"
  by (induction name bs ds arbitrary: cs rule: check_branches.induct)
    (fastforce simp: check_branch_protection_conflicts_def split: option.splits if_splits)+

lemma escalation_in_template:
  "check_template_conflicts name derived base = Some cs \<Longrightarrow>
   EscalatesTeam n team old new \<in> set cs \<longleftrightarrow>
   EscalatesTeam n team old new \<in> set (check_permission_conflicts name derived base)"
  by (auto simp: check_template_conflicts_def check_security_conflicts_def check_visibility_conflicts_def
      dest: branches_no_escalation split: option.splits if_splits)

lemma escalation_in_loop:
  "validate_overrides_loop rc ts = Some ws \<Longrightarrow>
   EscalatesTeam n team old new \<in> set ws \<longleftrightarrow>
     (\<exists>t base. (n, t) \<in> set ts \<and> rt_Base t \<noteq> '''' \<and> resolve_template rc (rt_Base t) = Inr base \<and>
        EscalatesTeam n team old new \<in> set (check_permission_conflicts n t base))"
proof (induction rc ts arbitrary: ws rule: validate_overrides_loop.induct)
  case (1 rc)
  then show ?case by simp
next
  case (2 rc name t rest)
  have own: "EscalatesTeam n team old new \<in> set (check_permission_conflicts m t base) \<Longrightarrow> m = n" for m base
    by (simp add: escalation_in_conflicts)
  show ?case
  proof (cases "rt_Base t = ''''")
    case True
    then show ?thesis using 2 by auto
  next
    case False
    show ?thesis
    proof (cases "resolve_template rc (rt_Base t)")
      case (Inl e)
      then obtain rs where rs: "validate_overrides_loop rc rest = Some rs" and ws: "ws = UnresolvedBase name e # rs"
        using 2(4) False by auto
      show ?thesis using "2.IH"(2) [OF False Inl rs] by (auto simp: ws Inl)
    next
      case (Inr base)
      then obtain cs rs where cs: "check_template_conflicts name t base = Some cs"
        and rs: "validate_overrides_loop rc rest = Some rs" and ws: "ws = cs @ rs"
        using 2(4) False by (auto split: option.splits)
      note ih = "2.IH"(3) [OF False Inr cs rs]
      show ?thesis
        using own Inr False by (fastforce simp: ws ih escalation_in_template [OF cs])
    qed
  qed
qed

lemma validate_policy_exceptions_Nil_iff:
  "validate_policy_exceptions rc = [] \<longleftrightarrow>
     (\<forall>targets. rc_Repositories rc = Some targets \<longrightarrow>
       (\<forall>e\<in>(\<Union>s\<in>set (tg_Specific targets). set (sc_Exceptions s)) \<union> (\<Union>p\<in>set (tg_Patterns targets). set (pc_Exceptions p)).
          validate_policy_exception e (rc_Policies rc) = None))"
  by (auto simp: validate_policy_exceptions_def map_filter_Nil_iff split: option.splits)

lemma validate_policy_exception_None_iff:
  "validate_policy_exception e policies = None \<longleftrightarrow>
     (\<exists>policy. gm_get policies (px_PolicyName e) = Some policy \<and> gm_get (pt_Rules policy) (px_RuleName e) \<noteq> None) \<and>
     px_Reason e \<noteq> '''' \<and> px_ApprovedBy e \<noteq> '''' \<and> (px_ExpiresAt e = '''' \<or> 10 \<le> length (px_ExpiresAt e))"
  by (auto simp: validate_policy_exception_def split: option.splits)

text \<open>A panic in the override check comes from a branch-protection rule that is nil.\<close>

lemma check_branches_None_iff:
  "check_branches name bs ds = None \<longleftrightarrow>
     (\<exists>(branch, d)\<in>set ds. \<exists>b. gm_get bs branch = Some b \<and> (d = None \<or> b = None))"
  by (induction name bs ds rule: check_branches.induct)
    (auto simp: check_branch_protection_conflicts_def split: option.splits)

lemma nil_rule_panics:
  assumes "(name, t) \<in> set (rc_Templates rc)" and "rt_Base t \<noteq> ''''" and "resolve_template rc (rt_Base t) = Inr base"
    and "rt_Security t = Some d" and "rt_Security base = Some b"
    and "(branch, None) \<in> set (ss_BranchProtection d)" and "gm_get (ss_BranchProtection b) branch = Some r"
  shows "validate_template_overrides rc = None"
proof -
  have none: "check_template_conflicts name t base = None"
    using assms(4-7) by (auto simp: check_template_conflicts_def check_security_conflicts_def check_branches_None_iff)
  have "(name, t) \<in> set ts \<Longrightarrow> validate_overrides_loop rc ts = None" for ts
  proof (induction ts)
    case (Cons x ts)
    obtain n u where x: "x = (n, u)" by (cases x)
    show ?case
    proof (cases "x = (name, t)")
      case True
      then show ?thesis using none assms(2,3) by simp
    next
      case False
      then have "validate_overrides_loop rc ts = None" using Cons by simp
      then show ?thesis by (simp add: x split: sum.split option.split)
    qed
  qed simp
  then show ?thesis using assms(1) by (simp add: validate_template_overrides_def)
qed

section \<open>Properties\<close>

lemma effective_view:
  assumes "templates_wf (rc_Templates rc)"
    and "\<forall>(template, l, xs)\<in>set (applied_sources rc repo). layer_wf l"
  shows "config_view k (ef_layer (get_effective_config rc repo))
      = last_set (map (config_view k) (concat (map (source_layers rc) (applied_sources rc repo))))"
proof -
  have "\<forall>l\<in>set (concat (map (source_layers rc) (applied_sources rc repo))). layer_wf l"
  proof
    fix l assume "l \<in> set (concat (map (source_layers rc) (applied_sources rc repo)))"
    then obtain src where src: "src \<in> set (applied_sources rc repo)" "l \<in> set (source_layers rc src)" by auto
    then have "layer_wf (fst (snd src))" using bspec [OF assms(2) src(1)] by (simp split: prod.splits)
    then show "layer_wf l" using source_layers_wf [OF assms(1)] src(2) by simp
  qed
  then show "config_view k (ef_layer (get_effective_config rc repo))
      = last_set (map (config_view k) (concat (map (source_layers rc) (applied_sources rc repo))))"
    unfolding effective_layer by (rule layers.view_layers)
qed

text \<open>
  Property C4. Every mergeable field of a repository's effective configuration is the last
  value set by the layers of the sources that apply to it, in their order: the file's
  defaults, then the specific entry, or the matching patterns followed by the default of the
  repositories section. The exceptions are those of all these sources, in the same order.
  The default of the repositories section is so applied to a repository that a pattern matches,
  too, and over the patterns, although the commented example of the format,
  \<open>examples/repo-config/repo-config-schema.yaml\<close>, gives it to the repositories not matching above.
\<close>

theorem effective_config_fields:
  assumes "templates_wf (rc_Templates rc)"
    and "\<forall>(template, l, xs)\<in>set (applied_sources rc repo). layer_wf l"
  shows "config_view k (ef_layer (get_effective_config rc repo))
      = last_set (map (config_view k) (concat (map (source_layers rc) (applied_sources rc repo))))
    \<and> ef_exceptions (get_effective_config rc repo) = concat (map (\<lambda>s. snd (snd s)) (applied_sources rc repo))"
proof
  show "config_view k (ef_layer (get_effective_config rc repo))
      = last_set (map (config_view k) (concat (map (source_layers rc) (applied_sources rc repo))))"
    using assms by (rule effective_view)
  show "ef_exceptions (get_effective_config rc repo) = concat (map (\<lambda>s. snd (snd s)) (applied_sources rc repo))"
    by (simp add: effective_config_sources foldl_apply_source)
qed

definition sample_repos :: repo_config where
  "sample_repos = sample_config\<lparr>
     rc_Defaults := Some \<lparr>rd_Template = ''base'', rd_Settings = None, rd_Security = None, rd_Permissions = None\<rparr>,
     rc_Repositories := Some \<lparr>tg_Specific = [],
       tg_Patterns = [\<lparr>pc_Match = ''api-*'', pc_Template = '''',
          pc_Settings = Some (empty_repo_settings\<lparr>rs_Private := Some False, rs_HasPages := Some True\<rparr>),
          pc_Security = None, pc_Permissions = None, pc_Exceptions = []\<rparr>],
       tg_Default = Some \<lparr>rd_Template = ''go'', rd_Settings = None, rd_Security = None, rd_Permissions = None\<rparr>\<rparr>\<rparr>"

theorem effective_config_fields_witness:
  "config_view (Setting S_Private) (ef_layer (get_effective_config sample_repos ''api-gateway''))
     = last_set [Some (FBool True), None, Some (FBool False), Some (FBool True), None]"
proof -
  have 1: "templates_wf (rc_Templates sample_repos)" by code_simp
  have 2: "\<forall>(template, l, xs)\<in>set (applied_sources sample_repos ''api-gateway''). layer_wf l" by code_simp
  have 3: "map (config_view (Setting S_Private))
      (concat (map (source_layers sample_repos) (applied_sources sample_repos ''api-gateway'')))
     = [Some (FBool True), None, Some (FBool False), Some (FBool True), None]" by code_simp
  show ?thesis using effective_config_fields [OF 1 2, of "Setting S_Private"] unfolding 3 by blast
qed

text \<open>
  The disagreement with that example: a field that the default of the repositories section sets
  has its value in every repository without a specific entry, whatever the patterns that match it say.
\<close>

theorem default_overrides_patterns:
  assumes "templates_wf (rc_Templates rc)" and "\<forall>(template, l, xs)\<in>set (applied_sources rc repo). layer_wf l"
    and "rc_Repositories rc = Some targets" and "List.find (\<lambda>s. sc_Name s = repo) (tg_Specific targets) = None"
    and "tg_Default targets = Some d"
    and "last_set (map (config_view k) (source_layers rc (rd_Template d, (rd_Settings d, rd_Security d, rd_Permissions d), []))) = Some v"
  shows "config_view k (ef_layer (get_effective_config rc repo)) = Some v"
proof -
  have "last_set (map (config_view k) (concat (map (source_layers rc) (applied_sources rc repo)))) = Some v"
    using assms(6) by (simp add: applied_sources_def assms(3-5) default_source_def)
  then show ?thesis using effective_view [OF assms(1,2)] by simp
qed

text \<open>
  Whatever the file says, an effective configuration never carries a value for
  discussions, pages, auto-merge, forking, web commit sign-off, automated security fixes,
  secret scanning or push protection: the merge functions have no line for these fields.
\<close>

theorem effective_config_forgets:
  "(case ef_settings (get_effective_config rc repo) of None \<Rightarrow> True
    | Some s \<Rightarrow> rs_HasDiscussions s = None \<and> rs_HasPages s = None \<and> rs_AllowAutoMerge s = None \<and>
        rs_AllowForking s = None \<and> rs_WebCommitSignoffRequired s = None) \<and>
   (case ef_security (get_effective_config rc repo) of None \<Rightarrow> True
    | Some c \<Rightarrow> ss_AutomatedSecurityFixes c = None \<and> ss_SecretScanning c = None \<and>
        ss_SecretScanningPushProtection c = None)"
proof -
  have "forgotten_unset (ef_layer (get_effective_config rc repo))"
    unfolding effective_layer by (rule forgotten_foldl) (simp add: forgotten_unset_def)
  then show ?thesis by (simp add: forgotten_unset_def ef_layer_def)
qed

text \<open>
  What a repository pattern selects. Without an asterisk it selects the
  repository of that name; a literal before or after one asterisk selects every name that
  contains the literal anywhere, and an asterisk between two literals is searched for as the
  text dot-asterisk.
\<close>

theorem match_pattern_cases:
  assumes "set lit \<inter> set ''^.*$'' = {}" and "set lit2 \<inter> set ''^.*$'' = {}" and "lit \<noteq> ''''" and "lit2 \<noteq> ''''"
  shows "(match_pattern str lit \<longleftrightarrow> str = lit) \<and>
    (match_pattern str (lit @ ''*'') \<longleftrightarrow> contains str lit) \<and>
    (match_pattern str (''*'' @ lit) \<longleftrightarrow> contains str lit) \<and>
    (match_pattern str (lit @ ''*'' @ lit2) \<longleftrightarrow> contains str (lit @ ''.*'' @ lit2)) \<and>
    match_pattern str ''*''"
proof -
  let ?cut = "\<lambda>c. c \<in> set ''^.*$''"
  have rep: "set s \<inter> set ''^.*$'' = {} \<Longrightarrow> replace_char (CHR ''.'') n s = s \<and> replace_char (CHR ''*'') n s = s" for s n
    by (induction s) (auto simp: replace_char_def)
  have app: "replace_char c n (s @ t) = replace_char c n s @ replace_char c n t" for c n s t
    by (simp add: replace_char_def)
  have drop: "set s \<inter> set ''^.*$'' = {} \<Longrightarrow> s \<noteq> [] \<Longrightarrow> dropWhile ?cut (s @ t) = s @ t" for s t
    by (cases s) auto
  have trim: "trim_with ?cut (pre @ s @ post) = s"
    if "set pre \<subseteq> set ''^.*$''" "set post \<subseteq> set ''^.*$''" "s \<noteq> []" "\<not> ?cut (hd s)" "\<not> ?cut (last s)" for pre s post
  proof -
    have "dropWhile ?cut (pre @ s @ post) = s @ post"
      using that by (cases s) (auto simp: dropWhile_append3 dropWhile_append)
    moreover have "dropWhile ?cut (rev post @ rev s) = rev s"
      using that by (cases "rev s") (auto simp: dropWhile_append hd_rev [symmetric])
    ultimately show ?thesis by (simp add: trim_with_def)
  qed
  have ends: "set s \<inter> set ''^.*$'' = {} \<Longrightarrow> s \<noteq> [] \<Longrightarrow> \<not> ?cut (hd s) \<and> \<not> ?cut (last s)" for s
    using hd_in_set [of s] last_in_set [of s] by blast
  have star: "replace_char (CHR ''.'') n ''*'' = ''*''" "replace_char (CHR ''*'') n ''*'' = n" for n
    by (simp_all add: replace_char_def)
  have 1: "match_pattern str lit \<longleftrightarrow> str = lit" using assms(1) by (auto simp: match_pattern_def)
  have 2: "match_pattern str (lit @ ''*'') \<longleftrightarrow> contains str lit"
    using trim [of "''^''" "''.*$''" lit] ends [OF assms(1,3)] rep [OF assms(1)] assms
    by (simp add: match_pattern_def app star Let_def)
  have 3: "match_pattern str (''*'' @ lit) \<longleftrightarrow> contains str lit"
    using trim [of "''^.*''" "''$''" lit] ends [OF assms(1,3)] rep [OF assms(1)] assms app [of _ _ "''*''" lit]
    by (simp add: match_pattern_def star Let_def)
  have 4: "match_pattern str (lit @ ''*'' @ lit2) \<longleftrightarrow> contains str (lit @ ''.*'' @ lit2)"
    using trim [of "''^''" "''$''" "lit @ ''.*'' @ lit2"] ends [OF assms(1,3)] ends [OF assms(2,4)]
      rep [OF assms(1)] rep [OF assms(2)] assms app [of _ _ "''*''" lit2]
    by (simp add: match_pattern_def app star Let_def)
  have 5: "match_pattern str ''*''"
    by (simp add: match_pattern_def replace_char_def trim_with_def contains_def)
  show ?thesis using 1 2 3 4 5 by blast
qed

theorem match_pattern_cases_witness:
  "match_pattern ''my-api-old'' ''api-*'' \<and> \<not> match_pattern ''api-x-go'' ''api-*-go''"
  using match_pattern_cases [of "''api-''" "''-go''" "''my-api-old''"] match_pattern_cases [of "''api-''" "''-go''" "''api-x-go''"]
  by (simp add: contains_def) (code_simp)

text \<open>
  The override check warns of a team's escalation in a template exactly when the
  template, over the resolution of its base, gives the team a higher permission.
\<close>

theorem override_escalations:
  assumes "validate_template_overrides rc = Some ws"
  shows "EscalatesTeam name team old new \<in> set ws \<longleftrightarrow>
    (\<exists>t base d b. (name, t) \<in> set (rc_Templates rc) \<and> rt_Base t \<noteq> '''' \<and> resolve_template rc (rt_Base t) = Inr base \<and>
      rt_Permissions t = Some d \<and> rt_Permissions base = Some b \<and> (team, new) \<in> set (pm_TeamPermissions d) \<and>
      gm_get (pm_TeamPermissions b) team = Some old \<and> is_higher_permission new old)"
  using escalation_in_loop [of rc "rc_Templates rc" ws name team old new] assms
  by (auto simp: validate_template_overrides_def escalation_in_conflicts)

definition sample_teams :: repo_config where
  "sample_teams = sample_config\<lparr>rc_Templates :=
     [(''go'', sample_template ''base'' None []\<lparr>rt_Permissions := Some \<lparr>pm_TeamPermissions = [(''dev'', ''Admin'')], pm_UserPermissions = []\<rparr>\<rparr>),
      (''base'', sample_template '''' None []\<lparr>rt_Permissions := Some \<lparr>pm_TeamPermissions = [(''dev'', ''write'')], pm_UserPermissions = []\<rparr>\<rparr>)]\<rparr>"

theorem override_escalations_witness:
  "is_higher_permission ''Admin'' ''write'' \<and>
   (\<exists>t. (''go'', t) \<in> set (rc_Templates sample_teams) \<and> rt_Base t \<noteq> '''')"
proof -
  have "validate_template_overrides sample_teams = Some [EscalatesTeam ''go'' ''dev'' ''write'' ''Admin'']" by code_simp
  from override_escalations [OF this, of "''go''" "''dev''" "''write''" "''Admin''"] show ?thesis by auto
qed

text \<open>
  The validation of the policy exceptions reports nothing exactly when every
  exception of a specific entry or a pattern names an existing rule of an existing policy,
  has a reason and an approver, and has no expiry date or one of at least ten bytes.
\<close>

theorem policy_exceptions_valid:
  "validate_policy_exceptions rc = [] \<longleftrightarrow>
     (case rc_Repositories rc of None \<Rightarrow> True | Some targets \<Rightarrow>
       list_all (\<lambda>e. (\<exists>policy. gm_get (rc_Policies rc) (px_PolicyName e) = Some policy \<and>
             gm_get (pt_Rules policy) (px_RuleName e) \<noteq> None) \<and>
           px_Reason e \<noteq> '''' \<and> px_ApprovedBy e \<noteq> '''' \<and> (px_ExpiresAt e = '''' \<or> 10 \<le> length (px_ExpiresAt e)))
         (concat (map sc_Exceptions (tg_Specific targets)) @ concat (map pc_Exceptions (tg_Patterns targets))))"
  unfolding validate_policy_exceptions_Nil_iff validate_policy_exception_None_iff
  by (auto simp: list_all_iff split: option.splits)

end
