(* ===== verification/ComplianceAudit.thy ===== *)
theory ComplianceAudit
  imports RepoEffective
begin

text \<open>
  The compliance audit of repositories against the policies of the configuration
  (\<open>pkg/config/repo_config_audit.go\<close>): the check of each rule type, the exceptions, the
  results per repository and per policy, and the summary.

  The percentages are rationals (IEEE rounding is not modelled). One order of the policy and
  rule maps serves every loop over them; the results are looked up by name.
\<close>

section \<open>The state of a repository and the report\<close>

record branch_protection_state =
  bs_Protected :: bool
  bs_RequiredReviews :: int
  bs_EnforceAdmins :: bool

record repository_state =
  st_Name :: string
  st_Private :: bool
  st_Archived :: bool
  st_HasIssues :: bool
  st_HasWiki :: bool
  st_HasProjects :: bool
  st_HasDownloads :: bool
  st_BranchProtection :: "(string, branch_protection_state) gomap"
  st_VulnerabilityAlerts :: bool
  st_SecurityAdvisories :: bool
  st_Files :: "string list"
  st_Workflows :: "string list"
  st_LastModified :: int

record policy_violation =
  pv_PolicyName :: string
  pv_RuleName :: string
  pv_Type :: string
  pv_Expected :: go_value
  pv_Actual :: go_value
  pv_Enforcement :: string
  pv_Severity :: string
  pv_Message :: string
  pv_Remediation :: string

record rule_audit_result =
  ra_RuleName :: string
  ra_Type :: string
  ra_Enforcement :: string
  ra_ViolatingRepos :: "string list"
  ra_ExemptedRepos :: "string list"

record policy_audit_result =
  pa_PolicyName :: string
  pa_Description :: string
  pa_Rules :: "rule_audit_result list"
  pa_CompliantRepos :: int
  pa_ViolatingRepos :: int
  pa_ExemptedRepos :: int
  pa_CompliancePercentage :: rat

record repo_audit_result =
  rr_Repository :: string
  rr_Template :: string
  rr_Compliant :: bool
  rr_Violations :: "policy_violation list"
  rr_Exceptions :: "policy_exception list"
  rr_LastModified :: int

record audit_summary =
  as_TotalRepositories :: int
  as_AuditedRepositories :: int
  as_CompliantRepositories :: int
  as_CompliancePercentage :: rat
  as_TotalPolicies :: int
  as_TotalViolations :: int
  as_AdvisoryFindings :: int
  as_RequiredViolations :: int
  as_TotalExceptions :: int
  as_ActiveExceptions :: int

record audit_report =
  ar_Organization :: string
  ar_GeneratedAt :: int
  ar_PolicyFile :: string
  ar_Summary :: audit_summary
  ar_Policies :: "policy_audit_result list"
  ar_Repositories :: "repo_audit_result list"

section \<open>The rule checks\<close>

definition is_blocking_enforcement :: "string \<Rightarrow> bool" where
  "is_blocking_enforcement enforcement = equal_fold (trim_space enforcement) ''required''"

definition violation_of :: "policy_rule \<Rightarrow> go_value \<Rightarrow> go_value \<Rightarrow> string \<Rightarrow> policy_violation" where
  "violation_of rule expected actual remediation =
     \<lparr>pv_PolicyName = '''', pv_RuleName = '''', pv_Type = pr_Type rule, pv_Expected = expected,
      pv_Actual = actual, pv_Enforcement = '''', pv_Severity = '''', pv_Message = '''',
      pv_Remediation = remediation\<rparr>"

definition check_visibility_compliance :: "policy_rule \<Rightarrow> repository_state \<Rightarrow> policy_violation option" where
  "check_visibility_compliance rule state =
     (case pr_Value rule of
        VString expected \<Rightarrow>
          let actual = (if st_Private state then ''private'' else ''public'') in
          if expected \<noteq> actual then Some (violation_of rule (VString expected) (VString actual) '''') else None
      | _ \<Rightarrow> None)"

definition check_branch_protection_compliance :: "policy_rule \<Rightarrow> repository_state \<Rightarrow> policy_violation option" where
  "check_branch_protection_compliance rule state =
     (case pr_Value rule of
        VBool expected \<Rightarrow>
          if \<not> expected then None
          else (case gm_get (st_BranchProtection state) ''main'' of
                  Some protection \<Rightarrow>
                    if bs_Protected protection then None
                    else Some (violation_of rule (VBool True) (VBool False) ''Enable branch protection for the main branch'')
                | None \<Rightarrow> Some (violation_of rule (VBool True) (VBool False) ''Enable branch protection for the main branch''))
      | _ \<Rightarrow> None)"

definition truncate_rat :: "rat \<Rightarrow> int" where
  "truncate_rat q = (if 0 \<le> q then \<lfloor>q\<rfloor> else - \<lfloor>- q\<rfloor>)"

definition get_int_value :: "go_value \<Rightarrow> int option" where
  "get_int_value v =
     (case v of VInt i \<Rightarrow> Some i | VInt64 i \<Rightarrow> Some i | VFloat64 q \<Rightarrow> Some (truncate_rat q) | _ \<Rightarrow> None)"

definition check_min_reviews_compliance :: "policy_rule \<Rightarrow> repository_state \<Rightarrow> policy_violation option" where
  "check_min_reviews_compliance rule state =
     (case get_int_value (pr_Value rule) of
        None \<Rightarrow> None
      | Some expected \<Rightarrow>
          (case gm_get (st_BranchProtection state) ''main'' of
             None \<Rightarrow> Some (violation_of rule (VInt expected) (VInt 0) ''Enable branch protection with required reviews'')
           | Some protection \<Rightarrow>
               if bs_RequiredReviews protection < expected
               then Some (violation_of rule (VInt expected) (VInt (bs_RequiredReviews protection))
                      (''Increase required reviewers to '' @ show_int expected))
               else None))"

definition check_file_exists_compliance :: "policy_rule \<Rightarrow> repository_state \<Rightarrow> policy_violation option" where
  "check_file_exists_compliance rule state =
     (case pr_Value rule of
        VString expected \<Rightarrow>
          if list_ex (\<lambda>file. equal_fold file expected) (st_Files state) then None
          else Some (violation_of rule (VString expected) (VString ''not found'') (''Add required file: '' @ expected))
      | _ \<Rightarrow> None)"

definition normalize_workflow_ref :: "string \<Rightarrow> string" where
  "normalize_workflow_ref workflow = trim_suffix (trim_suffix (path_base workflow) ''.yml'') ''.yaml''"

definition check_workflow_exists_compliance :: "policy_rule \<Rightarrow> repository_state \<Rightarrow> policy_violation option" where
  "check_workflow_exists_compliance rule state =
     (case pr_Value rule of
        VString expected \<Rightarrow>
          if list_ex (\<lambda>workflow. equal_fold (normalize_workflow_ref workflow) (normalize_workflow_ref expected))
               (st_Workflows state) then None
          else Some (violation_of rule (VString expected) (VString ''not found'') (''Add required workflow: '' @ expected))
      | _ \<Rightarrow> None)"

definition is_security_feature_enabled :: "string \<Rightarrow> repository_state \<Rightarrow> bool" where
  "is_security_feature_enabled feature state =
     (if feature = ''vulnerability_alerts'' then st_VulnerabilityAlerts state
      else if feature = ''security_advisories'' then st_SecurityAdvisories state
      else False)"

definition check_security_feature_compliance :: "policy_rule \<Rightarrow> repository_state \<Rightarrow> policy_violation option" where
  "check_security_feature_compliance rule state =
     (case pr_Value rule of
        VString feature \<Rightarrow>
          if is_security_feature_enabled feature state then None
          else Some (violation_of rule (VString (feature @ '' enabled'')) (VString ''disabled'')
                 (''Enable '' @ feature @ '' in repository settings''))
      | _ \<Rightarrow> None)"

text \<open>The settings, security and permission arguments of the code are unused.\<close>

definition check_rule_compliance :: "policy_rule \<Rightarrow> repository_state \<Rightarrow> policy_violation option" where
  "check_rule_compliance rule state =
     (if pr_Type rule = ''visibility'' then check_visibility_compliance rule state
      else if pr_Type rule = ''branch_protection'' then check_branch_protection_compliance rule state
      else if pr_Type rule = ''min_reviews'' then check_min_reviews_compliance rule state
      else if pr_Type rule = ''file_exists'' then check_file_exists_compliance rule state
      else if pr_Type rule = ''workflow_exists'' then check_workflow_exists_compliance rule state
      else if pr_Type rule = ''security_feature'' then check_security_feature_compliance rule state
      else None)"

definition get_severity :: "string \<Rightarrow> string" where
  "get_severity enforcement =
     (let e = to_lower (trim_space enforcement) in
      if e = ''required'' then ''critical''
      else if e = ''recommended'' then ''medium''
      else ''low'')"

definition has_advisory_violation :: "repo_audit_result \<Rightarrow> bool" where
  "has_advisory_violation repo = list_ex (\<lambda>v. \<not> is_blocking_enforcement (pv_Enforcement v)) (rr_Violations repo)"

section \<open>The audit loops\<close>

type_synonym policy_results = "(string, policy_audit_result) gomap"

definition initialize_policy_results :: "repo_config \<Rightarrow> policy_results" where
  "initialize_policy_results rc =
     map (\<lambda>(policyName, policy). (policyName,
       \<lparr>pa_PolicyName = policyName, pa_Description = pt_Description policy,
        pa_Rules = map (\<lambda>(ruleName, rule). \<lparr>ra_RuleName = ruleName, ra_Type = pr_Type rule,
           ra_Enforcement = pr_Enforcement rule, ra_ViolatingRepos = [], ra_ExemptedRepos = []\<rparr>) (pt_Rules policy),
        pa_CompliantRepos = 0, pa_ViolatingRepos = 0, pa_ExemptedRepos = 0, pa_CompliancePercentage = 0\<rparr>))
       (rc_Policies rc)"

definition has_active_exception :: "string \<Rightarrow> string \<Rightarrow> policy_exception list \<Rightarrow> bool" where
  "has_active_exception policyName ruleName exceptions =
     list_ex (\<lambda>e. px_PolicyName e = policyName \<and> px_RuleName e = ruleName \<and> is_exception_active e) exceptions"

fun update_first :: "('a \<Rightarrow> bool) \<Rightarrow> ('a \<Rightarrow> 'a) \<Rightarrow> 'a list \<Rightarrow> 'a list" where
  "update_first P f [] = []"
| "update_first P f (x # xs) = (if P x then f x # xs else x # update_first P f xs)"

definition update_policy :: "string \<Rightarrow> (policy_audit_result \<Rightarrow> policy_audit_result) \<Rightarrow> policy_results \<Rightarrow> policy_results" where
  "update_policy policyName f results =
     (case gm_get results policyName of None \<Rightarrow> results | Some r \<Rightarrow> gm_put policyName (f r) results)"

definition update_exempted_rule :: "string \<Rightarrow> string \<Rightarrow> string \<Rightarrow> policy_results \<Rightarrow> policy_results" where
  "update_exempted_rule policyName ruleName repoName results =
     update_policy policyName (\<lambda>p. p\<lparr>
       pa_Rules := update_first (\<lambda>r. ra_RuleName r = ruleName)
         (\<lambda>r. r\<lparr>ra_ExemptedRepos := ra_ExemptedRepos r @ [repoName]\<rparr>) (pa_Rules p),
       pa_ExemptedRepos := pa_ExemptedRepos p + 1\<rparr>) results"

definition annotate :: "string \<Rightarrow> string \<Rightarrow> policy_rule \<Rightarrow> policy_violation \<Rightarrow> policy_violation" where
  "annotate policyName ruleName rule violation =
     (let e = to_lower (trim_space (pr_Enforcement rule)) in
      violation\<lparr>pv_PolicyName := policyName, pv_RuleName := ruleName,
        pv_Enforcement := (if e = '''' then ''optional'' else e),
        pv_Severity := get_severity (pr_Enforcement rule), pv_Message := pr_Message rule\<rparr>)"

definition process_rule_violation ::
  "policy_violation \<Rightarrow> string \<Rightarrow> string \<Rightarrow> policy_rule \<Rightarrow> string \<Rightarrow> repo_audit_result \<times> policy_results \<Rightarrow>
   repo_audit_result \<times> policy_results" where
  "process_rule_violation violation policyName ruleName rule repoName st =
     (case st of (repoResult, results) \<Rightarrow>
       (repoResult\<lparr>
          rr_Compliant := (if is_blocking_enforcement (pr_Enforcement rule) then False else rr_Compliant repoResult),
          rr_Violations := rr_Violations repoResult @ [annotate policyName ruleName rule violation]\<rparr>,
        update_policy policyName (\<lambda>p. p\<lparr>
          pa_Rules := update_first (\<lambda>r. ra_RuleName r = ruleName)
            (\<lambda>r. r\<lparr>ra_ViolatingRepos := ra_ViolatingRepos r @ [repoName]\<rparr>) (pa_Rules p)\<rparr>) results))"

definition audit_repository_rule ::
  "string \<Rightarrow> repository_state \<Rightarrow> string \<Rightarrow> policy_exception list \<Rightarrow> repo_audit_result \<times> policy_results \<Rightarrow>
   string \<times> policy_rule \<Rightarrow> repo_audit_result \<times> policy_results" where
  "audit_repository_rule repoName state policyName exceptions st entry =
     (case entry of (ruleName, rule) \<Rightarrow>
        if has_active_exception policyName ruleName exceptions
        then (fst st, update_exempted_rule policyName ruleName repoName (snd st))
        else (case check_rule_compliance rule state of
                None \<Rightarrow> st
              | Some violation \<Rightarrow> process_rule_violation violation policyName ruleName rule repoName st))"

definition audit_repository_policy ::
  "string \<Rightarrow> repository_state \<Rightarrow> policy_exception list \<Rightarrow> repo_audit_result \<times> policy_results \<Rightarrow>
   string \<times> policy_template \<Rightarrow> repo_audit_result \<times> policy_results" where
  "audit_repository_policy repoName state exceptions st entry =
     (case entry of (policyName, policy) \<Rightarrow>
        foldl (audit_repository_rule repoName state policyName exceptions) st (pt_Rules policy))"

definition audit_repository ::
  "repo_config \<Rightarrow> string \<Rightarrow> repository_state \<Rightarrow> policy_results \<Rightarrow> repo_audit_result \<times> policy_results" where
  "audit_repository rc repoName state results =
     (let exceptions = ef_exceptions (get_effective_config rc repoName);
          repoResult = \<lparr>rr_Repository = repoName, rr_Template = '''', rr_Compliant = True, rr_Violations = [],
            rr_Exceptions = exceptions, rr_LastModified = st_LastModified state\<rparr>
      in foldl (audit_repository_policy repoName state exceptions) (repoResult, results) (rc_Policies rc))"

definition update_audit_summary :: "audit_summary \<Rightarrow> repo_audit_result \<Rightarrow> audit_summary" where
  "update_audit_summary s r = s\<lparr>
     as_TotalRepositories := as_TotalRepositories s + 1,
     as_AuditedRepositories := as_AuditedRepositories s + 1,
     as_CompliantRepositories := as_CompliantRepositories s + (if rr_Compliant r then 1 else 0),
     as_TotalViolations := as_TotalViolations s + int (length (rr_Violations r)),
     as_RequiredViolations := as_RequiredViolations s +
       int (length (filter (\<lambda>v. is_blocking_enforcement (pv_Enforcement v)) (rr_Violations r))),
     as_AdvisoryFindings := as_AdvisoryFindings s +
       int (length (filter (\<lambda>v. \<not> is_blocking_enforcement (pv_Enforcement v)) (rr_Violations r))),
     as_TotalExceptions := as_TotalExceptions s + int (length (rr_Exceptions r)),
     as_ActiveExceptions := as_ActiveExceptions s + int (length (filter is_exception_active (rr_Exceptions r)))\<rparr>"

definition finalize_policy_result :: "int \<Rightarrow> policy_audit_result \<Rightarrow> policy_audit_result" where
  "finalize_policy_result audited p =
     (let compliant = audited - pa_ViolatingRepos p - pa_ExemptedRepos p;
          nonExempted = audited - pa_ExemptedRepos p
      in p\<lparr>pa_CompliantRepos := compliant,
           pa_CompliancePercentage := (if 0 < audited \<and> 0 < nonExempted
             then of_int compliant / of_int nonExempted * 100 else pa_CompliancePercentage p)\<rparr>)"

definition finalize_policy_results :: "repo_config \<Rightarrow> audit_report \<Rightarrow> policy_results \<Rightarrow> audit_report" where
  "finalize_policy_results rc report results =
     (let s = ar_Summary report in
      report\<lparr>
        ar_Policies := ar_Policies report @ map (\<lambda>(n, p). finalize_policy_result (as_AuditedRepositories s) p) results,
        ar_Summary := s\<lparr>as_TotalPolicies := int (length (rc_Policies rc)),
          as_CompliancePercentage := (if 0 < as_AuditedRepositories s
            then of_int (as_CompliantRepositories s) / of_int (as_AuditedRepositories s) * 100
            else as_CompliancePercentage s)\<rparr>\<rparr>)"

definition empty_summary :: audit_summary where
  "empty_summary = \<lparr>as_TotalRepositories = 0, as_AuditedRepositories = 0, as_CompliantRepositories = 0,
     as_CompliancePercentage = 0, as_TotalPolicies = 0, as_TotalViolations = 0, as_AdvisoryFindings = 0,
     as_RequiredViolations = 0, as_TotalExceptions = 0, as_ActiveExceptions = 0\<rparr>"

definition audit_step :: "repo_config \<Rightarrow> audit_report \<times> policy_results \<Rightarrow> string \<times> repository_state \<Rightarrow> audit_report \<times> policy_results" where
  "audit_step rc st entry =
     (case (st, entry) of ((report, results), (repoName, repoState)) \<Rightarrow>
        (case audit_repository rc repoName repoState results of (repoResult, results') \<Rightarrow>
           (report\<lparr>ar_Summary := update_audit_summary (ar_Summary report) repoResult,
              ar_Repositories := ar_Repositories report @ [repoResult]\<rparr>, results')))"

definition run_compliance_audit :: "int \<Rightarrow> repo_config \<Rightarrow> (string, repository_state) gomap \<Rightarrow> audit_report" where
  "run_compliance_audit now rc actualRepos =
     (case foldl (audit_step rc)
          (\<lparr>ar_Organization = rc_Organization rc, ar_GeneratedAt = now, ar_PolicyFile = '''',
            ar_Summary = empty_summary, ar_Policies = [], ar_Repositories = []\<rparr>, initialize_policy_results rc)
          actualRepos of
        (report, results) \<Rightarrow> finalize_policy_results rc report results)"

section \<open>One repository\<close>

lemma blocking_annotate [simp]:
  "is_blocking_enforcement (pv_Enforcement (annotate pn rn rule v)) = is_blocking_enforcement (pr_Enforcement rule)"
proof -
  have "\<not> is_blocking_enforcement ''optional''" by code_simp
  moreover have "\<not> is_blocking_enforcement []" by code_simp
  moreover have "is_blocking_enforcement (to_lower (trim_space e)) = is_blocking_enforcement e" for e
    by (simp add: is_blocking_enforcement_def equal_fold_def trim_space_lower)
  ultimately show ?thesis by (simp add: annotate_def Let_def) metis
qed

text \<open>What the rules of the policies say of a repository, given its exceptions.\<close>

datatype rule_outcome = Exempted | Violating policy_violation | Passing

definition rule_outcome_of ::
  "repository_state \<Rightarrow> policy_exception list \<Rightarrow> string \<Rightarrow> string \<Rightarrow> policy_rule \<Rightarrow> rule_outcome" where
  "rule_outcome_of state exceptions pn rn rule =
     (if has_active_exception pn rn exceptions then Exempted
      else (case check_rule_compliance rule state of
              None \<Rightarrow> Passing | Some v \<Rightarrow> Violating (annotate pn rn rule v)))"

definition policy_findings ::
  "repository_state \<Rightarrow> policy_exception list \<Rightarrow> string \<Rightarrow> (string \<times> policy_rule) list \<Rightarrow> policy_violation list" where
  "policy_findings state exceptions pn rules =
     List.map_filter (\<lambda>(rn, rule). case rule_outcome_of state exceptions pn rn rule of Violating v \<Rightarrow> Some v | _ \<Rightarrow> None) rules"

definition repo_findings :: "repo_config \<Rightarrow> string \<Rightarrow> repository_state \<Rightarrow> policy_violation list" where
  "repo_findings rc repo state = concat (map (\<lambda>(pn, policy).
     policy_findings state (ef_exceptions (get_effective_config rc repo)) pn (pt_Rules policy)) (rc_Policies rc))"

definition add_findings :: "repo_audit_result \<Rightarrow> policy_violation list \<Rightarrow> repo_audit_result" where
  "add_findings r vs = r\<lparr>
     rr_Compliant := (rr_Compliant r \<and> list_all (\<lambda>v. \<not> is_blocking_enforcement (pv_Enforcement v)) vs),
     rr_Violations := rr_Violations r @ vs\<rparr>"

lemma add_findings_simps [simp]: "add_findings r [] = r" "add_findings (add_findings r vs) ws = add_findings r (vs @ ws)"
  by (simp_all add: add_findings_def)

lemma audit_rule_result:
  "fst (audit_repository_rule repo state pn exceptions st (rn, rule))
     = add_findings (fst st) (case rule_outcome_of state exceptions pn rn rule of Violating v \<Rightarrow> [v] | _ \<Rightarrow> [])"
  by (cases st) (simp add: audit_repository_rule_def rule_outcome_of_def process_rule_violation_def add_findings_def
      split: option.splits)

lemma audit_rules_result:
  "fst (foldl (audit_repository_rule repo state pn exceptions) st rules)
     = add_findings (fst st) (policy_findings state exceptions pn rules)"
proof (induction rules arbitrary: st)
  case Nil
  then show ?case by (simp add: policy_findings_def)
next
  case (Cons e rules)
  obtain rn rule where e: "e = (rn, rule)" by (cases e)
  show ?case
    by (simp add: e Cons audit_rule_result) (simp add: policy_findings_def split: rule_outcome.splits)
qed

lemma audit_policies_result:
  "fst (foldl (audit_repository_policy repo state exceptions) st policies)
     = add_findings (fst st) (concat (map (\<lambda>(pn, policy). policy_findings state exceptions pn (pt_Rules policy)) policies))"
  by (induction policies arbitrary: st)
    (auto simp: audit_repository_policy_def audit_rules_result split: prod.splits)

lemma audit_repository_result:
  "fst (audit_repository rc repo state results)
     = \<lparr>rr_Repository = repo, rr_Template = '''',
        rr_Compliant = list_all (\<lambda>v. \<not> is_blocking_enforcement (pv_Enforcement v)) (repo_findings rc repo state),
        rr_Violations = repo_findings rc repo state,
        rr_Exceptions = ef_exceptions (get_effective_config rc repo), rr_LastModified = st_LastModified state\<rparr>"
  by (simp add: audit_repository_def Let_def audit_policies_result repo_findings_def add_findings_def)

section \<open>The policy results\<close>

text \<open>The result the loops keep for one rule, and what each of them does to it.\<close>

definition rule_result :: "policy_results \<Rightarrow> string \<Rightarrow> string \<Rightarrow> rule_audit_result option" where
  "rule_result results pn rn =
     Option.bind (gm_get results pn) (\<lambda>p. List.find (\<lambda>r. ra_RuleName r = rn) (pa_Rules p))"

lemma find_update_first:
  "(\<And>r. ra_RuleName (f r) = ra_RuleName r) \<Longrightarrow>
   List.find (\<lambda>r. ra_RuleName r = rn') (update_first (\<lambda>r. ra_RuleName r = rn) f rs)
     = (if rn' = rn then map_option f (List.find (\<lambda>r. ra_RuleName r = rn) rs)
        else List.find (\<lambda>r. ra_RuleName r = rn') rs)"
  by (induction rs) auto

lemma rule_result_update_policy:
  assumes "\<And>p. pa_Rules (f p) = update_first (\<lambda>r. ra_RuleName r = rn) g (pa_Rules p)"
    and "\<And>r. ra_RuleName (g r) = ra_RuleName r"
  shows "rule_result (update_policy pn f results) pn' rn'
    = (if pn' = pn \<and> rn' = rn then map_option g (rule_result results pn rn) else rule_result results pn' rn')"
  by (auto simp: rule_result_def update_policy_def assms find_update_first split: option.splits)

definition outcome_effect :: "string \<Rightarrow> rule_outcome \<Rightarrow> rule_audit_result \<Rightarrow> rule_audit_result" where
  "outcome_effect repo outcome r =
     (case outcome of
        Exempted \<Rightarrow> r\<lparr>ra_ExemptedRepos := ra_ExemptedRepos r @ [repo]\<rparr>
      | Violating _ \<Rightarrow> r\<lparr>ra_ViolatingRepos := ra_ViolatingRepos r @ [repo]\<rparr>
      | Passing \<Rightarrow> r)"

lemma rule_result_step:
  "rule_result (snd (audit_repository_rule repo state pn exceptions st (rn, rule))) pn' rn'
     = (if pn' = pn \<and> rn' = rn
        then map_option (outcome_effect repo (rule_outcome_of state exceptions pn rn rule)) (rule_result (snd st) pn rn)
        else rule_result (snd st) pn' rn')"
proof -
  have 1: "rule_result (update_exempted_rule pn rn repo res) p r
      = (if p = pn \<and> r = rn then map_option (outcome_effect repo Exempted) (rule_result res pn rn)
         else rule_result res p r)" for res p r
    unfolding update_exempted_rule_def by (subst rule_result_update_policy [where rn = rn and g = "outcome_effect repo Exempted"])
      (auto simp: outcome_effect_def [abs_def])
  have 2: "rule_result (snd (process_rule_violation v pn rn rule repo (a, res))) p r
      = (if p = pn \<and> r = rn then map_option (outcome_effect repo (Violating (annotate pn rn rule v))) (rule_result res pn rn)
         else rule_result res p r)" for v a res p r
    unfolding process_rule_violation_def prod.case snd_conv by (subst rule_result_update_policy [where rn = rn and g = "outcome_effect repo (Violating (annotate pn rn rule v))"])
      (auto simp: outcome_effect_def [abs_def])
  have 3: "map_option (outcome_effect repo Passing) x = x" for x
    by (cases x) (simp_all add: outcome_effect_def)
  show ?thesis
    by (cases st) (auto simp: audit_repository_rule_def rule_outcome_of_def 1 2 3 split: option.splits)
qed

lemma rule_result_rules:
  assumes "distinct (map fst rules)"
  shows "rule_result (snd (foldl (audit_repository_rule repo state pn exceptions) st rules)) pn' rn
     = (case (if pn' = pn then map_of rules rn else None) of
          None \<Rightarrow> rule_result (snd st) pn' rn
        | Some rule \<Rightarrow> map_option (outcome_effect repo (rule_outcome_of state exceptions pn rn rule)) (rule_result (snd st) pn rn))"
  using assms
proof (induction rules arbitrary: st)
  case Nil
  then show ?case by simp
next
  case (Cons e rules)
  obtain rn' rule where e: "e = (rn', rule)" by (cases e)
  have fresh: "map_of rules rn' = None" using Cons.prems by (simp add: e map_of_eq_None_iff)
  show ?case using Cons fresh by (auto simp: e rule_result_step split: option.splits)
qed

lemma rule_result_policies:
  assumes "distinct (map fst policies)" and "\<forall>(n, p)\<in>set policies. distinct (map fst (pt_Rules p))"
    and "map_of policies pn = Some policy" and "map_of (pt_Rules policy) rn = Some rule"
  shows "rule_result (snd (foldl (audit_repository_policy repo state exceptions) st policies)) pn rn
     = map_option (outcome_effect repo (rule_outcome_of state exceptions pn rn rule)) (rule_result (snd st) pn rn)"
proof -
  have other: "pn \<notin> fst ` set ps \<Longrightarrow> \<forall>(n, p)\<in>set ps. distinct (map fst (pt_Rules p)) \<Longrightarrow>
      rule_result (snd (foldl (audit_repository_policy repo state exceptions) s ps)) pn rn = rule_result (snd s) pn rn" for s ps
    by (induction ps arbitrary: s) (auto simp: audit_repository_policy_def rule_result_rules split: prod.splits)
  obtain as bs where ps: "policies = as @ (pn, policy) # bs"
    using split_list [OF map_of_SomeD [OF assms(3)]] by blast
  have "pn \<notin> fst ` set as" "pn \<notin> fst ` set bs" using assms(1) by (auto simp: ps)
  then show ?thesis
    using assms(2,4) by (simp add: ps other audit_repository_policy_def rule_result_rules)
qed

section \<open>The whole audit\<close>

lemma audit_step_eq:
  "audit_step rc (report, results) (n, s) =
     (report\<lparr>ar_Summary := update_audit_summary (ar_Summary report) (fst (audit_repository rc n s [])),
        ar_Repositories := ar_Repositories report @ [fst (audit_repository rc n s [])]\<rparr>,
      snd (audit_repository rc n s results))"
  by (simp add: audit_step_def audit_repository_result [of rc n s "[]"]
      audit_repository_result [of rc n s results, symmetric] split_beta)

lemma audit_fold_results:
  "foldl (audit_step rc) (report, results) repos =
     (report\<lparr>ar_Summary := foldl update_audit_summary (ar_Summary report)
          (map (\<lambda>(n, s). fst (audit_repository rc n s [])) repos),
        ar_Repositories := ar_Repositories report @ map (\<lambda>(n, s). fst (audit_repository rc n s [])) repos\<rparr>,
      foldl (\<lambda>results (n, s). snd (audit_repository rc n s results)) results repos)"
proof (induction repos arbitrary: report results)
  case Nil
  then show ?case by simp
next
  case (Cons e repos)
  then show ?case by (cases e) (simp add: audit_step_eq)
qed

lemma run_compliance_audit_parts:
  fixes now rc repos
  defines "results \<equiv> foldl (\<lambda>results (n, s). snd (audit_repository rc n s results)) (initialize_policy_results rc) repos"
    and "rs \<equiv> map (\<lambda>(n, s). fst (audit_repository rc n s [])) repos"
  shows "ar_Repositories (run_compliance_audit now rc repos) = rs"
    and "ar_Policies (run_compliance_audit now rc repos)
      = map (\<lambda>(n, p). finalize_policy_result (as_AuditedRepositories (foldl update_audit_summary empty_summary rs)) p) results"
    and "ar_Summary (run_compliance_audit now rc repos) = (let s = foldl update_audit_summary empty_summary rs in
       s\<lparr>as_TotalPolicies := int (length (rc_Policies rc)), as_CompliancePercentage :=
          (if 0 < as_AuditedRepositories s
           then of_int (as_CompliantRepositories s) / of_int (as_AuditedRepositories s) * 100
           else as_CompliancePercentage s)\<rparr>)"
  by (auto simp: run_compliance_audit_def audit_fold_results finalize_policy_results_def Let_def results_def rs_def)

lemma summary_fold:
  "as_AuditedRepositories (foldl update_audit_summary s rs) = as_AuditedRepositories s + int (length rs)"
  "as_TotalRepositories (foldl update_audit_summary s rs) = as_TotalRepositories s + int (length rs)"
  "as_CompliantRepositories (foldl update_audit_summary s rs)
     = as_CompliantRepositories s + int (length (filter rr_Compliant rs))"
  "as_TotalViolations (foldl update_audit_summary s rs)
     = as_TotalViolations s + int (length (concat (map rr_Violations rs)))"
  "as_RequiredViolations (foldl update_audit_summary s rs) = as_RequiredViolations s
     + int (length (filter (\<lambda>v. is_blocking_enforcement (pv_Enforcement v)) (concat (map rr_Violations rs))))"
  "as_AdvisoryFindings (foldl update_audit_summary s rs) = as_AdvisoryFindings s
     + int (length (filter (\<lambda>v. \<not> is_blocking_enforcement (pv_Enforcement v)) (concat (map rr_Violations rs))))"
  "as_ActiveExceptions (foldl update_audit_summary s rs) = as_ActiveExceptions s + int (length (concat (map rr_Exceptions rs)))"
  "as_TotalExceptions (foldl update_audit_summary s rs) = as_TotalExceptions s + int (length (concat (map rr_Exceptions rs)))"
  by (induction rs arbitrary: s) (simp_all add: update_audit_summary_def is_exception_active_def)

text \<open>No step writes the violating counter of a policy.\<close>

definition results_ok :: "policy_results \<Rightarrow> bool" where
  "results_ok results \<longleftrightarrow> (\<forall>(n, p)\<in>set results. pa_PolicyName p = n \<and> pa_ViolatingRepos p = 0 \<and> pa_CompliancePercentage p = 0)"

lemma results_ok_update:
  assumes "results_ok results" and "\<And>p. pa_PolicyName (f p) = pa_PolicyName p \<and>
    pa_ViolatingRepos (f p) = pa_ViolatingRepos p \<and> pa_CompliancePercentage (f p) = pa_CompliancePercentage p"
  shows "results_ok (update_policy pn f results)"
  using assms by (fastforce simp: results_ok_def update_policy_def dest: gm_put_entries gm_get_Some_in split: option.splits)

lemma results_ok_rule: "results_ok (snd st) \<Longrightarrow> results_ok (snd (audit_repository_rule repo state pn xs st e))"
  by (cases st) (auto simp: audit_repository_rule_def process_rule_violation_def update_exempted_rule_def
      intro!: results_ok_update split: prod.splits option.splits)

lemma results_ok_rules: "results_ok (snd st) \<Longrightarrow> results_ok (snd (foldl (audit_repository_rule repo state pn xs) st rules))"
  by (induction rules arbitrary: st) (simp_all add: results_ok_rule)

lemma results_ok_policies:
  "results_ok (snd st) \<Longrightarrow> results_ok (snd (foldl (audit_repository_policy repo state xs) st policies))"
  by (induction policies arbitrary: st) (auto simp: audit_repository_policy_def results_ok_rules split: prod.splits)

lemma results_ok_audit:
  "results_ok results \<Longrightarrow> results_ok (foldl (\<lambda>results (n, s). snd (audit_repository rc n s results)) results repos)"
proof (induction repos arbitrary: results)
  case Nil
  then show ?case by simp
next
  case (Cons e repos)
  then show ?case by (cases e) (simp add: audit_repository_def Let_def results_ok_policies)
qed

lemma results_ok_init: "results_ok (initialize_policy_results rc)"
  by (auto simp: results_ok_def initialize_policy_results_def)

lemma rule_result_init:
  assumes "gm_get (rc_Policies rc) pn = Some policy" and "gm_get (pt_Rules policy) rn = Some rule"
  shows "\<exists>r. rule_result (initialize_policy_results rc) pn rn = Some r \<and> ra_RuleName r = rn \<and>
    ra_ViolatingRepos r = [] \<and> ra_ExemptedRepos r = []"
proof -
  have rules: "map_of rs rn = Some rule \<Longrightarrow>
      List.find (\<lambda>r. ra_RuleName r = rn) (map (\<lambda>(ruleName, rule). \<lparr>ra_RuleName = ruleName, ra_Type = pr_Type rule,
           ra_Enforcement = pr_Enforcement rule, ra_ViolatingRepos = [], ra_ExemptedRepos = []\<rparr>) rs)
        = Some \<lparr>ra_RuleName = rn, ra_Type = pr_Type rule, ra_Enforcement = pr_Enforcement rule,
            ra_ViolatingRepos = [], ra_ExemptedRepos = []\<rparr>" for rs
    by (induction rs) auto
  have pols: "map_of ps pn = Some policy \<Longrightarrow> map_of (map (\<lambda>(n, p). (n, f n p)) ps) pn = Some (f pn policy)" for ps f
    by (induction ps) auto
  show ?thesis using assms rules [of "pt_Rules policy"]
    by (simp add: rule_result_def initialize_policy_results_def gm_get_def pols)
qed

definition policies_wf :: "repo_config \<Rightarrow> bool" where
  "policies_wf rc \<longleftrightarrow> gm_wf (rc_Policies rc) \<and> (\<forall>(n, p)\<in>set (rc_Policies rc). gm_wf (pt_Rules p))"

lemma rule_result_audit:
  assumes "policies_wf rc" and "gm_get (rc_Policies rc) pn = Some policy" and "gm_get (pt_Rules policy) rn = Some rule"
    and "rule_result results pn rn = Some r"
  shows "\<exists>r'. rule_result (foldl (\<lambda>results (n, s). snd (audit_repository rc n s results)) results repos) pn rn = Some r' \<and>
     ra_RuleName r' = ra_RuleName r \<and>
     ra_ViolatingRepos r' = ra_ViolatingRepos r @ map fst (filter (\<lambda>(n, s).
        \<exists>v. rule_outcome_of s (ef_exceptions (get_effective_config rc n)) pn rn rule = Violating v) repos) \<and>
     ra_ExemptedRepos r' = ra_ExemptedRepos r @ map fst (filter (\<lambda>(n, s).
        rule_outcome_of s (ef_exceptions (get_effective_config rc n)) pn rn rule = Exempted) repos)"
  using assms(4)
proof (induction repos arbitrary: results r)
  case Nil
  then show ?case by simp
next
  case (Cons e repos)
  obtain n s where e: "e = (n, s)" by (cases e)
  let ?o = "rule_outcome_of s (ef_exceptions (get_effective_config rc n)) pn rn rule"
  have "rule_result (snd (audit_repository rc n s results)) pn rn = Some (outcome_effect n ?o r)"
    using assms(1-3) Cons.prems unfolding audit_repository_def Let_def
    by (subst rule_result_policies [where policy = policy and rule = rule])
      (auto simp: policies_wf_def gm_wf_def gm_get_def)
  from Cons.IH [OF this] show ?case by (cases ?o) (auto simp: e outcome_effect_def)
qed

lemma repo_findings_iff:
  "v \<in> set (repo_findings rc repo state) \<longleftrightarrow> (\<exists>(pn, policy)\<in>set (rc_Policies rc). \<exists>(rn, rule)\<in>set (pt_Rules policy).
     \<not> has_active_exception pn rn (ef_exceptions (get_effective_config rc repo)) \<and>
     (\<exists>w. check_rule_compliance rule state = Some w \<and> v = annotate pn rn rule w))"
proof -
  have one: "(case rule_outcome_of state xs pn rn rule of Violating v \<Rightarrow> Some v | _ \<Rightarrow> None) = Some v \<longleftrightarrow>
      \<not> has_active_exception pn rn xs \<and> (\<exists>w. check_rule_compliance rule state = Some w \<and> v = annotate pn rn rule w)"
    for xs pn rn rule by (auto simp: rule_outcome_of_def split: option.splits)
  show ?thesis by (simp add: repo_findings_def policy_findings_def in_map_filter split_beta one)
qed

lemma no_blocking_findings:
  "list_all (\<lambda>v. \<not> is_blocking_enforcement (pv_Enforcement v)) (repo_findings rc repo state) \<longleftrightarrow>
     \<not> list_ex (\<lambda>(pn, policy). list_ex (\<lambda>(rn, rule).
        \<not> has_active_exception pn rn (ef_exceptions (get_effective_config rc repo)) \<and>
        is_blocking_enforcement (pr_Enforcement rule) \<and> check_rule_compliance rule state \<noteq> None)
          (pt_Rules policy)) (rc_Policies rc)"
  unfolding list_all_iff list_ex_iff Ball_def repo_findings_iff by (force simp: split_beta)

section \<open>Properties\<close>

text \<open>
  Property C6. The audit reports, for every repository, exactly the findings of the rules that
  no exception covers, in the order of the policies, and calls the repository compliant
  exactly when none of these findings comes from a required rule.
\<close>

theorem audit_repositories:
  "ar_Repositories (run_compliance_audit now rc repos) = map (\<lambda>(repo, state).
     \<lparr>rr_Repository = repo, rr_Template = '''',
      rr_Compliant = (\<not> list_ex (\<lambda>(pn, policy). list_ex (\<lambda>(rn, rule).
        \<not> has_active_exception pn rn (ef_exceptions (get_effective_config rc repo)) \<and>
        is_blocking_enforcement (pr_Enforcement rule) \<and> check_rule_compliance rule state \<noteq> None)
          (pt_Rules policy)) (rc_Policies rc)),
      rr_Violations = repo_findings rc repo state,
      rr_Exceptions = ef_exceptions (get_effective_config rc repo), rr_LastModified = st_LastModified state\<rparr>) repos"
  by (simp add: run_compliance_audit_parts audit_repository_result no_blocking_findings)

text \<open>
  The summary counts the audited repositories, the compliant ones and the
  findings; the findings split into required and advisory ones, the compliant repositories
  are at most the audited ones, and every exception counts as active.
\<close>

theorem audit_summary_counts:
  fixes now rc repos
  defines "s \<equiv> ar_Summary (run_compliance_audit now rc repos)"
    and "rs \<equiv> ar_Repositories (run_compliance_audit now rc repos)"
  shows "as_TotalRepositories s = int (length repos) \<and> as_AuditedRepositories s = int (length repos) \<and>
    as_CompliantRepositories s = int (length (filter rr_Compliant rs)) \<and>
    as_CompliantRepositories s \<le> as_AuditedRepositories s \<and>
    as_TotalViolations s = int (length (concat (map rr_Violations rs))) \<and>
    as_TotalViolations s = as_RequiredViolations s + as_AdvisoryFindings s \<and>
    (as_RequiredViolations s = 0 \<longleftrightarrow> as_CompliantRepositories s = as_AuditedRepositories s) \<and>
    as_ActiveExceptions s = as_TotalExceptions s"
proof -
  let ?rs = "map (\<lambda>(n, s). fst (audit_repository rc n s [])) repos"
  have rs: "rs = ?rs" by (simp add: rs_def run_compliance_audit_parts)
  have split: "int (length xs) = int (length (filter P xs)) + int (length (filter (\<lambda>x. \<not> P x) xs))" for P and xs :: "'a list"
    using sum_length_filter_compl [of P xs] by linarith
  have compl: "rr_Compliant r = list_all (\<lambda>v. \<not> is_blocking_enforcement (pv_Enforcement v)) (rr_Violations r)"
    if "r \<in> set ?rs" for r
    using that by (auto simp: audit_repository_result)
  have "length (filter rr_Compliant ?rs) = length ?rs \<longleftrightarrow> (\<forall>r\<in>set ?rs. rr_Compliant r)"
    by (rule length_filter_eq_iff)
  also have "\<dots> \<longleftrightarrow> filter (\<lambda>v. is_blocking_enforcement (pv_Enforcement v)) (concat (map rr_Violations ?rs)) = []"
    unfolding filter_empty_conv using compl by (auto simp: list_all_iff)
  finally show ?thesis
    using split [of "concat (map rr_Violations ?rs)" "\<lambda>v. is_blocking_enforcement (pv_Enforcement v)"]
      length_filter_le [of rr_Compliant ?rs]
    unfolding s_def rs run_compliance_audit_parts Let_def by (simp add: summary_fold empty_summary_def)
qed

text \<open>
  The result of a policy does not depend on its violations: its violating
  counter stays zero, so it reports as compliant every repository that was not counted as
  exempted, and a percentage of a hundred whenever some repository was not exempted.
\<close>

theorem policy_result_ignores_violations:
  "list_all (\<lambda>p. pa_ViolatingRepos p = 0 \<and> pa_CompliantRepos p = int (length repos) - pa_ExemptedRepos p \<and>
       pa_CompliancePercentage p = (if pa_ExemptedRepos p < int (length repos) \<and> repos \<noteq> [] then 100 else 0))
     (ar_Policies (run_compliance_audit now rc repos))"
proof -
  let ?results = "foldl (\<lambda>results (n, s). snd (audit_repository rc n s results)) (initialize_policy_results rc) repos"
  have "results_ok ?results" by (rule results_ok_audit [OF results_ok_init])
  then show ?thesis
    by (fastforce simp: list_all_iff run_compliance_audit_parts summary_fold empty_summary_def results_ok_def finalize_policy_result_def Let_def)
qed

text \<open>
  For every rule of every policy, the report lists as violating exactly the
  repositories for which the rule has a finding and as exempted exactly those with an
  exception for it, in the order of the audit.
\<close>

theorem rule_results_lists:
  assumes "policies_wf rc" and "gm_get (rc_Policies rc) pn = Some policy" and "gm_get (pt_Rules policy) rn = Some rule"
  shows "\<exists>p r. p \<in> set (ar_Policies (run_compliance_audit now rc repos)) \<and> pa_PolicyName p = pn \<and>
    r \<in> set (pa_Rules p) \<and> ra_RuleName r = rn \<and>
    ra_ViolatingRepos r = map fst (filter (\<lambda>(repo, state).
      \<not> has_active_exception pn rn (ef_exceptions (get_effective_config rc repo)) \<and>
      check_rule_compliance rule state \<noteq> None) repos) \<and>
    ra_ExemptedRepos r = map fst (filter (\<lambda>(repo, state).
      has_active_exception pn rn (ef_exceptions (get_effective_config rc repo))) repos)"
proof -
  let ?results = "foldl (\<lambda>results (n, s). snd (audit_repository rc n s results)) (initialize_policy_results rc) repos"
  have out: "(\<exists>v. rule_outcome_of s xs pn rn rule = Violating v) \<longleftrightarrow>
      \<not> has_active_exception pn rn xs \<and> check_rule_compliance rule s \<noteq> None"
    "rule_outcome_of s xs pn rn rule = Exempted \<longleftrightarrow> has_active_exception pn rn xs" for s xs
    by (auto simp: rule_outcome_of_def split: option.splits)
  obtain r0 where r0: "rule_result (initialize_policy_results rc) pn rn = Some r0"
    "ra_RuleName r0 = rn" "ra_ViolatingRepos r0 = []" "ra_ExemptedRepos r0 = []"
    using rule_result_init [OF assms(2,3)] by blast
  obtain r where r: "rule_result ?results pn rn = Some r" "ra_RuleName r = rn"
    and lists: "ra_ViolatingRepos r = map fst (filter (\<lambda>(repo, state).
      \<not> has_active_exception pn rn (ef_exceptions (get_effective_config rc repo)) \<and>
      check_rule_compliance rule state \<noteq> None) repos)"
      "ra_ExemptedRepos r = map fst (filter (\<lambda>(repo, state).
      has_active_exception pn rn (ef_exceptions (get_effective_config rc repo))) repos)"
    using rule_result_audit [OF assms r0(1), where repos = repos] r0 unfolding out by auto
  obtain p where p: "gm_get ?results pn = Some p" "r \<in> set (pa_Rules p)"
    using r(1) by (auto simp: rule_result_def bind_eq_Some_conv find_Some_iff)
  have "pa_PolicyName p = pn"
    using results_ok_audit [OF results_ok_init, where rc = rc and repos = repos] gm_get_Some_in [OF p(1)] by (auto simp: results_ok_def)
  moreover have "\<exists>q. q \<in> set (ar_Policies (run_compliance_audit now rc repos)) \<and>
      pa_PolicyName q = pa_PolicyName p \<and> pa_Rules q = pa_Rules p"
    using gm_get_Some_in [OF p(1)]
    by (force simp: run_compliance_audit_parts finalize_policy_result_def Let_def)
  ultimately show ?thesis using p(2) r(2) lists by metis
qed

definition sample_rule :: "string \<Rightarrow> go_value \<Rightarrow> string \<Rightarrow> policy_rule" where
  "sample_rule ty v e = \<lparr>pr_Type = ty, pr_Value = v, pr_Enforcement = e, pr_Message = ''fix it''\<rparr>"

definition sample_policy :: policy_template where
  "sample_policy = \<lparr>pt_Description = ''security'', pt_Group = ''security'', pt_Severity = ''high'',
     pt_Rules = [(''private'', sample_rule ''visibility'' (VString ''private'') ''Required''),
                 (''reviews'', sample_rule ''min_reviews'' (VInt 2) ''optional'')], pt_Tags = []\<rparr>"

definition sample_exception :: "string \<Rightarrow> policy_exception" where
  "sample_exception rn = \<lparr>px_PolicyName = ''security'', px_RuleName = rn, px_Reason = ''demo'', px_ApprovedBy = ''cto'',
     px_ApprovalDate = [], px_ExpiresAt = ''2000-01-01'', px_Conditions = []\<rparr>"

definition sample_audit :: repo_config where
  "sample_audit = sample_config\<lparr>rc_Policies := [(''security'', sample_policy)],
     rc_Repositories := Some \<lparr>tg_Specific = [\<lparr>sc_Name = ''demo'', sc_Template = [], sc_Settings = None, sc_Security = None,
       sc_Permissions = None, sc_Exceptions = [sample_exception ''private'', sample_exception ''reviews'']\<rparr>],
       tg_Patterns = [], tg_Default = None\<rparr>\<rparr>"

definition sample_state :: repository_state where
  "sample_state = \<lparr>st_Name = [], st_Private = False, st_Archived = False, st_HasIssues = True, st_HasWiki = False,
     st_HasProjects = False, st_HasDownloads = False, st_BranchProtection = [], st_VulnerabilityAlerts = False,
     st_SecurityAdvisories = False, st_Files = [], st_Workflows = [], st_LastModified = 0\<rparr>"

theorem rule_results_lists_witness:
  "\<exists>p r. p \<in> set (ar_Policies (run_compliance_audit 0 sample_audit [(''demo'', sample_state), (''app'', sample_state)])) \<and>
     r \<in> set (pa_Rules p) \<and> ra_ViolatingRepos r = [''app''] \<and> ra_ExemptedRepos r = [''demo'']"
proof -
  have wf: "policies_wf sample_audit" by code_simp
  have 1: "gm_get (rc_Policies sample_audit) ''security'' = Some sample_policy" by (simp add: sample_audit_def)
  have 2: "gm_get (pt_Rules sample_policy) ''private'' = Some (sample_rule ''visibility'' (VString ''private'') ''Required'')"
    by (simp add: sample_policy_def)
  have 3: "map fst (filter (\<lambda>(repo, state).
      \<not> has_active_exception ''security'' ''private'' (ef_exceptions (get_effective_config sample_audit repo)) \<and>
      check_rule_compliance (sample_rule ''visibility'' (VString ''private'') ''Required'') state \<noteq> None)
      [(''demo'', sample_state), (''app'', sample_state)]) = [''app'']"
    "map fst (filter (\<lambda>(repo, state).
      has_active_exception ''security'' ''private'' (ef_exceptions (get_effective_config sample_audit repo)))
      [(''demo'', sample_state), (''app'', sample_state)]) = [''demo'']"
    by code_simp+
  show ?thesis
    using rule_results_lists [OF wf 1 2, where now = 0 and repos = "[(''demo'', sample_state), (''app'', sample_state)]"] unfolding 3 by blast
qed

text \<open>A repository with two exempted rules of a policy is subtracted twice.\<close>

lemma policy_result_negative:
  "map pa_CompliantRepos (ar_Policies (run_compliance_audit 0 sample_audit [(''demo'', sample_state)])) = [-1]"
  by code_simp

end
