(* ===== verification/GoJson.thy ===== *)
theory GoJson
  imports GoPrelude
begin

text \<open>
  Structs in JSON as \<open>encoding/json\<close> writes and reads them. A value is the tree its text denotes and a
  number keeps its literal. A struct is a table of fields, one per line of its declaration with the
  key of its tag; an encoder writes the fields in their order and a decoder looks keys up in the same
  table: exactly, then without regard to ASCII case. Unknown keys are skipped, \<open>null\<close> changes nothing
  but a slice, what is missing keeps its value, and a value of the wrong type fails the whole.
  Strings are repaired to valid UTF-8 when they are written.
\<close>

section \<open>Values\<close>

datatype json =
    JsonNull
  | JsonBool bool
  | JsonNumber string
  | JsonString string
  | JsonArray "json list"
  | JsonObject "(string \<times> json) list"

definition json_keys :: "json \<Rightarrow> string list" where
  "json_keys v = (case v of JsonObject members \<Rightarrow> map fst members | _ \<Rightarrow> [])"

definition json_elements :: "string \<Rightarrow> json \<Rightarrow> json list" where
  "json_elements key v =
     (case v of JsonObject members \<Rightarrow> (case map_of members key of Some (JsonArray vs) \<Rightarrow> vs | _ \<Rightarrow> []) | _ \<Rightarrow> [])"

section \<open>UTF-8\<close>

definition byte_in :: "nat \<Rightarrow> nat \<Rightarrow> string \<Rightarrow> nat \<Rightarrow> bool" where
  "byte_in lo hi s i \<longleftrightarrow> i < length s \<and> lo \<le> of_char (s ! i) \<and> of_char (s ! i) \<le> hi"

text \<open>The bytes of the character a string starts with, zero if these are not UTF-8.\<close>

definition rune_length :: "string \<Rightarrow> nat" where
  "rune_length s =
     (let rest = byte_in 0x80 0xBF s
      in if byte_in 0 0x7F s 0 then 1
         else if byte_in 0xC2 0xDF s 0 \<and> rest 1 then 2
         else if (byte_in 0xE0 0xE0 s 0 \<and> byte_in 0xA0 0xBF s 1 \<or> byte_in 0xE1 0xEC s 0 \<and> rest 1 \<or>
                  byte_in 0xED 0xED s 0 \<and> byte_in 0x80 0x9F s 1 \<or> byte_in 0xEE 0xEF s 0 \<and> rest 1) \<and> rest 2 then 3
         else if (byte_in 0xF0 0xF0 s 0 \<and> byte_in 0x90 0xBF s 1 \<or> byte_in 0xF1 0xF3 s 0 \<and> rest 1 \<or>
                  byte_in 0xF4 0xF4 s 0 \<and> byte_in 0x80 0x8F s 1) \<and> rest 2 \<and> rest 3 then 4
         else 0)"

function to_valid_utf8 :: "string \<Rightarrow> string" where
  "to_valid_utf8 [] = []"
| "to_valid_utf8 (c # s) =
     (let n = rune_length (c # s)
      in if n = 0 then CHR 0xEF # CHR 0xBF # CHR 0xBD # to_valid_utf8 s
         else take n (c # s) @ to_valid_utf8 (drop n (c # s)))"
  by pat_completeness auto
termination by (relation "measure length") auto

definition is_ascii :: "string \<Rightarrow> bool" where
  "is_ascii s \<longleftrightarrow> list_all (\<lambda>c. of_char c < (128 :: nat)) s"

lemma to_valid_utf8_ascii [simp]: "is_ascii s \<Longrightarrow> to_valid_utf8 s = s"
proof (induction s)
  case (Cons c s)
  then have "rune_length (c # s) = 1" by (simp add: rune_length_def byte_in_def is_ascii_def)
  then show ?case using Cons by (simp add: is_ascii_def)
qed simp

section \<open>Structs\<close>

record 'r json_field =
  jf_key :: string
  jf_omit :: "'r \<Rightarrow> bool"
  jf_put :: "'r \<Rightarrow> json"
  jf_get :: "json \<Rightarrow> 'r \<Rightarrow> 'r option"

definition encode_struct :: "'r json_field list \<Rightarrow> 'r \<Rightarrow> json" where
  "encode_struct fds r = JsonObject (map (\<lambda>f. (jf_key f, jf_put f r)) (filter (\<lambda>f. \<not> jf_omit f r) fds))"

definition field_for :: "'r json_field list \<Rightarrow> string \<Rightarrow> 'r json_field option" where
  "field_for fds key =
     (case List.find (\<lambda>f. jf_key f = key) fds of
        Some f \<Rightarrow> Some f
      | None \<Rightarrow> List.find (\<lambda>f. equal_fold (jf_key f) key) fds)"

fun decode_members :: "'r json_field list \<Rightarrow> (string \<times> json) list \<Rightarrow> 'r \<Rightarrow> 'r option" where
  "decode_members fds [] r = Some r"
| "decode_members fds ((key, v) # members) r =
     (case field_for fds key of
        None \<Rightarrow> decode_members fds members r
      | Some f \<Rightarrow> (case jf_get f v r of None \<Rightarrow> None | Some r' \<Rightarrow> decode_members fds members r'))"

definition decode_struct :: "'r json_field list \<Rightarrow> json \<Rightarrow> 'r \<Rightarrow> 'r option" where
  "decode_struct fds v r =
     (case v of JsonNull \<Rightarrow> Some r | JsonObject members \<Rightarrow> decode_members fds members r | _ \<Rightarrow> None)"

text \<open>An element of an array is decoded over the element that is there, if any.\<close>

fun decode_list :: "(json \<Rightarrow> 'a \<Rightarrow> 'a option) \<Rightarrow> 'a \<Rightarrow> 'a list \<Rightarrow> json list \<Rightarrow> 'a list option" where
  "decode_list decode zero olds [] = Some []"
| "decode_list decode zero olds (v # vs) =
     (case decode v (case olds of [] \<Rightarrow> zero | x # _ \<Rightarrow> x) of
        None \<Rightarrow> None
      | Some y \<Rightarrow> map_option (\<lambda>ys. y # ys) (decode_list decode zero (tl olds) vs))"

section \<open>Fields\<close>

definition encode_text :: "string \<Rightarrow> json" where "encode_text s = JsonString (to_valid_utf8 s)"

definition decode_text :: "json \<Rightarrow> string \<Rightarrow> string option" where
  "decode_text v old = (case v of JsonNull \<Rightarrow> Some old | JsonString s \<Rightarrow> Some s | _ \<Rightarrow> None)"

definition encode_int :: "int \<Rightarrow> json" where "encode_int i = JsonNumber (show_int i)"

definition decode_int :: "json \<Rightarrow> int \<Rightarrow> int option" where
  "decode_int v old = (case v of JsonNull \<Rightarrow> Some old | JsonNumber literal \<Rightarrow> atoi literal | _ \<Rightarrow> None)"

text \<open>The text of a time (RFC 3339 with nanoseconds in the zone of the machine) and how it is read.\<close>

record time_codec =
  tc_text :: "int \<Rightarrow> string"
  tc_parse :: "string \<Rightarrow> int option"

definition encode_time :: "time_codec \<Rightarrow> int \<Rightarrow> json" where "encode_time tc t = JsonString (tc_text tc t)"

definition decode_time :: "time_codec \<Rightarrow> json \<Rightarrow> int \<Rightarrow> int option" where
  "decode_time tc v old = (case v of JsonNull \<Rightarrow> Some old | JsonString s \<Rightarrow> tc_parse tc s | _ \<Rightarrow> None)"

definition encode_list :: "('a \<Rightarrow> json) \<Rightarrow> 'a list \<Rightarrow> json" where "encode_list encode xs = JsonArray (map encode xs)"

definition decode_slice :: "(json \<Rightarrow> 'a \<Rightarrow> 'a option) \<Rightarrow> 'a \<Rightarrow> json \<Rightarrow> 'a list \<Rightarrow> 'a list option" where
  "decode_slice decode zero v old =
     (case v of JsonNull \<Rightarrow> Some [] | JsonArray vs \<Rightarrow> decode_list decode zero old vs | _ \<Rightarrow> None)"

definition plain_field ::
  "string \<Rightarrow> ('a \<Rightarrow> json) \<Rightarrow> (json \<Rightarrow> 'a \<Rightarrow> 'a option) \<Rightarrow> ('r \<Rightarrow> 'a) \<Rightarrow> (('a \<Rightarrow> 'a) \<Rightarrow> 'r \<Rightarrow> 'r) \<Rightarrow> 'r json_field" where
  "plain_field key encode decode sel upd =
     \<lparr>jf_key = key, jf_omit = (\<lambda>r. False), jf_put = (\<lambda>r. encode (sel r)),
      jf_get = (\<lambda>v r. map_option (\<lambda>x. upd (\<lambda>_. x) r) (decode v (sel r)))\<rparr>"

text \<open>A string with \<open>omitempty\<close>.\<close>

definition optional_text :: "string \<Rightarrow> ('r \<Rightarrow> string) \<Rightarrow> ((string \<Rightarrow> string) \<Rightarrow> 'r \<Rightarrow> 'r) \<Rightarrow> 'r json_field" where
  "optional_text key sel upd = (plain_field key encode_text decode_text sel upd)\<lparr>jf_omit := \<lambda>r. sel r = []\<rparr>"

lemma plain_field_sel [simp]:
  "jf_key (plain_field key encode decode sel upd) = key"
  "jf_omit (plain_field key encode decode sel upd) r = False"
  "jf_put (plain_field key encode decode sel upd) r = encode (sel r)"
  "jf_get (plain_field key encode decode sel upd) v r = map_option (\<lambda>x. upd (\<lambda>_. x) r) (decode v (sel r))"
  by (simp_all add: plain_field_def)

lemma optional_text_sel [simp]:
  "jf_key (optional_text key sel upd) = key"
  "jf_omit (optional_text key sel upd) r = (sel r = [])"
  "jf_put (optional_text key sel upd) r = encode_text (sel r)"
  "jf_get (optional_text key sel upd) v r = map_option (\<lambda>x. upd (\<lambda>_. x) r) (decode_text v (sel r))"
  by (simp_all add: plain_field_def optional_text_def)

section \<open>What is read after it was written\<close>

definition is_int64 :: "int \<Rightarrow> bool" where "is_int64 i \<longleftrightarrow> - (2 ^ 63) \<le> i \<and> i < 2 ^ 63"

definition time_survives :: "time_codec \<Rightarrow> int \<Rightarrow> bool" where
  "time_survives tc t \<longleftrightarrow> tc_parse tc (tc_text tc t) = Some t"

lemma decode_encode [simp]:
  "decode_text (encode_text s) old = Some (to_valid_utf8 s)"
  "is_int64 i \<Longrightarrow> decode_int (encode_int i) k = Some i"
  "time_survives tc t \<Longrightarrow> decode_time tc (encode_time tc t) u = Some t"
  by (simp_all add: decode_text_def encode_text_def decode_int_def encode_int_def atoi_show_int is_int64_def
      decode_time_def encode_time_def time_survives_def)

text \<open>A type whose values are read back, up to \<open>norm\<close>, if they are \<open>ok\<close>; then so are its slices.\<close>

locale json_codec =
  fixes encode :: "'a \<Rightarrow> json" and decode :: "json \<Rightarrow> 'a \<Rightarrow> 'a option" and zero :: 'a
    and ok :: "'a \<Rightarrow> bool" and norm :: "'a \<Rightarrow> 'a"
  assumes decode_encode: "ok x \<Longrightarrow> decode (encode x) zero = Some (norm x)"
begin

lemma decode_list_encode: "list_all ok xs \<Longrightarrow> decode_list decode zero [] (map encode xs) = Some (map norm xs)"
  by (induction xs) (simp_all add: decode_encode)

lemma decode_slice_encode: "list_all ok xs \<Longrightarrow> decode_slice decode zero (encode_list encode xs) [] = Some (map norm xs)"
  by (simp add: decode_slice_def encode_list_def decode_list_encode)

end

interpretation json_text: json_codec encode_text decode_text "[]" "\<lambda>s. True" to_valid_utf8
  by unfold_locales simp

lemma text_slice [simp]: "decode_slice decode_text [] (encode_list encode_text ss) [] = Some (map to_valid_utf8 ss)"
  by (rule json_text.decode_slice_encode) (simp add: list_all_iff)

end
