(* ===== verification/GoTime.thy ===== *)
theory GoTime
  imports GoPrelude
begin

text \<open>
  Dates of Go's \<open>time\<close> package in UTC, for the layout \<open>2006-01-02\<close>: the proleptic Gregorian
  calendar, parsing, formatting and adding days. A time counts nanoseconds from the first
  of January of the year zero.
\<close>

section \<open>The calendar\<close>

definition is_leap :: "int \<Rightarrow> bool" where
  "is_leap y \<longleftrightarrow> y mod 4 = 0 \<and> (y mod 100 \<noteq> 0 \<or> y mod 400 = 0)"

definition days_before_year :: "int \<Rightarrow> int" where
  "days_before_year y = 365 * y + (y + 3) div 4 - (y + 99) div 100 + (y + 399) div 400"

text \<open>The days of a year before each month.\<close>

definition month_starts :: "bool \<Rightarrow> int list" where
  "month_starts leap = (if leap then [0, 31, 60, 91, 121, 152, 182, 213, 244, 274, 305, 335, 366]
     else [0, 31, 59, 90, 120, 151, 181, 212, 243, 273, 304, 334, 365])"

definition days_in_month :: "int \<Rightarrow> int \<Rightarrow> int" where
  "days_in_month y m = month_starts (is_leap y) ! nat m - month_starts (is_leap y) ! nat (m - 1)"

definition valid_date :: "int \<Rightarrow> int \<Rightarrow> int \<Rightarrow> bool" where
  "valid_date y m d \<longleftrightarrow> 0 \<le> y \<and> y \<le> 9999 \<and> 1 \<le> m \<and> m \<le> 12 \<and> 1 \<le> d \<and> d \<le> days_in_month y m"

definition day_number :: "int \<Rightarrow> int \<Rightarrow> int \<Rightarrow> int" where
  "day_number y m d = days_before_year y + month_starts (is_leap y) ! nat (m - 1) + (d - 1)"

definition year_of_day :: "int \<Rightarrow> int" where
  "year_of_day n =
     (let e = (n * 400) div 146097 in
      if n < days_before_year e then e - 1
      else if days_before_year (e + 1) \<le> n then e + 1 else e)"

definition month_of_day :: "bool \<Rightarrow> int \<Rightarrow> int" where
  "month_of_day leap k = int (length (filter (\<lambda>s. s \<le> k) (month_starts leap)))"

definition date_of_day :: "int \<Rightarrow> int \<times> int \<times> int" where
  "date_of_day n =
     (let y = year_of_day n; k = n - days_before_year y; m = month_of_day (is_leap y) k
      in (y, m, k - month_starts (is_leap y) ! nat (m - 1) + 1))"

lemma ceiling_div:
  fixes y c :: int
  assumes "0 < c"
  shows "(y + (c - 1)) div c = y div c + (if y mod c = 0 then 0 else 1)"
proof -
  have "(y + (c - 1)) div c = y div c + (c - 1) div c + (y mod c + (c - 1) mod c) div c" by (rule div_add1_eq)
  moreover have "(c - 1) div c = 0" using assms by (intro div_pos_pos_trivial) linarith+
  moreover have "(c - 1) mod c = c - 1" using assms by (intro mod_pos_pos_trivial) linarith+
  moreover have "(y mod c + (c - 1)) div c = (if y mod c = 0 then 0 else 1)"
  proof (cases "y mod c = 0")
    case True
    then show ?thesis using assms by (simp add: div_pos_pos_trivial)
  next
    case False
    have r: "0 < y mod c" "y mod c < c" using False pos_mod_sign [of c y] pos_mod_bound [of c y] assms by linarith+
    have "y mod c + (c - 1) = c * 1 + (y mod c - 1)" by simp
    then have "(y mod c + (c - 1)) div c = 1 + (y mod c - 1) div c" using assms by (simp only: div_mult_self4 mult.commute [of c]) simp
    moreover have "(y mod c - 1) div c = 0" using r by (intro div_pos_pos_trivial) linarith+
    ultimately show ?thesis using False by simp
  qed
  ultimately show ?thesis by simp
qed

lemma ceiling_div_next:
  fixes y c d :: int
  assumes "0 < c" and "d = c - 1"
  shows "(y + 1 + d) div c = (y + d) div c + (if y mod c = 0 then 1 else 0)"
proof -
  have "(y + 1 + d) div c = y div c + 1" using assms div_add_self2 [of c y] by simp
  then show ?thesis using ceiling_div [OF assms(1), of y] assms(2) by simp
qed

lemma div_next:
  fixes y :: int
  shows "(y + 1 + 3) div 4 = (y + 3) div 4 + (if y mod 4 = 0 then 1 else 0)"
    "(y + 1 + 99) div 100 = (y + 99) div 100 + (if y mod 100 = 0 then 1 else 0)"
    "(y + 1 + 399) div 400 = (y + 399) div 400 + (if y mod 400 = 0 then 1 else 0)"
  by (rule ceiling_div_next; simp)+

lemma mod_4_100_400: "(y :: int) mod 400 = 0 \<Longrightarrow> y mod 100 = 0" "(y :: int) mod 100 = 0 \<Longrightarrow> y mod 4 = 0"
  by (auto simp: mod_eq_0_iff_dvd intro: dvd_trans [rotated])

lemma leap_day_count:
  fixes A B C y :: int
  assumes "r \<Longrightarrow> q" and "q \<Longrightarrow> p"
  shows "365 * (y + 1) + (A + (if p then 1 else 0)) - (B + (if q then 1 else 0)) + (C + (if r then 1 else 0)) =
    365 * y + A - B + C + (if p \<and> (\<not> q \<or> r) then 366 else 365)"
  using assms by (cases p; cases q; cases r) simp_all

lemma days_before_next_year: "days_before_year (y + 1) = days_before_year y + (if is_leap y then 366 else 365)"
  unfolding days_before_year_def is_leap_def div_next by (rule leap_day_count) (rule mod_4_100_400; assumption)+

text \<open>The estimate of the year is off by at most one.\<close>

lemma floor_div_bounds:
  fixes a c :: int
  assumes "0 < c"
  shows "c * (a div c) \<le> a" "a < c * (a div c) + c"
proof -
  have "c * (a div c) + a mod c = a" by (rule mult_div_mod_eq)
  moreover have "0 \<le> a mod c" "a mod c < c" using assms by simp_all
  ultimately show "c * (a div c) \<le> a" "a < c * (a div c) + c" by linarith+
qed

lemma ceiling_div_bounds:
  fixes y c d :: int
  assumes "0 < c" and "d = c - 1"
  shows "c * ((y + d) div c) \<le> y + d" "y \<le> c * ((y + d) div c)"
  using floor_div_bounds [OF assms(1), of "y + d"] assms(2) by linarith+

text \<open>The leap days before a year, one ceiling at a time.\<close>

lemma leap_days_bounds:
  fixes A B C y :: int
  assumes "4 * A \<le> y + 3" "y \<le> 4 * A" "100 * B \<le> y + 99" "y \<le> 100 * B" "400 * C \<le> y + 399" "y \<le> 400 * C"
  shows "400 * (365 * y + A - B + C) \<le> 146097 * y + 700" "146097 * y \<le> 400 * (365 * y + A - B + C) + 400"
proof -
  define a b c where "a = 400 * A" and "b = 400 * B" and "c = 400 * C"
  have e: "400 * (365 * y + A - B + C) = 146000 * y + a - b + c" by (simp add: a_def b_def c_def algebra_simps)
  have "a \<le> 100 * y + 300" "100 * y \<le> a" "b \<le> 4 * y + 396" "4 * y \<le> b" "c \<le> y + 399" "y \<le> c"
    unfolding a_def b_def c_def using assms by linarith+
  then show "400 * (365 * y + A - B + C) \<le> 146097 * y + 700" "146097 * y \<le> 400 * (365 * y + A - B + C) + 400"
    unfolding e by linarith+
qed

lemma days_before_year_bounds: "400 * days_before_year y \<le> 146097 * y + 700" "146097 * y \<le> 400 * days_before_year y + 400"
  unfolding days_before_year_def by (rule leap_days_bounds; rule ceiling_div_bounds; simp)+

lemma year_of_day_cases:
  assumes "days_before_year (e - 1) \<le> n" and "n < days_before_year (e + 2)"
    and "y = (if n < days_before_year e then e - 1 else if days_before_year (e + 1) \<le> n then e + 1 else e)"
  shows "days_before_year y \<le> n \<and> n < days_before_year (y + 1)"
proof -
  have "days_before_year (e - 1 + 1) = days_before_year e" "days_before_year (e + 1 + 1) = days_before_year (e + 2)"
    by (simp_all add: add.assoc)
  moreover have "days_before_year e \<le> n \<Longrightarrow> \<not> n < days_before_year e" "n < days_before_year (e + 1) \<Longrightarrow> \<not> days_before_year (e + 1) \<le> n"
    by simp_all
  ultimately show ?thesis using assms
    by (metis linorder_not_less)
qed

lemma year_of_day_correct: "days_before_year (year_of_day n) \<le> n \<and> n < days_before_year (year_of_day n + 1)"
proof -
  define e where "e = (n * 400) div 146097"
  have e: "146097 * e \<le> n * 400" "n * 400 < 146097 * e + 146097"
    unfolding e_def by (rule floor_div_bounds; simp)+
  have "400 * days_before_year (e - 1) \<le> 400 * n" using days_before_year_bounds(1) [of "e - 1"] e by simp
  then have lo: "days_before_year (e - 1) \<le> n" by simp
  have "400 * n < 400 * days_before_year (e + 2)" using days_before_year_bounds(2) [of "e + 2"] e by simp
  then have hi: "n < days_before_year (e + 2)" by simp
  show ?thesis by (rule year_of_day_cases [OF lo hi]) (simp only: year_of_day_def e_def Let_def)
qed

lemma filter_le_sorted: "sorted xs \<Longrightarrow> filter (\<lambda>s. s \<le> k) xs = takeWhile (\<lambda>s. s \<le> (k :: int)) xs"
  by (induction xs) (auto simp: takeWhile_eq_Nil_iff dest: hd_in_set order_trans)

lemma sorted_position:
  assumes "sorted xs" and "xs ! 0 \<le> (k :: int)" and "k < xs ! n" and "n < length xs"
  defines "m \<equiv> length (filter (\<lambda>s. s \<le> k) xs)"
  shows "1 \<le> m \<and> m \<le> n \<and> xs ! (m - 1) \<le> k \<and> k < xs ! m"
proof -
  have m: "m = length (takeWhile (\<lambda>s. s \<le> k) xs)" using filter_le_sorted [OF assms(1)] by (simp add: m_def)
  have le: "xs ! i \<le> k" if "i < m" for i
    using that unfolding m by (metis nth_mem set_takeWhileD takeWhile_nth)
  have "m \<le> n" using le [of n] assms(3) by (meson not_le)
  moreover have "m < length xs" using \<open>m \<le> n\<close> assms(4) by simp
  then have "\<not> xs ! m \<le> k" unfolding m by (rule nth_length_takeWhile)
  moreover have "1 \<le> m" using \<open>\<not> xs ! m \<le> k\<close> assms(2) by (cases m) auto
  ultimately show ?thesis using le [of "m - 1"] by simp
qed

lemma month_of_day_correct:
  assumes "0 \<le> k" and "k < (if leap then 366 else 365)"
  shows "1 \<le> month_of_day leap k \<and> month_of_day leap k \<le> 12 \<and>
    month_starts leap ! nat (month_of_day leap k - 1) \<le> k \<and> k < month_starts leap ! nat (month_of_day leap k)"
proof -
  have t: "sorted (month_starts leap)" "month_starts leap ! 0 = 0" "month_starts leap ! 12 = (if leap then 366 else 365)"
    "length (month_starts leap) = 13" by (simp_all add: month_starts_def)
  define m where "m = length (filter (\<lambda>s. s \<le> k) (month_starts leap))"
  have "1 \<le> m \<and> m \<le> 12 \<and> month_starts leap ! (m - 1) \<le> k \<and> k < month_starts leap ! m"
    unfolding m_def by (rule sorted_position) (use assms t in simp_all)
  then show ?thesis by (simp add: month_of_day_def m_def [symmetric] nat_diff_distrib')
qed

lemma date_of_day_correct:
  assumes "date_of_day n = (y, m, d)"
  shows "day_number y m d = n \<and> 1 \<le> m \<and> m \<le> 12 \<and> 1 \<le> d \<and> d \<le> days_in_month y m"
proof -
  let ?y = "year_of_day n" and ?k = "n - days_before_year (year_of_day n)"
  let ?m = "month_of_day (is_leap ?y) ?k"
  have k: "0 \<le> ?k" "?k < (if is_leap ?y then 366 else 365)"
    using year_of_day_correct [of n] days_before_next_year [of ?y] by auto
  note mc = month_of_day_correct [OF k]
  have "y = ?y" "m = ?m" "d = ?k - month_starts (is_leap ?y) ! nat (?m - 1) + 1"
    using assms by (auto simp: date_of_day_def Let_def)
  then show ?thesis using mc by (simp add: day_number_def days_in_month_def)
qed

section \<open>Parsing and formatting\<close>

definition digit_char :: "int \<Rightarrow> char" where
  "digit_char d = char_of (nat (d mod 10) + 48)"

definition day_length :: int where "day_length = 86400 * nanosecond_second"

text \<open>The zero time of Go, the first of January of the year one.\<close>

definition zero_time :: int where "zero_time = day_number 1 1 1 * day_length"

text \<open>\<open>time.Parse\<close> with the date layout; the year of the result comes with it.\<close>

definition parse_date :: "string \<Rightarrow> (int \<times> int) option" where
  "parse_date s =
     (case s of
        [y1, y2, y3, y4, c1, m1, m2, c2, d1, d2] \<Rightarrow>
          if list_all is_digit [y1, y2, y3, y4, m1, m2, d1, d2] \<and> c1 = CHR ''-'' \<and> c2 = CHR ''-'' \<and>
             valid_date (number_of [y1, y2, y3, y4]) (number_of [m1, m2]) (number_of [d1, d2])
          then Some (day_number (number_of [y1, y2, y3, y4]) (number_of [m1, m2]) (number_of [d1, d2]) * day_length,
                     number_of [y1, y2, y3, y4])
          else None
      | _ \<Rightarrow> None)"

definition format_date :: "int \<Rightarrow> string" where
  "format_date t =
     (case date_of_day (t div day_length) of (y, m, d) \<Rightarrow>
        [digit_char (y div 1000), digit_char (y div 100), digit_char (y div 10), digit_char y, CHR ''-'',
         digit_char (m div 10), digit_char m, CHR ''-'', digit_char (d div 10), digit_char d])"

definition add_days :: "int \<Rightarrow> int \<Rightarrow> int" where
  "add_days t n = t + n * day_length"

lemma digit_char_simps [simp]:
  "is_digit (digit_char d)" "digit_value (digit_char d) = d mod 10"
proof -
  have m: "0 \<le> d mod 10" "d mod 10 < 10" by simp_all
  then have n: "nat (d mod 10) + 48 < 256" by linarith
  have v: "(of_char (digit_char d) :: nat) = nat (d mod 10) + 48"
    unfolding digit_char_def of_char_of using n by simp
  show "is_digit (digit_char d)" unfolding is_digit_def v using m by linarith
  have "(of_char (digit_char d) :: int) = int (of_char (digit_char d))" by (rule of_nat_of_char [symmetric])
  then show "digit_value (digit_char d) = d mod 10" unfolding digit_value_def v using m by simp
qed

lemma div_small_mod:
  fixes m c :: int
  assumes "0 < c" and "0 \<le> m" and "m < c * 10"
  shows "m div c mod 10 = m div c"
proof (rule mod_pos_pos_trivial)
  show "0 \<le> m div c" using assms by (simp add: pos_imp_zdiv_nonneg_iff)
  have "c * (m div c) < c * 10" using floor_div_bounds(1) [OF assms(1), of m] assms(3) by linarith
  then show "m div c < 10" using assms(1) by simp
qed

lemma digits_2: "0 \<le> (m :: int) \<Longrightarrow> m \<le> 99 \<Longrightarrow> 10 * (m div 10 mod 10) + m mod 10 = m"
  using div_small_mod [of 10 m] by simp

lemma digits_4:
  assumes "0 \<le> (y :: int)" and "y \<le> 9999"
  shows "10 * (10 * (10 * (y div 1000 mod 10) + y div 100 mod 10) + y div 10 mod 10) + y mod 10 = y"
proof -
  have "y div 1000 mod 10 = y div 1000" using div_small_mod [of 1000 y] assms by simp
  moreover have "10 * (y div 1000) + y div 100 mod 10 = y div 100"
    using mult_div_mod_eq [of 10 "y div 100"] zdiv_zmult2_eq [of 10 y 100] by simp
  moreover have "10 * (y div 100) + y div 10 mod 10 = y div 10"
    using mult_div_mod_eq [of 10 "y div 10"] zdiv_zmult2_eq [of 10 y 10] by simp
  moreover have "10 * (y div 10) + y mod 10 = y" by (rule mult_div_mod_eq)
  ultimately show ?thesis by (simp only:)
qed

lemma number_of_digits:
  "0 \<le> y \<Longrightarrow> y \<le> 9999 \<Longrightarrow> number_of [digit_char (y div 1000), digit_char (y div 100), digit_char (y div 10), digit_char y] = y"
  "0 \<le> m \<Longrightarrow> m \<le> 99 \<Longrightarrow> number_of [digit_char (m div 10), digit_char m] = m"
  using digits_4 [of y] digits_2 [of m] by (simp_all only: number_of_def foldl.simps digit_char_simps mult_zero_right add_0_left)

lemma days_in_month_bound: "1 \<le> m \<Longrightarrow> m \<le> 12 \<Longrightarrow> days_in_month y m \<le> 31"
proof -
  assume "1 \<le> m" "m \<le> 12"
  then have "m = 1 \<or> m = 2 \<or> m = 3 \<or> m = 4 \<or> m = 5 \<or> m = 6 \<or> m = 7 \<or> m = 8 \<or> m = 9 \<or> m = 10 \<or> m = 11 \<or> m = 12" by presburger
  then show ?thesis by (elim disjE) (simp_all add: days_in_month_def month_starts_def eval_nat_numeral)
qed

text \<open>A date prints to the text it parses from.\<close>

theorem parse_format_date:
  assumes "t mod day_length = 0" and "date_of_day (t div day_length) = (y, m, d)" and "0 \<le> y" and "y \<le> 9999"
  shows "parse_date (format_date t) = Some (t, y)"
proof -
  note c = date_of_day_correct [OF assms(2)]
  have d: "d \<le> 31" using c days_in_month_bound [of m y] by linarith
  have n: "number_of [digit_char (y div 1000), digit_char (y div 100), digit_char (y div 10), digit_char y] = y"
    "number_of [digit_char (m div 10), digit_char m] = m" "number_of [digit_char (d div 10), digit_char d] = d"
    using number_of_digits assms(3,4) c d by auto
  have "t div day_length * day_length = t" using assms(1) by (metis mult_div_mod_eq mult.commute add.right_neutral)
  then show ?thesis using c assms(3,4) by (simp add: format_date_def assms(2) parse_date_def n valid_date_def)
qed

end
