(* ===== verification/CloneState.thy ===== *)
theory CloneState
  imports GoJson GoTime
begin

text \<open>
  The state of a bulk clone and its files (\<open>pkg/synclone/state.go\<close>).

  A state file is the JSON value its text denotes, or None when the text is not JSON; the structs are
  written and read by the tags of their fields, GoJson.thy. The clock is an argument \<open>now\<close> and
  the text of its times a parameter. \<open>writable\<close> says whether the file can be written; a directory
  that cannot be made, a state that cannot be marshalled and an existing file that cannot be read are left out.
\<close>

section \<open>The state\<close>

record completed_repository =
  cr_Name :: string
  cr_Path :: string
  cr_Operation :: string
  cr_CompletedAt :: int
  cr_Message :: string

record failed_repository =
  fr_Name :: string
  fr_Path :: string
  fr_Operation :: string
  fr_Error :: string
  fr_Attempts :: int
  fr_LastAttempt :: int

record clone_state =
  cs_StartTime :: int
  cs_LastUpdated :: int
  cs_Provider :: string
  cs_Organization :: string
  cs_TargetPath :: string
  cs_Strategy :: string
  cs_TotalRepositories :: int
  cs_CompletedRepos :: "completed_repository list"
  cs_FailedRepos :: "failed_repository list"
  cs_PendingRepos :: "string list"
  cs_Parallel :: int
  cs_MaxRetries :: int
  cs_Status :: string

definition new_clone_state :: "int \<Rightarrow> string \<Rightarrow> string \<Rightarrow> string \<Rightarrow> string \<Rightarrow> int \<Rightarrow> int \<Rightarrow> clone_state" where
  "new_clone_state now provider organization targetPath strategy workers maxRetries =
     \<lparr>cs_StartTime = now, cs_LastUpdated = now, cs_Provider = provider, cs_Organization = organization,
      cs_TargetPath = targetPath, cs_Strategy = strategy, cs_TotalRepositories = 0, cs_CompletedRepos = [],
      cs_FailedRepos = [], cs_PendingRepos = [], cs_Parallel = workers, cs_MaxRetries = maxRetries,
      cs_Status = ''in_progress''\<rparr>"

definition update_total_repositories :: "clone_state \<Rightarrow> clone_state" where
  "update_total_repositories cs = cs\<lparr>cs_TotalRepositories :=
     int (length (cs_PendingRepos cs)) + int (length (cs_CompletedRepos cs)) + int (length (cs_FailedRepos cs))\<rparr>"

fun remove_pending :: "string \<Rightarrow> string list \<Rightarrow> string list" where
  "remove_pending name [] = []"
| "remove_pending name (repo # repos) = (if repo = name then repos else repo # remove_pending name repos)"

definition remove_pending_repo :: "string \<Rightarrow> clone_state \<Rightarrow> clone_state" where
  "remove_pending_repo name cs = cs\<lparr>cs_PendingRepos := remove_pending name (cs_PendingRepos cs)\<rparr>"

definition add_completed_repository :: "int \<Rightarrow> string \<Rightarrow> string \<Rightarrow> string \<Rightarrow> string \<Rightarrow> clone_state \<Rightarrow> clone_state" where
  "add_completed_repository now name path operation message cs =
     update_total_repositories (remove_pending_repo name (cs\<lparr>cs_CompletedRepos := cs_CompletedRepos cs @
       [\<lparr>cr_Name = name, cr_Path = path, cr_Operation = operation, cr_CompletedAt = now, cr_Message = message\<rparr>]\<rparr>))"

definition is_completed :: "clone_state \<Rightarrow> string \<Rightarrow> bool" where
  "is_completed cs name = list_ex (\<lambda>c. cr_Name c = name) (cs_CompletedRepos cs)"

definition is_failed :: "clone_state \<Rightarrow> string \<Rightarrow> bool" where
  "is_failed cs name = list_ex (\<lambda>f. fr_Name f = name) (cs_FailedRepos cs)"

fun update_failure :: "int \<Rightarrow> string \<Rightarrow> string \<Rightarrow> int \<Rightarrow> failed_repository list \<Rightarrow> failed_repository list" where
  "update_failure now name err attempts [] = []"
| "update_failure now name err attempts (f # fs) =
     (if fr_Name f = name then f\<lparr>fr_Error := err, fr_Attempts := attempts, fr_LastAttempt := now\<rparr> # fs
      else f # update_failure now name err attempts fs)"

text \<open>A repository that failed before is updated in place, and nothing else happens.\<close>

definition add_failed_repository :: "int \<Rightarrow> string \<Rightarrow> string \<Rightarrow> string \<Rightarrow> string \<Rightarrow> int \<Rightarrow> clone_state \<Rightarrow> clone_state" where
  "add_failed_repository now name path operation errorMsg attempts cs =
     (if is_failed cs name
      then cs\<lparr>cs_FailedRepos := update_failure now name errorMsg attempts (cs_FailedRepos cs)\<rparr>
      else update_total_repositories (remove_pending_repo name (cs\<lparr>cs_FailedRepos := cs_FailedRepos cs @
        [\<lparr>fr_Name = name, fr_Path = path, fr_Operation = operation, fr_Error = errorMsg,
          fr_Attempts = attempts, fr_LastAttempt = now\<rparr>]\<rparr>)))"

definition get_progress :: "clone_state \<Rightarrow> int \<times> int \<times> int" where
  "get_progress cs = (int (length (cs_CompletedRepos cs)), int (length (cs_FailedRepos cs)), int (length (cs_PendingRepos cs)))"

definition get_progress_percent :: "clone_state \<Rightarrow> rat" where
  "get_progress_percent cs =
     (if cs_TotalRepositories cs = 0 then 0
      else (case get_progress cs of (completed, failed, _) \<Rightarrow>
              of_int (completed + failed) / of_int (cs_TotalRepositories cs) * 100))"

definition set_pending_repositories :: "string list \<Rightarrow> clone_state \<Rightarrow> clone_state" where
  "set_pending_repositories repos cs = update_total_repositories (cs\<lparr>cs_PendingRepos := repos\<rparr>)"

definition get_remaining_repositories :: "clone_state \<Rightarrow> string list" where
  "get_remaining_repositories cs = cs_PendingRepos cs"

definition mark_completed :: "int \<Rightarrow> clone_state \<Rightarrow> clone_state" where
  "mark_completed now cs = cs\<lparr>cs_Status := ''completed'', cs_LastUpdated := now\<rparr>"

definition mark_failed :: "int \<Rightarrow> clone_state \<Rightarrow> clone_state" where
  "mark_failed now cs = cs\<lparr>cs_Status := ''failed'', cs_LastUpdated := now\<rparr>"

definition mark_cancelled :: "int \<Rightarrow> clone_state \<Rightarrow> clone_state" where
  "mark_cancelled now cs = cs\<lparr>cs_Status := ''canceled'', cs_LastUpdated := now\<rparr>"

section \<open>States in JSON\<close>

definition completed_fields :: "time_codec \<Rightarrow> completed_repository json_field list" where
  "completed_fields tc =
     [plain_field ''name'' encode_text decode_text cr_Name cr_Name_update,
      plain_field ''path'' encode_text decode_text cr_Path cr_Path_update,
      plain_field ''operation'' encode_text decode_text cr_Operation cr_Operation_update,
      plain_field ''completedAt'' (encode_time tc) (decode_time tc) cr_CompletedAt cr_CompletedAt_update,
      optional_text ''message'' cr_Message cr_Message_update]"

definition failed_fields :: "time_codec \<Rightarrow> failed_repository json_field list" where
  "failed_fields tc =
     [plain_field ''name'' encode_text decode_text fr_Name fr_Name_update,
      plain_field ''path'' encode_text decode_text fr_Path fr_Path_update,
      plain_field ''operation'' encode_text decode_text fr_Operation fr_Operation_update,
      plain_field ''error'' encode_text decode_text fr_Error fr_Error_update,
      plain_field ''attempts'' encode_int decode_int fr_Attempts fr_Attempts_update,
      plain_field ''lastAttempt'' (encode_time tc) (decode_time tc) fr_LastAttempt fr_LastAttempt_update]"

definition zero_completed :: completed_repository where
  "zero_completed = \<lparr>cr_Name = [], cr_Path = [], cr_Operation = [], cr_CompletedAt = zero_time, cr_Message = []\<rparr>"

definition zero_failed :: failed_repository where
  "zero_failed = \<lparr>fr_Name = [], fr_Path = [], fr_Operation = [], fr_Error = [], fr_Attempts = 0, fr_LastAttempt = zero_time\<rparr>"

text \<open>A nil slice is written as null and read as one; here both are the empty list.\<close>

definition state_fields :: "time_codec \<Rightarrow> clone_state json_field list" where
  "state_fields tc =
     [plain_field ''startTime'' (encode_time tc) (decode_time tc) cs_StartTime cs_StartTime_update,
      plain_field ''lastUpdated'' (encode_time tc) (decode_time tc) cs_LastUpdated cs_LastUpdated_update,
      plain_field ''provider'' encode_text decode_text cs_Provider cs_Provider_update,
      plain_field ''organization'' encode_text decode_text cs_Organization cs_Organization_update,
      plain_field ''targetPath'' encode_text decode_text cs_TargetPath cs_TargetPath_update,
      plain_field ''strategy'' encode_text decode_text cs_Strategy cs_Strategy_update,
      plain_field ''totalRepositories'' encode_int decode_int cs_TotalRepositories cs_TotalRepositories_update,
      plain_field ''completedRepos'' (encode_list (encode_struct (completed_fields tc)))
        (decode_slice (decode_struct (completed_fields tc)) zero_completed) cs_CompletedRepos cs_CompletedRepos_update,
      plain_field ''failedRepos'' (encode_list (encode_struct (failed_fields tc)))
        (decode_slice (decode_struct (failed_fields tc)) zero_failed) cs_FailedRepos cs_FailedRepos_update,
      plain_field ''pendingRepos'' (encode_list encode_text) (decode_slice decode_text []) cs_PendingRepos cs_PendingRepos_update,
      plain_field ''parallel'' encode_int decode_int cs_Parallel cs_Parallel_update,
      plain_field ''maxRetries'' encode_int decode_int cs_MaxRetries cs_MaxRetries_update,
      plain_field ''status'' encode_text decode_text cs_Status cs_Status_update]"

definition zero_state :: clone_state where
  "zero_state =
     \<lparr>cs_StartTime = zero_time, cs_LastUpdated = zero_time, cs_Provider = [], cs_Organization = [], cs_TargetPath = [],
      cs_Strategy = [], cs_TotalRepositories = 0, cs_CompletedRepos = [], cs_FailedRepos = [], cs_PendingRepos = [],
      cs_Parallel = 0, cs_MaxRetries = 0, cs_Status = []\<rparr>"

definition encode_state :: "time_codec \<Rightarrow> clone_state \<Rightarrow> json" where
  "encode_state tc = encode_struct (state_fields tc)"

definition decode_state :: "time_codec \<Rightarrow> json \<Rightarrow> clone_state option" where
  "decode_state tc v = decode_struct (state_fields tc) v zero_state"

section \<open>State files\<close>

type_synonym state_files = "(string, json option) gomap"

datatype state_error = NoStateFile string string | UnmarshalFailed | WriteFailed

definition new_state_manager :: "string option \<Rightarrow> string \<Rightarrow> string" where
  "new_state_manager home stateDir =
     (if stateDir = '''' then
        (case home of Some homeDir \<Rightarrow> path_join [homeDir, ''.gzh'', ''state''] | None \<Rightarrow> ''.gzh/state'')
      else stateDir)"

definition get_state_file_path :: "string \<Rightarrow> string \<Rightarrow> string \<Rightarrow> string" where
  "get_state_file_path stateDir provider organization =
     path_join [stateDir, provider @ ''_'' @ organization @ ''.json'']"

definition save_state ::
  "time_codec \<Rightarrow> bool \<Rightarrow> string \<Rightarrow> int \<Rightarrow> clone_state \<Rightarrow> state_files \<Rightarrow> clone_state \<times> state_files \<times> state_error option" where
  "save_state tc writable stateDir now state files =
     (let state' = state\<lparr>cs_LastUpdated := now\<rparr> in
      if writable
      then (state', gm_put (get_state_file_path stateDir (cs_Provider state) (cs_Organization state)) (Some (encode_state tc state')) files, None)
      else (state', files, Some WriteFailed))"

definition load_state :: "time_codec \<Rightarrow> string \<Rightarrow> string \<Rightarrow> string \<Rightarrow> state_files \<Rightarrow> state_error + clone_state" where
  "load_state tc stateDir provider organization files =
     (case gm_get files (get_state_file_path stateDir provider organization) of
        None \<Rightarrow> Inl (NoStateFile provider organization)
      | Some None \<Rightarrow> Inl UnmarshalFailed
      | Some (Some v) \<Rightarrow> (case decode_state tc v of None \<Rightarrow> Inl UnmarshalFailed | Some state \<Rightarrow> Inr state))"

definition delete_state :: "string \<Rightarrow> string \<Rightarrow> string \<Rightarrow> state_files \<Rightarrow> state_files" where
  "delete_state stateDir provider organization files = gm_del (get_state_file_path stateDir provider organization) files"

definition has_state :: "string \<Rightarrow> string \<Rightarrow> string \<Rightarrow> state_files \<Rightarrow> bool" where
  "has_state stateDir provider organization files = (gm_get files (get_state_file_path stateDir provider organization) \<noteq> None)"

section \<open>Invariant\<close>

text \<open>The operations on a state, as one step relation; the calls may come in any order.\<close>

inductive clone_step :: "clone_state \<Rightarrow> clone_state \<Rightarrow> bool" where
  completed: "clone_step cs (add_completed_repository now name path operation message cs)"
| failed: "clone_step cs (add_failed_repository now name path operation err attempts cs)"
| pending: "clone_step cs (set_pending_repositories repos cs)"
| mark_done: "clone_step cs (mark_completed now cs)"
| mark_fail: "clone_step cs (mark_failed now cs)"
| mark_cancel: "clone_step cs (mark_cancelled now cs)"
| touch: "clone_step cs (cs\<lparr>cs_LastUpdated := now\<rparr>)"

inductive_simps clone_step_iff: "clone_step cs cs'"

text \<open>The total counts every repository once, and a repository has at most one failure record.\<close>

definition clone_inv :: "clone_state \<Rightarrow> bool" where
  "clone_inv cs \<longleftrightarrow>
     cs_TotalRepositories cs = int (length (cs_PendingRepos cs)) + int (length (cs_CompletedRepos cs)) + int (length (cs_FailedRepos cs)) \<and>
     distinct (map fr_Name (cs_FailedRepos cs))"

lemma remove_pending_remove1 [simp]: "remove_pending name repos = remove1 name repos"
  by (induction repos) auto

lemma update_failure_names [simp]: "map fr_Name (update_failure now name err attempts fs) = map fr_Name fs"
  by (induction fs) auto

lemma update_failure_length [simp]: "length (update_failure now name err attempts fs) = length fs"
  by (metis length_map update_failure_names)

lemma clone_inv_step: "clone_step cs cs' \<Longrightarrow> clone_inv cs \<Longrightarrow> clone_inv cs'"
  by (induction rule: clone_step.induct)
    (auto simp: clone_inv_def add_completed_repository_def add_failed_repository_def set_pending_repositories_def
      mark_completed_def mark_failed_def mark_cancelled_def update_total_repositories_def remove_pending_repo_def
      is_failed_def list_ex_iff)

lemma clone_inv_new: "clone_inv (new_clone_state now provider org path strategy workers retries)"
  by (simp add: clone_inv_def new_clone_state_def)

section \<open>Properties\<close>

text \<open>
  Property C8. Whatever operations a new clone state goes through, its total is the number of
  pending, completed and failed repositories, no repository has two failure records, and the
  progress is a percentage.
\<close>

theorem clone_state_counts:
  assumes "clone_step\<^sup>*\<^sup>* (new_clone_state now provider org path strategy workers retries) cs"
  shows "cs_TotalRepositories cs = (case get_progress cs of (completed, failed, pending) \<Rightarrow> completed + failed + pending) \<and>
    distinct (map fr_Name (cs_FailedRepos cs)) \<and> 0 \<le> get_progress_percent cs \<and> get_progress_percent cs \<le> 100"
proof -
  have inv: "clone_inv cs"
    using assms by (induction rule: rtranclp_induct) (auto intro: clone_inv_new clone_inv_step)
  then have total: "cs_TotalRepositories cs = int (length (cs_PendingRepos cs)) + int (length (cs_CompletedRepos cs)) + int (length (cs_FailedRepos cs))"
    by (simp add: clone_inv_def)
  have "(of_int (int (length (cs_CompletedRepos cs)) + int (length (cs_FailedRepos cs))) :: rat) \<le> of_int (cs_TotalRepositories cs)"
    unfolding total of_int_le_iff by simp
  then have "get_progress_percent cs \<le> 100"
    using total by (simp add: get_progress_percent_def get_progress_def divide_le_eq)
  moreover have "0 \<le> get_progress_percent cs"
    using total by (simp add: get_progress_percent_def get_progress_def)
  ultimately show ?thesis using inv by (simp add: clone_inv_def get_progress_def)
qed

definition sample_clone :: clone_state where
  "sample_clone = add_failed_repository 5 ''b'' ''/t/b'' ''clone'' ''timeout'' 1
     (add_completed_repository 4 ''a'' ''/t/a'' ''clone'' ''ok''
       (set_pending_repositories [''a'', ''b'', ''c''] (new_clone_state 0 ''github'' ''acme'' ''/t'' ''pull'' 4 3)))"

theorem clone_state_counts_witness: "cs_TotalRepositories sample_clone = 3 \<and> get_progress_percent sample_clone \<le> 100"
proof -
  have "clone_step\<^sup>*\<^sup>* (new_clone_state 0 ''github'' ''acme'' ''/t'' ''pull'' 4 3) sample_clone"
    unfolding sample_clone_def
    by (rule rtranclp.rtrancl_into_rtrancl, rule rtranclp.rtrancl_into_rtrancl, rule rtranclp.rtrancl_into_rtrancl,
        rule rtranclp.rtrancl_refl, rule clone_step.pending, rule clone_step.completed, rule clone_step.failed)
  from clone_state_counts [OF this] show ?thesis by (simp add: get_progress_def) (code_simp)
qed

text \<open>What a state must be for its file to hold it: integers of 64 bits and times that survive their text.\<close>

definition completed_ok :: "time_codec \<Rightarrow> completed_repository \<Rightarrow> bool" where
  "completed_ok tc c \<longleftrightarrow> time_survives tc (cr_CompletedAt c)"

definition failed_ok :: "time_codec \<Rightarrow> failed_repository \<Rightarrow> bool" where
  "failed_ok tc f \<longleftrightarrow> is_int64 (fr_Attempts f) \<and> time_survives tc (fr_LastAttempt f)"

definition state_ok :: "time_codec \<Rightarrow> clone_state \<Rightarrow> bool" where
  "state_ok tc cs \<longleftrightarrow>
     time_survives tc (cs_StartTime cs) \<and> time_survives tc (cs_LastUpdated cs) \<and>
     is_int64 (cs_TotalRepositories cs) \<and> is_int64 (cs_Parallel cs) \<and> is_int64 (cs_MaxRetries cs) \<and>
     list_all (completed_ok tc) (cs_CompletedRepos cs) \<and> list_all (failed_ok tc) (cs_FailedRepos cs)"

text \<open>A state with its strings repaired, and the strings it holds.\<close>

definition valid_completed :: "completed_repository \<Rightarrow> completed_repository" where
  "valid_completed c =
     c\<lparr>cr_Name := to_valid_utf8 (cr_Name c), cr_Path := to_valid_utf8 (cr_Path c), cr_Operation := to_valid_utf8 (cr_Operation c),
       cr_Message := to_valid_utf8 (cr_Message c)\<rparr>"

definition valid_failed :: "failed_repository \<Rightarrow> failed_repository" where
  "valid_failed f =
     f\<lparr>fr_Name := to_valid_utf8 (fr_Name f), fr_Path := to_valid_utf8 (fr_Path f), fr_Operation := to_valid_utf8 (fr_Operation f),
       fr_Error := to_valid_utf8 (fr_Error f)\<rparr>"

definition valid_state :: "clone_state \<Rightarrow> clone_state" where
  "valid_state cs =
     cs\<lparr>cs_Provider := to_valid_utf8 (cs_Provider cs), cs_Organization := to_valid_utf8 (cs_Organization cs),
        cs_TargetPath := to_valid_utf8 (cs_TargetPath cs), cs_Strategy := to_valid_utf8 (cs_Strategy cs),
        cs_CompletedRepos := map valid_completed (cs_CompletedRepos cs), cs_FailedRepos := map valid_failed (cs_FailedRepos cs),
        cs_PendingRepos := map to_valid_utf8 (cs_PendingRepos cs), cs_Status := to_valid_utf8 (cs_Status cs)\<rparr>"

definition state_texts :: "clone_state \<Rightarrow> string list" where
  "state_texts cs =
     [cs_Provider cs, cs_Organization cs, cs_TargetPath cs, cs_Strategy cs, cs_Status cs] @ cs_PendingRepos cs @
     concat (map (\<lambda>c. [cr_Name c, cr_Path c, cr_Operation c, cr_Message c]) (cs_CompletedRepos cs)) @
     concat (map (\<lambda>f. [fr_Name f, fr_Path f, fr_Operation f, fr_Error f]) (cs_FailedRepos cs))"

lemma valid_state_ascii: "list_all is_ascii (state_texts cs) \<Longrightarrow> valid_state cs = cs"
proof -
  assume a: "list_all is_ascii (state_texts cs)"
  have "map valid_completed (cs_CompletedRepos cs) = cs_CompletedRepos cs" "map valid_failed (cs_FailedRepos cs) = cs_FailedRepos cs"
    "map to_valid_utf8 (cs_PendingRepos cs) = cs_PendingRepos cs"
    using a by (auto simp: state_texts_def valid_completed_def valid_failed_def list_all_iff ball_Un ball_UN intro!: map_idI)
  then show ?thesis using a by (simp add: valid_state_def state_texts_def)
qed

text \<open>Each key finds its field.\<close>

lemma completed_codec:
  "completed_ok tc c \<Longrightarrow> decode_struct (completed_fields tc) (encode_struct (completed_fields tc) c) zero_completed = Some (valid_completed c)"
  by (simp add: decode_struct_def encode_struct_def completed_fields_def field_for_def zero_completed_def valid_completed_def completed_ok_def)

lemma failed_codec:
  "failed_ok tc f \<Longrightarrow> decode_struct (failed_fields tc) (encode_struct (failed_fields tc) f) zero_failed = Some (valid_failed f)"
  by (simp add: decode_struct_def encode_struct_def failed_fields_def field_for_def zero_failed_def valid_failed_def failed_ok_def)

interpretation json_completed: json_codec "encode_struct (completed_fields tc)" "decode_struct (completed_fields tc)" zero_completed
    "completed_ok tc" valid_completed for tc
  by unfold_locales (rule completed_codec)

interpretation json_failed: json_codec "encode_struct (failed_fields tc)" "decode_struct (failed_fields tc)" zero_failed
    "failed_ok tc" valid_failed for tc
  by unfold_locales (rule failed_codec)

lemma state_codec: "state_ok tc cs \<Longrightarrow> decode_state tc (encode_state tc cs) = Some (valid_state cs)"
  by (simp add: decode_state_def encode_state_def decode_struct_def encode_struct_def state_fields_def field_for_def zero_state_def
      valid_state_def state_ok_def json_completed.decode_slice_encode json_failed.decode_slice_encode)

lemma state_document:
  "json_keys (encode_state tc cs) = [''startTime'', ''lastUpdated'', ''provider'', ''organization'', ''targetPath'', ''strategy'',
     ''totalRepositories'', ''completedRepos'', ''failedRepos'', ''pendingRepos'', ''parallel'', ''maxRetries'', ''status'']"
  "map json_keys (json_elements ''completedRepos'' (encode_state tc cs)) =
     map (\<lambda>c. [''name'', ''path'', ''operation'', ''completedAt''] @ (if cr_Message c = [] then [] else [''message''])) (cs_CompletedRepos cs)"
  "map json_keys (json_elements ''failedRepos'' (encode_state tc cs)) =
     map (\<lambda>f. [''name'', ''path'', ''operation'', ''error'', ''attempts'', ''lastAttempt'']) (cs_FailedRepos cs)"
  by (simp_all add: json_keys_def json_elements_def encode_state_def encode_struct_def state_fields_def encode_list_def completed_fields_def
      failed_fields_def)

text \<open>
  Property C9. A saved state is written as one object with the keys of its tags, and so is each of its
  completed and failed repositories; given that times survive their text, the next load for its provider
  and organization returns every field of it, with the time of the save and with bytes that are not
  UTF-8 replaced. The files of other operations are untouched, and after a deletion there is no state.
\<close>

theorem state_file_roundtrip:
  assumes "save_state tc True stateDir now state files = (state', files', None)" and "gm_wf files" and "state_ok tc state'"
  shows "(\<exists>doc. gm_get files' (get_state_file_path stateDir (cs_Provider state) (cs_Organization state)) = Some (Some doc) \<and>
      json_keys doc = [''startTime'', ''lastUpdated'', ''provider'', ''organization'', ''targetPath'', ''strategy'',
        ''totalRepositories'', ''completedRepos'', ''failedRepos'', ''pendingRepos'', ''parallel'', ''maxRetries'', ''status''] \<and>
      map json_keys (json_elements ''completedRepos'' doc) =
        map (\<lambda>c. [''name'', ''path'', ''operation'', ''completedAt''] @ (if cr_Message c = [] then [] else [''message'']))
          (cs_CompletedRepos state) \<and>
      map json_keys (json_elements ''failedRepos'' doc) =
        map (\<lambda>f. [''name'', ''path'', ''operation'', ''error'', ''attempts'', ''lastAttempt'']) (cs_FailedRepos state)) \<and>
    load_state tc stateDir (cs_Provider state) (cs_Organization state) files' = Inr (valid_state state') \<and>
    state' = state\<lparr>cs_LastUpdated := now\<rparr> \<and> (list_all is_ascii (state_texts state') \<longrightarrow> valid_state state' = state') \<and>
    (get_state_file_path stateDir provider org \<noteq> get_state_file_path stateDir (cs_Provider state) (cs_Organization state) \<longrightarrow>
      load_state tc stateDir provider org files' = load_state tc stateDir provider org files) \<and>
    \<not> has_state stateDir (cs_Provider state) (cs_Organization state)
        (delete_state stateDir (cs_Provider state) (cs_Organization state) files')"
proof -
  have f: "files' = gm_put (get_state_file_path stateDir (cs_Provider state) (cs_Organization state)) (Some (encode_state tc state')) files"
    and s: "state' = state\<lparr>cs_LastUpdated := now\<rparr>" using assms(1) by (auto simp: save_state_def Let_def)
  show ?thesis
    using state_document [of tc state'] state_codec [OF assms(3)] valid_state_ascii [of state'] assms(2)
    by (auto simp: f load_state_def has_state_def delete_state_def gm.get_del s)
qed

text \<open>Times as numbers of nanoseconds, for the examples.\<close>

definition unix_times :: time_codec where "unix_times = \<lparr>tc_text = show_int, tc_parse = atoi\<rparr>"

lemma sample_clone_saved:
  "save_state unix_times True ''/t/.gzh/state'' 9 sample_clone [] =
     (sample_clone\<lparr>cs_LastUpdated := 9\<rparr>,
      [(''/t/.gzh/state/github_acme.json'', Some (encode_state unix_times (sample_clone\<lparr>cs_LastUpdated := 9\<rparr>)))], None)"
proof -
  have "cs_Provider sample_clone = ''github''" "cs_Organization sample_clone = ''acme''"
    "get_state_file_path ''/t/.gzh/state'' ''github'' ''acme'' = ''/t/.gzh/state/github_acme.json''" by code_simp+
  then show ?thesis by (simp add: save_state_def Let_def gm_put_def)
qed

lemma sample_clone_ok: "state_ok unix_times (sample_clone\<lparr>cs_LastUpdated := 9\<rparr>)" by code_simp

lemma sample_clone_ascii: "list_all is_ascii (state_texts (sample_clone\<lparr>cs_LastUpdated := 9\<rparr>))" by code_simp

theorem state_file_roundtrip_witness:
  "load_state unix_times ''/t/.gzh/state'' ''github'' ''acme''
     [(''/t/.gzh/state/github_acme.json'', Some (encode_state unix_times (sample_clone\<lparr>cs_LastUpdated := 9\<rparr>)))]
     = Inr (sample_clone\<lparr>cs_LastUpdated := 9\<rparr>)"
proof -
  have "cs_Provider sample_clone = ''github''" "cs_Organization sample_clone = ''acme''" by code_simp+
  then show ?thesis
    using state_file_roundtrip [OF sample_clone_saved gm.wf_nil sample_clone_ok] sample_clone_ascii by simp
qed

end
