(* ===== verification/WorkerPool.thy ===== *)
theory WorkerPool
  imports GoPrelude "HOL-Library.Multiset"
begin

text \<open>
  The worker pools (\<open>internal/workerpool/pool.go\<close> and \<open>repository_pool.go\<close>).

  A pool is its two buffered channels, the jobs its workers execute and the results its
  workers wait to send; goroutines are the steps of a relation, in any interleaving. The
  steps of the workers are those of a pool that is not stopped; stopping discards the rest. A
  job function is the error it returns. Where a \<open>select\<close> of the code has several ready
  branches, the model lists them all.
\<close>

section \<open>The generic pool\<close>

record worker_pool_config =
  wc_WorkerCount :: int
  wc_BufferSize :: int
  wc_Timeout :: int

record 'a pool =
  pl_config :: worker_pool_config
  pl_jobs :: "'a list"
  pl_running :: "'a list"
  pl_sending :: "('a \<times> string option) list"
  pl_results :: "('a \<times> string option) list"
  pl_started :: bool
  pl_cancelled :: bool

datatype pool_error = AlreadyStarted | NotStarted | ContextDone | QueueFull | UnknownOperation string

definition default_worker_pool_config :: "int \<Rightarrow> worker_pool_config" where
  "default_worker_pool_config numCPU =
     \<lparr>wc_WorkerCount = numCPU, wc_BufferSize = numCPU * 2, wc_Timeout = 30 * nanosecond_second\<rparr>"

definition new_pool :: "int \<Rightarrow> worker_pool_config \<Rightarrow> 'a pool" where
  "new_pool numCPU config0 =
     (let c1 = (if wc_WorkerCount config0 \<le> 0 then config0\<lparr>wc_WorkerCount := numCPU\<rparr> else config0);
          c2 = (if wc_BufferSize c1 \<le> 0 then c1\<lparr>wc_BufferSize := wc_WorkerCount c1 * 2\<rparr> else c1);
          c3 = (if wc_Timeout c2 \<le> 0 then c2\<lparr>wc_Timeout := 30 * nanosecond_second\<rparr> else c2)
      in \<lparr>pl_config = c3, pl_jobs = [], pl_running = [], pl_sending = [], pl_results = [],
          pl_started = False, pl_cancelled = False\<rparr>)"

abbreviation workers :: "'a pool \<Rightarrow> nat" where "workers p \<equiv> nat (wc_WorkerCount (pl_config p))"
abbreviation buffer :: "'a pool \<Rightarrow> nat" where "buffer p \<equiv> nat (wc_BufferSize (pl_config p))"

definition pool_start :: "'a pool \<Rightarrow> pool_error + 'a pool" where
  "pool_start p = (if pl_started p then Inl AlreadyStarted else Inr (p\<lparr>pl_started := True\<rparr>))"

definition pool_submit :: "'a pool \<Rightarrow> 'a \<Rightarrow> (pool_error + 'a pool) list" where
  "pool_submit p job =
     (if \<not> pl_started p then [Inl NotStarted]
      else let ready = (if length (pl_jobs p) < buffer p then [Inr (p\<lparr>pl_jobs := pl_jobs p @ [job]\<rparr>)] else []) @
                 (if pl_cancelled p then [Inl ContextDone] else [])
           in if ready = [] then [Inl QueueFull] else ready)"

definition pool_stop :: "'a pool \<Rightarrow> 'a pool" where
  "pool_stop p = (if \<not> pl_started p then p\<lparr>pl_cancelled := True\<rparr>
     else p\<lparr>pl_jobs := [], pl_running := [], pl_sending := [], pl_results := [], pl_started := False, pl_cancelled := True\<rparr>)"

text \<open>A worker takes the oldest job, finishes the one it runs, and sends its result.\<close>

definition remove_nth :: "nat \<Rightarrow> 'b list \<Rightarrow> 'b list" where
  "remove_nth i xs = take i xs @ drop (Suc i) xs"

inductive worker_step :: "'a pool \<Rightarrow> 'a pool \<Rightarrow> bool" where
  take_job: "pl_started p \<Longrightarrow> \<not> pl_cancelled p \<Longrightarrow> pl_jobs p = job # rest \<Longrightarrow>
    length (pl_running p) + length (pl_sending p) < workers p \<Longrightarrow>
    worker_step p (p\<lparr>pl_jobs := rest, pl_running := pl_running p @ [job]\<rparr>)"
| finish_job: "\<not> pl_cancelled p \<Longrightarrow> i < length (pl_running p) \<Longrightarrow>
    worker_step p (p\<lparr>pl_running := remove_nth i (pl_running p),
      pl_sending := pl_sending p @ [(pl_running p ! i, err)]\<rparr>)"
| send_result: "\<not> pl_cancelled p \<Longrightarrow> i < length (pl_sending p) \<Longrightarrow> length (pl_results p) < buffer p \<Longrightarrow>
    worker_step p (p\<lparr>pl_sending := remove_nth i (pl_sending p), pl_results := pl_results p @ [pl_sending p ! i]\<rparr>)"

lemma remove_nth_length [simp]: "i < length xs \<Longrightarrow> length (remove_nth i xs) = length xs - 1"
  by (simp add: remove_nth_def)

lemma remove_nth_mset: "i < length xs \<Longrightarrow> mset xs = add_mset (xs ! i) (mset (remove_nth i xs))"
  by (metis append_take_drop_id Cons_nth_drop_Suc mset.simps(2) mset_append remove_nth_def union_mset_add_mset_right)

text \<open>Every job in the pool, whatever its stage, and the bounds of the stages.\<close>

definition pool_content :: "'a pool \<Rightarrow> 'a multiset" where
  "pool_content p = mset (pl_jobs p) + mset (pl_running p) + mset (map fst (pl_sending p)) + mset (map fst (pl_results p))"

definition pool_bounds :: "'a pool \<Rightarrow> bool" where
  "pool_bounds p \<longleftrightarrow> length (pl_jobs p) \<le> buffer p \<and> length (pl_running p) + length (pl_sending p) \<le> workers p \<and>
     length (pl_results p) \<le> buffer p"

text \<open>Each worker step brings one job closer to the results channel.\<close>

definition pool_work :: "'a pool \<Rightarrow> nat" where
  "pool_work p = 3 * length (pl_jobs p) + 2 * length (pl_running p) + length (pl_sending p)"

lemma worker_step_content: "worker_step p p' \<Longrightarrow> pool_content p' = pool_content p"
proof (induction rule: worker_step.induct)
  case (finish_job p i err)
  then show ?case using remove_nth_mset [OF finish_job(2)] by (simp add: pool_content_def)
next
  case (send_result p i)
  have "mset (map fst (pl_sending p)) = add_mset (fst (pl_sending p ! i)) (mset (map fst (remove_nth i (pl_sending p))))"
    using remove_nth_mset [OF send_result(2)] by (metis image_mset_add_mset mset_map)
  then show ?case by (simp add: pool_content_def)
qed (simp add: pool_content_def)

lemma worker_step_bounds: "worker_step p p' \<Longrightarrow> pool_bounds p \<Longrightarrow> pool_bounds p'"
  by (induction rule: worker_step.induct) (auto simp: pool_bounds_def)

lemma worker_step_work: "worker_step p p' \<Longrightarrow> pool_work p' < pool_work p"
  by (induction rule: worker_step.induct) (auto simp: pool_work_def)

lemma worker_step_frame:
  "worker_step p p' \<Longrightarrow> pl_config p' = pl_config p \<and> pl_started p' = pl_started p \<and> pl_cancelled p' = pl_cancelled p"
  by (induction rule: worker_step.induct) simp_all

lemma pool_size: "size (pool_content p) = length (pl_jobs p) + length (pl_running p) + length (pl_sending p) + length (pl_results p)"
  by (simp add: pool_content_def)

lemma pool_bounds_size: "pool_bounds p \<Longrightarrow> size (pool_content p) \<le> 2 * buffer p + workers p"
  by (simp add: pool_size pool_bounds_def)

lemma pool_submit_Inr:
  "Inr p' \<in> set (pool_submit p job) \<Longrightarrow>
   p' = p\<lparr>pl_jobs := pl_jobs p @ [job]\<rparr> \<and> length (pl_jobs p) < buffer p \<and> pl_started p"
  by (auto simp: pool_submit_def Let_def split: if_splits)

text \<open>A live pool whose results are read, or not full, is stuck only when it is empty.\<close>

lemma worker_progress:
  assumes "pl_started p" "\<not> pl_cancelled p" "pool_bounds p" "0 < workers p" "length (pl_results p) < buffer p"
    and "\<not> (\<exists>p'. worker_step p p')"
  shows "pl_jobs p = [] \<and> pl_running p = [] \<and> pl_sending p = []"
proof -
  have sending: "pl_sending p = []"
    using assms send_result [of p 0] by (cases "pl_sending p") auto
  have running: "pl_running p = []"
    using assms finish_job [of p 0] by (cases "pl_running p") auto
  have "pl_jobs p = []"
    using assms take_job [of p] sending running by (cases "pl_jobs p") auto
  then show ?thesis using sending running by blast
qed

section \<open>ProcessBatch\<close>

text \<open>
  A batch in progress: the pool, the items not submitted yet and the results collected. The
  submission loop runs before the collecting loop. A context that is cancelled, at any
  time, or a submission that fails ends the batch.
\<close>

record 'a batch =
  ba_pool :: "'a pool"
  ba_todo :: "'a list"
  ba_results :: "('a \<times> string option) list"

datatype 'a batch_result =
    SubmitFailed pool_error
  | BatchCancelled "('a \<times> string option) list"
  | BatchDone "('a \<times> string option) list"

definition process_batch_start :: "int \<Rightarrow> worker_pool_config \<Rightarrow> 'a list \<Rightarrow> 'a batch" where
  "process_batch_start numCPU config items =
     (let config' = (if wc_BufferSize config < int (length items) then config\<lparr>wc_BufferSize := int (length items)\<rparr> else config)
      in \<lparr>ba_pool = (new_pool numCPU config')\<lparr>pl_started := True\<rparr>, ba_todo = items, ba_results = []\<rparr>)"

inductive batch_step :: "int \<Rightarrow> 'a batch \<Rightarrow> 'a batch + 'a batch_result \<Rightarrow> bool" for n :: int where
  submit_ok: "ba_todo b = item # rest \<Longrightarrow> Inr p' \<in> set (pool_submit (ba_pool b) item) \<Longrightarrow>
    batch_step n b (Inl (b\<lparr>ba_pool := p', ba_todo := rest\<rparr>))"
| submit_error: "ba_todo b = item # rest \<Longrightarrow> Inl e \<in> set (pool_submit (ba_pool b) item) \<Longrightarrow>
    batch_step n b (Inr (SubmitFailed e))"
| work: "worker_step (ba_pool b) p' \<Longrightarrow> batch_step n b (Inl (b\<lparr>ba_pool := p'\<rparr>))"
| collect: "ba_todo b = [] \<Longrightarrow> int (length (ba_results b)) < n \<Longrightarrow> pl_results (ba_pool b) = r # rs \<Longrightarrow>
    batch_step n b (Inl (b\<lparr>ba_pool := (ba_pool b)\<lparr>pl_results := rs\<rparr>, ba_results := ba_results b @ [r]\<rparr>))"
| cancel: "batch_step n b (Inr (BatchCancelled (if ba_todo b = [] then ba_results b else [])))"
| finish: "ba_todo b = [] \<Longrightarrow> int (length (ba_results b)) = n \<Longrightarrow> batch_step n b (Inr (BatchDone (ba_results b)))"

text \<open>The runs of a batch that is still going.\<close>

inductive batch_run :: "int \<Rightarrow> 'a batch \<Rightarrow> 'a batch \<Rightarrow> bool" for n where
  stay: "batch_run n b b"
| move: "batch_run n b c \<Longrightarrow> batch_step n c (Inl d) \<Longrightarrow> batch_run n b d"

definition batch_inv :: "'a list \<Rightarrow> 'a batch \<Rightarrow> bool" where
  "batch_inv items b \<longleftrightarrow> (let p = ba_pool b in
     pl_started p \<and> \<not> pl_cancelled p \<and> 0 < workers p \<and> pool_bounds p \<and> length items \<le> buffer p \<and>
     mset (ba_todo b) + pool_content p + mset (map fst (ba_results b)) = mset items)"

definition batch_work :: "'a batch \<Rightarrow> nat" where
  "batch_work b = 5 * length (ba_todo b) + pool_work (ba_pool b) + size (pool_content (ba_pool b))"

lemma batch_inv_start:
  assumes "0 < numCPU" and "items \<noteq> []"
  shows "batch_inv items (process_batch_start numCPU config items)"
  using assms
  by (auto simp: batch_inv_def process_batch_start_def new_pool_def Let_def pool_bounds_def pool_content_def)

lemma batch_inv_size:
  "batch_inv items b \<Longrightarrow> length (ba_todo b) + size (pool_content (ba_pool b)) + length (ba_results b) = length items"
  unfolding batch_inv_def Let_def by (metis size_mset size_union length_map)

lemma batch_step_inv:
  assumes "batch_step n b (Inl c)" and "batch_inv items b"
  shows "batch_inv items c \<and> batch_work c < batch_work b"
  using assms
proof (cases rule: batch_step.cases)
  case (submit_ok item rest p')
  then show ?thesis using assms(2) pool_submit_Inr [OF submit_ok(3)]
    by (simp add: batch_inv_def Let_def pool_bounds_def pool_content_def batch_work_def pool_work_def)
next
  case (work p')
  then show ?thesis
    using assms(2) worker_step_content [OF work(2)] worker_step_bounds [OF work(2)] worker_step_work [OF work(2)]
      worker_step_frame [OF work(2)]
    by (simp add: batch_inv_def Let_def batch_work_def)
next
  case (collect r rs)
  then show ?thesis using assms(2)
    by (simp add: batch_inv_def Let_def pool_bounds_def pool_content_def batch_work_def pool_work_def)
qed

lemma batch_run_inv:
  "batch_run n b c \<Longrightarrow> batch_inv items b \<Longrightarrow> batch_inv items c"
  by (induction rule: batch_run.induct) (auto dest: batch_step_inv)

lemma batch_no_submit_error:
  assumes "batch_inv items b" and "batch_step n b (Inr (SubmitFailed e))"
  shows False
proof -
  obtain item rest where t: "ba_todo b = item # rest" and s: "Inl e \<in> set (pool_submit (ba_pool b) item)"
    using assms(2) by (cases rule: batch_step.cases) auto
  have "length (pl_jobs (ba_pool b)) < length items"
    using batch_inv_size [OF assms(1)] t by (simp add: pool_size)
  then show False using s assms(1) by (auto simp: pool_submit_def batch_inv_def Let_def split: if_splits)
qed

lemma batch_progress:
  assumes "batch_inv items b" and "n = int (length items)"
  shows "(\<exists>c. batch_step n b (Inl c)) \<or> (\<exists>rs. batch_step n b (Inr (BatchDone rs)) \<and> rs = ba_results b \<and> mset (map fst rs) = mset items)"
proof (rule ccontr)
  assume no: "\<not> ?thesis"
  let ?p = "ba_pool b"
  have inv: "pl_started ?p" "\<not> pl_cancelled ?p" "0 < workers ?p" "pool_bounds ?p" "length items \<le> buffer ?p"
    "mset (ba_todo b) + pool_content ?p + mset (map fst (ba_results b)) = mset items"
    using assms(1) by (auto simp: batch_inv_def Let_def)
  have todo: "ba_todo b = []"
  proof (cases "ba_todo b")
    case (Cons item rest)
    have "length (pl_jobs ?p) < length items" using batch_inv_size [OF assms(1)] Cons by (simp add: pool_size)
    then have "Inr (?p\<lparr>pl_jobs := pl_jobs ?p @ [item]\<rparr>) \<in> set (pool_submit ?p item)"
      using inv by (simp add: pool_submit_def Let_def)
    from batch_step.submit_ok [OF Cons this] no show ?thesis by blast
  qed
  have results: "pl_results ?p = []"
  proof (cases "pl_results ?p")
    case (Cons r rs)
    then have "int (length (ba_results b)) < n" using batch_inv_size [OF assms(1)] assms(2) by (simp add: pool_size)
    from batch_step.collect [OF todo this Cons] no show ?thesis by blast
  qed
  have "\<not> (\<exists>p'. worker_step ?p p')" using no batch_step.work by blast
  moreover have "length (pl_results ?p) < buffer ?p \<or> items = []"
  proof (cases "items = []")
    case False
    then have "0 < length items" by simp
    then have "0 < buffer ?p" using inv(5) by linarith
    then show ?thesis using results by simp
  qed simp
  ultimately have empty: "pool_content ?p = {#} \<or> items = []"
    using worker_progress [OF inv(1,2,4,3)] results by (auto simp: pool_content_def)
  then have all: "mset (map fst (ba_results b)) = mset items" using inv(6) todo by auto
  then have "int (length (ba_results b)) = n" using assms(2) by (metis length_map size_mset)
  from batch_step.finish [OF todo this] all no show False by blast
qed

section \<open>The repository pool\<close>

record repository_job =
  jb_Repository :: string
  jb_Operation :: string
  jb_Path :: string
  jb_Branch :: string
  jb_Strategy :: string

record repository_result =
  rs_Job :: repository_job
  rs_Success :: bool
  rs_Error :: "string option"
  rs_Message :: string

record repository_pool_config =
  rp_CloneWorkers :: int
  rp_UpdateWorkers :: int
  rp_ConfigWorkers :: int
  rp_OperationTimeout :: int
  rp_RetryAttempts :: int
  rp_RetryDelay :: int

definition default_repository_pool_config :: repository_pool_config where
  "default_repository_pool_config =
     \<lparr>rp_CloneWorkers = 10, rp_UpdateWorkers = 15, rp_ConfigWorkers = 5, rp_OperationTimeout = 300 * nanosecond_second,
      rp_RetryAttempts = 3, rp_RetryDelay = 2 * nanosecond_second\<rparr>"

text \<open>
  One pool per kind of operation; the collector of a pool forwards its results, one at a
  time, to the shared channel, which holds a hundred.
\<close>

datatype lane = CloneLane | UpdateLane | ConfigLane

fun lane_name :: "lane \<Rightarrow> string" where
  "lane_name CloneLane = ''clone''"
| "lane_name UpdateLane = ''update''"
| "lane_name ConfigLane = ''config''"

record repository_worker_pool =
  rw_config :: repository_pool_config
  rw_pools :: "lane \<Rightarrow> repository_job pool"
  rw_held :: "lane \<Rightarrow> repository_result option"
  rw_results :: "repository_result list"

definition results_capacity :: nat where "results_capacity = 100"

definition new_repository_worker_pool :: "int \<Rightarrow> repository_pool_config \<Rightarrow> repository_worker_pool" where
  "new_repository_worker_pool numCPU config =
     (let mk = (\<lambda>workers. new_pool numCPU
          \<lparr>wc_WorkerCount = workers, wc_BufferSize = workers * 2, wc_Timeout = rp_OperationTimeout config\<rparr>)
      in \<lparr>rw_config = config,
          rw_pools = (\<lambda>l. case l of CloneLane \<Rightarrow> mk (rp_CloneWorkers config)
             | UpdateLane \<Rightarrow> mk (rp_UpdateWorkers config) | ConfigLane \<Rightarrow> mk (rp_ConfigWorkers config)),
          rw_held = (\<lambda>l. None), rw_results = []\<rparr>)"

definition rp_start :: "repository_worker_pool \<Rightarrow> pool_error + repository_worker_pool" where
  "rp_start rp =
     (case (pool_start (rw_pools rp CloneLane), pool_start (rw_pools rp UpdateLane), pool_start (rw_pools rp ConfigLane)) of
        (Inr c, Inr u, Inr g) \<Rightarrow> Inr (rp\<lparr>rw_pools := (\<lambda>l. case l of CloneLane \<Rightarrow> c | UpdateLane \<Rightarrow> u | ConfigLane \<Rightarrow> g)\<rparr>)
      | (Inl e, _, _) \<Rightarrow> Inl e
      | (_, Inl e, _) \<Rightarrow> Inl e
      | (_, _, Inl e) \<Rightarrow> Inl e)"

definition lane_of :: "string \<Rightarrow> lane option" where
  "lane_of operation =
     (if operation = ''clone'' then Some CloneLane
      else if operation = ''pull'' \<or> operation = ''fetch'' \<or> operation = ''reset'' then Some UpdateLane
      else if operation = ''config'' then Some ConfigLane
      else None)"

definition submit_job :: "repository_worker_pool \<Rightarrow> repository_job \<Rightarrow> (pool_error + repository_worker_pool) list" where
  "submit_job rp job =
     (case lane_of (jb_Operation job) of
        None \<Rightarrow> [Inl (UnknownOperation (jb_Operation job))]
      | Some l \<Rightarrow> map (map_sum id (\<lambda>p. rp\<lparr>rw_pools := (rw_pools rp)(l := p)\<rparr>)) (pool_submit (rw_pools rp l) job))"

definition repo_result :: "lane \<Rightarrow> repository_job \<times> string option \<Rightarrow> repository_result" where
  "repo_result l r = \<lparr>rs_Job = fst r, rs_Success = (snd r = None), rs_Error = snd r,
     rs_Message = ''Processed by '' @ lane_name l @ '' pool''\<rparr>"

text \<open>The goroutines behind the channel: the workers of each pool and its collector.\<close>

inductive rp_step :: "repository_worker_pool \<Rightarrow> repository_worker_pool \<Rightarrow> bool" where
  lane_work: "worker_step (rw_pools rp l) p' \<Longrightarrow> rp_step rp (rp\<lparr>rw_pools := (rw_pools rp)(l := p')\<rparr>)"
| collect_take: "rw_held rp l = None \<Longrightarrow> pl_results (rw_pools rp l) = r # rest \<Longrightarrow>
    rp_step rp (rp\<lparr>rw_pools := (rw_pools rp)(l := (rw_pools rp l)\<lparr>pl_results := rest\<rparr>),
      rw_held := (rw_held rp)(l := Some (repo_result l r))\<rparr>)"
| collect_forward: "rw_held rp l = Some r \<Longrightarrow> length (rw_results rp) < results_capacity \<Longrightarrow>
    rp_step rp (rp\<lparr>rw_held := (rw_held rp)(l := None), rw_results := rw_results rp @ [r]\<rparr>)"

text \<open>
  The submission loop of a caller that reads no result until it has submitted everything:
  the runs of the pool while a list of jobs is handed over.
\<close>

inductive submitting :: "repository_worker_pool \<Rightarrow> repository_job list \<Rightarrow> repository_worker_pool \<Rightarrow> bool" for rp0 where
  start: "submitting rp0 [] rp0"
| background: "submitting rp0 js rp \<Longrightarrow> rp_step rp rp' \<Longrightarrow> submitting rp0 js rp'"
| accept: "submitting rp0 js rp \<Longrightarrow> Inr rp' \<in> set (submit_job rp j) \<Longrightarrow> submitting rp0 (js @ [j]) rp'"

definition lane_content :: "repository_worker_pool \<Rightarrow> lane \<Rightarrow> nat" where
  "lane_content rp l = size (pool_content (rw_pools rp l)) + (if rw_held rp l = None then 0 else 1)"

definition lane_jobs :: "lane \<Rightarrow> repository_job list \<Rightarrow> repository_job list" where
  "lane_jobs l js = filter (\<lambda>j. lane_of (jb_Operation j) = Some l) js"

definition submit_inv :: "repository_worker_pool \<Rightarrow> repository_job list \<Rightarrow> repository_worker_pool \<Rightarrow> bool" where
  "submit_inv rp0 js rp \<longleftrightarrow>
     (\<forall>l. pl_config (rw_pools rp l) = pl_config (rw_pools rp0 l)) \<and> (\<forall>l. pool_bounds (rw_pools rp l)) \<and>
     length (rw_results rp) \<le> results_capacity \<and>
     lane_content rp CloneLane + lane_content rp UpdateLane + lane_content rp ConfigLane + length (rw_results rp) = length js \<and>
     (\<forall>l. length (lane_jobs l js) \<le> lane_content rp l + length (rw_results rp))"

lemma lane_content_other [simp]:
  "l' \<noteq> l \<Longrightarrow> lane_content (rp\<lparr>rw_pools := (rw_pools rp)(l := p)\<rparr>) l' = lane_content rp l'"
  "l' \<noteq> l \<Longrightarrow> lane_content (rp\<lparr>rw_held := (rw_held rp)(l := h)\<rparr>) l' = lane_content rp l'"
  "l' \<noteq> l \<Longrightarrow> lane_content (rp\<lparr>rw_pools := (rw_pools rp)(l := p), rw_held := (rw_held rp)(l := h)\<rparr>) l' = lane_content rp l'"
  "lane_content (rp\<lparr>rw_results := rs\<rparr>) l' = lane_content rp l'"
  by (simp_all add: lane_content_def)

text \<open>What a background step does to the number of jobs behind one lane.\<close>

lemma rp_step_counts:
  assumes "rp_step rp rp'" and "\<forall>l. pool_bounds (rw_pools rp l)" and "length (rw_results rp) \<le> results_capacity"
  shows "(\<forall>l. pl_config (rw_pools rp' l) = pl_config (rw_pools rp l)) \<and> (\<forall>l. pool_bounds (rw_pools rp' l)) \<and>
    length (rw_results rp') \<le> results_capacity \<and> length (rw_results rp) \<le> length (rw_results rp') \<and>
    (\<exists>l. (\<forall>k. k \<noteq> l \<longrightarrow> lane_content rp' k = lane_content rp k) \<and>
      lane_content rp' l + length (rw_results rp') = lane_content rp l + length (rw_results rp))"
  using assms
proof (induction rule: rp_step.induct)
  case (lane_work rp l p')
  have "lane_content (rp\<lparr>rw_pools := (rw_pools rp)(l := p')\<rparr>) l = lane_content rp l"
    using worker_step_content [OF lane_work(1)] by (simp add: lane_content_def)
  moreover have "pool_bounds p'" using worker_step_bounds [OF lane_work(1)] spec [OF lane_work(2), of l] by simp
  moreover have "pl_config p' = pl_config (rw_pools rp l)" using worker_step_frame [OF lane_work(1)] by simp
  ultimately show ?case using lane_work(2,3) by (intro conjI exI [of _ l]) simp_all
next
  case (collect_take rp l r rest)
  let ?rp = "rp\<lparr>rw_pools := (rw_pools rp)(l := (rw_pools rp l)\<lparr>pl_results := rest\<rparr>),
      rw_held := (rw_held rp)(l := Some (repo_result l r))\<rparr>"
  have "lane_content ?rp l = lane_content rp l"
    using collect_take(1,2) by (simp add: lane_content_def pool_size)
  moreover have "pool_bounds ((rw_pools rp l)\<lparr>pl_results := rest\<rparr>)"
    using collect_take(2) spec [OF collect_take(3), of l] by (simp add: pool_bounds_def)
  moreover have "k \<noteq> l \<Longrightarrow> lane_content ?rp k = lane_content rp k" for k by (simp add: lane_content_def)
  ultimately show ?case using collect_take(3,4) by (intro conjI exI [of _ l]) simp_all
next
  case (collect_forward rp l r)
  let ?rp = "rp\<lparr>rw_held := (rw_held rp)(l := None), rw_results := rw_results rp @ [r]\<rparr>"
  have "lane_content ?rp l + 1 = lane_content rp l" using collect_forward(1) by (simp add: lane_content_def)
  moreover have "k \<noteq> l \<Longrightarrow> lane_content ?rp k = lane_content rp k" for k by (simp add: lane_content_def)
  ultimately show ?case using collect_forward by (intro conjI exI [of _ l]) auto
qed

lemma sum_lanes:
  fixes f g :: "lane \<Rightarrow> nat"
  assumes "\<forall>k. k \<noteq> l \<longrightarrow> f k = g k" and "f l + a = g l + b"
  shows "f CloneLane + f UpdateLane + f ConfigLane + a = g CloneLane + g UpdateLane + g ConfigLane + b"
  using assms by (cases l) auto

lemma submit_inv_step:
  assumes "rp_step rp rp'" and "submit_inv rp0 js rp"
  shows "submit_inv rp0 js rp'"
proof -
  have inv: "\<forall>l. pool_bounds (rw_pools rp l)" "length (rw_results rp) \<le> results_capacity"
    using assms(2) by (simp_all add: submit_inv_def)
  note s = rp_step_counts [OF assms(1) inv]
  then obtain l where l: "\<forall>k. k \<noteq> l \<longrightarrow> lane_content rp' k = lane_content rp k"
      "lane_content rp' l + length (rw_results rp') = lane_content rp l + length (rw_results rp)"
      "length (rw_results rp) \<le> length (rw_results rp')" by blast
  have "length (lane_jobs k js) \<le> lane_content rp' k + length (rw_results rp')" for k
  proof -
    have "length (lane_jobs k js) \<le> lane_content rp k + length (rw_results rp)"
      using assms(2) by (simp add: submit_inv_def)
    then show ?thesis using l by (cases "k = l") auto
  qed
  then show ?thesis using assms(2) s sum_lanes [OF l(1,2)] by (simp add: submit_inv_def)
qed

lemma submit_inv_accept:
  assumes "submit_inv rp0 js rp" and "Inr rp' \<in> set (submit_job rp j)"
  shows "submit_inv rp0 (js @ [j]) rp'"
proof -
  obtain l p' where l: "lane_of (jb_Operation j) = Some l" and p': "Inr p' \<in> set (pool_submit (rw_pools rp l) j)"
    and rp': "rp' = rp\<lparr>rw_pools := (rw_pools rp)(l := p')\<rparr>"
    using assms(2) by (auto simp: submit_job_def split: option.splits) (metis map_sum_sel Inr_inject isl_map_sum sum.disc(2) sum.collapse(2) sum.sel(2))
  note q = pool_submit_Inr [OF p']
  have c: "lane_content rp' l = Suc (lane_content rp l)" using q by (simp add: rp' lane_content_def pool_size)
  have o: "\<forall>k. k \<noteq> l \<longrightarrow> lane_content rp' k = lane_content rp k" by (simp add: rp')
  have b: "pool_bounds p'" using q spec [of "\<lambda>l. pool_bounds (rw_pools rp l)" l] assms(1)
    by (auto simp: submit_inv_def pool_bounds_def)
  have jobs: "length (lane_jobs k (js @ [j])) = length (lane_jobs k js) + (if k = l then 1 else 0)" for k
    using l by (simp add: lane_jobs_def)
  have "lane_content rp' CloneLane + lane_content rp' UpdateLane + lane_content rp' ConfigLane + 0
      = lane_content rp CloneLane + lane_content rp UpdateLane + lane_content rp ConfigLane + 1"
    by (rule sum_lanes [OF o]) (simp add: c)
  moreover have "length (lane_jobs k (js @ [j])) \<le> lane_content rp' k + length (rw_results rp')" for k
    using assms(1) c o unfolding jobs submit_inv_def by (cases "k = l") (auto simp: rp')
  ultimately show ?thesis using assms(1) b q by (auto simp: submit_inv_def rp')
qed

section \<open>Retries\<close>

text \<open>
  The code searches error texts with its own function; it agrees with \<open>strings.Contains\<close>, so
  it is case-sensitive.
\<close>

fun slice_at :: "string \<Rightarrow> string \<Rightarrow> nat \<Rightarrow> bool" where
  "slice_at s sub i = (take (length sub) (drop i s) = sub)"

definition contains_inner :: "string \<Rightarrow> string \<Rightarrow> bool" where
  "contains_inner s sub = (length sub \<le> length s \<and> list_ex (slice_at s sub) [0..<Suc (length s - length sub)])"

definition pool_contains :: "string \<Rightarrow> string \<Rightarrow> bool" where
  "pool_contains s sub =
     (length sub \<le> length s \<and>
      (s = sub \<or>
       length sub < length s \<and>
         (take (length sub) s = sub \<or> drop (length s - length sub) s = sub \<or> contains_inner s sub)))"

definition retryable_patterns :: "string list" where
  "retryable_patterns = [''connection refused'', ''timeout'', ''temporary failure'', ''network is unreachable'',
     ''no such host'', ''connection reset'', ''broken pipe'']"

definition is_retryable_error :: "string option \<Rightarrow> bool" where
  "is_retryable_error err =
     (case err of None \<Rightarrow> False | Some e \<Rightarrow> list_ex (pool_contains e) retryable_patterns)"

text \<open>
  The retry loop: \<open>outcome attempt\<close> is the error of that attempt, \<open>expired attempt\<close> whether the
  context ends while waiting before it. The result is the error and the attempts made.
\<close>

datatype retry_error = RetryContextDone | FailedAfter string int "string option"

function retry_loop ::
  "int \<Rightarrow> string \<Rightarrow> (nat \<Rightarrow> string option) \<Rightarrow> (nat \<Rightarrow> bool) \<Rightarrow> string option \<Rightarrow> nat \<Rightarrow> retry_error option \<times> nat" where
  "retry_loop retries repo outcome expired lastErr attempt =
     (if int attempt > retries then (Some (FailedAfter repo (retries + 1) lastErr), attempt)
      else if 0 < attempt \<and> expired attempt then (Some RetryContextDone, attempt)
      else (case outcome attempt of
              None \<Rightarrow> (None, Suc attempt)
            | Some e \<Rightarrow>
                if is_retryable_error (Some e) then retry_loop retries repo outcome expired (Some e) (Suc attempt)
                else (Some (FailedAfter repo (retries + 1) (Some e)), Suc attempt)))"
  by pat_completeness auto
termination by (relation "measure (\<lambda>(retries, _, _, _, _, attempt). nat (retries + 1) - attempt)") auto

declare retry_loop.simps [simp del]

definition wrap_with_retry ::
  "int \<Rightarrow> string \<Rightarrow> (nat \<Rightarrow> string option) \<Rightarrow> (nat \<Rightarrow> bool) \<Rightarrow> retry_error option \<times> nat" where
  "wrap_with_retry retries repo outcome expired = retry_loop retries repo outcome expired None 0"

lemma contains_inner_iff: "contains_inner s sub \<longleftrightarrow> sublist sub s"
proof
  assume "contains_inner s sub"
  then obtain i where "take (length sub) (drop i s) = sub" by (auto simp: contains_inner_def list_ex_iff simp del: upt_Suc)
  then have "s = take i s @ sub @ drop (length sub) (drop i s)" by (metis append_take_drop_id)
  then show "sublist sub s" unfolding sublist_def by blast
next
  assume "sublist sub s"
  then obtain ps ss where s: "s = ps @ sub @ ss" by (auto simp: sublist_def)
  have "length ps \<in> set [0..<Suc (length s - length sub)]" by (simp add: s del: upt_Suc)
  moreover have "slice_at s sub (length ps)" by (simp add: s)
  moreover have "length sub \<le> length s" by (simp add: s)
  ultimately show "contains_inner s sub" unfolding contains_inner_def list_ex_iff by blast
qed

lemma pool_contains_iff: "pool_contains s sub \<longleftrightarrow> contains s sub"
proof -
  have "take (length sub) s = sub \<Longrightarrow> sublist sub s" by (metis append_Nil append_take_drop_id sublist_def)
  moreover have "drop (length s - length sub) s = sub \<Longrightarrow> sublist sub s"
    by (metis append_Nil2 append_take_drop_id sublist_def)
  moreover have "sublist sub s \<Longrightarrow> length sub \<le> length s \<and> (s = sub \<or> length sub < length s)"
    by (metis le_neq_implies_less sublist_length_le sublist_def append_Nil append_Nil2 length_append add_eq_self_zero
        append_eq_conv_conj nat_less_le sublist_code(3) subseq_same_length sublist_imp_subseq)
  ultimately show ?thesis by (auto simp: pool_contains_def contains_def contains_inner_iff)
qed

lemma retry_loop_result:
  assumes "retry_loop retries repo outcome expired lastErr k = (r, n)" and "int k \<le> retries + 1"
    and "\<forall>i<k. \<exists>e. outcome i = Some e \<and> is_retryable_error (Some e)"
  shows "int n \<le> retries + 1 \<and> (\<forall>i<n - 1. \<exists>e. outcome i = Some e \<and> is_retryable_error (Some e)) \<and>
    (r = None \<longleftrightarrow> k < n \<and> outcome (n - 1) = None)"
  using assms
proof (induction retries repo outcome expired lastErr k rule: retry_loop.induct)
  case (1 retries repo outcome expired lastErr k)
  note unfold = "1.prems"(1) [unfolded retry_loop.simps [of retries repo outcome expired lastErr k]]
  consider "int k > retries" | "int k \<le> retries" "0 < k \<and> expired k"
    | "int k \<le> retries" "\<not> (0 < k \<and> expired k)" "outcome k = None"
    | e where "int k \<le> retries" "\<not> (0 < k \<and> expired k)" "outcome k = Some e" "\<not> is_retryable_error (Some e)"
    | e where "int k \<le> retries" "\<not> (0 < k \<and> expired k)" "outcome k = Some e" "is_retryable_error (Some e)"
    by (cases "outcome k"; cases "int k > retries"; cases "0 < k \<and> expired k"; cases "is_retryable_error (outcome k)")
      auto
  then show ?case
  proof cases
    case 5
    have ih: "int n \<le> retries + 1 \<and> (\<forall>i<n - 1. \<exists>e. outcome i = Some e \<and> is_retryable_error (Some e)) \<and>
      (r = None \<longleftrightarrow> Suc k < n \<and> outcome (n - 1) = None)"
      using "1.IH" [of e] unfold "1.prems"(2,3) 5 by (auto simp: less_Suc_eq)
    have "n = Suc k \<Longrightarrow> outcome (n - 1) \<noteq> None" using 5 by simp
    then show ?thesis using ih by (metis Suc_lessD less_antisym not_less_eq)
  qed (use unfold "1.prems"(2,3) in \<open>auto split: if_splits\<close>)
qed

section \<open>Properties\<close>

text \<open>
  Property C10. A batch never fails to submit an item and never deadlocks: in every state it can
  reach, a goroutine or the batch itself can move, every move does some of a finite amount of
  work, and when it is done the results are those of the items, each exactly once.
\<close>

theorem process_batch_complete:
  assumes "0 < numCPU" and "items \<noteq> []"
    and "batch_run (int (length items)) (process_batch_start numCPU config items) b"
  shows "(\<nexists>e. batch_step (int (length items)) b (Inr (SubmitFailed e))) \<and>
    ((\<exists>c. batch_step (int (length items)) b (Inl c)) \<or> batch_step (int (length items)) b (Inr (BatchDone (ba_results b)))) \<and>
    (\<forall>c. batch_step (int (length items)) b (Inl c) \<longrightarrow> batch_work c < batch_work b) \<and>
    (\<forall>rs. batch_step (int (length items)) b (Inr (BatchDone rs)) \<longrightarrow> mset (map fst rs) = mset items)"
proof -
  have inv: "batch_inv items b" using batch_run_inv [OF assms(3) batch_inv_start [OF assms(1,2)]] .
  have "mset (map fst rs) = mset items" if "batch_step (int (length items)) b (Inr (BatchDone rs))" for rs
    using that
  proof (cases rule: batch_step.cases)
    case finish
    then have "size (pool_content (ba_pool b)) = 0" using batch_inv_size [OF inv] by simp
    then show ?thesis using inv finish by (simp add: batch_inv_def Let_def)
  qed
  then show ?thesis
    using batch_no_submit_error [OF inv] batch_progress [OF inv refl] batch_step_inv [OF _ inv] by blast
qed

theorem process_batch_complete_witness:
  "\<exists>c. batch_step 1 (process_batch_start 4 (default_worker_pool_config 4) [''a'']) (Inl c) \<or>
     batch_step 1 (process_batch_start 4 (default_worker_pool_config 4) [''a'']) (Inr (BatchDone []))"
proof -
  let ?b = "process_batch_start 4 (default_worker_pool_config 4) [''a'']"
  have r: "batch_run (int (length [''a''])) ?b ?b" by (rule batch_run.stay)
  have "ba_results ?b = []" by (simp add: process_batch_start_def)
  then show ?thesis using process_batch_complete [OF _ _ r] by auto
qed

text \<open>
  Property C11. The channels bound what a repository pool accepts while its caller reads no
  result: whatever the workers do, at most five jobs per clone worker, plus the hundred
  results of the channel and one, are clone jobs that were submitted without an error.
\<close>

theorem submission_capacity:
  assumes "rp_start (new_repository_worker_pool numCPU config) = Inr rp0" and "0 < rp_CloneWorkers config"
    and "submitting rp0 js rp"
  shows "length (filter (\<lambda>j. jb_Operation j = ''clone'') js) \<le> 5 * nat (rp_CloneWorkers config) + 101"
proof -
  let ?P = "rw_pools rp CloneLane"
  have rp0: "wc_WorkerCount (pl_config (rw_pools rp0 CloneLane)) = rp_CloneWorkers config"
      "wc_BufferSize (pl_config (rw_pools rp0 CloneLane)) = rp_CloneWorkers config * 2"
    and empty: "rw_results rp0 = []" "lane_content rp0 l = 0" "pool_bounds (rw_pools rp0 l)" for l
    using assms(1,2) by (cases l; auto simp: rp_start_def new_repository_worker_pool_def pool_start_def new_pool_def Let_def
        lane_content_def pool_size pool_bounds_def)+
  have "submit_inv rp0 [] rp0" using empty by (simp add: submit_inv_def lane_jobs_def)
  with assms(3) have inv: "submit_inv rp0 js rp"
    by (induction rule: submitting.induct) (auto intro: submit_inv_step submit_inv_accept)
  have clone: "lane_of op = Some CloneLane \<longleftrightarrow> op = ''clone''" for op by (simp add: lane_of_def)
  have "pl_config ?P = pl_config (rw_pools rp0 CloneLane)" using inv by (simp add: submit_inv_def)
  then have "workers ?P = nat (rp_CloneWorkers config)" "buffer ?P = nat (rp_CloneWorkers config * 2)"
    by (simp_all add: rp0)
  moreover have "size (pool_content ?P) \<le> 2 * buffer ?P + workers ?P"
    using inv by (intro pool_bounds_size) (simp add: submit_inv_def)
  moreover have "lane_content rp CloneLane \<le> size (pool_content (rw_pools rp CloneLane)) + 1" by (simp add: lane_content_def)
  moreover have "length (lane_jobs CloneLane js) \<le> lane_content rp CloneLane + length (rw_results rp)"
    "length (rw_results rp) \<le> 100" using inv by (simp_all add: submit_inv_def results_capacity_def)
  ultimately show ?thesis using assms(2) by (simp add: lane_jobs_def clone nat_mult_distrib)
qed

definition clone_job :: "string \<Rightarrow> repository_job" where
  "clone_job n = \<lparr>jb_Repository = n, jb_Operation = ''clone'', jb_Path = n, jb_Branch = [], jb_Strategy = ''pull''\<rparr>"

theorem submission_capacity_witness:
  "length (filter (\<lambda>j. jb_Operation j = ''clone'') [clone_job ''a'']) \<le> 151"
proof -
  obtain rp0 where rp0: "rp_start (new_repository_worker_pool 8 default_repository_pool_config) = Inr rp0"
    by (simp add: rp_start_def new_repository_worker_pool_def pool_start_def new_pool_def Let_def)
  have "pl_started (rw_pools rp0 CloneLane)" "pl_jobs (rw_pools rp0 CloneLane) = []" "\<not> pl_cancelled (rw_pools rp0 CloneLane)"
    "wc_BufferSize (pl_config (rw_pools rp0 CloneLane)) = 20"
    using rp0 by (auto simp: rp_start_def new_repository_worker_pool_def pool_start_def new_pool_def Let_def
        default_repository_pool_config_def)
  then have "Inr (rp0\<lparr>rw_pools := (rw_pools rp0)(CloneLane := (rw_pools rp0 CloneLane)\<lparr>pl_jobs := [clone_job ''a'']\<rparr>)\<rparr>)
      \<in> set (submit_job rp0 (clone_job ''a''))"
    by (simp add: submit_job_def pool_submit_def clone_job_def lane_of_def)
  from submitting.accept [OF submitting.start this] have "submitting rp0 [clone_job ''a'']
      (rp0\<lparr>rw_pools := (rw_pools rp0)(CloneLane := (rw_pools rp0 CloneLane)\<lparr>pl_jobs := [clone_job ''a'']\<rparr>)\<rparr>)" by simp
  from submission_capacity [OF rp0 _ this] show ?thesis by (simp add: default_repository_pool_config_def)
qed

text \<open>
  A job with retries runs at most once more than its retry count, stops at the
  first success or at the first error that is not retryable, and succeeds exactly when its
  last attempt did.
\<close>

theorem retry_attempts:
  assumes "wrap_with_retry retries repo outcome expired = (r, n)" and "0 \<le> retries"
  shows "int n \<le> retries + 1 \<and> (\<forall>i<n - 1. \<exists>e. outcome i = Some e \<and> is_retryable_error (Some e)) \<and>
    (r = None \<longleftrightarrow> 0 < n \<and> outcome (n - 1) = None)"
  using retry_loop_result [OF assms(1) [unfolded wrap_with_retry_def]] assms(2) by simp

theorem retry_attempts_witness:
  "wrap_with_retry 3 ''r'' (\<lambda>i. if i < 2 then Some ''i/o timeout'' else None) (\<lambda>_. False) = (None, 3) \<and>
   is_retryable_error (Some ''i/o timeout'')"
proof -
  have w: "wrap_with_retry 3 ''r'' (\<lambda>i. if i < 2 then Some ''i/o timeout'' else None) (\<lambda>_. False) = (None, 3)"
    by code_simp
  moreover have "is_retryable_error (Some ''i/o timeout'')" by code_simp
  ultimately show ?thesis using retry_attempts [OF w] by simp
qed

text \<open>An error that is not retried is reported with the full count of attempts.\<close>

lemma retry_message_overcounts:
  "wrap_with_retry 3 ''r'' (\<lambda>i. Some ''not found'') (\<lambda>_. False) = (Some (FailedAfter ''r'' 4 (Some ''not found'')), 1)"
  by code_simp

end
