(* ===== verification/CloneSession.thy ===== *)
theory CloneSession
  imports CloneState WorkerPool
begin

text \<open>
  The resumable clone of an organization (\<open>pkg/github/resumable_clone.go\<close>) and of a grp
  (\<open>pkg/gitlab/resumable_clone.go\<close>): the state file at the start, the repositories to process,
  the jobs, the loop that receives results, ticks and the cancellation, and the final state.

  What the world answers is the record \<open>clone_env\<close>: the repositories the forge lists, the
  directories that exist, the errors of the pool and whether the state directory can be
  written. A run is given the sequence of the events its \<open>select\<close> receives, with their times,
  so a statement about all sequences covers every interleaving. Printing is left out.
\<close>

section \<open>What both sessions share\<close>

record clone_env =
  en_now :: int
  en_repos :: "string + string list"
  en_exists :: "string \<Rightarrow> bool"
  en_is_git :: "string \<Rightarrow> bool"
  en_pool :: "pool_error option"
  en_submit :: "repository_job \<Rightarrow> pool_error option"
  en_writable :: bool
  en_time :: time_codec

datatype clone_event = JobResult repository_result | ProgressTick | SaveTick | ContextCancelled

datatype clone_error =
    ExistingState string
  | LoadFailed state_error
  | TargetMismatch string string
  | ListFailed string
  | SaveFailed state_error
  | PoolFailed pool_error
  | SubmitFailed string pool_error
  | OperationCancelled
  | OperationsFailed nat

record session =
  se_state :: clone_state
  se_files :: state_files
  se_success :: nat
  se_failure :: nat

datatype loop_end = LoopDone | LoopCancelled | LoopWaiting

definition session_state_dir :: "string \<Rightarrow> string" where
  "session_state_dir targetPath = new_state_manager None (path_join [targetPath, ''.gzh'', ''state''])"

definition update_state_config :: "string \<Rightarrow> int \<Rightarrow> int \<Rightarrow> clone_state \<Rightarrow> clone_state" where
  "update_state_config strategy par maxRetries state =
     state\<lparr>cs_Strategy := strategy, cs_Parallel := par, cs_MaxRetries := maxRetries\<rparr>"

text \<open>Saving during a session: a failure is a warning.\<close>

definition session_save :: "time_codec \<Rightarrow> bool \<Rightarrow> string \<Rightarrow> int \<Rightarrow> session \<Rightarrow> session" where
  "session_save tc writable stateDir now s =
     (case save_state tc writable stateDir now (se_state s) (se_files s) of
        (state, files, _) \<Rightarrow> s\<lparr>se_state := state, se_files := files\<rparr>)"

definition handle_job_result :: "int \<Rightarrow> repository_result \<Rightarrow> session \<Rightarrow> session" where
  "handle_job_result now r s =
     (let job = rs_Job r in
      case rs_Error r of
        Some e \<Rightarrow> s\<lparr>se_failure := se_failure s + 1,
          se_state := add_failed_repository now (jb_Repository job) (jb_Path job) (jb_Operation job) e 1 (se_state s)\<rparr>
      | None \<Rightarrow> s\<lparr>se_success := se_success s + 1,
          se_state := add_completed_repository now (jb_Repository job) (jb_Path job) (jb_Operation job) (rs_Message r) (se_state s)\<rparr>)"

definition strategy_operation :: "string \<Rightarrow> string" where
  "strategy_operation strategy =
     (if strategy = ''reset'' then ''reset'' else if strategy = ''pull'' then ''pull''
      else if strategy = ''fetch'' then ''fetch'' else ''pull'')"

definition make_job :: "(string \<Rightarrow> string) \<Rightarrow> string \<Rightarrow> string \<Rightarrow> string \<Rightarrow> repository_job" where
  "make_job operation targetPath strategy repo =
     (let repoPath = path_join [targetPath, repo] in
      \<lparr>jb_Repository = repo, jb_Operation = operation repoPath, jb_Path = repoPath, jb_Branch = '''', jb_Strategy = strategy\<rparr>)"

fun submit_jobs :: "clone_env \<Rightarrow> repository_job list \<Rightarrow> clone_error option" where
  "submit_jobs env [] = None"
| "submit_jobs env (job # jobs) =
     (case en_submit env job of Some e \<Rightarrow> Some (SubmitFailed (jb_Repository job) e) | None \<Rightarrow> submit_jobs env jobs)"

definition append_missing :: "(string \<Rightarrow> bool) \<Rightarrow> string list \<Rightarrow> string list \<Rightarrow> string list" where
  "append_missing wanted start repos =
     foldl (\<lambda>xs repo. if wanted repo \<and> repo \<notin> set xs then xs @ [repo] else xs) start repos"

definition mark_final :: "int \<Rightarrow> clone_state \<Rightarrow> clone_state" where
  "mark_final now state =
     (if get_remaining_repositories state = [] then mark_completed now state else mark_failed now state)"

section \<open>GitHub\<close>

definition gh_load_and_validate_state ::
  "time_codec \<Rightarrow> string \<Rightarrow> string \<Rightarrow> string \<Rightarrow> string \<Rightarrow> int \<Rightarrow> int \<Rightarrow> state_files \<Rightarrow> clone_error + clone_state \<times> state_files" where
  "gh_load_and_validate_state tc stateDir org targetPath strategy par maxRetries files =
     (case load_state tc stateDir ''github'' org files of
        Inl e \<Rightarrow> Inl (LoadFailed e)
      | Inr state \<Rightarrow>
          if cs_TargetPath state \<noteq> targetPath then Inl (TargetMismatch (cs_TargetPath state) targetPath)
          else Inr (update_state_config strategy par maxRetries state, files))"

definition gh_create_new_state ::
  "time_codec \<Rightarrow> int \<Rightarrow> string \<Rightarrow> string \<Rightarrow> string \<Rightarrow> string \<Rightarrow> int \<Rightarrow> int \<Rightarrow> state_files \<Rightarrow> clone_error + clone_state \<times> state_files" where
  "gh_create_new_state tc now stateDir org targetPath strategy par maxRetries files =
     (let new = new_clone_state now ''github'' org targetPath strategy par maxRetries in
      if has_state stateDir ''github'' org files then
        (case load_state tc stateDir ''github'' org files of
           Inr existing \<Rightarrow> if cs_TargetPath existing = targetPath then Inl (ExistingState org)
             else Inr (new, delete_state stateDir ''github'' org files)
         | Inl _ \<Rightarrow> Inr (new, delete_state stateDir ''github'' org files))
      else Inr (new, files))"

definition gh_resume_repositories :: "clone_state \<Rightarrow> string list \<Rightarrow> string list" where
  "gh_resume_repositories state allRepos =
     append_missing (\<lambda>repo. \<not> is_completed state repo \<and> \<not> is_failed state repo) (get_remaining_repositories state) allRepos"

definition gh_prepare_repository_list :: "clone_env \<Rightarrow> bool \<Rightarrow> clone_state \<Rightarrow> clone_error + clone_state \<times> string list" where
  "gh_prepare_repository_list env resume state =
     (case en_repos env of
        Inl e \<Rightarrow> Inl (ListFailed e)
      | Inr allRepos \<Rightarrow>
          if allRepos = [] then Inr (state, [])
          else if resume then Inr (state, gh_resume_repositories state allRepos)
          else Inr (set_pending_repositories allRepos state, allRepos))"

definition gh_operation :: "clone_env \<Rightarrow> string \<Rightarrow> string \<Rightarrow> string" where
  "gh_operation env strategy repoPath = (if \<not> en_exists env repoPath then ''clone'' else strategy_operation strategy)"

text \<open>The loop counts results only; a tick or a save leaves the count alone.\<close>

fun gh_loop :: "clone_env \<Rightarrow> string \<Rightarrow> nat \<Rightarrow> (int \<times> clone_event) list \<Rightarrow> session \<Rightarrow> session \<times> loop_end" where
  "gh_loop env stateDir 0 events s = (s, LoopDone)"
| "gh_loop env stateDir (Suc n) [] s = (s, LoopWaiting)"
| "gh_loop env stateDir (Suc n) ((now, ev) # events) s =
     (case ev of
        JobResult r \<Rightarrow> gh_loop env stateDir n events (handle_job_result now r s)
      | ProgressTick \<Rightarrow> gh_loop env stateDir (Suc n) events s
      | SaveTick \<Rightarrow> gh_loop env stateDir (Suc n) events (session_save (en_time env) (en_writable env) stateDir now s)
      | ContextCancelled \<Rightarrow>
          (session_save (en_time env) (en_writable env) stateDir now (s\<lparr>se_state := mark_cancelled now (se_state s)\<rparr>), LoopCancelled))"

definition gh_finalize :: "clone_env \<Rightarrow> string \<Rightarrow> string \<Rightarrow> int \<Rightarrow> session \<Rightarrow> session \<times> clone_error option" where
  "gh_finalize env stateDir org now s =
     (let s1 = session_save (en_time env) (en_writable env) stateDir now (s\<lparr>se_state := mark_final now (se_state s)\<rparr>);
          s2 = (if cs_Status (se_state s1) = ''completed''
                then s1\<lparr>se_files := delete_state stateDir ''github'' org (se_files s1)\<rparr> else s1)
      in (s2, if 0 < se_failure s then Some (OperationsFailed (se_failure s)) else None))"

text \<open>None as the result of a run: it is still waiting for an event.\<close>

definition gh_process ::
  "clone_env \<Rightarrow> string \<Rightarrow> string \<Rightarrow> string \<Rightarrow> string \<Rightarrow> int \<Rightarrow> (int \<times> clone_event) list \<Rightarrow> string list \<Rightarrow> session \<Rightarrow>
   session \<times> clone_error option option" where
  "gh_process env stateDir org targetPath strategy endTime events reposToProcess s =
     (case save_state (en_time env) (en_writable env) stateDir (en_now env) (se_state s) (se_files s) of
        (state1, files1, Some e) \<Rightarrow> (s\<lparr>se_state := state1\<rparr>, Some (Some (SaveFailed e)))
      | (state1, files1, None) \<Rightarrow>
          let s1 = s\<lparr>se_state := state1, se_files := files1\<rparr>;
              jobs = map (make_job (gh_operation env strategy) targetPath strategy) reposToProcess
          in (case en_pool env of
                Some e \<Rightarrow> (s1, Some (Some (PoolFailed e)))
              | None \<Rightarrow> (case submit_jobs env jobs of
                  Some e \<Rightarrow> (s1, Some (Some e))
                | None \<Rightarrow> (case gh_loop env stateDir (length jobs) events s1 of
                    (s2, LoopWaiting) \<Rightarrow> (s2, None)
                  | (s2, LoopCancelled) \<Rightarrow> (s2, Some (Some OperationCancelled))
                  | (s2, LoopDone) \<Rightarrow> (case gh_finalize env stateDir org endTime s2 of (s3, e) \<Rightarrow> (s3, Some e))))))"

definition gh_refresh_all_resumable ::
  "clone_env \<Rightarrow> int \<Rightarrow> (int \<times> clone_event) list \<Rightarrow> string \<Rightarrow> string \<Rightarrow> string \<Rightarrow> int \<Rightarrow> int \<Rightarrow> bool \<Rightarrow> state_files \<Rightarrow>
   state_files \<times> clone_error option option" where
  "gh_refresh_all_resumable env endTime events targetPath org strategy par maxRetries resume files =
     (let stateDir = session_state_dir targetPath in
      case (if resume then gh_load_and_validate_state (en_time env) stateDir org targetPath strategy par maxRetries files
            else gh_create_new_state (en_time env) (en_now env) stateDir org targetPath strategy par maxRetries files) of
        Inl e \<Rightarrow> (files, Some (Some e))
      | Inr (state, files1) \<Rightarrow>
          (case gh_prepare_repository_list env resume state of
             Inl e \<Rightarrow> (files1, Some (Some e))
           | Inr (state1, reposToProcess) \<Rightarrow>
               let s = \<lparr>se_state = state1, se_files = files1, se_success = 0, se_failure = 0\<rparr> in
               if reposToProcess = []
               then (se_files (session_save (en_time env) (en_writable env) stateDir (en_now env)
                       (s\<lparr>se_state := mark_completed (en_now env) state1\<rparr>)), Some None)
               else (case gh_process env stateDir org targetPath strategy endTime events reposToProcess s of
                       (s', r) \<Rightarrow> (se_files s', r))))"

section \<open>GitLab\<close>

definition gl_initialize_state ::
  "time_codec \<Rightarrow> int \<Rightarrow> string \<Rightarrow> string \<Rightarrow> string \<Rightarrow> string \<Rightarrow> int \<Rightarrow> int \<Rightarrow> bool \<Rightarrow> state_files \<Rightarrow> clone_error + clone_state" where
  "gl_initialize_state tc now stateDir grp targetPath strategy par maxRetries resume files =
     (let new = new_clone_state now ''gitlab'' grp targetPath strategy par maxRetries in
      if resume then
        (if \<not> has_state stateDir ''gitlab'' grp files then Inr new
         else (case load_state tc stateDir ''gitlab'' grp files of
                 Inl e \<Rightarrow> Inl (LoadFailed e)
               | Inr state \<Rightarrow>
                   if cs_TargetPath state \<noteq> targetPath then Inl (TargetMismatch (cs_TargetPath state) targetPath)
                   else Inr (update_state_config strategy par maxRetries state)))
      else if has_state stateDir ''gitlab'' grp files then Inl (ExistingState grp)
      else Inr new)"

definition gl_resumable_repositories :: "clone_state \<Rightarrow> string list \<Rightarrow> string list" where
  "gl_resumable_repositories state allRepos =
     append_missing (\<lambda>repo. is_failed state repo)
       (append_missing (\<lambda>repo. \<not> is_completed state repo \<and> \<not> is_failed state repo) (get_remaining_repositories state) allRepos)
       allRepos"

definition gl_determine_repositories :: "clone_env \<Rightarrow> bool \<Rightarrow> clone_state \<Rightarrow> clone_error + clone_state \<times> string list \<times> string list" where
  "gl_determine_repositories env resume state =
     (case en_repos env of
        Inl e \<Rightarrow> Inl (ListFailed e)
      | Inr allRepos \<Rightarrow>
          if allRepos = [] then Inr (state, [], [])
          else if resume then Inr (state, allRepos, gl_resumable_repositories state allRepos)
          else Inr (set_pending_repositories allRepos state, allRepos, allRepos))"

definition gl_determine_operation :: "clone_env \<Rightarrow> string \<Rightarrow> string \<Rightarrow> string" where
  "gl_determine_operation env strategy repoPath =
     (if \<not> en_exists env repoPath then ''clone''
      else if \<not> en_is_git env repoPath then ''clone''
      else strategy_operation strategy)"

text \<open>The loop runs once per job, and every event it receives is one of these rounds.\<close>

fun gl_track_results :: "clone_env \<Rightarrow> string \<Rightarrow> nat \<Rightarrow> (int \<times> clone_event) list \<Rightarrow> session \<Rightarrow> session \<times> loop_end" where
  "gl_track_results env stateDir 0 events s = (s, LoopDone)"
| "gl_track_results env stateDir (Suc n) [] s = (s, LoopWaiting)"
| "gl_track_results env stateDir (Suc n) ((now, ev) # events) s =
     (case ev of
        JobResult r \<Rightarrow> gl_track_results env stateDir n events (handle_job_result now r s)
      | ProgressTick \<Rightarrow> gl_track_results env stateDir n events s
      | SaveTick \<Rightarrow> gl_track_results env stateDir n events (session_save (en_time env) (en_writable env) stateDir now s)
      | ContextCancelled \<Rightarrow>
          (session_save (en_time env) (en_writable env) stateDir now (s\<lparr>se_state := mark_cancelled now (se_state s)\<rparr>), LoopCancelled))"

definition gl_finalize_operation :: "clone_env \<Rightarrow> string \<Rightarrow> string \<Rightarrow> int \<Rightarrow> session \<Rightarrow> session \<times> clone_error option" where
  "gl_finalize_operation env stateDir grp now s =
     (let s1 = session_save (en_time env) (en_writable env) stateDir now (s\<lparr>se_state := mark_final now (se_state s)\<rparr>);
          s2 = (if cs_Status (se_state s1) = ''completed'' \<and> se_failure s = 0
                then s1\<lparr>se_files := delete_state stateDir ''gitlab'' grp (se_files s1)\<rparr> else s1)
      in (s2, if 0 < se_failure s then Some (OperationsFailed (se_failure s)) else None))"

definition gl_execute_clone_operation ::
  "clone_env \<Rightarrow> string \<Rightarrow> string \<Rightarrow> string \<Rightarrow> string \<Rightarrow> int \<Rightarrow> (int \<times> clone_event) list \<Rightarrow> string list \<Rightarrow> session \<Rightarrow>
   session \<times> clone_error option option" where
  "gl_execute_clone_operation env stateDir grp targetPath strategy endTime events reposToProcess s =
     (case save_state (en_time env) (en_writable env) stateDir (en_now env) (se_state s) (se_files s) of
        (state1, files1, Some e) \<Rightarrow> (s\<lparr>se_state := state1\<rparr>, Some (Some (SaveFailed e)))
      | (state1, files1, None) \<Rightarrow>
          let s1 = s\<lparr>se_state := state1, se_files := files1\<rparr>;
              jobs = map (make_job (gl_determine_operation env strategy) targetPath strategy) reposToProcess
          in (case en_pool env of
                Some e \<Rightarrow> (s1, Some (Some (PoolFailed e)))
              | None \<Rightarrow> (case submit_jobs env jobs of
                  Some e \<Rightarrow> (s1, Some (Some e))
                | None \<Rightarrow> (case gl_track_results env stateDir (length jobs) events s1 of
                    (s2, LoopWaiting) \<Rightarrow> (s2, None)
                  | (s2, LoopCancelled) \<Rightarrow> (s2, Some (Some OperationCancelled))
                  | (s2, LoopDone) \<Rightarrow> (case gl_finalize_operation env stateDir grp endTime s2 of (s3, e) \<Rightarrow> (s3, Some e))))))"

definition gl_refresh_all_resumable ::
  "clone_env \<Rightarrow> int \<Rightarrow> (int \<times> clone_event) list \<Rightarrow> string \<Rightarrow> string \<Rightarrow> string \<Rightarrow> int \<Rightarrow> int \<Rightarrow> bool \<Rightarrow> state_files \<Rightarrow>
   state_files \<times> clone_error option option" where
  "gl_refresh_all_resumable env endTime events targetPath grp strategy par maxRetries resume files =
     (let stateDir = session_state_dir targetPath in
      case gl_initialize_state (en_time env) (en_now env) stateDir grp targetPath strategy par maxRetries resume files of
        Inl e \<Rightarrow> (files, Some (Some e))
      | Inr state \<Rightarrow>
          (case gl_determine_repositories env resume state of
             Inl e \<Rightarrow> (files, Some (Some e))
           | Inr (state1, allRepos, reposToProcess) \<Rightarrow>
               let s = \<lparr>se_state = state1, se_files = files, se_success = 0, se_failure = 0\<rparr> in
               if allRepos = [] then (files, Some None)
               else if reposToProcess = []
               then (se_files (session_save (en_time env) (en_writable env) stateDir (en_now env)
                       (s\<lparr>se_state := mark_completed (en_now env) state1\<rparr>)), Some None)
               else (case gl_execute_clone_operation env stateDir grp targetPath strategy endTime events reposToProcess s of
                       (s', r) \<Rightarrow> (se_files s', r))))"

section \<open>What a run does to the lists\<close>

text \<open>The three lists of names of a state, and what a result does to them.\<close>

type_synonym clone_lists = "string list \<times> string list \<times> string list"

definition lists_of :: "clone_state \<Rightarrow> clone_lists" where
  "lists_of cs = (cs_PendingRepos cs, map cr_Name (cs_CompletedRepos cs), map fr_Name (cs_FailedRepos cs))"

definition record_result :: "repository_result \<Rightarrow> clone_lists \<Rightarrow> clone_lists" where
  "record_result r l =
     (let name = jb_Repository (rs_Job r) in
      case l of (pending, completed, failed) \<Rightarrow>
        if rs_Error r = None then (remove1 name pending, completed @ [name], failed)
        else if name \<in> set failed then (pending, completed, failed)
        else (remove1 name pending, completed, failed @ [name]))"

lemma is_failed_iff: "is_failed cs name \<longleftrightarrow> name \<in> set (map fr_Name (cs_FailedRepos cs))"
  by (auto simp: is_failed_def list_ex_iff)

lemma is_completed_iff: "is_completed cs name \<longleftrightarrow> name \<in> set (map cr_Name (cs_CompletedRepos cs))"
  by (auto simp: is_completed_def list_ex_iff)

lemma handle_lists: "lists_of (se_state (handle_job_result now r s)) = record_result r (lists_of (se_state s))"
  by (auto simp: handle_job_result_def record_result_def lists_of_def add_failed_repository_def
      add_completed_repository_def update_total_repositories_def remove_pending_repo_def is_failed_iff Let_def
      split: option.splits)

lemma handle_counts:
  "se_failure (handle_job_result now r s) = se_failure s + (if rs_Error r = None then 0 else 1)"
  "se_success (handle_job_result now r s) = se_success s + (if rs_Error r = None then 1 else 0)"
  by (simp_all add: handle_job_result_def Let_def split: option.splits)

lemma session_save_simps [simp]:
  "lists_of (se_state (session_save tc w d now s)) = lists_of (se_state s)"
  "se_failure (session_save tc w d now s) = se_failure s"
  "se_success (session_save tc w d now s) = se_success s"
  "cs_Status (se_state (session_save tc w d now s)) = cs_Status (se_state s)"
  "cs_PendingRepos (se_state (session_save tc w d now s)) = cs_PendingRepos (se_state s)"
  "cs_Provider (se_state (session_save tc w d now s)) = cs_Provider (se_state s)"
  "cs_Organization (se_state (session_save tc w d now s)) = cs_Organization (se_state s)"
  by (simp_all add: session_save_def save_state_def Let_def lists_of_def split: prod.splits)

definition event_result :: "int \<times> clone_event \<Rightarrow> repository_result option" where
  "event_result e = (case snd e of JobResult r \<Rightarrow> Some r | _ \<Rightarrow> None)"

definition is_cancel :: "int \<times> clone_event \<Rightarrow> bool" where
  "is_cancel e = (snd e = ContextCancelled)"

lemma event_result_simps [simp]:
  "event_result (t, JobResult r) = Some r" "event_result (t, ProgressTick) = None"
  "event_result (t, SaveTick) = None" "event_result (t, ContextCancelled) = None"
  by (simp_all add: event_result_def)

lemma map_filter_take_Nil [simp]: "List.map_filter f [] = []"
  by (simp add: List.map_filter_def)

lemma map_filter_Cons: "List.map_filter f (x # xs) = (case f x of None \<Rightarrow> List.map_filter f xs | Some y \<Rightarrow> y # List.map_filter f xs)"
  by (simp add: List.map_filter_def split: option.splits)

text \<open>Without a cancellation, the GitHub loop handles the first results, one per job.\<close>

lemma gh_loop_results:
  assumes "\<not> list_ex is_cancel events" and "n \<le> length (List.map_filter event_result events)"
  shows "\<exists>s'. gh_loop env d n events s = (s', LoopDone) \<and>
    lists_of (se_state s') = fold record_result (take n (List.map_filter event_result events)) (lists_of (se_state s)) \<and>
    se_failure s' = se_failure s + length (filter (\<lambda>r. rs_Error r \<noteq> None) (take n (List.map_filter event_result events))) \<and>
    cs_Provider (se_state s') = cs_Provider (se_state s) \<and> cs_Organization (se_state s') = cs_Organization (se_state s)"
  using assms
proof (induction env d n events s rule: gh_loop.induct)
  case (1 env d events s)
  then show ?case by simp
next
  case (2 env d n s)
  then show ?case by simp
next
  case (3 env d n now ev events s)
  have keep: "cs_Provider (se_state (handle_job_result t r s)) = cs_Provider (se_state s)"
    "cs_Organization (se_state (handle_job_result t r s)) = cs_Organization (se_state s)" for t r
    by (simp_all add: handle_job_result_def add_failed_repository_def add_completed_repository_def
        update_total_repositories_def remove_pending_repo_def Let_def split: option.splits)
  show ?case
  proof (cases ev)
    case (JobResult r)
    then have "\<not> list_ex is_cancel events" "n \<le> length (List.map_filter event_result events)"
      using 3(4,5) JobResult by (auto simp: map_filter_Cons)
    from "3.IH"(1) [OF JobResult this] show ?thesis
      by (auto simp: JobResult map_filter_Cons handle_lists handle_counts keep)
  next
    case ProgressTick
    then show ?thesis using 3 by (simp add: map_filter_Cons)
  next
    case SaveTick
    then have "\<not> list_ex is_cancel events" "Suc n \<le> length (List.map_filter event_result events)"
      using 3(4,5) SaveTick by (auto simp: map_filter_Cons)
    from "3.IH"(3) [OF SaveTick this] show ?thesis by (auto simp: SaveTick map_filter_Cons)
  next
    case ContextCancelled
    then show ?thesis using 3 by (simp add: is_cancel_def)
  qed
qed

text \<open>The GitLab loop handles the results among the first events, one event per job.\<close>

lemma gl_track_results_results:
  assumes "\<not> list_ex is_cancel events" and "n \<le> length events"
  shows "\<exists>s'. gl_track_results env d n events s = (s', LoopDone) \<and>
    lists_of (se_state s') = fold record_result (List.map_filter event_result (take n events)) (lists_of (se_state s)) \<and>
    se_failure s' = se_failure s + length (filter (\<lambda>r. rs_Error r \<noteq> None) (List.map_filter event_result (take n events)))"
  using assms
proof (induction env d n events s rule: gl_track_results.induct)
  case (3 env d n now ev events s)
  then show ?case
    by (cases ev) (auto simp: map_filter_Cons handle_lists handle_counts is_cancel_def)
qed simp_all

text \<open>Results for distinct repositories, none of which failed before, leave the pending list.\<close>

lemma record_results:
  assumes "distinct (map (\<lambda>r. jb_Repository (rs_Job r)) rs)"
    and "set (map (\<lambda>r. jb_Repository (rs_Job r)) rs) \<inter> set failed = {}"
  shows "fold record_result rs (pending, completed, failed) =
     (fold remove1 (map (\<lambda>r. jb_Repository (rs_Job r)) rs) pending,
      completed @ map (\<lambda>r. jb_Repository (rs_Job r)) (filter (\<lambda>r. rs_Error r = None) rs),
      failed @ map (\<lambda>r. jb_Repository (rs_Job r)) (filter (\<lambda>r. rs_Error r \<noteq> None) rs))"
  using assms
proof (induction rs arbitrary: pending completed failed)
  case Nil
  then show ?case by simp
next
  case (Cons r rs)
  have fresh: "jb_Repository (rs_Job r) \<notin> set failed"
    "set (map (\<lambda>r. jb_Repository (rs_Job r)) rs) \<inter> set (failed @ [jb_Repository (rs_Job r)]) = {}"
    "set (map (\<lambda>r. jb_Repository (rs_Job r)) rs) \<inter> set failed = {}" "distinct (map (\<lambda>r. jb_Repository (rs_Job r)) rs)"
    using Cons.prems by auto
  show ?case
  proof (cases "rs_Error r")
    case None
    then have "record_result r (pending, completed, failed)
        = (remove1 (jb_Repository (rs_Job r)) pending, completed @ [jb_Repository (rs_Job r)], failed)"
      by (simp add: record_result_def Let_def)
    then show ?thesis using Cons.IH [OF fresh(4,3)] None by simp
  next
    case (Some e)
    then have "record_result r (pending, completed, failed)
        = (remove1 (jb_Repository (rs_Job r)) pending, completed, failed @ [jb_Repository (rs_Job r)])"
      using fresh(1) by (simp add: record_result_def Let_def)
    then show ?thesis using Cons.IH [OF fresh(4,2)] Some by simp
  qed
qed

lemma mset_fold_remove1: "mset (fold remove1 xs ys) = mset ys - mset xs"
  by (induction xs arbitrary: ys) simp_all

lemma append_missing_set:
  "set (append_missing wanted start repos) = set start \<union> {r \<in> set repos. wanted r}"
  by (induction repos arbitrary: start) (auto simp: append_missing_def)

lemma submit_jobs_None: "(\<And>j. en_submit env j = None) \<Longrightarrow> submit_jobs env jobs = None"
  by (induction jobs) auto

lemma session_save_wf: "gm_wf (se_files s) \<Longrightarrow> gm_wf (se_files (session_save tc w d now s))"
  by (auto simp: session_save_def save_state_def Let_def split: prod.splits)

lemma handle_files [simp]: "se_files (handle_job_result now r s) = se_files s"
  by (simp add: handle_job_result_def Let_def split: option.splits)

lemma gh_loop_wf: "gm_wf (se_files s) \<Longrightarrow> gm_wf (se_files (fst (gh_loop env d n events s)))"
  by (induction env d n events s rule: gh_loop.induct) (auto simp: session_save_wf split: clone_event.splits)

lemma finished_pending:
  assumes "distinct (map (\<lambda>r. jb_Repository (rs_Job r)) rs)"
  shows "fst (fold record_result rs (repos, [], [])) = fold remove1 (map (\<lambda>r. jb_Repository (rs_Job r)) rs) repos"
  using record_results [OF assms, of "[]" repos "[]"] by simp

lemma fold_remove1_all: "mset xs = mset ys \<Longrightarrow> fold remove1 xs ys = []"
  using mset_fold_remove1 [of xs ys] by (metis cancel_comm_monoid_add_class.diff_cancel mset_zero_iff)

lemma fold_remove1_length:
  assumes "distinct xs" "distinct ys" "set xs \<subseteq> set ys"
  shows "length (fold remove1 xs ys) = length ys - length xs"
proof -
  have "mset xs \<subseteq># mset ys" using assms by (metis mset_set_set msubset_mset_set_iff finite_set)
  then have "size (mset (fold remove1 xs ys)) = size (mset ys) - size (mset xs)"
    unfolding mset_fold_remove1 by (rule size_Diff_submset)
  then show ?thesis by simp
qed

lemma set_pending_lists: "lists_of (set_pending_repositories repos (new_clone_state now p org t strategy par m)) = (repos, [], [])"
  by (simp add: lists_of_def set_pending_repositories_def update_total_repositories_def new_clone_state_def)

section \<open>Properties\<close>

text \<open>
  Property C7. A new GitHub clone in which every listed repository gets one result ends by
  removing its state file, whether or not operations failed; it reports the number of
  failed operations, and there is nothing left that a resume could load.
\<close>

theorem github_session_end:
  assumes "en_repos env = Inr repos" and "repos \<noteq> []" and "distinct repos" and "en_pool env = None"
    and "en_submit env = (\<lambda>_. None)" and "en_writable env" and "gm_wf files"
    and "\<not> has_state (session_state_dir targetPath) ''github'' org files" and "\<not> list_ex is_cancel events"
    and "mset (map (\<lambda>r. jb_Repository (rs_Job r)) (List.map_filter event_result events)) = mset repos"
  shows "\<exists>files'. gh_refresh_all_resumable env endTime events targetPath org strategy par maxRetries False files
      = (files', Some (let failures = length (filter (\<lambda>r. rs_Error r \<noteq> None) (List.map_filter event_result events))
           in if 0 < failures then Some (OperationsFailed failures) else None)) \<and>
    gh_refresh_all_resumable env endTime events' targetPath org strategy par maxRetries True files'
      = (files', Some (Some (LoadFailed (NoStateFile ''github'' org))))"
proof -
  let ?d = "session_state_dir targetPath" and ?rs = "List.map_filter event_result events"
  let ?st = "set_pending_repositories repos (new_clone_state (en_now env) ''github'' org targetPath strategy par maxRetries)"
  let ?st1 = "?st\<lparr>cs_LastUpdated := en_now env\<rparr>"
  let ?f1 = "gm_put (get_state_file_path ?d ''github'' org) (Some (encode_state (en_time env) ?st1)) files"
  let ?s1 = "\<lparr>se_state = ?st1, se_files = ?f1, se_success = 0, se_failure = 0\<rparr>"
  have len: "length ?rs = length repos" using assms(10) by (metis length_map size_mset)
  then have "length repos \<le> length ?rs" by simp
  from gh_loop_results [OF assms(9) this, of env ?d ?s1] obtain s2 where
    s2: "gh_loop env ?d (length repos) events ?s1 = (s2, LoopDone)"
      "lists_of (se_state s2) = fold record_result ?rs (lists_of ?st1)"
      "se_failure s2 = length (filter (\<lambda>r. rs_Error r \<noteq> None) ?rs)"
    using len by auto
  have "lists_of ?st1 = (repos, [], [])" using set_pending_lists by (simp add: lists_of_def)
  moreover have "distinct (map (\<lambda>r. jb_Repository (rs_Job r)) ?rs)"
    using assms(3,10) by (metis mset_eq_imp_distinct_iff)
  ultimately have pending: "cs_PendingRepos (se_state s2) = []"
    using s2(2) finished_pending [of ?rs repos] fold_remove1_all [OF assms(10)] by (simp add: lists_of_def prod_eq_iff)
  have st: "cs_Provider ?st = ''github''" "cs_Organization ?st = org"
    by (simp_all add: set_pending_repositories_def update_total_repositories_def new_clone_state_def)
  have wf: "gm_wf (se_files s2)" using gh_loop_wf [of ?s1 env ?d "length repos" events] assms(7) by (simp add: s2(1))
  let ?s3 = "session_save (en_time env) True ?d endTime (s2\<lparr>se_state := mark_completed endTime (se_state s2)\<rparr>)"
  let ?files' = "delete_state ?d ''github'' org (se_files ?s3)"
  have status: "cs_Status (se_state ?s3) = ''completed''" by (simp add: mark_completed_def)
  have run: "gh_refresh_all_resumable env endTime events targetPath org strategy par maxRetries False files
      = (?files', Some (if 0 < se_failure s2 then Some (OperationsFailed (se_failure s2)) else None))"
    using assms s2(1) status pending
    by (simp add: gh_refresh_all_resumable_def gh_create_new_state_def gh_prepare_repository_list_def gh_process_def
        save_state_def st submit_jobs_None gh_finalize_def mark_final_def get_remaining_repositories_def Let_def)
  have "gm_wf (se_files ?s3)" using wf by (intro session_save_wf) simp
  then have "gm_get ?files' (get_state_file_path ?d ''github'' org) = None"
    by (simp add: delete_state_def gm.get_del)
  then have "gh_refresh_all_resumable env endTime events' targetPath org strategy par maxRetries True ?files'
      = (?files', Some (Some (LoadFailed (NoStateFile ''github'' org))))"
    by (simp add: gh_refresh_all_resumable_def gh_load_and_validate_state_def load_state_def Let_def)
  then show ?thesis using run unfolding s2(3) Let_def by blast
qed

definition sample_env :: "string list \<Rightarrow> clone_env" where
  "sample_env repos = \<lparr>en_now = 0, en_repos = Inr repos, en_exists = (\<lambda>_. False), en_is_git = (\<lambda>_. False),
     en_pool = None, en_submit = (\<lambda>_. None), en_writable = True, en_time = unix_times\<rparr>"

definition sample_result :: "string \<Rightarrow> string option \<Rightarrow> clone_event" where
  "sample_result repo err = JobResult (repo_result CloneLane (clone_job repo, err))"

theorem github_session_end_witness:
  "\<exists>files'. gh_refresh_all_resumable (sample_env [''a'', ''b'']) 9
      [(1, ProgressTick), (2, sample_result ''b'' (Some ''timeout'')), (3, sample_result ''a'' None)] ''/t'' ''acme'' ''pull'' 2 3 False []
    = (files', Some (Some (OperationsFailed 1)))"
proof -
  let ?ev = "[(1, ProgressTick), (2, sample_result ''b'' (Some ''timeout'')), (3, sample_result ''a'' None)]"
  have r: "List.map_filter event_result ?ev
      = [repo_result CloneLane (clone_job ''b'', Some ''timeout''), repo_result CloneLane (clone_job ''a'', None)]"
    by (simp add: map_filter_Cons sample_result_def)
  have "mset (map (\<lambda>r. jb_Repository (rs_Job r)) (List.map_filter event_result ?ev)) = mset [''a'', ''b'']"
    unfolding r by (simp add: repo_result_def clone_job_def)
  moreover have "\<not> list_ex is_cancel ?ev" by (simp add: is_cancel_def sample_result_def)
  moreover have "\<not> has_state (session_state_dir ''/t'') ''github'' ''acme'' []" by (simp add: has_state_def)
  ultimately show ?thesis
    using github_session_end [of "sample_env [''a'', ''b'']" "[''a'', ''b'']" "[]" "''/t''" "''acme''" ?ev 9 "''pull''" 2 3]
    unfolding r by (simp add: sample_env_def repo_result_def Let_def) blast
qed

text \<open>
  The GitLab loop receives as many events as there are jobs, ticks included: when a
  tick is among them, the run returns without waiting for the other results, and without an
  error unless a handled operation failed, although the saved state is marked failed and
  keeps one pending repository per tick.
\<close>

theorem gitlab_ticks_lose_results:
  assumes "en_repos env = Inr repos" and "distinct repos" and "en_pool env = None"
    and "en_submit env = (\<lambda>_. None)" and "en_writable env"
    and "\<not> has_state (session_state_dir targetPath) ''gitlab'' grp files" and "\<not> list_ex is_cancel events"
    and "handled = List.map_filter event_result (take (length repos) events)" and "length repos \<le> length events"
    and "distinct (map (\<lambda>r. jb_Repository (rs_Job r)) handled)"
    and "set (map (\<lambda>r. jb_Repository (rs_Job r)) handled) \<subseteq> set repos" and "length handled < length repos"
  shows "\<exists>files' st. gl_refresh_all_resumable env endTime events targetPath grp strategy par maxRetries False files
      = (files', Some (let failures = length (filter (\<lambda>r. rs_Error r \<noteq> None) handled)
           in if 0 < failures then Some (OperationsFailed failures) else None)) \<and>
    gm_get files' (get_state_file_path (session_state_dir targetPath) ''gitlab'' grp) = Some (Some (encode_state (en_time env) st)) \<and> cs_Status st = ''failed'' \<and>
    length (cs_PendingRepos st) = length repos - length handled"
proof -
  let ?d = "session_state_dir targetPath"
  let ?st = "set_pending_repositories repos (new_clone_state (en_now env) ''gitlab'' grp targetPath strategy par maxRetries)"
  let ?st1 = "?st\<lparr>cs_LastUpdated := en_now env\<rparr>"
  let ?f1 = "gm_put (get_state_file_path ?d ''gitlab'' grp) (Some (encode_state (en_time env) ?st1)) files"
  let ?s1 = "\<lparr>se_state = ?st1, se_files = ?f1, se_success = 0, se_failure = 0\<rparr>"
  have prov: "cs_Provider (se_state (fst (gl_track_results env ?d n evs s))) = cs_Provider (se_state s) \<and>
      cs_Organization (se_state (fst (gl_track_results env ?d n evs s))) = cs_Organization (se_state s)" for n evs s
    by (induction env "?d" n evs s rule: gl_track_results.induct)
      (auto simp: handle_job_result_def add_failed_repository_def add_completed_repository_def mark_cancelled_def
        update_total_repositories_def remove_pending_repo_def Let_def split: option.splits clone_event.splits)
  from gl_track_results_results [OF assms(7,9), of env ?d ?s1] obtain s2 where
    s2: "gl_track_results env ?d (length repos) events ?s1 = (s2, LoopDone)"
      "lists_of (se_state s2) = fold record_result handled (lists_of ?st1)"
      "se_failure s2 = length (filter (\<lambda>r. rs_Error r \<noteq> None) handled)"
    unfolding assms(8) by auto
  have st: "cs_Provider ?st = ''gitlab''" "cs_Organization ?st = grp"
    by (simp_all add: set_pending_repositories_def update_total_repositories_def new_clone_state_def)
  have s2org: "cs_Provider (se_state s2) = ''gitlab''" "cs_Organization (se_state s2) = grp"
    using prov [of "length repos" events ?s1] by (simp_all add: s2(1) st)
  have "lists_of ?st1 = (repos, [], [])" using set_pending_lists by (simp add: lists_of_def)
  then have pending: "cs_PendingRepos (se_state s2) = fold remove1 (map (\<lambda>r. jb_Repository (rs_Job r)) handled) repos"
    using s2(2) finished_pending [OF assms(10), of repos] by (simp add: lists_of_def prod_eq_iff)
  have count: "length (cs_PendingRepos (se_state s2)) = length repos - length handled"
    unfolding pending using fold_remove1_length [OF assms(10,2,11)] by simp
  then have ne: "cs_PendingRepos (se_state s2) \<noteq> []" using assms(12) by auto
  have repos: "repos \<noteq> []" using assms(12) by auto
  let ?s3 = "session_save (en_time env) True ?d endTime (s2\<lparr>se_state := mark_failed endTime (se_state s2)\<rparr>)"
  have status: "cs_Status (se_state ?s3) = ''failed''" by (simp add: mark_failed_def)
  have run: "gl_refresh_all_resumable env endTime events targetPath grp strategy par maxRetries False files
      = (se_files ?s3, Some (if 0 < se_failure s2 then Some (OperationsFailed (se_failure s2)) else None))"
    using assms(1,3-6) s2(1) status ne repos
    by (simp add: gl_refresh_all_resumable_def gl_initialize_state_def gl_determine_repositories_def
        gl_execute_clone_operation_def save_state_def st submit_jobs_None gl_finalize_operation_def mark_final_def
        get_remaining_repositories_def Let_def)
  have "gm_get (se_files ?s3) (get_state_file_path ?d ''gitlab'' grp) = Some (Some (encode_state (en_time env) (se_state ?s3)))"
    by (simp add: session_save_def save_state_def Let_def mark_failed_def s2org)
  moreover have "length (cs_PendingRepos (se_state ?s3)) = length repos - length handled"
    using count by (simp add: mark_failed_def)
  ultimately show ?thesis using run status unfolding s2(3) Let_def by blast
qed

theorem gitlab_ticks_lose_results_witness:
  "\<exists>files' st. gl_refresh_all_resumable (sample_env [''a'', ''b'']) 9
      [(1, ProgressTick), (2, sample_result ''b'' None), (3, sample_result ''a'' None)] ''/t'' ''grp'' ''pull'' 2 3 False []
    = (files', Some None) \<and> gm_get files' (get_state_file_path (session_state_dir ''/t'') ''gitlab'' ''grp'') = Some (Some (encode_state unix_times st)) \<and>
    length (cs_PendingRepos st) = 1"
proof -
  let ?ev = "[(1, ProgressTick), (2, sample_result ''b'' None), (3, sample_result ''a'' None)]"
  have r: "[repo_result CloneLane (clone_job ''b'', None)] = List.map_filter event_result (take (length [''a'', ''b'']) ?ev)"
    by (simp add: map_filter_Cons sample_result_def)
  have c: "\<not> list_ex is_cancel ?ev" by (simp add: is_cancel_def sample_result_def)
  have h: "\<not> has_state (session_state_dir ''/t'') ''gitlab'' ''grp'' []" by (simp add: has_state_def)
  show ?thesis
    using gitlab_ticks_lose_results [OF _ _ _ _ _ h c r, where env = "sample_env [''a'', ''b'']" and endTime = 9
      and strategy = "''pull''" and par = 2 and maxRetries = 3]
    by (simp add: sample_env_def repo_result_def clone_job_def Let_def) blast
qed

text \<open>
  On a resume both forges process the pending repositories and the listed ones that
  are neither completed nor failed; only GitLab also tries the failed ones again.
\<close>

theorem resume_repositories:
  "set (gh_resume_repositories state allRepos) = set (cs_PendingRepos state) \<union>
     (set allRepos - set (map cr_Name (cs_CompletedRepos state)) - set (map fr_Name (cs_FailedRepos state))) \<and>
   set (gl_resumable_repositories state allRepos) = set (gh_resume_repositories state allRepos) \<union>
     (set allRepos \<inter> set (map fr_Name (cs_FailedRepos state)))"
  by (auto simp: gh_resume_repositories_def gl_resumable_repositories_def append_missing_set is_failed_iff
      is_completed_iff get_remaining_repositories_def)

end
