(* ===== verification/Recovery.thy ===== *)
theory Recovery
  imports GoPrelude
begin

text \<open>
  Error recovery (\<open>internal/errors/recovery.go\<close>): retries with exponential backoff, the circuit
  breaker and the health checks.

  A call of a user function is the outcome it has; time is in nanoseconds and passed in.
\<close>

section \<open>Errors\<close>

datatype error_type = ErrorTypeNetwork | ErrorTypeAuth | ErrorTypeValidation | ErrorTypeSystem
  | ErrorTypeTimeout | ErrorTypeRateLimit | ErrorTypeUnknown

text \<open>A plain error, one wrapped by another message, or a recoverable error with its cause.\<close>

datatype go_error =
    PlainError string
  | WrappedError string go_error
  | RecoverableError error_type string "go_error option" bool

fun as_recoverable :: "go_error \<Rightarrow> go_error option" where
  "as_recoverable (PlainError m) = None"
| "as_recoverable (WrappedError m e) = as_recoverable e"
| "as_recoverable (RecoverableError t m c r) = Some (RecoverableError t m c r)"

fun is_retryable :: "go_error \<Rightarrow> bool" where
  "is_retryable (RecoverableError t m c r) = r"
| "is_retryable e = True"

section \<open>Retries\<close>

record recovery_config =
  rv_MaxRetries :: int
  rv_RetryDelay :: int

definition new_error_recovery :: "recovery_config \<Rightarrow> recovery_config" where
  "new_error_recovery config =
     (let c1 = (if rv_MaxRetries config = 0 then config\<lparr>rv_MaxRetries := 3\<rparr> else config)
      in if rv_RetryDelay c1 = 0 then c1\<lparr>rv_RetryDelay := nanosecond_second\<rparr> else c1)"

definition calculate_backoff :: "recovery_config \<Rightarrow> int \<Rightarrow> int" where
  "calculate_backoff er attempt0 =
     (let attempt = (if 30 < attempt0 then 30 else attempt0);
          shiftAmount = min (if attempt < 0 then 2 ^ 64 + attempt else attempt) 30
      in min (wrap64 (rv_RetryDelay er * 2 ^ nat shiftAmount)) (30 * nanosecond_second))"

datatype exec_result = ExecOk | ExecCancelled | ExecError go_error | ExecExhausted int "go_error option"

text \<open>
  \<open>fn attempt\<close> is the error of that call, \<open>cancelled attempt\<close> whether the context ends during
  the wait before it. The result comes with the number of calls and the errors handed to the
  recovery function.
\<close>

function execute_loop ::
  "recovery_config \<Rightarrow> (nat \<Rightarrow> go_error option) \<Rightarrow> (nat \<Rightarrow> bool) \<Rightarrow> nat \<Rightarrow> go_error option \<Rightarrow> go_error list \<Rightarrow>
   exec_result \<times> nat \<times> go_error list" where
  "execute_loop er fn cancelled attempt lastErr recovered =
     (if int attempt > rv_MaxRetries er then (ExecExhausted (rv_MaxRetries er + 1) lastErr, attempt, recovered)
      else if 0 < attempt \<and> cancelled attempt then (ExecCancelled, attempt, recovered)
      else (case fn attempt of
              None \<Rightarrow> (ExecOk, Suc attempt, recovered)
            | Some err \<Rightarrow>
                (case as_recoverable err of
                   Some recErr \<Rightarrow>
                     if \<not> is_retryable recErr then (ExecError err, Suc attempt, recovered)
                     else execute_loop er fn cancelled (Suc attempt) (Some err) (recovered @ [err])
                 | None \<Rightarrow> execute_loop er fn cancelled (Suc attempt) (Some err) (recovered @ [err]))))"
  by pat_completeness auto
termination by (relation "measure (\<lambda>(er, _, _, attempt, _, _). nat (rv_MaxRetries er + 1) - attempt)") auto

declare execute_loop.simps [simp del]

definition execute_with_result ::
  "recovery_config \<Rightarrow> (nat \<Rightarrow> go_error option) \<Rightarrow> (nat \<Rightarrow> bool) \<Rightarrow> exec_result \<times> nat \<times> go_error list" where
  "execute_with_result er fn cancelled = execute_loop er fn cancelled 0 None []"

definition may_retry :: "go_error \<Rightarrow> bool" where
  "may_retry e = (case as_recoverable e of None \<Rightarrow> True | Some r \<Rightarrow> is_retryable r)"

lemma execute_loop_result:
  assumes "execute_loop er fn cancelled k lastErr rs = (r, n, out)" and "int k \<le> rv_MaxRetries er + 1"
    and "rs = map (\<lambda>i. the (fn i)) [0..<k]" and "\<forall>i<k. \<exists>e. fn i = Some e \<and> may_retry e"
  shows "int n \<le> rv_MaxRetries er + 1 \<and> (\<forall>i<n - 1. \<exists>e. fn i = Some e \<and> may_retry e) \<and>
    (r = ExecOk \<longleftrightarrow> k < n \<and> fn (n - 1) = None) \<and>
    (\<forall>e. r = ExecError e \<longrightarrow> fn (n - 1) = Some e \<and> \<not> may_retry e) \<and>
    (\<exists>m\<le>n. out = map (\<lambda>i. the (fn i)) [0..<m])"
  using assms
proof (induction er fn cancelled k lastErr rs rule: execute_loop.induct)
  case (1 er fn cancelled k lastErr rs)
  note unfold = "1.prems"(1) [unfolded execute_loop.simps [of er fn cancelled k lastErr rs]]
  consider "int k > rv_MaxRetries er \<or> (0 < k \<and> cancelled k)"
    | "int k \<le> rv_MaxRetries er" "\<not> (0 < k \<and> cancelled k)" "fn k = None"
    | e where "int k \<le> rv_MaxRetries er" "\<not> (0 < k \<and> cancelled k)" "fn k = Some e" "\<not> may_retry e"
    | e where "int k \<le> rv_MaxRetries er" "\<not> (0 < k \<and> cancelled k)" "fn k = Some e" "may_retry e"
    by (cases "fn k"; cases "int k > rv_MaxRetries er"; cases "0 < k \<and> cancelled k"; cases "may_retry (the (fn k))") auto
  then show ?case
  proof cases
    case 1
    then show ?thesis using unfold "1.prems"(2-4) by (auto split: if_splits)
  next
    case 2
    then have "r = ExecOk" "n = Suc k" "out = rs" using unfold by auto
    then show ?thesis using 2 "1.prems"(3,4) by (auto intro: exI [of _ k])
  next
    case 3
    then have "r = ExecError e" "n = Suc k" "out = rs" using unfold
      by (auto simp: may_retry_def split: option.splits)
    then show ?thesis using 3 "1.prems"(3,4) by (auto intro: exI [of _ k])
  next
    case 4
    have rec: "execute_loop er fn cancelled (Suc k) (Some e) (rs @ [e]) = (r, n, out)"
      using unfold 4 by (auto simp: may_retry_def split: option.splits)
    have pre: "int (Suc k) \<le> rv_MaxRetries er + 1" "rs @ [e] = map (\<lambda>i. the (fn i)) [0..<Suc k]"
      "\<forall>i<Suc k. \<exists>e. fn i = Some e \<and> may_retry e"
      using 4 "1.prems"(3,4) by (auto simp: less_Suc_eq)
    have ih: "int n \<le> rv_MaxRetries er + 1 \<and> (\<forall>i<n - 1. \<exists>e. fn i = Some e \<and> may_retry e) \<and>
      (r = ExecOk \<longleftrightarrow> Suc k < n \<and> fn (n - 1) = None) \<and>
      (\<forall>e. r = ExecError e \<longrightarrow> fn (n - 1) = Some e \<and> \<not> may_retry e) \<and>
      (\<exists>m\<le>n. out = map (\<lambda>i. the (fn i)) [0..<m])"
    proof (cases "as_recoverable e")
      case None
      then show ?thesis using "1.IH"(1) [OF _ _ 4(3) None] rec pre 4(1,2) by simp
    next
      case (Some a)
      then have "is_retryable a" using 4(4) by (simp add: may_retry_def)
      then show ?thesis using "1.IH"(2) [OF _ _ 4(3) Some] rec pre 4(1,2) by simp
    qed
    have "n = Suc k \<Longrightarrow> fn (n - 1) \<noteq> None" using 4 by simp
    then have "(Suc k < n \<and> fn (n - 1) = None) = (k < n \<and> fn (n - 1) = None)" by (metis Suc_lessD Suc_lessI)
    then show ?thesis using ih by metis
  qed
qed

section \<open>The circuit breaker\<close>

datatype circuit_state = StateClosed | StateOpen | StateHalfOpen

record circuit_breaker =
  cb_maxFailures :: int
  cb_resetTime :: int
  cb_failures :: int
  cb_lastFailure :: int
  cb_state :: circuit_state

definition new_circuit_breaker :: "int \<Rightarrow> int \<Rightarrow> circuit_breaker" where
  "new_circuit_breaker maxFailures resetTime =
     \<lparr>cb_maxFailures = maxFailures, cb_resetTime = resetTime, cb_failures = 0, cb_lastFailure = 0, cb_state = StateClosed\<rparr>"

definition allow_request :: "int \<Rightarrow> circuit_breaker \<Rightarrow> bool" where
  "allow_request now cb =
     (case cb_state cb of
        StateClosed \<Rightarrow> True
      | StateOpen \<Rightarrow> cb_resetTime cb < now - cb_lastFailure cb
      | StateHalfOpen \<Rightarrow> True)"

definition breaker_record :: "int \<Rightarrow> bool \<Rightarrow> circuit_breaker \<Rightarrow> circuit_breaker" where
  "breaker_record now failed cb =
     (if failed then
        let cb1 = cb\<lparr>cb_failures := cb_failures cb + 1, cb_lastFailure := now\<rparr>
        in if cb_maxFailures cb1 \<le> cb_failures cb1 then cb1\<lparr>cb_state := StateOpen\<rparr> else cb1
      else cb\<lparr>cb_failures := 0, cb_state := StateClosed\<rparr>)"

text \<open>One call: the time it is asked for, the time it ends and whether the function fails.\<close>

definition breaker_execute :: "int \<times> int \<times> bool \<Rightarrow> circuit_breaker \<Rightarrow> circuit_breaker \<times> bool" where
  "breaker_execute call cb =
     (case call of (asked, ended, failed) \<Rightarrow>
        if \<not> allow_request asked cb then (cb, False) else (breaker_record ended failed cb, True))"

definition breaker_run :: "(int \<times> int \<times> bool) list \<Rightarrow> circuit_breaker \<Rightarrow> circuit_breaker" where
  "breaker_run calls cb = foldl (\<lambda>cb call. fst (breaker_execute call cb)) cb calls"

definition breaker_inv :: "int \<Rightarrow> circuit_breaker \<Rightarrow> bool" where
  "breaker_inv m cb \<longleftrightarrow> cb_maxFailures cb = m \<and> 0 \<le> cb_failures cb \<and> cb_state cb \<noteq> StateHalfOpen \<and>
     (cb_state cb = StateOpen \<longleftrightarrow> 0 < cb_failures cb \<and> m \<le> cb_failures cb)"

lemma breaker_inv_step: "breaker_inv m cb \<Longrightarrow> breaker_inv m (fst (breaker_execute call cb))"
  by (cases "cb_state cb"; cases call)
    (auto simp: breaker_inv_def breaker_execute_def breaker_record_def allow_request_def Let_def)

lemma breaker_run_inv: "breaker_inv m cb \<Longrightarrow> breaker_inv m (breaker_run calls cb)"
  by (induction calls arbitrary: cb) (auto simp: breaker_run_def dest: breaker_inv_step)

lemma breaker_inv_new: "breaker_inv m (new_circuit_breaker m t)"
  by (simp add: breaker_inv_def new_circuit_breaker_def)

section \<open>Health checks\<close>

text \<open>What a check does: it passes, fails or panics; a panic leaves the named result at nil.\<close>

datatype check_outcome = CheckPass | CheckFail string | CheckPanic

record health_check =
  hc_Name :: string
  hc_Outcome :: check_outcome
  hc_Timeout :: int

definition run_check :: "bool \<Rightarrow> health_check \<Rightarrow> string option" where
  "run_check cancelled check =
     (if cancelled then Some ''context canceled''
      else (case hc_Outcome check of CheckPass \<Rightarrow> None | CheckFail e \<Rightarrow> Some e | CheckPanic \<Rightarrow> None))"

definition run_checks :: "bool \<Rightarrow> health_check list \<Rightarrow> (string, string option) gomap" where
  "run_checks cancelled checks = foldl (\<lambda>results c. gm_put (hc_Name c) (run_check cancelled c) results) [] checks"

lemma panicking_check_passes: "run_checks False [\<lparr>hc_Name = ''db'', hc_Outcome = CheckPanic, hc_Timeout = 0\<rparr>] = [(''db'', None)]"
  by code_simp

section \<open>Properties\<close>

text \<open>
  Property C12. An operation is called at most once more than the maximal number of retries;
  every call before the last failed with an error that may be retried, the result is success
  exactly when the last call succeeded, and the recovery function sees the errors in order.
\<close>

theorem execute_attempts:
  assumes "execute_with_result er fn cancelled = (r, n, recovered)" and "0 \<le> rv_MaxRetries er"
  shows "int n \<le> rv_MaxRetries er + 1 \<and> (\<forall>i<n - 1. \<exists>e. fn i = Some e \<and> may_retry e) \<and>
    (r = ExecOk \<longleftrightarrow> 0 < n \<and> fn (n - 1) = None) \<and> (\<exists>m\<le>n. recovered = map (\<lambda>i. the (fn i)) [0..<m])"
  using execute_loop_result [OF assms(1) [unfolded execute_with_result_def]] assms(2) by simp

theorem execute_attempts_witness:
  "execute_with_result (new_error_recovery \<lparr>rv_MaxRetries = 0, rv_RetryDelay = 0\<rparr>)
     (\<lambda>i. if i < 2 then Some (PlainError ''refused'') else None) (\<lambda>_. False)
   = (ExecOk, 3, [PlainError ''refused'', PlainError ''refused'']) \<and> (3::int) \<le> 4"
proof -
  have e: "execute_with_result (new_error_recovery \<lparr>rv_MaxRetries = 0, rv_RetryDelay = 0\<rparr>)
     (\<lambda>i. if i < 2 then Some (PlainError ''refused'') else None) (\<lambda>_. False)
   = (ExecOk, 3, [PlainError ''refused'', PlainError ''refused''])" by code_simp
  have "0 \<le> rv_MaxRetries (new_error_recovery \<lparr>rv_MaxRetries = 0, rv_RetryDelay = 0\<rparr>)" by code_simp
  from execute_attempts [OF e this] e show ?thesis by simp
qed

text \<open>
  For retry delays up to eight seconds the backoff is the delay doubled once per
  attempt and capped at thirty seconds, so it never decreases from one attempt to the next.
\<close>

theorem backoff_bounds:
  assumes "0 < rv_RetryDelay er" and "rv_RetryDelay er \<le> 8 * nanosecond_second" and "0 \<le> attempt"
  shows "calculate_backoff er attempt = min (rv_RetryDelay er * 2 ^ nat (min attempt 30)) (30 * nanosecond_second) \<and>
    0 < calculate_backoff er attempt \<and> calculate_backoff er attempt \<le> calculate_backoff er (attempt + 1)"
proof -
  have eq: "calculate_backoff er a = min (rv_RetryDelay er * 2 ^ nat (min a 30)) (30 * nanosecond_second)" if "0 \<le> a" for a
  proof -
    have "(2::int) ^ nat (min a 30) \<le> 2 ^ 30" by (rule power_increasing) auto
    then have "rv_RetryDelay er * 2 ^ nat (min a 30) \<le> 8 * nanosecond_second * 2 ^ 30"
      using assms(1,2) by (intro mult_mono) auto
    then have "wrap64 (rv_RetryDelay er * 2 ^ nat (min a 30)) = rv_RetryDelay er * 2 ^ nat (min a 30)"
      using assms(1) by (intro wrap64_id) (auto simp: nanosecond_second_def intro: order_trans [of _ 0])
    moreover have "min (if (if 30 < a then 30 else a) < 0 then 2 ^ 64 + (if 30 < a then 30 else a)
        else if 30 < a then 30 else a) 30 = min a 30" using that by auto
    ultimately show ?thesis by (simp add: calculate_backoff_def Let_def)
  qed
  have "(2::int) ^ nat (min attempt 30) \<le> 2 ^ nat (min (attempt + 1) 30)"
    using assms(3) by (intro power_increasing) auto
  then have "rv_RetryDelay er * 2 ^ nat (min attempt 30) \<le> rv_RetryDelay er * 2 ^ nat (min (attempt + 1) 30)"
    using assms(1) by (intro mult_left_mono) auto
  then show ?thesis using eq [of attempt] eq [of "attempt + 1"] assms by (auto simp: nanosecond_second_def min_le_iff_disj)
qed

theorem backoff_bounds_witness:
  "calculate_backoff \<lparr>rv_MaxRetries = 3, rv_RetryDelay = nanosecond_second\<rparr> 4 = 16 * nanosecond_second"
  using backoff_bounds [of "\<lparr>rv_MaxRetries = 3, rv_RetryDelay = nanosecond_second\<rparr>" 4]
  by (simp add: nanosecond_second_def)

text \<open>A larger delay overflows its 64 bits: the wait before the retry is negative.\<close>

lemma backoff_overflow: "calculate_backoff \<lparr>rv_MaxRetries = 30, rv_RetryDelay = 10 * nanosecond_second\<rparr> 30 < 0"
  by code_simp

text \<open>
  Whatever calls go through a new circuit breaker, it never enters its half-open
  state, and it is open exactly when its failure count, zero after a success, has reached
  the maximum.
\<close>

theorem breaker_states:
  "let cb = breaker_run calls (new_circuit_breaker maxFailures resetTime) in
   cb_state cb \<noteq> StateHalfOpen \<and> 0 \<le> cb_failures cb \<and>
   (cb_state cb = StateOpen \<longleftrightarrow> 0 < cb_failures cb \<and> maxFailures \<le> cb_failures cb)"
  using breaker_run_inv [OF breaker_inv_new, of maxFailures calls resetTime] by (simp add: breaker_inv_def Let_def)

end
