(* ===== verification/RiskPolicy.thy ===== *)
theory RiskPolicy
  imports GoPrelude
begin

text \<open>
  The trusted-base authority of the accepted-risk gate
  (\<open>security/internal/acceptedrisk/policy.go\<close>): who may approve, with which evidence and how
  often a risk is reviewed. The YAML decoder is a parameter; everything after it is modelled.
\<close>

section \<open>Logins\<close>

definition login_char :: "char \<Rightarrow> bool" where
  "login_char c \<longleftrightarrow> (let n = (of_char c :: nat) in
     (48 \<le> n \<and> n \<le> 57) \<or> (65 \<le> n \<and> n \<le> 90) \<or> (97 \<le> n \<and> n \<le> 122))"

text \<open>The repeated group of the login pattern: an optional hyphen and one character.\<close>

fun login_rest :: "string \<Rightarrow> bool" where
  "login_rest [] = True"
| "login_rest (c # s) =
     (if c = CHR ''-'' then (case s of [] \<Rightarrow> False | d # t \<Rightarrow> login_char d \<and> login_rest t)
      else login_char c \<and> login_rest s)"

definition login_pattern :: "string \<Rightarrow> bool" where
  "login_pattern s = (case s of [] \<Rightarrow> False | c # t \<Rightarrow> login_char c \<and> login_rest t)"

definition is_well_formed_login :: "string \<Rightarrow> bool" where
  "is_well_formed_login login \<longleftrightarrow> length login \<le> 39 \<and> login_pattern login"

definition non_human_login_markers :: "string list" where
  "non_human_login_markers = [''[bot]'', ''-bot'', ''_bot'', ''dependabot'', ''renovate'',
     ''github-actions'', ''copilot'', ''claude'', ''codex'', ''gemini'', ''chatgpt'']"

definition is_non_human_login :: "string \<Rightarrow> bool" where
  "is_non_human_login login =
     (let lowered = to_lower (trim_space login) in list_ex (contains lowered) non_human_login_markers)"

definition is_human_approver_login :: "string \<Rightarrow> bool" where
  "is_human_approver_login login \<longleftrightarrow> is_well_formed_login login \<and> \<not> is_non_human_login login"

section \<open>The policy\<close>

text \<open>The keys are an option: a list that is missing is not the empty list.\<close>

record policy_org =
  po_ID :: int
  po_Login :: string

record policy_approver =
  pa_ID :: int
  pa_Login :: string
  pa_Type :: string
  pa_Role :: string
  pa_SigningKeys :: "string list option"

record policy_evidence =
  pe_AcceptedTypes :: "string list"

record policy_cadence =
  pc_ReviewIntervalDays :: int
  pc_HardSunsetDays :: int

record risk_policy =
  rp_Version :: int
  rp_Organization :: policy_org
  rp_Approvers :: "policy_approver list"
  rp_Evidence :: policy_evidence
  rp_Cadence :: policy_cadence

datatype policy_error =
    DecodeFailed string | TrailingDocument | TrailingError string | UnsupportedVersion | OrganizationRequired
  | NoApprover | ApproverInvalid nat policy_error | DuplicateApprover nat int
  | ApproverIDInvalid | ApproverLabelsRequired | ApproverTypeInvalid | LoginMalformed string | LoginNotHuman string
  | SigningKeysMissing | SigningKeyUntrimmed string | SigningKeyDuplicate string
  | NoEvidenceType | EvidenceTypeMutable string | CadenceNotPositive | SunsetBeforeReview

definition supported_schema_version :: int where "supported_schema_version = 1"

definition approver_type_user :: string where "approver_type_user = ''User''"

definition evidence_type_signed_commit :: string where "evidence_type_signed_commit = ''signed-commit''"

definition signing_keys :: "policy_approver \<Rightarrow> string list" where
  "signing_keys approver = (case pa_SigningKeys approver of None \<Rightarrow> [] | Some ks \<Rightarrow> ks)"

fun signing_keys_loop :: "string list \<Rightarrow> string list \<Rightarrow> policy_error option" where
  "signing_keys_loop seen [] = None"
| "signing_keys_loop seen (key # keys) =
     (if key \<noteq> trim_space key \<or> key = [] then Some (SigningKeyUntrimmed key)
      else if key \<in> set seen then Some (SigningKeyDuplicate key)
      else signing_keys_loop (key # seen) keys)"

definition validate_signing_keys :: "policy_approver \<Rightarrow> policy_error option" where
  "validate_signing_keys approver =
     (case pa_SigningKeys approver of None \<Rightarrow> Some SigningKeysMissing | Some keys \<Rightarrow> signing_keys_loop [] keys)"

definition validate_approver :: "policy_approver \<Rightarrow> policy_error option" where
  "validate_approver approver =
     (if pa_ID approver \<le> 0 then Some ApproverIDInvalid
      else if trim_space (pa_Login approver) = [] \<or> trim_space (pa_Role approver) = [] then Some ApproverLabelsRequired
      else if pa_Type approver \<noteq> approver_type_user then Some ApproverTypeInvalid
      else if \<not> is_well_formed_login (pa_Login approver) then Some (LoginMalformed (pa_Login approver))
      else if is_non_human_login (pa_Login approver) then Some (LoginNotHuman (pa_Login approver))
      else validate_signing_keys approver)"

fun evidence_types_loop :: "string list \<Rightarrow> policy_error option" where
  "evidence_types_loop [] = None"
| "evidence_types_loop (t # ts) =
     (if t \<noteq> evidence_type_signed_commit then Some (EvidenceTypeMutable t) else evidence_types_loop ts)"

definition validate_evidence :: "policy_evidence \<Rightarrow> policy_error option" where
  "validate_evidence e = (if pe_AcceptedTypes e = [] then Some NoEvidenceType else evidence_types_loop (pe_AcceptedTypes e))"

definition validate_cadence :: "policy_cadence \<Rightarrow> policy_error option" where
  "validate_cadence c =
     (if pc_ReviewIntervalDays c \<le> 0 \<or> pc_HardSunsetDays c \<le> 0 then Some CadenceNotPositive
      else if pc_HardSunsetDays c < pc_ReviewIntervalDays c then Some SunsetBeforeReview
      else None)"

fun approvers_loop :: "nat \<Rightarrow> int list \<Rightarrow> policy_approver list \<Rightarrow> policy_error option" where
  "approvers_loop index seen [] = None"
| "approvers_loop index seen (approver # approvers) =
     (case validate_approver approver of
        Some e \<Rightarrow> Some (ApproverInvalid index e)
      | None \<Rightarrow>
          if pa_ID approver \<in> set seen then Some (DuplicateApprover index (pa_ID approver))
          else approvers_loop (Suc index) (pa_ID approver # seen) approvers)"

definition validate_policy :: "risk_policy \<Rightarrow> policy_error option" where
  "validate_policy p =
     (if rp_Version p \<noteq> supported_schema_version then Some UnsupportedVersion
      else if po_ID (rp_Organization p) \<le> 0 \<or> trim_space (po_Login (rp_Organization p)) = [] then Some OrganizationRequired
      else if rp_Approvers p = [] then Some NoApprover
      else (case approvers_loop 0 [] (rp_Approvers p) of
              Some e \<Rightarrow> Some e
            | None \<Rightarrow>
                (case validate_evidence (rp_Evidence p) of
                   Some e \<Rightarrow> Some e
                 | None \<Rightarrow> validate_cadence (rp_Cadence p))))"

text \<open>What the decoder finds after the first document.\<close>

datatype yaml_tail = EndOfStream | AnotherDocument | TailError string

definition require_single_document :: "yaml_tail \<Rightarrow> policy_error option" where
  "require_single_document tail =
     (case tail of EndOfStream \<Rightarrow> None | AnotherDocument \<Rightarrow> Some TrailingDocument | TailError e \<Rightarrow> Some (TrailingError e))"

definition decode_policy ::
  "(string \<Rightarrow> string + risk_policy \<times> yaml_tail) \<Rightarrow> string \<Rightarrow> policy_error + risk_policy" where
  "decode_policy yaml contents =
     (case yaml contents of
        Inl e \<Rightarrow> Inl (DecodeFailed e)
      | Inr (decoded, tail) \<Rightarrow>
          (case require_single_document tail of
             Some e \<Rightarrow> Inl e
           | None \<Rightarrow> (case validate_policy decoded of Some e \<Rightarrow> Inl e | None \<Rightarrow> Inr decoded)))"

fun approver_by_id :: "policy_approver list \<Rightarrow> int \<Rightarrow> policy_approver option" where
  "approver_by_id [] i = None"
| "approver_by_id (a # as) i = (if pa_ID a = i then Some a else approver_by_id as i)"

definition accepts_evidence_type :: "risk_policy \<Rightarrow> string \<Rightarrow> bool" where
  "accepts_evidence_type p v = list_ex (\<lambda>t. t = v) (pe_AcceptedTypes (rp_Evidence p))"

definition authorizes_signing_key :: "policy_approver \<Rightarrow> string \<Rightarrow> bool" where
  "authorizes_signing_key approver fingerprint =
     (if fingerprint = [] then False else list_ex (\<lambda>key. key = fingerprint) (signing_keys approver))"

section \<open>Facts\<close>

lemma login_rest_iff:
  "login_rest s \<longleftrightarrow> list_all (\<lambda>c. login_char c \<or> c = CHR ''-'') s \<and> \<not> sublist ''--'' s \<and> (s \<noteq> [] \<longrightarrow> last s \<noteq> CHR ''-'')"
proof (induction s rule: login_rest.induct)
  case (2 c s)
  have h: "\<not> login_char (CHR ''-'')" by code_simp
  show ?case
  proof (cases "c = CHR ''-''")
    case True
    then show ?thesis using 2 h by (cases s) (auto simp: sublist_Cons_right)
  next
    case False
    then show ?thesis using 2 by (auto simp: sublist_Cons_right)
  qed
qed simp

lemma login_pattern_iff:
  "login_pattern s \<longleftrightarrow> s \<noteq> [] \<and> list_all (\<lambda>c. login_char c \<or> c = CHR ''-'') s \<and> \<not> sublist ''--'' s \<and>
     hd s \<noteq> CHR ''-'' \<and> last s \<noteq> CHR ''-''"
proof -
  have h: "\<not> login_char (CHR ''-'')" by code_simp
  show ?thesis by (cases s) (use h in \<open>auto simp: login_pattern_def login_rest_iff sublist_Cons_right\<close>)
qed

lemma signing_keys_loop_None:
  "signing_keys_loop seen ks = None \<longleftrightarrow>
     (\<forall>k\<in>set ks. k = trim_space k \<and> k \<noteq> []) \<and> distinct ks \<and> set ks \<inter> set seen = {}"
  by (induction ks arbitrary: seen) auto

lemma evidence_types_loop_None: "evidence_types_loop ts = None \<longleftrightarrow> (\<forall>t\<in>set ts. t = evidence_type_signed_commit)"
  by (induction ts) auto

lemma approvers_loop_None:
  "approvers_loop index seen as = None \<longleftrightarrow>
     (\<forall>a\<in>set as. validate_approver a = None) \<and> distinct (map pa_ID as) \<and> pa_ID ` set as \<inter> set seen = {}"
  by (induction as arbitrary: index seen) (auto split: option.splits)

lemma approver_by_id_Some: "approver_by_id as i = Some a \<Longrightarrow> a \<in> set as \<and> pa_ID a = i"
  by (induction as) (auto split: if_splits)

lemma approver_by_id_distinct:
  "distinct (map pa_ID as) \<Longrightarrow> a \<in> set as \<Longrightarrow> approver_by_id as (pa_ID a) = Some a"
  by (induction as) auto

lemma validate_approver_None:
  "validate_approver a = None \<longleftrightarrow>
     0 < pa_ID a \<and> trim_space (pa_Login a) \<noteq> [] \<and> trim_space (pa_Role a) \<noteq> [] \<and> pa_Type a = approver_type_user \<and>
     is_human_approver_login (pa_Login a) \<and>
     (\<exists>ks. pa_SigningKeys a = Some ks \<and> distinct ks \<and> (\<forall>k\<in>set ks. k = trim_space k \<and> k \<noteq> []))"
  by (auto simp: validate_approver_def is_human_approver_login_def validate_signing_keys_def signing_keys_loop_None
      split: option.splits)

section \<open>Properties\<close>

text \<open>
  Property C13. The policy is decoded exactly when the document is the only one and every rule
  holds: its version is supported, its approvers are human users with distinct ids, well-formed
  logins and an explicit list of distinct keys, only signed commits are evidence, and the
  sunset is not before the first review.
\<close>

theorem decode_policy_iff:
  "decode_policy yaml contents = Inr p \<longleftrightarrow>
     yaml contents = Inr (p, EndOfStream) \<and> rp_Version p = 1 \<and>
     0 < po_ID (rp_Organization p) \<and> trim_space (po_Login (rp_Organization p)) \<noteq> [] \<and>
     rp_Approvers p \<noteq> [] \<and> distinct (map pa_ID (rp_Approvers p)) \<and>
     list_all (\<lambda>a. 0 < pa_ID a \<and> trim_space (pa_Login a) \<noteq> [] \<and> trim_space (pa_Role a) \<noteq> [] \<and> pa_Type a = ''User'' \<and>
       is_human_approver_login (pa_Login a) \<and>
       (\<exists>ks. pa_SigningKeys a = Some ks \<and> distinct ks \<and> list_all (\<lambda>k. k = trim_space k \<and> k \<noteq> []) ks))
       (rp_Approvers p) \<and>
     pe_AcceptedTypes (rp_Evidence p) \<noteq> [] \<and> list_all (\<lambda>t. t = ''signed-commit'') (pe_AcceptedTypes (rp_Evidence p)) \<and>
     0 < pc_ReviewIntervalDays (rp_Cadence p) \<and> pc_ReviewIntervalDays (rp_Cadence p) \<le> pc_HardSunsetDays (rp_Cadence p)"
proof -
  have "decode_policy yaml contents = Inr p \<longleftrightarrow> yaml contents = Inr (p, EndOfStream) \<and> validate_policy p = None"
    by (auto simp: decode_policy_def require_single_document_def split: sum.splits prod.splits option.splits yaml_tail.splits)
  moreover have "validate_policy p = None \<longleftrightarrow>
     rp_Version p = 1 \<and> 0 < po_ID (rp_Organization p) \<and> trim_space (po_Login (rp_Organization p)) \<noteq> [] \<and>
     rp_Approvers p \<noteq> [] \<and> approvers_loop 0 [] (rp_Approvers p) = None \<and>
     validate_evidence (rp_Evidence p) = None \<and> validate_cadence (rp_Cadence p) = None"
    by (auto simp: validate_policy_def supported_schema_version_def split: option.splits)
  moreover have "validate_cadence (rp_Cadence p) = None \<longleftrightarrow>
     0 < pc_ReviewIntervalDays (rp_Cadence p) \<and> pc_ReviewIntervalDays (rp_Cadence p) \<le> pc_HardSunsetDays (rp_Cadence p)"
    by (auto simp: validate_cadence_def)
  ultimately show ?thesis
    by (simp add: approvers_loop_None validate_approver_None validate_evidence_def evidence_types_loop_None list_all_iff
        approver_type_user_def evidence_type_signed_commit_def ball_conj_distrib conj_ac)
qed

text \<open>
  A login is well formed exactly when it has at most 39 characters, all of them
  letters, digits or hyphens, and no hyphen stands first, last or beside another.
\<close>

theorem well_formed_login_iff:
  "is_well_formed_login s \<longleftrightarrow>
     s \<noteq> [] \<and> length s \<le> 39 \<and> list_all (\<lambda>c. login_char c \<or> c = CHR ''-'') s \<and>
     \<not> contains s ''--'' \<and> hd s \<noteq> CHR ''-'' \<and> last s \<noteq> CHR ''-''"
  by (auto simp: is_well_formed_login_def login_pattern_iff contains_def)

end
