(* ===== verification/RiskRegistry.thy ===== *)
theory RiskRegistry
  imports RiskPolicy GoTime
begin

text \<open>
  The accepted-risk registry (\<open>security/internal/acceptedrisk/registry.go\<close>): from the decoded
  YAML records to canonical records with parsed dates, and the dates the cadence derives.
\<close>

section \<open>Records\<close>

record registry_approver =
  ra_ID :: int
  ra_Login :: string

record registry_evidence =
  re_Type :: string
  re_SHA :: string

record registry_yaml =
  ry_ID :: string
  ry_Rule :: string
  ry_Path :: string
  ry_Symbol :: string
  ry_Threat :: string
  ry_CompensatingControl :: string
  ry_Owner :: string
  ry_Approver :: registry_approver
  ry_CreatedAt :: string
  ry_LastReviewedAt :: string
  ry_Evidence :: registry_evidence
  ry_TestEvidence :: string

record risk_record =
  rr_ID :: string
  rr_Rule :: string
  rr_Path :: string
  rr_Symbol :: string
  rr_Threat :: string
  rr_CompensatingControl :: string
  rr_Owner :: string
  rr_Approver :: registry_approver
  rr_CreatedAt :: int
  rr_LastReviewedAt :: int
  rr_Evidence :: registry_evidence
  rr_TestEvidence :: string

record risk_registry =
  rg_Version :: int
  rg_Records :: "registry_yaml list option"

datatype registry_error =
    RegistryDecodeFailed string | RegistryTail policy_error | RegistryVersion | RecordsMissing
  | RecordInvalid nat registry_error | DuplicateIdentifier nat string
  | IdentifierInvalid string | RuleInvalid string | ApproverRequired
  | PathUntrimmed | PathControl | PathAbsolute | PathSegment | PathNotGo
  | FieldRequired string | CreatedAtInvalid | LastReviewedAtInvalid | ReviewedBeforeCreated | YearMismatch int int

section \<open>Identifiers\<close>

text \<open>The year of an identifier \<open>AR-20dd-ddd\<close>.\<close>

definition risk_id_year :: "string \<Rightarrow> int option" where
  "risk_id_year s =
     (case s of
        [a, r, h1, y1, y2, y3, y4, h2, n1, n2, n3] \<Rightarrow>
          if [a, r, h1, y1, y2] = ''AR-20'' \<and> h2 = CHR ''-'' \<and> list_all is_digit [y3, y4, n1, n2, n3]
          then Some (number_of [y1, y2, y3, y4]) else None
      | _ \<Rightarrow> None)"

definition gosec_rule :: "string \<Rightarrow> bool" where
  "gosec_rule s = (case s of [g, d1, d2, d3] \<Rightarrow> g = CHR ''G'' \<and> list_all is_digit [d1, d2, d3] | _ \<Rightarrow> False)"

definition lower_hex :: "char \<Rightarrow> bool" where
  "lower_hex c \<longleftrightarrow> is_digit c \<or> (97 \<le> (of_char c :: nat) \<and> (of_char c :: nat) \<le> 102)"

definition commit_sha :: "string \<Rightarrow> bool" where
  "commit_sha s \<longleftrightarrow> length s = 40 \<and> list_all lower_hex s"

definition pending_approval_sentinel :: string where
  "pending_approval_sentinel = ''pending-owner-approval''"

definition validate_identity :: "registry_yaml \<Rightarrow> registry_error + int" where
  "validate_identity entry =
     (case risk_id_year (ry_ID entry) of
        None \<Rightarrow> Inl (IdentifierInvalid (ry_ID entry))
      | Some year \<Rightarrow>
          if \<not> gosec_rule (ry_Rule entry) then Inl (RuleInvalid (ry_Rule entry))
          else if ra_ID (ry_Approver entry) \<le> 0 \<or> trim_space (ra_Login (ry_Approver entry)) = [] then Inl ApproverRequired
          else Inr year)"

section \<open>Paths\<close>

text \<open>A control rune in UTF-8: an ASCII control byte, or one of U+0080 to U+009F in two bytes.\<close>

fun has_control :: "string \<Rightarrow> bool" where
  "has_control [] = False"
| "has_control (c # s) =
     (let n = (of_char c :: nat) in n < 32 \<or> n = 127 \<or>
        (n = 194 \<and> s \<noteq> [] \<and> 128 \<le> (of_char (hd s) :: nat) \<and> (of_char (hd s) :: nat) \<le> 159) \<or> has_control s)"

definition is_windows_drive_path :: "string \<Rightarrow> bool" where
  "is_windows_drive_path v \<longleftrightarrow> 2 \<le> length v \<and> v ! 1 = CHR '':'' \<and>
     ((97 \<le> (of_char (v ! 0) :: nat) \<and> (of_char (v ! 0) :: nat) \<le> 122) \<or>
      (65 \<le> (of_char (v ! 0) :: nat) \<and> (of_char (v ! 0) :: nat) \<le> 90))"

definition canonical_source_path :: "string \<Rightarrow> registry_error + string" where
  "canonical_source_path v =
     (if v \<noteq> trim_space v \<or> v = [] then Inl PathUntrimmed
      else if CHR 0x5C \<in> set v \<or> has_control v then Inl PathControl
      else if prefix ''/'' v \<or> prefix ''//'' v \<or> is_windows_drive_path v then Inl PathAbsolute
      else if list_ex (\<lambda>segment. segment = [] \<or> segment = ''.'' \<or> segment = ''..'') (split_on (CHR ''/'') v) then Inl PathSegment
      else if \<not> suffix ''.go'' v then Inl PathNotGo
      else Inr v)"

section \<open>Canonical records\<close>

definition sorted_keys :: "(string, string) gomap \<Rightarrow> string list" where
  "sorted_keys m = sort (gm_keys m)"

definition required_fields :: "registry_yaml \<Rightarrow> (string, string) gomap" where
  "required_fields entry =
     [(''symbol'', ry_Symbol entry), (''threat'', ry_Threat entry), (''compensating_control'', ry_CompensatingControl entry),
      (''owner'', ry_Owner entry), (''test_evidence'', ry_TestEvidence entry),
      (''evidence.type'', re_Type (ry_Evidence entry)), (''evidence.sha'', re_SHA (ry_Evidence entry))]"

definition validate_narrative :: "registry_yaml \<Rightarrow> registry_error option" where
  "validate_narrative entry =
     map_option FieldRequired
       (List.find (\<lambda>field. trim_space (gm_at [] (required_fields entry) field) = []) (sorted_keys (required_fields entry)))"

definition canonical :: "registry_yaml \<Rightarrow> registry_error + risk_record" where
  "canonical entry =
     (case validate_identity entry of
        Inl e \<Rightarrow> Inl e
      | Inr createdYear \<Rightarrow>
     (case canonical_source_path (ry_Path entry) of
        Inl e \<Rightarrow> Inl e
      | Inr canonicalPath \<Rightarrow>
     (case validate_narrative entry of
        Some e \<Rightarrow> Inl e
      | None \<Rightarrow>
     (case parse_date (ry_CreatedAt entry) of
        None \<Rightarrow> Inl CreatedAtInvalid
      | Some (createdAt, year) \<Rightarrow>
     (case parse_date (ry_LastReviewedAt entry) of
        None \<Rightarrow> Inl LastReviewedAtInvalid
      | Some (lastReviewedAt, _) \<Rightarrow>
          if lastReviewedAt < createdAt then Inl ReviewedBeforeCreated
          else if year \<noteq> createdYear then Inl (YearMismatch createdYear year)
          else Inr \<lparr>rr_ID = ry_ID entry, rr_Rule = ry_Rule entry, rr_Path = canonicalPath,
                 rr_Symbol = trim_space (ry_Symbol entry), rr_Threat = trim_space (ry_Threat entry),
                 rr_CompensatingControl = trim_space (ry_CompensatingControl entry), rr_Owner = trim_space (ry_Owner entry),
                 rr_Approver = ry_Approver entry, rr_CreatedAt = createdAt, rr_LastReviewedAt = lastReviewedAt,
                 rr_Evidence = \<lparr>re_Type = trim_space (re_Type (ry_Evidence entry)), re_SHA = trim_space (re_SHA (ry_Evidence entry))\<rparr>,
                 rr_TestEvidence = trim_space (ry_TestEvidence entry)\<rparr>)))))"

fun registry_loop :: "nat \<Rightarrow> string list \<Rightarrow> registry_yaml list \<Rightarrow> risk_record list \<Rightarrow> registry_error + risk_record list" where
  "registry_loop index seen [] records = Inr records"
| "registry_loop index seen (entry # entries) records =
     (case canonical entry of
        Inl e \<Rightarrow> Inl (RecordInvalid index e)
      | Inr r \<Rightarrow>
          if rr_ID r \<in> set seen then Inl (DuplicateIdentifier index (rr_ID r))
          else registry_loop (Suc index) (rr_ID r # seen) entries (records @ [r]))"

definition decode_registry ::
  "(string \<Rightarrow> string + risk_registry \<times> yaml_tail) \<Rightarrow> string \<Rightarrow> registry_error + risk_record list" where
  "decode_registry yaml contents =
     (case yaml contents of
        Inl e \<Rightarrow> Inl (RegistryDecodeFailed e)
      | Inr (decoded, tail) \<Rightarrow>
          (case require_single_document tail of
             Some e \<Rightarrow> Inl (RegistryTail e)
           | None \<Rightarrow>
               if rg_Version decoded \<noteq> supported_schema_version then Inl RegistryVersion
               else (case rg_Records decoded of
                       None \<Rightarrow> Inl RecordsMissing
                     | Some entries \<Rightarrow> registry_loop 0 [] entries [])))"

definition review_by :: "policy_cadence \<Rightarrow> risk_record \<Rightarrow> int" where
  "review_by cadence r = add_days (rr_LastReviewedAt r) (pc_ReviewIntervalDays cadence)"

definition hard_sunset :: "policy_cadence \<Rightarrow> risk_record \<Rightarrow> int" where
  "hard_sunset cadence r = add_days (rr_CreatedAt r) (pc_HardSunsetDays cadence)"

section \<open>Facts\<close>

lemma registry_loop_Inr:
  "registry_loop index seen entries records = Inr out \<Longrightarrow>
     \<exists>rs. out = records @ rs \<and> list_all2 (\<lambda>e r. canonical e = Inr r) entries rs \<and>
       distinct (map rr_ID rs) \<and> rr_ID ` set rs \<inter> set seen = {}"
proof (induction entries arbitrary: index seen records)
  case (Cons e es)
  then obtain r where r: "canonical e = Inr r" "rr_ID r \<notin> set seen"
    and rest: "registry_loop (Suc index) (rr_ID r # seen) es (records @ [r]) = Inr out"
    by (auto split: sum.splits if_splits)
  from Cons.IH [OF rest] obtain rs where "out = (records @ [r]) @ rs" "list_all2 (\<lambda>e r. canonical e = Inr r) es rs"
    "distinct (map rr_ID rs)" "rr_ID ` set rs \<inter> set (rr_ID r # seen) = {}" by blast
  then show ?case using r by (intro exI [of _ "r # rs"]) auto
qed simp

lemma canonical_source_path_Inr:
  assumes "canonical_source_path v = Inr p"
  shows "p = v \<and> path_clean v = v \<and> \<not> prefix ''/'' v \<and> suffix ''.go'' v \<and> CHR 0x5C \<notin> set v \<and> \<not> has_control v \<and>
    ''..'' \<notin> set (split_on (CHR ''/'') v)"
proof -
  have v: "p = v" "v \<noteq> []" "CHR 0x5C \<notin> set v" "\<not> has_control v" "\<not> prefix ''/'' v" "suffix ''.go'' v"
    and segs: "list_all (\<lambda>s. s \<noteq> [] \<and> s \<noteq> ''.'' \<and> s \<noteq> ''..'') (split_on (CHR ''/'') v)"
    using assms by (auto simp: canonical_source_path_def list_all_iff list_ex_iff split: if_splits)
  have "hd v \<noteq> CHR ''/''" using v(2,5) by (cases v) auto
  then have "path_clean v = v" using v(2) clean_elements_plain [OF segs] by (simp add: path_clean_def Let_def join_split_on)
  moreover have "''..'' \<notin> set (split_on (CHR ''/'') v)" using segs by (auto simp: list_all_iff)
  ultimately show ?thesis using v by simp
qed

lemma canonical_Inr:
  assumes "canonical e = Inr r"
  shows "rr_ID r = ry_ID e \<and> rr_Rule r = ry_Rule e \<and> gosec_rule (rr_Rule r) \<and>
    canonical_source_path (ry_Path e) = Inr (rr_Path r) \<and> rr_Approver r = ry_Approver e \<and> 0 < ra_ID (rr_Approver r) \<and>
    rr_CreatedAt r \<le> rr_LastReviewedAt r \<and>
    (\<exists>y. risk_id_year (rr_ID r) = Some y \<and> parse_date (ry_CreatedAt e) = Some (rr_CreatedAt r, y)) \<and>
    (\<exists>z. parse_date (ry_LastReviewedAt e) = Some (rr_LastReviewedAt r, z))"
  using assms
  by (auto simp: canonical_def validate_identity_def split: sum.splits option.splits if_splits prod.splits)

lemma validate_narrative_None:
  "validate_narrative e = None \<longleftrightarrow> (\<forall>f\<in>set (gm_keys (required_fields e)). trim_space (gm_at [] (required_fields e) f) \<noteq> [])"
  by (auto simp: validate_narrative_def find_None_iff sorted_keys_def)

lemma canonical_narrative:
  assumes "canonical e = Inr r"
  shows "rr_Symbol r \<noteq> [] \<and> rr_Threat r \<noteq> [] \<and> rr_CompensatingControl r \<noteq> [] \<and> rr_Owner r \<noteq> [] \<and> rr_TestEvidence r \<noteq> [] \<and>
    re_Type (rr_Evidence r) \<noteq> [] \<and> re_SHA (rr_Evidence r) \<noteq> []"
proof -
  have n: "validate_narrative e = None"
    and f: "rr_Symbol r = trim_space (ry_Symbol e)" "rr_Threat r = trim_space (ry_Threat e)"
      "rr_CompensatingControl r = trim_space (ry_CompensatingControl e)" "rr_Owner r = trim_space (ry_Owner e)"
      "rr_TestEvidence r = trim_space (ry_TestEvidence e)" "re_Type (rr_Evidence r) = trim_space (re_Type (ry_Evidence e))"
      "re_SHA (rr_Evidence r) = trim_space (re_SHA (ry_Evidence e))"
    using assms by (auto simp: canonical_def split: sum.splits option.splits if_splits prod.splits)
  show ?thesis using n unfolding f validate_narrative_None by (simp add: required_fields_def gm_at_def gm_keys_def)
qed

section \<open>Properties\<close>

text \<open>
  Property C14. A decoded registry has one canonical record per entry, in order, with distinct
  identifiers; every record names a gosec rule and a clean relative path of a Go file, tells
  all of its justification, was not reviewed before it was created, and was created in the
  year of its identifier.
\<close>

theorem decode_registry_records:
  assumes "decode_registry yaml contents = Inr records"
  shows "distinct (map rr_ID records) \<and>
    (\<exists>entries. yaml contents = Inr (\<lparr>rg_Version = 1, rg_Records = Some entries\<rparr>, EndOfStream) \<and>
       list_all2 (\<lambda>e r. canonical e = Inr r) entries records \<and> map ry_ID entries = map rr_ID records) \<and>
    list_all (\<lambda>r. gosec_rule (rr_Rule r) \<and> path_clean (rr_Path r) = rr_Path r \<and> \<not> prefix ''/'' (rr_Path r) \<and>
      suffix ''.go'' (rr_Path r) \<and> ''..'' \<notin> set (split_on (CHR ''/'') (rr_Path r)) \<and>
      rr_Threat r \<noteq> [] \<and> rr_CompensatingControl r \<noteq> [] \<and> rr_Owner r \<noteq> [] \<and> rr_TestEvidence r \<noteq> [] \<and>
      rr_CreatedAt r \<le> rr_LastReviewedAt r \<and>
      (\<exists>text y. risk_id_year (rr_ID r) = Some y \<and> parse_date text = Some (rr_CreatedAt r, y))) records"
proof -
  obtain decoded entries where d: "yaml contents = Inr (decoded, EndOfStream)" "rg_Version decoded = 1"
      "rg_Records decoded = Some entries" "registry_loop 0 [] entries [] = Inr records"
    using assms by (auto simp: decode_registry_def require_single_document_def supported_schema_version_def
        split: sum.splits prod.splits option.splits yaml_tail.splits if_splits)
  have m: "list_all2 (\<lambda>e r. canonical e = Inr r) entries records" "distinct (map rr_ID records)"
    using registry_loop_Inr [OF d(4)] by auto
  have ids: "map ry_ID entries = map rr_ID records"
    using m(1) by (induction rule: list_all2_induct) (auto dest: canonical_Inr)
  have ex: "list_all (\<lambda>r. \<exists>e. canonical e = Inr r) records"
    using m(1) by (induction rule: list_all2_induct) auto
  have one: "gosec_rule (rr_Rule r) \<and> path_clean (rr_Path r) = rr_Path r \<and> \<not> prefix ''/'' (rr_Path r) \<and>
      suffix ''.go'' (rr_Path r) \<and> ''..'' \<notin> set (split_on (CHR ''/'') (rr_Path r)) \<and>
      rr_Threat r \<noteq> [] \<and> rr_CompensatingControl r \<noteq> [] \<and> rr_Owner r \<noteq> [] \<and> rr_TestEvidence r \<noteq> [] \<and>
      rr_CreatedAt r \<le> rr_LastReviewedAt r \<and>
      (\<exists>text y. risk_id_year (rr_ID r) = Some y \<and> parse_date text = Some (rr_CreatedAt r, y))" if "canonical e = Inr r" for e r
    using canonical_Inr [OF that] canonical_narrative [OF that] canonical_source_path_Inr [of "ry_Path e" "rr_Path r"] by auto
  then have "list_all (\<lambda>r. gosec_rule (rr_Rule r) \<and> path_clean (rr_Path r) = rr_Path r \<and> \<not> prefix ''/'' (rr_Path r) \<and>
      suffix ''.go'' (rr_Path r) \<and> ''..'' \<notin> set (split_on (CHR ''/'') (rr_Path r)) \<and>
      rr_Threat r \<noteq> [] \<and> rr_CompensatingControl r \<noteq> [] \<and> rr_Owner r \<noteq> [] \<and> rr_TestEvidence r \<noteq> [] \<and>
      rr_CreatedAt r \<le> rr_LastReviewedAt r \<and>
      (\<exists>text y. risk_id_year (rr_ID r) = Some y \<and> parse_date text = Some (rr_CreatedAt r, y))) records"
    using ex by (auto simp only: list_all_iff)
  moreover have "decoded = \<lparr>rg_Version = 1, rg_Records = Some entries\<rparr>" using d(2,3) by (cases decoded) simp
  ultimately show ?thesis using d m ids by blast
qed

definition sample_entry :: registry_yaml where
  "sample_entry = \<lparr>ry_ID = ''AR-2026-001'', ry_Rule = ''G304'', ry_Path = ''cmd/a.go'', ry_Symbol = ''Load'', ry_Threat = ''t'',
     ry_CompensatingControl = ''c'', ry_Owner = ''o'', ry_Approver = \<lparr>ra_ID = 7, ra_Login = ''octo''\<rparr>,
     ry_CreatedAt = ''2026-01-10'', ry_LastReviewedAt = ''2026-03-01'',
     ry_Evidence = \<lparr>re_Type = ''signed-commit'', re_SHA = replicate 40 (CHR ''a'')\<rparr>, ry_TestEvidence = ''T''\<rparr>"

theorem decode_registry_records_witness:
  "\<exists>records. decode_registry (\<lambda>_. Inr (\<lparr>rg_Version = 1, rg_Records = Some [sample_entry]\<rparr>, EndOfStream)) [] = Inr records \<and>
     map rr_ID records = [''AR-2026-001''] \<and> distinct (map rr_ID records)"
proof -
  have "map_sum id rr_ID (canonical sample_entry) = Inr ''AR-2026-001''" by code_simp
  then obtain r where c: "canonical sample_entry = Inr r" "rr_ID r = ''AR-2026-001''" by (rule map_sum_InrE)
  then obtain records where r: "decode_registry (\<lambda>_. Inr (\<lparr>rg_Version = 1, rg_Records = Some [sample_entry]\<rparr>, EndOfStream)) [] = Inr records"
      "map rr_ID records = [''AR-2026-001'']"
    by (simp add: decode_registry_def require_single_document_def supported_schema_version_def)
  have "distinct (map rr_ID records)" using decode_registry_records [OF r(1)] by (rule conjunct1)
  then show ?thesis using r by (intro exI [of _ records] conjI)
qed

end
