(* ===== verification/RiskValidate.thy ===== *)
theory RiskValidate
  imports RiskRegistry "HOL-Library.Multiset"
begin

text \<open>
  The validation of the accepted-risk registry (\<open>security/internal/acceptedrisk/validate.go\<close>):
  every record approved by a signed commit and inside its cadence, every suppression in the
  source matched with exactly one record. The commit verifier is a parameter, a function from
  commit ids to what it could prove or the text of its error.
\<close>

section \<open>Violations and inputs\<close>

record verified_commit =
  vc_SHA :: string
  vc_Verified :: bool
  vc_VerifiedSignerKey :: string
  vc_VerifiedSignerAccountID :: int
  vc_Message :: string

type_synonym commit_verifier = "string \<Rightarrow> string + verified_commit"

record suppression =
  sp_Path :: string
  sp_Line :: int
  sp_Rule :: string
  sp_RiskID :: string
  sp_Reason :: string
  sp_Raw :: string
  sp_Blanket :: bool
  sp_Unscanned :: bool

record violation =
  vi_Code :: string
  vi_Subject :: string
  vi_Detail :: string

record validation_input =
  in_Policy :: "risk_policy option"
  in_Records :: "risk_record list option"
  in_Suppressions :: "suppression list option"
  in_Verifier :: "commit_verifier option"
  in_Now :: int

datatype input_error = PolicyRequired | RecordsRequired | SuppressionsRequired | VerifierRequired | TimeRequired

definition validate_input :: "validation_input \<Rightarrow> input_error option" where
  "validate_input i =
     (if in_Policy i = None then Some PolicyRequired
      else if in_Records i = None then Some RecordsRequired
      else if in_Suppressions i = None then Some SuppressionsRequired
      else (case in_Verifier i of
              None \<Rightarrow> Some VerifierRequired
            | Some _ \<Rightarrow> if in_Now i = zero_time then Some TimeRequired else None))"

definition risk_violation :: "string \<Rightarrow> string \<Rightarrow> string \<Rightarrow> violation" where
  "risk_violation code subject detail = \<lparr>vi_Code = code, vi_Subject = subject, vi_Detail = detail\<rparr>"

text \<open>The verb \<open>%q\<close> on ASCII text.\<close>

definition hex_char :: "nat \<Rightarrow> char" where
  "hex_char n = (if n < 10 then char_of (48 + n) else char_of (87 + n))"

definition quote_char :: "char \<Rightarrow> string" where
  "quote_char c =
     (let n = (of_char c :: nat) in
      if n = 34 then [CHR 0x5C, CHR 0x22]
      else if n = 92 then [CHR 0x5C, CHR 0x5C]
      else if n = 7 then [CHR 0x5C, CHR ''a'']
      else if n = 8 then [CHR 0x5C, CHR ''b'']
      else if n = 12 then [CHR 0x5C, CHR ''f'']
      else if n = 10 then [CHR 0x5C, CHR ''n'']
      else if n = 13 then [CHR 0x5C, CHR ''r'']
      else if n = 9 then [CHR 0x5C, CHR ''t'']
      else if n = 11 then [CHR 0x5C, CHR ''v'']
      else if n < 32 \<or> n = 127 then [CHR 0x5C, CHR ''x'', hex_char (n div 16), hex_char (n mod 16)]
      else [c])"

definition quoted :: "string \<Rightarrow> string" where
  "quoted s = [CHR 0x22] @ concat (map quote_char s) @ [CHR 0x22]"

section \<open>Approval\<close>

text \<open>The identifier stands in the message with no letter or digit beside it.\<close>

fun mentions_from :: "bool \<Rightarrow> string \<Rightarrow> string \<Rightarrow> bool" where
  "mentions_from boundary riskID [] =
     (boundary \<and> riskID = [])"
| "mentions_from boundary riskID (c # s) =
     ((boundary \<and> prefix riskID (c # s) \<and>
         (case drop (length riskID) (c # s) of [] \<Rightarrow> True | d # _ \<Rightarrow> \<not> login_char d)) \<or>
      mentions_from (\<not> login_char c) riskID s)"

definition mentions_risk_id :: "string \<Rightarrow> string \<Rightarrow> bool" where
  "mentions_risk_id message riskID = mentions_from True riskID message"

definition signer_violations :: "policy_approver \<Rightarrow> risk_record \<Rightarrow> verified_commit \<Rightarrow> violation list" where
  "signer_violations approver entry verified =
     (if signing_keys approver = [] then
        [risk_violation ''approval-signer-not-authorized'' (rr_ID entry)
           (''no signing key is registered for approver id '' @ show_int (pa_ID approver) @ '', so no signature can satisfy this approval'')]
      else if vc_VerifiedSignerKey verified = [] then
        [risk_violation ''approval-signer-not-authorized'' (rr_ID entry)
           ''the verifier did not establish which key signed the approval commit'']
      else if \<not> authorizes_signing_key approver (vc_VerifiedSignerKey verified) then
        [risk_violation ''approval-signer-not-authorized'' (rr_ID entry)
           (''approval commit was signed with key '' @ quoted (vc_VerifiedSignerKey verified) @
            '', which is not registered to approver id '' @ show_int (pa_ID approver))]
      else if vc_VerifiedSignerAccountID verified \<noteq> 0 \<and> vc_VerifiedSignerAccountID verified \<noteq> pa_ID approver then
        [risk_violation ''approval-signer-not-authorized'' (rr_ID entry)
           (''approval commit was signed by account id '' @ show_int (vc_VerifiedSignerAccountID verified) @
            '', not by approver id '' @ show_int (pa_ID approver))]
      else [])"

definition scope_violations :: "risk_record \<Rightarrow> verified_commit \<Rightarrow> violation list" where
  "scope_violations entry verified =
     (if trim_space (vc_Message verified) = [] then
        [risk_violation ''approval-commit-scope-mismatch'' (rr_ID entry)
           ''the verifier did not report the approval commit message, so the approval scope cannot be established'']
      else if \<not> mentions_risk_id (vc_Message verified) (rr_ID entry) then
        [risk_violation ''approval-commit-scope-mismatch'' (rr_ID entry)
           (''approval commit '' @ vc_SHA verified @ '' does not name '' @ rr_ID entry @ '' in its message'')]
      else [])"

definition evidence_violations ::
  "risk_policy \<Rightarrow> policy_approver \<Rightarrow> risk_record \<Rightarrow> commit_verifier \<Rightarrow> violation list" where
  "evidence_violations current approver entry verifier =
     (if \<not> accepts_evidence_type current (re_Type (rr_Evidence entry)) then
        [risk_violation ''approval-evidence-type-unsupported'' (rr_ID entry)
           (''evidence type '' @ quoted (re_Type (rr_Evidence entry)) @ '' is not an accepted immutable approval format'')]
      else if re_SHA (rr_Evidence entry) = pending_approval_sentinel then
        [risk_violation ''approval-evidence-pending'' (rr_ID entry)
           ''approval evidence is the explicit pending sentinel; the policy owner has not approved this accepted risk'']
      else if \<not> commit_sha (re_SHA (rr_Evidence entry)) then
        [risk_violation ''approval-evidence-sha-malformed'' (rr_ID entry)
           ''approval evidence sha must be a full 40-character lowercase hex commit id'']
      else (case verifier (re_SHA (rr_Evidence entry)) of
              Inl err \<Rightarrow>
                [risk_violation ''approval-evidence-unverified'' (rr_ID entry)
                   (''approval commit signature could not be verified: '' @ err)]
            | Inr verified \<Rightarrow>
                if \<not> vc_Verified verified \<or> vc_SHA verified \<noteq> re_SHA (rr_Evidence entry) then
                  [risk_violation ''approval-evidence-unverified'' (rr_ID entry)
                     ''approval commit signature did not verify for the recorded commit'']
                else (let unauthorized = signer_violations approver entry verified in
                      if unauthorized \<noteq> [] then unauthorized else scope_violations entry verified)))"

definition approval_violations :: "risk_policy \<Rightarrow> risk_record \<Rightarrow> commit_verifier \<Rightarrow> violation list" where
  "approval_violations current entry verifier =
     (case approver_by_id (rp_Approvers current) (ra_ID (rr_Approver entry)) of
        None \<Rightarrow>
          [risk_violation ''approver-not-in-policy'' (rr_ID entry)
             (''approver id '' @ show_int (ra_ID (rr_Approver entry)) @ '' is not declared in the trusted-base security policy'')]
      | Some approver \<Rightarrow>
          (if pa_Type approver \<noteq> approver_type_user \<or> \<not> is_human_approver_login (pa_Login approver) \<or>
              \<not> is_human_approver_login (ra_Login (rr_Approver entry)) then
             [risk_violation ''approver-not-human'' (rr_ID entry)
                (''approver id '' @ show_int (ra_ID (rr_Approver entry)) @
                 '' does not resolve to a human authority with a well-formed login'')] else []) @
          (if pa_Login approver \<noteq> ra_Login (rr_Approver entry) then
             [risk_violation ''approver-login-mismatch'' (rr_ID entry)
                (''registry login '' @ quoted (ra_Login (rr_Approver entry)) @ '' does not match policy login '' @
                 quoted (pa_Login approver) @ '' for id '' @ show_int (pa_ID approver))] else []) @
          evidence_violations current approver entry verifier)"

section \<open>Cadence\<close>

definition cadence_violations :: "policy_cadence \<Rightarrow> risk_record \<Rightarrow> int \<Rightarrow> violation list" where
  "cadence_violations cadence entry now =
     (let sunset = hard_sunset cadence entry in
      concat (map (\<lambda>(field, t). if now < t then
            [risk_violation ''record-date-in-future'' (rr_ID entry)
               (field @ '' '' @ format_date t @ '' is later than the evaluation date '' @ format_date now)] else [])
          [(''created_at'', rr_CreatedAt entry), (''last_reviewed_at'', rr_LastReviewedAt entry)]) @
      (if review_by cadence entry < now then
         [risk_violation ''review-overdue'' (rr_ID entry) (''review was due '' @ format_date (review_by cadence entry))] else []) @
      (if sunset < now then
         [risk_violation ''hard-sunset-expired'' (rr_ID entry)
            (''hard sunset passed '' @ format_date sunset @ ''; a new risk analysis, approval and identifier are required'')]
       else []) @
      (if sunset < rr_LastReviewedAt entry then
         [risk_violation ''renewal-after-hard-sunset'' (rr_ID entry)
            (''last_reviewed_at '' @ format_date (rr_LastReviewedAt entry) @ '' renews an identifier past its '' @
             format_date sunset @ '' hard sunset'')] else []))"

section \<open>Linkage\<close>

definition directive_prefix :: string where "directive_prefix = ''//gosec:disable''"

definition location :: "suppression \<Rightarrow> string" where
  "location s = sp_Path s @ '':'' @ show_int (sp_Line s)"

text \<open>One round of the loop over the suppressions: the references counted and the violations found.\<close>

definition suppression_step ::
  "(string, risk_record) gomap \<Rightarrow> (string, int) gomap \<times> violation list \<Rightarrow> suppression \<Rightarrow> (string, int) gomap \<times> violation list" where
  "suppression_step byID st s =
     (case st of (linkage, violations) \<Rightarrow>
        if sp_Unscanned s then
          (linkage, violations @ [risk_violation ''suppression-unscanned-file'' (location s)
             (quoted (sp_Raw s) @ '' sits in a file the pinned scan never loads, because its build constraint requires a tag the pinned flags do not set; it suppresses nothing and must be removed rather than registered'')])
        else if sp_Blanket s then
          (linkage, violations @ [risk_violation ''suppression-blanket-form'' (location s)
             (quoted (sp_Raw s) @ '' is gosec'' @ [CHR 0x27] @ ''s blanket suppression form, which names no accepted-risk record and can never be registered; replace it with a '' @
              directive_prefix @ '' directive'')])
        else if sp_RiskID s = [] then
          (linkage, violations @ [risk_violation ''suppression-malformed'' (location s)
             (''directive '' @ quoted (sp_Raw s) @ '' is not of the form //gosec:disable Gxxx -- AR-YYYY-NNN <reason>'')])
        else
          (let linkage' = gm_put (sp_RiskID s) (gm_at 0 linkage (sp_RiskID s) + 1) linkage in
           case gm_get byID (sp_RiskID s) of
             None \<Rightarrow>
               (linkage', violations @ [risk_violation ''suppression-unregistered'' (location s)
                  (sp_RiskID s @ '' has no accepted-risk record'')])
           | Some entry \<Rightarrow>
               (linkage', violations @
                  (if rr_Rule entry \<noteq> sp_Rule s then
                     [risk_violation ''suppression-rule-mismatch'' (location s)
                        (rr_ID entry @ '' covers rule '' @ rr_Rule entry @ '', not '' @ sp_Rule s)] else []) @
                  (if rr_Path entry \<noteq> sp_Path s then
                     [risk_violation ''suppression-path-mismatch'' (location s)
                        (rr_ID entry @ '' covers '' @ rr_Path entry @ '', not '' @ sp_Path s)] else []))))"

definition sorted_counts :: "(string, int) gomap \<Rightarrow> string list" where
  "sorted_counts m = sort (gm_keys m)"

definition suppression_violations ::
  "suppression list \<Rightarrow> (string, risk_record) gomap \<Rightarrow> (string, int) gomap \<times> violation list" where
  "suppression_violations suppressions byID =
     (case foldl (suppression_step byID) ([], []) suppressions of (linkage, violations) \<Rightarrow>
        (linkage, violations @ concat (map (\<lambda>i. if 1 < gm_at 0 linkage i then
            [risk_violation ''suppression-duplicate-reference'' i
               (show_int (gm_at 0 linkage i) @ '' suppressions reference one accepted-risk record; each record covers exactly one site'')]
            else []) (sorted_counts linkage))))"

section \<open>The registry\<close>

definition violation_key :: "violation \<Rightarrow> string" where
  "violation_key v = join [CHR 0x00] [vi_Code v, vi_Subject v, vi_Detail v]"

definition sort_violations :: "violation list \<Rightarrow> violation list" where
  "sort_violations vs = sort_key violation_key vs"

definition records_by_id :: "risk_record list \<Rightarrow> (string, risk_record) gomap" where
  "records_by_id records = foldl (\<lambda>m r. gm_put (rr_ID r) r m) [] records"

definition record_violations :: "risk_policy \<Rightarrow> commit_verifier \<Rightarrow> int \<Rightarrow> risk_record \<Rightarrow> violation list" where
  "record_violations pol verifier now r =
     approval_violations pol r verifier @ cadence_violations (rp_Cadence pol) r now"

definition registry_violations ::
  "risk_policy \<Rightarrow> risk_record list \<Rightarrow> suppression list \<Rightarrow> commit_verifier \<Rightarrow> int \<Rightarrow> violation list" where
  "registry_violations pol records suppressions verifier now =
     (let violations = concat (map (record_violations pol verifier now) records);
          linked = suppression_violations suppressions (records_by_id records)
      in violations @ snd linked @
         concat (map (\<lambda>r. if gm_at 0 (fst linked) (rr_ID r) = 0 then
             [risk_violation ''record-orphaned'' (rr_ID r) ''no source suppression references this accepted-risk record''] else []) records))"

definition validate_registry :: "validation_input \<Rightarrow> input_error + violation list" where
  "validate_registry i =
     (case validate_input i of
        Some e \<Rightarrow> Inl e
      | None \<Rightarrow>
          Inr (sort_violations (registry_violations (the (in_Policy i)) (the (in_Records i)) (the (in_Suppressions i))
             (the (in_Verifier i)) (in_Now i))))"

definition violations_error :: "violation list \<Rightarrow> string list option" where
  "violations_error vs =
     (if vs = [] then None
      else Some (map (\<lambda>v. vi_Code v @ '' ['' @ vi_Subject v @ '']: '' @ vi_Detail v) vs))"

end
