(* ===== verification/RiskSuppression.thy ===== *)
theory RiskSuppression
  imports RiskValidate "HOL-Library.Product_Lexorder"
begin

text \<open>
  The scanner for gosec suppressions (\<open>security/internal/acceptedrisk/suppression.go\<close>): which
  directories and files the pinned scan reads, which comments suppress, and in which grammar.
  The Go parser, the parser of build constraints and the JSON decoder are parameters.
\<close>

section \<open>Build constraints\<close>

datatype build_expr =
    TagExpr string
  | NotExpr build_expr
  | AndExpr build_expr build_expr
  | OrExpr build_expr build_expr

definition goos_tags :: "string list" where
  "goos_tags = [''aix'', ''android'', ''darwin'', ''dragonfly'', ''freebsd'', ''illumos'', ''ios'', ''js'',
     ''linux'', ''netbsd'', ''openbsd'', ''plan9'', ''solaris'', ''wasip1'', ''windows'']"

definition goarch_tags :: "string list" where
  "goarch_tags = [''386'', ''amd64'', ''arm'', ''arm64'', ''loong64'', ''mips'', ''mips64'', ''mips64le'',
     ''mipsle'', ''ppc64'', ''ppc64le'', ''riscv64'', ''s390x'', ''wasm'']"

definition implicit_tags :: "string list" where
  "implicit_tags = [''cgo'', ''gc'', ''gccgo'', ''unix'', ''race'', ''msan'', ''asan'', ''boringcrypto'', ''purego'']"

definition go_release_tag :: "string \<Rightarrow> bool" where
  "go_release_tag tag \<longleftrightarrow> prefix ''go1.'' tag \<and> drop 4 tag \<noteq> [] \<and> list_all is_digit (drop 4 tag)"

definition settable_tag :: "string \<Rightarrow> bool" where
  "settable_tag tag \<longleftrightarrow> tag \<in> set goos_tags \<or> tag \<in> set goarch_tags \<or> tag \<in> set implicit_tags \<or> go_release_tag tag"

fun can_be_true :: "build_expr \<Rightarrow> bool" and can_be_false :: "build_expr \<Rightarrow> bool" where
  "can_be_true (TagExpr tag) = settable_tag tag"
| "can_be_true (NotExpr x) = can_be_false x"
| "can_be_true (AndExpr x y) = (can_be_true x \<and> can_be_true y)"
| "can_be_true (OrExpr x y) = (can_be_true x \<or> can_be_true y)"
| "can_be_false (TagExpr tag) = True"
| "can_be_false (NotExpr x) = can_be_true x"
| "can_be_false (AndExpr x y) = (can_be_false x \<or> can_be_false y)"
| "can_be_false (OrExpr x y) = (can_be_false x \<and> can_be_false y)"

section \<open>Blanket tags and the scope of the scan\<close>

text \<open>The global settings of the configuration, each value printed the way \<open>%v\<close> prints it.\<close>

definition gosec_blanket_tokens ::
  "(string \<Rightarrow> string + (string, string) gomap) \<Rightarrow> string \<Rightarrow> string + string list" where
  "gosec_blanket_tokens json gosecConfig =
     (case json gosecConfig of
        Inl e \<Rightarrow> Inl e
      | Inr global \<Rightarrow>
          Inr (remdups_adj (sort ([''#nosec''] @
            List.map_filter (\<lambda>key. map_option (\<lambda>v. CHR ''#'' # v) (gm_get global key)) [''nosec'', ''#nosec'']))))"

definition live :: "string list \<Rightarrow> string \<Rightarrow> bool" where
  "live tokens line = list_ex (\<lambda>token. prefix token line) tokens"

definition blank :: "char \<Rightarrow> bool" where
  "blank c \<longleftrightarrow> c = CHR '' '' \<or> of_char c = (9 :: nat)"

text \<open>The class \<open>\s\<close> of Go's regular expressions.\<close>

definition re_space :: "char \<Rightarrow> bool" where
  "re_space c \<longleftrightarrow> (of_char c :: nat) \<in> {9, 10, 12, 13, 32}"

record scan_scope =
  sc_excludedDirs :: "string list"
  sc_excludedPatterns :: "string list"

datatype scan_error =
    FlagsMissing | FlagsContinued | NoExcludedDir | NoFileSystem | ScopeMissing | TokensMissing
  | ReadDirFailed string | ReadFileFailed string | ParseFailed string string

text \<open>The value of a line that assigns \<open>GOSEC_SCAN_FLAGS\<close>.\<close>

definition scan_flags_of_line :: "string \<Rightarrow> string option" where
  "scan_flags_of_line line =
     (if prefix ''GOSEC_SCAN_FLAGS'' line then
        let rest = dropWhile blank (drop 16 line);
            rest' = (case rest of c # t \<Rightarrow> if c = CHR '':'' then t else rest | [] \<Rightarrow> rest)
        in (case rest' of c # t \<Rightarrow> if c = CHR ''='' then Some t else None | [] \<Rightarrow> None)
      else None)"

function exclude_dirs :: "string \<Rightarrow> string list" where
  "exclude_dirs [] = []"
| "exclude_dirs (c # s) =
     (if prefix ''-exclude-dir='' (c # s) then
        let v = takeWhile (\<lambda>x. \<not> re_space x) (drop 13 (c # s)) in
        if v \<noteq> [] then v # exclude_dirs (drop (13 + length v) (c # s)) else exclude_dirs s
      else exclude_dirs s)"
  by pat_completeness auto
termination by (relation "measure length") auto

definition trim_right :: "(char \<Rightarrow> bool) \<Rightarrow> string \<Rightarrow> string" where
  "trim_right p s = rev (dropWhile p (rev s))"

definition gosec_scan_scope :: "string \<Rightarrow> scan_error + scan_scope" where
  "gosec_scan_scope toolsMakefile =
     (case List.map_filter scan_flags_of_line (split_on (CHR 0x0A) toolsMakefile) of
        [] \<Rightarrow> Inl FlagsMissing
      | flags # _ \<Rightarrow>
          let declared = trim_right (\<lambda>c. blank c \<or> c = CHR 0x0D) flags in
          if suffix [CHR 0x5C] declared then Inl FlagsContinued
          else (let dirs = exclude_dirs declared in
                if dirs = [] then Inl NoExcludedDir
                else Inr \<lparr>sc_excludedDirs = sort dirs, sc_excludedPatterns = dirs\<rparr>))"

definition go_toolchain_skipped_dir :: "string \<Rightarrow> bool" where
  "go_toolchain_skipped_dir name \<longleftrightarrow> name = ''testdata'' \<or> prefix ''.'' name \<or> prefix ''_'' name"

text \<open>
  The pattern of an excluded directory makes both separators optional and is not anchored, so it
  matches every path that contains the name.
\<close>

definition skips_dir :: "scan_scope \<Rightarrow> string \<Rightarrow> bool" where
  "skips_dir scope relPath \<longleftrightarrow>
     list_ex (contains relPath) (sc_excludedPatterns scope) \<or> go_toolchain_skipped_dir (path_base relPath)"

section \<open>Suppressions in a file\<close>

text \<open>What the parser reports: where the package clause is, and the comments of each group.\<close>

record comment_group =
  cg_Pos :: int
  cg_Comments :: "(int \<times> string) list"

record parsed_file =
  pf_Package :: int
  pf_Comments :: "comment_group list"

record go_tools =
  gt_ParseFile :: "string \<Rightarrow> string \<Rightarrow> string + parsed_file"
  gt_IsGoBuild :: "string \<Rightarrow> bool"
  gt_ParseConstraint :: "string \<Rightarrow> build_expr option"

fun unreachable_groups :: "go_tools \<Rightarrow> int \<Rightarrow> comment_group list \<Rightarrow> bool" where
  "unreachable_groups tools package [] = False"
| "unreachable_groups tools package (g # gs) =
     (if package < cg_Pos g then False
      else if list_ex (\<lambda>(_, text). gt_IsGoBuild tools text \<and>
          (case gt_ParseConstraint tools text of None \<Rightarrow> False | Some e \<Rightarrow> \<not> can_be_true e)) (cg_Comments g) then True
      else unreachable_groups tools package gs)"

definition unreachable_by_pinned_scan :: "go_tools \<Rightarrow> parsed_file \<Rightarrow> bool" where
  "unreachable_by_pinned_scan tools parsed = unreachable_groups tools (pf_Package parsed) (pf_Comments parsed)"

definition skip_blanks :: "string \<Rightarrow> string option" where
  "skip_blanks s = (case s of [] \<Rightarrow> None | c # _ \<Rightarrow> if blank c then Some (dropWhile blank s) else None)"

text \<open>The directive grammar: its rule, its identifier and its reason.\<close>

definition match_directive :: "string \<Rightarrow> (string \<times> string \<times> string) option" where
  "match_directive text =
     (if \<not> prefix directive_prefix text then None
      else Option.bind (skip_blanks (drop (length directive_prefix) text)) (\<lambda>s1.
        if \<not> gosec_rule (take 4 s1) then None
        else Option.bind (skip_blanks (drop 4 s1)) (\<lambda>s2.
          if \<not> prefix ''--'' s2 then None
          else Option.bind (skip_blanks (drop 2 s2)) (\<lambda>s3.
            if risk_id_year (take 11 s3) = None then None
            else Option.bind (skip_blanks (drop 11 s3)) (\<lambda>reason.
              if reason \<noteq> [] \<and> \<not> re_space (hd reason) \<and> CHR 0x0A \<notin> set reason
              then Some (take 4 s1, take 11 s3, reason) else None)))))"

definition comment_body :: "string \<Rightarrow> string" where
  "comment_body text =
     (if prefix ''//'' text then drop 2 text
      else if prefix ''/*'' text then trim_suffix (drop 2 text) ''*/''
      else text)"

fun blanket_lines :: "string list \<Rightarrow> string \<Rightarrow> int \<Rightarrow> string list \<Rightarrow> suppression list" where
  "blanket_lines tokens name line [] = []"
| "blanket_lines tokens name line (l # ls) =
     (if live tokens (dropWhile blank l) then
        [\<lparr>sp_Path = name, sp_Line = line, sp_Rule = [], sp_RiskID = [], sp_Reason = [], sp_Raw = trim_space l,
          sp_Blanket = True, sp_Unscanned = False\<rparr>] else []) @ blanket_lines tokens name (line + 1) ls"

definition blanket_suppressions :: "string list \<Rightarrow> string \<Rightarrow> int \<Rightarrow> string \<Rightarrow> suppression list" where
  "blanket_suppressions tokens name startLine text =
     blanket_lines tokens name startLine (split_on (CHR 0x0A) (comment_body text))"

definition directive_suppression :: "string \<Rightarrow> bool \<Rightarrow> int \<Rightarrow> string \<Rightarrow> suppression" where
  "directive_suppression name unscanned line text =
     (let current = \<lparr>sp_Path = name, sp_Line = line, sp_Rule = [], sp_RiskID = [], sp_Reason = [], sp_Raw = text,
            sp_Blanket = False, sp_Unscanned = unscanned\<rparr>
      in case match_directive text of
           None \<Rightarrow> current
         | Some (rule, riskID, reason) \<Rightarrow>
             current\<lparr>sp_Rule := rule, sp_RiskID := riskID, sp_Reason := trim_space reason\<rparr>)"

definition suppressions_of_comment :: "string list \<Rightarrow> string \<Rightarrow> bool \<Rightarrow> int \<times> string \<Rightarrow> suppression list" where
  "suppressions_of_comment tokens name unscanned comment =
     (case comment of (line, raw) \<Rightarrow>
        map (\<lambda>s. s\<lparr>sp_Unscanned := unscanned\<rparr>) (blanket_suppressions tokens name line raw) @
        (let text = trim_right blank raw in
         if prefix directive_prefix text then [directive_suppression name unscanned line text] else []))"

definition suppressions_in_file ::
  "go_tools \<Rightarrow> string list \<Rightarrow> string \<Rightarrow> string \<Rightarrow> scan_error + suppression list" where
  "suppressions_in_file tools tokens name contents =
     (case gt_ParseFile tools name contents of
        Inl e \<Rightarrow> Inl (ParseFailed name e)
      | Inr parsed \<Rightarrow>
          Inr (concat (map (suppressions_of_comment tokens name (unreachable_by_pinned_scan tools parsed))
            (concat (map cg_Comments (pf_Comments parsed))))))"

section \<open>The walk\<close>

text \<open>A tree in the order \<open>fs.WalkDir\<close> visits it; contents or entries that cannot be read are missing.\<close>

datatype fs_node = FsFile string "string option" | FsDir string "fs_node list option"

definition sort_suppressions :: "suppression list \<Rightarrow> suppression list" where
  "sort_suppressions values = sort_key (\<lambda>s. (sp_Path s, sp_Line s, sp_Raw s)) values"

definition child_path :: "string \<Rightarrow> string \<Rightarrow> string" where
  "child_path dir name = (if dir = ''.'' then name else dir @ ''/'' @ name)"

fun walk_node :: "go_tools \<Rightarrow> scan_scope \<Rightarrow> string list \<Rightarrow> string \<Rightarrow> fs_node \<Rightarrow> scan_error + suppression list"
and walk_nodes :: "go_tools \<Rightarrow> scan_scope \<Rightarrow> string list \<Rightarrow> string \<Rightarrow> fs_node list \<Rightarrow> scan_error + suppression list" where
  "walk_node tools scope tokens dir (FsFile name contents) =
     (if \<not> suffix ''.go'' name then Inr []
      else (case contents of
              None \<Rightarrow> Inl (ReadFileFailed (child_path dir name))
            | Some text \<Rightarrow> suppressions_in_file tools tokens (child_path dir name) text))"
| "walk_node tools scope tokens dir (FsDir name entries) =
     (if skips_dir scope (child_path dir name) then Inr []
      else (case entries of
              None \<Rightarrow> Inl (ReadDirFailed (child_path dir name))
            | Some nodes \<Rightarrow> walk_nodes tools scope tokens (child_path dir name) nodes))"
| "walk_nodes tools scope tokens dir [] = Inr []"
| "walk_nodes tools scope tokens dir (n # ns) =
     (case walk_node tools scope tokens dir n of
        Inl e \<Rightarrow> Inl e
      | Inr found \<Rightarrow>
          (case walk_nodes tools scope tokens dir ns of Inl e \<Rightarrow> Inl e | Inr rest \<Rightarrow> Inr (found @ rest)))"

text \<open>The root is the directory \<open>.\<close>, given by its entries, and is never skipped.\<close>

definition scan_suppressions ::
  "go_tools \<Rightarrow> fs_node list option option \<Rightarrow> scan_scope \<Rightarrow> string list \<Rightarrow> scan_error + suppression list" where
  "scan_suppressions tools fsys scope tokens =
     (case fsys of
        None \<Rightarrow> Inl NoFileSystem
      | Some tree \<Rightarrow>
          if sc_excludedPatterns scope = [] then Inl ScopeMissing
          else if tokens = [] then Inl TokensMissing
          else (case tree of
                  None \<Rightarrow> Inl (ReadDirFailed ''.'')
                | Some nodes \<Rightarrow> map_sum id sort_suppressions (walk_nodes tools scope tokens ''.'' nodes)))"

end
