(* ===== verification/RiskGate.thy ===== *)
theory RiskGate
  imports RiskValidate
begin

text \<open>
  What the accepted-risk gate guarantees: when \<open>validateRegistry\<close> reports nothing, records and
  suppressions are in one-to-one correspondence and every record is approved and current; the
  report does not depend on the order of its inputs.
\<close>

section \<open>Approval and cadence\<close>

text \<open>What an approved record is, without the order of the checks.\<close>

definition approved :: "risk_policy \<Rightarrow> commit_verifier \<Rightarrow> risk_record \<Rightarrow> bool" where
  "approved pol verifier r \<longleftrightarrow>
     (\<exists>a. approver_by_id (rp_Approvers pol) (ra_ID (rr_Approver r)) = Some a \<and> pa_Type a = approver_type_user \<and>
       is_human_approver_login (pa_Login a) \<and> ra_Login (rr_Approver r) = pa_Login a \<and>
       accepts_evidence_type pol (re_Type (rr_Evidence r)) \<and> commit_sha (re_SHA (rr_Evidence r)) \<and>
       (\<exists>v. verifier (re_SHA (rr_Evidence r)) = Inr v \<and> vc_Verified v \<and> vc_SHA v = re_SHA (rr_Evidence r) \<and>
         vc_VerifiedSignerKey v \<noteq> [] \<and> vc_VerifiedSignerKey v \<in> set (signing_keys a) \<and>
         (vc_VerifiedSignerAccountID v = 0 \<or> vc_VerifiedSignerAccountID v = pa_ID a) \<and>
         trim_space (vc_Message v) \<noteq> [] \<and> mentions_risk_id (vc_Message v) (rr_ID r)))"

definition in_cadence :: "policy_cadence \<Rightarrow> int \<Rightarrow> risk_record \<Rightarrow> bool" where
  "in_cadence c now r \<longleftrightarrow> rr_CreatedAt r \<le> now \<and> rr_LastReviewedAt r \<le> now \<and> now \<le> review_by c r \<and> now \<le> hard_sunset c r"

lemma signer_violations_Nil:
  "signer_violations a r v = [] \<longleftrightarrow> vc_VerifiedSignerKey v \<noteq> [] \<and> vc_VerifiedSignerKey v \<in> set (signing_keys a) \<and>
     (vc_VerifiedSignerAccountID v = 0 \<or> vc_VerifiedSignerAccountID v = pa_ID a)"
  by (auto simp: signer_violations_def authorizes_signing_key_def list_ex_iff)

lemma scope_violations_Nil:
  "scope_violations r v = [] \<longleftrightarrow> trim_space (vc_Message v) \<noteq> [] \<and> mentions_risk_id (vc_Message v) (rr_ID r)"
  by (simp add: scope_violations_def)

lemma sentinel_not_sha: "\<not> commit_sha pending_approval_sentinel"
  by (simp add: commit_sha_def pending_approval_sentinel_def)

lemma evidence_violations_Nil:
  "evidence_violations pol a r verifier = [] \<longleftrightarrow>
     accepts_evidence_type pol (re_Type (rr_Evidence r)) \<and> commit_sha (re_SHA (rr_Evidence r)) \<and>
     (\<exists>v. verifier (re_SHA (rr_Evidence r)) = Inr v \<and> vc_Verified v \<and> vc_SHA v = re_SHA (rr_Evidence r) \<and>
       signer_violations a r v = [] \<and> scope_violations r v = [])"
  using sentinel_not_sha by (auto simp: evidence_violations_def Let_def split: sum.splits)

lemma approval_violations_Nil: "approval_violations pol r verifier = [] \<longleftrightarrow> approved pol verifier r"
proof (cases "approver_by_id (rp_Approvers pol) (ra_ID (rr_Approver r))")
  case None
  then show ?thesis by (simp add: approval_violations_def approved_def)
next
  case (Some a)
  then have "approval_violations pol r verifier = [] \<longleftrightarrow>
      pa_Type a = approver_type_user \<and> is_human_approver_login (pa_Login a) \<and>
      is_human_approver_login (ra_Login (rr_Approver r)) \<and> pa_Login a = ra_Login (rr_Approver r) \<and>
      evidence_violations pol a r verifier = []"
    by (auto simp: approval_violations_def)
  then show ?thesis using Some
    unfolding approved_def evidence_violations_Nil signer_violations_Nil scope_violations_Nil by auto
qed

lemma cadence_violations_Nil: "cadence_violations c r now = [] \<longleftrightarrow> in_cadence c now r"
  by (auto simp: cadence_violations_def in_cadence_def Let_def)

lemma record_violations_Nil:
  "record_violations pol verifier now r = [] \<longleftrightarrow> approved pol verifier r \<and> in_cadence (rp_Cadence pol) now r"
  by (simp add: record_violations_def approval_violations_Nil cadence_violations_Nil)

section \<open>Linkage\<close>

text \<open>A suppression that counts as a reference, and the violations it has on its own.\<close>

definition linked :: "suppression \<Rightarrow> bool" where
  "linked s \<longleftrightarrow> \<not> sp_Unscanned s \<and> \<not> sp_Blanket s \<and> sp_RiskID s \<noteq> []"

definition suppression_findings :: "(string, risk_record) gomap \<Rightarrow> suppression \<Rightarrow> violation list" where
  "suppression_findings byID s = snd (suppression_step byID ([], []) s)"

definition count_reference :: "(string, int) gomap \<Rightarrow> string \<Rightarrow> (string, int) gomap" where
  "count_reference m i = gm_put i (gm_at 0 m i + 1) m"

definition reference_counts :: "suppression list \<Rightarrow> (string, int) gomap" where
  "reference_counts ss = foldl count_reference [] (map sp_RiskID (filter linked ss))"

lemma suppression_step_eq:
  "suppression_step byID (m, vs) s =
     (if linked s then count_reference m (sp_RiskID s) else m, vs @ suppression_findings byID s)"
  by (cases "gm_get byID (sp_RiskID s)")
    (simp_all add: suppression_step_def suppression_findings_def linked_def count_reference_def Let_def)

lemma suppression_loop:
  "foldl (suppression_step byID) (m, vs) ss =
     (foldl count_reference m (map sp_RiskID (filter linked ss)), vs @ concat (map (suppression_findings byID) ss))"
  by (induction ss arbitrary: m vs) (simp_all add: suppression_step_eq)

lemma count_references:
  "gm_at 0 (foldl count_reference m is) i = gm_at 0 m i + int (count (mset is) i)"
  "set (gm_keys (foldl count_reference m is)) = set (gm_keys m) \<union> set is"
  "gm_wf m \<Longrightarrow> gm_wf (foldl count_reference m is)"
  by (induction "is" arbitrary: m) (auto simp: count_reference_def)

lemma reference_counts:
  "gm_at 0 (reference_counts ss) i = int (count (image_mset sp_RiskID (filter_mset linked (mset ss))) i)"
  "set (gm_keys (reference_counts ss)) = sp_RiskID ` {s \<in> set ss. linked s}"
  "gm_wf (reference_counts ss)"
  unfolding reference_counts_def count_references by (auto simp: count_references(3) mset_map mset_filter)

lemma suppression_violations_eq:
  "suppression_violations ss byID =
     (reference_counts ss, concat (map (suppression_findings byID) ss) @
       concat (map (\<lambda>i. if 1 < gm_at 0 (reference_counts ss) i then
         [risk_violation ''suppression-duplicate-reference'' i
            (show_int (gm_at 0 (reference_counts ss) i) @ '' suppressions reference one accepted-risk record; each record covers exactly one site'')]
         else []) (sort (gm_keys (reference_counts ss)))))"
  by (simp only: suppression_violations_def suppression_loop reference_counts_def [symmetric] sorted_counts_def prod.case append_Nil)

definition matched :: "(string, risk_record) gomap \<Rightarrow> suppression \<Rightarrow> bool" where
  "matched byID s \<longleftrightarrow> linked s \<and> (\<exists>r. gm_get byID (sp_RiskID s) = Some r \<and> rr_Rule r = sp_Rule s \<and> rr_Path r = sp_Path s)"

lemma suppression_findings_Nil: "suppression_findings byID s = [] \<longleftrightarrow> matched byID s"
  by (cases "gm_get byID (sp_RiskID s)")
    (simp_all add: suppression_findings_def suppression_step_def matched_def linked_def Let_def)

lemma records_by_id_get:
  assumes "distinct (map rr_ID rs)"
  shows "gm_get (records_by_id rs) i = Some r \<longleftrightarrow> r \<in> set rs \<and> rr_ID r = i"
proof -
  have "gm_get (foldl (\<lambda>m r. gm_put (rr_ID r) r m) m rs) i = Some r \<longleftrightarrow>
      (r \<in> set rs \<and> rr_ID r = i) \<or> (i \<notin> rr_ID ` set rs \<and> gm_get m i = Some r)" for m
    using assms by (induction rs arbitrary: m) (auto split: if_splits)
  then show ?thesis by (simp add: records_by_id_def)
qed

section \<open>The report\<close>

lemma concat_map_Nil_iff: "concat (map f xs) = [] \<longleftrightarrow> (\<forall>x\<in>set xs. f x = [])"
  by (induction xs) auto

abbreviation references :: "suppression list \<Rightarrow> string \<Rightarrow> nat" where
  "references ss i \<equiv> count (image_mset sp_RiskID (filter_mset linked (mset ss))) i"

lemma indicator_count:
  fixes f :: "'a \<Rightarrow> nat"
  assumes "A \<subseteq> B" and "\<And>i. f i = 0 \<longleftrightarrow> i \<notin> A"
  shows "(\<forall>i\<in>A. f i \<le> 1) \<and> (\<forall>i\<in>B. f i \<noteq> 0) \<longleftrightarrow> (\<forall>i. f i = (if i \<in> B then 1 else 0))"
proof -
  have "f i = (if i \<in> B then 1 else 0) \<longleftrightarrow> (i \<in> A \<longrightarrow> f i \<le> 1) \<and> (i \<in> B \<longrightarrow> f i \<noteq> 0)" for i
    using assms(1) assms(2) [of i] by (cases "f i"; cases "i \<in> B") auto
  then show ?thesis by blast
qed

text \<open>Counting at most one reference per identifier and at least one per record is a one-to-one match.\<close>

lemma one_reference_each:
  assumes d: "distinct (map rr_ID records)" and m: "\<forall>s\<in>set ss. matched (records_by_id records) s"
  shows "(\<forall>i\<in>set (gm_keys (reference_counts ss)). references ss i \<le> 1) \<and> (\<forall>r\<in>set records. references ss (rr_ID r) \<noteq> 0) \<longleftrightarrow>
    mset (map sp_RiskID ss) = mset (map rr_ID records)"
proof -
  have l: "filter_mset linked (mset ss) = mset ss" using m by (auto simp: matched_def filter_mset_eq_conv)
  have n: "references ss i = count (mset (map sp_RiskID ss)) i" for i by (simp only: l mset_map)
  have "sp_RiskID s \<in> rr_ID ` set records" if "s \<in> set ss" for s
    using m that unfolding matched_def records_by_id_get [OF d] by (metis imageI)
  then have sub: "sp_RiskID ` set ss \<subseteq> rr_ID ` set records" by blast
  have k: "set (gm_keys (reference_counts ss)) = sp_RiskID ` set ss"
    using m by (auto simp: reference_counts(2) matched_def)
  have c: "count (mset (map rr_ID records)) i = (if i \<in> rr_ID ` set records then 1 else 0)" for i
    using d by (metis distinct_count_atmost_1 set_map)
  have z: "count (mset (map sp_RiskID ss)) i = 0 \<longleftrightarrow> i \<notin> sp_RiskID ` set ss" for i
    by (simp only: count_eq_zero_iff set_mset_mset set_map)
  have "(\<forall>i\<in>sp_RiskID ` set ss. count (mset (map sp_RiskID ss)) i \<le> 1) \<and>
      (\<forall>i\<in>rr_ID ` set records. count (mset (map sp_RiskID ss)) i \<noteq> 0) \<longleftrightarrow>
      (\<forall>i. count (mset (map sp_RiskID ss)) i = (if i \<in> rr_ID ` set records then 1 else 0))"
    by (rule indicator_count [OF sub z])
  moreover have "mset (map sp_RiskID ss) = mset (map rr_ID records) \<longleftrightarrow>
      (\<forall>i. count (mset (map sp_RiskID ss)) i = (if i \<in> rr_ID ` set records then 1 else 0))"
    by (simp only: multiset_eq_iff c)
  ultimately show ?thesis by (simp only: n k ball_simps)
qed

lemma registry_violations_Nil:
  assumes "distinct (map rr_ID records)"
  shows "registry_violations pol records ss verifier now = [] \<longleftrightarrow>
    (\<forall>r\<in>set records. approved pol verifier r \<and> in_cadence (rp_Cadence pol) now r) \<and>
    (\<forall>s\<in>set ss. matched (records_by_id records) s) \<and> mset (map sp_RiskID ss) = mset (map rr_ID records)"
proof -
  have one: "((if 1 < int n then [x] else []) = []) = (n \<le> 1)" "((if int n = 0 then [x] else []) = []) = (n \<noteq> 0)"
    for n and x :: violation by auto
  have "registry_violations pol records ss verifier now = [] \<longleftrightarrow>
    (\<forall>r\<in>set records. approved pol verifier r \<and> in_cadence (rp_Cadence pol) now r) \<and>
    (\<forall>s\<in>set ss. matched (records_by_id records) s) \<and>
    (\<forall>i\<in>set (gm_keys (reference_counts ss)). references ss i \<le> 1) \<and> (\<forall>r\<in>set records. references ss (rr_ID r) \<noteq> 0)"
    unfolding registry_violations_def suppression_violations_eq Let_def fst_conv snd_conv append_is_Nil_conv concat_map_Nil_iff
      record_violations_Nil suppression_findings_Nil reference_counts(1) one set_sort by blast
  then show ?thesis using one_reference_each [OF assms] by blast
qed

lemma validate_registry_Inr:
  assumes "now \<noteq> zero_time"
  shows "validate_registry \<lparr>in_Policy = Some pol, in_Records = Some records, in_Suppressions = Some ss, in_Verifier = Some verifier, in_Now = now\<rparr>
    = Inr (sort_violations (registry_violations pol records ss verifier now))"
  using assms by (simp add: validate_registry_def validate_input_def)

lemma sort_violations_Nil [simp]: "sort_violations vs = [] \<longleftrightarrow> vs = []"
  by (metis sort_violations_def set_empty set_sort)

section \<open>Order of the inputs\<close>

lemma violation_key_inj:
  assumes "CHR 0x00 \<notin> set (vi_Code v)" "CHR 0x00 \<notin> set (vi_Code w)"
    "CHR 0x00 \<notin> set (vi_Subject v)" "CHR 0x00 \<notin> set (vi_Subject w)" and "violation_key v = violation_key w"
  shows "v = w"
proof -
  have split: "a = b \<and> s = t" if "a @ CHR 0x00 # s = b @ CHR 0x00 # t" "CHR 0x00 \<notin> set a" "CHR 0x00 \<notin> set b" for a b s t :: string
    using that by (induction a arbitrary: b) (case_tac [!] b, auto)
  have "vi_Code v @ CHR 0x00 # (vi_Subject v @ CHR 0x00 # vi_Detail v) =
      vi_Code w @ CHR 0x00 # (vi_Subject w @ CHR 0x00 # vi_Detail w)"
    using assms(5) by (simp add: violation_key_def)
  from split [OF this assms(1,2)] have code: "vi_Code v = vi_Code w"
    and rest: "vi_Subject v @ CHR 0x00 # vi_Detail v = vi_Subject w @ CHR 0x00 # vi_Detail w" by (rule conjunct1, rule conjunct2)
  from split [OF rest assms(3,4)] have "vi_Subject v = vi_Subject w" "vi_Detail v = vi_Detail w" by (rule conjunct1, rule conjunct2)
  with code show ?thesis by (intro violation.equality) simp_all
qed

lemma reference_counts_perm:
  assumes "mset ss = mset ss'"
  shows "gm_at 0 (reference_counts ss) i = gm_at 0 (reference_counts ss') i"
    "sort (gm_keys (reference_counts ss)) = sort (gm_keys (reference_counts ss'))"
proof -
  show "gm_at 0 (reference_counts ss) i = gm_at 0 (reference_counts ss') i"
    using assms by (simp add: reference_counts(1))
  have "set ss = set ss'" using assms by (rule mset_eq_setD)
  then have "set (gm_keys (reference_counts ss)) = set (gm_keys (reference_counts ss'))" by (simp add: reference_counts(2))
  moreover have "distinct (gm_keys (reference_counts s))" for s using reference_counts(3) by (simp add: gm_wf_def gm_keys_def)
  ultimately show "sort (gm_keys (reference_counts ss)) = sort (gm_keys (reference_counts ss'))"
    by (metis sorted_distinct_set_unique sorted_sort distinct_sort set_sort)
qed

lemma records_by_id_perm:
  assumes "distinct (map rr_ID rs)" and "mset rs = mset rs'"
  shows "gm_get (records_by_id rs) i = gm_get (records_by_id rs') i"
proof -
  have "distinct (map rr_ID rs')" using assms by (metis distinct_count_atmost_1 mset_map mset_eq_setD set_map)
  moreover have "set rs = set rs'" using assms(2) by (rule mset_eq_setD)
  ultimately have "gm_get (records_by_id rs) i = Some r \<longleftrightarrow> gm_get (records_by_id rs') i = Some r" for r
    using assms(1) by (simp add: records_by_id_get)
  then show ?thesis by (metis not_Some_eq)
qed

lemma suppression_findings_cong:
  "gm_get m (sp_RiskID s) = gm_get m' (sp_RiskID s) \<Longrightarrow> suppression_findings m s = suppression_findings m' s"
  by (simp add: suppression_findings_def suppression_step_def)

lemma mset_concat_map: "mset (concat (map f xs)) = \<Sum>\<^sub># (image_mset (\<lambda>x. mset (f x)) (mset xs))"
  by (induction xs) auto

lemma registry_violations_perm:
  assumes "distinct (map rr_ID rs)" and "mset rs = mset rs'" and "mset ss = mset ss'"
  shows "mset (registry_violations pol rs ss verifier now) = mset (registry_violations pol rs' ss' verifier now)"
proof -
  have f: "suppression_findings (records_by_id rs) = suppression_findings (records_by_id rs')"
    using suppression_findings_cong records_by_id_perm [OF assms(1,2)] by blast
  show ?thesis
    unfolding registry_violations_def suppression_violations_eq Let_def fst_conv snd_conv mset_append mset_concat_map
      reference_counts_perm [OF assms(3)] f assms(2,3) by (rule refl)
qed

text \<open>No code and no subject of a violation contains the separator of the sort key.\<close>

definition nul_free :: "string \<Rightarrow> bool" where
  "nul_free s \<longleftrightarrow> CHR 0x00 \<notin> set s"

lemma nul_free_Cons [simp]: "nul_free [] \<and> (nul_free (c # s) \<longleftrightarrow> c \<noteq> CHR 0x00 \<and> nul_free s)"
  by (auto simp: nul_free_def)

lemma nul_free_append [simp]: "nul_free (s @ t) \<longleftrightarrow> nul_free s \<and> nul_free t"
  by (auto simp: nul_free_def)

lemma nul_free_show_nat [simp]: "nul_free (show_nat n)"
proof (induction n rule: show_nat.induct)
  case (1 n)
  have digit: "nul_free [char_of (48 + k)]" if "k < 10" for k :: nat
  proof -
    have "(of_char (char_of (48 + k) :: char) :: nat) = 48 + k" using that by (simp add: of_char_of)
    moreover have "(of_char (CHR 0x00) :: nat) = 0" by simp
    ultimately show ?thesis by (auto simp del: of_char_of)
  qed
  have "nul_free [char_of (48 + n mod 10)]" by (rule digit) simp
  then show ?case using 1 digit [of n] by (subst show_nat.simps) simp
qed

lemma nul_free_show_int [simp]: "nul_free (show_int i)"
  by (simp add: show_int_def)

definition plain_violation :: "(string \<Rightarrow> bool) \<Rightarrow> violation \<Rightarrow> bool" where
  "plain_violation P v \<longleftrightarrow> nul_free (vi_Code v) \<and> P (vi_Subject v)"

lemma plain_violation_of [simp]: "plain_violation P (risk_violation c s d) \<longleftrightarrow> nul_free c \<and> P s"
  by (simp add: plain_violation_def risk_violation_def)

lemma nul_free_codes [simp]:
  "list_all nul_free [''approver-not-in-policy'', ''approver-not-human'', ''approver-login-mismatch'', ''approval-evidence-pending'',
     ''approval-evidence-type-unsupported'', ''approval-evidence-sha-malformed'', ''approval-evidence-unverified'',
     ''approval-signer-not-authorized'', ''approval-commit-scope-mismatch'', ''suppression-blanket-form'',
     ''suppression-unscanned-file'', ''suppression-malformed'', ''suppression-unregistered'', ''suppression-rule-mismatch'',
     ''suppression-path-mismatch'', ''suppression-duplicate-reference'', ''record-orphaned'', ''record-date-in-future'',
     ''review-overdue'', ''hard-sunset-expired'', ''renewal-after-hard-sunset'']"
  by (simp add: nul_free_def)

lemmas code_facts [simp] = nul_free_codes [unfolded list.pred_inject]

lemma plain_evidence: "P (rr_ID r) \<Longrightarrow> list_all (plain_violation P) (evidence_violations pol a r verifier)"
  by (simp add: evidence_violations_def signer_violations_def scope_violations_def Let_def split: sum.splits)

lemma plain_approval: "P (rr_ID r) \<Longrightarrow> list_all (plain_violation P) (approval_violations pol r verifier)"
  by (simp add: approval_violations_def plain_evidence split: option.splits)

lemma plain_cadence: "P (rr_ID r) \<Longrightarrow> list_all (plain_violation P) (cadence_violations c r now)"
  by (simp add: cadence_violations_def Let_def)

lemma plain_suppression: "P (location s) \<Longrightarrow> list_all (plain_violation P) (suppression_findings byID s)"
  by (simp add: suppression_findings_def suppression_step_def Let_def split: option.splits)

lemma list_all_concat_map: "list_all P (concat (map f xs)) \<longleftrightarrow> list_all (\<lambda>x. list_all P (f x)) xs"
  by (induction xs) auto

lemma plain_registry:
  assumes "list_all (\<lambda>r. nul_free (rr_ID r)) rs" and "list_all (\<lambda>s. nul_free (sp_Path s) \<and> nul_free (sp_RiskID s)) ss"
  shows "list_all (plain_violation nul_free) (registry_violations pol rs ss verifier now)"
proof -
  have "list_all (\<lambda>r. list_all (plain_violation nul_free) (record_violations pol verifier now r)) rs"
    using assms(1) by (rule list.pred_mono_strong) (simp add: record_violations_def plain_approval plain_cadence)
  moreover have "list_all (\<lambda>s. list_all (plain_violation nul_free) (suppression_findings byID s)) ss" for byID
    using assms(2) by (rule list.pred_mono_strong) (simp add: plain_suppression location_def)
  moreover have "list_all (\<lambda>i. nul_free i) (sort (gm_keys (reference_counts ss)))"
    using assms(2) by (auto simp: list_all_iff reference_counts(2))
  ultimately show ?thesis using assms(1)
    unfolding registry_violations_def suppression_violations_eq Let_def fst_conv snd_conv list_all_append list_all_concat_map
    by (auto elim: list.pred_mono_strong)
qed

lemma sort_violations_perm:
  assumes "mset vs = mset ws" and "list_all (plain_violation nul_free) vs"
  shows "sort_violations vs = sort_violations ws"
proof -
  have "inj_on violation_key (set vs)"
    using assms(2) violation_key_inj unfolding inj_on_def list_all_iff plain_violation_def nul_free_def by blast
  then show ?thesis unfolding sort_violations_def
    by (rule sort_key_inj_key_eq [rotated]) (simp_all add: assms(1))
qed

section \<open>Properties\<close>

definition gate_input ::
  "risk_policy \<Rightarrow> risk_record list \<Rightarrow> suppression list \<Rightarrow> commit_verifier \<Rightarrow> int \<Rightarrow> validation_input" where
  "gate_input pol records ss verifier now =
     \<lparr>in_Policy = Some pol, in_Records = Some records, in_Suppressions = Some ss, in_Verifier = Some verifier, in_Now = now\<rparr>"

text \<open>
  Property C15. With distinct identifiers the gate reports nothing exactly when every record is
  approved by a verified commit of its approver and inside its cadence, every suppression is a
  scanned directive that names a record of its own rule and path, and the suppressions name
  every record exactly once.
\<close>

theorem validate_registry_clean:
  assumes "distinct (map rr_ID records)" and "now \<noteq> zero_time"
  shows "validate_registry (gate_input pol records ss verifier now) = Inr [] \<longleftrightarrow>
    list_all (\<lambda>r. approved pol verifier r \<and> in_cadence (rp_Cadence pol) now r) records \<and>
    list_all (\<lambda>s. \<not> sp_Unscanned s \<and> \<not> sp_Blanket s \<and> sp_RiskID s \<noteq> [] \<and>
      (\<exists>r. r \<in> set records \<and> rr_ID r = sp_RiskID s \<and> rr_Rule r = sp_Rule s \<and> rr_Path r = sp_Path s)) ss \<and>
    mset (map sp_RiskID ss) = mset (map rr_ID records)"
  unfolding gate_input_def validate_registry_Inr [OF assms(2)] sum.inject sort_violations_Nil
    registry_violations_Nil [OF assms(1)] matched_def linked_def records_by_id_get [OF assms(1)] list_all_iff
  by blast

definition sample_risk_policy :: risk_policy where
  "sample_risk_policy = \<lparr>rp_Version = 1, rp_Organization = \<lparr>po_ID = 1, po_Login = ''org''\<rparr>,
     rp_Approvers = [\<lparr>pa_ID = 7, pa_Login = ''octo'', pa_Type = ''User'', pa_Role = ''owner'', pa_SigningKeys = Some [''K'']\<rparr>],
     rp_Evidence = \<lparr>pe_AcceptedTypes = [''signed-commit'']\<rparr>,
     rp_Cadence = \<lparr>pc_ReviewIntervalDays = 90, pc_HardSunsetDays = 180\<rparr>\<rparr>"

definition sample_record :: risk_record where
  "sample_record = \<lparr>rr_ID = ''AR-2026-001'', rr_Rule = ''G304'', rr_Path = ''cmd/a.go'', rr_Symbol = ''Load'', rr_Threat = ''t'',
     rr_CompensatingControl = ''c'', rr_Owner = ''o'', rr_Approver = \<lparr>ra_ID = 7, ra_Login = ''octo''\<rparr>,
     rr_CreatedAt = day_number 2026 1 10 * day_length, rr_LastReviewedAt = day_number 2026 3 1 * day_length,
     rr_Evidence = \<lparr>re_Type = ''signed-commit'', re_SHA = replicate 40 (CHR ''a'')\<rparr>, rr_TestEvidence = ''T''\<rparr>"

definition sample_suppression :: suppression where
  "sample_suppression = \<lparr>sp_Path = ''cmd/a.go'', sp_Line = 12, sp_Rule = ''G304'', sp_RiskID = ''AR-2026-001'', sp_Reason = ''r'',
     sp_Raw = ''x'', sp_Blanket = False, sp_Unscanned = False\<rparr>"

definition sample_verifier :: commit_verifier where
  "sample_verifier sha = Inr \<lparr>vc_SHA = sha, vc_Verified = True, vc_VerifiedSignerKey = ''K'', vc_VerifiedSignerAccountID = 0,
     vc_Message = ''approve AR-2026-001.''\<rparr>"

theorem validate_registry_clean_witness:
  "validate_registry (gate_input sample_risk_policy [sample_record] [sample_suppression] sample_verifier (day_number 2026 3 10 * day_length)) = Inr [] \<and>
   list_all (approved sample_risk_policy sample_verifier) [sample_record]"
proof -
  have d: "distinct (map rr_ID [sample_record])" by simp
  have n: "day_number 2026 3 10 * day_length \<noteq> zero_time" by code_simp
  have v: "validate_registry (gate_input sample_risk_policy [sample_record] [sample_suppression] sample_verifier (day_number 2026 3 10 * day_length)) = Inr []"
    by code_simp
  from v [unfolded validate_registry_clean [OF d n]] show ?thesis using v by simp
qed

text \<open>
  The report does not depend on the order of the records and of the suppressions,
  as long as no identifier and no path contains the separator byte.
\<close>

theorem validate_registry_order:
  assumes "distinct (map rr_ID records)" and "mset records = mset records'" and "mset ss = mset ss'"
    and "list_all (\<lambda>r. nul_free (rr_ID r)) records" and "list_all (\<lambda>s. nul_free (sp_Path s) \<and> nul_free (sp_RiskID s)) ss"
  shows "validate_registry (gate_input pol records ss verifier now) = validate_registry (gate_input pol records' ss' verifier now)"
  using sort_violations_perm [OF registry_violations_perm [OF assms(1-3)] plain_registry [OF assms(4,5)], of pol verifier now]
  by (simp add: validate_registry_def validate_input_def gate_input_def)

theorem validate_registry_order_witness:
  "validate_registry (gate_input sample_risk_policy [sample_record] [sample_suppression, sample_suppression\<lparr>sp_Line := 9\<rparr>] sample_verifier 0)
   = validate_registry (gate_input sample_risk_policy [sample_record] [sample_suppression\<lparr>sp_Line := 9\<rparr>, sample_suppression] sample_verifier 0)"
  by (rule validate_registry_order) (simp_all add: sample_record_def sample_suppression_def)

text \<open>
  Property C16. The hard sunset is final: no later review, approver or evidence makes a registry
  with an expired record pass.
\<close>

theorem hard_sunset_final:
  assumes "distinct (map rr_ID records)" and "i < length records" and "hard_sunset (rp_Cadence pol) (records ! i) < now"
  shows "validate_registry (gate_input pol
    (records[i := (records ! i)\<lparr>rr_LastReviewedAt := reviewed, rr_Approver := approver, rr_Evidence := evidence\<rparr>]) ss verifier now) \<noteq> Inr []"
proof (cases "now = zero_time")
  case True
  then show ?thesis by (simp add: validate_registry_def validate_input_def gate_input_def)
next
  case False
  let ?r = "(records ! i)\<lparr>rr_LastReviewedAt := reviewed, rr_Approver := approver, rr_Evidence := evidence\<rparr>"
  have "map rr_ID (records[i := ?r]) = map rr_ID records" 
    using assms(2) list_update_id [of "map rr_ID records" i] by (simp add: map_update)
  then have d: "distinct (map rr_ID (records[i := ?r]))" using assms(1) by simp
  have "?r \<in> set (records[i := ?r])" using assms(2) by (rule set_update_memI)
  moreover have "\<not> in_cadence (rp_Cadence pol) now ?r" using assms(3) by (simp add: in_cadence_def hard_sunset_def)
  ultimately show ?thesis
    unfolding gate_input_def validate_registry_Inr [OF False] sum.inject sort_violations_Nil registry_violations_Nil [OF d] by blast
qed

theorem hard_sunset_final_witness:
  "validate_registry (gate_input sample_risk_policy [sample_record\<lparr>rr_LastReviewedAt := day_number 2026 8 1 * day_length\<rparr>]
     [sample_suppression] sample_verifier (day_number 2026 8 2 * day_length)) \<noteq> Inr []"
proof -
  have s: "hard_sunset (rp_Cadence sample_risk_policy) ([sample_record] ! 0) < day_number 2026 8 2 * day_length" by code_simp
  have "[sample_record][0 := ([sample_record] ! 0)\<lparr>rr_LastReviewedAt := day_number 2026 8 1 * day_length,
      rr_Approver := rr_Approver sample_record, rr_Evidence := rr_Evidence sample_record\<rparr>] =
    [sample_record\<lparr>rr_LastReviewedAt := day_number 2026 8 1 * day_length\<rparr>]" by simp
  with hard_sunset_final [OF _ _ s, where reviewed = "day_number 2026 8 1 * day_length" and approver = "rr_Approver sample_record"
      and evidence = "rr_Evidence sample_record" and ss = "[sample_suppression]" and verifier = sample_verifier]
  show ?thesis by simp
qed

end
