(* ===== verification/RiskScan.thy ===== *)
theory RiskScan
  imports RiskSuppression RiskGate
begin

text \<open>
  What the suppression scanner guarantees: its reachability test is exact up to correlated tags,
  its directive grammar parses what it prints, and a passing gate accounts for every comment of
  every file the pinned scan reads.
\<close>

section \<open>Build constraints\<close>

text \<open>The meaning of a constraint under an assignment of tags.\<close>

fun expr_holds :: "(string \<Rightarrow> bool) \<Rightarrow> build_expr \<Rightarrow> bool" where
  "expr_holds env (TagExpr tag) = env tag"
| "expr_holds env (NotExpr x) = (\<not> expr_holds env x)"
| "expr_holds env (AndExpr x y) = (expr_holds env x \<and> expr_holds env y)"
| "expr_holds env (OrExpr x y) = (expr_holds env x \<or> expr_holds env y)"

fun expr_tags :: "build_expr \<Rightarrow> string list" where
  "expr_tags (TagExpr tag) = [tag]"
| "expr_tags (NotExpr x) = expr_tags x"
| "expr_tags (AndExpr x y) = expr_tags x @ expr_tags y"
| "expr_tags (OrExpr x y) = expr_tags x @ expr_tags y"

definition default_context :: "(string \<Rightarrow> bool) \<Rightarrow> bool" where
  "default_context env \<longleftrightarrow> (\<forall>tag. env tag \<longrightarrow> settable_tag tag)"

lemma satisfiability_sound:
  assumes "default_context env"
  shows "(expr_holds env e \<longrightarrow> can_be_true e) \<and> (\<not> expr_holds env e \<longrightarrow> can_be_false e)"
  using assms by (induction e) (auto simp: default_context_def)

lemma expr_holds_cong: "(\<And>tag. tag \<in> set (expr_tags e) \<Longrightarrow> env tag = env' tag) \<Longrightarrow> expr_holds env e = expr_holds env' e"
  by (induction e) auto

text \<open>Assignments of two expressions without a common tag combine.\<close>

lemma combine_contexts:
  assumes "default_context f" and "default_context g" and "set (expr_tags x) \<inter> set (expr_tags y) = {}"
  obtains h where "default_context h" and "expr_holds h x = expr_holds f x" and "expr_holds h y = expr_holds g y"
proof
  let ?h = "\<lambda>tag. if tag \<in> set (expr_tags x) then f tag else g tag"
  show "default_context ?h" using assms(1,2) by (auto simp: default_context_def)
  show "expr_holds ?h x = expr_holds f x" by (rule expr_holds_cong) simp
  show "expr_holds ?h y = expr_holds g y" by (rule expr_holds_cong) (use assms(3) in auto)
qed

lemma satisfiability_complete:
  assumes "distinct (expr_tags e)"
  shows "(can_be_true e \<longrightarrow> (\<exists>env. default_context env \<and> expr_holds env e)) \<and>
    (can_be_false e \<longrightarrow> (\<exists>env. default_context env \<and> \<not> expr_holds env e))"
  using assms
proof (induction e)
  case (TagExpr tag)
  have "default_context (\<lambda>t. t = tag) \<and> expr_holds (\<lambda>t. t = tag) (TagExpr tag)" if "settable_tag tag"
    using that by (simp add: default_context_def)
  moreover have "default_context (\<lambda>_. False) \<and> \<not> expr_holds (\<lambda>_. False) (TagExpr tag)" by (simp add: default_context_def)
  ultimately show ?case by (metis can_be_true.simps(1))
next
  case (NotExpr x)
  then show ?case by auto
next
  case (AndExpr x y)
  then have d: "distinct (expr_tags x)" "distinct (expr_tags y)" "set (expr_tags x) \<inter> set (expr_tags y) = {}" by auto
  note ihs = AndExpr.IH(1) [OF d(1)] AndExpr.IH(2) [OF d(2)]
  show ?case
  proof (intro conjI impI)
    assume "can_be_true (AndExpr x y)"
    then obtain f g where fg: "default_context f" "expr_holds f x" "default_context g" "expr_holds g y" using ihs by auto
    obtain h where "default_context h" "expr_holds h x" "expr_holds h y"
      using combine_contexts [OF fg(1,3) d(3)] fg(2,4) by metis
    then show "\<exists>env. default_context env \<and> expr_holds env (AndExpr x y)" by auto
  next
    assume "can_be_false (AndExpr x y)"
    then show "\<exists>env. default_context env \<and> \<not> expr_holds env (AndExpr x y)" using ihs by auto
  qed
next
  case (OrExpr x y)
  then have d: "distinct (expr_tags x)" "distinct (expr_tags y)" "set (expr_tags x) \<inter> set (expr_tags y) = {}" by auto
  note ihs = OrExpr.IH(1) [OF d(1)] OrExpr.IH(2) [OF d(2)]
  show ?case
  proof (intro conjI impI)
    assume "can_be_true (OrExpr x y)"
    then show "\<exists>env. default_context env \<and> expr_holds env (OrExpr x y)" using ihs by auto
  next
    assume "can_be_false (OrExpr x y)"
    then obtain f g where fg: "default_context f" "\<not> expr_holds f x" "default_context g" "\<not> expr_holds g y" using ihs by auto
    obtain h where "default_context h" "\<not> expr_holds h x" "\<not> expr_holds h y"
      using combine_contexts [OF fg(1,3) d(3)] fg(2,4) by metis
    then show "\<exists>env. default_context env \<and> \<not> expr_holds env (OrExpr x y)" by auto
  qed
qed

section \<open>The directive grammar\<close>

lemma skip_blanks_space: "s \<noteq> [] \<Longrightarrow> \<not> blank (hd s) \<Longrightarrow> skip_blanks (CHR '' '' # s) = Some s"
  by (cases s) (simp_all add: skip_blanks_def blank_def)

lemma gosec_rule_length: "gosec_rule r \<Longrightarrow> length r = 4 \<and> r \<noteq> [] \<and> hd r = CHR ''G''"
  by (auto simp: gosec_rule_def split: list.splits)

lemma risk_id_length: "risk_id_year i = Some y \<Longrightarrow> length i = 11 \<and> i \<noteq> [] \<and> hd i = CHR ''A''"
  by (auto simp: risk_id_year_def split: list.splits if_splits)

text \<open>A directive printed with single spaces.\<close>

definition print_directive :: "string \<Rightarrow> string \<Rightarrow> string \<Rightarrow> string" where
  "print_directive rule riskID reason = directive_prefix @ '' '' @ rule @ '' -- '' @ riskID @ '' '' @ reason"

lemma match_directive_Some:
  assumes "match_directive text = Some (rule, riskID, reason)"
  shows "prefix directive_prefix text \<and> gosec_rule rule \<and> (\<exists>y. risk_id_year riskID = Some y) \<and> reason \<noteq> [] \<and> \<not> re_space (hd reason) \<and> CHR 0x0A \<notin> set reason"
  using assms by (auto simp: match_directive_def bind_eq_Some_conv split: if_splits)

section \<open>The walk\<close>

text \<open>The Go files outside every skipped directory, with their paths.\<close>

fun visited_file :: "scan_scope \<Rightarrow> string \<Rightarrow> fs_node \<Rightarrow> (string \<times> string) list"
and visited_files :: "scan_scope \<Rightarrow> string \<Rightarrow> fs_node list \<Rightarrow> (string \<times> string) list" where
  "visited_file scope dir (FsFile name contents) =
     (case contents of None \<Rightarrow> [] | Some text \<Rightarrow> if suffix ''.go'' name then [(child_path dir name, text)] else [])"
| "visited_file scope dir (FsDir name entries) =
     (case entries of None \<Rightarrow> []
      | Some nodes \<Rightarrow> if skips_dir scope (child_path dir name) then [] else visited_files scope (child_path dir name) nodes)"
| "visited_files scope dir [] = []"
| "visited_files scope dir (n # ns) = visited_file scope dir n @ visited_files scope dir ns"

definition file_found :: "go_tools \<Rightarrow> string list \<Rightarrow> suppression list \<Rightarrow> string \<times> string \<Rightarrow> bool" where
  "file_found tools tokens found f \<longleftrightarrow>
     (case f of (name, text) \<Rightarrow> \<exists>l. suppressions_in_file tools tokens name text = Inr l \<and> set l \<subseteq> set found)"

lemma file_found_mono: "file_found tools tokens found f \<Longrightarrow> set found \<subseteq> set found' \<Longrightarrow> file_found tools tokens found' f"
  by (auto simp: file_found_def split: prod.splits)

lemma walk_found:
  "walk_node tools scope tokens dir n = Inr found \<Longrightarrow> \<forall>f\<in>set (visited_file scope dir n). file_found tools tokens found f"
  "walk_nodes tools scope tokens dir ns = Inr found' \<Longrightarrow> \<forall>f\<in>set (visited_files scope dir ns). file_found tools tokens found' f"
proof (induction tools scope tokens dir n and tools scope tokens dir ns arbitrary: found and found' rule: walk_node_walk_nodes.induct)
  case (1 tools scope tokens dir name contents)
  then show ?case by (auto simp: file_found_def split: option.splits if_splits)
next
  case (2 tools scope tokens dir name entries)
  then show ?case by (auto split: option.splits if_splits)
next
  case (4 tools scope tokens dir n ns)
  then obtain a b where ab: "walk_node tools scope tokens dir n = Inr a" "walk_nodes tools scope tokens dir ns = Inr b" "found' = a @ b"
    by (auto split: sum.splits)
  have "\<forall>f\<in>set (visited_file scope dir n). file_found tools tokens a f" using "4.IH"(1) ab(1) by blast
  moreover have "\<forall>f\<in>set (visited_files scope dir ns). file_found tools tokens b f" using "4.IH"(2) ab(1,2) by blast
  ultimately show ?case using ab(3) by (auto intro: file_found_mono)
qed simp

lemma scan_found:
  assumes "scan_suppressions tools (Some (Some nodes)) scope tokens = Inr ss"
    and "(name, contents) \<in> set (visited_files scope ''.'' nodes)" and "gt_ParseFile tools name contents = Inr parsed"
    and "comment \<in> set (concat (map cg_Comments (pf_Comments parsed)))"
  shows "set (suppressions_of_comment tokens name (unreachable_by_pinned_scan tools parsed) comment) \<subseteq> set ss"
proof -
  obtain found where w: "walk_nodes tools scope tokens ''.'' nodes = Inr found" "ss = sort_suppressions found"
    using assms(1) by (auto simp: scan_suppressions_def split: if_splits elim: map_sum_InrE)
  have "file_found tools tokens found (name, contents)" using walk_found(2) [OF w(1)] assms(2) by blast
  then have "set (concat (map (suppressions_of_comment tokens name (unreachable_by_pinned_scan tools parsed))
      (concat (map cg_Comments (pf_Comments parsed))))) \<subseteq> set found"
    using assms(3) by (auto simp: file_found_def suppressions_in_file_def)
  then show ?thesis using assms(4) w(2) by (auto simp: sort_suppressions_def)
qed

lemma blanket_suppressions_blanket: "s \<in> set (blanket_suppressions tokens name line text) \<Longrightarrow> sp_Blanket s"
proof -
  have "\<forall>s\<in>set (blanket_lines tokens name k ls). sp_Blanket s" for k ls by (induction ls arbitrary: k) auto
  then show "s \<in> set (blanket_suppressions tokens name line text) \<Longrightarrow> sp_Blanket s" by (simp add: blanket_suppressions_def)
qed

section \<open>Properties\<close>

text \<open>
  Property C18. A build constraint with no repeated tag can be true for the pinned scan exactly
  when some assignment that sets only tags the toolchain may set makes it true.
\<close>

theorem can_be_true_exact:
  assumes "distinct (expr_tags e)"
  shows "can_be_true e \<longleftrightarrow> (\<exists>env. default_context env \<and> expr_holds env e)"
  using satisfiability_complete [OF assms] satisfiability_sound by blast

theorem can_be_true_exact_witness:
  "\<exists>env. default_context env \<and> expr_holds env (AndExpr (NotExpr (TagExpr ''windows'')) (OrExpr (TagExpr ''tools'') (TagExpr ''cgo'')))"
  by (rule can_be_true_exact [THEN iffD1]) (code_simp, code_simp)

text \<open>
  A directive printed with its rule, identifier and reason is parsed back.
\<close>

theorem directive_roundtrip:
  assumes "gosec_rule rule" and "risk_id_year riskID = Some y" and "reason \<noteq> []" and "\<not> re_space (hd reason)" and "CHR 0x0A \<notin> set reason"
  shows "match_directive (print_directive rule riskID reason) = Some (rule, riskID, reason)"
proof -
  have b: "\<not> blank (hd reason)" using assms(4) by (auto simp: blank_def re_space_def)
  have g: "\<not> blank (CHR ''G'')" "\<not> blank (CHR ''A'')" "\<not> blank (CHR ''-'')" by (simp_all add: blank_def)
  note r = gosec_rule_length [OF assms(1)] and i = risk_id_length [OF assms(2)]
  have 1: "skip_blanks (CHR '' '' # rule @ '' -- '' @ riskID @ CHR '' '' # reason) = Some (rule @ '' -- '' @ riskID @ CHR '' '' # reason)"
    by (rule skip_blanks_space) (use r g in simp_all)
  have 2: "skip_blanks (CHR '' '' # ''-- '' @ riskID @ CHR '' '' # reason) = Some (''-- '' @ riskID @ CHR '' '' # reason)"
    by (rule skip_blanks_space) (use g in simp_all)
  have 3: "skip_blanks (CHR '' '' # riskID @ CHR '' '' # reason) = Some (riskID @ CHR '' '' # reason)"
    by (rule skip_blanks_space) (use i g in simp_all)
  have 4: "skip_blanks (CHR '' '' # reason) = Some reason" by (rule skip_blanks_space) (use assms(3) b in simp_all)
  have "drop (length directive_prefix) (print_directive rule riskID reason) = CHR '' '' # rule @ '' -- '' @ riskID @ CHR '' '' # reason"
    "prefix directive_prefix (print_directive rule riskID reason)"
    by (simp_all add: print_directive_def)
  then show ?thesis using 1 2 3 4 r i assms by (simp add: match_directive_def)
qed

theorem directive_roundtrip_witness:
  "match_directive (print_directive ''G304'' ''AR-2026-001'' ''the path is fixed'') = Some (''G304'', ''AR-2026-001'', ''the path is fixed'')"
  by (rule directive_roundtrip [of _ _ 2026]; code_simp)

text \<open>
  Property C17. When the gate passes on what the scanner found, no comment of a scanned Go file
  holds a blanket suppression, and every comment that starts with the directive prefix stands in
  a reachable file, parses, and names an approved record of its own file and rule.
\<close>

theorem gate_accounts_for_comments:
  assumes "scan_suppressions tools (Some (Some nodes)) scope tokens = Inr ss"
    and "validate_registry (gate_input pol records ss verifier now) = Inr []" and "distinct (map rr_ID records)" and "now \<noteq> zero_time"
    and "(name, contents) \<in> set (visited_files scope ''.'' nodes)" and "gt_ParseFile tools name contents = Inr parsed"
    and "(line, raw) \<in> set (concat (map cg_Comments (pf_Comments parsed)))"
  shows "blanket_suppressions tokens name line raw = [] \<and>
    (prefix directive_prefix (trim_right blank raw) \<longrightarrow>
      \<not> unreachable_by_pinned_scan tools parsed \<and>
      (\<exists>rule riskID reason r. match_directive (trim_right blank raw) = Some (rule, riskID, reason) \<and>
        r \<in> set records \<and> rr_ID r = riskID \<and> rr_Rule r = rule \<and> rr_Path r = name \<and> approved pol verifier r))"
proof -
  have v: "registry_violations pol records ss verifier now = []"
    using assms(2) unfolding gate_input_def validate_registry_Inr [OF assms(4)] by simp
  have m: "matched (records_by_id records) s" if "s \<in> set ss" for s
    using v registry_violations_Nil [OF assms(3)] that by blast
  have a: "approved pol verifier r" if "r \<in> set records" for r
    using v registry_violations_Nil [OF assms(3)] that by blast
  let ?u = "unreachable_by_pinned_scan tools parsed"
  note found = scan_found [OF assms(1,5,6,7)]
  have "blanket_suppressions tokens name line raw = []"
  proof (rule ccontr)
    assume "blanket_suppressions tokens name line raw \<noteq> []"
    then obtain s where s: "s \<in> set (blanket_suppressions tokens name line raw)" by (meson last_in_set)
    then have "s\<lparr>sp_Unscanned := ?u\<rparr> \<in> set ss" using found by (auto simp: suppressions_of_comment_def)
    then show False using m [of "s\<lparr>sp_Unscanned := ?u\<rparr>"] blanket_suppressions_blanket [OF s]
      by (simp add: matched_def linked_def)
  qed
  moreover have "\<not> ?u \<and> (\<exists>rule riskID reason r. match_directive (trim_right blank raw) = Some (rule, riskID, reason) \<and>
        r \<in> set records \<and> rr_ID r = riskID \<and> rr_Rule r = rule \<and> rr_Path r = name \<and> approved pol verifier r)"
    if p: "prefix directive_prefix (trim_right blank raw)"
  proof -
    have "directive_suppression name ?u line (trim_right blank raw) \<in> set ss"
      using found p by (auto simp: suppressions_of_comment_def Let_def)
    then have d: "matched (records_by_id records) (directive_suppression name ?u line (trim_right blank raw))" by (rule m)
    show ?thesis
    proof (cases "match_directive (trim_right blank raw)")
      case None
      then show ?thesis using d by (simp add: directive_suppression_def matched_def linked_def Let_def)
    next
      case (Some t)
      obtain rule riskID reason where t: "t = (rule, riskID, reason)" by (cases t)
      show ?thesis using d Some t a
        by (auto simp: directive_suppression_def matched_def linked_def Let_def records_by_id_get [OF assms(3)])
    qed
  qed
  ultimately show ?thesis by blast
qed

definition sample_file :: parsed_file where
  "sample_file = \<lparr>pf_Package = 1, pf_Comments = [\<lparr>cg_Pos = 20, cg_Comments = [(12, print_directive ''G304'' ''AR-2026-001'' ''fixed'')]\<rparr>]\<rparr>"

definition sample_tools :: go_tools where
  "sample_tools = \<lparr>gt_ParseFile = (\<lambda>_ _. Inr sample_file), gt_IsGoBuild = (\<lambda>_. False), gt_ParseConstraint = (\<lambda>_. None)\<rparr>"

definition sample_tree :: "fs_node list" where
  "sample_tree = [FsDir ''cmd'' (Some [FsFile ''a.go'' (Some [])])]"

definition sample_scope :: scan_scope where
  "sample_scope = \<lparr>sc_excludedDirs = [''vendor''], sc_excludedPatterns = [''vendor'']\<rparr>"

theorem gate_accounts_for_comments_witness:
  "\<exists>ss. scan_suppressions sample_tools (Some (Some sample_tree)) sample_scope [''#nosec''] = Inr ss \<and>
     validate_registry (gate_input sample_risk_policy [sample_record] ss sample_verifier (day_number 2026 3 10 * day_length)) = Inr [] \<and>
     blanket_suppressions [''#nosec''] ''cmd/a.go'' 12 (print_directive ''G304'' ''AR-2026-001'' ''fixed'') = []"
proof -
  have s: "scan_suppressions sample_tools (Some (Some sample_tree)) sample_scope [''#nosec''] =
      Inr [directive_suppression ''cmd/a.go'' False 12 (print_directive ''G304'' ''AR-2026-001'' ''fixed'')]" by code_simp
  have v: "validate_registry (gate_input sample_risk_policy [sample_record]
      [directive_suppression ''cmd/a.go'' False 12 (print_directive ''G304'' ''AR-2026-001'' ''fixed'')] sample_verifier (day_number 2026 3 10 * day_length)) = Inr []"
    by code_simp
  have n: "day_number 2026 3 10 * day_length \<noteq> zero_time" by code_simp
  have f: "(''cmd/a.go'', []) \<in> set (visited_files sample_scope ''.'' sample_tree)" by code_simp
  have c: "(12, print_directive ''G304'' ''AR-2026-001'' ''fixed'') \<in> set (concat (map cg_Comments (pf_Comments sample_file)))"
    by (simp add: sample_file_def)
  have "blanket_suppressions [''#nosec''] ''cmd/a.go'' 12 (print_directive ''G304'' ''AR-2026-001'' ''fixed'') = []"
    by (rule gate_accounts_for_comments [OF s v _ n f _ c, THEN conjunct1]) (simp_all add: sample_tools_def)
  then show ?thesis using s v by blast
qed

end
