(* ===== verification/FindingCompare.thy ===== *)
theory FindingCompare
  imports RiskRegistry "HOL-Library.Multiset"
begin

text \<open>
  The comparison of two reports of a security scan
  (\<open>security/internal/securityfinding/comparator.go\<close>): findings are brought to a canonical form,
  deduplicated by location and matched by what they say. The tokens of a Go snippet come from
  the Go scanner, a parameter: for each token its kind and its literal, and the last scan error.
\<close>

section \<open>Findings\<close>

record finding =
  fi_Rule :: string
  fi_Path :: string
  fi_StartLine :: int
  fi_StartColumn :: int
  fi_Message :: string
  fi_SourceSnippet :: string

record expectation =
  ex_BaselineSHA :: string
  ex_CandidateSHA :: string
  ex_ScannerVersion :: string
  ex_ConfigHash :: string
  ex_FlagsHash :: string

record report_envelope =
  en_SourceSHA :: string
  en_ScannerVersion :: string
  en_ConfigHash :: string
  en_FlagsHash :: string
  en_Findings :: "finding list option"

record comparison =
  co_BaselineRawCount :: int
  co_CandidateRawCount :: int
  co_Known :: "finding list"
  co_New :: "finding list"
  co_Unclassified :: "finding list"

datatype finding_error =
    ExpectationIncomplete | ReportRequired string | FindingsRequired string | SourceMismatch string | PolicyMismatch string
  | FindingInvalid string nat finding_error | FindingConflict string nat | SemanticContentInvalid string nat
  | FieldsRequired | PositionInvalid | PathInvalid | PathNotRelative | PathTraversal
  | SnippetInvalid string | SnippetEmpty | SnippetRequired

type_synonym go_scanner = "string \<Rightarrow> (string \<times> string) list \<times> string option"

section \<open>Canonical form\<close>

function str_fields :: "string \<Rightarrow> string list" where
  "str_fields s =
     (let t = dropWhile is_space s in
      if t = [] then [] else takeWhile (\<lambda>c. \<not> is_space c) t # str_fields (dropWhile (\<lambda>c. \<not> is_space c) t))"
  by pat_completeness auto
termination
proof (relation "measure length")
  fix s t :: string
  assume t: "t = dropWhile is_space s" "t \<noteq> []"
  then have "\<not> is_space (hd t)" using hd_dropWhile by blast
  then have "length (dropWhile (\<lambda>c. \<not> is_space c) t) < length t"
    using t(2) by (cases t) (auto simp: less_Suc_eq_le length_dropWhile_le)
  also have "length t \<le> length s" unfolding t(1) by (rule length_dropWhile_le)
  finally show "(dropWhile (\<lambda>c. \<not> is_space c) t, s) \<in> measure length" by simp
qed simp

declare str_fields.simps [simp del]

definition is_letter :: "char \<Rightarrow> bool" where
  "is_letter c \<longleftrightarrow> login_char c \<and> \<not> is_digit c"

fun uri_scheme_from :: "bool \<Rightarrow> string \<Rightarrow> bool" where
  "uri_scheme_from first [] = False"
| "uri_scheme_from first (c # s) =
     (if c = CHR '':'' then \<not> first
      else if \<not> (c = CHR ''+'' \<or> c = CHR ''-'' \<or> c = CHR ''.'' \<or> is_letter c \<or> (\<not> first \<and> is_digit c)) then False
      else uri_scheme_from False s)"

definition has_uri_scheme :: "string \<Rightarrow> bool" where
  "has_uri_scheme s = uri_scheme_from True s"

definition canonical_path :: "string \<Rightarrow> finding_error + string" where
  "canonical_path v =
     (let trimmed = trim_space v in
      if trimmed = [] \<or> has_control trimmed then Inl PathInvalid
      else let replaced = replace_char (CHR 0x5C) ''/'' trimmed in
        if prefix ''//'' replaced \<or> prefix ''/'' replaced \<or> is_windows_drive_path replaced \<or> has_uri_scheme replaced
        then Inl PathNotRelative
        else if ''..'' \<in> set (split_on (CHR ''/'') replaced) then Inl PathTraversal
        else let cleaned = path_clean replaced in
          if cleaned = ''.'' \<or> cleaned = ''..'' \<or> prefix ''../'' cleaned then Inl PathNotRelative else Inr cleaned)"

definition snippet_parts :: "(string \<times> string) list \<Rightarrow> string list" where
  "snippet_parts tokens =
     map (\<lambda>(kind, literal). if literal = [] then kind else literal)
       (filter (\<lambda>(kind, literal). \<not> (kind = '';'' \<and> literal = [CHR 0x0A])) tokens)"

definition normalized_snippet :: "go_scanner \<Rightarrow> string \<Rightarrow> finding_error + string" where
  "normalized_snippet scan v =
     (case scan v of (tokens, err) \<Rightarrow>
        (case err of
           Some message \<Rightarrow> Inl (SnippetInvalid message)
         | None \<Rightarrow> let parts = snippet_parts tokens in
             if parts = [] then Inl SnippetEmpty else Inr (join [CHR 0x00] parts)))"

definition canonical_finding :: "go_scanner \<Rightarrow> finding \<Rightarrow> finding_error + finding" where
  "canonical_finding scan f =
     (if trim_space (fi_Rule f) = [] \<or> trim_space (fi_Message f) = [] \<or> trim_space (fi_SourceSnippet f) = [] then Inl FieldsRequired
      else if fi_StartLine f \<le> 0 \<or> fi_StartColumn f \<le> 0 then Inl PositionInvalid
      else (case canonical_path (fi_Path f) of
              Inl e \<Rightarrow> Inl e
            | Inr p \<Rightarrow>
                (case normalized_snippet scan (fi_SourceSnippet f) of
                   Inl e \<Rightarrow> Inl e
                 | Inr snippet \<Rightarrow>
                     Inr \<lparr>fi_Rule = join '' '' (str_fields (fi_Rule f)), fi_Path = p, fi_StartLine = fi_StartLine f,
                       fi_StartColumn = fi_StartColumn f, fi_Message = join '' '' (str_fields (fi_Message f)),
                       fi_SourceSnippet = snippet\<rparr>)))"

definition topology_key :: "finding \<Rightarrow> string" where
  "topology_key f = join [CHR 0x00] [fi_Rule f, fi_Path f, show_int (fi_StartLine f), show_int (fi_StartColumn f)]"

definition semantic_key :: "finding \<Rightarrow> finding_error + string" where
  "semantic_key f =
     (if fi_SourceSnippet f = [] then Inl SnippetRequired
      else Inr (join [CHR 0x00] [fi_Rule f, fi_Path f, fi_Message f, fi_SourceSnippet f]))"

definition sort_findings :: "finding list \<Rightarrow> finding list" where
  "sort_findings fs = sort_key (\<lambda>f. join [CHR 0x00] [topology_key f, fi_Message f, fi_SourceSnippet f]) fs"

section \<open>Reports\<close>

definition validate_expectation :: "expectation \<Rightarrow> finding_error option" where
  "validate_expectation e =
     (if trim_space (ex_BaselineSHA e) = [] \<or> trim_space (ex_CandidateSHA e) = [] \<or> trim_space (ex_ScannerVersion e) = [] \<or>
         trim_space (ex_ConfigHash e) = [] \<or> trim_space (ex_FlagsHash e) = []
      then Some ExpectationIncomplete else None)"

fun topology_loop ::
  "go_scanner \<Rightarrow> string \<Rightarrow> nat \<Rightarrow> finding list \<Rightarrow> (string, finding) gomap \<Rightarrow> finding_error + (string, finding) gomap" where
  "topology_loop scan label index [] byTopology = Inr byTopology"
| "topology_loop scan label index (current # rest) byTopology =
     (case canonical_finding scan current of
        Inl e \<Rightarrow> Inl (FindingInvalid label index e)
      | Inr c \<Rightarrow>
          (case gm_get byTopology (topology_key c) of
             Some existing \<Rightarrow>
               (case (semantic_key existing, semantic_key c) of
                  (Inr existingKey, Inr currentKey) \<Rightarrow>
                    if existingKey \<noteq> currentKey then Inl (FindingConflict label index)
                    else topology_loop scan label (Suc index) rest byTopology
                | _ \<Rightarrow> Inl (SemanticContentInvalid label index))
           | None \<Rightarrow> topology_loop scan label (Suc index) rest (gm_put (topology_key c) c byTopology)))"

definition normalize_report ::
  "go_scanner \<Rightarrow> report_envelope option \<Rightarrow> string \<Rightarrow> expectation \<Rightarrow> string \<Rightarrow> finding_error + finding list \<times> int" where
  "normalize_report scan report expectedSHA expected label =
     (case report of
        None \<Rightarrow> Inl (ReportRequired label)
      | Some r \<Rightarrow>
          (case en_Findings r of
             None \<Rightarrow> Inl (FindingsRequired label)
           | Some findings \<Rightarrow>
               if en_SourceSHA r \<noteq> expectedSHA then Inl (SourceMismatch label)
               else if en_ScannerVersion r \<noteq> ex_ScannerVersion expected \<or> en_ConfigHash r \<noteq> ex_ConfigHash expected \<or>
                  en_FlagsHash r \<noteq> ex_FlagsHash expected then Inl (PolicyMismatch label)
               else (case topology_loop scan label 0 findings [] of
                       Inl e \<Rightarrow> Inl e
                     | Inr byTopology \<Rightarrow> Inr (sort_findings (map snd byTopology), int (length findings)))))"

fun group_findings :: "finding list \<Rightarrow> (string, finding list) gomap \<Rightarrow> finding_error + (string, finding list) gomap" where
  "group_findings [] m = Inr m"
| "group_findings (f # fs) m =
     (case semantic_key f of
        Inl e \<Rightarrow> Inl e
      | Inr key \<Rightarrow> group_findings fs (gm_put key (gm_at [] m key @ [f]) m))"

text \<open>The verdict on one group of candidates with the same key.\<close>

definition classify_group :: "(string, finding list) gomap \<Rightarrow> comparison \<Rightarrow> string \<times> finding list \<Rightarrow> comparison" where
  "classify_group baselineByKey result entry =
     (case entry of (key, candidates) \<Rightarrow>
        let matches = gm_at [] baselineByKey key in
        if length matches = 0 then result\<lparr>co_New := co_New result @ candidates\<rparr>
        else if length matches = 1 \<and> length candidates = 1 then result\<lparr>co_Known := co_Known result @ [candidates ! 0]\<rparr>
        else result\<lparr>co_Unclassified := co_Unclassified result @ candidates\<rparr>)"

definition compare :: "go_scanner \<Rightarrow> expectation \<Rightarrow> report_envelope option \<Rightarrow> report_envelope option \<Rightarrow> finding_error + comparison" where
  "compare scan expected baseline candidate =
     (case validate_expectation expected of
        Some e \<Rightarrow> Inl e
      | None \<Rightarrow>
     (case normalize_report scan baseline (ex_BaselineSHA expected) expected ''baseline'' of
        Inl e \<Rightarrow> Inl e
      | Inr (baselineFindings, baselineCount) \<Rightarrow>
     (case normalize_report scan candidate (ex_CandidateSHA expected) expected ''candidate'' of
        Inl e \<Rightarrow> Inl e
      | Inr (candidateFindings, candidateCount) \<Rightarrow>
     (case group_findings baselineFindings [] of
        Inl e \<Rightarrow> Inl e
      | Inr baselineByKey \<Rightarrow>
     (case group_findings candidateFindings [] of
        Inl e \<Rightarrow> Inl e
      | Inr candidateByKey \<Rightarrow>
          let result = foldl (classify_group baselineByKey)
                \<lparr>co_BaselineRawCount = baselineCount, co_CandidateRawCount = candidateCount, co_Known = [], co_New = [], co_Unclassified = []\<rparr>
                candidateByKey
          in Inr (result\<lparr>co_Known := sort_findings (co_Known result), co_New := sort_findings (co_New result),
                co_Unclassified := sort_findings (co_Unclassified result)\<rparr>))))))"

end
