(* ===== verification/FindingReport.thy ===== *)
theory FindingReport
  imports FindingCompare
begin

text \<open>
  What the comparison of security reports guarantees: deduplication loses no location, the three
  classes partition the candidate findings, and a comparison without new or unclassified
  findings leaves no candidate finding unexplained.
\<close>

section \<open>Deduplication\<close>

definition topology_inv :: "go_scanner \<Rightarrow> finding list \<Rightarrow> (string, finding) gomap \<Rightarrow> bool" where
  "topology_inv scan seen m \<longleftrightarrow> gm_wf m \<and>
     (\<forall>k g. gm_get m k = Some g \<longrightarrow> k = topology_key g \<and> (\<exists>f\<in>set seen. canonical_finding scan f = Inr g)) \<and>
     (\<forall>f\<in>set seen. \<exists>g h. canonical_finding scan f = Inr g \<and> gm_get m (topology_key g) = Some h \<and> semantic_key h = semantic_key g)"

lemma topology_inv_put:
  assumes "topology_inv scan seen m" and "canonical_finding scan f = Inr g" and "gm_get m (topology_key g) = None"
  shows "topology_inv scan (seen @ [f]) (gm_put (topology_key g) g m)"
proof -
  have "\<exists>g' h. canonical_finding scan x = Inr g' \<and> gm_get (gm_put (topology_key g) g m) (topology_key g') = Some h \<and> semantic_key h = semantic_key g'"
    if "x \<in> set seen" for x
  proof -
    from assms(1) that obtain g' h where x: "canonical_finding scan x = Inr g'" "gm_get m (topology_key g') = Some h" "semantic_key h = semantic_key g'"
      unfolding topology_inv_def by blast
    then have "topology_key g' \<noteq> topology_key g" using assms(3) by auto
    then show ?thesis using x by simp
  qed
  then show ?thesis using assms unfolding topology_inv_def by auto
qed

lemma topology_loop_inv:
  assumes "topology_inv scan seen m" and "topology_loop scan label index fs m = Inr out"
  shows "topology_inv scan (seen @ fs) out"
  using assms
proof (induction fs arbitrary: seen m index)
  case (Cons f fs)
  obtain g where g: "canonical_finding scan f = Inr g" using Cons.prems(2) by (auto split: sum.splits)
  show ?case
  proof (cases "gm_get m (topology_key g)")
    case None
    then have "topology_loop scan label (Suc index) fs (gm_put (topology_key g) g m) = Inr out" using Cons.prems(2) g by simp
    from Cons.IH [OF topology_inv_put [OF Cons.prems(1) g None] this] show ?thesis by simp
  next
    case (Some h)
    then have rest: "topology_loop scan label (Suc index) fs m = Inr out" and key: "semantic_key h = semantic_key g"
      using Cons.prems(2) g by (auto split: sum.splits if_splits)
    have "topology_inv scan (seen @ [f]) m"
      using Cons.prems(1) g Some key unfolding topology_inv_def by auto
    from Cons.IH [OF this rest] show ?thesis by simp
  qed
qed simp

lemma normalize_report_Inr:
  assumes "normalize_report scan report sha ex label = Inr (fs, n)"
  obtains r raw m where "report = Some r" and "en_Findings r = Some raw" and "en_SourceSHA r = sha"
    and "n = int (length raw)" and "topology_inv scan raw m" and "fs = sort_findings (map snd m)"
proof -
  obtain r raw m where r: "report = Some r" "en_Findings r = Some raw" "en_SourceSHA r = sha" "n = int (length raw)"
      "topology_loop scan label 0 raw [] = Inr m" "fs = sort_findings (map snd m)"
    using assms by (auto simp: normalize_report_def split: option.splits if_splits sum.splits)
  have "topology_inv scan [] []" by (simp add: topology_inv_def)
  from topology_loop_inv [OF this r(5)] show ?thesis using that r by simp
qed

lemma set_sort_findings [simp]: "set (sort_findings fs) = set fs" and mset_sort_findings [simp]: "mset (sort_findings fs) = mset fs"
  by (simp_all add: sort_findings_def)

text \<open>Every raw finding is represented at its location by one that says the same.\<close>

lemma normalize_report_represents:
  assumes "normalize_report scan (Some r) sha ex label = Inr (fs, n)" and "en_Findings r = Some raw"
  shows "f \<in> set raw \<Longrightarrow> \<exists>g h. canonical_finding scan f = Inr g \<and> h \<in> set fs \<and> topology_key h = topology_key g \<and> semantic_key h = semantic_key g"
    and "h \<in> set fs \<Longrightarrow> \<exists>f\<in>set raw. canonical_finding scan f = Inr h"
proof -
  obtain m where m: "topology_inv scan raw m" "fs = sort_findings (map snd m)"
    using normalize_report_Inr [OF assms(1)] assms(2) by (metis option.inject)
  show "\<exists>g h. canonical_finding scan f = Inr g \<and> h \<in> set fs \<and> topology_key h = topology_key g \<and> semantic_key h = semantic_key g" if "f \<in> set raw"
  proof -
    from m(1) that obtain g h where g: "canonical_finding scan f = Inr g" "gm_get m (topology_key g) = Some h" "semantic_key h = semantic_key g"
      unfolding topology_inv_def by blast
    have "topology_key h = topology_key g" using m(1) g(2) unfolding topology_inv_def by metis
    moreover have "h \<in> set fs" using gm_get_Some_in [OF g(2)] m(2) by force
    ultimately show ?thesis using g by blast
  qed
  show "\<exists>f\<in>set raw. canonical_finding scan f = Inr h" if "h \<in> set fs"
  proof -
    have "h \<in> snd ` set m" using that unfolding m(2) set_sort_findings by simp
    then obtain k where "(k, h) \<in> set m" by auto
    then have "gm_get m k = Some h" using m(1) by (auto simp: topology_inv_def)
    then show ?thesis using m(1) unfolding topology_inv_def by blast
  qed
qed

section \<open>Groups\<close>

definition says :: "string \<Rightarrow> finding \<Rightarrow> bool" where
  "says key f \<longleftrightarrow> semantic_key f = Inr key"

lemma mset_concat_put:
  "gm_wf m \<Longrightarrow> mset (concat (map snd (gm_put k (gm_at [] m k @ [f]) m))) = mset (concat (map snd m)) + {#f#}"
  unfolding gm_put_def by (induction m) (auto simp: gm_at_def gm_wf_def gm_get_def)

lemma group_findings_Inr:
  assumes "group_findings fs m = Inr out" and "gm_wf m"
  shows "gm_wf out \<and> gm_at [] out k = gm_at [] m k @ filter (says k) fs \<and>
    set (gm_keys out) = set (gm_keys m) \<union> {k. \<exists>f\<in>set fs. says k f} \<and>
    mset (concat (map snd out)) = mset (concat (map snd m)) + mset fs \<and> (\<forall>f\<in>set fs. \<exists>k. says k f)"
  using assms
proof (induction fs arbitrary: m)
  case (Cons f fs)
  then obtain key where key: "semantic_key f = Inr key" and rest: "group_findings fs (gm_put key (gm_at [] m key @ [f]) m) = Inr out"
    by (auto split: sum.splits)
  have "gm_wf (gm_put key (gm_at [] m key @ [f]) m)" using Cons.prems(2) by simp
  from Cons.IH [OF rest this] show ?case using key mset_concat_put [OF Cons.prems(2), of key f] by (auto simp: says_def)
qed simp

section \<open>Classes\<close>

definition no_match :: "(string, finding list) gomap \<Rightarrow> string \<times> finding list \<Rightarrow> bool" where
  "no_match bm e \<longleftrightarrow> gm_at [] bm (fst e) = []"

definition one_match :: "(string, finding list) gomap \<Rightarrow> string \<times> finding list \<Rightarrow> bool" where
  "one_match bm e \<longleftrightarrow> length (gm_at [] bm (fst e)) = 1 \<and> length (snd e) = 1"

lemma one_match_not_no: "one_match bm e \<Longrightarrow> \<not> no_match bm e"
  by (auto simp: one_match_def no_match_def)

lemma classify_group_cases:
  "no_match bm e \<Longrightarrow> classify_group bm r e = r\<lparr>co_New := co_New r @ snd e\<rparr>"
  "one_match bm e \<Longrightarrow> classify_group bm r e = r\<lparr>co_Known := co_Known r @ snd e\<rparr>"
  "\<not> no_match bm e \<Longrightarrow> \<not> one_match bm e \<Longrightarrow> classify_group bm r e = r\<lparr>co_Unclassified := co_Unclassified r @ snd e\<rparr>"
proof -
  obtain k c where e: "e = (k, c)" by (cases e)
  have one: "length c = Suc 0 \<Longrightarrow> [c ! 0] = c" by (cases c) auto
  show "no_match bm e \<Longrightarrow> classify_group bm r e = r\<lparr>co_New := co_New r @ snd e\<rparr>"
    "one_match bm e \<Longrightarrow> classify_group bm r e = r\<lparr>co_Known := co_Known r @ snd e\<rparr>"
    "\<not> no_match bm e \<Longrightarrow> \<not> one_match bm e \<Longrightarrow> classify_group bm r e = r\<lparr>co_Unclassified := co_Unclassified r @ snd e\<rparr>"
    using one by (auto simp: classify_group_def e no_match_def one_match_def Let_def)
qed

lemma classify_loop:
  "foldl (classify_group bm) r es = r\<lparr>
     co_New := co_New r @ concat (map snd (filter (no_match bm) es)),
     co_Known := co_Known r @ concat (map snd (filter (one_match bm) es)),
     co_Unclassified := co_Unclassified r @ concat (map snd (filter (\<lambda>e. \<not> no_match bm e \<and> \<not> one_match bm e) es))\<rparr>"
proof (induction es arbitrary: r)
  case (Cons e es)
  consider "no_match bm e" "\<not> one_match bm e" | "one_match bm e" "\<not> no_match bm e" | "\<not> no_match bm e" "\<not> one_match bm e"
    using one_match_not_no by blast
  then show ?case unfolding foldl_Cons Cons.IH by cases (simp_all add: classify_group_cases)
qed simp

lemma classes_partition:
  "mset (concat (map snd (filter (one_match bm) es))) + mset (concat (map snd (filter (no_match bm) es))) +
    mset (concat (map snd (filter (\<lambda>e. \<not> no_match bm e \<and> \<not> one_match bm e) es))) = mset (concat (map snd es))"
proof (induction es)
  case (Cons e es)
  consider "no_match bm e" "\<not> one_match bm e" | "one_match bm e" "\<not> no_match bm e" | "\<not> no_match bm e" "\<not> one_match bm e"
    using one_match_not_no by blast
  then show ?case using Cons.IH by cases (simp_all add: union_ac flip: Cons.IH)
qed simp

text \<open>A finding belongs to the group of its key.\<close>

lemma in_group:
  assumes "group_findings fs [] = Inr m"
  shows "f \<in> set (concat (map snd (filter P m))) \<longleftrightarrow> f \<in> set fs \<and> (\<exists>k. says k f \<and> P (k, filter (says k) fs))"
proof -
  have g: "gm_wf m" "\<And>k. gm_at [] m k = filter (says k) fs" "\<And>k. k \<in> set (gm_keys m) \<longleftrightarrow> (\<exists>f\<in>set fs. says k f)"
    using group_findings_Inr [OF assms] by auto
  have entry: "(k, c) \<in> set m \<longleftrightarrow> (\<exists>f\<in>set fs. says k f) \<and> c = filter (says k) fs" for k c
  proof
    assume "(k, c) \<in> set m"
    then have "gm_get m k = Some c" using g(1) by blast
    then show "(\<exists>f\<in>set fs. says k f) \<and> c = filter (says k) fs" using g(2) [of k] g(3) [of k] by (auto simp: gm_at_def gm_keys_iff)
  next
    assume "(\<exists>f\<in>set fs. says k f) \<and> c = filter (says k) fs"
    then obtain c' where "gm_get m k = Some c'" and c: "c = filter (says k) fs" using g(3) [of k] by (auto simp: gm_keys_iff)
    then show "(k, c) \<in> set m" using g(2) [of k] gm_get_Some_in by (fastforce simp: gm_at_def)
  qed
  have "f \<in> set (concat (map snd (filter P m))) \<longleftrightarrow> (\<exists>k c. (k, c) \<in> set m \<and> P (k, c) \<and> f \<in> set c)" by auto
  then show ?thesis unfolding entry by auto
qed

lemma compare_Inr:
  assumes "compare scan ex b c = Inr r"
  obtains B C bm cm nb nc where "normalize_report scan b (ex_BaselineSHA ex) ex ''baseline'' = Inr (B, nb)"
    and "normalize_report scan c (ex_CandidateSHA ex) ex ''candidate'' = Inr (C, nc)"
    and "group_findings B [] = Inr bm" and "group_findings C [] = Inr cm"
    and "co_BaselineRawCount r = nb" and "co_CandidateRawCount r = nc"
    and "co_Known r = sort_findings (concat (map snd (filter (one_match bm) cm)))"
    and "co_New r = sort_findings (concat (map snd (filter (no_match bm) cm)))"
    and "co_Unclassified r = sort_findings (concat (map snd (filter (\<lambda>e. \<not> no_match bm e \<and> \<not> one_match bm e) cm)))"
  using assms
  by (auto simp: compare_def classify_loop Let_def split: option.splits sum.splits prod.splits)

text \<open>
  The keys are joined with the byte that also separates the tokens of a snippet, and a message
  may contain it: two findings with different messages and snippets can say the same.
\<close>

lemma semantic_key_ambiguous:
  "semantic_key \<lparr>fi_Rule = ''G304'', fi_Path = ''a.go'', fi_StartLine = 1, fi_StartColumn = 1, fi_Message = ''m'',
       fi_SourceSnippet = [CHR ''x'', CHR 0x00, CHR ''y'']\<rparr> =
   semantic_key \<lparr>fi_Rule = ''G304'', fi_Path = ''a.go'', fi_StartLine = 9, fi_StartColumn = 1, fi_Message = [CHR ''m'', CHR 0x00, CHR ''x''],
       fi_SourceSnippet = ''y''\<rparr>"
  by (simp add: semantic_key_def)

section \<open>Properties\<close>

text \<open>
  Property C19. A comparison splits the candidate findings into three classes: a finding is new
  when no baseline finding says the same, known when exactly one baseline and one candidate
  finding say it, and unclassified otherwise.
\<close>

theorem compare_classes:
  assumes "compare scan ex b c = Inr r"
  shows "\<exists>B C nb nc. normalize_report scan b (ex_BaselineSHA ex) ex ''baseline'' = Inr (B, nb) \<and>
    normalize_report scan c (ex_CandidateSHA ex) ex ''candidate'' = Inr (C, nc) \<and>
    mset (co_Known r) + mset (co_New r) + mset (co_Unclassified r) = mset C \<and>
    set (co_New r) = {f \<in> set C. \<not> list_ex (\<lambda>g. semantic_key g = semantic_key f) B} \<and>
    set (co_Known r) = {f \<in> set C. length (filter (\<lambda>g. semantic_key g = semantic_key f) B) = 1 \<and>
      length (filter (\<lambda>g. semantic_key g = semantic_key f) C) = 1}"
  using assms
proof (rule compare_Inr)
  fix B C bm cm nb nc
  assume n: "normalize_report scan b (ex_BaselineSHA ex) ex ''baseline'' = Inr (B, nb)"
      "normalize_report scan c (ex_CandidateSHA ex) ex ''candidate'' = Inr (C, nc)"
    and g: "group_findings B [] = Inr bm" "group_findings C [] = Inr cm"
    and k: "co_Known r = sort_findings (concat (map snd (filter (one_match bm) cm)))"
      "co_New r = sort_findings (concat (map snd (filter (no_match bm) cm)))"
      "co_Unclassified r = sort_findings (concat (map snd (filter (\<lambda>e. \<not> no_match bm e \<and> \<not> one_match bm e) cm)))"
  have bm: "gm_at [] bm x = filter (says x) B" for x using group_findings_Inr [OF g(1)] by simp
  have cm: "mset (concat (map snd cm)) = mset C" "\<forall>f\<in>set C. \<exists>k. says k f" using group_findings_Inr [OF g(2)] by auto
  have same: "filter (says x) X = filter (\<lambda>g. semantic_key g = semantic_key f) X" if "says x f" for x f X
    using that by (intro filter_cong) (auto simp: says_def)
  have new: "f \<in> set (co_New r) \<longleftrightarrow> f \<in> set C \<and> \<not> list_ex (\<lambda>g. semantic_key g = semantic_key f) B" for f
    unfolding k set_sort_findings in_group [OF g(2)] no_match_def fst_conv bm filter_empty_conv list_ex_iff
    using cm(2) by (auto simp: says_def)
  have known: "f \<in> set (co_Known r) \<longleftrightarrow> f \<in> set C \<and> length (filter (\<lambda>g. semantic_key g = semantic_key f) B) = 1 \<and>
      length (filter (\<lambda>g. semantic_key g = semantic_key f) C) = 1" for f
    unfolding k set_sort_findings in_group [OF g(2)] one_match_def fst_conv snd_conv bm
    using cm(2) same by metis
  have "mset (co_Known r) + mset (co_New r) + mset (co_Unclassified r) = mset C"
    using cm(1) classes_partition [of bm cm] by (simp add: k)
  moreover have "set (co_New r) = {f \<in> set C. \<not> list_ex (\<lambda>g. semantic_key g = semantic_key f) B}" using new by blast
  moreover have "set (co_Known r) = {f \<in> set C. length (filter (\<lambda>g. semantic_key g = semantic_key f) B) = 1 \<and>
      length (filter (\<lambda>g. semantic_key g = semantic_key f) C) = 1}" using known by blast
  ultimately show ?thesis using n by (intro exI conjI)
qed

definition sample_scanner :: go_scanner where
  "sample_scanner s = ([(''IDENT'', s)], None)"

definition sample_expectation :: expectation where
  "sample_expectation = \<lparr>ex_BaselineSHA = ''b'', ex_CandidateSHA = ''c'', ex_ScannerVersion = ''v'', ex_ConfigHash = ''h'', ex_FlagsHash = ''f''\<rparr>"

definition sample_finding :: "int \<Rightarrow> string \<Rightarrow> finding" where
  "sample_finding line message = \<lparr>fi_Rule = ''G304'', fi_Path = ''./a.go'', fi_StartLine = line, fi_StartColumn = 1,
     fi_Message = message, fi_SourceSnippet = ''x''\<rparr>"

definition sample_report :: "string \<Rightarrow> finding list \<Rightarrow> report_envelope" where
  "sample_report sha fs = \<lparr>en_SourceSHA = sha, en_ScannerVersion = ''v'', en_ConfigHash = ''h'', en_FlagsHash = ''f'', en_Findings = Some fs\<rparr>"

theorem compare_classes_witness:
  "\<exists>r. compare sample_scanner sample_expectation (Some (sample_report ''b'' [sample_finding 3 ''m'']))
       (Some (sample_report ''c'' [sample_finding 5 '' m'', sample_finding 6 ''n''])) = Inr r \<and>
     length (co_Known r) = 1 \<and> length (co_New r) = 1 \<and> size (mset (co_Known r) + mset (co_New r) + mset (co_Unclassified r)) = 2"
proof -
  have "map_sum id (\<lambda>r. (length (co_Known r), length (co_New r), length (co_Unclassified r)))
      (compare sample_scanner sample_expectation (Some (sample_report ''b'' [sample_finding 3 ''m'']))
       (Some (sample_report ''c'' [sample_finding 5 '' m'', sample_finding 6 ''n'']))) = Inr (1, 1, 0)" by code_simp
  then obtain r where r: "compare sample_scanner sample_expectation (Some (sample_report ''b'' [sample_finding 3 ''m'']))
       (Some (sample_report ''c'' [sample_finding 5 '' m'', sample_finding 6 ''n''])) = Inr r"
     "(length (co_Known r), length (co_New r), length (co_Unclassified r)) = (1, 1, 0)" by (rule map_sum_InrE)
  have "\<exists>C. mset (co_Known r) + mset (co_New r) + mset (co_Unclassified r) = mset C" using compare_classes [OF r(1)] by blast
  then show ?thesis using r by auto
qed

text \<open>
  When a comparison has no new and no unclassified finding, every finding of the
  candidate report, however it was deduplicated, says the same as a finding of the baseline
  report.
\<close>

theorem clean_comparison_explains:
  assumes "compare scan ex (Some b) (Some c) = Inr r" and "co_New r = []" and "co_Unclassified r = []"
    and "en_Findings b = Some baseline" and "en_Findings c = Some candidate" and "f \<in> set candidate"
  shows "\<exists>g f' g'. canonical_finding scan f = Inr g \<and> f' \<in> set baseline \<and> canonical_finding scan f' = Inr g' \<and> semantic_key g' = semantic_key g"
  using assms(1)
proof (rule compare_Inr)
  fix B C bm cm nb nc
  assume n: "normalize_report scan (Some b) (ex_BaselineSHA ex) ex ''baseline'' = Inr (B, nb)"
      "normalize_report scan (Some c) (ex_CandidateSHA ex) ex ''candidate'' = Inr (C, nc)"
    and g: "group_findings B [] = Inr bm" "group_findings C [] = Inr cm"
    and k: "co_New r = sort_findings (concat (map snd (filter (no_match bm) cm)))"
  obtain g h where gh: "canonical_finding scan f = Inr g" "h \<in> set C" "semantic_key h = semantic_key g"
    using normalize_report_represents(1) [OF n(2) assms(5,6)] by blast
  have bm: "gm_at [] bm x = filter (says x) B" for x using group_findings_Inr [OF g(1)] by simp
  have "\<forall>f\<in>set C. \<exists>k. says k f" using group_findings_Inr [OF g(2)] by simp
  then obtain x where x: "says x h" using gh(2) by blast
  have "h \<notin> set (concat (map snd (filter (no_match bm) cm)))" using assms(2) by (metis k set_sort_findings empty_iff empty_set)
  then have "\<not> no_match bm (x, filter (says x) C)" using x gh(2) in_group [OF g(2)] by blast
  then obtain g' where "g' \<in> set B" "says x g'" by (auto simp: no_match_def bm filter_empty_conv)
  moreover obtain f' where "f' \<in> set baseline" "canonical_finding scan f' = Inr g'"
    using normalize_report_represents(2) [OF n(1) assms(4) \<open>g' \<in> set B\<close>] by blast
  ultimately show ?thesis using gh x by (auto simp: says_def)
qed

theorem clean_comparison_explains_witness:
  "\<exists>g f' g'. canonical_finding sample_scanner (sample_finding 5 '' m'') = Inr g \<and> f' \<in> set [sample_finding 3 ''m''] \<and>
     canonical_finding sample_scanner f' = Inr g' \<and> semantic_key g' = semantic_key g"
proof -
  let ?c = "compare sample_scanner sample_expectation (Some (sample_report ''b'' [sample_finding 3 ''m'']))
      (Some (sample_report ''c'' [sample_finding 5 '' m'']))"
  have "map_sum id (\<lambda>r. (co_New r, co_Unclassified r)) ?c = Inr ([], [])" by code_simp
  then obtain r where r: "?c = Inr r" "(co_New r, co_Unclassified r) = ([], [])" by (rule map_sum_InrE)
  from r(2) have e: "co_New r = []" "co_Unclassified r = []" by simp_all
  show ?thesis by (rule clean_comparison_explains [OF r(1) e]) (simp add: sample_report_def, simp add: sample_report_def, simp)
qed

end
