(* ===== verification/FindingIngest.thy ===== *)
theory FindingIngest
  imports FindingReport
begin

text \<open>
  The ingestion of SARIF (\<open>security/internal/securityfinding/sarif.go\<close>). The JSON decoder is a
  parameter, one function per type it decodes; the check that a raw value is an array is
  modelled on the raw bytes. What is ingested is acceptable to the comparison.
\<close>

section \<open>The document\<close>

text \<open>A pointer that may be nil is an option; a raw message is its bytes.\<close>

record sarif_document =
  sd_Version :: string
  sd_Runs :: string

record sarif_run =
  sn_DriverName :: "string option option"
  sn_Results :: string

record sarif_result =
  sr_RuleID :: string
  sr_Message :: "string option"
  sr_Locations :: string

record sarif_region =
  sg_StartLine :: int
  sg_StartColumn :: int
  sg_Snippet :: "string option"

record sarif_physical_location =
  sl_ArtifactURI :: "string option"
  sl_Region :: "sarif_region option"

record json_decoder =
  js_Document :: "string \<Rightarrow> string + sarif_document"
  js_Runs :: "string \<Rightarrow> string + sarif_run list"
  js_Results :: "string \<Rightarrow> string + sarif_result list"
  js_Locations :: "string \<Rightarrow> string + sarif_physical_location option list"

record ingested_report =
  ig_Findings :: "finding list"
  ig_RawResultCount :: int
  ig_LocationUniqueCount :: int

type_synonym source_resolver = "string \<Rightarrow> string + string"

datatype sarif_error =
    SarifDecode string | SarifVersion | RunsNotArray | RunsDecode string | NotOneGosecRun | ResultsNotArray | ResultsDecode string
  | ResultInvalid nat sarif_error | MessageRequired | LocationsNotArray | LocationsDecode string | NotOneLocation
  | PhysicalLocationRequired | URINotTrimmed | CanonicalError finding_error | RegionInvalid | SnippetMissing
  | ResolverRequired | ResolveFailed string string | LineOutside int string | LineUnusable int string finding_error

definition is_explicit_json_array :: "string \<Rightarrow> bool" where
  "is_explicit_json_array v =
     (let trimmed = trim_space v in 2 \<le> length trimmed \<and> hd trimmed = CHR ''['' \<and> last trimmed = CHR '']'')"

section \<open>One result\<close>

definition canonical_sarif_uri :: "string \<Rightarrow> sarif_error + string" where
  "canonical_sarif_uri v =
     (if v \<noteq> trim_space v \<or> contains v [CHR 0x5C] then Inl URINotTrimmed
      else map_sum CanonicalError id (canonical_path v))"

definition usable_snippet :: "go_scanner \<Rightarrow> string option \<Rightarrow> sarif_error + string" where
  "usable_snippet scan snippet =
     (case snippet of
        None \<Rightarrow> Inl SnippetMissing
      | Some text \<Rightarrow>
          if trim_space text = [] then Inl SnippetMissing
          else (case normalized_snippet scan text of Inl e \<Rightarrow> Inl (CanonicalError e) | Inr _ \<Rightarrow> Inr text))"

text \<open>Carriage returns before a newline are dropped.\<close>

fun unix_lines :: "string \<Rightarrow> string" where
  "unix_lines [] = []"
| "unix_lines [c] = [c]"
| "unix_lines (c # d # s) =
     (if c = CHR 0x0D \<and> d = CHR 0x0A then CHR 0x0A # unix_lines s else c # unix_lines (d # s))"

definition resolve_snippet :: "go_scanner \<Rightarrow> source_resolver option \<Rightarrow> string \<Rightarrow> int \<Rightarrow> sarif_error + string" where
  "resolve_snippet scan resolver repositoryPath startLine =
     (case canonical_path repositoryPath of
        Inl e \<Rightarrow> Inl (CanonicalError e)
      | Inr p \<Rightarrow>
          (case resolver of
             None \<Rightarrow> Inl ResolverRequired
           | Some read \<Rightarrow>
               (case read p of
                  Inl e \<Rightarrow> Inl (ResolveFailed p e)
                | Inr contents \<Rightarrow>
                    let ls = split_on (CHR 0x0A) (unix_lines contents) in
                    if int (length ls) < startLine then Inl (LineOutside startLine p)
                    else let snippet = ls ! nat (startLine - 1) in
                      (case normalized_snippet scan snippet of
                         Inl e \<Rightarrow> Inl (LineUnusable startLine p e)
                       | Inr _ \<Rightarrow> Inr snippet))))"

definition finding_from_sarif_result ::
  "go_scanner \<Rightarrow> json_decoder \<Rightarrow> source_resolver option \<Rightarrow> sarif_result \<Rightarrow> sarif_error + finding" where
  "finding_from_sarif_result scan json resolver result =
     (case sr_Message result of
        None \<Rightarrow> Inl MessageRequired
      | Some message \<Rightarrow>
          if \<not> is_explicit_json_array (sr_Locations result) then Inl LocationsNotArray
          else
     (case js_Locations json (sr_Locations result) of
        Inl e \<Rightarrow> Inl (LocationsDecode e)
      | Inr locations \<Rightarrow>
     (case locations of
        [location] \<Rightarrow>
     (case location of
        None \<Rightarrow> Inl PhysicalLocationRequired
      | Some physical \<Rightarrow>
     (case (sl_ArtifactURI physical, sl_Region physical) of
        (Some uri, Some region) \<Rightarrow>
     (case canonical_sarif_uri uri of
        Inl e \<Rightarrow> Inl e
      | Inr canonicalPath \<Rightarrow>
          if sg_StartLine region \<le> 0 \<or> sg_StartColumn region \<le> 0 then Inl RegionInvalid
          else
     (case (case usable_snippet scan (sg_Snippet region) of
              Inl _ \<Rightarrow> resolve_snippet scan resolver canonicalPath (sg_StartLine region)
            | Inr s \<Rightarrow> Inr s) of
        Inl e \<Rightarrow> Inl e
      | Inr snippet \<Rightarrow>
     (case canonical_finding scan \<lparr>fi_Rule = sr_RuleID result, fi_Path = canonicalPath, fi_StartLine = sg_StartLine region,
             fi_StartColumn = sg_StartColumn region, fi_Message = message, fi_SourceSnippet = snippet\<rparr> of
        Inl e \<Rightarrow> Inl (CanonicalError e)
      | Inr c \<Rightarrow> Inr (c\<lparr>fi_SourceSnippet := snippet\<rparr>))))
      | _ \<Rightarrow> Inl PhysicalLocationRequired))
      | _ \<Rightarrow> Inl NotOneLocation)))"

section \<open>The report\<close>

fun results_loop ::
  "go_scanner \<Rightarrow> json_decoder \<Rightarrow> source_resolver option \<Rightarrow> nat \<Rightarrow> sarif_result list \<Rightarrow> finding list \<Rightarrow> sarif_error + finding list" where
  "results_loop scan json resolver index [] findings = Inr findings"
| "results_loop scan json resolver index (r # rs) findings =
     (case finding_from_sarif_result scan json resolver r of
        Inl e \<Rightarrow> Inl (ResultInvalid index e)
      | Inr f \<Rightarrow> results_loop scan json resolver (Suc index) rs (findings @ [f]))"

definition ingest_sarif ::
  "go_scanner \<Rightarrow> json_decoder \<Rightarrow> string \<Rightarrow> source_resolver option \<Rightarrow> sarif_error + ingested_report" where
  "ingest_sarif scan json contents resolver =
     (case js_Document json contents of
        Inl e \<Rightarrow> Inl (SarifDecode e)
      | Inr document \<Rightarrow>
          if sd_Version document \<noteq> ''2.1.0'' then Inl SarifVersion
          else if \<not> is_explicit_json_array (sd_Runs document) then Inl RunsNotArray
          else
     (case js_Runs json (sd_Runs document) of
        Inl e \<Rightarrow> Inl (RunsDecode e)
      | Inr runs \<Rightarrow>
          if length runs \<noteq> 1 \<or> sn_DriverName (runs ! 0) \<noteq> Some (Some ''gosec'') then Inl NotOneGosecRun
          else if \<not> is_explicit_json_array (sn_Results (runs ! 0)) then Inl ResultsNotArray
          else
     (case js_Results json (sn_Results (runs ! 0)) of
        Inl e \<Rightarrow> Inl (ResultsDecode e)
      | Inr results \<Rightarrow>
     (case results_loop scan json resolver 0 results [] of
        Inl e \<Rightarrow> Inl e
      | Inr findings \<Rightarrow>
          Inr \<lparr>ig_Findings = findings, ig_RawResultCount = int (length results),
            ig_LocationUniqueCount = int (length (remdups (map topology_key findings)))\<rparr>))))"

section \<open>What is ingested\<close>

definition is_word :: "string \<Rightarrow> bool" where
  "is_word w \<longleftrightarrow> w \<noteq> [] \<and> list_all (\<lambda>c. \<not> is_space c) w"

lemma fields_Nil [simp]: "str_fields [] = []"
  by (simp add: str_fields.simps)

lemma fields_words: "list_all is_word (str_fields s)"
proof (induction s rule: str_fields.induct)
  case (1 s)
  show ?case
  proof (cases "dropWhile is_space s = []")
    case True
    then show ?thesis by (simp add: str_fields.simps [of s] Let_def)
  next
    case False
    then have "\<not> is_space (hd (dropWhile is_space s))" by (rule hd_dropWhile)
    then have "is_word (takeWhile (\<lambda>c. \<not> is_space c) (dropWhile is_space s))"
      using False by (cases "dropWhile is_space s") (auto simp: is_word_def list_all_iff dest: set_takeWhileD)
    then show ?thesis using 1 False by (simp add: str_fields.simps [of s] Let_def)
  qed
qed

lemma fields_space: "str_fields (CHR '' '' # s) = str_fields s"
  by (subst str_fields.simps, subst (2) str_fields.simps) (simp add: is_space_def Let_def)

lemma fields_word: "is_word w \<Longrightarrow> rest = [] \<or> (\<exists>s. rest = CHR '' '' # s) \<Longrightarrow> str_fields (w @ rest) = w # str_fields rest"
proof -
  assume w: "is_word w" and r: "rest = [] \<or> (\<exists>s. rest = CHR '' '' # s)"
  have sp: "is_space (CHR '' '')" by (simp add: is_space_def)
  have d: "dropWhile is_space (w @ rest) = w @ rest" using w by (cases w) (auto simp: is_word_def)
  have "takeWhile (\<lambda>c. \<not> is_space c) (w @ rest) = w" "dropWhile (\<lambda>c. \<not> is_space c) (w @ rest) = rest"
    using w r sp by (auto simp: is_word_def list_all_iff takeWhile_append dropWhile_append)
  then show ?thesis using w d by (subst str_fields.simps) (auto simp: is_word_def Let_def)
qed

lemma fields_join: "list_all is_word ws \<Longrightarrow> str_fields (join '' '' ws) = ws"
proof (induction ws rule: induct_list012)
  case (2 w)
  then show ?case using fields_word [of w "[]"] by simp
next
  case (3 v w ws)
  then show ?case using fields_word [of v "CHR '' '' # join '' '' (w # ws)"] by (simp add: fields_space)
qed simp

lemma trim_space_Nil_iff: "trim_space s = [] \<longleftrightarrow> list_all is_space s"
proof (cases "dropWhile is_space s = []")
  case True
  then show ?thesis by (auto simp: trim_space_def trim_with_def dropWhile_eq_Nil_conv list_all_iff dest: set_dropWhileD)
next
  case False
  then have "hd (dropWhile is_space s) \<in> set (dropWhile is_space s)" "\<not> is_space (hd (dropWhile is_space s))"
    by (rule hd_in_set, rule hd_dropWhile)
  moreover have "trim_space s = [] \<Longrightarrow> \<forall>x\<in>set (dropWhile is_space s). is_space x"
    by (simp add: trim_space_def trim_with_def dropWhile_eq_Nil_conv)
  moreover have "hd (dropWhile is_space s) \<in> set s" using False by (meson hd_in_set set_dropWhileD)
  ultimately show ?thesis by (auto simp: list_all_iff)
qed

lemma fields_Nil_iff: "str_fields s = [] \<longleftrightarrow> trim_space s = []"
  by (subst str_fields.simps) (auto simp: Let_def trim_space_Nil_iff dropWhile_eq_Nil_conv list_all_iff)

lemma join_fields_idem [simp]: "join '' '' (str_fields (join '' '' (str_fields s))) = join '' '' (str_fields s)"
  by (simp add: fields_join fields_words)

lemma trim_join_fields: "trim_space (join '' '' (str_fields s)) = [] \<longleftrightarrow> trim_space s = []"
  by (metis fields_Nil_iff fields_join fields_words)

lemma finding_from_sarif_result_Inr:
  assumes "finding_from_sarif_result scan json resolver r = Inr f"
  obtains raw c where "canonical_finding scan raw = Inr c" and "f = c\<lparr>fi_SourceSnippet := fi_SourceSnippet raw\<rparr>"
  using assms by (auto simp: finding_from_sarif_result_def split: option.splits sum.splits list.splits if_splits prod.splits)

text \<open>
  What is ingested passes the canonical form of the comparison unchanged, whenever its path does.
\<close>

lemma ingested_canonical:
  assumes "finding_from_sarif_result scan json resolver r = Inr f" and "canonical_path (fi_Path f) = Inr (fi_Path f)"
  shows "\<exists>g. canonical_finding scan f = Inr g \<and> topology_key g = topology_key f \<and> fi_Message g = fi_Message f"
proof -
  obtain raw c where c: "canonical_finding scan raw = Inr c" "f = c\<lparr>fi_SourceSnippet := fi_SourceSnippet raw\<rparr>"
    using finding_from_sarif_result_Inr [OF assms(1)] .
  from c(1) have r: "trim_space (fi_Rule raw) \<noteq> []" "trim_space (fi_Message raw) \<noteq> []" "trim_space (fi_SourceSnippet raw) \<noteq> []"
      "0 < fi_StartLine raw" "0 < fi_StartColumn raw" "normalized_snippet scan (fi_SourceSnippet raw) = Inr (fi_SourceSnippet c)"
      "fi_Rule c = join '' '' (str_fields (fi_Rule raw))" "fi_Message c = join '' '' (str_fields (fi_Message raw))"
      "fi_StartLine c = fi_StartLine raw" "fi_StartColumn c = fi_StartColumn raw"
    by (auto simp: canonical_finding_def split: if_splits sum.splits)
  have "canonical_finding scan f = Inr c"
    using r c(2) assms(2) by (simp add: canonical_finding_def trim_join_fields)
  then show ?thesis using c(2) by (auto simp: topology_key_def)
qed

text \<open>
  The path does not always: cleaning can produce the drive path that the check before it refuses.
\<close>

lemma canonical_path_not_idempotent:
  "canonical_path ''./c:/x.go'' = Inr ''c:/x.go''" "canonical_path ''c:/x.go'' = Inl PathNotRelative"
  by code_simp+

end
