(* ===== verification/RepoChange.thy ===== *)
theory RepoChange
  imports GoPrelude "HOL-Library.Multiset"
begin

text \<open>
  Sensitive changes of a repository configuration (\<open>pkg/github/confirmation.go\<close> and the types
  and the filter of \<open>pkg/github/repo_config.go\<close>): the analysis of a change, the confirmation
  dialogue and the configuration that is left when risky changes are skipped.
\<close>

section \<open>Configurations\<close>

record repo_config_settings =
  rs_HasIssues :: bool
  rs_HasProjects :: bool
  rs_HasWiki :: bool
  rs_HasDownloads :: bool
  rs_AllowSquashMerge :: bool
  rs_AllowMergeCommit :: bool
  rs_AllowRebaseMerge :: bool
  rs_DeleteBranchOnMerge :: bool
  rs_DefaultBranch :: string

record protection_config =
  bc_RequiredReviews :: int
  bc_DismissStaleReviews :: bool
  bc_RequireCodeOwnerReviews :: bool
  bc_RequiredStatusChecks :: "string list"
  bc_StrictStatusChecks :: bool
  bc_EnforceAdmins :: bool
  bc_RestrictPushes :: bool
  bc_AllowedUsers :: "string list"
  bc_AllowedTeams :: "string list"
  bc_RequireConversationResolution :: bool
  bc_AllowForcePushes :: bool
  bc_AllowDeletions :: bool

text \<open>A Go map that may be nil is an option.\<close>

record permissions_config =
  pm_Teams :: "(string, string) gomap option"
  pm_Users :: "(string, string) gomap option"

record repository_config =
  gc_Name :: string
  gc_Description :: string
  gc_Homepage :: string
  gc_Private :: bool
  gc_Archived :: bool
  gc_Topics :: "string list"
  gc_Settings :: repo_config_settings
  gc_BranchProtection :: "(string, protection_config) gomap option"
  gc_Permissions :: permissions_config

definition entries :: "('k, 'v) gomap option \<Rightarrow> ('k, 'v) gomap" where
  "entries m = (case m of None \<Rightarrow> [] | Some e \<Rightarrow> e)"

section \<open>Changes\<close>

datatype risk_level = RiskLow | RiskMedium | RiskHigh | RiskCritical

text \<open>Risks are ordered by severity.\<close>

definition risk_rank :: "risk_level \<Rightarrow> nat" where
  "risk_rank r = (case r of RiskLow \<Rightarrow> 0 | RiskMedium \<Rightarrow> 1 | RiskHigh \<Rightarrow> 2 | RiskCritical \<Rightarrow> 3)"

lemma risk_rank_inj: "risk_rank a = risk_rank b \<Longrightarrow> a = b"
  by (cases a; cases b) (simp_all add: risk_rank_def)

instantiation risk_level :: linorder
begin

definition less_eq_risk_level :: "risk_level \<Rightarrow> risk_level \<Rightarrow> bool" where
  "less_eq_risk_level a b \<longleftrightarrow> risk_rank a \<le> risk_rank b"

definition less_risk_level :: "risk_level \<Rightarrow> risk_level \<Rightarrow> bool" where
  "less_risk_level a b \<longleftrightarrow> risk_rank a < risk_rank b"

instance
  by standard (auto simp: less_eq_risk_level_def less_risk_level_def intro: risk_rank_inj)

end

datatype any_value = AnyNil | AnyBool bool | AnyInt int | AnyString string

record sensitive_change =
  ch_Repository :: string
  ch_Category :: string
  ch_Operation :: string
  ch_Field :: string
  ch_OldValue :: any_value
  ch_NewValue :: any_value
  ch_Risk :: risk_level
  ch_Description :: string
  ch_Impact :: string

definition permission_levels :: "(string, int) gomap" where
  "permission_levels = [(''read'', 1), (''triage'', 2), (''write'', 3), (''maintain'', 4), (''admin'', 5)]"

definition is_permission_escalation :: "string \<Rightarrow> string \<Rightarrow> bool" where
  "is_permission_escalation before after =
     (case (gm_get permission_levels before, gm_get permission_levels after) of
        (Some beforeLevel, Some afterLevel) \<Rightarrow> beforeLevel < afterLevel
      | _ \<Rightarrow> False)"

interpretation escalation: ranked_names "gm_get permission_levels" "\<lambda>after before. is_permission_escalation before after"
  by unfold_locales (auto simp: is_permission_escalation_def split: option.splits)

definition visibility_changes :: "string \<Rightarrow> repository_config \<Rightarrow> repository_config \<Rightarrow> sensitive_change list" where
  "visibility_changes repoName before after =
     (if gc_Private before \<noteq> gc_Private after then
        [\<lparr>ch_Repository = repoName, ch_Category = ''settings'', ch_Operation = ''update'', ch_Field = ''private'',
          ch_OldValue = AnyBool (gc_Private before), ch_NewValue = AnyBool (gc_Private after), ch_Risk = RiskCritical,
          ch_Description = ''Repository visibility change'',
          ch_Impact = (if \<not> gc_Private before \<and> gc_Private after
            then ''Repository will become private - public access will be lost''
            else ''Repository will become public - private content will be exposed'')\<rparr>]
      else [])"

definition archive_changes :: "string \<Rightarrow> repository_config \<Rightarrow> repository_config \<Rightarrow> sensitive_change list" where
  "archive_changes repoName before after =
     (if gc_Archived before \<noteq> gc_Archived after then
        [\<lparr>ch_Repository = repoName, ch_Category = ''settings'', ch_Operation = ''update'', ch_Field = ''archived'',
          ch_OldValue = AnyBool (gc_Archived before), ch_NewValue = AnyBool (gc_Archived after),
          ch_Risk = (if gc_Archived after then RiskHigh else RiskMedium),
          ch_Description = ''Repository archive status change'',
          ch_Impact = (if gc_Archived after then ''Repository will be archived - no further commits allowed''
            else ''Repository will be unarchived - write access restored'')\<rparr>]
      else [])"

definition default_branch_changes :: "string \<Rightarrow> repository_config \<Rightarrow> repository_config \<Rightarrow> sensitive_change list" where
  "default_branch_changes repoName before after =
     (let b = rs_DefaultBranch (gc_Settings before); a = rs_DefaultBranch (gc_Settings after) in
      if b \<noteq> a \<and> b \<noteq> [] \<and> a \<noteq> [] then
        [\<lparr>ch_Repository = repoName, ch_Category = ''settings'', ch_Operation = ''update'', ch_Field = ''default_branch'',
          ch_OldValue = AnyString b, ch_NewValue = AnyString a, ch_Risk = RiskHigh,
          ch_Description = ''Default branch change'', ch_Impact = ''May affect CI/CD pipelines and developer workflows''\<rparr>]
      else [])"

definition removed_protection :: "string \<Rightarrow> string \<Rightarrow> sensitive_change" where
  "removed_protection repoName branch =
     \<lparr>ch_Repository = repoName, ch_Category = ''branch_protection'', ch_Operation = ''delete'', ch_Field = ''branch_protection'',
       ch_OldValue = AnyString (''Protected: '' @ branch), ch_NewValue = AnyString ''Unprotected'', ch_Risk = RiskHigh,
       ch_Description = ''Branch protection removed for '' @ branch,
       ch_Impact = ''Branch will allow direct pushes and forced updates''\<rparr>"

definition modified_protection :: "string \<Rightarrow> string \<Rightarrow> protection_config \<Rightarrow> protection_config \<Rightarrow> sensitive_change list" where
  "modified_protection repoName branch before after =
     (if bc_RequiredReviews after < bc_RequiredReviews before then
        [\<lparr>ch_Repository = repoName, ch_Category = ''branch_protection'', ch_Operation = ''update'', ch_Field = ''required_reviews'',
          ch_OldValue = AnyInt (bc_RequiredReviews before), ch_NewValue = AnyInt (bc_RequiredReviews after), ch_Risk = RiskMedium,
          ch_Description = ''Required reviews decreased for '' @ branch,
          ch_Impact = ''Lower review requirements may reduce code quality oversight''\<rparr>] else []) @
     (if bc_EnforceAdmins before \<and> \<not> bc_EnforceAdmins after then
        [\<lparr>ch_Repository = repoName, ch_Category = ''branch_protection'', ch_Operation = ''update'', ch_Field = ''enforce_admins'',
          ch_OldValue = AnyBool True, ch_NewValue = AnyBool False, ch_Risk = RiskHigh,
          ch_Description = ''Admin enforcement disabled for '' @ branch,
          ch_Impact = ''Administrators can now bypass branch protection rules''\<rparr>] else [])"

definition analyze_branch_protection_changes ::
  "string \<Rightarrow> (string, protection_config) gomap \<Rightarrow> (string, protection_config) gomap \<Rightarrow> sensitive_change list" where
  "analyze_branch_protection_changes repoName before after =
     List.map_filter (\<lambda>(branch, _). if gm_get after branch = None then Some (removed_protection repoName branch) else None) before @
     concat (map (\<lambda>(branch, afterConfig).
       case gm_get before branch of None \<Rightarrow> [] | Some beforeConfig \<Rightarrow> modified_protection repoName branch beforeConfig afterConfig) after)"

text \<open>Teams and users differ only in their words.\<close>

definition holder_changes ::
  "string \<Rightarrow> string \<Rightarrow> string \<Rightarrow> (string, string) gomap \<Rightarrow> (string, string) gomap \<Rightarrow> sensitive_change list" where
  "holder_changes repoName field title before after =
     concat (map (\<lambda>(holder, afterPerm).
       case gm_get before holder of
         Some beforePerm \<Rightarrow>
           if is_permission_escalation beforePerm afterPerm then
             [\<lparr>ch_Repository = repoName, ch_Category = ''permissions'', ch_Operation = ''update'', ch_Field = field,
               ch_OldValue = AnyString (holder @ '': '' @ beforePerm), ch_NewValue = AnyString (holder @ '': '' @ afterPerm),
               ch_Risk = RiskMedium, ch_Description = title @ '' permission escalation: '' @ holder,
               ch_Impact = title @ '' will have increased access to repository''\<rparr>]
           else []
       | None \<Rightarrow>
           [\<lparr>ch_Repository = repoName, ch_Category = ''permissions'', ch_Operation = ''create'', ch_Field = field,
             ch_OldValue = AnyNil, ch_NewValue = AnyString (holder @ '': '' @ afterPerm), ch_Risk = RiskLow,
             ch_Description = ''New '' @ to_lower title @ '' permission: '' @ holder,
             ch_Impact = title @ '' will gain access to repository''\<rparr>]) after)"

definition analyze_permission_changes :: "string \<Rightarrow> permissions_config \<Rightarrow> permissions_config \<Rightarrow> sensitive_change list" where
  "analyze_permission_changes repoName before after =
     holder_changes repoName ''team_permission'' ''Team'' (entries (pm_Teams before)) (entries (pm_Teams after)) @
     holder_changes repoName ''user_permission'' ''User'' (entries (pm_Users before)) (entries (pm_Users after))"

definition analyze_repository_changes :: "string \<Rightarrow> string \<Rightarrow> repository_config \<Rightarrow> repository_config \<Rightarrow> sensitive_change list" where
  "analyze_repository_changes owner repo before after =
     (let repoName = owner @ ''/'' @ repo in
      visibility_changes repoName before after @ archive_changes repoName before after @ default_branch_changes repoName before after @
      analyze_branch_protection_changes repoName (entries (gc_BranchProtection before)) (entries (gc_BranchProtection after)) @
      analyze_permission_changes repoName (gc_Permissions before) (gc_Permissions after))"

section \<open>Confirmation\<close>

text \<open>A prompt reads one line, or finds its input at an end.\<close>

record confirmation_prompt =
  pr_AutoConfirm :: bool
  pr_Input :: "string option"

record confirmation_request =
  cq_Changes :: "sensitive_change list"
  cq_Operation :: string
  cq_Target :: string
  cq_DryRun :: bool
  cq_BatchSize :: int
  cq_Description :: string

record confirmation_result =
  cr_Confirmed :: bool
  cr_UserChoice :: string
  cr_SkippedRisks :: "risk_level list"
  cr_Reason :: string

datatype confirmation_error = InputFailed | Aborted | InvalidChoice string

definition categorize_changes_by_risk :: "sensitive_change list \<Rightarrow> (risk_level, sensitive_change list) gomap" where
  "categorize_changes_by_risk changes = foldl (\<lambda>m c. gm_put (ch_Risk c) (gm_at [] m (ch_Risk c) @ [c]) m) [] changes"

definition no_result :: confirmation_result where
  "no_result = \<lparr>cr_Confirmed = False, cr_UserChoice = [], cr_SkippedRisks = [], cr_Reason = []\<rparr>"

definition prompt_for_confirmation ::
  "confirmation_prompt \<Rightarrow> (risk_level, sensitive_change list) gomap \<Rightarrow> confirmation_error option \<times> confirmation_result" where
  "prompt_for_confirmation cp categories =
     (let hasCritical = gm_at [] categories RiskCritical \<noteq> []; hasHigh = gm_at [] categories RiskHigh \<noteq> [] in
      case pr_Input cp of
        None \<Rightarrow> (Some InputFailed, no_result)
      | Some line \<Rightarrow>
          let choice = to_lower (trim_space line); result = no_result\<lparr>cr_UserChoice := choice\<rparr> in
          if choice = ''y'' \<or> choice = ''yes'' then
            (None, result\<lparr>cr_Confirmed := True, cr_Reason := ''User confirmed all changes''\<rparr>)
          else if choice = ''n'' \<or> choice = ''no'' then
            (None, result\<lparr>cr_Confirmed := False, cr_Reason := ''User declined changes''\<rparr>)
          else if choice = ''s'' \<or> choice = ''skip'' then
            (if hasCritical \<or> hasHigh then
               (None, result\<lparr>cr_Confirmed := True,
                  cr_SkippedRisks := (if hasCritical then [RiskCritical] else []) @ (if hasHigh then [RiskHigh] else []),
                  cr_Reason := ''User chose to skip high/critical risk changes''\<rparr>)
             else (None, result\<lparr>cr_Confirmed := False, cr_Reason := ''No high/critical risk changes to skip''\<rparr>))
          else if choice = ''a'' \<or> choice = ''abort'' then
            (Some Aborted, result\<lparr>cr_Confirmed := False, cr_Reason := ''User aborted operation''\<rparr>)
          else (Some (InvalidChoice choice), result\<lparr>cr_Confirmed := False, cr_Reason := ''Invalid choice: '' @ choice\<rparr>))"

definition request_confirmation :: "confirmation_prompt \<Rightarrow> confirmation_request \<Rightarrow> confirmation_error option \<times> confirmation_result" where
  "request_confirmation cp request =
     (if pr_AutoConfirm cp \<or> cq_DryRun request then
        (None, no_result\<lparr>cr_Confirmed := True, cr_UserChoice := ''auto'',
          cr_Reason := (if cq_DryRun request then ''Dry run mode - no actual changes will be made'' else ''Auto-confirmation enabled'')\<rparr>)
      else prompt_for_confirmation cp (categorize_changes_by_risk (cq_Changes request)))"

section \<open>Skipping risks\<close>

text \<open>One skipped change reverts its setting.\<close>

definition revert_setting :: "risk_level list \<Rightarrow> repository_config \<Rightarrow> repository_config \<Rightarrow> sensitive_change \<Rightarrow> repository_config" where
  "revert_setting skipped current filtered change =
     (if ch_Risk change \<in> set skipped then
        (if ch_Field change = ''private'' then filtered\<lparr>gc_Private := gc_Private current\<rparr>
         else if ch_Field change = ''archived'' then filtered\<lparr>gc_Archived := gc_Archived current\<rparr>
         else if ch_Field change = ''default_branch'' then
           filtered\<lparr>gc_Settings := (gc_Settings filtered)\<lparr>rs_DefaultBranch := rs_DefaultBranch (gc_Settings current)\<rparr>\<rparr>
         else filtered)
      else filtered)"

definition revert_protection :: "risk_level list \<Rightarrow> protection_config \<Rightarrow> protection_config \<Rightarrow> sensitive_change \<Rightarrow> protection_config" where
  "revert_protection skipped current filtered change =
     (if ch_Category change = ''branch_protection'' \<and> ch_Risk change \<in> set skipped then
        (if ch_Field change = ''required_reviews'' then filtered\<lparr>bc_RequiredReviews := bc_RequiredReviews current\<rparr>
         else if ch_Field change = ''enforce_admins'' then filtered\<lparr>bc_EnforceAdmins := bc_EnforceAdmins current\<rparr>
         else filtered)
      else filtered)"

definition filter_protection ::
  "risk_level list \<Rightarrow> sensitive_change list \<Rightarrow> (string, protection_config) gomap \<Rightarrow> (string, protection_config) gomap \<Rightarrow> (string, protection_config) gomap" where
  "filter_protection skipped changes current target =
     foldl (\<lambda>m (branch, protection).
       gm_put branch (case gm_get current branch of
           None \<Rightarrow> protection
         | Some currentProtection \<Rightarrow> foldl (revert_protection skipped currentProtection) protection changes) m) [] target"

definition apply_permission_change ::
  "risk_level list \<Rightarrow> permissions_config \<Rightarrow> (string, string) gomap \<times> (string, string) gomap \<Rightarrow> sensitive_change \<Rightarrow>
   (string, string) gomap \<times> (string, string) gomap" where
  "apply_permission_change skipped target st change =
     (case st of (teams, users) \<Rightarrow>
        if ch_Category change = ''permissions'' \<and> ch_Risk change \<notin> set skipped then
          ((if ch_Field change = ''team_permission'' then gm_copy teams (entries (pm_Teams target)) else teams),
           (if ch_Field change = ''user_permission'' then gm_copy users (entries (pm_Users target)) else users))
        else (teams, users))"

definition filter_config_by_skipped_risks :: "repository_config \<Rightarrow> repository_config \<Rightarrow> risk_level list \<Rightarrow> repository_config" where
  "filter_config_by_skipped_risks current target skipped =
     (let changes = analyze_repository_changes [] [] current target;
          c1 = foldl (revert_setting skipped current) target changes;
          c2 = c1\<lparr>gc_BranchProtection := map_option
                 (filter_protection skipped changes (entries (gc_BranchProtection current))) (gc_BranchProtection c1)\<rparr>;
          perms = gc_Permissions c2
      in if pm_Teams perms \<noteq> None \<or> pm_Users perms \<noteq> None then
           (case foldl (apply_permission_change skipped (gc_Permissions target))
               (gm_copy [] (entries (pm_Teams (gc_Permissions current))), gm_copy [] (entries (pm_Users (gc_Permissions current)))) changes of
              (teams, users) \<Rightarrow> c2\<lparr>gc_Permissions := \<lparr>pm_Teams = Some teams, pm_Users = Some users\<rparr>\<rparr>)
         else c2)"

end
