(* ===== verification/RepoClient.thy ===== *)
theory RepoClient
  imports RepoChange
begin

text \<open>
  The repository configuration client (\<open>pkg/github/repo_config.go\<close>): reading a configuration,
  updating it with or without confirmation, and applying one to an organization. The service
  is a parameter: what each read returns and which writes fail. An update is the list of the
  writes it sends, in order.
\<close>

section \<open>The service\<close>

datatype api_error = ApiError int string | OtherError string

record api_repository =
  ar_ID :: int
  ar_Name :: string
  ar_FullName :: string
  ar_Description :: string
  ar_Homepage :: string
  ar_Private :: bool
  ar_Archived :: bool
  ar_HTMLURL :: string
  ar_CloneURL :: string
  ar_SSHURL :: string
  ar_DefaultBranch :: string
  ar_CreatedAt :: string
  ar_UpdatedAt :: string
  ar_Language :: string
  ar_Topics :: "string list"
  ar_HasIssues :: bool
  ar_HasProjects :: bool
  ar_HasWiki :: bool
  ar_HasDownloads :: bool
  ar_AllowSquashMerge :: bool
  ar_AllowMergeCommit :: bool
  ar_AllowRebaseMerge :: bool
  ar_DeleteBranchOnMerge :: bool

record status_checks =
  sk_Strict :: bool
  sk_Contexts :: "string list"

record review_requirements =
  rv_DismissStaleReviews :: bool
  rv_RequireCodeOwnerReviews :: bool
  rv_RequiredApprovingReviewCount :: int

record branch_restrictions =
  br_Users :: "string list"
  br_Teams :: "string list"

record branch_protection =
  bp_RequiredStatusChecks :: "status_checks option"
  bp_EnforceAdmins :: bool
  bp_RequiredPullRequestReviews :: "review_requirements option"
  bp_Restrictions :: "branch_restrictions option"
  bp_AllowForcePushes :: "bool option"
  bp_AllowDeletions :: "bool option"
  bp_RequiredConversationResolution :: "bool option"

text \<open>The fields of a repository an update may carry; an absent one is left alone.\<close>

record repository_update =
  up_Name :: "string option"
  up_Description :: "string option"
  up_Homepage :: "string option"
  up_Private :: "bool option"
  up_Archived :: "bool option"
  up_HasIssues :: "bool option"
  up_HasProjects :: "bool option"
  up_HasWiki :: "bool option"
  up_HasDownloads :: "bool option"
  up_DefaultBranch :: "string option"
  up_AllowSquashMerge :: "bool option"
  up_AllowMergeCommit :: "bool option"
  up_AllowRebaseMerge :: "bool option"
  up_DeleteBranchOnMerge :: "bool option"
  up_Topics :: "string list"

datatype api_write =
    PatchRepository string string repository_update
  | PutProtection string string string branch_protection
  | PutTeam string string string string
  | PutCollaborator string string string string

record github_api =
  ga_Repository :: "string \<Rightarrow> string \<Rightarrow> api_error + api_repository"
  ga_Protection :: "string \<Rightarrow> string \<Rightarrow> string \<Rightarrow> api_error + branch_protection"
  ga_Teams :: "string \<Rightarrow> string \<Rightarrow> api_error + (string \<times> string) list"
  ga_Collaborators :: "string \<Rightarrow> string \<Rightarrow> api_error + (string \<times> string) list"
  ga_Write :: "api_write \<Rightarrow> api_error option"

section \<open>Reading a configuration\<close>

definition convert_branch_protection :: "branch_protection \<Rightarrow> protection_config" where
  "convert_branch_protection bp =
     \<lparr>bc_RequiredReviews = (case bp_RequiredPullRequestReviews bp of None \<Rightarrow> 0 | Some r \<Rightarrow> rv_RequiredApprovingReviewCount r),
      bc_DismissStaleReviews = (case bp_RequiredPullRequestReviews bp of None \<Rightarrow> False | Some r \<Rightarrow> rv_DismissStaleReviews r),
      bc_RequireCodeOwnerReviews = (case bp_RequiredPullRequestReviews bp of None \<Rightarrow> False | Some r \<Rightarrow> rv_RequireCodeOwnerReviews r),
      bc_RequiredStatusChecks = (case bp_RequiredStatusChecks bp of None \<Rightarrow> [] | Some s \<Rightarrow> sk_Contexts s),
      bc_StrictStatusChecks = (case bp_RequiredStatusChecks bp of None \<Rightarrow> False | Some s \<Rightarrow> sk_Strict s),
      bc_EnforceAdmins = bp_EnforceAdmins bp,
      bc_RestrictPushes = (bp_Restrictions bp \<noteq> None),
      bc_AllowedUsers = (case bp_Restrictions bp of None \<Rightarrow> [] | Some r \<Rightarrow> br_Users r),
      bc_AllowedTeams = (case bp_Restrictions bp of None \<Rightarrow> [] | Some r \<Rightarrow> br_Teams r),
      bc_RequireConversationResolution = False, bc_AllowForcePushes = False, bc_AllowDeletions = False\<rparr>"

definition holders_map :: "(string \<times> string) list \<Rightarrow> (string, string) gomap" where
  "holders_map hs = foldl (\<lambda>m (k, v). gm_put k v m) [] hs"

definition get_repository_permissions ::
  "github_api \<Rightarrow> string \<Rightarrow> string \<Rightarrow> api_error + (string, string) gomap \<times> (string, string) gomap" where
  "get_repository_permissions api owner repo =
     (case ga_Teams api owner repo of
        Inl e \<Rightarrow> Inl e
      | Inr teams \<Rightarrow>
          (case ga_Collaborators api owner repo of
             Inl e \<Rightarrow> Inl e
           | Inr users \<Rightarrow> Inr (holders_map teams, holders_map users)))"

definition config_of_repository :: "api_repository \<Rightarrow> repository_config" where
  "config_of_repository r =
     \<lparr>gc_Name = ar_Name r, gc_Description = ar_Description r, gc_Homepage = ar_Homepage r, gc_Private = ar_Private r,
      gc_Archived = ar_Archived r, gc_Topics = ar_Topics r,
      gc_Settings = \<lparr>rs_HasIssues = ar_HasIssues r, rs_HasProjects = ar_HasProjects r, rs_HasWiki = ar_HasWiki r,
        rs_HasDownloads = ar_HasDownloads r, rs_AllowSquashMerge = ar_AllowSquashMerge r, rs_AllowMergeCommit = ar_AllowMergeCommit r,
        rs_AllowRebaseMerge = ar_AllowRebaseMerge r, rs_DeleteBranchOnMerge = ar_DeleteBranchOnMerge r,
        rs_DefaultBranch = ar_DefaultBranch r\<rparr>,
      gc_BranchProtection = None, gc_Permissions = \<lparr>pm_Teams = None, pm_Users = None\<rparr>\<rparr>"

text \<open>An error of the service fails the read, any other error of an optional part is passed over.\<close>

definition with_protection :: "github_api \<Rightarrow> string \<Rightarrow> string \<Rightarrow> repository_config \<Rightarrow> api_error + repository_config" where
  "with_protection api owner repo config =
     (let branch = rs_DefaultBranch (gc_Settings config) in
      if branch = [] then Inr config
      else (case ga_Protection api owner repo branch of
              Inl (ApiError code m) \<Rightarrow> Inl (ApiError code m)
            | Inl (OtherError m) \<Rightarrow> Inr config
            | Inr protection \<Rightarrow> Inr (config\<lparr>gc_BranchProtection := Some [(branch, convert_branch_protection protection)]\<rparr>)))"

definition with_permissions :: "github_api \<Rightarrow> string \<Rightarrow> string \<Rightarrow> repository_config \<Rightarrow> api_error + repository_config" where
  "with_permissions api owner repo config =
     (case get_repository_permissions api owner repo of
        Inl (ApiError code m) \<Rightarrow> Inl (ApiError code m)
      | Inl (OtherError m) \<Rightarrow> Inr config
      | Inr (teams, users) \<Rightarrow> Inr (config\<lparr>gc_Permissions := \<lparr>pm_Teams = Some teams, pm_Users = Some users\<rparr>\<rparr>))"

definition get_repository_configuration :: "github_api \<Rightarrow> string \<Rightarrow> string \<Rightarrow> api_error + repository_config" where
  "get_repository_configuration api owner repo =
     (case ga_Repository api owner repo of
        Inl e \<Rightarrow> Inl e
      | Inr r \<Rightarrow>
          (case with_protection api owner repo (config_of_repository r) of
             Inl e \<Rightarrow> Inl e
           | Inr config \<Rightarrow> with_permissions api owner repo config))"

section \<open>Writing a configuration\<close>

datatype update_error =
    ConfirmationFailed confirmation_error | OperationCancelled string | SettingsFailed api_error
  | ProtectionFailed string api_error | PermissionsFailed api_error

definition update_of_config :: "repository_config \<Rightarrow> repository_update" where
  "update_of_config c =
     (let s = gc_Settings c in
      \<lparr>up_Name = None, up_Description = Some (gc_Description c), up_Homepage = Some (gc_Homepage c), up_Private = Some (gc_Private c),
       up_Archived = Some (gc_Archived c), up_HasIssues = Some (rs_HasIssues s), up_HasProjects = Some (rs_HasProjects s),
       up_HasWiki = Some (rs_HasWiki s), up_HasDownloads = Some (rs_HasDownloads s),
       up_DefaultBranch = (if rs_DefaultBranch s \<noteq> [] then Some (rs_DefaultBranch s) else None),
       up_AllowSquashMerge = Some (rs_AllowSquashMerge s), up_AllowMergeCommit = Some (rs_AllowMergeCommit s),
       up_AllowRebaseMerge = Some (rs_AllowRebaseMerge s), up_DeleteBranchOnMerge = Some (rs_DeleteBranchOnMerge s),
       up_Topics = gc_Topics c\<rparr>)"

definition protection_of_config :: "protection_config \<Rightarrow> branch_protection" where
  "protection_of_config c =
     \<lparr>bp_RequiredStatusChecks = (if bc_RequiredStatusChecks c \<noteq> []
        then Some \<lparr>sk_Strict = bc_StrictStatusChecks c, sk_Contexts = bc_RequiredStatusChecks c\<rparr> else None),
      bp_EnforceAdmins = bc_EnforceAdmins c,
      bp_RequiredPullRequestReviews = (if 0 < bc_RequiredReviews c
        then Some \<lparr>rv_DismissStaleReviews = bc_DismissStaleReviews c, rv_RequireCodeOwnerReviews = bc_RequireCodeOwnerReviews c,
          rv_RequiredApprovingReviewCount = bc_RequiredReviews c\<rparr> else None),
      bp_Restrictions = (if bc_RestrictPushes c then Some \<lparr>br_Users = bc_AllowedUsers c, br_Teams = bc_AllowedTeams c\<rparr> else None),
      bp_AllowForcePushes = Some (bc_AllowForcePushes c), bp_AllowDeletions = Some (bc_AllowDeletions c),
      bp_RequiredConversationResolution = Some (bc_RequireConversationResolution c)\<rparr>"

text \<open>Writes are sent one after the other until one fails; the failing one is the last sent.\<close>

fun send :: "github_api \<Rightarrow> (api_write \<times> (api_error \<Rightarrow> update_error)) list \<Rightarrow> update_error option \<times> api_write list" where
  "send api [] = (None, [])"
| "send api ((w, wrap) # ws) =
     (case ga_Write api w of
        Some e \<Rightarrow> (Some (wrap e), [w])
      | None \<Rightarrow> (case send api ws of (err, sent) \<Rightarrow> (err, w # sent)))"

definition writes_of_config :: "string \<Rightarrow> string \<Rightarrow> repository_config \<Rightarrow> (api_write \<times> (api_error \<Rightarrow> update_error)) list" where
  "writes_of_config owner repo c =
     (PatchRepository owner repo (update_of_config c), SettingsFailed) #
     map (\<lambda>(branch, p). (PutProtection owner repo branch (protection_of_config p), ProtectionFailed branch)) (entries (gc_BranchProtection c)) @
     map (\<lambda>(team, p). (PutTeam owner team repo p, PermissionsFailed)) (entries (pm_Teams (gc_Permissions c))) @
     map (\<lambda>(user, p). (PutCollaborator owner repo user p, PermissionsFailed)) (entries (pm_Users (gc_Permissions c)))"

definition apply_config :: "github_api \<Rightarrow> string \<Rightarrow> string \<Rightarrow> repository_config \<Rightarrow> update_error option \<times> api_write list" where
  "apply_config api owner repo config = send api (writes_of_config owner repo config)"

definition update_request :: "string \<Rightarrow> string \<Rightarrow> sensitive_change list \<Rightarrow> confirmation_request" where
  "update_request owner repo changes =
     \<lparr>cq_Changes = changes, cq_Operation = ''repository_update'', cq_Target = owner @ ''/'' @ repo, cq_DryRun = False,
      cq_BatchSize = 0, cq_Description = ''Update repository configuration''\<rparr>"

text \<open>What the confirmation decides: refuse, or go on with a configuration.\<close>

definition confirmed_config ::
  "github_api \<Rightarrow> string \<Rightarrow> string \<Rightarrow> repository_config \<Rightarrow> confirmation_prompt option \<Rightarrow> update_error + repository_config" where
  "confirmed_config api owner repo config prompt =
     (case prompt of
        None \<Rightarrow> Inr config
      | Some cp \<Rightarrow>
          (case get_repository_configuration api owner repo of
             Inl _ \<Rightarrow> Inr config
           | Inr current \<Rightarrow>
               let changes = analyze_repository_changes owner repo current config in
               if changes = [] then Inr config
               else (case request_confirmation cp (update_request owner repo changes) of
                       (Some e, _) \<Rightarrow> Inl (ConfirmationFailed e)
                     | (None, result) \<Rightarrow>
                         if \<not> cr_Confirmed result then Inl (OperationCancelled (cr_Reason result))
                         else Inr (if cr_SkippedRisks result \<noteq> []
                           then filter_config_by_skipped_risks current config (cr_SkippedRisks result) else config))))"

definition update_repository_configuration_with_confirmation ::
  "github_api \<Rightarrow> string \<Rightarrow> string \<Rightarrow> repository_config \<Rightarrow> confirmation_prompt option \<Rightarrow> update_error option \<times> api_write list" where
  "update_repository_configuration_with_confirmation api owner repo config prompt =
     (case confirmed_config api owner repo config prompt of
        Inl e \<Rightarrow> (Some e, [])
      | Inr c \<Rightarrow> apply_config api owner repo c)"

definition update_repository_configuration ::
  "github_api \<Rightarrow> string \<Rightarrow> string \<Rightarrow> repository_config \<Rightarrow> update_error option \<times> api_write list" where
  "update_repository_configuration api owner repo config =
     update_repository_configuration_with_confirmation api owner repo config None"

section \<open>Listing\<close>

text \<open>
  \<open>fetch page\<close> is the page the service returns. The loop over the pages ends with the first page
  that is not full; fuel stands for the number of pages it may read.
\<close>

fun list_pages :: "nat \<Rightarrow> (nat \<Rightarrow> api_error + 'a list) \<Rightarrow> int \<Rightarrow> nat \<Rightarrow> 'a list \<Rightarrow> (api_error + 'a list) option" where
  "list_pages 0 fetch perPage page allRepos = None"
| "list_pages (Suc fuel) fetch perPage page allRepos =
     (case fetch page of
        Inl e \<Rightarrow> Some (Inl e)
      | Inr repos \<Rightarrow>
          if int (length repos) < perPage then Some (Inr (allRepos @ repos))
          else list_pages fuel fetch perPage (Suc page) (allRepos @ repos))"

definition list_repositories :: "nat \<Rightarrow> (nat \<Rightarrow> api_error + 'a list) \<Rightarrow> int option \<Rightarrow> (api_error + 'a list) option" where
  "list_repositories fuel fetch options = list_pages fuel fetch (case options of None \<Rightarrow> 30 | Some perPage \<Rightarrow> perPage) 1 []"

section \<open>An organization\<close>

record bulk_options =
  bo_DryRun :: bool
  bo_ConcurrentWorkers :: int
  bo_ExcludeRepositories :: "string list"
  bo_IncludeRepositories :: "string list"
  bo_ConfirmationPrompt :: "confirmation_prompt option"

datatype bulk_repo_error =
    UpdateFailed update_error | CurrentUnreadable api_error | NameChange | EmptyBranchName

record bulk_result =
  bu_Total :: int
  bu_Success :: int
  bu_Failed :: int
  bu_Skipped :: int
  bu_Errors :: "(string, bulk_repo_error) gomap"

datatype bulk_error = ListFailed api_error | BulkConfirmationFailed confirmation_error | BulkCancelled string

definition filter_repositories :: "bulk_options \<Rightarrow> api_repository list \<Rightarrow> api_repository list" where
  "filter_repositories options repos =
     filter (\<lambda>r. ar_Name r \<notin> set (bo_ExcludeRepositories options) \<and>
       (bo_IncludeRepositories options = [] \<or> ar_Name r \<in> set (bo_IncludeRepositories options)) \<and> \<not> ar_Archived r) repos"

definition validate_repository_configuration ::
  "github_api \<Rightarrow> string \<Rightarrow> string \<Rightarrow> repository_config \<Rightarrow> bulk_repo_error option" where
  "validate_repository_configuration api owner repo config =
     (case get_repository_configuration api owner repo of
        Inl e \<Rightarrow> Some (CurrentUnreadable e)
      | Inr current \<Rightarrow>
          if gc_Name config \<noteq> [] \<and> gc_Name config \<noteq> gc_Name current then Some NameChange
          else if [] \<in> set (gm_keys (entries (gc_BranchProtection config))) then Some EmptyBranchName
          else None)"

definition sample_changes :: "github_api \<Rightarrow> string \<Rightarrow> repository_config \<Rightarrow> api_repository list \<Rightarrow> sensitive_change list" where
  "sample_changes api org config repos =
     concat (map (\<lambda>r. case get_repository_configuration api org (ar_Name r) of
         Inl _ \<Rightarrow> []
       | Inr current \<Rightarrow> analyze_repository_changes org (ar_Name r) current config) (take 3 repos))"

text \<open>
  One repository of the bulk run: its error and its writes. The prompts of the workers read from
  one input, so the line a repository gets is a parameter.
\<close>

definition bulk_step ::
  "github_api \<Rightarrow> string \<Rightarrow> repository_config \<Rightarrow> bulk_options \<Rightarrow> (string \<Rightarrow> string option) \<Rightarrow> string \<Rightarrow> bulk_repo_error option \<times> api_write list" where
  "bulk_step api org config options lines name =
     (if bo_DryRun options then (validate_repository_configuration api org name config, [])
      else (case update_repository_configuration_with_confirmation api org name config
              (map_option (\<lambda>cp. cp\<lparr>pr_Input := lines name\<rparr>) (bo_ConfirmationPrompt options)) of
              (err, sent) \<Rightarrow> (map_option UpdateFailed err, sent)))"

definition record_outcome :: "bulk_result \<Rightarrow> string \<times> bulk_repo_error option \<Rightarrow> bulk_result" where
  "record_outcome r o1 =
     (case o1 of
        (name, Some e) \<Rightarrow> r\<lparr>bu_Failed := bu_Failed r + 1, bu_Errors := gm_put name e (bu_Errors r)\<rparr>
      | (name, None) \<Rightarrow> r\<lparr>bu_Success := bu_Success r + 1\<rparr>)"

definition bulk_confirmation ::
  "github_api \<Rightarrow> string \<Rightarrow> repository_config \<Rightarrow> bulk_options \<Rightarrow> api_repository list \<Rightarrow> bulk_error option" where
  "bulk_confirmation api org config options repos =
     (case bo_ConfirmationPrompt options of
        None \<Rightarrow> None
      | Some cp \<Rightarrow>
          if bo_DryRun options then None
          else let changes = sample_changes api org config repos in
            if changes = [] then None
            else (case request_confirmation cp \<lparr>cq_Changes = changes, cq_Operation = ''bulk_update'', cq_Target = org, cq_DryRun = False,
                    cq_BatchSize = int (length repos),
                    cq_Description = ''Apply configuration to '' @ show_int (int (length repos)) @ '' repositories in '' @ org\<rparr> of
                    (Some e, _) \<Rightarrow> Some (BulkConfirmationFailed e)
                  | (None, result) \<Rightarrow> if cr_Confirmed result then None else Some (BulkCancelled (cr_Reason result))))"

text \<open>\<open>order\<close> is the order in which the workers finish, a permutation of the filtered repositories.\<close>

definition apply_configuration_to_organization ::
  "github_api \<Rightarrow> string \<Rightarrow> repository_config \<Rightarrow> bulk_options \<Rightarrow> api_error + api_repository list \<Rightarrow>
   (string \<Rightarrow> string option) \<Rightarrow> (api_repository list \<Rightarrow> api_repository list) \<Rightarrow> bulk_error + bulk_result \<times> api_write list" where
  "apply_configuration_to_organization api org config options listed lines order =
     (case listed of
        Inl e \<Rightarrow> Inl (ListFailed e)
      | Inr repos \<Rightarrow>
          let filtered = filter_repositories options repos in
          (case bulk_confirmation api org config options filtered of
             Some e \<Rightarrow> Inl e
           | None \<Rightarrow>
               let finished = map (\<lambda>r. (ar_Name r, bulk_step api org config options lines (ar_Name r))) (order filtered) in
               Inr (foldl record_outcome
                   \<lparr>bu_Total = int (length filtered), bu_Success = 0, bu_Failed = 0, bu_Skipped = 0, bu_Errors = []\<rparr>
                   (map (\<lambda>(name, e, _). (name, e)) finished),
                 concat (map (\<lambda>(_, _, sent). sent) finished))))"

end
