(* ===== verification/RepoGuard.thy ===== *)
theory RepoGuard
  imports RepoClient
begin

text \<open>
  What the confirmation of repository changes guarantees and what it does not: nothing is written
  without consent to the sensitive changes that were seen, skipped risks are really withheld,
  and a configuration that cannot be read is updated without a question.
\<close>

section \<open>The analysis\<close>

lemma analyze_has:
  "gc_Private before \<noteq> gc_Private after \<Longrightarrow>
    \<exists>c\<in>set (analyze_repository_changes owner repo before after). ch_Field c = ''private'' \<and> ch_Risk c = RiskCritical"
  "gc_Archived before \<noteq> gc_Archived after \<Longrightarrow>
    \<exists>c\<in>set (analyze_repository_changes owner repo before after). ch_Field c = ''archived'' \<and> ch_Risk c = (if gc_Archived after then RiskHigh else RiskMedium)"
  "rs_DefaultBranch (gc_Settings before) \<noteq> rs_DefaultBranch (gc_Settings after) \<Longrightarrow> rs_DefaultBranch (gc_Settings before) \<noteq> [] \<Longrightarrow>
    rs_DefaultBranch (gc_Settings after) \<noteq> [] \<Longrightarrow>
    \<exists>c\<in>set (analyze_repository_changes owner repo before after). ch_Field c = ''default_branch'' \<and> ch_Risk c = RiskHigh"
  by (auto simp: analyze_repository_changes_def Let_def visibility_changes_def archive_changes_def default_branch_changes_def)

lemma analyze_has_enforce:
  assumes "(b, p) \<in> set (entries (gc_BranchProtection after))" and "gm_get (entries (gc_BranchProtection before)) b = Some q"
    and "bc_EnforceAdmins q" and "\<not> bc_EnforceAdmins p"
  shows "\<exists>c\<in>set (analyze_repository_changes owner repo before after). ch_Category c = ''branch_protection'' \<and> ch_Field c = ''enforce_admins'' \<and> ch_Risk c = RiskHigh"
proof -
  have "\<exists>c\<in>set (modified_protection (owner @ ''/'' @ repo) b q p). ch_Category c = ''branch_protection'' \<and> ch_Field c = ''enforce_admins'' \<and> ch_Risk c = RiskHigh"
    using assms(3,4) by (auto simp: modified_protection_def)
  moreover have "set (modified_protection (owner @ ''/'' @ repo) b q p) \<subseteq> set (analyze_repository_changes owner repo before after)"
    using assms(1,2) by (force simp: analyze_repository_changes_def Let_def analyze_branch_protection_changes_def)
  ultimately show ?thesis by blast
qed

text \<open>The severe changes of each part, and of the whole.\<close>

lemma holder_changes_mild: "c \<in> set (holder_changes repoName field title before after) \<Longrightarrow> ch_Risk c < RiskHigh"
  by (auto simp: holder_changes_def less_risk_level_def risk_rank_def split: option.splits if_splits)

lemma visibility_severe: "c \<in> set (visibility_changes repoName before after) \<Longrightarrow> gc_Private before \<noteq> gc_Private after \<and> ch_Risk c = RiskCritical"
  by (auto simp: visibility_changes_def split: if_splits)

lemma archive_severe:
  "c \<in> set (archive_changes repoName before after) \<Longrightarrow> RiskHigh \<le> ch_Risk c \<Longrightarrow>
    \<not> gc_Archived before \<and> gc_Archived after \<and> ch_Risk c = RiskHigh"
  by (auto simp: archive_changes_def less_eq_risk_level_def risk_rank_def split: if_splits)

lemma default_branch_severe:
  "c \<in> set (default_branch_changes repoName before after) \<Longrightarrow>
    rs_DefaultBranch (gc_Settings before) \<noteq> rs_DefaultBranch (gc_Settings after) \<and> rs_DefaultBranch (gc_Settings before) \<noteq> [] \<and>
    rs_DefaultBranch (gc_Settings after) \<noteq> [] \<and> ch_Risk c = RiskHigh"
  by (auto simp: default_branch_changes_def Let_def split: if_splits)

lemma modified_severe:
  "c \<in> set (modified_protection repoName b q p) \<Longrightarrow> RiskHigh \<le> ch_Risk c \<Longrightarrow>
    bc_EnforceAdmins q \<and> \<not> bc_EnforceAdmins p \<and> ch_Risk c = RiskHigh"
  by (auto simp: modified_protection_def less_eq_risk_level_def risk_rank_def split: if_splits)

lemma protection_severe:
  assumes "c \<in> set (analyze_branch_protection_changes repoName before after)" and "RiskHigh \<le> ch_Risk c" and "ch_Operation c \<noteq> ''delete''"
  shows "\<exists>b p q. (b, p) \<in> set after \<and> gm_get before b = Some q \<and> bc_EnforceAdmins q \<and> \<not> bc_EnforceAdmins p \<and> ch_Risk c = RiskHigh"
proof -
  have "\<exists>b p q. (b, p) \<in> set after \<and> gm_get before b = Some q \<and> c \<in> set (modified_protection repoName b q p)"
  proof -
    have "ch_Operation (removed_protection repoName b) = ''delete''" for b by (simp add: removed_protection_def)
    then have "c \<in> set (concat (map (\<lambda>(branch, afterConfig).
        case gm_get before branch of None \<Rightarrow> [] | Some beforeConfig \<Rightarrow> modified_protection repoName branch beforeConfig afterConfig) after))"
      using assms(1,3) by (auto simp: analyze_branch_protection_changes_def in_map_filter split: if_splits)
    then show ?thesis by (auto split: option.splits) metis
  qed
  then show ?thesis using modified_severe [OF _ assms(2)] by blast
qed

lemma analyze_severe:
  assumes "c \<in> set (analyze_repository_changes owner repo before after)" and "RiskHigh \<le> ch_Risk c" and "ch_Operation c \<noteq> ''delete''"
  shows "(gc_Private before \<noteq> gc_Private after \<and> ch_Risk c = RiskCritical) \<or>
    (\<not> gc_Archived before \<and> gc_Archived after \<and> ch_Risk c = RiskHigh) \<or>
    (rs_DefaultBranch (gc_Settings before) \<noteq> rs_DefaultBranch (gc_Settings after) \<and> rs_DefaultBranch (gc_Settings before) \<noteq> [] \<and>
      rs_DefaultBranch (gc_Settings after) \<noteq> [] \<and> ch_Risk c = RiskHigh) \<or>
    (\<exists>b p q. (b, p) \<in> set (entries (gc_BranchProtection after)) \<and> gm_get (entries (gc_BranchProtection before)) b = Some q \<and>
      bc_EnforceAdmins q \<and> \<not> bc_EnforceAdmins p \<and> ch_Risk c = RiskHigh)"
proof -
  let ?n = "owner @ ''/'' @ repo"
  consider "c \<in> set (visibility_changes ?n before after)" | "c \<in> set (archive_changes ?n before after)"
    | "c \<in> set (default_branch_changes ?n before after)"
    | "c \<in> set (analyze_branch_protection_changes ?n (entries (gc_BranchProtection before)) (entries (gc_BranchProtection after)))"
    | "c \<in> set (analyze_permission_changes ?n (gc_Permissions before) (gc_Permissions after))"
    using assms(1) unfolding analyze_repository_changes_def Let_def set_append by blast
  then show ?thesis
  proof cases
    case 5
    then have "ch_Risk c < RiskHigh" unfolding analyze_permission_changes_def set_append using holder_changes_mild by blast
    then show ?thesis using assms(2) by simp
  qed (use visibility_severe archive_severe [OF _ assms(2)] default_branch_severe protection_severe [OF _ assms(2,3)] in blast)+
qed

lemma analyze_delete_part:
  assumes "c \<in> set (visibility_changes n x y) \<or> c \<in> set (archive_changes n x y) \<or> c \<in> set (default_branch_changes n x y) \<or>
      c \<in> set (analyze_permission_changes n u v)" and "ch_Operation c = ''delete''"
  shows False
  using assms unfolding visibility_changes_def archive_changes_def default_branch_changes_def analyze_permission_changes_def holder_changes_def
  by (auto simp: Let_def split: option.splits if_splits)

lemma analyze_delete:
  assumes "c \<in> set (analyze_repository_changes owner repo before after)" and "ch_Operation c = ''delete''"
  shows "c \<in> set (map (removed_protection (owner @ ''/'' @ repo)) (gm_keys (entries (gc_BranchProtection before))))"
proof -
  let ?n = "owner @ ''/'' @ repo"
  have "c \<notin> set (modified_protection ?n b q p)" for b q p using assms(2) by (auto simp: modified_protection_def)
  moreover have "c \<in> set (analyze_branch_protection_changes ?n (entries (gc_BranchProtection before)) (entries (gc_BranchProtection after)))"
    using assms(1) analyze_delete_part [OF _ assms(2)] unfolding analyze_repository_changes_def Let_def set_append by blast
  ultimately show ?thesis using assms(2) unfolding analyze_branch_protection_changes_def
    by (auto simp: in_map_filter gm_keys_def image_iff simp del: append_Cons append_Nil split: option.splits if_splits) (metis fst_conv)?
qed

section \<open>Skipping\<close>

definition skipped_field :: "risk_level list \<Rightarrow> sensitive_change list \<Rightarrow> string \<Rightarrow> bool" where
  "skipped_field skipped changes field \<longleftrightarrow> (\<exists>c\<in>set changes. ch_Risk c \<in> set skipped \<and> ch_Field c = field)"

lemma revert_settings:
  "gc_Private (foldl (revert_setting sk cur) t cs) = (if skipped_field sk cs ''private'' then gc_Private cur else gc_Private t)"
  "gc_Archived (foldl (revert_setting sk cur) t cs) = (if skipped_field sk cs ''archived'' then gc_Archived cur else gc_Archived t)"
  "rs_DefaultBranch (gc_Settings (foldl (revert_setting sk cur) t cs)) =
     (if skipped_field sk cs ''default_branch'' then rs_DefaultBranch (gc_Settings cur) else rs_DefaultBranch (gc_Settings t))"
  "gc_BranchProtection (foldl (revert_setting sk cur) t cs) = gc_BranchProtection t"
  "gc_Permissions (foldl (revert_setting sk cur) t cs) = gc_Permissions t"
  by (induction cs arbitrary: t) (auto simp: revert_setting_def skipped_field_def)

lemma revert_enforce:
  "bc_EnforceAdmins (foldl (revert_protection sk q) p cs) =
     (if \<exists>c\<in>set cs. ch_Category c = ''branch_protection'' \<and> ch_Risk c \<in> set sk \<and> ch_Field c = ''enforce_admins''
      then bc_EnforceAdmins q else bc_EnforceAdmins p)"
  by (induction cs arbitrary: p) (auto simp: revert_protection_def)

lemma filter_protection_entry:
  assumes "(b, p') \<in> set (filter_protection sk cs cur tgt)"
  shows "\<exists>p. (b, p) \<in> set tgt \<and> p' = (case gm_get cur b of None \<Rightarrow> p | Some q \<Rightarrow> foldl (revert_protection sk q) p cs)"
proof -
  let ?f = "\<lambda>b p. case gm_get cur b of None \<Rightarrow> p | Some q \<Rightarrow> foldl (revert_protection sk q) p cs"
  have "\<exists>p. (b, p) \<in> set done \<union> set tgt \<and> p' = ?f b p"
    if "(b, p') \<in> set (foldl (\<lambda>m (b, p). gm_put b (?f b p) m) m tgt)" "\<forall>b p'. (b, p') \<in> set m \<longrightarrow> (\<exists>p. (b, p) \<in> set done \<and> p' = ?f b p)" for m "done"
    using that
  proof (induction tgt arbitrary: m "done")
    case Nil
    then show ?case by simp
  next
    case (Cons e tgt)
    obtain b0 p0 where e: "e = (b0, p0)" by (cases e)
    have "\<forall>b p'. (b, p') \<in> set (gm_put b0 (?f b0 p0) m) \<longrightarrow> (\<exists>p. (b, p) \<in> set ((b0, p0) # done) \<and> p' = ?f b p)"
      using Cons.prems(2) gm_put_entries by fastforce
    from Cons.IH [OF _ this] Cons.prems(1) show ?case unfolding e by auto
  qed
  from this [of "[]" "[]"] assms show ?thesis by (simp add: filter_protection_def)
qed

lemma filtered_config:
  assumes "filtered = filter_config_by_skipped_risks cur tgt sk" and "cs = analyze_repository_changes [] [] cur tgt"
  shows "gc_Private filtered = (if skipped_field sk cs ''private'' then gc_Private cur else gc_Private tgt)"
    and "gc_Archived filtered = (if skipped_field sk cs ''archived'' then gc_Archived cur else gc_Archived tgt)"
    and "rs_DefaultBranch (gc_Settings filtered) =
      (if skipped_field sk cs ''default_branch'' then rs_DefaultBranch (gc_Settings cur) else rs_DefaultBranch (gc_Settings tgt))"
    and "gc_BranchProtection filtered =
      map_option (filter_protection sk cs (entries (gc_BranchProtection cur))) (gc_BranchProtection tgt)"
  unfolding assms filter_config_by_skipped_risks_def Let_def
  by (auto simp: revert_settings split: prod.splits)

text \<open>A skipped risk leaves no change of that risk behind, apart from removed protections.\<close>

lemma skipped_withheld:
  assumes "c \<in> set (analyze_repository_changes owner repo cur (filter_config_by_skipped_risks cur tgt sk))"
    and "RiskHigh \<le> ch_Risk c" and "ch_Risk c \<in> set sk"
  shows "ch_Operation c = ''delete''"
proof (rule ccontr)
  assume nd: "ch_Operation c \<noteq> ''delete''"
  define fl where "fl = filter_config_by_skipped_risks cur tgt sk"
  define cs where "cs = analyze_repository_changes [] [] cur tgt"
  note f = filtered_config [OF fl_def cs_def]
  have field: "skipped_field sk cs fd" if "\<exists>x\<in>set cs. ch_Field x = fd \<and> ch_Risk x = ch_Risk c" for fd
    using that assms(3) unfolding skipped_field_def by metis
  from analyze_severe [OF assms(1,2) nd] consider
      (vis) "gc_Private cur \<noteq> gc_Private fl" "ch_Risk c = RiskCritical"
    | (archived) "\<not> gc_Archived cur" "gc_Archived fl" "ch_Risk c = RiskHigh"
    | (branch) "rs_DefaultBranch (gc_Settings cur) \<noteq> rs_DefaultBranch (gc_Settings fl)" "rs_DefaultBranch (gc_Settings cur) \<noteq> []"
        "rs_DefaultBranch (gc_Settings fl) \<noteq> []" "ch_Risk c = RiskHigh"
    | (enforce) b p q where "(b, p) \<in> set (entries (gc_BranchProtection fl))" "gm_get (entries (gc_BranchProtection cur)) b = Some q"
        "bc_EnforceAdmins q" "\<not> bc_EnforceAdmins p" "ch_Risk c = RiskHigh"
    unfolding fl_def by blast
  then show False
  proof cases
    case vis
    then have "\<not> skipped_field sk cs ''private''" "gc_Private cur \<noteq> gc_Private tgt" using f(1) by (auto split: if_splits)
    then show False using field [of "''private''"] analyze_has(1) [of cur tgt "[]" "[]"] vis(2) by (auto simp: cs_def)
  next
    case archived
    then have "\<not> skipped_field sk cs ''archived''" "gc_Archived tgt" using f(2) by (auto split: if_splits)
    then show False using field [of "''archived''"] analyze_has(2) [of cur tgt "[]" "[]"] archived by (auto simp: cs_def)
  next
    case branch
    then have "\<not> skipped_field sk cs ''default_branch''" "rs_DefaultBranch (gc_Settings tgt) = rs_DefaultBranch (gc_Settings fl)"
      using f(3) by (auto split: if_splits)
    then show False using field [of "''default_branch''"] analyze_has(3) [of cur tgt "[]" "[]"] branch by (auto simp: cs_def)
  next
    case enforce
    then have "(b, p) \<in> set (filter_protection sk cs (entries (gc_BranchProtection cur)) (entries (gc_BranchProtection tgt)))"
      using f(4) by (cases "gc_BranchProtection tgt") (simp_all add: entries_def)
    then obtain p0 where p0: "(b, p0) \<in> set (entries (gc_BranchProtection tgt))" "p = foldl (revert_protection sk q) p0 cs"
      using filter_protection_entry enforce(2) by fastforce
    then have ne: "\<not> (\<exists>x\<in>set cs. ch_Category x = ''branch_protection'' \<and> ch_Risk x \<in> set sk \<and> ch_Field x = ''enforce_admins'')"
      and "\<not> bc_EnforceAdmins p0" using enforce(3,4) by (auto simp: revert_enforce split: if_splits)
    from analyze_has_enforce [OF p0(1) enforce(2,3) this(2), of "[]" "[]"] ne assms(3) enforce(5) show False
      by (auto simp: cs_def)
  qed
qed

section \<open>Consent\<close>

lemma categories_get: "gm_at [] (categorize_changes_by_risk changes) r = filter (\<lambda>c. ch_Risk c = r) changes"
proof -
  have "gm_at [] (foldl (\<lambda>m c. gm_put (ch_Risk c) (gm_at [] m (ch_Risk c) @ [c]) m) m changes) r = gm_at [] m r @ filter (\<lambda>c. ch_Risk c = r) changes" for m
    by (induction changes arbitrary: m) auto
  then show ?thesis by (simp add: categorize_changes_by_risk_def)
qed

definition says_yes :: "confirmation_prompt \<Rightarrow> bool" where
  "says_yes cp \<longleftrightarrow> pr_AutoConfirm cp \<or> (\<exists>line. pr_Input cp = Some line \<and> to_lower (trim_space line) \<in> {''y'', ''yes''})"

definition says_skip :: "confirmation_prompt \<Rightarrow> bool" where
  "says_skip cp \<longleftrightarrow> \<not> pr_AutoConfirm cp \<and> (\<exists>line. pr_Input cp = Some line \<and> to_lower (trim_space line) \<in> {''s'', ''skip''})"

definition severe_risks :: "sensitive_change list \<Rightarrow> risk_level list" where
  "severe_risks changes = filter (\<lambda>r. list_ex (\<lambda>c. ch_Risk c = r) changes) [RiskCritical, RiskHigh]"

lemma request_confirmation_confirmed:
  assumes "request_confirmation cp (update_request owner repo changes) = (None, result)" and "cr_Confirmed result"
  shows "(says_yes cp \<and> cr_SkippedRisks result = []) \<or>
    (says_skip cp \<and> cr_SkippedRisks result = severe_risks changes \<and> cr_SkippedRisks result \<noteq> [])"
proof (cases "pr_AutoConfirm cp")
  case True
  then show ?thesis using assms by (auto simp: request_confirmation_def says_yes_def update_request_def no_result_def)
next
  case False
  have sev: "gm_at [] (categorize_changes_by_risk changes) r \<noteq> [] \<longleftrightarrow> list_ex (\<lambda>c. ch_Risk c = r) changes" for r
    by (auto simp: categories_get filter_empty_conv list_ex_iff)
  show ?thesis using assms False
    by (auto simp: request_confirmation_def update_request_def prompt_for_confirmation_def no_result_def Let_def sev
        says_yes_def says_skip_def severe_risks_def split: option.splits if_splits)
qed

lemma send_sublist: "snd (send api ws) = map fst (take (length (snd (send api ws))) ws)"
  by (induction ws) (auto split: option.splits prod.splits)

section \<open>Properties\<close>

text \<open>
  Property C20. With a prompt, an update writes only if the current configuration could not be
  read, or nothing sensitive was found in the change, or the user agreed; after a skip, the
  configuration written is the one without the severe risks.
\<close>

theorem update_needs_consent:
  assumes "update_repository_configuration_with_confirmation api owner repo config (Some cp) = (err, sent)" and "sent \<noteq> []"
  shows "\<exists>written. sent = map fst (take (length sent) (writes_of_config owner repo written)) \<and>
    (case get_repository_configuration api owner repo of
       Inl _ \<Rightarrow> written = config
     | Inr current \<Rightarrow>
         let changes = analyze_repository_changes owner repo current config in
         written = config \<and> (changes = [] \<or> says_yes cp) \<or>
         says_skip cp \<and> severe_risks changes \<noteq> [] \<and> written = filter_config_by_skipped_risks current config (severe_risks changes))"
proof -
  obtain written where w: "confirmed_config api owner repo config (Some cp) = Inr written" "(err, sent) = apply_config api owner repo written"
    using assms by (auto simp: update_repository_configuration_with_confirmation_def split: sum.splits)
  have "sent = map fst (take (length sent) (writes_of_config owner repo written))"
    using send_sublist [of api "writes_of_config owner repo written"] w(2) unfolding apply_config_def by (metis snd_conv)
  moreover have "case get_repository_configuration api owner repo of
       Inl _ \<Rightarrow> written = config
     | Inr current \<Rightarrow>
         let changes = analyze_repository_changes owner repo current config in
         written = config \<and> (changes = [] \<or> says_yes cp) \<or>
         says_skip cp \<and> severe_risks changes \<noteq> [] \<and> written = filter_config_by_skipped_risks current config (severe_risks changes)"
  proof (cases "get_repository_configuration api owner repo")
    case (Inl e)
    then show ?thesis using w(1) by (simp add: confirmed_config_def)
  next
    case (Inr current)
    let ?cs = "analyze_repository_changes owner repo current config"
    show ?thesis
    proof (cases "?cs = []")
      case True
      then show ?thesis using w(1) Inr by (simp add: confirmed_config_def Let_def)
    next
      case False
      then obtain result where r: "request_confirmation cp (update_request owner repo ?cs) = (None, result)" "cr_Confirmed result"
        "written = (if cr_SkippedRisks result \<noteq> [] then filter_config_by_skipped_risks current config (cr_SkippedRisks result) else config)"
        using w(1) Inr by (auto simp: confirmed_config_def Let_def split: prod.splits option.splits if_splits)
      then show ?thesis using request_confirmation_confirmed [OF r(1,2)] Inr by (auto simp: Let_def)
    qed
  qed
  ultimately show ?thesis by blast
qed

text \<open>
  Property C21. A configuration from which the user skipped the severe risks has, compared with
  the current one, no change of a skipped risk left except removals of a branch protection,
  which no update performs.
\<close>

theorem skipped_risks_withheld:
  assumes "c \<in> set (analyze_repository_changes owner repo current (filter_config_by_skipped_risks current target (severe_risks changes)))"
    and "ch_Risk c \<in> set (severe_risks changes)"
  shows "c \<in> set (map (removed_protection (owner @ ''/'' @ repo)) (gm_keys (entries (gc_BranchProtection current))))"
proof -
  have "RiskHigh \<le> ch_Risk c" using assms(2) by (auto simp: severe_risks_def less_eq_risk_level_def risk_rank_def split: if_splits)
  from skipped_withheld [OF assms(1) this assms(2)] have "ch_Operation c = ''delete''" .
  then show ?thesis by (rule analyze_delete [OF assms(1)])
qed

text \<open>
  When the service answers that the default branch is not protected, the prompt is
  never consulted: every prompt gives the update that no prompt gives.
\<close>

theorem unprotected_repository_unconfirmed:
  assumes "ga_Repository api owner repo = Inr r" and "ar_DefaultBranch r \<noteq> []"
    and "ga_Protection api owner repo (ar_DefaultBranch r) = Inl (ApiError 404 message)"
  shows "update_repository_configuration_with_confirmation api owner repo config prompt = update_repository_configuration api owner repo config"
proof -
  have "get_repository_configuration api owner repo = Inl (ApiError 404 message)"
    using assms by (simp add: get_repository_configuration_def with_protection_def config_of_repository_def Let_def)
  then show ?thesis
    by (cases prompt) (simp_all add: update_repository_configuration_with_confirmation_def update_repository_configuration_def confirmed_config_def)
qed

text \<open>
  A run over an organization touches only listed repositories that are neither
  excluded nor archived and counts each of them once, as a success or as a failure with its
  error, in whatever order the workers finish.
\<close>

theorem bulk_accounts_for_repositories:
  assumes "apply_configuration_to_organization api org config options (Inr repos) lines order = Inr (result, sent)"
    and "\<And>rs. mset (order rs) = mset rs" and "distinct (map ar_Name repos)"
  shows "bu_Success result + bu_Failed result = bu_Total result \<and> bu_Total result = int (length (filter_repositories options repos)) \<and>
    int (length (gm_keys (bu_Errors result))) = bu_Failed result \<and>
    set (gm_keys (bu_Errors result)) = {n. n \<in> set (map ar_Name (filter_repositories options repos)) \<and> fst (bulk_step api org config options lines n) \<noteq> None}"
proof -
  let ?fs = "filter_repositories options repos"
  let ?os = "map (\<lambda>r. (ar_Name r, fst (bulk_step api org config options lines (ar_Name r)))) (order ?fs)"
  have run: "bu_Success out + bu_Failed out = bu_Success r0 + bu_Failed r0 + int (length os) \<and> bu_Total out = bu_Total r0 \<and>
      (bu_Failed out - int (length (gm_keys (bu_Errors out))) = bu_Failed r0 - int (length (gm_keys (bu_Errors r0)))) \<and>
      set (gm_keys (bu_Errors out)) = set (gm_keys (bu_Errors r0)) \<union> {n. \<exists>e. (n, Some e) \<in> set os}"
    if "out = foldl record_outcome r0 os" "distinct (map fst os)" "set (map fst os) \<inter> set (gm_keys (bu_Errors r0)) = {}" "gm_wf (bu_Errors r0)" for out r0 os
    using that
  proof (induction os arbitrary: r0)
    case (Cons x os)
    obtain n o1 where x: "x = (n, o1)" by (cases x)
    have k: "length (gm_keys (gm_put n e (bu_Errors r0))) = Suc (length (gm_keys (bu_Errors r0)))" for e
      using Cons.prems(3,4) by (simp add: x length_gm_keys)
    have "set (map fst os) \<inter> set (gm_keys (bu_Errors (record_outcome r0 x))) = {}" "gm_wf (bu_Errors (record_outcome r0 x))"
      using Cons.prems(2-4) by (auto simp: x record_outcome_def split: option.splits)
    from Cons.IH [OF _ _ this] Cons.prems(1,2) k show ?case
      by (cases o1) (auto simp: x record_outcome_def)
  qed simp
  have m: "mset (order ?fs) = mset ?fs" by (rule assms(2))
  have "distinct (map ar_Name ?fs)" using assms(3) by (simp add: filter_repositories_def distinct_map_filter)
  then have d: "distinct (map ar_Name (order ?fs))" by (metis m mset_map mset_eq_imp_distinct_iff)
  have r: "result = foldl record_outcome \<lparr>bu_Total = int (length ?fs), bu_Success = 0, bu_Failed = 0, bu_Skipped = 0, bu_Errors = []\<rparr> ?os"
    using assms(1) by (auto simp: apply_configuration_to_organization_def Let_def comp_def case_prod_beta split: option.splits)
  have "set (order ?fs) = set ?fs" "length (order ?fs) = length ?fs" using m by (rule mset_eq_setD, rule mset_eq_length)
  then show ?thesis using run [OF r] d by (auto simp: comp_def image_iff) (metis+)?
qed


section \<open>Witnesses\<close>

definition sample_repository :: "string \<Rightarrow> api_repository" where
  "sample_repository name =
     \<lparr>ar_ID = 7, ar_Name = name, ar_FullName = ''acme/'' @ name, ar_Description = [], ar_Homepage = [],
      ar_Private = True, ar_Archived = False, ar_HTMLURL = [], ar_CloneURL = [], ar_SSHURL = [],
      ar_DefaultBranch = ''main'', ar_CreatedAt = [], ar_UpdatedAt = [], ar_Language = ''Go'', ar_Topics = [],
      ar_HasIssues = True, ar_HasProjects = False, ar_HasWiki = False, ar_HasDownloads = False, ar_AllowSquashMerge = True,
      ar_AllowMergeCommit = False, ar_AllowRebaseMerge = False, ar_DeleteBranchOnMerge = True\<rparr>"

definition sample_protection :: branch_protection where
  "sample_protection =
     \<lparr>bp_RequiredStatusChecks = None, bp_EnforceAdmins = True, bp_RequiredPullRequestReviews = None, bp_Restrictions = None,
      bp_AllowForcePushes = None, bp_AllowDeletions = None, bp_RequiredConversationResolution = None\<rparr>"

definition sample_api :: "api_error + branch_protection \<Rightarrow> github_api" where
  "sample_api protection =
     \<lparr>ga_Repository = \<lambda>_ repo. Inr (sample_repository repo), ga_Protection = \<lambda>_ _ _. protection,
      ga_Teams = \<lambda>_ _. Inr [], ga_Collaborators = \<lambda>_ _. Inr [],
      ga_Write = \<lambda>w. case w of PatchRepository _ ''b'' _ \<Rightarrow> Some (ApiError 403 ''Forbidden'') | _ \<Rightarrow> None\<rparr>"

definition sample_target :: repository_config where
  "sample_target = (config_of_repository (sample_repository ''a''))\<lparr>gc_Name := [], gc_Private := False\<rparr>"

definition sample_prompt :: confirmation_prompt where
  "sample_prompt = \<lparr>pr_AutoConfirm = False, pr_Input = Some '' S''\<rparr>"

definition sample_current :: repository_config where
  "sample_current = (config_of_repository (sample_repository ''a''))\<lparr>
     gc_BranchProtection := Some [(''main'', convert_branch_protection sample_protection)],
     gc_Permissions := \<lparr>pm_Teams = Some [], pm_Users = Some []\<rparr>\<rparr>"

lemma sample_read: "get_repository_configuration (sample_api (Inr sample_protection)) ''org'' ''a'' = Inr sample_current"
  by code_simp

lemma sample_update:
  "update_repository_configuration_with_confirmation (sample_api (Inr sample_protection)) ''org'' ''a'' sample_target (Some sample_prompt) =
     (None, [PatchRepository ''org'' ''a'' (update_of_config (sample_target\<lparr>gc_Private := True\<rparr>))])"
  by code_simp

lemma update_needs_consent_witness:
  "\<exists>written. [PatchRepository ''org'' ''a'' (update_of_config (sample_target\<lparr>gc_Private := True\<rparr>))] =
      map fst (take 1 (writes_of_config ''org'' ''a'' written)) \<and>
    (let changes = analyze_repository_changes ''org'' ''a'' sample_current sample_target in
     written = sample_target \<and> (changes = [] \<or> says_yes sample_prompt) \<or>
     says_skip sample_prompt \<and> severe_risks changes \<noteq> [] \<and>
     written = filter_config_by_skipped_risks sample_current sample_target (severe_risks changes))"
  using update_needs_consent [OF sample_update] by (simp only: sample_read sum.case) simp

lemma skipped_risks_withheld_witness:
  "removed_protection ''org/a'' ''main'' \<in> set (map (removed_protection (''org'' @ ''/'' @ ''a'')) (gm_keys (entries (gc_BranchProtection sample_current))))"
proof (rule skipped_risks_withheld [where target = sample_target])
  show "removed_protection ''org/a'' ''main'' \<in> set (analyze_repository_changes ''org'' ''a'' sample_current
    (filter_config_by_skipped_risks sample_current sample_target (severe_risks [removed_protection ''org/a'' ''main''])))"
    by code_simp
  show "ch_Risk (removed_protection ''org/a'' ''main'') \<in> set (severe_risks [removed_protection ''org/a'' ''main''])" by code_simp
qed

lemma unprotected_repository_unconfirmed_witness:
  "update_repository_configuration_with_confirmation (sample_api (Inl (ApiError 404 ''Not Found''))) ''org'' ''a'' sample_target (Some sample_prompt) =
   update_repository_configuration (sample_api (Inl (ApiError 404 ''Not Found''))) ''org'' ''a'' sample_target"
  by (rule unprotected_repository_unconfirmed [of _ _ _ "sample_repository ''a''"]) (simp_all add: sample_api_def sample_repository_def)

definition sample_options :: bulk_options where
  "sample_options = \<lparr>bo_DryRun = False, bo_ConcurrentWorkers = 2, bo_ExcludeRepositories = [''c''], bo_IncludeRepositories = [],
     bo_ConfirmationPrompt = None\<rparr>"

lemma sample_bulk:
  "map_sum id fst (apply_configuration_to_organization (sample_api (Inr sample_protection)) ''org'' sample_target sample_options
      (Inr (map sample_repository [''a'', ''b'', ''c''])) (\<lambda>_. None) rev) =
   Inr \<lparr>bu_Total = 2, bu_Success = 1, bu_Failed = 1, bu_Skipped = 0,
     bu_Errors = [(''b'', UpdateFailed (SettingsFailed (ApiError 403 ''Forbidden'')))]\<rparr>"
  by code_simp

lemma bulk_accounts_for_repositories_witness:
  "int (length (gm_keys [(''b'', UpdateFailed (SettingsFailed (ApiError 403 ''Forbidden'')))])) = (1::int) \<and>
   set [''b''] = {n. n \<in> set (map ar_Name (filter_repositories sample_options (map sample_repository [''a'', ''b'', ''c'']))) \<and>
     fst (bulk_step (sample_api (Inr sample_protection)) ''org'' sample_target sample_options (\<lambda>_. None) n) \<noteq> None}"
proof -
  obtain sent where r: "apply_configuration_to_organization (sample_api (Inr sample_protection)) ''org'' sample_target sample_options
      (Inr (map sample_repository [''a'', ''b'', ''c''])) (\<lambda>_. None) rev =
    Inr (\<lparr>bu_Total = 2, bu_Success = 1, bu_Failed = 1, bu_Skipped = 0,
     bu_Errors = [(''b'', UpdateFailed (SettingsFailed (ApiError 403 ''Forbidden'')))]\<rparr>, sent)"
    using sample_bulk by (auto elim: map_sum_InrE)
  have "distinct (map ar_Name (map sample_repository [''a'', ''b'', ''c'']))" by (simp add: sample_repository_def)
  from bulk_accounts_for_repositories [OF r _ this] show ?thesis by (simp add: gm_keys_def)
qed

section \<open>Limits of the analysis\<close>

text \<open>The levels are GitHub's words for roles; the configuration and the service use others.\<close>

lemma pull_to_admin_unnoticed: "\<not> is_permission_escalation ''pull'' ''admin''" "is_permission_escalation ''read'' ''admin''"
  by code_simp+

text \<open>Skipping the disabled enforcement of one branch undoes its enabling on another.\<close>

lemma skip_reverts_every_branch:
  "gm_keys (filter_protection [RiskHigh] [\<lparr>ch_Repository = ''r'', ch_Category = ''branch_protection'', ch_Operation = ''update'',
      ch_Field = ''enforce_admins'', ch_OldValue = AnyBool True, ch_NewValue = AnyBool False, ch_Risk = RiskHigh,
      ch_Description = ''Admin enforcement disabled for main'', ch_Impact = []\<rparr>]
     [(''dev'', (convert_branch_protection sample_protection)\<lparr>bc_EnforceAdmins := False\<rparr>)] [(''dev'', convert_branch_protection sample_protection)]) = [''dev'']"
  "map (bc_EnforceAdmins o snd) (filter_protection [RiskHigh] [\<lparr>ch_Repository = ''r'', ch_Category = ''branch_protection'', ch_Operation = ''update'',
      ch_Field = ''enforce_admins'', ch_OldValue = AnyBool True, ch_NewValue = AnyBool False, ch_Risk = RiskHigh,
      ch_Description = ''Admin enforcement disabled for main'', ch_Impact = []\<rparr>]
     [(''dev'', (convert_branch_protection sample_protection)\<lparr>bc_EnforceAdmins := False\<rparr>)] [(''dev'', convert_branch_protection sample_protection)]) = [False]"
  by code_simp+

text \<open>Reading back what was written loses the three settings that are not converted.\<close>

lemma protection_roundtrip:
  assumes "0 < bc_RequiredReviews c" and "bc_RequiredStatusChecks c \<noteq> []" and "bc_RestrictPushes c"
  shows "convert_branch_protection (protection_of_config c) =
    c\<lparr>bc_RequireConversationResolution := False, bc_AllowForcePushes := False, bc_AllowDeletions := False\<rparr>"
  using assms by (cases c) (simp add: convert_branch_protection_def protection_of_config_def)


section \<open>Pages\<close>

text \<open>Full pages followed by a short one are all collected; a page size of zero never ends.\<close>

lemma list_pages_collects:
  assumes "n \<le> fuel" and "\<And>i. i < n \<Longrightarrow> \<exists>rs. fetch (page + i) = Inr rs \<and> perPage \<le> int (length rs)"
    and "fetch (page + n) = Inr rs" and "int (length rs) < perPage"
  shows "list_pages (Suc fuel) fetch perPage page acc =
    Some (Inr (acc @ concat (map (\<lambda>i. projr (fetch (page + i))) [0..<Suc n])))"
  using assms
proof (induction n arbitrary: fuel page acc)
  case 0
  then show ?case by simp
next
  case (Suc n)
  then obtain f where f: "fuel = Suc f" "n \<le> f" by (cases fuel) auto
  obtain rs0 where r0: "fetch page = Inr rs0" "perPage \<le> int (length rs0)" using Suc.prems(2) [of 0] by auto
  have "list_pages (Suc f) fetch perPage (Suc page) (acc @ rs0) =
      Some (Inr ((acc @ rs0) @ concat (map (\<lambda>i. projr (fetch (Suc page + i))) [0..<Suc n])))"
    using Suc.prems(2) [of "Suc _"] Suc.prems(3,4) f(2) by (intro Suc.IH) auto
  moreover have "map (\<lambda>i. projr (fetch (page + i))) [0..<Suc (Suc n)] = rs0 # map (\<lambda>i. projr (fetch (Suc page + i))) [0..<Suc n]"
    using r0(1) by (subst upt_conv_Cons) (simp_all add: map_Suc_upt [symmetric] comp_def del: upt_Suc)
  ultimately show ?case using r0 by (subst list_pages.simps) (simp add: f(1) del: upt_Suc list_pages.simps)
qed

lemma list_pages_endless:
  assumes "perPage \<le> 0" and "\<And>p. \<exists>rs. fetch p = Inr rs"
  shows "list_pages fuel fetch perPage page acc = None"
proof (induction fuel arbitrary: page acc)
  case (Suc fuel)
  then show ?case using assms(1) assms(2) [of page] by auto
qed simp

end
