(* ===== verification/RateLimiter.thy ===== *)
theory RateLimiter
  imports GoPrelude
begin

text \<open>
  Rate limiting and retries of the GitHub client (\<open>pkg/github/rate_limiter.go\<close> and
  \<open>makeRequest\<close> of \<open>pkg/github/repo_config.go\<close>).

  A clock counting nanoseconds is part of the state. The context is a function: does it end
  during a sleep that starts at a time and has a length. The service is a function from the
  number of the attempt and the time of sending to the reply and the time at which it arrives.
\<close>

section \<open>The limiter\<close>

record rate_limiter =
  rl_limit :: int
  rl_remaining :: int
  rl_resetTime :: int
  rl_retryAfter :: int
  rl_maxRetries :: int

text \<open>A header that is absent reads as the empty string.\<close>

record http_response =
  hr_StatusCode :: int
  hr_Status :: string
  hr_Header :: "string \<Rightarrow> string"
  hr_ErrorBody :: "string option"

type_synonym go_context = "int \<Rightarrow> int \<Rightarrow> bool"

definition new_rate_limiter :: "int \<Rightarrow> rate_limiter" where
  "new_rate_limiter now =
     \<lparr>rl_limit = 5000, rl_remaining = 5000, rl_resetTime = now + 3600 * nanosecond_second, rl_retryAfter = 0, rl_maxRetries = 3\<rparr>"

text \<open>The time after a sleep, or nothing when the context ends first.\<close>

definition go_sleep :: "go_context \<Rightarrow> int \<Rightarrow> int \<Rightarrow> int option" where
  "go_sleep ctx now d = (if ctx now d then None else Some (now + max 0 d))"

definition time_until :: "int \<Rightarrow> int \<Rightarrow> int" where
  "time_until now t = min (t - now) (2 ^ 63 - 1)"

definition await_reset :: "go_context \<Rightarrow> rate_limiter \<Rightarrow> int \<Rightarrow> int option" where
  "await_reset ctx rl now =
     (if rl_remaining rl \<le> 0 \<and> now < rl_resetTime rl then go_sleep ctx now (time_until now (rl_resetTime rl)) else Some now)"

definition rl_wait :: "go_context \<Rightarrow> rate_limiter \<Rightarrow> int \<Rightarrow> int option \<times> rate_limiter" where
  "rl_wait ctx rl now =
     (let rl1 = (if 0 < rl_retryAfter rl then rl\<lparr>rl_retryAfter := 0\<rparr> else rl) in
      case (if 0 < rl_retryAfter rl then go_sleep ctx now (rl_retryAfter rl) else Some now) of
        None \<Rightarrow> (None, rl1)
      | Some t1 \<Rightarrow>
          (case await_reset ctx rl1 t1 of
             None \<Rightarrow> (None, rl1)
           | Some t2 \<Rightarrow> (Some t2, rl1\<lparr>rl_remaining := rl_remaining rl1 - 1\<rparr>)))"

definition header_number :: "http_response \<Rightarrow> string \<Rightarrow> int option" where
  "header_number resp name = (if hr_Header resp name = [] then None else atoi (hr_Header resp name))"

definition rl_update :: "http_response \<Rightarrow> rate_limiter \<Rightarrow> rate_limiter" where
  "rl_update resp rl =
     (let or = (\<lambda>name f old. case header_number resp name of None \<Rightarrow> old | Some v \<Rightarrow> f v) in
      rl\<lparr>rl_remaining := or ''X-RateLimit-Remaining'' id (rl_remaining rl),
         rl_limit := or ''X-RateLimit-Limit'' id (rl_limit rl),
         rl_resetTime := or ''X-RateLimit-Reset'' (\<lambda>r. r * nanosecond_second) (rl_resetTime rl),
         rl_retryAfter := or ''Retry-After'' (\<lambda>s. wrap64 (s * nanosecond_second)) (rl_retryAfter rl)\<rparr>)"

definition set_retry_after :: "int \<Rightarrow> rate_limiter \<Rightarrow> rate_limiter" where
  "set_retry_after d rl = rl\<lparr>rl_retryAfter := d\<rparr>"

definition rl_status :: "rate_limiter \<Rightarrow> int \<times> int \<times> int" where
  "rl_status rl = (rl_remaining rl, rl_limit rl, rl_resetTime rl)"

text \<open>The random jitter is a parameter, a function of the backoff.\<close>

definition backoff_base :: "int \<Rightarrow> int" where
  "backoff_base attempt0 =
     (let attempt = (if attempt0 < 0 then 0 else attempt0) in
      min (wrap64 (wrap64 (2 ^ nat attempt) * nanosecond_second)) (60 * nanosecond_second))"

definition calculate_backoff_with_jitter :: "(int \<Rightarrow> int) \<Rightarrow> int \<Rightarrow> int" where
  "calculate_backoff_with_jitter jitter attempt = (let backoff = backoff_base attempt in wrap64 (backoff + jitter backoff))"

definition should_retry :: "http_response option \<Rightarrow> bool" where
  "should_retry resp =
     (case resp of
        None \<Rightarrow> False
      | Some r \<Rightarrow>
          if hr_StatusCode r = 429 then True
          else if 500 \<le> hr_StatusCode r \<and> hr_StatusCode r < 600 then True
          else hr_Header r ''X-GitHub-Request-Id'' \<noteq> [] \<and> hr_StatusCode r = 403 \<and> hr_Header r ''X-RateLimit-Remaining'' \<noteq> ''0'')"

section \<open>The request loop\<close>

datatype request_error =
    WaitFailed | MarshalFailed | BadRequest | TransportFailed string | SleepCancelled
  | UndecodedError int string | ServiceError int string | RetryableError int int

datatype attempt = Attempt (at_Sent: int) (at_Reply: "string + http_response") (at_Arrived: int)

text \<open>
  \<open>body_ok\<close> says that the body marshals and \<open>request_ok\<close> that the request can be built. The
  result comes with the limiter, the clock and the attempts in their order.
\<close>

record request_env =
  en_Context :: go_context
  en_BodyOk :: bool
  en_RequestOk :: bool
  en_Serve :: "nat \<Rightarrow> int \<Rightarrow> (string + http_response) \<times> int"
  en_Jitter :: "int \<Rightarrow> int"

definition final_result :: "http_response \<Rightarrow> request_error + http_response" where
  "final_result resp =
     (if 400 \<le> hr_StatusCode resp then
        Inl (case hr_ErrorBody resp of
               None \<Rightarrow> UndecodedError (hr_StatusCode resp) (hr_Status resp)
             | Some m \<Rightarrow> ServiceError (hr_StatusCode resp) m)
      else Inr resp)"

function request_loop ::
  "request_env \<Rightarrow> int \<Rightarrow> int \<Rightarrow> rate_limiter \<Rightarrow> int \<Rightarrow> attempt list \<Rightarrow>
   (request_error + http_response) \<times> rate_limiter \<times> int \<times> attempt list" where
  "request_loop env maxRetries retries rl now tr =
     (if maxRetries < retries then (Inl (RetryableError retries 0), rl, now, tr)
      else (case rl_wait (en_Context env) rl now of
              (None, rl1) \<Rightarrow> (Inl WaitFailed, rl1, now, tr)
            | (Some sent, rl1) \<Rightarrow>
                if \<not> en_BodyOk env then (Inl MarshalFailed, rl1, sent, tr)
                else if \<not> en_RequestOk env then (Inl BadRequest, rl1, sent, tr)
                else (case en_Serve env (length tr) sent of
                        (Inl e, arrived) \<Rightarrow> (Inl (TransportFailed e), rl1, arrived, tr @ [Attempt sent (Inl e) arrived])
                      | (Inr resp, arrived) \<Rightarrow>
                          let rl2 = rl_update resp rl1; tr1 = tr @ [Attempt sent (Inr resp) arrived] in
                          if should_retry (Some resp) \<and> retries < maxRetries then
                            (let backoff = max (calculate_backoff_with_jitter (en_Jitter env) retries) (rl_retryAfter rl2) in
                             case go_sleep (en_Context env) arrived backoff of
                               None \<Rightarrow> (Inl SleepCancelled, rl2, arrived, tr1)
                             | Some t \<Rightarrow> request_loop env maxRetries (retries + 1) rl2 t tr1)
                          else (final_result resp, rl2, arrived, tr1))))"
  by pat_completeness auto
termination by (relation "measure (\<lambda>(_, maxRetries, retries, _). nat (maxRetries + 1 - retries))") auto

declare request_loop.simps [simp del]

definition make_request ::
  "request_env \<Rightarrow> rate_limiter \<Rightarrow> int \<Rightarrow> (request_error + http_response) \<times> rate_limiter \<times> int \<times> attempt list" where
  "make_request env rl now = request_loop env 3 0 rl now []"


section \<open>Waiting\<close>

lemma go_sleep_SomeD: "go_sleep ctx now d = Some t \<Longrightarrow> t = now + max 0 d"
  by (simp add: go_sleep_def split: if_splits)

lemma rl_wait_SomeD:
  assumes "rl_wait ctx rl now = (Some t, rl1)"
  shows "now + max 0 (rl_retryAfter rl) \<le> t"
    and "rl_remaining rl \<le> 0 \<Longrightarrow> min (rl_resetTime rl) (now + (2 ^ 63 - 1)) \<le> t"
    and "rl_retryAfter rl1 \<le> 0" and "rl_remaining rl1 = rl_remaining rl - 1"
proof -
  define rl0 where "rl0 = (if 0 < rl_retryAfter rl then rl\<lparr>rl_retryAfter := 0\<rparr> else rl)"
  define t1 where "t1 = now + max 0 (rl_retryAfter rl)"
  have "await_reset ctx rl0 t1 = Some t \<and> rl1 = rl0\<lparr>rl_remaining := rl_remaining rl0 - 1\<rparr>"
    using assms by (auto simp: rl_wait_def Let_def rl0_def t1_def dest!: go_sleep_SomeD split: if_splits option.splits)
  then have s: "t1 = now + max 0 (rl_retryAfter rl)" "rl_resetTime rl0 = rl_resetTime rl" "rl_remaining rl0 = rl_remaining rl"
    "rl_retryAfter rl0 \<le> 0" "await_reset ctx rl0 t1 = Some t" "rl1 = rl0\<lparr>rl_remaining := rl_remaining rl0 - 1\<rparr>"
    by (simp_all add: t1_def rl0_def)
  show "rl_retryAfter rl1 \<le> 0" "rl_remaining rl1 = rl_remaining rl - 1" using s by simp_all
  have t: "t1 \<le> t" "rl_remaining rl \<le> 0 \<Longrightarrow> t1 < rl_resetTime rl \<Longrightarrow> t = t1 + max 0 (time_until t1 (rl_resetTime rl))"
    using s(2,3,5) by (auto simp: await_reset_def dest: go_sleep_SomeD split: if_splits)
  show "now + max 0 (rl_retryAfter rl) \<le> t" using t(1) s(1) by simp
  show "min (rl_resetTime rl) (now + (2 ^ 63 - 1)) \<le> t" if "rl_remaining rl \<le> 0"
    using t(1) t(2) [OF that] s(1) by (cases "t1 < rl_resetTime rl") (auto simp: time_until_def)
qed

section \<open>The attempts\<close>

text \<open>What lies between an attempt and the next one.\<close>

definition retry_gap :: "request_env \<Rightarrow> nat \<Rightarrow> attempt \<Rightarrow> attempt \<Rightarrow> bool" where
  "retry_gap env i a b \<longleftrightarrow>
     (case at_Reply a of
        Inl _ \<Rightarrow> False
      | Inr r \<Rightarrow>
          at_Arrived a + calculate_backoff_with_jitter (en_Jitter env) (int i) \<le> at_Sent b \<and>
          (case header_number r ''Retry-After'' of None \<Rightarrow> True
           | Some s \<Rightarrow> at_Arrived a + 2 * wrap64 (s * nanosecond_second) \<le> at_Sent b) \<and>
          (case (header_number r ''X-RateLimit-Remaining'', header_number r ''X-RateLimit-Reset'') of
             (Some n, Some reset) \<Rightarrow>
               n \<le> 0 \<longrightarrow> min (reset * nanosecond_second) (at_Arrived a + (2 ^ 63 - 1)) \<le> at_Sent b
           | _ \<Rightarrow> True))"

definition attempts_ok :: "request_env \<Rightarrow> attempt list \<Rightarrow> bool" where
  "attempts_ok env tr \<longleftrightarrow>
     (\<forall>i<length tr. (at_Reply (tr ! i), at_Arrived (tr ! i)) = en_Serve env i (at_Sent (tr ! i))) \<and>
     (\<forall>i. Suc i < length tr \<longrightarrow> (\<exists>r. at_Reply (tr ! i) = Inr r \<and> should_retry (Some r)) \<and> retry_gap env i (tr ! i) (tr ! Suc i))"

text \<open>The limiter and the clock when the loop turns to the next attempt.\<close>

definition between_attempts :: "request_env \<Rightarrow> rate_limiter \<Rightarrow> int \<Rightarrow> attempt list \<Rightarrow> bool" where
  "between_attempts env rl now tr \<longleftrightarrow> tr = [] \<or>
     (\<exists>r rl0. at_Reply (last tr) = Inr r \<and> should_retry (Some r) \<and> rl = rl_update r rl0 \<and>
        now = at_Arrived (last tr) + max 0 (max (calculate_backoff_with_jitter (en_Jitter env) (int (length tr) - 1)) (rl_retryAfter rl)))"

lemma next_gap:
  assumes "between_attempts env rl now tr" and "tr \<noteq> []" and "rl_wait ctx rl now = (Some t, rl1)" and "at_Sent b = t"
  shows "retry_gap env (length tr - 1) (last tr) b"
proof -
  obtain r rl0 where r: "at_Reply (last tr) = Inr r" "rl = rl_update r rl0"
    and n: "now = at_Arrived (last tr) + max 0 (max (calculate_backoff_with_jitter (en_Jitter env) (int (length tr) - 1)) (rl_retryAfter rl))"
    using assms(1,2) by (auto simp: between_attempts_def)
  note w = rl_wait_SomeD [OF assms(3)]
  have i: "int (length tr - 1) = int (length tr) - 1" using assms(2) by (cases tr) auto
  have n': "at_Arrived (last tr) \<le> now" "at_Arrived (last tr) + calculate_backoff_with_jitter (en_Jitter env) (int (length tr) - 1) \<le> now"
    "at_Arrived (last tr) + rl_retryAfter rl \<le> now" using n by linarith+
  have a: "at_Arrived (last tr) + calculate_backoff_with_jitter (en_Jitter env) (int (length tr) - 1) \<le> t" using n' w(1) by linarith
  have b: "at_Arrived (last tr) + 2 * rl_retryAfter rl \<le> t" using n' w(1) by linarith
  have c: "rl_remaining rl \<le> 0 \<Longrightarrow> min (rl_resetTime rl) (at_Arrived (last tr) + (2 ^ 63 - 1)) \<le> t" using n'(1) w(2) by linarith
  show ?thesis using a b c unfolding retry_gap_def r(1) i assms(4)
    by (auto simp: r(2) rl_update_def Let_def split: option.splits)
qed

lemma attempts_ok_snoc:
  assumes "attempts_ok env tr" and "(at_Reply b, at_Arrived b) = en_Serve env (length tr) (at_Sent b)"
    and "tr = [] \<or> (\<exists>r. at_Reply (last tr) = Inr r \<and> should_retry (Some r)) \<and> retry_gap env (length tr - 1) (last tr) b"
  shows "attempts_ok env (tr @ [b])"
  unfolding attempts_ok_def
proof (intro conjI allI impI)
  fix i assume "i < length (tr @ [b])"
  then show "(at_Reply ((tr @ [b]) ! i), at_Arrived ((tr @ [b]) ! i)) = en_Serve env i (at_Sent ((tr @ [b]) ! i))"
    using assms(1,2) by (auto simp: attempts_ok_def nth_append less_Suc_eq)
next
  fix i assume i: "Suc i < length (tr @ [b])"
  consider "Suc i < length tr" | "Suc i = length tr" using i by force
  then have "(\<exists>r. at_Reply ((tr @ [b]) ! i) = Inr r \<and> should_retry (Some r)) \<and> retry_gap env i ((tr @ [b]) ! i) ((tr @ [b]) ! Suc i)"
  proof cases
    case 1
    then show ?thesis using assms(1) by (simp add: attempts_ok_def nth_append)
  next
    case 2
    then have "tr \<noteq> []" "i = length tr - 1" "tr ! i = last tr" by (force, force, metis 2 diff_Suc_1 last_conv_nth list.size(3) nat.distinct(1))
    then show ?thesis using assms(3) 2 by (simp add: nth_append)
  qed
  then show "\<exists>r. at_Reply ((tr @ [b]) ! i) = Inr r \<and> should_retry (Some r)" "retry_gap env i ((tr @ [b]) ! i) ((tr @ [b]) ! Suc i)"
    by simp_all
qed

definition request_outcome :: "int \<Rightarrow> request_error + http_response \<Rightarrow> attempt list \<Rightarrow> bool" where
  "request_outcome maxRetries res tr \<longleftrightarrow>
     int (length tr) \<le> maxRetries + 1 \<and>
     (case res of
        Inr r \<Rightarrow> tr \<noteq> [] \<and> at_Reply (last tr) = Inr r \<and> hr_StatusCode r < 400
      | Inl e \<Rightarrow>
          (\<forall>n left. e \<noteq> RetryableError n left) \<and>
          (\<forall>m. e = TransportFailed m \<longrightarrow> tr \<noteq> [] \<and> at_Reply (last tr) = Inl m) \<and>
          (\<forall>c m. e = ServiceError c m \<or> e = UndecodedError c m \<longrightarrow>
             tr \<noteq> [] \<and> (\<exists>r. at_Reply (last tr) = Inr r \<and> hr_StatusCode r = c \<and> 400 \<le> c \<and>
               (should_retry (Some r) \<longrightarrow> int (length tr) = maxRetries + 1))))"

lemma request_loop_ok:
  assumes "request_loop env maxRetries retries rl now tr = (res, rl', t, tr')"
    and "retries = int (length tr)" and "retries \<le> maxRetries" and "attempts_ok env tr" and "between_attempts env rl now tr"
  shows "attempts_ok env tr' \<and> request_outcome maxRetries res tr'"
  using assms
proof (induction env maxRetries retries rl now tr rule: request_loop.induct)
  case (1 env maxRetries retries rl now tr)
  note unf = "1.prems"(1) [unfolded request_loop.simps [of env maxRetries retries rl now tr]]
  obtain o1 rl1 where w: "rl_wait (en_Context env) rl now = (o1, rl1)" by (cases "rl_wait (en_Context env) rl now")
  show ?case
  proof (cases "\<exists>sent reply arrived. o1 = Some sent \<and> en_BodyOk env \<and> en_RequestOk env \<and> en_Serve env (length tr) sent = (reply, arrived)")
    case False
    then have "tr' = tr \<and> (res = Inl WaitFailed \<or> res = Inl MarshalFailed \<or> res = Inl BadRequest)"
      using unf w "1.prems"(3) by (cases o1) (auto split: if_splits prod.splits)
    then show ?thesis using "1.prems"(2,3,4) by (auto simp: request_outcome_def)
  next
    case True
    then obtain sent reply arrived where o: "o1 = Some sent" "en_BodyOk env" "en_RequestOk env" "en_Serve env (length tr) sent = (reply, arrived)"
      by blast
    let ?b = "Attempt sent reply arrived"
    have ok: "attempts_ok env (tr @ [?b])"
    proof (rule attempts_ok_snoc [OF "1.prems"(4)])
      show "tr = [] \<or> (\<exists>r. at_Reply (last tr) = Inr r \<and> should_retry (Some r)) \<and> retry_gap env (length tr - 1) (last tr) ?b"
        using next_gap [OF "1.prems"(5) _ w [unfolded o(1)], of ?b] "1.prems"(5) by (auto simp: between_attempts_def)
    qed (simp add: o(4))
    show ?thesis
    proof (cases reply)
      case (Inl e)
      then show ?thesis using unf w o ok "1.prems"(2,3) by (auto simp: request_outcome_def)
    next
      case (Inr resp)
      let ?rl2 = "rl_update resp rl1"
      let ?bk = "max (calculate_backoff_with_jitter (en_Jitter env) retries) (rl_retryAfter ?rl2)"
      show ?thesis
      proof (cases "should_retry (Some resp) \<and> retries < maxRetries")
        case False
        then have "res = final_result resp" "tr' = tr @ [?b]" using unf w o Inr "1.prems"(3) by (auto simp: Let_def)
        then show ?thesis using ok "1.prems"(2,3) False
          by (auto simp: request_outcome_def final_result_def Inr split: option.splits)
      next
        case True
        show ?thesis
        proof (cases "go_sleep (en_Context env) arrived ?bk")
          case None
          then have "res = Inl SleepCancelled" "tr' = tr @ [?b]" using unf w o Inr True "1.prems"(3) by (auto simp: Let_def)
          then show ?thesis using ok "1.prems"(2,3) by (auto simp: request_outcome_def)
        next
          case (Some t1)
          have rec: "request_loop env maxRetries (retries + 1) ?rl2 t1 (tr @ [Attempt sent (Inr resp) arrived]) = (res, rl', t, tr')"
            using unf w o Inr True "1.prems"(3) Some by (simp add: Let_def)
          have "between_attempts env ?rl2 t1 (tr @ [?b])"
            using go_sleep_SomeD [OF Some] True "1.prems"(2) Inr by (auto simp: between_attempts_def)
          then show ?thesis
            using "1.IH" [OF _ w [symmetric] o(1) _ _ o(4) [symmetric] Inr refl refl True refl Some rec] o True "1.prems"(2,3) ok Inr
            by simp
        qed
      qed
    qed
  qed
qed

text \<open>
  Property C22. A request is sent at most four times, and again only after a reply that asks for a
  retry; the error announcing exhausted retries never occurs. Between two attempts lie the backoff,
  twice the Retry-After of the reply, and the reset of an exhausted limit.
\<close>

theorem request_attempts:
  assumes "make_request env rl now = (res, rl', t, tr)"
  shows "length tr \<le> 4 \<and> attempts_ok env tr \<and> request_outcome 3 res tr"
  using request_loop_ok [OF assms [unfolded make_request_def]] by (auto simp: attempts_ok_def between_attempts_def request_outcome_def)


section \<open>The backoff\<close>

lemma power_2_less_34: "(k :: nat) < 34 \<Longrightarrow> (2 :: int) ^ k \<le> 2 ^ 33"
  by (rule power_increasing) auto

text \<open>Up to the thirty-third attempt the backoff doubles up to a minute; then the product overflows.\<close>

lemma wrap64_seconds: "0 \<le> x \<Longrightarrow> x \<le> 2 ^ 33 \<Longrightarrow> wrap64 (wrap64 x * nanosecond_second) = x * nanosecond_second"
  by (simp add: wrap64_id nanosecond_second_def)

lemma backoff_base_eq:
  assumes "0 \<le> a" and "a < 34"
  shows "backoff_base a = min (2 ^ nat a * nanosecond_second) (60 * nanosecond_second)"
proof -
  have "nat a < 34" using assms by simp
  from wrap64_seconds [OF _ power_2_less_34 [OF this]] show ?thesis using assms(1) by (simp add: backoff_base_def Let_def)
qed

lemma backoff_base_overflow: "backoff_base 34 < 0" "backoff_base 63 = 0"
  by (simp_all add: backoff_base_def wrap64_def nanosecond_second_def)

text \<open>For every attempt the request loop makes, the backoff lies between the doubled delay and a tenth more.\<close>

lemma loop_backoff:
  assumes "0 \<le> a" and "a < 6" and "0 \<le> jitter (backoff_base a)" and "10 * jitter (backoff_base a) \<le> backoff_base a"
  shows "2 ^ nat a * nanosecond_second \<le> calculate_backoff_with_jitter jitter a" and "10 * calculate_backoff_with_jitter jitter a \<le> 11 * (2 ^ nat a * nanosecond_second)"
proof -
  have "(2::int) ^ nat a \<le> 2 ^ 5" using assms(1,2) by (intro power_increasing) auto
  then have b: "backoff_base a = 2 ^ nat a * nanosecond_second" "backoff_base a \<le> 32 * nanosecond_second"
    using assms(1,2) backoff_base_eq [of a] by (auto simp: nanosecond_second_def)
  have "wrap64 (backoff_base a + jitter (backoff_base a)) = backoff_base a + jitter (backoff_base a)"
    using assms(3,4) b by (intro wrap64_id) (auto simp: nanosecond_second_def)
  then have c: "calculate_backoff_with_jitter jitter a = backoff_base a + jitter (backoff_base a)" by (simp add: calculate_backoff_with_jitter_def Let_def)
  show "2 ^ nat a * nanosecond_second \<le> calculate_backoff_with_jitter jitter a" using assms(3) c b(1) by linarith
  have "10 * calculate_backoff_with_jitter jitter a = 10 * backoff_base a + 10 * jitter (backoff_base a)" unfolding c by (rule distrib_left)
  then show "10 * calculate_backoff_with_jitter jitter a \<le> 11 * (2 ^ nat a * nanosecond_second)" using assms(4) unfolding b(1) [symmetric] by linarith
qed

section \<open>Witnesses\<close>

definition sample_reply :: "int \<Rightarrow> string \<Rightarrow> string \<Rightarrow> http_response" where
  "sample_reply code name value1 =
     \<lparr>hr_StatusCode = code, hr_Status = [], hr_Header = (\<lambda>n. if n = name then value1 else []), hr_ErrorBody = Some ''message''\<rparr>"

definition sample_requests :: request_env where
  "sample_requests =
     \<lparr>en_Context = \<lambda>_ _. False, en_BodyOk = True, en_RequestOk = True,
      en_Serve = \<lambda>n t. (Inr (if n = 0 then sample_reply 429 ''Retry-After'' ''5'' else if n = 1 then sample_reply 503 [] [] else sample_reply 200 [] []), t + 1),
      en_Jitter = \<lambda>_. 0\<rparr>"

definition show_result :: "(request_error + http_response) \<times> rate_limiter \<times> int \<times> attempt list \<Rightarrow> int option \<times> int list" where
  "show_result r = ((case fst r of Inl _ \<Rightarrow> None | Inr resp \<Rightarrow> Some (hr_StatusCode resp)), map at_Sent (snd (snd (snd r))))"

text \<open>A Retry-After of five seconds delays the next attempt by ten.\<close>

lemma sample_request:
  "show_result (make_request sample_requests (new_rate_limiter 0) 0) = (Some 200, [0, 10000000001, 12000000002])"
  by code_simp

lemma request_attempts_witness:
  "attempts_ok sample_requests (snd (snd (snd (make_request sample_requests (new_rate_limiter 0) 0))))"
  using request_attempts [of sample_requests "new_rate_limiter 0" 0] by (metis prod.collapse)

end
