(* ===== verification/GoGlob.thy ===== *)
theory GoGlob
  imports GoPrelude
begin

text \<open>
  \<open>filepath.Match\<close> of the Go standard library on Unix, for names and patterns in ASCII. A pattern
  is cut into chunks, each an optional run of asterisks and the text up to the next one; a
  malformed pattern is \<open>None\<close>.
\<close>

section \<open>Chunks\<close>

text \<open>A chunk ends at the first asterisk outside a character class.\<close>

fun chunk_split :: "bool \<Rightarrow> string \<Rightarrow> string \<times> string" where
  "chunk_split inrange [] = ([], [])"
| "chunk_split inrange (c # cs) =
     (if c = CHR 0x5C then
        (case cs of [] \<Rightarrow> ([c], []) | d # ds \<Rightarrow> (case chunk_split inrange ds of (a, b) \<Rightarrow> (c # d # a, b)))
      else if c = CHR ''*'' \<and> \<not> inrange then ([], c # cs)
      else (case chunk_split (if c = CHR ''['' then True else if c = CHR '']'' then False else inrange) cs of
              (a, b) \<Rightarrow> (c # a, b)))"

definition scan_chunk :: "string \<Rightarrow> bool \<times> string \<times> string" where
  "scan_chunk pattern =
     (let rest = dropWhile (\<lambda>c. c = CHR ''*'') pattern
      in (length rest < length pattern, chunk_split False rest))"

lemma chunk_split_append: "chunk_split r s = (a, b) \<Longrightarrow> a @ b = s"
  by (induction r s arbitrary: a b rule: chunk_split.induct) (auto split: if_splits list.splits prod.splits)

lemma chunk_split_rest: "s \<noteq> [] \<Longrightarrow> hd s \<noteq> CHR ''*'' \<Longrightarrow> chunk_split r s = (a, b) \<Longrightarrow> length b < length s"
  by (cases s) (auto split: if_splits list.splits prod.splits dest!: chunk_split_append)

lemma scan_chunk_shorter:
  assumes "scan_chunk pattern = (star, chunk, rest)" and "pattern \<noteq> []"
  shows "length rest < length pattern"
proof -
  let ?d = "dropWhile (\<lambda>c. c = CHR ''*'') pattern"
  have s: "chunk_split False ?d = (chunk, rest)" using assms(1) by (simp add: scan_chunk_def Let_def)
  have le: "length ?d \<le> length pattern" by (rule length_dropWhile_le)
  show ?thesis
  proof (cases "?d = []")
    case True
    have "rest = []" using s unfolding True by simp
    then show ?thesis using assms(2) by simp
  next
    case False
    then have "length rest < length ?d" using chunk_split_rest [OF False _ s] hd_dropWhile [OF False] by blast
    then show ?thesis using le by simp
  qed
qed

section \<open>Matching a chunk\<close>

definition get_esc :: "string \<Rightarrow> (char \<times> string) option" where
  "get_esc chunk =
     (case chunk of
        [] \<Rightarrow> None
      | c # cs \<Rightarrow>
          if c = CHR ''-'' \<or> c = CHR '']'' then None
          else if c = CHR 0x5C then
            (case cs of d # e # ds \<Rightarrow> Some (d, e # ds) | _ \<Rightarrow> None)
          else (case cs of [] \<Rightarrow> None | _ \<Rightarrow> Some (c, cs)))"

lemma get_esc_shorter: "get_esc chunk = Some (c, rest) \<Longrightarrow> length rest < length chunk"
  by (auto simp: get_esc_def split: list.splits if_splits)

text \<open>The ranges of a character class; \<open>seen\<close> says that one was read.\<close>

function class_loop :: "string \<Rightarrow> char \<Rightarrow> bool \<Rightarrow> bool \<Rightarrow> (string \<times> bool) option" where
  "class_loop chunk r seen m =
     (if seen \<and> chunk \<noteq> [] \<and> hd chunk = CHR '']'' then Some (tl chunk, m)
      else (case get_esc chunk of
              None \<Rightarrow> None
            | Some (lo, c1) \<Rightarrow>
                if hd c1 = CHR ''-'' then
                  (case get_esc (tl c1) of
                     None \<Rightarrow> None
                   | Some (hi, c2) \<Rightarrow> class_loop c2 r True (m \<or> lo \<le> r \<and> r \<le> hi))
                else class_loop c1 r True (m \<or> lo \<le> r \<and> r \<le> lo)))"
  by pat_completeness auto
termination
proof (relation "measure (\<lambda>(chunk, _). length chunk)")
  fix chunk r seen m x lo c1 y hi c2
  assume "get_esc chunk = Some x" "(lo, c1) = x" "get_esc (tl c1) = Some y" "(hi, c2) = y"
  then show "((c2, r, True, m \<or> lo \<le> r \<and> r \<le> hi), chunk, r, seen, m) \<in> measure (\<lambda>(chunk, _). length chunk)"
    using get_esc_shorter [of chunk lo c1] get_esc_shorter [of "tl c1" hi c2] by auto
qed (auto dest: get_esc_shorter)

declare class_loop.simps [simp del]

lemma class_loop_shorter: "class_loop chunk r seen m = Some (rest, b) \<Longrightarrow> length rest < length chunk"
proof (induction chunk r seen m rule: class_loop.induct)
  case (1 chunk r seen m)
  show ?case
  proof (cases "seen \<and> chunk \<noteq> [] \<and> hd chunk = CHR '']''")
    case True
    then have "rest = tl chunk" using "1.prems" by (simp add: class_loop.simps [of chunk r True m])
    then show ?thesis using True by simp
  next
    case False
    then obtain lo c1 where g: "get_esc chunk = Some (lo, c1)"
      using "1.prems" by (cases "get_esc chunk") (auto simp: class_loop.simps [of chunk])
    note l1 = get_esc_shorter [OF g]
    show ?thesis
    proof (cases "hd c1 = CHR ''-''")
      case True
      then obtain hi c2 where g2: "get_esc (tl c1) = Some (hi, c2)"
        using "1.prems" False g by (cases "get_esc (tl c1)") (auto simp: class_loop.simps [of chunk])
      have "class_loop c2 r True (m \<or> lo \<le> r \<and> r \<le> hi) = Some (rest, b)"
        using "1.prems" False g g2 True by (simp add: class_loop.simps [of chunk])
      from "1.IH"(1) [OF False g refl True g2 refl this] show ?thesis
        using l1 get_esc_shorter [OF g2] by simp
    next
      case nd: False
      have "class_loop c1 r True (m \<or> lo \<le> r \<and> r \<le> lo) = Some (rest, b)"
        using "1.prems" False g nd by (simp add: class_loop.simps [of chunk])
      from "1.IH"(2) [OF False g refl nd this] show ?thesis using l1 by simp
    qed
  qed
qed

text \<open>
  After a failure the rest of the chunk is still read for its syntax. The result is \<open>None\<close> for a
  malformed chunk, else whether the name matched and with which rest.
\<close>

function match_chunk :: "string \<Rightarrow> string \<Rightarrow> bool \<Rightarrow> string option option" where
  "match_chunk chunk s failed0 =
     (case chunk of
        [] \<Rightarrow> Some (if failed0 then None else Some s)
      | c # cs \<Rightarrow>
          let failed = (failed0 \<or> s = []) in
          if c = CHR ''['' then
            (let neg = (cs \<noteq> [] \<and> hd cs = CHR ''^'') in
             case class_loop (if neg then tl cs else cs) (if failed then CHR 0x00 else hd s) False False of
               None \<Rightarrow> None
             | Some (rest, m) \<Rightarrow> match_chunk rest (tl s) (failed \<or> m = neg))
          else if c = CHR ''?'' then match_chunk cs (tl s) (failed \<or> hd s = CHR ''/'')
          else if c = CHR 0x5C then
            (case cs of [] \<Rightarrow> None | d # ds \<Rightarrow> match_chunk ds (tl s) (failed \<or> d \<noteq> hd s))
          else match_chunk cs (tl s) (failed \<or> c \<noteq> hd s))"
  by pat_completeness auto
termination
  by (relation "measure (\<lambda>(chunk, _). length chunk)")
    (auto dest!: class_loop_shorter split: if_splits, (metis Suc_lessD length_tl less_Suc_eq diff_less_Suc less_trans_Suc)?)

declare match_chunk.simps [simp del]


section \<open>Matching a name\<close>

text \<open>After an asterisk the chunk is tried behind every character up to a separator.\<close>

fun star_search :: "string \<Rightarrow> bool \<Rightarrow> string \<Rightarrow> string option option" where
  "star_search chunk last1 [] = Some None"
| "star_search chunk last1 (c # cs) =
     (if c = CHR ''/'' then Some None
      else (case match_chunk chunk cs False of
              None \<Rightarrow> None
            | Some (Some t) \<Rightarrow> if last1 \<and> t \<noteq> [] then star_search chunk last1 cs else Some (Some t)
            | Some None \<Rightarrow> star_search chunk last1 cs))"

function pattern_ok :: "string \<Rightarrow> bool" where
  "pattern_ok pattern =
     (if pattern = [] then True
      else (case scan_chunk pattern of
              (star, chunk, rest) \<Rightarrow> if match_chunk chunk [] False = None then False else pattern_ok rest))"
  by pat_completeness auto
termination by (relation "measure length") (auto dest: scan_chunk_shorter [OF sym])

declare pattern_ok.simps [simp del]

function filepath_match :: "string \<Rightarrow> string \<Rightarrow> bool option" where
  "filepath_match pattern name =
     (if pattern = [] then Some (name = [])
      else (case scan_chunk pattern of
              (star, chunk, rest) \<Rightarrow>
                if star \<and> chunk = [] then Some (CHR ''/'' \<notin> set name)
                else (case match_chunk chunk name False of
                        None \<Rightarrow> None
                      | Some m \<Rightarrow>
                          if m \<noteq> None \<and> (the m = [] \<or> rest \<noteq> []) then filepath_match rest (the m)
                          else if star then
                            (case star_search chunk (rest = []) name of
                               None \<Rightarrow> None
                             | Some (Some t) \<Rightarrow> filepath_match rest t
                             | Some None \<Rightarrow> if pattern_ok rest then Some False else None)
                          else if pattern_ok rest then Some False else None)))"
  by pat_completeness auto
termination by (relation "measure (\<lambda>(pattern, _). length pattern)") (auto dest: scan_chunk_shorter [OF sym])

declare filepath_match.simps [simp del]

section \<open>Patterns without classes\<close>

definition plain_chars :: "string \<Rightarrow> bool" where
  "plain_chars s \<longleftrightarrow> list_all (\<lambda>c. c \<notin> {CHR ''*'', CHR ''?'', CHR ''['', CHR 0x5C}) s"

lemma chunk_split_plain: "plain_chars s \<Longrightarrow> t = [] \<or> hd t = CHR ''*'' \<Longrightarrow> chunk_split False (s @ t) = (s, t)"
proof (induction s)
  case Nil
  then show ?case by (cases t) auto
qed (auto simp: plain_chars_def)

lemma match_chunk_plain:
  "plain_chars chunk \<Longrightarrow> match_chunk chunk s failed =
     Some (if \<not> failed \<and> prefix chunk s then Some (drop (length chunk) s) else None)"
proof (induction chunk arbitrary: s failed)
  case Nil
  then show ?case by (simp add: match_chunk.simps [of "[]"])
next
  case (Cons c chunk)
  then have c: "c \<noteq> CHR ''['' \<and> c \<noteq> CHR ''?'' \<and> c \<noteq> CHR 0x5C" and p: "plain_chars chunk" by (auto simp: plain_chars_def)
  show ?case
    by (subst match_chunk.simps) (cases s; simp add: c Let_def Cons.IH [OF p])
qed

lemma pattern_ok_Nil [simp]: "pattern_ok []"
  by (simp add: pattern_ok.simps)

lemma filepath_match_Nil [simp]: "filepath_match [] name = Some (name = [])"
  by (simp add: filepath_match.simps)

text \<open>A plain pattern matches itself, with an asterisk behind it every longer name of the same folder.\<close>

theorem filepath_match_plain:
  assumes "plain_chars p"
  shows "filepath_match p name = Some (name = p)"
proof (cases "p = []")
  case True
  then show ?thesis by simp
next
  case False
  have h: "dropWhile (\<lambda>c. c = CHR ''*'') p = p" using assms False by (cases p) (auto simp: plain_chars_def)
  have "scan_chunk p = (False, p, [])" using chunk_split_plain [OF assms, of "[]"] by (simp add: scan_chunk_def h)
  then show ?thesis using False by (subst filepath_match.simps) (auto simp: match_chunk_plain [OF assms] prefix_def)
qed

theorem filepath_match_prefix:
  assumes "plain_chars p"
  shows "filepath_match (p @ ''*'') name = Some (prefix p name \<and> CHR ''/'' \<notin> set (drop (length p) name))"
proof -
  have star: "filepath_match ''*'' t = Some (CHR ''/'' \<notin> set t)" for t
    by (simp add: filepath_match.simps [of "''*''"] scan_chunk_def)
  show ?thesis
  proof (cases "p = []")
    case True
    then show ?thesis by (simp add: star)
  next
    case False
    have h: "dropWhile (\<lambda>c. c = CHR ''*'') (p @ ''*'') = p @ ''*''" using assms False by (cases p) (auto simp: plain_chars_def)
    have "scan_chunk (p @ ''*'') = (False, p, ''*'')" using chunk_split_plain [OF assms, of "''*''"] by (simp add: scan_chunk_def h)
    moreover have "pattern_ok ''*''" by (simp add: pattern_ok.simps [of "''*''"] scan_chunk_def match_chunk.simps [of "[]"])
    ultimately show ?thesis using False by (subst filepath_match.simps) (simp add: match_chunk_plain [OF assms] star)
  qed
qed

end
