(* ===== verification/SyncPlan.thy ===== *)
theory SyncPlan
  imports GoGlob "HOL-Library.Multiset"
begin

text \<open>
  Synchronisation of repositories between two hosting services (\<open>internal/git/sync/options.go\<close>,
  \<open>engine.go\<close> and \<open>parallel.go\<close>): the targets, the plan and its execution. The services and the
  syncers of the parts of a repository are parameters; SyncParts holds the syncers.
\<close>

section \<open>Targets\<close>

record sync_target =
  st_Provider :: string
  st_Org :: string
  st_Repo :: string

datatype target_error = EmptyTarget | InvalidFormat string | EmptyProvider | EmptyPath | EmptyOrganization | EmptyRepository

text \<open>\<open>strings.SplitN(s, sep, 2)\<close>, with nothing for the second part when there is no separator.\<close>

definition split_first :: "char \<Rightarrow> string \<Rightarrow> string \<times> string option" where
  "split_first sep s =
     (takeWhile (\<lambda>c. c \<noteq> sep) s, case dropWhile (\<lambda>c. c \<noteq> sep) s of [] \<Rightarrow> None | _ # rest \<Rightarrow> Some rest)"

definition parse_target :: "string \<Rightarrow> target_error + sync_target" where
  "parse_target target =
     (if target = [] then Inl EmptyTarget
      else (case split_first (CHR '':'') target of
              (_, None) \<Rightarrow> Inl (InvalidFormat target)
            | (p0, Some p1) \<Rightarrow>
                let prov = trim_space p0; path = trim_space p1 in
                if prov = [] then Inl EmptyProvider
                else if path = [] then Inl EmptyPath
                else (case split_first (CHR ''/'') path of
                        (q0, q1) \<Rightarrow>
                          let org = trim_space q0 in
                          if org = [] then Inl EmptyOrganization
                          else (case q1 of
                                  None \<Rightarrow> Inr \<lparr>st_Provider = prov, st_Org = org, st_Repo = []\<rparr>
                                | Some r \<Rightarrow>
                                    let repo = trim_space r in
                                    if repo = [] then Inl EmptyRepository
                                    else Inr \<lparr>st_Provider = prov, st_Org = org, st_Repo = repo\<rparr>))))"

definition is_repository :: "sync_target \<Rightarrow> bool" where
  "is_repository t \<longleftrightarrow> st_Repo t \<noteq> []"

definition is_organization :: "sync_target \<Rightarrow> bool" where
  "is_organization t \<longleftrightarrow> st_Repo t = []"

definition target_full_name :: "sync_target \<Rightarrow> string" where
  "target_full_name t = (if is_repository t then st_Org t @ ''/'' @ st_Repo t else st_Org t)"

definition target_string :: "sync_target \<Rightarrow> string" where
  "target_string t =
     (if is_repository t then st_Provider t @ '':'' @ st_Org t @ ''/'' @ st_Repo t else st_Provider t @ '':'' @ st_Org t)"

section \<open>Options\<close>

record sync_options =
  so_From :: string
  so_To :: string
  so_CreateMissing :: bool
  so_UpdateExisting :: bool
  so_Force :: bool
  so_IncludeCode :: bool
  so_IncludeIssues :: bool
  so_IncludePRs :: bool
  so_IncludeWiki :: bool
  so_IncludeReleases :: bool
  so_IncludeSettings :: bool
  so_Match :: string
  so_Exclude :: string
  so_Parallel :: int
  so_DryRun :: bool
  so_Verbose :: bool

datatype options_error =
    SourceRequired | DestinationRequired | InvalidSource target_error | InvalidDestination target_error
  | TargetsDiffer | TooManyWorkers | NoFeature

text \<open>A validation that succeeds has set the number of workers to at least one.\<close>

definition validate_options :: "sync_options \<Rightarrow> options_error + sync_options" where
  "validate_options opts =
     (if so_From opts = [] then Inl SourceRequired
      else if so_To opts = [] then Inl DestinationRequired
      else (case parse_target (so_From opts) of
              Inl e \<Rightarrow> Inl (InvalidSource e)
            | Inr source \<Rightarrow>
                (case parse_target (so_To opts) of
                   Inl e \<Rightarrow> Inl (InvalidDestination e)
                 | Inr dest \<Rightarrow>
                     if is_organization source \<noteq> is_organization dest then Inl TargetsDiffer
                     else let opts1 = (if so_Parallel opts < 1 then opts\<lparr>so_Parallel := 1\<rparr> else opts) in
                       if 20 < so_Parallel opts1 then Inl TooManyWorkers
                       else if \<not> so_IncludeCode opts1 \<and> \<not> so_IncludeIssues opts1 \<and> \<not> so_IncludePRs opts1 \<and>
                         \<not> so_IncludeWiki opts1 \<and> \<not> so_IncludeReleases opts1 \<and> \<not> so_IncludeSettings opts1 then Inl NoFeature
                       else Inr opts1)))"

section \<open>Services\<close>

text \<open>The fields of a repository that a synchronisation reads.\<close>

record provider_repository =
  pr_ID :: string
  pr_Name :: string
  pr_FullName :: string
  pr_Description :: string
  pr_Private :: bool
  pr_Archived :: bool
  pr_CloneURL :: string
  pr_DefaultBranch :: string
  pr_Topics :: "string list"
  pr_Visibility :: string

record create_repo_request =
  crr_Owner :: string
  crr_Name :: string
  crr_Description :: string
  crr_Private :: bool
  crr_HasIssues :: bool
  crr_HasWiki :: bool
  crr_Topics :: "string list"

record git_provider =
  gp_GetRepository :: "string \<Rightarrow> string + provider_repository"
  gp_ListRepositories :: "string \<Rightarrow> string + provider_repository list"
  gp_CreateRepository :: "create_repo_request \<Rightarrow> string + provider_repository"

section \<open>Analysis\<close>

datatype sync_error =
    BadTarget target_error | GetFailed string | ListingFailed string | NoOrganization | CreateFailed string
  | ActionFailed string string | SyncFailed nat

definition filter_sync_repositories :: "sync_options \<Rightarrow> provider_repository list \<Rightarrow> provider_repository list" where
  "filter_sync_repositories opts repos =
     filter (\<lambda>repo.
       (so_Match opts = [] \<or> filepath_match (so_Match opts) (pr_Name repo) = Some True) \<and>
       \<not> (so_Exclude opts \<noteq> [] \<and> filepath_match (so_Exclude opts) (pr_Name repo) = Some True)) repos"

definition analyze_source :: "git_provider \<Rightarrow> sync_options \<Rightarrow> sync_error + provider_repository list" where
  "analyze_source source opts =
     (case parse_target (so_From opts) of
        Inl e \<Rightarrow> Inl (BadTarget e)
      | Inr t \<Rightarrow>
          if is_repository t then
            (case gp_GetRepository source (target_full_name t) of Inl e \<Rightarrow> Inl (GetFailed e) | Inr repo \<Rightarrow> Inr [repo])
          else
            (case gp_ListRepositories source (st_Org t) of
               Inl e \<Rightarrow> Inl (ListingFailed e)
             | Inr repos \<Rightarrow> Inr (filter_sync_repositories opts repos)))"

definition index_by_name :: "provider_repository list \<Rightarrow> (string, provider_repository) gomap" where
  "index_by_name repos = foldl (\<lambda>m r. gm_put (pr_Name r) r m) [] repos"

definition analyze_destination :: "git_provider \<Rightarrow> sync_options \<Rightarrow> sync_error + (string, provider_repository) gomap" where
  "analyze_destination dest opts =
     (case parse_target (so_To opts) of
        Inl e \<Rightarrow> Inl (BadTarget e)
      | Inr t \<Rightarrow>
          if is_repository t then
            (case gp_GetRepository dest (target_full_name t) of Inl _ \<Rightarrow> Inr [] | Inr repo \<Rightarrow> Inr [(pr_Name repo, repo)])
          else
            (case gp_ListRepositories dest (st_Org t) of Inl _ \<Rightarrow> Inr [] | Inr repos \<Rightarrow> Inr (index_by_name repos)))"

section \<open>The plan\<close>

text \<open>The handler of an action closes over the destination at the time the action is made.\<close>

record sync_action =
  sa_Type :: string
  sa_Description :: string
  sa_Destination :: "provider_repository option"

record repo_sync =
  rs_Source :: provider_repository
  rs_Destination :: "provider_repository option"
  rs_Actions :: "sync_action list"

record sync_plan =
  sp_Create :: "repo_sync list"
  sp_Update :: "repo_sync list"
  sp_Skip :: "repo_sync list"

definition create_sync_actions :: "sync_options \<Rightarrow> provider_repository option \<Rightarrow> sync_action list" where
  "create_sync_actions opts destination =
     (let act = (\<lambda>b t d. if b then [\<lparr>sa_Type = t, sa_Description = d, sa_Destination = destination\<rparr>] else []) in
      act (so_IncludeCode opts) ''code'' ''Sync repository code and branches'' @
      act (so_IncludeIssues opts) ''issues'' ''Sync issues and comments'' @
      act (so_IncludeWiki opts) ''wiki'' ''Sync wiki content'' @
      act (so_IncludeReleases opts) ''releases'' ''Sync releases and tags'' @
      act (so_IncludeSettings opts) ''settings'' ''Sync repository settings'')"

definition skip_sync :: "provider_repository \<Rightarrow> provider_repository option \<Rightarrow> string \<Rightarrow> repo_sync" where
  "skip_sync source destination reason =
     \<lparr>rs_Source = source, rs_Destination = destination,
      rs_Actions = [\<lparr>sa_Type = ''skip'', sa_Description = reason, sa_Destination = None\<rparr>]\<rparr>"

definition plan_repository :: "sync_options \<Rightarrow> (string, provider_repository) gomap \<Rightarrow> sync_plan \<Rightarrow> provider_repository \<Rightarrow> sync_plan" where
  "plan_repository opts destRepos plan source =
     (case gm_get destRepos (pr_Name source) of
        Some dest \<Rightarrow>
          if so_UpdateExisting opts then
            plan\<lparr>sp_Update := sp_Update plan @ [\<lparr>rs_Source = source, rs_Destination = Some dest,
              rs_Actions = create_sync_actions opts (Some dest)\<rparr>]\<rparr>
          else plan\<lparr>sp_Skip := sp_Skip plan @ [skip_sync source (Some dest) ''Update disabled'']\<rparr>
      | None \<Rightarrow>
          if so_CreateMissing opts then
            plan\<lparr>sp_Create := sp_Create plan @ [\<lparr>rs_Source = source, rs_Destination = None,
              rs_Actions = create_sync_actions opts None\<rparr>]\<rparr>
          else plan\<lparr>sp_Skip := sp_Skip plan @ [skip_sync source None ''Creation disabled'']\<rparr>)"

definition create_sync_plan ::
  "sync_options \<Rightarrow> provider_repository list \<Rightarrow> (string, provider_repository) gomap \<Rightarrow> sync_plan" where
  "create_sync_plan opts sourceRepos destRepos =
     foldl (plan_repository opts destRepos) \<lparr>sp_Create = [], sp_Update = [], sp_Skip = []\<rparr> sourceRepos"

section \<open>Execution\<close>

text \<open>What a run asks of the services, in order.\<close>

datatype sync_event = CreateRequested create_repo_request | ActionRun string provider_repository "provider_repository option"

text \<open>\<open>syncers t source dest\<close> is the error of the syncer of type \<open>t\<close>.\<close>

type_synonym syncers = "string \<Rightarrow> provider_repository \<Rightarrow> provider_repository \<Rightarrow> string option"

definition run_handler :: "syncers \<Rightarrow> provider_repository \<Rightarrow> sync_action \<Rightarrow> string option" where
  "run_handler sync source action =
     (case sa_Destination action of
        None \<Rightarrow> Some (if sa_Type action = ''code'' then ''destination repository is required for code sync''
          else ''cannot sync '' @ sa_Type action @ '': destination repository not created yet'')
      | Some dest \<Rightarrow> sync (sa_Type action) source dest)"

fun run_actions :: "syncers \<Rightarrow> provider_repository \<Rightarrow> sync_action list \<Rightarrow> sync_error option \<times> sync_event list" where
  "run_actions sync source [] = (None, [])"
| "run_actions sync source (a # as) =
     (case run_handler sync source a of
        Some e \<Rightarrow> (Some (ActionFailed (sa_Type a) e), [ActionRun (sa_Type a) source (sa_Destination a)])
      | None \<Rightarrow> (case run_actions sync source as of (r, evs) \<Rightarrow> (r, ActionRun (sa_Type a) source (sa_Destination a) # evs)))"

definition creation_request :: "sync_target \<Rightarrow> provider_repository \<Rightarrow> create_repo_request" where
  "creation_request t source =
     \<lparr>crr_Owner = st_Org t, crr_Name = (if is_repository t \<and> st_Repo t \<noteq> [] then st_Repo t else pr_Name source),
      crr_Description = pr_Description source, crr_Private = pr_Private source, crr_HasIssues = True, crr_HasWiki = True,
      crr_Topics = pr_Topics source\<rparr>"

definition sync_repository :: "git_provider \<Rightarrow> syncers \<Rightarrow> sync_options \<Rightarrow> repo_sync \<Rightarrow> sync_error option \<times> sync_event list" where
  "sync_repository dest sync opts rs =
     (case rs_Destination rs of
        Some d \<Rightarrow> run_actions sync (rs_Source rs) (rs_Actions rs)
      | None \<Rightarrow>
          (case parse_target (so_To opts) of
             Inl e \<Rightarrow> (Some (BadTarget e), [])
           | Inr t \<Rightarrow>
               if st_Org t = [] then (Some NoOrganization, [])
               else let request = creation_request t (rs_Source rs) in
                 (case gp_CreateRepository dest request of
                    Inl e \<Rightarrow> (Some (CreateFailed e), [CreateRequested request])
                  | Inr new \<Rightarrow>
                      (case run_actions sync (rs_Source rs) (create_sync_actions opts (Some new)) of
                         (r, evs) \<Rightarrow> (r, CreateRequested request # evs)))))"

definition run_result :: "(repo_sync \<times> sync_error option \<times> sync_event list) list \<Rightarrow> sync_error option" where
  "run_result finished =
     (let errors = filter (\<lambda>(_, e, _). e \<noteq> None) finished in
      if errors \<noteq> [] then Some (SyncFailed (length errors)) else None)"

definition execute_sequential :: "git_provider \<Rightarrow> syncers \<Rightarrow> sync_options \<Rightarrow> sync_plan \<Rightarrow> sync_error option \<times> sync_event list" where
  "execute_sequential dest sync opts plan =
     (let finished = map (\<lambda>rs. (rs, sync_repository dest sync opts rs)) (sp_Create plan @ sp_Update plan)
      in (run_result finished, concat (map (\<lambda>(_, _, evs). evs) finished)))"

text \<open>\<open>schedule\<close> is the order in which the workers finish the tasks.\<close>

definition execute_parallel ::
  "(repo_sync list \<Rightarrow> repo_sync list) \<Rightarrow> git_provider \<Rightarrow> syncers \<Rightarrow> sync_options \<Rightarrow> sync_plan \<Rightarrow> sync_error option \<times> sync_event list" where
  "execute_parallel schedule dest sync opts plan =
     (let finished = map (\<lambda>rs. (rs, sync_repository dest sync opts rs)) (schedule (sp_Create plan @ sp_Update plan))
      in (run_result finished, concat (map (\<lambda>(_, _, evs). evs) finished)))"

definition execute_sync_plan ::
  "(repo_sync list \<Rightarrow> repo_sync list) \<Rightarrow> git_provider \<Rightarrow> syncers \<Rightarrow> sync_options \<Rightarrow> sync_plan \<Rightarrow> sync_error option \<times> sync_event list" where
  "execute_sync_plan schedule dest sync opts plan =
     (if so_Parallel opts \<le> 1 then execute_sequential dest sync opts plan else execute_parallel schedule dest sync opts plan)"

definition engine_sync ::
  "(repo_sync list \<Rightarrow> repo_sync list) \<Rightarrow> git_provider \<Rightarrow> git_provider \<Rightarrow> syncers \<Rightarrow> sync_options \<Rightarrow> sync_error option \<times> sync_event list" where
  "engine_sync schedule source dest sync opts =
     (case analyze_source source opts of
        Inl e \<Rightarrow> (Some e, [])
      | Inr sourceRepos \<Rightarrow>
          if sourceRepos = [] then (None, [])
          else (case analyze_destination dest opts of
                  Inl e \<Rightarrow> (Some e, [])
                | Inr destRepos \<Rightarrow>
                    let plan = create_sync_plan opts sourceRepos destRepos in
                    if so_DryRun opts then (None, []) else execute_sync_plan schedule dest sync opts plan))"

end
