(* ===== verification/SyncRun.thy ===== *)
theory SyncRun
  imports SyncPlan
begin

text \<open>
  What a synchronisation guarantees: targets that print and parse back, a plan that treats every
  source repository once, and a run whose effect does not depend on the number of workers.
\<close>

section \<open>Targets\<close>

definition trimmed :: "string \<Rightarrow> bool" where
  "trimmed s \<longleftrightarrow> trim_space s = s"

lemma trimmed_iff: "trimmed s \<longleftrightarrow> s = [] \<or> (\<not> is_space (hd s) \<and> \<not> is_space (last s))"
proof (cases "s = []")
  case True
  then show ?thesis by (simp add: trimmed_def trim_space_def trim_with_def)
next
  case False
  have same: "length (dropWhile p t) = length t \<Longrightarrow> dropWhile p t = t" for p and t :: string
    by (metis add_cancel_left_left append_Nil length_0_conv length_append takeWhile_dropWhile_id)
  have tw: "dropWhile p t = t \<and> dropWhile p (rev t) = rev t" if "trim_with p t = t" for p and t :: string
  proof -
    have "length (dropWhile p (rev (dropWhile p t))) = length t" using arg_cong [OF that, of length] by (simp add: trim_with_def)
    then have l: "length (dropWhile p t) = length t"
      using length_dropWhile_le [of p "rev (dropWhile p t)"] length_dropWhile_le [of p t] by simp
    then show ?thesis using same [OF l] that by (metis rev_rev_ident trim_with_def)
  qed
  show ?thesis
  proof
    assume "trimmed s"
    then have "dropWhile is_space s = s" "dropWhile is_space (rev s) = rev s"
      using tw [of is_space s] by (auto simp: trimmed_def trim_space_def)
    then show "s = [] \<or> (\<not> is_space (hd s) \<and> \<not> is_space (last s))"
      using False by (auto simp: dropWhile_eq_self_iff hd_rev)
  next
    assume "s = [] \<or> (\<not> is_space (hd s) \<and> \<not> is_space (last s))"
    then have "dropWhile is_space s = s" "dropWhile is_space (rev s) = rev s"
      using False by (auto simp: dropWhile_eq_self_iff hd_rev)
    then show "trimmed s" by (simp add: trimmed_def trim_space_def trim_with_def)
  qed
qed

lemma trimmed_trim [simp]: "trimmed (trim_space s)"
  by (simp add: trimmed_def)

lemma trimmed_Nil [simp]: "trimmed []"
  by (simp add: trimmed_iff)

lemma trimmed_append: "trimmed a \<Longrightarrow> trimmed b \<Longrightarrow> a \<noteq> [] \<Longrightarrow> b \<noteq> [] \<Longrightarrow> trimmed (a @ m @ b)"
  by (auto simp: trimmed_iff)

lemma in_trim_space: "c \<in> set (trim_space s) \<Longrightarrow> c \<in> set s"
  by (auto simp: trim_space_def trim_with_def dest!: set_dropWhileD)

lemma split_first_join: "sep \<notin> set a \<Longrightarrow> split_first sep (a @ sep # b) = (a, Some b)"
  by (induction a) (auto simp: split_first_def)

lemma split_first_none: "sep \<notin> set a \<Longrightarrow> split_first sep a = (a, None)"
  by (induction a) (auto simp: split_first_def)

lemma split_first_fst: "split_first sep s = (a, b) \<Longrightarrow> sep \<notin> set a"
  by (auto simp: split_first_def dest: set_takeWhileD)

lemma parse_target_parts:
  assumes "parse_target s = Inr t"
  shows "CHR '':'' \<notin> set (st_Provider t)" and "CHR ''/'' \<notin> set (st_Org t)" and "trimmed (st_Provider t)" and "trimmed (st_Org t)"
    and "trimmed (st_Repo t)" and "st_Provider t \<noteq> []" and "st_Org t \<noteq> []"
  using assms
  by (auto simp: parse_target_def Let_def split: prod.splits option.splits if_splits dest!: split_first_fst dest: in_trim_space)

text \<open>
  What was parsed prints as a target that parses to the same.
\<close>

theorem target_roundtrip:
  assumes "parse_target s = Inr t"
  shows "parse_target (target_string t) = Inr t"
proof -
  note p = parse_target_parts [OF assms]
  have tr: "trim_space a = a" if "trimmed a" for a using that by (simp add: trimmed_def)
  show ?thesis
  proof (cases "st_Repo t = []")
    case True
    then have "t = \<lparr>st_Provider = st_Provider t, st_Org = st_Org t, st_Repo = []\<rparr>" by simp
    then show ?thesis using p True
      by (simp add: parse_target_def target_string_def is_repository_def split_first_join split_first_none tr Let_def)
  next
    case False
    have path: "trim_space (st_Org t @ CHR ''/'' # st_Repo t) = st_Org t @ CHR ''/'' # st_Repo t"
      using trimmed_append [OF p(4,5,7) False, of "''/''"] by (simp add: trimmed_def)
    show ?thesis using p False
      by (simp add: parse_target_def target_string_def is_repository_def split_first_join tr path Let_def)
  qed
qed

lemma target_roundtrip_witness:
  "parse_target (target_string \<lparr>st_Provider = ''github'', st_Org = ''acme'', st_Repo = ''tool''\<rparr>) =
    Inr \<lparr>st_Provider = ''github'', st_Org = ''acme'', st_Repo = ''tool''\<rparr>"
  by (rule target_roundtrip [of "'' github : acme/ tool ''"]) code_simp

section \<open>The plan\<close>

text \<open>The task a source repository gives, if any.\<close>

definition task_of :: "sync_options \<Rightarrow> provider_repository option \<Rightarrow> provider_repository \<Rightarrow> repo_sync option" where
  "task_of opts existing source =
     (case existing of
        Some d \<Rightarrow> if so_UpdateExisting opts
          then Some \<lparr>rs_Source = source, rs_Destination = Some d, rs_Actions = create_sync_actions opts (Some d)\<rparr> else None
      | None \<Rightarrow> if so_CreateMissing opts
          then Some \<lparr>rs_Source = source, rs_Destination = None, rs_Actions = create_sync_actions opts None\<rparr> else None)"

lemma plan_tasks_gen:
  "mset (sp_Create (foldl (plan_repository opts existing) plan repos) @ sp_Update (foldl (plan_repository opts existing) plan repos)) =
   mset (sp_Create plan @ sp_Update plan) +
   mset (List.map_filter (\<lambda>r. task_of opts (gm_get existing (pr_Name r)) r) repos)"
  by (induction repos arbitrary: plan) (auto simp: plan_repository_def task_of_def List.map_filter_def split: option.splits)

lemma plan_tasks:
  "mset (sp_Create (create_sync_plan opts repos existing) @ sp_Update (create_sync_plan opts repos existing)) =
   mset (List.map_filter (\<lambda>r. task_of opts (gm_get existing (pr_Name r)) r) repos)"
  using plan_tasks_gen [of opts existing "\<lparr>sp_Create = [], sp_Update = [], sp_Skip = []\<rparr>" repos]
  by (simp add: create_sync_plan_def)

text \<open>Every source repository is created, updated or skipped, exactly once.\<close>

lemma plan_partitions:
  "mset (map rs_Source (sp_Create (create_sync_plan opts repos existing) @ sp_Update (create_sync_plan opts repos existing) @
     sp_Skip (create_sync_plan opts repos existing))) = mset repos"
proof -
  have "mset (map rs_Source (sp_Create (foldl (plan_repository opts existing) plan repos) @ sp_Update (foldl (plan_repository opts existing) plan repos) @
     sp_Skip (foldl (plan_repository opts existing) plan repos))) =
     mset (map rs_Source (sp_Create plan @ sp_Update plan @ sp_Skip plan)) + mset repos" for plan
    by (induction repos arbitrary: plan) (auto simp: plan_repository_def skip_sync_def split: option.splits)
  then show ?thesis by (simp add: create_sync_plan_def)
qed

section \<open>The run\<close>

text \<open>The specification: what happens to one source repository on its own.\<close>

definition repository_outcome ::
  "git_provider \<Rightarrow> syncers \<Rightarrow> sync_options \<Rightarrow> provider_repository option \<Rightarrow> provider_repository \<Rightarrow> sync_error option \<times> sync_event list" where
  "repository_outcome dest sync opts existing source =
     (case task_of opts existing source of None \<Rightarrow> (None, []) | Some task \<Rightarrow> sync_repository dest sync opts task)"

lemma mset_concat_sum: "mset (concat (map f xs)) = (\<Sum>x\<in>#mset xs. mset (f x))"
  by (induction xs) auto

lemma sum_map_filter:
  fixes g :: "'b \<Rightarrow> 'c::comm_monoid_add"
  shows "(\<Sum>y\<in>#mset (List.map_filter f xs). g y) = (\<Sum>x\<in>#mset xs. case f x of None \<Rightarrow> 0 | Some y \<Rightarrow> g y)"
  by (induction xs) (auto simp: List.map_filter_def split: option.splits)

lemma count_errors: "int (length (filter P xs)) = (\<Sum>x\<in>#mset xs. if P x then 1 else 0)"
  by (induction xs) auto

definition run_tasks :: "git_provider \<Rightarrow> syncers \<Rightarrow> sync_options \<Rightarrow> repo_sync list \<Rightarrow> sync_error option \<times> sync_event list" where
  "run_tasks dest sync opts tasks =
     (let finished = map (\<lambda>rs. (rs, sync_repository dest sync opts rs)) tasks
      in (run_result finished, concat (map (\<lambda>(_, _, evs). evs) finished)))"

lemma execute_run_tasks:
  assumes "\<And>ts. mset (schedule ts) = mset ts"
  shows "\<exists>tasks. mset tasks = mset (sp_Create plan @ sp_Update plan) \<and> execute_sync_plan schedule dest sync opts plan = run_tasks dest sync opts tasks"
proof (cases "so_Parallel opts \<le> 1")
  case True
  then show ?thesis by (intro exI [of _ "sp_Create plan @ sp_Update plan"])
      (simp add: execute_sync_plan_def execute_sequential_def run_tasks_def)
next
  case False
  then show ?thesis by (intro exI [of _ "schedule (sp_Create plan @ sp_Update plan)"])
      (simp add: execute_sync_plan_def execute_parallel_def run_tasks_def assms)
qed

lemma run_tasks_result:
  "fst (run_tasks dest sync opts tasks) =
    (let n = length (filter (\<lambda>t. fst (sync_repository dest sync opts t) \<noteq> None) tasks) in if n = 0 then None else Some (SyncFailed n))"
  "snd (run_tasks dest sync opts tasks) = concat (map (\<lambda>t. snd (sync_repository dest sync opts t)) tasks)"
  by (auto simp: run_tasks_def run_result_def Let_def filter_map comp_def case_prod_beta filter_empty_conv)

text \<open>
  Property C23. A run treats every selected repository on its own: whatever the number of workers
  and the order in which they finish, the requests sent are those of the repositories one by one,
  and the result counts the repositories that failed.
\<close>

theorem engine_sync_effects:
  assumes "engine_sync schedule source dest sync opts = (r, events)" and "\<not> so_DryRun opts"
    and "\<And>ts. mset (schedule ts) = mset ts"
    and "analyze_source source opts = Inr repos" and "analyze_destination dest opts = Inr existing"
  shows "let outcome = (\<lambda>repo. repository_outcome dest sync opts (gm_get existing (pr_Name repo)) repo);
      failed = length (filter (\<lambda>repo. fst (outcome repo) \<noteq> None) repos) in
    mset events = mset (concat (map (snd \<circ> outcome) repos)) \<and>
    r = (if failed = 0 then None else Some (SyncFailed failed))"
proof -
  define outcome where "outcome = (\<lambda>repo. repository_outcome dest sync opts (gm_get existing (pr_Name repo)) repo)"
  define task where "task = (\<lambda>repo. task_of opts (gm_get existing (pr_Name repo)) repo)"
  obtain tasks where t: "mset tasks = mset (List.map_filter task repos)" "(r, events) = run_tasks dest sync opts tasks"
  proof (cases "repos = []")
    case True
    then have "(r, events) = run_tasks dest sync opts []" using assms(1,4) by (simp add: engine_sync_def run_tasks_def run_result_def)
    then show thesis using that [of "[]"] True by (simp add: List.map_filter_def)
  next
    case False
    then have "(r, events) = execute_sync_plan schedule dest sync opts (create_sync_plan opts repos existing)"
      using assms(1,2,4,5) by (simp add: engine_sync_def Let_def)
    then show thesis using that execute_run_tasks [OF assms(3), of "create_sync_plan opts repos existing" dest sync opts] plan_tasks [of opts repos existing]
      by (auto simp: task_def)
  qed
  have out: "outcome repo = (case task repo of None \<Rightarrow> (None, []) | Some x \<Rightarrow> sync_repository dest sync opts x)" for repo
    by (simp add: outcome_def task_def repository_outcome_def)
  have "mset events = (\<Sum>x\<in>#mset (List.map_filter task repos). mset (snd (sync_repository dest sync opts x)))"
    using t run_tasks_result(2) [of dest sync opts tasks] by (metis mset_concat_sum snd_conv)
  also have "\<dots> = (\<Sum>repo\<in>#mset repos. mset (snd (outcome repo)))"
    unfolding sum_map_filter by (rule arg_cong [where f = sum_mset], rule image_mset_cong) (simp add: out split: option.splits)
  also have "\<dots> = mset (concat (map (snd \<circ> outcome) repos))" by (simp add: mset_concat_sum)
  finally have events: "mset events = mset (concat (map (snd \<circ> outcome) repos))" .
  have "int (length (filter (\<lambda>x. fst (sync_repository dest sync opts x) \<noteq> None) tasks)) =
      (\<Sum>x\<in>#mset (List.map_filter task repos). if fst (sync_repository dest sync opts x) \<noteq> None then 1 else 0)"
    unfolding count_errors t(1) ..
  also have "\<dots> = (\<Sum>repo\<in>#mset repos. if fst (outcome repo) \<noteq> None then 1 else 0)"
    unfolding sum_map_filter by (rule arg_cong [where f = sum_mset], rule image_mset_cong) (simp add: out split: option.splits)
  also have "\<dots> = int (length (filter (\<lambda>repo. fst (outcome repo) \<noteq> None) repos))" unfolding count_errors ..
  finally have "length (filter (\<lambda>x. fst (sync_repository dest sync opts x) \<noteq> None) tasks) = length (filter (\<lambda>repo. fst (outcome repo) \<noteq> None) repos)"
    by simp
  then have "r = (let failed = length (filter (\<lambda>repo. fst (outcome repo) \<noteq> None) repos) in if failed = 0 then None else Some (SyncFailed failed))"
    using t(2) run_tasks_result(1) [of dest sync opts tasks] by (metis fst_conv)
  then show ?thesis using events by (simp add: outcome_def Let_def)
qed

text \<open>
  A single repository whose name at the destination differs is never updated there:
  the run asks the service to create the existing repository again, if it may create at all.
\<close>

theorem renamed_repository_recreated:
  assumes "parse_target (so_To opts) = Inr t" and "is_repository t"
    and "gp_GetRepository dest (target_full_name t) = Inr existing" and "analyze_source source opts = Inr [repo]"
    and "pr_Name existing \<noteq> pr_Name repo" and "engine_sync schedule source dest sync opts = (r, events)"
    and "\<And>ts. mset (schedule ts) = mset ts" and "\<not> so_DryRun opts"
  shows "events = [] \<and> \<not> so_CreateMissing opts \<or> CreateRequested (creation_request t repo) \<in> set events"
proof -
  have d: "analyze_destination dest opts = Inr [(pr_Name existing, existing)]" using assms(1-3) by (simp add: analyze_destination_def)
  have "st_Org t \<noteq> []" using parse_target_parts(7) [OF assms(1)] .
  then have "snd (repository_outcome dest sync opts None repo) = [] \<and> \<not> so_CreateMissing opts \<or>
      CreateRequested (creation_request t repo) \<in> set (snd (repository_outcome dest sync opts None repo))"
    by (auto simp: repository_outcome_def task_of_def sync_repository_def assms(1) Let_def split: sum.splits prod.splits)
  moreover have "mset events = mset (snd (repository_outcome dest sync opts None repo))"
    using engine_sync_effects [OF assms(6,8,7,4) d] assms(5) by (auto simp: Let_def)
  ultimately show ?thesis by (metis mset.simps(1) mset_eq_setD mset_zero_iff)
qed


text \<open>A failed listing of the destination is an empty destination: everything is created.\<close>

lemma unlisted_destination:
  assumes "parse_target (so_To opts) = Inr t" and "\<not> is_repository t" and "gp_ListRepositories dest (st_Org t) = Inl e"
  shows "analyze_destination dest opts = Inr []"
  using assms by (simp add: analyze_destination_def)

text \<open>Pull requests count as a feature but no action exists for them.\<close>

lemma pull_requests_only:
  assumes "\<not> so_IncludeCode opts" "\<not> so_IncludeIssues opts" "\<not> so_IncludeWiki opts" "\<not> so_IncludeReleases opts" "\<not> so_IncludeSettings opts"
  shows "create_sync_actions opts d = []"
  using assms by (simp add: create_sync_actions_def Let_def)

text \<open>The actions of a task run in their order up to the first error.\<close>

lemma run_actions_prefix:
  "snd (run_actions sync source acts) = map (\<lambda>a. ActionRun (sa_Type a) source (sa_Destination a)) (take (length (snd (run_actions sync source acts))) acts) \<and>
   (fst (run_actions sync source acts) = None \<longleftrightarrow> list_all (\<lambda>a. run_handler sync source a = None) acts) \<and>
   (fst (run_actions sync source acts) = None \<longrightarrow> length (snd (run_actions sync source acts)) = length acts)"
  by (induction acts) (auto split: option.splits prod.splits)

text \<open>The rebuilt actions of a new repository never lack their destination.\<close>

lemma created_actions_have_destination: "list_all (\<lambda>a. sa_Destination a = Some d) (create_sync_actions opts (Some d))"
  by (simp add: create_sync_actions_def Let_def)

section \<open>Witnesses\<close>

definition sample_provider_repository :: "string \<Rightarrow> provider_repository" where
  "sample_provider_repository name =
     \<lparr>pr_ID = name, pr_Name = name, pr_FullName = ''acme/'' @ name, pr_Description = [], pr_Private = False, pr_Archived = False,
      pr_CloneURL = [], pr_DefaultBranch = ''main'', pr_Topics = [], pr_Visibility = []\<rparr>"

definition sample_sync_options :: "string \<Rightarrow> string \<Rightarrow> sync_options" where
  "sample_sync_options from1 to1 =
     \<lparr>so_From = from1, so_To = to1, so_CreateMissing = True, so_UpdateExisting = True, so_Force = False, so_IncludeCode = True,
      so_IncludeIssues = False, so_IncludePRs = False, so_IncludeWiki = True, so_IncludeReleases = False, so_IncludeSettings = False,
      so_Match = ''t*'', so_Exclude = [], so_Parallel = 4, so_DryRun = False, so_Verbose = False\<rparr>"

definition sample_provider :: "string list \<Rightarrow> git_provider" where
  "sample_provider names =
     \<lparr>gp_GetRepository = \<lambda>n. Inr (sample_provider_repository (path_base n)), gp_ListRepositories = \<lambda>_. Inr (map sample_provider_repository names),
      gp_CreateRepository = \<lambda>r. Inr (sample_provider_repository (crr_Name r))\<rparr>"

definition sample_syncers :: syncers where
  "sample_syncers t source dest = (if t = ''wiki'' \<and> pr_Name source = ''two'' then Some ''no wiki'' else None)"

lemma sample_analysis:
  "analyze_source (sample_provider [''one'', ''two'', ''three'']) (sample_sync_options ''github:acme'' ''gitlab:acme'') =
     Inr (map sample_provider_repository [''two'', ''three''])"
  "analyze_destination (sample_provider [''three'']) (sample_sync_options ''github:acme'' ''gitlab:acme'') =
     Inr [(''three'', sample_provider_repository ''three'')]"
  by code_simp+

lemma engine_sync_effects_witness:
  "fst (engine_sync rev (sample_provider [''one'', ''two'', ''three'']) (sample_provider [''three'']) sample_syncers (sample_sync_options ''github:acme'' ''gitlab:acme'')) =
     Some (SyncFailed 1)"
proof -
  obtain r events where e: "engine_sync rev (sample_provider [''one'', ''two'', ''three'']) (sample_provider [''three'']) sample_syncers
      (sample_sync_options ''github:acme'' ''gitlab:acme'') = (r, events)" by (metis surj_pair)
  have "\<not> so_DryRun (sample_sync_options ''github:acme'' ''gitlab:acme'')" by (simp add: sample_sync_options_def)
  note t = engine_sync_effects [OF e this mset_rev sample_analysis]
  have n: "length (filter (\<lambda>repo. fst (repository_outcome (sample_provider [''three'']) sample_syncers (sample_sync_options ''github:acme'' ''gitlab:acme'')
      (gm_get [(''three'', sample_provider_repository ''three'')] (pr_Name repo)) repo) \<noteq> None) (map sample_provider_repository [''two'', ''three''])) = 1"
    by code_simp
  show ?thesis using t unfolding Let_def n e fst_conv by simp
qed

lemma renamed_repository_recreated_witness:
  "CreateRequested (creation_request \<lparr>st_Provider = ''gitlab'', st_Org = ''acme'', st_Repo = ''copy''\<rparr> (sample_provider_repository ''tool'')) \<in>
   set (snd (engine_sync rev (sample_provider []) (sample_provider []) sample_syncers (sample_sync_options ''github:acme/tool'' ''gitlab:acme/copy'')))"
proof -
  let ?opts = "sample_sync_options ''github:acme/tool'' ''gitlab:acme/copy''"
  obtain r events where e: "engine_sync rev (sample_provider []) (sample_provider []) sample_syncers ?opts = (r, events)" by (metis surj_pair)
  have "parse_target (so_To ?opts) = Inr \<lparr>st_Provider = ''gitlab'', st_Org = ''acme'', st_Repo = ''copy''\<rparr>" by code_simp
  moreover have "gp_GetRepository (sample_provider []) (target_full_name \<lparr>st_Provider = ''gitlab'', st_Org = ''acme'', st_Repo = ''copy''\<rparr>) =
    Inr (sample_provider_repository ''copy'')" by code_simp
  moreover have "analyze_source (sample_provider []) ?opts = Inr [sample_provider_repository ''tool'']" by code_simp
  moreover have "so_CreateMissing ?opts" "\<not> so_DryRun ?opts" by (simp_all add: sample_sync_options_def)
  ultimately show ?thesis
    using renamed_repository_recreated [OF _ _ _ _ _ e] mset_rev by (fastforce simp: e is_repository_def sample_provider_repository_def)
qed

end
