(* ===== verification/SyncGit.thy ===== *)
theory SyncGit
  imports SyncPlan
begin

text \<open>
  The syncers that run git (\<open>internal/git/sync/code.go\<close> and \<open>wiki.go\<close>). A git command is its
  directory and arguments; the runner answers it from the commands run before, with its error,
  if any, and its output. Every operation returns its result and the commands run so far.
\<close>

section \<open>Commands\<close>

type_synonym git_command = "string \<times> string list"
type_synonym git_runner = "git_command list \<Rightarrow> git_command \<Rightarrow> string option \<times> string"

datatype git_error =
    DestinationMissing | NoTempDir | CommandFailed string string string | PushFailed string string | WikiNotFound | NoInitDir | NoHomePage

text \<open>Commands in sequence up to the first that fails; each comes with its error.\<close>

fun git_steps :: "git_runner \<Rightarrow> (git_command \<times> (string \<Rightarrow> string \<Rightarrow> git_error)) list \<Rightarrow> git_command list \<Rightarrow> git_error option \<times> git_command list" where
  "git_steps git [] h = (None, h)"
| "git_steps git ((c, wrap) # cs) h =
     (case git h c of
        (None, _) \<Rightarrow> git_steps git cs (h @ [c])
      | (Some err, output) \<Rightarrow> (Some (wrap err output), h @ [c]))"

lemma git_steps_extends: "prefix h (snd (git_steps git cs h))"
proof (induction cs arbitrary: h)
  case (Cons c cs)
  obtain c1 wrap where c: "c = (c1, wrap)" by (cases c)
  have "prefix h (snd (git_steps git cs (h @ [c1])))" using Cons.IH [of "h @ [c1]"] by (auto simp: prefix_def)
  then show ?case by (auto simp: c split: prod.splits option.splits)
qed simp

section \<open>Code\<close>

definition repo_dir :: "string \<Rightarrow> string" where
  "repo_dir tempDir = path_join [tempDir, ''repo'']"

definition push_args :: "sync_options \<Rightarrow> string \<Rightarrow> string list" where
  "push_args opts what = [''push'', ''destination'', what] @ (if so_Force opts then [''--force''] else [])"

definition clone_source :: "git_runner \<Rightarrow> provider_repository \<Rightarrow> string \<Rightarrow> git_command list \<Rightarrow> git_error option \<times> git_command list" where
  "clone_source git source tempDir h =
     git_steps git [(([], [''clone'', ''--mirror'', pr_CloneURL source, repo_dir tempDir]), CommandFailed ''git clone'')] h"

definition add_destination_remote :: "git_runner \<Rightarrow> provider_repository \<Rightarrow> string \<Rightarrow> git_command list \<Rightarrow> git_error option \<times> git_command list" where
  "add_destination_remote git dest tempDir h =
     git_steps git [((repo_dir tempDir, [''remote'', ''add'', ''destination'', pr_CloneURL dest]), CommandFailed ''add destination remote'')] h"

definition push_branches :: "git_runner \<Rightarrow> sync_options \<Rightarrow> string \<Rightarrow> git_command list \<Rightarrow> git_error option \<times> git_command list" where
  "push_branches git opts dir h =
     (let args = push_args opts ''--all''; h1 = h @ [(dir, args)] in
      case git h (dir, args) of
        (None, _) \<Rightarrow> (None, h1)
      | (Some err, output) \<Rightarrow>
          if \<not> so_Force opts then
            (let forceArgs = args @ [''--force''] in
             case git h1 (dir, forceArgs) of
               (None, _) \<Rightarrow> (None, h1 @ [(dir, forceArgs)])
             | (Some forceErr, forceOutput) \<Rightarrow> (Some (PushFailed output forceOutput), h1 @ [(dir, forceArgs)]))
          else (Some (CommandFailed ''git push branches'' err output), h1))"

definition push_tags :: "git_runner \<Rightarrow> sync_options \<Rightarrow> string \<Rightarrow> git_command list \<Rightarrow> git_error option \<times> git_command list" where
  "push_tags git opts dir h =
     (let args = push_args opts ''--tags''; h1 = h @ [(dir, args)] in
      case git h (dir, args) of
        (None, _) \<Rightarrow> (None, h1)
      | (Some err, output) \<Rightarrow>
          if contains output ''no refs in common'' \<or> contains output ''Everything up-to-date'' then (None, h1)
          else if trim_space output = [] \<and> \<not> so_Force opts then (None, h1)
          else (Some (CommandFailed ''git push tags'' err output), h1))"

definition push_to_destination :: "git_runner \<Rightarrow> sync_options \<Rightarrow> string \<Rightarrow> git_command list \<Rightarrow> git_error option \<times> git_command list" where
  "push_to_destination git opts tempDir h =
     (case push_branches git opts (repo_dir tempDir) h of
        (Some e, h1) \<Rightarrow> (Some e, h1)
      | (None, h1) \<Rightarrow> push_tags git opts (repo_dir tempDir) h1)"

text \<open>\<open>temp\<close> is the temporary directory, if one could be made.\<close>

definition code_sync ::
  "git_runner \<Rightarrow> sync_options \<Rightarrow> string option \<Rightarrow> provider_repository \<Rightarrow> provider_repository option \<Rightarrow> git_error option \<times> git_command list" where
  "code_sync git opts temp source destination =
     (case (destination, temp) of
        (None, _) \<Rightarrow> (Some DestinationMissing, [])
      | (Some _, None) \<Rightarrow> (Some NoTempDir, [])
      | (Some dest, Some tempDir) \<Rightarrow>
          (case clone_source git source tempDir [] of
             (Some e, h) \<Rightarrow> (Some e, h)
           | (None, h) \<Rightarrow>
               (case add_destination_remote git dest tempDir h of
                  (Some e, h) \<Rightarrow> (Some e, h)
                | (None, h) \<Rightarrow> push_to_destination git opts tempDir h)))"

definition validate_clone_urls :: "provider_repository \<Rightarrow> provider_repository option \<Rightarrow> string option" where
  "validate_clone_urls source destination =
     (if pr_CloneURL source = [] then Some ''source repository clone URL is empty''
      else (case destination of
              None \<Rightarrow> None
            | Some d \<Rightarrow> if pr_CloneURL d = [] then Some ''destination repository clone URL is empty'' else None))"

definition count_lines :: "string \<Rightarrow> nat" where
  "count_lines s = length (filter (\<lambda>line. trim_space line \<noteq> []) (split_on (CHR 0x0A) (trim_space s)))"

section \<open>Wiki\<close>

definition get_wiki_url :: "provider_repository \<Rightarrow> string" where
  "get_wiki_url repo =
     (let url = pr_CloneURL repo in
      if suffix ''.git'' url then take (length url - 4) url @ ''.wiki.git'' else url @ ''.wiki.git'')"

definition is_wiki_not_found :: "string \<Rightarrow> bool" where
  "is_wiki_not_found err =
     (let s = to_lower err in
      contains s ''repository not found'' \<or> contains s ''not found'' \<or> contains s ''does not exist'' \<or> contains s ''wiki not found'')"

definition wiki_dir :: "string \<Rightarrow> string" where
  "wiki_dir tempDir = path_join [tempDir, ''wiki'']"

definition clone_source_wiki :: "git_runner \<Rightarrow> string \<Rightarrow> string \<Rightarrow> git_command list \<Rightarrow> git_error option \<times> git_command list" where
  "clone_source_wiki git url tempDir h =
     git_steps git [(([], [''clone'', url, wiki_dir tempDir]),
       \<lambda>err output. if is_wiki_not_found output then WikiNotFound else CommandFailed ''git clone'' err output)] h"

definition initialize_destination_wiki ::
  "git_runner \<Rightarrow> string option \<Rightarrow> bool \<Rightarrow> string \<Rightarrow> git_command list \<Rightarrow> git_error option \<times> git_command list" where
  "initialize_destination_wiki git initDir home_ok url h =
     (case initDir of
        None \<Rightarrow> (Some NoInitDir, h)
      | Some d \<Rightarrow>
          (case git_steps git [((d, [''init'']), CommandFailed ''git init'')] h of
             (Some e, h) \<Rightarrow> (Some e, h)
           | (None, h) \<Rightarrow>
               if \<not> home_ok then (Some NoHomePage, h)
               else (case git_steps git [((d, [''add'', ''Home.md'']), CommandFailed ''git add''),
                        ((d, [''commit'', ''-m'', ''Initialize wiki'']), CommandFailed ''git commit''),
                        ((d, [''remote'', ''add'', ''origin'', url]), CommandFailed ''add origin remote'')] h of
                       (Some e, h) \<Rightarrow> (Some e, h)
                     | (None, h) \<Rightarrow>
                         (case git h (d, [''push'', ''origin'', ''main'']) of
                            (None, _) \<Rightarrow> (None, h @ [(d, [''push'', ''origin'', ''main''])])
                          | (Some err, output) \<Rightarrow>
                              git_steps git [((d, [''push'', ''origin'', ''master'']), \<lambda>_. PushFailed output)]
                                (h @ [(d, [''push'', ''origin'', ''main''])])))))"

definition push_to_destination_wiki ::
  "git_runner \<Rightarrow> string option \<Rightarrow> bool \<Rightarrow> string \<Rightarrow> string \<Rightarrow> git_command list \<Rightarrow> git_error option \<times> git_command list" where
  "push_to_destination_wiki git initDir home_ok url tempDir h =
     (case git_steps git [((wiki_dir tempDir, [''remote'', ''add'', ''destination'', url]), CommandFailed ''add destination remote'')] h of
        (Some e, h) \<Rightarrow> (Some e, h)
      | (None, h) \<Rightarrow>
          let push = (wiki_dir tempDir, [''push'', ''destination'', ''--all'', ''--force'']) in
          (case git h push of
             (None, _) \<Rightarrow> (None, h @ [push])
           | (Some err, output) \<Rightarrow>
               if contains output ''repository not found'' \<or> contains output ''does not exist'' then
                 (case initialize_destination_wiki git initDir home_ok url (h @ [push]) of
                    (Some e, h) \<Rightarrow> (Some e, h)
                  | (None, h) \<Rightarrow> git_steps git [(push, CommandFailed ''git push retry'')] h)
               else (Some (CommandFailed ''git push'' err output), h @ [push])))"

definition git_error_text :: "git_error \<Rightarrow> string" where
  "git_error_text e =
     (case e of
        CommandFailed step err output \<Rightarrow> step @ '' failed: '' @ err @ [CHR 0x0A] @ ''Output: '' @ output
      | WikiNotFound \<Rightarrow> ''wiki not found''
      | _ \<Rightarrow> [])"

definition wiki_sync ::
  "git_runner \<Rightarrow> string option \<Rightarrow> string option \<Rightarrow> bool \<Rightarrow> provider_repository \<Rightarrow> provider_repository \<Rightarrow> git_command list \<Rightarrow>
   git_error option \<times> git_command list" where
  "wiki_sync git temp initDir home_ok source dest h =
     (case temp of
        None \<Rightarrow> (Some NoTempDir, h)
      | Some tempDir \<Rightarrow>
          (case clone_source_wiki git (get_wiki_url source) tempDir h of
             (Some e, h) \<Rightarrow> (if is_wiki_not_found (git_error_text e) then None else Some e, h)
           | (None, h) \<Rightarrow> push_to_destination_wiki git initDir home_ok (get_wiki_url dest) tempDir h))"

record wiki_access =
  wa_Accessible :: bool
  wa_HasContent :: bool
  wa_Error :: string
  wa_RefCount :: nat

definition check_wiki_accessibility :: "git_runner \<Rightarrow> provider_repository \<Rightarrow> git_command list \<Rightarrow> wiki_access \<times> git_command list" where
  "check_wiki_accessibility git repo h =
     (let url = get_wiki_url repo; no = (\<lambda>e. \<lparr>wa_Accessible = False, wa_HasContent = False, wa_Error = e, wa_RefCount = 0\<rparr>);
          c = ([], [''ls-remote'', ''--heads'', url]) in
      if url = [] then (no ''wiki URL is empty'', h)
      else (case git h c of
              (Some err, output) \<Rightarrow>
                let s = to_lower output in
                (if contains s ''repository not found'' \<or> contains s ''not found'' \<or> contains s ''does not exist''
                   then no ''wiki repository not found''
                 else if contains s ''authentication'' \<or> contains s ''permission denied'' \<or> contains s ''403'' \<or> contains s ''401''
                   then no ''authentication failed''
                 else no (''failed to check wiki: '' @ err), h @ [c])
            | (None, output) \<Rightarrow>
                let out = trim_space output; n = (if out = [] then 0 else length (split_on (CHR 0x0A) out)) in
                (\<lparr>wa_Accessible = True, wa_HasContent = (0 < n), wa_Error = [], wa_RefCount = n\<rparr>, h @ [c])))"

definition wiki_sync_with_validation ::
  "git_runner \<Rightarrow> string option \<Rightarrow> string option \<Rightarrow> bool \<Rightarrow> provider_repository \<Rightarrow> provider_repository \<Rightarrow> git_error option \<times> git_command list" where
  "wiki_sync_with_validation git temp initDir home_ok source dest =
     (case check_wiki_accessibility git source [] of
        (src, h) \<Rightarrow>
          if \<not> wa_Accessible src then (None, h)
          else if \<not> wa_HasContent src then (None, h)
          else (case check_wiki_accessibility git dest h of (_, h) \<Rightarrow> wiki_sync git temp initDir home_ok source dest h))"


section \<open>What is pushed\<close>

text \<open>
  A push of the branches that the destination refuses is repeated with force although
  the options do not ask for force; if the forced push succeeds it is as good as any other.
\<close>

theorem rejected_push_forced:
  assumes "\<not> so_Force opts" and "code_sync git opts (Some tempDir) source (Some dest) = (r, commands)"
    and "git h (repo_dir tempDir, [''push'', ''destination'', ''--all'']) = (Some err, output)"
    and "clone_source git source tempDir [] = (None, h0)" and "add_destination_remote git dest tempDir h0 = (None, h)"
  shows "(repo_dir tempDir, [''push'', ''destination'', ''--all'', ''--force'']) \<in> set commands"
proof -
  let ?plain = "(repo_dir tempDir, [''push'', ''destination'', ''--all''])"
  let ?forced = "(repo_dir tempDir, [''push'', ''destination'', ''--all'', ''--force''])"
  have a: "push_args opts ''--all'' = [''push'', ''destination'', ''--all'']" using assms(1) by (simp add: push_args_def)
  have "snd (push_branches git opts (repo_dir tempDir) h) = h @ [?plain, ?forced]"
    using assms(1,3) by (simp add: push_branches_def a Let_def split: prod.splits option.splits)
  moreover have "prefix (snd (push_branches git opts (repo_dir tempDir) h)) commands"
    using assms(2,4,5) by (auto simp: code_sync_def push_to_destination_def push_tags_def Let_def
        split: prod.splits option.splits if_splits)
  ultimately show ?thesis by (auto simp: prefix_def)
qed

text \<open>A synchronisation of the code that succeeds has pushed the branches, plainly or with force.\<close>

lemma code_sync_pushed:
  assumes "code_sync git opts (Some tempDir) source (Some dest) = (None, commands)"
  shows "\<exists>h h'. fst (git h (repo_dir tempDir, push_args opts ''--all'')) = None \<or>
    \<not> so_Force opts \<and> fst (git h' (repo_dir tempDir, push_args opts ''--all'' @ [''--force''])) = None"
proof -
  obtain h h1 where "push_branches git opts (repo_dir tempDir) h = (None, h1)"
    using assms by (auto simp: code_sync_def push_to_destination_def split: prod.splits option.splits)
  then have "fst (git h (repo_dir tempDir, push_args opts ''--all'')) = None \<or> \<not> so_Force opts \<and>
      fst (git (h @ [(repo_dir tempDir, push_args opts ''--all'')]) (repo_dir tempDir, push_args opts ''--all'' @ [''--force''])) = None"
    by (auto simp: push_branches_def Let_def split: prod.splits option.splits if_splits)
  then show ?thesis by blast
qed

text \<open>A failed push of the tags without output counts as a success, unless force was asked for.\<close>

lemma silent_tag_failure:
  assumes "\<not> so_Force opts" and "git h (dir, [''push'', ''destination'', ''--tags'']) = (Some err, [])"
  shows "push_tags git opts dir h = (None, h @ [(dir, [''push'', ''destination'', ''--tags''])])"
  using assms by (simp add: push_tags_def push_args_def Let_def trim_space_def trim_with_def)

text \<open>The wiki is pushed with force whatever the options say.\<close>

lemma wiki_push_forced:
  assumes "git_steps git [((wiki_dir tempDir, [''remote'', ''add'', ''destination'', url]), CommandFailed ''add destination remote'')] h = (None, h1)"
  shows "(wiki_dir tempDir, [''push'', ''destination'', ''--all'', ''--force'']) \<in> set (snd (push_to_destination_wiki git initDir home_ok url tempDir h))"
proof -
  let ?push = "(wiki_dir tempDir, [''push'', ''destination'', ''--all'', ''--force''])"
  have init: "prefix h' (snd (initialize_destination_wiki git initDir home_ok url h'))" for h'
    unfolding initialize_destination_wiki_def
    using git_steps_extends by (auto split: option.splits prod.splits; metis prefix_order.trans snd_conv prefixI)
  show ?thesis
  proof (cases "fst (git h1 ?push)")
    case None
    then show ?thesis using assms by (auto simp: push_to_destination_wiki_def Let_def split: prod.splits)
  next
    case (Some e)
    have "prefix (h1 @ [?push]) (snd (push_to_destination_wiki git initDir home_ok url tempDir h))"
      using assms Some init [of "h1 @ [?push]"] git_steps_extends
      by (auto simp: push_to_destination_wiki_def Let_def split: prod.splits option.splits; metis prefix_order.trans snd_conv)
    then show ?thesis by (auto simp: prefix_def)
  qed
qed

definition sample_git :: git_runner where
  "sample_git h c = (if snd c = [''push'', ''destination'', ''--all''] then (Some ''exit status 1'', ''rejected'') else (None, []))"

definition code_options :: sync_options where
  "code_options =
     \<lparr>so_From = ''github:acme'', so_To = ''gitlab:acme'', so_CreateMissing = False, so_UpdateExisting = True, so_Force = False,
      so_IncludeCode = True, so_IncludeIssues = False, so_IncludePRs = False, so_IncludeWiki = False, so_IncludeReleases = False,
      so_IncludeSettings = False, so_Match = [], so_Exclude = [], so_Parallel = 1, so_DryRun = False, so_Verbose = False\<rparr>"

definition code_repository :: "string \<Rightarrow> provider_repository" where
  "code_repository url =
     \<lparr>pr_ID = [], pr_Name = ''tool'', pr_FullName = ''acme/tool'', pr_Description = [], pr_Private = False, pr_Archived = False,
      pr_CloneURL = url, pr_DefaultBranch = ''main'', pr_Topics = [], pr_Visibility = []\<rparr>"

lemma rejected_push_forced_witness:
  "(''/tmp/x/repo'', [''push'', ''destination'', ''--all'', ''--force'']) \<in>
   set (snd (code_sync sample_git code_options (Some ''/tmp/x'') (code_repository ''u'') (Some (code_repository ''v''))))"
proof -
  have d: "repo_dir ''/tmp/x'' = ''/tmp/x/repo''" by code_simp
  obtain r commands where c: "code_sync sample_git code_options (Some ''/tmp/x'') (code_repository ''u'') (Some (code_repository ''v'')) = (r, commands)"
    by (metis surj_pair)
  have "\<not> so_Force code_options" by (simp add: code_options_def)
  from rejected_push_forced [OF this c, of "[([], [''clone'', ''--mirror'', ''u'', repo_dir ''/tmp/x'']), (repo_dir ''/tmp/x'', [''remote'', ''add'', ''destination'', ''v''])]"
      "''exit status 1''" "''rejected''" "[([], [''clone'', ''--mirror'', ''u'', repo_dir ''/tmp/x''])]"]
  have "(''/tmp/x/repo'', [''push'', ''destination'', ''--all'', ''--force'']) \<in> set commands"
    by (simp add: d sample_git_def clone_source_def add_destination_remote_def code_repository_def)
  then show ?thesis by (simp only: c snd_conv)
qed

end
