(* ===== verification/SyncMeta.thy ===== *)
theory SyncMeta
  imports SyncPlan
begin

text \<open>
  The syncers of settings and releases (\<open>internal/git/sync/settings.go\<close> and \<open>releases.go\<close>). The
  services are parameters.
\<close>

section \<open>Settings\<close>

text \<open>A field that is absent, or empty where the request omits empty values, leaves its setting alone.\<close>

record update_repo_request =
  ur_Description :: "string option"
  ur_DefaultBranch :: "string option"
  ur_Topics :: "string list"
  ur_Visibility :: string
  ur_Archived :: "bool option"

definition equal_string_slices :: "string list \<Rightarrow> string list \<Rightarrow> bool" where
  "equal_string_slices a b \<longleftrightarrow> length a = length b \<and> list_all (\<lambda>v. v \<in> set a) b"

definition build_settings_update :: "sync_options \<Rightarrow> provider_repository \<Rightarrow> provider_repository \<Rightarrow> update_repo_request option" where
  "build_settings_update opts source dest =
     (let description = pr_Description source \<noteq> pr_Description dest;
          branch = so_Force opts \<and> pr_DefaultBranch source \<noteq> pr_DefaultBranch dest;
          topics = \<not> equal_string_slices (pr_Topics source) (pr_Topics dest);
          visibility = so_Force opts \<and> pr_Visibility source \<noteq> pr_Visibility dest;
          archived = pr_Archived source \<noteq> pr_Archived dest in
      if description \<or> branch \<or> topics \<or> visibility \<or> archived then
        Some \<lparr>ur_Description = (if description then Some (pr_Description source) else None),
          ur_DefaultBranch = (if branch then Some (pr_DefaultBranch source) else None),
          ur_Topics = (if topics then pr_Topics source else []),
          ur_Visibility = (if visibility then pr_Visibility source else []),
          ur_Archived = (if archived then Some (pr_Archived source) else None)\<rparr>
      else None)"

definition settings_sync ::
  "(string \<Rightarrow> update_repo_request \<Rightarrow> string option) \<Rightarrow> sync_options \<Rightarrow> provider_repository \<Rightarrow> provider_repository \<Rightarrow>
   string option \<times> (string \<times> update_repo_request) list" where
  "settings_sync update opts source dest =
     (case build_settings_update opts source dest of
        None \<Rightarrow> (None, [])
      | Some u \<Rightarrow> (update (pr_FullName dest) u, [(pr_FullName dest, u)]))"

text \<open>What a service that keeps to the request makes of a repository.\<close>

definition apply_update_request :: "update_repo_request \<Rightarrow> provider_repository \<Rightarrow> provider_repository" where
  "apply_update_request u r =
     r\<lparr>pr_Description := (case ur_Description u of None \<Rightarrow> pr_Description r | Some d \<Rightarrow> d),
       pr_DefaultBranch := (case ur_DefaultBranch u of None \<Rightarrow> pr_DefaultBranch r | Some d \<Rightarrow> d),
       pr_Topics := (if ur_Topics u = [] then pr_Topics r else ur_Topics u),
       pr_Visibility := (if ur_Visibility u = [] then pr_Visibility r else ur_Visibility u),
       pr_Archived := (case ur_Archived u of None \<Rightarrow> pr_Archived r | Some a \<Rightarrow> a)\<rparr>"

lemma equal_string_slices_refl [simp]: "equal_string_slices a a"
  by (simp add: equal_string_slices_def list_all_iff)

text \<open>The comparison is not symmetric: a topic that is missing behind a repeated one is not seen.\<close>

lemma equal_string_slices_asymmetric:
  "equal_string_slices [''a'', ''b''] [''a'', ''a'']" "\<not> equal_string_slices [''a'', ''a''] [''a'', ''b'']"
  by code_simp+

text \<open>
  After the update was applied the settings need no further one, provided no topics
  or visibility have to be cleared, which a request cannot express.
\<close>

theorem settings_sync_converges:
  assumes "build_settings_update opts source dest = Some u"
    and "pr_Topics source \<noteq> [] \<or> pr_Topics dest = []" and "so_Force opts \<longrightarrow> pr_Visibility source \<noteq> [] \<or> pr_Visibility dest = []"
  shows "build_settings_update opts source (apply_update_request u dest) = None"
proof -
  let ?d = "apply_update_request u dest"
  have u: "u = \<lparr>ur_Description = (if pr_Description source \<noteq> pr_Description dest then Some (pr_Description source) else None),
      ur_DefaultBranch = (if so_Force opts \<and> pr_DefaultBranch source \<noteq> pr_DefaultBranch dest then Some (pr_DefaultBranch source) else None),
      ur_Topics = (if \<not> equal_string_slices (pr_Topics source) (pr_Topics dest) then pr_Topics source else []),
      ur_Visibility = (if so_Force opts \<and> pr_Visibility source \<noteq> pr_Visibility dest then pr_Visibility source else []),
      ur_Archived = (if pr_Archived source \<noteq> pr_Archived dest then Some (pr_Archived source) else None)\<rparr>"
    using assms(1) unfolding build_settings_update_def Let_def by (metis option.distinct(1) option.inject)
  have "pr_Description ?d = pr_Description source" "so_Force opts \<Longrightarrow> pr_DefaultBranch ?d = pr_DefaultBranch source"
    "pr_Archived ?d = pr_Archived source"
    by (simp_all add: apply_update_request_def u)
  moreover have "so_Force opts \<Longrightarrow> pr_Visibility ?d = pr_Visibility source"
    using assms(3) by (cases "pr_Visibility source = pr_Visibility dest") (auto simp: apply_update_request_def u)
  moreover have "equal_string_slices (pr_Topics source) (pr_Topics ?d)"
  proof (cases "equal_string_slices (pr_Topics source) (pr_Topics dest)")
    case True
    then show ?thesis by (simp add: apply_update_request_def u)
  next
    case False
    then have "pr_Topics source \<noteq> []" using assms(2) by auto
    then show ?thesis using False by (simp add: apply_update_request_def u)
  qed
  ultimately show ?thesis unfolding build_settings_update_def Let_def by auto
qed

lemma settings_never_converge:
  assumes "pr_Topics source = []" and "pr_Topics dest \<noteq> []" and "build_settings_update opts source dest = Some u"
  shows "build_settings_update opts source (apply_update_request u dest) \<noteq> None"
proof -
  have "\<not> equal_string_slices [] (pr_Topics dest)" using assms(2) by (auto simp: equal_string_slices_def)
  moreover have "pr_Topics (apply_update_request u dest) = pr_Topics dest"
    using assms by (auto simp: build_settings_update_def Let_def apply_update_request_def split: if_splits)
  ultimately show ?thesis using assms(1) by (simp add: build_settings_update_def Let_def)
qed

section \<open>Releases\<close>

record release_asset =
  as_ID :: string
  as_Name :: string
  as_Label :: string
  as_ContentType :: string

record release =
  re_ID :: string
  re_TagName :: string
  re_Name :: string
  re_Body :: string
  re_Draft :: bool
  re_Prerelease :: bool
  re_TargetBranch :: string
  re_Assets :: "release_asset list"

record create_release_request =
  cre_TagName :: string
  cre_Name :: string
  cre_Body :: string
  cre_TargetBranch :: string
  cre_Draft :: bool
  cre_Prerelease :: bool

record update_release_request =
  ure_Name :: "string option"
  ure_Body :: "string option"
  ure_Draft :: "bool option"
  ure_Prerelease :: "bool option"

record upload_asset_request =
  ua_ReleaseID :: string
  ua_FileName :: string
  ua_Label :: string
  ua_ContentType :: string
  ua_Content :: string

record release_service =
  rv_CreateRelease :: "string \<Rightarrow> create_release_request \<Rightarrow> string + release"
  rv_UpdateRelease :: "string \<Rightarrow> string \<Rightarrow> update_release_request \<Rightarrow> string option"
  rv_ListReleaseAssets :: "string \<Rightarrow> string \<Rightarrow> string + release_asset list"
  rv_DownloadReleaseAsset :: "string \<Rightarrow> string \<Rightarrow> string + string"
  rv_UploadReleaseAsset :: "string \<Rightarrow> upload_asset_request \<Rightarrow> string option"

datatype release_event =
    ReleaseCreated create_release_request | ReleaseUpdated string update_release_request | AssetUploaded upload_asset_request

text \<open>\<open>fetch page\<close> is a page of the listing and whether another one follows; fuel bounds the pages.\<close>

fun list_all_releases :: "nat \<Rightarrow> (nat \<Rightarrow> string + release list \<times> bool) \<Rightarrow> nat \<Rightarrow> release list \<Rightarrow> (string + release list) option" where
  "list_all_releases 0 fetch page acc = None"
| "list_all_releases (Suc fuel) fetch page acc =
     (case fetch page of
        Inl e \<Rightarrow> Some (Inl e)
      | Inr (rs, hasNext) \<Rightarrow>
          if \<not> hasNext then Some (Inr (acc @ rs)) else list_all_releases fuel fetch (Suc page) (acc @ rs))"

definition release_needs_update :: "sync_options \<Rightarrow> release \<Rightarrow> release \<Rightarrow> bool" where
  "release_needs_update opts source dest \<longleftrightarrow>
     so_Force opts \<or> re_Name source \<noteq> re_Name dest \<or> re_Body source \<noteq> re_Body dest \<or>
     re_Draft source \<noteq> re_Draft dest \<or> re_Prerelease source \<noteq> re_Prerelease dest"

text \<open>The asset is asked for with the identifier of the release in the place of the repository's.\<close>

fun upload_assets ::
  "release_service \<Rightarrow> release_service \<Rightarrow> string \<Rightarrow> string \<Rightarrow> release \<Rightarrow> string list \<Rightarrow> release_asset list \<Rightarrow> string option \<times> release_event list" where
  "upload_assets src dst repoID destReleaseID release existing [] = (None, [])"
| "upload_assets src dst repoID destReleaseID release existing (a # as) =
     (if as_Name a \<in> set existing then upload_assets src dst repoID destReleaseID release existing as
      else (case rv_DownloadReleaseAsset src (re_ID release) (as_ID a) of
              Inl e \<Rightarrow> (Some e, [])
            | Inr content \<Rightarrow>
                let request = \<lparr>ua_ReleaseID = destReleaseID, ua_FileName = as_Name a, ua_Label = as_Label a,
                  ua_ContentType = as_ContentType a, ua_Content = content\<rparr> in
                (case rv_UploadReleaseAsset dst repoID request of
                   Some e \<Rightarrow> (Some e, [AssetUploaded request])
                 | None \<Rightarrow>
                     (case upload_assets src dst repoID destReleaseID release existing as of
                        (r, evs) \<Rightarrow> (r, AssetUploaded request # evs)))))"

definition sync_release_assets ::
  "release_service \<Rightarrow> release_service \<Rightarrow> string \<Rightarrow> release \<Rightarrow> string \<Rightarrow> string option \<times> release_event list" where
  "sync_release_assets src dst repoID release destReleaseID =
     (if re_Assets release = [] then (None, [])
      else (case rv_ListReleaseAssets dst repoID destReleaseID of
              Inl e \<Rightarrow> (Some e, [])
            | Inr existing \<Rightarrow> upload_assets src dst repoID destReleaseID release (map as_Name existing) (re_Assets release)))"

text \<open>Errors of the assets are only printed.\<close>

definition create_release :: "release_service \<Rightarrow> release_service \<Rightarrow> string \<Rightarrow> release \<Rightarrow> (string + string) \<times> release_event list" where
  "create_release src dst repoID release =
     (let request = \<lparr>cre_TagName = re_TagName release, cre_Name = re_Name release, cre_Body = re_Body release,
        cre_TargetBranch = re_TargetBranch release, cre_Draft = re_Draft release, cre_Prerelease = re_Prerelease release\<rparr> in
      case rv_CreateRelease dst repoID request of
        Inl e \<Rightarrow> (Inl e, [ReleaseCreated request])
      | Inr new \<Rightarrow> (Inr (re_ID new), ReleaseCreated request # snd (sync_release_assets src dst repoID release (re_ID new))))"

definition update_release :: "release_service \<Rightarrow> release_service \<Rightarrow> string \<Rightarrow> release \<Rightarrow> release \<Rightarrow> string option \<times> release_event list" where
  "update_release src dst repoID release dest =
     (let request = \<lparr>ure_Name = Some (re_Name release), ure_Body = Some (re_Body release), ure_Draft = Some (re_Draft release),
        ure_Prerelease = Some (re_Prerelease release)\<rparr> in
      case rv_UpdateRelease dst repoID (re_ID dest) request of
        Some e \<Rightarrow> (Some e, [ReleaseUpdated (re_ID dest) request])
      | None \<Rightarrow> (None, ReleaseUpdated (re_ID dest) request # snd (sync_release_assets src dst repoID release (re_ID dest))))"

record release_state =
  rt_created :: nat
  rt_updated :: nat
  rt_skipped :: nat
  rt_mapping :: "(string, string) gomap"
  rt_events :: "release_event list"

definition sync_release ::
  "release_service \<Rightarrow> release_service \<Rightarrow> sync_options \<Rightarrow> string \<Rightarrow> (string, release) gomap \<Rightarrow> release_state \<Rightarrow> release \<Rightarrow> release_state" where
  "sync_release src dst opts repoID byTag st release =
     (case gm_get byTag (re_TagName release) of
        Some dest \<Rightarrow>
          if release_needs_update opts release dest then
            (case update_release src dst repoID release dest of
               (Some e, evs) \<Rightarrow> st\<lparr>rt_events := rt_events st @ evs\<rparr>
             | (None, evs) \<Rightarrow> st\<lparr>rt_updated := rt_updated st + 1, rt_mapping := gm_put (re_ID release) (re_ID dest) (rt_mapping st),
                 rt_events := rt_events st @ evs\<rparr>)
          else st\<lparr>rt_skipped := rt_skipped st + 1, rt_mapping := gm_put (re_ID release) (re_ID dest) (rt_mapping st)\<rparr>
      | None \<Rightarrow>
          (case create_release src dst repoID release of
             (Inl e, evs) \<Rightarrow> st\<lparr>rt_events := rt_events st @ evs\<rparr>
           | (Inr new, evs) \<Rightarrow> st\<lparr>rt_created := rt_created st + 1, rt_mapping := gm_put (re_ID release) new (rt_mapping st),
               rt_events := rt_events st @ evs\<rparr>))"

definition no_releases :: release_state where
  "no_releases = \<lparr>rt_created = 0, rt_updated = 0, rt_skipped = 0, rt_mapping = [], rt_events = []\<rparr>"

definition releases_sync ::
  "release_service \<Rightarrow> release_service \<Rightarrow> sync_options \<Rightarrow> string \<Rightarrow> string + release list \<Rightarrow> string + release list \<Rightarrow> string option \<times> release_state" where
  "releases_sync src dst opts repoID sourceReleases destReleases =
     (case sourceReleases of
        Inl e \<Rightarrow> (Some e, no_releases)
      | Inr srcs \<Rightarrow>
          if srcs = [] then (None, no_releases)
          else (case destReleases of
                  Inl e \<Rightarrow> (Some e, no_releases)
                | Inr dests \<Rightarrow>
                    let byTag = foldl (\<lambda>m r. gm_put (re_TagName r) r m) [] dests in
                    (None, foldl (sync_release src dst opts repoID byTag) no_releases srcs)))"


section \<open>What the releases become\<close>

lemma by_tag_keys: "(gm_get (foldl (\<lambda>m r. gm_put (re_TagName r) r m) m dests) t = None) \<longleftrightarrow> gm_get m t = None \<and> t \<notin> re_TagName ` set dests"
  by (induction dests arbitrary: m) auto

lemma by_tag_value:
  "gm_get (foldl (\<lambda>m r. gm_put (re_TagName r) r m) m dests) t = Some d \<Longrightarrow> gm_get m t = Some d \<or> d \<in> set dests \<and> re_TagName d = t"
proof (induction dests arbitrary: m)
  case (Cons r dests)
  from Cons.IH [of "gm_put (re_TagName r) r m"] Cons.prems show ?case by (cases "t = re_TagName r") auto
qed simp

text \<open>Only assets whose names the destination lacks are uploaded.\<close>

lemma upload_assets_new:
  "AssetUploaded request \<in> set (snd (upload_assets src dst repoID destID release existing assets)) \<Longrightarrow>
   ua_FileName request \<notin> set existing \<and> ua_FileName request \<in> as_Name ` set assets \<and> ua_ReleaseID request = destID"
  by (induction assets) (auto simp: Let_def split: if_splits sum.splits option.splits prod.splits)

lemma sync_release_counts:
  "rt_created (sync_release src dst opts repoID byTag st r) + rt_updated (sync_release src dst opts repoID byTag st r) +
     rt_skipped (sync_release src dst opts repoID byTag st r) \<le> Suc (rt_created st + rt_updated st + rt_skipped st)"
  by (simp add: sync_release_def split: option.splits prod.splits sum.splits)

lemma sync_release_mapping:
  "gm_get byTag (re_TagName r) = Some dest \<Longrightarrow> \<not> release_needs_update opts r dest \<Longrightarrow>
   sync_release src dst opts repoID byTag st r =
     st\<lparr>rt_skipped := rt_skipped st + 1, rt_mapping := gm_put (re_ID r) (re_ID dest) (rt_mapping st)\<rparr>"
  by (simp add: sync_release_def)

text \<open>A destination that has every release of the source unchanged gets no request, unless force is asked for.\<close>

lemma releases_sync_idle:
  assumes "releases_sync src dst opts repoID (Inr srcs) (Inr dests) = (r, st)"
    and "\<And>s. s \<in> set srcs \<Longrightarrow> \<exists>d\<in>set dests. re_TagName d = re_TagName s"
    and "\<And>s d. s \<in> set srcs \<Longrightarrow> d \<in> set dests \<Longrightarrow> re_TagName d = re_TagName s \<Longrightarrow> \<not> release_needs_update opts s d"
  shows "rt_events st = [] \<and> rt_skipped st = length srcs"
proof -
  let ?m = "foldl (\<lambda>m r. gm_put (re_TagName r) r m) [] dests"
  have hit: "\<exists>d. gm_get ?m (re_TagName s) = Some d \<and> \<not> release_needs_update opts s d" if "s \<in> set srcs" for s
  proof -
    have found: "re_TagName s \<in> re_TagName ` set dests" using assms(2) [OF that] by (metis image_eqI)
    obtain d where d: "gm_get ?m (re_TagName s) = Some d"
      using by_tag_keys [of "[]" dests "re_TagName s"] found by (cases "gm_get ?m (re_TagName s)") auto
    then show ?thesis using by_tag_value [OF d] assms(3) [OF that] by auto
  qed
  have "rt_events (foldl (sync_release src dst opts repoID ?m) st0 ss) = rt_events st0 \<and>
      rt_skipped (foldl (sync_release src dst opts repoID ?m) st0 ss) = rt_skipped st0 + length ss" if "set ss \<subseteq> set srcs" for st0 ss
    using that
  proof (induction ss arbitrary: st0)
    case (Cons s ss)
    then obtain d where "gm_get ?m (re_TagName s) = Some d" "\<not> release_needs_update opts s d" using hit [of s] by auto
    then show ?case using Cons by (simp add: sync_release_mapping)
  qed simp
  then show ?thesis using assms(1) by (auto simp: releases_sync_def no_releases_def Let_def split: if_splits)
qed

definition settings_options :: sync_options where
  "settings_options =
     \<lparr>so_From = ''github:acme'', so_To = ''gitlab:acme'', so_CreateMissing = False, so_UpdateExisting = True, so_Force = True,
      so_IncludeCode = False, so_IncludeIssues = False, so_IncludePRs = False, so_IncludeWiki = False, so_IncludeReleases = False,
      so_IncludeSettings = True, so_Match = [], so_Exclude = [], so_Parallel = 1, so_DryRun = False, so_Verbose = False\<rparr>"

definition settings_repository :: "string \<Rightarrow> string list \<Rightarrow> provider_repository" where
  "settings_repository description topics =
     \<lparr>pr_ID = [], pr_Name = ''tool'', pr_FullName = ''acme/tool'', pr_Description = description, pr_Private = False, pr_Archived = False,
      pr_CloneURL = [], pr_DefaultBranch = ''main'', pr_Topics = topics, pr_Visibility = ''public''\<rparr>"

lemma settings_sync_converges_witness:
  "build_settings_update settings_options (settings_repository ''new'' [''a''])
     (apply_update_request (the (build_settings_update settings_options (settings_repository ''new'' [''a'']) (settings_repository ''old'' [])))
       (settings_repository ''old'' [])) = None"
proof -
  have "build_settings_update settings_options (settings_repository ''new'' [''a'']) (settings_repository ''old'' []) =
      Some (the (build_settings_update settings_options (settings_repository ''new'' [''a'']) (settings_repository ''old'' [])))"
    by (simp add: build_settings_update_def settings_repository_def Let_def)
  from settings_sync_converges [OF this] show ?thesis by (simp add: settings_repository_def)
qed

end
