(* ===== verification/SyncIssues.thy ===== *)
theory SyncIssues
  imports SyncPlan GoTime
begin

text \<open>
  The syncer of issues (\<open>internal/git/sync/issues.go\<close>): the listing, the search for the issue at
  the destination, creation, update and comments. The service behind the HTTP client is a
  parameter; a syncer without a client panics at its first request.
\<close>

section \<open>Issues\<close>

record github_issue =
  gi_ID :: int
  gi_Number :: int
  gi_Title :: string
  gi_Body :: string
  gi_State :: string
  gi_HTMLURL :: string
  gi_CreatedAt :: int
  gi_UpdatedAt :: int
  gi_User :: string
  gi_Labels :: "string list"
  gi_Assignees :: "string list"
  gi_Milestone :: "string option"
  gi_PullRequest :: bool

record issue =
  iu_ID :: string
  iu_Number :: int
  iu_Title :: string
  iu_Body :: string
  iu_State :: string
  iu_Labels :: "string list"
  iu_Assignees :: "string list"
  iu_Milestone :: string
  iu_URL :: string
  iu_CreatedAt :: int
  iu_UpdatedAt :: int
  iu_Author :: string

record issue_comment =
  ic_ID :: string
  ic_Body :: string
  ic_Author :: string
  ic_CreatedAt :: int
  ic_UpdatedAt :: int

text \<open>A patch holds only the fields that change.\<close>

record issue_patch =
  ip_Title :: "string option"
  ip_Body :: "string option"
  ip_State :: "string option"
  ip_Labels :: "string list option"

record issue_service =
  iv_List :: "string \<Rightarrow> nat \<Rightarrow> string + github_issue list"
  iv_Create :: "string \<Rightarrow> string \<Rightarrow> string \<Rightarrow> string list \<Rightarrow> string + github_issue"
  iv_Patch :: "string \<Rightarrow> int \<Rightarrow> issue_patch \<Rightarrow> string option"
  iv_Comments :: "string \<Rightarrow> int \<Rightarrow> string + issue_comment list"
  iv_Comment :: "string \<Rightarrow> int \<Rightarrow> string \<Rightarrow> string option"

datatype issue_event =
    IssueCreated string string string "string list" | IssuePatched string int issue_patch | CommentCreated string int string

record issue_sync_stats =
  iz_TotalMapped :: nat
  iz_SourceIssues :: nat
  iz_CreatedIssues :: nat
  iz_UpdatedIssues :: nat
  iz_SkippedIssues :: nat

record issue_syncer =
  iy_Client :: "issue_service option"
  iy_Mapping :: "(string, string) gomap"
  iy_Stats :: issue_sync_stats

section \<open>Listing\<close>

definition issue_of_github :: "github_issue \<Rightarrow> issue" where
  "issue_of_github gh =
     \<lparr>iu_ID = show_int (gi_ID gh), iu_Number = gi_Number gh, iu_Title = gi_Title gh, iu_Body = gi_Body gh, iu_State = gi_State gh,
      iu_Labels = gi_Labels gh, iu_Assignees = gi_Assignees gh,
      iu_Milestone = (case gi_Milestone gh of None \<Rightarrow> [] | Some m \<Rightarrow> m), iu_URL = gi_HTMLURL gh,
      iu_CreatedAt = gi_CreatedAt gh, iu_UpdatedAt = gi_UpdatedAt gh, iu_Author = gi_User gh\<rparr>"

definition issues_of_page :: "github_issue list \<Rightarrow> issue list" where
  "issues_of_page ghs = map issue_of_github (filter (\<lambda>gh. \<not> gi_PullRequest gh) ghs)"

text \<open>Fuel bounds the pages; a page of less than a hundred entries is the last.\<close>

fun list_issues :: "nat \<Rightarrow> (nat \<Rightarrow> string + github_issue list) \<Rightarrow> nat \<Rightarrow> issue list \<Rightarrow> (string + issue list) option" where
  "list_issues 0 fetch page acc = None"
| "list_issues (Suc fuel) fetch page acc =
     (case fetch page of
        Inl e \<Rightarrow> Some (Inl e)
      | Inr ghs \<Rightarrow>
          if length ghs < 100 then Some (Inr (acc @ issues_of_page ghs))
          else list_issues fuel fetch (Suc page) (acc @ issues_of_page ghs))"

section \<open>Matching\<close>

definition sync_marker :: "string \<Rightarrow> string" where
  "sync_marker url = ''_Synced from '' @ url @ ''_''"

definition issues_match :: "issue \<Rightarrow> issue \<Rightarrow> bool" where
  "issues_match source existing \<longleftrightarrow>
     (iu_Title source = iu_Title existing \<and>
      (let d = time_sub (iu_CreatedAt source) (iu_CreatedAt existing)
       in (if d < 0 then wrap64 (- d) else d) < 3600 * nanosecond_second)) \<or>
     contains (iu_Body existing) (sync_marker (iu_URL source))"

definition find_existing_issue :: "issue \<Rightarrow> issue list \<Rightarrow> issue option" where
  "find_existing_issue source existing = List.find (issues_match source) existing"

section \<open>Bodies\<close>

definition newline :: char where "newline = CHR 0x0A"

definition format_clock :: "int \<Rightarrow> string" where
  "format_clock t =
     (let s = (t div nanosecond_second) mod 86400; two = (\<lambda>n. [digit_char (n div 10), digit_char n])
      in format_date t @ '' '' @ two (s div 3600) @ '':'' @ two (s div 60 mod 60) @ '':'' @ two (s mod 60))"

definition author_line :: "string \<Rightarrow> string" where
  "author_line author = ''_Original author: @'' @ author @ ''_''"

definition synced_lines :: "issue \<Rightarrow> int \<Rightarrow> string list" where
  "synced_lines issue now =
     [[], ''---'', ''_Synced from '' @ iu_URL issue @ '' on '' @ format_date now @ ''_'', author_line (iu_Author issue)]"

definition created_body :: "issue \<Rightarrow> int \<Rightarrow> string" where
  "created_body issue now = iu_Body issue @ [newline] @ join [newline] (synced_lines issue now)"

definition updated_body :: "issue \<Rightarrow> int \<Rightarrow> string" where
  "updated_body issue now = created_body issue now @ [newline] @ ''_Last updated: '' @ format_clock now @ ''_''"

definition remove_sync_marker :: "string \<Rightarrow> string" where
  "remove_sync_marker body =
     trim_space (join [newline] (filter (\<lambda>line. \<not> contains line ''_Synced from'' \<and> \<not> contains line ''---'') (split_on newline body)))"

definition slices_equal :: "string list \<Rightarrow> string list \<Rightarrow> bool" where
  "slices_equal a b \<longleftrightarrow> length a = length b \<and> list_all (\<lambda>x. x \<in> set b) a \<and> list_all (\<lambda>x. x \<in> set a) b"

definition issue_needs_update :: "issue \<Rightarrow> issue \<Rightarrow> bool" where
  "issue_needs_update existing source \<longleftrightarrow>
     iu_Title existing \<noteq> iu_Title source \<or> iu_State existing \<noteq> iu_State source \<or>
     \<not> slices_equal (iu_Labels existing) (iu_Labels source) \<or> remove_sync_marker (iu_Body existing) \<noteq> iu_Body source"

section \<open>Creation and update\<close>

definition close_patch :: issue_patch where
  "close_patch = \<lparr>ip_Title = None, ip_Body = None, ip_State = Some ''closed'', ip_Labels = None\<rparr>"

definition create_issue :: "issue_service \<Rightarrow> int \<Rightarrow> string \<Rightarrow> issue \<Rightarrow> (string + issue) \<times> issue_event list" where
  "create_issue svc now repoID issue =
     (let body = created_body issue now; made = IssueCreated repoID (iu_Title issue) body (iu_Labels issue) in
      case iv_Create svc repoID (iu_Title issue) body (iu_Labels issue) of
        Inl e \<Rightarrow> (Inl e, [made])
      | Inr gh \<Rightarrow>
          (Inr ((issue_of_github gh)\<lparr>iu_Labels := [], iu_Assignees := [], iu_Milestone := [], iu_Author := []\<rparr>),
           made # (if iu_State issue = ''closed'' then [IssuePatched repoID (gi_Number gh) close_patch] else [])))"

definition issue_update_patch :: "int \<Rightarrow> issue \<Rightarrow> issue \<Rightarrow> issue_patch" where
  "issue_update_patch now existing source =
     \<lparr>ip_Title = (if iu_Title existing \<noteq> iu_Title source then Some (iu_Title source) else None),
      ip_Body = (if remove_sync_marker (iu_Body existing) \<noteq> iu_Body source then Some (updated_body source now) else None),
      ip_State = (if iu_State existing \<noteq> iu_State source then Some (iu_State source) else None),
      ip_Labels = (if \<not> slices_equal (iu_Labels existing) (iu_Labels source) then Some (iu_Labels source) else None)\<rparr>"

text \<open>The result says whether a request was sent, beside its error.\<close>

definition update_issue :: "issue_service \<Rightarrow> int \<Rightarrow> string \<Rightarrow> issue \<Rightarrow> issue \<Rightarrow> string option \<times> issue_event list" where
  "update_issue svc now repoID existing source =
     (if \<not> issue_needs_update existing source then (None, [])
      else let patch = issue_update_patch now existing source
        in (iv_Patch svc repoID (iu_Number existing) patch, [IssuePatched repoID (iu_Number existing) patch]))"

section \<open>Comments\<close>

definition comment_exists :: "issue_comment \<Rightarrow> issue_comment list \<Rightarrow> bool" where
  "comment_exists source comments \<longleftrightarrow>
     list_ex (\<lambda>c. contains (ic_Body c) (''_Synced comment from @'' @ ic_Author source @ ''_'') \<and>
       contains (ic_Body c) (take 50 (ic_Body source))) comments"

definition issue_comment_body :: "issue_comment \<Rightarrow> string" where
  "issue_comment_body c = ic_Body c @ [newline, newline] @ ''---'' @ [newline] @
     ''_Synced comment from @'' @ ic_Author c @ '' on '' @ format_clock (ic_CreatedAt c) @ ''_''"

definition sync_issue_comments :: "issue_service \<Rightarrow> string \<Rightarrow> string \<Rightarrow> issue list \<Rightarrow> issue \<Rightarrow> issue_event list" where
  "sync_issue_comments svc src dst existing issue =
     (case find_existing_issue issue existing of
        None \<Rightarrow> []
      | Some dstIssue \<Rightarrow>
          (case iv_Comments svc src (iu_Number issue) of
             Inl _ \<Rightarrow> []
           | Inr srcComments \<Rightarrow>
               if srcComments = [] then []
               else (case iv_Comments svc dst (iu_Number dstIssue) of
                       Inl _ \<Rightarrow> []
                     | Inr dstComments \<Rightarrow>
                         map (\<lambda>c. CommentCreated dst (iu_Number dstIssue) (issue_comment_body c))
                           (filter (\<lambda>c. \<not> comment_exists c dstComments) srcComments))))"

section \<open>The run\<close>

record issue_run =
  ir_Mapping :: "(string, string) gomap"
  ir_Created :: nat
  ir_Updated :: nat
  ir_Skipped :: nat
  ir_Stats :: issue_sync_stats
  ir_Events :: "issue_event list"

definition sync_issue :: "issue_service \<Rightarrow> int \<Rightarrow> string \<Rightarrow> issue list \<Rightarrow> issue_run \<Rightarrow> issue \<Rightarrow> issue_run" where
  "sync_issue svc now repoID existing st issue =
     (case find_existing_issue issue existing of
        Some old \<Rightarrow>
          (case update_issue svc now repoID old issue of
             (Some e, evs) \<Rightarrow> st\<lparr>ir_Skipped := ir_Skipped st + 1, ir_Events := ir_Events st @ evs\<rparr>
           | (None, evs) \<Rightarrow>
               st\<lparr>ir_Updated := ir_Updated st + 1, ir_Events := ir_Events st @ evs,
                 ir_Stats := (if evs = [] then ir_Stats st
                   else (ir_Stats st)\<lparr>iz_UpdatedIssues := iz_UpdatedIssues (ir_Stats st) + 1\<rparr>)\<rparr>)
      | None \<Rightarrow>
          (case create_issue svc now repoID issue of
             (Inl e, evs) \<Rightarrow> st\<lparr>ir_Skipped := ir_Skipped st + 1, ir_Events := ir_Events st @ evs\<rparr>
           | (Inr new, evs) \<Rightarrow>
               st\<lparr>ir_Created := ir_Created st + 1, ir_Mapping := gm_put (iu_ID issue) (iu_ID new) (ir_Mapping st),
                 ir_Events := ir_Events st @ evs,
                 ir_Stats := (ir_Stats st)\<lparr>iz_CreatedIssues := iz_CreatedIssues (ir_Stats st) + 1\<rparr>\<rparr>))"

datatype issue_result = Panicked | IssuesUnlisted string | IssuesEndless | IssuesSynced issue_run

definition issues_sync ::
  "nat \<Rightarrow> int \<Rightarrow> issue_syncer \<Rightarrow> provider_repository \<Rightarrow> provider_repository \<Rightarrow> issue_result" where
  "issues_sync fuel now syncer srcRepo dstRepo =
     (case iy_Client syncer of
        None \<Rightarrow> Panicked
      | Some svc \<Rightarrow>
          let st = \<lparr>ir_Mapping = iy_Mapping syncer, ir_Created = 0, ir_Updated = 0, ir_Skipped = 0, ir_Stats = iy_Stats syncer, ir_Events = []\<rparr> in
          (case list_issues fuel (iv_List svc (pr_ID srcRepo)) 1 [] of
             None \<Rightarrow> IssuesEndless
           | Some (Inl e) \<Rightarrow> IssuesUnlisted e
           | Some (Inr srcs) \<Rightarrow>
               if srcs = [] then IssuesSynced (st\<lparr>ir_Stats := (ir_Stats st)\<lparr>iz_SourceIssues := 0\<rparr>\<rparr>)
               else (case list_issues fuel (iv_List svc (pr_ID dstRepo)) 1 [] of
                       None \<Rightarrow> IssuesEndless
                     | Some (Inl e) \<Rightarrow> IssuesUnlisted e
                     | Some (Inr existing) \<Rightarrow>
                         let st1 = st\<lparr>ir_Stats := (ir_Stats st)\<lparr>iz_SourceIssues := length existing\<rparr>\<rparr>;
                             st2 = foldl (sync_issue svc now (pr_ID dstRepo) existing) st1 srcs
                         in IssuesSynced (st2\<lparr>ir_Events := ir_Events st2 @
                              concat (map (sync_issue_comments svc (pr_FullName srcRepo) (pr_FullName dstRepo) existing) srcs)\<rparr>))))"

definition get_sync_stats :: "issue_syncer \<Rightarrow> issue_sync_stats" where
  "get_sync_stats syncer = (iy_Stats syncer)\<lparr>iz_TotalMapped := length (iy_Mapping syncer)\<rparr>"

text \<open>The syncer the engine builds has no client.\<close>

definition engine_issue_syncer :: issue_syncer where
  "engine_issue_syncer =
     \<lparr>iy_Client = None, iy_Mapping = [],
      iy_Stats = \<lparr>iz_TotalMapped = 0, iz_SourceIssues = 0, iz_CreatedIssues = 0, iz_UpdatedIssues = 0, iz_SkippedIssues = 0\<rparr>\<rparr>"


section \<open>Bodies line by line\<close>

definition line_count :: "string \<Rightarrow> string \<Rightarrow> nat" where
  "line_count l s = count_list (split_on newline s) l"

lemma line_count_append: "line_count l (s @ newline # t) = line_count l s + line_count l t"
  by (simp add: line_count_def split_on_append)

lemma line_count_single: "newline \<notin> set s \<Longrightarrow> line_count l s = (if s = l then 1 else 0)"
  by (simp add: line_count_def split_on_no_sep)

text \<open>Blanks in front of a text never hide a line that starts with another character.\<close>

lemma line_count_blank:
  assumes "is_space c" and "l \<noteq> []" and "\<not> is_space (hd l)"
  shows "line_count l (c # s) \<le> line_count l s"
proof (cases "c = newline")
  case True
  then show ?thesis using assms(2) by (auto simp: line_count_def)
next
  case False
  have "c # x \<noteq> l" for x using assms(1,3) by auto
  then show ?thesis using False by (auto simp: line_count_def split: list.splits)
qed

lemma line_count_dropWhile: "l \<noteq> [] \<Longrightarrow> \<not> is_space (hd l) \<Longrightarrow> line_count l s \<le> line_count l (dropWhile is_space s)"
  by (induction s) (auto intro: order_trans [OF line_count_blank])

lemma trim_space_left: "s \<noteq> [] \<Longrightarrow> \<not> is_space (last s) \<Longrightarrow> trim_space s = dropWhile is_space s"
proof -
  assume s: "s \<noteq> []" "\<not> is_space (last s)"
  have "dropWhile is_space s \<noteq> []" using s last_in_set by (auto simp: dropWhile_eq_Nil_conv)
  then have "\<not> is_space (last (dropWhile is_space s))" using s(2) by (metis last_appendR takeWhile_dropWhile_id)
  then have "dropWhile is_space (rev (dropWhile is_space s)) = rev (dropWhile is_space s)"
    by (metis dropWhile_eq_self_iff hd_rev)
  then show ?thesis by (simp add: trim_space_def trim_with_def)
qed

definition kept :: "string \<Rightarrow> bool" where
  "kept line \<longleftrightarrow> \<not> contains line ''_Synced from'' \<and> \<not> contains line ''---''"

lemma remove_sync_marker_last:
  assumes "kept l" and "newline \<notin> set l" and "l \<noteq> []" and "\<not> is_space (hd l)" and "\<not> is_space (last l)"
    and "split_on newline body = ls @ [l]"
  shows "count_list ls l < line_count l (remove_sync_marker body)"
proof -
  have n: "\<forall>x\<in>set (filter kept ls @ [l]). newline \<notin> set x" using assms(2,6) split_on_segment by (metis Un_iff append_is_Nil_conv filter_is_subset set_append subsetD)
  let ?j = "join [newline] (filter kept ls @ [l])"
  have r: "remove_sync_marker body = trim_space ?j"
    using assms(1) by (simp add: remove_sync_marker_def assms(6) kept_def [abs_def])
  have j: "\<exists>p. ?j = p @ l" by (cases "filter kept ls = []") (simp_all add: join_snoc)
  then have "?j \<noteq> []" "\<not> is_space (last ?j)" using assms(3,5) by auto
  then have "remove_sync_marker body = dropWhile is_space ?j" unfolding r by (rule trim_space_left)
  moreover have "count_list ls l < line_count l ?j"
  proof -
    have "count_list (filter kept ls) l = count_list ls l" using assms(1) by (induction ls) auto
    moreover have "split_on newline ?j = filter kept ls @ [l]" using n by (intro split_on_join) auto
    ultimately show ?thesis by (simp add: line_count_def count_list_append)
  qed
  ultimately show ?thesis using line_count_dropWhile [OF assms(3,4), of ?j] by simp
qed

text \<open>A login has no blank, no line break and no run of hyphens.\<close>

definition login_like :: "string \<Rightarrow> bool" where
  "login_like a \<longleftrightarrow> kept (author_line a) \<and> newline \<notin> set a \<and> CHR '' '' \<notin> set a"

lemma last_underscore: "\<not> is_space (CHR ''_'')"
  by code_simp

lemma author_line_facts:
  assumes "login_like a"
  shows "newline \<notin> set (author_line a)" "author_line a \<noteq> []" "\<not> is_space (hd (author_line a))" "\<not> is_space (last (author_line a))"
  using assms last_underscore by (auto simp: login_like_def author_line_def newline_def)

lemma digit_char_neq:
  "is_digit c \<Longrightarrow> c \<noteq> CHR ''-''" "is_digit c \<Longrightarrow> c \<noteq> newline" "is_digit c \<Longrightarrow> c \<noteq> CHR ''_''" "is_digit c \<Longrightarrow> c \<noteq> CHR '' ''"
  by (auto simp: is_digit_def newline_def)

lemma date_chars:
  obtains a b c d e f g h where "format_date t = [a, b, c, d, CHR ''-'', e, f, CHR ''-'', g, h]" "list_all is_digit [a, b, c, d, e, f, g, h]"
proof -
  obtain y m d where p: "date_of_day (t div day_length) = (y, m, d)" by (metis prod_cases3)
  show thesis by (rule that [of "digit_char (y div 1000)" "digit_char (y div 100)" "digit_char (y div 10)" "digit_char y"
        "digit_char (m div 10)" "digit_char m" "digit_char (d div 10)" "digit_char d"]) (simp_all add: format_date_def p)
qed

lemma newline_free_date: "newline \<notin> set (format_date t)"
  by (rule date_chars [of t]) (auto simp: newline_def is_digit_def)

definition updated_line :: "int \<Rightarrow> string" where
  "updated_line now = ''_Last updated: '' @ format_clock now @ ''_''"

lemma updated_line_facts:
  "kept (updated_line now)" "newline \<notin> set (updated_line now)" "updated_line now \<noteq> []"
  "\<not> is_space (hd (updated_line now))" "\<not> is_space (last (updated_line now))"
proof -
  obtain k where k: "updated_line now = ''_Last updated: '' @ format_date now @ k" and kc: "\<exists>a b c d e f. k = '' '' @ [a, b, CHR '':'', c, d, CHR '':'', e, f] @ ''_'' \<and> list_all is_digit [a, b, c, d, e, f]"
    by (auto simp: updated_line_def format_clock_def Let_def)
  then obtain a b c d e f where k2: "k = [CHR '' '', a, b, CHR '':'', c, d, CHR '':'', e, f, CHR ''_'']" and dig: "list_all is_digit [a, b, c, d, e, f]"
    by auto
  obtain a' b' c' d' e' f' g' h' where dt: "format_date now = [a', b', c', d', CHR ''-'', e', f', CHR ''-'', g', h']"
    and dig': "list_all is_digit [a', b', c', d', e', f', g', h']" by (rule date_chars [of now])
  have u: "updated_line now = ''_Last updated: '' @ [a', b', c', d', CHR ''-'', e', f', CHR ''-'', g', h', CHR '' '', a, b, CHR '':'', c, d, CHR '':'', e, f, CHR ''_'']"
    by (simp add: k k2 dt)
  note n = digit_char_neq
  show "newline \<notin> set (updated_line now)" using dig dig' n(2) by (auto simp: u newline_def is_digit_def)
  show "kept (updated_line now)" using dig dig'
    by (simp add: kept_def contains_def u sublist_Cons_right n n [THEN not_sym])
qed (auto simp: updated_line_def last_underscore)

text \<open>
  An issue whose body the syncer wrote itself, at its creation or at an update, is
  found to need an update at every later run: what is left of the body when the marker is removed
  still holds lines the source does not have.
\<close>

theorem synced_issue_needs_update:
  assumes "iu_Body existing \<in> {created_body source now, updated_body source now}"
    and "login_like (iu_Author source)" and "newline \<notin> set (iu_URL source)"
  shows "issue_needs_update existing source"
proof -
  note a = author_line_facts [OF assms(2)]
  have nl: "\<forall>x\<in>set (synced_lines source now). newline \<notin> set x"
    using a(1) assms(3) newline_free_date by (auto simp: synced_lines_def newline_def)
  have "synced_lines source now \<noteq> []" by (simp add: synced_lines_def)
  from split_on_join [OF this nl] have c: "split_on newline (created_body source now) = split_on newline (iu_Body source) @ synced_lines source now"
    by (simp add: created_body_def split_on_append)
  then have c': "split_on newline (created_body source now) = (split_on newline (iu_Body source) @ butlast (synced_lines source now)) @ [author_line (iu_Author source)]"
    by (simp add: synced_lines_def)
  have "updated_body source now = created_body source now @ newline # updated_line now" by (simp add: updated_body_def updated_line_def)
  then have u: "split_on newline (updated_body source now) = (split_on newline (iu_Body source) @ synced_lines source now) @ [updated_line now]"
    using updated_line_facts(2) by (simp add: split_on_append c split_on_no_sep)
  have k: "kept (author_line (iu_Author source))" using assms(2) by (simp add: login_like_def)
  have "remove_sync_marker (iu_Body existing) \<noteq> iu_Body source"
    using assms(1) remove_sync_marker_last [OF k a c'] remove_sync_marker_last [OF updated_line_facts u]
    by (auto simp: line_count_def count_list_append)
  then show ?thesis by (simp add: issue_needs_update_def)
qed

text \<open>
  The marker that is searched for ends behind the address, the one that is written continues
  with the date: it is never found.
\<close>

lemma line_infix:
  assumes "sublist x s" and "newline \<notin> set x" and "x \<noteq> []"
  shows "\<exists>l\<in>set (split_on newline s). sublist x l"
  using assms(1)
proof (induction s)
  case Nil
  then show ?case using assms(3) by simp
next
  case (Cons c s)
  obtain seg segs where s: "split_on newline s = seg # segs" by (meson list.exhaust split_on_not_Nil)
  have pre: "prefix y s \<Longrightarrow> newline \<notin> set y \<Longrightarrow> prefix y seg" for y
    using s
  proof (induction s arbitrary: y seg segs)
    case (Cons d s)
    then show ?case by (cases y) (auto split: if_splits list.splits)
  qed simp
  from Cons.prems consider "prefix x (c # s)" | "sublist x s" by (auto simp: sublist_Cons_right)
  then show ?case
  proof cases
    case 1
    then obtain y where y: "x = c # y" "prefix y s" using assms(3) by (cases x) auto
    then have "c \<noteq> newline" "prefix x (c # seg)" using assms(2) pre by auto
    then show ?thesis using s by (auto intro: prefix_imp_sublist)
  next
    case 2
    then obtain l where "l \<in> set (seg # segs)" "sublist x l" using Cons.IH s by auto
    then show ?thesis using s by (cases "c = newline") (auto intro: sublist_Cons_right [THEN iffD2])
  qed
qed

lemma marker_line_free:
  assumes "length day = 10" and "url = CHR ''h'' # CHR ''t'' # rest"
  shows "\<not> sublist (sync_marker url) (''_Synced from '' @ url @ '' on '' @ day @ ''_'')"
proof
  let ?L = "''_Synced from '' @ url @ '' on '' @ day @ ''_''"
  assume "sublist (sync_marker url) ?L"
  then obtain p q where L: "?L = p @ sync_marker url @ q" by (auto simp: sublist_def)
  have len: "length p \<le> 14" using arg_cong [OF L, of length] assms(1) by (simp add: sync_marker_def)
  show False
  proof (cases "p = []")
    case True
    then show False using L by (simp add: sync_marker_def)
  next
    case False
    have "?L ! length p = CHR ''_''" unfolding L by (simp add: nth_append sync_marker_def)
    moreover have "list_all (\<lambda>k. ?L ! k \<noteq> CHR ''_'') [1..<15]"
      by (simp add: assms(2) nth_Cons' upt_rec)
    moreover have "length p \<in> set [1..<15]"
      using False len by (cases p) auto
    ultimately show False unfolding list_all_iff by blast
  qed
qed

lemma sublist_of_line: "split_on newline s = p @ l # q \<Longrightarrow> sublist l s"
proof (induction s arbitrary: p l q)
  case Nil
  then show ?case by (cases p) auto
next
  case (Cons c s)
  obtain seg segs where s: "split_on newline s = seg # segs" by (meson list.exhaust split_on_not_Nil)
  have pre: "prefix seg s"
    using s
  proof (induction s arbitrary: seg segs)
    case (Cons d s)
    then show ?case by (auto split: if_splits list.splits)
  qed simp
  show ?case
  proof (cases "c = newline")
    case True
    then show ?thesis using Cons s by (cases p) (auto simp: sublist_Cons_right)
  next
    case False
    show ?thesis
    proof (cases p)
      case Nil
      then show ?thesis using False Cons.prems s pre by (auto simp: sublist_Cons_right)
    next
      case p: (Cons x p')
      then have "split_on newline s = (seg # p') @ l # q" using False Cons.prems s by auto
      from Cons.IH [OF this] show ?thesis by (simp add: sublist_Cons_right)
    qed
  qed
qed

lemma marker_author_free:
  assumes "CHR '' '' \<notin> set a"
  shows "\<not> sublist (sync_marker url) (author_line a)"
proof
  assume "sublist (sync_marker url) (author_line a)"
  then obtain p q where L: "author_line a = p @ sync_marker url @ q" by (auto simp: sublist_def)
  show False
  proof (cases "length p \<le> 18")
    case True
    have u: "author_line a ! length p = CHR ''_''" "author_line a ! Suc (length p) = CHR ''S''"
      unfolding L by (simp_all add: nth_append sync_marker_def)
    have "list_all (\<lambda>k. author_line a ! k \<noteq> CHR ''_'') [1..<19]"
      by (simp add: author_line_def nth_Cons' upt_rec)
    then have "length p \<notin> set [1..<19]" using u(1) unfolding list_all_iff by blast
    then have "length p = 0" using True by (cases p) auto
    then show False using u(2) by (simp add: author_line_def)
  next
    case False
    have "drop (length p) (author_line a) = sync_marker url @ q" unfolding L by simp
    then have "CHR '' '' \<in> set (drop (length p) (author_line a))" by (simp add: sync_marker_def)
    moreover have "set (drop (length p) (author_line a)) \<subseteq> set (drop 19 (author_line a))" using False by (intro set_drop_subset_set_drop) simp
    moreover have "drop 19 (author_line a) = a @ ''_''" by (simp add: author_line_def)
    ultimately show False using assms by auto
  qed
qed

text \<open>
  An issue that was created from its source more than an hour after the source is not
  recognised as the same issue at a later run, so that every run creates it once more.
\<close>

theorem synced_issue_unrecognised:
  assumes "iu_Body existing = created_body source now" and "iu_URL source = ''ht'' @ rest" and "newline \<notin> set rest"
    and "CHR '' '' \<notin> set (iu_Author source)" and "newline \<notin> set (iu_Author source)"
    and "\<not> contains (iu_Body source) (sync_marker (iu_URL source))"
    and "3600 * nanosecond_second \<le> iu_CreatedAt existing - iu_CreatedAt source" and "iu_CreatedAt existing - iu_CreatedAt source < 2 ^ 63"
  shows "\<not> issues_match source existing"
proof -
  let ?m = "sync_marker (iu_URL source)"
  have d: "time_sub (iu_CreatedAt source) (iu_CreatedAt existing) = iu_CreatedAt source - iu_CreatedAt existing"
    using assms(7,8) by (simp add: time_sub_def nanosecond_second_def)
  have late: "wrap64 (- time_sub (iu_CreatedAt source) (iu_CreatedAt existing)) = iu_CreatedAt existing - iu_CreatedAt source"
    unfolding d using assms(7,8) by (simp add: wrap64_id nanosecond_second_def)
  have m: "newline \<notin> set ?m" "?m \<noteq> []" using assms(2,3) by (auto simp: sync_marker_def newline_def)
  have nl: "\<forall>x\<in>set (synced_lines source now). newline \<notin> set x"
    using assms(2,3,5) newline_free_date by (auto simp: synced_lines_def newline_def author_line_def)
  have "synced_lines source now \<noteq> []" by (simp add: synced_lines_def)
  from split_on_join [OF this nl] have c: "split_on newline (iu_Body existing) = split_on newline (iu_Body source) @ synced_lines source now"
    by (simp add: assms(1) created_body_def split_on_append)
  have "\<not> contains (iu_Body existing) ?m"
  proof
    assume "contains (iu_Body existing) ?m"
    then obtain l where l: "l \<in> set (split_on newline (iu_Body existing))" "sublist ?m l"
      using line_infix [OF _ m] unfolding contains_def by blast
    have day: "length (format_date now) = 10" by (rule date_chars [of now]) simp
    from l(1) consider "l \<in> set (split_on newline (iu_Body source))" | "l = []" | "l = ''---''"
      | "l = ''_Synced from '' @ iu_URL source @ '' on '' @ format_date now @ ''_''" | "l = author_line (iu_Author source)"
      unfolding c synced_lines_def by (simp only: set_append Un_iff list.set insert_iff empty_iff) blast
    then show False
    proof cases
      case 1
      then obtain p q where "split_on newline (iu_Body source) = p @ l # q" by (meson split_list)
      then have "sublist l (iu_Body source)" using sublist_of_line by metis
      then show False using l(2) assms(6) unfolding contains_def by (metis sublist_order.order.trans)
    next
      case 2
      then show False using l(2) m(2) by simp
    next
      case 3
      have "CHR ''_'' \<in> set ?m" by (simp add: sync_marker_def)
      then show False using l(2) set_mono_sublist 3 by fastforce
    next
      case 4
      then show False using marker_line_free [OF day, of "iu_URL source" rest] assms(2) l(2) by simp
    next
      case 5
      then show False using marker_author_free [OF assms(4)] l(2) by blast
    qed
  qed
  then show ?thesis using late assms(7) d by (auto simp: issues_match_def Let_def nanosecond_second_def)
qed


section \<open>The run\<close>

lemma engine_issue_sync_panics: "issues_sync fuel now engine_issue_syncer src dst = Panicked"
  by (simp add: issues_sync_def engine_issue_syncer_def)

text \<open>Every source issue is counted once.\<close>

lemma sync_issue_counts:
  "ir_Created (foldl (sync_issue svc now repoID existing) st issues) + ir_Updated (foldl (sync_issue svc now repoID existing) st issues) +
   ir_Skipped (foldl (sync_issue svc now repoID existing) st issues) =
   ir_Created st + ir_Updated st + ir_Skipped st + length issues"
proof (induction issues arbitrary: st)
  case (Cons i issues)
  have "ir_Created (sync_issue svc now repoID existing st i) + ir_Updated (sync_issue svc now repoID existing st i) +
      ir_Skipped (sync_issue svc now repoID existing st i) = Suc (ir_Created st + ir_Updated st + ir_Skipped st)"
    by (simp add: sync_issue_def split: option.splits prod.splits sum.splits)
  then show ?case using Cons.IH by simp
qed simp

text \<open>A comment is recognised by a marker that the syncer never writes, as its own continues with the date.\<close>

lemma comment_not_recognised:
  "\<not> comment_exists \<lparr>ic_ID = ''1'', ic_Body = ''Thanks!'', ic_Author = ''ann'', ic_CreatedAt = 0, ic_UpdatedAt = 0\<rparr>
     [\<lparr>ic_ID = ''2'', ic_Body = issue_comment_body \<lparr>ic_ID = ''1'', ic_Body = ''Thanks!'', ic_Author = ''ann'', ic_CreatedAt = 0, ic_UpdatedAt = 0\<rparr>,
       ic_Author = ''bot'', ic_CreatedAt = 1, ic_UpdatedAt = 1\<rparr>]"
  by code_simp

section \<open>Witnesses\<close>

definition sample_issue :: "string \<Rightarrow> int \<Rightarrow> issue" where
  "sample_issue body created =
     \<lparr>iu_ID = ''7'', iu_Number = 7, iu_Title = ''Crash'', iu_Body = body, iu_State = ''open'', iu_Labels = [], iu_Assignees = [],
      iu_Milestone = [], iu_URL = ''https://github.com/acme/tool/issues/7'', iu_CreatedAt = created, iu_UpdatedAt = created, iu_Author = ''ann''\<rparr>"

lemma synced_issue_needs_update_witness:
  "issue_needs_update (sample_issue (created_body (sample_issue ''It crashes.'' 0) 0) 5000) (sample_issue ''It crashes.'' 0)"
proof (rule synced_issue_needs_update [of _ _ 0])
  show "login_like (iu_Author (sample_issue ''It crashes.'' 0))" by code_simp
qed (simp_all add: sample_issue_def newline_def)

lemma synced_issue_unrecognised_witness:
  "\<not> issues_match (sample_issue ''It crashes.'' 0)
    (sample_issue (created_body (sample_issue ''It crashes.'' 0) 0) (3600 * nanosecond_second))"
proof (rule synced_issue_unrecognised [of _ _ 0 "''tps://github.com/acme/tool/issues/7''"])
  show "\<not> contains (iu_Body (sample_issue ''It crashes.'' 0)) (sync_marker (iu_URL (sample_issue ''It crashes.'' 0)))" by code_simp
qed (simp_all add: sample_issue_def newline_def nanosecond_second_def)

end
