(* ===== verification/SyncTracker.thy ===== *)
theory SyncTracker
  imports GoPrelude
begin

text \<open>
  The tracker of a synchronisation (\<open>internal/git/sync/tracker.go\<close>) with the progress type of
  \<open>parallel.go\<close>. The clock is an argument; the JSON codec of the tracker files is a parameter, the
  directory a map from file names to contents. Percentages are rationals.
\<close>

section \<open>State\<close>

record sync_progress =
  sg_Total :: int
  sg_Completed :: int
  sg_Failed :: int
  sg_Progress :: rat
  sg_UpdatedAt :: int

datatype sync_status = StatusPending | StatusInProgress | StatusCompleted | StatusFailed | StatusCancelled

record sync_statistics =
  ss_TotalRepositories :: int
  ss_CompletedRepositories :: int
  ss_FailedRepositories :: int
  ss_SkippedRepositories :: int
  ss_TotalDuration :: int
  ss_AverageDuration :: int

record sync_error_entry =
  se_Repository :: string
  se_Component :: string
  se_Message :: string
  se_Timestamp :: int

record sync_tracker =
  sk_ID :: string
  sk_StartedAt :: int
  sk_CompletedAt :: "int option"
  sk_Source :: string
  sk_Destination :: string
  sk_Status :: sync_status
  sk_Progress :: "(string, sync_progress) gomap"
  sk_Statistics :: sync_statistics
  sk_Errors :: "sync_error_entry list"

definition no_statistics :: sync_statistics where
  "no_statistics =
     \<lparr>ss_TotalRepositories = 0, ss_CompletedRepositories = 0, ss_FailedRepositories = 0, ss_SkippedRepositories = 0,
      ss_TotalDuration = 0, ss_AverageDuration = 0\<rparr>"

definition no_progress :: sync_progress where
  "no_progress = \<lparr>sg_Total = 0, sg_Completed = 0, sg_Failed = 0, sg_Progress = 0, sg_UpdatedAt = 0\<rparr>"

definition new_sync_tracker :: "int \<Rightarrow> string \<Rightarrow> string \<Rightarrow> string \<Rightarrow> sync_tracker" where
  "new_sync_tracker now id1 source dest =
     \<lparr>sk_ID = id1, sk_StartedAt = now, sk_CompletedAt = None, sk_Source = source, sk_Destination = dest, sk_Status = StatusPending,
      sk_Progress = [], sk_Statistics = no_statistics, sk_Errors = []\<rparr>"

section \<open>Operations\<close>

definition progress_percent :: "sync_progress \<Rightarrow> rat" where
  "progress_percent p = (if sg_Total p = 0 then 0 else of_int (sg_Completed p + sg_Failed p) / of_int (sg_Total p) * 100)"

definition progress_update :: "int \<Rightarrow> int \<Rightarrow> sync_progress \<Rightarrow> sync_progress" where
  "progress_update completed failed p =
     (let p1 = p\<lparr>sg_Completed := completed, sg_Failed := failed\<rparr> in p1\<lparr>sg_Progress := progress_percent p1\<rparr>)"

text \<open>The zero time is a parameter of the comparison, division truncates towards zero.\<close>

definition trunc_div :: "int \<Rightarrow> int \<Rightarrow> int" where
  "trunc_div a b = sgn a * sgn b * (\<bar>a\<bar> div \<bar>b\<bar>)"

definition update_statistics :: "int \<Rightarrow> sync_tracker \<Rightarrow> sync_tracker" where
  "update_statistics now t =
     (let ps = map snd (sk_Progress t);
          completed = sum_list (map sg_Completed ps); failed = sum_list (map sg_Failed ps);
          repositories = foldl (\<lambda>m p. if m < sg_Total p then sg_Total p else m) 0 ps;
          s = (sk_Statistics t)\<lparr>ss_CompletedRepositories := completed, ss_FailedRepositories := failed,
                ss_TotalRepositories := repositories, ss_SkippedRepositories := repositories - completed - failed\<rparr>
      in t\<lparr>sk_Statistics := (if 0 < completed then s\<lparr>ss_AverageDuration := trunc_div (now - sk_StartedAt t) completed\<rparr> else s)\<rparr>)"

definition update_progress :: "int \<Rightarrow> string \<Rightarrow> int \<Rightarrow> int \<Rightarrow> sync_tracker \<Rightarrow> sync_tracker" where
  "update_progress now component completed failed t =
     (let p = (gm_at no_progress (sk_Progress t) component)\<lparr>sg_Completed := completed, sg_Failed := failed, sg_UpdatedAt := now\<rparr>
      in update_statistics now (t\<lparr>sk_Progress := gm_put component p (sk_Progress t)\<rparr>))"

definition set_status :: "int \<Rightarrow> sync_status \<Rightarrow> sync_tracker \<Rightarrow> sync_tracker" where
  "set_status now status t =
     (let t1 = t\<lparr>sk_Status := status\<rparr> in
      if status \<in> {StatusCompleted, StatusFailed, StatusCancelled} then
        t1\<lparr>sk_CompletedAt := Some now, sk_Statistics := (sk_Statistics t1)\<lparr>ss_TotalDuration := now - sk_StartedAt t1\<rparr>\<rparr>
      else t1)"

definition add_error :: "int \<Rightarrow> string \<Rightarrow> string \<Rightarrow> string \<Rightarrow> sync_tracker \<Rightarrow> sync_tracker" where
  "add_error now repository component message t =
     t\<lparr>sk_Errors := sk_Errors t @ [\<lparr>se_Repository = repository, se_Component = component, se_Message = message, se_Timestamp = now\<rparr>]\<rparr>"

definition get_overall_progress :: "sync_tracker \<Rightarrow> rat" where
  "get_overall_progress t =
     (let s = sk_Statistics t in
      if ss_TotalRepositories s = 0 then 0
      else of_int (ss_CompletedRepositories s + ss_FailedRepositories s) / of_int (ss_TotalRepositories s) * 100)"

definition is_sync_completed :: "sync_tracker \<Rightarrow> bool" where
  "is_sync_completed t \<longleftrightarrow> sk_Status t \<in> {StatusCompleted, StatusFailed, StatusCancelled}"

definition has_sync_errors :: "sync_tracker \<Rightarrow> bool" where
  "has_sync_errors t \<longleftrightarrow> sk_Errors t \<noteq> [] \<or> 0 < ss_FailedRepositories (sk_Statistics t)"

section \<open>Files\<close>

type_synonym tracker_dir = "(string, string) gomap"

definition tracker_file :: "string \<Rightarrow> string" where
  "tracker_file id1 = id1 @ ''.json''"

definition save_tracker :: "(sync_tracker \<Rightarrow> string) \<Rightarrow> sync_tracker \<Rightarrow> tracker_dir \<Rightarrow> tracker_dir" where
  "save_tracker encode t d = gm_put (tracker_file (sk_ID t)) (encode t) d"

definition load_sync_tracker :: "(string \<Rightarrow> sync_tracker option) \<Rightarrow> string \<Rightarrow> tracker_dir \<Rightarrow> sync_tracker option" where
  "load_sync_tracker decode id1 d = (case gm_get d (tracker_file id1) of None \<Rightarrow> None | Some text \<Rightarrow> decode text)"

definition delete_sync_tracker :: "string \<Rightarrow> tracker_dir \<Rightarrow> tracker_dir" where
  "delete_sync_tracker id1 d = gm_del (tracker_file id1) d"

definition list_sync_trackers :: "(string \<Rightarrow> sync_tracker option) \<Rightarrow> tracker_dir \<Rightarrow> sync_tracker list" where
  "list_sync_trackers decode d =
     List.map_filter (\<lambda>name. if suffix ''.json'' name then load_sync_tracker decode (take (length name - 5) name) d else None) (gm_keys d)"

definition cleanup_old_trackers :: "(string \<Rightarrow> sync_tracker option) \<Rightarrow> int \<Rightarrow> int \<Rightarrow> tracker_dir \<Rightarrow> tracker_dir" where
  "cleanup_old_trackers decode now maxAge d =
     foldl (\<lambda>d t. if sk_StartedAt t < now - maxAge then delete_sync_tracker (sk_ID t) d else d) d (list_sync_trackers decode d)"

section \<open>Reachable trackers\<close>

inductive tracker_step :: "sync_tracker \<Rightarrow> sync_tracker \<Rightarrow> bool" where
  progress: "tracker_step t (update_progress now component completed failed t)"
| status: "tracker_step t (set_status now s t)"
| failure: "tracker_step t (add_error now repository component message t)"

text \<open>What holds of every tracker that was made by \<open>NewSyncTracker\<close> and changed by its operations.\<close>

definition tracker_inv :: "sync_tracker \<Rightarrow> bool" where
  "tracker_inv t \<longleftrightarrow>
     gm_wf (sk_Progress t) \<and> list_all (\<lambda>p. sg_Total (snd p) = 0) (sk_Progress t) \<and> ss_TotalRepositories (sk_Statistics t) = 0 \<and>
     ss_SkippedRepositories (sk_Statistics t) = - (ss_CompletedRepositories (sk_Statistics t) + ss_FailedRepositories (sk_Statistics t)) \<and>
     ss_CompletedRepositories (sk_Statistics t) = sum_list (map (sg_Completed \<circ> snd) (sk_Progress t)) \<and>
     ss_FailedRepositories (sk_Statistics t) = sum_list (map (sg_Failed \<circ> snd) (sk_Progress t))"

lemma zero_totals: "list_all (\<lambda>p. sg_Total (snd p) = 0) ps \<Longrightarrow> foldl (\<lambda>m p. if m < sg_Total p then sg_Total p else m) 0 (map snd ps) = (0::int)"
  by (induction ps) auto

lemma tracker_inv_step:
  assumes "tracker_step t t'" and "tracker_inv t"
  shows "tracker_inv t'"
  using assms(1)
proof cases
  case (progress now component completed failed)
  let ?p = "(gm_at no_progress (sk_Progress t) component)\<lparr>sg_Completed := completed, sg_Failed := failed, sg_UpdatedAt := now\<rparr>"
  have "sg_Total (gm_at no_progress (sk_Progress t) component) = 0"
    using assms(2) gm_get_Some_in [of "sk_Progress t" component]
    by (fastforce simp: tracker_inv_def gm_at_def no_progress_def list_all_iff split: option.splits)
  then have z: "list_all (\<lambda>p. sg_Total (snd p) = 0) (gm_put component ?p (sk_Progress t))"
    using assms(2) gm_put_entries [of _ _ component ?p "sk_Progress t"] by (fastforce simp: tracker_inv_def list_all_iff)
  show ?thesis using assms(2) unfolding progress update_progress_def update_statistics_def Let_def tracker_inv_def
    by (simp add: z zero_totals comp_def)
next
  case (status now s)
  then show ?thesis using assms(2) by (simp add: set_status_def tracker_inv_def Let_def)
next
  case (failure now repository component message)
  then show ?thesis using assms(2) by (simp add: add_error_def tracker_inv_def)
qed

text \<open>
  Whatever is reported to a tracker, it shows no progress: the total of no component is
  ever set, the overall progress stays zero and the skipped repositories are minus the others.
\<close>

theorem tracker_never_progresses:
  assumes "tracker_step\<^sup>*\<^sup>* (new_sync_tracker now1 id1 source dest) t"
  shows "tracker_inv t \<and> get_overall_progress t = 0"
  using assms
proof (induction rule: rtranclp_induct)
  case base
  then show ?case by (simp add: tracker_inv_def new_sync_tracker_def no_statistics_def get_overall_progress_def)
next
  case (step t u)
  then show ?case using tracker_inv_step [OF step.hyps(2)] by (simp add: tracker_inv_def get_overall_progress_def)
qed

lemma tracker_never_progresses_witness:
  "get_overall_progress (update_progress 5 ''code'' 3 1 (new_sync_tracker 0 ''id'' ''a'' ''b'')) = 0"
proof -
  have "tracker_step\<^sup>*\<^sup>* (new_sync_tracker 0 ''id'' ''a'' ''b'') (update_progress 5 ''code'' 3 1 (new_sync_tracker 0 ''id'' ''a'' ''b''))"
    by (rule r_into_rtranclp) (rule tracker_step.progress)
  from tracker_never_progresses [OF this] show ?thesis by (rule conjunct2)
qed

text \<open>A saved tracker is loaded back if the codec is faithful, and is gone after its deletion.\<close>

lemma tracker_save_load: "decode (encode t) = Some t \<Longrightarrow> load_sync_tracker decode (sk_ID t) (save_tracker encode t d) = Some t"
  by (simp add: load_sync_tracker_def save_tracker_def)

lemma tracker_delete: "gm_wf d \<Longrightarrow> load_sync_tracker decode id1 (delete_sync_tracker id1 d) = None"
  by (simp add: load_sync_tracker_def delete_sync_tracker_def gm.get_del)

end
