(* ===== verification/GoValue.thy ===== *)
theory GoValue
  imports GoPrelude
begin

text \<open>
  Go's \<open>float64\<close> and its dynamically typed values.

  A \<open>float64\<close> is a rational that a double can hold, an infinity or not-a-number;
  \<open>round64\<close> rounds to nearest, ties to even, over the normal and the subnormal range.
  The sign of a zero is not kept: no code modelled here divides by a zero or prints one.
\<close>

section \<open>float64\<close>

datatype float64 = FNaN | FInf bool | FNum rat

function bit_length :: "int \<Rightarrow> int" where
  "bit_length n = (if n \<le> 0 then 0 else 1 + bit_length (n div 2))"
  by pat_completeness auto
termination by (relation "measure nat") auto

declare bit_length.simps [simp del]

function power_of_two :: "int \<Rightarrow> int" where
  "power_of_two e =
     (if e \<le> 0 then 1
      else let h = power_of_two (e div 2) in if even e then h * h else 2 * (h * h))"
  by pat_completeness auto
termination by (relation "measure nat") auto

declare power_of_two.simps [simp del]

lemma power_of_two_eq: "power_of_two e = 2 ^ nat e"
proof (induction e rule: power_of_two.induct)
  case (1 e)
  show ?case
  proof (cases "e \<le> 0")
    case True
    then show ?thesis by (simp add: power_of_two.simps [of e])
  next
    case False
    then have ih: "power_of_two (e div 2) = 2 ^ nat (e div 2)" by (rule 1)
    have "nat e = nat (e div 2) + nat (e div 2) + (if even e then 0 else 1)"
      using False by (auto elim!: evenE oddE)
    then show ?thesis using False ih
      by (simp add: power_of_two.simps [of e] Let_def power_add)
  qed
qed

definition pow2 :: "int \<Rightarrow> rat" where
  "pow2 e = (if 0 \<le> e then of_int (power_of_two e) else 1 / of_int (power_of_two (- e)))"

text \<open>The exponent \<open>e\<close> with \<open>2 ^ e \<le> q < 2 ^ (e + 1)\<close>.\<close>

definition binade :: "rat \<Rightarrow> int" where
  "binade q =
     (let (n, d) = quotient_of q;
          k = bit_length n - bit_length d
      in if pow2 k \<le> q then k else k - 1)"

definition half_even :: "rat \<Rightarrow> int" where
  "half_even x =
     (let fl = \<lfloor>x\<rfloor>; r = x - of_int fl
      in if r < 1 / 2 then fl else if 1 / 2 < r then fl + 1 else if even fl then fl else fl + 1)"

definition round_magnitude :: "rat \<Rightarrow> rat" where
  "round_magnitude q = (let ulp = pow2 (max (binade q - 52) (- 1074)) in of_int (half_even (q / ulp)) * ulp)"

definition round64 :: "rat \<Rightarrow> float64" where
  "round64 q =
     (if q = 0 then FNum 0
      else let m = round_magnitude \<bar>q\<bar>
        in if 1024 \<le> binade m then FInf (q < 0) else FNum (if q < 0 then - m else m))"

definition float_of_int :: "int \<Rightarrow> float64" where
  "float_of_int i = round64 (of_int i)"

text \<open>Integers of less than 54 bits are converted exactly.\<close>

lemma bit_length_pos: "0 < n \<Longrightarrow> 0 < bit_length n"
proof (induction n rule: bit_length.induct)
  case (1 n)
  then show ?case by (cases "n div 2 \<le> 0") (auto simp: bit_length.simps [of n] bit_length.simps [of "n div 2"] bit_length.simps [of 0])
qed

lemma bit_length_bounds: "0 < n \<Longrightarrow> 2 ^ nat (bit_length n - 1) \<le> n \<and> n < 2 ^ nat (bit_length n)"
proof (induction n rule: bit_length.induct)
  case (1 n)
  show ?case
  proof (cases "n div 2 \<le> 0")
    case True
    then have "n = 1" using 1 by auto
    then show ?thesis by (simp add: bit_length.simps [of 1] bit_length.simps [of 0])
  next
    case False
    define b where "b = bit_length (n div 2)"
    have b: "0 < b" using False by (simp add: b_def bit_length_pos)
    have n: "bit_length n = 1 + b" using 1 by (simp add: bit_length.simps [of n] b_def)
    have "2 ^ nat (b - 1) \<le> n div 2 \<and> n div 2 < 2 ^ nat b"
      using 1 False by (simp add: b_def)
    moreover have "(2 :: int) ^ nat b = 2 * 2 ^ nat (b - 1)" and "(2 :: int) ^ nat (1 + b) = 2 * 2 ^ nat b"
      using b by (simp_all add: nat_diff_distrib nat_add_distrib flip: power_Suc)
    ultimately show ?thesis using div_mult_mod_eq [of n 2] pos_mod_bound [of 2 n] pos_mod_sign [of 2 n]
      unfolding n by auto
  qed
qed

lemma half_even_int [simp]: "half_even (of_int i) = i"
  by (simp add: half_even_def)

lemma round_magnitude_int:
  assumes "0 < i" and "i < 2 ^ 53"
  shows "round_magnitude (of_int i) = of_int i" "binade (of_int i) < 53"
proof -
  define b where "b = bit_length i"
  have b: "0 < b" "2 ^ nat (b - 1) \<le> i" using assms(1) bit_length_pos bit_length_bounds by (auto simp: b_def)
  have "quotient_of (of_int i) = (i, 1)" by (simp add: quotient_of_int)
  moreover have "pow2 (b - 1) \<le> of_int i" using b by (simp add: pow2_def power_of_two_eq)
  moreover have "bit_length 1 = 1" by (simp add: bit_length.simps [of 1] bit_length.simps [of 0])
  ultimately have bin: "binade (of_int i) = b - 1" by (simp add: binade_def b_def)
  have "(2 :: int) ^ nat (b - 1) < 2 ^ 53" using b assms(2) by linarith
  then have "nat (b - 1) < 53" by (rule power_less_imp_less_exp [rotated]) simp
  then show d: "binade (of_int i) < 53" using bin by simp
  define e where "e = nat (- max (b - 1 - 52) (- 1074))"
  have "pow2 (max (b - 1 - 52) (- 1074)) = 1 / of_int (2 ^ e)"
    using d bin unfolding pow2_def power_of_two_eq e_def by (auto simp: max_def)
  moreover have "of_int i * (of_int (2 ^ e) :: rat) = of_int (i * 2 ^ e)" by simp
  ultimately show "round_magnitude (of_int i) = of_int i"
    unfolding round_magnitude_def Let_def bin using half_even_int [of "i * 2 ^ e"] by (simp del: half_even_int)
qed

lemma float_of_int_exact:
  assumes "\<bar>i\<bar> < 2 ^ 53"
  shows "float_of_int i = FNum (of_int i)"
proof (cases "i = 0")
  case False
  have a: "\<bar>of_int i :: rat\<bar> = of_int \<bar>i\<bar>" by simp
  show ?thesis
    using round_magnitude_int [of "\<bar>i\<bar>"] False assms unfolding float_of_int_def round64_def a by (auto simp: Let_def)
qed (simp add: float_of_int_def round64_def)

text \<open>The exponent is right, and rounding stays below an integer bound of less than 54 bits.\<close>

lemma pow2_power: "pow2 e = (if 0 \<le> e then 2 ^ nat e else 1 / 2 ^ nat (- e))"
  by (simp add: pow2_def power_of_two_eq)

lemma pow2_pos [simp]: "0 < pow2 e"
  by (simp add: pow2_power)

lemma pow2_diff: "0 \<le> a \<Longrightarrow> 0 \<le> b \<Longrightarrow> pow2 (a - b) = 2 ^ nat a / 2 ^ nat b"
  by (simp add: pow2_power nat_diff_distrib power_diff flip: power_add)

lemma binade_le:
  assumes "0 < q"
  shows "pow2 (binade q) \<le> q"
proof -
  obtain n d where nd: "quotient_of q = (n, d)" by fastforce
  have d: "0 < d" using quotient_of_denom_pos [OF nd] .
  have q: "q = of_int n / of_int d" using quotient_of_div [OF nd] .
  then have n: "0 < n" using assms d by (simp add: zero_less_divide_iff)
  define a b where "a = bit_length n" and "b = bit_length d"
  have ab: "0 < a" "0 < b" using n d by (simp_all add: a_def b_def bit_length_pos)
  have "2 ^ nat (a - 1) \<le> n" "d < 2 ^ nat b" using bit_length_bounds n d by (simp_all add: a_def b_def)
  then have "(2 ^ nat (a - 1) :: rat) \<le> of_int n" "of_int d \<le> (2 ^ nat b :: rat)"
    by (metis of_int_le_iff of_int_numeral of_int_power, metis less_imp_le of_int_le_iff of_int_numeral of_int_power)
  then have "2 ^ nat (a - 1) / 2 ^ nat b \<le> of_int n / (of_int d :: rat)"
    using d n by (intro frac_le) auto
  then have "pow2 (a - 1 - b) \<le> q" using ab q pow2_diff [of "a - 1" b] by simp
  then show ?thesis unfolding binade_def nd by (auto simp: Let_def a_def b_def algebra_simps)
qed

lemma half_even_le: "x \<le> of_int n \<Longrightarrow> half_even x \<le> n"
proof (cases "x = of_int n")
  case False
  assume "x \<le> of_int n"
  then have "x < of_int n" using False by simp
  then have "\<lfloor>x\<rfloor> < n" by (simp add: floor_less_iff)
  then show ?thesis by (auto simp: half_even_def Let_def)
qed simp

lemma half_even_nonneg: "0 \<le> x \<Longrightarrow> 0 \<le> half_even x"
  by (auto simp: half_even_def Let_def)

lemma round_magnitude_le:
  assumes "0 < q" and "q \<le> of_int n" and "n < 2 ^ 53"
  shows "round_magnitude q \<le> of_int n" "0 \<le> round_magnitude q"
proof -
  have "pow2 (binade q) < 2 ^ 53"
    using binade_le [OF assms(1)] assms(2,3) of_int_less_iff [of n "2 ^ 53", where 'a = rat] by simp
  have b: "binade q < 53"
  proof (rule ccontr)
    assume "\<not> binade q < 53"
    then have "(2 :: rat) ^ 53 \<le> pow2 (binade q)"
      using power_increasing [of 53 "nat (binade q)" "2 :: rat"] by (simp add: pow2_power)
    then show False using \<open>pow2 (binade q) < 2 ^ 53\<close> by simp
  qed
  define k where "k = nat (- max (binade q - 52) (- 1074))"
  have u: "pow2 (max (binade q - 52) (- 1074)) = 1 / 2 ^ k"
    using b unfolding pow2_power k_def by (auto simp: max_def)
  have "q / (1 / 2 ^ k) \<le> of_int (n * 2 ^ k)" using assms(2) by (simp add: mult_right_mono)
  then have h: "half_even (q / (1 / 2 ^ k)) \<le> n * 2 ^ k" by (rule half_even_le)
  have r: "round_magnitude q = of_int (half_even (q / (1 / 2 ^ k))) / 2 ^ k"
    unfolding round_magnitude_def Let_def u by simp
  have "(of_int (half_even (q / (1 / 2 ^ k))) :: rat) \<le> of_int (n * 2 ^ k)" using h by (simp only: of_int_le_iff)
  then show "round_magnitude q \<le> of_int n" unfolding r by (simp add: divide_le_eq)
  have "0 \<le> q / (1 / 2 ^ k)" using assms(1) by simp
  then show "0 \<le> round_magnitude q" unfolding r using half_even_nonneg by simp
qed

lemma round64_bounded:
  assumes "0 \<le> q" and "q \<le> of_int n" and "n < 2 ^ 53"
  shows "\<exists>r. round64 q = FNum r \<and> 0 \<le> r \<and> r \<le> of_int n"
proof (cases "q = 0")
  case False
  then have q: "0 < q" using assms(1) by simp
  note m = round_magnitude_le [OF q assms(2,3)]
  have "\<not> 1024 \<le> binade (round_magnitude q)"
  proof
    assume big: "1024 \<le> binade (round_magnitude q)"
    show False
    proof (cases "round_magnitude q = 0")
      case True
      have "binade 0 = bit_length 0 - bit_length 1 \<or> binade 0 = bit_length 0 - bit_length 1 - 1"
        by (simp add: binade_def Let_def)
      then show False using big True by (auto simp: bit_length.simps [of 0] bit_length.simps [of 1])
    next
      case False
      then have "pow2 (binade (round_magnitude q)) \<le> of_int n" using m binade_le [of "round_magnitude q"] by linarith
      moreover have "(2 :: rat) ^ 1024 \<le> pow2 (binade (round_magnitude q))"
        using big power_increasing [of 1024 "nat (binade (round_magnitude q))" "2 :: rat"] by (simp add: pow2_power)
      moreover have "(of_int n :: rat) < 2 ^ 53" using assms(3) of_int_less_iff [of n "2 ^ 53", where 'a = rat] by simp
      moreover have "(2 :: rat) ^ 53 \<le> 2 ^ 1024" by (rule power_increasing) auto
      ultimately show False by linarith
    qed
  qed
  then show ?thesis using q m by (simp add: round64_def Let_def)
qed (use assms in \<open>simp add: round64_def\<close>)

lemma round64_nonpos: "q \<le> 0 \<Longrightarrow> round64 q = FInf True \<or> (\<exists>r\<le>0. round64 q = FNum r)"
proof (cases "q = 0")
  case False
  assume "q \<le> 0"
  then have "0 \<le> round_magnitude \<bar>q\<bar>"
    unfolding round_magnitude_def Let_def
    by (intro mult_nonneg_nonneg of_int_0_le_iff [THEN iffD2] half_even_nonneg divide_nonneg_nonneg less_imp_le [OF pow2_pos]) auto
  then show ?thesis using False \<open>q \<le> 0\<close> by (auto simp: round64_def Let_def)
qed (simp add: round64_def)

text \<open>Comparison: not-a-number is neither less than, greater than nor equal to anything.\<close>

fun flt :: "float64 \<Rightarrow> float64 \<Rightarrow> bool" where
  "flt (FNum x) (FNum y) \<longleftrightarrow> x < y"
| "flt (FInf s) (FNum y) \<longleftrightarrow> s"
| "flt (FNum x) (FInf s) \<longleftrightarrow> \<not> s"
| "flt (FInf s) (FInf t) \<longleftrightarrow> s \<and> \<not> t"
| "flt FNaN _ \<longleftrightarrow> False"
| "flt _ FNaN \<longleftrightarrow> False"

definition feq :: "float64 \<Rightarrow> float64 \<Rightarrow> bool" where
  "feq x y \<longleftrightarrow> x \<noteq> FNaN \<and> x = y"

definition fle :: "float64 \<Rightarrow> float64 \<Rightarrow> bool" where
  "fle x y \<longleftrightarrow> flt x y \<or> feq x y"

lemma flt_irrefl [simp]: "\<not> flt x x"
  by (cases x) auto

lemma flt_trans: "flt x y \<Longrightarrow> flt y z \<Longrightarrow> flt x z"
  by (cases x; cases y; cases z) auto

lemma feq_refl_iff [simp]: "feq x x \<longleftrightarrow> x \<noteq> FNaN"
  by (simp add: feq_def)

lemma fle_trans: "fle x y \<Longrightarrow> fle y z \<Longrightarrow> fle x z"
  by (auto simp: fle_def feq_def intro: flt_trans)

lemma float_trichotomy: "x \<noteq> FNaN \<Longrightarrow> y \<noteq> FNaN \<Longrightarrow> flt x y \<or> feq x y \<or> flt y x"
  by (cases x; cases y) (auto simp: feq_def)

lemma fle_or_flt: "x \<noteq> FNaN \<Longrightarrow> y \<noteq> FNaN \<Longrightarrow> \<not> fle x y \<longleftrightarrow> flt y x"
  by (cases x; cases y) (auto simp: fle_def feq_def)

lemma flt_nan [simp]: "\<not> flt FNaN x" "\<not> flt x FNaN" "\<not> fle FNaN x" "\<not> fle x FNaN"
  by (cases x; simp add: fle_def feq_def)+

text \<open>Arithmetic on finite operands; the sum and quotient round the exact result.\<close>

fun fadd :: "float64 \<Rightarrow> float64 \<Rightarrow> float64" where
  "fadd (FNum x) (FNum y) = round64 (x + y)"
| "fadd FNaN _ = FNaN"
| "fadd _ FNaN = FNaN"
| "fadd (FInf s) (FInf t) = (if s = t then FInf s else FNaN)"
| "fadd (FInf s) (FNum _) = FInf s"
| "fadd (FNum _) (FInf s) = FInf s"

text \<open>Multiplication by and division by a finite number that is not zero.\<close>

fun fmul_const :: "float64 \<Rightarrow> rat \<Rightarrow> float64" where
  "fmul_const (FNum x) c = round64 (x * c)"
| "fmul_const (FInf s) c = FInf (s \<noteq> (c < 0))"
| "fmul_const FNaN c = FNaN"

fun fdiv_const :: "float64 \<Rightarrow> rat \<Rightarrow> float64" where
  "fdiv_const (FNum x) c = round64 (x / c)"
| "fdiv_const (FInf s) c = FInf (s \<noteq> (c < 0))"
| "fdiv_const FNaN c = FNaN"

fun fdiv :: "float64 \<Rightarrow> float64 \<Rightarrow> float64" where
  "fdiv (FNum x) (FNum y) = (if y = 0 then (if x = 0 then FNaN else FInf (x < 0)) else round64 (x / y))"
| "fdiv FNaN _ = FNaN"
| "fdiv _ FNaN = FNaN"
| "fdiv (FInf s) (FInf t) = FNaN"
| "fdiv (FInf s) (FNum y) = FInf (s \<noteq> (y < 0))"
| "fdiv (FNum x) (FInf t) = FNum 0"

text \<open>\<open>Duration.Hours\<close>: whole hours and the remaining nanoseconds, converted separately. The
  division of Go truncates towards zero.\<close>

definition duration_hours :: "int \<Rightarrow> float64" where
  "duration_hours d =
     (let h = 3600 * 10 ^ 9; q = sgn d * (\<bar>d\<bar> div h); r = sgn d * (\<bar>d\<bar> mod h)
      in fadd (float_of_int q) (fdiv_const (float_of_int r) (of_int h)))"

section \<open>Values of type any\<close>

text \<open>What a JSON or YAML decoder stores, and the Go \<open>int\<close> a caller may put there.\<close>

datatype go_any =
    JNil
  | JBool bool
  | JInt int
  | JFloat float64
  | JString string
  | JList "go_any list"
  | JMap "(string \<times> go_any) list"

definition strings_value :: "string list \<Rightarrow> go_any" where
  "strings_value ss = JList (map JString ss)"

end
