(* ===== verification/SecurityTypes.thy ===== *)
theory SecurityTypes
  imports GoValue
begin

text \<open>
  The data of the security update policies, \<open>pkg/github/security_update_policy.go\<close>: one record
  per struct, with its fields in the order of the code.

  The enumerations of the file are Go strings, and a decoded policy may hold any string; they
  stay strings here. A slice is a list (nil and empty are not told apart by this code), a map a
  Go map, a pointer an option, and \<open>any\<close> is \<open>go_any\<close>. The maps of a manager and its
  database hold non-nil pointers, since only the manager stores into them.
\<close>

section \<open>Enumerations\<close>

text \<open>The values the code names.\<close>

definition vulnerability_severities :: "string list" where
  "vulnerability_severities = [''critical'', ''high'', ''medium'', ''low'', ''info'']"

definition condition_types :: "string list" where
  "condition_types =
     [''severity'', ''package'', ''version'', ''cvss'', ''age'', ''repository'', ''ecosystem'']"

definition exclusion_types :: "string list" where
  "exclusion_types = [''cve'', ''package'', ''repository'', ''pattern'']"

definition update_statuses :: "string list" where
  "update_statuses =
     [''pending'', ''reviewing'', ''approved'', ''rejected'', ''testing'', ''deploying'', ''completed'', ''failed'', ''cancelled'']"

section \<open>Structs\<close>

record approval_condition =
  ac_Type :: string
  ac_Field :: string
  ac_Operator :: string
  ac_Value :: go_any
  ac_Negated :: bool

record auto_approval_action =
  aaa_Type :: string
  aaa_Parameters :: "(string, string) gomap"
  aaa_DelayAfter :: int

record auto_approval_rule =
  aar_ID :: string
  aar_Name :: string
  aar_Enabled :: bool
  aar_Conditions :: "approval_condition list"
  aar_Actions :: "auto_approval_action list"
  aar_MaxSeverity :: string
  aar_RequiredChecks :: "string list"
  aar_TestingRequired :: bool
  aar_MinTestCoverage :: float64
  aar_BusinessHoursOnly :: bool
  aar_CooldownPeriod :: int

record severity_threshold =
  sth_AutoApprove :: bool
  sth_RequireManualReview :: bool
  sth_MaxResponseTime :: int
  sth_RequiredApprovers :: int
  sth_NotifyImmediately :: bool
  sth_EscalateAfter :: int
  sth_BusinessImpactAnalysis :: bool

record severity_threshold_config =
  stc_Critical :: severity_threshold
  stc_High :: severity_threshold
  stc_Medium :: severity_threshold
  stc_Low :: severity_threshold

record business_hours =
  bh_Timezone :: string
  bh_StartTime :: int
  bh_EndTime :: int
  bh_Weekdays :: "string list"
  bh_Holidays :: "string list"

record response_time_config =
  rtc_CriticalVulnerabilities :: int
  rtc_HighVulnerabilities :: int
  rtc_MediumVulnerabilities :: int
  rtc_LowVulnerabilities :: int
  rtc_BusinessHours :: business_hours

record rate_limit_config =
  rlc_MaxPerHour :: int
  rlc_MaxPerDay :: int
  rlc_BurstLimit :: int
  rlc_ResetPeriod :: int

record notification_channel =
  nch_Type :: string
  nch_Target :: string
  nch_Enabled :: bool
  nch_Severities :: "string list"
  nch_Format :: string
  nch_RateLimit :: "rate_limit_config option"

record escalation_target =
  etg_Level :: int
  etg_Users :: "string list"
  etg_Teams :: "string list"
  etg_External :: "string list"

record notification_config =
  ncf_Enabled :: bool
  ncf_Channels :: "notification_channel list"
  ncf_Templates :: "(string, string) gomap"
  ncf_EscalationTargets :: "escalation_target list"
  ncf_SummaryFrequency :: string

record vulnerability_exclusion =
  ve_ID :: string
  ve_Type :: string
  ve_Pattern :: string
  ve_Reason :: string
  ve_ExpiresAt :: "int option"
  ve_Approver :: string
  ve_CreatedAt :: int

record escalation_condition =
  esc_Type :: string
  esc_Operator :: string
  esc_Value :: go_any

record escalation_action =
  eact_Type :: string
  eact_Target :: string
  eact_Parameters :: "(string, string) gomap"

record escalation_rule =
  erl_ID :: string
  erl_Name :: string
  erl_Enabled :: bool
  erl_TriggerAfter :: int
  erl_Conditions :: "escalation_condition list"
  erl_Actions :: "escalation_action list"
  erl_MaxEscalations :: int

record requirement =
  rqm_ID :: string
  rqm_Description :: string
  rqm_Mandatory :: bool

record compliance_framework =
  cf_Name :: string
  cf_Version :: string
  cf_Requirements :: "requirement list"

record compliance_config =
  cc_Frameworks :: "compliance_framework list"
  cc_AuditTrailRequired :: bool
  cc_DocumentationRequired :: bool
  cc_ApprovalEvidence :: bool
  cc_RetentionPeriod :: int

record cvss_score =
  cv_Version :: string
  cv_Score :: float64
  cv_Vector :: string
  cv_Severity :: string
  cv_BaseScore :: float64
  cv_ImpactScore :: float64

record package_info =
  pki_Name :: string
  pki_Ecosystem :: string
  pki_Type :: string
  pki_Namespace :: string

record version_range =
  vrg_Introduced :: string
  vrg_Fixed :: string
  vrg_LastAffected :: string

record reference =
  rfr_Type :: string
  rfr_URL :: string

record product_info =
  prd_Name :: string
  prd_Versions :: "string list"

record vendor_info =
  vnd_Name :: string
  vnd_Products :: "product_info list"

record cve_timeline =
  cvt_Published :: int
  cvt_Modified :: int
  cvt_Reserved :: "int option"
  cvt_Rejected :: "int option"

record vulnerability_record =
  vul_ID :: string
  vul_CVE :: string
  vul_Title :: string
  vul_Description :: string
  vul_Severity :: string
  vul_CVSS :: cvss_score
  vul_Package :: package_info
  vul_AffectedVersions :: "version_range list"
  vul_PatchedVersions :: "string list"
  vul_References :: "reference list"
  vul_PublishedAt :: int
  vul_UpdatedAt :: int
  vul_WithdrawnAt :: "int option"
  vul_Metadata :: "(string, go_any) gomap"

record cve_record =
  cve_ID :: string
  cve_Description :: string
  cve_CVSS :: cvss_score
  cve_References :: "reference list"
  cve_Vendors :: "vendor_info list"
  cve_Products :: "product_info list"
  cve_Timeline :: cve_timeline
  cve_Metadata :: "(string, go_any) gomap"

record vulnerability_database =
  vd_vulnerabilities :: "(string, vulnerability_record) gomap"
  vd_cveCache :: "(string, cve_record) gomap"
  vd_lastUpdated :: int

record review_note =
  rvn_Author :: string
  rvn_Content :: string
  rvn_Type :: string
  rvn_Timestamp :: int

record test_results =
  tres_Passed :: bool
  tres_TestSuite :: string
  tres_Coverage :: float64
  tres_Duration :: int
  tres_FailedTests :: "string list"
  tres_ExecutedAt :: int

record risk_factor =
  rfa_Type :: string
  rfa_Description :: string
  rfa_Impact :: string
  rfa_Likelihood :: string

record mitigation_strategy =
  mst_Type :: string
  mst_Description :: string
  mst_Effort :: string
  mst_Effectiveness :: string

record risk_assessment =
  ras_OverallRisk :: string
  ras_BusinessImpact :: string
  ras_TechnicalRisk :: string
  ras_Factors :: "risk_factor list"
  ras_Mitigation :: "mitigation_strategy list"
  ras_Assessor :: string
  ras_AssessedAt :: int

record security_update_status =
  sus_UpdateID :: string
  sus_VulnerabilityID :: string
  sus_Repository :: string
  sus_Organization :: string
  sus_Package :: package_info
  sus_CurrentVersion :: string
  sus_TargetVersion :: string
  sus_Status :: string
  sus_Priority :: string
  sus_AutoApproved :: bool
  sus_ApprovalReason :: string
  sus_CreatedAt :: int
  sus_UpdatedAt :: int
  sus_DeadlineAt :: "int option"
  sus_CompletedAt :: "int option"
  sus_ApprovedBy :: "string list"
  sus_ReviewNotes :: "review_note list"
  sus_TestResults :: "test_results option"
  sus_RiskAssessment :: "risk_assessment option"

record security_update_policy =
  sup_ID :: string
  sup_Name :: string
  sup_Organization :: string
  sup_Description :: string
  sup_Enabled :: bool
  sup_AutoApprovalRules :: "auto_approval_rule list"
  sup_SeverityThresholds :: severity_threshold_config
  sup_ResponseTimeRequirements :: response_time_config
  sup_NotificationSettings :: notification_config
  sup_ExclusionRules :: "vulnerability_exclusion list"
  sup_EscalationRules :: "escalation_rule list"
  sup_ComplianceSettings :: compliance_config
  sup_CreatedAt :: int
  sup_UpdatedAt :: int
  sup_Version :: int

record security_update_decision =
  sud_Approved :: bool
  sud_Reason :: string
  sud_RuleID :: string
  sud_Actions :: "auto_approval_action list"
  sud_RequiresTest :: bool
  sud_Conditions :: "string list"

record security_update_process_result =
  supr_Organization :: string
  supr_TotalUpdates :: int
  supr_ApprovedUpdates :: int
  supr_PendingReview :: int
  supr_FailedUpdates :: int
  supr_Updates :: "security_update_status list"
  supr_StartedAt :: int
  supr_CompletedAt :: int
  supr_ProcessingTime :: int

record security_policy_manager =
  spm_policies :: "(string, security_update_policy) gomap"
  spm_vulnerabilityDB :: vulnerability_database

end
