(* ===== verification/PolicyStore.thy ===== *)
theory PolicyStore
  imports GoValue
begin

text \<open>
  The contract the policy managers of \<open>pkg/github\<close> share: a policy that validates is stamped and
  stored under its identifier, one that does not leaves the manager as it is. The clients'
  lemmas are proved here once; each manager interprets the locale on its own operations.
\<close>

locale policy_store =
  fixes lookup :: "'m \<Rightarrow> string \<Rightarrow> 'p option"
    and ident :: "'p \<Rightarrow> string"
    and problem :: "'p \<Rightarrow> 'x option"
    and stamp :: "int \<Rightarrow> 'p \<Rightarrow> 'p"
    and create :: "int \<Rightarrow> 'p \<Rightarrow> 'm \<Rightarrow> 'e option \<times> 'm"
  assumes create_rejects: "problem p \<noteq> None \<Longrightarrow> fst (create now p m) \<noteq> None \<and> snd (create now p m) = m"
    and create_accepts: "problem p = None \<Longrightarrow> fst (create now p m) = None"
    and lookup_create: "problem p = None \<Longrightarrow>
      lookup (snd (create now p m)) k = (if k = ident p then Some (stamp now p) else lookup m k)"
    and stamp_ident: "ident (stamp now p) = ident p"
    and stamp_problem: "problem (stamp now p) = problem p"
begin

lemma create_error_iff: "fst (create now p m) = None \<longleftrightarrow> problem p = None"
  using create_rejects create_accepts by blast

text \<open>Every stored policy validates and is stored under its own identifier.\<close>

lemma create_sound:
  assumes "\<And>k q. lookup m k = Some q \<Longrightarrow> ident q = k \<and> problem q = None"
    and "lookup (snd (create now p m)) k = Some q"
  shows "ident q = k \<and> problem q = None"
proof (cases "problem p = None")
  case True
  then show ?thesis using assms by (auto simp: lookup_create stamp_ident stamp_problem split: if_splits)
next
  case False
  then show ?thesis using assms create_rejects by auto
qed

lemma creates_sound:
  assumes "\<And>k q. lookup m k = Some q \<Longrightarrow> ident q = k \<and> problem q = None"
    and "lookup (foldl (\<lambda>m (now, p). snd (create now p m)) m ps) k = Some q"
  shows "ident q = k \<and> problem q = None"
  using assms
proof (induction ps arbitrary: m)
  case (Cons np ps)
  obtain now p where np: "np = (now, p)" by (cases np)
  show ?case
  proof (rule Cons.IH [of "snd (create now p m)"])
    show "\<And>k q. lookup (snd (create now p m)) k = Some q \<Longrightarrow> ident q = k \<and> problem q = None"
      using create_sound [OF Cons.prems(1)] by blast
    show "lookup (foldl (\<lambda>m (now, p). snd (create now p m)) (snd (create now p m)) ps) k = Some q"
      using Cons.prems(2) np by simp
  qed
qed simp

text \<open>A later policy with the same identifier replaces the earlier one, others are kept.\<close>

lemma create_replaces:
  "problem p = None \<Longrightarrow> problem q = None \<Longrightarrow> ident p = ident q \<Longrightarrow>
   lookup (snd (create t q (snd (create s p m)))) k = lookup (snd (create t q m)) k"
  by (simp add: lookup_create)

lemma create_commutes:
  "problem p = None \<Longrightarrow> problem q = None \<Longrightarrow> ident p \<noteq> ident q \<Longrightarrow>
   lookup (snd (create t q (snd (create s p m)))) k = lookup (snd (create s p (snd (create t q m)))) k"
  by (simp add: lookup_create)

end

end
