(* ===== verification/SecurityPolicy.thy ===== *)
theory SecurityPolicy
  imports SecurityTypes PolicyStore
begin

text \<open>
  Evaluation of security updates, \<open>pkg/github/security_update_policy.go\<close>.

  The manager's policies and vulnerability cache are passed and returned. \<open>now\<close> is the clock,
  read once per operation. An operation that panics (the slice expression of
  \<open>getVulnerabilityInfo\<close> on an identifier of less than four bytes) is \<open>None\<close>.
\<close>

section \<open>Conditions\<close>

definition severity_order :: "(string, int) gomap" where
  "severity_order = [(''info'', 0), (''low'', 1), (''medium'', 2), (''high'', 3), (''critical'', 4)]"

definition severity_exceeds :: "string \<Rightarrow> string \<Rightarrow> bool" where
  "severity_exceeds actual maximum \<longleftrightarrow> gm_at 0 severity_order maximum < gm_at 0 severity_order actual"

definition compare_severity :: "string \<Rightarrow> string \<Rightarrow> go_any \<Rightarrow> bool" where
  "compare_severity actual operator expected =
     (case expected of
        JString e \<Rightarrow>
          if operator = ''eq'' then actual = e
          else if operator = ''lte'' then \<not> severity_exceeds actual e
          else if operator = ''gte'' then severity_exceeds actual e \<or> actual = e
          else False
      | _ \<Rightarrow> False)"

definition compare_string :: "string \<Rightarrow> string \<Rightarrow> go_any \<Rightarrow> bool" where
  "compare_string actual operator expected =
     (case expected of
        JString e \<Rightarrow>
          if operator = ''eq'' then actual = e
          else if operator = ''contains'' then contains actual e
          else if operator = ''starts_with'' then prefix e actual
          else if operator = ''ends_with'' then suffix e actual
          else False
      | _ \<Rightarrow> False)"

definition expected_float :: "go_any \<Rightarrow> float64 option" where
  "expected_float v = (case v of JFloat x \<Rightarrow> Some x | JInt i \<Rightarrow> Some (float_of_int i) | _ \<Rightarrow> None)"

definition compare_float :: "float64 \<Rightarrow> string \<Rightarrow> go_any \<Rightarrow> bool" where
  "compare_float actual operator expected =
     (case expected_float expected of
        None \<Rightarrow> False
      | Some e \<Rightarrow>
          if operator = ''eq'' then feq actual e
          else if operator = ''lt'' then flt actual e
          else if operator = ''lte'' then fle actual e
          else if operator = ''gt'' then flt e actual
          else if operator = ''gte'' then fle e actual
          else False)"

definition age_in_days :: "int \<Rightarrow> int \<Rightarrow> float64" where
  "age_in_days now published = fdiv_const (duration_hours (time_sub now published)) 24"

definition condition_result ::
  "int \<Rightarrow> approval_condition \<Rightarrow> vulnerability_record \<Rightarrow> security_update_status \<Rightarrow> bool" where
  "condition_result now c vuln update =
     (let field = ac_Field c; operator = ac_Operator c; expected = ac_Value c in
      if ac_Type c = ''severity'' then
        (if field = ''severity'' then compare_severity (vul_Severity vuln) operator expected else False)
      else if ac_Type c = ''package'' then
        (if field = ''name'' then compare_string (pki_Name (sus_Package update)) operator expected
         else if field = ''ecosystem'' then compare_string (pki_Ecosystem (sus_Package update)) operator expected
         else False)
      else if ac_Type c = ''cvss'' then
        (if field = ''score'' then compare_float (cv_Score (vul_CVSS vuln)) operator expected else False)
      else if ac_Type c = ''version'' then
        (if field = ''current_version'' then compare_string (sus_CurrentVersion update) operator expected
         else if field = ''target_version'' then compare_string (sus_TargetVersion update) operator expected
         else if field = ''version'' then compare_string (sus_CurrentVersion update) operator expected
         else False)
      else if ac_Type c = ''age'' then
        (if field = ''days'' then compare_float (age_in_days now (vul_PublishedAt vuln)) operator expected else False)
      else if ac_Type c = ''repository'' then
        (if field = ''name'' then compare_string (sus_Repository update) operator expected else False)
      else if ac_Type c = ''ecosystem'' then
        (if field = ''ecosystem'' then compare_string (pki_Ecosystem (sus_Package update)) operator expected else False)
      else False)"

definition evaluate_condition ::
  "int \<Rightarrow> approval_condition \<Rightarrow> vulnerability_record \<Rightarrow> security_update_status \<Rightarrow> bool" where
  "evaluate_condition now c vuln update =
     (let r = condition_result now c vuln update in if ac_Negated c then \<not> r else r)"

section \<open>Exclusions and approval rules\<close>

definition exclusion_matches ::
  "vulnerability_exclusion \<Rightarrow> vulnerability_record \<Rightarrow> security_update_status \<Rightarrow> bool" where
  "exclusion_matches e vuln update =
     (if ve_Type e = ''cve'' then vul_CVE vuln = ve_Pattern e
      else if ve_Type e = ''package'' then pki_Name (sus_Package update) = ve_Pattern e
      else if ve_Type e = ''repository'' then sus_Repository update = ve_Pattern e
      else if ve_Type e = ''pattern'' then contains (pki_Name (sus_Package update)) (ve_Pattern e)
      else False)"

definition exclusion_expired :: "int \<Rightarrow> vulnerability_exclusion \<Rightarrow> bool" where
  "exclusion_expired now e = (case ve_ExpiresAt e of None \<Rightarrow> False | Some t \<Rightarrow> t < now)"

fun is_excluded ::
  "int \<Rightarrow> vulnerability_exclusion list \<Rightarrow> vulnerability_record \<Rightarrow> security_update_status \<Rightarrow> bool" where
  "is_excluded now [] vuln update = False"
| "is_excluded now (e # es) vuln update =
     (if exclusion_expired now e then is_excluded now es vuln update
      else if exclusion_matches e vuln update then True
      else is_excluded now es vuln update)"

definition undecided :: security_update_decision where
  "undecided = \<lparr>sud_Approved = False, sud_Reason = [], sud_RuleID = [], sud_Actions = [], sud_RequiresTest = False,
     sud_Conditions = []\<rparr>"

definition rule_approves ::
  "int \<Rightarrow> vulnerability_record \<Rightarrow> security_update_status \<Rightarrow> auto_approval_rule \<Rightarrow> bool" where
  "rule_approves now vuln update rule \<longleftrightarrow>
     aar_Enabled rule \<and> \<not> severity_exceeds (vul_Severity vuln) (aar_MaxSeverity rule) \<and>
     list_all (\<lambda>c. evaluate_condition now c vuln update) (aar_Conditions rule)"

definition approved_by :: "auto_approval_rule \<Rightarrow> security_update_decision" where
  "approved_by rule =
     \<lparr>sud_Approved = True, sud_Reason = ''Auto-approved by rule: '' @ aar_Name rule, sud_RuleID = aar_ID rule,
      sud_Actions = aar_Actions rule, sud_RequiresTest = aar_TestingRequired rule, sud_Conditions = []\<rparr>"

fun evaluate_auto_approval_rules ::
  "int \<Rightarrow> auto_approval_rule list \<Rightarrow> vulnerability_record \<Rightarrow> security_update_status \<Rightarrow> security_update_decision"
where
  "evaluate_auto_approval_rules now [] vuln update = undecided\<lparr>sud_Reason := ''No auto-approval rules matched''\<rparr>"
| "evaluate_auto_approval_rules now (rule # rules) vuln update =
     (if rule_approves now vuln update rule then approved_by rule
      else evaluate_auto_approval_rules now rules vuln update)"

section \<open>The manager\<close>

datatype policy_problem =
  PolicyIDRequired | PolicyNameRequired | OrganizationRequired | RuleIDRequired nat | RuleWithoutConditions nat

fun validate_rules :: "nat \<Rightarrow> auto_approval_rule list \<Rightarrow> policy_problem option" where
  "validate_rules i [] = None"
| "validate_rules i (rule # rules) =
     (if aar_ID rule = [] then Some (RuleIDRequired i)
      else if aar_Conditions rule = [] then Some (RuleWithoutConditions i)
      else validate_rules (Suc i) rules)"

definition validate_security_policy :: "security_update_policy \<Rightarrow> policy_problem option" where
  "validate_security_policy policy =
     (if sup_ID policy = [] then Some PolicyIDRequired
      else if sup_Name policy = [] then Some PolicyNameRequired
      else if sup_Organization policy = [] then Some OrganizationRequired
      else validate_rules 0 (sup_AutoApprovalRules policy))"

definition new_vulnerability_database :: "int \<Rightarrow> vulnerability_database" where
  "new_vulnerability_database now = \<lparr>vd_vulnerabilities = [], vd_cveCache = [], vd_lastUpdated = now\<rparr>"

definition new_security_update_policy_manager :: "int \<Rightarrow> security_policy_manager" where
  "new_security_update_policy_manager now =
     \<lparr>spm_policies = [], spm_vulnerabilityDB = new_vulnerability_database now\<rparr>"

definition create_security_policy ::
  "int \<Rightarrow> security_update_policy \<Rightarrow> security_policy_manager \<Rightarrow> policy_problem option \<times> security_policy_manager" where
  "create_security_policy now policy sm =
     (case validate_security_policy policy of
        Some e \<Rightarrow> (Some e, sm)
      | None \<Rightarrow>
          (None, sm\<lparr>spm_policies := gm_put (sup_ID policy)
             (policy\<lparr>sup_CreatedAt := now, sup_UpdatedAt := now, sup_Version := 1\<rparr>) (spm_policies sm)\<rparr>))"

definition placeholder_vulnerability :: "int \<Rightarrow> string \<Rightarrow> vulnerability_record" where
  "placeholder_vulnerability now vulnID =
     \<lparr>vul_ID = vulnID, vul_CVE = ''CVE-2024-'' @ drop (length vulnID - 4) vulnID,
      vul_Title = ''Mock vulnerability for testing'', vul_Description = ''This is a mock vulnerability record'',
      vul_Severity = ''medium'',
      vul_CVSS = \<lparr>cv_Version = ''3.1'', cv_Score = FNum (11 / 2),
        cv_Vector = ''CVSS:3.1/AV:N/AC:L/PR:N/UI:R/S:U/C:N/I:N/A:H'', cv_Severity = ''MEDIUM'',
        cv_BaseScore = FNum (11 / 2), cv_ImpactScore = FNum 0\<rparr>,
      vul_Package = \<lparr>pki_Name = [], pki_Ecosystem = [], pki_Type = [], pki_Namespace = []\<rparr>,
      vul_AffectedVersions = [], vul_PatchedVersions = [], vul_References = [],
      vul_PublishedAt = now - 24 * 3600 * nanosecond_second, vul_UpdatedAt = now, vul_WithdrawnAt = None,
      vul_Metadata = []\<rparr>"

definition get_vulnerability_info ::
  "int \<Rightarrow> string \<Rightarrow> security_policy_manager \<Rightarrow> (vulnerability_record \<times> security_policy_manager) option" where
  "get_vulnerability_info now vulnID sm =
     (let db = spm_vulnerabilityDB sm in
      case gm_get (vd_vulnerabilities db) vulnID of
        Some vuln \<Rightarrow> Some (vuln, sm)
      | None \<Rightarrow>
          if length vulnID < 4 then None
          else let vuln = placeholder_vulnerability now vulnID
            in Some (vuln, sm\<lparr>spm_vulnerabilityDB :=
                 db\<lparr>vd_vulnerabilities := gm_put vulnID vuln (vd_vulnerabilities db)\<rparr>\<rparr>))"

datatype evaluation_error = SecurityPolicyNotFound string

definition evaluate_security_update ::
  "int \<Rightarrow> string \<Rightarrow> security_update_status \<Rightarrow> security_policy_manager
     \<Rightarrow> ((evaluation_error + security_update_decision) \<times> security_policy_manager) option" where
  "evaluate_security_update now policyID update sm =
     (case gm_get (spm_policies sm) policyID of
        None \<Rightarrow> Some (Inl (SecurityPolicyNotFound policyID), sm)
      | Some policy \<Rightarrow>
          if \<not> sup_Enabled policy then Some (Inr (undecided\<lparr>sud_Reason := ''Security policy is disabled''\<rparr>), sm)
          else (case get_vulnerability_info now (sus_VulnerabilityID update) sm of
                  None \<Rightarrow> None
                | Some (vuln, sm') \<Rightarrow>
                    if is_excluded now (sup_ExclusionRules policy) vuln update
                    then Some (Inr (undecided\<lparr>sud_Reason := ''Update matches exclusion rule''\<rparr>), sm')
                    else Some (Inr (evaluate_auto_approval_rules now (sup_AutoApprovalRules policy) vuln update), sm')))"

text \<open>The first policy of the iteration that applies; the repository is not looked at.\<close>

definition find_applicable_policy :: "string \<Rightarrow> string \<Rightarrow> security_policy_manager \<Rightarrow> string" where
  "find_applicable_policy organization repository sm =
     (case List.find (\<lambda>(policyID, policy). sup_Organization policy = organization \<and> sup_Enabled policy) (spm_policies sm) of
        None \<Rightarrow> []
      | Some (policyID, policy) \<Rightarrow> policyID)"

definition approve_security_update ::
  "int \<Rightarrow> security_update_decision \<Rightarrow> security_update_status \<Rightarrow> security_update_status" where
  "approve_security_update now decision update =
     update\<lparr>sus_Status := ''approved'', sus_AutoApproved := True, sus_ApprovalReason := sud_Reason decision,
       sus_UpdatedAt := now\<rparr>"

definition pending_security_updates :: "int \<Rightarrow> string \<Rightarrow> security_update_status list" where
  "pending_security_updates now organization =
     [\<lparr>sus_UpdateID = ''update-1'', sus_VulnerabilityID = ''vuln-1'', sus_Repository = ''test-repo'',
       sus_Organization = organization,
       sus_Package = \<lparr>pki_Name = ''lodash'', pki_Ecosystem = ''npm'', pki_Type = [], pki_Namespace = []\<rparr>,
       sus_CurrentVersion = ''4.17.20'', sus_TargetVersion = ''4.17.21'', sus_Status = ''pending'',
       sus_Priority = ''high'', sus_AutoApproved = False, sus_ApprovalReason = [],
       sus_CreatedAt = now - 3600 * nanosecond_second, sus_UpdatedAt = now, sus_DeadlineAt = None,
       sus_CompletedAt = None, sus_ApprovedBy = [], sus_ReviewNotes = [], sus_TestResults = None,
       sus_RiskAssessment = None\<rparr>]"

fun process_updates ::
  "int \<Rightarrow> string \<Rightarrow> security_update_status list \<Rightarrow> security_update_process_result \<times> security_policy_manager
     \<Rightarrow> (security_update_process_result \<times> security_policy_manager) option" where
  "process_updates now organization [] (result, sm) = Some (result, sm)"
| "process_updates now organization (update # updates) (result, sm) =
     (let policyID = find_applicable_policy organization (sus_Repository update) sm in
      if policyID = [] then process_updates now organization updates (result, sm)
      else
        (case evaluate_security_update now policyID update sm of
           None \<Rightarrow> None
         | Some (Inl _, sm') \<Rightarrow>
             process_updates now organization updates
               (result\<lparr>supr_FailedUpdates := supr_FailedUpdates result + 1\<rparr>, sm')
         | Some (Inr decision, sm') \<Rightarrow>
             process_updates now organization updates
               (if sud_Approved decision
                then result\<lparr>supr_ApprovedUpdates := supr_ApprovedUpdates result + 1,
                       supr_Updates := supr_Updates result @ [approve_security_update now decision update]\<rparr>
                else result\<lparr>supr_PendingReview := supr_PendingReview result + 1,
                       supr_Updates := supr_Updates result @ [update]\<rparr>, sm')))"

definition process_security_updates ::
  "int \<Rightarrow> int \<Rightarrow> string \<Rightarrow> security_policy_manager
     \<Rightarrow> (security_update_process_result \<times> security_policy_manager) option" where
  "process_security_updates now finished organization sm =
     (let pending = pending_security_updates now organization;
          result = \<lparr>supr_Organization = organization, supr_TotalUpdates = int (length pending),
            supr_ApprovedUpdates = 0, supr_PendingReview = 0, supr_FailedUpdates = 0, supr_Updates = [],
            supr_StartedAt = now, supr_CompletedAt = 0, supr_ProcessingTime = 0\<rparr>
      in map_option (\<lambda>(r, sm'). (r\<lparr>supr_CompletedAt := finished, supr_ProcessingTime := time_sub finished now\<rparr>, sm'))
           (process_updates now organization pending (result, sm)))"

section \<open>Severities and conditions\<close>

text \<open>Every string has a rank: one that is not a severity of the code ranks with \<open>info\<close>.\<close>

interpretation severity: ranked_names "\<lambda>s. Some (gm_at 0 severity_order s)" severity_exceeds
  by unfold_locales (simp add: severity_exceeds_def)

lemma unknown_severity_never_exceeds:
  "s \<notin> set vulnerability_severities \<Longrightarrow> \<not> severity_exceeds s m"
  by (auto simp: severity_exceeds_def severity_order_def gm_at_def vulnerability_severities_def)

lemma compare_severity_total:
  "compare_severity a ''lte'' (JString e) \<or> compare_severity a ''gte'' (JString e)"
  using severity.outranks_asym by (auto simp: compare_severity_def)

lemma condition_result_typed: "condition_result now c vuln update \<Longrightarrow> ac_Type c \<in> set condition_types"
  by (auto simp: condition_result_def condition_types_def Let_def split: if_splits)

text \<open>A condition that cannot be interpreted does not hold, and its negation always does.\<close>

lemma negated_unknown_condition:
  "ac_Type c \<notin> set condition_types \<Longrightarrow> evaluate_condition now c vuln update = ac_Negated c"
  using condition_result_typed by (auto simp: evaluate_condition_def Let_def)

section \<open>Decisions\<close>

lemma is_excluded_iff:
  "is_excluded now es vuln update \<longleftrightarrow>
     (\<exists>e\<in>set es. \<not> exclusion_expired now e \<and> exclusion_matches e vuln update)"
  by (induction es) auto

lemma evaluate_condition_iff: "evaluate_condition now c vuln update \<longleftrightarrow> condition_result now c vuln update \<noteq> ac_Negated c"
  by (auto simp: evaluate_condition_def Let_def)

lemma approved_by_sel [simp]: "sud_RuleID (approved_by r) = aar_ID r" "sud_Actions (approved_by r) = aar_Actions r"
  "sud_RequiresTest (approved_by r) = aar_TestingRequired r"
  by (simp_all add: approved_by_def)

lemma undecided_not_approved [simp]: "\<not> sud_Approved undecided" and approved_by_approved [simp]: "sud_Approved (approved_by r)"
  by (simp_all add: undecided_def approved_by_def)

text \<open>The first rule that approves decides.\<close>

lemma evaluate_rules_find:
  "evaluate_auto_approval_rules now rules vuln update =
     (case List.find (rule_approves now vuln update) rules of
        None \<Rightarrow> undecided\<lparr>sud_Reason := ''No auto-approval rules matched''\<rparr>
      | Some rule \<Rightarrow> approved_by rule)"
  by (induction rules) auto

lemma evaluate_rules_approved:
  "sud_Approved (evaluate_auto_approval_rules now rules vuln update) \<longleftrightarrow> list_ex (rule_approves now vuln update) rules"
  by (induction rules) (auto simp: undecided_def)

lemma evaluation_approvedE:
  assumes "evaluate_security_update now policyID update sm = Some (Inr d, sm')" and "sud_Approved d"
  obtains policy vuln rule where "gm_get (spm_policies sm) policyID = Some policy" and "sup_Enabled policy"
    and "get_vulnerability_info now (sus_VulnerabilityID update) sm = Some (vuln, sm')"
    and "\<not> is_excluded now (sup_ExclusionRules policy) vuln update"
    and "List.find (rule_approves now vuln update) (sup_AutoApprovalRules policy) = Some rule" and "d = approved_by rule"
  using assms
  by (auto simp: evaluate_security_update_def evaluate_rules_find undecided_def split: option.splits prod.splits if_splits)

text \<open>
  Property C24. An update is approved only under an enabled policy none of whose unexpired
  exclusions matches it, by the first rule that is enabled, whose maximum severity the
  vulnerability does not exceed and all of whose conditions hold; the decision carries that
  rule's identifier, actions and test requirement.
\<close>

theorem approval_justified:
  assumes "evaluate_security_update now policyID update sm = Some (Inr d, sm')" and "sud_Approved d"
  shows "\<exists>policy vuln before rule after.
    gm_get (spm_policies sm) policyID = Some policy \<and> sup_Enabled policy \<and>
    get_vulnerability_info now (sus_VulnerabilityID update) sm = Some (vuln, sm') \<and>
    (\<forall>e\<in>set (sup_ExclusionRules policy). exclusion_matches e vuln update \<longrightarrow> exclusion_expired now e) \<and>
    sup_AutoApprovalRules policy = before @ rule # after \<and>
    list_all (\<lambda>r. \<not> rule_approves now vuln update r) before \<and>
    aar_Enabled rule \<and> \<not> severity_exceeds (vul_Severity vuln) (aar_MaxSeverity rule) \<and>
    (\<forall>c\<in>set (aar_Conditions rule). condition_result now c vuln update \<noteq> ac_Negated c) \<and>
    sud_RuleID d = aar_ID rule \<and> sud_Actions d = aar_Actions rule \<and> sud_RequiresTest d = aar_TestingRequired rule"
proof -
  obtain policy vuln rule where f: "gm_get (spm_policies sm) policyID = Some policy" "sup_Enabled policy"
    "get_vulnerability_info now (sus_VulnerabilityID update) sm = Some (vuln, sm')"
    "\<not> is_excluded now (sup_ExclusionRules policy) vuln update"
    "List.find (rule_approves now vuln update) (sup_AutoApprovalRules policy) = Some rule" "d = approved_by rule"
    using assms by (rule evaluation_approvedE)
  obtain bef aft where "sup_AutoApprovalRules policy = bef @ rule # aft" "list_all (\<lambda>r. \<not> rule_approves now vuln update r) bef"
    "rule_approves now vuln update rule"
    using f(5) by (rule find_SomeE)
  moreover have "\<forall>e\<in>set (sup_ExclusionRules policy). exclusion_matches e vuln update \<longrightarrow> exclusion_expired now e"
    using f(4) by (auto simp: is_excluded_iff)
  ultimately show ?thesis using f(1-3,6)
    by (intro exI [of _ policy] exI [of _ vuln] exI [of _ bef] exI [of _ rule] exI [of _ aft])
      (simp add: rule_approves_def list_all_iff evaluate_condition_iff)
qed

definition sample_update :: security_update_status where
  "sample_update = hd (pending_security_updates 0 ''org'')"

definition sample_approval_rule :: auto_approval_rule where
  "sample_approval_rule = \<lparr>aar_ID = ''r'', aar_Name = ''patch'', aar_Enabled = True,
     aar_Conditions = [\<lparr>ac_Type = ''cvss'', ac_Field = ''score'', ac_Operator = ''lt'', ac_Value = JInt 7, ac_Negated = False\<rparr>],
     aar_Actions = [], aar_MaxSeverity = ''medium'', aar_RequiredChecks = [], aar_TestingRequired = True,
     aar_MinTestCoverage = FNum 0, aar_BusinessHoursOnly = False, aar_CooldownPeriod = 0\<rparr>"

definition sample_threshold :: severity_threshold where
  "sample_threshold = \<lparr>sth_AutoApprove = False, sth_RequireManualReview = False, sth_MaxResponseTime = 0,
     sth_RequiredApprovers = 0, sth_NotifyImmediately = False, sth_EscalateAfter = 0, sth_BusinessImpactAnalysis = False\<rparr>"

definition sample_security_policy :: security_update_policy where
  "sample_security_policy = \<lparr>sup_ID = ''p'', sup_Name = ''policy'', sup_Organization = ''org'', sup_Description = [],
     sup_Enabled = True, sup_AutoApprovalRules = [sample_approval_rule],
     sup_SeverityThresholds = \<lparr>stc_Critical = sample_threshold, stc_High = sample_threshold,
       stc_Medium = sample_threshold, stc_Low = sample_threshold\<rparr>,
     sup_ResponseTimeRequirements = \<lparr>rtc_CriticalVulnerabilities = 0, rtc_HighVulnerabilities = 0,
       rtc_MediumVulnerabilities = 0, rtc_LowVulnerabilities = 0,
       rtc_BusinessHours = \<lparr>bh_Timezone = [], bh_StartTime = 0, bh_EndTime = 0, bh_Weekdays = [], bh_Holidays = []\<rparr>\<rparr>,
     sup_NotificationSettings = \<lparr>ncf_Enabled = False, ncf_Channels = [], ncf_Templates = [], ncf_EscalationTargets = [],
       ncf_SummaryFrequency = []\<rparr>,
     sup_ExclusionRules = [], sup_EscalationRules = [],
     sup_ComplianceSettings = \<lparr>cc_Frameworks = [], cc_AuditTrailRequired = False, cc_DocumentationRequired = False,
       cc_ApprovalEvidence = False, cc_RetentionPeriod = 0\<rparr>,
     sup_CreatedAt = 0, sup_UpdatedAt = 0, sup_Version = 0\<rparr>"

definition sample_security_manager :: security_policy_manager where
  "sample_security_manager =
     snd (create_security_policy 0 sample_security_policy (new_security_update_policy_manager 0))"

lemma sample_approval:
  "case evaluate_security_update 0 ''p'' sample_update sample_security_manager of
     Some (Inr d, sm') \<Rightarrow> sud_Approved d | _ \<Rightarrow> False"
  by code_simp

theorem approval_justified_witness:
  "\<exists>d sm' (policy :: security_update_policy) rule. evaluate_security_update 0 ''p'' sample_update sample_security_manager = Some (Inr d, sm') \<and>
     rule \<in> set (sup_AutoApprovalRules policy) \<and> aar_Enabled rule \<and> sud_RuleID d = aar_ID rule"
proof -
  obtain d sm' where d: "evaluate_security_update 0 ''p'' sample_update sample_security_manager = Some (Inr d, sm')"
    "sud_Approved d"
    using sample_approval by (simp split: option.splits prod.splits sum.splits)
  obtain policy :: security_update_policy and bef rule aft where "sup_AutoApprovalRules policy = bef @ rule # aft" "aar_Enabled rule" "sud_RuleID d = aar_ID rule"
    using approval_justified [OF d] by blast
  then show ?thesis using d(1) by (intro exI [of _ d] exI [of _ sm'] exI [of _ policy] exI [of _ rule]) simp
qed

text \<open>
  The required checks, the test coverage, the business hours and the cooldown of a rule are
  never looked at: whatever they are, the decision is the same.
\<close>

theorem approval_ignores_safeguards:
  "evaluate_auto_approval_rules now
     (map (\<lambda>r. r\<lparr>aar_RequiredChecks := checks r, aar_MinTestCoverage := coverage r,
        aar_BusinessHoursOnly := hours r, aar_CooldownPeriod := cooldown r\<rparr>) rules) vuln update
   = evaluate_auto_approval_rules now rules vuln update"
  by (induction rules) (simp_all add: rule_approves_def approved_by_def)

text \<open>
  A negated condition whose type the code does not know always holds, and a severity the code
  does not know never exceeds a maximum: a rule made of these approves every update.
\<close>

theorem uninterpretable_rule_approves:
  assumes "aar_Enabled rule" and "\<forall>c\<in>set (aar_Conditions rule). ac_Negated c \<and> ac_Type c \<notin> set condition_types"
    and "vul_Severity vuln \<notin> set vulnerability_severities"
  shows "sud_Approved (evaluate_auto_approval_rules now (rule # rules) vuln update)"
  using assms
  by (simp add: evaluate_rules_approved rule_approves_def unknown_severity_never_exceeds list_all_iff negated_unknown_condition)

section \<open>Processing\<close>

definition applicable :: "string \<Rightarrow> security_policy_manager \<Rightarrow> bool" where
  "applicable organization sm \<longleftrightarrow>
     (\<exists>(policyID, policy)\<in>set (spm_policies sm). sup_Organization policy = organization \<and> sup_Enabled policy)"

definition identifiable :: "security_policy_manager \<Rightarrow> security_update_status \<Rightarrow> bool" where
  "identifiable sm update \<longleftrightarrow>
     4 \<le> length (sus_VulnerabilityID update) \<or>
     sus_VulnerabilityID update \<in> set (gm_keys (vd_vulnerabilities (spm_vulnerabilityDB sm)))"

lemma find_applicable:
  assumes "[] \<notin> set (gm_keys (spm_policies sm))"
  shows "find_applicable_policy org repo sm = [] \<longleftrightarrow> \<not> applicable org sm"
    and "applicable org sm \<Longrightarrow> find_applicable_policy org repo sm \<in> set (gm_keys (spm_policies sm))"
proof -
  let ?P = "\<lambda>(policyID, policy). sup_Organization policy = org \<and> sup_Enabled policy"
  have n: "List.find ?P (spm_policies sm) = None \<longleftrightarrow> \<not> applicable org sm"
    by (auto simp: find_None_filter applicable_def filter_empty_conv)
  have s: "id \<in> set (gm_keys (spm_policies sm))" if "List.find ?P (spm_policies sm) = Some (id, policy)" for id policy
    using that by (force simp: gm_keys_def find_Some_iff in_set_conv_nth)
  show "find_applicable_policy org repo sm = [] \<longleftrightarrow> \<not> applicable org sm"
    using n s assms by (auto simp: find_applicable_policy_def split: option.splits)
  show "find_applicable_policy org repo sm \<in> set (gm_keys (spm_policies sm))" if "applicable org sm"
    using n s that by (auto simp: find_applicable_policy_def split: option.splits)
qed

lemma get_vulnerability_info_keeps:
  assumes "get_vulnerability_info now v sm = Some (vuln, sm')"
  shows "spm_policies sm' = spm_policies sm \<and> (identifiable sm update \<longrightarrow> identifiable sm' update)"
  using assms by (auto simp: get_vulnerability_info_def identifiable_def Let_def split: option.splits if_splits)

lemma get_vulnerability_info_returns:
  "identifiable sm update \<Longrightarrow> get_vulnerability_info now (sus_VulnerabilityID update) sm \<noteq> None"
  by (auto simp: get_vulnerability_info_def identifiable_def Let_def gm_keys_iff split: option.splits)

lemma evaluation_returns:
  assumes "policyID \<in> set (gm_keys (spm_policies sm))" and "identifiable sm update"
  obtains d sm' where "evaluate_security_update now policyID update sm = Some (Inr d, sm')"
    and "spm_policies sm' = spm_policies sm" and "\<And>u. identifiable sm u \<Longrightarrow> identifiable sm' u"
proof -
  obtain policy where p: "gm_get (spm_policies sm) policyID = Some policy" using assms(1) by (auto simp: gm_keys_iff)
  obtain vuln sm' where v: "get_vulnerability_info now (sus_VulnerabilityID update) sm = Some (vuln, sm')"
    using get_vulnerability_info_returns [OF assms(2)] by (metis not_None_eq surj_pair)
  show thesis
  proof (cases "sup_Enabled policy")
    case True
    then have "\<exists>d. evaluate_security_update now policyID update sm = Some (Inr d, sm')"
      using p v by (simp add: evaluate_security_update_def)
    then show ?thesis using that get_vulnerability_info_keeps [OF v] by blast
  next
    case False
    then show ?thesis using that [of _ sm] p by (simp add: evaluate_security_update_def)
  qed
qed

lemma process_updates_accounts:
  assumes "[] \<notin> set (gm_keys (spm_policies sm))" and "list_all (identifiable sm) updates"
  shows "\<exists>r' sm'. process_updates now org updates (r, sm) = Some (r', sm') \<and>
    supr_FailedUpdates r' = supr_FailedUpdates r \<and> supr_TotalUpdates r' = supr_TotalUpdates r \<and>
    (if applicable org sm
     then supr_ApprovedUpdates r' + supr_PendingReview r' = supr_ApprovedUpdates r + supr_PendingReview r + int (length updates) \<and>
       map sus_UpdateID (supr_Updates r') = map sus_UpdateID (supr_Updates r @ updates)
     else r' = r)"
  using assms
proof (induction updates arbitrary: r sm)
  case Nil
  then show ?case by simp
next
  case (Cons u us)
  note keys = Cons.prems(1)
  show ?case
  proof (cases "applicable org sm")
    case False
    then have "find_applicable_policy org (sus_Repository u) sm = []" using find_applicable(1) [OF keys] by simp
    then have "process_updates now org (u # us) (r, sm) = process_updates now org us (r, sm)" by simp
    then show ?thesis using Cons.IH [of sm r] Cons.prems False by simp
  next
    case True
    let ?id = "find_applicable_policy org (sus_Repository u) sm"
    have id: "?id \<noteq> []" "?id \<in> set (gm_keys (spm_policies sm))"
      using True find_applicable [OF keys] by simp_all
    obtain d sm' where d: "evaluate_security_update now ?id u sm = Some (Inr d, sm')"
      and pol: "spm_policies sm' = spm_policies sm" and ident: "\<And>u. identifiable sm u \<Longrightarrow> identifiable sm' u"
      using evaluation_returns [OF id(2), of u] Cons.prems(2) by auto
    define r1 where "r1 = (if sud_Approved d
      then r\<lparr>supr_ApprovedUpdates := supr_ApprovedUpdates r + 1,
             supr_Updates := supr_Updates r @ [approve_security_update now d u]\<rparr>
      else r\<lparr>supr_PendingReview := supr_PendingReview r + 1, supr_Updates := supr_Updates r @ [u]\<rparr>)"
    have step: "process_updates now org (u # us) (r, sm) = process_updates now org us (r1, sm')"
      using d id(1) by (simp add: r1_def)
    have r1: "supr_ApprovedUpdates r1 + supr_PendingReview r1 = supr_ApprovedUpdates r + supr_PendingReview r + 1"
      "supr_FailedUpdates r1 = supr_FailedUpdates r" "supr_TotalUpdates r1 = supr_TotalUpdates r"
      "map sus_UpdateID (supr_Updates r1) = map sus_UpdateID (supr_Updates r @ [u])"
      by (simp_all add: r1_def approve_security_update_def)
    have "applicable org sm'" using True pol by (simp add: applicable_def)
    moreover have "list_all (identifiable sm') us" using Cons.prems(2) ident by (simp add: list_all_iff)
    ultimately obtain r' sm'' where "process_updates now org us (r1, sm') = Some (r', sm'')"
      "supr_FailedUpdates r' = supr_FailedUpdates r" "supr_TotalUpdates r' = supr_TotalUpdates r"
      "supr_ApprovedUpdates r' + supr_PendingReview r' = supr_ApprovedUpdates r + supr_PendingReview r + 1 + int (length us)"
      "map sus_UpdateID (supr_Updates r') = map sus_UpdateID (supr_Updates r @ u # us)"
      using Cons.IH [of sm' r1] keys r1 by (auto simp: pol)
    then show ?thesis unfolding step using True by (intro exI [of _ r'] exI [of _ sm'']) simp
  qed
qed

text \<open>
  Processing the updates of an organisation always returns, and no update fails:
  under an enabled policy of the organisation every update is approved or left pending and is
  listed, and without one the run reports the updates in its total only.
\<close>

theorem process_accounts_for_updates:
  assumes "[] \<notin> set (gm_keys (spm_policies sm))"
  shows "\<exists>r sm'. process_security_updates now finished org sm = Some (r, sm') \<and>
    supr_TotalUpdates r = 1 \<and> supr_FailedUpdates r = 0 \<and>
    (if applicable org sm
     then supr_ApprovedUpdates r + supr_PendingReview r = supr_TotalUpdates r \<and>
       map sus_UpdateID (supr_Updates r) = map sus_UpdateID (pending_security_updates now org)
     else supr_ApprovedUpdates r = 0 \<and> supr_PendingReview r = 0 \<and> supr_Updates r = [])"
proof -
  let ?us = "pending_security_updates now org"
  let ?r = "\<lparr>supr_Organization = org, supr_TotalUpdates = int (length ?us), supr_ApprovedUpdates = 0,
    supr_PendingReview = 0, supr_FailedUpdates = 0, supr_Updates = [], supr_StartedAt = now,
    supr_CompletedAt = 0, supr_ProcessingTime = 0\<rparr>"
  have l: "length ?us = 1" "list_all (identifiable sm) ?us"
    by (simp_all add: pending_security_updates_def identifiable_def)
  obtain r sm' where "process_updates now org ?us (?r, sm) = Some (r, sm')"
    "supr_FailedUpdates r = 0" "supr_TotalUpdates r = 1"
    "if applicable org sm then supr_ApprovedUpdates r + supr_PendingReview r = 1 \<and>
       map sus_UpdateID (supr_Updates r) = map sus_UpdateID ?us else r = ?r"
    using process_updates_accounts [OF assms l(2), of now org ?r] l(1) by auto
  then show ?thesis by (auto simp: process_security_updates_def Let_def split: if_splits)
qed

theorem process_accounts_for_updates_witness:
  "\<exists>r sm'. process_security_updates 0 1 ''org'' sample_security_manager = Some (r, sm') \<and>
    supr_ApprovedUpdates r + supr_PendingReview r = 1"
proof -
  have "[] \<notin> set (gm_keys (spm_policies sample_security_manager))" and a: "applicable ''org'' sample_security_manager"
    by code_simp+
  from process_accounts_for_updates [OF this(1), of 0 1 "''org''"] a show ?thesis by auto
qed

section \<open>The manager as a policy store\<close>

lemma validate_security_policy_stamp:
  "validate_security_policy (p\<lparr>sup_CreatedAt := a, sup_UpdatedAt := b, sup_Version := c\<rparr>) = validate_security_policy p"
  by (simp add: validate_security_policy_def)

interpretation security_store: policy_store "\<lambda>sm. gm_get (spm_policies sm)" sup_ID validate_security_policy
  "\<lambda>now p. p\<lparr>sup_CreatedAt := now, sup_UpdatedAt := now, sup_Version := 1\<rparr>" create_security_policy
  by unfold_locales (auto simp: create_security_policy_def validate_security_policy_stamp)

lemma created_policies_named:
  assumes "gm_get (spm_policies (foldl (\<lambda>sm (now, p). snd (create_security_policy now p sm))
      (new_security_update_policy_manager start) ps)) policyID = Some policy"
  shows "policyID = sup_ID policy \<and> policyID \<noteq> []"
  using security_store.creates_sound [OF _ assms]
  by (auto simp: new_security_update_policy_manager_def validate_security_policy_def split: if_splits)

end
