(* ===== verification/VersionConfig.thy ===== *)
theory VersionConfig
  imports SecurityTypes
begin

text \<open>
  The dependency version policies of \<open>pkg/github/dependency_version_policy.go\<close>: the policy and
  every struct it is made of, with the conventions of \<open>SecurityTypes\<close>.
\<close>

text \<open>The strategies a rule may name.\<close>

definition update_strategies :: "string list" where
  "update_strategies = [''conservative'', ''moderate'', ''aggressive'', ''security_only'', ''custom'']"

record version_constraint_exception =
  vce_Repository :: string
  vce_Justification :: string
  vce_ExpiresAt :: int
  vce_Approver :: string

record version_constraint_rule =
  vcr_RuleID :: string
  vcr_DependencyPattern :: string
  vcr_Ecosystem :: string
  vcr_AllowedVersions :: "version_range list"
  vcr_BlockedVersions :: "version_range list"
  vcr_PreferredVersions :: "version_range list"
  vcr_MinimumVersion :: string
  vcr_MaximumVersion :: string
  vcr_VersionPattern :: string
  vcr_AllowPrerelease :: bool
  vcr_AllowBetaVersions :: bool
  vcr_UpdateStrategy :: string
  vcr_AutoUpdateEnabled :: bool
  vcr_UpdateFrequency :: string
  vcr_Priority :: string
  vcr_ExpirationDate :: "int option"
  vcr_Justification :: string
  vcr_Exceptions :: "version_constraint_exception list"

record deprecation_policy =
  dp2_AllowDeprecatedVersions :: bool
  dp2_DeprecationWarningPeriod :: int
  dp2_ForceUpgradeAfterEOL :: bool
  dp2_EOLNotificationPeriod :: int

record license_restriction =
  lr_BlockedLicenses :: "string list"
  lr_RequiredLicenses :: "string list"
  lr_LicenseCompatibilityMatrix :: "(string, string list) gomap"

record performance_requirements =
  pr2_MaxPerformanceRegression :: float64
  pr2_BenchmarkSuites :: "string list"
  pr2_PerformanceThresholds :: "(string, float64) gomap"

record quality_gate =
  qg_Name :: string
  qg_Type :: string
  qg_Threshold :: float64
  qg_Required :: bool
  qg_Parameters :: "(string, go_any) gomap"

record custom_validation_rule =
  cvr_Name :: string
  cvr_Script :: string
  cvr_Language :: string
  cvr_Parameters :: "(string, go_any) gomap"
  cvr_Required :: bool

record ecosystem_version_policy =
  evp_Ecosystem :: string
  evp_Enabled :: bool
  evp_DefaultUpdateStrategy :: string
  evp_AllowMajorUpdates :: bool
  evp_AllowMinorUpdates :: bool
  evp_AllowPatchUpdates :: bool
  evp_RequireSecurityUpdates :: bool
  evp_MaxVersionAge :: int
  evp_DeprecationPolicy :: deprecation_policy
  evp_LicenseRestrictions :: "license_restriction list"
  evp_PerformanceRequirements :: performance_requirements
  evp_QualityGates :: "quality_gate list"
  evp_CustomValidationRules :: "custom_validation_rule list"

record detection_rule =
  dr2_Pattern :: string
  dr2_Severity :: string
  dr2_Description :: string
  dr2_Weight :: float64

record threshold_config =
  tc_MinorChangeThreshold :: float64
  tc_MajorChangeThreshold :: float64
  tc_BreakingChangeThreshold :: float64

record breaking_change_detection =
  bcd_Enabled :: bool
  bcd_Methods :: "string list"
  bcd_SemverStrictMode :: bool
  bcd_APIChangeDetection :: bool
  bcd_SchemaChangeDetection :: bool
  bcd_CustomDetectionRules :: "detection_rule list"
  bcd_IgnorePatterns :: "string list"
  bcd_ThresholdConfiguration :: threshold_config

record communication_plan =
  cp_Channels :: "string list"
  cp_NotificationTemplate :: string
  cp_EscalationContacts :: "string list"
  cp_AdvanceNoticePeriod :: int

record breaking_change_policy =
  bcp_AllowBreakingChanges :: bool
  bcp_BreakingChangeDetection :: breaking_change_detection
  bcp_ImpactAnalysisRequired :: bool
  bcp_DeprecationNoticePeriod :: int
  bcp_MigrationGuidanceRequired :: bool
  bcp_BackwardCompatibilityPeriod :: int
  bcp_BreakingChangeApprovers :: "string list"
  bcp_CommunicationPlan :: communication_plan

record matrix_testing_config =
  mtc_Enabled :: bool
  mtc_OperatingSystems :: "string list"
  mtc_RuntimeVersions :: "string list"
  mtc_DatabaseVersions :: "string list"
  mtc_BrowserVersions :: "string list"
  mtc_CustomDimensions :: "(string, string list) gomap"

record conflict_detection_config =
  cdc_Enabled :: bool
  cdc_CheckTransitiveDependencies :: bool
  cdc_ResolveConflictsAutomatically :: bool
  cdc_ConflictResolutionStrategy :: string
  cdc_IgnoredConflicts :: "string list"

record integration_testing_config =
  itc_Enabled :: bool
  itc_TestSuites :: "string list"
  itc_RequiredCoverage :: float64
  itc_Timeout :: int
  itc_Environment :: string
  itc_PreTestSetup :: "string list"
  itc_PostTestCleanup :: "string list"
  itc_TestData :: "(string, string) gomap"

record compatibility_matrix_entry =
  cme_Dependency1 :: string
  cme_Dependency2 :: string
  cme_CompatibleVersions :: "string list"
  cme_IncompatibleVersions :: "string list"
  cme_Notes :: string

record regression_testing_config =
  rtc2_Enabled :: bool
  rtc2_BaselineVersion :: string
  rtc2_TestSuites :: "string list"
  rtc2_AutomatedRegression :: bool
  rtc2_ManualRegressionChecklist :: "string list"
  rtc2_RegressionThreshold :: float64
  rtc2_TestEnvironment :: string

record compatibility_check_config =
  ccc_Enabled :: bool
  ccc_MatrixTesting :: matrix_testing_config
  ccc_DependencyGraphAnalysis :: bool
  ccc_ConflictDetection :: conflict_detection_config
  ccc_IntegrationTesting :: integration_testing_config
  ccc_PerformanceImpactAnalysis :: bool
  ccc_SecurityImpactAnalysis :: bool
  ccc_CompatibilityMatrix :: "compatibility_matrix_entry list"
  ccc_RegressionTesting :: regression_testing_config

record rollback_trigger =
  rt2_Type :: string
  rt2_Condition :: string
  rt2_Threshold :: float64
  rt2_Parameters :: "(string, go_any) gomap"

record manual_rollback_procedure =
  mrp_Documentation :: string
  mrp_RequiredSteps :: "string list"
  mrp_VerificationSteps :: "string list"
  mrp_EmergencyContacts :: "string list"

record rollback_health_check =
  hlc_Name :: string
  hlc_Type :: string
  hlc_Endpoint :: string
  hlc_Timeout :: int
  hlc_Required :: bool

record data_migration_handling =
  dmh_BackupRequired :: bool
  dmh_RollbackSupported :: bool
  dmh_MigrationSteps :: "string list"
  dmh_ValidationSteps :: "string list"

record rollback_notification_plan =
  rnp_Immediate :: "string list"
  rnp_PostRollback :: "string list"
  rnp_StakeholderUpdate :: "string list"
  rnp_DocumentationUpdate :: bool

record rollback_policy =
  rp2_Enabled :: bool
  rp2_AutoRollbackTriggers :: "rollback_trigger list"
  rp2_ManualRollbackProcedure :: manual_rollback_procedure
  rp2_RollbackTimeframe :: int
  rp2_HealthCheckRequirements :: "rollback_health_check list"
  rp2_RollbackApprovers :: "string list"
  rp2_DataMigrationHandling :: data_migration_handling
  rp2_NotificationPlan :: rollback_notification_plan
  rp2_PostRollbackAnalysis :: bool

record auto_approval_condition =
  aac_Type :: string
  aac_Field :: string
  aac_Operator :: string
  aac_Value :: go_any
  aac_Required :: bool

record approval_escalation_rule =
  aer_TriggerAfter :: int
  aer_EscalateTo :: "string list"
  aer_Action :: string
  aer_MaxEscalations :: int

record version_approval_rule =
  var_RequiredApprovers :: int
  var_RequiredApprovalTeams :: "string list"
  var_AutoApprovalConditions :: "auto_approval_condition list"
  var_ManualReviewRequired :: bool
  var_SecurityReviewRequired :: bool
  var_ArchitectureReviewRequired :: bool
  var_BusinessApprovalRequired :: bool
  var_TestingGateRequired :: bool
  var_WaitingPeriod :: int
  var_ApprovalTimeLimit :: int
  var_EscalationRules :: "approval_escalation_rule list"

record emergency_approval_rule =
  ear_Enabled :: bool
  ear_EmergencyApprovers :: "string list"
  ear_MaxEmergencyDuration :: int
  ear_PostEmergencyReview :: bool
  ear_JustificationRequired :: bool

record bulk_update_approval_rule =
  buar_MaxBulkSize :: int
  buar_RequiredApprovers :: int
  buar_StaggeredDeployment :: bool
  buar_TestingBatchSize :: int
  buar_CooldownPeriod :: int

record version_update_approval_requirements =
  vuar_MajorVersionUpdates :: version_approval_rule
  vuar_MinorVersionUpdates :: version_approval_rule
  vuar_PatchVersionUpdates :: version_approval_rule
  vuar_SecurityUpdates :: version_approval_rule
  vuar_PreReleaseUpdates :: version_approval_rule
  vuar_EmergencyUpdates :: emergency_approval_rule
  vuar_BulkUpdates :: bulk_update_approval_rule
  vuar_DependencySpecific :: "(string, version_approval_rule) gomap"

record version_notification_channel =
  vnc_Type :: string
  vnc_Target :: string
  vnc_Enabled :: bool
  vnc_EventFilter :: "string list"
  vnc_Template :: string
  vnc_Parameters :: "(string, string) gomap"

record notification_recipient =
  nr_Type :: string
  nr_Identifier :: string
  nr_EventTypes :: "string list"
  nr_Active :: bool

record version_policy_notification_config =
  vpnc_Enabled :: bool
  vpnc_Channels :: "version_notification_channel list"
  vpnc_EventTypes :: "string list"
  vpnc_NotificationTemplate :: string
  vpnc_Frequency :: string
  vpnc_Recipients :: "notification_recipient list"

record custom_test_suite =
  cts_Name :: string
  cts_Commands :: "string list"
  cts_Environment :: string
  cts_Timeout :: int
  cts_Required :: bool

record test_suite_configuration =
  tsc_DefaultSuites :: "string list"
  tsc_EcosystemSpecific :: "(string, string list) gomap"
  tsc_CustomSuites :: "custom_test_suite list"

record automated_testing_config =
  atc_Enabled :: bool
  atc_TriggerOnUpdate :: bool
  atc_ParallelExecution :: bool
  atc_MaxConcurrentTests :: int
  atc_TestEnvironments :: "string list"
  atc_NotificationOnFailure :: bool
  atc_AutoRetryOnFailure :: bool
  atc_MaxRetries :: int
  atc_TestResultsRetention :: int

record manual_testing_item =
  mti_ID :: string
  mti_Description :: string
  mti_Category :: string
  mti_Required :: bool
  mti_EstimatedTime :: int

record test_environment =
  tev_Name :: string
  tev_Type :: string
  tev_Configuration :: "(string, string) gomap"
  tev_Available :: bool
  tev_Priority :: int

record test_data_requirements =
  tdr_DataSets :: "string list"
  tdr_SyntheticData :: bool
  tdr_ProductionData :: bool
  tdr_DataMasking :: bool
  tdr_DataRetention :: int
  tdr_PrivacyCompliance :: bool

record testing_requirements =
  tr_Enabled :: bool
  tr_UnitTestingRequired :: bool
  tr_IntegrationTestingRequired :: bool
  tr_E2ETestingRequired :: bool
  tr_PerformanceTestingRequired :: bool
  tr_SecurityTestingRequired :: bool
  tr_MinimumTestCoverage :: float64
  tr_TestSuiteConfiguration :: test_suite_configuration
  tr_AutomatedTesting :: automated_testing_config
  tr_ManualTestingChecklist :: "manual_testing_item list"
  tr_TestEnvironments :: "test_environment list"
  tr_TestDataRequirements :: test_data_requirements

record release_schedule =
  rs2_Type :: string
  rs2_DaysOfWeek :: "string list"
  rs2_TimeOfDay :: string
  rs2_Timezone :: string
  rs2_StartDate :: int
  rs2_EndDate :: int
  rs2_Frequency :: string
  rs2_Duration :: int

record window_notification_settings =
  wns_Enabled :: bool
  wns_AdvanceNotice :: int
  wns_ReminderInterval :: int
  wns_NotificationChannels :: "string list"
  wns_Recipients :: "string list"

record blackout_period =
  bp2_Name :: string
  bp2_StartDate :: int
  bp2_EndDate :: int
  bp2_Recurring :: bool
  bp2_Description :: string

record emergency_override =
  eo_Enabled :: bool
  eo_AuthorizedUsers :: "string list"
  eo_JustificationRequired :: bool
  eo_AuditTrail :: bool
  eo_PostEmergencyReview :: bool

record release_window =
  rw_ID :: string
  rw_Name :: string
  rw_Description :: string
  rw_Enabled :: bool
  rw_Schedule :: release_schedule
  rw_AllowedUpdateTypes :: "string list"
  rw_RestrictedEcosystems :: "string list"
  rw_ApprovalRequired :: bool
  rw_Approvers :: "string list"
  rw_NotificationSettings :: window_notification_settings
  rw_BlackoutPeriods :: "blackout_period list"
  rw_EmergencyOverride :: emergency_override

record custom_metric =
  cm_Name :: string
  cm_Type :: string
  cm_Query :: string
  cm_Threshold :: float64
  cm_Alerting :: bool
  cm_Parameters :: "(string, string) gomap"

record metrics_tracking_config =
  mtc2_Enabled :: bool
  mtc2_MetricsCollectors :: "string list"
  mtc2_TrackingFrequency :: int
  mtc2_RetentionPeriod :: int
  mtc2_AlertingEnabled :: bool
  mtc2_DashboardEnabled :: bool
  mtc2_CustomMetrics :: "custom_metric list"

record dependency_version_policy =
  dvp_ID :: string
  dvp_Name :: string
  dvp_Organization :: string
  dvp_Description :: string
  dvp_Enabled :: bool
  dvp_VersionConstraints :: "(string, version_constraint_rule) gomap"
  dvp_EcosystemPolicies :: "(string, ecosystem_version_policy) gomap"
  dvp_BreakingChangePolicy :: breaking_change_policy
  dvp_CompatibilityChecks :: compatibility_check_config
  dvp_RollbackPolicy :: rollback_policy
  dvp_ApprovalRequirements :: version_update_approval_requirements
  dvp_NotificationSettings :: version_policy_notification_config
  dvp_TestingRequirements :: testing_requirements
  dvp_ReleaseWindows :: "release_window list"
  dvp_MetricsTracking :: metrics_tracking_config
  dvp_CreatedAt :: int
  dvp_UpdatedAt :: int
  dvp_Version :: int

section \<open>Zero values\<close>

definition zero_version_constraint_rule :: version_constraint_rule where
  "zero_version_constraint_rule =
     \<lparr>vcr_RuleID = [], vcr_DependencyPattern = [], vcr_Ecosystem = [], vcr_AllowedVersions = [],
      vcr_BlockedVersions = [], vcr_PreferredVersions = [], vcr_MinimumVersion = [],
      vcr_MaximumVersion = [], vcr_VersionPattern = [], vcr_AllowPrerelease = False,
      vcr_AllowBetaVersions = False, vcr_UpdateStrategy = [], vcr_AutoUpdateEnabled = False,
      vcr_UpdateFrequency = [], vcr_Priority = [], vcr_ExpirationDate = None, vcr_Justification = [],
      vcr_Exceptions = []\<rparr>"

definition zero_deprecation_policy :: deprecation_policy where
  "zero_deprecation_policy =
     \<lparr>dp2_AllowDeprecatedVersions = False, dp2_DeprecationWarningPeriod = 0,
      dp2_ForceUpgradeAfterEOL = False, dp2_EOLNotificationPeriod = 0\<rparr>"

definition zero_performance_requirements :: performance_requirements where
  "zero_performance_requirements =
     \<lparr>pr2_MaxPerformanceRegression = FNum 0, pr2_BenchmarkSuites = [],
      pr2_PerformanceThresholds = []\<rparr>"

definition zero_ecosystem_version_policy :: ecosystem_version_policy where
  "zero_ecosystem_version_policy =
     \<lparr>evp_Ecosystem = [], evp_Enabled = False, evp_DefaultUpdateStrategy = [],
      evp_AllowMajorUpdates = False, evp_AllowMinorUpdates = False, evp_AllowPatchUpdates = False,
      evp_RequireSecurityUpdates = False, evp_MaxVersionAge = 0,
      evp_DeprecationPolicy = zero_deprecation_policy, evp_LicenseRestrictions = [],
      evp_PerformanceRequirements = zero_performance_requirements, evp_QualityGates = [],
      evp_CustomValidationRules = []\<rparr>"

definition zero_threshold_config :: threshold_config where
  "zero_threshold_config =
     \<lparr>tc_MinorChangeThreshold = FNum 0, tc_MajorChangeThreshold = FNum 0,
      tc_BreakingChangeThreshold = FNum 0\<rparr>"

definition zero_breaking_change_detection :: breaking_change_detection where
  "zero_breaking_change_detection =
     \<lparr>bcd_Enabled = False, bcd_Methods = [], bcd_SemverStrictMode = False,
      bcd_APIChangeDetection = False, bcd_SchemaChangeDetection = False, bcd_CustomDetectionRules = [],
      bcd_IgnorePatterns = [], bcd_ThresholdConfiguration = zero_threshold_config\<rparr>"

definition zero_communication_plan :: communication_plan where
  "zero_communication_plan =
     \<lparr>cp_Channels = [], cp_NotificationTemplate = [], cp_EscalationContacts = [],
      cp_AdvanceNoticePeriod = 0\<rparr>"

definition zero_breaking_change_policy :: breaking_change_policy where
  "zero_breaking_change_policy =
     \<lparr>bcp_AllowBreakingChanges = False,
      bcp_BreakingChangeDetection = zero_breaking_change_detection, bcp_ImpactAnalysisRequired = False,
      bcp_DeprecationNoticePeriod = 0, bcp_MigrationGuidanceRequired = False,
      bcp_BackwardCompatibilityPeriod = 0, bcp_BreakingChangeApprovers = [],
      bcp_CommunicationPlan = zero_communication_plan\<rparr>"

definition zero_matrix_testing_config :: matrix_testing_config where
  "zero_matrix_testing_config =
     \<lparr>mtc_Enabled = False, mtc_OperatingSystems = [], mtc_RuntimeVersions = [],
      mtc_DatabaseVersions = [], mtc_BrowserVersions = [], mtc_CustomDimensions = []\<rparr>"

definition zero_conflict_detection_config :: conflict_detection_config where
  "zero_conflict_detection_config =
     \<lparr>cdc_Enabled = False, cdc_CheckTransitiveDependencies = False,
      cdc_ResolveConflictsAutomatically = False, cdc_ConflictResolutionStrategy = [],
      cdc_IgnoredConflicts = []\<rparr>"

definition zero_integration_testing_config :: integration_testing_config where
  "zero_integration_testing_config =
     \<lparr>itc_Enabled = False, itc_TestSuites = [], itc_RequiredCoverage = FNum 0, itc_Timeout = 0,
      itc_Environment = [], itc_PreTestSetup = [], itc_PostTestCleanup = [], itc_TestData = []\<rparr>"

definition zero_regression_testing_config :: regression_testing_config where
  "zero_regression_testing_config =
     \<lparr>rtc2_Enabled = False, rtc2_BaselineVersion = [], rtc2_TestSuites = [],
      rtc2_AutomatedRegression = False, rtc2_ManualRegressionChecklist = [],
      rtc2_RegressionThreshold = FNum 0, rtc2_TestEnvironment = []\<rparr>"

definition zero_compatibility_check_config :: compatibility_check_config where
  "zero_compatibility_check_config =
     \<lparr>ccc_Enabled = False, ccc_MatrixTesting = zero_matrix_testing_config,
      ccc_DependencyGraphAnalysis = False, ccc_ConflictDetection = zero_conflict_detection_config,
      ccc_IntegrationTesting = zero_integration_testing_config, ccc_PerformanceImpactAnalysis = False,
      ccc_SecurityImpactAnalysis = False, ccc_CompatibilityMatrix = [],
      ccc_RegressionTesting = zero_regression_testing_config\<rparr>"

definition zero_manual_rollback_procedure :: manual_rollback_procedure where
  "zero_manual_rollback_procedure =
     \<lparr>mrp_Documentation = [], mrp_RequiredSteps = [], mrp_VerificationSteps = [],
      mrp_EmergencyContacts = []\<rparr>"

definition zero_data_migration_handling :: data_migration_handling where
  "zero_data_migration_handling =
     \<lparr>dmh_BackupRequired = False, dmh_RollbackSupported = False, dmh_MigrationSteps = [],
      dmh_ValidationSteps = []\<rparr>"

definition zero_rollback_notification_plan :: rollback_notification_plan where
  "zero_rollback_notification_plan =
     \<lparr>rnp_Immediate = [], rnp_PostRollback = [], rnp_StakeholderUpdate = [],
      rnp_DocumentationUpdate = False\<rparr>"

definition zero_rollback_policy :: rollback_policy where
  "zero_rollback_policy =
     \<lparr>rp2_Enabled = False, rp2_AutoRollbackTriggers = [],
      rp2_ManualRollbackProcedure = zero_manual_rollback_procedure, rp2_RollbackTimeframe = 0,
      rp2_HealthCheckRequirements = [], rp2_RollbackApprovers = [],
      rp2_DataMigrationHandling = zero_data_migration_handling,
      rp2_NotificationPlan = zero_rollback_notification_plan, rp2_PostRollbackAnalysis = False\<rparr>"

definition zero_version_approval_rule :: version_approval_rule where
  "zero_version_approval_rule =
     \<lparr>var_RequiredApprovers = 0, var_RequiredApprovalTeams = [], var_AutoApprovalConditions = [],
      var_ManualReviewRequired = False, var_SecurityReviewRequired = False,
      var_ArchitectureReviewRequired = False, var_BusinessApprovalRequired = False,
      var_TestingGateRequired = False, var_WaitingPeriod = 0, var_ApprovalTimeLimit = 0,
      var_EscalationRules = []\<rparr>"

definition zero_emergency_approval_rule :: emergency_approval_rule where
  "zero_emergency_approval_rule =
     \<lparr>ear_Enabled = False, ear_EmergencyApprovers = [], ear_MaxEmergencyDuration = 0,
      ear_PostEmergencyReview = False, ear_JustificationRequired = False\<rparr>"

definition zero_bulk_update_approval_rule :: bulk_update_approval_rule where
  "zero_bulk_update_approval_rule =
     \<lparr>buar_MaxBulkSize = 0, buar_RequiredApprovers = 0, buar_StaggeredDeployment = False,
      buar_TestingBatchSize = 0, buar_CooldownPeriod = 0\<rparr>"

definition zero_version_update_approval_requirements :: version_update_approval_requirements where
  "zero_version_update_approval_requirements =
     \<lparr>vuar_MajorVersionUpdates = zero_version_approval_rule,
      vuar_MinorVersionUpdates = zero_version_approval_rule,
      vuar_PatchVersionUpdates = zero_version_approval_rule,
      vuar_SecurityUpdates = zero_version_approval_rule,
      vuar_PreReleaseUpdates = zero_version_approval_rule,
      vuar_EmergencyUpdates = zero_emergency_approval_rule,
      vuar_BulkUpdates = zero_bulk_update_approval_rule, vuar_DependencySpecific = []\<rparr>"

definition zero_version_policy_notification_config :: version_policy_notification_config where
  "zero_version_policy_notification_config =
     \<lparr>vpnc_Enabled = False, vpnc_Channels = [], vpnc_EventTypes = [],
      vpnc_NotificationTemplate = [], vpnc_Frequency = [], vpnc_Recipients = []\<rparr>"

definition zero_test_suite_configuration :: test_suite_configuration where
  "zero_test_suite_configuration =
     \<lparr>tsc_DefaultSuites = [], tsc_EcosystemSpecific = [], tsc_CustomSuites = []\<rparr>"

definition zero_automated_testing_config :: automated_testing_config where
  "zero_automated_testing_config =
     \<lparr>atc_Enabled = False, atc_TriggerOnUpdate = False, atc_ParallelExecution = False,
      atc_MaxConcurrentTests = 0, atc_TestEnvironments = [], atc_NotificationOnFailure = False,
      atc_AutoRetryOnFailure = False, atc_MaxRetries = 0, atc_TestResultsRetention = 0\<rparr>"

definition zero_test_data_requirements :: test_data_requirements where
  "zero_test_data_requirements =
     \<lparr>tdr_DataSets = [], tdr_SyntheticData = False, tdr_ProductionData = False,
      tdr_DataMasking = False, tdr_DataRetention = 0, tdr_PrivacyCompliance = False\<rparr>"

definition zero_testing_requirements :: testing_requirements where
  "zero_testing_requirements =
     \<lparr>tr_Enabled = False, tr_UnitTestingRequired = False, tr_IntegrationTestingRequired = False,
      tr_E2ETestingRequired = False, tr_PerformanceTestingRequired = False,
      tr_SecurityTestingRequired = False, tr_MinimumTestCoverage = FNum 0,
      tr_TestSuiteConfiguration = zero_test_suite_configuration,
      tr_AutomatedTesting = zero_automated_testing_config, tr_ManualTestingChecklist = [],
      tr_TestEnvironments = [], tr_TestDataRequirements = zero_test_data_requirements\<rparr>"

definition zero_metrics_tracking_config :: metrics_tracking_config where
  "zero_metrics_tracking_config =
     \<lparr>mtc2_Enabled = False, mtc2_MetricsCollectors = [], mtc2_TrackingFrequency = 0,
      mtc2_RetentionPeriod = 0, mtc2_AlertingEnabled = False, mtc2_DashboardEnabled = False,
      mtc2_CustomMetrics = []\<rparr>"

definition zero_dependency_version_policy :: dependency_version_policy where
  "zero_dependency_version_policy =
     \<lparr>dvp_ID = [], dvp_Name = [], dvp_Organization = [], dvp_Description = [],
      dvp_Enabled = False, dvp_VersionConstraints = [], dvp_EcosystemPolicies = [],
      dvp_BreakingChangePolicy = zero_breaking_change_policy,
      dvp_CompatibilityChecks = zero_compatibility_check_config,
      dvp_RollbackPolicy = zero_rollback_policy,
      dvp_ApprovalRequirements = zero_version_update_approval_requirements,
      dvp_NotificationSettings = zero_version_policy_notification_config,
      dvp_TestingRequirements = zero_testing_requirements, dvp_ReleaseWindows = [],
      dvp_MetricsTracking = zero_metrics_tracking_config, dvp_CreatedAt = 0, dvp_UpdatedAt = 0,
      dvp_Version = 0\<rparr>"

end
