(* ===== verification/VersionTypes.thy ===== *)
theory VersionTypes
  imports VersionConfig
begin

text \<open>
  What the analysis of a dependency update produces, \<open>pkg/github/dependency_version_policy.go\<close>,
  and the zero values its composite literals leave in the fields they do not name.
\<close>

record version_constraint_check_result =
  vccr_DependencyName :: string
  vccr_ProposedVersion :: string
  vccr_Ecosystem :: string
  vccr_Allowed :: bool
  vccr_ViolatedConstraints :: "string list"
  vccr_AppliedRules :: "string list"
  vccr_CheckedAt :: int

record compatibility_issue =
  ci_Type :: string
  ci_Severity :: string
  ci_Description :: string
  ci_Solution :: string

record compatibility_test_result =
  ctr_TestName :: string
  ctr_Passed :: bool
  ctr_Details :: string

record compatibility_analysis_result =
  car_Compatible :: bool
  car_Issues :: "compatibility_issue list"
  car_ChecksSkipped :: bool
  car_Reason :: string
  car_TestResults :: "compatibility_test_result list"

record security_impact_analysis =
  sia_SecurityImprovements :: bool
  sia_VulnerabilitiesFixed :: "string list"
  sia_NewVulnerabilities :: "string list"
  sia_SecurityScore :: float64
  sia_RiskLevel :: string
  sia_ChecksSkipped :: bool
  sia_Reason :: string

record benchmark_result =
  br2_TestName :: string
  br2_CurrentScore :: float64
  br2_NewScore :: float64
  br2_Change :: float64
  br2_Unit :: string

record performance_impact_analysis =
  pia_ExpectedImpact :: string
  pia_BenchmarkResults :: "benchmark_result list"
  pia_PerformanceRegression :: float64
  pia_RecommendedActions :: "string list"

record detected_change =
  dc_Type :: string
  dc_Description :: string
  dc_Severity :: string
  dc_Impact :: string

record breaking_change_analysis_result =
  bcar_HasBreakingChanges :: bool
  bcar_DetectedChanges :: "detected_change list"
  bcar_ImpactAssessment :: string
  bcar_MigrationRequired :: bool

record license_compatibility_result =
  lcr_Compatible :: bool
  lcr_LicenseChanges :: "string list"
  lcr_ConflictingLicenses :: "string list"
  lcr_RequiredActions :: "string list"

record dependency_risk_assessment =
  dra_OverallRisk :: string
  dra_RiskFactors :: "risk_factor list"
  dra_Mitigations :: "string list"
  dra_BusinessImpact :: string
  dra_TechnicalImpact :: string

record recommended_action =
  rca_Action :: string
  rca_Reason :: string
  rca_Priority :: string
  rca_Timeline :: string
  rca_Conditions :: "string list"
  rca_Metadata :: "(string, go_any) gomap"

record testing_recommendation =
  tr2_Type :: string
  tr2_Description :: string
  tr2_Priority :: string
  tr2_Automated :: bool

record rollback_step =
  rs3_Order :: int
  rs3_Description :: string
  rs3_Command :: string
  rs3_Validation :: string

record rollback_plan =
  rp3_Supported :: bool
  rp3_EstimatedTime :: int
  rp3_Steps :: "rollback_step list"
  rp3_RequiredApprovals :: "string list"
  rp3_DataBackupRequired :: bool

record timeline_phase =
  tp_Name :: string
  tp_Duration :: int
  tp_Description :: string
  tp_Required :: bool

record update_timeline =
  ut_EstimatedDuration :: int
  ut_Phases :: "timeline_phase list"
  ut_Dependencies :: "string list"
  ut_Blockers :: "string list"

record approval_step =
  as2_Type :: string
  as2_Description :: string
  as2_Approvers :: "string list"
  as2_Required :: bool
  as2_Timeout :: int

record approval_workflow =
  aw_Required :: bool
  aw_Steps :: "approval_step list"
  aw_EstimatedTime :: int
  aw_AutoApprovalEligible :: bool

record dependency_version_analysis =
  dva_DependencyName :: string
  dva_Ecosystem :: string
  dva_CurrentVersion :: string
  dva_ProposedVersion :: string
  dva_UpdateType :: string
  dva_VersionConstraintCheck :: version_constraint_check_result
  dva_CompatibilityAnalysis :: compatibility_analysis_result
  dva_SecurityImpact :: security_impact_analysis
  dva_PerformanceImpact :: performance_impact_analysis
  dva_BreakingChangeAnalysis :: breaking_change_analysis_result
  dva_LicenseCompatibility :: license_compatibility_result
  dva_RiskAssessment :: dependency_risk_assessment
  dva_RecommendedAction :: recommended_action
  dva_TestingRecommendations :: "testing_recommendation list"
  dva_RollbackPlan :: rollback_plan
  dva_Timeline :: update_timeline
  dva_ApprovalWorkflow :: approval_workflow

record dependency_update =
  du_Name :: string
  du_Ecosystem :: string
  du_CurrentVersion :: string
  du_ProposedVersion :: string

record dependency_update_rejection =
  dur_Update :: dependency_update
  dur_Reason :: string

record version_constraint_application_result =
  vcar_PolicyID :: string
  vcar_TotalUpdates :: int
  vcar_ApprovedUpdates :: "dependency_update list"
  vcar_RejectedUpdates :: "dependency_update_rejection list"
  vcar_PendingReview :: "dependency_update list"
  vcar_ApprovedCount :: int
  vcar_RejectedCount :: int
  vcar_PendingReviewCount :: int
  vcar_ProcessedAt :: int

record constraint_evaluation_result =
  cer_Satisfied :: bool
  cer_ViolatedConstraints :: "string list"
  cer_EvaluatedAt :: int

section \<open>Zero values\<close>

definition zero_version_constraint_check_result :: version_constraint_check_result where
  "zero_version_constraint_check_result =
     \<lparr>vccr_DependencyName = [], vccr_ProposedVersion = [], vccr_Ecosystem = [],
      vccr_Allowed = False, vccr_ViolatedConstraints = [], vccr_AppliedRules = [],
      vccr_CheckedAt = 0\<rparr>"

definition zero_compatibility_analysis_result :: compatibility_analysis_result where
  "zero_compatibility_analysis_result =
     \<lparr>car_Compatible = False, car_Issues = [], car_ChecksSkipped = False, car_Reason = [],
      car_TestResults = []\<rparr>"

definition zero_security_impact_analysis :: security_impact_analysis where
  "zero_security_impact_analysis =
     \<lparr>sia_SecurityImprovements = False, sia_VulnerabilitiesFixed = [],
      sia_NewVulnerabilities = [], sia_SecurityScore = FNum 0, sia_RiskLevel = [],
      sia_ChecksSkipped = False, sia_Reason = []\<rparr>"

definition zero_performance_impact_analysis :: performance_impact_analysis where
  "zero_performance_impact_analysis =
     \<lparr>pia_ExpectedImpact = [], pia_BenchmarkResults = [], pia_PerformanceRegression = FNum 0,
      pia_RecommendedActions = []\<rparr>"

definition zero_breaking_change_analysis_result :: breaking_change_analysis_result where
  "zero_breaking_change_analysis_result =
     \<lparr>bcar_HasBreakingChanges = False, bcar_DetectedChanges = [], bcar_ImpactAssessment = [],
      bcar_MigrationRequired = False\<rparr>"

definition zero_license_compatibility_result :: license_compatibility_result where
  "zero_license_compatibility_result =
     \<lparr>lcr_Compatible = False, lcr_LicenseChanges = [], lcr_ConflictingLicenses = [],
      lcr_RequiredActions = []\<rparr>"

definition zero_dependency_risk_assessment :: dependency_risk_assessment where
  "zero_dependency_risk_assessment =
     \<lparr>dra_OverallRisk = [], dra_RiskFactors = [], dra_Mitigations = [], dra_BusinessImpact = [],
      dra_TechnicalImpact = []\<rparr>"

definition zero_recommended_action :: recommended_action where
  "zero_recommended_action =
     \<lparr>rca_Action = [], rca_Reason = [], rca_Priority = [], rca_Timeline = [],
      rca_Conditions = [], rca_Metadata = []\<rparr>"

definition zero_rollback_plan :: rollback_plan where
  "zero_rollback_plan =
     \<lparr>rp3_Supported = False, rp3_EstimatedTime = 0, rp3_Steps = [], rp3_RequiredApprovals = [],
      rp3_DataBackupRequired = False\<rparr>"

definition zero_update_timeline :: update_timeline where
  "zero_update_timeline =
     \<lparr>ut_EstimatedDuration = 0, ut_Phases = [], ut_Dependencies = [], ut_Blockers = []\<rparr>"

definition zero_approval_workflow :: approval_workflow where
  "zero_approval_workflow =
     \<lparr>aw_Required = False, aw_Steps = [], aw_EstimatedTime = 0,
      aw_AutoApprovalEligible = False\<rparr>"

definition zero_dependency_version_analysis :: dependency_version_analysis where
  "zero_dependency_version_analysis =
     \<lparr>dva_DependencyName = [], dva_Ecosystem = [], dva_CurrentVersion = [],
      dva_ProposedVersion = [], dva_UpdateType = [],
      dva_VersionConstraintCheck = zero_version_constraint_check_result,
      dva_CompatibilityAnalysis = zero_compatibility_analysis_result,
      dva_SecurityImpact = zero_security_impact_analysis,
      dva_PerformanceImpact = zero_performance_impact_analysis,
      dva_BreakingChangeAnalysis = zero_breaking_change_analysis_result,
      dva_LicenseCompatibility = zero_license_compatibility_result,
      dva_RiskAssessment = zero_dependency_risk_assessment,
      dva_RecommendedAction = zero_recommended_action, dva_TestingRecommendations = [],
      dva_RollbackPlan = zero_rollback_plan, dva_Timeline = zero_update_timeline,
      dva_ApprovalWorkflow = zero_approval_workflow\<rparr>"

definition zero_version_constraint_application_result :: version_constraint_application_result where
  "zero_version_constraint_application_result =
     \<lparr>vcar_PolicyID = [], vcar_TotalUpdates = 0, vcar_ApprovedUpdates = [],
      vcar_RejectedUpdates = [], vcar_PendingReview = [], vcar_ApprovedCount = 0,
      vcar_RejectedCount = 0, vcar_PendingReviewCount = 0, vcar_ProcessedAt = 0\<rparr>"

end
