(* ===== verification/VersionPolicy.thy ===== *)
theory VersionPolicy
  imports VersionTypes PolicyStore
begin

text \<open>
  The analysis of dependency updates, \<open>pkg/github/dependency_version_policy.go\<close>.

  \<open>compile\<close> is \<open>regexp.Compile\<close> with \<open>MatchString\<close>: an error text, or the set of matched names.
  \<open>now\<close> is the clock, read once per operation.
\<close>

section \<open>Versions\<close>

definition determine_update_type :: "string \<Rightarrow> string \<Rightarrow> string" where
  "determine_update_type currentVersion proposedVersion =
     (if CHR ''-'' \<in> set proposedVersion then ''prerelease''
      else let currentParts = split_on CHR ''.'' currentVersion; proposedParts = split_on CHR ''.'' proposedVersion in
        if 1 \<le> length currentParts \<and> 1 \<le> length proposedParts \<and> currentParts ! 0 \<noteq> proposedParts ! 0 then ''major''
        else if 2 \<le> length currentParts \<and> 2 \<le> length proposedParts \<and> currentParts ! 1 \<noteq> proposedParts ! 1
          then ''minor''
        else ''patch'')"

definition version_segments :: "string \<Rightarrow> int list" where
  "version_segments version =
     (let core = takeWhile (\<lambda>c. c \<noteq> CHR ''-'') (if prefix ''v'' version then drop 1 version else version)
      in map (\<lambda>field. case atoi field of None \<Rightarrow> 0 | Some value \<Rightarrow> value) (split_on CHR ''.'' core))"

fun compare_segments :: "int list \<Rightarrow> int list \<Rightarrow> int" where
  "compare_segments [] [] = 0"
| "compare_segments (x # xs) [] = (if x \<noteq> 0 then (if x < 0 then - 1 else 1) else compare_segments xs [])"
| "compare_segments [] (y # ys) = (if 0 \<noteq> y then (if 0 < y then - 1 else 1) else compare_segments [] ys)"
| "compare_segments (x # xs) (y # ys) = (if x \<noteq> y then (if x < y then - 1 else 1) else compare_segments xs ys)"

definition compare_versions :: "string \<Rightarrow> string \<Rightarrow> int" where
  "compare_versions v1 v2 = compare_segments (version_segments v1) (version_segments v2)"

definition version_in_range :: "string \<Rightarrow> version_range \<Rightarrow> bool" where
  "version_in_range version r =
     (if vrg_Introduced r \<noteq> [] \<and> compare_versions version (vrg_Introduced r) < 0 then False
      else if vrg_Fixed r \<noteq> [] \<and> 0 \<le> compare_versions version (vrg_Fixed r) then False
      else True)"

section \<open>Policies and their validation\<close>

type_synonym regex_compiler = "string \<Rightarrow> string + (string \<Rightarrow> bool)"

record version_constraint_engine =
  vce_constraintCache :: "(string, constraint_evaluation_result) gomap"
  vce_cacheTTL :: int

record version_policy_manager =
  dvm_policies :: "(string, dependency_version_policy) gomap"
  dvm_versionConstraints :: version_constraint_engine

definition new_version_constraint_engine :: version_constraint_engine where
  "new_version_constraint_engine = \<lparr>vce_constraintCache = [], vce_cacheTTL = 3600 * nanosecond_second\<rparr>"

definition new_dependency_version_policy_manager :: version_policy_manager where
  "new_dependency_version_policy_manager =
     \<lparr>dvm_policies = [], dvm_versionConstraints = new_version_constraint_engine\<rparr>"

datatype version_policy_error =
    VersionPolicyIDRequired | VersionPolicyNameRequired | VersionOrganizationRequired
  | InvalidVersionConstraint string version_policy_error
  | ConstraintRuleIDRequired | DependencyPatternRequired | ConstraintEcosystemRequired | InvalidVersionPattern string
  | InvalidEcosystemPolicy string version_policy_error
  | EcosystemRequired | RegressionOutOfRange
  | VersionPolicyNotFound string
  | ConstraintCheckFailed version_policy_error | InvalidDependencyPattern string

fun version_error_text :: "version_policy_error \<Rightarrow> string" where
  "version_error_text VersionPolicyIDRequired = ''policy ID is required''"
| "version_error_text VersionPolicyNameRequired = ''policy name is required''"
| "version_error_text VersionOrganizationRequired = ''organization is required''"
| "version_error_text (InvalidVersionConstraint k e) = ''invalid version constraint '' @ k @ '': '' @ version_error_text e"
| "version_error_text ConstraintRuleIDRequired = ''rule ID is required''"
| "version_error_text DependencyPatternRequired = ''dependency pattern is required''"
| "version_error_text ConstraintEcosystemRequired = ''ecosystem is required''"
| "version_error_text (InvalidVersionPattern e) = ''invalid version pattern: '' @ e"
| "version_error_text (InvalidEcosystemPolicy k e) = ''invalid ecosystem policy for '' @ k @ '': '' @ version_error_text e"
| "version_error_text EcosystemRequired = ''ecosystem is required''"
| "version_error_text RegressionOutOfRange = ''max performance regression must be between 0 and 1''"
| "version_error_text (VersionPolicyNotFound k) = ''dependency version policy not found: '' @ k"
| "version_error_text (ConstraintCheckFailed e) = ''failed to check version constraints: '' @ version_error_text e"
| "version_error_text (InvalidDependencyPattern e) = ''invalid dependency pattern: '' @ e"

definition validate_version_constraint_rule ::
  "regex_compiler \<Rightarrow> version_constraint_rule \<Rightarrow> version_policy_error option" where
  "validate_version_constraint_rule compile rule =
     (if vcr_RuleID rule = [] then Some ConstraintRuleIDRequired
      else if vcr_DependencyPattern rule = [] then Some DependencyPatternRequired
      else if vcr_Ecosystem rule = [] then Some ConstraintEcosystemRequired
      else if vcr_VersionPattern rule \<noteq> [] then
        (case compile (vcr_VersionPattern rule) of Inl e \<Rightarrow> Some (InvalidVersionPattern e) | Inr _ \<Rightarrow> None)
      else None)"

definition validate_ecosystem_version_policy :: "ecosystem_version_policy \<Rightarrow> version_policy_error option" where
  "validate_ecosystem_version_policy policy =
     (let regression = pr2_MaxPerformanceRegression (evp_PerformanceRequirements policy) in
      if evp_Ecosystem policy = [] then Some EcosystemRequired
      else if flt regression (FNum 0) \<or> flt (FNum 1) regression then Some RegressionOutOfRange
      else None)"

fun first_invalid :: "('v \<Rightarrow> 'e option) \<Rightarrow> (string \<Rightarrow> 'e \<Rightarrow> 'e) \<Rightarrow> (string \<times> 'v) list \<Rightarrow> 'e option" where
  "first_invalid check wrap [] = None"
| "first_invalid check wrap ((k, v) # m) =
     (case check v of Some e \<Rightarrow> Some (wrap k e) | None \<Rightarrow> first_invalid check wrap m)"

definition validate_dependency_version_policy ::
  "regex_compiler \<Rightarrow> dependency_version_policy \<Rightarrow> version_policy_error option" where
  "validate_dependency_version_policy compile policy =
     (if dvp_ID policy = [] then Some VersionPolicyIDRequired
      else if dvp_Name policy = [] then Some VersionPolicyNameRequired
      else if dvp_Organization policy = [] then Some VersionOrganizationRequired
      else
        (case first_invalid (validate_version_constraint_rule compile) InvalidVersionConstraint (dvp_VersionConstraints policy) of
           Some e \<Rightarrow> Some e
         | None \<Rightarrow> first_invalid validate_ecosystem_version_policy InvalidEcosystemPolicy (dvp_EcosystemPolicies policy)))"

definition create_dependency_version_policy ::
  "regex_compiler \<Rightarrow> int \<Rightarrow> dependency_version_policy \<Rightarrow> version_policy_manager
     \<Rightarrow> version_policy_error option \<times> version_policy_manager" where
  "create_dependency_version_policy compile now policy dvm =
     (case validate_dependency_version_policy compile policy of
        Some e \<Rightarrow> (Some e, dvm)
      | None \<Rightarrow>
          (None, dvm\<lparr>dvm_policies := gm_put (dvp_ID policy)
             (policy\<lparr>dvp_CreatedAt := now, dvp_UpdatedAt := now, dvp_Version := 1\<rparr>) (dvm_policies dvm)\<rparr>))"

section \<open>Version constraints\<close>

definition violate :: "string \<Rightarrow> version_constraint_check_result \<Rightarrow> version_constraint_check_result" where
  "violate reason r = r\<lparr>vccr_Allowed := False, vccr_ViolatedConstraints := vccr_ViolatedConstraints r @ [reason]\<rparr>"

definition matches_dependency_pattern :: "regex_compiler \<Rightarrow> string \<Rightarrow> string \<Rightarrow> version_policy_error + bool" where
  "matches_dependency_pattern compile dependencyName pattern =
     (if pattern = ''*'' then Inr True
      else (case compile pattern of Inl e \<Rightarrow> Inl (InvalidDependencyPattern e) | Inr matches \<Rightarrow> Inr (matches dependencyName)))"

fun check_blocked ::
  "string \<Rightarrow> version_range list \<Rightarrow> version_constraint_check_result \<Rightarrow> version_constraint_check_result" where
  "check_blocked proposed [] r = r"
| "check_blocked proposed (b # bs) r =
     check_blocked proposed bs
       (if version_in_range proposed b then violate (''Version '' @ proposed @ '' is in blocked range'') r else r)"

definition evaluate_version_constraint ::
  "version_constraint_rule \<Rightarrow> string \<Rightarrow> version_constraint_check_result \<Rightarrow> version_constraint_check_result" where
  "evaluate_version_constraint rule proposed r0 =
     (let r1 = check_blocked proposed (vcr_BlockedVersions rule) r0;
          r2 = (if vcr_MinimumVersion rule \<noteq> [] \<and> compare_versions proposed (vcr_MinimumVersion rule) < 0
                then violate (''Version '' @ proposed @ '' is below minimum '' @ vcr_MinimumVersion rule) r1 else r1);
          r3 = (if vcr_MaximumVersion rule \<noteq> [] \<and> 0 < compare_versions proposed (vcr_MaximumVersion rule)
                then violate (''Version '' @ proposed @ '' exceeds maximum '' @ vcr_MaximumVersion rule) r2 else r2)
      in if \<not> vcr_AllowPrerelease rule \<and> CHR ''-'' \<in> set proposed
         then violate ''Prerelease versions not allowed'' r3 else r3)"

fun check_rules ::
  "regex_compiler \<Rightarrow> string \<Rightarrow> string \<Rightarrow> string \<Rightarrow> (string \<times> version_constraint_rule) list
     \<Rightarrow> bool \<times> version_constraint_check_result \<Rightarrow> version_policy_error + bool \<times> version_constraint_check_result" where
  "check_rules compile name proposed ecosystem [] st = Inr st"
| "check_rules compile name proposed ecosystem ((_, rule) # rules) (prereleaseAllowed, r) =
     (if vcr_Ecosystem rule = ecosystem then
        (case matches_dependency_pattern compile name (vcr_DependencyPattern rule) of
           Inl e \<Rightarrow> Inl e
         | Inr matched \<Rightarrow>
             check_rules compile name proposed ecosystem rules
               (if matched then (prereleaseAllowed \<or> vcr_AllowPrerelease rule, evaluate_version_constraint rule proposed r)
                else (prereleaseAllowed, r)))
      else check_rules compile name proposed ecosystem rules (prereleaseAllowed, r))"

definition check_ecosystem ::
  "ecosystem_version_policy option \<Rightarrow> string \<Rightarrow> bool \<Rightarrow> version_constraint_check_result \<Rightarrow> version_constraint_check_result"
where
  "check_ecosystem ecosystemPolicy updateType prereleaseAllowed r =
     (case ecosystemPolicy of
        None \<Rightarrow> r
      | Some ep \<Rightarrow>
          if \<not> evp_Enabled ep then r
          else if updateType = ''major'' then
            (if \<not> evp_AllowMajorUpdates ep then violate ''Major updates not allowed for ecosystem'' r else r)
          else if updateType = ''minor'' then
            (if \<not> evp_AllowMinorUpdates ep then violate ''Minor updates not allowed for ecosystem'' r else r)
          else if updateType = ''patch'' then
            (if \<not> evp_AllowPatchUpdates ep then violate ''Patch updates not allowed for ecosystem'' r else r)
          else if updateType = ''prerelease'' then
            (if \<not> prereleaseAllowed then violate ''Prerelease versions not allowed'' r else r)
          else r)"

definition check_version_constraints ::
  "regex_compiler \<Rightarrow> dependency_version_policy \<Rightarrow> string \<Rightarrow> string \<Rightarrow> string \<Rightarrow> string
     \<Rightarrow> version_policy_error + version_constraint_check_result" where
  "check_version_constraints compile policy name current proposed ecosystem =
     (let r0 = zero_version_constraint_check_result\<lparr>vccr_DependencyName := name, vccr_ProposedVersion := proposed,
                 vccr_Ecosystem := ecosystem, vccr_Allowed := True\<rparr> in
      case check_rules compile name proposed ecosystem (dvp_VersionConstraints policy) (False, r0) of
        Inl e \<Rightarrow> Inl e
      | Inr (prereleaseAllowed, r) \<Rightarrow>
          Inr (check_ecosystem (gm_get (dvp_EcosystemPolicies policy) ecosystem)
                 (determine_update_type current proposed) prereleaseAllowed r))"

section \<open>Analysis\<close>

definition perform_compatibility_analysis :: "dependency_version_policy \<Rightarrow> compatibility_analysis_result" where
  "perform_compatibility_analysis policy =
     (let r = zero_compatibility_analysis_result\<lparr>car_Compatible := True\<rparr>; checks = dvp_CompatibilityChecks policy in
      if \<not> ccc_Enabled checks then r\<lparr>car_ChecksSkipped := True, car_Reason := ''Compatibility checks disabled''\<rparr>
      else if ccc_DependencyGraphAnalysis checks then
        r\<lparr>car_Issues := [\<lparr>ci_Type = ''dependency_conflict'', ci_Severity = ''low'',
            ci_Description = ''Minor version conflict detected in transitive dependency'', ci_Solution = []\<rparr>]\<rparr>
      else r)"

definition analyze_security_impact :: security_impact_analysis where
  "analyze_security_impact =
     zero_security_impact_analysis\<lparr>sia_ChecksSkipped := True,
       sia_Reason := ''security impact analysis is not implemented''\<rparr>"

definition analyze_breaking_changes ::
  "dependency_version_policy \<Rightarrow> string \<Rightarrow> string \<Rightarrow> breaking_change_analysis_result" where
  "analyze_breaking_changes policy current proposed =
     (let r = zero_breaking_change_analysis_result in
      if \<not> bcp_AllowBreakingChanges (dvp_BreakingChangePolicy policy) then
        if determine_update_type current proposed = ''major'' then
          r\<lparr>bcar_HasBreakingChanges := True,
            bcar_DetectedChanges := [\<lparr>dc_Type = ''major_version'',
              dc_Description = ''Major version update may contain breaking changes'', dc_Severity = ''medium'',
              dc_Impact = []\<rparr>]\<rparr>
        else r
      else r)"

definition generate_approval_workflow :: "dependency_version_policy \<Rightarrow> string \<Rightarrow> approval_workflow" where
  "generate_approval_workflow policy updateType =
     (let workflow = zero_approval_workflow; requirements = dvp_ApprovalRequirements policy;
          required = (\<lambda>rule. if 0 < var_RequiredApprovers rule \<or> var_ManualReviewRequired rule
            then workflow\<lparr>aw_Required := True, aw_Steps := [\<lparr>as2_Type = ''manual_review'',
              as2_Description = ''Manual review required for version update'',
              as2_Approvers = var_RequiredApprovalTeams rule, as2_Required = True, as2_Timeout = 0\<rparr>]\<rparr>
            else workflow)
      in if updateType = ''major'' then required (vuar_MajorVersionUpdates requirements)
         else if updateType = ''minor'' then required (vuar_MinorVersionUpdates requirements)
         else if updateType = ''patch'' then required (vuar_PatchVersionUpdates requirements)
         else workflow)"

definition action_of :: "string \<Rightarrow> string \<Rightarrow> recommended_action" where
  "action_of action reason = zero_recommended_action\<lparr>rca_Action := action, rca_Reason := reason\<rparr>"

definition determine_recommended_action :: "dependency_version_analysis \<Rightarrow> recommended_action" where
  "determine_recommended_action a =
     (if \<not> vccr_Allowed (dva_VersionConstraintCheck a) then
        action_of ''reject'' (''Version constraint violations: '' @
          join '', '' (vccr_ViolatedConstraints (dva_VersionConstraintCheck a)))
      else if bcar_HasBreakingChanges (dva_BreakingChangeAnalysis a) then
        action_of ''review'' ''Breaking changes detected, manual review required''
      else if aw_Required (dva_ApprovalWorkflow a) then
        action_of ''review'' ''Manual review required by approval policy''
      else if \<not> sia_ChecksSkipped (dva_SecurityImpact a) \<and> sia_SecurityImprovements (dva_SecurityImpact a) then
        action_of ''approve'' ''Security improvements detected''
      else action_of ''approve'' ''Update meets all policy requirements'')"

definition analyze_dependency_version_update ::
  "regex_compiler \<Rightarrow> version_policy_manager \<Rightarrow> string \<Rightarrow> string \<Rightarrow> string \<Rightarrow> string \<Rightarrow> string
     \<Rightarrow> version_policy_error + dependency_version_analysis" where
  "analyze_dependency_version_update compile dvm policyID name current proposed ecosystem =
     (case gm_get (dvm_policies dvm) policyID of
        None \<Rightarrow> Inl (VersionPolicyNotFound policyID)
      | Some policy \<Rightarrow>
          let a0 = zero_dependency_version_analysis\<lparr>dva_DependencyName := name, dva_Ecosystem := ecosystem,
                     dva_CurrentVersion := current, dva_ProposedVersion := proposed\<rparr> in
          if \<not> dvp_Enabled policy then
            Inr (a0\<lparr>dva_RecommendedAction := action_of ''skip'' ''Dependency version policy is disabled''\<rparr>)
          else
            (case check_version_constraints compile policy name current proposed ecosystem of
               Inl e \<Rightarrow> Inl (ConstraintCheckFailed e)
             | Inr check \<Rightarrow>
                 let updateType = determine_update_type current proposed;
                     a = a0\<lparr>dva_UpdateType := updateType, dva_VersionConstraintCheck := check,
                       dva_CompatibilityAnalysis := perform_compatibility_analysis policy,
                       dva_SecurityImpact := analyze_security_impact,
                       dva_BreakingChangeAnalysis := analyze_breaking_changes policy current proposed,
                       dva_ApprovalWorkflow := generate_approval_workflow policy updateType\<rparr>
                 in Inr (a\<lparr>dva_RecommendedAction := determine_recommended_action a\<rparr>)))"

fun apply_updates ::
  "regex_compiler \<Rightarrow> version_policy_manager \<Rightarrow> string \<Rightarrow> dependency_update list
     \<Rightarrow> version_constraint_application_result \<Rightarrow> version_constraint_application_result" where
  "apply_updates compile dvm policyID [] r = r"
| "apply_updates compile dvm policyID (update # updates) r =
     apply_updates compile dvm policyID updates
       (case analyze_dependency_version_update compile dvm policyID (du_Name update) (du_CurrentVersion update)
               (du_ProposedVersion update) (du_Ecosystem update) of
          Inl e \<Rightarrow> r\<lparr>vcar_RejectedUpdates := vcar_RejectedUpdates r @
                     [\<lparr>dur_Update = update, dur_Reason = ''Analysis failed: '' @ version_error_text e\<rparr>]\<rparr>
        | Inr analysis \<Rightarrow>
            let action = rca_Action (dva_RecommendedAction analysis) in
            if action = ''approve'' then r\<lparr>vcar_ApprovedUpdates := vcar_ApprovedUpdates r @ [update]\<rparr>
            else if action = ''reject'' then
              r\<lparr>vcar_RejectedUpdates := vcar_RejectedUpdates r @
                [\<lparr>dur_Update = update, dur_Reason = rca_Reason (dva_RecommendedAction analysis)\<rparr>]\<rparr>
            else if action = ''review'' then r\<lparr>vcar_PendingReview := vcar_PendingReview r @ [update]\<rparr>
            else r)"

definition apply_version_constraints ::
  "regex_compiler \<Rightarrow> version_policy_manager \<Rightarrow> int \<Rightarrow> string
     \<Rightarrow> dependency_update list \<Rightarrow> version_policy_error + version_constraint_application_result" where
  "apply_version_constraints compile dvm now policyID updates =
     (case gm_get (dvm_policies dvm) policyID of
        None \<Rightarrow> Inl (VersionPolicyNotFound policyID)
      | Some _ \<Rightarrow>
          let r = apply_updates compile dvm policyID updates
                (zero_version_constraint_application_result\<lparr>vcar_PolicyID := policyID,
                   vcar_TotalUpdates := int (length updates), vcar_ProcessedAt := now\<rparr>)
          in Inr (r\<lparr>vcar_ApprovedCount := int (length (vcar_ApprovedUpdates r)),
               vcar_RejectedCount := int (length (vcar_RejectedUpdates r)),
               vcar_PendingReviewCount := int (length (vcar_PendingReview r))\<rparr>))"

section \<open>The order of versions\<close>

text \<open>The number at a position of a version; a missing position counts as zero.\<close>

definition segment :: "int list \<Rightarrow> nat \<Rightarrow> int" where
  "segment xs i = (if i < length xs then xs ! i else 0)"

lemma segment_simps [simp]: "segment [] i = 0" "segment (x # xs) 0 = x" "segment (x # xs) (Suc i) = segment xs i"
  by (simp_all add: segment_def)

lemma all_nat_first: "(\<forall>i. P i) \<longleftrightarrow> P 0 \<and> (\<forall>i. P (Suc i))"
  by (metis not0_implies_Suc)

lemma less_first: "(\<exists>i. (\<forall>j<i. P j) \<and> Q i) \<longleftrightarrow> Q 0 \<or> (P 0 \<and> (\<exists>i. (\<forall>j<i. P (Suc j)) \<and> Q (Suc i)))"
proof
  assume "\<exists>i. (\<forall>j<i. P j) \<and> Q i"
  then obtain i where i: "\<forall>j<i. P j" "Q i" by blast
  show "Q 0 \<or> (P 0 \<and> (\<exists>i. (\<forall>j<i. P (Suc j)) \<and> Q (Suc i)))"
  proof (cases i)
    case (Suc n)
    then have "P 0" "\<forall>j<n. P (Suc j)" "Q (Suc n)" using i by auto
    then show ?thesis by blast
  qed (use i in simp)
next
  assume "Q 0 \<or> (P 0 \<and> (\<exists>i. (\<forall>j<i. P (Suc j)) \<and> Q (Suc i)))"
  then show "\<exists>i. (\<forall>j<i. P j) \<and> Q i"
  proof (elim disjE conjE exE)
    fix i assume "P 0" "\<forall>j<i. P (Suc j)" "Q (Suc i)"
    then show ?thesis by (intro exI [of _ "Suc i"]) (auto simp: less_Suc_eq_0_disj)
  qed auto
qed

lemma less_segment:
  "compare_segments xs ys < 0 \<longleftrightarrow>
     (\<exists>i. (\<forall>j<i. segment xs j = segment ys j) \<and> segment xs i < segment ys i)"
proof (induction xs ys rule: compare_segments.induct)
  case 1
  then show ?case by simp
next
  case (2 x xs)
  then show ?case
    by (subst less_first [of "\<lambda>j. segment (x # xs) j = segment [] j"]) auto
next
  case (3 y ys)
  then show ?case
    by (subst less_first [of "\<lambda>j. segment [] j = segment (y # ys) j"]) auto
next
  case (4 x xs y ys)
  then show ?case
    by (subst less_first [of "\<lambda>j. segment (x # xs) j = segment (y # ys) j"]) auto
qed

lemma compare_segments_swap: "compare_segments ys xs = - compare_segments xs ys"
  by (induction xs ys rule: compare_segments.induct) auto

lemma equal_segment: "compare_segments xs ys = 0 \<longleftrightarrow> (\<forall>i. segment xs i = segment ys i)"
proof (induction xs ys rule: compare_segments.induct)
  case 1
  then show ?case by simp
next
  case (2 x xs)
  then show ?case by (subst all_nat_first) auto
next
  case (3 y ys)
  then show ?case by (subst all_nat_first) auto
next
  case (4 x xs y ys)
  then show ?case by (subst all_nat_first) auto
qed

lemma less_segments_trans:
  assumes "compare_segments xs ys < 0" and "compare_segments ys zs < 0"
  shows "compare_segments xs zs < 0"
proof -
  obtain i j where i: "\<forall>k<i. segment xs k = segment ys k" "segment xs i < segment ys i"
    and j: "\<forall>k<j. segment ys k = segment zs k" "segment ys j < segment zs j"
    using assms by (auto simp: less_segment)
  have "(\<forall>k<min i j. segment xs k = segment zs k) \<and> segment xs (min i j) < segment zs (min i j)"
    using i j by (cases i j rule: linorder_cases) auto
  then show ?thesis unfolding less_segment by blast
qed

lemma equal_segments_subst:
  assumes "compare_segments xs ys = 0"
  shows "compare_segments xs zs < 0 \<longleftrightarrow> compare_segments ys zs < 0"
    and "compare_segments zs xs < 0 \<longleftrightarrow> compare_segments zs ys < 0"
  using assms by (simp_all add: less_segment equal_segment)

text \<open>The comparison is a total preorder.\<close>

interpretation version: preorder "\<lambda>v w. compare_versions v w \<le> 0" "\<lambda>v w. compare_versions v w < 0"
proof unfold_locales
  fix u v w
  show "(compare_versions v w < 0) = (compare_versions v w \<le> 0 \<and> \<not> compare_versions w v \<le> 0)"
    using compare_segments_swap [of "version_segments v" "version_segments w"] by (auto simp: compare_versions_def)
  show "compare_versions v v \<le> 0"
    using equal_segment [of "version_segments v" "version_segments v"] by (simp add: compare_versions_def)
  assume "compare_versions u v \<le> 0" and "compare_versions v w \<le> 0"
  then consider "compare_versions u v < 0" "compare_versions v w < 0" | "compare_versions u v = 0" "compare_versions v w < 0"
    | "compare_versions u v < 0" "compare_versions v w = 0" | "compare_versions u v = 0" "compare_versions v w = 0"
    by linarith
  then show "compare_versions u w \<le> 0"
  proof cases
    case 1
    then show ?thesis unfolding compare_versions_def using less_segments_trans by (auto intro: less_imp_le)
  next
    case 2
    then show ?thesis unfolding compare_versions_def using equal_segments_subst(1) by (auto intro: less_imp_le)
  next
    case 3
    then show ?thesis unfolding compare_versions_def using equal_segments_subst(2) by (auto intro: less_imp_le)
  next
    case 4
    then have "compare_segments (version_segments u) (version_segments w) = 0"
      by (simp add: equal_segment compare_versions_def)
    then show ?thesis by (simp add: compare_versions_def)
  qed
qed

lemma compare_versions_swap: "compare_versions w v = - compare_versions v w"
  by (simp add: compare_versions_def compare_segments_swap [of "version_segments w"])

text \<open>
  Versions are compared position by position on the numbers between the dots of
  what precedes the first dash, a missing position counting as zero: the result is negative
  exactly when the first position that differs is smaller on the left, zero exactly when no
  position differs, and exchanging the versions negates it.
\<close>

theorem compare_versions_numeric:
  "(compare_versions v w < 0 \<longleftrightarrow>
      (\<exists>i. (\<forall>j<i. segment (version_segments v) j = segment (version_segments w) j) \<and>
           segment (version_segments v) i < segment (version_segments w) i)) \<and>
   (compare_versions v w = 0 \<longleftrightarrow> segment (version_segments v) = segment (version_segments w)) \<and>
   compare_versions w v = - compare_versions v w"
proof (intro conjI)
  show "compare_versions w v = - compare_versions v w" by (rule compare_versions_swap)
qed (simp_all add: compare_versions_def less_segment equal_segment fun_eq_iff)

theorem compare_versions_numeric_witness:
  "compare_versions ''v4.9.0'' ''4.10'' < 0 \<and> compare_versions ''4.10-rc.1'' ''4.10.0'' = 0"
proof
  have s: "version_segments ''v4.9.0'' = [4, 9, 0]" "version_segments ''4.10'' = [4, 10]"
    "version_segments ''4.10-rc.1'' = [4, 10]" "version_segments ''4.10.0'' = [4, 10, 0]"
    by code_simp+
  show "compare_versions ''v4.9.0'' ''4.10'' < 0"
    using conjunct1 [OF compare_versions_numeric [of "''v4.9.0''" "''4.10''"]] unfolding s
    by (elim iffD2) (auto intro!: exI [of _ 1] simp: segment_def)
  show "compare_versions ''4.10-rc.1'' ''4.10.0'' = 0"
    using compare_versions_numeric [of "''4.10-rc.1''" "''4.10.0''"] unfolding s
    by (auto simp: segment_def fun_eq_iff nth_Cons')
qed

section \<open>What an analysis decides\<close>

text \<open>The requirements of one rule on the proposed version.\<close>

definition rule_satisfied :: "version_constraint_rule \<Rightarrow> string \<Rightarrow> bool" where
  "rule_satisfied rule proposed \<longleftrightarrow>
     list_all (\<lambda>b. \<not> version_in_range proposed b) (vcr_BlockedVersions rule) \<and>
     (vcr_MinimumVersion rule \<noteq> [] \<longrightarrow> compare_versions (vcr_MinimumVersion rule) proposed \<le> 0) \<and>
     (vcr_MaximumVersion rule \<noteq> [] \<longrightarrow> compare_versions proposed (vcr_MaximumVersion rule) \<le> 0) \<and>
     (CHR ''-'' \<in> set proposed \<longrightarrow> vcr_AllowPrerelease rule)"

definition rule_applies :: "regex_compiler \<Rightarrow> string \<Rightarrow> string \<Rightarrow> version_constraint_rule \<Rightarrow> bool" where
  "rule_applies compile name ecosystem rule \<longleftrightarrow>
     vcr_Ecosystem rule = ecosystem \<and> matches_dependency_pattern compile name (vcr_DependencyPattern rule) = Inr True"

definition ecosystem_satisfied :: "ecosystem_version_policy option \<Rightarrow> string \<Rightarrow> bool \<Rightarrow> bool" where
  "ecosystem_satisfied ep updateType prereleaseAllowed \<longleftrightarrow>
     (case ep of None \<Rightarrow> True
      | Some p \<Rightarrow> evp_Enabled p \<longrightarrow>
          (updateType = ''major'' \<longrightarrow> evp_AllowMajorUpdates p) \<and> (updateType = ''minor'' \<longrightarrow> evp_AllowMinorUpdates p) \<and>
          (updateType = ''patch'' \<longrightarrow> evp_AllowPatchUpdates p) \<and> (updateType = ''prerelease'' \<longrightarrow> prereleaseAllowed))"

definition policy_rules :: "dependency_version_policy \<Rightarrow> version_constraint_rule list" where
  "policy_rules policy = map snd (dvp_VersionConstraints policy)"

definition version_permitted ::
  "regex_compiler \<Rightarrow> dependency_version_policy \<Rightarrow> string \<Rightarrow> string \<Rightarrow> string \<Rightarrow> string \<Rightarrow> bool" where
  "version_permitted compile policy name current proposed ecosystem \<longleftrightarrow>
     (let applied = filter (rule_applies compile name ecosystem) (policy_rules policy)
      in list_all (\<lambda>rule. rule_satisfied rule proposed) applied \<and>
         ecosystem_satisfied (gm_get (dvp_EcosystemPolicies policy) ecosystem)
           (determine_update_type current proposed) (list_ex vcr_AllowPrerelease applied))"

lemma violate_allowed [simp]: "\<not> vccr_Allowed (violate reason r)"
  by (simp add: violate_def)

lemma check_blocked_allowed:
  "vccr_Allowed (check_blocked proposed bs r) \<longleftrightarrow> vccr_Allowed r \<and> list_all (\<lambda>b. \<not> version_in_range proposed b) bs"
  by (induction bs arbitrary: r) auto

lemma evaluate_constraint_allowed:
  "vccr_Allowed (evaluate_version_constraint rule proposed r) \<longleftrightarrow> vccr_Allowed r \<and> rule_satisfied rule proposed"
  using compare_versions_swap [of proposed "vcr_MinimumVersion rule"]
  by (auto simp: evaluate_version_constraint_def rule_satisfied_def Let_def check_blocked_allowed)

lemma check_rules_result:
  "check_rules compile name proposed ecosystem rules (pa, r) = Inr (pa', r') \<Longrightarrow>
     (let applied = filter (rule_applies compile name ecosystem) (map snd rules)
      in (pa' \<longleftrightarrow> pa \<or> list_ex vcr_AllowPrerelease applied) \<and>
         (vccr_Allowed r' \<longleftrightarrow> vccr_Allowed r \<and> list_all (\<lambda>rule. rule_satisfied rule proposed) applied))"
proof (induction compile name proposed ecosystem rules "(pa, r)" arbitrary: pa r rule: check_rules.induct)
  case (1 compile name proposed ecosystem)
  then show ?case by (simp add: Let_def)
next
  case (2 compile name proposed ecosystem k rule rules pa r)
  show ?case
  proof (cases "vcr_Ecosystem rule = ecosystem")
    case False
    then show ?thesis using 2 by (simp add: rule_applies_def Let_def)
  next
    case True
    then obtain matched where m: "matches_dependency_pattern compile name (vcr_DependencyPattern rule) = Inr matched"
      using 2(3) by (auto split: sum.splits)
    show ?thesis
      using 2(1) [OF True m] 2(3) True m
      by (cases matched) (auto simp: rule_applies_def Let_def evaluate_constraint_allowed)
  qed
qed

lemma check_rules_error_iff:
  "isl (check_rules compile name proposed ecosystem rules st) \<longleftrightarrow>
     (\<exists>rule\<in>set (map snd rules). vcr_Ecosystem rule = ecosystem \<and>
        isl (matches_dependency_pattern compile name (vcr_DependencyPattern rule)))"
  by (induction compile name proposed ecosystem rules st rule: check_rules.induct)
    (auto split: sum.splits)

lemma check_version_constraints_error:
  "isl (check_version_constraints compile policy name current proposed ecosystem) \<longleftrightarrow>
     (\<exists>rule\<in>set (map snd (dvp_VersionConstraints policy)). vcr_Ecosystem rule = ecosystem \<and>
        isl (matches_dependency_pattern compile name (vcr_DependencyPattern rule)))"
  unfolding check_rules_error_iff [of compile name proposed ecosystem "dvp_VersionConstraints policy"
      "(False, zero_version_constraint_check_result\<lparr>vccr_DependencyName := name, vccr_ProposedVersion := proposed,
         vccr_Ecosystem := ecosystem, vccr_Allowed := True\<rparr>)", symmetric]
  by (simp add: check_version_constraints_def Let_def split: sum.splits prod.splits)

lemma check_ecosystem_allowed:
  "vccr_Allowed (check_ecosystem ep updateType pa r) \<longleftrightarrow> vccr_Allowed r \<and> ecosystem_satisfied ep updateType pa"
  by (auto simp: check_ecosystem_def ecosystem_satisfied_def split: option.splits)

lemma check_version_constraints_allowed:
  "check_version_constraints compile policy name current proposed ecosystem = Inr r \<Longrightarrow>
     vccr_Allowed r \<longleftrightarrow> version_permitted compile policy name current proposed ecosystem"
  by (auto simp: check_version_constraints_def Let_def check_ecosystem_allowed version_permitted_def policy_rules_def
      split: sum.splits prod.splits dest!: check_rules_result)

definition kind_rule :: "dependency_version_policy \<Rightarrow> string \<Rightarrow> version_approval_rule option" where
  "kind_rule policy updateType =
     (let requirements = dvp_ApprovalRequirements policy in
      if updateType = ''major'' then Some (vuar_MajorVersionUpdates requirements)
      else if updateType = ''minor'' then Some (vuar_MinorVersionUpdates requirements)
      else if updateType = ''patch'' then Some (vuar_PatchVersionUpdates requirements)
      else None)"

definition review_demanded :: "dependency_version_policy \<Rightarrow> string \<Rightarrow> bool" where
  "review_demanded policy updateType \<longleftrightarrow>
     updateType = ''major'' \<and> \<not> bcp_AllowBreakingChanges (dvp_BreakingChangePolicy policy) \<or>
     (case kind_rule policy updateType of None \<Rightarrow> False
      | Some rule \<Rightarrow> 0 < var_RequiredApprovers rule \<or> var_ManualReviewRequired rule)"

lemma approval_workflow_required:
  "aw_Required (generate_approval_workflow policy updateType) \<longleftrightarrow>
     (case kind_rule policy updateType of None \<Rightarrow> False
      | Some rule \<Rightarrow> 0 < var_RequiredApprovers rule \<or> var_ManualReviewRequired rule)"
  by (simp add: generate_approval_workflow_def kind_rule_def zero_approval_workflow_def Let_def)

lemma breaking_changes_detected:
  "bcar_HasBreakingChanges (analyze_breaking_changes policy current proposed) \<longleftrightarrow>
     determine_update_type current proposed = ''major'' \<and> \<not> bcp_AllowBreakingChanges (dvp_BreakingChangePolicy policy)"
  by (simp add: analyze_breaking_changes_def zero_breaking_change_analysis_result_def Let_def)

lemma action_of_sel [simp]: "rca_Action (action_of a r) = a" "rca_Reason (action_of a r) = r"
  by (simp_all add: action_of_def)

lemma recommended_action_cases:
  "rca_Action (determine_recommended_action a) =
     (if \<not> vccr_Allowed (dva_VersionConstraintCheck a) then ''reject''
      else if bcar_HasBreakingChanges (dva_BreakingChangeAnalysis a) \<or> aw_Required (dva_ApprovalWorkflow a) then ''review''
      else ''approve'')"
  by (simp add: determine_recommended_action_def)

lemma analysis_error_iff:
  assumes "gm_get (dvm_policies dvm) policyID = Some policy" and "dvp_Enabled policy"
  shows "isl (analyze_dependency_version_update compile dvm policyID name current proposed ecosystem) \<longleftrightarrow>
    (\<exists>rule\<in>set (policy_rules policy). vcr_Ecosystem rule = ecosystem \<and> vcr_DependencyPattern rule \<noteq> ''*'' \<and>
       isl (compile (vcr_DependencyPattern rule)))"
proof -
  have "isl (analyze_dependency_version_update compile dvm policyID name current proposed ecosystem) \<longleftrightarrow>
    isl (check_version_constraints compile policy name current proposed ecosystem)"
    using assms by (simp add: analyze_dependency_version_update_def Let_def split: sum.splits)
  also have "\<dots> \<longleftrightarrow> (\<exists>rule\<in>set (policy_rules policy). vcr_Ecosystem rule = ecosystem \<and>
      isl (matches_dependency_pattern compile name (vcr_DependencyPattern rule)))"
    unfolding policy_rules_def by (rule check_version_constraints_error)
  also have "\<dots> \<longleftrightarrow> (\<exists>rule\<in>set (policy_rules policy). vcr_Ecosystem rule = ecosystem \<and> vcr_DependencyPattern rule \<noteq> ''*'' \<and>
       isl (compile (vcr_DependencyPattern rule)))"
    by (intro bex_cong refl) (auto simp: matches_dependency_pattern_def split: sum.splits)
  finally show ?thesis .
qed

lemma analysis_action:
  assumes "gm_get (dvm_policies dvm) policyID = Some policy" and "dvp_Enabled policy"
    and "analyze_dependency_version_update compile dvm policyID name current proposed ecosystem = Inr a"
  shows "rca_Action (dva_RecommendedAction a) =
    (if \<not> version_permitted compile policy name current proposed ecosystem then ''reject''
     else if review_demanded policy (determine_update_type current proposed) then ''review''
     else ''approve'')"
proof -
  obtain check where c: "check_version_constraints compile policy name current proposed ecosystem = Inr check"
    using assms by (auto simp: analyze_dependency_version_update_def Let_def split: sum.splits)
  then have "dva_RecommendedAction a = determine_recommended_action a \<and> dva_VersionConstraintCheck a = check \<and>
      dva_BreakingChangeAnalysis a = analyze_breaking_changes policy current proposed \<and>
      dva_ApprovalWorkflow a = generate_approval_workflow policy (determine_update_type current proposed)"
    using assms by (simp add: analyze_dependency_version_update_def Let_def) (drule sym, simp add: determine_recommended_action_def)
  then show ?thesis
    by (simp add: recommended_action_cases check_version_constraints_allowed [OF c]
        breaking_changes_detected approval_workflow_required review_demanded_def conj_commute)
qed

text \<open>
  Property C25. Under an enabled policy the analysis of an update fails exactly when a rule of
  the ecosystem has a pattern that does not compile. Otherwise it recommends rejection exactly
  when the version is not permitted (a rule that applies blocks it, bounds it or excludes
  prereleases, or the ecosystem does not allow this kind of update), else review exactly when
  the update is a major one and breaking changes are not allowed or the rule for its kind asks
  for approvers or a manual review, and else approval.
\<close>

theorem dependency_update_decision:
  assumes "gm_get (dvm_policies dvm) policyID = Some policy" and "dvp_Enabled policy"
  shows "(isl (analyze_dependency_version_update compile dvm policyID name current proposed ecosystem) \<longleftrightarrow>
      (\<exists>rule\<in>set (policy_rules policy). vcr_Ecosystem rule = ecosystem \<and> vcr_DependencyPattern rule \<noteq> ''*'' \<and>
         isl (compile (vcr_DependencyPattern rule)))) \<and>
    (\<forall>a. analyze_dependency_version_update compile dvm policyID name current proposed ecosystem = Inr a \<longrightarrow>
      rca_Action (dva_RecommendedAction a) =
        (if \<not> version_permitted compile policy name current proposed ecosystem then ''reject''
         else if review_demanded policy (determine_update_type current proposed) then ''review''
         else ''approve''))"
  using analysis_error_iff [OF assms] analysis_action [OF assms] by blast

definition sample_constraint :: version_constraint_rule where
  "sample_constraint = zero_version_constraint_rule\<lparr>vcr_RuleID := ''r1'', vcr_DependencyPattern := ''*'',
     vcr_Ecosystem := ''npm'', vcr_MinimumVersion := ''4.9.0'', vcr_AllowPrerelease := True\<rparr>"

definition sample_version_policy :: dependency_version_policy where
  "sample_version_policy = zero_dependency_version_policy\<lparr>dvp_ID := ''p'', dvp_Name := ''policy'', dvp_Organization := ''org'',
     dvp_Enabled := True, dvp_VersionConstraints := [(''r1'', sample_constraint)],
     dvp_ApprovalRequirements := zero_version_update_approval_requirements
       \<lparr>vuar_MajorVersionUpdates := zero_version_approval_rule\<lparr>var_RequiredApprovers := 2\<rparr>\<rparr>\<rparr>"

definition no_regex :: regex_compiler where
  "no_regex pattern = Inl ''unsupported''"

definition sample_version_manager :: version_policy_manager where
  "sample_version_manager =
     snd (create_dependency_version_policy no_regex 0 sample_version_policy new_dependency_version_policy_manager)"

definition stored_sample_policy :: dependency_version_policy where
  "stored_sample_policy = sample_version_policy\<lparr>dvp_CreatedAt := 0, dvp_UpdatedAt := 0, dvp_Version := 1\<rparr>"

lemma sample_validation: "validate_dependency_version_policy no_regex sample_version_policy = None"
  by code_simp

lemma sample_stored:
  "gm_get (dvm_policies sample_version_manager) ''p'' = Some stored_sample_policy" "dvp_Enabled stored_sample_policy"
  by (simp_all add: sample_version_manager_def create_dependency_version_policy_def sample_validation
      stored_sample_policy_def new_dependency_version_policy_manager_def)
    (simp_all add: sample_version_policy_def)

definition recommended ::
  "regex_compiler \<Rightarrow> version_policy_manager \<Rightarrow> string \<Rightarrow> dependency_update \<Rightarrow> string option" where
  "recommended compile dvm policyID update =
     (case analyze_dependency_version_update compile dvm policyID (du_Name update) (du_CurrentVersion update)
             (du_ProposedVersion update) (du_Ecosystem update) of
        Inl _ \<Rightarrow> None
      | Inr a \<Rightarrow> Some (rca_Action (dva_RecommendedAction a)))"

definition lodash_update :: "string \<Rightarrow> dependency_update" where
  "lodash_update version = \<lparr>du_Name = ''lodash'', du_Ecosystem = ''npm'', du_CurrentVersion = ''4.9.9'', du_ProposedVersion = version\<rparr>"

text \<open>
  4.8.0 is below the minimum, 4.10.0 is not; the major update waits for approval, its
  prerelease does not.
\<close>

theorem dependency_update_decision_witness:
  "recommended no_regex sample_version_manager ''p'' (lodash_update ''4.8.0'') = Some ''reject'' \<and>
   recommended no_regex sample_version_manager ''p'' (lodash_update ''4.10.0'') = Some ''approve'' \<and>
   recommended no_regex sample_version_manager ''p'' (lodash_update ''5.0.0'') = Some ''review''"
proof -
  note d = dependency_update_decision [OF sample_stored, of no_regex "''lodash''" "''4.9.9''" _ "''npm''"]
  have rules: "\<not> (\<exists>rule\<in>set (policy_rules stored_sample_policy). vcr_Ecosystem rule = ''npm'' \<and>
      vcr_DependencyPattern rule \<noteq> ''*'' \<and> isl (no_regex (vcr_DependencyPattern rule)))"
    by code_simp
  have r: "recommended no_regex sample_version_manager ''p'' (lodash_update version) =
     Some (if \<not> version_permitted no_regex stored_sample_policy ''lodash'' ''4.9.9'' version ''npm'' then ''reject''
       else if review_demanded stored_sample_policy (determine_update_type ''4.9.9'' version) then ''review''
       else ''approve'')" for version
    using d [of version] rules
    by (cases "analyze_dependency_version_update no_regex sample_version_manager ''p'' ''lodash'' ''4.9.9'' version ''npm''")
      (simp_all add: recommended_def lodash_update_def)
  have "\<not> version_permitted no_regex stored_sample_policy ''lodash'' ''4.9.9'' ''4.8.0'' ''npm''"
    "version_permitted no_regex stored_sample_policy ''lodash'' ''4.9.9'' ''4.10.0'' ''npm''"
    "version_permitted no_regex stored_sample_policy ''lodash'' ''4.9.9'' ''5.0.0'' ''npm''"
    "\<not> review_demanded stored_sample_policy (determine_update_type ''4.9.9'' ''4.10.0'')"
    "review_demanded stored_sample_policy (determine_update_type ''4.9.9'' ''5.0.0'')"
    by code_simp+
  then show ?thesis by (simp add: r)
qed

text \<open>
  A prerelease is never sent to review: whatever approvers, manual reviews and
  breaking change policy the policy asks for, an update to a version with a dash is approved
  or rejected, even when it leads to another major version.
\<close>

theorem prerelease_never_reviewed:
  assumes "gm_get (dvm_policies dvm) policyID = Some policy" and "dvp_Enabled policy"
    and "CHR ''-'' \<in> set proposed"
    and "analyze_dependency_version_update compile dvm policyID name current proposed ecosystem = Inr a"
  shows "rca_Action (dva_RecommendedAction a) =
    (if version_permitted compile policy name current proposed ecosystem then ''approve'' else ''reject'')"
proof -
  have "determine_update_type current proposed = ''prerelease''"
    using assms(3) by (simp add: determine_update_type_def)
  then show ?thesis using analysis_action [OF assms(1,2,4)]
    by (simp add: review_demanded_def kind_rule_def Let_def)
qed

theorem prerelease_never_reviewed_witness:
  "recommended no_regex sample_version_manager ''p'' (lodash_update ''5.0.0-rc.1'') = Some ''approve''"
proof -
  let ?r = "analyze_dependency_version_update no_regex sample_version_manager ''p'' ''lodash'' ''4.9.9'' ''5.0.0-rc.1'' ''npm''"
  have "\<not> isl ?r" unfolding analysis_error_iff [OF sample_stored] by code_simp
  then obtain a where a: "?r = Inr a" by (cases ?r) auto
  have "version_permitted no_regex stored_sample_policy ''lodash'' ''4.9.9'' ''5.0.0-rc.1'' ''npm''" by code_simp
  then show ?thesis using prerelease_never_reviewed [OF sample_stored _ a] a
    by (simp add: recommended_def lodash_update_def)
qed

section \<open>Batches of updates\<close>

lemma analysis_action_set:
  assumes "gm_get (dvm_policies dvm) policyID = Some policy"
    and "analyze_dependency_version_update compile dvm policyID name current proposed ecosystem = Inr a"
  shows "if dvp_Enabled policy then rca_Action (dva_RecommendedAction a) \<in> {''approve'', ''reject'', ''review''}
    else rca_Action (dva_RecommendedAction a) = ''skip''"
proof (cases "dvp_Enabled policy")
  case True
  then show ?thesis using analysis_action [OF assms(1) True assms(2)] by simp
next
  case False
  then show ?thesis using assms
    by (simp add: analyze_dependency_version_update_def Let_def) (drule sym, simp)
qed

lemma recommended_values:
  assumes "gm_get (dvm_policies dvm) policyID = Some policy"
  shows "if dvp_Enabled policy
    then recommended compile dvm policyID update \<in> {None, Some ''approve'', Some ''reject'', Some ''review''}
    else recommended compile dvm policyID update = Some ''skip''"
proof (cases "analyze_dependency_version_update compile dvm policyID (du_Name update) (du_CurrentVersion update)
    (du_ProposedVersion update) (du_Ecosystem update)")
  case (Inl e)
  then show ?thesis using assms
    by (auto simp: recommended_def analyze_dependency_version_update_def Let_def split: if_splits)
next
  case (Inr a)
  then show ?thesis using analysis_action_set [OF assms Inr] by (auto simp: recommended_def)
qed

text \<open>The three lists a batch sorts its updates into.\<close>

lemma apply_updates_lists:
  "vcar_ApprovedUpdates (apply_updates compile dvm policyID updates r) =
     vcar_ApprovedUpdates r @ filter (\<lambda>u. recommended compile dvm policyID u = Some ''approve'') updates \<and>
   map dur_Update (vcar_RejectedUpdates (apply_updates compile dvm policyID updates r)) =
     map dur_Update (vcar_RejectedUpdates r) @
     filter (\<lambda>u. recommended compile dvm policyID u \<in> {None, Some ''reject''}) updates \<and>
   vcar_PendingReview (apply_updates compile dvm policyID updates r) =
     vcar_PendingReview r @ filter (\<lambda>u. recommended compile dvm policyID u = Some ''review'') updates \<and>
   vcar_TotalUpdates (apply_updates compile dvm policyID updates r) = vcar_TotalUpdates r"
proof (induction updates arbitrary: r)
  case Nil
  then show ?case by simp
next
  case (Cons u us)
  show ?case
  proof (cases "analyze_dependency_version_update compile dvm policyID (du_Name u) (du_CurrentVersion u)
      (du_ProposedVersion u) (du_Ecosystem u)")
    case (Inl e)
    then show ?thesis using Cons by (simp add: recommended_def)
  next
    case (Inr a)
    then show ?thesis using Cons by (simp add: recommended_def Let_def)
  qed
qed

lemma length_three_filters:
  assumes "\<forall>u\<in>set us. (P u \<and> \<not> Q u \<and> \<not> R u) \<or> (\<not> P u \<and> Q u \<and> \<not> R u) \<or> (\<not> P u \<and> \<not> Q u \<and> R u)"
  shows "length (filter P us) + length (filter Q us) + length (filter R us) = length us"
  using assms by (induction us) auto

text \<open>
  Under an enabled policy a batch approves, rejects and leaves for review, in
  their order, exactly the updates so recommended (an update whose analysis fails is
  rejected), and the three counts add up to the total. Under a disabled policy every update is
  dropped: the total counts it and no list holds it.
\<close>

theorem batch_accounts_for_updates:
  assumes "gm_get (dvm_policies dvm) policyID = Some policy"
    and "apply_version_constraints compile dvm now policyID updates = Inr r"
  shows "vcar_ApprovedUpdates r = filter (\<lambda>u. recommended compile dvm policyID u = Some ''approve'') updates \<and>
    map dur_Update (vcar_RejectedUpdates r) = filter (\<lambda>u. recommended compile dvm policyID u \<in> {None, Some ''reject''}) updates \<and>
    vcar_PendingReview r = filter (\<lambda>u. recommended compile dvm policyID u = Some ''review'') updates \<and>
    vcar_TotalUpdates r = int (length updates) \<and>
    vcar_ApprovedCount r + vcar_RejectedCount r + vcar_PendingReviewCount r =
      (if dvp_Enabled policy then vcar_TotalUpdates r else 0)"
proof -
  let ?r0 = "zero_version_constraint_application_result\<lparr>vcar_PolicyID := policyID,
    vcar_TotalUpdates := int (length updates), vcar_ProcessedAt := now\<rparr>"
  have z: "vcar_ApprovedUpdates ?r0 = []" "vcar_RejectedUpdates ?r0 = []" "vcar_PendingReview ?r0 = []"
    "vcar_TotalUpdates ?r0 = int (length updates)"
    by (simp_all add: zero_version_constraint_application_result_def)
  define r1 where "r1 = apply_updates compile dvm policyID updates ?r0"
  note l = apply_updates_lists [of compile dvm policyID updates ?r0, folded r1_def, unfolded z append_Nil list.map(1)]
  have r: "r = r1\<lparr>vcar_ApprovedCount := int (length (vcar_ApprovedUpdates r1)),
      vcar_RejectedCount := int (length (vcar_RejectedUpdates r1)),
      vcar_PendingReviewCount := int (length (vcar_PendingReview r1))\<rparr>"
    using assms(2) unfolding apply_version_constraints_def assms(1) option.case Let_def r1_def [symmetric]
    by (rule Inr_inject [THEN sym])
  have len: "length (vcar_RejectedUpdates r1) = length (filter (\<lambda>u. recommended compile dvm policyID u \<in> {None, Some ''reject''}) updates)"
    using arg_cong [OF l [THEN conjunct2, THEN conjunct1], of length] by (simp only: length_map)
  have counts: "length (filter (\<lambda>u. recommended compile dvm policyID u = Some ''approve'') updates) +
      length (filter (\<lambda>u. recommended compile dvm policyID u \<in> {None, Some ''reject''}) updates) +
      length (filter (\<lambda>u. recommended compile dvm policyID u = Some ''review'') updates) =
      (if dvp_Enabled policy then length updates else 0)"
  proof (cases "dvp_Enabled policy")
    case True
    have "length (filter (\<lambda>u. recommended compile dvm policyID u = Some ''approve'') updates) +
      length (filter (\<lambda>u. recommended compile dvm policyID u \<in> {None, Some ''reject''}) updates) +
      length (filter (\<lambda>u. recommended compile dvm policyID u = Some ''review'') updates) = length updates"
    proof (rule length_three_filters, rule ballI)
      fix u
      have "recommended compile dvm policyID u \<in> {None, Some ''approve'', Some ''reject'', Some ''review''}"
        using recommended_values [OF assms(1), of compile u] True by simp
      then show "(recommended compile dvm policyID u = Some ''approve'' \<and>
          recommended compile dvm policyID u \<notin> {None, Some ''reject''} \<and> recommended compile dvm policyID u \<noteq> Some ''review'') \<or>
        (recommended compile dvm policyID u \<noteq> Some ''approve'' \<and>
          recommended compile dvm policyID u \<in> {None, Some ''reject''} \<and> recommended compile dvm policyID u \<noteq> Some ''review'') \<or>
        (recommended compile dvm policyID u \<noteq> Some ''approve'' \<and>
          recommended compile dvm policyID u \<notin> {None, Some ''reject''} \<and> recommended compile dvm policyID u = Some ''review'')"
        by auto
    qed
    then show ?thesis using True by simp
  next
    case False
    then have "recommended compile dvm policyID u = Some ''skip''" for u using recommended_values [OF assms(1), of compile u] by simp
    then show ?thesis using False by simp
  qed
  show ?thesis unfolding r using l len counts
    by (intro conjI) (simp_all del: insert_iff flip: of_nat_add)
qed

theorem batch_accounts_for_updates_witness:
  "\<exists>r. apply_version_constraints no_regex sample_version_manager 0 ''p'' (map lodash_update [''4.8.0'', ''4.10.0'', ''5.0.0'']) = Inr r \<and>
     vcar_ApprovedCount r + vcar_RejectedCount r + vcar_PendingReviewCount r = 3"
proof -
  obtain r where r: "apply_version_constraints no_regex sample_version_manager 0 ''p''
      (map lodash_update [''4.8.0'', ''4.10.0'', ''5.0.0'']) = Inr r"
    by (simp add: apply_version_constraints_def sample_stored Let_def)
  from batch_accounts_for_updates [OF sample_stored(1) r] have
    "vcar_ApprovedCount r + vcar_RejectedCount r + vcar_PendingReviewCount r = 3"
    by (simp add: sample_stored(2))
  then show ?thesis using r by blast
qed

text \<open>The order in which Go iterates over the rules does not matter to what is permitted.\<close>

lemma version_permitted_order:
  assumes "set rules = set (dvp_VersionConstraints policy)"
  shows "version_permitted compile (policy\<lparr>dvp_VersionConstraints := rules\<rparr>) name current proposed ecosystem =
    version_permitted compile policy name current proposed ecosystem"
proof -
  have "set (map snd rules) = set (policy_rules policy)"
    using assms by (simp add: policy_rules_def)
  then show ?thesis
    by (auto simp: version_permitted_def policy_rules_def Let_def list_all_iff list_ex_iff ecosystem_satisfied_def
        split: option.splits)
qed

section \<open>The manager as a policy store\<close>

interpretation version_store: policy_store "\<lambda>dvm. gm_get (dvm_policies dvm)" dvp_ID
  "validate_dependency_version_policy compile"
  "\<lambda>now p. p\<lparr>dvp_CreatedAt := now, dvp_UpdatedAt := now, dvp_Version := 1\<rparr>"
  "create_dependency_version_policy compile" for compile
  by unfold_locales
    (auto simp: create_dependency_version_policy_def validate_dependency_version_policy_def cong: option.case_cong)

end
