(* ===== verification/DependabotTypes.thy ===== *)
theory DependabotTypes
  imports GoValue
begin

text \<open>
  The data of the Dependabot managers: the structs of \<open>pkg/github/dependabot_config.go\<close> and
  \<open>pkg/github/dependabot_policy_manager.go\<close>, with the repository summary of
  \<open>pkg/github/interfaces.go\<close>. Enumerations are the Go strings they are; maps, pointers, slices
  and \<open>any\<close> are modelled as in \<open>SecurityTypes\<close>.
\<close>

section \<open>Configurations\<close>

record repository_info =
  rpi_Name :: string
  rpi_FullName :: string
  rpi_Description :: string
  rpi_DefaultBranch :: string
  rpi_CloneURL :: string
  rpi_SSHURL :: string
  rpi_HTMLURL :: string
  rpi_Private :: bool
  rpi_Archived :: bool
  rpi_Disabled :: bool
  rpi_CreatedAt :: int
  rpi_UpdatedAt :: int
  rpi_Language :: string
  rpi_Size :: int
  rpi_Topics :: "string list"
  rpi_Visibility :: string
  rpi_IsTemplate :: bool

record dependabot_schedule =
  ds_Interval :: string
  ds_Day :: string
  ds_Time :: string
  ds_Timezone :: string

record dependabot_allowed_update =
  dau_DependencyType :: string
  dau_DependencyName :: string
  dau_UpdateType :: string

record dependabot_ignored_update =
  diu_DependencyName :: string
  diu_Versions :: "string list"
  diu_UpdateTypes :: "string list"

record dependabot_commit_message =
  dcm_Prefix :: string
  dcm_PrefixDevelopment :: string
  dcm_Include :: string

record dependabot_group_applies_to =
  dgat_VersionUpdates :: "string list"
  dgat_SecurityUpdates :: bool

record dependabot_group =
  dg_DependencyType :: string
  dg_UpdateTypes :: "string list"
  dg_Patterns :: "string list"
  dg_ExcludePattern :: "string list"
  dg_AppliesTo :: dependabot_group_applies_to

record dependabot_update_rule =
  dupr_PackageEcosystem :: string
  dupr_Directory :: string
  dupr_Schedule :: dependabot_schedule
  dupr_VersioningStrategy :: string
  dupr_AllowedUpdates :: "dependabot_allowed_update list"
  dupr_IgnoredDependencies :: "dependabot_ignored_update list"
  dupr_Reviewers :: "string list"
  dupr_Assignees :: "string list"
  dupr_Labels :: "string list"
  dupr_PullRequestLimit :: int
  dupr_RebaseStrategy :: string
  dupr_CommitMessage :: "dependabot_commit_message option"
  dupr_Groups :: "(string, dependabot_group) gomap"
  dupr_RegistriesConfig :: "string list"
  dupr_VendorUpdates :: bool
  dupr_InsecureExternalCode :: bool

record dependabot_registry =
  dr3_Type :: string
  dr3_URL :: string
  dr3_Username :: string
  dr3_Password :: string
  dr3_Key :: string
  dr3_Token :: string
  dr3_ReplaceBase :: bool

record dependabot_config =
  dbc_Version :: int
  dbc_Updates :: "dependabot_update_rule list"
  dbc_Registries :: "(string, dependabot_registry) gomap"

record ecosystem_policy =
  ep2_Ecosystem :: string
  ep2_Enabled :: bool
  ep2_RequiredReviewers :: int
  ep2_AllowedUpdateTypes :: "string list"
  ep2_BlockedDependencies :: "string list"
  ep2_MaxPullRequestsPerDay :: int
  ep2_AutoMergeEnabled :: bool
  ep2_AutoMergeUpdateTypes :: "string list"
  ep2_RequiredStatusChecks :: "string list"
  ep2_MinSecuritySeverity :: string

record security_policy_settings =
  sps_EnableVulnerabilityAlerts :: bool
  sps_AutoFixSecurityVulns :: bool
  sps_AllowedSecurityUpdateTypes :: "string list"
  sps_SecurityReviewRequired :: bool
  sps_CriticalVulnAutoMerge :: bool
  sps_VulnReportingWebhook :: string
  sps_ExcludedVulnerabilityIDs :: "string list"

record approval_rule =
  ar2_RequiredReviewers :: int
  ar2_RequiredApprovals :: int
  ar2_DismissStaleReviews :: bool
  ar2_RequireCodeOwnerReview :: bool
  ar2_AllowedMergeUsers :: "string list"
  ar2_RestrictedPaths :: "string list"

record approval_requirements =
  ar3_MajorUpdates :: approval_rule
  ar3_MinorUpdates :: approval_rule
  ar3_PatchUpdates :: approval_rule
  ar3_SecurityUpdates :: approval_rule

record dependabot_policy_config =
  dpc_ID :: string
  dpc_Name :: string
  dpc_Organization :: string
  dpc_Description :: string
  dpc_Enabled :: bool
  dpc_DefaultConfig :: dependabot_config
  dpc_EcosystemPolicies :: "(string, ecosystem_policy) gomap"
  dpc_SecurityPolicies :: security_policy_settings
  dpc_ApprovalRequirements :: approval_requirements
  dpc_CreatedAt :: int
  dpc_UpdatedAt :: int
  dpc_Version :: int

record security_advisory_info =
  sai_ID :: string
  sai_Summary :: string
  sai_Severity :: string
  sai_CVSS :: float64
  sai_References :: "string list"
  sai_PublishedAt :: int

record dependabot_update =
  dup_ID :: string
  dup_Dependency :: string
  dup_FromVersion :: string
  dup_ToVersion :: string
  dup_UpdateType :: string
  dup_Ecosystem :: string
  dup_PullRequestURL :: string
  dup_Status :: string
  dup_CreatedAt :: int
  dup_UpdatedAt :: int
  dup_SecurityAdvisory :: "security_advisory_info option"

record dependabot_error =
  de_ID :: string
  de_Type :: string
  de_Message :: string
  de_Ecosystem :: string
  de_Directory :: string
  de_Timestamp :: int
  de_Resolved :: bool

record dependabot_config_summary =
  dcs_TotalEcosystems :: int
  dcs_EnabledEcosystems :: "string list"
  dcs_UpdateSchedules :: "(string, string) gomap"
  dcs_TotalIgnoredDeps :: int
  dcs_GroupedUpdatesCount :: int
  dcs_SecurityUpdatesEnabled :: bool
  dcs_RegistriesConfigured :: int

record dependabot_status =
  dst_Repository :: string
  dst_Organization :: string
  dst_Enabled :: bool
  dst_ConfigExists :: bool
  dst_ConfigValid :: bool
  dst_LastUpdated :: int
  dst_ActivePullRequests :: int
  dst_RecentUpdates :: "dependabot_update list"
  dst_Errors :: "dependabot_error list"
  dst_SupportedEcosystems :: "string list"
  dst_ConfigSummary :: dependabot_config_summary

section \<open>Policies and their evaluation\<close>

record violation_statistics =
  vs_ViolationType :: string
  vs_Count :: int
  vs_Percentage :: float64
  vs_Repositories :: "string list"
  vs_Severity :: string

record cached_repository_config =
  crc_Repository :: string
  crc_Organization :: string
  crc_Config :: dependabot_config
  crc_Status :: dependabot_status
  crc_LastUpdated :: int
  crc_ExpiresAt :: int

record dependabot_policy_violation =
  dpv_ID :: string
  dpv_Type :: string
  dpv_Severity :: string
  dpv_Title :: string
  dpv_Description :: string
  dpv_Ecosystem :: string
  dpv_Suggestion :: string
  dpv_AutoFixable :: bool
  dpv_References :: "string list"

record policy_recommendation =
  prc_ID :: string
  prc_Type :: string
  prc_Priority :: string
  prc_Title :: string
  prc_Description :: string
  prc_Ecosystem :: string
  prc_Action :: string
  prc_Benefits :: "string list"

record policy_evaluation_result =
  per_PolicyID :: string
  per_Repository :: string
  per_Organization :: string
  per_Compliant :: bool
  per_Violations :: "dependabot_policy_violation list"
  per_Recommendations :: "policy_recommendation list"
  per_EvaluatedAt :: int
  per_NextEvaluation :: int
  per_ComplianceScore :: float64

record bulk_operation_progress =
  bop_Total :: int
  bop_Completed :: int
  bop_Failed :: int
  bop_Skipped :: int
  bop_Percentage :: float64
  bop_CurrentRepo :: string

record configuration_change =
  cch_Type :: string
  cch_Field :: string
  cch_OldValue :: go_any
  cch_NewValue :: go_any
  cch_Description :: string

record dependabot_repository_operation_result =
  dror_Repository :: string
  dror_Status :: string
  dror_Message :: string
  dror_Error :: string
  dror_Duration :: int
  dror_Changes :: "configuration_change list"
  dror_Timestamp :: int

record bulk_policy_operation =
  bpo_ID :: string
  bpo_Type :: string
  bpo_Organization :: string
  bpo_PolicyID :: string
  bpo_TargetRepos :: "string list"
  bpo_Status :: string
  bpo_Progress :: bulk_operation_progress
  bpo_Results :: "dependabot_repository_operation_result list"
  bpo_StartedAt :: int
  bpo_CompletedAt :: "int option"
  bpo_EstimatedDuration :: int

record ecosystem_stats =
  es_Ecosystem :: string
  es_TotalRepositories :: int
  es_EnabledRepositories :: int
  es_ComplianceRate :: float64
  es_CommonViolations :: "string list"

record organization_policy_summary =
  ops_TotalRepositories :: int
  ops_CompliantRepositories :: int
  ops_ViolatingRepositories :: int
  ops_ComplianceRate :: float64
  ops_AverageComplianceScore :: float64
  ops_TotalViolations :: int
  ops_CriticalViolations :: int
  ops_EcosystemBreakdown :: "(string, ecosystem_stats) gomap"
  ops_ViolationBreakdown :: "(string, int) gomap"

record data_point =
  dpt_Timestamp :: int
  dpt_Value :: float64
  dpt_Count :: int

record trend_forecast =
  tf_ProjectedValue :: float64
  tf_Confidence :: float64
  tf_ProjectionDate :: int
  tf_Methodology :: string

record trend_data =
  td_Direction :: string
  td_ChangeRate :: float64
  td_DataPoints :: "data_point list"
  td_Forecast :: "trend_forecast option"

record recommendation_impact =
  ri_RecommendationID :: string
  ri_ImplementedAt :: int
  ri_ImpactedRepos :: int
  ri_ComplianceIncrease :: float64
  ri_ViolationsReduced :: int

record policy_trend_analysis =
  pta_TimeRange :: string
  pta_ComplianceTrend :: string
  pta_ViolationTrends :: "(string, trend_data) gomap"
  pta_EcosystemTrends :: "(string, trend_data) gomap"
  pta_RecommendationImpact :: "recommendation_impact list"

record organization_policy_report =
  opr_Organization :: string
  opr_PolicyID :: string
  opr_GeneratedAt :: int
  opr_Summary :: organization_policy_summary
  opr_RepositoryResults :: "policy_evaluation_result list"
  opr_TopViolations :: "violation_statistics list"
  opr_Recommendations :: "policy_recommendation list"
  opr_TrendAnalysis :: policy_trend_analysis
  opr_ExportFormats :: "string list"

section \<open>Zero values\<close>

definition zero_dependabot_config :: dependabot_config where
  "zero_dependabot_config =
     \<lparr>dbc_Version = 0, dbc_Updates = [], dbc_Registries = []\<rparr>"

definition zero_dependabot_schedule :: dependabot_schedule where
  "zero_dependabot_schedule =
     \<lparr>ds_Interval = [], ds_Day = [], ds_Time = [], ds_Timezone = []\<rparr>"

definition zero_dependabot_update_rule :: dependabot_update_rule where
  "zero_dependabot_update_rule =
     \<lparr>dupr_PackageEcosystem = [], dupr_Directory = [], dupr_Schedule = zero_dependabot_schedule,
      dupr_VersioningStrategy = [], dupr_AllowedUpdates = [], dupr_IgnoredDependencies = [],
      dupr_Reviewers = [], dupr_Assignees = [], dupr_Labels = [], dupr_PullRequestLimit = 0,
      dupr_RebaseStrategy = [], dupr_CommitMessage = None, dupr_Groups = [], dupr_RegistriesConfig = [],
      dupr_VendorUpdates = False, dupr_InsecureExternalCode = False\<rparr>"

definition zero_dependabot_group_applies_to :: dependabot_group_applies_to where
  "zero_dependabot_group_applies_to =
     \<lparr>dgat_VersionUpdates = [], dgat_SecurityUpdates = False\<rparr>"

definition zero_dependabot_group :: dependabot_group where
  "zero_dependabot_group =
     \<lparr>dg_DependencyType = [], dg_UpdateTypes = [], dg_Patterns = [], dg_ExcludePattern = [],
      dg_AppliesTo = zero_dependabot_group_applies_to\<rparr>"

definition zero_dependabot_allowed_update :: dependabot_allowed_update where
  "zero_dependabot_allowed_update =
     \<lparr>dau_DependencyType = [], dau_DependencyName = [], dau_UpdateType = []\<rparr>"

definition zero_dependabot_config_summary :: dependabot_config_summary where
  "zero_dependabot_config_summary =
     \<lparr>dcs_TotalEcosystems = 0, dcs_EnabledEcosystems = [], dcs_UpdateSchedules = [],
      dcs_TotalIgnoredDeps = 0, dcs_GroupedUpdatesCount = 0, dcs_SecurityUpdatesEnabled = False,
      dcs_RegistriesConfigured = 0\<rparr>"

definition zero_dependabot_status :: dependabot_status where
  "zero_dependabot_status =
     \<lparr>dst_Repository = [], dst_Organization = [], dst_Enabled = False, dst_ConfigExists = False,
      dst_ConfigValid = False, dst_LastUpdated = 0, dst_ActivePullRequests = 0, dst_RecentUpdates = [],
      dst_Errors = [], dst_SupportedEcosystems = [],
      dst_ConfigSummary = zero_dependabot_config_summary\<rparr>"

definition zero_dependabot_update :: dependabot_update where
  "zero_dependabot_update =
     \<lparr>dup_ID = [], dup_Dependency = [], dup_FromVersion = [], dup_ToVersion = [],
      dup_UpdateType = [], dup_Ecosystem = [], dup_PullRequestURL = [], dup_Status = [],
      dup_CreatedAt = 0, dup_UpdatedAt = 0, dup_SecurityAdvisory = None\<rparr>"

definition zero_security_policy_settings :: security_policy_settings where
  "zero_security_policy_settings =
     \<lparr>sps_EnableVulnerabilityAlerts = False, sps_AutoFixSecurityVulns = False,
      sps_AllowedSecurityUpdateTypes = [], sps_SecurityReviewRequired = False,
      sps_CriticalVulnAutoMerge = False, sps_VulnReportingWebhook = [],
      sps_ExcludedVulnerabilityIDs = []\<rparr>"

definition zero_approval_rule :: approval_rule where
  "zero_approval_rule =
     \<lparr>ar2_RequiredReviewers = 0, ar2_RequiredApprovals = 0, ar2_DismissStaleReviews = False,
      ar2_RequireCodeOwnerReview = False, ar2_AllowedMergeUsers = [], ar2_RestrictedPaths = []\<rparr>"

definition zero_approval_requirements :: approval_requirements where
  "zero_approval_requirements =
     \<lparr>ar3_MajorUpdates = zero_approval_rule, ar3_MinorUpdates = zero_approval_rule,
      ar3_PatchUpdates = zero_approval_rule, ar3_SecurityUpdates = zero_approval_rule\<rparr>"

definition zero_dependabot_policy_config :: dependabot_policy_config where
  "zero_dependabot_policy_config =
     \<lparr>dpc_ID = [], dpc_Name = [], dpc_Organization = [], dpc_Description = [],
      dpc_Enabled = False, dpc_DefaultConfig = zero_dependabot_config, dpc_EcosystemPolicies = [],
      dpc_SecurityPolicies = zero_security_policy_settings,
      dpc_ApprovalRequirements = zero_approval_requirements, dpc_CreatedAt = 0, dpc_UpdatedAt = 0,
      dpc_Version = 0\<rparr>"

definition zero_policy_evaluation_result :: policy_evaluation_result where
  "zero_policy_evaluation_result =
     \<lparr>per_PolicyID = [], per_Repository = [], per_Organization = [], per_Compliant = False,
      per_Violations = [], per_Recommendations = [], per_EvaluatedAt = 0, per_NextEvaluation = 0,
      per_ComplianceScore = FNum 0\<rparr>"

definition zero_dependabot_policy_violation :: dependabot_policy_violation where
  "zero_dependabot_policy_violation =
     \<lparr>dpv_ID = [], dpv_Type = [], dpv_Severity = [], dpv_Title = [], dpv_Description = [],
      dpv_Ecosystem = [], dpv_Suggestion = [], dpv_AutoFixable = False, dpv_References = []\<rparr>"

definition zero_bulk_operation_progress :: bulk_operation_progress where
  "zero_bulk_operation_progress =
     \<lparr>bop_Total = 0, bop_Completed = 0, bop_Failed = 0, bop_Skipped = 0, bop_Percentage = FNum 0,
      bop_CurrentRepo = []\<rparr>"

definition zero_bulk_policy_operation :: bulk_policy_operation where
  "zero_bulk_policy_operation =
     \<lparr>bpo_ID = [], bpo_Type = [], bpo_Organization = [], bpo_PolicyID = [], bpo_TargetRepos = [],
      bpo_Status = [], bpo_Progress = zero_bulk_operation_progress, bpo_Results = [], bpo_StartedAt = 0,
      bpo_CompletedAt = None, bpo_EstimatedDuration = 0\<rparr>"

definition zero_dependabot_repository_operation_result :: dependabot_repository_operation_result where
  "zero_dependabot_repository_operation_result =
     \<lparr>dror_Repository = [], dror_Status = [], dror_Message = [], dror_Error = [],
      dror_Duration = 0, dror_Changes = [], dror_Timestamp = 0\<rparr>"

definition zero_organization_policy_summary :: organization_policy_summary where
  "zero_organization_policy_summary =
     \<lparr>ops_TotalRepositories = 0, ops_CompliantRepositories = 0, ops_ViolatingRepositories = 0,
      ops_ComplianceRate = FNum 0, ops_AverageComplianceScore = FNum 0, ops_TotalViolations = 0,
      ops_CriticalViolations = 0, ops_EcosystemBreakdown = [], ops_ViolationBreakdown = []\<rparr>"

definition zero_policy_trend_analysis :: policy_trend_analysis where
  "zero_policy_trend_analysis =
     \<lparr>pta_TimeRange = [], pta_ComplianceTrend = [], pta_ViolationTrends = [],
      pta_EcosystemTrends = [], pta_RecommendationImpact = []\<rparr>"

definition zero_organization_policy_report :: organization_policy_report where
  "zero_organization_policy_report =
     \<lparr>opr_Organization = [], opr_PolicyID = [], opr_GeneratedAt = 0,
      opr_Summary = zero_organization_policy_summary, opr_RepositoryResults = [],
      opr_TopViolations = [], opr_Recommendations = [], opr_TrendAnalysis = zero_policy_trend_analysis,
      opr_ExportFormats = []\<rparr>"

end
