(* ===== verification/DependabotPolicy.thy ===== *)
theory DependabotPolicy
  imports DependabotTypes PolicyStore
begin

text \<open>
  The Dependabot managers, \<open>pkg/github/dependabot_config.go\<close> and
  \<open>pkg/github/dependabot_policy_manager.go\<close>.

  The repositories come from the API client, a parameter; so does the encoder of
  \<open>yaml.Marshal\<close> (an error text, or success). \<open>now\<close> is the clock, read once per operation. The
  bulk operation of the policy manager runs in a goroutine of its own: it is a step relation
  whose steps are the critical sections of \<open>operationsMutex\<close>.
\<close>

section \<open>Configurations\<close>

definition supported_ecosystems :: "string list" where
  "supported_ecosystems =
     [''npm'', ''pip'', ''bundler'', ''gradle'', ''maven'', ''composer'', ''nuget'', ''cargo'', ''gomod'', ''docker'',
      ''gitsubmodule'', ''github-actions'', ''terraform'', ''elm'', ''mix'', ''pub'', ''swift'']"

definition valid_intervals :: "string list" where
  "valid_intervals = [''daily'', ''weekly'', ''monthly'']"

definition valid_versioning_strategies :: "string list" where
  "valid_versioning_strategies = [''auto'', ''lockfile-only'', ''widen'', ''increase'', ''increase-if-necessary'']"

definition is_supported_ecosystem :: "string \<Rightarrow> bool" where
  "is_supported_ecosystem ecosystem \<longleftrightarrow> ecosystem \<in> set supported_ecosystems"

definition is_valid_interval :: "string \<Rightarrow> bool" where
  "is_valid_interval interval \<longleftrightarrow> interval \<in> set valid_intervals"

definition is_valid_versioning_strategy :: "string \<Rightarrow> bool" where
  "is_valid_versioning_strategy strategy \<longleftrightarrow> strategy \<in> set valid_versioning_strategies"

datatype dependabot_problem =
    UnsupportedVersion int | NoUpdateRules | InvalidUpdateRule nat dependabot_problem
  | UnsupportedEcosystem string | DirectoryRequired | InvalidInterval string | InvalidStrategy string
  | MarshalFailed string | InvalidDependabotConfig dependabot_problem
  | DependabotPolicyIDRequired | DependabotPolicyNameRequired | DependabotOrganizationRequired
  | InvalidDefaultConfig dependabot_problem | InvalidPolicy dependabot_problem | InvalidPolicyUpdate dependabot_problem
  | PolicyNotFound string | RepositoriesUnlisted string | OperationNotFound string

definition validate_update_rule :: "dependabot_update_rule \<Rightarrow> dependabot_problem option" where
  "validate_update_rule rule =
     (if \<not> is_supported_ecosystem (dupr_PackageEcosystem rule) then Some (UnsupportedEcosystem (dupr_PackageEcosystem rule))
      else if dupr_Directory rule = [] then Some DirectoryRequired
      else if \<not> is_valid_interval (ds_Interval (dupr_Schedule rule))
        then Some (InvalidInterval (ds_Interval (dupr_Schedule rule)))
      else if dupr_VersioningStrategy rule \<noteq> [] \<and> \<not> is_valid_versioning_strategy (dupr_VersioningStrategy rule)
        then Some (InvalidStrategy (dupr_VersioningStrategy rule))
      else None)"

fun validate_update_rules :: "nat \<Rightarrow> dependabot_update_rule list \<Rightarrow> dependabot_problem option" where
  "validate_update_rules i [] = None"
| "validate_update_rules i (rule # rules) =
     (case validate_update_rule rule of
        Some e \<Rightarrow> Some (InvalidUpdateRule i e)
      | None \<Rightarrow> validate_update_rules (Suc i) rules)"

definition validate_dependabot_config :: "dependabot_config \<Rightarrow> dependabot_problem option" where
  "validate_dependabot_config config =
     (if dbc_Version config \<noteq> 2 then Some (UnsupportedVersion (dbc_Version config))
      else if dbc_Updates config = [] then Some NoUpdateRules
      else validate_update_rules 0 (dbc_Updates config))"

definition weekly_schedule :: dependabot_schedule where
  "weekly_schedule = \<lparr>ds_Interval = ''weekly'', ds_Day = ''monday'', ds_Time = ''06:00'', ds_Timezone = ''UTC''\<rparr>"

definition deps_message :: dependabot_commit_message where
  "deps_message = \<lparr>dcm_Prefix = ''deps'', dcm_PrefixDevelopment = [], dcm_Include = ''scope''\<rparr>"

definition get_dependabot_config :: "string \<Rightarrow> string \<Rightarrow> dependabot_config" where
  "get_dependabot_config organization repository =
     zero_dependabot_config\<lparr>dbc_Version := 2,
       dbc_Updates := [zero_dependabot_update_rule\<lparr>dupr_PackageEcosystem := ''gomod'', dupr_Directory := ''/'',
         dupr_Schedule := weekly_schedule, dupr_PullRequestLimit := 5, dupr_Labels := [''dependencies'', ''go''],
         dupr_CommitMessage := Some deps_message\<rparr>]\<rparr>"

definition update_dependabot_config ::
  "(dependabot_config \<Rightarrow> string option) \<Rightarrow> dependabot_config \<Rightarrow> dependabot_problem option" where
  "update_dependabot_config marshal config =
     (case validate_dependabot_config config of
        Some e \<Rightarrow> Some (InvalidDependabotConfig e)
      | None \<Rightarrow> map_option MarshalFailed (marshal config))"

definition create_default_update_rule :: "string \<Rightarrow> dependabot_update_rule" where
  "create_default_update_rule ecosystem =
     (let rule = zero_dependabot_update_rule\<lparr>dupr_PackageEcosystem := ecosystem, dupr_Directory := ''/'',
            dupr_Schedule := weekly_schedule, dupr_PullRequestLimit := 5,
            dupr_Labels := [''dependencies'', ecosystem], dupr_RebaseStrategy := ''auto''\<rparr>
      in if ecosystem = ''gomod'' then
           rule\<lparr>dupr_VendorUpdates := True, dupr_CommitMessage := Some deps_message\<rparr>
         else if ecosystem = ''npm'' then
           rule\<lparr>dupr_VersioningStrategy := ''increase'',
             dupr_AllowedUpdates :=
               [zero_dependabot_allowed_update\<lparr>dau_DependencyType := ''direct''\<rparr>,
                zero_dependabot_allowed_update\<lparr>dau_DependencyType := ''indirect'', dau_UpdateType := ''security''\<rparr>]\<rparr>
         else if ecosystem = ''docker'' then
           rule\<lparr>dupr_Schedule := weekly_schedule\<lparr>ds_Interval := ''monthly''\<rparr>, dupr_PullRequestLimit := 3\<rparr>
         else if ecosystem = ''github-actions'' then
           rule\<lparr>dupr_Schedule := weekly_schedule\<lparr>ds_Interval := ''weekly''\<rparr>,
             dupr_Groups := [(''github-actions'', zero_dependabot_group\<lparr>dg_Patterns := [''actions/*'']\<rparr>)]\<rparr>
         else rule)"

definition create_default_config :: "string list \<Rightarrow> dependabot_config" where
  "create_default_config ecosystems =
     zero_dependabot_config\<lparr>dbc_Version := 2, dbc_Updates := map create_default_update_rule ecosystems\<rparr>"

definition get_dependabot_status :: "int \<Rightarrow> string \<Rightarrow> string \<Rightarrow> dependabot_status" where
  "get_dependabot_status now organization repository =
     (let hour = 3600 * nanosecond_second; ecosystems = [''gomod'', ''docker'', ''github-actions''] in
      zero_dependabot_status\<lparr>dst_Repository := repository, dst_Organization := organization, dst_Enabled := True,
        dst_ConfigExists := True, dst_ConfigValid := True, dst_LastUpdated := now - 24 * hour,
        dst_ActivePullRequests := 2, dst_SupportedEcosystems := ecosystems,
        dst_RecentUpdates := [zero_dependabot_update\<lparr>dup_ID := ''update-1'',
          dup_Dependency := ''github.com/stretchr/testify'', dup_FromVersion := ''v1.8.0'', dup_ToVersion := ''v1.8.4'',
          dup_UpdateType := ''version-update:semver-patch'', dup_Ecosystem := ''gomod'', dup_Status := ''merged'',
          dup_CreatedAt := now - 48 * hour, dup_UpdatedAt := now - 24 * hour\<rparr>],
        dst_ConfigSummary := zero_dependabot_config_summary\<lparr>dcs_TotalEcosystems := 3,
          dcs_EnabledEcosystems := ecosystems, dcs_UpdateSchedules := [(''gomod'', ''weekly'')],
          dcs_SecurityUpdatesEnabled := True\<rparr>\<rparr>)"

definition detect_ecosystems :: "string \<Rightarrow> string \<Rightarrow> string list" where
  "detect_ecosystems organization repository =
     (let repoName = to_lower repository in
      [''gomod''] @
      (if contains repoName ''node'' \<or> contains repoName ''js'' then [''npm''] else []) @
      (if contains repoName ''python'' \<or> contains repoName ''py'' then [''pip''] else []) @
      (if contains repoName ''docker'' then [''docker''] else []) @
      [''github-actions''])"

section \<open>The policy manager\<close>

record policy_cache =
  pch_repositoryConfigs :: "(string, cached_repository_config) gomap"
  pch_policyResults :: "(string, policy_evaluation_result) gomap"
  pch_ttl :: int

record dependabot_manager =
  dpm_policies :: "(string, dependabot_policy_config) gomap"
  dpm_cache :: policy_cache
  dpm_operations :: "(string, bulk_policy_operation) gomap"

definition new_dependabot_policy_manager :: dependabot_manager where
  "new_dependabot_policy_manager =
     \<lparr>dpm_policies = [],
      dpm_cache = \<lparr>pch_repositoryConfigs = [], pch_policyResults = [], pch_ttl = 3600 * nanosecond_second\<rparr>,
      dpm_operations = []\<rparr>"

definition validate_dependabot_policy :: "dependabot_policy_config \<Rightarrow> dependabot_problem option" where
  "validate_dependabot_policy policy =
     (if dpc_ID policy = [] then Some DependabotPolicyIDRequired
      else if dpc_Name policy = [] then Some DependabotPolicyNameRequired
      else if dpc_Organization policy = [] then Some DependabotOrganizationRequired
      else map_option InvalidDefaultConfig (validate_dependabot_config (dpc_DefaultConfig policy)))"

definition create_policy ::
  "int \<Rightarrow> dependabot_policy_config \<Rightarrow> dependabot_manager \<Rightarrow> dependabot_problem option \<times> dependabot_manager" where
  "create_policy now policy pm =
     (case validate_dependabot_policy policy of
        Some e \<Rightarrow> (Some (InvalidPolicy e), pm)
      | None \<Rightarrow>
          (None, pm\<lparr>dpm_policies := gm_put (dpc_ID policy)
             (policy\<lparr>dpc_CreatedAt := now, dpc_UpdatedAt := now, dpc_Version := 1\<rparr>) (dpm_policies pm)\<rparr>))"

definition get_policy :: "string \<Rightarrow> dependabot_manager \<Rightarrow> dependabot_problem + dependabot_policy_config" where
  "get_policy policyID pm =
     (case gm_get (dpm_policies pm) policyID of None \<Rightarrow> Inl (PolicyNotFound policyID) | Some policy \<Rightarrow> Inr policy)"

definition invalidate_organization :: "string \<Rightarrow> dependabot_manager \<Rightarrow> dependabot_manager" where
  "invalidate_organization organization pm =
     pm\<lparr>dpm_cache := (dpm_cache pm)\<lparr>pch_policyResults :=
       filter (\<lambda>(key, r). per_Organization r \<noteq> organization) (pch_policyResults (dpm_cache pm))\<rparr>\<rparr>"

definition update_dependabot_policy ::
  "int \<Rightarrow> dependabot_policy_config \<Rightarrow> dependabot_manager \<Rightarrow> dependabot_problem option \<times> dependabot_manager" where
  "update_dependabot_policy now policy pm =
     (case gm_get (dpm_policies pm) (dpc_ID policy) of
        None \<Rightarrow> (Some (PolicyNotFound (dpc_ID policy)), pm)
      | Some existing \<Rightarrow>
          (case validate_dependabot_policy policy of
             Some e \<Rightarrow> (Some (InvalidPolicyUpdate e), pm)
           | None \<Rightarrow>
               (None, invalidate_organization (dpc_Organization policy)
                  (pm\<lparr>dpm_policies := gm_put (dpc_ID policy)
                     (policy\<lparr>dpc_CreatedAt := dpc_CreatedAt existing, dpc_UpdatedAt := now,
                        dpc_Version := wrap64 (dpc_Version existing + 1)\<rparr>) (dpm_policies pm)\<rparr>))))"

definition delete_policy :: "string \<Rightarrow> dependabot_manager \<Rightarrow> dependabot_problem option \<times> dependabot_manager" where
  "delete_policy policyID pm =
     (case gm_get (dpm_policies pm) policyID of
        None \<Rightarrow> (Some (PolicyNotFound policyID), pm)
      | Some policy \<Rightarrow>
          (None, invalidate_organization (dpc_Organization policy)
             (pm\<lparr>dpm_policies := gm_del policyID (dpm_policies pm)\<rparr>)))"

section \<open>Compliance\<close>

definition violation_id :: "int \<Rightarrow> string" where
  "violation_id unix = ''violation-'' @ show_int unix"

definition penalise :: "dependabot_policy_violation \<Rightarrow> rat \<Rightarrow> policy_evaluation_result \<Rightarrow> policy_evaluation_result" where
  "penalise v points r = r\<lparr>per_Violations := per_Violations r @ [v],
     per_ComplianceScore := fadd (per_ComplianceScore r) (FNum (- points))\<rparr>"

definition missing_ecosystem :: "string \<Rightarrow> dependabot_policy_violation" where
  "missing_ecosystem ecosystem = zero_dependabot_policy_violation\<lparr>dpv_ID := ''violation-eco-'' @ ecosystem,
     dpv_Type := ''disabled_ecosystem'', dpv_Severity := ''medium'',
     dpv_Title := ''Missing '' @ ecosystem @ '' ecosystem configuration'',
     dpv_Description := ''Policy requires '' @ ecosystem @ '' ecosystem to be configured'', dpv_Ecosystem := ecosystem,
     dpv_Suggestion := ''Add '' @ ecosystem @ '' update rule to Dependabot configuration'', dpv_AutoFixable := True\<rparr>"

fun check_ecosystems ::
  "dependabot_config \<Rightarrow> (string \<times> ecosystem_policy) list \<Rightarrow> policy_evaluation_result \<Rightarrow> policy_evaluation_result" where
  "check_ecosystems config [] r = r"
| "check_ecosystems config ((ecosystem, policy) # policies) r =
     check_ecosystems config policies
       (if ep2_Enabled policy \<and> \<not> list_ex (\<lambda>u. dupr_PackageEcosystem u = ecosystem) (dbc_Updates config)
        then penalise (missing_ecosystem ecosystem) 10 r else r)"

definition perform_policy_evaluation ::
  "int \<Rightarrow> dependabot_policy_config \<Rightarrow> dependabot_config \<Rightarrow> dependabot_status \<Rightarrow> string \<Rightarrow> string
     \<Rightarrow> policy_evaluation_result" where
  "perform_policy_evaluation now policy config status organization repository =
     (let unix = now div nanosecond_second;
          r0 = zero_policy_evaluation_result\<lparr>per_PolicyID := dpc_ID policy, per_Repository := repository,
                 per_Organization := organization, per_EvaluatedAt := now,
                 per_NextEvaluation := now + 24 * 3600 * nanosecond_second, per_ComplianceScore := FNum 100\<rparr>;
          r1 = (if \<not> dst_Enabled status
                then penalise (zero_dependabot_policy_violation\<lparr>dpv_ID := violation_id unix,
                  dpv_Type := ''missing_config'', dpv_Severity := ''critical'', dpv_Title := ''Dependabot not enabled'',
                  dpv_Description := ''Dependabot is not enabled for this repository'',
                  dpv_Suggestion := ''Enable Dependabot in repository settings'', dpv_AutoFixable := True\<rparr>) 50 r0
                else r0);
          r2 = (if \<not> dst_ConfigValid status \<and> dst_ConfigExists status
                then penalise (zero_dependabot_policy_violation\<lparr>dpv_ID := violation_id (unix + 1),
                  dpv_Type := ''invalid_config'', dpv_Severity := ''high'',
                  dpv_Title := ''Invalid Dependabot configuration'',
                  dpv_Description := ''The Dependabot configuration file contains errors'',
                  dpv_Suggestion := ''Review and fix the .github/dependabot.yml file''\<rparr>) 30 r1
                else r1);
          r3 = check_ecosystems config (dpc_EcosystemPolicies policy) r2
      in r3\<lparr>per_Compliant := (per_Violations r3 = [])\<rparr>)"

definition cache_key :: "string \<Rightarrow> string \<Rightarrow> string \<Rightarrow> string" where
  "cache_key policyID organization repository = policyID @ '':'' @ organization @ '':'' @ repository"

definition set_results :: "(string, policy_evaluation_result) gomap \<Rightarrow> dependabot_manager \<Rightarrow> dependabot_manager" where
  "set_results results pm = pm\<lparr>dpm_cache := (dpm_cache pm)\<lparr>pch_policyResults := results\<rparr>\<rparr>"

abbreviation results_of :: "dependabot_manager \<Rightarrow> (string, policy_evaluation_result) gomap" where
  "results_of pm \<equiv> pch_policyResults (dpm_cache pm)"

definition get_cached_result ::
  "int \<Rightarrow> string \<Rightarrow> dependabot_manager \<Rightarrow> policy_evaluation_result option \<times> dependabot_manager" where
  "get_cached_result now key pm =
     (case gm_get (results_of pm) key of
        None \<Rightarrow> (None, pm)
      | Some result \<Rightarrow>
          if now < per_NextEvaluation result then (Some result, pm)
          else (None, set_results (gm_del key (results_of pm)) pm))"

definition cache_result :: "string \<Rightarrow> policy_evaluation_result \<Rightarrow> dependabot_manager \<Rightarrow> dependabot_manager" where
  "cache_result key result pm = set_results (gm_put key result (results_of pm)) pm"

definition evaluate_repository_compliance ::
  "int \<Rightarrow> string \<Rightarrow> string \<Rightarrow> string \<Rightarrow> dependabot_manager
     \<Rightarrow> (dependabot_problem + policy_evaluation_result) \<times> dependabot_manager" where
  "evaluate_repository_compliance now policyID organization repository pm =
     (let key = cache_key policyID organization repository in
      case get_cached_result now key pm of
        (Some result, pm') \<Rightarrow> (Inr result, pm')
      | (None, pm') \<Rightarrow>
          (case get_policy policyID pm' of
             Inl e \<Rightarrow> (Inl e, pm')
           | Inr policy \<Rightarrow>
               let result = perform_policy_evaluation now policy (get_dependabot_config organization repository)
                     (get_dependabot_status now organization repository) organization repository
               in (Inr result, cache_result key result pm')))"

section \<open>Bulk operations\<close>

type_synonym organization_repositories = "string \<Rightarrow> string + repository_info list"

definition apply_policy_to_organization ::
  "organization_repositories \<Rightarrow> int \<Rightarrow> string \<Rightarrow> string \<Rightarrow> string \<Rightarrow> dependabot_manager
     \<Rightarrow> (dependabot_problem + bulk_policy_operation) \<times> dependabot_manager" where
  "apply_policy_to_organization list_repos now uuid policyID organization pm =
     (case get_policy policyID pm of
        Inl e \<Rightarrow> (Inl e, pm)
      | Inr policy \<Rightarrow>
          (case list_repos organization of
             Inl e \<Rightarrow> (Inl (RepositoriesUnlisted e), pm)
           | Inr repos \<Rightarrow>
               let operation = zero_bulk_policy_operation\<lparr>bpo_ID := ''bulk-'' @ uuid, bpo_Type := ''apply_policy'',
                     bpo_Organization := organization, bpo_PolicyID := policyID, bpo_TargetRepos := map rpi_Name repos,
                     bpo_Status := ''pending'',
                     bpo_Progress := zero_bulk_operation_progress\<lparr>bop_Total := int (length repos)\<rparr>,
                     bpo_StartedAt := now,
                     bpo_EstimatedDuration := wrap64 (wrap64 (int (length repos) * 30) * nanosecond_second)\<rparr>
               in (Inr operation, pm\<lparr>dpm_operations := gm_put (bpo_ID operation) operation (dpm_operations pm)\<rparr>)))"

text \<open>A snapshot copies every part that the goroutine may still change: it is the value itself.\<close>

definition get_bulk_operation :: "string \<Rightarrow> dependabot_manager \<Rightarrow> dependabot_problem + bulk_policy_operation" where
  "get_bulk_operation operationID pm =
     (case gm_get (dpm_operations pm) operationID of None \<Rightarrow> Inl (OperationNotFound operationID) | Some op \<Rightarrow> Inr op)"

datatype apply_error = NotImplemented string | ApplyFailed string

type_synonym apply_policy = "dependabot_policy_config \<Rightarrow> string \<Rightarrow> string \<Rightarrow> apply_error option"

definition apply_policy_to_repository :: apply_policy where
  "apply_policy_to_repository policy organization repository =
     Some (NotImplemented (''not implemented: dependabot policy application for '' @ organization @ ''/'' @ repository))"

definition operation_result :: "int \<Rightarrow> int \<Rightarrow> string \<Rightarrow> apply_error option \<Rightarrow> dependabot_repository_operation_result" where
  "operation_result started finished repoName err =
     (let result = zero_dependabot_repository_operation_result\<lparr>dror_Repository := repoName, dror_Timestamp := started,
            dror_Duration := time_sub finished started\<rparr>
      in case err of
           Some (NotImplemented e) \<Rightarrow>
             result\<lparr>dror_Status := ''skipped'', dror_Error := e, dror_Message := ''Policy application is not implemented''\<rparr>
         | Some (ApplyFailed e) \<Rightarrow> result\<lparr>dror_Status := ''failed'', dror_Error := e\<rparr>
         | None \<Rightarrow> result\<lparr>dror_Status := ''success'', dror_Message := ''Policy applied successfully''\<rparr>)"

definition count_outcome :: "apply_error option \<Rightarrow> bulk_operation_progress \<Rightarrow> bulk_operation_progress" where
  "count_outcome err p =
     (case err of
        Some (NotImplemented e) \<Rightarrow> p\<lparr>bop_Skipped := bop_Skipped p + 1\<rparr>
      | Some (ApplyFailed e) \<Rightarrow> p\<lparr>bop_Failed := bop_Failed p + 1\<rparr>
      | None \<Rightarrow> p\<lparr>bop_Completed := bop_Completed p + 1\<rparr>)"

definition record_operation ::
  "nat \<Rightarrow> apply_error option \<Rightarrow> dependabot_repository_operation_result \<Rightarrow> bulk_policy_operation \<Rightarrow> bulk_policy_operation" where
  "record_operation i err result op =
     op\<lparr>bpo_Results := bpo_Results op @ [result],
        bpo_Progress := (count_outcome err (bpo_Progress op))\<lparr>bop_Percentage :=
          fmul_const (fdiv (float_of_int (int i + 1)) (float_of_int (bop_Total (bpo_Progress op)))) 100\<rparr>\<rparr>"

text \<open>
  The goroutine of \<open>executeBulkOperation\<close>: where it stands, and what each critical section
  does to the operation that snapshots are taken of.
\<close>

datatype bulk_phase =
    BulkStart | BulkNext nat | BulkApply nat int
  | BulkRecord nat "apply_error option" dependabot_repository_operation_result | BulkDone

inductive bulk_op_step ::
  "apply_policy \<Rightarrow> dependabot_policy_config \<Rightarrow> bulk_policy_operation \<times> bulk_phase \<Rightarrow> bulk_policy_operation \<times> bulk_phase \<Rightarrow> bool"
  for apply_one policy where
  running: "bulk_op_step apply_one policy (op, BulkStart) (op\<lparr>bpo_Status := ''running''\<rparr>, BulkNext 0)"
| next_repository:
    "i < length (bpo_TargetRepos op) \<Longrightarrow>
     bulk_op_step apply_one policy (op, BulkNext i)
       (op\<lparr>bpo_Progress := (bpo_Progress op)\<lparr>bop_CurrentRepo := bpo_TargetRepos op ! i\<rparr>\<rparr>, BulkApply i started)"
| applied:
    "err = apply_one policy (bpo_Organization op) (bpo_TargetRepos op ! i) \<Longrightarrow>
     bulk_op_step apply_one policy (op, BulkApply i started)
       (op, BulkRecord i err (operation_result started finished (bpo_TargetRepos op ! i) err))"
| recorded: "bulk_op_step apply_one policy (op, BulkRecord i err result) (record_operation i err result op, BulkNext (Suc i))"
| completed:
    "i = length (bpo_TargetRepos op) \<Longrightarrow>
     bulk_op_step apply_one policy (op, BulkNext i)
       (op\<lparr>bpo_CompletedAt := Some now, bpo_Status := ''completed'',
          bpo_Progress := (bpo_Progress op)\<lparr>bop_CurrentRepo := []\<rparr>\<rparr>, BulkDone)"

inductive_simps bulk_done_iff: "bulk_op_step apply_one policy (op, BulkDone) s"

section \<open>Reports\<close>

definition generate_trend_analysis :: "int \<Rightarrow> policy_trend_analysis" where
  "generate_trend_analysis now =
     \<lparr>pta_TimeRange = ''30 days'', pta_ComplianceTrend = ''improving'', pta_ViolationTrends = [], pta_EcosystemTrends = [],
      pta_RecommendationImpact = [\<lparr>ri_RecommendationID = ''rec-1'',
        ri_ImplementedAt = now - 7 * 24 * 3600 * nanosecond_second, ri_ImpactedRepos = 5,
        ri_ComplianceIncrease = FNum (31 / 2), ri_ViolationsReduced = 12\<rparr>]\<rparr>"

fun count_violations :: "dependabot_policy_violation list \<Rightarrow> organization_policy_summary \<Rightarrow> organization_policy_summary" where
  "count_violations [] s = s"
| "count_violations (v # vs) s =
     count_violations vs
       (let s1 = s\<lparr>ops_ViolationBreakdown :=
              gm_put (dpv_Type v) (gm_at 0 (ops_ViolationBreakdown s) (dpv_Type v) + 1) (ops_ViolationBreakdown s)\<rparr>
        in if dpv_Severity v = ''critical'' then s1\<lparr>ops_CriticalViolations := ops_CriticalViolations s1 + 1\<rparr> else s1)"

definition count_result ::
  "policy_evaluation_result \<Rightarrow> organization_policy_summary \<Rightarrow> organization_policy_summary" where
  "count_result r s0 =
     (let s1 = (if per_Compliant r then s0\<lparr>ops_CompliantRepositories := ops_CompliantRepositories s0 + 1\<rparr>
                else s0\<lparr>ops_ViolatingRepositories := ops_ViolatingRepositories s0 + 1\<rparr>);
          s2 = count_violations (per_Violations r) s1
      in s2\<lparr>ops_TotalViolations := ops_TotalViolations s2 + int (length (per_Violations r))\<rparr>)"

fun evaluate_repositories ::
  "int \<Rightarrow> string \<Rightarrow> string \<Rightarrow> repository_info list
     \<Rightarrow> policy_evaluation_result list \<times> float64 \<times> organization_policy_summary \<times> dependabot_manager
     \<Rightarrow> policy_evaluation_result list \<times> float64 \<times> organization_policy_summary \<times> dependabot_manager" where
  "evaluate_repositories now policyID organization [] st = st"
| "evaluate_repositories now policyID organization (repo # repos) (results, score, s, pm) =
     (if rpi_Archived repo \<or> rpi_Disabled repo then
        evaluate_repositories now policyID organization repos (results, score, s, pm)
      else
        (case evaluate_repository_compliance now policyID organization (rpi_Name repo) pm of
           (Inl e, pm') \<Rightarrow> evaluate_repositories now policyID organization repos (results, score, s, pm')
         | (Inr r, pm') \<Rightarrow>
             evaluate_repositories now policyID organization repos
               (results @ [r], fadd score (per_ComplianceScore r), count_result r s, pm')))"

definition generate_organization_report ::
  "organization_repositories \<Rightarrow> int \<Rightarrow> string \<Rightarrow> string \<Rightarrow> dependabot_manager
     \<Rightarrow> (dependabot_problem + organization_policy_report) \<times> dependabot_manager" where
  "generate_organization_report list_repos now policyID organization pm =
     (case get_policy policyID pm of
        Inl e \<Rightarrow> (Inl e, pm)
      | Inr policy \<Rightarrow>
          (case list_repos organization of
             Inl e \<Rightarrow> (Inl (RepositoriesUnlisted e), pm)
           | Inr repos \<Rightarrow>
               let (results, score, s, pm') = evaluate_repositories now policyID organization repos
                     ([], FNum 0, zero_organization_policy_summary\<lparr>ops_TotalRepositories := int (length repos)\<rparr>, pm);
                   n = float_of_int (int (length results));
                   summary = (if results \<noteq> []
                     then s\<lparr>ops_ComplianceRate := fmul_const (fdiv (float_of_int (ops_CompliantRepositories s)) n) 100,
                            ops_AverageComplianceScore := fdiv score n\<rparr>
                     else s)
               in (Inr (zero_organization_policy_report\<lparr>opr_Organization := organization, opr_PolicyID := policyID,
                     opr_GeneratedAt := now, opr_RepositoryResults := results, opr_Summary := summary,
                     opr_TrendAnalysis := generate_trend_analysis now,
                     opr_ExportFormats := [''json'', ''html'', ''csv'', ''pdf'']\<rparr>), pm')))"

section \<open>Default configurations are valid\<close>

lemma validate_update_rules_None:
  "validate_update_rules i rules = None \<longleftrightarrow> list_all (\<lambda>r. validate_update_rule r = None) rules"
  by (induction rules arbitrary: i) (auto split: option.splits)

lemma default_rule_valid: "validate_update_rule (create_default_update_rule e) = None \<longleftrightarrow> is_supported_ecosystem e"
  by (simp add: validate_update_rule_def create_default_update_rule_def Let_def is_valid_interval_def valid_intervals_def
      weekly_schedule_def is_valid_versioning_strategy_def valid_versioning_strategies_def zero_dependabot_update_rule_def)

theorem default_config_valid:
  "validate_dependabot_config (create_default_config ecosystems) = None \<longleftrightarrow>
     ecosystems \<noteq> [] \<and> set ecosystems \<subseteq> set supported_ecosystems"
  by (auto simp: validate_dependabot_config_def create_default_config_def validate_update_rules_None list_all_iff
      default_rule_valid is_supported_ecosystem_def)

lemma detected_config_valid:
  "validate_dependabot_config (create_default_config (detect_ecosystems organization repository)) = None"
  by (auto simp: default_config_valid detect_ecosystems_def supported_ecosystems_def Let_def)

section \<open>Bulk operations seen from outside\<close>

definition phase_position :: "bulk_phase \<Rightarrow> nat" where
  "phase_position ph =
     (case ph of BulkNext i \<Rightarrow> i | BulkApply i _ \<Rightarrow> i | BulkRecord i _ _ \<Rightarrow> i | _ \<Rightarrow> 0)"

definition status_count :: "string \<Rightarrow> bulk_policy_operation \<Rightarrow> int" where
  "status_count s op = int (length (filter (\<lambda>r. dror_Status r = s) (bpo_Results op)))"

definition outcome_status :: "apply_error option \<Rightarrow> string" where
  "outcome_status err =
     (case err of Some (NotImplemented _) \<Rightarrow> ''skipped'' | Some (ApplyFailed _) \<Rightarrow> ''failed'' | None \<Rightarrow> ''success'')"

lemma operation_result_sel [simp]:
  "dror_Repository (operation_result a b n err) = n" "dror_Status (operation_result a b n err) = outcome_status err"
  by (simp_all add: operation_result_def outcome_status_def Let_def split: option.splits apply_error.splits)

text \<open>
  What a snapshot shows: the results are those of the first targets, in order; the counters
  count them by status.
\<close>

definition snapshot_consistent :: "bulk_policy_operation \<Rightarrow> bool" where
  "snapshot_consistent op \<longleftrightarrow>
     (let n = length (bpo_Results op); p = bpo_Progress op in
      n \<le> length (bpo_TargetRepos op) \<and> map dror_Repository (bpo_Results op) = take n (bpo_TargetRepos op) \<and>
      bop_Total p = int (length (bpo_TargetRepos op)) \<and>
      bop_Completed p = status_count ''success'' op \<and> bop_Failed p = status_count ''failed'' op \<and>
      bop_Skipped p = status_count ''skipped'' op \<and>
      bop_Completed p + bop_Failed p + bop_Skipped p = int n \<and>
      (bpo_Status op = ''completed'' \<longleftrightarrow> bpo_CompletedAt op \<noteq> None) \<and>
      (bpo_Status op = ''completed'' \<longrightarrow> n = length (bpo_TargetRepos op)))"

definition bulk_inv :: "apply_policy \<Rightarrow> dependabot_policy_config \<Rightarrow> bulk_policy_operation \<times> bulk_phase \<Rightarrow> bool" where
  "bulk_inv apply_one policy s \<longleftrightarrow>
     (case s of (op, ph) \<Rightarrow>
        snapshot_consistent op \<and>
        list_all (\<lambda>r. dror_Status r = outcome_status (apply_one policy (bpo_Organization op) (dror_Repository r))) (bpo_Results op) \<and>
        (ph = BulkDone \<longleftrightarrow> bpo_Status op = ''completed'') \<and>
        (ph \<noteq> BulkDone \<longrightarrow> length (bpo_Results op) = phase_position ph) \<and>
        (case ph of
           BulkApply i _ \<Rightarrow> i < length (bpo_TargetRepos op)
         | BulkRecord i err r \<Rightarrow> i < length (bpo_TargetRepos op) \<and> dror_Repository r = bpo_TargetRepos op ! i \<and>
             err = apply_one policy (bpo_Organization op) (bpo_TargetRepos op ! i) \<and> dror_Status r = outcome_status err
         | _ \<Rightarrow> True))"

lemma count_outcome_sel:
  "bop_Completed (count_outcome err p) = bop_Completed p + (if outcome_status err = ''success'' then 1 else 0)"
  "bop_Failed (count_outcome err p) = bop_Failed p + (if outcome_status err = ''failed'' then 1 else 0)"
  "bop_Skipped (count_outcome err p) = bop_Skipped p + (if outcome_status err = ''skipped'' then 1 else 0)"
  "bop_Total (count_outcome err p) = bop_Total p"
  by (simp_all add: count_outcome_def outcome_status_def split: option.splits apply_error.splits)

lemma outcome_status_values: "outcome_status err \<in> {''success'', ''failed'', ''skipped''}"
  by (simp add: outcome_status_def split: option.splits apply_error.splits)

lemma record_consistent:
  assumes "snapshot_consistent op" and "length (bpo_Results op) = i" and "i < length (bpo_TargetRepos op)"
    and "dror_Repository r = bpo_TargetRepos op ! i" and "dror_Status r = outcome_status err"
    and "bpo_Status op \<noteq> ''completed''"
  shows "snapshot_consistent (record_operation i err r op)"
  using assms outcome_status_values [of err]
  by (auto simp: snapshot_consistent_def record_operation_def count_outcome_sel status_count_def take_Suc_conv_app_nth Let_def)

lemma bulk_step_inv:
  assumes "bulk_op_step apply_one policy s s'" and "bulk_inv apply_one policy s"
  shows "bulk_inv apply_one policy s'"
  using assms
proof (induction rule: bulk_op_step.induct)
  case (running op)
  then show ?case by (auto simp: bulk_inv_def snapshot_consistent_def status_count_def phase_position_def Let_def)
next
  case (next_repository i op started)
  then show ?case by (auto simp: bulk_inv_def snapshot_consistent_def status_count_def phase_position_def Let_def)
next
  case (applied err op i started finished)
  then show ?case by (auto simp: bulk_inv_def phase_position_def)
next
  case (recorded op i err r)
  then have "snapshot_consistent (record_operation i err r op)"
    by (intro record_consistent) (auto simp: bulk_inv_def phase_position_def)
  then show ?case using recorded by (auto simp: bulk_inv_def phase_position_def record_operation_def)
next
  case (completed i op now)
  then show ?case by (auto simp: bulk_inv_def snapshot_consistent_def status_count_def phase_position_def Let_def)
qed

lemma bulk_initial:
  assumes "apply_policy_to_organization list_repos now uuid policyID org pm = (Inr op, pm')"
  shows "bulk_inv apply_one policy (op, BulkStart)" and "bpo_Organization op = org"
    and "\<exists>repos. list_repos org = Inr repos \<and> bpo_TargetRepos op = map rpi_Name repos"
    and "get_bulk_operation (bpo_ID op) pm' = Inr op"
  using assms
  by (auto simp: apply_policy_to_organization_def Let_def bulk_inv_def snapshot_consistent_def status_count_def
      phase_position_def zero_bulk_policy_operation_def zero_bulk_operation_progress_def get_bulk_operation_def
      split: sum.splits)

definition bulk_run ::
  "apply_policy \<Rightarrow> dependabot_policy_config \<Rightarrow> bulk_policy_operation \<times> bulk_phase \<Rightarrow> bulk_policy_operation \<times> bulk_phase \<Rightarrow> bool"
where
  "bulk_run apply_one policy = (bulk_op_step apply_one policy)\<^sup>*\<^sup>*"

lemma bulk_run_inv:
  assumes "bulk_run apply_one policy s s'" and "bulk_inv apply_one policy s"
  shows "bulk_inv apply_one policy s'"
  using assms unfolding bulk_run_def by (induction rule: rtranclp_induct) (auto intro: bulk_step_inv)

lemma bulk_step_targets:
  "bulk_op_step apply_one policy (op, ph) (op', ph') \<Longrightarrow>
     bpo_TargetRepos op' = bpo_TargetRepos op \<and> bpo_Organization op' = bpo_Organization op \<and> bpo_ID op' = bpo_ID op"
  by (auto simp: record_operation_def elim: bulk_op_step.cases)

lemma bulk_run_targets:
  assumes "bulk_run apply_one policy s s'"
  shows "bpo_TargetRepos (fst s') = bpo_TargetRepos (fst s) \<and> bpo_Organization (fst s') = bpo_Organization (fst s)"
  using assms unfolding bulk_run_def
  by (induction rule: rtranclp_induct) (auto dest: bulk_step_targets)

text \<open>The steps a state can still make.\<close>

fun steps_left :: "bulk_policy_operation \<times> bulk_phase \<Rightarrow> nat" where
  "steps_left (op, BulkStart) = 3 * length (bpo_TargetRepos op) + 2"
| "steps_left (op, BulkNext i) = 3 * (length (bpo_TargetRepos op) - i) + 1"
| "steps_left (op, BulkApply i _) = 3 * (length (bpo_TargetRepos op) - i)"
| "steps_left (op, BulkRecord i _ _) = 3 * (length (bpo_TargetRepos op) - i) - 1"
| "steps_left (op, BulkDone) = 0"

lemma bulk_step_measure:
  assumes "bulk_op_step apply_one policy s s'" and "bulk_inv apply_one policy s"
  shows "steps_left s = Suc (steps_left s')"
  using assms by (induction rule: bulk_op_step.induct) (auto simp: bulk_inv_def record_operation_def)

lemma bulk_progress:
  assumes "bulk_inv apply_one policy (op, ph)" and "ph \<noteq> BulkDone"
  shows "\<exists>s'. bulk_op_step apply_one policy (op, ph) s'"
proof (cases ph)
  case (BulkNext i)
  then have "i \<le> length (bpo_TargetRepos op)"
    using assms by (auto simp: bulk_inv_def snapshot_consistent_def phase_position_def Let_def)
  then show ?thesis unfolding BulkNext using bulk_op_step.next_repository bulk_op_step.completed by (metis le_neq_implies_less)
qed (use assms(2) bulk_op_step.running bulk_op_step.applied bulk_op_step.recorded in blast)+

lemma bulk_steps_counted:
  assumes "(bulk_op_step apply_one policy ^^ k) s s'" and "bulk_inv apply_one policy s"
  shows "steps_left s = k + steps_left s' \<and> bulk_inv apply_one policy s'"
  using assms
proof (induction k arbitrary: s')
  case (Suc k)
  then obtain t where "(bulk_op_step apply_one policy ^^ k) s t" "bulk_op_step apply_one policy t s'" by auto
  then show ?case using Suc.IH [of t] Suc.prems(2) bulk_step_measure [of apply_one policy t s'] bulk_step_inv [of apply_one policy t s']
    by auto
qed simp

lemma bulk_completes:
  assumes "bulk_inv apply_one policy (op, ph)"
  shows "\<exists>final. bulk_run apply_one policy (op, ph) (final, BulkDone)"
  using assms
proof (induction "steps_left (op, ph)" arbitrary: op ph rule: less_induct)
  case less
  show ?case
  proof (cases "ph = BulkDone")
    case True
    then show ?thesis by (auto simp: bulk_run_def)
  next
    case False
    then obtain op1 ph1 where step: "bulk_op_step apply_one policy (op, ph) (op1, ph1)"
      using bulk_progress [OF less.prems] by auto
    then obtain final where "bulk_run apply_one policy (op1, ph1) (final, BulkDone)"
      using less.hyps [of op1 ph1] bulk_step_measure [OF step less.prems] bulk_step_inv [OF step less.prems] by auto
    then show ?thesis using step by (auto simp: bulk_run_def intro: converse_rtranclp_into_rtranclp)
  qed
qed

text \<open>
  Property C26. Whatever moment a snapshot of a bulk operation is taken at, its results are
  those of the first repositories of the organisation in their order, its counters count them
  by status, and it is marked completed, with a completion time, only when every repository
  has its result. From any such moment the operation can complete, and it makes at most three
  steps per repository and two.
\<close>

theorem bulk_snapshots_consistent:
  assumes "apply_policy_to_organization list_repos now uuid policyID org pm = (Inr op, pm')"
    and "(bulk_op_step apply_one policy ^^ k) (op, BulkStart) (op', ph)"
  shows "snapshot_consistent op' \<and> bpo_TargetRepos op' = bpo_TargetRepos op \<and>
    list_all (\<lambda>r. dror_Status r = outcome_status (apply_one policy org (dror_Repository r))) (bpo_Results op') \<and>
    (\<exists>final. bulk_run apply_one policy (op', ph) (final, BulkDone) \<and> bpo_Status final = ''completed'') \<and>
    k \<le> 3 * length (bpo_TargetRepos op) + 2"
proof -
  note init = bulk_initial(1) [OF assms(1), of apply_one policy] bulk_initial(2) [OF assms(1)]
  have k: "steps_left (op, BulkStart) = k + steps_left (op', ph)" and inv: "bulk_inv apply_one policy (op', ph)"
    using bulk_steps_counted [OF assms(2) init(1)] by auto
  have run: "bulk_run apply_one policy (op, BulkStart) (op', ph)"
    using assms(2) by (auto simp: bulk_run_def dest: relpowp_imp_rtranclp)
  have tgt: "bpo_TargetRepos op' = bpo_TargetRepos op" "bpo_Organization op' = org"
    using bulk_run_targets [OF run] init(2) by simp_all
  obtain final where f: "bulk_run apply_one policy (op', ph) (final, BulkDone)" using bulk_completes [OF inv] by blast
  then have "bpo_Status final = ''completed''" using bulk_run_inv [OF f inv] by (simp add: bulk_inv_def)
  then show ?thesis using f inv tgt k by (auto simp: bulk_inv_def)
qed

text \<open>No policy is ever written: a completed operation reports every repository as skipped.\<close>

theorem bulk_operation_skips_everything:
  assumes "apply_policy_to_organization list_repos now uuid policyID org pm = (Inr op, pm')"
    and "bulk_run apply_policy_to_repository policy (op, BulkStart) (final, BulkDone)"
  shows "bop_Skipped (bpo_Progress final) = bop_Total (bpo_Progress final) \<and>
    bop_Completed (bpo_Progress final) = 0 \<and> bop_Failed (bpo_Progress final) = 0"
proof -
  have "bulk_inv apply_policy_to_repository policy (final, BulkDone)"
    using bulk_run_inv [OF assms(2)] bulk_initial(1) [OF assms(1)] by blast
  then have c: "snapshot_consistent final" "bpo_Status final = ''completed''"
    "list_all (\<lambda>r. dror_Status r = ''skipped'') (bpo_Results final)"
    by (auto simp: bulk_inv_def apply_policy_to_repository_def outcome_status_def list_all_iff)
  have "status_count ''skipped'' final = int (length (bpo_Results final))" "status_count ''success'' final = 0"
    "status_count ''failed'' final = 0"
    using c(3) by (auto simp: status_count_def list_all_iff filter_empty_conv intro!: arg_cong [where f = length] filter_True)
  then show ?thesis using c(1,2) by (simp add: snapshot_consistent_def Let_def)
qed

definition sample_dependabot_policy :: dependabot_policy_config where
  "sample_dependabot_policy = zero_dependabot_policy_config\<lparr>dpc_ID := ''p'', dpc_Name := ''policy'',
     dpc_Organization := ''org'', dpc_DefaultConfig := create_default_config [''gomod'']\<rparr>"

definition sample_dependabot_manager :: dependabot_manager where
  "sample_dependabot_manager = snd (create_policy 0 sample_dependabot_policy new_dependabot_policy_manager)"

lemma sample_dependabot_stored:
  "gm_get (dpm_policies sample_dependabot_manager) ''p'' =
     Some (sample_dependabot_policy\<lparr>dpc_CreatedAt := 0, dpc_UpdatedAt := 0, dpc_Version := 1\<rparr>)"
proof -
  have "validate_dependabot_policy sample_dependabot_policy = None" by code_simp
  moreover have "dpc_ID sample_dependabot_policy = ''p''" by (simp add: sample_dependabot_policy_def)
  ultimately show ?thesis
    by (simp add: sample_dependabot_manager_def create_policy_def new_dependabot_policy_manager_def)
qed

definition sample_org_repository :: "string \<Rightarrow> bool \<Rightarrow> repository_info" where
  "sample_org_repository name archived = \<lparr>rpi_Name = name, rpi_FullName = name, rpi_Description = [], rpi_DefaultBranch = ''main'',
     rpi_CloneURL = [], rpi_SSHURL = [], rpi_HTMLURL = [], rpi_Private = False, rpi_Archived = archived, rpi_Disabled = False,
     rpi_CreatedAt = 0, rpi_UpdatedAt = 0, rpi_Language = [], rpi_Size = 0, rpi_Topics = [], rpi_Visibility = [],
     rpi_IsTemplate = False\<rparr>"

definition two_repositories :: organization_repositories where
  "two_repositories org = Inr [sample_org_repository ''a'' False, sample_org_repository ''old'' True]"

lemma four_steps: "R a b \<Longrightarrow> R b c \<Longrightarrow> R c d \<Longrightarrow> R d e \<Longrightarrow> (R ^^ 4) a e"
  by (auto simp: eval_nat_numeral intro: relcomppI)

theorem bulk_snapshots_consistent_witness:
  "\<exists>op pm' op'. apply_policy_to_organization two_repositories 0 ''u'' ''p'' ''org'' sample_dependabot_manager = (Inr op, pm') \<and>
     (bulk_op_step apply_policy_to_repository sample_dependabot_policy ^^ 4) (op, BulkStart) (op', BulkNext 1) \<and>
     map dror_Repository (bpo_Results op') = [''a''] \<and> snapshot_consistent op'"
proof -
  let ?step = "bulk_op_step apply_policy_to_repository sample_dependabot_policy"
  obtain op pm' where op: "apply_policy_to_organization two_repositories 0 ''u'' ''p'' ''org'' sample_dependabot_manager = (Inr op, pm')"
    and t: "bpo_TargetRepos op = [''a'', ''old'']" "bpo_Results op = []"
    by (simp add: apply_policy_to_organization_def get_policy_def sample_dependabot_stored two_repositories_def sample_org_repository_def
        zero_bulk_policy_operation_def Let_def)
  define op1 where "op1 = op\<lparr>bpo_Status := ''running''\<rparr>"
  define op2 where "op2 = op1\<lparr>bpo_Progress := (bpo_Progress op1)\<lparr>bop_CurrentRepo := bpo_TargetRepos op1 ! 0\<rparr>\<rparr>"
  define err where "err = apply_policy_to_repository sample_dependabot_policy (bpo_Organization op2) (bpo_TargetRepos op2 ! 0)"
  define result where "result = operation_result 0 1 (bpo_TargetRepos op2 ! 0) err"
  have l: "0 < length (bpo_TargetRepos op1)" and n: "bpo_TargetRepos op2 ! 0 = ''a''" "bpo_Results op2 = []"
    by (simp_all add: op1_def op2_def t)
  have s1: "?step (op, BulkStart) (op1, BulkNext 0)" unfolding op1_def by (rule bulk_op_step.running)
  have s2: "?step (op1, BulkNext 0) (op2, BulkApply 0 0)" unfolding op2_def by (rule bulk_op_step.next_repository) (rule l)
  have s3: "?step (op2, BulkApply 0 0) (op2, BulkRecord 0 err result)" unfolding result_def by (rule bulk_op_step.applied) (rule err_def)
  have s4: "?step (op2, BulkRecord 0 err result) (record_operation 0 err result op2, BulkNext 1)"
    unfolding One_nat_def by (rule bulk_op_step.recorded)
  have run: "(?step ^^ 4) (op, BulkStart) (record_operation 0 err result op2, BulkNext 1)" by (rule four_steps) (rule s1 s2 s3 s4)+
  have "map dror_Repository (bpo_Results (record_operation 0 err result op2)) = [''a'']"
    by (simp add: record_operation_def n result_def operation_result_def zero_dependabot_repository_operation_result_def Let_def split: option.splits apply_error.splits)
  then show ?thesis using conjunct1 [OF bulk_snapshots_consistent [OF op run]] op run by (intro exI conjI)
qed

section \<open>What survives the deletion of a policy\<close>

lemma gm_get_filter_wf:
  "gm_wf m \<Longrightarrow> gm_get (filter P m) k = (case gm_get m k of None \<Rightarrow> None | Some v \<Rightarrow> if P (k, v) then Some v else None)"
proof (induction m)
  case Nil
  then show ?case by simp
next
  case (Cons e m)
  obtain k' v' where e: "e = (k', v')" by (cases e)
  have n: "k' \<notin> set (map fst m)" using Cons.prems e by (simp add: gm_wf_def)
  then have "gm_get (filter P m) k' = None" by (auto simp: gm_get_def map_of_eq_None_iff)
  then show ?case using Cons e by (auto simp: gm_wf_def split: option.splits)
qed

lemma delete_policy_success:
  assumes "delete_policy policyID pm = (None, pm')" and "gm_wf (dpm_policies pm)"
  obtains policy where "gm_get (dpm_policies pm) policyID = Some policy" and "gm_get (dpm_policies pm') policyID = None"
    and "results_of pm' = filter (\<lambda>(key, r). per_Organization r \<noteq> dpc_Organization policy) (results_of pm)"
  using assms by (auto simp: delete_policy_def invalidate_organization_def gm.get_del split: option.splits)

text \<open>
  The evaluation of a deleted policy fails, except that a result cached for an
  organisation other than the policy's own is still returned until it expires: deletion drops
  the cached results of the policy's organisation only, and the cache is asked before the
  policy is looked up.
\<close>

theorem deleted_policy_evaluation:
  assumes "gm_wf (dpm_policies pm)" and "gm_wf (results_of pm)"
    and "gm_get (dpm_policies pm) policyID = Some policy" and "delete_policy policyID pm = (None, pm')"
  shows "fst (evaluate_repository_compliance now policyID organization repository pm') =
    (case gm_get (results_of pm) (cache_key policyID organization repository) of
       Some r \<Rightarrow>
         if per_Organization r \<noteq> dpc_Organization policy \<and> now < per_NextEvaluation r then Inr r
         else Inl (PolicyNotFound policyID)
     | None \<Rightarrow> Inl (PolicyNotFound policyID))"
proof -
  have gone: "gm_get (dpm_policies pm') policyID = None"
    and res: "results_of pm' = filter (\<lambda>(key, r). per_Organization r \<noteq> dpc_Organization policy) (results_of pm)"
    using delete_policy_success [OF assms(4,1)] assms(3) by auto
  show ?thesis
    by (simp add: evaluate_repository_compliance_def get_cached_result_def res gm_get_filter_wf [OF assms(2)] get_policy_def
        gone set_results_def Let_def split: option.splits)
qed

definition evaluated_manager :: dependabot_manager where
  "evaluated_manager = snd (evaluate_repository_compliance 0 ''p'' ''fork'' ''repo'' sample_dependabot_manager)"

theorem deleted_policy_evaluation_witness:
  "\<exists>pm' r. delete_policy ''p'' evaluated_manager = (None, pm') \<and>
     fst (evaluate_repository_compliance 1 ''p'' ''fork'' ''repo'' pm') = Inr r \<and> per_Organization r = ''fork''"
proof -
  define policy where "policy = sample_dependabot_policy\<lparr>dpc_CreatedAt := 0, dpc_UpdatedAt := 0, dpc_Version := 1\<rparr>"
  define r where "r = perform_policy_evaluation 0 policy (get_dependabot_config ''fork'' ''repo'')
    (get_dependabot_status 0 ''fork'' ''repo'') ''fork'' ''repo''"
  have stored: "gm_get (dpm_policies sample_dependabot_manager) ''p'' = Some policy"
    using sample_dependabot_stored by (simp add: policy_def)
  have empty: "results_of sample_dependabot_manager = []" and wf0: "gm_wf (dpm_policies sample_dependabot_manager)" by code_simp+
  have m: "evaluated_manager = cache_result (cache_key ''p'' ''fork'' ''repo'') r sample_dependabot_manager"
    by (simp add: evaluated_manager_def evaluate_repository_compliance_def get_cached_result_def empty get_policy_def stored
        r_def Let_def)
  have pols: "dpm_policies evaluated_manager = dpm_policies sample_dependabot_manager"
    and results: "results_of evaluated_manager = gm_put (cache_key ''p'' ''fork'' ''repo'') r []"
    by (simp_all add: m cache_result_def set_results_def empty)
  obtain pm' where d: "delete_policy ''p'' evaluated_manager = (None, pm')"
    by (simp add: delete_policy_def pols stored)
  have org: "per_Organization r = ''fork''" "1 < per_NextEvaluation r" "dpc_Organization policy = ''org''"
    unfolding r_def policy_def by code_simp+
  have "fst (evaluate_repository_compliance 1 ''p'' ''fork'' ''repo'' pm') = Inr r"
    using deleted_policy_evaluation [OF _ _ _ d, of policy 1 "''fork''" "''repo''"] wf0 stored org
    by (simp add: pols results)
  then show ?thesis using d org by blast
qed

section \<open>Scores and reports\<close>

definition unconfigured :: "dependabot_config \<Rightarrow> (string \<times> ecosystem_policy) list \<Rightarrow> string list" where
  "unconfigured config policies =
     map fst (filter (\<lambda>(e, p). ep2_Enabled p \<and> e \<notin> set (map dupr_PackageEcosystem (dbc_Updates config))) policies)"

lemma penalise_sel [simp]:
  "per_Violations (penalise v c r) = per_Violations r @ [v]"
  "per_ComplianceScore (penalise v c r) = fadd (per_ComplianceScore r) (FNum (- c))"
  by (simp_all add: penalise_def)

declare fadd.simps [simp del]

lemma fadd_int:
  "\<bar>a + b\<bar> < 2 ^ 53 \<Longrightarrow> fadd (FNum (of_int a)) (FNum (of_int b)) = FNum (of_int (a + b))"
  using float_of_int_exact [of "a + b"] by (simp add: float_of_int_def fadd.simps)

lemma check_ecosystems_result:
  assumes "per_ComplianceScore r = FNum (of_int a)" and "\<bar>a\<bar> + 10 * int (length policies) < 2 ^ 53"
  shows "per_Violations (check_ecosystems config policies r) =
      per_Violations r @ map missing_ecosystem (unconfigured config policies)"
    and "per_ComplianceScore (check_ecosystems config policies r) =
      FNum (of_int (a - 10 * int (length (unconfigured config policies))))"
  using assms
proof (induction config policies r arbitrary: a rule: check_ecosystems.induct)
  case (1 config r)
  { case 1 then show ?case by (simp add: unconfigured_def) }
  { case 2 then show ?case by (simp add: unconfigured_def) }
next
  case (2 config e p policies r)
  let ?missing = "ep2_Enabled p \<and> \<not> list_ex (\<lambda>u. dupr_PackageEcosystem u = e) (dbc_Updates config)"
  have iff: "?missing \<longleftrightarrow> ep2_Enabled p \<and> e \<notin> set (map dupr_PackageEcosystem (dbc_Updates config))"
    by (auto simp: list_ex_iff)
  have u: "unconfigured config ((e, p) # policies) = (if ?missing then [e] else []) @ unconfigured config policies"
    unfolding iff by (simp add: unconfigured_def)
  have b: "\<bar>a - 10\<bar> + 10 * int (length policies) < 2 ^ 53" "\<bar>a\<bar> + 10 * int (length policies) < 2 ^ 53"
    if "\<bar>a\<bar> + 10 * int (length ((e, p) # policies)) < 2 ^ 53" for a
    using that abs_triangle_ineq4 [of a 10] by simp_all
  have f: "fadd (FNum (of_int a)) (FNum (- 10)) = FNum (of_int (a - 10))"
    if "\<bar>a\<bar> + 10 * int (length ((e, p) # policies)) < 2 ^ 53" for a
    using fadd_int [of a "- 10"] b(1) [OF that] by simp
  {
    case (1 a)
    then show ?case using "2.IH"(1) [of "if ?missing then a - 10 else a"] b [OF 1(2)] f [OF 1(2)] by (simp add: u)
  }
  {
    case (2 a)
    then show ?case using "2.IH"(2) [of "if ?missing then a - 10 else a"] b [OF 2(2)] f [OF 2(2)] by (simp add: u)
  }
qed

text \<open>
  The score is a hundred less fifty, thirty and ten points per missing ecosystem, without a
  lower bound: it is negative from eleven missing ecosystems on.
\<close>

theorem compliance_score:
  assumes "length (dpc_EcosystemPolicies policy) < 10 ^ 9"
    and r_def: "r = perform_policy_evaluation now policy config status organization repository"
  shows "per_ComplianceScore r =
      FNum (of_int (100 - (if dst_Enabled status then 0 else 50) -
        (if \<not> dst_ConfigValid status \<and> dst_ConfigExists status then 30 else 0) -
        10 * int (length (unconfigured config (dpc_EcosystemPolicies policy)))))"
    and "per_Compliant r \<longleftrightarrow> dst_Enabled status \<and> (dst_ConfigValid status \<or> \<not> dst_ConfigExists status) \<and>
      unconfigured config (dpc_EcosystemPolicies policy) = []"
    and "per_Compliant r \<longleftrightarrow> per_Violations r = []"
proof -
  note z = zero_policy_evaluation_result_def
  have f: "fadd (FNum 100) (FNum (- 50)) = FNum 50" "fadd (FNum 50) (FNum (- 30)) = FNum 20"
    "fadd (FNum 100) (FNum (- 30)) = FNum 70"
    using fadd_int [of 100 "- 50"] fadd_int [of 50 "- 30"] fadd_int [of 100 "- 30"] by simp_all
  define a :: int where "a = 100 - (if dst_Enabled status then 0 else 50) -
        (if \<not> dst_ConfigValid status \<and> dst_ConfigExists status then 30 else 0)"
  define r2 where "r2 = (let unix = now div nanosecond_second;
      r0 = zero_policy_evaluation_result\<lparr>per_PolicyID := dpc_ID policy, per_Repository := repository,
             per_Organization := organization, per_EvaluatedAt := now,
             per_NextEvaluation := now + 24 * 3600 * nanosecond_second, per_ComplianceScore := FNum 100\<rparr>;
      r1 = (if \<not> dst_Enabled status
            then penalise (zero_dependabot_policy_violation\<lparr>dpv_ID := violation_id unix,
              dpv_Type := ''missing_config'', dpv_Severity := ''critical'', dpv_Title := ''Dependabot not enabled'',
              dpv_Description := ''Dependabot is not enabled for this repository'',
              dpv_Suggestion := ''Enable Dependabot in repository settings'', dpv_AutoFixable := True\<rparr>) 50 r0
            else r0)
      in if \<not> dst_ConfigValid status \<and> dst_ConfigExists status
         then penalise (zero_dependabot_policy_violation\<lparr>dpv_ID := violation_id (unix + 1),
           dpv_Type := ''invalid_config'', dpv_Severity := ''high'', dpv_Title := ''Invalid Dependabot configuration'',
           dpv_Description := ''The Dependabot configuration file contains errors'',
           dpv_Suggestion := ''Review and fix the .github/dependabot.yml file''\<rparr>) 30 r1
         else r1)"
  have r2: "per_ComplianceScore r2 = FNum (of_int a)"
    "per_Violations r2 = [] \<longleftrightarrow> dst_Enabled status \<and> (dst_ConfigValid status \<or> \<not> dst_ConfigExists status)"
    by (auto simp: r2_def a_def Let_def f z)
  have "\<bar>a\<bar> + 10 * int (length (dpc_EcosystemPolicies policy)) < 2 ^ 53" using assms(1) by (simp add: a_def)
  note e = check_ecosystems_result [OF r2(1) this, of config]
  have r: "r = (let r3 = check_ecosystems config (dpc_EcosystemPolicies policy) r2 in r3\<lparr>per_Compliant := (per_Violations r3 = [])\<rparr>)"
    by (simp add: r_def perform_policy_evaluation_def r2_def Let_def)
  show "per_ComplianceScore r =
      FNum (of_int (100 - (if dst_Enabled status then 0 else 50) -
        (if \<not> dst_ConfigValid status \<and> dst_ConfigExists status then 30 else 0) -
        10 * int (length (unconfigured config (dpc_EcosystemPolicies policy)))))"
    by (simp add: r e(2) Let_def flip: a_def)
  show "per_Compliant r \<longleftrightarrow> dst_Enabled status \<and> (dst_ConfigValid status \<or> \<not> dst_ConfigExists status) \<and>
      unconfigured config (dpc_EcosystemPolicies policy) = []"
    by (simp add: r e(1) r2(2) Let_def)
  show "per_Compliant r \<longleftrightarrow> per_Violations r = []" by (simp add: r Let_def)
qed

definition of_type :: "string \<Rightarrow> dependabot_policy_violation list \<Rightarrow> int" where
  "of_type t vs = int (length (filter (\<lambda>v. dpv_Type v = t) vs))"

definition critical_count :: "dependabot_policy_violation list \<Rightarrow> int" where
  "critical_count vs = int (length (filter (\<lambda>v. dpv_Severity v = ''critical'') vs))"

lemma count_violations_sel:
  "gm_at 0 (ops_ViolationBreakdown (count_violations vs s)) t = gm_at 0 (ops_ViolationBreakdown s) t + of_type t vs"
  "ops_CriticalViolations (count_violations vs s) = ops_CriticalViolations s + critical_count vs"
  "ops_TotalViolations (count_violations vs s) = ops_TotalViolations s"
  "ops_CompliantRepositories (count_violations vs s) = ops_CompliantRepositories s"
  "ops_ViolatingRepositories (count_violations vs s) = ops_ViolatingRepositories s"
  "ops_TotalRepositories (count_violations vs s) = ops_TotalRepositories s"
  by (induction vs arbitrary: s) (auto simp: of_type_def critical_count_def Let_def)

lemma count_result_sel:
  "gm_at 0 (ops_ViolationBreakdown (count_result r s)) t = gm_at 0 (ops_ViolationBreakdown s) t + of_type t (per_Violations r)"
  "ops_CriticalViolations (count_result r s) = ops_CriticalViolations s + critical_count (per_Violations r)"
  "ops_TotalViolations (count_result r s) = ops_TotalViolations s + int (length (per_Violations r))"
  "ops_CompliantRepositories (count_result r s) = ops_CompliantRepositories s + (if per_Compliant r then 1 else 0)"
  "ops_ViolatingRepositories (count_result r s) = ops_ViolatingRepositories s + (if per_Compliant r then 0 else 1)"
  "ops_TotalRepositories (count_result r s) = ops_TotalRepositories s"
  by (simp_all add: count_result_def count_violations_sel Let_def)

definition live_repository :: "repository_info \<Rightarrow> bool" where
  "live_repository repo \<longleftrightarrow> \<not> rpi_Archived repo \<and> \<not> rpi_Disabled repo"

lemma evaluation_of_known_policy:
  assumes "gm_get (dpm_policies pm) policyID = Some policy"
  obtains r pm' where "evaluate_repository_compliance now policyID org repo pm = (Inr r, pm')"
    and "dpm_policies pm' = dpm_policies pm"
proof -
  obtain c pm1 where g: "get_cached_result now (cache_key policyID org repo) pm = (c, pm1)" by fastforce
  then have p: "dpm_policies pm1 = dpm_policies pm"
    by (auto simp: get_cached_result_def set_results_def split: option.splits if_splits)
  show thesis
  proof (cases c)
    case None
    then show ?thesis using that assms g p
      by (simp add: evaluate_repository_compliance_def get_policy_def set_results_def cache_result_def Let_def)
  next
    case (Some r)
    then show ?thesis using that [of r pm1] g p by (simp add: evaluate_repository_compliance_def)
  qed
qed

text \<open>The summary a list of results adds up to.\<close>

definition adds_up :: "organization_policy_summary \<Rightarrow> policy_evaluation_result list \<Rightarrow> bool" where
  "adds_up s rs \<longleftrightarrow>
     ops_CompliantRepositories s = int (length (filter per_Compliant rs)) \<and>
     ops_ViolatingRepositories s = int (length (filter (\<lambda>r. \<not> per_Compliant r) rs)) \<and>
     ops_TotalViolations s = int (length (concat (map per_Violations rs))) \<and>
     ops_CriticalViolations s = critical_count (concat (map per_Violations rs)) \<and>
     (\<forall>t. gm_at 0 (ops_ViolationBreakdown s) t = of_type t (concat (map per_Violations rs)))"

lemma adds_up_snoc: "adds_up s rs \<Longrightarrow> adds_up (count_result r s) (rs @ [r])"
  by (simp add: adds_up_def count_result_sel critical_count_def of_type_def)

lemma evaluate_repositories_adds_up:
  assumes "gm_get (dpm_policies pm) policyID = Some policy" and "adds_up s rs"
    and "evaluate_repositories now policyID org repos (rs, score, s, pm) = (rs', score', s', pm')"
  shows "adds_up s' rs' \<and> length rs' = length rs + length (filter live_repository repos) \<and>
    ops_TotalRepositories s' = ops_TotalRepositories s"
  using assms
proof (induction repos arbitrary: rs score s pm)
  case Nil
  then show ?case by simp
next
  case (Cons repo repos)
  show ?case
  proof (cases "live_repository repo")
    case False
    then show ?thesis using Cons.IH [OF Cons.prems(1,2)] Cons.prems(3) by (auto simp: live_repository_def)
  next
    case True
    obtain r pm1 where e: "evaluate_repository_compliance now policyID org (rpi_Name repo) pm = (Inr r, pm1)"
      "dpm_policies pm1 = dpm_policies pm"
      using evaluation_of_known_policy [OF Cons.prems(1)] by blast
    show ?thesis
      using Cons.IH [of pm1 "count_result r s" "rs @ [r]" "fadd score (per_ComplianceScore r)"] Cons.prems e True
        adds_up_snoc [OF Cons.prems(2), of r]
      by (auto simp: live_repository_def count_result_sel)
  qed
qed

text \<open>
  A report holds one result for every repository that is neither archived nor
  disabled; compliant and violating repositories add up to the results, the violations in
  total, by type and of critical severity are those of the results, and the total of
  repositories counts the archived and disabled ones as well.
\<close>

theorem report_adds_up:
  assumes "generate_organization_report list_repos now policyID org pm = (Inr report, pm')"
  shows "\<exists>repos. list_repos org = Inr repos \<and>
    length (opr_RepositoryResults report) = length (filter live_repository repos) \<and>
    ops_TotalRepositories (opr_Summary report) = int (length repos) \<and>
    adds_up (opr_Summary report) (opr_RepositoryResults report)"
proof -
  obtain policy repos where p: "gm_get (dpm_policies pm) policyID = Some policy" and l: "list_repos org = Inr repos"
    using assms by (auto simp: generate_organization_report_def get_policy_def split: option.splits sum.splits)
  define s0 where "s0 = zero_organization_policy_summary\<lparr>ops_TotalRepositories := int (length repos)\<rparr>"
  have z: "adds_up s0 []"
    by (simp add: adds_up_def s0_def zero_organization_policy_summary_def critical_count_def of_type_def)
  obtain rs score s pm1 where e: "evaluate_repositories now policyID org repos ([], FNum 0, s0, pm) = (rs, score, s, pm1)"
    by (metis prod_cases4)
  note a = evaluate_repositories_adds_up [OF p z e]
  define s1 where "s1 = (if rs \<noteq> []
      then s\<lparr>ops_ComplianceRate := fmul_const (fdiv (float_of_int (ops_CompliantRepositories s)) (float_of_int (int (length rs)))) 100,
             ops_AverageComplianceScore := fdiv score (float_of_int (int (length rs)))\<rparr>
      else s)"
  have "opr_RepositoryResults report = rs \<and> opr_Summary report = s1"
    using assms p l e by (auto simp: generate_organization_report_def get_policy_def Let_def s1_def s0_def)
  moreover have "adds_up s1 rs" "ops_TotalRepositories s1 = int (length repos)"
    using a by (simp_all add: s1_def adds_up_def s0_def)
  ultimately show ?thesis using a l by simp
qed

theorem report_adds_up_witness:
  "\<exists>report pm'. generate_organization_report two_repositories 0 ''p'' ''org'' sample_dependabot_manager = (Inr report, pm') \<and>
     length (opr_RepositoryResults report) = 1 \<and> ops_TotalRepositories (opr_Summary report) = 2"
proof -
  obtain report pm' where r: "generate_organization_report two_repositories 0 ''p'' ''org'' sample_dependabot_manager = (Inr report, pm')"
    by (simp add: generate_organization_report_def get_policy_def sample_dependabot_stored two_repositories_def split_def Let_def
        del: evaluate_repositories.simps)
  from report_adds_up [OF r] r show ?thesis
    by (auto simp: two_repositories_def live_repository_def sample_org_repository_def)
qed

section \<open>The manager as a policy store\<close>

lemma validate_dependabot_stamp:
  "validate_dependabot_policy (p\<lparr>dpc_CreatedAt := a, dpc_UpdatedAt := b, dpc_Version := c\<rparr>) = validate_dependabot_policy p"
  by (simp add: validate_dependabot_policy_def)

interpretation dependabot_store: policy_store "\<lambda>pm. gm_get (dpm_policies pm)" dpc_ID validate_dependabot_policy
  "\<lambda>now p. p\<lparr>dpc_CreatedAt := now, dpc_UpdatedAt := now, dpc_Version := 1\<rparr>" create_policy
  by unfold_locales (auto simp: create_policy_def validate_dependabot_stamp)

text \<open>Creating, updating and deleting keep every stored policy valid and under its identifier.\<close>

definition store_sound :: "dependabot_manager \<Rightarrow> bool" where
  "store_sound pm \<longleftrightarrow> gm_wf (dpm_policies pm) \<and>
     list_all (\<lambda>(k, p). dpc_ID p = k \<and> validate_dependabot_policy p = None) (dpm_policies pm)"

lemma store_sound_lookup:
  "gm_wf (dpm_policies pm) \<Longrightarrow>
   store_sound pm \<longleftrightarrow> (\<forall>k p. gm_get (dpm_policies pm) k = Some p \<longrightarrow> dpc_ID p = k \<and> validate_dependabot_policy p = None)"
  by (auto simp: store_sound_def list_all_iff gm_get_def gm_wf_def)

lemma create_policy_sound: "store_sound pm \<Longrightarrow> store_sound (snd (create_policy now policy pm))"
proof -
  assume s: "store_sound pm"
  have wf: "gm_wf (dpm_policies (snd (create_policy now policy pm)))"
    using s by (auto simp: create_policy_def store_sound_def split: option.splits)
  have "gm_get (dpm_policies pm) k = Some p \<Longrightarrow> dpc_ID p = k \<and> validate_dependabot_policy p = None" for k p
    using s store_sound_lookup [of pm] by (auto simp: store_sound_def)
  from dependabot_store.create_sound [OF this] show ?thesis unfolding store_sound_lookup [OF wf] by blast
qed

lemma delete_policy_sound: "store_sound pm \<Longrightarrow> store_sound (snd (delete_policy policyID pm))"
  by (auto simp: delete_policy_def invalidate_organization_def store_sound_def list_all_iff
      split: option.splits dest: gm_del_entries)

lemma update_policy_sound: "store_sound pm \<Longrightarrow> store_sound (snd (update_dependabot_policy now policy pm))"
  by (auto simp: update_dependabot_policy_def invalidate_organization_def store_sound_def list_all_iff validate_dependabot_stamp
      split: option.splits dest!: gm_put_entries)

text \<open>An update keeps the creation time and counts the version on.\<close>

lemma update_policy_version:
  assumes "gm_get (dpm_policies pm) (dpc_ID policy) = Some existing" and "validate_dependabot_policy policy = None"
  shows "\<exists>p. gm_get (dpm_policies (snd (update_dependabot_policy now policy pm))) (dpc_ID policy) = Some p \<and>
    dpc_CreatedAt p = dpc_CreatedAt existing \<and> dpc_Version p = wrap64 (dpc_Version existing + 1) \<and> dpc_UpdatedAt p = now"
  using assms by (simp add: update_dependabot_policy_def invalidate_organization_def)

end
