(* ===== verification/ActionsTypes.thy ===== *)
theory ActionsTypes
  imports GoValue
begin

text \<open>
  The data of the GitHub Actions policies: the structs of \<open>pkg/github/actions_policy.go\<close> and
  \<open>pkg/github/actions_policy_enforcer.go\<close>. Enumerations are the Go strings they are; maps,
  pointers, slices and \<open>any\<close> are modelled as in \<open>SecurityTypes\<close>.
\<close>

section \<open>Policies\<close>

record workflow_permissions =
  wp_DefaultPermissions :: string
  wp_CanApproveOwnChanges :: bool
  wp_ActionsReadPermission :: string
  wp_ContentsPermission :: string
  wp_MetadataPermission :: string
  wp_PackagesPermission :: string
  wp_PullRequestsPermission :: string
  wp_IssuesPermission :: string
  wp_DeploymentsPermission :: string
  wp_ChecksPermission :: string
  wp_StatusesPermission :: string
  wp_SecurityEventsPermission :: string
  wp_IdTokenPermission :: string
  wp_AttestationsPermission :: string
  wp_CustomPermissions :: "(string, string) gomap"

record actions_security_settings =
  ass_RequireCodeScanningApproval :: bool
  ass_RequireSecretScanningApproval :: bool
  ass_AllowForkPRs :: bool
  ass_RequireApprovalForForkPRs :: bool
  ass_AllowPrivateRepoForkRun :: bool
  ass_RequireApprovalForPrivateFork :: bool
  ass_RestrictedActionsPatterns :: "string list"
  ass_AllowGitHubOwnedActions :: bool
  ass_AllowVerifiedPartnerActions :: bool
  ass_AllowMarketplaceActions :: string
  ass_RequireSignedCommits :: bool
  ass_EnforceAdminsOnBranches :: bool
  ass_OIDCCustomClaims :: "(string, string) gomap"

record secret_rotation_policy =
  srp_Enabled :: bool
  srp_RotationInterval :: int
  srp_RequireRotationWarning :: bool
  srp_WarningDays :: int
  srp_AutoRotateSecrets :: "string list"

record secrets_policy =
  scp_AllowedSecrets :: "string list"
  scp_RestrictedSecrets :: "string list"
  scp_RequireApprovalForNewSecrets :: bool
  scp_SecretVisibility :: string
  scp_AllowSecretsInheritance :: bool
  scp_SecretNamingPatterns :: "string list"
  scp_MaxSecretCount :: int
  scp_SecretRotationPolicy :: secret_rotation_policy

record environment_policy =
  envp_Name :: string
  envp_RequiredReviewers :: "string list"
  envp_RequiredReviewerTeams :: "string list"
  envp_WaitTimer :: int
  envp_BranchPolicyType :: string
  envp_ProtectedBranches :: "string list"
  envp_BranchPatterns :: "string list"
  envp_RequireDeploymentBranch :: bool
  envp_PreventSelfReview :: bool
  envp_Secrets :: "string list"
  envp_Variables :: "(string, string) gomap"

record self_hosted_runner_policy =
  shrp_RequireRunnerRegistration :: bool
  shrp_AllowedOperatingSystems :: "string list"
  shrp_RequiredSecurityPatches :: bool
  shrp_DisallowPublicRepositories :: bool
  shrp_RequireEncryptedStorage :: bool
  shrp_RunnerTimeout :: int
  shrp_MaxRunners :: int

record runner_policy =
  rnp_AllowedRunnerTypes :: "string list"
  rnp_RequireSelfHostedLabels :: "string list"
  rnp_RestrictedRunnerLabels :: "string list"
  rnp_MaxConcurrentJobs :: int
  rnp_MaxJobExecutionTime :: int
  rnp_RunnerGroups :: "string list"
  rnp_RequireRunnerApproval :: bool
  rnp_SelfHostedRunnerPolicy :: self_hosted_runner_policy

record actions_policy =
  ap_ID :: string
  ap_Name :: string
  ap_Description :: string
  ap_Organization :: string
  ap_Repository :: string
  ap_PermissionLevel :: string
  ap_AllowedActions :: "string list"
  ap_AllowedActionsPatterns :: "string list"
  ap_WorkflowPermissions :: workflow_permissions
  ap_SecuritySettings :: actions_security_settings
  ap_SecretsPolicy :: secrets_policy
  ap_Variables :: "(string, string) gomap"
  ap_Environments :: "environment_policy list"
  ap_Runners :: runner_policy
  ap_CreatedAt :: int
  ap_UpdatedAt :: int
  ap_CreatedBy :: string
  ap_UpdatedBy :: string
  ap_Version :: int
  ap_Enabled :: bool
  ap_Tags :: "string list"

record actions_policy_violation =
  apv_ID :: string
  apv_PolicyID :: string
  apv_ViolationType :: string
  apv_Severity :: string
  apv_Resource :: string
  apv_Description :: string
  apv_Details :: "(string, go_any) gomap"
  apv_DetectedAt :: int
  apv_ResolvedAt :: "int option"
  apv_Status :: string

section \<open>Enforcement\<close>

record policy_validation_result =
  pvr_RuleID :: string
  pvr_Passed :: bool
  pvr_Severity :: string
  pvr_Message :: string
  pvr_Details :: "(string, go_any) gomap"
  pvr_Suggestions :: "string list"
  pvr_ActualValue :: go_any
  pvr_ExpectedValue :: go_any

record secret_info =
  si_Name :: string
  si_Visibility :: string
  si_CreatedAt :: int
  si_UpdatedAt :: int
  si_Environment :: string

record protection_rule =
  prt_Type :: string
  prt_Reviewers :: "string list"
  prt_WaitTimer :: int

record environment_info =
  ei_Name :: string
  ei_ProtectionRules :: "protection_rule list"
  ei_DeploymentBranches :: "string list"
  ei_Secrets :: "secret_info list"
  ei_Variables :: "(string, string) gomap"

record runner_info =
  rni_ID :: int
  rni_Name :: string
  rni_Status :: string
  rni_OS :: string
  rni_Labels :: "string list"
  rni_Busy :: bool

record workflow_info =
  wi_ID :: int
  wi_Name :: string
  wi_Path :: string
  wi_State :: string
  wi_Permissions :: "(string, string) gomap"
  wi_Actions :: "string list"
  wi_LastRun :: int

record repository_actions_state =
  rst_Organization :: string
  rst_Repository :: string
  rst_ActionsEnabled :: bool
  rst_PermissionLevel :: string
  rst_AllowedActions :: "string list"
  rst_WorkflowPermissions :: workflow_permissions
  rst_SecuritySettings :: actions_security_settings
  rst_Secrets :: "secret_info list"
  rst_Variables :: "(string, string) gomap"
  rst_Environments :: "environment_info list"
  rst_Runners :: "runner_info list"
  rst_RecentWorkflows :: "workflow_info list"
  rst_LastUpdated :: int

record policy_change =
  chg_Type :: string
  chg_Target :: string
  chg_Action :: string
  chg_OldValue :: go_any
  chg_NewValue :: go_any
  chg_Success :: bool
  chg_Error :: string

record policy_enforcement_result =
  enf_PolicyID :: string
  enf_Organization :: string
  enf_Repository :: string
  enf_Success :: bool
  enf_AppliedChanges :: "policy_change list"
  enf_FailedChanges :: "policy_change list"
  enf_ValidationResult :: "policy_validation_result list"
  enf_Violations :: "actions_policy_violation list"
  enf_ExecutionTime :: int
  enf_Timestamp :: int

section \<open>Zero values\<close>

definition zero_workflow_permissions :: workflow_permissions where
  "zero_workflow_permissions =
     \<lparr>wp_DefaultPermissions = [], wp_CanApproveOwnChanges = False, wp_ActionsReadPermission = [],
      wp_ContentsPermission = [], wp_MetadataPermission = [], wp_PackagesPermission = [],
      wp_PullRequestsPermission = [], wp_IssuesPermission = [], wp_DeploymentsPermission = [],
      wp_ChecksPermission = [], wp_StatusesPermission = [], wp_SecurityEventsPermission = [],
      wp_IdTokenPermission = [], wp_AttestationsPermission = [], wp_CustomPermissions = []\<rparr>"

definition zero_actions_security_settings :: actions_security_settings where
  "zero_actions_security_settings =
     \<lparr>ass_RequireCodeScanningApproval = False, ass_RequireSecretScanningApproval = False,
      ass_AllowForkPRs = False, ass_RequireApprovalForForkPRs = False,
      ass_AllowPrivateRepoForkRun = False, ass_RequireApprovalForPrivateFork = False,
      ass_RestrictedActionsPatterns = [], ass_AllowGitHubOwnedActions = False,
      ass_AllowVerifiedPartnerActions = False, ass_AllowMarketplaceActions = [],
      ass_RequireSignedCommits = False, ass_EnforceAdminsOnBranches = False,
      ass_OIDCCustomClaims = []\<rparr>"

definition zero_secret_rotation_policy :: secret_rotation_policy where
  "zero_secret_rotation_policy =
     \<lparr>srp_Enabled = False, srp_RotationInterval = 0, srp_RequireRotationWarning = False,
      srp_WarningDays = 0, srp_AutoRotateSecrets = []\<rparr>"

definition zero_secrets_policy :: secrets_policy where
  "zero_secrets_policy =
     \<lparr>scp_AllowedSecrets = [], scp_RestrictedSecrets = [],
      scp_RequireApprovalForNewSecrets = False, scp_SecretVisibility = [],
      scp_AllowSecretsInheritance = False, scp_SecretNamingPatterns = [], scp_MaxSecretCount = 0,
      scp_SecretRotationPolicy = zero_secret_rotation_policy\<rparr>"

definition zero_self_hosted_runner_policy :: self_hosted_runner_policy where
  "zero_self_hosted_runner_policy =
     \<lparr>shrp_RequireRunnerRegistration = False, shrp_AllowedOperatingSystems = [],
      shrp_RequiredSecurityPatches = False, shrp_DisallowPublicRepositories = False,
      shrp_RequireEncryptedStorage = False, shrp_RunnerTimeout = 0, shrp_MaxRunners = 0\<rparr>"

definition zero_runner_policy :: runner_policy where
  "zero_runner_policy =
     \<lparr>rnp_AllowedRunnerTypes = [], rnp_RequireSelfHostedLabels = [],
      rnp_RestrictedRunnerLabels = [], rnp_MaxConcurrentJobs = 0, rnp_MaxJobExecutionTime = 0,
      rnp_RunnerGroups = [], rnp_RequireRunnerApproval = False,
      rnp_SelfHostedRunnerPolicy = zero_self_hosted_runner_policy\<rparr>"

definition zero_actions_policy :: actions_policy where
  "zero_actions_policy =
     \<lparr>ap_ID = [], ap_Name = [], ap_Description = [], ap_Organization = [], ap_Repository = [],
      ap_PermissionLevel = [], ap_AllowedActions = [], ap_AllowedActionsPatterns = [],
      ap_WorkflowPermissions = zero_workflow_permissions,
      ap_SecuritySettings = zero_actions_security_settings, ap_SecretsPolicy = zero_secrets_policy,
      ap_Variables = [], ap_Environments = [], ap_Runners = zero_runner_policy, ap_CreatedAt = 0,
      ap_UpdatedAt = 0, ap_CreatedBy = [], ap_UpdatedBy = [], ap_Version = 0, ap_Enabled = False,
      ap_Tags = []\<rparr>"

definition zero_policy_validation_result :: policy_validation_result where
  "zero_policy_validation_result =
     \<lparr>pvr_RuleID = [], pvr_Passed = False, pvr_Severity = [], pvr_Message = [], pvr_Details = [],
      pvr_Suggestions = [], pvr_ActualValue = JNil, pvr_ExpectedValue = JNil\<rparr>"

definition zero_repository_actions_state :: repository_actions_state where
  "zero_repository_actions_state =
     \<lparr>rst_Organization = [], rst_Repository = [], rst_ActionsEnabled = False,
      rst_PermissionLevel = [], rst_AllowedActions = [],
      rst_WorkflowPermissions = zero_workflow_permissions,
      rst_SecuritySettings = zero_actions_security_settings, rst_Secrets = [], rst_Variables = [],
      rst_Environments = [], rst_Runners = [], rst_RecentWorkflows = [], rst_LastUpdated = 0\<rparr>"

definition zero_policy_enforcement_result :: policy_enforcement_result where
  "zero_policy_enforcement_result =
     \<lparr>enf_PolicyID = [], enf_Organization = [], enf_Repository = [], enf_Success = False,
      enf_AppliedChanges = [], enf_FailedChanges = [], enf_ValidationResult = [],
      enf_Violations = [], enf_ExecutionTime = 0, enf_Timestamp = 0\<rparr>"

definition zero_policy_change :: policy_change where
  "zero_policy_change =
     \<lparr>chg_Type = [], chg_Target = [], chg_Action = [], chg_OldValue = JNil, chg_NewValue = JNil,
      chg_Success = False, chg_Error = []\<rparr>"

end
