(* ===== verification/ActionsRules.thy ===== *)
theory ActionsRules
  imports ActionsTypes
begin

text \<open>
  The validation rules of the GitHub Actions policies,
  \<open>pkg/github/actions_policy_validation_rules.go\<close>.

  \<open>matches\<close> is \<open>regexp.MatchString\<close>: an error text for a pattern that does not compile, or
  whether the string matches. A rule returns an error text or its result.
\<close>

section \<open>Levels\<close>

type_synonym regex_match = "string \<Rightarrow> string \<Rightarrow> string + bool"

definition actions_permission_levels :: "(string, int) gomap" where
  "actions_permission_levels = [(''disabled'', 0), (''selected'', 1), (''local_only'', 2), (''all'', 3)]"

definition token_permission_levels :: "(string, int) gomap" where
  "token_permission_levels = [(''none'', 0), (''read'', 1), (''write'', 2)]"

definition marketplace_levels :: "(string, int) gomap" where
  "marketplace_levels = [(''disabled'', 0), (''selected'', 1), (''verified_only'', 2), (''all'', 3)]"

definition level_above :: "(string, int) gomap \<Rightarrow> string \<Rightarrow> string \<Rightarrow> bool" where
  "level_above levels actual expected =
     (case (gm_get levels expected, gm_get levels actual) of
        (Some expectedLevel, Some actualLevel) \<Rightarrow> expectedLevel < actualLevel
      | _ \<Rightarrow> False)"

definition actions_permission_escalation :: "string \<Rightarrow> string \<Rightarrow> bool" where
  "actions_permission_escalation expected actual = level_above actions_permission_levels actual expected"

definition is_permission_too_high :: "string \<Rightarrow> string \<Rightarrow> bool" where
  "is_permission_too_high expected actual = level_above token_permission_levels actual expected"

definition is_marketplace_policy_more_permissive :: "string \<Rightarrow> string \<Rightarrow> bool" where
  "is_marketplace_policy_more_permissive actual expected = level_above marketplace_levels actual expected"

interpretation actions_permission: ranked_names "gm_get actions_permission_levels" "\<lambda>a e. actions_permission_escalation e a"
  by unfold_locales (auto simp: actions_permission_escalation_def level_above_def split: option.splits)

interpretation token_permission: ranked_names "gm_get token_permission_levels" "\<lambda>a e. is_permission_too_high e a"
  by unfold_locales (auto simp: is_permission_too_high_def level_above_def split: option.splits)

interpretation marketplace: ranked_names "gm_get marketplace_levels" is_marketplace_policy_more_permissive
  by unfold_locales (auto simp: is_marketplace_policy_more_permissive_def level_above_def split: option.splits)

section \<open>The rules\<close>

type_synonym rule_check = "actions_policy \<Rightarrow> repository_actions_state \<Rightarrow> string + policy_validation_result"

definition new_rule_result :: "string \<Rightarrow> policy_validation_result" where
  "new_rule_result ruleID = zero_policy_validation_result\<lparr>pvr_RuleID := ruleID\<rparr>"

definition passed :: "string \<Rightarrow> policy_validation_result \<Rightarrow> policy_validation_result" where
  "passed message r = r\<lparr>pvr_Passed := True, pvr_Message := message, pvr_Severity := ''low''\<rparr>"

definition check_permission_level :: rule_check where
  "check_permission_level policy state =
     (let expected = ap_PermissionLevel policy; actual = rst_PermissionLevel state;
          r = (new_rule_result ''actions_permission_level'')\<lparr>pvr_ActualValue := JString actual, pvr_ExpectedValue := JString expected\<rparr>
      in if expected = actual then Inr (passed ''Actions permission level is compliant'' r)
         else
           let r1 = r\<lparr>pvr_Message := ''Actions permission level mismatch: expected '' @ expected @ '', got '' @ actual\<rparr>
           in if actions_permission_escalation expected actual
              then Inr (r1\<lparr>pvr_Severity := ''high'',
                     pvr_Suggestions := [''Reduce Actions permission level to match policy'',
                       ''Review repository Actions usage before reducing permissions'']\<rparr>)
              else Inr (r1\<lparr>pvr_Severity := ''medium'',
                     pvr_Suggestions := [''Update Actions permission level to match policy'']\<rparr>))"

definition workflow_permission_violations :: "workflow_permissions \<Rightarrow> workflow_permissions \<Rightarrow> string list" where
  "workflow_permission_violations expected actual =
     (if wp_DefaultPermissions expected \<noteq> wp_DefaultPermissions actual
      then [''Default permissions mismatch: expected '' @ wp_DefaultPermissions expected @ '', got '' @ wp_DefaultPermissions actual]
      else []) @
     (if wp_ContentsPermission expected \<noteq> ''none'' \<and>
         is_permission_too_high (wp_ContentsPermission expected) (wp_ContentsPermission actual)
      then [''Contents permission too high: expected '' @ wp_ContentsPermission expected @ '' or lower, got '' @
              wp_ContentsPermission actual]
      else [])"

definition check_workflow_permissions :: rule_check where
  "check_workflow_permissions policy state =
     (let expected = ap_WorkflowPermissions policy; actual = rst_WorkflowPermissions state;
          r = (new_rule_result ''workflow_permissions'')\<lparr>pvr_ActualValue := JString (wp_DefaultPermissions actual),
                pvr_ExpectedValue := JString (wp_DefaultPermissions expected)\<rparr>;
          violations = workflow_permission_violations expected actual
      in if violations = [] then Inr (passed ''Workflow permissions are compliant'' r)
         else Inr (r\<lparr>pvr_Message := join ''; '' violations, pvr_Severity := ''medium'',
                pvr_Suggestions := [''Update workflow permissions to match policy requirements'',
                  ''Review existing workflows that may depend on current permissions''],
                pvr_Details := [(''violations'', strings_value violations)]\<rparr>))"

text \<open>Each deviating setting with whether it is counted as critical.\<close>

definition security_setting_violations ::
  "actions_security_settings \<Rightarrow> actions_security_settings \<Rightarrow> (string \<times> bool) list" where
  "security_setting_violations expected actual =
     (if ass_AllowForkPRs expected \<noteq> ass_AllowForkPRs actual then
        (if ass_AllowForkPRs actual \<and> \<not> ass_AllowForkPRs expected
         then [(''Fork PRs are enabled but policy requires them to be disabled'', True)]
         else [(''Fork PR setting does not match policy'', False)])
      else []) @
     (if ass_AllowGitHubOwnedActions expected \<noteq> ass_AllowGitHubOwnedActions actual then
        (if ass_AllowGitHubOwnedActions actual \<and> \<not> ass_AllowGitHubOwnedActions expected
         then [(''GitHub owned actions are enabled but policy requires them to be disabled'', True)]
         else [(''GitHub owned actions setting does not match policy'', False)])
      else []) @
     (if ass_AllowMarketplaceActions expected \<noteq> ass_AllowMarketplaceActions actual then
        (if is_marketplace_policy_more_permissive (ass_AllowMarketplaceActions actual) (ass_AllowMarketplaceActions expected)
         then [(''Marketplace actions policy is too permissive: current '' @ ass_AllowMarketplaceActions actual @
                  '', policy requires '' @ ass_AllowMarketplaceActions expected, True)]
         else [(''Marketplace actions policy does not match'', False)])
      else [])"

definition check_security_settings :: rule_check where
  "check_security_settings policy state =
     (let found = security_setting_violations (ap_SecuritySettings policy) (rst_SecuritySettings state);
          violations = map fst found; criticalViolations = length (filter snd found);
          r = new_rule_result ''security_settings''
      in if violations = [] then Inr (passed ''Security settings are compliant'' r)
         else
           let r1 = r\<lparr>pvr_Message := join ''; '' violations,
                pvr_Details := [(''violations'', strings_value violations),
                  (''critical_violations'', JInt (int criticalViolations))]\<rparr>
           in if 0 < criticalViolations
              then Inr (r1\<lparr>pvr_Severity := ''critical'',
                     pvr_Suggestions := [''URGENT: Review and tighten security settings immediately'',
                       ''Disable overly permissive settings that violate security policy'',
                       ''Audit recent workflow runs for potential security issues'']\<rparr>)
              else Inr (r1\<lparr>pvr_Severity := ''medium'',
                     pvr_Suggestions := [''Update security settings to match policy'']\<rparr>))"

fun match_any :: "regex_match \<Rightarrow> (string \<Rightarrow> string \<Rightarrow> string) \<Rightarrow> string list \<Rightarrow> string \<Rightarrow> string + bool" where
  "match_any matches wrap [] s = Inr False"
| "match_any matches wrap (pattern # patterns) s =
     (case matches pattern s of
        Inl e \<Rightarrow> Inl (wrap pattern e)
      | Inr matched \<Rightarrow> if matched then Inr True else match_any matches wrap patterns s)"

text \<open>\<open>%q\<close> is modelled for patterns of printable characters without quotes and backslashes.\<close>

definition quoted_pattern :: "string \<Rightarrow> string" where
  "quoted_pattern s = ''\"'' @ s @ ''\"''"

definition is_action_allowed :: "regex_match \<Rightarrow> string \<Rightarrow> string list \<Rightarrow> string list \<Rightarrow> string + bool" where
  "is_action_allowed matches action allowedActions allowedPatterns =
     (if action \<in> set allowedActions then Inr True
      else match_any matches (\<lambda>p e. ''invalid allowed action pattern '' @ quoted_pattern p @ '': '' @ e) allowedPatterns action)"

fun unauthorized_actions ::
  "(string \<Rightarrow> string + bool) \<Rightarrow> (string \<times> string) list \<Rightarrow> string + string list" where
  "unauthorized_actions allowed [] = Inr []"
| "unauthorized_actions allowed ((action, workflow) # uses) =
     (case allowed action of
        Inl e \<Rightarrow> Inl e
      | Inr ok \<Rightarrow>
          (case unauthorized_actions allowed uses of
             Inl e \<Rightarrow> Inl e
           | Inr rest \<Rightarrow> Inr ((if ok then [] else [action @ '' in workflow '' @ workflow]) @ rest)))"

definition action_uses :: "repository_actions_state \<Rightarrow> (string \<times> string) list" where
  "action_uses state = concat (map (\<lambda>w. map (\<lambda>a. (a, wi_Name w)) (wi_Actions w)) (rst_RecentWorkflows state))"

definition check_allowed_actions :: "regex_match \<Rightarrow> rule_check" where
  "check_allowed_actions matches policy state =
     (let r = new_rule_result ''allowed_actions'' in
      if ap_PermissionLevel policy \<noteq> ''selected''
      then Inr (passed ''Actions permission level does not require specific action validation'' r)
      else
        (case unauthorized_actions
            (\<lambda>a. is_action_allowed matches a (ap_AllowedActions policy) (ap_AllowedActionsPatterns policy)) (action_uses state) of
           Inl e \<Rightarrow> Inl e
         | Inr unauthorized \<Rightarrow>
             if unauthorized \<noteq> [] then
               Inr (r\<lparr>pvr_Message := ''Found '' @ show_int (int (length unauthorized)) @ '' unauthorized actions in recent workflows'',
                  pvr_Severity := ''high'',
                  pvr_Suggestions := [''Review and remove unauthorized actions from workflows'',
                    ''Update allowed actions list if these actions are legitimate'',
                    ''Consider using action patterns for more flexible policies''],
                  pvr_Details := [(''unauthorized_actions'', strings_value unauthorized)]\<rparr>)
             else Inr (passed ''All actions in recent workflows are authorized'' r)))"

fun misnamed_secrets :: "(string \<Rightarrow> string + bool) \<Rightarrow> secret_info list \<Rightarrow> string + string list" where
  "misnamed_secrets named [] = Inr []"
| "misnamed_secrets named (s # secrets) =
     (case named (si_Name s) of
        Inl e \<Rightarrow> Inl e
      | Inr ok \<Rightarrow>
          (case misnamed_secrets named secrets of
             Inl e \<Rightarrow> Inl e
           | Inr rest \<Rightarrow>
               Inr ((if ok then [] else [''Secret '' @ [CHR 0x27] @ si_Name s @ [CHR 0x27] @ '' does not match naming patterns'']) @ rest)))"

definition restricted_secrets :: "string list \<Rightarrow> secret_info list \<Rightarrow> string list" where
  "restricted_secrets restricted secrets =
     concat (map (\<lambda>s. map (\<lambda>r. ''Restricted secret '' @ [CHR 0x27] @ si_Name s @ [CHR 0x27] @ '' is present'')
       (filter (\<lambda>r. si_Name s = r) restricted)) secrets)"

definition matches_naming_pattern :: "regex_match \<Rightarrow> string list \<Rightarrow> string \<Rightarrow> string + bool" where
  "matches_naming_pattern matches patterns name =
     match_any matches (\<lambda>p e. ''invalid secret naming pattern '' @ quoted_pattern p @ '': '' @ e) patterns name"

definition check_secret_policy :: "regex_match \<Rightarrow> rule_check" where
  "check_secret_policy matches policy state =
     (let sp = ap_SecretsPolicy policy; secrets = rst_Secrets state; n = int (length secrets); r = new_rule_result ''secret_policy'';
          tooMany = (if 0 < scp_MaxSecretCount sp \<and> scp_MaxSecretCount sp < n
            then [''Too many secrets: '' @ show_int n @ '' exceeds limit of '' @ show_int (scp_MaxSecretCount sp)] else [])
      in case (if scp_SecretNamingPatterns sp \<noteq> []
               then misnamed_secrets (matches_naming_pattern matches (scp_SecretNamingPatterns sp)) secrets else Inr []) of
           Inl e \<Rightarrow> Inl e
         | Inr misnamed \<Rightarrow>
             let violations = tooMany @ misnamed @ restricted_secrets (scp_RestrictedSecrets sp) secrets in
             if violations = [] then Inr (passed ''Secret policy is compliant'' r)
             else Inr (r\<lparr>pvr_Message := join ''; '' violations, pvr_Severity := ''medium'',
                    pvr_Suggestions := [''Review and clean up secrets that violate policy'',
                      ''Update secret names to match naming patterns'', ''Remove restricted secrets''],
                    pvr_Details := [(''violations'', strings_value violations), (''secret_count'', JInt n),
                      (''secret_limit'', JInt (scp_MaxSecretCount sp))]\<rparr>))"

definition is_self_hosted_runner :: "runner_info \<Rightarrow> bool" where
  "is_self_hosted_runner runner \<longleftrightarrow> contains (to_lower (rni_Name runner)) ''self-hosted''"

definition get_runner_type :: "runner_info \<Rightarrow> string" where
  "get_runner_type runner = (if is_self_hosted_runner runner then ''self_hosted'' else ''github_hosted'')"

definition is_runner_type_allowed :: "string \<Rightarrow> string list \<Rightarrow> bool" where
  "is_runner_type_allowed runnerType allowedTypes \<longleftrightarrow> runnerType \<in> set allowedTypes"

definition has_required_labels :: "runner_info \<Rightarrow> string list \<Rightarrow> bool" where
  "has_required_labels runner requiredLabels \<longleftrightarrow> list_all (\<lambda>l. l \<in> set (rni_Labels runner)) requiredLabels"

definition runner_violations :: "runner_policy \<Rightarrow> runner_info list \<Rightarrow> string list" where
  "runner_violations rp runners =
     (let selfHosted = filter is_self_hosted_runner runners; limit = shrp_MaxRunners (rnp_SelfHostedRunnerPolicy rp) in
      (if 0 < limit \<and> limit < int (length selfHosted)
       then [''Too many self-hosted runners: '' @ show_int (int (length selfHosted)) @ '' exceeds limit of '' @ show_int limit] else []) @
      map (\<lambda>r. ''Runner '' @ [CHR 0x27] @ rni_Name r @ [CHR 0x27] @ '' type '' @ [CHR 0x27] @ get_runner_type r @ [CHR 0x27] @
             '' is not allowed'')
        (filter (\<lambda>r. \<not> is_runner_type_allowed (get_runner_type r) (rnp_AllowedRunnerTypes rp)) runners) @
      (if rnp_RequireSelfHostedLabels rp \<noteq> []
       then map (\<lambda>r. ''Self-hosted runner '' @ [CHR 0x27] @ rni_Name r @ [CHR 0x27] @ '' missing required labels'')
              (filter (\<lambda>r. \<not> has_required_labels r (rnp_RequireSelfHostedLabels rp)) selfHosted)
       else []))"

definition check_runner_policy :: rule_check where
  "check_runner_policy policy state =
     (let violations = runner_violations (ap_Runners policy) (rst_Runners state); r = new_rule_result ''runner_policy'' in
      if violations = [] then Inr (passed ''Runner policy is compliant'' r)
      else Inr (r\<lparr>pvr_Message := join ''; '' violations, pvr_Severity := ''medium'',
             pvr_Suggestions := [''Review runner configuration and remove non-compliant runners'',
               ''Add required labels to self-hosted runners'', ''Ensure runner types match policy requirements''],
             pvr_Details := [(''violations'', strings_value violations), (''runner_count'', JInt (int (length (rst_Runners state))))]\<rparr>))"

section \<open>What every rule promises\<close>

text \<open>
  The interface \<open>PolicyValidationRule\<close>: a result names the rule it comes from, it passed exactly
  when its severity is low, and one that did not pass says what to do.
\<close>

locale validation_rule =
  fixes ruleID :: string and check :: rule_check
  assumes result_rule: "check policy state = Inr r \<Longrightarrow> pvr_RuleID r = ruleID"
    and result_severity: "check policy state = Inr r \<Longrightarrow> pvr_Passed r \<longleftrightarrow> pvr_Severity r = ''low''"
    and result_suggests: "check policy state = Inr r \<Longrightarrow> pvr_Passed r \<longleftrightarrow> pvr_Suggestions r = []"
begin

lemma failed_result:
  "check policy state = Inr r \<Longrightarrow> \<not> pvr_Passed r \<Longrightarrow> pvr_Severity r \<noteq> ''low'' \<and> pvr_Suggestions r \<noteq> []"
  using result_severity result_suggests by blast

lemma results_graded:
  "list_all (\<lambda>r. pvr_RuleID r = ruleID \<and> (pvr_Passed r \<longleftrightarrow> pvr_Severity r = ''low''))
     (List.map_filter (\<lambda>(p, s). case check p s of Inl _ \<Rightarrow> None | Inr r \<Rightarrow> Some r) ps)"
  using result_rule result_severity
  by (auto simp: list_all_iff in_map_filter split: sum.splits)

end

lemma rule_result_sel [simp]:
  "pvr_RuleID (new_rule_result i) = i" "\<not> pvr_Passed (new_rule_result i)" "pvr_Suggestions (new_rule_result i) = []"
  by (simp_all add: new_rule_result_def zero_policy_validation_result_def)

lemma passed_sel [simp]:
  "pvr_RuleID (passed m r) = pvr_RuleID r" "pvr_Passed (passed m r)" "pvr_Severity (passed m r) = ''low''"
  "pvr_Suggestions (passed m r) = pvr_Suggestions r"
  by (simp_all add: passed_def)

interpretation permission_level_rule: validation_rule "''actions_permission_level''" check_permission_level
  by unfold_locales (auto simp: check_permission_level_def Let_def split: if_splits)

interpretation workflow_permissions_rule: validation_rule "''workflow_permissions''" check_workflow_permissions
  by unfold_locales (auto simp: check_workflow_permissions_def Let_def split: if_splits)

interpretation security_settings_rule: validation_rule "''security_settings''" check_security_settings
  by unfold_locales (auto simp: check_security_settings_def Let_def split: if_splits)

interpretation allowed_actions_rule: validation_rule "''allowed_actions''" "check_allowed_actions matches" for matches
  by unfold_locales (auto simp: check_allowed_actions_def Let_def split: if_splits sum.splits)

interpretation secret_policy_rule: validation_rule "''secret_policy''" "check_secret_policy matches" for matches
  by unfold_locales (auto simp: check_secret_policy_def Let_def split: if_splits sum.splits)

interpretation runner_policy_rule: validation_rule "''runner_policy''" check_runner_policy
  by unfold_locales (auto simp: check_runner_policy_def Let_def split: if_splits)

section \<open>When a rule passes\<close>

lemma map_filter_Nil [simp]: "List.map_filter f [] = []"
  by (simp add: List.map_filter_def)

lemma permission_level_passes:
  "check_permission_level policy state = Inr r \<Longrightarrow>
     (pvr_Passed r \<longleftrightarrow> ap_PermissionLevel policy = rst_PermissionLevel state) \<and>
     (pvr_Severity r = ''high'' \<longleftrightarrow> actions_permission_escalation (ap_PermissionLevel policy) (rst_PermissionLevel state))"
  using actions_permission.outranks_irrefl
  by (auto simp: check_permission_level_def Let_def split: if_splits)

text \<open>
  Of the token permissions only the default and, when the policy gives it at all, the contents
  permission are compared.
\<close>

lemma workflow_permissions_pass:
  "check_workflow_permissions policy state = Inr r \<Longrightarrow>
     pvr_Passed r \<longleftrightarrow>
       wp_DefaultPermissions (ap_WorkflowPermissions policy) = wp_DefaultPermissions (rst_WorkflowPermissions state) \<and>
       (wp_ContentsPermission (ap_WorkflowPermissions policy) \<noteq> ''none'' \<longrightarrow>
          \<not> is_permission_too_high (wp_ContentsPermission (ap_WorkflowPermissions policy))
              (wp_ContentsPermission (rst_WorkflowPermissions state)))"
  by (auto simp: check_workflow_permissions_def workflow_permission_violations_def Let_def split: if_splits)

lemma none_permits_write:
  "wp_DefaultPermissions (ap_WorkflowPermissions policy) = wp_DefaultPermissions (rst_WorkflowPermissions state) \<Longrightarrow>
   wp_ContentsPermission (ap_WorkflowPermissions policy) = ''none'' \<Longrightarrow>
   \<exists>r. check_workflow_permissions policy state = Inr r \<and> pvr_Passed r"
  by (simp add: check_workflow_permissions_def workflow_permission_violations_def Let_def)

lemma security_setting_violations_Nil:
  "security_setting_violations e a = [] \<longleftrightarrow>
     ass_AllowForkPRs e = ass_AllowForkPRs a \<and> ass_AllowGitHubOwnedActions e = ass_AllowGitHubOwnedActions a \<and>
     ass_AllowMarketplaceActions e = ass_AllowMarketplaceActions a"
  by (simp add: security_setting_violations_def)

lemma security_setting_violations_critical:
  "filter snd (security_setting_violations e a) \<noteq> [] \<longleftrightarrow>
     (ass_AllowForkPRs a \<and> \<not> ass_AllowForkPRs e) \<or> (ass_AllowGitHubOwnedActions a \<and> \<not> ass_AllowGitHubOwnedActions e) \<or>
     is_marketplace_policy_more_permissive (ass_AllowMarketplaceActions a) (ass_AllowMarketplaceActions e)"
  using marketplace.outranks_irrefl by (auto simp: security_setting_violations_def)

lemma security_settings_pass:
  "check_security_settings policy state = Inr r \<Longrightarrow>
     (pvr_Passed r \<longleftrightarrow>
       ass_AllowForkPRs (ap_SecuritySettings policy) = ass_AllowForkPRs (rst_SecuritySettings state) \<and>
       ass_AllowGitHubOwnedActions (ap_SecuritySettings policy) = ass_AllowGitHubOwnedActions (rst_SecuritySettings state) \<and>
       ass_AllowMarketplaceActions (ap_SecuritySettings policy) = ass_AllowMarketplaceActions (rst_SecuritySettings state)) \<and>
     (pvr_Severity r = ''critical'' \<longleftrightarrow>
       (ass_AllowForkPRs (rst_SecuritySettings state) \<and> \<not> ass_AllowForkPRs (ap_SecuritySettings policy)) \<or>
       (ass_AllowGitHubOwnedActions (rst_SecuritySettings state) \<and> \<not> ass_AllowGitHubOwnedActions (ap_SecuritySettings policy)) \<or>
       is_marketplace_policy_more_permissive (ass_AllowMarketplaceActions (rst_SecuritySettings state))
         (ass_AllowMarketplaceActions (ap_SecuritySettings policy)))"
  unfolding security_setting_violations_Nil [symmetric] security_setting_violations_critical [symmetric]
  by (auto simp: check_security_settings_def Let_def split: if_splits)

lemma match_any_iff:
  "match_any matches wrap ps s = Inr b \<Longrightarrow> b \<longleftrightarrow> (\<exists>p\<in>set ps. matches p s = Inr True)"
  by (induction ps) (auto split: sum.splits if_splits)

lemma match_any_error:
  "isl (match_any matches wrap ps s) \<Longrightarrow> \<exists>p\<in>set ps. isl (matches p s)"
  by (induction ps) (auto split: sum.splits if_splits)

lemma unauthorized_actions_none:
  "unauthorized_actions allowed uses = Inr xs \<Longrightarrow> xs = [] \<longleftrightarrow> (\<forall>(a, w)\<in>set uses. allowed a = Inr True)"
  by (induction uses arbitrary: xs) (auto split: sum.splits if_splits)

lemma unauthorized_actions_error: "isl (unauthorized_actions allowed uses) \<longleftrightarrow> (\<exists>(a, w)\<in>set uses. isl (allowed a))"
  by (induction uses) (auto split: sum.splits)

text \<open>A selection is respected when every action of a recent workflow is listed or matches.\<close>

lemma allowed_actions_pass:
  assumes "check_allowed_actions matches policy state = Inr r" and "ap_PermissionLevel policy = ''selected''"
  shows "pvr_Passed r \<longleftrightarrow> (\<forall>(a, w)\<in>set (action_uses state).
    a \<in> set (ap_AllowedActions policy) \<or> (\<exists>p\<in>set (ap_AllowedActionsPatterns policy). matches p a = Inr True))"
proof -
  let ?allowed = "\<lambda>a. is_action_allowed matches a (ap_AllowedActions policy) (ap_AllowedActionsPatterns policy)"
  obtain xs where xs: "unauthorized_actions ?allowed (action_uses state) = Inr xs"
    using assms by (auto simp: check_allowed_actions_def Let_def split: sum.splits)
  have p: "pvr_Passed r \<longleftrightarrow> xs = []"
    using assms xs by (auto simp: check_allowed_actions_def Let_def split: if_splits)
  have noerr: "\<not> isl (?allowed a)" if "(a, w) \<in> set (action_uses state)" for a w
    using xs unauthorized_actions_error [of ?allowed "action_uses state"] that by force
  have "?allowed a = Inr True \<longleftrightarrow>
      a \<in> set (ap_AllowedActions policy) \<or> (\<exists>p\<in>set (ap_AllowedActionsPatterns policy). matches p a = Inr True)"
    if "(a, w) \<in> set (action_uses state)" for a w
  proof -
    have "\<not> isl (?allowed a)" using noerr that by blast
    then obtain b where b: "?allowed a = Inr b" by (cases "?allowed a") auto
    then show ?thesis using match_any_iff by (auto simp: is_action_allowed_def split: if_splits)
  qed
  then show ?thesis unfolding p unauthorized_actions_none [OF xs] by (intro ball_cong refl) auto
qed

end
