(* ===== verification/ActionsPolicy.thy ===== *)
theory ActionsPolicy
  imports ActionsRules PolicyStore
begin

text \<open>
  The manager and the enforcer of GitHub Actions policies, \<open>pkg/github/actions_policy.go\<close> and
  \<open>pkg/github/actions_policy_enforcer.go\<close>.

  A validation rule is its identifier and its check, which may also return nothing (a nil
  result). The calls that change a repository are placeholders in the code and are modelled as
  they are; \<open>now\<close> is the clock, read once per operation.
\<close>

section \<open>The manager\<close>

record actions_policy_manager =
  apm_policies :: "(string, actions_policy) gomap"
  apm_violations :: "(string, actions_policy_violation) gomap"

datatype actions_problem =
    ActionsPolicyIDRequired | ActionsPolicyNameRequired | ActionsOrganizationRequired
  | InvalidActionsPolicy actions_problem | InvalidActionsUpdate actions_problem | ActionsPolicyNotFound string
  | InvalidPermissionLevel string | NoAllowedActions | InvalidDefaultPermissions string
  | EnvironmentNameRequired | InvalidBranchPolicy string string | NoRunnerTypes | InvalidRunnerType string

definition new_actions_policy_manager :: actions_policy_manager where
  "new_actions_policy_manager = \<lparr>apm_policies = [], apm_violations = []\<rparr>"

definition valid_permission_levels :: "string list" where
  "valid_permission_levels = [''disabled'', ''all'', ''local_only'', ''selected'']"

definition valid_default_permissions :: "string list" where
  "valid_default_permissions = [''read'', ''write'', ''restricted'']"

definition valid_branch_policies :: "string list" where
  "valid_branch_policies = [''all'', ''protected'', ''selected'', ''none'']"

definition valid_runner_types :: "string list" where
  "valid_runner_types = [''github_hosted'', ''self_hosted'', ''organization'', ''repository'']"

fun validate_environments :: "environment_policy list \<Rightarrow> actions_problem option" where
  "validate_environments [] = None"
| "validate_environments (env # envs) =
     (if envp_Name env = [] then Some EnvironmentNameRequired
      else if envp_BranchPolicyType env \<notin> set valid_branch_policies
        then Some (InvalidBranchPolicy (envp_Name env) (envp_BranchPolicyType env))
      else validate_environments envs)"

fun validate_runner_types :: "string list \<Rightarrow> actions_problem option" where
  "validate_runner_types [] = None"
| "validate_runner_types (t # ts) =
     (if t \<notin> set valid_runner_types then Some (InvalidRunnerType t) else validate_runner_types ts)"

definition validate_actions_policy :: "actions_policy \<Rightarrow> actions_problem option" where
  "validate_actions_policy policy =
     (if ap_PermissionLevel policy \<notin> set valid_permission_levels then Some (InvalidPermissionLevel (ap_PermissionLevel policy))
      else if ap_PermissionLevel policy = ''selected'' \<and> ap_AllowedActions policy = [] \<and> ap_AllowedActionsPatterns policy = []
        then Some NoAllowedActions
      else if wp_DefaultPermissions (ap_WorkflowPermissions policy) \<notin> set valid_default_permissions
        then Some (InvalidDefaultPermissions (wp_DefaultPermissions (ap_WorkflowPermissions policy)))
      else
        (case validate_environments (ap_Environments policy) of
           Some e \<Rightarrow> Some e
         | None \<Rightarrow>
             if rnp_AllowedRunnerTypes (ap_Runners policy) = [] then Some NoRunnerTypes
             else validate_runner_types (rnp_AllowedRunnerTypes (ap_Runners policy))))"

definition actions_policy_problem :: "actions_policy \<Rightarrow> actions_problem option" where
  "actions_policy_problem policy =
     (if ap_ID policy = [] then Some ActionsPolicyIDRequired
      else if ap_Name policy = [] then Some ActionsPolicyNameRequired
      else if ap_Organization policy = [] then Some ActionsOrganizationRequired
      else map_option InvalidActionsPolicy (validate_actions_policy policy))"

definition create_actions_policy ::
  "int \<Rightarrow> actions_policy \<Rightarrow> actions_policy_manager \<Rightarrow> actions_problem option \<times> actions_policy_manager" where
  "create_actions_policy now policy apm =
     (case actions_policy_problem policy of
        Some e \<Rightarrow> (Some e, apm)
      | None \<Rightarrow>
          (None, apm\<lparr>apm_policies := gm_put (ap_ID policy)
             (policy\<lparr>ap_CreatedAt := now, ap_UpdatedAt := now, ap_Version := 1\<rparr>) (apm_policies apm)\<rparr>))"

definition update_actions_policy ::
  "int \<Rightarrow> string \<Rightarrow> actions_policy \<Rightarrow> actions_policy_manager \<Rightarrow> actions_problem option \<times> actions_policy_manager" where
  "update_actions_policy now policyID updates apm =
     (case gm_get (apm_policies apm) policyID of
        None \<Rightarrow> (Some (ActionsPolicyNotFound policyID), apm)
      | Some existing \<Rightarrow>
          (case validate_actions_policy updates of
             Some e \<Rightarrow> (Some (InvalidActionsUpdate e), apm)
           | None \<Rightarrow>
               (None, apm\<lparr>apm_policies := gm_put policyID
                  (updates\<lparr>ap_ID := policyID, ap_CreatedAt := ap_CreatedAt existing, ap_CreatedBy := ap_CreatedBy existing,
                     ap_UpdatedAt := now, ap_Version := wrap64 (ap_Version existing + 1)\<rparr>) (apm_policies apm)\<rparr>)))"

definition get_actions_policy :: "string \<Rightarrow> actions_policy_manager \<Rightarrow> actions_problem + actions_policy" where
  "get_actions_policy policyID apm =
     (case gm_get (apm_policies apm) policyID of None \<Rightarrow> Inl (ActionsPolicyNotFound policyID) | Some policy \<Rightarrow> Inr policy)"

definition list_actions_policies :: "string \<Rightarrow> actions_policy_manager \<Rightarrow> actions_policy list" where
  "list_actions_policies organization apm =
     filter (\<lambda>p. organization = [] \<or> ap_Organization p = organization) (map snd (apm_policies apm))"

definition delete_actions_policy ::
  "string \<Rightarrow> actions_policy_manager \<Rightarrow> actions_problem option \<times> actions_policy_manager" where
  "delete_actions_policy policyID apm =
     (case gm_get (apm_policies apm) policyID of
        None \<Rightarrow> (Some (ActionsPolicyNotFound policyID), apm)
      | Some _ \<Rightarrow> (None, apm\<lparr>apm_policies := gm_del policyID (apm_policies apm)\<rparr>))"

definition get_default_actions_policy :: actions_policy where
  "get_default_actions_policy =
     (let hour = 3600 * nanosecond_second in
      zero_actions_policy\<lparr>ap_Name := ''Default Actions Policy'', ap_Description := ''Default policy for GitHub Actions'',
        ap_PermissionLevel := ''local_only'',
        ap_WorkflowPermissions := zero_workflow_permissions\<lparr>wp_DefaultPermissions := ''read'',
          wp_CanApproveOwnChanges := False, wp_ActionsReadPermission := ''read'', wp_ContentsPermission := ''read'',
          wp_MetadataPermission := ''read'', wp_PackagesPermission := ''none'', wp_PullRequestsPermission := ''read'',
          wp_IssuesPermission := ''read'', wp_DeploymentsPermission := ''none'', wp_ChecksPermission := ''none'',
          wp_StatusesPermission := ''none'', wp_SecurityEventsPermission := ''none'', wp_IdTokenPermission := ''none'',
          wp_AttestationsPermission := ''none''\<rparr>,
        ap_SecuritySettings := zero_actions_security_settings\<lparr>ass_RequireCodeScanningApproval := True,
          ass_RequireSecretScanningApproval := True, ass_AllowForkPRs := False, ass_RequireApprovalForForkPRs := True,
          ass_AllowPrivateRepoForkRun := False, ass_RequireApprovalForPrivateFork := True,
          ass_AllowGitHubOwnedActions := True, ass_AllowVerifiedPartnerActions := False,
          ass_AllowMarketplaceActions := ''disabled'', ass_RequireSignedCommits := True,
          ass_EnforceAdminsOnBranches := True\<rparr>,
        ap_SecretsPolicy := zero_secrets_policy\<lparr>scp_RequireApprovalForNewSecrets := True,
          scp_SecretVisibility := ''private'', scp_AllowSecretsInheritance := False, scp_MaxSecretCount := 50,
          scp_SecretRotationPolicy := zero_secret_rotation_policy\<lparr>srp_Enabled := False,
            srp_RotationInterval := 90 * 24 * hour, srp_RequireRotationWarning := True, srp_WarningDays := 7\<rparr>\<rparr>,
        ap_Runners := zero_runner_policy\<lparr>rnp_AllowedRunnerTypes := [''github_hosted''], rnp_MaxConcurrentJobs := 5,
          rnp_MaxJobExecutionTime := 6 * hour, rnp_RequireRunnerApproval := True,
          rnp_SelfHostedRunnerPolicy := zero_self_hosted_runner_policy\<lparr>shrp_RequireRunnerRegistration := True,
            shrp_RequiredSecurityPatches := True, shrp_DisallowPublicRepositories := True,
            shrp_RequireEncryptedStorage := True, shrp_RunnerTimeout := 24 * hour, shrp_MaxRunners := 10\<rparr>\<rparr>,
        ap_Enabled := True, ap_Version := 1\<rparr>)"

section \<open>The enforcer\<close>

type_synonym policy_validation_rule = "string \<times> (actions_policy \<Rightarrow> repository_actions_state \<Rightarrow> string + policy_validation_result option)"

record actions_policy_enforcer =
  ape_policyManager :: actions_policy_manager
  ape_validationRules :: "policy_validation_rule list"

definition default_validation_rules :: "regex_match \<Rightarrow> policy_validation_rule list" where
  "default_validation_rules matches =
     map (\<lambda>(ruleID, check). (ruleID, \<lambda>policy state. map_sum id Some (check policy state)))
       [(''actions_permission_level'', check_permission_level), (''workflow_permissions'', check_workflow_permissions),
        (''security_settings'', check_security_settings), (''allowed_actions'', check_allowed_actions matches),
        (''secret_policy'', check_secret_policy matches), (''runner_policy'', check_runner_policy)]"

definition add_validation_rule :: "policy_validation_rule \<Rightarrow> actions_policy_enforcer \<Rightarrow> actions_policy_enforcer" where
  "add_validation_rule rule ape = ape\<lparr>ape_validationRules := ape_validationRules ape @ [rule]\<rparr>"

definition new_actions_policy_enforcer :: "regex_match \<Rightarrow> actions_policy_manager \<Rightarrow> actions_policy_enforcer" where
  "new_actions_policy_enforcer matches apm =
     \<lparr>ape_policyManager = apm, ape_validationRules = default_validation_rules matches\<rparr>"

fun validate_against_rules ::
  "policy_validation_rule list \<Rightarrow> actions_policy \<Rightarrow> repository_actions_state \<Rightarrow> policy_validation_result list" where
  "validate_against_rules [] policy state = []"
| "validate_against_rules ((ruleID, check) # rules) policy state =
     (case check policy state of
        Inl e \<Rightarrow> validate_against_rules rules policy state
      | Inr None \<Rightarrow> validate_against_rules rules policy state
      | Inr (Some r) \<Rightarrow> r # validate_against_rules rules policy state)"

definition get_repository_actions_state :: "int \<Rightarrow> string \<Rightarrow> string \<Rightarrow> repository_actions_state" where
  "get_repository_actions_state now organization repository =
     zero_repository_actions_state\<lparr>rst_Organization := organization, rst_Repository := repository, rst_ActionsEnabled := True,
       rst_PermissionLevel := ''all'',
       rst_WorkflowPermissions := zero_workflow_permissions\<lparr>wp_DefaultPermissions := ''write''\<rparr>,
       rst_SecuritySettings := zero_actions_security_settings\<lparr>ass_AllowForkPRs := False, ass_AllowGitHubOwnedActions := True,
         ass_AllowVerifiedPartnerActions := False, ass_AllowMarketplaceActions := ''disabled''\<rparr>,
       rst_LastUpdated := now\<rparr>"

definition update_actions_permission_level :: "string \<Rightarrow> string \<Rightarrow> string \<Rightarrow> string option" where
  "update_actions_permission_level org repo level = None"

definition update_workflow_permissions :: "string \<Rightarrow> string \<Rightarrow> workflow_permissions \<Rightarrow> string option" where
  "update_workflow_permissions org repo permissions = None"

definition update_security_settings :: "string \<Rightarrow> string \<Rightarrow> actions_security_settings \<Rightarrow> string option" where
  "update_security_settings org repo settings = None"

text \<open>A step changes the state and the result, or fails with the change recorded as failed.\<close>

type_synonym enforcement = "repository_actions_state \<times> policy_enforcement_result"

definition record_change ::
  "policy_change \<Rightarrow> string option \<Rightarrow> (repository_actions_state \<Rightarrow> repository_actions_state) \<Rightarrow> enforcement
     \<Rightarrow> string option \<times> enforcement" where
  "record_change change err update st =
     (case st of (state, result) \<Rightarrow>
        (case err of
           Some e \<Rightarrow> (Some e, state, result\<lparr>enf_FailedChanges :=
             enf_FailedChanges result @ [change\<lparr>chg_Success := False, chg_Error := e\<rparr>]\<rparr>)
         | None \<Rightarrow> (None, update state, result\<lparr>enf_AppliedChanges :=
             enf_AppliedChanges result @ [change\<lparr>chg_Success := True\<rparr>]\<rparr>)))"

definition apply_permission_level_changes :: "actions_policy \<Rightarrow> enforcement \<Rightarrow> string option \<times> enforcement" where
  "apply_permission_level_changes policy st =
     (case st of (state, result) \<Rightarrow>
        if ap_PermissionLevel policy \<noteq> rst_PermissionLevel state then
          record_change (zero_policy_change\<lparr>chg_Type := ''actions_permission'', chg_Target := ''permission_level'',
              chg_Action := ''update'', chg_OldValue := JString (rst_PermissionLevel state),
              chg_NewValue := JString (ap_PermissionLevel policy)\<rparr>)
            (update_actions_permission_level (rst_Organization state) (rst_Repository state) (ap_PermissionLevel policy))
            (\<lambda>s. s\<lparr>rst_PermissionLevel := ap_PermissionLevel policy\<rparr>) st
        else (None, st))"

definition apply_workflow_permission_changes :: "actions_policy \<Rightarrow> enforcement \<Rightarrow> string option \<times> enforcement" where
  "apply_workflow_permission_changes policy st =
     (case st of (state, result) \<Rightarrow>
        if wp_DefaultPermissions (ap_WorkflowPermissions policy) \<noteq> wp_DefaultPermissions (rst_WorkflowPermissions state) then
          record_change (zero_policy_change\<lparr>chg_Type := ''workflow_permissions'', chg_Target := ''default_permissions'',
              chg_Action := ''update'', chg_OldValue := JString (wp_DefaultPermissions (rst_WorkflowPermissions state)),
              chg_NewValue := JString (wp_DefaultPermissions (ap_WorkflowPermissions policy))\<rparr>)
            (update_workflow_permissions (rst_Organization state) (rst_Repository state) (ap_WorkflowPermissions policy))
            (\<lambda>s. s\<lparr>rst_WorkflowPermissions := ap_WorkflowPermissions policy\<rparr>) st
        else (None, st))"

definition apply_security_setting_changes :: "actions_policy \<Rightarrow> enforcement \<Rightarrow> string option \<times> enforcement" where
  "apply_security_setting_changes policy st =
     (case st of (state, result) \<Rightarrow>
        if ass_AllowForkPRs (ap_SecuritySettings policy) \<noteq> ass_AllowForkPRs (rst_SecuritySettings state) then
          record_change (zero_policy_change\<lparr>chg_Type := ''security_settings'', chg_Target := ''allow_fork_prs'',
              chg_Action := ''update'', chg_OldValue := JBool (ass_AllowForkPRs (rst_SecuritySettings state)),
              chg_NewValue := JBool (ass_AllowForkPRs (ap_SecuritySettings policy))\<rparr>)
            (update_security_settings (rst_Organization state) (rst_Repository state) (ap_SecuritySettings policy))
            (\<lambda>s. s\<lparr>rst_SecuritySettings := ap_SecuritySettings policy\<rparr>) st
        else (None, st))"

definition apply_secret_policy_changes :: "actions_policy \<Rightarrow> enforcement \<Rightarrow> string option \<times> enforcement" where
  "apply_secret_policy_changes policy st = (None, st)"

definition apply_environment_policy_changes :: "actions_policy \<Rightarrow> enforcement \<Rightarrow> string option \<times> enforcement" where
  "apply_environment_policy_changes policy st = (None, st)"

fun apply_steps ::
  "(actions_policy \<Rightarrow> enforcement \<Rightarrow> string option \<times> enforcement) list \<Rightarrow> actions_policy \<Rightarrow> enforcement
     \<Rightarrow> string option \<times> enforcement" where
  "apply_steps [] policy st = (None, st)"
| "apply_steps (step # steps) policy st =
     (case step policy st of
        (Some e, st') \<Rightarrow> (Some e, st')
      | (None, st') \<Rightarrow> apply_steps steps policy st')"

definition apply_policy_changes :: "actions_policy \<Rightarrow> enforcement \<Rightarrow> string option \<times> enforcement" where
  "apply_policy_changes =
     apply_steps [apply_permission_level_changes, apply_workflow_permission_changes, apply_security_setting_changes,
       apply_secret_policy_changes, apply_environment_policy_changes]"

definition map_violation_type :: "string \<Rightarrow> string" where
  "map_violation_type ruleID =
     (if contains ruleID ''permission'' then ''excessive_permissions''
      else if contains ruleID ''action'' then ''unauthorized_action''
      else if contains ruleID ''secret'' then ''secret_misuse''
      else if contains ruleID ''runner'' then ''runner_policy_breach''
      else if contains ruleID ''environment'' then ''environment_breach''
      else if contains ruleID ''workflow'' then ''workflow_permission_breach''
      else if contains ruleID ''security'' then ''security_settings_breach''
      else ''unauthorized_action'')"

definition rule_violation :: "int \<Rightarrow> actions_policy \<Rightarrow> repository_actions_state \<Rightarrow> policy_validation_result \<Rightarrow> actions_policy_violation" where
  "rule_violation now policy state r =
     \<lparr>apv_ID = ''violation-'' @ show_int now, apv_PolicyID = ap_ID policy,
      apv_ViolationType = map_violation_type (pvr_RuleID r), apv_Severity = pvr_Severity r,
      apv_Resource = rst_Organization state @ ''/'' @ rst_Repository state, apv_Description = pvr_Message r,
      apv_Details = [(''rule_id'', JString (pvr_RuleID r)), (''actual_value'', pvr_ActualValue r),
        (''expected_value'', pvr_ExpectedValue r), (''suggestions'', strings_value (pvr_Suggestions r))],
      apv_DetectedAt = now, apv_ResolvedAt = None, apv_Status = ''open''\<rparr>"

definition detect_violations ::
  "int \<Rightarrow> actions_policy \<Rightarrow> repository_actions_state \<Rightarrow> policy_validation_result list \<Rightarrow> actions_policy_violation list" where
  "detect_violations now policy state results =
     map (rule_violation now policy state) (filter (\<lambda>r. \<not> pvr_Passed r) results)"

datatype enforcement_error =
  PolicyUnavailable string actions_problem | PolicyDisabled string | ChangesFailed string

definition enforce_policy ::
  "int \<Rightarrow> int \<Rightarrow> string \<Rightarrow> string \<Rightarrow> string \<Rightarrow> actions_policy_enforcer
     \<Rightarrow> enforcement_error option \<times> policy_enforcement_result" where
  "enforce_policy now finished policyID organization repository ape =
     (let result = zero_policy_enforcement_result\<lparr>enf_PolicyID := policyID, enf_Organization := organization,
            enf_Repository := repository, enf_Timestamp := now\<rparr> in
      case get_actions_policy policyID (ape_policyManager ape) of
        Inl e \<Rightarrow> (Some (PolicyUnavailable policyID e), result)
      | Inr policy \<Rightarrow>
          if \<not> ap_Enabled policy then (Some (PolicyDisabled policyID), result)
          else
            let state = get_repository_actions_state now organization repository;
                validation = validate_against_rules (ape_validationRules ape) policy state
            in (case apply_policy_changes policy (state, result\<lparr>enf_ValidationResult := validation\<rparr>) of
                  (Some e, _, result') \<Rightarrow> (Some (ChangesFailed e), result'\<lparr>enf_Success := False\<rparr>)
                | (None, state', result') \<Rightarrow>
                    (None, result'\<lparr>enf_Violations := detect_violations now policy state' validation,
                       enf_Success := (enf_FailedChanges result' = []),
                       enf_ExecutionTime := time_sub finished now\<rparr>)))"


section \<open>The manager as a policy store\<close>

lemma actions_policy_problem_stamp:
  "actions_policy_problem (p\<lparr>ap_CreatedAt := a, ap_UpdatedAt := b, ap_Version := c\<rparr>) = actions_policy_problem p"
  by (simp add: actions_policy_problem_def validate_actions_policy_def cong: option.case_cong)

interpretation actions_store: policy_store "\<lambda>apm. gm_get (apm_policies apm)" ap_ID actions_policy_problem
  "\<lambda>now p. p\<lparr>ap_CreatedAt := now, ap_UpdatedAt := now, ap_Version := 1\<rparr>" create_actions_policy
  by unfold_locales (auto simp: create_actions_policy_def actions_policy_problem_stamp)

lemma created_actions_policies_valid:
  assumes "gm_get (apm_policies (foldl (\<lambda>apm (now, p). snd (create_actions_policy now p apm))
      new_actions_policy_manager ps)) policyID = Some policy"
  shows "ap_ID policy = policyID \<and> actions_policy_problem policy = None"
  using actions_store.creates_sound [OF _ assms] by (simp add: new_actions_policy_manager_def)

text \<open>An update checks the configuration but neither the name nor the organisation.\<close>

lemma update_stores_anonymous:
  assumes "gm_get (apm_policies apm) policyID = Some existing" and "validate_actions_policy updates = None"
  shows "\<exists>apm' p. update_actions_policy now policyID (updates\<lparr>ap_Name := [], ap_Organization := []\<rparr>) apm = (None, apm') \<and>
    gm_get (apm_policies apm') policyID = Some p \<and> actions_policy_problem p \<noteq> None"
proof -
  have "validate_actions_policy (updates\<lparr>ap_Name := [], ap_Organization := []\<rparr>) = validate_actions_policy updates"
    by (simp add: validate_actions_policy_def cong: option.case_cong)
  then show ?thesis using assms by (simp add: update_actions_policy_def actions_policy_problem_def)
qed

lemma default_actions_policy_valid:
  "i \<noteq> [] \<Longrightarrow> org \<noteq> [] \<Longrightarrow> actions_policy_problem (get_default_actions_policy\<lparr>ap_ID := i, ap_Organization := org\<rparr>) = None"
  by (simp add: actions_policy_problem_def validate_actions_policy_def get_default_actions_policy_def Let_def
      valid_permission_levels_def valid_default_permissions_def valid_runner_types_def zero_actions_policy_def
      zero_workflow_permissions_def zero_runner_policy_def)

section \<open>Enforcement\<close>

text \<open>The settings enforcement changes, in the order it does.\<close>

definition enforced_settings :: "actions_policy \<Rightarrow> repository_actions_state \<Rightarrow> string list" where
  "enforced_settings policy state =
     map fst (filter snd
       [(''permission_level'', ap_PermissionLevel policy \<noteq> rst_PermissionLevel state),
        (''default_permissions'',
          wp_DefaultPermissions (ap_WorkflowPermissions policy) \<noteq> wp_DefaultPermissions (rst_WorkflowPermissions state)),
        (''allow_fork_prs'', ass_AllowForkPRs (ap_SecuritySettings policy) \<noteq> ass_AllowForkPRs (rst_SecuritySettings state))])"

lemmas apply_defs = apply_policy_changes_def apply_permission_level_changes_def apply_workflow_permission_changes_def
  apply_security_setting_changes_def apply_secret_policy_changes_def apply_environment_policy_changes_def
  update_actions_permission_level_def update_workflow_permissions_def update_security_settings_def record_change_def

definition enforced_state :: "actions_policy \<Rightarrow> repository_actions_state \<Rightarrow> repository_actions_state" where
  "enforced_state policy state =
     state\<lparr>rst_PermissionLevel := ap_PermissionLevel policy,
       rst_WorkflowPermissions :=
         (if wp_DefaultPermissions (ap_WorkflowPermissions policy) = wp_DefaultPermissions (rst_WorkflowPermissions state)
          then rst_WorkflowPermissions state else ap_WorkflowPermissions policy),
       rst_SecuritySettings :=
         (if ass_AllowForkPRs (ap_SecuritySettings policy) = ass_AllowForkPRs (rst_SecuritySettings state)
          then rst_SecuritySettings state else ap_SecuritySettings policy)\<rparr>"

lemma apply_policy_changes_enforces:
  "\<exists>result'. apply_policy_changes policy (state, result) = (None, enforced_state policy state, result') \<and>
     map chg_Target (enf_AppliedChanges result') =
       map chg_Target (enf_AppliedChanges result) @ enforced_settings policy state \<and>
     enf_FailedChanges result' = enf_FailedChanges result \<and>
     enf_ValidationResult result' = enf_ValidationResult result \<and>
     (\<forall>c\<in>set (enf_AppliedChanges result'). c \<in> set (enf_AppliedChanges result) \<or> chg_Success c)"
  by (auto simp: apply_defs enforced_state_def enforced_settings_def)

lemma enforced_state_passes:
  "check_permission_level policy (enforced_state policy state) = Inr r \<Longrightarrow> pvr_Passed r"
  by (simp add: permission_level_passes enforced_state_def)

text \<open>Marketplace and GitHub-owned actions are brought in line only together with the fork setting.\<close>

lemma enforced_security_settings:
  assumes "check_security_settings policy (enforced_state policy state) = Inr r"
    and "ass_AllowForkPRs (ap_SecuritySettings policy) = ass_AllowForkPRs (rst_SecuritySettings state)"
  shows "pvr_Passed r \<longleftrightarrow>
    ass_AllowGitHubOwnedActions (ap_SecuritySettings policy) = ass_AllowGitHubOwnedActions (rst_SecuritySettings state) \<and>
    ass_AllowMarketplaceActions (ap_SecuritySettings policy) = ass_AllowMarketplaceActions (rst_SecuritySettings state)"
  using security_settings_pass [OF assms(1)] assms(2) by (simp add: enforced_state_def)

text \<open>Property C27. Enforcing an existing enabled policy returns without error and with success: it
  changes the permission level, the default token permissions and the setting for pull requests of
  forks, those that differ and in this order, none fails, and the rules' results are those of the
  state found. The violations it reports, ``after enforcement'', are exactly the rules that failed
  on the state before the changes, also those the changes have repaired.\<close>

lemma enforcement_reports_old_violations:
  fixes now :: int and organization repository :: string
  assumes "gm_get (apm_policies (ape_policyManager ape)) policyID = Some policy" and "ap_Enabled policy"
  defines "state \<equiv> get_repository_actions_state now organization repository"
  shows "\<exists>result. enforce_policy now finished policyID organization repository ape = (None, result) \<and>
    enf_Success result \<and> enf_FailedChanges result = [] \<and> list_all chg_Success (enf_AppliedChanges result) \<and>
    map chg_Target (enf_AppliedChanges result) = enforced_settings policy state \<and>
    enf_ValidationResult result = validate_against_rules (ape_validationRules ape) policy state \<and>
    map (\<lambda>v. (apv_Severity v, apv_Description v)) (enf_Violations result) =
      map (\<lambda>r. (pvr_Severity r, pvr_Message r)) (filter (\<lambda>r. \<not> pvr_Passed r) (enf_ValidationResult result)) \<and>
    list_all (\<lambda>v. apv_PolicyID v = ap_ID policy \<and> apv_Resource v = organization @ ''/'' @ repository \<and> apv_Status v = ''open'')
      (enf_Violations result)"
proof -
  let ?v = "validate_against_rules (ape_validationRules ape) policy state"
  let ?r = "zero_policy_enforcement_result\<lparr>enf_PolicyID := policyID, enf_Organization := organization,
    enf_Repository := repository, enf_Timestamp := now, enf_ValidationResult := ?v\<rparr>"
  obtain result' where r: "apply_policy_changes policy (state, ?r) = (None, enforced_state policy state, result')"
    "map chg_Target (enf_AppliedChanges result') = enforced_settings policy state" "enf_FailedChanges result' = []"
    "enf_ValidationResult result' = ?v" "\<forall>c\<in>set (enf_AppliedChanges result'). chg_Success c"
    using apply_policy_changes_enforces [of policy state ?r] by (auto simp: zero_policy_enforcement_result_def)
  have "enforce_policy now finished policyID organization repository ape =
      (None, result'\<lparr>enf_Violations := detect_violations now policy (enforced_state policy state) ?v,
        enf_Success := True, enf_ExecutionTime := time_sub finished now\<rparr>)"
    using assms r by (simp add: enforce_policy_def get_actions_policy_def Let_def state_def [symmetric])
  then show ?thesis using r
    by (simp add: detect_violations_def rule_violation_def list_all_iff enforced_state_def state_def
        get_repository_actions_state_def)
qed


definition sample_actions_manager :: actions_policy_manager where
  "sample_actions_manager =
     snd (create_actions_policy 7 (get_default_actions_policy\<lparr>ap_ID := ''p'', ap_Organization := ''o''\<rparr>) new_actions_policy_manager)"

lemma enforcement_reports_old_violations_witness:
  "\<exists>result. enforce_policy 5 9 ''p'' ''o'' ''r'' (new_actions_policy_enforcer (\<lambda>p s. Inr (p = s)) sample_actions_manager) = (None, result) \<and>
     map chg_Target (enf_AppliedChanges result) = [''permission_level'', ''default_permissions''] \<and>
     map apv_Severity (enf_Violations result) = [''high'', ''medium'']"
proof -
  let ?ape = "new_actions_policy_enforcer (\<lambda>p s. Inr (p = s)) sample_actions_manager"
  let ?p = "get_default_actions_policy\<lparr>ap_ID := ''p'', ap_Organization := ''o'', ap_CreatedAt := 7, ap_UpdatedAt := 7, ap_Version := 1\<rparr>"
  let ?s = "get_repository_actions_state 5 ''o'' ''r''"
  have g: "gm_get (apm_policies (ape_policyManager ?ape)) ''p'' = Some ?p" and e: "ap_Enabled ?p" by code_simp+
  have c: "enforced_settings ?p ?s = [''permission_level'', ''default_permissions'']" by code_simp
  have v: "map (\<lambda>r. (pvr_Severity r)) (filter (\<lambda>r. \<not> pvr_Passed r) (validate_against_rules (ape_validationRules ?ape) ?p ?s)) =
      [''high'', ''medium'']" by code_simp
  obtain result where r: "enforce_policy 5 9 ''p'' ''o'' ''r'' ?ape = (None, result)"
    "map chg_Target (enf_AppliedChanges result) = enforced_settings ?p ?s"
    "enf_ValidationResult result = validate_against_rules (ape_validationRules ?ape) ?p ?s"
    "map (\<lambda>v. (apv_Severity v, apv_Description v)) (enf_Violations result) =
      map (\<lambda>r. (pvr_Severity r, pvr_Message r)) (filter (\<lambda>r. \<not> pvr_Passed r) (enf_ValidationResult result))"
    using enforcement_reports_old_violations [OF g e, where now = 5 and organization = "''o''" and repository = "''r''" and finished = 9] by blast
  have "map apv_Severity (enf_Violations result) = map fst (map (\<lambda>v. (apv_Severity v, apv_Description v)) (enf_Violations result))"
    by simp
  also have "\<dots> = [''high'', ''medium'']" unfolding r(4) r(3) using v by (simp add: o_def)
  finally show ?thesis using r(1,2) c by simp
qed

section \<open>Rules that cannot be checked\<close>

lemma validate_against_rules_append:
  "validate_against_rules (xs @ ys) policy state = validate_against_rules xs policy state @ validate_against_rules ys policy state"
  by (induction xs) (auto split: sum.splits option.splits)

lemma validate_against_rules_set:
  "r \<in> set (validate_against_rules rules policy state) \<longleftrightarrow> (\<exists>(i, check)\<in>set rules. check policy state = Inr (Some r))"
  by (induction rules) (auto split: sum.splits option.splits)

lemma map_sum_Some_iff: "map_sum id Some x = Inr (Some r) \<longleftrightarrow> x = Inr r"
  by (cases x) auto

text \<open>A result carries the identifier of a default rule whose check returned it.\<close>

lemma default_rule_result:
  assumes "r \<in> set (validate_against_rules (default_validation_rules matches) policy state)"
    and "pvr_RuleID r = ''allowed_actions''"
  shows "check_allowed_actions matches policy state = Inr r"
proof -
  have "check_permission_level policy state \<noteq> Inr r" "check_workflow_permissions policy state \<noteq> Inr r"
    "check_security_settings policy state \<noteq> Inr r" "check_secret_policy matches policy state \<noteq> Inr r"
    "check_runner_policy policy state \<noteq> Inr r"
    using assms(2) permission_level_rule.result_rule workflow_permissions_rule.result_rule
      security_settings_rule.result_rule secret_policy_rule.result_rule runner_policy_rule.result_rule by force+
  then show ?thesis
    using assms(1) unfolding validate_against_rules_set by (auto simp: default_validation_rules_def map_sum_Some_iff)
qed

text \<open>Property C28. Under a selection of actions, a workflow using an action that is not listed makes
  the patterns be tried. When the first does not compile, the whole rule is dropped: no result, and
  so no violation, mentions it, whatever other actions the workflows use, and the results of the
  other rules are those of a validation without it.\<close>

lemma broken_pattern_unvalidated:
  assumes "ap_PermissionLevel policy = ''selected''" and "(action, w) \<in> set (action_uses state)"
    and "action \<notin> set (ap_AllowedActions policy)" and "ap_AllowedActionsPatterns policy = pattern # patterns"
    and "isl (matches pattern action)"
  defines "results \<equiv> validate_against_rules (default_validation_rules matches) policy state"
  shows "isl (check_allowed_actions matches policy state) \<and>
    list_all (\<lambda>r. pvr_RuleID r \<noteq> ''allowed_actions'') results \<and>
    list_all (\<lambda>v. apv_Details v ! 0 \<noteq> (''rule_id'', JString ''allowed_actions'')) (detect_violations now policy state results) \<and>
    results = validate_against_rules
      (filter (\<lambda>(i, _). i \<noteq> ''allowed_actions'') (default_validation_rules matches)) policy state"
proof -
  let ?allowed = "\<lambda>a. is_action_allowed matches a (ap_AllowedActions policy) (ap_AllowedActionsPatterns policy)"
  have "isl (?allowed action)" using assms(3-5) by (auto simp: is_action_allowed_def split: sum.splits)
  then have u: "isl (unauthorized_actions ?allowed (action_uses state))"
    using assms(2) unauthorized_actions_error by blast
  then have c: "isl (check_allowed_actions matches policy state)"
    using assms(1) by (auto simp: check_allowed_actions_def Let_def split: sum.splits)
  then obtain e where e: "check_allowed_actions matches policy state = Inl e" by (cases "check_allowed_actions matches policy state") auto
  have n: "list_all (\<lambda>r. pvr_RuleID r \<noteq> ''allowed_actions'') results"
    using default_rule_result e unfolding results_def list_all_iff by fastforce
  have "results = validate_against_rules
      (filter (\<lambda>(i, _). i \<noteq> ''allowed_actions'') (default_validation_rules matches)) policy state"
    unfolding results_def default_validation_rules_def by (simp add: e cong: sum.case_cong option.case_cong)
  then show ?thesis using c n by (auto simp: detect_violations_def rule_violation_def list_all_iff)
qed

definition sample_workflow :: workflow_info where
  "sample_workflow = \<lparr>wi_ID = 1, wi_Name = ''ci'', wi_Path = ''ci.yml'', wi_State = ''active'', wi_Permissions = [],
     wi_Actions = [''evil/x''], wi_LastRun = 0\<rparr>"

lemma broken_pattern_unvalidated_witness:
  "length (validate_against_rules (default_validation_rules (\<lambda>p s. if p = ''['' then Inl ''missing closing ]'' else Inr (p = s)))
      (get_default_actions_policy\<lparr>ap_PermissionLevel := ''selected'', ap_AllowedActionsPatterns := [''['']\<rparr>)
      ((get_repository_actions_state 5 ''o'' ''r'')\<lparr>rst_RecentWorkflows := [sample_workflow]\<rparr>)) = 5"
proof -
  let ?m = "\<lambda>p s. if p = ''['' then Inl ''missing closing ]'' else Inr (p = s)"
  let ?p = "get_default_actions_policy\<lparr>ap_PermissionLevel := ''selected'', ap_AllowedActionsPatterns := [''['']\<rparr>"
  let ?s = "(get_repository_actions_state 5 ''o'' ''r'')\<lparr>rst_RecentWorkflows := [sample_workflow]\<rparr>"
  have 1: "ap_PermissionLevel ?p = ''selected''" by code_simp
  have 2: "(''evil/x'', ''ci'') \<in> set (action_uses ?s)" by (simp add: action_uses_def sample_workflow_def)
  have 3: "''evil/x'' \<notin> set (ap_AllowedActions ?p)" by code_simp
  have 4: "ap_AllowedActionsPatterns ?p = [''['']" by simp
  have 5: "isl (?m ''['' ''evil/x'')" by simp
  have r: "validate_against_rules (default_validation_rules ?m) ?p ?s =
      validate_against_rules (filter (\<lambda>(i, _). i \<noteq> ''allowed_actions'') (default_validation_rules ?m)) ?p ?s"
    using broken_pattern_unvalidated [where matches = ?m, OF 1 2 3 4 5] by blast
  show ?thesis unfolding r by code_simp
qed

end
