(* ===== verification/WorkflowTypes.thy ===== *)
theory WorkflowTypes
  imports GoValue
begin

text \<open>
  The data of the workflow auditor: the structs of \<open>pkg/github/workflow_auditor.go\<close>. A workflow
  file is what the YAML decoder fills; \<open>on\<close>, \<open>runs-on\<close> and \<open>environment\<close> are
  values of any type.
\<close>

section \<open>Workflow files\<close>

record workflow_step =
  wst_Name :: string
  wst_Uses :: string
  wst_Run :: string
  wst_With :: "(string, string) gomap"
  wst_Env :: "(string, string) gomap"

record workflow_job =
  wjb_Name :: string
  wjb_RunsOn :: go_any
  wjb_Permissions :: "(string, go_any) gomap"
  wjb_Environment :: go_any
  wjb_Steps :: "workflow_step list"
  wjb_Env :: "(string, string) gomap"

record workflow_file =
  wfl_Name :: string
  wfl_On :: go_any
  wfl_Permissions :: "(string, go_any) gomap"
  wfl_Jobs :: "(string, workflow_job) gomap"
  wfl_Env :: "(string, string) gomap"

section \<open>Audits\<close>

record step_audit =
  sta_Name :: string
  sta_Uses :: string
  sta_Run :: string
  sta_ActionVersion :: string
  sta_SecurityRisk :: string
  sta_RiskReasons :: "string list"
  sta_UsesSecrets :: "string list"
  sta_UsesVariables :: "string list"

record workflow_security_issue =
  wsi_ID :: string
  wsi_Type :: string
  wsi_Severity :: string
  wsi_Title :: string
  wsi_Description :: string
  wsi_FilePath :: string
  wsi_JobID :: string
  wsi_StepIndex :: int
  wsi_LineNumber :: int
  wsi_Suggestion :: string
  wsi_References :: "string list"

record job_audit =
  jba_JobID :: string
  jba_RunsOn :: string
  jba_Permissions :: "(string, string) gomap"
  jba_Steps :: "step_audit list"
  jba_Environment :: string
  jba_SecurityScore :: int
  jba_UsesSecrets :: "string list"
  jba_UsesVariables :: "string list"

record workflow_file_audit =
  wfa_FilePath :: string
  wfa_WorkflowName :: string
  wfa_Triggers :: "string list"
  wfa_Jobs :: "job_audit list"
  wfa_Permissions :: "(string, string) gomap"
  wfa_SecurityScore :: int
  wfa_Issues :: "workflow_security_issue list"
  wfa_LastModified :: int

record workflow_permission_usage =
  wpu_Scope :: string
  wpu_Permission :: string
  wpu_UsageCount :: int
  wpu_WorkflowFiles :: "string list"
  wpu_Recommended :: string

record action_usage_info =
  aui_ActionName :: string
  aui_Version :: string
  aui_UsageCount :: int
  aui_WorkflowFiles :: "string list"
  aui_SecurityRisk :: string
  aui_IsVerified :: bool
  aui_IsDeprecated :: bool

record workflow_audit_summary =
  was_TotalFiles :: int
  was_FilesWithIssues :: int
  was_CriticalIssues :: int
  was_HighRiskIssues :: int
  was_MediumRiskIssues :: int
  was_LowRiskIssues :: int
  was_AverageSecurityScore :: float64
  was_PermissionDistribution :: "(string, int) gomap"
  was_ActionRiskDistribution :: "(string, int) gomap"
  was_ComplianceScore :: float64

record workflow_audit_result =
  war_Repository :: string
  war_Organization :: string
  war_TotalWorkflows :: int
  war_AuditedFiles :: "workflow_file_audit list"
  war_SecurityIssues :: "workflow_security_issue list"
  war_PermissionUsage :: "workflow_permission_usage list"
  war_ActionUsage :: "action_usage_info list"
  war_Summary :: workflow_audit_summary
  war_Timestamp :: int

section \<open>Zero values\<close>

definition zero_workflow_step :: workflow_step where
  "zero_workflow_step =
     \<lparr>wst_Name = [], wst_Uses = [], wst_Run = [], wst_With = [], wst_Env = []\<rparr>"

definition zero_workflow_job :: workflow_job where
  "zero_workflow_job =
     \<lparr>wjb_Name = [], wjb_RunsOn = JNil, wjb_Permissions = [], wjb_Environment = JNil,
      wjb_Steps = [], wjb_Env = []\<rparr>"

definition zero_workflow_file :: workflow_file where
  "zero_workflow_file =
     \<lparr>wfl_Name = [], wfl_On = JNil, wfl_Permissions = [], wfl_Jobs = [], wfl_Env = []\<rparr>"

definition zero_workflow_security_issue :: workflow_security_issue where
  "zero_workflow_security_issue =
     \<lparr>wsi_ID = [], wsi_Type = [], wsi_Severity = [], wsi_Title = [], wsi_Description = [],
      wsi_FilePath = [], wsi_JobID = [], wsi_StepIndex = 0, wsi_LineNumber = 0, wsi_Suggestion = [],
      wsi_References = []\<rparr>"

definition zero_step_audit :: step_audit where
  "zero_step_audit =
     \<lparr>sta_Name = [], sta_Uses = [], sta_Run = [], sta_ActionVersion = [], sta_SecurityRisk = [],
      sta_RiskReasons = [], sta_UsesSecrets = [], sta_UsesVariables = []\<rparr>"

definition zero_job_audit :: job_audit where
  "zero_job_audit =
     \<lparr>jba_JobID = [], jba_RunsOn = [], jba_Permissions = [], jba_Steps = [],
      jba_Environment = [], jba_SecurityScore = 0, jba_UsesSecrets = [], jba_UsesVariables = []\<rparr>"

definition zero_workflow_file_audit :: workflow_file_audit where
  "zero_workflow_file_audit =
     \<lparr>wfa_FilePath = [], wfa_WorkflowName = [], wfa_Triggers = [], wfa_Jobs = [],
      wfa_Permissions = [], wfa_SecurityScore = 0, wfa_Issues = [], wfa_LastModified = 0\<rparr>"

definition zero_workflow_audit_summary :: workflow_audit_summary where
  "zero_workflow_audit_summary =
     \<lparr>was_TotalFiles = 0, was_FilesWithIssues = 0, was_CriticalIssues = 0,
      was_HighRiskIssues = 0, was_MediumRiskIssues = 0, was_LowRiskIssues = 0,
      was_AverageSecurityScore = FNum 0, was_PermissionDistribution = [],
      was_ActionRiskDistribution = [], was_ComplianceScore = FNum 0\<rparr>"

definition zero_workflow_audit_result :: workflow_audit_result where
  "zero_workflow_audit_result =
     \<lparr>war_Repository = [], war_Organization = [], war_TotalWorkflows = 0, war_AuditedFiles = [],
      war_SecurityIssues = [], war_PermissionUsage = [], war_ActionUsage = [],
      war_Summary = zero_workflow_audit_summary, war_Timestamp = 0\<rparr>"


end
