(* ===== verification/GoRegex.thy ===== *)
theory GoRegex
  imports GoPrelude
begin

text \<open>
  What the program uses of Go's \<open>regexp\<close> with fixed patterns: \<open>MatchString\<close> asks whether some
  part of the text matches. The search is by derivatives, and it is shown that it finds a match
  exactly when there is one.
\<close>

section \<open>Patterns and what they match\<close>

datatype regex =
    RNone
  | REmpty
  | RClass "char \<Rightarrow> bool"
  | RSeq regex regex
  | RAlt regex regex
  | RStar regex

inductive denotes :: "regex \<Rightarrow> string \<Rightarrow> bool" where
  empty: "denotes REmpty []"
| class_char: "p c \<Longrightarrow> denotes (RClass p) [c]"
| seq: "denotes r s \<Longrightarrow> denotes q t \<Longrightarrow> denotes (RSeq r q) (s @ t)"
| alt_left: "denotes r s \<Longrightarrow> denotes (RAlt r q) s"
| alt_right: "denotes q s \<Longrightarrow> denotes (RAlt r q) s"
| star_empty: "denotes (RStar r) []"
| star_more: "denotes r s \<Longrightarrow> denotes (RStar r) t \<Longrightarrow> denotes (RStar r) (s @ t)"

inductive_simps denotes_simps [simp]:
  "denotes RNone s"
  "denotes REmpty s"
  "denotes (RClass p) s"
  "denotes (RSeq r q) s"
  "denotes (RAlt r q) s"

inductive_cases denotes_starE: "denotes (RStar r) s"

fun nullable :: "regex \<Rightarrow> bool" where
  "nullable RNone \<longleftrightarrow> False"
| "nullable REmpty \<longleftrightarrow> True"
| "nullable (RClass p) \<longleftrightarrow> False"
| "nullable (RSeq r q) \<longleftrightarrow> nullable r \<and> nullable q"
| "nullable (RAlt r q) \<longleftrightarrow> nullable r \<or> nullable q"
| "nullable (RStar r) \<longleftrightarrow> True"

text \<open>Sequences and alternatives without a part that matches nothing.\<close>

fun seq_of :: "regex \<Rightarrow> regex \<Rightarrow> regex" where
  "seq_of RNone q = RNone"
| "seq_of REmpty q = q"
| "seq_of r q = RSeq r q"

fun alt_of :: "regex \<Rightarrow> regex \<Rightarrow> regex" where
  "alt_of RNone q = q"
| "alt_of r RNone = r"
| "alt_of r q = RAlt r q"

lemma denotes_seq_of [simp]: "denotes (seq_of r q) s \<longleftrightarrow> denotes (RSeq r q) s"
  by (cases r) auto

lemma denotes_alt_of [simp]: "denotes (alt_of r q) s \<longleftrightarrow> denotes (RAlt r q) s"
  by (cases r; cases q) auto

fun deriv :: "char \<Rightarrow> regex \<Rightarrow> regex" where
  "deriv c RNone = RNone"
| "deriv c REmpty = RNone"
| "deriv c (RClass p) = (if p c then REmpty else RNone)"
| "deriv c (RSeq r q) = (if nullable r then alt_of (seq_of (deriv c r) q) (deriv c q) else seq_of (deriv c r) q)"
| "deriv c (RAlt r q) = alt_of (deriv c r) (deriv c q)"
| "deriv c (RStar r) = seq_of (deriv c r) (RStar r)"

lemma nullable_iff: "nullable r \<longleftrightarrow> denotes r []"
  by (induction r) (auto intro: star_empty)

lemma star_ConsD: "denotes (RStar r) (c # s) \<Longrightarrow> \<exists>u v. s = u @ v \<and> denotes r (c # u) \<and> denotes (RStar r) v"
proof (induction "RStar r" "c # s" rule: denotes.induct)
  case (star_more u v)
  then show ?case by (cases u) auto
qed

lemma denotes_deriv: "denotes (deriv c r) s \<longleftrightarrow> denotes r (c # s)"
proof (induction r arbitrary: s)
  case (RSeq r q)
  then show ?case by (auto simp: nullable_iff Cons_eq_append_conv)
next
  case (RStar r)
  show ?case
  proof
    assume "denotes (deriv c (RStar r)) s"
    then obtain u v where "s = u @ v" "denotes r (c # u)" "denotes (RStar r) v" using RStar by auto
    then show "denotes (RStar r) (c # s)" using star_more [of r "c # u" v] by simp
  next
    assume "denotes (RStar r) (c # s)"
    then show "denotes (deriv c (RStar r)) s" using star_ConsD RStar by fastforce
  qed
qed auto

section \<open>Searching\<close>

fun match_prefix :: "regex \<Rightarrow> string \<Rightarrow> bool" where
  "match_prefix r [] \<longleftrightarrow> nullable r"
| "match_prefix r (c # s) \<longleftrightarrow> nullable r \<or> match_prefix (deriv c r) s"

fun match_string :: "regex \<Rightarrow> string \<Rightarrow> bool" where
  "match_string r [] \<longleftrightarrow> nullable r"
| "match_string r (c # s) \<longleftrightarrow> match_prefix r (c # s) \<or> match_string r s"

lemma match_prefix_iff: "match_prefix r s \<longleftrightarrow> (\<exists>u v. s = u @ v \<and> denotes r u)"
  by (induction r s rule: match_prefix.induct) (auto simp: nullable_iff denotes_deriv Cons_eq_append_conv)

lemma match_string_iff: "match_string r s \<longleftrightarrow> (\<exists>x u y. s = x @ u @ y \<and> denotes r u)"
proof (induction s)
  case (Cons c s)
  have "(\<exists>x u y. c # s = x @ u @ y \<and> denotes r u) \<longleftrightarrow>
      (\<exists>u y. c # s = u @ y \<and> denotes r u) \<or> (\<exists>x u y. s = x @ u @ y \<and> denotes r u)"
    (is "?l \<longleftrightarrow> ?r")
  proof
    assume ?l
    then obtain x u y where "c # s = x @ u @ y" "denotes r u" by blast
    then show ?r by (cases x) auto
  next
    assume ?r
    then show ?l
    proof (elim disjE exE conjE)
      fix u y assume "c # s = u @ y" "denotes r u"
      then have "c # s = [] @ u @ y \<and> denotes r u" by simp
      then show ?l by blast
    next
      fix x u y assume "s = x @ u @ y" "denotes r u"
      then have "c # s = (c # x) @ u @ y \<and> denotes r u" by simp
      then show ?l by blast
    qed
  qed
  then show ?case using Cons.IH match_prefix_iff by simp
qed (simp add: nullable_iff)

text \<open>A text that contains a matching text matches.\<close>

lemma match_string_infix: "match_string r s \<Longrightarrow> match_string r (x @ s @ y)"
  unfolding match_string_iff by (metis append.assoc)

section \<open>The notation of patterns\<close>

fun literal :: "string \<Rightarrow> regex" where
  "literal [] = REmpty"
| "literal [c] = RClass (\<lambda>d. d = c)"
| "literal (c # cs) = RSeq (RClass (\<lambda>d. d = c)) (literal cs)"

lemma denotes_literal [simp]: "denotes (literal w) s \<longleftrightarrow> s = w"
  by (induction w arbitrary: s rule: literal.induct) auto

text \<open>The class \<open>\\s\<close>, the dot, and a repetition of a class.\<close>

definition regex_space :: "char \<Rightarrow> bool" where
  "regex_space c \<longleftrightarrow> c \<in> {CHR 0x09, CHR 0x0A, CHR 0x0C, CHR 0x0D, CHR '' ''}"

definition not_newline :: "char \<Rightarrow> bool" where
  "not_newline c \<longleftrightarrow> c \<noteq> CHR 0x0A"

lemma denotes_star_class [simp]: "denotes (RStar (RClass p)) s \<longleftrightarrow> list_all p s"
proof
  show "denotes (RStar (RClass p)) s \<Longrightarrow> list_all p s"
    by (induction "RStar (RClass p)" s rule: denotes.induct) auto
  show "list_all p s \<Longrightarrow> denotes (RStar (RClass p)) s"
  proof (induction s)
    case (Cons c s)
    then show ?case using star_more [of "RClass p" "[c]" s] by auto
  qed (simp add: star_empty)
qed

definition some_spaces :: regex where "some_spaces = RStar (RClass regex_space)"
definition one_space :: regex where "one_space = RSeq (RClass regex_space) (RStar (RClass regex_space))"
definition anything :: regex where "anything = RStar (RClass not_newline)"

fun seq_list :: "regex list \<Rightarrow> regex" where
  "seq_list [] = REmpty"
| "seq_list [r] = r"
| "seq_list (r # rs) = RSeq r (seq_list rs)"

lemma denotes_seq_list: "denotes (seq_list (r # rs)) s \<longleftrightarrow> (\<exists>u v. s = u @ v \<and> denotes r u \<and> denotes (seq_list rs) v)"
  by (cases rs) auto

section \<open>Submatches\<close>

text \<open>
  \<open>FindAllStringSubmatch\<close> for \<open>${{ kind.NAME }}\<close> with optional spaces: the names of the
  leftmost matches that do not overlap. The classes of the pattern are disjoint, so the match at a
  position is the one that takes as many characters as it can.
\<close>

definition after_prefix :: "string \<Rightarrow> string \<Rightarrow> string option" where
  "after_prefix p s = (if take (length p) s = p then Some (drop (length p) s) else None)"

definition name_char :: "char \<Rightarrow> bool" where
  "name_char c \<longleftrightarrow> (CHR ''A'' \<le> c \<and> c \<le> CHR ''Z'') \<or> c = CHR ''_''"

definition reference_at :: "string \<Rightarrow> string \<Rightarrow> (string \<times> string) option" where
  "reference_at kind s =
     (case after_prefix ''${{'' s of
        None \<Rightarrow> None
      | Some r1 \<Rightarrow>
          (case after_prefix (kind @ ''.'') (dropWhile regex_space r1) of
             None \<Rightarrow> None
           | Some r2 \<Rightarrow>
               let name = takeWhile name_char r2 in
               if name = [] then None
               else (case after_prefix ''}}'' (dropWhile regex_space (dropWhile name_char r2)) of
                       None \<Rightarrow> None
                     | Some r3 \<Rightarrow> Some (name, r3))))"

lemma after_prefix_length: "after_prefix p s = Some t \<Longrightarrow> length t \<le> length s"
  by (auto simp: after_prefix_def split: if_splits)

lemma reference_at_shorter: "reference_at kind s = Some (name, t) \<Longrightarrow> length t < length s"
proof -
  assume "reference_at kind s = Some (name, t)"
  then obtain r1 r2 where r: "after_prefix ''${{'' s = Some r1"
    "after_prefix (kind @ ''.'') (dropWhile regex_space r1) = Some r2"
    "after_prefix ''}}'' (dropWhile regex_space (dropWhile name_char r2)) = Some t"
    by (auto simp: reference_at_def Let_def split: option.splits if_splits)
  have "length r1 < length s"
    using r(1) by (cases s) (auto simp: after_prefix_def split: if_splits)
  moreover have "length r2 \<le> length r1"
    using after_prefix_length [OF r(2)] length_dropWhile_le [of regex_space r1] by linarith
  moreover have "length t \<le> length r2"
    using after_prefix_length [OF r(3)] length_dropWhile_le [of regex_space "dropWhile name_char r2"]
      length_dropWhile_le [of name_char r2] by linarith
  ultimately show ?thesis by linarith
qed

function find_references :: "string \<Rightarrow> string \<Rightarrow> string list" where
  "find_references kind s =
     (case reference_at kind s of
        Some (name, t) \<Rightarrow> name # find_references kind t
      | None \<Rightarrow> (case s of [] \<Rightarrow> [] | c # cs \<Rightarrow> find_references kind cs))"
  by pat_completeness auto
termination by (relation "measure (\<lambda>(kind, s). length s)") (auto dest: reference_at_shorter)

declare find_references.simps [simp del]

end
