(* ===== verification/WorkflowAudit.thy ===== *)
theory WorkflowAudit
  imports WorkflowTypes GoRegex DependabotTypes
begin

text \<open>
  The auditor of GitHub Actions workflows, \<open>pkg/github/workflow_auditor.go\<close>.

  \<open>decode\<close> is \<open>yaml.Unmarshal\<close> into a workflow file, \<open>list_repos\<close> the API client;
  \<open>now\<close> is the clock, read once per file. The files of a repository and their contents are
  placeholders in the code and modelled as they are.
\<close>

section \<open>Reading values\<close>

definition string_of :: "go_any \<Rightarrow> string option" where
  "string_of v = (case v of JString s \<Rightarrow> Some s | _ \<Rightarrow> None)"

definition extract_triggers :: "go_any \<Rightarrow> string list" where
  "extract_triggers on =
     (case on of
        JString s \<Rightarrow> [s]
      | JList vs \<Rightarrow> List.map_filter string_of vs
      | JMap kvs \<Rightarrow> map fst kvs
      | _ \<Rightarrow> [])"

definition normalize_permissions :: "(string, go_any) gomap \<Rightarrow> (string, string) gomap" where
  "normalize_permissions permissions =
     foldl (\<lambda>normalized (scope, perm). case string_of perm of Some str \<Rightarrow> gm_put scope str normalized | None \<Rightarrow> normalized)
       [] permissions"

definition normalize_runs_on :: "go_any \<Rightarrow> string" where
  "normalize_runs_on runsOn =
     (case runsOn of
        JString s \<Rightarrow> s
      | JList (v # _) \<Rightarrow> (case string_of v of Some s \<Rightarrow> s | None \<Rightarrow> ''unknown'')
      | _ \<Rightarrow> ''unknown'')"

definition normalize_environment :: "go_any \<Rightarrow> string" where
  "normalize_environment env =
     (case env of
        JString s \<Rightarrow> s
      | JMap kvs \<Rightarrow> (case gm_get kvs ''name'' of Some v \<Rightarrow> (case string_of v of Some s \<Rightarrow> s | None \<Rightarrow> []) | None \<Rightarrow> [])
      | _ \<Rightarrow> [])"

definition extract_action_version :: "string \<Rightarrow> string" where
  "extract_action_version uses =
     (let parts = split_on (CHR ''@'') uses in if 1 < length parts then parts ! 1 else ''latest'')"

definition remove_duplicates :: "string list \<Rightarrow> string list" where
  "remove_duplicates slice = foldl (\<lambda>result item. if item \<in> set result then result else result @ [item]) [] slice"

definition extract_secrets_usage :: "workflow_step \<Rightarrow> string list" where
  "extract_secrets_usage step =
     remove_duplicates
       ((if wst_Run step \<noteq> [] then find_references ''secrets'' (wst_Run step) else []) @
        concat (map (\<lambda>(key, v). find_references ''secrets'' v) (wst_With step)))"

definition extract_variables_usage :: "workflow_step \<Rightarrow> string list" where
  "extract_variables_usage step =
     remove_duplicates (if wst_Run step \<noteq> [] then find_references ''vars'' (wst_Run step) else [])"

section \<open>Checks\<close>

definition is_high_risk_scope :: "string \<Rightarrow> bool" where
  "is_high_risk_scope scope \<longleftrightarrow> scope \<in> set [''contents'', ''packages'', ''deployments'', ''security-events'']"

definition is_hex_digit :: "char \<Rightarrow> bool" where
  "is_hex_digit c \<longleftrightarrow> (CHR ''a'' \<le> c \<and> c \<le> CHR ''f'') \<or> (CHR ''0'' \<le> c \<and> c \<le> CHR ''9'')"

definition is_action_pinned :: "string \<Rightarrow> bool" where
  "is_action_pinned uses =
     (let parts = split_on (CHR ''@'') uses in
      if 1 < length parts then length (parts ! 1) = 40 \<and> list_all is_hex_digit (parts ! 1) else False)"

definition deprecated_actions :: "string list" where
  "deprecated_actions = [''actions/setup-node@v1'', ''actions/setup-python@v1'', ''docker/build-push-action@v1'']"

definition is_action_deprecated :: "string \<Rightarrow> bool" where
  "is_action_deprecated uses \<longleftrightarrow> list_ex (\<lambda>deprecated. prefix (split_on (CHR ''@'') deprecated ! 0) uses) deprecated_actions"

definition is_action_verified :: "string \<Rightarrow> bool" where
  "is_action_verified uses \<longleftrightarrow> list_ex (\<lambda>verified. prefix verified uses) [''actions/'', ''github/'', ''docker/'', ''azure/'']"

definition is_high_risk_action :: "string \<Rightarrow> bool" where
  "is_high_risk_action uses \<longleftrightarrow> list_ex (\<lambda>risk. prefix risk uses) [''dangerous/action'', ''untrusted/tool'']"

definition shell_word_start :: "char \<Rightarrow> bool" where
  "shell_word_start c \<longleftrightarrow> c \<in> set '';&|('' \<or> regex_space c"

definition eval_call :: regex where
  "eval_call = RSeq (literal ''eval'') (RClass (\<lambda>c. regex_space c \<or> c = CHR ''(''))"

definition injection_patterns :: "regex list" where
  "injection_patterns =
     [seq_list [literal ''${{'', some_spaces, literal ''github.event.'', anything, literal ''}}''],
      seq_list [literal ''${{'', some_spaces, literal ''github.head_ref'', some_spaces, literal ''}}''],
      RSeq (RClass shell_word_start) eval_call,
      seq_list [literal ''exec'', some_spaces, literal ''('']]"

definition has_code_injection_risk :: "string \<Rightarrow> bool" where
  "has_code_injection_risk script \<longleftrightarrow>
     list_ex (\<lambda>pattern. match_string pattern script) injection_patterns \<or> match_prefix eval_call script"

definition exposure_patterns :: "regex list" where
  "exposure_patterns =
     map (\<lambda>cmd. seq_list [literal cmd, anything, literal ''${{'', some_spaces, literal ''secrets.'']) [''echo'', ''printf'', ''cat'']"

definition has_secret_exposure_risk :: "string \<Rightarrow> bool" where
  "has_secret_exposure_risk script \<longleftrightarrow> list_ex (\<lambda>pattern. match_string pattern script) exposure_patterns"

definition escalation_patterns :: "regex list" where
  "escalation_patterns =
     map (\<lambda>(cmd, arg). seq_list [literal cmd, one_space, literal arg])
       [(''sudo'', ''chmod''), (''sudo'', ''chown''), (''sudo'', ''su''), (''chmod'', ''777'')]"

definition has_privilege_escalation_risk :: "string \<Rightarrow> bool" where
  "has_privilege_escalation_risk script \<longleftrightarrow> list_ex (\<lambda>pattern. match_string pattern script) escalation_patterns"

definition analyze_action_security :: "string \<Rightarrow> string list" where
  "analyze_action_security uses =
     (if is_action_pinned uses then [] else [''Action is not pinned to a specific commit hash'']) @
     (if is_action_deprecated uses then [''Action is deprecated and should be updated''] else []) @
     (if is_action_verified uses then [] else [''Action is not from a verified publisher'']) @
     (if is_high_risk_action uses then [''Action has known security concerns''] else [])"

definition analyze_script_security :: "string \<Rightarrow> string list" where
  "analyze_script_security script =
     (if has_code_injection_risk script then [''Script may be vulnerable to code injection''] else []) @
     (if has_secret_exposure_risk script then [''Script may expose secrets in logs''] else []) @
     (if has_privilege_escalation_risk script then [''Script may attempt privilege escalation''] else [])"

section \<open>Risk and score\<close>

definition calculate_step_risk :: "string list \<Rightarrow> string" where
  "calculate_step_risk risks =
     (if risks = [] then ''none''
      else
        let critical = (\<lambda>risk. contains risk ''code injection'' \<or> contains risk ''secret exposure'');
            high = (\<lambda>risk. \<not> critical risk \<and> (contains risk ''privilege escalation'' \<or> contains risk ''not pinned''))
        in if 0 < length (filter critical risks) then ''critical''
           else if 0 < length (filter high risks) then ''high''
           else if 2 < length risks then ''medium''
           else ''low'')"

definition step_penalty :: "string \<Rightarrow> int" where
  "step_penalty risk =
     (if risk = ''critical'' then 25 else if risk = ''high'' then 15 else if risk = ''medium'' then 10
      else if risk = ''low'' then 5 else if risk = ''minimal'' then 1 else 0)"

definition calculate_job_security_score :: "job_audit \<Rightarrow> int" where
  "calculate_job_security_score job =
     (let score = foldl (\<lambda>score step. score - step_penalty (sta_SecurityRisk step)) 100 (jba_Steps job)
      in if score < 0 then 0 else score)"

definition calculate_security_score :: "workflow_file_audit \<Rightarrow> int" where
  "calculate_security_score audit =
     (if wfa_Jobs audit = [] then 100
      else foldl (\<lambda>totalScore job. totalScore + jba_SecurityScore job) 0 (wfa_Jobs audit) div int (length (wfa_Jobs audit)))"

fun determine_issue_type :: "string list \<Rightarrow> string" where
  "determine_issue_type [] = ''excessive_permissions''"
| "determine_issue_type (reason # reasons) =
     (if contains reason ''code injection'' then ''code_injection''
      else if contains reason ''secret'' then ''secret_exposure''
      else if contains reason ''privilege'' then ''privilege_escalation''
      else if contains reason ''not pinned'' then ''unpinned_action''
      else if contains reason ''deprecated'' then ''deprecated_action''
      else if contains reason ''verified'' then ''unverified_action''
      else determine_issue_type reasons)"

definition map_risk_to_severity :: "string \<Rightarrow> string" where
  "map_risk_to_severity risk = (if risk \<in> set [''critical'', ''high'', ''medium'', ''low''] then risk else ''info'')"

definition generate_security_suggestion :: "string list \<Rightarrow> string" where
  "generate_security_suggestion reasons =
     (if 0 < length reasons then ''Pin actions to specific commit hashes'' else ''Review workflow for security best practices'')"

definition get_recommended_permission :: "string \<Rightarrow> string \<Rightarrow> string" where
  "get_recommended_permission scope permission =
     (if is_high_risk_scope scope \<and> permission = ''write'' then ''read'' else permission)"

section \<open>Steps, jobs and files\<close>

definition audit_workflow_step :: "workflow_step \<Rightarrow> step_audit" where
  "audit_workflow_step step =
     (let reasons = (if wst_Uses step \<noteq> [] then analyze_action_security (wst_Uses step) else []) @
            (if wst_Run step \<noteq> [] then analyze_script_security (wst_Run step) else [])
      in \<lparr>sta_Name = wst_Name step, sta_Uses = wst_Uses step, sta_Run = wst_Run step,
          sta_ActionVersion = (if wst_Uses step \<noteq> [] then extract_action_version (wst_Uses step) else []),
          sta_SecurityRisk = calculate_step_risk reasons, sta_RiskReasons = reasons,
          sta_UsesSecrets = extract_secrets_usage step, sta_UsesVariables = extract_variables_usage step\<rparr>)"

definition audit_job :: "string \<Rightarrow> workflow_job \<Rightarrow> job_audit" where
  "audit_job jobID job =
     (let start = zero_job_audit\<lparr>jba_JobID := jobID, jba_RunsOn := normalize_runs_on (wjb_RunsOn job),
            jba_Permissions := normalize_permissions (wjb_Permissions job),
            jba_Environment := normalize_environment (wjb_Environment job)\<rparr>;
          audited = foldl (\<lambda>j step. let s = audit_workflow_step step in
              j\<lparr>jba_Steps := jba_Steps j @ [s], jba_UsesSecrets := jba_UsesSecrets j @ sta_UsesSecrets s,
                jba_UsesVariables := jba_UsesVariables j @ sta_UsesVariables s\<rparr>) start (wjb_Steps job)
      in audited\<lparr>jba_SecurityScore := calculate_job_security_score audited\<rparr>)"

definition permission_issue :: "string \<Rightarrow> string \<Rightarrow> workflow_security_issue" where
  "permission_issue filePath scope =
     zero_workflow_security_issue\<lparr>wsi_ID := filePath @ ''-perm-'' @ scope, wsi_Type := ''excessive_permissions'',
       wsi_Severity := ''high'', wsi_Title := ''Excessive '' @ scope @ '' permission'',
       wsi_Description := ''Workflow has write permission for '' @ scope @ '', which may be unnecessary'',
       wsi_FilePath := filePath,
       wsi_Suggestion := ''Consider reducing '' @ scope @ '' permission to '' @ [CHR 0x27] @ ''read'' @ [CHR 0x27] @ '' or '' @
         [CHR 0x27] @ ''none'' @ [CHR 0x27] @ '' if not needed''\<rparr>"

definition audit_workflow_permissions :: "(string, string) gomap \<Rightarrow> string \<Rightarrow> workflow_security_issue list" where
  "audit_workflow_permissions permissions filePath =
     map (\<lambda>(scope, permission). permission_issue filePath scope)
       (filter (\<lambda>(scope, permission). permission = ''write'' \<and> is_high_risk_scope scope) permissions)"

definition step_issue :: "string \<Rightarrow> string \<Rightarrow> nat \<Rightarrow> step_audit \<Rightarrow> workflow_security_issue" where
  "step_issue filePath jobID n step =
     zero_workflow_security_issue\<lparr>wsi_ID := filePath @ ''-'' @ jobID @ ''-'' @ show_nat n,
       wsi_Type := determine_issue_type (sta_RiskReasons step),
       wsi_Severity := map_risk_to_severity (sta_SecurityRisk step),
       wsi_Title := ''Security risk in job '' @ [CHR 0x27] @ jobID @ [CHR 0x27],
       wsi_Description := join ''; '' (sta_RiskReasons step), wsi_FilePath := filePath, wsi_JobID := jobID,
       wsi_Suggestion := generate_security_suggestion (sta_RiskReasons step)\<rparr>"

fun add_step_issues ::
  "string \<Rightarrow> string \<Rightarrow> step_audit list \<Rightarrow> workflow_security_issue list \<Rightarrow> workflow_security_issue list" where
  "add_step_issues filePath jobID [] issues = issues"
| "add_step_issues filePath jobID (step # steps) issues =
     add_step_issues filePath jobID steps
       (if sta_SecurityRisk step = ''high'' \<or> sta_SecurityRisk step = ''critical''
        then issues @ [step_issue filePath jobID (length issues) step] else issues)"

definition add_job :: "string \<Rightarrow> workflow_file_audit \<Rightarrow> string \<times> workflow_job \<Rightarrow> workflow_file_audit" where
  "add_job filePath audit entry =
     (case entry of (jobID, job) \<Rightarrow>
        let jobAudit = audit_job jobID job in
        audit\<lparr>wfa_Jobs := wfa_Jobs audit @ [jobAudit],
          wfa_Issues := add_step_issues filePath jobID (jba_Steps jobAudit) (wfa_Issues audit)\<rparr>)"

definition audit_workflow :: "int \<Rightarrow> string \<Rightarrow> workflow_file \<Rightarrow> workflow_file_audit" where
  "audit_workflow now filePath workflow =
     (let permissions = normalize_permissions (wfl_Permissions workflow);
          start = zero_workflow_file_audit\<lparr>wfa_FilePath := filePath, wfa_WorkflowName := wfl_Name workflow,
            wfa_Triggers := extract_triggers (wfl_On workflow), wfa_Permissions := permissions,
            wfa_Issues := audit_workflow_permissions permissions filePath, wfa_LastModified := now\<rparr>;
          audit = foldl (add_job filePath) start (wfl_Jobs workflow)
      in audit\<lparr>wfa_SecurityScore := calculate_security_score audit\<rparr>)"


section \<open>Statistics\<close>

definition use_permission ::
  "bool \<Rightarrow> string \<Rightarrow> (string, workflow_permission_usage) gomap \<Rightarrow> string \<times> string \<Rightarrow> (string, workflow_permission_usage) gomap" where
  "use_permission once filePath permissionMap entry =
     (case entry of (scope, permission) \<Rightarrow>
        let key = scope @ '':'' @ permission in
        case gm_get permissionMap key of
          Some usage \<Rightarrow>
            gm_put key (usage\<lparr>wpu_UsageCount := wpu_UsageCount usage + 1,
              wpu_WorkflowFiles := (if once \<and> filePath \<in> set (wpu_WorkflowFiles usage) then wpu_WorkflowFiles usage
                else wpu_WorkflowFiles usage @ [filePath])\<rparr>) permissionMap
        | None \<Rightarrow>
            gm_put key \<lparr>wpu_Scope = scope, wpu_Permission = permission, wpu_UsageCount = 1, wpu_WorkflowFiles = [filePath],
              wpu_Recommended = get_recommended_permission scope permission\<rparr> permissionMap)"

definition file_permissions ::
  "(string, workflow_permission_usage) gomap \<Rightarrow> workflow_file_audit \<Rightarrow> (string, workflow_permission_usage) gomap" where
  "file_permissions permissionMap file =
     foldl (\<lambda>m job. foldl (use_permission True (wfa_FilePath file)) m (jba_Permissions job))
       (foldl (use_permission False (wfa_FilePath file)) permissionMap (wfa_Permissions file)) (wfa_Jobs file)"

definition analyze_permission_usage :: "workflow_file_audit list \<Rightarrow> workflow_permission_usage list" where
  "analyze_permission_usage files = map snd (foldl file_permissions [] files)"

definition use_action :: "string \<Rightarrow> (string, action_usage_info) gomap \<Rightarrow> step_audit \<Rightarrow> (string, action_usage_info) gomap" where
  "use_action filePath actionMap step =
     (if sta_Uses step \<noteq> [] then
        let actionName = split_on (CHR ''@'') (sta_Uses step) ! 0 in
        case gm_get actionMap actionName of
          Some usage \<Rightarrow>
            gm_put actionName (usage\<lparr>aui_UsageCount := aui_UsageCount usage + 1,
              aui_WorkflowFiles := (if filePath \<in> set (aui_WorkflowFiles usage) then aui_WorkflowFiles usage
                else aui_WorkflowFiles usage @ [filePath])\<rparr>) actionMap
        | None \<Rightarrow>
            gm_put actionName \<lparr>aui_ActionName = actionName, aui_Version = sta_ActionVersion step, aui_UsageCount = 1,
              aui_WorkflowFiles = [filePath], aui_SecurityRisk = sta_SecurityRisk step,
              aui_IsVerified = is_action_verified (sta_Uses step), aui_IsDeprecated = is_action_deprecated (sta_Uses step)\<rparr> actionMap
      else actionMap)"

definition file_actions ::
  "(string, action_usage_info) gomap \<Rightarrow> workflow_file_audit \<Rightarrow> (string, action_usage_info) gomap" where
  "file_actions actionMap file =
     foldl (\<lambda>m job. foldl (use_action (wfa_FilePath file)) m (jba_Steps job)) actionMap (wfa_Jobs file)"

definition analyze_action_usage :: "workflow_file_audit list \<Rightarrow> action_usage_info list" where
  "analyze_action_usage files = map snd (foldl file_actions [] files)"

definition count_severity :: "workflow_audit_summary \<Rightarrow> workflow_security_issue \<Rightarrow> workflow_audit_summary" where
  "count_severity summary i =
     (if wsi_Severity i = ''critical'' then summary\<lparr>was_CriticalIssues := was_CriticalIssues summary + 1\<rparr>
      else if wsi_Severity i = ''high'' then summary\<lparr>was_HighRiskIssues := was_HighRiskIssues summary + 1\<rparr>
      else if wsi_Severity i = ''medium'' then summary\<lparr>was_MediumRiskIssues := was_MediumRiskIssues summary + 1\<rparr>
      else if wsi_Severity i = ''low'' then summary\<lparr>was_LowRiskIssues := was_LowRiskIssues summary + 1\<rparr>
      else summary)"

definition audit_compliance_score :: "int \<Rightarrow> int \<Rightarrow> float64" where
  "audit_compliance_score totalFiles actualIssues =
     (let maxPossibleIssues = totalFiles * 10;
          score = fmul_const (fdiv (float_of_int (maxPossibleIssues - actualIssues)) (float_of_int maxPossibleIssues)) 100
      in if flt score (FNum 0) then FNum 0 else score)"

definition generate_summary :: "workflow_audit_result \<Rightarrow> workflow_audit_summary" where
  "generate_summary result =
     (let files = war_AuditedFiles result; n = int (length files);
          (totalScore, filesWithIssues) = foldl (\<lambda>(t, k) file. (t + wfa_SecurityScore file,
             if 0 < length (wfa_Issues file) then k + 1 else k)) (0 :: int, 0 :: int) files;
          start = zero_workflow_audit_summary\<lparr>was_TotalFiles := n, was_FilesWithIssues := filesWithIssues,
            was_AverageSecurityScore := (if 0 < n then fdiv (float_of_int totalScore) (float_of_int n) else FNum 0)\<rparr>;
          summary = foldl count_severity start (war_SecurityIssues result)
      in if 0 < n then summary\<lparr>was_ComplianceScore := audit_compliance_score n (int (length (war_SecurityIssues result)))\<rparr>
         else summary)"

section \<open>Repositories and organisations\<close>

definition text_lines :: "string list \<Rightarrow> string" where
  "text_lines ls = CHR 0x0A # concat (map (\<lambda>l. l @ [CHR 0x0A]) ls)"

definition get_mock_workflow_content :: "string \<Rightarrow> string" where
  "get_mock_workflow_content filename =
     (if filename = ''ci.yml'' then text_lines
        [''name: CI'', ''on: [push, pull_request]'', ''permissions:'', ''  contents: read'', ''  packages: write'', ''jobs:'',
         ''  test:'', ''    runs-on: ubuntu-latest'', ''    steps:'', ''      - uses: actions/checkout@v4'',
         ''      - uses: actions/setup-node@v4'', ''        with:'',
         ''          node-version: '' @ [CHR 0x27] @ ''18'' @ [CHR 0x27], ''      - run: npm test'']
      else if filename = ''release.yml'' then text_lines
        [''name: Release'', ''on:'', ''  push:'', ''    tags: ['' @ [CHR 0x27] @ ''v*'' @ [CHR 0x27] @ '']'', ''permissions:'',
         ''  contents: write'', ''  packages: write'', ''jobs:'', ''  release:'', ''    runs-on: ubuntu-latest'', ''    steps:'',
         ''      - uses: actions/checkout@v4'', ''      - uses: docker/build-push-action@v4'', ''        with:'',
         ''          push: true'', ''          tags: myapp:latest'']
      else text_lines
        [''name: Default Workflow'', ''on: push'', ''jobs:'', ''  build:'', ''    runs-on: ubuntu-latest'', ''    steps:'',
         ''      - uses: actions/checkout@v4'', ''      - run: echo \"Hello World\"''])"

text \<open>\<open>filepath.Base\<close>.\<close>

definition file_base :: "string \<Rightarrow> string" where
  "file_base path =
     (if path = [] then ''.''
      else let p = rev (dropWhile (\<lambda>c. c = CHR ''/'') (rev path)) in
        if p = [] then ''/'' else rev (takeWhile (\<lambda>c. c \<noteq> CHR ''/'') (rev p)))"

definition get_file_content :: "string \<Rightarrow> string \<Rightarrow> string \<Rightarrow> string + string" where
  "get_file_content organization repository filePath = Inr (get_mock_workflow_content (file_base filePath))"

datatype workflow_audit_error =
    WorkflowContentUnavailable string | WorkflowUnparsable string | WorkflowFilesUnavailable string
  | WorkflowRepositoriesUnavailable string

definition audit_workflow_file ::
  "(string \<Rightarrow> string + workflow_file) \<Rightarrow> int \<Rightarrow> string \<Rightarrow> string \<Rightarrow> string \<Rightarrow> workflow_audit_error + workflow_file_audit" where
  "audit_workflow_file decode now organization repository filePath =
     (case get_file_content organization repository filePath of
        Inl e \<Rightarrow> Inl (WorkflowContentUnavailable e)
      | Inr content \<Rightarrow>
          (case decode content of
             Inl e \<Rightarrow> Inl (WorkflowUnparsable e)
           | Inr workflow \<Rightarrow> Inr (audit_workflow now filePath workflow)))"

definition get_workflow_files :: "string \<Rightarrow> string \<Rightarrow> string + string list" where
  "get_workflow_files organization repository =
     Inr [''.github/workflows/ci.yml'', ''.github/workflows/release.yml'', ''.github/workflows/security.yml'']"

fun audit_files ::
  "(string \<Rightarrow> workflow_audit_error + workflow_file_audit) \<Rightarrow> string list \<Rightarrow> workflow_audit_result \<Rightarrow> workflow_audit_result" where
  "audit_files audit [] result = result"
| "audit_files audit (file # files) result =
     (case audit file of
        Inl e \<Rightarrow> audit_files audit files result
      | Inr fileAudit \<Rightarrow>
          audit_files audit files (result\<lparr>war_AuditedFiles := war_AuditedFiles result @ [fileAudit],
            war_SecurityIssues := war_SecurityIssues result @ wfa_Issues fileAudit\<rparr>))"

definition audit_repository_workflows ::
  "(string \<Rightarrow> string + workflow_file) \<Rightarrow> int \<Rightarrow> string \<Rightarrow> string \<Rightarrow> workflow_audit_error option \<times> workflow_audit_result" where
  "audit_repository_workflows decode now organization repository =
     (let result = zero_workflow_audit_result\<lparr>war_Repository := repository, war_Organization := organization,
            war_Timestamp := now\<rparr> in
      case get_workflow_files organization repository of
        Inl e \<Rightarrow> (Some (WorkflowFilesUnavailable e), result)
      | Inr workflowFiles \<Rightarrow>
          let audited = audit_files (audit_workflow_file decode now organization repository) workflowFiles
                (result\<lparr>war_TotalWorkflows := int (length workflowFiles)\<rparr>);
              used = audited\<lparr>war_PermissionUsage := analyze_permission_usage (war_AuditedFiles audited),
                war_ActionUsage := analyze_action_usage (war_AuditedFiles audited)\<rparr>
          in (None, used\<lparr>war_Summary := generate_summary used\<rparr>))"

fun audit_repositories_workflows ::
  "(string \<Rightarrow> workflow_audit_error option \<times> workflow_audit_result) \<Rightarrow> repository_info list \<Rightarrow> workflow_audit_result list" where
  "audit_repositories_workflows audit [] = []"
| "audit_repositories_workflows audit (repo # repos) =
     (if rpi_Archived repo \<or> rpi_Disabled repo then audit_repositories_workflows audit repos
      else (case audit (rpi_Name repo) of
              (Some e, _) \<Rightarrow> audit_repositories_workflows audit repos
            | (None, result) \<Rightarrow>
                (if 0 < war_TotalWorkflows result then [result] else []) @ audit_repositories_workflows audit repos))"

definition audit_organization_workflows ::
  "(string \<Rightarrow> string + repository_info list) \<Rightarrow> (string \<Rightarrow> string + workflow_file) \<Rightarrow> int \<Rightarrow> string
     \<Rightarrow> workflow_audit_error + workflow_audit_result list" where
  "audit_organization_workflows list_repos decode now organization =
     (case list_repos organization of
        Inl e \<Rightarrow> Inl (WorkflowRepositoriesUnavailable e)
      | Inr repos \<Rightarrow> Inr (audit_repositories_workflows (audit_repository_workflows decode now organization) repos))"

end
