(* ===== verification/WorkflowFindings.thy ===== *)
theory WorkflowFindings
  imports WorkflowAudit
begin

text \<open>
  What the workflow audit reports: the exact steps that become issues, the steps that do not, the
  range of its scores and the counts of its usage statistics.
\<close>

section \<open>Risks of a step\<close>

definition script_injects :: "workflow_step \<Rightarrow> bool" where
  "script_injects step \<longleftrightarrow> wst_Run step \<noteq> [] \<and> has_code_injection_risk (wst_Run step)"

definition script_escalates :: "workflow_step \<Rightarrow> bool" where
  "script_escalates step \<longleftrightarrow> wst_Run step \<noteq> [] \<and> has_privilege_escalation_risk (wst_Run step)"

definition script_exposes :: "workflow_step \<Rightarrow> bool" where
  "script_exposes step \<longleftrightarrow> wst_Run step \<noteq> [] \<and> has_secret_exposure_risk (wst_Run step)"

definition action_unpinned :: "workflow_step \<Rightarrow> bool" where
  "action_unpinned step \<longleftrightarrow> wst_Uses step \<noteq> [] \<and> \<not> is_action_pinned (wst_Uses step)"

definition risky_step :: "workflow_step \<Rightarrow> bool" where
  "risky_step step \<longleftrightarrow> script_injects step \<or> script_escalates step \<or> action_unpinned step"

text \<open>Which of the texts the risk levels are read from contain which phrase.\<close>

lemma reason_phrases [simp]:
  "\<not> contains ''Action is not pinned to a specific commit hash'' ''code injection''"
  "\<not> contains ''Action is not pinned to a specific commit hash'' ''secret exposure''"
  "contains ''Action is not pinned to a specific commit hash'' ''not pinned''"
  "\<not> contains ''Action is deprecated and should be updated'' ''code injection''"
  "\<not> contains ''Action is deprecated and should be updated'' ''secret exposure''"
  "\<not> contains ''Action is deprecated and should be updated'' ''privilege escalation''"
  "\<not> contains ''Action is deprecated and should be updated'' ''not pinned''"
  "\<not> contains ''Action is not from a verified publisher'' ''code injection''"
  "\<not> contains ''Action is not from a verified publisher'' ''secret exposure''"
  "\<not> contains ''Action is not from a verified publisher'' ''privilege escalation''"
  "\<not> contains ''Action is not from a verified publisher'' ''not pinned''"
  "\<not> contains ''Action has known security concerns'' ''code injection''"
  "\<not> contains ''Action has known security concerns'' ''secret exposure''"
  "\<not> contains ''Action has known security concerns'' ''privilege escalation''"
  "\<not> contains ''Action has known security concerns'' ''not pinned''"
  "contains ''Script may be vulnerable to code injection'' ''code injection''"
  "\<not> contains ''Script may expose secrets in logs'' ''code injection''"
  "\<not> contains ''Script may expose secrets in logs'' ''secret exposure''"
  "\<not> contains ''Script may expose secrets in logs'' ''privilege escalation''"
  "\<not> contains ''Script may expose secrets in logs'' ''not pinned''"
  "\<not> contains ''Script may attempt privilege escalation'' ''code injection''"
  "\<not> contains ''Script may attempt privilege escalation'' ''secret exposure''"
  "contains ''Script may attempt privilege escalation'' ''privilege escalation''"
  by code_simp+

lemma step_risk_critical: "sta_SecurityRisk (audit_workflow_step step) = ''critical'' \<longleftrightarrow> script_injects step"
  by (simp add: audit_workflow_step_def Let_def calculate_step_risk_def analyze_action_security_def analyze_script_security_def
      script_injects_def)

lemma step_risk_high:
  "sta_SecurityRisk (audit_workflow_step step) = ''high'' \<longleftrightarrow> risky_step step \<and> \<not> script_injects step"
  by (simp add: audit_workflow_step_def Let_def calculate_step_risk_def analyze_action_security_def analyze_script_security_def
      script_injects_def script_escalates_def action_unpinned_def risky_step_def)

section \<open>Issues\<close>

lemma audit_job_sel:
  "jba_JobID (audit_job jobID job) = jobID" "jba_Steps (audit_job jobID job) = map audit_workflow_step (wjb_Steps job)"
proof -
  have f: "jba_JobID (foldl (\<lambda>j step. let s = audit_workflow_step step in
              j\<lparr>jba_Steps := jba_Steps j @ [s], jba_UsesSecrets := jba_UsesSecrets j @ sta_UsesSecrets s,
                jba_UsesVariables := jba_UsesVariables j @ sta_UsesVariables s\<rparr>) j steps) = jba_JobID j \<and>
        jba_Steps (foldl (\<lambda>j step. let s = audit_workflow_step step in
              j\<lparr>jba_Steps := jba_Steps j @ [s], jba_UsesSecrets := jba_UsesSecrets j @ sta_UsesSecrets s,
                jba_UsesVariables := jba_UsesVariables j @ sta_UsesVariables s\<rparr>) j steps) =
          jba_Steps j @ map audit_workflow_step steps" for j :: job_audit and steps
    by (induction steps arbitrary: j) (simp_all add: Let_def)
  show "jba_JobID (audit_job jobID job) = jobID" "jba_Steps (audit_job jobID job) = map audit_workflow_step (wjb_Steps job)"
    using f by (simp_all add: audit_job_def Let_def zero_job_audit_def)
qed

definition issue_of :: "workflow_security_issue \<Rightarrow> string \<times> string \<times> string" where
  "issue_of i = (wsi_FilePath i, wsi_JobID i, wsi_Severity i)"

lemma issue_of_step:
  "issue_of (step_issue path jobID n s) = (path, jobID, map_risk_to_severity (sta_SecurityRisk s))"
  by (simp add: issue_of_def step_issue_def zero_workflow_security_issue_def)

definition step_issues :: "string \<Rightarrow> string \<Rightarrow> workflow_job \<Rightarrow> (string \<times> string \<times> string) list" where
  "step_issues path jobID job =
     map (\<lambda>s. (path, jobID, if script_injects s then ''critical'' else ''high'')) (filter risky_step (wjb_Steps job))"

lemma add_step_issues_of:
  "map issue_of (add_step_issues path jobID (map audit_workflow_step steps) issues) =
     map issue_of issues @ map (\<lambda>s. (path, jobID, if script_injects s then ''critical'' else ''high'')) (filter risky_step steps)"
proof (induction steps arbitrary: issues)
  case (Cons s steps)
  have r: "(sta_SecurityRisk (audit_workflow_step s) = ''high'' \<or> sta_SecurityRisk (audit_workflow_step s) = ''critical'') \<longleftrightarrow> risky_step s"
    by (auto simp: step_risk_high step_risk_critical risky_step_def)
  have "map_risk_to_severity (sta_SecurityRisk (audit_workflow_step s)) = (if script_injects s then ''critical'' else ''high'')"
    if "risky_step s"
    using that step_risk_critical [of s] step_risk_high [of s] by (cases "script_injects s") (auto simp: map_risk_to_severity_def)
  then show ?case by (simp add: Cons.IH r issue_of_step del: disj_not1)
qed simp

lemma add_jobs_issues:
  "map issue_of (wfa_Issues (foldl (add_job path) audit jobs)) =
     map issue_of (wfa_Issues audit) @ concat (map (\<lambda>(jobID, job). step_issues path jobID job) jobs) \<and>
   wfa_Jobs (foldl (add_job path) audit jobs) = wfa_Jobs audit @ map (\<lambda>(jobID, job). audit_job jobID job) jobs"
  by (induction jobs arbitrary: audit)
    (auto simp: add_job_def Let_def audit_job_sel add_step_issues_of step_issues_def)

text \<open>Property C29. The issues of a workflow are one of high severity for each write permission of the
  workflow on a high-risk scope, and one for each step whose script may be injected (critical), or
  else whose action is not pinned to a commit or whose script may escalate privileges (high), in the
  order of the jobs and steps. Nothing else is an issue: neither permissions of a job, nor a script
  that prints secrets, nor an action that is deprecated, unverified or known to be dangerous.\<close>

theorem workflow_issues_exact:
  "map issue_of (wfa_Issues (audit_workflow now path workflow)) =
     map (\<lambda>_. (path, [], ''high''))
       (filter (\<lambda>(scope, permission). permission = ''write'' \<and> is_high_risk_scope scope)
         (normalize_permissions (wfl_Permissions workflow))) @
     concat (map (\<lambda>(jobID, job). map (\<lambda>s. (path, jobID, if script_injects s then ''critical'' else ''high''))
       (filter risky_step (wjb_Steps job))) (wfl_Jobs workflow))"
proof -
  have p: "map issue_of (audit_workflow_permissions permissions path) =
      map (\<lambda>_. (path, [], ''high'')) (filter (\<lambda>(scope, permission). permission = ''write'' \<and> is_high_risk_scope scope) permissions)"
    for permissions
    by (simp add: audit_workflow_permissions_def issue_of_def permission_issue_def zero_workflow_security_issue_def o_def
        case_prod_beta)
  show ?thesis
    unfolding audit_workflow_def Let_def
    by (simp add: add_jobs_issues p zero_workflow_file_audit_def step_issues_def)
qed


section \<open>Secrets in the log\<close>

lemma exposure_pattern_iff:
  "match_string (seq_list [literal cmd, anything, literal a, some_spaces, literal b]) s \<longleftrightarrow>
     (\<exists>x u sp y. s = x @ cmd @ u @ a @ sp @ b @ y \<and> list_all not_newline u \<and> list_all regex_space sp)"
proof
  assume "match_string (seq_list [literal cmd, anything, literal a, some_spaces, literal b]) s"
  then obtain x w y where w: "s = x @ w @ y" "denotes (seq_list [literal cmd, anything, literal a, some_spaces, literal b]) w"
    unfolding match_string_iff by blast
  from w(2) obtain u sp where "w = cmd @ u @ a @ sp @ b" "list_all not_newline u" "list_all regex_space sp"
    by (auto simp: anything_def some_spaces_def)
  then show "\<exists>x u sp y. s = x @ cmd @ u @ a @ sp @ b @ y \<and> list_all not_newline u \<and> list_all regex_space sp"
    using w(1) by (intro exI [of _ x] exI [of _ u] exI [of _ sp] exI [of _ y]) simp
next
  assume "\<exists>x u sp y. s = x @ cmd @ u @ a @ sp @ b @ y \<and> list_all not_newline u \<and> list_all regex_space sp"
  then obtain x u sp y where w: "s = x @ (cmd @ u @ a @ sp @ b) @ y" "list_all not_newline u" "list_all regex_space sp"
    by auto
  have "denotes (seq_list [literal cmd, anything, literal a, some_spaces, literal b]) (cmd @ u @ a @ sp @ b)"
    using w(2,3) by (auto simp: anything_def some_spaces_def)
  then show "match_string (seq_list [literal cmd, anything, literal a, some_spaces, literal b]) s"
    unfolding match_string_iff w(1) by blast
qed

lemma exposure_iff:
  "has_secret_exposure_risk script \<longleftrightarrow>
     (\<exists>cmd\<in>set [''echo'', ''printf'', ''cat'']. \<exists>x u spaces y.
        script = x @ cmd @ u @ ''${{'' @ spaces @ ''secrets.'' @ y \<and> list_all not_newline u \<and> list_all regex_space spaces)"
  unfolding has_secret_exposure_risk_def exposure_patterns_def list_ex_iff set_map bex_simps exposure_pattern_iff ..

lemma exposure_step:
  assumes "script_exposes step" and "wst_Uses step = []" and "\<not> risky_step step"
  shows "sta_RiskReasons (audit_workflow_step step) = [''Script may expose secrets in logs'']"
  using assms by (simp add: audit_workflow_step_def Let_def analyze_script_security_def risky_step_def script_injects_def
      script_escalates_def script_exposes_def)

text \<open>A script that prints a secret with echo, printf or cat on one line, and neither
  escalates privileges nor may be injected, is noticed but counted as low: the reason is not among
  the phrases the level is read from. Adding it to a job gives no issue, and costs the job five points.\<close>

theorem secret_exposure_is_low:
  assumes "wst_Uses step = []" and "cmd \<in> {''echo'', ''printf'', ''cat''}"
    and "wst_Run step = before @ cmd @ u @ ''${{'' @ spaces @ ''secrets.'' @ rest"
    and "list_all not_newline u" and "list_all regex_space spaces"
    and "\<not> has_code_injection_risk (wst_Run step)" and "\<not> has_privilege_escalation_risk (wst_Run step)"
  shows "sta_RiskReasons (audit_workflow_step step) = [''Script may expose secrets in logs''] \<and>
    sta_SecurityRisk (audit_workflow_step step) = ''low'' \<and>
    add_step_issues path jobID (jba_Steps (audit_job jobID (job\<lparr>wjb_Steps := wjb_Steps job @ [step]\<rparr>))) issues =
      add_step_issues path jobID (jba_Steps (audit_job jobID job)) issues \<and>
    calculate_job_security_score (zero_job_audit\<lparr>jba_Steps := [audit_workflow_step step]\<rparr>) = 95"
proof -
  have e: "script_exposes step"
    using assms(2-5) unfolding script_exposes_def exposure_iff by fastforce
  have nr: "\<not> risky_step step"
    using assms(1,6,7) by (simp add: risky_step_def script_injects_def script_escalates_def action_unpinned_def)
  have r: "sta_RiskReasons (audit_workflow_step step) = [''Script may expose secrets in logs'']"
    using exposure_step [OF e assms(1) nr] .
  then have l: "sta_SecurityRisk (audit_workflow_step step) = ''low''"
    by (simp add: audit_workflow_step_def Let_def calculate_step_risk_def)
  have "add_step_issues path jobID (ss @ [audit_workflow_step step]) is = add_step_issues path jobID ss is" for ss "is"
    by (induction ss arbitrary: "is") (simp_all add: l)
  then show ?thesis using r l
    by (simp add: audit_job_sel calculate_job_security_score_def step_penalty_def zero_job_audit_def)
qed

definition leaking_step :: workflow_step where
  "leaking_step = zero_workflow_step\<lparr>wst_Run := ''echo ${{ secrets.TOKEN }}''\<rparr>"

lemma secret_exposure_is_low_witness: "sta_SecurityRisk (audit_workflow_step leaking_step) = ''low''"
proof -
  have 1: "wst_Uses leaking_step = []" "wst_Run leaking_step = [] @ ''echo'' @ '' '' @ ''${{'' @ '' '' @ ''secrets.'' @ ''TOKEN }}''"
    by (simp_all add: leaking_step_def zero_workflow_step_def)
  have 2: "list_all not_newline '' ''" "list_all regex_space '' ''" by code_simp+
  have 3: "\<not> has_code_injection_risk (wst_Run leaking_step)" "\<not> has_privilege_escalation_risk (wst_Run leaking_step)"
    by code_simp+
  show ?thesis using secret_exposure_is_low [OF 1(1) _ 1(2) 2 3] by simp
qed

text \<open>An action is deprecated by its name alone, whatever its version.\<close>

lemma every_version_deprecated:
  "is_action_deprecated (''actions/setup-node@'' @ version)" "is_action_deprecated (''docker/build-push-action@'' @ version)"
  by (simp_all add: is_action_deprecated_def deprecated_actions_def)

section \<open>Scores\<close>

lemma job_score_bounds: "0 \<le> calculate_job_security_score job \<and> calculate_job_security_score job \<le> 100"
proof -
  have "foldl (\<lambda>score step. score - step_penalty (sta_SecurityRisk step)) a steps \<le> a" for a steps
    by (induction steps rule: rev_induct) (auto simp: step_penalty_def)
  from this [of 100 "jba_Steps job"] show ?thesis by (simp add: calculate_job_security_score_def Let_def)
qed

lemma sum_bounds:
  assumes "\<forall>x\<in>set xs. 0 \<le> f x \<and> f x \<le> (100 :: int)"
  shows "0 \<le> sum_list (map f xs) \<and> sum_list (map f xs) \<le> 100 * int (length xs)"
  using assms by (induction xs) auto

lemma foldl_plus: "foldl (\<lambda>t x. t + f x) a xs = a + sum_list (map f xs)" for a :: int
  by (induction xs arbitrary: a) simp_all

lemma file_score_bounds:
  "0 \<le> wfa_SecurityScore (audit_workflow now path workflow) \<and> wfa_SecurityScore (audit_workflow now path workflow) \<le> 100"
proof -
  have j: "\<forall>j\<in>set (wfa_Jobs (foldl (add_job path) audit jobs)).
      j \<in> set (wfa_Jobs audit) \<or> (\<exists>(jobID, job)\<in>set jobs. j = audit_job jobID job)" for audit jobs
    using add_jobs_issues [of path audit jobs] by fastforce
  have s: "0 \<le> jba_SecurityScore (audit_job jobID job) \<and> jba_SecurityScore (audit_job jobID job) \<le> 100" for jobID job
    using job_score_bounds by (simp add: audit_job_def Let_def)
  have c: "0 \<le> calculate_security_score a \<and> calculate_security_score a \<le> 100"
    if "\<forall>j\<in>set (wfa_Jobs a). 0 \<le> jba_SecurityScore j \<and> jba_SecurityScore j \<le> 100" for a
  proof (cases "wfa_Jobs a = []")
    case False
    define n where "n = int (length (wfa_Jobs a))"
    have "0 < n" using False by (simp add: n_def)
    moreover have "sum_list (map jba_SecurityScore (wfa_Jobs a)) \<le> 100 * n" "0 \<le> sum_list (map jba_SecurityScore (wfa_Jobs a))"
      using sum_bounds [OF that] by (simp_all add: n_def)
    ultimately have "sum_list (map jba_SecurityScore (wfa_Jobs a)) div n \<le> 100" "0 \<le> sum_list (map jba_SecurityScore (wfa_Jobs a)) div n"
      using zdiv_mono1 [of _ "100 * n" n] by (fastforce, simp add: pos_imp_zdiv_nonneg_iff)
    then show ?thesis using False by (simp add: calculate_security_score_def foldl_plus n_def)
  qed (simp add: calculate_security_score_def)
  show ?thesis
    unfolding audit_workflow_def Let_def
    using j [of "zero_workflow_file_audit\<lparr>wfa_FilePath := path, wfa_WorkflowName := wfl_Name workflow,
            wfa_Triggers := extract_triggers (wfl_On workflow), wfa_Permissions := normalize_permissions (wfl_Permissions workflow),
            wfa_Issues := audit_workflow_permissions (normalize_permissions (wfl_Permissions workflow)) path,
            wfa_LastModified := now\<rparr>" "wfl_Jobs workflow"] s
    by (auto intro!: c [THEN conjunct1] c [THEN conjunct2] simp: zero_workflow_file_audit_def)
qed


lemma average_bounds:
  assumes "0 < n" and "n < 2 ^ 40" and "0 \<le> t" and "t \<le> 100 * n"
  shows "\<exists>r. fdiv (float_of_int t) (float_of_int n) = FNum r \<and> 0 \<le> r \<and> r \<le> 100"
proof -
  have "float_of_int t = FNum (of_int t)" "float_of_int n = FNum (of_int n)"
    using assms by (simp_all add: float_of_int_exact)
  moreover have "0 \<le> (of_int t / of_int n :: rat)" "of_int t / of_int n \<le> (of_int 100 :: rat)"
  proof -
    have "(of_int t :: rat) \<le> of_int (100 * n)" using assms(4) by (simp only: of_int_le_iff)
    then show "of_int t / of_int n \<le> (of_int 100 :: rat)" using assms(1) by (simp add: divide_le_eq mult.commute)
  qed (use assms in simp)
  ultimately show ?thesis using round64_bounded [of "of_int t / of_int n" 100] assms(1) by simp
qed

lemma fdiv_nonpos:
  assumes "x = FInf True \<or> (\<exists>r\<le>0. x = FNum r)" and "0 < m"
  shows "fdiv x (FNum m) = FInf True \<or> (\<exists>r\<le>0. fdiv x (FNum m) = FNum r)"
  using assms(1)
proof (elim disjE exE conjE)
  fix r assume r: "r \<le> 0" "x = FNum r"
  have "r / m \<le> 0" using r(1) assms(2) by (rule divide_nonpos_pos)
  then show ?thesis using round64_nonpos [of "r / m"] r(2) assms(2) by simp
qed (use assms(2) in simp)

lemma fmul_nonpos:
  assumes "x = FInf True \<or> (\<exists>r\<le>0. x = FNum r)"
  shows "fmul_const x 100 = FInf True \<or> (\<exists>r\<le>0. fmul_const x 100 = FNum r)"
  using assms
proof (elim disjE exE conjE)
  fix r assume r: "r \<le> 0" "x = FNum r"
  then show ?thesis using round64_nonpos [of "r * 100"] by simp
qed simp

lemma compliance_bounds:
  assumes "0 < n" and "n < 2 ^ 40" and "0 \<le> k"
  shows "\<exists>r. audit_compliance_score n k = FNum r \<and> 0 \<le> r \<and> r \<le> 100"
proof -
  define m where "m = n * 10"
  have m: "0 < m" "m < 2 ^ 53" "float_of_int m = FNum (of_int m)"
    using assms by (simp_all add: m_def float_of_int_exact)
  have neg: "\<exists>r. (if flt s (FNum 0) then FNum 0 else s) = FNum r \<and> 0 \<le> r \<and> r \<le> 100"
    if "s = FInf True \<or> (\<exists>r\<le>0. s = FNum r)" for s
    using that by auto
  show ?thesis
  proof (cases "k \<le> m")
    case True
    have "float_of_int (m - k) = FNum (of_int (m - k))" using True assms(3) m by (intro float_of_int_exact) auto
    moreover have "0 \<le> (of_int (m - k) / of_int m :: rat)" "of_int (m - k) / of_int m \<le> (of_int 1 :: rat)"
      using True m assms(3) by (simp_all add: divide_le_eq)
    ultimately obtain q where q: "fdiv (float_of_int (m - k)) (float_of_int m) = FNum q" "0 \<le> q" "q \<le> 1"
      using round64_bounded [of "of_int (m - k) / of_int m" 1] m by auto
    then obtain r where "round64 (q * 100) = FNum r" "0 \<le> r" "r \<le> 100"
      using round64_bounded [of "q * 100" 100] by auto
    then show ?thesis using q by (simp add: audit_compliance_score_def Let_def m_def)
  next
    case False
    then have "float_of_int (m - k) = FInf True \<or> (\<exists>r\<le>0. float_of_int (m - k) = FNum r)"
      unfolding float_of_int_def using assms(3) by (intro round64_nonpos) simp
    then have "fmul_const (fdiv (float_of_int (m - k)) (float_of_int m)) 100 = FInf True \<or>
        (\<exists>r\<le>0. fmul_const (fdiv (float_of_int (m - k)) (float_of_int m)) 100 = FNum r)"
      unfolding m(3) using m(1) by (intro fmul_nonpos fdiv_nonpos) auto
    then show ?thesis using neg by (simp add: audit_compliance_score_def Let_def m_def)
  qed
qed

lemma audit_files_sel:
  "war_AuditedFiles (audit_files audit files r) =
     war_AuditedFiles r @ List.map_filter (\<lambda>f. case audit f of Inl _ \<Rightarrow> None | Inr a \<Rightarrow> Some a) files \<and>
   war_SecurityIssues (audit_files audit files r) =
     war_SecurityIssues r @ concat (map wfa_Issues (List.map_filter (\<lambda>f. case audit f of Inl _ \<Rightarrow> None | Inr a \<Rightarrow> Some a) files)) \<and>
   war_TotalWorkflows (audit_files audit files r) = war_TotalWorkflows r"
  by (induction files arbitrary: r) (auto simp: List.map_filter_simps split: sum.splits)

lemma workflow_issue_severity:
  "i \<in> set (wfa_Issues (audit_workflow now path workflow)) \<Longrightarrow> wsi_Severity i = ''critical'' \<or> wsi_Severity i = ''high''"
proof -
  assume "i \<in> set (wfa_Issues (audit_workflow now path workflow))"
  then have "issue_of i \<in> set (map issue_of (wfa_Issues (audit_workflow now path workflow)))" by simp
  then show ?thesis unfolding workflow_issues_exact by (auto simp: issue_of_def split: if_splits)
qed

lemma count_severity_fold:
  assumes "\<forall>i\<in>set issues. wsi_Severity i = ''critical'' \<or> wsi_Severity i = ''high''"
  shows "was_CriticalIssues (foldl count_severity s issues) + was_HighRiskIssues (foldl count_severity s issues) =
      was_CriticalIssues s + was_HighRiskIssues s + int (length issues) \<and>
    was_MediumRiskIssues (foldl count_severity s issues) = was_MediumRiskIssues s \<and>
    was_LowRiskIssues (foldl count_severity s issues) = was_LowRiskIssues s \<and>
    was_AverageSecurityScore (foldl count_severity s issues) = was_AverageSecurityScore s \<and>
    was_ComplianceScore (foldl count_severity s issues) = was_ComplianceScore s \<and>
    was_TotalFiles (foldl count_severity s issues) = was_TotalFiles s \<and>
    was_FilesWithIssues (foldl count_severity s issues) = was_FilesWithIssues s"
  using assms by (induction issues arbitrary: s) (auto simp: count_severity_def)

lemma score_fold:
  "foldl (\<lambda>(t, k) file. (t + wfa_SecurityScore file, if 0 < length (wfa_Issues file) then k + 1 else k)) (a, b) files =
     (a + sum_list (map wfa_SecurityScore files), b + int (length (filter (\<lambda>f. wfa_Issues f \<noteq> []) files)))" for a b :: int
  by (induction files arbitrary: a b) auto

lemma summary_bounds:
  assumes "\<forall>f\<in>set (war_AuditedFiles r). 0 \<le> wfa_SecurityScore f \<and> wfa_SecurityScore f \<le> 100"
    and "\<forall>i\<in>set (war_SecurityIssues r). wsi_Severity i = ''critical'' \<or> wsi_Severity i = ''high''"
    and "length (war_AuditedFiles r) < 2 ^ 40"
  shows "\<exists>average compliance. was_AverageSecurityScore (generate_summary r) = FNum average \<and> 0 \<le> average \<and> average \<le> 100 \<and>
    was_ComplianceScore (generate_summary r) = FNum compliance \<and> 0 \<le> compliance \<and> compliance \<le> 100 \<and>
    was_TotalFiles (generate_summary r) = int (length (war_AuditedFiles r)) \<and>
    was_FilesWithIssues (generate_summary r) = int (length (filter (\<lambda>f. wfa_Issues f \<noteq> []) (war_AuditedFiles r))) \<and>
    was_CriticalIssues (generate_summary r) + was_HighRiskIssues (generate_summary r) = int (length (war_SecurityIssues r)) \<and>
    was_MediumRiskIssues (generate_summary r) = 0 \<and> was_LowRiskIssues (generate_summary r) = 0"
proof -
  define n where "n = int (length (war_AuditedFiles r))"
  define t where "t = sum_list (map wfa_SecurityScore (war_AuditedFiles r))"
  have t: "0 \<le> t" "t \<le> 100 * n" using sum_bounds [OF assms(1)] by (simp_all add: t_def n_def)
  have n: "0 \<le> n" "n < 2 ^ 40" using assms(3) by (simp_all add: n_def)
  note c = count_severity_fold [OF assms(2)]
  show ?thesis
  proof (cases "0 < n")
    case True
    obtain a where a: "fdiv (float_of_int t) (float_of_int n) = FNum a" "0 \<le> a" "a \<le> 100"
      using average_bounds [OF True n(2) t] by blast
    obtain k where k: "audit_compliance_score n (int (length (war_SecurityIssues r))) = FNum k" "0 \<le> k" "k \<le> 100"
      using compliance_bounds [OF True n(2) of_nat_0_le_iff] by blast
    show ?thesis unfolding generate_summary_def Let_def score_fold
      by (rule exI [of _ a], rule exI [of _ k])
        (use True a k c in \<open>simp add: zero_workflow_audit_summary_def flip: n_def t_def\<close>)
  next
    case False
    then have "war_AuditedFiles r = []" by (simp add: n_def)
    then show ?thesis using c by (simp add: generate_summary_def Let_def zero_workflow_audit_summary_def)
  qed
qed

text \<open>Property C30. The audit of a repository never fails; a file that cannot be parsed is left out
  though it counts as a workflow. Every score of a file lies between 0 and 100, and so do the average and
  the compliance score of the summary, which are floating-point numbers. The summary counts every
  issue as critical or high; its counts of medium and low issues are always zero.\<close>

theorem workflow_summary_bounds:
  "\<exists>r average compliance. audit_repository_workflows decode now organization repository = (None, r) \<and>
    list_all (\<lambda>f. wfa_SecurityScore f \<in> {0..100}) (war_AuditedFiles r) \<and>
    war_TotalWorkflows r = 3 \<and> was_TotalFiles (war_Summary r) = int (length (war_AuditedFiles r)) \<and>
    was_AverageSecurityScore (war_Summary r) = FNum average \<and> 0 \<le> average \<and> average \<le> 100 \<and>
    was_ComplianceScore (war_Summary r) = FNum compliance \<and> 0 \<le> compliance \<and> compliance \<le> 100 \<and>
    war_SecurityIssues r = concat (map wfa_Issues (war_AuditedFiles r)) \<and>
    was_CriticalIssues (war_Summary r) + was_HighRiskIssues (war_Summary r) = int (length (war_SecurityIssues r)) \<and>
    was_MediumRiskIssues (war_Summary r) = 0 \<and> was_LowRiskIssues (war_Summary r) = 0"
proof -
  let ?files = "[''.github/workflows/ci.yml'', ''.github/workflows/release.yml'', ''.github/workflows/security.yml'']"
  let ?audit = "audit_workflow_file decode now organization repository"
  let ?as = "List.map_filter (\<lambda>f. case ?audit f of Inl _ \<Rightarrow> None | Inr a \<Rightarrow> Some a) ?files"
  define r0 where "r0 = zero_workflow_audit_result\<lparr>war_Repository := repository, war_Organization := organization,
    war_Timestamp := now, war_TotalWorkflows := 3\<rparr>"
  define r1 where "r1 = audit_files ?audit ?files r0"
  define r2 where "r2 = r1\<lparr>war_PermissionUsage := analyze_permission_usage (war_AuditedFiles r1),
    war_ActionUsage := analyze_action_usage (war_AuditedFiles r1)\<rparr>"
  have run: "audit_repository_workflows decode now organization repository = (None, r2\<lparr>war_Summary := generate_summary r2\<rparr>)"
    by (simp add: audit_repository_workflows_def get_workflow_files_def Let_def r2_def r1_def r0_def)
  have r1: "war_AuditedFiles r1 = ?as" "war_SecurityIssues r1 = concat (map wfa_Issues ?as)" "war_TotalWorkflows r1 = 3"
    using audit_files_sel [of ?audit ?files r0] unfolding r1_def by (simp_all add: r0_def zero_workflow_audit_result_def)
  have as: "\<exists>path workflow. a = audit_workflow now path workflow" if "a \<in> set ?as" for a
    using that by (auto simp: in_map_filter audit_workflow_file_def split: sum.splits)
  have len: "length ?as \<le> 3"
    by (simp add: List.map_filter_simps split: option.splits)
  have scores: "\<forall>f\<in>set (war_AuditedFiles r2). 0 \<le> wfa_SecurityScore f \<and> wfa_SecurityScore f \<le> 100"
    using as file_score_bounds r1 unfolding r2_def by fastforce
  have severities: "\<forall>i\<in>set (war_SecurityIssues r2). wsi_Severity i = ''critical'' \<or> wsi_Severity i = ''high''"
    using as workflow_issue_severity r1 unfolding r2_def by fastforce
  have "length (war_AuditedFiles r2) < 2 ^ 40" using len r1 unfolding r2_def by simp
  from summary_bounds [OF scores severities this] scores
  show ?thesis unfolding run using r1 by (auto simp: list_all_iff r2_def)
qed


section \<open>Usage of actions\<close>

definition action_name :: "step_audit \<Rightarrow> string" where
  "action_name step = split_on (CHR ''@'') (sta_Uses step) ! 0"

definition uses_action :: "string \<Rightarrow> string \<times> step_audit \<Rightarrow> bool" where
  "uses_action name use \<longleftrightarrow> sta_Uses (snd use) \<noteq> [] \<and> action_name (snd use) = name"

definition file_uses :: "workflow_file_audit \<Rightarrow> (string \<times> step_audit) list" where
  "file_uses file = map (Pair (wfa_FilePath file)) (concat (map jba_Steps (wfa_Jobs file)))"

fun usage_ok :: "string \<Rightarrow> (string \<times> step_audit) list \<Rightarrow> action_usage_info option \<Rightarrow> bool" where
  "usage_ok name found None \<longleftrightarrow> found = []"
| "usage_ok name found (Some u) \<longleftrightarrow> found \<noteq> [] \<and> aui_ActionName u = name \<and> aui_UsageCount u = int (length found) \<and>
     distinct (aui_WorkflowFiles u) \<and> set (aui_WorkflowFiles u) = fst ` set found"

definition usage_inv :: "(string \<times> step_audit) list \<Rightarrow> (string, action_usage_info) gomap \<Rightarrow> bool" where
  "usage_inv uses m \<longleftrightarrow> gm_wf m \<and> (\<forall>name. usage_ok name (filter (uses_action name) uses) (gm_get m name))"

lemma use_action_unused: "sta_Uses step = [] \<Longrightarrow> use_action path m step = m"
  by (simp add: use_action_def)

lemma use_action_get:
  assumes "sta_Uses step \<noteq> []"
  shows "name \<noteq> action_name step \<Longrightarrow> gm_get (use_action path m step) name = gm_get m name"
    and "gm_wf m \<Longrightarrow> gm_wf (use_action path m step)"
  using assms by (auto simp: use_action_def Let_def action_name_def [symmetric] split: option.splits)

lemma use_action_ok:
  assumes "sta_Uses step \<noteq> []" and "usage_ok (action_name step) found (gm_get m (action_name step))"
  shows "usage_ok (action_name step) (found @ [(path, step)]) (gm_get (use_action path m step) (action_name step))"
proof (cases "gm_get m (action_name step)")
  case None
  then show ?thesis using assms by (simp add: use_action_def Let_def action_name_def [symmetric])
next
  case (Some u)
  then show ?thesis using assms
    by (cases "path \<in> set (aui_WorkflowFiles u)")
      (simp_all add: use_action_def Let_def action_name_def [symmetric] insert_absorb)
qed

lemma use_action_inv:
  assumes "usage_inv uses m"
  shows "usage_inv (uses @ [(path, step)]) (use_action path m step)"
proof (cases "sta_Uses step = []")
  case True
  then have "filter (uses_action name) (uses @ [(path, step)]) = filter (uses_action name) uses" for name
    by (simp add: uses_action_def)
  then show ?thesis using assms use_action_unused [OF True] unfolding usage_inv_def by simp
next
  case False
  have ok: "usage_ok name (filter (uses_action name) uses) (gm_get m name)" for name
    using assms by (simp add: usage_inv_def)
  have "usage_ok name (filter (uses_action name) (uses @ [(path, step)])) (gm_get (use_action path m step) name)" for name
  proof (cases "name = action_name step")
    case True
    then have "filter (uses_action name) (uses @ [(path, step)]) = filter (uses_action name) uses @ [(path, step)]"
      using False by (simp add: uses_action_def)
    then show ?thesis using use_action_ok [OF False ok [of name, unfolded True]] True by simp
  next
    case other: False
    then have "filter (uses_action name) (uses @ [(path, step)]) = filter (uses_action name) uses"
      by (simp add: uses_action_def)
    then show ?thesis using use_action_get(1) [OF False other] ok by simp
  qed
  then show ?thesis using use_action_get(2) [OF False] assms by (simp add: usage_inv_def)
qed

lemma use_actions_inv:
  "usage_inv uses m \<Longrightarrow> usage_inv (uses @ map (Pair path) steps) (foldl (use_action path) m steps)"
  by (induction steps arbitrary: uses m) (use use_action_inv in fastforce)+

lemma use_jobs_inv:
  "usage_inv uses m \<Longrightarrow> usage_inv (uses @ map (Pair path) (concat (map jba_Steps jobs)))
     (foldl (\<lambda>m job. foldl (use_action path) m (jba_Steps job)) m jobs)"
proof (induction jobs arbitrary: uses m)
  case (Cons job jobs)
  show ?case using Cons.IH [OF use_actions_inv [OF Cons.prems, of path "jba_Steps job"]] by simp
qed simp

lemma use_files_inv:
  "usage_inv uses m \<Longrightarrow> usage_inv (uses @ concat (map file_uses files)) (foldl file_actions m files)"
proof (induction files arbitrary: uses m)
  case (Cons a files)
  have "usage_inv (uses @ file_uses a) (file_actions m a)"
    using use_jobs_inv [OF Cons.prems] by (simp add: file_actions_def file_uses_def)
  from Cons.IH [OF this] show ?case by simp
qed simp

text \<open>The usage statistics list every action the audited steps use once, under its name
  without the version, with the number of steps that use it and the files they are in, each once.\<close>

theorem action_usage_counts:
  "(let usage = analyze_action_usage files; uses = concat (map file_uses files) in
     distinct (map aui_ActionName usage) \<and>
     set (map aui_ActionName usage) = action_name ` {s \<in> snd ` set uses. sta_Uses s \<noteq> []} \<and>
     list_all (\<lambda>u. aui_UsageCount u = int (length (filter (uses_action (aui_ActionName u)) uses)) \<and>
       distinct (aui_WorkflowFiles u) \<and>
       set (aui_WorkflowFiles u) = fst ` set (filter (uses_action (aui_ActionName u)) uses)) usage)"
proof -
  define m and uses where "m = foldl file_actions [] files" and "uses = concat (map file_uses files)"
  have "usage_inv [] []" by (simp add: usage_inv_def gm_wf_def)
  then have i: "usage_inv uses m" using use_files_inv [of "[]" "[]" files] by (simp add: m_def uses_def)
  then have wf: "gm_wf m" by (simp add: usage_inv_def)
  have e: "aui_ActionName u = name \<and> aui_UsageCount u = int (length (filter (uses_action name) uses)) \<and>
      distinct (aui_WorkflowFiles u) \<and> set (aui_WorkflowFiles u) = fst ` set (filter (uses_action name) uses)"
    if "(name, u) \<in> set m" for name u
  proof -
    have "gm_get m name = Some u" using that wf gm_get_in by metis
    then show ?thesis using i unfolding usage_inv_def by (metis usage_ok.simps(2))
  qed
  have names: "map aui_ActionName (map snd m) = gm_keys m"
    using e by (auto simp: gm_keys_def)
  have k: "name \<in> set (gm_keys m) \<longleftrightarrow> filter (uses_action name) uses \<noteq> []" for name
  proof -
    have "gm_get m name = None \<longleftrightarrow> filter (uses_action name) uses = []"
      using i unfolding usage_inv_def by (metis not_None_eq usage_ok.simps)
    then show ?thesis by (metis gm_keys_iff not_None_eq)
  qed
  have "set (gm_keys m) = action_name ` {s \<in> snd ` set uses. sta_Uses s \<noteq> []}"
    using k by (force simp: filter_empty_conv uses_action_def image_iff)
  moreover have "distinct (gm_keys m)" using wf by (simp add: gm_wf_def gm_keys_def)
  moreover have "list_all (\<lambda>u. aui_UsageCount u = int (length (filter (uses_action (aui_ActionName u)) uses)) \<and>
      distinct (aui_WorkflowFiles u) \<and>
      set (aui_WorkflowFiles u) = fst ` set (filter (uses_action (aui_ActionName u)) uses)) (map snd m)"
    unfolding list_all_iff set_map
  proof
    fix u assume "u \<in> snd ` set m"
    then obtain name where "(name, u) \<in> set m" by auto
    from e [OF this] show "aui_UsageCount u = int (length (filter (uses_action (aui_ActionName u)) uses)) \<and>
        distinct (aui_WorkflowFiles u) \<and>
        set (aui_WorkflowFiles u) = fst ` set (filter (uses_action (aui_ActionName u)) uses)"
      by simp
  qed
  ultimately show ?thesis
    unfolding analyze_action_usage_def Let_def m_def [symmetric] uses_def [symmetric] names by blast
qed

end
