(* ===== verification/WebhookTypes.thy ===== *)
theory WebhookTypes
  imports GoValue
begin

text \<open>
  The data of the webhooks: the structs of \<open>pkg/github/webhook.go\<close> and
  \<open>pkg/github/webhook_config.go\<close>. A slice that the code compares with nil is an
  option; slices of pointers hold no nil.
\<close>

section \<open>Filters\<close>

record repository_filters =
  rpf_IncludeNames :: "string list"
  rpf_ExcludeNames :: "string list"
  rpf_IncludePrivate :: bool
  rpf_IncludePublic :: bool
  rpf_Languages :: "string list"
  rpf_SizeLimit :: int
  rpf_LastUpdatedDays :: int

section \<open>Webhooks\<close>

record webhook_endpoint =
  whe_URL :: string
  whe_ContentType :: string
  whe_Secret :: string
  whe_InsecureSSL :: bool

record webhook_info =
  whi_ID :: int
  whi_Name :: string
  whi_URL :: string
  whi_Events :: "string list"
  whi_Active :: bool
  whi_Config :: webhook_endpoint
  whi_CreatedAt :: int
  whi_UpdatedAt :: int
  whi_Repository :: string
  whi_Organization :: string

record webhook_create_request =
  whc_Name :: string
  whc_URL :: string
  whc_Events :: "string list"
  whc_Active :: bool
  whc_Config :: webhook_endpoint

record webhook_update_request =
  whu_ID :: int
  whu_Name :: string
  whu_URL :: string
  whu_Events :: "string list option"
  whu_Active :: "bool option"
  whu_Config :: webhook_endpoint

record webhook_list_options =
  wlo_Organization :: string
  wlo_Repository :: string
  wlo_Page :: int
  wlo_PerPage :: int

record bulk_webhook_request =
  bwr_Organization :: string
  bwr_Repositories :: "string list"
  bwr_Template :: webhook_create_request
  bwr_Filters :: "repository_filters option"

record webhook_selector =
  wsl_ByName :: string
  wsl_ByURL :: string
  wsl_ByEvents :: "string list"
  wsl_Active :: "bool option"

record bulk_webhook_update_request =
  bwu_Organization :: string
  bwu_Repositories :: "string list"
  bwu_Template :: webhook_update_request
  bwu_Filters :: "repository_filters option"
  bwu_SelectBy :: webhook_selector

record bulk_webhook_delete_request =
  bwd_Organization :: string
  bwd_Repositories :: "string list"
  bwd_SelectBy :: webhook_selector
  bwd_Filters :: "repository_filters option"

record webhook_operation_result =
  wor_Repository :: string
  wor_Operation :: string
  wor_Success :: bool
  wor_WebhookInfo :: "webhook_info option"
  wor_Error :: string
  wor_Duration :: string

record bulk_webhook_result =
  bwt_TotalRepositories :: int
  bwt_SuccessCount :: int
  bwt_FailureCount :: int
  bwt_Results :: "webhook_operation_result list"
  bwt_ExecutionTime :: string

record webhook_test_result =
  wtr_Success :: bool
  wtr_StatusCode :: int
  wtr_Response :: string
  wtr_Duration :: string
  wtr_Error :: string
  wtr_DeliveryID :: string
  wtr_TestedAt :: int

record webhook_delivery =
  wdl_ID :: string
  wdl_Event :: string
  wdl_Action :: string
  wdl_StatusCode :: int
  wdl_Duration :: string
  wdl_DeliveredAt :: int
  wdl_Success :: bool
  wdl_Redelivered :: bool
  wdl_URL :: string

section \<open>Policies\<close>

record webhook_conditions =
  wc2_RepositoryName :: "string list"
  wc2_RepositoryPattern :: "string list"
  wc2_Language :: "string list"
  wc2_Topics :: "string list"
  wc2_Visibility :: "string list"
  wc2_IsArchived :: "bool option"
  wc2_IsTemplate :: "bool option"
  wc2_HasIssues :: "bool option"
  wc2_CustomFields :: "(string, string) gomap"

record webhook_config_template =
  wct_URL :: string
  wct_ContentType :: string
  wct_Secret :: string
  wct_InsecureSSL :: bool

record webhook_template =
  wt_Name :: string
  wt_URL :: string
  wt_Events :: "string list"
  wt_Active :: bool
  wt_Config :: webhook_config_template
  wt_Variables :: "(string, string) gomap"

record webhook_policy_rule =
  wpr_ID :: string
  wpr_Name :: string
  wpr_Conditions :: webhook_conditions
  wpr_Action :: string
  wpr_Template :: webhook_template
  wpr_Enabled :: bool
  wpr_OnConflict :: string

record webhook_policy =
  wp2_ID :: string
  wp2_Name :: string
  wp2_Description :: string
  wp2_Organization :: string
  wp2_Enabled :: bool
  wp2_Priority :: int
  wp2_Rules :: "webhook_policy_rule list"
  wp2_CreatedAt :: int
  wp2_UpdatedAt :: int
  wp2_CreatedBy :: string
  wp2_Tags :: "(string, string) gomap"

record config_metadata =
  cm2_Name :: string
  cm2_Description :: string
  cm2_Author :: string
  cm2_CreatedAt :: int
  cm2_UpdatedAt :: int
  cm2_Version :: string
  cm2_Tags :: "(string, string) gomap"

record webhook_defaults =
  wd_Events :: "string list"
  wd_Active :: bool
  wd_Config :: webhook_config_template
  wd_Variables :: "(string, string) gomap"

record notification_settings =
  ns_OnSuccess :: bool
  ns_OnFailure :: bool
  ns_OnConflict :: bool
  ns_Recipients :: "string list"
  ns_SlackChannel :: string

record organization_webhook_settings =
  ows_AllowRepositoryOverride :: bool
  ows_RequireApproval :: bool
  ows_MaxWebhooksPerRepo :: int
  ows_RetryOnFailure :: bool
  ows_NotificationSettings :: notification_settings

record validation_config =
  vc2_RequiredEvents :: "string list"
  vc2_ForbiddenEvents :: "string list"
  vc2_AllowedDomains :: "string list"
  vc2_ForbiddenDomains :: "string list"
  vc2_RequireSSL :: bool
  vc2_RequireSecret :: bool

record organization_webhook_config =
  owc_Organization :: string
  owc_Version :: string
  owc_Metadata :: config_metadata
  owc_Defaults :: webhook_defaults
  owc_Policies :: "webhook_policy list"
  owc_Settings :: organization_webhook_settings
  owc_Validation :: validation_config

record apply_policies_request =
  apr_Organization :: string
  apr_PolicyIDs :: "string list"
  apr_RepositoryNames :: "string list"
  apr_DryRun :: bool
  apr_Force :: bool

record policy_application_result =
  par_Repository :: string
  par_PolicyID :: string
  par_RuleID :: string
  par_Action :: string
  par_Success :: bool
  par_WebhookID :: "int option"
  par_Error :: string
  par_Skipped :: bool
  par_SkipReason :: string
  par_Changes :: "string list"
  par_Duration :: string

record policy_application_summary =
  pas_WebhooksCreated :: int
  pas_WebhooksUpdated :: int
  pas_WebhooksDeleted :: int
  pas_ConflictsFound :: int
  pas_ErrorsByType :: "(string, int) gomap"

record apply_policies_result =
  apr2_Organization :: string
  apr2_TotalRepositories :: int
  apr2_ProcessedRepositories :: int
  apr2_SuccessCount :: int
  apr2_FailureCount :: int
  apr2_SkippedCount :: int
  apr2_Results :: "policy_application_result list"
  apr2_ExecutionTime :: string
  apr2_Summary :: policy_application_summary

record planned_action =
  pa2_Repository :: string
  pa2_PolicyID :: string
  pa2_RuleID :: string
  pa2_Action :: string
  pa2_WebhookName :: string
  pa2_Changes :: "string list"
  pa2_Conflicts :: "string list"

record policy_conflict =
  pc2_Repository :: string
  pc2_ConflictType :: string
  pc2_Description :: string
  pc2_PolicyID1 :: string
  pc2_PolicyID2 :: string
  pc2_ExistingWebhook :: "webhook_info option"
  pc2_Resolution :: string

record policy_application_preview =
  pap_Organization :: string
  pap_TotalRepositories :: int
  pap_PlannedActions :: "planned_action list"
  pap_Conflicts :: "policy_conflict list"
  pap_Warnings :: "string list"
  pap_Summary :: policy_application_summary

record migration_request =
  mr_Organization :: string
  mr_SourceConfig :: string
  mr_TargetPolicyID :: string
  mr_DryRun :: bool
  mr_BackupExisting :: bool
  mr_Mapping :: "(string, string) gomap"

record webhook_migration_result =
  wmr_Repository :: string
  wmr_OldWebhookID :: int
  wmr_NewWebhookID :: int
  wmr_Success :: bool
  wmr_Error :: string
  wmr_Changes :: "string list"

record migration_result =
  mr2_Organization :: string
  mr2_TotalWebhooks :: int
  mr2_MigratedWebhooks :: int
  mr2_SkippedWebhooks :: int
  mr2_FailedWebhooks :: int
  mr2_BackupPath :: string
  mr2_Results :: "webhook_migration_result list"
  mr2_ExecutionTime :: string

record webhook_discrepancy =
  wd2_Repository :: string
  wd2_WebhookID :: int
  wd2_DiscrepancyType :: string
  wd2_Expected :: string
  wd2_Actual :: string
  wd2_Severity :: string

record sync_result =
  sr2_Organization :: string
  sr2_TotalRepositories :: int
  sr2_SyncedRepositories :: int
  sr2_Discrepancies :: "webhook_discrepancy list"
  sr2_ExecutionTime :: string

record compliance_violation =
  cv2_Repository :: string
  cv2_PolicyID :: string
  cv2_RuleID :: string
  cv2_ViolationType :: string
  cv2_Description :: string
  cv2_Severity :: string
  cv2_Remediation :: string

record compliance_report =
  cr2_Organization :: string
  cr2_GeneratedAt :: int
  cr2_TotalRepositories :: int
  cr2_CompliantRepos :: int
  cr2_NonCompliantRepos :: int
  cr2_Violations :: "compliance_violation list"
  cr2_ComplianceScore :: float64
  cr2_Recommendations :: "string list"

record repository_webhook_info =
  rwi_Repository :: string
  rwi_Webhooks :: "webhook_info list"
  rwi_Compliance :: string
  rwi_Issues :: "string list"

record webhook_inventory_summary =
  wis_ActiveWebhooks :: int
  wis_InactiveWebhooks :: int
  wis_DuplicateWebhooks :: int
  wis_OrphanedWebhooks :: int
  wis_HealthScore :: float64

record webhook_inventory =
  wi2_Organization :: string
  wi2_GeneratedAt :: int
  wi2_TotalWebhooks :: int
  wi2_WebhooksByType :: "(string, int) gomap"
  wi2_WebhooksByEvent :: "(string, int) gomap"
  wi2_Repositories :: "repository_webhook_info list"
  wi2_Summary :: webhook_inventory_summary

record webhook_validation_error =
  wve_Field :: string
  wve_Message :: string
  wve_Severity :: string
  wve_Suggestion :: string

record webhook_validation_warning =
  wvw_Field :: string
  wvw_Message :: string
  wvw_Suggestion :: string

record webhook_validation_result =
  wvr_Valid :: bool
  wvr_Errors :: "webhook_validation_error list"
  wvr_Warnings :: "webhook_validation_warning list"
  wvr_Score :: int

section \<open>Zero values\<close>

definition zero_webhook_endpoint :: webhook_endpoint where
  "zero_webhook_endpoint =
     \<lparr>whe_URL = [], whe_ContentType = [], whe_Secret = [], whe_InsecureSSL = False\<rparr>"

definition zero_webhook_info :: webhook_info where
  "zero_webhook_info =
     \<lparr>whi_ID = 0, whi_Name = [], whi_URL = [], whi_Events = [], whi_Active = False,
      whi_Config = zero_webhook_endpoint, whi_CreatedAt = 0, whi_UpdatedAt = 0, whi_Repository = [],
      whi_Organization = []\<rparr>"

definition zero_webhook_create_request :: webhook_create_request where
  "zero_webhook_create_request =
     \<lparr>whc_Name = [], whc_URL = [], whc_Events = [], whc_Active = False,
      whc_Config = zero_webhook_endpoint\<rparr>"

definition zero_webhook_update_request :: webhook_update_request where
  "zero_webhook_update_request =
     \<lparr>whu_ID = 0, whu_Name = [], whu_URL = [], whu_Events = None, whu_Active = None,
      whu_Config = zero_webhook_endpoint\<rparr>"

definition zero_webhook_selector :: webhook_selector where
  "zero_webhook_selector =
     \<lparr>wsl_ByName = [], wsl_ByURL = [], wsl_ByEvents = [], wsl_Active = None\<rparr>"

definition zero_webhook_operation_result :: webhook_operation_result where
  "zero_webhook_operation_result =
     \<lparr>wor_Repository = [], wor_Operation = [], wor_Success = False, wor_WebhookInfo = None,
      wor_Error = [], wor_Duration = []\<rparr>"

definition zero_bulk_webhook_result :: bulk_webhook_result where
  "zero_bulk_webhook_result =
     \<lparr>bwt_TotalRepositories = 0, bwt_SuccessCount = 0, bwt_FailureCount = 0, bwt_Results = [],
      bwt_ExecutionTime = []\<rparr>"

definition zero_webhook_test_result :: webhook_test_result where
  "zero_webhook_test_result =
     \<lparr>wtr_Success = False, wtr_StatusCode = 0, wtr_Response = [], wtr_Duration = [],
      wtr_Error = [], wtr_DeliveryID = [], wtr_TestedAt = 0\<rparr>"

definition zero_webhook_delivery :: webhook_delivery where
  "zero_webhook_delivery =
     \<lparr>wdl_ID = [], wdl_Event = [], wdl_Action = [], wdl_StatusCode = 0, wdl_Duration = [],
      wdl_DeliveredAt = 0, wdl_Success = False, wdl_Redelivered = False, wdl_URL = []\<rparr>"

definition zero_webhook_conditions :: webhook_conditions where
  "zero_webhook_conditions =
     \<lparr>wc2_RepositoryName = [], wc2_RepositoryPattern = [], wc2_Language = [], wc2_Topics = [],
      wc2_Visibility = [], wc2_IsArchived = None, wc2_IsTemplate = None, wc2_HasIssues = None,
      wc2_CustomFields = []\<rparr>"

definition zero_webhook_config_template :: webhook_config_template where
  "zero_webhook_config_template =
     \<lparr>wct_URL = [], wct_ContentType = [], wct_Secret = [], wct_InsecureSSL = False\<rparr>"

definition zero_webhook_template :: webhook_template where
  "zero_webhook_template =
     \<lparr>wt_Name = [], wt_URL = [], wt_Events = [], wt_Active = False,
      wt_Config = zero_webhook_config_template, wt_Variables = []\<rparr>"

definition zero_webhook_policy_rule :: webhook_policy_rule where
  "zero_webhook_policy_rule =
     \<lparr>wpr_ID = [], wpr_Name = [], wpr_Conditions = zero_webhook_conditions, wpr_Action = [],
      wpr_Template = zero_webhook_template, wpr_Enabled = False, wpr_OnConflict = []\<rparr>"

definition zero_webhook_policy :: webhook_policy where
  "zero_webhook_policy =
     \<lparr>wp2_ID = [], wp2_Name = [], wp2_Description = [], wp2_Organization = [],
      wp2_Enabled = False, wp2_Priority = 0, wp2_Rules = [], wp2_CreatedAt = 0, wp2_UpdatedAt = 0,
      wp2_CreatedBy = [], wp2_Tags = []\<rparr>"

definition zero_config_metadata :: config_metadata where
  "zero_config_metadata =
     \<lparr>cm2_Name = [], cm2_Description = [], cm2_Author = [], cm2_CreatedAt = 0, cm2_UpdatedAt = 0,
      cm2_Version = [], cm2_Tags = []\<rparr>"

definition zero_webhook_defaults :: webhook_defaults where
  "zero_webhook_defaults =
     \<lparr>wd_Events = [], wd_Active = False, wd_Config = zero_webhook_config_template,
      wd_Variables = []\<rparr>"

definition zero_notification_settings :: notification_settings where
  "zero_notification_settings =
     \<lparr>ns_OnSuccess = False, ns_OnFailure = False, ns_OnConflict = False, ns_Recipients = [],
      ns_SlackChannel = []\<rparr>"

definition zero_organization_webhook_settings :: organization_webhook_settings where
  "zero_organization_webhook_settings =
     \<lparr>ows_AllowRepositoryOverride = False, ows_RequireApproval = False,
      ows_MaxWebhooksPerRepo = 0, ows_RetryOnFailure = False,
      ows_NotificationSettings = zero_notification_settings\<rparr>"

definition zero_validation_config :: validation_config where
  "zero_validation_config =
     \<lparr>vc2_RequiredEvents = [], vc2_ForbiddenEvents = [], vc2_AllowedDomains = [],
      vc2_ForbiddenDomains = [], vc2_RequireSSL = False, vc2_RequireSecret = False\<rparr>"

definition zero_organization_webhook_config :: organization_webhook_config where
  "zero_organization_webhook_config =
     \<lparr>owc_Organization = [], owc_Version = [], owc_Metadata = zero_config_metadata,
      owc_Defaults = zero_webhook_defaults, owc_Policies = [],
      owc_Settings = zero_organization_webhook_settings, owc_Validation = zero_validation_config\<rparr>"

definition zero_policy_application_result :: policy_application_result where
  "zero_policy_application_result =
     \<lparr>par_Repository = [], par_PolicyID = [], par_RuleID = [], par_Action = [],
      par_Success = False, par_WebhookID = None, par_Error = [], par_Skipped = False,
      par_SkipReason = [], par_Changes = [], par_Duration = []\<rparr>"

definition zero_policy_application_summary :: policy_application_summary where
  "zero_policy_application_summary =
     \<lparr>pas_WebhooksCreated = 0, pas_WebhooksUpdated = 0, pas_WebhooksDeleted = 0,
      pas_ConflictsFound = 0, pas_ErrorsByType = []\<rparr>"

definition zero_apply_policies_result :: apply_policies_result where
  "zero_apply_policies_result =
     \<lparr>apr2_Organization = [], apr2_TotalRepositories = 0, apr2_ProcessedRepositories = 0,
      apr2_SuccessCount = 0, apr2_FailureCount = 0, apr2_SkippedCount = 0, apr2_Results = [],
      apr2_ExecutionTime = [], apr2_Summary = zero_policy_application_summary\<rparr>"

definition zero_planned_action :: planned_action where
  "zero_planned_action =
     \<lparr>pa2_Repository = [], pa2_PolicyID = [], pa2_RuleID = [], pa2_Action = [],
      pa2_WebhookName = [], pa2_Changes = [], pa2_Conflicts = []\<rparr>"

definition zero_policy_application_preview :: policy_application_preview where
  "zero_policy_application_preview =
     \<lparr>pap_Organization = [], pap_TotalRepositories = 0, pap_PlannedActions = [],
      pap_Conflicts = [], pap_Warnings = [], pap_Summary = zero_policy_application_summary\<rparr>"

definition zero_webhook_migration_result :: webhook_migration_result where
  "zero_webhook_migration_result =
     \<lparr>wmr_Repository = [], wmr_OldWebhookID = 0, wmr_NewWebhookID = 0, wmr_Success = False,
      wmr_Error = [], wmr_Changes = []\<rparr>"

definition zero_migration_result :: migration_result where
  "zero_migration_result =
     \<lparr>mr2_Organization = [], mr2_TotalWebhooks = 0, mr2_MigratedWebhooks = 0,
      mr2_SkippedWebhooks = 0, mr2_FailedWebhooks = 0, mr2_BackupPath = [], mr2_Results = [],
      mr2_ExecutionTime = []\<rparr>"

definition zero_sync_result :: sync_result where
  "zero_sync_result =
     \<lparr>sr2_Organization = [], sr2_TotalRepositories = 0, sr2_SyncedRepositories = 0,
      sr2_Discrepancies = [], sr2_ExecutionTime = []\<rparr>"

definition zero_compliance_report :: compliance_report where
  "zero_compliance_report =
     \<lparr>cr2_Organization = [], cr2_GeneratedAt = 0, cr2_TotalRepositories = 0,
      cr2_CompliantRepos = 0, cr2_NonCompliantRepos = 0, cr2_Violations = [],
      cr2_ComplianceScore = FNum 0, cr2_Recommendations = []\<rparr>"

definition zero_webhook_inventory_summary :: webhook_inventory_summary where
  "zero_webhook_inventory_summary =
     \<lparr>wis_ActiveWebhooks = 0, wis_InactiveWebhooks = 0, wis_DuplicateWebhooks = 0,
      wis_OrphanedWebhooks = 0, wis_HealthScore = FNum 0\<rparr>"

definition zero_webhook_inventory :: webhook_inventory where
  "zero_webhook_inventory =
     \<lparr>wi2_Organization = [], wi2_GeneratedAt = 0, wi2_TotalWebhooks = 0, wi2_WebhooksByType = [],
      wi2_WebhooksByEvent = [], wi2_Repositories = [],
      wi2_Summary = zero_webhook_inventory_summary\<rparr>"

definition zero_repository_webhook_info :: repository_webhook_info where
  "zero_repository_webhook_info =
     \<lparr>rwi_Repository = [], rwi_Webhooks = [], rwi_Compliance = [], rwi_Issues = []\<rparr>"

definition zero_webhook_validation_result :: webhook_validation_result where
  "zero_webhook_validation_result =
     \<lparr>wvr_Valid = False, wvr_Errors = [], wvr_Warnings = [], wvr_Score = 0\<rparr>"

definition zero_webhook_validation_error :: webhook_validation_error where
  "zero_webhook_validation_error =
     \<lparr>wve_Field = [], wve_Message = [], wve_Severity = [], wve_Suggestion = []\<rparr>"

definition zero_webhook_validation_warning :: webhook_validation_warning where
  "zero_webhook_validation_warning =
     \<lparr>wvw_Field = [], wvw_Message = [], wvw_Suggestion = []\<rparr>"

definition zero_apply_policies_request :: apply_policies_request where
  "zero_apply_policies_request =
     \<lparr>apr_Organization = [], apr_PolicyIDs = [], apr_RepositoryNames = [], apr_DryRun = False,
      apr_Force = False\<rparr>"

definition zero_bulk_webhook_delete_request :: bulk_webhook_delete_request where
  "zero_bulk_webhook_delete_request =
     \<lparr>bwd_Organization = [], bwd_Repositories = [], bwd_SelectBy = zero_webhook_selector,
      bwd_Filters = None\<rparr>"


end
