(* ===== verification/WebhookService.thy ===== *)
theory WebhookService
  imports WebhookTypes
begin

text \<open>
  The webhook service of \<open>pkg/github/webhook.go\<close> with the address of
  \<open>pkg/github/base_url.go\<close>.

  \<open>http\<close> sends a request to GitHub and changes the state of the service it talks to: it returns
  the status and the body of the response, or the error of building or sending the request. The JSON
  decoder of a webhook and of a list of webhooks (without null elements) are parameters. \<open>elapsed\<close>
  is the text of the times the code measures, \<open>now\<close> the clock.
\<close>

section \<open>Requests\<close>

record webhook_service =
  wsv_BaseURL :: string
  wsv_Token :: string

record hook_request =
  hrq_Method :: string
  hrq_URL :: string
  hrq_Headers :: "(string \<times> string) list"
  hrq_Body :: "go_any option"

type_synonym 's hook_http = "hook_request \<Rightarrow> 's \<Rightarrow> (string + int \<times> string) \<times> 's"
type_synonym 'a decoder = "string \<Rightarrow> string + 'a"

definition resolve_github_api_base_url :: "string \<Rightarrow> string" where
  "resolve_github_api_base_url baseURL =
     (let trimmed = trim_space baseURL in
      if trimmed = [] then ''https://api.github.com''
      else rev (dropWhile (\<lambda>c. c = CHR ''/'') (rev trimmed)))"

definition new_webhook_service_with_token_and_base_url :: "string \<Rightarrow> string \<Rightarrow> webhook_service" where
  "new_webhook_service_with_token_and_base_url token baseURL =
     \<lparr>wsv_BaseURL = resolve_github_api_base_url baseURL, wsv_Token = token\<rparr>"

definition new_webhook_service_with_base_url :: "string \<Rightarrow> webhook_service" where
  "new_webhook_service_with_base_url baseURL =
     \<lparr>wsv_BaseURL = resolve_github_api_base_url baseURL, wsv_Token = []\<rparr>"

definition set_token :: "string \<Rightarrow> webhook_service \<Rightarrow> webhook_service" where
  "set_token token w = w\<lparr>wsv_Token := token\<rparr>"

definition do_request ::
  "'s hook_http \<Rightarrow> webhook_service \<Rightarrow> string \<Rightarrow> string \<Rightarrow> go_any option \<Rightarrow> 's \<Rightarrow> (string + int \<times> string) \<times> 's" where
  "do_request http w meth url body =
     http \<lparr>hrq_Method = meth, hrq_URL = url,
       hrq_Headers = (if wsv_Token w \<noteq> [] then [(''Authorization'', ''token '' @ wsv_Token w)] else []) @
         [(''Accept'', ''application/vnd.github.v3+json''), (''Content-Type'', ''application/json''), (''User-Agent'', ''gzh-cli'')],
       hrq_Body = body\<rparr>"

text \<open>A call: the response has the expected status and decodes, or the error is wrapped.\<close>

definition hook_call ::
  "'s hook_http \<Rightarrow> webhook_service \<Rightarrow> string \<Rightarrow> string \<Rightarrow> go_any option \<Rightarrow> int \<Rightarrow> string \<Rightarrow> string \<Rightarrow> 'a decoder \<Rightarrow> 's
     \<Rightarrow> (string + 'a) \<times> 's" where
  "hook_call http w meth url body expected failure undecodable decode s =
     (case do_request http w meth url body s of
        (Inl e, s') \<Rightarrow> (Inl (failure @ '': '' @ e), s')
      | (Inr (status, text), s') \<Rightarrow>
          if status \<noteq> expected then (Inl (failure @ '': HTTP '' @ show_int status @ '' - '' @ text), s')
          else (case decode text of Inl e \<Rightarrow> (Inl (undecodable @ '': '' @ e), s') | Inr x \<Rightarrow> (Inr x, s')))"

definition repo_hooks_url :: "webhook_service \<Rightarrow> string \<Rightarrow> string \<Rightarrow> string" where
  "repo_hooks_url w owner repo = wsv_BaseURL w @ ''/repos/'' @ owner @ ''/'' @ repo @ ''/hooks''"

definition org_hooks_url :: "webhook_service \<Rightarrow> string \<Rightarrow> string" where
  "org_hooks_url w org = wsv_BaseURL w @ ''/orgs/'' @ org @ ''/hooks''"

definition validate_webhook_request :: "webhook_create_request \<Rightarrow> string option" where
  "validate_webhook_request request =
     (if whc_Name request = [] then Some ''webhook name is required''
      else if whc_URL request = [] then Some ''webhook URL is required''
      else if whc_Events request = [] then Some ''at least one event must be specified''
      else None)"

definition create_body :: "webhook_create_request \<Rightarrow> go_any" where
  "create_body request =
     (let config = whc_Config request in
      JMap [(''name'', JString ''web''), (''active'', JBool (whc_Active request)), (''events'', strings_value (whc_Events request)),
        (''config'', JMap ([(''url'', JString (whe_URL config)), (''content_type'', JString (whe_ContentType config)),
            (''insecure_ssl'', JString (if whe_InsecureSSL config then ''1'' else ''0''))] @
          (if whe_Secret config \<noteq> [] then [(''secret'', JString (whe_Secret config))] else [])))])"

definition update_body :: "webhook_update_request \<Rightarrow> go_any" where
  "update_body request =
     (let config = whu_Config request;
          given = (\<lambda>key v. if v \<noteq> [] then [(key, JString v)] else []) in
      JMap
        ((case whu_Events request of Some es \<Rightarrow> [(''events'', strings_value es)] | None \<Rightarrow> []) @
         (case whu_Active request of Some b \<Rightarrow> [(''active'', JBool b)] | None \<Rightarrow> []) @
         (if whe_URL config \<noteq> [] \<or> whe_ContentType config \<noteq> [] \<or> whe_Secret config \<noteq> []
          then [(''config'', JMap (given ''url'' (whe_URL config) @ given ''content_type'' (whe_ContentType config) @
                  given ''secret'' (whe_Secret config) @
                  [(''insecure_ssl'', JString (if whe_InsecureSSL config then ''1'' else ''0''))]))]
          else [])))"

text \<open>The field \<open>insecure_ssl\<close> of a webhook, as the JSON decoder finds it.\<close>

definition insecure_ssl_of :: "go_any \<Rightarrow> string + bool" where
  "insecure_ssl_of v =
     (case v of
        JNil \<Rightarrow> Inr False
      | JBool b \<Rightarrow> Inr b
      | JString s \<Rightarrow> Inr (s = ''1'' \<or> equal_fold s ''true'')
      | JFloat x \<Rightarrow> Inr (\<not> feq x (FNum 0))
      | _ \<Rightarrow> Inl ''unexpected insecure_ssl type'')"

section \<open>Webhooks of a repository\<close>

definition of_repository :: "string \<Rightarrow> string \<Rightarrow> webhook_info \<Rightarrow> webhook_info" where
  "of_repository owner repo webhook = webhook\<lparr>whi_Repository := owner @ ''/'' @ repo\<rparr>"

definition create_repository_webhook ::
  "'s hook_http \<Rightarrow> webhook_info decoder \<Rightarrow> webhook_service \<Rightarrow> string \<Rightarrow> string \<Rightarrow> webhook_create_request \<Rightarrow> 's
     \<Rightarrow> (string + webhook_info) \<times> 's" where
  "create_repository_webhook http decode w owner repo request s =
     (case validate_webhook_request request of
        Some e \<Rightarrow> (Inl (''invalid webhook request: '' @ e), s)
      | None \<Rightarrow>
          apfst (map_sum id (of_repository owner repo))
            (hook_call http w ''POST'' (repo_hooks_url w owner repo) (Some (create_body request)) 201
              ''failed to create webhook'' ''failed to decode webhook response'' decode s))"

definition get_repository_webhook ::
  "'s hook_http \<Rightarrow> webhook_info decoder \<Rightarrow> webhook_service \<Rightarrow> string \<Rightarrow> string \<Rightarrow> int \<Rightarrow> 's \<Rightarrow> (string + webhook_info) \<times> 's" where
  "get_repository_webhook http decode w owner repo webhookID s =
     (case do_request http w ''GET'' (repo_hooks_url w owner repo @ ''/'' @ show_int webhookID) None s of
        (Inl e, s') \<Rightarrow> (Inl (''failed to get webhook: '' @ e), s')
      | (Inr (status, text), s') \<Rightarrow>
          if status = 404 then (Inl (''webhook not found: '' @ show_int webhookID), s')
          else if status \<noteq> 200 then (Inl (''failed to get webhook: HTTP '' @ show_int status @ '' - '' @ text), s')
          else (case decode text of
                  Inl e \<Rightarrow> (Inl (''failed to decode webhook response: '' @ e), s')
                | Inr webhook \<Rightarrow> (Inr (of_repository owner repo webhook), s')))"

definition page_query :: "webhook_list_options option \<Rightarrow> string" where
  "page_query options =
     (let page = (case options of Some opt \<Rightarrow> if 0 < wlo_Page opt then wlo_Page opt else 1 | None \<Rightarrow> 1);
          perPage = (case options of Some opt \<Rightarrow> if 0 < wlo_PerPage opt then wlo_PerPage opt else 100 | None \<Rightarrow> 100)
      in ''?page='' @ show_int page @ ''&per_page='' @ show_int perPage)"

definition list_repository_webhooks ::
  "'s hook_http \<Rightarrow> webhook_info list decoder \<Rightarrow> webhook_service \<Rightarrow> string \<Rightarrow> string \<Rightarrow> webhook_list_options option \<Rightarrow> 's
     \<Rightarrow> (string + webhook_info list) \<times> 's" where
  "list_repository_webhooks http decodes w owner repo options s =
     apfst (map_sum id (map (of_repository owner repo)))
       (hook_call http w ''GET'' (repo_hooks_url w owner repo @ page_query options) None 200
         ''failed to list webhooks'' ''failed to decode webhooks response'' decodes s)"

definition update_repository_webhook ::
  "'s hook_http \<Rightarrow> webhook_info decoder \<Rightarrow> webhook_service \<Rightarrow> string \<Rightarrow> string \<Rightarrow> webhook_update_request \<Rightarrow> 's
     \<Rightarrow> (string + webhook_info) \<times> 's" where
  "update_repository_webhook http decode w owner repo request s =
     apfst (map_sum id (of_repository owner repo))
       (hook_call http w ''PATCH'' (repo_hooks_url w owner repo @ ''/'' @ show_int (whu_ID request)) (Some (update_body request)) 200
         ''failed to update webhook'' ''failed to decode webhook response'' decode s)"

definition delete_repository_webhook ::
  "'s hook_http \<Rightarrow> webhook_service \<Rightarrow> string \<Rightarrow> string \<Rightarrow> int \<Rightarrow> 's \<Rightarrow> string option \<times> 's" where
  "delete_repository_webhook http w owner repo webhookID s =
     (case do_request http w ''DELETE'' (repo_hooks_url w owner repo @ ''/'' @ show_int webhookID) None s of
        (Inl e, s') \<Rightarrow> (Some (''failed to delete webhook: '' @ e), s')
      | (Inr (status, text), s') \<Rightarrow>
          if status \<noteq> 204 then (Some (''failed to delete webhook: HTTP '' @ show_int status @ '' - '' @ text), s')
          else (None, s'))"

section \<open>Webhooks of an organisation\<close>

definition of_organization :: "string \<Rightarrow> webhook_info \<Rightarrow> webhook_info" where
  "of_organization org webhook = webhook\<lparr>whi_Organization := org\<rparr>"

definition create_organization_webhook ::
  "'s hook_http \<Rightarrow> webhook_info decoder \<Rightarrow> webhook_service \<Rightarrow> string \<Rightarrow> webhook_create_request \<Rightarrow> 's
     \<Rightarrow> (string + webhook_info) \<times> 's" where
  "create_organization_webhook http decode w org request s =
     (case validate_webhook_request request of
        Some e \<Rightarrow> (Inl (''invalid webhook request: '' @ e), s)
      | None \<Rightarrow>
          apfst (map_sum id (of_organization org))
            (hook_call http w ''POST'' (org_hooks_url w org) (Some (create_body request)) 201
              ''failed to create organization webhook'' ''failed to decode webhook response'' decode s))"

definition get_organization_webhook ::
  "'s hook_http \<Rightarrow> webhook_info decoder \<Rightarrow> webhook_service \<Rightarrow> string \<Rightarrow> int \<Rightarrow> 's \<Rightarrow> (string + webhook_info) \<times> 's" where
  "get_organization_webhook http decode w org webhookID s =
     (case do_request http w ''GET'' (org_hooks_url w org @ ''/'' @ show_int webhookID) None s of
        (Inl e, s') \<Rightarrow> (Inl (''failed to get organization webhook: '' @ e), s')
      | (Inr (status, text), s') \<Rightarrow>
          if status = 404 then (Inl (''organization webhook not found: '' @ show_int webhookID), s')
          else if status \<noteq> 200 then (Inl (''failed to get organization webhook: HTTP '' @ show_int status @ '' - '' @ text), s')
          else (case decode text of
                  Inl e \<Rightarrow> (Inl (''failed to decode webhook response: '' @ e), s')
                | Inr webhook \<Rightarrow> (Inr (of_organization org webhook), s')))"

definition list_organization_webhooks ::
  "'s hook_http \<Rightarrow> webhook_info list decoder \<Rightarrow> webhook_service \<Rightarrow> string \<Rightarrow> webhook_list_options option \<Rightarrow> 's
     \<Rightarrow> (string + webhook_info list) \<times> 's" where
  "list_organization_webhooks http decodes w org options s =
     apfst (map_sum id (map (of_organization org)))
       (hook_call http w ''GET'' (org_hooks_url w org @ page_query options) None 200
         ''failed to list organization webhooks'' ''failed to decode webhooks response'' decodes s)"

definition update_organization_webhook ::
  "'s hook_http \<Rightarrow> webhook_info decoder \<Rightarrow> webhook_service \<Rightarrow> string \<Rightarrow> webhook_update_request \<Rightarrow> 's
     \<Rightarrow> (string + webhook_info) \<times> 's" where
  "update_organization_webhook http decode w org request s =
     apfst (map_sum id (of_organization org))
       (hook_call http w ''PATCH'' (org_hooks_url w org @ ''/'' @ show_int (whu_ID request)) (Some (update_body request)) 200
         ''failed to update organization webhook'' ''failed to decode webhook response'' decode s)"

definition delete_organization_webhook ::
  "'s hook_http \<Rightarrow> webhook_service \<Rightarrow> string \<Rightarrow> int \<Rightarrow> 's \<Rightarrow> string option \<times> 's" where
  "delete_organization_webhook http w org webhookID s =
     (case do_request http w ''DELETE'' (org_hooks_url w org @ ''/'' @ show_int webhookID) None s of
        (Inl e, s') \<Rightarrow> (Some (''failed to delete organization webhook: '' @ e), s')
      | (Inr (status, text), s') \<Rightarrow>
          if status \<noteq> 204 then (Some (''failed to delete organization webhook: HTTP '' @ show_int status @ '' - '' @ text), s')
          else (None, s'))"


section \<open>Bulk operations\<close>

definition webhook_matches_selector :: "webhook_info \<Rightarrow> webhook_selector \<Rightarrow> bool" where
  "webhook_matches_selector webhook selector \<longleftrightarrow>
     (if wsl_ByName selector \<noteq> [] \<and> whi_Name webhook \<noteq> wsl_ByName selector then False
      else if wsl_ByURL selector \<noteq> [] \<and> whi_URL webhook \<noteq> wsl_ByURL selector then False
      else if wsl_Active selector \<noteq> None \<and> wsl_Active selector \<noteq> Some (whi_Active webhook) then False
      else list_all (\<lambda>event. event \<in> set (whi_Events webhook)) (wsl_ByEvents selector))"

text \<open>Without a list of repositories the code takes two fixed names.\<close>

definition bulk_repositories :: "string list \<Rightarrow> string list" where
  "bulk_repositories repositories = (if repositories = [] then [''repo1'', ''repo2''] else repositories)"

definition count_operation :: "webhook_operation_result \<Rightarrow> bulk_webhook_result \<Rightarrow> bulk_webhook_result" where
  "count_operation op result =
     (if wor_Success op then result\<lparr>bwt_SuccessCount := bwt_SuccessCount result + 1, bwt_Results := bwt_Results result @ [op]\<rparr>
      else result\<lparr>bwt_FailureCount := bwt_FailureCount result + 1, bwt_Results := bwt_Results result @ [op]\<rparr>)"

definition webhook_operation :: "string \<Rightarrow> string \<Rightarrow> string \<Rightarrow> string + webhook_info option \<Rightarrow> webhook_operation_result" where
  "webhook_operation elapsed operation repo outcome =
     (let start = zero_webhook_operation_result\<lparr>wor_Repository := repo, wor_Operation := operation, wor_Duration := elapsed\<rparr> in
      case outcome of
        Inl e \<Rightarrow> start\<lparr>wor_Success := False, wor_Error := e\<rparr>
      | Inr webhook \<Rightarrow> start\<lparr>wor_Success := True, wor_WebhookInfo := webhook\<rparr>)"

fun create_webhooks ::
  "'s hook_http \<Rightarrow> webhook_info decoder \<Rightarrow> webhook_service \<Rightarrow> string \<Rightarrow> bulk_webhook_request \<Rightarrow> string list
     \<Rightarrow> bulk_webhook_result \<Rightarrow> 's \<Rightarrow> bulk_webhook_result \<times> 's" where
  "create_webhooks http decode w elapsed request [] result s = (result, s)"
| "create_webhooks http decode w elapsed request (repo # repos) result s =
     (case create_repository_webhook http decode w (bwr_Organization request) repo (bwr_Template request) s of
        (outcome, s') \<Rightarrow>
          create_webhooks http decode w elapsed request repos
            (count_operation (webhook_operation elapsed ''create'' repo (map_sum id Some outcome)) result) s')"

definition bulk_create_webhooks ::
  "'s hook_http \<Rightarrow> webhook_info decoder \<Rightarrow> webhook_service \<Rightarrow> string \<Rightarrow> bulk_webhook_request \<Rightarrow> 's \<Rightarrow> bulk_webhook_result \<times> 's" where
  "bulk_create_webhooks http decode w elapsed request s =
     (let repositories = bulk_repositories (bwr_Repositories request) in
      apfst (\<lambda>result. result\<lparr>bwt_ExecutionTime := elapsed\<rparr>)
        (create_webhooks http decode w elapsed request repositories
          (zero_bulk_webhook_result\<lparr>bwt_TotalRepositories := int (length repositories)\<rparr>) s))"

text \<open>The selected webhooks of one repository, treated one after the other by \<open>act\<close>.\<close>

fun treat_webhooks ::
  "(webhook_info \<Rightarrow> 's \<Rightarrow> (string + webhook_info option) \<times> 's) \<Rightarrow> string \<Rightarrow> string \<Rightarrow> string \<Rightarrow> webhook_selector
     \<Rightarrow> webhook_info list \<Rightarrow> bulk_webhook_result \<Rightarrow> 's \<Rightarrow> bulk_webhook_result \<times> 's" where
  "treat_webhooks act elapsed operation repo selector [] result s = (result, s)"
| "treat_webhooks act elapsed operation repo selector (existing # rest) result s =
     (if webhook_matches_selector existing selector
      then (case act existing s of
              (outcome, s') \<Rightarrow>
                treat_webhooks act elapsed operation repo selector rest
                  (count_operation (webhook_operation elapsed operation repo outcome) result) s')
      else treat_webhooks act elapsed operation repo selector rest result s)"

fun treat_repositories ::
  "(string \<Rightarrow> 's \<Rightarrow> (string + webhook_info list) \<times> 's) \<Rightarrow> (string \<Rightarrow> webhook_info \<Rightarrow> 's \<Rightarrow> (string + webhook_info option) \<times> 's)
     \<Rightarrow> string \<Rightarrow> string \<Rightarrow> webhook_selector \<Rightarrow> string list \<Rightarrow> bulk_webhook_result \<Rightarrow> 's \<Rightarrow> bulk_webhook_result \<times> 's" where
  "treat_repositories listed act elapsed operation selector [] result s = (result, s)"
| "treat_repositories listed act elapsed operation selector (repo # repos) result s =
     (case listed repo s of
        (Inl e, s') \<Rightarrow> treat_repositories listed act elapsed operation selector repos result s'
      | (Inr existing, s') \<Rightarrow>
          (case treat_webhooks (act repo) elapsed operation repo selector existing result s' of
             (result', s'') \<Rightarrow> treat_repositories listed act elapsed operation selector repos result' s''))"

definition bulk_update_webhooks ::
  "'s hook_http \<Rightarrow> webhook_info decoder \<Rightarrow> webhook_info list decoder \<Rightarrow> webhook_service \<Rightarrow> string
     \<Rightarrow> bulk_webhook_update_request \<Rightarrow> 's \<Rightarrow> bulk_webhook_result \<times> 's" where
  "bulk_update_webhooks http decode decodes w elapsed request s =
     (let repositories = bulk_repositories (bwu_Repositories request) in
      apfst (\<lambda>result. result\<lparr>bwt_ExecutionTime := elapsed\<rparr>)
        (treat_repositories (\<lambda>repo. list_repository_webhooks http decodes w (bwu_Organization request) repo None)
          (\<lambda>repo existing s'. apfst (map_sum id Some)
            (update_repository_webhook http decode w (bwu_Organization request) repo
              ((bwu_Template request)\<lparr>whu_ID := whi_ID existing\<rparr>) s'))
          elapsed ''update'' (bwu_SelectBy request) repositories
          (zero_bulk_webhook_result\<lparr>bwt_TotalRepositories := int (length repositories)\<rparr>) s))"

definition bulk_delete_webhooks ::
  "'s hook_http \<Rightarrow> webhook_info list decoder \<Rightarrow> webhook_service \<Rightarrow> string \<Rightarrow> bulk_webhook_delete_request \<Rightarrow> 's
     \<Rightarrow> bulk_webhook_result \<times> 's" where
  "bulk_delete_webhooks http decodes w elapsed request s =
     (let repositories = bulk_repositories (bwd_Repositories request) in
      apfst (\<lambda>result. result\<lparr>bwt_ExecutionTime := elapsed\<rparr>)
        (treat_repositories (\<lambda>repo. list_repository_webhooks http decodes w (bwd_Organization request) repo None)
          (\<lambda>repo existing s'. apfst (\<lambda>err. case err of Some e \<Rightarrow> Inl e | None \<Rightarrow> Inr None)
            (delete_repository_webhook http w (bwd_Organization request) repo (whi_ID existing) s'))
          elapsed ''delete'' (bwd_SelectBy request) repositories
          (zero_bulk_webhook_result\<lparr>bwt_TotalRepositories := int (length repositories)\<rparr>) s))"

definition test_webhook :: "int \<Rightarrow> string \<Rightarrow> int \<Rightarrow> webhook_test_result" where
  "test_webhook now elapsed webhookID =
     \<lparr>wtr_Success = True, wtr_StatusCode = 200, wtr_Response = ''OK'', wtr_Duration = elapsed, wtr_Error = [],
      wtr_DeliveryID = ''test-'' @ show_int webhookID @ ''-'' @ show_int (now div nanosecond_second), wtr_TestedAt = now\<rparr>"

definition get_webhook_deliveries :: "int \<Rightarrow> webhook_delivery list" where
  "get_webhook_deliveries now =
     (let hour = 3600 * nanosecond_second in
      [\<lparr>wdl_ID = ''12345678-1234-1234-1234-123456789012'', wdl_Event = ''push'', wdl_Action = ''synchronize'',
        wdl_StatusCode = 200, wdl_Duration = ''150ms'', wdl_DeliveredAt = now - 2 * hour, wdl_Success = True,
        wdl_Redelivered = False, wdl_URL = ''https://example.com/webhook''\<rparr>,
       \<lparr>wdl_ID = ''87654321-4321-4321-4321-210987654321'', wdl_Event = ''pull_request'', wdl_Action = ''opened'',
        wdl_StatusCode = 200, wdl_Duration = ''230ms'', wdl_DeliveredAt = now - 6 * hour, wdl_Success = True,
        wdl_Redelivered = False, wdl_URL = ''https://example.com/webhook''\<rparr>])"

section \<open>What a request says\<close>

text \<open>The fields of a request body, looked up by name.\<close>

fun body_field :: "go_any \<Rightarrow> string \<Rightarrow> go_any option" where
  "body_field (JMap kvs) key = gm_get kvs key"
| "body_field v key = None"

text \<open>
  The URL that is validated is not the one that is sent: a request with a name, an event and a URL
  passes whatever the URL of its configuration, which alone is sent.
\<close>

lemma create_sends_unchecked_url:
  assumes "validate_webhook_request request = None" and "whe_URL (whc_Config request) = []"
  shows "\<exists>config. body_field (create_body request) ''config'' = Some config \<and> body_field config ''url'' = Some (JString [])"
  using assms(2) by (simp add: create_body_def Let_def)

text \<open>An update that changes the secret alone also turns the verification of certificates on or off.\<close>

lemma update_resets_ssl:
  assumes "whe_Secret (whu_Config request) \<noteq> []"
  shows "\<exists>config. body_field (update_body request) ''config'' = Some config \<and>
    body_field config ''insecure_ssl'' = Some (JString (if whe_InsecureSSL (whu_Config request) then ''1'' else ''0''))"
  using assms by (simp add: update_body_def Let_def split: option.splits)

text \<open>What is written as \<open>insecure_ssl\<close> reads back.\<close>

lemma insecure_ssl_roundtrip: "insecure_ssl_of (JString (if b then ''1'' else ''0'')) = Inr b"
  by (cases b) (simp_all add: insecure_ssl_of_def, code_simp)

lemma empty_selector_matches: "webhook_matches_selector webhook zero_webhook_selector"
  by (simp add: webhook_matches_selector_def zero_webhook_selector_def)

end
