(* ===== verification/WebhookBulk.thy ===== *)
theory WebhookBulk
  imports WebhookService
begin

text \<open>
  What a bulk deletion of webhooks does to the service. The service is described by the webhooks
  \<open>hooks\<close> it holds for each repository: it lists the first hundred for the request the code sends,
  and a deletion removes the webhook with the given identifier. These are the documented answers of
  the GitHub interface; the premises say no more.
\<close>

lemma matches_of_repository [simp]:
  "webhook_matches_selector (of_repository owner repo webhook) selector = webhook_matches_selector webhook selector"
  "whi_ID (of_repository owner repo webhook) = whi_ID webhook"
  by (simp_all add: webhook_matches_selector_def of_repository_def)

definition hooks_listed ::
  "'s hook_http \<Rightarrow> webhook_info list decoder \<Rightarrow> webhook_service \<Rightarrow> string \<Rightarrow> ('s \<Rightarrow> string \<Rightarrow> webhook_info list) \<Rightarrow> bool" where
  "hooks_listed http decodes w org hooks \<longleftrightarrow>
     (\<forall>s repo. \<exists>body. do_request http w ''GET'' (repo_hooks_url w org repo @ ''?page=1&per_page=100'') None s = (Inr (200, body), s) \<and>
        decodes body = Inr (take 100 (hooks s repo)))"

definition hooks_deleted ::
  "'s hook_http \<Rightarrow> webhook_service \<Rightarrow> string \<Rightarrow> ('s \<Rightarrow> string \<Rightarrow> webhook_info list) \<Rightarrow> bool" where
  "hooks_deleted http w org hooks \<longleftrightarrow>
     (\<forall>s repo i. i \<in> whi_ID ` set (hooks s repo) \<longrightarrow>
        (\<exists>body s'. do_request http w ''DELETE'' (repo_hooks_url w org repo @ ''/'' @ show_int i) None s = (Inr (204, body), s') \<and>
           hooks s' = (hooks s)(repo := filter (\<lambda>h. whi_ID h \<noteq> i) (hooks s repo))))"

lemma page_query_None: "page_query None = ''?page=1&per_page=100''"
  by code_simp

lemma list_first_page:
  assumes "hooks_listed http decodes w org hooks"
  shows "list_repository_webhooks http decodes w org repo None s = (Inr (map (of_repository org repo) (take 100 (hooks s repo))), s)"
proof -
  obtain body where "do_request http w ''GET'' (repo_hooks_url w org repo @ ''?page=1&per_page=100'') None s = (Inr (200, body), s)"
    "decodes body = Inr (take 100 (hooks s repo))"
    using assms unfolding hooks_listed_def by blast
  then show ?thesis by (simp add: list_repository_webhooks_def hook_call_def page_query_None)
qed

abbreviation delete_one ::
  "'s hook_http \<Rightarrow> webhook_service \<Rightarrow> string \<Rightarrow> string \<Rightarrow> webhook_info \<Rightarrow> 's \<Rightarrow> (string + webhook_info option) \<times> 's" where
  "delete_one http w org repo existing s \<equiv>
     apfst (\<lambda>err. case err of Some e \<Rightarrow> Inl e | None \<Rightarrow> Inr None) (delete_repository_webhook http w org repo (whi_ID existing) s)"

lemma delete_listed:
  assumes "hooks_deleted http w org hooks" and "whi_ID h \<in> whi_ID ` set (hooks s repo)"
  shows "\<exists>s'. delete_one http w org repo h s = (Inr None, s') \<and>
    hooks s' = (hooks s)(repo := filter (\<lambda>x. whi_ID x \<noteq> whi_ID h) (hooks s repo))"
proof -
  obtain body s' where "do_request http w ''DELETE'' (repo_hooks_url w org repo @ ''/'' @ show_int (whi_ID h)) None s = (Inr (204, body), s')"
    "hooks s' = (hooks s)(repo := filter (\<lambda>x. whi_ID x \<noteq> whi_ID h) (hooks s repo))"
    using assms unfolding hooks_deleted_def by blast
  then show ?thesis by (intro exI [of _ s']) (simp add: delete_repository_webhook_def)
qed

lemma count_success: "count_operation (webhook_operation elapsed operation repo (Inr v)) r =
    r\<lparr>bwt_SuccessCount := bwt_SuccessCount r + 1, bwt_Results := bwt_Results r @ [webhook_operation elapsed operation repo (Inr v)]\<rparr>"
  by (simp add: count_operation_def webhook_operation_def Let_def)

definition all_succeeded :: "bulk_webhook_result \<Rightarrow> bool" where
  "all_succeeded r \<longleftrightarrow> bwt_FailureCount r = 0 \<and> bwt_SuccessCount r = int (length (bwt_Results r)) \<and> list_all wor_Success (bwt_Results r)"

lemma all_succeeded_step:
  "all_succeeded r \<Longrightarrow> all_succeeded (count_operation (webhook_operation elapsed operation repo (Inr v)) r)"
  unfolding count_success by (simp add: all_succeeded_def webhook_operation_def Let_def)

lemma delete_webhooks:
  assumes "hooks_deleted http w org hooks" and "all_succeeded r"
    and "distinct (map whi_ID es)" and "whi_ID ` set es \<subseteq> whi_ID ` set (hooks s repo)"
  shows "\<exists>r' s'. treat_webhooks (delete_one http w org repo) elapsed ''delete'' repo selector es r s = (r', s') \<and>
    all_succeeded r' \<and> bwt_SuccessCount r' = bwt_SuccessCount r + int (length (filter (\<lambda>h. webhook_matches_selector h selector) es)) \<and>
    bwt_TotalRepositories r' = bwt_TotalRepositories r \<and>
    hooks s' = (hooks s)(repo := filter (\<lambda>x. whi_ID x \<notin> whi_ID ` set (filter (\<lambda>h. webhook_matches_selector h selector) es)) (hooks s repo))"
  using assms(2-4)
proof (induction es arbitrary: r s)
  case (Cons e es)
  show ?case
  proof (cases "webhook_matches_selector e selector")
    case True
    obtain s1 where s1: "delete_one http w org repo e s = (Inr None, s1)"
      "hooks s1 = (hooks s)(repo := filter (\<lambda>x. whi_ID x \<noteq> whi_ID e) (hooks s repo))"
      using delete_listed [OF assms(1), of e s repo] Cons.prems(3) by auto
    let ?r = "count_operation (webhook_operation elapsed ''delete'' repo (Inr None)) r"
    have sub: "whi_ID ` set es \<subseteq> whi_ID ` set (hooks s1 repo)"
    proof
      fix i assume i: "i \<in> whi_ID ` set es"
      then obtain h where h: "h \<in> set (hooks s repo)" "whi_ID h = i" using Cons.prems(3) by auto
      have "i \<noteq> whi_ID e" using Cons.prems(2) i unfolding list.map distinct.simps set_map by blast
      then have "h \<in> set (hooks s1 repo)" using h by (simp add: s1(2))
      then show "i \<in> whi_ID ` set (hooks s1 repo)" using h(2) by blast
    qed
    have d: "distinct (map whi_ID es)" using Cons.prems(2) by simp
    obtain r' s' where r: "treat_webhooks (delete_one http w org repo) elapsed ''delete'' repo selector es ?r s1 = (r', s')"
      "all_succeeded r'" "bwt_SuccessCount r' = bwt_SuccessCount ?r + int (length (filter (\<lambda>h. webhook_matches_selector h selector) es))"
      "bwt_TotalRepositories r' = bwt_TotalRepositories ?r"
      "hooks s' = (hooks s1)(repo := filter (\<lambda>x. whi_ID x \<notin> whi_ID ` set (filter (\<lambda>h. webhook_matches_selector h selector) es)) (hooks s1 repo))"
      using Cons.IH [OF all_succeeded_step [OF Cons.prems(1), of elapsed "''delete''" repo None] d sub] by blast
    have "hooks s' = (hooks s)(repo := filter (\<lambda>x. whi_ID x \<notin>
        whi_ID ` set (filter (\<lambda>h. webhook_matches_selector h selector) (e # es))) (hooks s repo))"
      unfolding r(5) s1(2) using True by (simp add: conj_commute)
    then show ?thesis
      using True s1(1) r(1-4) by (intro exI [of _ r'] exI [of _ s']) (simp add: count_success)
  next
    case False
    then show ?thesis using Cons.IH [OF Cons.prems(1), of s] Cons.prems(2,3) by simp
  qed
qed auto

lemma deleted_page:
  assumes "distinct (map whi_ID hs)"
  shows "filter (\<lambda>x. whi_ID x \<notin> whi_ID ` set (filter P (take n hs))) hs = filter (\<lambda>x. \<not> P x) (take n hs) @ drop n hs"
proof -
  have d: "distinct (map whi_ID (take n hs @ drop n hs))" using assms by simp
  have "filter (\<lambda>x. whi_ID x \<notin> whi_ID ` set (filter P (take n hs))) (take n hs @ drop n hs) =
      filter (\<lambda>x. whi_ID x \<notin> whi_ID ` set (filter P (take n hs))) (take n hs) @
      filter (\<lambda>x. whi_ID x \<notin> whi_ID ` set (filter P (take n hs))) (drop n hs)" by (rule filter_append)
  moreover have "filter (\<lambda>x. whi_ID x \<notin> whi_ID ` set (filter P (take n hs))) (take n hs) = filter (\<lambda>x. \<not> P x) (take n hs)"
    using d unfolding map_append distinct_append by (intro filter_cong refl) (auto dest: distinct_map [THEN iffD1, THEN conjunct2, THEN inj_onD])
  moreover have "filter (\<lambda>x. whi_ID x \<notin> whi_ID ` set (filter P (take n hs))) (drop n hs) = drop n hs"
    using d unfolding map_append distinct_append by (intro filter_True ballI) auto
  ultimately show ?thesis by simp
qed

definition page_left :: "webhook_selector \<Rightarrow> webhook_info list \<Rightarrow> webhook_info list" where
  "page_left selector hs = filter (\<lambda>h. \<not> webhook_matches_selector h selector) (take 100 hs) @ drop 100 hs"

lemma delete_repositories:
  assumes "hooks_listed http decodes w org hooks" and "hooks_deleted http w org hooks"
    and "all_succeeded r" and "distinct repos" and "\<And>repo. distinct (map whi_ID (hooks s repo))"
  shows "\<exists>r' s'. treat_repositories (\<lambda>repo. list_repository_webhooks http decodes w org repo None) (delete_one http w org)
      elapsed ''delete'' selector repos r s = (r', s') \<and> all_succeeded r' \<and>
    bwt_SuccessCount r' = bwt_SuccessCount r +
      sum_list (map (\<lambda>repo. int (length (filter (\<lambda>h. webhook_matches_selector h selector) (take 100 (hooks s repo))))) repos) \<and>
    bwt_TotalRepositories r' = bwt_TotalRepositories r \<and>
    (\<forall>repo. hooks s' repo = (if repo \<in> set repos then page_left selector (hooks s repo) else hooks s repo))"
  using assms(3-5)
proof (induction repos arbitrary: r s)
  case (Cons repo repos)
  let ?es = "map (of_repository org repo) (take 100 (hooks s repo))"
  have ids: "map whi_ID ?es = take 100 (map whi_ID (hooks s repo))" by (simp add: take_map o_def)
  have "distinct (map whi_ID ?es)" unfolding ids using Cons.prems(3) by simp
  moreover have "whi_ID ` set ?es \<subseteq> whi_ID ` set (hooks s repo)"
    using set_take_subset [of 100 "hooks s repo"] by auto
  ultimately obtain r1 s1 where d: "treat_webhooks (delete_one http w org repo) elapsed ''delete'' repo selector ?es r s = (r1, s1)"
    "all_succeeded r1" "bwt_SuccessCount r1 = bwt_SuccessCount r + int (length (filter (\<lambda>h. webhook_matches_selector h selector) ?es))"
    "bwt_TotalRepositories r1 = bwt_TotalRepositories r"
    "hooks s1 = (hooks s)(repo := filter (\<lambda>x. whi_ID x \<notin> whi_ID ` set (filter (\<lambda>h. webhook_matches_selector h selector) ?es)) (hooks s repo))"
    using delete_webhooks [OF assms(2) Cons.prems(1), of ?es s repo elapsed selector] by blast
  have "whi_ID ` set (filter (\<lambda>h. webhook_matches_selector h selector) ?es) =
      whi_ID ` set (filter (\<lambda>h. webhook_matches_selector h selector) (take 100 (hooks s repo)))"
    by (simp add: filter_map o_def image_image)
  then have h1: "hooks s1 = (hooks s)(repo := page_left selector (hooks s repo))"
    unfolding d(5) page_left_def using deleted_page [OF Cons.prems(3)] by simp
  have n: "length (filter (\<lambda>h. webhook_matches_selector h selector) ?es) =
      length (filter (\<lambda>h. webhook_matches_selector h selector) (take 100 (hooks s repo)))" by (simp add: filter_map o_def)
  have "distinct (map whi_ID (page_left selector (hooks s repo)))"
    using Cons.prems(3) [of repo] deleted_page [OF Cons.prems(3)] distinct_map_filter unfolding page_left_def by metis
  then have "\<And>x. distinct (map whi_ID (hooks s1 x))" using Cons.prems(3) h1 by simp
  with Cons.IH [OF d(2), of s1] Cons.prems(2)
  obtain r' s' where r: "treat_repositories (\<lambda>repo. list_repository_webhooks http decodes w org repo None) (delete_one http w org)
      elapsed ''delete'' selector repos r1 s1 = (r', s')" "all_succeeded r'"
    "bwt_SuccessCount r' = bwt_SuccessCount r1 +
      sum_list (map (\<lambda>repo. int (length (filter (\<lambda>h. webhook_matches_selector h selector) (take 100 (hooks s1 repo))))) repos)"
    "bwt_TotalRepositories r' = bwt_TotalRepositories r1"
    "\<forall>x. hooks s' x = (if x \<in> set repos then page_left selector (hooks s1 x) else hooks s1 x)"
    by auto
  have same: "map (\<lambda>repo. int (length (filter (\<lambda>h. webhook_matches_selector h selector) (take 100 (hooks s1 repo))))) repos =
      map (\<lambda>repo. int (length (filter (\<lambda>h. webhook_matches_selector h selector) (take 100 (hooks s repo))))) repos"
    using Cons.prems(2) h1 by (intro map_cong refl) auto
  show ?case
    using list_first_page [OF assms(1), of repo s] d(1,3,4) r n h1 Cons.prems(2) unfolding same
    by (intro exI [of _ r'] exI [of _ s']) auto
qed simp

text \<open>Property C31. Against a service that answers, a bulk deletion for a list of repositories removes
  from each the selected webhooks among the first hundred and no other, leaves every other repository
  alone, and counts exactly these deletions as successes and nothing as a failure. What lies beyond
  the first page is never removed; without a list of repositories the two names ``repo1'' and
  ``repo2'' are treated instead of the organisation's repositories.\<close>

theorem bulk_delete_first_page:
  fixes hooks :: "'s \<Rightarrow> string \<Rightarrow> webhook_info list"
  assumes "hooks_listed http decodes w (bwd_Organization request) hooks"
    and "hooks_deleted http w (bwd_Organization request) hooks"
    and "\<And>repo. distinct (map whi_ID (hooks s repo))" and "distinct (bwd_Repositories request)"
  defines "repos \<equiv> (if bwd_Repositories request = [] then [''repo1'', ''repo2''] else bwd_Repositories request)"
    and "selected \<equiv> \<lambda>h. webhook_matches_selector h (bwd_SelectBy request)"
  shows "\<exists>result s'. bulk_delete_webhooks http decodes w elapsed request s = (result, s') \<and>
    (\<forall>repo. hooks s' repo =
      (if repo \<in> set repos then filter (\<lambda>h. \<not> selected h) (take 100 (hooks s repo)) @ drop 100 (hooks s repo) else hooks s repo)) \<and>
    bwt_TotalRepositories result = int (length repos) \<and> bwt_FailureCount result = 0 \<and>
    bwt_SuccessCount result = sum_list (map (\<lambda>repo. int (length (filter selected (take 100 (hooks s repo))))) repos) \<and>
    list_all wor_Success (bwt_Results result)"
proof -
  let ?r = "zero_bulk_webhook_result\<lparr>bwt_TotalRepositories := int (length repos)\<rparr>"
  have b: "bulk_repositories (bwd_Repositories request) = repos" by (simp add: bulk_repositories_def repos_def)
  have "distinct repos" using assms(4) by (simp add: repos_def)
  moreover have "all_succeeded ?r" by (simp add: all_succeeded_def zero_bulk_webhook_result_def)
  ultimately obtain r' s' where r: "treat_repositories (\<lambda>repo. list_repository_webhooks http decodes w (bwd_Organization request) repo None)
      (delete_one http w (bwd_Organization request)) elapsed ''delete'' (bwd_SelectBy request) repos ?r s = (r', s')"
    "all_succeeded r'" "bwt_SuccessCount r' = bwt_SuccessCount ?r +
      sum_list (map (\<lambda>repo. int (length (filter (\<lambda>h. webhook_matches_selector h (bwd_SelectBy request)) (take 100 (hooks s repo))))) repos)"
    "bwt_TotalRepositories r' = bwt_TotalRepositories ?r"
    "\<forall>repo. hooks s' repo = (if repo \<in> set repos then page_left (bwd_SelectBy request) (hooks s repo) else hooks s repo)"
    using delete_repositories [OF assms(1,2) _ _ assms(3), of ?r repos elapsed "bwd_SelectBy request"] by blast
  have "bulk_delete_webhooks http decodes w elapsed request s = (r'\<lparr>bwt_ExecutionTime := elapsed\<rparr>, s')"
    using r(1) by (simp add: bulk_delete_webhooks_def b Let_def)
  then show ?thesis
    using r by (intro exI [of _ "r'\<lparr>bwt_ExecutionTime := elapsed\<rparr>"] exI [of _ s'])
      (simp add: selected_def page_left_def all_succeeded_def zero_bulk_webhook_result_def)
qed


text \<open>
  A service with one repository: its state is a text, each character a webhook with the
  character's number as identifier, and the body of a list is the characters themselves.
\<close>

definition letter_hook :: "char \<Rightarrow> webhook_info" where
  "letter_hook c = zero_webhook_info\<lparr>whi_ID := of_char c\<rparr>"

definition letter_hooks :: "string \<Rightarrow> string \<Rightarrow> webhook_info list" where
  "letter_hooks s repo = (if repo = ''r'' then map letter_hook s else [])"

definition sample_service :: webhook_service where
  "sample_service = new_webhook_service_with_base_url []"

definition letter_http :: "string hook_http" where
  "letter_http req s =
     (let base = repo_hooks_url sample_service ''o'' ''r'' in
      if hrq_Method req = ''GET'' then
        (Inr (200, if hrq_URL req = base @ ''?page=1&per_page=100'' then take 100 s else []), s)
      else (Inr (204, []), filter (\<lambda>c. hrq_URL req \<noteq> base @ ''/'' @ show_int (of_char c)) s))"

definition letter_decode :: "webhook_info list decoder" where
  "letter_decode body = Inr (map letter_hook body)"

lemma show_int_inject: "\<bar>i\<bar> < 2 ^ 63 \<Longrightarrow> \<bar>j\<bar> < 2 ^ 63 \<Longrightarrow> show_int i = show_int j \<longleftrightarrow> i = j"
proof
  assume b: "\<bar>i\<bar> < 2 ^ 63" "\<bar>j\<bar> < 2 ^ 63" and e: "show_int i = show_int j"
  have r: "- (2 ^ 63) \<le> i" "i < 2 ^ 63" "- (2 ^ 63) \<le> j" "j < 2 ^ 63" using b by linarith+
  have "atoi (show_int i) = Some i" by (rule atoi_show_int [OF r(1,2)])
  moreover have "atoi (show_int j) = Some j" by (rule atoi_show_int [OF r(3,4)])
  ultimately have "Some i = Some j" unfolding e by (rule trans [OF sym])
  then show "i = j" by (rule option.inject [THEN iffD1])
qed simp

lemma of_char_small: "\<bar>of_char c :: int\<bar> < 2 ^ 63"
proof -
  have "(of_char c :: nat) \<in> range of_char" by simp
  then have "(of_char c :: nat) < 256" unfolding range_nat_of_char by simp
  then have "int (of_char c) < 256" by simp
  moreover have "0 \<le> int (of_char c)" by (rule of_nat_0_le_iff)
  ultimately have "0 \<le> (of_char c :: int)" "(of_char c :: int) < 256" unfolding of_nat_of_char by simp_all
  then show ?thesis by (simp only: abs_of_nonneg) simp
qed

lemma letter_listed: "hooks_listed letter_http letter_decode sample_service ''o'' letter_hooks"
  by (auto simp: hooks_listed_def letter_http_def do_request_def Let_def letter_decode_def letter_hooks_def take_map repo_hooks_url_def)

lemma letter_deleted: "hooks_deleted letter_http sample_service ''o'' letter_hooks"
proof -
  have "filter (\<lambda>c. show_int (whi_ID (letter_hook d)) \<noteq> show_int (of_char c)) s = filter (\<lambda>c. c \<noteq> d) s" for d s
    using show_int_inject [OF of_char_small of_char_small] by (intro filter_cong) (auto simp: letter_hook_def)
  then show ?thesis
    by (auto simp: hooks_deleted_def letter_http_def do_request_def Let_def letter_hooks_def repo_hooks_url_def filter_map o_def
        fun_eq_iff letter_hook_def split: if_splits)
qed

lemma bulk_delete_first_page_witness:
  "letter_hooks (snd (bulk_delete_webhooks letter_http letter_decode sample_service []
      (zero_bulk_webhook_delete_request\<lparr>bwd_Organization := ''o'', bwd_Repositories := [''r'']\<rparr>) ''abc'')) ''r'' = []"
proof -
  let ?req = "zero_bulk_webhook_delete_request\<lparr>bwd_Organization := ''o'', bwd_Repositories := [''r'']\<rparr>"
  have sel: "bwd_SelectBy ?req = zero_webhook_selector" by (simp add: zero_bulk_webhook_delete_request_def)
  have "distinct (map whi_ID (map letter_hook ''abc''))" by code_simp
  then have d: "distinct (map whi_ID (letter_hooks ''abc'' repo))" for repo by (simp add: letter_hooks_def)
  have l: "hooks_listed letter_http letter_decode sample_service (bwd_Organization ?req) letter_hooks"
    "hooks_deleted letter_http sample_service (bwd_Organization ?req) letter_hooks" "distinct (bwd_Repositories ?req)"
    using letter_listed letter_deleted by simp_all
  obtain result s' where r: "bulk_delete_webhooks letter_http letter_decode sample_service [] ?req ''abc'' = (result, s')"
    "\<forall>repo. letter_hooks s' repo = (if repo \<in> set (if bwd_Repositories ?req = [] then [''repo1'', ''repo2''] else bwd_Repositories ?req)
      then filter (\<lambda>h. \<not> webhook_matches_selector h (bwd_SelectBy ?req)) (take 100 (letter_hooks ''abc'' repo)) @
        drop 100 (letter_hooks ''abc'' repo) else letter_hooks ''abc'' repo)"
    using bulk_delete_first_page [where request = ?req and s = "''abc''" and hooks = letter_hooks and http = letter_http
        and decodes = letter_decode and w = sample_service and elapsed = "[]", OF l(1,2) d l(3)] by (elim exE conjE) (rule that, assumption+)
  have "letter_hooks s' ''r'' = []" using r(2) [rule_format, of "''r''"] by (simp add: sel empty_selector_matches letter_hooks_def)
  then show ?thesis using r(1) by simp
qed

end
