(* ===== verification/WebhookPolicies.thy ===== *)
theory WebhookPolicies
  imports WebhookTypes ActionsRules DependabotTypes
begin

text \<open>
  The webhook configuration service, \<open>pkg/github/webhook_config_impl.go\<close>.

  The storage is a record of the operations of \<open>ConfigStorage\<close> on a state of its own; reading does
  not change it. \<open>matches\<close> is \<open>regexp.MatchString\<close>, \<open>list_repos\<close> the API client or nothing
  when there is none, \<open>now\<close> the clock and \<open>elapsed\<close> the text of measured times.
\<close>

section \<open>Storage and errors\<close>

datatype storage_error = OrganizationConfigNotFound string | StorageFailure string

record 's config_storage =
  cst_SavePolicy :: "webhook_policy \<Rightarrow> 's \<Rightarrow> storage_error option \<times> 's"
  cst_GetPolicy :: "string \<Rightarrow> string \<Rightarrow> 's \<Rightarrow> storage_error + webhook_policy"
  cst_ListPolicies :: "string \<Rightarrow> 's \<Rightarrow> storage_error + webhook_policy list"
  cst_DeletePolicy :: "string \<Rightarrow> string \<Rightarrow> 's \<Rightarrow> storage_error option \<times> 's"
  cst_SaveOrganizationConfig :: "organization_webhook_config \<Rightarrow> 's \<Rightarrow> storage_error option \<times> 's"
  cst_GetOrganizationConfig :: "string \<Rightarrow> 's \<Rightarrow> storage_error + organization_webhook_config"

datatype webhook_config_error =
    InvalidWebhookPolicy string | WebhookStorage storage_error | OrgConfigUnavailable string storage_error
  | ConfigRejected "webhook_validation_error list" | NoAPIClient string | RepositoriesUnavailable string string
  | OrgConfigFailed webhook_config_error | PoliciesFailed webhook_config_error | PolicyFailed string storage_error
  | RepositoriesFailed webhook_config_error | TargetPolicyFailed storage_error

section \<open>Validation\<close>

definition validate_webhook_template :: "webhook_config_template \<Rightarrow> string option" where
  "validate_webhook_template config =
     (if wct_URL config = [] then Some ''webhook URL is required''
      else if \<not> prefix ''http://'' (wct_URL config) \<and> \<not> prefix ''https://'' (wct_URL config)
        then Some ''webhook URL must start with http:// or https://''
      else None)"

definition validate_defaults_template :: "webhook_config_template \<Rightarrow> string option" where
  "validate_defaults_template config = (if wct_URL config = [] then None else validate_webhook_template config)"

definition validate_policy_rule :: "webhook_policy_rule \<Rightarrow> string option" where
  "validate_policy_rule rule =
     (if wpr_Name rule = [] then Some ''rule name is required''
      else if wpr_Action rule = [] then Some ''action is required''
      else if wpr_Action rule = ''create'' \<or> wpr_Action rule = ''ensure''
        then map_option (\<lambda>e. ''invalid template: '' @ e) (validate_webhook_template (wt_Config (wpr_Template rule)))
      else None)"

fun validate_policy_rules :: "nat \<Rightarrow> webhook_policy_rule list \<Rightarrow> string option" where
  "validate_policy_rules i [] = None"
| "validate_policy_rules i (rule # rules) =
     (case validate_policy_rule rule of
        Some e \<Rightarrow> Some (''rule '' @ show_nat i @ '': '' @ e)
      | None \<Rightarrow> validate_policy_rules (Suc i) rules)"

definition validate_webhook_policy :: "webhook_policy \<Rightarrow> string option" where
  "validate_webhook_policy policy =
     (if wp2_Name policy = [] then Some ''policy name is required''
      else if wp2_Organization policy = [] then Some ''organization is required''
      else if wp2_Rules policy = [] then Some ''at least one rule is required''
      else validate_policy_rules 0 (wp2_Rules policy))"

fun policy_errors :: "nat \<Rightarrow> webhook_policy list \<Rightarrow> webhook_validation_error list" where
  "policy_errors i [] = []"
| "policy_errors i (policy # policies) =
     (case validate_webhook_policy policy of
        Some e \<Rightarrow> [zero_webhook_validation_error\<lparr>wve_Field := ''policies['' @ show_nat i @ '']'', wve_Message := e,
          wve_Severity := ''error''\<rparr>]
      | None \<Rightarrow> []) @ policy_errors (Suc i) policies"

definition validate_configuration :: "organization_webhook_config \<Rightarrow> webhook_validation_result" where
  "validate_configuration config =
     (let errors =
          (if owc_Organization config = []
           then [zero_webhook_validation_error\<lparr>wve_Field := ''organization'', wve_Message := ''Organization is required'',
             wve_Severity := ''error''\<rparr>] else []) @ policy_errors 0 (owc_Policies config);
        warnings = (case validate_defaults_template (wd_Config (owc_Defaults config)) of
           Some e \<Rightarrow> [zero_webhook_validation_warning\<lparr>wvw_Field := ''defaults.config'', wvw_Message := e\<rparr>] | None \<Rightarrow> [])
      in \<lparr>wvr_Valid = (errors = []), wvr_Errors = errors, wvr_Warnings = warnings,
          wvr_Score = (if 0 < length errors then 0
            else if 0 < length warnings then max 50 (100 - int (length warnings) * 10) else 100)\<rparr>)"

section \<open>Policies and configuration\<close>

definition storage_result :: "storage_error option \<times> 's \<Rightarrow> webhook_config_error option \<times> 's" where
  "storage_result r = apfst (map_option WebhookStorage) r"

definition create_webhook_policy ::
  "'s config_storage \<Rightarrow> int \<Rightarrow> webhook_policy \<Rightarrow> 's \<Rightarrow> webhook_config_error option \<times> 's" where
  "create_webhook_policy storage now policy s =
     (case validate_webhook_policy policy of
        Some e \<Rightarrow> (Some (InvalidWebhookPolicy e), s)
      | None \<Rightarrow> storage_result (cst_SavePolicy storage (policy\<lparr>wp2_CreatedAt := now, wp2_UpdatedAt := now\<rparr>) s))"

definition get_webhook_policy :: "'s config_storage \<Rightarrow> string \<Rightarrow> string \<Rightarrow> 's \<Rightarrow> storage_error + webhook_policy" where
  "get_webhook_policy storage = cst_GetPolicy storage"

definition list_webhook_policies :: "'s config_storage \<Rightarrow> string \<Rightarrow> 's \<Rightarrow> storage_error + webhook_policy list" where
  "list_webhook_policies storage = cst_ListPolicies storage"

definition update_webhook_policy ::
  "'s config_storage \<Rightarrow> int \<Rightarrow> webhook_policy \<Rightarrow> 's \<Rightarrow> webhook_config_error option \<times> 's" where
  "update_webhook_policy storage now policy s =
     (case validate_webhook_policy policy of
        Some e \<Rightarrow> (Some (InvalidWebhookPolicy e), s)
      | None \<Rightarrow> storage_result (cst_SavePolicy storage (policy\<lparr>wp2_UpdatedAt := now\<rparr>) s))"

definition delete_webhook_policy ::
  "'s config_storage \<Rightarrow> string \<Rightarrow> string \<Rightarrow> 's \<Rightarrow> webhook_config_error option \<times> 's" where
  "delete_webhook_policy storage org policyID s = storage_result (cst_DeletePolicy storage org policyID s)"

definition get_default_organization_config :: "int \<Rightarrow> string \<Rightarrow> organization_webhook_config" where
  "get_default_organization_config now org =
     zero_organization_webhook_config\<lparr>owc_Organization := org, owc_Version := ''1.0'',
       owc_Metadata := zero_config_metadata\<lparr>cm2_Name := org @ '' Webhook Configuration'',
         cm2_Description := ''Default webhook configuration'', cm2_CreatedAt := now, cm2_UpdatedAt := now,
         cm2_Version := ''1.0''\<rparr>,
       owc_Defaults := zero_webhook_defaults\<lparr>wd_Events := [''push'', ''pull_request''], wd_Active := True,
         wd_Config := zero_webhook_config_template\<lparr>wct_ContentType := ''json'', wct_InsecureSSL := False\<rparr>\<rparr>,
       owc_Policies := [],
       owc_Settings := zero_organization_webhook_settings\<lparr>ows_AllowRepositoryOverride := True, ows_RequireApproval := False,
         ows_MaxWebhooksPerRepo := 5, ows_RetryOnFailure := True\<rparr>,
       owc_Validation := zero_validation_config\<lparr>vc2_RequireSSL := True, vc2_RequireSecret := False\<rparr>\<rparr>"

definition get_organization_config ::
  "'s config_storage \<Rightarrow> int \<Rightarrow> string \<Rightarrow> 's \<Rightarrow> webhook_config_error + organization_webhook_config" where
  "get_organization_config storage now org s =
     (case cst_GetOrganizationConfig storage org s of
        Inr config \<Rightarrow> Inr config
      | Inl (OrganizationConfigNotFound _) \<Rightarrow> Inr (get_default_organization_config now org)
      | Inl e \<Rightarrow> Inl (OrgConfigUnavailable org e))"

definition update_organization_config ::
  "'s config_storage \<Rightarrow> int \<Rightarrow> organization_webhook_config \<Rightarrow> 's \<Rightarrow> webhook_config_error option \<times> 's" where
  "update_organization_config storage now config s =
     (let validation = validate_configuration config in
      if \<not> wvr_Valid validation then (Some (ConfigRejected (wvr_Errors validation)), s)
      else storage_result (cst_SaveOrganizationConfig storage
             (config\<lparr>owc_Metadata := (owc_Metadata config)\<lparr>cm2_UpdatedAt := now\<rparr>\<rparr>) s))"

section \<open>Application\<close>

fun get_policies_by_id :: "'s config_storage \<Rightarrow> string \<Rightarrow> 's \<Rightarrow> string list \<Rightarrow> webhook_config_error + webhook_policy list" where
  "get_policies_by_id storage org s [] = Inr []"
| "get_policies_by_id storage org s (i # ids) =
     (case get_webhook_policy storage org i s of
        Inl e \<Rightarrow> Inl (PolicyFailed i e)
      | Inr policy \<Rightarrow> map_sum id (\<lambda>ps. (if wp2_Enabled policy then [policy] else []) @ ps) (get_policies_by_id storage org s ids))"

definition get_applicable_policies ::
  "'s config_storage \<Rightarrow> string \<Rightarrow> string list \<Rightarrow> 's \<Rightarrow> webhook_config_error + webhook_policy list" where
  "get_applicable_policies storage org policyIDs s =
     (if 0 < length policyIDs then get_policies_by_id storage org s policyIDs
      else (case list_webhook_policies storage org s of
              Inl e \<Rightarrow> Inl (WebhookStorage e)
            | Inr policies \<Rightarrow> Inr (filter wp2_Enabled policies)))"

type_synonym repo_lister = "(string \<Rightarrow> string + repository_info list) option"

definition get_target_repositories :: "repo_lister \<Rightarrow> string \<Rightarrow> string list \<Rightarrow> webhook_config_error + string list" where
  "get_target_repositories list_repos org repoNames =
     (if 0 < length repoNames then Inr repoNames
      else (case list_repos of
              None \<Rightarrow> Inl (NoAPIClient org)
            | Some client \<Rightarrow>
                (case client org of
                   Inl e \<Rightarrow> Inl (RepositoriesUnavailable org e)
                 | Inr repos \<Rightarrow> Inr (map rpi_Name repos))))"

definition rule_applies_to :: "regex_match \<Rightarrow> string \<Rightarrow> webhook_conditions \<Rightarrow> string + bool" where
  "rule_applies_to matches repo conditions =
     (if wc2_RepositoryName conditions \<noteq> [] \<and> repo \<notin> set (wc2_RepositoryName conditions) then Inr False
      else if wc2_RepositoryPattern conditions \<noteq> []
        then match_any matches (\<lambda>p e. ''invalid repository pattern '' @ quoted_pattern p @ '': '' @ e)
               (wc2_RepositoryPattern conditions) repo
      else Inr True)"

definition apply_rule_to_repository ::
  "string \<Rightarrow> string \<Rightarrow> string \<Rightarrow> webhook_policy_rule \<Rightarrow> bool \<Rightarrow> policy_application_result" where
  "apply_rule_to_repository elapsed repo policyID rule dryRun =
     (let result = zero_policy_application_result\<lparr>par_Repository := repo, par_PolicyID := policyID, par_RuleID := wpr_ID rule,
            par_Action := wpr_Action rule, par_Duration := elapsed\<rparr> in
      if dryRun then
        result\<lparr>par_Success := True,
          par_Changes := [''Would '' @ wpr_Action rule @ '' webhook '' @ [CHR 0x27] @ wt_Name (wpr_Template rule) @ [CHR 0x27]]\<rparr>
      else result\<lparr>par_Success := False, par_Skipped := True,
             par_SkipReason := ''webhook policy application is not implemented'', par_Error := ''not implemented''\<rparr>)"

fun apply_rules ::
  "regex_match \<Rightarrow> string \<Rightarrow> string \<Rightarrow> bool \<Rightarrow> string \<Rightarrow> webhook_policy_rule list \<Rightarrow> policy_application_result list" where
  "apply_rules matches elapsed repo dryRun policyID [] = []"
| "apply_rules matches elapsed repo dryRun policyID (rule # rules) =
     (if \<not> wpr_Enabled rule then []
      else (case rule_applies_to matches repo (wpr_Conditions rule) of
              Inl e \<Rightarrow> [zero_policy_application_result\<lparr>par_Repository := repo, par_PolicyID := policyID, par_RuleID := wpr_ID rule,
                par_Action := wpr_Action rule, par_Success := False, par_Error := e\<rparr>]
            | Inr applies \<Rightarrow> if applies then [apply_rule_to_repository elapsed repo policyID rule dryRun] else [])) @
     apply_rules matches elapsed repo dryRun policyID rules"

definition apply_policies_to_repository ::
  "regex_match \<Rightarrow> string \<Rightarrow> string \<Rightarrow> webhook_policy list \<Rightarrow> bool \<Rightarrow> policy_application_result list" where
  "apply_policies_to_repository matches elapsed repo policies dryRun =
     concat (map (\<lambda>policy. apply_rules matches elapsed repo dryRun (wp2_ID policy) (wp2_Rules policy)) policies)"

definition update_summary_for_action :: "policy_application_summary \<Rightarrow> string \<Rightarrow> policy_application_summary" where
  "update_summary_for_action summary action =
     (if action = ''create'' \<or> action = ''ensure'' then summary\<lparr>pas_WebhooksCreated := pas_WebhooksCreated summary + 1\<rparr>
      else if action = ''update'' then summary\<lparr>pas_WebhooksUpdated := pas_WebhooksUpdated summary + 1\<rparr>
      else if action = ''delete'' then summary\<lparr>pas_WebhooksDeleted := pas_WebhooksDeleted summary + 1\<rparr>
      else summary)"

definition count_application :: "apply_policies_result \<Rightarrow> policy_application_result \<Rightarrow> apply_policies_result" where
  "count_application result r =
     (if par_Success r then result\<lparr>apr2_SuccessCount := apr2_SuccessCount result + 1,
          apr2_Summary := update_summary_for_action (apr2_Summary result) (par_Action r)\<rparr>
      else if par_Skipped r then result\<lparr>apr2_SkippedCount := apr2_SkippedCount result + 1\<rparr>
      else result\<lparr>apr2_FailureCount := apr2_FailureCount result + 1\<rparr>)"

fun apply_to_repositories ::
  "(string \<Rightarrow> policy_application_result list) \<Rightarrow> string list \<Rightarrow> apply_policies_result \<Rightarrow> apply_policies_result" where
  "apply_to_repositories apply_repo [] result = result"
| "apply_to_repositories apply_repo (repo # repos) result =
     (let repoResults = apply_repo repo in
      apply_to_repositories apply_repo repos
        (foldl count_application
          (result\<lparr>apr2_Results := apr2_Results result @ repoResults,
             apr2_ProcessedRepositories := apr2_ProcessedRepositories result + 1\<rparr>) repoResults))"

definition apply_policies ::
  "'s config_storage \<Rightarrow> repo_lister \<Rightarrow> regex_match \<Rightarrow> int \<Rightarrow> string \<Rightarrow> apply_policies_request \<Rightarrow> 's
     \<Rightarrow> webhook_config_error + apply_policies_result" where
  "apply_policies storage list_repos matches now elapsed request s =
     (case get_organization_config storage now (apr_Organization request) s of
        Inl e \<Rightarrow> Inl (OrgConfigFailed e)
      | Inr orgConfig \<Rightarrow>
          (case get_applicable_policies storage (apr_Organization request) (apr_PolicyIDs request) s of
             Inl e \<Rightarrow> Inl (PoliciesFailed e)
           | Inr policies \<Rightarrow>
               (case get_target_repositories list_repos (apr_Organization request) (apr_RepositoryNames request) of
                  Inl e \<Rightarrow> Inl (RepositoriesFailed e)
                | Inr repositories \<Rightarrow>
                    Inr ((apply_to_repositories
                        (\<lambda>repo. apply_policies_to_repository matches elapsed repo policies (apr_DryRun request)) repositories
                        (zero_apply_policies_result\<lparr>apr2_Organization := apr_Organization request,
                           apr2_TotalRepositories := int (length repositories)\<rparr>))\<lparr>apr2_ExecutionTime := elapsed\<rparr>))))"

definition planned_action_of :: "policy_application_result \<Rightarrow> planned_action" where
  "planned_action_of r =
     \<lparr>pa2_Repository = par_Repository r, pa2_PolicyID = par_PolicyID r, pa2_RuleID = par_RuleID r, pa2_Action = par_Action r,
      pa2_WebhookName = ''webhook-'' @ par_PolicyID r, pa2_Changes = par_Changes r,
      pa2_Conflicts = (if \<not> par_Success r \<and> \<not> par_Skipped r then [par_Error r] else [])\<rparr>"

definition preview_policy_application ::
  "'s config_storage \<Rightarrow> repo_lister \<Rightarrow> regex_match \<Rightarrow> int \<Rightarrow> string \<Rightarrow> apply_policies_request \<Rightarrow> 's
     \<Rightarrow> webhook_config_error + policy_application_preview" where
  "preview_policy_application storage list_repos matches now elapsed request s =
     (case apply_policies storage list_repos matches now elapsed (request\<lparr>apr_DryRun := True\<rparr>) s of
        Inl e \<Rightarrow> Inl e
      | Inr result \<Rightarrow>
          Inr \<lparr>pap_Organization = apr2_Organization result, pap_TotalRepositories = apr2_TotalRepositories result,
            pap_PlannedActions = map planned_action_of (apr2_Results result), pap_Conflicts = [], pap_Warnings = [],
            pap_Summary = apr2_Summary result\<rparr>)"


section \<open>Migration, synchronisation and reports\<close>

definition migrate_repository_webhooks :: "string \<Rightarrow> webhook_migration_result list" where
  "migrate_repository_webhooks repo =
     [zero_webhook_migration_result\<lparr>wmr_Repository := repo, wmr_OldWebhookID := 123, wmr_NewWebhookID := 456,
        wmr_Success := True, wmr_Changes := [''Migrated webhook to new policy'']\<rparr>]"

definition count_migration :: "migration_result \<Rightarrow> webhook_migration_result \<Rightarrow> migration_result" where
  "count_migration result r =
     (let counted = result\<lparr>mr2_TotalWebhooks := mr2_TotalWebhooks result + 1\<rparr> in
      if wmr_Success r then counted\<lparr>mr2_MigratedWebhooks := mr2_MigratedWebhooks counted + 1\<rparr>
      else counted\<lparr>mr2_FailedWebhooks := mr2_FailedWebhooks counted + 1\<rparr>)"

fun migrate_repositories :: "string list \<Rightarrow> migration_result \<Rightarrow> migration_result" where
  "migrate_repositories [] result = result"
| "migrate_repositories (repo # repos) result =
     (let migrationResults = migrate_repository_webhooks repo in
      migrate_repositories repos
        (foldl count_migration (result\<lparr>mr2_Results := mr2_Results result @ migrationResults\<rparr>) migrationResults))"

definition migrate_existing_webhooks ::
  "'s config_storage \<Rightarrow> repo_lister \<Rightarrow> string \<Rightarrow> migration_request \<Rightarrow> 's \<Rightarrow> webhook_config_error + migration_result" where
  "migrate_existing_webhooks storage list_repos elapsed request s =
     (case get_webhook_policy storage (mr_Organization request) (mr_TargetPolicyID request) s of
        Inl e \<Rightarrow> Inl (TargetPolicyFailed e)
      | Inr policy \<Rightarrow>
          (case get_target_repositories list_repos (mr_Organization request) [] of
             Inl e \<Rightarrow> Inl (RepositoriesFailed e)
           | Inr repositories \<Rightarrow>
               Inr ((migrate_repositories repositories (zero_migration_result\<lparr>mr2_Organization := mr_Organization request\<rparr>))
                 \<lparr>mr2_ExecutionTime := elapsed\<rparr>)))"

definition check_repository_compliance :: "string \<Rightarrow> organization_webhook_config \<Rightarrow> webhook_discrepancy list" where
  "check_repository_compliance repo orgConfig = []"

definition check_repository_violations :: "string \<Rightarrow> organization_webhook_config \<Rightarrow> compliance_violation list" where
  "check_repository_violations repo orgConfig = []"

definition check_synced_repository :: "organization_webhook_config \<Rightarrow> sync_result \<Rightarrow> string \<Rightarrow> sync_result" where
  "check_synced_repository orgConfig result repo =
     (let discrepancies = check_repository_compliance repo orgConfig;
          r = result\<lparr>sr2_Discrepancies := sr2_Discrepancies result @ discrepancies\<rparr>
      in if length discrepancies = 0 then r\<lparr>sr2_SyncedRepositories := sr2_SyncedRepositories r + 1\<rparr> else r)"

definition sync_organization_webhooks ::
  "'s config_storage \<Rightarrow> repo_lister \<Rightarrow> int \<Rightarrow> string \<Rightarrow> string \<Rightarrow> 's \<Rightarrow> webhook_config_error + sync_result" where
  "sync_organization_webhooks storage list_repos now elapsed org s =
     (case get_organization_config storage now org s of
        Inl e \<Rightarrow> Inl (OrgConfigFailed e)
      | Inr orgConfig \<Rightarrow>
          (case get_target_repositories list_repos org [] of
             Inl e \<Rightarrow> Inl (RepositoriesFailed e)
           | Inr repositories \<Rightarrow>
               Inr ((foldl (check_synced_repository orgConfig)
                   (zero_sync_result\<lparr>sr2_Organization := org, sr2_TotalRepositories := int (length repositories)\<rparr>) repositories)
                 \<lparr>sr2_ExecutionTime := elapsed\<rparr>)))"

definition generate_compliance_recommendations :: "compliance_report \<Rightarrow> string list" where
  "generate_compliance_recommendations report =
     (if flt (cr2_ComplianceScore report) (FNum 80) then [''Consider implementing standardized webhook policies''] else []) @
     (if 0 < length (cr2_Violations report) then [''Review and address compliance violations''] else [])"

definition report_repository :: "organization_webhook_config \<Rightarrow> compliance_report \<Rightarrow> string \<Rightarrow> compliance_report" where
  "report_repository orgConfig report repo =
     (let violations = check_repository_violations repo orgConfig in
      if length violations = 0 then report\<lparr>cr2_CompliantRepos := cr2_CompliantRepos report + 1\<rparr>
      else report\<lparr>cr2_NonCompliantRepos := cr2_NonCompliantRepos report + 1,
        cr2_Violations := cr2_Violations report @ violations\<rparr>)"

definition generate_compliance_report ::
  "'s config_storage \<Rightarrow> repo_lister \<Rightarrow> int \<Rightarrow> string \<Rightarrow> 's \<Rightarrow> webhook_config_error + compliance_report" where
  "generate_compliance_report storage list_repos now org s =
     (case get_organization_config storage now org s of
        Inl e \<Rightarrow> Inl (OrgConfigFailed e)
      | Inr orgConfig \<Rightarrow>
          (case get_target_repositories list_repos org [] of
             Inl e \<Rightarrow> Inl (RepositoriesFailed e)
           | Inr repositories \<Rightarrow>
               let counted = foldl (report_repository orgConfig)
                     (zero_compliance_report\<lparr>cr2_Organization := org, cr2_GeneratedAt := now,
                        cr2_TotalRepositories := int (length repositories)\<rparr>) repositories;
                   scored = (if 0 < cr2_TotalRepositories counted
                     then counted\<lparr>cr2_ComplianceScore := fmul_const (fdiv (float_of_int (cr2_CompliantRepos counted))
                       (float_of_int (cr2_TotalRepositories counted))) 100\<rparr>
                     else counted)
               in Inr (scored\<lparr>cr2_Recommendations := generate_compliance_recommendations scored\<rparr>)))"

definition collect_repository_webhook_info :: "string \<Rightarrow> string \<Rightarrow> repository_webhook_info" where
  "collect_repository_webhook_info org repo =
     \<lparr>rwi_Repository = repo, rwi_Webhooks = [], rwi_Compliance = ''compliant'', rwi_Issues = []\<rparr>"

definition categorize_webhook :: "webhook_info \<Rightarrow> string" where
  "categorize_webhook webhook =
     (if contains (whi_URL webhook) ''slack'' then ''slack''
      else if contains (whi_URL webhook) ''teams'' then ''teams''
      else if contains (whi_URL webhook) ''discord'' then ''discord''
      else ''other'')"

definition bump :: "string \<Rightarrow> (string, int) gomap \<Rightarrow> (string, int) gomap" where
  "bump key m = gm_put key (gm_at 0 m key + 1) m"

definition count_webhook :: "webhook_inventory \<Rightarrow> webhook_info \<Rightarrow> webhook_inventory" where
  "count_webhook inventory webhook =
     inventory\<lparr>wi2_TotalWebhooks := wi2_TotalWebhooks inventory + 1,
       wi2_WebhooksByType := bump (categorize_webhook webhook) (wi2_WebhooksByType inventory),
       wi2_WebhooksByEvent := foldl (\<lambda>m event. bump event m) (wi2_WebhooksByEvent inventory) (whi_Events webhook)\<rparr>"

definition add_repository_info :: "webhook_inventory \<Rightarrow> repository_webhook_info \<Rightarrow> webhook_inventory" where
  "add_repository_info inventory repoInfo =
     foldl count_webhook (inventory\<lparr>wi2_Repositories := wi2_Repositories inventory @ [repoInfo]\<rparr>) (rwi_Webhooks repoInfo)"

definition generate_inventory_summary :: "webhook_inventory \<Rightarrow> webhook_inventory_summary" where
  "generate_inventory_summary inventory =
     (let webhooks = concat (map rwi_Webhooks (wi2_Repositories inventory));
          active = int (length (filter whi_Active webhooks));
          summary = zero_webhook_inventory_summary\<lparr>wis_ActiveWebhooks := active,
            wis_InactiveWebhooks := int (length (filter (\<lambda>h. \<not> whi_Active h) webhooks))\<rparr>
      in if 0 < wi2_TotalWebhooks inventory
         then summary\<lparr>wis_HealthScore := fmul_const (fdiv (float_of_int active) (float_of_int (wi2_TotalWebhooks inventory))) 100\<rparr>
         else summary)"

definition get_webhook_inventory ::
  "repo_lister \<Rightarrow> int \<Rightarrow> string \<Rightarrow> webhook_config_error + webhook_inventory" where
  "get_webhook_inventory list_repos now org =
     (case get_target_repositories list_repos org [] of
        Inl e \<Rightarrow> Inl (RepositoriesFailed e)
      | Inr repositories \<Rightarrow>
          let inventory = foldl (\<lambda>i repo. add_repository_info i (collect_repository_webhook_info org repo))
                (zero_webhook_inventory\<lparr>wi2_Organization := org, wi2_GeneratedAt := now\<rparr>) repositories
          in Inr (inventory\<lparr>wi2_Summary := generate_inventory_summary inventory\<rparr>))"

section \<open>The configuration\<close>

text \<open>The configuration that stands in for a missing one passes its own validation with full score.\<close>

lemma default_config_passes:
  "org \<noteq> [] \<Longrightarrow> validate_configuration (get_default_organization_config now org) =
     \<lparr>wvr_Valid = True, wvr_Errors = [], wvr_Warnings = [], wvr_Score = 100\<rparr>"
  by (simp add: validate_configuration_def get_default_organization_config_def validate_defaults_template_def
      zero_webhook_config_template_def Let_def)

lemma validation_score: "wvr_Score (validate_configuration config) = 0 \<or> 90 \<le> wvr_Score (validate_configuration config)"
  by (simp add: validate_configuration_def Let_def split: option.splits)

section \<open>What an application reports\<close>

text \<open>The rules that are tried on a repository, in order: those enabled, of the policies given.\<close>

definition tried_rules :: "webhook_policy list \<Rightarrow> (string \<times> webhook_policy_rule) list" where
  "tried_rules policies = concat (map (\<lambda>p. map (Pair (wp2_ID p)) (filter wpr_Enabled (wp2_Rules p))) policies)"

definition policy_rule_outcome :: "regex_match \<Rightarrow> bool \<Rightarrow> string \<Rightarrow> string \<times> webhook_policy_rule \<Rightarrow> (string \<times> string \<times> string \<times> bool \<times> bool) list" where
  "policy_rule_outcome matches dryRun repo pr =
     (case rule_applies_to matches repo (wpr_Conditions (snd pr)) of
        Inl e \<Rightarrow> [(repo, fst pr, wpr_ID (snd pr), False, False)]
      | Inr applies \<Rightarrow> if applies then [(repo, fst pr, wpr_ID (snd pr), dryRun, \<not> dryRun)] else [])"

definition outcome_of :: "policy_application_result \<Rightarrow> string \<times> string \<times> string \<times> bool \<times> bool" where
  "outcome_of r = (par_Repository r, par_PolicyID r, par_RuleID r, par_Success r, par_Skipped r)"

lemma policy_rule_outcome_kind:
  assumes "outcome_of x \<in> set (policy_rule_outcome matches dryRun repo pr)"
  shows "(par_Success x \<longrightarrow> dryRun) \<and> (par_Skipped x \<longrightarrow> \<not> dryRun)"
  using assms by (cases "rule_applies_to matches repo (wpr_Conditions (snd pr))")
    (auto simp: policy_rule_outcome_def outcome_of_def split: if_splits)

lemma apply_rules_outcomes:
  "map outcome_of (apply_rules matches elapsed repo dryRun policyID rules) =
     concat (map (\<lambda>rule. policy_rule_outcome matches dryRun repo (policyID, rule)) (filter wpr_Enabled rules))"
  by (induction rules)
    (auto simp: policy_rule_outcome_def outcome_of_def apply_rule_to_repository_def zero_policy_application_result_def Let_def
      split: sum.splits)

lemma apply_policies_outcomes:
  "map outcome_of (apply_policies_to_repository matches elapsed repo policies dryRun) =
     concat (map (policy_rule_outcome matches dryRun repo) (tried_rules policies))"
  by (induction policies)
    (auto simp: apply_policies_to_repository_def tried_rules_def apply_rules_outcomes o_def)

definition counts_match :: "apply_policies_result \<Rightarrow> bool" where
  "counts_match r \<longleftrightarrow>
     apr2_SuccessCount r = int (length (filter par_Success (apr2_Results r))) \<and>
     apr2_SkippedCount r = int (length (filter (\<lambda>x. \<not> par_Success x \<and> par_Skipped x) (apr2_Results r))) \<and>
     apr2_FailureCount r = int (length (filter (\<lambda>x. \<not> par_Success x \<and> \<not> par_Skipped x) (apr2_Results r)))"

lemma count_applications:
  fixes result :: apply_policies_result
  shows "apr2_SuccessCount (foldl count_application result rs) = apr2_SuccessCount result + int (length (filter par_Success rs)) \<and>
    apr2_SkippedCount (foldl count_application result rs) =
      apr2_SkippedCount result + int (length (filter (\<lambda>x. \<not> par_Success x \<and> par_Skipped x) rs)) \<and>
    apr2_FailureCount (foldl count_application result rs) =
      apr2_FailureCount result + int (length (filter (\<lambda>x. \<not> par_Success x \<and> \<not> par_Skipped x) rs)) \<and>
    apr2_Results (foldl count_application result rs) = apr2_Results result \<and>
    apr2_ProcessedRepositories (foldl count_application result rs) = apr2_ProcessedRepositories result \<and>
    apr2_TotalRepositories (foldl count_application result rs) = apr2_TotalRepositories result"
  by (induction rs arbitrary: result) (auto simp: count_application_def)

lemma apply_to_repositories_result:
  fixes result :: apply_policies_result
  assumes "counts_match result"
  shows "counts_match (apply_to_repositories f repos result) \<and>
    apr2_Results (apply_to_repositories f repos result) = apr2_Results result @ concat (map f repos) \<and>
    apr2_ProcessedRepositories (apply_to_repositories f repos result) = apr2_ProcessedRepositories result + int (length repos) \<and>
    apr2_TotalRepositories (apply_to_repositories f repos result) = apr2_TotalRepositories result"
  using assms
proof (induction repos arbitrary: result)
  case (Cons repo repos)
  let ?r = "foldl count_application (result\<lparr>apr2_Results := apr2_Results result @ f repo,
    apr2_ProcessedRepositories := apr2_ProcessedRepositories result + 1\<rparr>) (f repo)"
  have "counts_match ?r" using Cons.prems by (simp add: counts_match_def count_applications)
  from Cons.IH [OF this] show ?case by (simp add: count_applications Let_def)
qed simp

lemma timed_result:
  fixes r :: apply_policies_result
  shows "apr2_Results (r\<lparr>apr2_ExecutionTime := t\<rparr>) = apr2_Results r"
    "apr2_TotalRepositories (r\<lparr>apr2_ExecutionTime := t\<rparr>) = apr2_TotalRepositories r"
    "apr2_ProcessedRepositories (r\<lparr>apr2_ExecutionTime := t\<rparr>) = apr2_ProcessedRepositories r"
    "apr2_SuccessCount (r\<lparr>apr2_ExecutionTime := t\<rparr>) = apr2_SuccessCount r"
    "apr2_SkippedCount (r\<lparr>apr2_ExecutionTime := t\<rparr>) = apr2_SkippedCount r"
    "apr2_FailureCount (r\<lparr>apr2_ExecutionTime := t\<rparr>) = apr2_FailureCount r"
  by simp_all

text \<open>Property C32. An application reports, for every repository and every enabled rule of the chosen
  enabled policies in their order, exactly one result when the rule applies or its pattern is broken
  and none otherwise; successes, skips and failures are counted as the results say. A rule that applies
  succeeds in a dry run and is skipped in a live one, and only a broken pattern is a failure: a live run
  never succeeds, and a dry run predicts the same rules.\<close>

theorem application_results:
  assumes "get_organization_config storage now (apr_Organization request) s = Inr config"
    and "get_applicable_policies storage (apr_Organization request) (apr_PolicyIDs request) s = Inr policies"
    and "get_target_repositories list_repos (apr_Organization request) (apr_RepositoryNames request) = Inr repos"
  shows "\<exists>result. apply_policies storage list_repos matches now elapsed request s = Inr result \<and>
    map outcome_of (apr2_Results result) =
      concat (map (\<lambda>repo. concat (map (policy_rule_outcome matches (apr_DryRun request) repo) (tried_rules policies))) repos) \<and>
    apr2_TotalRepositories result = int (length repos) \<and> apr2_ProcessedRepositories result = int (length repos) \<and>
    apr2_SuccessCount result = int (length (filter par_Success (apr2_Results result))) \<and>
    apr2_SkippedCount result = int (length (filter (\<lambda>x. \<not> par_Success x \<and> par_Skipped x) (apr2_Results result))) \<and>
    apr2_SuccessCount result + apr2_SkippedCount result + apr2_FailureCount result = int (length (apr2_Results result)) \<and>
    (if apr_DryRun request then apr2_SkippedCount result = 0 else apr2_SuccessCount result = 0)"
proof -
  let ?f = "\<lambda>repo. apply_policies_to_repository matches elapsed repo policies (apr_DryRun request)"
  let ?start = "zero_apply_policies_result\<lparr>apr2_Organization := apr_Organization request,
    apr2_TotalRepositories := int (length repos)\<rparr>"
  let ?r = "apply_to_repositories ?f repos ?start"
  have "counts_match ?start" by (simp add: counts_match_def zero_apply_policies_result_def)
  note a = apply_to_repositories_result [OF this, of ?f repos]
  have run: "apply_policies storage list_repos matches now elapsed request s = Inr (?r\<lparr>apr2_ExecutionTime := elapsed\<rparr>)"
    using assms by (simp add: apply_policies_def)
  have res: "apr2_Results ?r = concat (map ?f repos)" using a by (simp add: zero_apply_policies_result_def)
  have out: "map outcome_of (apr2_Results ?r) =
      concat (map (\<lambda>repo. concat (map (policy_rule_outcome matches (apr_DryRun request) repo) (tried_rules policies))) repos)"
    unfolding res by (simp add: map_concat o_def apply_policies_outcomes)
  have kind: "par_Success x \<longrightarrow> apr_DryRun request" "par_Skipped x \<longrightarrow> \<not> apr_DryRun request" if "x \<in> set (apr2_Results ?r)" for x
  proof -
    have "outcome_of x \<in> set (map outcome_of (apr2_Results ?r))" using that by simp
    then obtain repo pr where "outcome_of x \<in> set (policy_rule_outcome matches (apr_DryRun request) repo pr)"
      unfolding out by auto
    from policy_rule_outcome_kind [OF this]
    show "par_Success x \<longrightarrow> apr_DryRun request" "par_Skipped x \<longrightarrow> \<not> apr_DryRun request" by auto
  qed
  have split: "length xs = length (filter par_Success xs) + length (filter (\<lambda>x. \<not> par_Success x \<and> par_Skipped x) xs) +
      length (filter (\<lambda>x. \<not> par_Success x \<and> \<not> par_Skipped x) xs)" for xs
    by (induction xs) auto
  have c: "counts_match ?r" using a by blast
  have dry: "if apr_DryRun request then apr2_SkippedCount ?r = 0 else apr2_SuccessCount ?r = 0"
    using c kind by (auto simp: counts_match_def filter_empty_conv)
  have tot: "apr2_TotalRepositories ?r = int (length repos)" "apr2_ProcessedRepositories ?r = int (length repos)"
    using a by (simp_all add: zero_apply_policies_result_def)
  have sum: "apr2_SuccessCount ?r + apr2_SkippedCount ?r + apr2_FailureCount ?r = int (length (apr2_Results ?r))"
    using c split [of "apr2_Results ?r"] unfolding counts_match_def by linarith
  let ?R = "?r\<lparr>apr2_ExecutionTime := elapsed\<rparr>"
  have out': "map outcome_of (apr2_Results ?R) =
      concat (map (\<lambda>repo. concat (map (policy_rule_outcome matches (apr_DryRun request) repo) (tried_rules policies))) repos)"
    by (simp only: out timed_result)
  have tot': "apr2_TotalRepositories ?R = int (length repos)" "apr2_ProcessedRepositories ?R = int (length repos)"
    by (simp_all only: tot timed_result)
  have c': "apr2_SuccessCount ?R = int (length (filter par_Success (apr2_Results ?R)))"
    "apr2_SkippedCount ?R = int (length (filter (\<lambda>x. \<not> par_Success x \<and> par_Skipped x) (apr2_Results ?R)))"
    using c unfolding counts_match_def timed_result by simp_all
  have sum': "apr2_SuccessCount ?R + apr2_SkippedCount ?R + apr2_FailureCount ?R = int (length (apr2_Results ?R))"
    by (simp only: sum timed_result)
  have dry': "if apr_DryRun request then apr2_SkippedCount ?R = 0 else apr2_SuccessCount ?R = 0"
    using dry by (simp only: timed_result)
  show ?thesis by (intro exI conjI, rule run, rule out', rule tot', rule tot', rule c', rule c', rule sum', rule dry')
qed

definition sample_webhook_policy :: webhook_policy where
  "sample_webhook_policy = zero_webhook_policy\<lparr>wp2_ID := ''ci'', wp2_Enabled := True,
     wp2_Rules := [zero_webhook_policy_rule\<lparr>wpr_ID := ''hook'', wpr_Action := ''create'', wpr_Enabled := True,
       wpr_Conditions := zero_webhook_conditions\<lparr>wc2_RepositoryName := [''api'']\<rparr>\<rparr>]\<rparr>"

definition sample_storage :: "unit config_storage" where
  "sample_storage = \<lparr>cst_SavePolicy = \<lambda>p s. (None, s), cst_GetPolicy = \<lambda>org i s. Inl (StorageFailure i),
     cst_ListPolicies = \<lambda>org s. Inr [sample_webhook_policy], cst_DeletePolicy = \<lambda>org i s. (None, s),
     cst_SaveOrganizationConfig = \<lambda>c s. (None, s),
     cst_GetOrganizationConfig = \<lambda>org s. Inl (OrganizationConfigNotFound org)\<rparr>"

definition sample_webhook_request :: apply_policies_request where
  "sample_webhook_request = zero_apply_policies_request\<lparr>apr_Organization := ''acme'', apr_RepositoryNames := [''api'', ''web''],
     apr_DryRun := True\<rparr>"

lemma sample_rules: "tried_rules [sample_webhook_policy] = [(''ci'', hd (wp2_Rules sample_webhook_policy))]"
  "policy_rule_outcome m True ''api'' (''ci'', hd (wp2_Rules sample_webhook_policy)) = [(''api'', ''ci'', ''hook'', True, False)]"
  "policy_rule_outcome m True ''web'' (''ci'', hd (wp2_Rules sample_webhook_policy)) = []"
proof -
  let ?rule = "hd (wp2_Rules sample_webhook_policy)"
  have f: "wp2_Rules sample_webhook_policy = [?rule]" "wpr_Enabled ?rule" "wp2_ID sample_webhook_policy = ''ci''"
    "wpr_ID ?rule = ''hook''" "wc2_RepositoryName (wpr_Conditions ?rule) = [''api'']"
    "wc2_RepositoryPattern (wpr_Conditions ?rule) = []"
    unfolding sample_webhook_policy_def zero_webhook_conditions_def by simp_all
  have "tried_rules [sample_webhook_policy] =
      map (Pair (wp2_ID sample_webhook_policy)) (filter wpr_Enabled (wp2_Rules sample_webhook_policy))"
    by (simp add: tried_rules_def)
  also have "\<dots> = [(''ci'', ?rule)]" by (subst f(1)) (simp add: f(2,3))
  finally show "tried_rules [sample_webhook_policy] = [(''ci'', ?rule)]" .
  have a: "rule_applies_to m r (wpr_Conditions ?rule) = Inr (r = ''api'')" for r
    by (simp add: rule_applies_to_def f(5,6))
  show "policy_rule_outcome m True ''api'' (''ci'', ?rule) = [(''api'', ''ci'', ''hook'', True, False)]"
    by (simp add: policy_rule_outcome_def a f(4))
  show "policy_rule_outcome m True ''web'' (''ci'', ?rule) = []"
    by (simp add: policy_rule_outcome_def a)
qed

lemma application_results_witness:
  "\<exists>result. apply_policies sample_storage None (\<lambda>p s. Inr (p = s)) 0 ''0s'' sample_webhook_request () = Inr result \<and>
    map outcome_of (apr2_Results result) = [(''api'', ''ci'', ''hook'', True, False)] \<and> apr2_SuccessCount result = 1"
proof -
  have c: "get_organization_config sample_storage 0 (apr_Organization sample_webhook_request) () =
      Inr (get_default_organization_config 0 ''acme'')"
    by (simp add: get_organization_config_def sample_storage_def sample_webhook_request_def)
  have p: "get_applicable_policies sample_storage (apr_Organization sample_webhook_request)
      (apr_PolicyIDs sample_webhook_request) () = Inr [sample_webhook_policy]"
    by (simp add: get_applicable_policies_def list_webhook_policies_def sample_storage_def sample_webhook_request_def
        zero_apply_policies_request_def sample_webhook_policy_def)
  have r: "get_target_repositories None (apr_Organization sample_webhook_request)
      (apr_RepositoryNames sample_webhook_request) = Inr [''api'', ''web'']"
    by (simp add: get_target_repositories_def sample_webhook_request_def)
  have d: "apr_DryRun sample_webhook_request" by (simp add: sample_webhook_request_def)
  have o: "concat (map (\<lambda>repo. concat (map (policy_rule_outcome m (apr_DryRun sample_webhook_request) repo)
      (tried_rules [sample_webhook_policy]))) [''api'', ''web'']) = [(''api'', ''ci'', ''hook'', True, False)]" for m
    unfolding sample_rules(1) using d by (simp only: list.map concat.simps sample_rules(2,3) simp_thms append.simps append_Nil2)
  from application_results [OF c p r, of "\<lambda>p s. Inr (p = s)" "''0s''", unfolded o]
  obtain result where
    run: "apply_policies sample_storage None (\<lambda>p s. Inr (p = s)) 0 ''0s'' sample_webhook_request () = Inr result" and
    out: "map outcome_of (apr2_Results result) = [(''api'', ''ci'', ''hook'', True, False)]" and
    n: "apr2_SuccessCount result = int (length (filter par_Success (apr2_Results result)))"
    by (elim exE conjE) (rule that, assumption+)
  from out obtain x where "apr2_Results result = [x]" "par_Success x"
    by (cases "apr2_Results result") (auto simp: outcome_of_def)
  with n have "apr2_SuccessCount result = 1" by simp
  with run out show ?thesis by (intro exI conjI)
qed

section \<open>The placeholders\<close>

text \<open>A migration reports, for every repository, one webhook moved from 123 to 456, whether or not the
  request asks for a dry run or excludes the repository; nothing is migrated.\<close>

lemma migrations_fabricated:
  "mr2_Results (migrate_repositories repos result) = mr2_Results result @ concat (map migrate_repository_webhooks repos) \<and>
   mr2_MigratedWebhooks (migrate_repositories repos result) = mr2_MigratedWebhooks result + int (length repos) \<and>
   mr2_FailedWebhooks (migrate_repositories repos result) = mr2_FailedWebhooks result"
  by (induction repos arbitrary: result)
    (simp_all add: count_migration_def migrate_repository_webhooks_def zero_webhook_migration_result_def Let_def)

text \<open>Every repository is compliant whatever its webhooks are.\<close>

lemma every_repository_compliant:
  "foldl (report_repository config) report repos = report\<lparr>cr2_CompliantRepos := cr2_CompliantRepos report + int (length repos)\<rparr>"
  by (induction repos arbitrary: report) (simp_all add: report_repository_def check_repository_violations_def add.commute)

text \<open>The fields of the conditions other than the names and the patterns are never read: a rule meant
  for archived repositories only applies to all.\<close>

lemma conditions_ignored:
  assumes "wc2_RepositoryName c = wc2_RepositoryName d" and "wc2_RepositoryPattern c = wc2_RepositoryPattern d"
  shows "rule_applies_to matches repo c = rule_applies_to matches repo d"
  using assms by (simp add: rule_applies_to_def)

end
