(* ===== verification/ConfigDiff.thy ===== *)
theory ConfigDiff
  imports RepoEffective RepoClient
begin

text \<open>
  The comparison of repositories with their configuration, \<open>cmd/repo-config/diff/diff.go\<close>: the
  differences of one repository, the run over an organisation and the numbers of its summary.

  It composes the effective configuration of \<open>RepoEffective\<close> with the reads of \<open>RepoClient\<close>.
  The result of a comparison is None where the code would dereference a branch rule that is nil.
  \<open>compile\<close> is \<open>regexp.Compile\<close>, \<open>load\<close> the file loader and \<open>list_repos\<close> the listing
  of the client; warnings the code prints are part of the result.
\<close>

section \<open>Differences\<close>

record configuration_difference =
  cfd_Repository :: string
  cfd_Setting :: string
  cfd_CurrentValue :: string
  cfd_TargetValue :: string
  cfd_ChangeType :: string
  cfd_Impact :: string
  cfd_Template :: string
  cfd_Compliant :: bool

definition get_change_type :: "string \<Rightarrow> string \<Rightarrow> string" where
  "get_change_type current target =
     (if current = [] \<and> target \<noteq> [] then ''create''
      else if current \<noteq> [] \<and> target = [] then ''delete''
      else ''update'')"

definition create_configuration_difference ::
  "string \<Rightarrow> string \<Rightarrow> string \<Rightarrow> string \<Rightarrow> string \<Rightarrow> string \<Rightarrow> configuration_difference" where
  "create_configuration_difference repoName setting currentValue targetValue impact templateName =
     \<lparr>cfd_Repository = repoName, cfd_Setting = setting, cfd_CurrentValue = currentValue, cfd_TargetValue = targetValue,
      cfd_ChangeType = get_change_type currentValue targetValue, cfd_Impact = impact, cfd_Template = templateName,
      cfd_Compliant = False\<rparr>"

text \<open>A bool and the text \<open>%t\<close> prints.\<close>

definition show_bool :: "bool \<Rightarrow> string" where
  "show_bool b = (if b then ''true'' else ''false'')"

text \<open>A difference written out by the comparison itself: the type of the change is given.\<close>

definition difference_of ::
  "string \<Rightarrow> string \<Rightarrow> string \<Rightarrow> string \<Rightarrow> string \<Rightarrow> string \<Rightarrow> string \<Rightarrow> configuration_difference" where
  "difference_of repoName setting currentValue targetValue changeType impact templateName =
     \<lparr>cfd_Repository = repoName, cfd_Setting = setting, cfd_CurrentValue = currentValue, cfd_TargetValue = targetValue,
      cfd_ChangeType = changeType, cfd_Impact = impact, cfd_Template = templateName, cfd_Compliant = False\<rparr>"

definition create_boolean_configuration_difference ::
  "string \<Rightarrow> string \<Rightarrow> bool \<Rightarrow> bool \<Rightarrow> string \<Rightarrow> string \<Rightarrow> configuration_difference" where
  "create_boolean_configuration_difference repoName setting currentValue targetValue impact templateName =
     difference_of repoName setting (show_bool currentValue) (show_bool targetValue) ''update'' impact templateName"

text \<open>The pattern of every comparison: a target that is set and differs from the current value.\<close>

definition if_differs :: "'a \<Rightarrow> 'a option \<Rightarrow> ('a \<Rightarrow> 'b) \<Rightarrow> 'b list" where
  "if_differs current target difference =
     (case target of Some t \<Rightarrow> if current \<noteq> t then [difference t] else [] | None \<Rightarrow> [])"

section \<open>Comparing one repository\<close>

definition compare_repository_features ::
  "string \<Rightarrow> repository_config \<Rightarrow> repo_settings \<Rightarrow> string \<Rightarrow> configuration_difference list" where
  "compare_repository_features repoName current target templateName =
     (let s = gc_Settings current;
          boolean = (\<lambda>setting c t. create_boolean_configuration_difference repoName setting c t ''low'' templateName) in
      if_differs (repo_config_settings.rs_HasIssues s) (repo_settings.rs_HasIssues target)
        (boolean ''features.issues'' (repo_config_settings.rs_HasIssues s)) @
      if_differs (repo_config_settings.rs_HasWiki s) (repo_settings.rs_HasWiki target)
        (boolean ''features.wiki'' (repo_config_settings.rs_HasWiki s)) @
      if_differs (repo_config_settings.rs_HasProjects s) (repo_settings.rs_HasProjects target)
        (boolean ''features.projects'' (repo_config_settings.rs_HasProjects s)))"

definition compare_merge_settings ::
  "string \<Rightarrow> repository_config \<Rightarrow> repo_settings \<Rightarrow> string \<Rightarrow> configuration_difference list" where
  "compare_merge_settings repoName current target templateName =
     (let s = gc_Settings current;
          boolean = (\<lambda>setting c t. create_boolean_configuration_difference repoName setting c t ''medium'' templateName) in
      if_differs (repo_config_settings.rs_DeleteBranchOnMerge s) (repo_settings.rs_DeleteBranchOnMerge target)
        (boolean ''merge.delete_branch_on_merge'' (repo_config_settings.rs_DeleteBranchOnMerge s)) @
      if_differs (repo_config_settings.rs_AllowSquashMerge s) (repo_settings.rs_AllowSquashMerge target)
        (boolean ''merge.allow_squash_merge'' (repo_config_settings.rs_AllowSquashMerge s)))"

definition compare_basic_settings ::
  "string \<Rightarrow> repository_config \<Rightarrow> repo_settings option \<Rightarrow> string \<Rightarrow> configuration_difference list" where
  "compare_basic_settings repoName current targetSettings templateName =
     (case targetSettings of
        None \<Rightarrow> []
      | Some target \<Rightarrow>
          let visibility = (\<lambda>b. if b then ''private'' else ''public'') in
          if_differs (gc_Description current) (rs_Description target)
            (\<lambda>t. create_configuration_difference repoName ''description'' (gc_Description current) t ''low'' templateName) @
          if_differs (gc_Homepage current) (rs_Homepage target)
            (\<lambda>t. create_configuration_difference repoName ''homepage'' (gc_Homepage current) t ''low'' templateName) @
          if_differs (gc_Private current) (rs_Private target)
            (\<lambda>t. difference_of repoName ''visibility'' (visibility (gc_Private current)) (visibility t) ''update'' ''high''
              templateName) @
          compare_repository_features repoName current target templateName @
          compare_merge_settings repoName current target templateName)"

definition compare_missing_branch_protection ::
  "string \<Rightarrow> string \<Rightarrow> branch_protection_rule \<Rightarrow> string \<Rightarrow> configuration_difference list" where
  "compare_missing_branch_protection repoName branch targetRule templateName =
     (case branch_protection_rule.bp_RequiredReviews targetRule of
        Some n \<Rightarrow>
          if 0 < n then [difference_of repoName (''branch_protection.'' @ branch @ ''.required_reviews'') ''0'' (show_int n)
            ''create'' ''high'' templateName] else []
      | None \<Rightarrow> [])"

definition compare_existing_branch_protection ::
  "string \<Rightarrow> string \<Rightarrow> protection_config \<Rightarrow> branch_protection_rule \<Rightarrow> string \<Rightarrow> configuration_difference list" where
  "compare_existing_branch_protection repoName branch currentRule targetRule templateName =
     if_differs (bc_RequiredReviews currentRule) (branch_protection_rule.bp_RequiredReviews targetRule)
       (\<lambda>t. difference_of repoName (''branch_protection.'' @ branch @ ''.required_reviews'')
         (show_int (bc_RequiredReviews currentRule)) (show_int t) ''update'' ''medium'' templateName) @
     if_differs (bc_EnforceAdmins currentRule) (branch_protection_rule.bp_EnforceAdmins targetRule)
       (\<lambda>t. difference_of repoName (''branch_protection.'' @ branch @ ''.enforce_admins'')
         (show_bool (bc_EnforceAdmins currentRule)) (show_bool t) ''update'' ''high'' templateName)"

fun compare_branches ::
  "string \<Rightarrow> (string, protection_config) gomap \<Rightarrow> (string, branch_protection_rule option) gomap \<Rightarrow> string
     \<Rightarrow> configuration_difference list option" where
  "compare_branches repoName current [] templateName = Some []"
| "compare_branches repoName current ((branch, targetRule) # rest) templateName =
     (case targetRule of
        None \<Rightarrow> None
      | Some rule \<Rightarrow>
          map_option (\<lambda>ds.
              (case gm_get current branch of
                 None \<Rightarrow> compare_missing_branch_protection repoName branch rule templateName
               | Some currentRule \<Rightarrow> compare_existing_branch_protection repoName branch currentRule rule templateName) @ ds)
            (compare_branches repoName current rest templateName))"

definition compare_security_settings ::
  "string \<Rightarrow> repository_config \<Rightarrow> security_settings option \<Rightarrow> string \<Rightarrow> configuration_difference list option" where
  "compare_security_settings repoName current targetSecurity templateName =
     (case targetSecurity of
        None \<Rightarrow> Some []
      | Some target \<Rightarrow> compare_branches repoName (entries (gc_BranchProtection current)) (ss_BranchProtection target) templateName)"

definition compare_team :: "string \<Rightarrow> repository_config \<Rightarrow> string \<Rightarrow> string \<times> string \<Rightarrow> configuration_difference list" where
  "compare_team repoName current templateName entry =
     (case entry of (team, targetPerm) \<Rightarrow>
        (case gm_get (entries (pm_Teams (gc_Permissions current))) team of
           None \<Rightarrow> [difference_of repoName (''permissions.team.'' @ team) ''none'' targetPerm ''create'' ''medium'' templateName]
         | Some currentPerm \<Rightarrow>
             if currentPerm \<noteq> targetPerm
             then [difference_of repoName (''permissions.team.'' @ team) currentPerm targetPerm ''update'' ''medium'' templateName]
             else []))"

definition compare_permission_settings ::
  "string \<Rightarrow> repository_config \<Rightarrow> permission_settings option \<Rightarrow> string \<Rightarrow> configuration_difference list" where
  "compare_permission_settings repoName current targetPermissions templateName =
     (case targetPermissions of
        None \<Rightarrow> []
      | Some target \<Rightarrow> concat (map (compare_team repoName current templateName) (pm_TeamPermissions target)))"

definition apply_policy_exceptions ::
  "configuration_difference list \<Rightarrow> policy_exception list \<Rightarrow> configuration_difference list" where
  "apply_policy_exceptions differences exceptions = differences"

definition compare_repository_configurations ::
  "string \<Rightarrow> repository_config \<Rightarrow> repo_settings option \<Rightarrow> security_settings option \<Rightarrow> permission_settings option \<Rightarrow> string
     \<Rightarrow> policy_exception list \<Rightarrow> configuration_difference list option" where
  "compare_repository_configurations repoName current targetSettings targetSecurity targetPermissions templateName exceptions =
     map_option (\<lambda>security. apply_policy_exceptions
         (compare_basic_settings repoName current targetSettings templateName @ security @
          compare_permission_settings repoName current targetPermissions templateName) exceptions)
       (compare_security_settings repoName current targetSecurity templateName)"

section \<open>The applied template\<close>

text \<open>
  A pattern with an asterisk is quoted, its asterisks become \<open>.*\<close> and it is anchored: literal
  pieces with anything but a line break between them.
\<close>

fun star_match :: "string \<Rightarrow> string \<Rightarrow> bool" where
  "star_match [] s = (s = [])"
| "star_match (p # ps) [] = (p = CHR ''*'' \<and> star_match ps [])"
| "star_match (p # ps) (c # cs) =
     (if p = CHR ''*'' then star_match ps (c # cs) \<or> (c \<noteq> CHR 0x0A \<and> star_match (p # ps) cs)
      else p = c \<and> star_match ps cs)"

definition match_repo_pattern :: "string \<Rightarrow> string \<Rightarrow> bool" where
  "match_repo_pattern name pattern = (if CHR ''*'' \<in> set pattern then star_match pattern name else name = pattern)"

definition global_template :: "repo_config \<Rightarrow> string" where
  "global_template rc =
     (case rc_Defaults rc of Some d \<Rightarrow> if rd_Template d \<noteq> [] then rd_Template d else ''none'' | None \<Rightarrow> ''none'')"

definition find_applied_template :: "repo_config \<Rightarrow> string \<Rightarrow> string" where
  "find_applied_template rc repoName =
     (case rc_Repositories rc of
        None \<Rightarrow> global_template rc
      | Some targets \<Rightarrow>
          (case List.find (\<lambda>s. sc_Name s = repoName \<and> sc_Template s \<noteq> []) (tg_Specific targets) of
             Some s \<Rightarrow> sc_Template s
           | None \<Rightarrow>
               (case List.find (\<lambda>p. match_repo_pattern repoName (pc_Match p) \<and> pc_Template p \<noteq> []) (tg_Patterns targets) of
                  Some p \<Rightarrow> pc_Template p
                | None \<Rightarrow>
                    (case tg_Default targets of
                       Some d \<Rightarrow> if rd_Template d \<noteq> [] then rd_Template d else global_template rc
                     | None \<Rightarrow> global_template rc))))"

section \<open>An organisation\<close>

datatype diff_error =
    TokenNotFound | RepoConfigLoadFailed load_error | OrganizationMismatch string string
  | RepositoryListFailed api_error | InvalidFilterRegex string

datatype diff_warning = ConfigurationUnavailable string api_error

definition compare_with_target ::
  "github_api \<Rightarrow> repo_config \<Rightarrow> string \<Rightarrow> string \<Rightarrow> (diff_warning + configuration_difference list) option" where
  "compare_with_target api rc organization name =
     (case get_repository_configuration api organization name of
        Inl e \<Rightarrow> Some (Inl (ConfigurationUnavailable name e))
      | Inr current \<Rightarrow>
          let target = get_effective_config rc name in
          map_option Inr (compare_repository_configurations name current (ef_settings target) (ef_security target)
            (ef_permissions target) (find_applied_template rc name) (ef_exceptions target)))"

fun compare_repositories ::
  "github_api \<Rightarrow> repo_config \<Rightarrow> string \<Rightarrow> api_repository list
     \<Rightarrow> (configuration_difference list \<times> diff_warning list) option" where
  "compare_repositories api rc organization [] = Some ([], [])"
| "compare_repositories api rc organization (repo # repos) =
     (if ar_Archived repo then compare_repositories api rc organization repos
      else (case compare_with_target api rc organization (ar_Name repo) of
              None \<Rightarrow> None
            | Some (Inl w) \<Rightarrow> map_option (apsnd (\<lambda>ws. w # ws)) (compare_repositories api rc organization repos)
            | Some (Inr ds) \<Rightarrow> map_option (apfst (\<lambda>rest. ds @ rest)) (compare_repositories api rc organization repos)))"

definition get_configuration_differences ::
  "(string \<Rightarrow> github_api) \<Rightarrow> (string \<Rightarrow> string) \<Rightarrow> (string \<Rightarrow> load_error + repo_config) \<Rightarrow> (string \<Rightarrow> string + (string \<Rightarrow> bool))
     \<Rightarrow> (string \<Rightarrow> string \<Rightarrow> api_error + api_repository list) \<Rightarrow> string \<Rightarrow> string \<Rightarrow> string \<Rightarrow> string
     \<Rightarrow> (diff_error + configuration_difference list \<times> diff_warning list) option" where
  "get_configuration_differences client getenv load compile list_repos organization pattern token configPath =
     (let token' = (if token = [] then getenv ''GITHUB_TOKEN'' else token) in
      if token' = [] then Some (Inl TokenNotFound)
      else (case load (if configPath = [] then ''repo-config.yaml'' else configPath) of
              Inl e \<Rightarrow> Some (Inl (RepoConfigLoadFailed e))
            | Inr rc \<Rightarrow>
                if rc_Organization rc \<noteq> organization
                then Some (Inl (OrganizationMismatch (rc_Organization rc) organization))
                else (case list_repos token' organization of
                        Inl e \<Rightarrow> Some (Inl (RepositoryListFailed e))
                      | Inr repos \<Rightarrow>
                          (case (if pattern = [] then Inr (\<lambda>_. True) else compile pattern) of
                             Inl e \<Rightarrow> Some (Inl (InvalidFilterRegex e))
                           | Inr selected \<Rightarrow>
                               map_option Inr (compare_repositories (client token') rc organization
                                 (filter (\<lambda>r. selected (ar_Name r)) repos))))))"

section \<open>The command\<close>

definition filter_by_impact :: "configuration_difference list \<Rightarrow> string \<Rightarrow> configuration_difference list" where
  "filter_by_impact differences impact = filter (\<lambda>d. cfd_Impact d = impact) differences"

definition filter_non_compliant :: "configuration_difference list \<Rightarrow> configuration_difference list" where
  "filter_non_compliant differences = filter (\<lambda>d. \<not> cfd_Compliant d) differences"

definition add_difference ::
  "(string, configuration_difference list) gomap \<Rightarrow> configuration_difference
     \<Rightarrow> (string, configuration_difference list) gomap" where
  "add_difference grouped d = gm_put (cfd_Repository d) (gm_at [] grouped (cfd_Repository d) @ [d]) grouped"

definition group_differences_by_repository ::
  "configuration_difference list \<Rightarrow> (string, configuration_difference list) gomap" where
  "group_differences_by_repository differences = foldl add_difference [] differences"

definition get_affected_repositories :: "configuration_difference list \<Rightarrow> string list" where
  "get_affected_repositories differences = gm_keys (foldl (\<lambda>m d. gm_put (cfd_Repository d) True m) [] differences)"

text \<open>The two nested loops that exchange the elements at i and j when they are out of order.\<close>

definition exchange :: "nat \<Rightarrow> nat \<Rightarrow> string list \<Rightarrow> string list" where
  "exchange i j repos = (if repos ! j < repos ! i then repos[i := repos ! j, j := repos ! i] else repos)"

definition exchange_row :: "nat \<Rightarrow> string list \<Rightarrow> string list" where
  "exchange_row i repos = foldl (\<lambda>rs j. exchange i j rs) repos [Suc i..<length repos]"

definition get_sorted_repository_names :: "(string, configuration_difference list) gomap \<Rightarrow> string list" where
  "get_sorted_repository_names grouped =
     (let repos = gm_keys grouped in foldl (\<lambda>rs i. exchange_row i rs) repos [0..<length repos])"

definition count_difference ::
  "(string, int) gomap \<times> (string, int) gomap \<Rightarrow> configuration_difference \<Rightarrow> (string, int) gomap \<times> (string, int) gomap" where
  "count_difference counts d =
     (case counts of (impactCounts, actionCounts) \<Rightarrow>
        (gm_put (cfd_Impact d) (gm_at 0 impactCounts (cfd_Impact d) + 1) impactCounts,
         gm_put (cfd_ChangeType d) (gm_at 0 actionCounts (cfd_ChangeType d) + 1) actionCounts))"

text \<open>The numbers of the summary: repositories, changes, and the changes by impact and by type.\<close>

definition display_diff_summary ::
  "configuration_difference list \<Rightarrow> int \<times> int \<times> (string, int) gomap \<times> (string, int) gomap" where
  "display_diff_summary differences =
     (int (length (get_affected_repositories differences)), int (length differences),
      foldl count_difference
        ([(''low'', 0), (''medium'', 0), (''high'', 0)], [(''create'', 0), (''update'', 0), (''delete'', 0)]) differences)"

datatype diff_output =
    NoneMatchFilters
  | AllRepositoriesCompliant
  | DifferencesShown string "configuration_difference list" "int \<times> int \<times> (string, int) gomap \<times> (string, int) gomap"

datatype diff_command_error = OrganizationRequired | DifferencesFailed diff_error | UnsupportedFormat string

definition run_diff_command ::
  "((diff_error + configuration_difference list \<times> diff_warning list) option) \<Rightarrow> string \<Rightarrow> string \<Rightarrow> string \<Rightarrow> bool
     \<Rightarrow> (diff_command_error + diff_output) option" where
  "run_diff_command differences organization format impactFilter onlyNonCompliant =
     (if organization = [] then Some (Inl OrganizationRequired)
      else (case differences of
              None \<Rightarrow> None
            | Some (Inl e) \<Rightarrow> Some (Inl (DifferencesFailed e))
            | Some (Inr (found, warnings)) \<Rightarrow>
                let byImpact = (if impactFilter \<noteq> [] then filter_by_impact found impactFilter else found);
                    shown = (if onlyNonCompliant then filter_non_compliant byImpact else byImpact)
                in if shown = [] then Some (Inr (if impactFilter \<noteq> [] \<or> onlyNonCompliant then NoneMatchFilters else AllRepositoriesCompliant))
                   else if format = ''table'' \<or> format = ''json'' \<or> format = ''unified''
                   then Some (Inr (DifferencesShown format shown (display_diff_summary shown)))
                   else Some (Inl (UnsupportedFormat format))))"

text \<open>The lines of the unified format.\<close>

definition unified_lines :: "configuration_difference \<Rightarrow> string list" where
  "unified_lines d =
     [''--- '' @ cfd_Repository d @ '' (current)'', ''+++ '' @ cfd_Repository d @ '' (target)'', ''@@ '' @ cfd_Setting d @ '' @@''] @
     (if cfd_ChangeType d = ''create'' then [''+'' @ cfd_Setting d @ '': '' @ cfd_TargetValue d]
      else if cfd_ChangeType d = ''update''
        then [''-'' @ cfd_Setting d @ '': '' @ cfd_CurrentValue d, ''+'' @ cfd_Setting d @ '': '' @ cfd_TargetValue d]
      else if cfd_ChangeType d = ''delete'' then [''-'' @ cfd_Setting d @ '': '' @ cfd_CurrentValue d]
      else []) @ [[]]"

definition display_diff_unified :: "configuration_difference list \<Rightarrow> string list" where
  "display_diff_unified differences = concat (map unified_lines differences)"

definition truncate_string :: "string \<Rightarrow> nat \<Rightarrow> string" where
  "truncate_string s maxLength =
     (if length s \<le> maxLength then s
      else if maxLength \<le> 3 then take maxLength s
      else take (maxLength - 3) s @ ''...'')"

definition format_value :: "string \<Rightarrow> string" where
  "format_value value = (if value = [] then ''(not set)'' else value)"

definition analyze_setting_change :: "configuration_difference \<Rightarrow> string" where
  "analyze_setting_change d =
     (if contains (cfd_Setting d) ''visibility'' then
        (if cfd_TargetValue d = ''private'' then ''Making repository private will restrict access to organization members only''
         else ''Making repository public will allow anyone to view the code'')
      else if contains (cfd_Setting d) ''branch_protection'' then
        (if contains (cfd_Setting d) ''required_reviews'' then ''Changing review requirements affects code quality gates''
         else if contains (cfd_Setting d) ''enforce_admins'' then ''Admin enforcement affects repository admin bypass capabilities''
         else ''Branch protection rule changes affect repository security'')
      else if contains (cfd_Setting d) ''permissions'' then ''Permission changes affect team access levels to the repository''
      else if contains (cfd_Setting d) ''merge'' then ''Merge setting changes affect workflow and branch management''
      else [])"

text \<open>The groups of the table by impact, in the order they are shown.\<close>

definition impact_groups :: "configuration_difference list \<Rightarrow> (string \<times> configuration_difference list) list" where
  "impact_groups differences =
     filter (\<lambda>(impact, diffs). diffs \<noteq> [])
       (map (\<lambda>impact. (impact, filter (\<lambda>d. cfd_Impact d = impact) differences)) [''high'', ''medium'', ''low''])"

section \<open>When nothing differs\<close>

text \<open>A target that is set has the current value.\<close>

definition satisfied :: "'a \<Rightarrow> 'a option \<Rightarrow> bool" where
  "satisfied current target = (case target of Some t \<Rightarrow> t = current | None \<Rightarrow> True)"

lemma if_differs_Nil [simp]: "if_differs current target f = [] \<longleftrightarrow> satisfied current target"
  by (auto simp: if_differs_def satisfied_def split: option.splits)

lemma if_differs_set: "d \<in> set (if_differs current target f) \<Longrightarrow> \<exists>t. d = f t"
  by (auto simp: if_differs_def split: option.splits if_splits)

definition settings_met :: "repository_config \<Rightarrow> repo_settings option \<Rightarrow> bool" where
  "settings_met current target =
     (case target of None \<Rightarrow> True
      | Some t \<Rightarrow>
          let s = gc_Settings current in
          satisfied (gc_Description current) (rs_Description t) \<and> satisfied (gc_Homepage current) (rs_Homepage t) \<and>
          satisfied (gc_Private current) (rs_Private t) \<and>
          satisfied (repo_config_settings.rs_HasIssues s) (repo_settings.rs_HasIssues t) \<and>
          satisfied (repo_config_settings.rs_HasWiki s) (repo_settings.rs_HasWiki t) \<and>
          satisfied (repo_config_settings.rs_HasProjects s) (repo_settings.rs_HasProjects t) \<and>
          satisfied (repo_config_settings.rs_DeleteBranchOnMerge s) (repo_settings.rs_DeleteBranchOnMerge t) \<and>
          satisfied (repo_config_settings.rs_AllowSquashMerge s) (repo_settings.rs_AllowSquashMerge t))"

definition branch_met :: "(string, protection_config) gomap \<Rightarrow> string \<times> branch_protection_rule option \<Rightarrow> bool" where
  "branch_met current entry =
     (case entry of (branch, rule) \<Rightarrow>
        (case rule of
           None \<Rightarrow> False
         | Some r \<Rightarrow>
             (case gm_get current branch of
                None \<Rightarrow> (case branch_protection_rule.bp_RequiredReviews r of Some n \<Rightarrow> n \<le> 0 | None \<Rightarrow> True)
              | Some c \<Rightarrow> satisfied (bc_RequiredReviews c) (branch_protection_rule.bp_RequiredReviews r) \<and>
                  satisfied (bc_EnforceAdmins c) (branch_protection_rule.bp_EnforceAdmins r))))"

definition team_met :: "repository_config \<Rightarrow> string \<times> string \<Rightarrow> bool" where
  "team_met current entry \<longleftrightarrow> gm_get (entries (pm_Teams (gc_Permissions current))) (fst entry) = Some (snd entry)"

definition target_met :: "repository_config \<Rightarrow> effective_config \<Rightarrow> bool" where
  "target_met current target \<longleftrightarrow>
     settings_met current (ef_settings target) \<and>
     (case ef_security target of None \<Rightarrow> True
      | Some sec \<Rightarrow> list_all (branch_met (entries (gc_BranchProtection current))) (ss_BranchProtection sec)) \<and>
     (case ef_permissions target of None \<Rightarrow> True | Some p \<Rightarrow> list_all (team_met current) (pm_TeamPermissions p))"

lemma basic_settings_Nil:
  "compare_basic_settings repo current target templateName = [] \<longleftrightarrow> settings_met current target"
  by (auto simp: compare_basic_settings_def settings_met_def compare_repository_features_def compare_merge_settings_def
      Let_def split: option.splits)

lemma branches_Nil:
  "compare_branches repo current rules templateName = Some [] \<longleftrightarrow> list_all (branch_met current) rules"
proof (induction rules)
  case (Cons entry rules)
  obtain branch rule where e: "entry = (branch, rule)" by fastforce
  show ?case
  proof (cases rule)
    case None
    then show ?thesis by (simp add: e branch_met_def)
  next
    case (Some r)
    have "(case gm_get current branch of None \<Rightarrow> compare_missing_branch_protection repo branch r templateName
        | Some c \<Rightarrow> compare_existing_branch_protection repo branch c r templateName) = [] \<longleftrightarrow> branch_met current entry"
      by (simp add: e Some branch_met_def compare_missing_branch_protection_def compare_existing_branch_protection_def
          split: option.splits)
    then show ?thesis using Cons.IH by (auto simp: e Some)
  qed
qed simp

lemma team_Nil: "compare_team repo current templateName entry = [] \<longleftrightarrow> team_met current entry"
  by (cases entry) (simp add: compare_team_def team_met_def split: option.splits)

lemma permissions_Nil:
  "compare_permission_settings repo current target templateName = [] \<longleftrightarrow>
     (case target of None \<Rightarrow> True | Some p \<Rightarrow> list_all (team_met current) (pm_TeamPermissions p))"
  by (simp add: compare_permission_settings_def team_Nil list_all_iff split: option.splits)

lemma no_difference_iff:
  "compare_repository_configurations repo current (ef_settings target) (ef_security target) (ef_permissions target)
     templateName exceptions = Some [] \<longleftrightarrow> target_met current target"
proof -
  have s: "compare_security_settings repo current (ef_security target) templateName = Some [] \<longleftrightarrow>
      (case ef_security target of None \<Rightarrow> True
       | Some sec \<Rightarrow> list_all (branch_met (entries (gc_BranchProtection current))) (ss_BranchProtection sec))"
    by (simp add: compare_security_settings_def branches_Nil split: option.splits)
  show ?thesis
    unfolding target_met_def s [symmetric] permissions_Nil [where repo = repo and templateName = templateName, symmetric] basic_settings_Nil [where repo = repo and templateName = templateName, symmetric]
      compare_repository_configurations_def apply_policy_exceptions_def
    by (cases "compare_security_settings repo current (ef_security target) templateName") auto
qed

text \<open>Every difference is reported as not compliant, so the option for such differences filters nothing.\<close>

lemma differences_not_compliant:
  assumes "compare_repository_configurations repo current s sec p templateName exceptions = Some ds"
  shows "list_all (\<lambda>d. \<not> cfd_Compliant d \<and> cfd_Repository d = repo \<and> cfd_Template d = templateName) ds"
proof -
  let ?ok = "\<lambda>d. \<not> cfd_Compliant d \<and> cfd_Repository d = repo \<and> cfd_Template d = templateName"
  have ok: "list_all ?ok (if_differs c t f)" if "\<And>x. ?ok (f x)" for c :: 'x and t f
    using that by (simp add: if_differs_def split: option.splits)
  note [simp] = difference_of_def create_configuration_difference_def create_boolean_configuration_difference_def
  have basic: "list_all ?ok (compare_basic_settings repo current s templateName)"
    by (auto simp: compare_basic_settings_def compare_repository_features_def compare_merge_settings_def Let_def
        intro!: ok split: option.splits)
  have branch: "list_all ?ok bs" if "compare_branches repo m rules templateName = Some bs" for m rules bs
    using that
  proof (induction rules arbitrary: bs)
    case (Cons entry rules)
    then show ?case
      by (cases entry) (auto simp: compare_missing_branch_protection_def compare_existing_branch_protection_def
          intro!: ok split: option.splits)
  qed simp
  have team: "list_all ?ok (compare_permission_settings repo current p templateName)"
    by (auto simp: compare_permission_settings_def compare_team_def list_all_iff split: option.splits if_splits)
  show ?thesis
    using assms basic branch team
    by (auto simp: compare_repository_configurations_def apply_policy_exceptions_def compare_security_settings_def
        split: option.splits)
qed


section \<open>What the command reports\<close>

text \<open>A repository raises no difference: it is archived, cannot be read, or meets its target.\<close>

definition raises_nothing :: "github_api \<Rightarrow> repo_config \<Rightarrow> string \<Rightarrow> api_repository \<Rightarrow> bool" where
  "raises_nothing api rc organization r \<longleftrightarrow>
     ar_Archived r \<or>
     (case get_repository_configuration api organization (ar_Name r) of
        Inl _ \<Rightarrow> True
      | Inr current \<Rightarrow> target_met current (get_effective_config rc (ar_Name r)))"

lemma compare_with_target_met:
  assumes "get_repository_configuration api organization name = Inr current"
  shows "compare_with_target api rc organization name = Some (Inr []) \<longleftrightarrow> target_met current (get_effective_config rc name)"
  using assms by (simp add: compare_with_target_def Let_def no_difference_iff)

lemma no_differences_iff:
  "(\<exists>ws. compare_repositories api rc organization repos = Some ([], ws)) \<longleftrightarrow>
     list_all (raises_nothing api rc organization) repos"
proof (induction repos)
  case (Cons r repos)
  show ?case
  proof (cases "ar_Archived r")
    case True
    then show ?thesis using Cons.IH by (simp add: raises_nothing_def)
  next
    case False
    show ?thesis
    proof (cases "get_repository_configuration api organization (ar_Name r)")
      case (Inl e)
      then have "compare_with_target api rc organization (ar_Name r) = Some (Inl (ConfigurationUnavailable (ar_Name r) e))"
        by (simp add: compare_with_target_def)
      then show ?thesis using False Inl Cons.IH by (auto simp: raises_nothing_def)
    next
      case (Inr current)
      have c: "compare_with_target api rc organization (ar_Name r) \<noteq> Some (Inl w)" for w
        using Inr by (auto simp: compare_with_target_def Let_def)
      have m: "raises_nothing api rc organization r \<longleftrightarrow> compare_with_target api rc organization (ar_Name r) = Some (Inr [])"
        using False Inr by (simp add: raises_nothing_def compare_with_target_met)
      show ?thesis
        using False Cons.IH unfolding list.pred_inject(2) m
        by (cases "compare_with_target api rc organization (ar_Name r)" rule: option.exhaust)
          (auto simp: c split: sum.splits)
    qed
  qed
qed simp

text \<open>Property C33. The command reports that all repositories are compliant exactly when every listed
  repository that the filter selects and that is not archived either meets its effective target in the
  settings that are compared or could not be read: an organisation none of whose repositories can be
  read is reported as compliant.\<close>

theorem compliant_report_iff:
  assumes "organization \<noteq> []" and "tok = (if token = [] then getenv ''GITHUB_TOKEN'' else token)" and "tok \<noteq> []"
    and "load (if configPath = [] then ''repo-config.yaml'' else configPath) = Inr rc" and "rc_Organization rc = organization"
    and "list_repos tok organization = Inr repos"
    and "(if pattern = [] then Inr (\<lambda>_. True) else compile pattern) = Inr selected"
  shows "run_diff_command (get_configuration_differences client getenv load compile list_repos organization pattern token configPath)
      organization format [] False = Some (Inr AllRepositoriesCompliant) \<longleftrightarrow>
    list_all (\<lambda>r. \<not> selected (ar_Name r) \<or> raises_nothing (client tok) rc organization r) repos"
proof -
  let ?found = "compare_repositories (client tok) rc organization (filter (\<lambda>r. selected (ar_Name r)) repos)"
  have g: "get_configuration_differences client getenv load compile list_repos organization pattern token configPath =
      map_option Inr ?found"
    unfolding get_configuration_differences_def Let_def assms(2) [symmetric] using assms(3-7) by simp
  have "run_diff_command (map_option Inr ?found) organization format [] False = Some (Inr AllRepositoriesCompliant) \<longleftrightarrow>
      (\<exists>ws. ?found = Some ([], ws))"
    using assms(1) by (cases ?found) (auto simp: run_diff_command_def Let_def split: if_splits)
  also have "\<dots> \<longleftrightarrow> list_all (raises_nothing (client tok) rc organization) (filter (\<lambda>r. selected (ar_Name r)) repos)"
    by (rule no_differences_iff)
  also have "\<dots> \<longleftrightarrow> list_all (\<lambda>r. \<not> selected (ar_Name r) \<or> raises_nothing (client tok) rc organization r) repos"
    by (auto simp: list_all_iff)
  finally show ?thesis unfolding g .
qed

definition plain_repository :: "string \<Rightarrow> api_repository" where
  "plain_repository name =
     \<lparr>ar_ID = 7, ar_Name = name, ar_FullName = ''acme/'' @ name, ar_Description = [], ar_Homepage = [],
      ar_Private = False, ar_Archived = False, ar_HTMLURL = [], ar_CloneURL = [], ar_SSHURL = [],
      ar_DefaultBranch = ''main'', ar_CreatedAt = [], ar_UpdatedAt = [], ar_Language = ''Go'', ar_Topics = [],
      ar_HasIssues = True, ar_HasProjects = False, ar_HasWiki = False, ar_HasDownloads = False, ar_AllowSquashMerge = True,
      ar_AllowMergeCommit = True, ar_AllowRebaseMerge = True, ar_DeleteBranchOnMerge = False\<rparr>"

definition failing_api :: github_api where
  "failing_api = \<lparr>ga_Repository = \<lambda>_ _. Inl (ApiError 500 []), ga_Protection = \<lambda>_ _ _. Inl (ApiError 500 []),
     ga_Teams = \<lambda>_ _. Inl (ApiError 500 []), ga_Collaborators = \<lambda>_ _. Inl (ApiError 500 []),
     ga_Write = \<lambda>_. Some (ApiError 500 [])\<rparr>"

lemma compliant_report_iff_witness:
  "run_diff_command (get_configuration_differences (\<lambda>_. failing_api) (\<lambda>_. ''token'') (\<lambda>_. Inr sample_config) (\<lambda>_. Inl [])
      (\<lambda>_ _. Inr [plain_repository ''api'', plain_repository ''web'']) ''acme'' [] [] []) ''acme'' ''table'' [] False
     = Some (Inr AllRepositoriesCompliant)"
proof -
  have o: "rc_Organization sample_config = ''acme''" by (simp add: sample_config_def)
  have "raises_nothing failing_api rc ''acme'' r" for rc r
    by (simp add: raises_nothing_def get_repository_configuration_def failing_api_def)
  then have "list_all (\<lambda>r. \<not> (\<lambda>_. True) (ar_Name r) \<or> raises_nothing ((\<lambda>_. failing_api) ''token'') sample_config ''acme'' r)
      [plain_repository ''api'', plain_repository ''web'']" by simp
  then show ?thesis
    by (subst compliant_report_iff [where tok = "''token''" and rc = sample_config and selected = "\<lambda>_. True"
          and repos = "[plain_repository ''api'', plain_repository ''web'']"]) (simp_all add: o)
qed

section \<open>What is read of the branches\<close>

text \<open>The client reads the protection of the default branch only.\<close>

lemma protection_of_default_branch:
  assumes "get_repository_configuration api owner repo = Inr current" and "ga_Repository api owner repo = Inr r"
  shows "gm_get (entries (gc_BranchProtection current)) branch \<noteq> None \<Longrightarrow> branch = ar_DefaultBranch r"
  using assms
  by (auto simp: get_repository_configuration_def with_protection_def with_permissions_def config_of_repository_def Let_def
      entries_def gm_get_def split: sum.splits api_error.splits if_splits option.splits prod.splits)

lemma missing_branch_reported:
  assumes "compare_branches repo current rules templateName = Some ds"
    and "(branch, Some rule) \<in> set rules" and "gm_get current branch = None"
    and "branch_protection_rule.bp_RequiredReviews rule = Some n" and "0 < n"
  shows "difference_of repo (''branch_protection.'' @ branch @ ''.required_reviews'') ''0'' (show_int n) ''create'' ''high'' templateName
    \<in> set ds"
  using assms
proof (induction rules arbitrary: ds)
  case (Cons entry rules)
  obtain b r where e: "entry = (b, Some r)" using Cons.prems(1) by (cases entry) (auto split: option.splits)
  obtain es where es: "compare_branches repo current rules templateName = Some es"
    using Cons.prems(1) by (auto simp: e)
  have ds: "ds = (case gm_get current b of None \<Rightarrow> compare_missing_branch_protection repo b r templateName
      | Some c \<Rightarrow> compare_existing_branch_protection repo b c r templateName) @ es"
    using Cons.prems(1) by (simp add: e es)
  show ?case
  proof (cases "(b, Some r) = (branch, Some rule)")
    case True
    then show ?thesis using Cons.prems(3-5) by (simp add: ds compare_missing_branch_protection_def)
  next
    case False
    then have "(branch, Some rule) \<in> set rules" using Cons.prems(2) e by auto
    from Cons.IH [OF es this Cons.prems(3-5)] show ?thesis by (simp add: ds)
  qed
qed simp

text \<open>A repository whose target requires reviews on another branch than the default one
  always shows the creation of that protection with a current value of zero, whatever protection the
  service has for the branch: after the target has been applied the difference is still reported.\<close>

theorem other_branch_always_missing:
  assumes "get_repository_configuration api organization name = Inr current"
    and "ga_Repository api organization name = Inr r" and "branch \<noteq> ar_DefaultBranch r"
    and "ef_security (get_effective_config rc name) = Some sec" and "(branch, Some rule) \<in> set (ss_BranchProtection sec)"
    and "branch_protection_rule.bp_RequiredReviews rule = Some n" and "0 < n"
    and "compare_with_target api rc organization name = Some (Inr ds)"
  shows "difference_of name (''branch_protection.'' @ branch @ ''.required_reviews'') ''0'' (show_int n) ''create'' ''high''
    (find_applied_template rc name) \<in> set ds"
proof -
  have none: "gm_get (entries (gc_BranchProtection current)) branch = None"
    using protection_of_default_branch [OF assms(1,2), of branch] assms(3) by blast
  obtain bs where bs: "compare_branches name (entries (gc_BranchProtection current)) (ss_BranchProtection sec)
      (find_applied_template rc name) = Some bs"
    and ds: "\<And>d. d \<in> set bs \<Longrightarrow> d \<in> set ds"
    using assms(1,4,8) by (auto simp: compare_with_target_def Let_def compare_repository_configurations_def
        compare_security_settings_def apply_policy_exceptions_def)
  show ?thesis by (rule ds [OF missing_branch_reported [OF bs assms(5) none assms(6,7)]])
qed

definition two_reviews :: branch_protection_rule where
  "two_reviews = \<lparr>bp_RequiredReviews = Some 2, bp_DismissStaleReviews = None, bp_RequireCodeOwnerReviews = None,
     bp_RequiredStatusChecks = None, bp_StrictStatusChecks = None, bp_RestrictPushes = None, bp_AllowedUsers = None,
     bp_AllowedTeams = None, bp_RequireUpToDateBranch = None, bp_EnforceAdmins = None, bp_RequireConversationResolution = None,
     bp_AllowForcePushes = None, bp_AllowDeletions = None, bp_DeploymentProtectionRules = None\<rparr>"

definition develop_target :: repo_config where
  "develop_target = sample_config\<lparr>rc_Defaults := Some \<lparr>rd_Template = [], rd_Settings = None,
     rd_Security = Some \<lparr>ss_VulnerabilityAlerts = None, ss_AutomatedSecurityFixes = None, ss_SecurityAdvisories = None,
       ss_PrivateVulnerabilityReporting = None, ss_SecretScanning = None, ss_SecretScanningPushProtection = None,
       ss_BranchProtection = [(''develop'', Some two_reviews)], ss_Webhooks = None\<rparr>, rd_Permissions = None\<rparr>\<rparr>"

definition protected_api :: github_api where
  "protected_api = \<lparr>ga_Repository = \<lambda>_ name. Inr (plain_repository name),
     ga_Protection = \<lambda>_ _ _. Inr (protection_of_config \<lparr>bc_RequiredReviews = 2, bc_DismissStaleReviews = False,
       bc_RequireCodeOwnerReviews = False, bc_RequiredStatusChecks = [], bc_StrictStatusChecks = False, bc_EnforceAdmins = False,
       bc_RestrictPushes = False, bc_AllowedUsers = [], bc_AllowedTeams = [], bc_RequireConversationResolution = False,
       bc_AllowForcePushes = False, bc_AllowDeletions = False\<rparr>),
     ga_Teams = \<lambda>_ _. Inr [], ga_Collaborators = \<lambda>_ _. Inr [], ga_Write = \<lambda>_. None\<rparr>"

text \<open>The service protects every branch with two reviews, and the difference is reported all the same.\<close>

lemma other_branch_always_missing_witness:
  "\<exists>ds. compare_with_target protected_api develop_target ''acme'' ''api'' = Some (Inr ds) \<and>
    difference_of ''api'' ''branch_protection.develop.required_reviews'' ''0'' ''2'' ''create'' ''high'' ''none'' \<in> set ds"
proof -
  obtain current where c: "get_repository_configuration protected_api ''acme'' ''api'' = Inr current"
    by (simp add: get_repository_configuration_def protected_api_def with_protection_def with_permissions_def
        config_of_repository_def plain_repository_def get_repository_permissions_def Let_def)
  obtain sec where s: "ef_security (get_effective_config develop_target ''api'') = Some sec"
    and b: "ss_BranchProtection sec = [(''develop'', Some two_reviews)]"
    by (simp add: get_effective_config_def develop_target_def sample_config_def apply_defaults_def apply_config_layer_def
        merge_security_settings_def empty_security_settings_def override_security_def Let_def gm_copy_def gm_put_def)
  obtain ds where d: "compare_with_target protected_api develop_target ''acme'' ''api'' = Some (Inr ds)"
    using c s b by (simp add: compare_with_target_def Let_def compare_repository_configurations_def compare_security_settings_def)
  have t: "find_applied_template develop_target ''api'' = ''none''"
    by (simp add: find_applied_template_def develop_target_def sample_config_def global_template_def)
  have n: "show_int 2 = ''2''" by code_simp
  have r: "ga_Repository protected_api ''acme'' ''api'' = Inr (plain_repository ''api'')" by (simp add: protected_api_def)
  have m: "''develop'' \<noteq> ar_DefaultBranch (plain_repository ''api'')" by (simp add: plain_repository_def)
  have i: "(''develop'', Some two_reviews) \<in> set (ss_BranchProtection sec)" by (simp add: b)
  have q: "branch_protection_rule.bp_RequiredReviews two_reviews = Some 2" by (simp add: two_reviews_def)
  from other_branch_always_missing [OF c r m s i q _ d] d show ?thesis by (simp add: t n)
qed

section \<open>The reported template\<close>

text \<open>
  The command names the template of the first entry that has one; the effective configuration applies
  the defaults, every matching pattern and the default of the targets. The two also match patterns
  differently: the configuration applies \<open>api-*\<close> to a repository whose name contains \<open>api-\<close>
  anywhere, the command does not.
\<close>

lemma patterns_disagree:
  "match_pattern ''my-api-x'' ''api-*'' \<and> \<not> match_repo_pattern ''my-api-x'' ''api-*''"
  by code_simp

section \<open>Sorted names\<close>

lemma exchange_props:
  assumes "i < length rs" and "j < length rs"
  shows "length (exchange i j rs) = length rs" "mset (exchange i j rs) = mset rs"
  using assms by (simp_all add: exchange_def mset_swap)

text \<open>After the row of \<open>i\<close> the element at \<open>i\<close> is the least of the rest; the elements before are untouched.\<close>

lemma exchange_row_upto:
  assumes "i < length rs" and "i < m" and "m \<le> length rs"
  defines "r \<equiv> foldl (\<lambda>rs j. exchange i j rs) rs [Suc i..<m]"
  shows "length r = length rs \<and> mset r = mset rs \<and> take i r = take i rs \<and> (\<forall>j. i \<le> j \<and> j < m \<longrightarrow> r ! i \<le> r ! j) \<and>
    (\<forall>j. m \<le> j \<and> j < length rs \<longrightarrow> r ! j = rs ! j)"
  using assms(2,3) unfolding r_def
proof (induction m)
  case (Suc m)
  show ?case
  proof (cases "m = i")
    case True
    then show ?thesis by (auto simp: less_Suc_eq)
  next
    case False
    let ?r = "foldl (\<lambda>rs j. exchange i j rs) rs [Suc i..<m]"
    have im: "i < m" "m \<le> length rs" using False Suc.prems by simp_all
    note IH = Suc.IH [OF im]
    have step: "foldl (\<lambda>rs j. exchange i j rs) rs [Suc i..<Suc m] = exchange i m ?r" using im by simp
    have len: "i < length ?r" "m < length ?r" using IH Suc.prems im by auto
    have tk: "take i (exchange i m ?r) = take i ?r" using im by (simp add: exchange_def)
    have least: "exchange i m ?r ! i \<le> exchange i m ?r ! j" if "i \<le> j" "j < Suc m" for j
    proof -
      have le: "?r ! i \<le> ?r ! j" if "j < m" using IH that \<open>i \<le> j\<close> by blast
      show ?thesis
        using len im that le by (cases "j = i"; cases "j = m") (auto simp: exchange_def nth_list_update)
    qed
    have rest: "exchange i m ?r ! j = rs ! j" if "Suc m \<le> j" "j < length rs" for j
      using IH that im len by (auto simp: exchange_def nth_list_update)
    show ?thesis
      unfolding step using IH exchange_props [OF len] tk least rest by auto
  qed
qed simp

lemma exchange_row_props:
  assumes "i < length rs"
  shows "length (exchange_row i rs) = length rs" "mset (exchange_row i rs) = mset rs" "take i (exchange_row i rs) = take i rs"
    "i \<le> j \<Longrightarrow> j < length rs \<Longrightarrow> exchange_row i rs ! i \<le> exchange_row i rs ! j"
  using exchange_row_upto [OF assms assms order_refl] unfolding exchange_row_def by blast+

lemma drop_row:
  assumes "i < length rs"
  shows "mset (drop i (exchange_row i rs)) = mset (drop i rs)"
proof -
  have "mset (take i (exchange_row i rs)) + mset (drop i (exchange_row i rs)) = mset (take i rs) + mset (drop i rs)"
    using exchange_row_props(2) [OF assms] by (metis append_take_drop_id mset_append)
  then show ?thesis by (simp add: exchange_row_props(3) [OF assms])
qed

lemma sorted_prefix:
  assumes "n \<le> length rs"
  defines "r \<equiv> foldl (\<lambda>rs i. exchange_row i rs) rs [0..<n]"
  shows "length r = length rs \<and> mset r = mset rs \<and> sorted (take n r) \<and>
    (\<forall>x\<in>set (take n r). \<forall>y\<in>set (drop n r). x \<le> y)"
  using assms(1) unfolding r_def
proof (induction n)
  case (Suc n)
  let ?r = "foldl (\<lambda>rs i. exchange_row i rs) rs [0..<n]"
  let ?s = "exchange_row n ?r"
  have n: "n \<le> length rs" using Suc.prems by simp
  note IH = Suc.IH [OF n]
  have len: "n < length ?r" using IH Suc.prems by simp
  note row = exchange_row_props [OF len]
  have tn: "take (Suc n) ?s = take n ?r @ [?s ! n]"
    using len row(1,3) by (simp add: take_Suc_conv_app_nth)
  have dn: "set (drop n ?s) = set (drop n ?r)"
    using arg_cong [OF drop_row [OF len], of set_mset] by simp
  have mem: "?s ! n \<in> set (drop n ?s)"
    using len row(1) by (metis in_set_conv_nth length_drop nth_drop add_0_right zero_less_diff less_imp_le)
  have least: "?s ! n \<le> y" if "y \<in> set (drop (Suc n) ?s)" for y
  proof -
    from that obtain k where "k < length ?s - Suc n" "y = ?s ! (Suc n + k)" by (auto simp: in_set_conv_nth)
    then show ?thesis using row(4) [of "Suc n + k"] row(1) by simp
  qed
  have sub: "set (drop (Suc n) ?s) \<subseteq> set (drop n ?s)" by (rule set_drop_subset_set_drop) simp
  have "sorted (take (Suc n) ?s)" unfolding tn using IH mem dn by (simp add: sorted_append)
  moreover have "\<forall>x\<in>set (take (Suc n) ?s). \<forall>y\<in>set (drop (Suc n) ?s). x \<le> y"
    unfolding tn using IH dn sub least by auto
  ultimately show ?case using IH row(1,2) by simp
qed simp

text \<open>The two nested loops sort the names.\<close>

lemma sorted_repository_names:
  "sorted (get_sorted_repository_names grouped) \<and> mset (get_sorted_repository_names grouped) = mset (gm_keys grouped)"
  using sorted_prefix [of "length (gm_keys grouped)" "gm_keys grouped"]
  unfolding get_sorted_repository_names_def Let_def by (metis order_refl take_all)

end
