(* ===== verification/FileTree.thy ===== *)
theory FileTree
  imports GoPrelude
begin

text \<open>
  A directory tree and the operations of Go's \<open>os\<close> and \<open>filepath\<close> packages that the change store
  uses. A path is the list of its names; a directory holds its entries in the order of their names,
  which is the order in which \<open>filepath.Walk\<close> visits them. Permissions, links and failing disks
  are left out: an operation fails only because of what the tree holds.
\<close>

section \<open>Trees\<close>

datatype file_node = Plain string | Folder "(string \<times> file_node) list"

datatype fs_error = NotExist "string list" | NotDirectory "string list" | IsDirectory "string list" | NotEmpty "string list"

fun is_folder :: "file_node \<Rightarrow> bool" where
  "is_folder (Folder es) = True"
| "is_folder (Plain c) = False"

fun put_entry :: "string \<Rightarrow> file_node \<Rightarrow> (string \<times> file_node) list \<Rightarrow> (string \<times> file_node) list" where
  "put_entry n t [] = [(n, t)]"
| "put_entry n t ((m, u) # es) =
     (if n = m then (n, t) # es else if n < m then (n, t) # (m, u) # es else (m, u) # put_entry n t es)"

fun lookup_node :: "file_node \<Rightarrow> string list \<Rightarrow> file_node option" where
  "lookup_node t [] = Some t"
| "lookup_node (Plain c) (n # ns) = None"
| "lookup_node (Folder es) (n # ns) = (case map_of es n of None \<Rightarrow> None | Some t \<Rightarrow> lookup_node t ns)"

fun sorted_tree :: "file_node \<Rightarrow> bool" where
  "sorted_tree (Plain c) = True"
| "sorted_tree (Folder es) = (sorted_wrt (<) (map fst es) \<and> list_all (\<lambda>e. sorted_tree (snd e)) es)"

section \<open>Changing a tree\<close>

text \<open>\<open>os.MkdirAll\<close>, \<open>os.WriteFile\<close> and \<open>os.Remove\<close>; \<open>seen\<close> is the path walked so far.\<close>

fun mkdir_all :: "string list \<Rightarrow> string list \<Rightarrow> file_node \<Rightarrow> fs_error + file_node" where
  "mkdir_all seen ns (Plain c) = Inl (NotDirectory seen)"
| "mkdir_all seen [] (Folder es) = Inr (Folder es)"
| "mkdir_all seen (n # ns) (Folder es) =
     (case mkdir_all (seen @ [n]) ns (case map_of es n of None \<Rightarrow> Folder [] | Some t \<Rightarrow> t) of
        Inl e \<Rightarrow> Inl e
      | Inr t \<Rightarrow> Inr (Folder (put_entry n t es)))"

fun write_file :: "string list \<Rightarrow> string list \<Rightarrow> string \<Rightarrow> file_node \<Rightarrow> fs_error + file_node" where
  "write_file seen [] content (Plain c) = Inr (Plain content)"
| "write_file seen [] content (Folder es) = Inl (IsDirectory seen)"
| "write_file seen (n # ns) content (Plain c) = Inl (NotDirectory seen)"
| "write_file seen (n # ns) content (Folder es) =
     (case map_of es n of
        None \<Rightarrow> if ns = [] then Inr (Folder (put_entry n (Plain content) es)) else Inl (NotExist (seen @ [n]))
      | Some t \<Rightarrow>
          (case write_file (seen @ [n]) ns content t of
             Inl e \<Rightarrow> Inl e
           | Inr t' \<Rightarrow> Inr (Folder (put_entry n t' es))))"

fun remove_node :: "string list \<Rightarrow> string list \<Rightarrow> file_node \<Rightarrow> fs_error + file_node" where
  "remove_node seen [] t = Inl (NotEmpty seen)"
| "remove_node seen (n # ns) (Plain c) = Inl (NotDirectory seen)"
| "remove_node seen (n # ns) (Folder es) =
     (case map_of es n of
        None \<Rightarrow> Inl (NotExist (seen @ [n]))
      | Some t \<Rightarrow>
          if ns = [] then
            (case t of Folder (_ # _) \<Rightarrow> Inl (NotEmpty (seen @ [n])) | _ \<Rightarrow> Inr (Folder (filter (\<lambda>e. fst e \<noteq> n) es)))
          else (case remove_node (seen @ [n]) ns t of Inl e \<Rightarrow> Inl e | Inr t' \<Rightarrow> Inr (Folder (put_entry n t' es))))"

definition read_file :: "string list \<Rightarrow> file_node \<Rightarrow> fs_error + string" where
  "read_file path disk =
     (case lookup_node disk path of
        None \<Rightarrow> Inl (NotExist path)
      | Some (Folder _) \<Rightarrow> Inl (IsDirectory path)
      | Some (Plain c) \<Rightarrow> Inr c)"

section \<open>Walking a tree\<close>

text \<open>
  \<open>filepath.Walk\<close>: the function is called with every path, a directory before its entries.
  \<open>SkipDir\<close> from a directory passes it over; from a file it passes over the rest of the directory
  the file is in, and nothing else.
\<close>

datatype 'e walk_signal = GoOn | SkipDir | Stop 'e

type_synonym ('e, 's) walk_function = "string list \<Rightarrow> file_node \<Rightarrow> 's \<Rightarrow> 'e walk_signal \<times> 's"

fun walk :: "('e, 's) walk_function \<Rightarrow> string list \<Rightarrow> file_node \<Rightarrow> 's \<Rightarrow> 'e walk_signal \<times> 's"
  and walk_entries :: "('e, 's) walk_function \<Rightarrow> string list \<Rightarrow> (string \<times> file_node) list \<Rightarrow> 's \<Rightarrow> 'e walk_signal \<times> 's" where
  "walk fn path (Plain c) s = fn path (Plain c) s"
| "walk fn path (Folder es) s =
     (case fn path (Folder es) s of
        (GoOn, s') \<Rightarrow> walk_entries fn path es s'
      | (SkipDir, s') \<Rightarrow> (SkipDir, s')
      | (Stop e, s') \<Rightarrow> (Stop e, s'))"
| "walk_entries fn path [] s = (GoOn, s)"
| "walk_entries fn path ((n, t) # es) s =
     (case walk fn (path @ [n]) t s of
        (GoOn, s') \<Rightarrow> walk_entries fn path es s'
      | (SkipDir, s') \<Rightarrow> if is_folder t then walk_entries fn path es s' else (SkipDir, s')
      | (Stop e, s') \<Rightarrow> (Stop e, s'))"

text \<open>A missing root is reported to the function, which returns the error in every use.\<close>

definition walk_tree :: "('e, 's) walk_function \<Rightarrow> (fs_error \<Rightarrow> 'e) \<Rightarrow> string list \<Rightarrow> file_node \<Rightarrow> 's \<Rightarrow> 'e option \<times> 's" where
  "walk_tree fn wrap base disk s =
     (case lookup_node disk base of
        None \<Rightarrow> (Some (wrap (NotExist base)), s)
      | Some t \<Rightarrow>
          (case walk fn base t s of
             (Stop e, s') \<Rightarrow> (Some e, s')
           | (_, s') \<Rightarrow> (None, s')))"

section \<open>Facts\<close>

lemma map_of_put_entry [simp]:
  "sorted_wrt (<) (map fst es) \<Longrightarrow> map_of (put_entry n t es) m = (if m = n then Some t else map_of es m)"
proof (induction es)
  case (Cons e es)
  obtain k u where e: "e = (k, u)" by fastforce
  have "map_of es n = None" if "n < k"
  proof -
    from that Cons.prems e have "n \<notin> fst ` set es" by auto
    then show ?thesis by (simp add: map_of_eq_None_iff)
  qed
  then show ?case using Cons by (auto simp: e)
qed simp

lemma set_put_entry: "set (put_entry n t es) \<subseteq> insert (n, t) (set es)"
  by (induction n t es rule: put_entry.induct) auto

lemma sorted_put_entry: "sorted_wrt (<) (map fst es) \<Longrightarrow> sorted_wrt (<) (map fst (put_entry n t es))"
proof (induction n t es rule: put_entry.induct)
  case (2 n t m u es)
  show ?case
  proof (cases "m < n")
    case True
    have "\<forall>x\<in>fst ` set (put_entry n t es). m < x" using set_put_entry [of n t es] True 2(2) by fastforce
    then show ?thesis using True 2 by auto
  next
    case False
    then show ?thesis using 2(2) by (cases "n = m") auto
  qed
qed simp

lemma sorted_tree_put [simp]:
  "sorted_tree (Folder es) \<Longrightarrow> sorted_tree t \<Longrightarrow> sorted_tree (Folder (put_entry n t es))"
  using set_put_entry [of n t es] by (auto simp: sorted_put_entry list_all_iff)

lemma sorted_tree_entry: "sorted_tree (Folder es) \<Longrightarrow> map_of es n = Some t \<Longrightarrow> sorted_tree t"
  by (auto simp: list_all_iff dest!: map_of_SomeD)

lemma lookup_node_append: "lookup_node t (ns @ ms) = (case lookup_node t ns of None \<Rightarrow> None | Some u \<Rightarrow> lookup_node u ms)"
  by (induction t ns rule: lookup_node.induct) (auto split: option.splits)

section \<open>What a walk visits\<close>

fun nodes :: "string list \<Rightarrow> file_node \<Rightarrow> (string list \<times> file_node) list"
  and entry_nodes :: "string list \<Rightarrow> (string \<times> file_node) list \<Rightarrow> (string list \<times> file_node) list" where
  "nodes path (Plain c) = [(path, Plain c)]"
| "nodes path (Folder es) = (path, Folder es) # entry_nodes path es"
| "entry_nodes path [] = []"
| "entry_nodes path ((n, t) # es) = nodes (path @ [n]) t @ entry_nodes path es"

fun visit :: "('e, 's) walk_function \<Rightarrow> (string list \<times> file_node) list \<Rightarrow> 's \<Rightarrow> 'e walk_signal \<times> 's" where
  "visit fn [] s = (GoOn, s)"
| "visit fn ((p, t) # rest) s = (case fn p t s of (GoOn, s') \<Rightarrow> visit fn rest s' | (SkipDir, s') \<Rightarrow> (SkipDir, s') | (Stop e, s') \<Rightarrow> (Stop e, s'))"

lemma visit_append:
  "visit fn (xs @ ys) s = (case visit fn xs s of (GoOn, s') \<Rightarrow> visit fn ys s' | (SkipDir, s') \<Rightarrow> (SkipDir, s') | (Stop e, s') \<Rightarrow> (Stop e, s'))"
  by (induction fn xs s rule: visit.induct) (auto split: prod.splits walk_signal.splits)

lemma visit_never_skips:
  assumes "\<And>p t s. fst (fn p t s) \<noteq> SkipDir"
  shows "fst (visit fn xs s) \<noteq> SkipDir"
proof (induction xs arbitrary: s)
  case (Cons x xs)
  obtain p t where x: "x = (p, t)" by fastforce
  obtain sig s' where f: "fn p t s = (sig, s')" by fastforce
  then have "sig \<noteq> SkipDir" using assms [of p t s] by simp
  then show ?case using Cons by (cases sig) (simp_all add: x f)
qed simp

text \<open>A function that never skips sees every node, in order, until it stops.\<close>

lemma walk_visits:
  assumes "\<And>p t s. fst (fn p t s) \<noteq> SkipDir"
  shows "walk fn path t s = visit fn (nodes path t) s" and "walk_entries fn path es s = visit fn (entry_nodes path es) s"
proof (induction path t and path es arbitrary: s and s rule: nodes_entry_nodes.induct)
  case (2 path es)
  show ?case using 2 [of "snd (fn path (Folder es) s)"] assms [of path "Folder es" s]
    by (auto split: prod.splits walk_signal.splits)
next
  case (4 path n t es)
  have "visit fn (nodes (path @ [n]) t) s \<noteq> (SkipDir, s')" for s'
    using visit_never_skips [where fn = fn and xs = "nodes (path @ [n]) t" and s = s, OF assms] by auto
  then show ?case using 4 by (auto simp: visit_append split: prod.splits walk_signal.splits)
qed (auto split: prod.splits walk_signal.splits)

text \<open>The nodes of a sorted tree are the paths that can be looked up.\<close>

lemma nodes_prefix:
  "(p, u) \<in> set (nodes path t) \<Longrightarrow> \<exists>q. p = path @ q"
  "(p, u) \<in> set (entry_nodes path es) \<Longrightarrow> \<exists>q. p = path @ q"
  by (induction path t and path es rule: nodes_entry_nodes.induct) auto

lemma entry_nodes_iff:
  "(p, u) \<in> set (entry_nodes path es) \<longleftrightarrow> (\<exists>(n, t)\<in>set es. (p, u) \<in> set (nodes (path @ [n]) t))"
  by (induction es) auto

lemma nodes_lookup:
  assumes "sorted_tree t"
  shows "(path @ q, u) \<in> set (nodes path t) \<longleftrightarrow> lookup_node t q = Some u"
  using assms
proof (induction t q arbitrary: path rule: lookup_node.induct)
  case (1 t)
  show ?case
  proof (cases t)
    case (Folder es)
    have "(path, u) \<notin> set (entry_nodes path es)" using nodes_prefix(1) unfolding entry_nodes_iff by fastforce
    then show ?thesis by (auto simp: Folder)
  qed auto
next
  case (3 es n ns)
  have d: "distinct (map fst es)" using 3(2) by (auto simp: strict_sorted_iff)
  have IH: "(path @ n # ns, u) \<in> set (nodes (path @ [n]) t) \<longleftrightarrow> lookup_node t ns = Some u" if "(n, t) \<in> set es" for t
  proof -
    have m: "map_of es n = Some t" using that d by (simp add: map_of_eq_Some_iff)
    from 3(1) [OF m sorted_tree_entry [OF 3(2) m], of "path @ [n]"] show ?thesis by simp
  qed
  have "(path @ n # ns, u) \<in> set (nodes path (Folder es)) \<longleftrightarrow> (\<exists>t. (n, t) \<in> set es \<and> ((path @ [n]) @ ns, u) \<in> set (nodes (path @ [n]) t))"
  proof -
    have "m = n" if "(path @ n # ns, u) \<in> set (nodes (path @ [m]) t)" for m t
      using nodes_prefix(1) [OF that] by auto
    then show ?thesis by (auto simp: entry_nodes_iff)
  qed
  also have "\<dots> \<longleftrightarrow> (\<exists>t. map_of es n = Some t \<and> lookup_node t ns = Some u)"
    using IH d by (auto simp: map_of_eq_Some_iff)
  finally show ?case by (auto split: option.splits)
qed auto

section \<open>Searching by name\<close>

text \<open>
  A search that remembers the path of a node with the given name and skips: it ends with a node of
  that name if there is one, though not necessarily with the first.
\<close>

definition name_of :: "string list \<Rightarrow> string" where
  "name_of path = (if path = [] then [] else last path)"

definition search_name :: "string \<Rightarrow> ('e, string list option) walk_function" where
  "search_name name path t found = (if name_of path = name then (SkipDir, Some path) else (GoOn, found))"

definition named :: "string \<Rightarrow> (string list \<times> file_node) list \<Rightarrow> string list set" where
  "named name xs = {p. p \<in> fst ` set xs \<and> name_of p = name}"

lemma named_append [simp]: "named name (xs @ ys) = named name xs \<union> named name ys"
  and named_Cons [simp]: "named name ((p, t) # xs) = (if name_of p = name then insert p (named name xs) else named name xs)"
  and named_Nil [simp]: "named name [] = {}"
  by (auto simp: named_def)

lemma search_result:
  fixes found :: "string list option" and sig :: "'e walk_signal"
  shows "walk (search_name name) path t found = (sig, found') \<Longrightarrow>
      (if named name (nodes path t) = {} then sig = GoOn \<and> found' = found
       else \<exists>p\<in>named name (nodes path t). found' = Some p) \<and> (\<forall>e. sig \<noteq> Stop e)"
    and "walk_entries (search_name name) path es found = (sig, found') \<Longrightarrow>
      (if named name (entry_nodes path es) = {} then sig = GoOn \<and> found' = found
       else \<exists>p\<in>named name (entry_nodes path es). found' = Some p) \<and> (\<forall>e. sig \<noteq> Stop e)"
proof (induction path t and path es arbitrary: found sig found' and found sig found' rule: nodes_entry_nodes.induct)
  case (1 path c)
  then show ?case by (auto simp: search_name_def split: if_splits)
next
  case (2 path es)
  show ?case
  proof (cases "name_of path = name")
    case True
    then show ?thesis using 2(2) by (simp add: search_name_def)
  next
    case False
    then show ?thesis using 2(1) [of found sig found'] 2(2) by (simp add: search_name_def)
  qed
next
  case (3 path)
  then show ?case by simp
next
  case (4 path n t es)
  obtain sig1 :: "'e walk_signal" and f1 where w: "walk (search_name name) (path @ [n]) t found = (sig1, f1)" by fastforce
  note IH = 4(1) [OF w]
  show ?case
  proof (cases "named name (nodes (path @ [n]) t) = {}")
    case True
    then have "sig1 = GoOn" "f1 = found" using IH by auto
    then have "walk_entries (search_name name) path es found = (sig, found')" using 4(3) w by simp
    from 4(2) [OF this] show ?thesis using True by simp
  next
    case False
    then obtain p where p: "p \<in> named name (nodes (path @ [n]) t)" "f1 = Some p" and s: "\<forall>e. sig1 \<noteq> Stop e" using IH by auto
    have "walk_entries (search_name name) path es (Some p) = (sig, found') \<or> (sig, found') = (SkipDir, Some p)"
      using 4(3) w p(2) s by (cases sig1) (auto split: if_splits)
    then show ?thesis
    proof
      assume "walk_entries (search_name name) path es (Some p) = (sig, found')"
      from 4(2) [OF this] show ?thesis using p(1) by (auto split: if_splits)
    next
      assume "(sig, found') = (SkipDir, Some p)"
      then show ?thesis using p(1) by auto
    qed
  qed
qed

section \<open>Making directories and writing files\<close>

lemma mkdir_all_result:
  assumes "mkdir_all seen ns t = Inr t'" and "sorted_tree t"
  shows "sorted_tree t'" and "\<exists>es. lookup_node t' ns = Some (Folder es)"
    and "lookup_node t' q = Some u \<Longrightarrow> lookup_node t q \<noteq> None \<or> prefix q ns"
proof -
  have "sorted_tree t' \<and> (\<exists>es. lookup_node t' ns = Some (Folder es)) \<and>
      (\<forall>q u. lookup_node t' q = Some u \<longrightarrow> lookup_node t q \<noteq> None \<or> prefix q ns)"
    using assms
  proof (induction seen ns t arbitrary: t' rule: mkdir_all.induct)
    case (3 seen n ns es)
    let ?t = "case map_of es n of None \<Rightarrow> Folder [] | Some t \<Rightarrow> t"
    obtain t1 where t1: "mkdir_all (seen @ [n]) ns ?t = Inr t1" and t': "t' = Folder (put_entry n t1 es)"
      using 3(2) by (auto split: sum.splits)
    have s: "sorted_tree ?t" using 3(3) sorted_tree_entry [OF 3(3)] by (cases "map_of es n") auto
    have sw: "sorted_wrt (<) (map fst es)" using 3(3) by simp
    note IH = 3(1) [OF t1 s]
    have old: "lookup_node ?t q \<noteq> None \<Longrightarrow> q = [] \<or> lookup_node (Folder es) (n # q) \<noteq> None" for q
      by (cases q) (auto split: option.splits)
    show ?case
    proof (intro conjI allI impI)
      show "sorted_tree t'" unfolding t' using IH 3(3) by (intro sorted_tree_put) blast+
      show "\<exists>es. lookup_node t' (n # ns) = Some (Folder es)" using IH sw by (simp add: t')
    next
      fix q u assume q: "lookup_node t' q = Some u"
      show "lookup_node (Folder es) q \<noteq> None \<or> prefix q (n # ns)"
      proof (cases q)
        case (Cons m ms)
        show ?thesis
        proof (cases "m = n")
          case True
          then have "lookup_node t1 ms = Some u" using q sw by (simp add: t' Cons)
          then have "lookup_node ?t ms \<noteq> None \<or> prefix ms ns" using IH by blast
          then show ?thesis using old [of ms] unfolding Cons True by fastforce
        next
          case False
          then show ?thesis using q sw by (auto simp: t' Cons)
        qed
      qed simp
    qed
  qed (auto simp: prefix_def)
  then show "sorted_tree t'" and "\<exists>es. lookup_node t' ns = Some (Folder es)"
    and "lookup_node t' q = Some u \<Longrightarrow> lookup_node t q \<noteq> None \<or> prefix q ns" by blast+
qed

lemma write_file_result:
  assumes "lookup_node t ns = Some (Folder fs)" and "map_of fs n = None" and "sorted_tree t"
  shows "\<exists>t'. write_file seen (ns @ [n]) content t = Inr t' \<and> sorted_tree t' \<and> lookup_node t' (ns @ [n]) = Some (Plain content) \<and>
    (\<forall>q u. lookup_node t' q = Some u \<longrightarrow> lookup_node t q \<noteq> None \<or> q = ns @ [n]) \<and>
    (\<forall>p. prefix p ns \<longrightarrow> (\<exists>es. lookup_node t' p = Some (Folder es)))"
  using assms
proof (induction t ns arbitrary: seen rule: lookup_node.induct)
  case (1 t)
  then have t: "t = Folder fs" and sw: "sorted_wrt (<) (map fst fs)" by auto
  have "lookup_node (Folder (put_entry n (Plain content) fs)) q = Some u \<Longrightarrow> lookup_node (Folder fs) q \<noteq> None \<or> q = [n]" for q u
    using sw by (cases q; cases "tl q") (auto split: if_splits)
  then show ?case using 1(2,3) sw by (auto simp: t sorted_put_entry dest!: subsetD [OF set_put_entry] simp: list_all_iff)
next
  case (3 es m ms)
  obtain t1 where m: "map_of es m = Some t1" and l: "lookup_node t1 ms = Some (Folder fs)" using 3(2) by (auto split: option.splits)
  have sw: "sorted_wrt (<) (map fst es)" using 3(4) by simp
  from 3(1) [OF m l 3(3) sorted_tree_entry [OF 3(4) m], of "seen @ [m]"]
  obtain t2 where w: "write_file (seen @ [m]) (ms @ [n]) content t1 = Inr t2" "sorted_tree t2"
    "lookup_node t2 (ms @ [n]) = Some (Plain content)"
    "\<And>q u. lookup_node t2 q = Some u \<Longrightarrow> lookup_node t1 q \<noteq> None \<or> q = ms @ [n]"
    "\<And>p. prefix p ms \<Longrightarrow> \<exists>es. lookup_node t2 p = Some (Folder es)" by blast
  let ?t' = "Folder (put_entry m t2 es)"
  have "lookup_node ?t' q = Some u \<Longrightarrow> lookup_node (Folder es) q \<noteq> None \<or> q = m # ms @ [n]" for q u
  proof (cases q)
    case (Cons k ks)
    then show "lookup_node ?t' q = Some u \<Longrightarrow> ?thesis"
      using sw w(4) [of ks u] m by (auto split: if_splits)
  qed simp
  moreover have "\<exists>es'. lookup_node ?t' p = Some (Folder es')" if "prefix p (m # ms)" for p
    using that w(5) sw by (cases p) auto
  moreover have "sorted_tree ?t'" using sorted_tree_put [OF 3(4) w(2)] .
  ultimately show ?case using w(1,3) m sw by (intro exI [of _ ?t']) simp
qed auto

end
