(* ===== verification/ChangeStore.thy ===== *)
theory ChangeStore
  imports FileTree GoTime GoValue RepoClient
begin

text \<open>
  The change log of repository configurations, \<open>pkg/github/changelog.go\<close>, and its file store,
  \<open>pkg/github/filestore.go\<close>.

  A time is the number of nanoseconds since Go's zero time, \<open>date_of\<close> its date in its own zone,
  \<open>encode\<close> and \<open>decode\<close> are JSON on records, \<open>new_id\<close> the generated identifier and
  \<open>now\<close> the clock. The store a log is given is a record of its operations on a state of its own;
  the client is its update function on another.
\<close>

section \<open>Records and stores\<close>

record change_record =
  chr_ID :: string
  chr_Timestamp :: int
  chr_User :: string
  chr_Organization :: string
  chr_Repository :: string
  chr_Operation :: string
  chr_Category :: string
  chr_Before :: "(string, go_any) gomap option"
  chr_After :: "(string, go_any) gomap option"
  chr_Description :: string
  chr_Source :: string
  chr_RequestID :: string

record change_filter =
  cfl_Organization :: string
  cfl_Repository :: string
  cfl_User :: string
  cfl_Operation :: string
  cfl_Category :: string
  cfl_Since :: int
  cfl_Until :: int
  cfl_Limit :: int
  cfl_Offset :: int

record rollback_request =
  rbr_ChangeID :: string
  rbr_Repository :: string
  rbr_Category :: string
  rbr_DryRun :: bool
  rbr_Description :: string

record rollback_result =
  rbs_Success :: bool
  rbs_ChangeID :: string
  rbs_NewChangeID :: string
  rbs_Errors :: "string list"
  rbs_DryRun :: bool

record ('e, 's) change_store =
  chs_Store :: "change_record \<Rightarrow> 's \<Rightarrow> 'e option \<times> 's"
  chs_Get :: "string \<Rightarrow> 's \<Rightarrow> 'e + change_record"
  chs_List :: "change_filter \<Rightarrow> 's \<Rightarrow> 'e + change_record list"
  chs_Delete :: "string \<Rightarrow> 's \<Rightarrow> 'e option \<times> 's"

section \<open>The file store\<close>

datatype store_error =
    BaseFailed fs_error | DirectoryFailed fs_error | EncodeFailed string | WriteFailed fs_error
  | WalkFailed fs_error | NoRecordFile string | RecordUnreadable fs_error | RecordInvalid string | DeleteFailed fs_error

text \<open>\<open>filepath.Join\<close> of a path with an element, which may hold separators.\<close>

definition join_element :: "string list \<Rightarrow> string \<Rightarrow> string list" where
  "join_element path elem =
     foldl (\<lambda>p e. if e = [] \<or> e = ''.'' then p else if e = ''..'' then butlast p else p @ [e]) path (split_on (CHR ''/'') elem)"

definition two_digits :: "int \<Rightarrow> string" where
  "two_digits n = [digit_char (n div 10), digit_char n]"

definition new_file_store :: "string list \<Rightarrow> file_node \<Rightarrow> store_error option \<times> file_node" where
  "new_file_store base disk =
     (case mkdir_all [] base disk of Inl e \<Rightarrow> (Some (BaseFailed e), disk) | Inr disk' \<Rightarrow> (None, disk'))"

definition record_directory :: "(int \<Rightarrow> int \<times> int \<times> int) \<Rightarrow> string list \<Rightarrow> int \<Rightarrow> string list" where
  "record_directory date_of base t =
     (case date_of t of (y, m, d) \<Rightarrow> foldl join_element base [show_int y, two_digits m, two_digits d])"

definition fs_store ::
  "(int \<Rightarrow> int \<times> int \<times> int) \<Rightarrow> (change_record \<Rightarrow> string + string) \<Rightarrow> string list \<Rightarrow> change_record \<Rightarrow> file_node
     \<Rightarrow> store_error option \<times> file_node" where
  "fs_store date_of encode base record disk =
     (let dirPath = record_directory date_of base (chr_Timestamp record) in
      case mkdir_all [] dirPath disk of
        Inl e \<Rightarrow> (Some (DirectoryFailed e), disk)
      | Inr disk' \<Rightarrow>
          (case encode record of
             Inl e \<Rightarrow> (Some (EncodeFailed e), disk')
           | Inr content \<Rightarrow>
               (case write_file [] (join_element dirPath (chr_ID record @ ''.json'')) content disk' of
                  Inl e \<Rightarrow> (Some (WriteFailed e), disk')
                | Inr disk'' \<Rightarrow> (None, disk''))))"

definition find_record_file :: "string list \<Rightarrow> string \<Rightarrow> file_node \<Rightarrow> store_error + string list" where
  "find_record_file base i disk =
     (case walk_tree (search_name (i @ ''.json'')) id base disk None of
        (Some e, _) \<Rightarrow> Inl (WalkFailed e)
      | (None, None) \<Rightarrow> Inl (NoRecordFile i)
      | (None, Some path) \<Rightarrow> Inr path)"

definition fs_get :: "(string \<Rightarrow> string + change_record) \<Rightarrow> string list \<Rightarrow> string \<Rightarrow> file_node \<Rightarrow> store_error + change_record" where
  "fs_get decode base i disk =
     (case find_record_file base i disk of
        Inl e \<Rightarrow> Inl e
      | Inr path \<Rightarrow>
          (case read_file path disk of
             Inl e \<Rightarrow> Inl (RecordUnreadable e)
           | Inr content \<Rightarrow> (case decode content of Inl e \<Rightarrow> Inl (RecordInvalid e) | Inr record \<Rightarrow> Inr record)))"

definition matches_filter :: "change_record \<Rightarrow> change_filter \<Rightarrow> bool" where
  "matches_filter record f \<longleftrightarrow>
     (if cfl_Organization f \<noteq> [] \<and> chr_Organization record \<noteq> cfl_Organization f then False
      else if cfl_Repository f \<noteq> [] \<and> chr_Repository record \<noteq> cfl_Repository f then False
      else if cfl_User f \<noteq> [] \<and> chr_User record \<noteq> cfl_User f then False
      else if cfl_Operation f \<noteq> [] \<and> chr_Operation record \<noteq> cfl_Operation f then False
      else if cfl_Category f \<noteq> [] \<and> chr_Category record \<noteq> cfl_Category f then False
      else if cfl_Since f \<noteq> 0 \<and> chr_Timestamp record < cfl_Since f then False
      else if cfl_Until f \<noteq> 0 \<and> cfl_Until f < chr_Timestamp record then False
      else True)"

definition list_visitor ::
  "(string \<Rightarrow> string + change_record) \<Rightarrow> change_filter \<Rightarrow> (store_error, change_record list) walk_function" where
  "list_visitor decode f path t records =
     (if \<not> suffix ''.json'' (name_of path) then (GoOn, records)
      else (case t of
              Folder es \<Rightarrow> (Stop (RecordUnreadable (IsDirectory path)), records)
            | Plain content \<Rightarrow>
                (case decode content of
                   Inl e \<Rightarrow> (Stop (RecordInvalid e), records)
                 | Inr record \<Rightarrow> (GoOn, if matches_filter record f then records @ [record] else records))))"

definition page_of :: "change_filter \<Rightarrow> change_record list \<Rightarrow> change_record list" where
  "page_of f records =
     (let rest = (if 0 < cfl_Offset f \<and> cfl_Offset f < int (length records) then drop (nat (cfl_Offset f)) records else records)
      in if 0 < cfl_Limit f \<and> cfl_Limit f < int (length rest) then take (nat (cfl_Limit f)) rest else rest)"

text \<open>\<open>sort_records\<close> is \<open>sort.Slice\<close> with the newest first, which may order equal times in any way.\<close>

definition fs_list ::
  "(string \<Rightarrow> string + change_record) \<Rightarrow> (change_record list \<Rightarrow> change_record list) \<Rightarrow> string list \<Rightarrow> change_filter \<Rightarrow> file_node
     \<Rightarrow> store_error + change_record list" where
  "fs_list decode sort_records base f disk =
     (case walk_tree (list_visitor decode f) WalkFailed base disk [] of
        (Some e, _) \<Rightarrow> Inl e
      | (None, records) \<Rightarrow> Inr (page_of f (sort_records records)))"

definition fs_delete :: "string list \<Rightarrow> string \<Rightarrow> file_node \<Rightarrow> store_error option \<times> file_node" where
  "fs_delete base i disk =
     (case find_record_file base i disk of
        Inl e \<Rightarrow> (Some e, disk)
      | Inr path \<Rightarrow> (case remove_node [] path disk of Inl e \<Rightarrow> (Some (DeleteFailed e), disk) | Inr disk' \<Rightarrow> (None, disk')))"

text \<open>The number of record files and the sum of their sizes.\<close>

definition get_stats :: "(file_node \<Rightarrow> int) \<Rightarrow> string list \<Rightarrow> file_node \<Rightarrow> store_error + int \<times> int" where
  "get_stats size_of base disk =
     (case walk_tree (\<lambda>path t (n, size). (GoOn, if suffix ''.json'' (name_of path) then (n + 1, size + size_of t) else (n, size)))
             WalkFailed base disk (0, 0) of
        (Some e, _) \<Rightarrow> Inl e
      | (None, stats) \<Rightarrow> Inr stats)"

definition file_change_store ::
  "(int \<Rightarrow> int \<times> int \<times> int) \<Rightarrow> (change_record \<Rightarrow> string + string) \<Rightarrow> (string \<Rightarrow> string + change_record)
     \<Rightarrow> (change_record list \<Rightarrow> change_record list) \<Rightarrow> string list \<Rightarrow> (store_error, file_node) change_store" where
  "file_change_store date_of encode decode sort_records base =
     \<lparr>chs_Store = fs_store date_of encode base, chs_Get = fs_get decode base, chs_List = fs_list decode sort_records base,
      chs_Delete = fs_delete base\<rparr>"

section \<open>Repositories as maps\<close>

definition convert_repository_to_map :: "api_repository option \<Rightarrow> (string, go_any) gomap option" where
  "convert_repository_to_map repo =
     map_option (\<lambda>r.
       [(''id'', JFloat (float_of_int (ar_ID r))), (''name'', JString (ar_Name r)), (''full_name'', JString (ar_FullName r)),
        (''description'', JString (ar_Description r)), (''homepage'', JString (ar_Homepage r)),
        (''private'', JBool (ar_Private r)), (''archived'', JBool (ar_Archived r)), (''html_url'', JString (ar_HTMLURL r)),
        (''clone_url'', JString (ar_CloneURL r)), (''ssh_url'', JString (ar_SSHURL r)),
        (''default_branch'', JString (ar_DefaultBranch r)), (''created_at'', JString (ar_CreatedAt r)),
        (''updated_at'', JString (ar_UpdatedAt r)), (''language'', JString (ar_Language r)),
        (''topics'', strings_value (ar_Topics r)), (''has_issues'', JBool (ar_HasIssues r)),
        (''has_projects'', JBool (ar_HasProjects r)), (''has_wiki'', JBool (ar_HasWiki r)),
        (''has_downloads'', JBool (ar_HasDownloads r)), (''allow_squash_merge'', JBool (ar_AllowSquashMerge r)),
        (''allow_merge_commit'', JBool (ar_AllowMergeCommit r)), (''allow_rebase_merge'', JBool (ar_AllowRebaseMerge r)),
        (''delete_branch_on_merge'', JBool (ar_DeleteBranchOnMerge r))]) repo"

text \<open>What JSON can say of a value: it has no infinite number and no undefined one.\<close>

fun marshals :: "go_any \<Rightarrow> bool" where
  "marshals (JFloat FNaN) = False"
| "marshals (JFloat (FInf b)) = False"
| "marshals (JList vs) = list_all marshals vs"
| "marshals (JMap kvs) = list_all (\<lambda>kv. marshals (snd kv)) kvs"
| "marshals v = True"

definition decode_string :: "go_any \<Rightarrow> string option option" where
  "decode_string v = (case v of JString s \<Rightarrow> Some (Some s) | JNil \<Rightarrow> Some None | _ \<Rightarrow> None)"

definition decode_bool :: "go_any \<Rightarrow> bool option option" where
  "decode_bool v = (case v of JBool b \<Rightarrow> Some (Some b) | JNil \<Rightarrow> Some None | _ \<Rightarrow> None)"

fun decode_strings :: "go_any list \<Rightarrow> string list option" where
  "decode_strings [] = Some []"
| "decode_strings (JString s # vs) = map_option (\<lambda>ss. s # ss) (decode_strings vs)"
| "decode_strings (JNil # vs) = map_option (\<lambda>ss. [] # ss) (decode_strings vs)"
| "decode_strings (v # vs) = None"

definition update_fields :: "string list" where
  "update_fields =
     [''name'', ''description'', ''homepage'', ''private'', ''archived'', ''has_issues'', ''has_projects'', ''has_wiki'',
      ''has_downloads'', ''default_branch'', ''allow_squash_merge'', ''allow_merge_commit'', ''allow_rebase_merge'',
      ''delete_branch_on_merge'', ''topics'']"

text \<open>The decoder finds the field of a key by its exact name, then without regard to case.\<close>

definition field_of_key :: "string \<Rightarrow> string option" where
  "field_of_key key = (if key \<in> set update_fields then Some key else List.find (equal_fold key) update_fields)"

definition set_update_field :: "string \<Rightarrow> go_any \<Rightarrow> repository_update \<Rightarrow> repository_update option" where
  "set_update_field field v u =
     (if field = ''name'' then map_option (\<lambda>x. u\<lparr>up_Name := x\<rparr>) (decode_string v)
      else if field = ''description'' then map_option (\<lambda>x. u\<lparr>up_Description := x\<rparr>) (decode_string v)
      else if field = ''homepage'' then map_option (\<lambda>x. u\<lparr>up_Homepage := x\<rparr>) (decode_string v)
      else if field = ''private'' then map_option (\<lambda>x. u\<lparr>up_Private := x\<rparr>) (decode_bool v)
      else if field = ''archived'' then map_option (\<lambda>x. u\<lparr>up_Archived := x\<rparr>) (decode_bool v)
      else if field = ''has_issues'' then map_option (\<lambda>x. u\<lparr>up_HasIssues := x\<rparr>) (decode_bool v)
      else if field = ''has_projects'' then map_option (\<lambda>x. u\<lparr>up_HasProjects := x\<rparr>) (decode_bool v)
      else if field = ''has_wiki'' then map_option (\<lambda>x. u\<lparr>up_HasWiki := x\<rparr>) (decode_bool v)
      else if field = ''has_downloads'' then map_option (\<lambda>x. u\<lparr>up_HasDownloads := x\<rparr>) (decode_bool v)
      else if field = ''default_branch'' then map_option (\<lambda>x. u\<lparr>up_DefaultBranch := x\<rparr>) (decode_string v)
      else if field = ''allow_squash_merge'' then map_option (\<lambda>x. u\<lparr>up_AllowSquashMerge := x\<rparr>) (decode_bool v)
      else if field = ''allow_merge_commit'' then map_option (\<lambda>x. u\<lparr>up_AllowMergeCommit := x\<rparr>) (decode_bool v)
      else if field = ''allow_rebase_merge'' then map_option (\<lambda>x. u\<lparr>up_AllowRebaseMerge := x\<rparr>) (decode_bool v)
      else if field = ''delete_branch_on_merge'' then map_option (\<lambda>x. u\<lparr>up_DeleteBranchOnMerge := x\<rparr>) (decode_bool v)
      else (case v of
              JList vs \<Rightarrow> map_option (\<lambda>ts. u\<lparr>up_Topics := ts\<rparr>) (decode_strings vs)
            | JNil \<Rightarrow> Some (u\<lparr>up_Topics := []\<rparr>)
            | _ \<Rightarrow> None))"

definition empty_update :: repository_update where
  "empty_update =
     \<lparr>up_Name = None, up_Description = None, up_Homepage = None, up_Private = None, up_Archived = None, up_HasIssues = None,
      up_HasProjects = None, up_HasWiki = None, up_HasDownloads = None, up_DefaultBranch = None, up_AllowSquashMerge = None,
      up_AllowMergeCommit = None, up_AllowRebaseMerge = None, up_DeleteBranchOnMerge = None, up_Topics = []\<rparr>"

text \<open>The keys of a marshalled map come in their order; a value of another type is an error.\<close>

definition decode_entry :: "repository_update option \<Rightarrow> string \<times> go_any \<Rightarrow> repository_update option" where
  "decode_entry u kv =
     (case field_of_key (fst kv) of
        None \<Rightarrow> u
      | Some field \<Rightarrow> (case u of None \<Rightarrow> None | Some x \<Rightarrow> set_update_field field (snd kv) x))"

definition decode_update :: "(string, go_any) gomap \<Rightarrow> repository_update option" where
  "decode_update m = foldl decode_entry (Some empty_update) (sort_key fst m)"

section \<open>The log\<close>

datatype 'e rollback_error =
    RecordUnavailable 'e | RollbackImpossible string | RollbackRepositoryMismatch | RollbackCategoryMismatch
  | UnsupportedCategory string | RollbackNotImplemented string | BeforeNotMarshalled | BeforeNotUnderstood
  | UpdateRejected string | RollbackNotRecorded 'e

definition log_change ::
  "('e, 's) change_store \<Rightarrow> string \<Rightarrow> int \<Rightarrow> change_record \<Rightarrow> 's \<Rightarrow> 'e option \<times> 's" where
  "log_change store new_id now change s =
     (let named = (if chr_ID change = [] then change\<lparr>chr_ID := new_id\<rparr> else change);
          timed = (if chr_Timestamp named = 0 then named\<lparr>chr_Timestamp := now\<rparr> else named)
      in chs_Store store timed s)"

definition get_change :: "('e, 's) change_store \<Rightarrow> string \<Rightarrow> 's \<Rightarrow> 'e + change_record" where
  "get_change store = chs_Get store"

definition list_changes :: "('e, 's) change_store \<Rightarrow> change_filter \<Rightarrow> 's \<Rightarrow> 'e + change_record list" where
  "list_changes store = chs_List store"

definition get_current_user :: string where "get_current_user = ''system''"

definition parse_repository_full_name :: "string \<Rightarrow> string \<times> string" where
  "parse_repository_full_name fullName =
     (case split_on (CHR ''/'') fullName of p0 # p1 # _ \<Rightarrow> (p0, p1) | _ \<Rightarrow> (''owner'', ''repo''))"

type_synonym 'c update_client = "string \<Rightarrow> string \<Rightarrow> repository_update \<Rightarrow> 'c \<Rightarrow> string option \<times> 'c"

definition rollback_repository_settings ::
  "'c update_client \<Rightarrow> change_record \<Rightarrow> 'c \<Rightarrow> 'e rollback_error option \<times> 'c" where
  "rollback_repository_settings update change c =
     (case parse_repository_full_name (chr_Repository change) of (owner, repo) \<Rightarrow>
        let before = (case chr_Before change of None \<Rightarrow> [] | Some m \<Rightarrow> m) in
        if \<not> marshals (JMap before) then (Some BeforeNotMarshalled, c)
        else (case decode_update before of
                None \<Rightarrow> (Some BeforeNotUnderstood, c)
              | Some u \<Rightarrow> apfst (map_option UpdateRejected) (update owner repo u c)))"

definition perform_rollback ::
  "'c update_client \<Rightarrow> change_record \<Rightarrow> 'c \<Rightarrow> 'e rollback_error option \<times> 'c" where
  "perform_rollback update change c =
     (if chr_Category change = ''settings'' then rollback_repository_settings update change c
      else if chr_Category change = ''branch_protection''
        then (Some (RollbackNotImplemented ''branch protection rollback not yet implemented''), c)
      else if chr_Category change = ''permissions''
        then (Some (RollbackNotImplemented ''permissions rollback not yet implemented''), c)
      else (Some (UnsupportedCategory (chr_Category change)), c))"

definition rollback_record :: "string \<Rightarrow> int \<Rightarrow> rollback_request \<Rightarrow> change_record \<Rightarrow> change_record" where
  "rollback_record new_id now request original =
     \<lparr>chr_ID = new_id, chr_Timestamp = now, chr_User = get_current_user, chr_Organization = chr_Organization original,
      chr_Repository = chr_Repository original, chr_Operation = ''rollback'', chr_Category = chr_Category original,
      chr_Before = chr_After original, chr_After = chr_Before original,
      chr_Description = ''Rollback of change '' @ rbr_ChangeID request @ '': '' @ rbr_Description request,
      chr_Source = ''cli'', chr_RequestID = []\<rparr>"

text \<open>\<open>show_store\<close> and \<open>show_rollback\<close> are the texts of the errors.\<close>

definition rollback ::
  "('e, 's) change_store \<Rightarrow> 'c update_client \<Rightarrow> ('e \<Rightarrow> string) \<Rightarrow> ('e rollback_error \<Rightarrow> string) \<Rightarrow> string \<Rightarrow> int \<Rightarrow> rollback_request
     \<Rightarrow> 'c \<Rightarrow> 's \<Rightarrow> ('e rollback_error option \<times> rollback_result) \<times> 'c \<times> 's" where
  "rollback store update show_store show_rollback new_id now request c s =
     (let result = \<lparr>rbs_Success = False, rbs_ChangeID = rbr_ChangeID request, rbs_NewChangeID = [], rbs_Errors = [],
            rbs_DryRun = rbr_DryRun request\<rparr>;
          fail = (\<lambda>m e c' s'. ((Some e, result\<lparr>rbs_Errors := [m]\<rparr>), c', s'))
      in case chs_Get store (rbr_ChangeID request) s of
           Inl e \<Rightarrow> fail (''Failed to get change record: '' @ show_store e) (RecordUnavailable e) c s
         | Inr original \<Rightarrow>
             if chr_Before original = None
             then fail (''Cannot rollback: no '' @ [CHR 0x27] @ ''before'' @ [CHR 0x27] @ '' state available'')
                    (RollbackImpossible (rbr_ChangeID request)) c s
             else if chr_Repository original \<noteq> rbr_Repository request
             then fail ''Repository mismatch in rollback request'' RollbackRepositoryMismatch c s
             else if chr_Category original \<noteq> rbr_Category request
             then fail ''Category mismatch in rollback request'' RollbackCategoryMismatch c s
             else if rbr_DryRun request then ((None, result\<lparr>rbs_Success := True\<rparr>), c, s)
             else (case perform_rollback update original c of
                     (Some e, c') \<Rightarrow> fail (''Rollback failed: '' @ show_rollback e) e c' s
                   | (None, c') \<Rightarrow>
                       (case chs_Store store (rollback_record new_id now request original) s of
                          (Some e, s') \<Rightarrow> fail (''Failed to record rollback: '' @ show_store e) (RollbackNotRecorded e) c' s'
                        | (None, s') \<Rightarrow> ((None, result\<lparr>rbs_Success := True, rbs_NewChangeID := new_id\<rparr>), c', s'))))"

definition record_repository_update ::
  "('e, 's) change_store \<Rightarrow> string \<Rightarrow> int \<Rightarrow> string \<Rightarrow> string \<Rightarrow> api_repository option \<Rightarrow> api_repository option \<Rightarrow> string
     \<Rightarrow> 's \<Rightarrow> 'e option \<times> 's" where
  "record_repository_update store new_id now owner repo before after description =
     log_change store new_id now
       \<lparr>chr_ID = [], chr_Timestamp = 0, chr_User = get_current_user, chr_Organization = owner,
        chr_Repository = owner @ ''/'' @ repo, chr_Operation = ''update'', chr_Category = ''settings'',
        chr_Before = convert_repository_to_map before, chr_After = convert_repository_to_map after,
        chr_Description = description, chr_Source = ''cli'', chr_RequestID = []\<rparr>"

section \<open>What a rollback sends\<close>

definition update_of_repository :: "api_repository \<Rightarrow> repository_update" where
  "update_of_repository r =
     \<lparr>up_Name = Some (ar_Name r), up_Description = Some (ar_Description r), up_Homepage = Some (ar_Homepage r),
      up_Private = Some (ar_Private r), up_Archived = Some (ar_Archived r), up_HasIssues = Some (ar_HasIssues r),
      up_HasProjects = Some (ar_HasProjects r), up_HasWiki = Some (ar_HasWiki r), up_HasDownloads = Some (ar_HasDownloads r),
      up_DefaultBranch = Some (ar_DefaultBranch r), up_AllowSquashMerge = Some (ar_AllowSquashMerge r),
      up_AllowMergeCommit = Some (ar_AllowMergeCommit r), up_AllowRebaseMerge = Some (ar_AllowRebaseMerge r),
      up_DeleteBranchOnMerge = Some (ar_DeleteBranchOnMerge r), up_Topics = ar_Topics r\<rparr>"

lemma decode_strings_value [simp]: "decode_strings (map JString ss) = Some ss"
  by (induction ss) simp_all

lemma unknown_keys:
  "list_all (\<lambda>key. field_of_key key = None)
     [''id'', ''full_name'', ''html_url'', ''clone_url'', ''ssh_url'', ''created_at'', ''updated_at'', ''language'']"
  by code_simp

lemma known_keys: "key \<in> set update_fields \<Longrightarrow> field_of_key key = Some key"
  by (simp add: field_of_key_def)

lemma decode_field [simp]:
  "set_update_field ''name'' (JString s) u = Some (u\<lparr>up_Name := Some s\<rparr>)"
  "set_update_field ''description'' (JString s) u = Some (u\<lparr>up_Description := Some s\<rparr>)"
  "set_update_field ''homepage'' (JString s) u = Some (u\<lparr>up_Homepage := Some s\<rparr>)"
  "set_update_field ''default_branch'' (JString s) u = Some (u\<lparr>up_DefaultBranch := Some s\<rparr>)"
  "set_update_field ''private'' (JBool b) u = Some (u\<lparr>up_Private := Some b\<rparr>)"
  "set_update_field ''archived'' (JBool b) u = Some (u\<lparr>up_Archived := Some b\<rparr>)"
  "set_update_field ''has_issues'' (JBool b) u = Some (u\<lparr>up_HasIssues := Some b\<rparr>)"
  "set_update_field ''has_projects'' (JBool b) u = Some (u\<lparr>up_HasProjects := Some b\<rparr>)"
  "set_update_field ''has_wiki'' (JBool b) u = Some (u\<lparr>up_HasWiki := Some b\<rparr>)"
  "set_update_field ''has_downloads'' (JBool b) u = Some (u\<lparr>up_HasDownloads := Some b\<rparr>)"
  "set_update_field ''allow_squash_merge'' (JBool b) u = Some (u\<lparr>up_AllowSquashMerge := Some b\<rparr>)"
  "set_update_field ''allow_merge_commit'' (JBool b) u = Some (u\<lparr>up_AllowMergeCommit := Some b\<rparr>)"
  "set_update_field ''allow_rebase_merge'' (JBool b) u = Some (u\<lparr>up_AllowRebaseMerge := Some b\<rparr>)"
  "set_update_field ''delete_branch_on_merge'' (JBool b) u = Some (u\<lparr>up_DeleteBranchOnMerge := Some b\<rparr>)"
  "set_update_field ''topics'' (strings_value ts) u = Some (u\<lparr>up_Topics := ts\<rparr>)"
  by (simp_all add: set_update_field_def decode_string_def decode_bool_def strings_value_def)

text \<open>The keys of a repository in their order.\<close>

lemma sorted_repository_map:
  "sort_key fst (the (convert_repository_to_map (Some r))) =
     [(''allow_merge_commit'', JBool (ar_AllowMergeCommit r)), (''allow_rebase_merge'', JBool (ar_AllowRebaseMerge r)),
      (''allow_squash_merge'', JBool (ar_AllowSquashMerge r)), (''archived'', JBool (ar_Archived r)),
      (''clone_url'', JString (ar_CloneURL r)), (''created_at'', JString (ar_CreatedAt r)),
      (''default_branch'', JString (ar_DefaultBranch r)), (''delete_branch_on_merge'', JBool (ar_DeleteBranchOnMerge r)),
      (''description'', JString (ar_Description r)), (''full_name'', JString (ar_FullName r)),
      (''has_downloads'', JBool (ar_HasDownloads r)), (''has_issues'', JBool (ar_HasIssues r)),
      (''has_projects'', JBool (ar_HasProjects r)), (''has_wiki'', JBool (ar_HasWiki r)), (''homepage'', JString (ar_Homepage r)),
      (''html_url'', JString (ar_HTMLURL r)), (''id'', JFloat (float_of_int (ar_ID r))), (''language'', JString (ar_Language r)),
      (''name'', JString (ar_Name r)), (''private'', JBool (ar_Private r)), (''ssh_url'', JString (ar_SSHURL r)),
      (''topics'', strings_value (ar_Topics r)), (''updated_at'', JString (ar_UpdatedAt r))]"
  unfolding convert_repository_to_map_def by simp

lemma decode_repository:
  "decode_update (the (convert_repository_to_map (Some r))) = Some (update_of_repository r)"
proof -
  note u = unknown_keys [unfolded list.pred_inject]
  have k: "field_of_key key = Some key" if "key \<in> set update_fields" for key by (rule known_keys [OF that])
  show ?thesis
    unfolding decode_update_def sorted_repository_map
    by (simp add: decode_entry_def u k update_fields_def empty_update_def update_of_repository_def)
qed

section \<open>A stored record is found again\<close>

lemma join_element_name:
  assumes "CHR ''/'' \<notin> set e" and "e \<notin> {[], ''.'', ''..''}"
  shows "join_element path e = path @ [e]"
  using assms by (simp add: join_element_def split_on_no_sep)

lemma last_digit_name:
  assumes "e \<noteq> []" and "is_digit (last e)" and "CHR ''/'' \<notin> set e"
  shows "join_element path e = path @ [e]" and "e \<noteq> i @ ''.json''"
proof -
  have "e \<noteq> ''.'' \<and> e \<noteq> ''..''" using assms(2) by (auto simp: is_digit_def)
  then show "join_element path e = path @ [e]" using assms by (intro join_element_name) auto
  have "\<not> is_digit CHR ''n''" by code_simp
  then show "e \<noteq> i @ ''.json''" using assms(2) by auto
qed

lemma digits_no_separator: "list_all is_digit s \<Longrightarrow> CHR ''/'' \<notin> set s"
  by (auto simp: list_all_iff is_digit_def)

lemma show_int_name: "show_int y \<noteq> [] \<and> is_digit (last (show_int y)) \<and> CHR ''/'' \<notin> set (show_int y)"
proof -
  have "show_nat n \<noteq> [] \<and> is_digit (last (show_nat n)) \<and> CHR ''/'' \<notin> set (show_nat n)" for n
    using number_of_show_nat [of n] digits_no_separator [of "show_nat n"] by (auto simp: list_all_iff)
  then show ?thesis by (simp add: show_int_def)
qed

lemma two_digits_name: "two_digits n \<noteq> [] \<and> is_digit (last (two_digits n)) \<and> CHR ''/'' \<notin> set (two_digits n)"
  using digits_no_separator [of "two_digits n"] by (simp add: two_digits_def)

lemma record_directory_names:
  "\<exists>names. record_directory date_of base t = base @ names \<and> (\<forall>e\<in>set names. \<forall>i. e \<noteq> i @ ''.json'')"
proof -
  obtain y m d where dt: "date_of t = (y, m, d)" by (metis prod_cases3)
  have "record_directory date_of base t = base @ [show_int y, two_digits m, two_digits d]"
    using last_digit_name(1) show_int_name two_digits_name by (simp add: record_directory_def dt)
  moreover have "\<forall>e\<in>set [show_int y, two_digits m, two_digits d]. \<forall>i. e \<noteq> i @ ''.json''"
    using last_digit_name(2) show_int_name two_digits_name by auto
  ultimately show ?thesis by blast
qed

text \<open>A record can be stored: its identifier is a file name that no file below the base has yet.\<close>

definition fs_storable ::
  "(int \<Rightarrow> int \<times> int \<times> int) \<Rightarrow> (change_record \<Rightarrow> string + string) \<Rightarrow> (string \<Rightarrow> string + change_record) \<Rightarrow> string list
     \<Rightarrow> change_record \<Rightarrow> file_node \<Rightarrow> bool" where
  "fs_storable date_of encode decode base record disk \<longleftrightarrow>
     (\<exists>content. encode record = Inr content \<and> decode content = Inr record) \<and> CHR ''/'' \<notin> set (chr_ID record) \<and>
     (\<forall>q. lookup_node disk (base @ q) \<noteq> None \<longrightarrow> name_of (base @ q) \<noteq> chr_ID record @ ''.json'') \<and>
     (\<exists>disk'. mkdir_all [] (record_directory date_of base (chr_Timestamp record)) disk = Inr disk')"

definition fs_ready :: "string list \<Rightarrow> file_node \<Rightarrow> bool" where
  "fs_ready base disk \<longleftrightarrow> sorted_tree disk \<and> (\<exists>es. lookup_node disk base = Some (Folder es))"

lemma find_only_file:
  assumes "sorted_tree disk" and "lookup_node disk base = Some t" and "sorted_tree t"
    and "lookup_node disk (base @ p) \<noteq> None" and "name_of (base @ p) = i @ ''.json''"
    and "\<And>q. lookup_node disk (base @ q) \<noteq> None \<Longrightarrow> name_of (base @ q) = i @ ''.json'' \<Longrightarrow> q = p"
  shows "find_record_file base i disk = Inr (base @ p)"
proof -
  have l: "lookup_node disk (base @ q) = lookup_node t q" for q using assms(2) by (simp add: lookup_node_append)
  have n: "x \<in> fst ` set (nodes base t) \<longleftrightarrow> (\<exists>q. x = base @ q \<and> lookup_node t q \<noteq> None)" for x
  proof
    assume "x \<in> fst ` set (nodes base t)"
    then obtain u where u: "(x, u) \<in> set (nodes base t)" by auto
    then obtain q where q: "x = base @ q" using nodes_prefix(1) by blast
    then show "\<exists>q. x = base @ q \<and> lookup_node t q \<noteq> None" using u nodes_lookup [OF assms(3)] by blast
  next
    assume "\<exists>q. x = base @ q \<and> lookup_node t q \<noteq> None"
    then obtain q u where "x = base @ q" "lookup_node t q = Some u" by blast
    then have "(x, u) \<in> set (nodes base t)" using nodes_lookup [OF assms(3)] by blast
    then show "x \<in> fst ` set (nodes base t)" by force
  qed
  have only: "named (i @ ''.json'') (nodes base t) = {base @ p}"
  proof
    show "named (i @ ''.json'') (nodes base t) \<subseteq> {base @ p}"
    proof
      fix x assume "x \<in> named (i @ ''.json'') (nodes base t)"
      then have x: "x \<in> fst ` set (nodes base t)" "name_of x = i @ ''.json''" by (simp_all add: named_def)
      from x(1) obtain q where q: "x = base @ q" "lookup_node t q \<noteq> None" unfolding n by blast
      have "q = p" by (rule assms(6)) (use q x(2) l in simp_all)
      then show "x \<in> {base @ p}" using q(1) by simp
    qed
    have "base @ p \<in> fst ` set (nodes base t)" unfolding n using assms(4) l by auto
    then show "{base @ p} \<subseteq> named (i @ ''.json'') (nodes base t)" using assms(5) by (simp add: named_def)
  qed
  obtain sig :: "fs_error walk_signal" and found where w: "walk (search_name (i @ ''.json'')) base t None = (sig, found)" by fastforce
  from search_result(1) [OF w] have "found = Some (base @ p)" "\<forall>e. sig \<noteq> Stop e" unfolding only by simp_all
  then show ?thesis using w assms(2) by (cases sig) (simp_all add: find_record_file_def walk_tree_def)
qed

lemma sorted_lookup: "sorted_tree t \<Longrightarrow> lookup_node t q = Some u \<Longrightarrow> sorted_tree u"
proof (induction t q rule: lookup_node.induct)
  case (3 es n ns)
  then obtain t where m: "map_of es n = Some t" and l: "lookup_node t ns = Some u" by (auto split: option.splits)
  from 3(1) [OF m sorted_tree_entry [OF 3(2) m] l] show ?case .
qed auto

lemma fs_store_get:
  assumes "fs_ready base disk" and "fs_storable date_of encode decode base record disk"
  shows "\<exists>disk'. fs_store date_of encode base record disk = (None, disk') \<and> fs_ready base disk' \<and>
    fs_get decode base (chr_ID record) disk' = Inr record"
proof -
  let ?n = "chr_ID record @ ''.json''"
  obtain content where enc: "encode record = Inr content" "decode content = Inr record" using assms(2) unfolding fs_storable_def by blast
  have sep: "CHR ''/'' \<notin> set (chr_ID record)"
    and fresh: "\<And>q. lookup_node disk (base @ q) \<noteq> None \<Longrightarrow> name_of (base @ q) \<noteq> ?n"
    using assms(2) unfolding fs_storable_def by blast+
  obtain names where dir: "record_directory date_of base (chr_Timestamp record) = base @ names"
    and nn: "\<And>e i. e \<in> set names \<Longrightarrow> e \<noteq> i @ ''.json''" using record_directory_names by blast
  obtain disk1 where mk: "mkdir_all [] (base @ names) disk = Inr disk1" using assms(2) unfolding fs_storable_def dir by blast
  have sd: "sorted_tree disk" and bd: "\<exists>es. lookup_node disk base = Some (Folder es)" using assms(1) by (simp_all add: fs_ready_def)
  note m = mkdir_all_result [OF mk sd]
  have fresh1: "name_of (base @ q) \<noteq> ?n" if q: "lookup_node disk1 (base @ q) \<noteq> None" for q
  proof -
    from q obtain u where "lookup_node disk1 (base @ q) = Some u" by blast
    from m(3) [OF this] consider "lookup_node disk (base @ q) \<noteq> None" | "prefix q names" by auto
    then show ?thesis
    proof cases
      case 2
      show ?thesis
      proof (cases "q = []")
        case True
        then show ?thesis using fresh [of "[]"] bd by auto
      next
        case False
        then have "last q \<in> set names" using 2 by (meson last_in_set set_mono_prefix subsetD)
        then show ?thesis using nn False by (auto simp: name_of_def)
      qed
    qed (use fresh in blast)
  qed
  obtain fs where fd: "lookup_node disk1 (base @ names) = Some (Folder fs)" using m(2) by blast
  have "lookup_node disk1 (base @ names @ [?n]) = None" using fresh1 [of "names @ [?n]"] by (cases "lookup_node disk1 (base @ names @ [?n])") (auto simp: name_of_def)
  then have free: "map_of fs ?n = None"
    using fd lookup_node_append [of disk1 "base @ names" "[?n]"] by (auto split: option.splits)
  obtain disk2 where w: "write_file [] ((base @ names) @ [?n]) content disk1 = Inr disk2" "sorted_tree disk2"
    "lookup_node disk2 ((base @ names) @ [?n]) = Some (Plain content)"
    "\<And>q u. lookup_node disk2 q = Some u \<Longrightarrow> lookup_node disk1 q \<noteq> None \<or> q = (base @ names) @ [?n]"
    "\<And>p. prefix p (base @ names) \<Longrightarrow> \<exists>es. lookup_node disk2 p = Some (Folder es)"
    using write_file_result [OF fd free m(1), of "[]" content] by blast
  have join: "join_element (base @ names) ?n = (base @ names) @ [?n]" using sep by (intro join_element_name) auto
  have st: "fs_store date_of encode base record disk = (None, disk2)"
    using mk enc w(1) by (simp add: fs_store_def Let_def dir join)
  obtain t where t: "lookup_node disk2 base = Some (Folder t)" using w(5) [of base] by auto
  have "find_record_file base (chr_ID record) disk2 = Inr (base @ names @ [?n])"
  proof (rule find_only_file [OF w(2) t sorted_lookup [OF w(2) t]])
    show "lookup_node disk2 (base @ names @ [?n]) \<noteq> None" using w(3) by simp
    show "name_of (base @ names @ [?n]) = ?n" by (simp add: name_of_def)
  next
    fix q assume q: "lookup_node disk2 (base @ q) \<noteq> None" "name_of (base @ q) = ?n"
    then have "\<not> lookup_node disk1 (base @ q) \<noteq> None" using fresh1 by blast
    moreover obtain u where "lookup_node disk2 (base @ q) = Some u" using q(1) by blast
    ultimately have "base @ q = (base @ names) @ [?n]" using w(4) by blast
    then show "q = names @ [?n]" by simp
  qed
  then have "fs_get decode base (chr_ID record) disk2 = Inr record"
    using w(3) enc by (simp add: fs_get_def read_file_def)
  then show ?thesis using st w(2) t by (auto simp: fs_ready_def)
qed

end
