(* ===== verification/ChangeLog.thy ===== *)
theory ChangeLog
  imports ChangeStore "HOL-Library.Multiset"
begin

text \<open>
  What the change log promises: a recorded update is found again and rolled back to the state before
  it, and a listing of the file store is exact. The log relies on its store through the locale
  \<open>change_log\<close>, which the file store satisfies for records whose identifiers are fresh file names.
\<close>

section \<open>The contract of a store\<close>

locale change_log =
  fixes store :: "('e, 's) change_store" and ready :: "'s \<Rightarrow> bool" and storable :: "change_record \<Rightarrow> 's \<Rightarrow> bool"
  assumes store_get: "ready s \<Longrightarrow> storable r s \<Longrightarrow>
    \<exists>s'. chs_Store store r s = (None, s') \<and> ready s' \<and> chs_Get store (chr_ID r) s' = Inr r"
begin

lemma recorded:
  assumes "ready s" and "storable r s" and "chr_ID r \<noteq> []" and "chr_Timestamp r \<noteq> 0"
  shows "\<exists>s'. log_change store new_id now r s = (None, s') \<and> ready s' \<and> get_change store (chr_ID r) s' = Inr r"
  using store_get [OF assms(1,2)] assms(3,4) by (simp add: log_change_def get_change_def)

lemma recorded_with_new_id:
  assumes "ready s" and "storable (r\<lparr>chr_ID := new_id, chr_Timestamp := now\<rparr>) s" and "chr_ID r = []" and "chr_Timestamp r = 0"
  shows "\<exists>s'. log_change store new_id now r s = (None, s') \<and> ready s' \<and>
    get_change store new_id s' = Inr (r\<lparr>chr_ID := new_id, chr_Timestamp := now\<rparr>)"
  using store_get [OF assms(1,2)] assms(3,4) by (simp add: log_change_def get_change_def)

end

interpretation file_log: change_log "file_change_store date_of encode decode sort_records base" "fs_ready base"
    "fs_storable date_of encode decode base"
  for date_of encode decode sort_records base
proof
  fix disk r
  assume "fs_ready base disk" and "fs_storable date_of encode decode base r disk"
  then show "\<exists>disk'. chs_Store (file_change_store date_of encode decode sort_records base) r disk = (None, disk') \<and>
      fs_ready base disk' \<and> chs_Get (file_change_store date_of encode decode sort_records base) (chr_ID r) disk' = Inr r"
    using fs_store_get by (simp add: file_change_store_def)
qed

section \<open>Rolling an update back\<close>

definition update_record ::
  "string \<Rightarrow> int \<Rightarrow> string \<Rightarrow> string \<Rightarrow> api_repository option \<Rightarrow> api_repository option \<Rightarrow> string \<Rightarrow> change_record" where
  "update_record i t owner repo before after description =
     \<lparr>chr_ID = i, chr_Timestamp = t, chr_User = get_current_user, chr_Organization = owner,
      chr_Repository = owner @ ''/'' @ repo, chr_Operation = ''update'', chr_Category = ''settings'',
      chr_Before = convert_repository_to_map before, chr_After = convert_repository_to_map after,
      chr_Description = description, chr_Source = ''cli'', chr_RequestID = []\<rparr>"

lemma record_repository_update_record:
  "record_repository_update store new_id now owner repo before after description s =
     log_change store new_id now (update_record [] 0 owner repo before after description) s"
  by (simp add: record_repository_update_def update_record_def)

lemma parse_full_name:
  assumes "CHR ''/'' \<notin> set owner" and "CHR ''/'' \<notin> set repo"
  shows "parse_repository_full_name (owner @ ''/'' @ repo) = (owner, repo)"
  using split_on_append [of "CHR ''/''" owner repo] assms
  by (simp add: parse_repository_full_name_def split_on_no_sep)

lemma marshals_repository:
  assumes "\<bar>ar_ID r\<bar> < 2 ^ 53"
  shows "marshals (JMap (the (convert_repository_to_map (Some r))))"
proof -
  have "list_all marshals (map JString ss)" for ss by (induction ss) simp_all
  then show ?thesis by (simp add: convert_repository_to_map_def strings_value_def float_of_int_exact [OF assms])
qed

lemma rollback_sends:
  assumes "chr_Before original = convert_repository_to_map (Some before)" and "\<bar>ar_ID before\<bar> < 2 ^ 53"
    and "chr_Repository original = owner @ ''/'' @ repo" and "CHR ''/'' \<notin> set owner" and "CHR ''/'' \<notin> set repo"
  shows "rollback_repository_settings update original c =
    apfst (map_option UpdateRejected) (update owner repo (update_of_repository before) c)"
proof -
  obtain m where m: "convert_repository_to_map (Some before) = Some m" by (simp add: convert_repository_to_map_def)
  have "marshals (JMap m)" "decode_update m = Some (update_of_repository before)"
    using marshals_repository [OF assms(2)] decode_repository [of before] unfolding m by simp_all
  then show ?thesis
    using parse_full_name [OF assms(4,5)] by (simp add: rollback_repository_settings_def assms(1,3) m Let_def)
qed

text \<open>Property C34. An update that is recorded in a file store whose base is a directory, under a fresh
  identifier, can be rolled back by that identifier: the client is asked to set every field of the
  repository to its value before the update, the ones the update did not touch included, and a new
  record with the two states exchanged is stored; a refused update leaves the store alone.\<close>

theorem rollback_restores_snapshot:
  fixes disk :: file_node and base :: "string list" and before :: api_repository
    and date_of encode decode sort_records new_id now owner repo after description
  defines "store \<equiv> file_change_store date_of encode decode sort_records base"
    and "change \<equiv> update_record new_id now owner repo (Some before) after description"
  assumes "fs_ready base disk" and "fs_storable date_of encode decode base change disk"
    and "\<bar>ar_ID before\<bar> < 2 ^ 53" and "CHR ''/'' \<notin> set owner" and "CHR ''/'' \<notin> set repo"
    and "rbr_ChangeID request = new_id" and "rbr_Repository request = owner @ ''/'' @ repo"
    and "rbr_Category request = ''settings''" and "\<not> rbr_DryRun request"
  shows "\<exists>disk'. record_repository_update store new_id now owner repo (Some before) after description disk = (None, disk') \<and>
    rollback store update show_store show_rollback new_id' now' request c disk' =
      (let result = \<lparr>rbs_Success = False, rbs_ChangeID = new_id, rbs_NewChangeID = [], rbs_Errors = [], rbs_DryRun = False\<rparr> in
       case update owner repo (update_of_repository before) c of
         (Some e, c') \<Rightarrow>
           ((Some (UpdateRejected e), result\<lparr>rbs_Errors := [''Rollback failed: '' @ show_rollback (UpdateRejected e)]\<rparr>), c', disk')
       | (None, c') \<Rightarrow>
           (case fs_store date_of encode base (rollback_record new_id' now' request change) disk' of
              (Some e, disk'') \<Rightarrow>
                ((Some (RollbackNotRecorded e), result\<lparr>rbs_Errors := [''Failed to record rollback: '' @ show_store e]\<rparr>), c', disk'')
            | (None, disk'') \<Rightarrow> ((None, result\<lparr>rbs_Success := True, rbs_NewChangeID := new_id'\<rparr>), c', disk'')))"
proof -
  have r: "change = (update_record [] 0 owner repo (Some before) after description)\<lparr>chr_ID := new_id, chr_Timestamp := now\<rparr>"
    by (simp add: change_def update_record_def)
  have "chr_ID (update_record [] 0 owner repo (Some before) after description) = []"
    "chr_Timestamp (update_record [] 0 owner repo (Some before) after description) = 0"
    by (simp_all add: update_record_def)
  from file_log.recorded_with_new_id [OF assms(3) assms(4) [unfolded r] this, of sort_records] obtain disk' where
    rec: "record_repository_update store new_id now owner repo (Some before) after description disk = (None, disk')" and
    get: "chs_Get store new_id disk' = Inr change"
    unfolding store_def record_repository_update_record get_change_def r by blast
  have f: "chr_Before change = convert_repository_to_map (Some before)" "chr_Repository change = owner @ ''/'' @ repo"
    "chr_Category change = ''settings''" by (simp_all add: change_def update_record_def)
  have b: "chr_Before change \<noteq> None" unfolding f(1) by (simp add: convert_repository_to_map_def)
  have p: "perform_rollback update change c = apfst (map_option UpdateRejected) (update owner repo (update_of_repository before) c)"
    using rollback_sends [OF f(1) assms(5) f(2) assms(6,7)] f(3) by (simp add: perform_rollback_def)
  have s: "chs_Store store = fs_store date_of encode base" by (simp add: store_def file_change_store_def)
  have "rollback store update show_store show_rollback new_id' now' request c disk' =
      (let result = \<lparr>rbs_Success = False, rbs_ChangeID = new_id, rbs_NewChangeID = [], rbs_Errors = [], rbs_DryRun = False\<rparr> in
       case update owner repo (update_of_repository before) c of
         (Some e, c') \<Rightarrow>
           ((Some (UpdateRejected e), result\<lparr>rbs_Errors := [''Rollback failed: '' @ show_rollback (UpdateRejected e)]\<rparr>), c', disk')
       | (None, c') \<Rightarrow>
           (case fs_store date_of encode base (rollback_record new_id' now' request change) disk' of
              (Some e, disk'') \<Rightarrow>
                ((Some (RollbackNotRecorded e), result\<lparr>rbs_Errors := [''Failed to record rollback: '' @ show_store e]\<rparr>), c', disk'')
            | (None, disk'') \<Rightarrow> ((None, result\<lparr>rbs_Success := True, rbs_NewChangeID := new_id'\<rparr>), c', disk'')))"
    using b f(2,3) assms(8-11)
    by (simp add: rollback_def get p s Let_def split: prod.splits option.splits)
  with rec show ?thesis by blast
qed
definition sample_before :: api_repository where
  "sample_before =
     \<lparr>ar_ID = 7, ar_Name = ''api'', ar_FullName = ''acme/api'', ar_Description = ''old'', ar_Homepage = [], ar_Private = True,
      ar_Archived = False, ar_HTMLURL = [], ar_CloneURL = [], ar_SSHURL = [], ar_DefaultBranch = ''main'', ar_CreatedAt = [],
      ar_UpdatedAt = [], ar_Language = ''Go'', ar_Topics = [''tool''], ar_HasIssues = True, ar_HasProjects = False, ar_HasWiki = False,
      ar_HasDownloads = False, ar_AllowSquashMerge = True, ar_AllowMergeCommit = False, ar_AllowRebaseMerge = False,
      ar_DeleteBranchOnMerge = True\<rparr>"

definition sample_change :: change_record where
  "sample_change = update_record ''ch_1'' 5 ''acme'' ''api'' (Some sample_before) None ''new text''"

definition sample_disk :: file_node where
  "sample_disk = Folder [(''log'', Folder [])]"

text \<open>A client that keeps the updates it is sent and accepts them.\<close>

definition keeping_client :: "(string \<times> string \<times> repository_update) list update_client" where
  "keeping_client owner repo u sent = (None, sent @ [(owner, repo, u)])"

lemma sample_ready: "fs_ready [''log''] sample_disk"
  by (simp add: fs_ready_def sample_disk_def)

lemma sample_storable:
  "fs_storable (\<lambda>_. (2026, 1, 2)) (\<lambda>_. Inr ''x'') (\<lambda>_. Inr sample_change) [''log''] sample_change sample_disk"
proof -
  have i: "chr_ID sample_change = ''ch_1''" by (simp add: sample_change_def update_record_def)
  have "lookup_node sample_disk ([''log''] @ q) \<noteq> None \<Longrightarrow> q = []" for q
    by (cases q) (auto simp: sample_disk_def)
  then have "\<forall>q. lookup_node sample_disk ([''log''] @ q) \<noteq> None \<longrightarrow> name_of ([''log''] @ q) \<noteq> ''ch_1.json''"
    by (auto simp: name_of_def)
  moreover have "record_directory (\<lambda>_. (2026, 1, 2)) [''log''] (chr_Timestamp sample_change) = [''log'', ''2026'', ''01'', ''02'']"
  proof -
    have "foldl join_element [''log''] [show_int 2026, two_digits 1, two_digits 2] = [''log'', ''2026'', ''01'', ''02'']" by code_simp
    then show ?thesis by (simp add: record_directory_def)
  qed
  moreover have "\<exists>disk'. mkdir_all [] [''log'', ''2026'', ''01'', ''02''] sample_disk = Inr disk'"
    by (simp add: sample_disk_def)
  ultimately show ?thesis by (simp add: fs_storable_def i)
qed

definition sample_rollback :: rollback_request where
  "sample_rollback = \<lparr>rbr_ChangeID = ''ch_1'', rbr_Repository = ''acme/api'', rbr_Category = ''settings'', rbr_DryRun = False,
     rbr_Description = []\<rparr>"

abbreviation sample_log :: "(store_error, file_node) change_store" where
  "sample_log \<equiv> file_change_store (\<lambda>_. (2026, 1, 2)) (\<lambda>_. Inr ''x'') (\<lambda>_. Inr sample_change) id [''log'']"

lemma rollback_restores_snapshot_witness:
  "\<exists>disk'. record_repository_update sample_log ''ch_1'' 5 ''acme'' ''api'' (Some sample_before) None ''new text'' sample_disk =
       (None, disk') \<and>
     fst (snd (rollback sample_log keeping_client (\<lambda>_. []) (\<lambda>_. []) ''ch_2'' 6 sample_rollback [] disk')) =
       [(''acme'', ''api'', update_of_repository sample_before)]"
proof -
  have small: "\<bar>ar_ID sample_before\<bar> < 2 ^ 53" by (simp add: sample_before_def)
  have r: "rbr_ChangeID sample_rollback = ''ch_1''" "rbr_Repository sample_rollback = ''acme'' @ ''/'' @ ''api''"
    "rbr_Category sample_rollback = ''settings''" "\<not> rbr_DryRun sample_rollback" by (simp_all add: sample_rollback_def)
  have n: "CHR ''/'' \<notin> set ''acme''" "CHR ''/'' \<notin> set ''api''" by simp_all
  have st: "fs_storable (\<lambda>_. (2026, 1, 2)) (\<lambda>_. Inr ''x'') (\<lambda>_. Inr sample_change) [''log'']
      (update_record ''ch_1'' 5 ''acme'' ''api'' (Some sample_before) None ''new text'') sample_disk"
    using sample_storable by (simp only: sample_change_def [symmetric])
  have k: "keeping_client ''acme'' ''api'' (update_of_repository sample_before) [] =
      (None, [(''acme'', ''api'', update_of_repository sample_before)])" by (simp add: keeping_client_def)
  from rollback_restores_snapshot [where update = keeping_client and c = "[]" and show_store = "\<lambda>_. []" and show_rollback = "\<lambda>_. []"
      and new_id' = "''ch_2''" and now' = 6 and sort_records = id, OF sample_ready st small n r]
  obtain disk' where rec: "record_repository_update sample_log ''ch_1'' 5 ''acme'' ''api'' (Some sample_before) None ''new text'' sample_disk =
      (None, disk')"
    and roll: "rollback sample_log keeping_client (\<lambda>_. []) (\<lambda>_. []) ''ch_2'' 6 sample_rollback [] disk' =
      (let result = \<lparr>rbs_Success = False, rbs_ChangeID = ''ch_1'', rbs_NewChangeID = [], rbs_Errors = [], rbs_DryRun = False\<rparr> in
       case keeping_client ''acme'' ''api'' (update_of_repository sample_before) [] of
         (Some e, c') \<Rightarrow> ((Some (UpdateRejected e), result\<lparr>rbs_Errors := [''Rollback failed: '' @ (\<lambda>_. []) (UpdateRejected e :: store_error rollback_error)]\<rparr>), c', disk')
       | (None, c') \<Rightarrow>
           (case fs_store (\<lambda>_. (2026, 1, 2)) (\<lambda>_. Inr ''x'') [''log'']
               (rollback_record ''ch_2'' 6 sample_rollback (update_record ''ch_1'' 5 ''acme'' ''api'' (Some sample_before) None ''new text'')) disk' of
              (Some e, disk'') \<Rightarrow>
                ((Some (RollbackNotRecorded e), result\<lparr>rbs_Errors := [''Failed to record rollback: '' @ (\<lambda>_. []) e]\<rparr>), c', disk'')
            | (None, disk'') \<Rightarrow> ((None, result\<lparr>rbs_Success := True, rbs_NewChangeID := ''ch_2''\<rparr>), c', disk'')))"
    by (elim exE conjE) (rule that, assumption+)
  have "fst (snd (rollback sample_log keeping_client (\<lambda>_. []) (\<lambda>_. []) ''ch_2'' 6 sample_rollback [] disk')) =
      [(''acme'', ''api'', update_of_repository sample_before)]"
    unfolding roll k by (simp add: Let_def split: prod.splits option.splits)
  with rec show ?thesis by blast
qed

section \<open>What a listing holds\<close>

text \<open>The files below the base that a listing reads, in the order of the walk, and what they hold.\<close>

definition json_nodes :: "string list \<Rightarrow> file_node \<Rightarrow> (string list \<times> file_node) list" where
  "json_nodes base t = filter (\<lambda>(p, u). suffix ''.json'' (name_of p)) (nodes base t)"

fun read_records ::
  "(string \<Rightarrow> string + change_record) \<Rightarrow> (string list \<times> file_node) list \<Rightarrow> store_error + change_record list" where
  "read_records decode [] = Inr []"
| "read_records decode ((p, Folder es) # rest) = Inl (RecordUnreadable (IsDirectory p))"
| "read_records decode ((p, Plain content) # rest) =
     (case decode content of
        Inl e \<Rightarrow> Inl (RecordInvalid e)
      | Inr r \<Rightarrow> map_sum id (\<lambda>rs. r # rs) (read_records decode rest))"

lemma list_visitor_simps:
  "\<not> suffix ''.json'' (name_of p) \<Longrightarrow> list_visitor decode f p u acc = (GoOn, acc)"
  "suffix ''.json'' (name_of p) \<Longrightarrow> list_visitor decode f p (Folder es) acc = (Stop (RecordUnreadable (IsDirectory p)), acc)"
  "suffix ''.json'' (name_of p) \<Longrightarrow> decode content = Inl e \<Longrightarrow>
     list_visitor decode f p (Plain content) acc = (Stop (RecordInvalid e), acc)"
  "suffix ''.json'' (name_of p) \<Longrightarrow> decode content = Inr r \<Longrightarrow>
     list_visitor decode f p (Plain content) acc = (GoOn, if matches_filter r f then acc @ [r] else acc)"
  by (simp_all add: list_visitor_def)

lemma visit_list:
  "(\<forall>rs. read_records decode (filter (\<lambda>(p, u). suffix ''.json'' (name_of p)) xs) = Inr rs \<longrightarrow>
      visit (list_visitor decode f) xs acc = (GoOn, acc @ filter (\<lambda>r. matches_filter r f) rs)) \<and>
   (\<forall>e. read_records decode (filter (\<lambda>(p, u). suffix ''.json'' (name_of p)) xs) = Inl e \<longrightarrow>
      fst (visit (list_visitor decode f) xs acc) = Stop e)"
proof (induction xs arbitrary: acc)
  case (Cons x xs)
  obtain p u where x: "x = (p, u)" by fastforce
  show ?case
  proof (cases "suffix ''.json'' (name_of p)")
    case False
    then show ?thesis using Cons.IH [of acc] by (simp add: x list_visitor_simps)
  next
    case True
    show ?thesis
    proof (cases u)
      case (Folder es)
      then show ?thesis using True by (simp add: x list_visitor_simps)
    next
      case (Plain content)
      show ?thesis
      proof (cases "decode content")
        case (Inl e)
        then show ?thesis using True Plain by (simp add: x list_visitor_simps)
      next
        case (Inr r)
        then show ?thesis using True Plain Cons.IH [of "if matches_filter r f then acc @ [r] else acc"]
          by (cases "read_records decode (filter (\<lambda>(p, u). suffix ''.json'' (name_of p)) xs)") (auto simp: x list_visitor_simps)
      qed
    qed
  qed
qed simp

text \<open>Property C35. A listing of a file store fails with the first file below the base whose name ends in
  .json and that is a directory or not a record; otherwise it is the requested page of the matching
  records of all these files, each as often as it is stored, with the newest first.\<close>

theorem listing_exact:
  assumes "lookup_node disk base = Some t"
    and "\<And>rs. mset (sort_records rs) = mset rs \<and> sorted_wrt (\<lambda>a b. chr_Timestamp b \<le> chr_Timestamp a) (sort_records rs)"
  shows "case read_records decode (json_nodes base t) of
      Inl e \<Rightarrow> fs_list decode sort_records base f disk = Inl e
    | Inr rs \<Rightarrow> \<exists>found. fs_list decode sort_records base f disk = Inr (page_of f found) \<and>
        mset found = filter_mset (\<lambda>r. matches_filter r f) (mset rs) \<and>
        sorted_wrt (\<lambda>a b. chr_Timestamp b \<le> chr_Timestamp a) found"
proof -
  have "fst (list_visitor decode f p u acc) \<noteq> SkipDir" for p u acc
    by (simp add: list_visitor_def split: file_node.splits sum.splits)
  then have w: "walk (list_visitor decode f) base t [] = visit (list_visitor decode f) (nodes base t) []" by (rule walk_visits(1))
  show ?thesis
  proof (cases "read_records decode (json_nodes base t)")
    case (Inl e)
    then have "fst (walk (list_visitor decode f) base t []) = Stop e"
      unfolding w json_nodes_def using visit_list by blast
    then show ?thesis using Inl assms(1) by (cases "walk (list_visitor decode f) base t []") (simp add: fs_list_def walk_tree_def)
  next
    case (Inr rs)
    then have "walk (list_visitor decode f) base t [] = (GoOn, filter (\<lambda>r. matches_filter r f) rs)"
      unfolding w json_nodes_def using visit_list [of decode "nodes base t" f "[]"] by simp
    then have "fs_list decode sort_records base f disk = Inr (page_of f (sort_records (filter (\<lambda>r. matches_filter r f) rs)))"
      using assms(1) by (simp add: fs_list_def walk_tree_def)
    then show ?thesis using Inr assms(2) [of "filter (\<lambda>r. matches_filter r f) rs"] by auto
  qed
qed

definition newest_first :: "change_record list \<Rightarrow> change_record list" where
  "newest_first rs = sort_key (\<lambda>r. - chr_Timestamp r) rs"

lemma newest_first_sorts:
  "mset (newest_first rs) = mset rs \<and> sorted_wrt (\<lambda>a b. chr_Timestamp b \<le> chr_Timestamp a) (newest_first rs)"
  using sorted_sort_key [of "\<lambda>r. - chr_Timestamp r" rs] by (simp add: newest_first_def sorted_wrt_map)

definition any_change :: change_filter where
  "any_change = \<lparr>cfl_Organization = [], cfl_Repository = [], cfl_User = [], cfl_Operation = [], cfl_Category = [], cfl_Since = 0,
     cfl_Until = 0, cfl_Limit = 0, cfl_Offset = 0\<rparr>"

lemma listing_exact_witness:
  "\<exists>found. fs_list (\<lambda>_. Inr sample_change) newest_first [''log''] any_change (Folder [(''log'', Folder [(''ch_1.json'', Plain ''x'')])]) =
      Inr (page_of any_change found) \<and> mset found = {#sample_change#}"
proof -
  let ?t = "Folder [(''ch_1.json'', Plain ''x'')]"
  have l: "lookup_node (Folder [(''log'', ?t)]) [''log''] = Some ?t" by simp
  have j: "json_nodes [''log''] ?t = [([''log'', ''ch_1.json''], Plain ''x'')]" by code_simp
  have r: "read_records (\<lambda>_. Inr sample_change) (json_nodes [''log''] ?t) = Inr [sample_change]" unfolding j by simp
  have m: "matches_filter sample_change any_change" by (simp add: matches_filter_def any_change_def)
  from listing_exact [OF l newest_first_sorts, of "\<lambda>_. Inr sample_change" any_change] show ?thesis
    unfolding r by (auto simp: m)
qed

text \<open>An offset past the end is ignored: the page after the last is the first one again.\<close>

lemma offset_past_end:
  "int (length records) \<le> cfl_Offset f \<Longrightarrow> page_of f records = page_of (f\<lparr>cfl_Offset := 0\<rparr>) records"
  by (simp add: page_of_def Let_def)

text \<open>
  An identifier that is stored again on a later day leaves the file of the first day: a deletion
  removes one of the two and the other is found.
\<close>

lemma deleted_record_found:
  "\<exists>disk. fst (fs_delete [] ''c'' (Folder [(''2025'', Folder [(''c.json'', Plain ''old'')]), (''2026'', Folder [(''c.json'', Plain ''new'')])])) = None \<and>
     snd (fs_delete [] ''c'' (Folder [(''2025'', Folder [(''c.json'', Plain ''old'')]), (''2026'', Folder [(''c.json'', Plain ''new'')])])) = disk \<and>
     find_record_file [] ''c'' disk = Inr [''2025'', ''c.json'']"
proof -
  let ?d = "Folder [(''2025'', Folder [(''c.json'', Plain ''old'')]), (''2026'', Folder [(''c.json'', Plain ''new'')])]"
  have d: "fs_delete [] ''c'' ?d = (None, Folder [(''2025'', Folder [(''c.json'', Plain ''old'')]), (''2026'', Folder [])])" by code_simp
  have "find_record_file [] ''c'' (Folder [(''2025'', Folder [(''c.json'', Plain ''old'')]), (''2026'', Folder [])]) =
      Inr [''2025'', ''c.json'']" by code_simp
  then show ?thesis unfolding d by simp
qed

end
