(* ===== verification/ChangeLogger.thy ===== *)
theory ChangeLogger
  imports ChangeStore GoGlob
begin

text \<open>
  The logger of configuration changes, \<open>pkg/github/change_logger.go\<close>: entries, levels, formats,
  the rotation of the log file and the summary.

  The log directory is a map from file names to contents. \<open>marshal\<close> is JSON on entries,
  \<open>show_time\<close> the layout of seconds, \<open>show_date\<close> that of days and \<open>show_stamp\<close> that of the
  names of rotated files; a measured duration is its text. Writing to an open file does not fail.
\<close>

section \<open>Options and entries\<close>

record logger_options =
  lgo_LogDirectory :: string
  lgo_LogFormat :: string
  lgo_LogLevel :: string
  lgo_MaxLogFileSize :: int
  lgo_MaxLogFiles :: int
  lgo_EnableConsoleOutput :: bool
  lgo_EnableStructuredOutput :: bool

record log_entry =
  lge_Timestamp :: int
  lge_Level :: string
  lge_Message :: string
  lge_ChangeID :: string
  lge_Operation :: string
  lge_Category :: string
  lge_Repository :: string
  lge_User :: string
  lge_Source :: string
  lge_RequestID :: string
  lge_Context :: "(string, go_any) gomap"
  lge_Error :: string
  lge_Duration :: "string option"
  lge_Metadata :: "(string, go_any) gomap"

record operation_context =
  opc_RequestID :: string
  opc_User :: string
  opc_Source :: string
  opc_Organization :: string
  opc_Repository :: string
  opc_StartTime :: int
  opc_Metadata :: "(string, go_any) gomap"

record bulk_operation_stats =
  bos_Total :: int
  bos_Success :: int
  bos_Failed :: int
  bos_Skipped :: int
  bos_Errors :: "(string, string) gomap"
  bos_Duration :: int
  bos_Details :: "(string, go_any) gomap"

record log_summary =
  lgs_Period :: string
  lgs_TotalChanges :: int
  lgs_ByCategory :: "(string, int) gomap"
  lgs_ByOperation :: "(string, int) gomap"
  lgs_ByUser :: "(string, int) gomap"
  lgs_Errors :: "string list"

text \<open>What a logger writes to.\<close>

record log_output =
  lgw_Stdout :: "string list"
  lgw_Stderr :: "string list"
  lgw_Files :: "(string, string) gomap"

definition default_logger_options :: "string \<Rightarrow> logger_options" where
  "default_logger_options homeDir =
     \<lparr>lgo_LogDirectory = path_join [homeDir, ''.config'', ''gzh-manager'', ''logs''], lgo_LogFormat = ''json'', lgo_LogLevel = ''info'',
      lgo_MaxLogFileSize = 10 * 1024 * 1024, lgo_MaxLogFiles = 5, lgo_EnableConsoleOutput = True, lgo_EnableStructuredOutput = True\<rparr>"

text \<open>A directory that cannot be made is replaced by the one for temporary files.\<close>

definition new_change_logger :: "string \<Rightarrow> string \<Rightarrow> (string \<Rightarrow> bool) \<Rightarrow> logger_options option \<Rightarrow> logger_options" where
  "new_change_logger homeDir tempDir can_make options =
     (let opts = (case options of None \<Rightarrow> default_logger_options homeDir | Some x \<Rightarrow> x) in
      if lgo_LogDirectory opts \<noteq> [] \<and> \<not> can_make (lgo_LogDirectory opts) then opts\<lparr>lgo_LogDirectory := tempDir\<rparr> else opts)"

definition get_system_user_with_env :: "string option \<Rightarrow> (string \<Rightarrow> string) \<Rightarrow> string" where
  "get_system_user_with_env current environment =
     (case current of
        Some u \<Rightarrow> u
      | None \<Rightarrow>
          if environment ''USER'' \<noteq> [] then environment ''USER''
          else if environment ''USERNAME'' \<noteq> [] then environment ''USERNAME''
          else ''unknown'')"

definition create_operation_context :: "string \<Rightarrow> int \<Rightarrow> string \<Rightarrow> operation_context" where
  "create_operation_context system_user now requestID =
     \<lparr>opc_RequestID = requestID, opc_User = system_user, opc_Source = ''cli'', opc_Organization = [], opc_Repository = [],
      opc_StartTime = now, opc_Metadata = []\<rparr>"

section \<open>Levels\<close>

definition log_levels :: "(string, int) gomap" where
  "log_levels = [(''trace'', 0), (''debug'', 1), (''info'', 2), (''warn'', 3), (''error'', 4)]"

definition should_log :: "logger_options \<Rightarrow> string \<Rightarrow> bool" where
  "should_log options level =
     (case gm_get log_levels level of
        None \<Rightarrow> True
      | Some entryLevel \<Rightarrow>
          (case gm_get log_levels (lgo_LogLevel options) of None \<Rightarrow> True | Some configLevel \<Rightarrow> configLevel \<le> entryLevel))"

text \<open>An entry is held back when the configured level outranks its own.\<close>

interpretation log_rank: ranked_names "gm_get log_levels" "\<lambda>configured level. \<not> should_log (options\<lparr>lgo_LogLevel := configured\<rparr>) level"
  for options
  by unfold_locales (auto simp: should_log_def split: option.splits)

section \<open>Formats\<close>

definition upper_char :: "char \<Rightarrow> char" where
  "upper_char c = (if CHR ''a'' \<le> c \<and> c \<le> CHR ''z'' then char_of (of_char c - 32 :: nat) else c)"

definition format_text_entry :: "(int \<Rightarrow> string) \<Rightarrow> log_entry \<Rightarrow> string" where
  "format_text_entry show_time entry =
     (let given = (\<lambda>key v. if v \<noteq> [] then [key @ ''='' @ v] else []) in
      join '' '' ([''['' @ map upper_char (lge_Level entry) @ '']'', show_time (lge_Timestamp entry), lge_Message entry] @
        given ''repo'' (lge_Repository entry) @ given ''user'' (lge_User entry) @ given ''op'' (lge_Operation entry) @
        (case lge_Duration entry of Some d \<Rightarrow> [''duration='' @ d] | None \<Rightarrow> []) @ given ''error'' (lge_Error entry)))"

definition format_csv_entry :: "(int \<Rightarrow> string) \<Rightarrow> log_entry \<Rightarrow> string" where
  "format_csv_entry show_time entry =
     join '','' [show_time (lge_Timestamp entry), lge_Level entry, lge_Operation entry, lge_Category entry, lge_Repository entry,
       lge_User entry, lge_Message entry, lge_Error entry]"

text \<open>The switch over the formats, with text for any other.\<close>

definition format_entry ::
  "(log_entry \<Rightarrow> string + string) \<Rightarrow> (int \<Rightarrow> string) \<Rightarrow> logger_options \<Rightarrow> log_entry \<Rightarrow> string + string" where
  "format_entry marshal show_time options entry =
     (if lgo_LogFormat options = ''json'' then marshal entry
      else if lgo_LogFormat options = ''text'' then Inr (format_text_entry show_time entry)
      else if lgo_LogFormat options = ''csv'' then Inr (format_csv_entry show_time entry)
      else Inr (format_text_entry show_time entry))"

section \<open>Files\<close>

definition get_log_file_name :: "(int \<Rightarrow> string) \<Rightarrow> int \<Rightarrow> string" where
  "get_log_file_name show_date now = ''gzh-manager-'' @ show_date now @ ''.log''"

text \<open>\<open>filepath.Glob\<close> in the log directory: the matching names in their order.\<close>

definition rotated_files :: "(string, string) gomap \<Rightarrow> string list" where
  "rotated_files files = sort (filter (\<lambda>name. filepath_match ''gzh-manager-*.log.*'' name = Some True) (gm_keys files))"

definition cleanup_old_log_files :: "logger_options \<Rightarrow> (string, string) gomap \<Rightarrow> (string, string) gomap" where
  "cleanup_old_log_files options files =
     (let matches = rotated_files files in
      if int (length matches) \<le> lgo_MaxLogFiles options then files
      else foldl (\<lambda>fs name. gm_del name fs) files (take (nat (int (length matches) - lgo_MaxLogFiles options)) matches))"

definition rotate_log_if_needed ::
  "logger_options \<Rightarrow> string \<Rightarrow> string \<Rightarrow> (string, string) gomap \<Rightarrow> (string, string) gomap" where
  "rotate_log_if_needed options stamp logFile files =
     (case gm_get files logFile of
        None \<Rightarrow> files
      | Some content \<Rightarrow>
          if int (length content) < lgo_MaxLogFileSize options then files
          else cleanup_old_log_files options (gm_put (logFile @ ''.'' @ stamp) content (gm_del logFile files)))"

definition write_to_file ::
  "(log_entry \<Rightarrow> string + string) \<Rightarrow> (int \<Rightarrow> string) \<Rightarrow> (int \<Rightarrow> string) \<Rightarrow> (int \<Rightarrow> string) \<Rightarrow> int \<Rightarrow> logger_options \<Rightarrow> log_entry
     \<Rightarrow> (string, string) gomap \<Rightarrow> string option \<times> (string, string) gomap" where
  "write_to_file marshal show_time show_date show_stamp now options entry files =
     (let logFile = get_log_file_name show_date now;
          rotated = rotate_log_if_needed options (show_stamp now) logFile files;
          opened = (if gm_get rotated logFile = None then gm_put logFile [] rotated else rotated)
      in case format_entry marshal show_time options entry of
           Inl e \<Rightarrow> (Some e, opened)
         | Inr text \<Rightarrow> (None, gm_put logFile (gm_at [] opened logFile @ text @ [CHR 0x0A]) opened))"

definition write_to_console ::
  "(log_entry \<Rightarrow> string + string) \<Rightarrow> (int \<Rightarrow> string) \<Rightarrow> logger_options \<Rightarrow> log_entry \<Rightarrow> log_output \<Rightarrow> string option \<times> log_output" where
  "write_to_console marshal show_time options entry out =
     (case format_entry marshal show_time options entry of
        Inl e \<Rightarrow> (Some e, out)
      | Inr text \<Rightarrow>
          (None, if lge_Level entry = ''error'' \<or> lge_Level entry = ''warn''
             then out\<lparr>lgw_Stderr := lgw_Stderr out @ [text]\<rparr> else out\<lparr>lgw_Stdout := lgw_Stdout out @ [text]\<rparr>))"

definition write_log_entry ::
  "(log_entry \<Rightarrow> string + string) \<Rightarrow> (int \<Rightarrow> string) \<Rightarrow> (int \<Rightarrow> string) \<Rightarrow> (int \<Rightarrow> string) \<Rightarrow> int \<Rightarrow> logger_options \<Rightarrow> log_entry
     \<Rightarrow> log_output \<Rightarrow> string option \<times> log_output" where
  "write_log_entry marshal show_time show_date show_stamp now options entry out =
     (if \<not> should_log options (lge_Level entry) then (None, out)
      else (case (if lgo_EnableConsoleOutput options then write_to_console marshal show_time options entry out else (None, out)) of
              (Some e, out') \<Rightarrow> (Some (''failed to write to console: '' @ e), out')
            | (None, out') \<Rightarrow>
                if lgo_LogDirectory options = [] then (None, out')
                else (case write_to_file marshal show_time show_date show_stamp now options entry (lgw_Files out') of
                        (err, files) \<Rightarrow> (map_option (\<lambda>e. ''failed to write to file: '' @ e) err, out'\<lparr>lgw_Files := files\<rparr>))))"

section \<open>What is logged\<close>

definition map_value :: "(string, go_any) gomap option \<Rightarrow> go_any" where
  "map_value m = (case m of None \<Rightarrow> JNil | Some kvs \<Rightarrow> JMap kvs)"

text \<open>The error and the duration of an entry are filled in alike for every kind of entry.\<close>

definition finish_entry :: "operation_context \<Rightarrow> string option \<Rightarrow> string \<Rightarrow> log_entry \<Rightarrow> log_entry" where
  "finish_entry opCtx err elapsed entry =
     (let failed = (case err of Some e \<Rightarrow> entry\<lparr>lge_Error := e\<rparr> | None \<Rightarrow> entry)
      in if opc_StartTime opCtx \<noteq> 0 then failed\<lparr>lge_Duration := Some elapsed\<rparr> else failed)"

definition repository_change_entry ::
  "int \<Rightarrow> operation_context \<Rightarrow> change_record \<Rightarrow> string \<Rightarrow> string \<Rightarrow> log_entry" where
  "repository_change_entry now opCtx change level message =
     \<lparr>lge_Timestamp = now, lge_Level = level, lge_Message = message, lge_ChangeID = chr_ID change,
      lge_Operation = chr_Operation change, lge_Category = chr_Category change, lge_Repository = chr_Repository change,
      lge_User = opc_User opCtx, lge_Source = opc_Source opCtx, lge_RequestID = opc_RequestID opCtx,
      lge_Context = [(''organization'', JString (chr_Organization change)), (''before'', map_value (chr_Before change)),
        (''after'', map_value (chr_After change))],
      lge_Error = [], lge_Duration = None, lge_Metadata = opc_Metadata opCtx\<rparr>"

definition operation_entry :: "int \<Rightarrow> operation_context \<Rightarrow> string \<Rightarrow> string \<Rightarrow> string \<Rightarrow> string \<Rightarrow> log_entry" where
  "operation_entry now opCtx level operation category message =
     \<lparr>lge_Timestamp = now, lge_Level = level, lge_Message = message, lge_ChangeID = [], lge_Operation = operation,
      lge_Category = category, lge_Repository = [], lge_User = opc_User opCtx, lge_Source = opc_Source opCtx,
      lge_RequestID = opc_RequestID opCtx,
      lge_Context = [(''organization'', JString (opc_Organization opCtx)), (''repository'', JString (opc_Repository opCtx))],
      lge_Error = [], lge_Duration = None, lge_Metadata = opc_Metadata opCtx\<rparr>"

text \<open>The statistics of a bulk operation as JSON writes them; an empty map is left out.\<close>

definition stats_value :: "bulk_operation_stats \<Rightarrow> go_any" where
  "stats_value stats =
     JMap ([(''total'', JInt (bos_Total stats)), (''success'', JInt (bos_Success stats)), (''failed'', JInt (bos_Failed stats)),
        (''skipped'', JInt (bos_Skipped stats))] @
       (if bos_Errors stats \<noteq> [] then [(''errors'', JMap (map (\<lambda>(k, v). (k, JString v)) (bos_Errors stats)))] else []) @
       [(''duration'', JInt (bos_Duration stats))] @
       (if bos_Details stats \<noteq> [] then [(''details'', JMap (bos_Details stats))] else []))"

definition bulk_operation_entry :: "int \<Rightarrow> operation_context \<Rightarrow> string \<Rightarrow> string \<Rightarrow> bulk_operation_stats \<Rightarrow> log_entry" where
  "bulk_operation_entry now opCtx level operation stats =
     \<lparr>lge_Timestamp = now, lge_Level = level,
      lge_Message = ''Bulk '' @ operation @ '' completed: '' @ show_int (bos_Total stats) @ '' total, '' @ show_int (bos_Success stats) @
        '' success, '' @ show_int (bos_Failed stats) @ '' failed, '' @ show_int (bos_Skipped stats) @ '' skipped'',
      lge_ChangeID = [], lge_Operation = ''bulk_'' @ operation, lge_Category = ''bulk_operation'', lge_Repository = [],
      lge_User = opc_User opCtx, lge_Source = opc_Source opCtx, lge_RequestID = opc_RequestID opCtx,
      lge_Context = [(''organization'', JString (opc_Organization opCtx)), (''statistics'', stats_value stats)],
      lge_Error = [], lge_Duration = None, lge_Metadata = opc_Metadata opCtx\<rparr>"

text \<open>A logging call: the entry, finished, is written. \<open>write\<close> is \<open>write_log_entry\<close> of the logger.\<close>

definition log_repository_change where
  "log_repository_change write now elapsed opCtx change level message err =
     write (finish_entry opCtx err elapsed (repository_change_entry now opCtx change level message))"

definition log_operation where
  "log_operation write now elapsed opCtx level operation category message err =
     write (finish_entry opCtx err elapsed (operation_entry now opCtx level operation category message))"

definition log_bulk_operation where
  "log_bulk_operation write now elapsed opCtx level operation stats err =
     write (finish_entry opCtx err elapsed (bulk_operation_entry now opCtx level operation stats))"

definition count_change :: "log_summary \<Rightarrow> change_record \<Rightarrow> log_summary" where
  "count_change summary change =
     summary\<lparr>lgs_ByCategory := gm_put (chr_Category change) (gm_at 0 (lgs_ByCategory summary) (chr_Category change) + 1) (lgs_ByCategory summary),
       lgs_ByOperation := gm_put (chr_Operation change) (gm_at 0 (lgs_ByOperation summary) (chr_Operation change) + 1) (lgs_ByOperation summary),
       lgs_ByUser := gm_put (chr_User change) (gm_at 0 (lgs_ByUser summary) (chr_User change) + 1) (lgs_ByUser summary)\<rparr>"

definition get_log_summary ::
  "('e, 's) change_store \<Rightarrow> (int \<Rightarrow> string) \<Rightarrow> int \<Rightarrow> 's \<Rightarrow> 'e + log_summary" where
  "get_log_summary store show_time since s =
     (case list_changes store \<lparr>cfl_Organization = [], cfl_Repository = [], cfl_User = [], cfl_Operation = [], cfl_Category = [],
          cfl_Since = since, cfl_Until = 0, cfl_Limit = 1000, cfl_Offset = 0\<rparr> s of
        Inl e \<Rightarrow> Inl e
      | Inr changes \<Rightarrow>
          Inr (foldl count_change
            \<lparr>lgs_Period = ''Since '' @ show_time since, lgs_TotalChanges = int (length changes), lgs_ByCategory = [],
             lgs_ByOperation = [], lgs_ByUser = [], lgs_Errors = []\<rparr> changes))"

section \<open>Facts\<close>

lemma keys_del: "gm_keys (gm_del k m) = filter (\<lambda>x. x \<noteq> k) (gm_keys m)"
  by (induction m) (auto simp: gm_del_def gm_keys_def)

lemma keys_del_all: "gm_keys (foldl (\<lambda>fs name. gm_del name fs) files names) = filter (\<lambda>x. x \<notin> set names) (gm_keys files)"
  by (induction names arbitrary: files) (simp_all add: keys_del conj_commute)

lemma filter_take_drop: "distinct xs \<Longrightarrow> filter (\<lambda>x. x \<notin> set (take k xs)) xs = drop k xs"
proof (induction xs arbitrary: k)
  case (Cons x xs)
  show ?case
  proof (cases k)
    case (Suc j)
    have "filter (\<lambda>y. y \<noteq> x \<and> y \<notin> set (take j xs)) xs = filter (\<lambda>y. y \<notin> set (take j xs)) xs"
      using Cons.prems by (intro filter_cong) auto
    then show ?thesis using Cons Suc by simp
  qed simp
qed simp

text \<open>
  A clean-up keeps the newest rotated files by name and no more than the configured number; it
  touches no other file.
\<close>

lemma cleanup_keeps_newest:
  assumes "distinct (gm_keys files)" and "0 \<le> lgo_MaxLogFiles options"
  shows "rotated_files (cleanup_old_log_files options files) =
      drop (nat (int (length (rotated_files files)) - lgo_MaxLogFiles options)) (rotated_files files)"
    and "int (length (rotated_files (cleanup_old_log_files options files))) \<le> lgo_MaxLogFiles options"
proof -
  let ?k = "nat (int (length (rotated_files files)) - lgo_MaxLogFiles options)"
  have d: "distinct (rotated_files files)" using assms(1) by (simp add: rotated_files_def)
  show r: "rotated_files (cleanup_old_log_files options files) = drop ?k (rotated_files files)"
  proof (cases "int (length (rotated_files files)) \<le> lgo_MaxLogFiles options")
    case True
    then show ?thesis by (simp add: cleanup_old_log_files_def)
  next
    case False
    let ?P = "\<lambda>name. filepath_match ''gzh-manager-*.log.*'' name = Some True"
    let ?Q = "\<lambda>x. x \<notin> set (take ?k (rotated_files files))"
    have "rotated_files (cleanup_old_log_files options files) = sort (filter ?P (filter ?Q (gm_keys files)))"
      using False by (simp add: cleanup_old_log_files_def rotated_files_def Let_def keys_del_all)
    also have "\<dots> = filter ?Q (rotated_files files)"
    proof -
      have "filter ?P (filter ?Q (gm_keys files)) = filter ?Q (filter ?P (gm_keys files))" by (simp only: filter_filter conj_commute)
      then have "sort (filter ?P (filter ?Q (gm_keys files))) = filter ?Q (sort (filter ?P (gm_keys files)))"
        by (simp only: filter_sort)
      then show ?thesis unfolding rotated_files_def [symmetric] .
    qed
    also have "\<dots> = drop ?k (rotated_files files)" using filter_take_drop [OF d] .
    finally show ?thesis .
  qed
  show "int (length (rotated_files (cleanup_old_log_files options files))) \<le> lgo_MaxLogFiles options"
    unfolding r using assms(2) by simp
qed

text \<open>The summary counts every change it was given once per table, and no more than a thousand.\<close>

lemma summary_counts:
  "gm_at 0 (lgs_ByCategory (foldl count_change summary changes)) k =
     gm_at 0 (lgs_ByCategory summary) k + int (length (filter (\<lambda>c. chr_Category c = k) changes))"
  "gm_at 0 (lgs_ByOperation (foldl count_change summary changes)) k =
     gm_at 0 (lgs_ByOperation summary) k + int (length (filter (\<lambda>c. chr_Operation c = k) changes))"
  "gm_at 0 (lgs_ByUser (foldl count_change summary changes)) k =
     gm_at 0 (lgs_ByUser summary) k + int (length (filter (\<lambda>c. chr_User c = k) changes))"
  by (induction changes arbitrary: summary) (auto simp: count_change_def)

end
