(* ===== verification/HostFiles.thy ===== *)
theory HostFiles
  imports FileTree
begin

text \<open>
  The machine a configuration is loaded on: its directory tree, the working directory and the
  environment of the process. A path is resolved by its elements, without links; a lookup through
  a file fails with an error that \<open>os.IsNotExist\<close> does not recognise.
\<close>

record host =
  ho_root :: file_node
  ho_cwd :: string
  ho_env :: "string \<Rightarrow> string"

datatype file_stat = Absent | StatFails | Directory | Regular

definition is_abs :: "string \<Rightarrow> bool" where
  "is_abs p \<longleftrightarrow> p \<noteq> [] \<and> hd p = CHR ''/''"

definition path_abs :: "host \<Rightarrow> string \<Rightarrow> string" where
  "path_abs h p = (if is_abs p then path_clean p else path_join [ho_cwd h, p])"

definition path_names :: "string \<Rightarrow> string list" where
  "path_names p = filter (\<lambda>e. e \<noteq> []) (split_on (CHR ''/'') p)"

definition path_dir :: "string \<Rightarrow> string" where
  "path_dir p = path_clean (rev (dropWhile (\<lambda>c. c \<noteq> CHR ''/'') (rev p)))"

fun stat_node :: "file_node \<Rightarrow> string list \<Rightarrow> file_stat" where
  "stat_node (Plain c) [] = Regular"
| "stat_node (Folder es) [] = Directory"
| "stat_node (Plain c) (n # ns) = StatFails"
| "stat_node (Folder es) (n # ns) = (case map_of es n of None \<Rightarrow> Absent | Some t \<Rightarrow> stat_node t ns)"

definition os_stat :: "host \<Rightarrow> string \<Rightarrow> file_stat" where
  "os_stat h p = (if p = [] then Absent else stat_node (ho_root h) (path_names (path_abs h p)))"

definition os_read_file :: "host \<Rightarrow> string \<Rightarrow> fs_error + string" where
  "os_read_file h p =
     (let ns = path_names (path_abs h p)
      in if p = [] then Inl (NotExist [])
         else if stat_node (ho_root h) ns = StatFails then Inl (NotDirectory ns)
         else read_file ns (ho_root h))"

definition os_mkdir_all :: "host \<Rightarrow> string \<Rightarrow> fs_error + host" where
  "os_mkdir_all h p =
     (case mkdir_all [] (path_names (path_abs h p)) (ho_root h) of
        Inl e \<Rightarrow> Inl e
      | Inr t \<Rightarrow> Inr (h\<lparr>ho_root := t\<rparr>))"

definition os_write_file :: "host \<Rightarrow> string \<Rightarrow> string \<Rightarrow> fs_error + host" where
  "os_write_file h p content =
     (if p = [] then Inl (NotExist [])
      else case write_file [] (path_names (path_abs h p)) content (ho_root h) of
             Inl e \<Rightarrow> Inl e
           | Inr t \<Rightarrow> Inr (h\<lparr>ho_root := t\<rparr>))"

text \<open>\<open>os.UserHomeDir\<close> and \<open>os.ExpandEnv\<close>.\<close>

definition user_home_dir :: "host \<Rightarrow> string option" where
  "user_home_dir h = (if ho_env h ''HOME'' = [] then None else Some (ho_env h ''HOME''))"

definition expand_env :: "host \<Rightarrow> string \<Rightarrow> string" where
  "expand_env h = os_expand (ho_env h)"

lemma stat_lookup:
  "stat_node t ns = Regular \<longleftrightarrow> (\<exists>c. lookup_node t ns = Some (Plain c))"
  "stat_node t ns = Directory \<longleftrightarrow> (\<exists>es. lookup_node t ns = Some (Folder es))"
  by (induction t ns rule: stat_node.induct) (auto split: option.splits)

lemma stat_cases:
  "stat_node t ns =
     (case lookup_node t ns of Some (Plain c) \<Rightarrow> Regular | Some (Folder es) \<Rightarrow> Directory
      | None \<Rightarrow> if stat_node t ns = StatFails then StatFails else Absent)"
  by (induction t ns rule: stat_node.induct) (auto split: option.splits)

lemma read_regular: "os_stat h p = Regular \<longleftrightarrow> (\<exists>c. os_read_file h p = Inr c)"
proof -
  have "stat_node t ns = Regular \<longleftrightarrow> (\<exists>c. (if stat_node t ns = StatFails then Inl (NotDirectory ns) else read_file ns t) = Inr c)" for t ns
    by (subst (1 2) stat_cases) (simp add: read_file_def split: option.splits file_node.splits)
  then show ?thesis by (simp add: os_stat_def os_read_file_def Let_def)
qed

lemma host_write_env [simp]:
  "os_write_file h p c = Inr h' \<Longrightarrow> ho_env h' = ho_env h \<and> ho_cwd h' = ho_cwd h"
  "os_mkdir_all h p = Inr h' \<Longrightarrow> ho_env h' = ho_env h \<and> ho_cwd h' = ho_cwd h"
  by (auto simp: os_write_file_def os_mkdir_all_def split: sum.splits if_splits)

lemma map_of_put_same: "map_of (put_entry n t es) n = Some t"
  by (induction n t es rule: put_entry.induct) auto

lemma write_lookup: "write_file seen ns c t = Inr t' \<Longrightarrow> lookup_node t' ns = Some (Plain c)"
  by (induction seen ns c t arbitrary: t' rule: write_file.induct)
    (auto simp: map_of_put_same split: option.splits sum.splits if_splits)

text \<open>A file that was written is read back.\<close>

lemma write_read:
  assumes "os_write_file h p c = Inr h'"
  shows "os_read_file h' p = Inr c" and "os_stat h' p = Regular"
proof -
  have p: "p \<noteq> []" using assms by (auto simp: os_write_file_def)
  have a: "path_abs h' p = path_abs h p" using host_write_env(1) [OF assms] by (simp add: path_abs_def)
  have l: "lookup_node (ho_root h') (path_names (path_abs h p)) = Some (Plain c)"
    using assms p by (auto simp: os_write_file_def write_lookup split: sum.splits)
  then show st: "os_stat h' p = Regular" using p a stat_lookup(1) by (auto simp: os_stat_def)
  show "os_read_file h' p = Inr c" using l p a st by (simp add: os_read_file_def os_stat_def read_file_def Let_def)
qed


section \<open>Paths by their elements\<close>

lemma clean_elements_skip:
  "list_all (\<lambda>e. e = [] \<or> e = ''.'' \<or> plain_element e) fs \<Longrightarrow>
     clean_elements rooted out fs = rev out @ filter (\<lambda>e. e \<noteq> [] \<and> e \<noteq> ''.'') fs"
  by (induction fs arbitrary: out) (auto simp: plain_element_def)

lemma path_join_elements:
  assumes "list_all plain_element es" and "es \<noteq> []" and "list_all (\<lambda>e. e = [] \<or> e = ''.'' \<or> plain_element e) fs"
    and "fs \<noteq> []" and "join ''/'' fs \<noteq> []"
  shows "path_join [rooted_path es, join ''/'' fs] = rooted_path (es @ filter (\<lambda>e. e \<noteq> [] \<and> e \<noteq> ''.'') fs)"
proof -
  have j: "join ''/'' [rooted_path es, join ''/'' fs] = join ''/'' ([] # es @ fs)"
  proof -
    have "join ''/'' ([] # es @ fs) = CHR ''/'' # join ''/'' (es @ fs)" using assms(2) by (cases es) simp_all
    then show ?thesis unfolding join_append [OF assms(2,4)] by (simp add: rooted_path_def)
  qed
  have "CHR ''/'' \<notin> set x" if "x \<in> set es" for x using assms(1) that by (simp add: list_all_iff plain_element_def)
  moreover have "CHR ''/'' \<notin> set x" if "x \<in> set fs" for x
  proof -
    have "x = [] \<or> x = ''.'' \<or> plain_element x" using assms(3) that by (simp add: list_all_iff)
    then show ?thesis by (elim disjE) (simp_all add: plain_element_def)
  qed
  ultimately have "\<forall>x\<in>set ([] # es @ fs). CHR ''/'' \<notin> set x" by auto
  then have s: "split_on (CHR ''/'') (join ''/'' ([] # es @ fs)) = [] # es @ fs" by (rule split_on_join [OF list.distinct(2)])
  have c: "clean_elements True [] (es @ fs) = es @ filter (\<lambda>e. e \<noteq> [] \<and> e \<noteq> ''.'') fs"
  proof -
    have "list_all (\<lambda>e. e = [] \<or> e = ''.'' \<or> plain_element e) (es @ fs)"
      using assms(1,3) by (simp add: list_all_append) (simp add: list_all_iff)
    moreover have "filter (\<lambda>e. e \<noteq> [] \<and> e \<noteq> ''.'') es = es"
      using assms(1) by (simp add: filter_id_conv list_all_iff plain_element_def)
    ultimately show ?thesis using clean_elements_skip [of "es @ fs" True "[]"] by simp
  qed
  have "hd (join ''/'' ([] # es @ fs)) = CHR ''/''" "join ''/'' ([] # es @ fs) \<noteq> []" using assms(2) by (cases es; simp)+
  then have "path_clean (join ''/'' ([] # es @ fs)) = rooted_path (es @ filter (\<lambda>e. e \<noteq> [] \<and> e \<noteq> ''.'') fs)"
    unfolding path_clean_def Let_def s by (simp add: c rooted_path_def)
  then show ?thesis using j assms(5) by (simp add: path_join_def rooted_path_def)
qed

text \<open>A path that stands for the file with these elements.\<close>

definition denotes_path :: "host \<Rightarrow> string \<Rightarrow> string list \<Rightarrow> bool" where
  "denotes_path h p es \<longleftrightarrow> p \<noteq> [] \<and> path_abs h p = rooted_path es \<and> list_all plain_element es"

lemma stat_denoted: "denotes_path h p es \<Longrightarrow> os_stat h p = os_stat h (rooted_path es)"
proof -
  assume d: "denotes_path h p es"
  then have "path_abs h (rooted_path es) = rooted_path es" by (simp add: denotes_path_def path_abs_def is_abs_def rooted_path_def path_clean_rooted [unfolded rooted_path_def])
  then show ?thesis using d by (simp add: os_stat_def denotes_path_def rooted_path_def)
qed

lemma denotes_rooted: "list_all plain_element es \<Longrightarrow> denotes_path h (rooted_path es) es"
  by (simp add: denotes_path_def path_abs_def is_abs_def rooted_path_def path_clean_rooted [unfolded rooted_path_def])

lemma denotes_relative:
  assumes "ho_cwd h = rooted_path cwd" and "list_all plain_element cwd" and "cwd \<noteq> []"
    and "list_all (\<lambda>e. e = ''.'' \<or> plain_element e) fs" and "fs \<noteq> []"
  shows "denotes_path h (join ''/'' fs) (cwd @ filter (\<lambda>e. e \<noteq> ''.'') fs)"
proof -
  have ne: "\<forall>e\<in>set fs. e \<noteq> []" using assms(4) by (auto simp: list_all_iff plain_element_def)
  obtain e fs' where f: "fs = e # fs'" using assms(5) by (cases fs) auto
  have "e \<noteq> [] \<and> hd e \<noteq> CHR ''/''" using assms(4) f by (auto simp: plain_element_def neq_Nil_conv)
  then have j: "join ''/'' fs \<noteq> []" "\<not> is_abs (join ''/'' fs)"
    unfolding f by (cases fs'; auto simp: is_abs_def neq_Nil_conv)+
  have "filter (\<lambda>e. e \<noteq> [] \<and> e \<noteq> ''.'') fs = filter (\<lambda>e. e \<noteq> ''.'') fs" using ne by (auto intro: filter_cong)
  moreover have "path_join [rooted_path cwd, join ''/'' fs] = rooted_path (cwd @ filter (\<lambda>e. e \<noteq> [] \<and> e \<noteq> ''.'') fs)"
    using assms(4) by (intro path_join_elements assms(2,3,5) j(1)) (auto simp: list_all_iff)
  moreover have "list_all plain_element (cwd @ filter (\<lambda>e. e \<noteq> ''.'') fs)" using assms(2,4) by (auto simp: list_all_iff)
  ultimately show ?thesis using j assms(1) by (simp add: denotes_path_def path_abs_def)
qed

end
