(* ===== verification/LegacyClone.thy ===== *)
theory LegacyClone
  imports HostFiles
begin

text \<open>
  The configuration file of earlier versions, \<open>bulk-clone.yaml\<close>: \<open>pkg/synclone/synclone_config.go\<close>,
  the search and the overlays of \<open>pkg/synclone/config_loader.go\<close> and the addresses of
  \<open>pkg/synclone/url_builder.go\<close>. The YAML parser and the validator library are parameters;
  what the struct tags ask of the library is \<open>clone_tags_hold\<close>.
\<close>

section \<open>Data\<close>

record clone_default_github =
  cdh_RootPath :: string
  cdh_Provider :: string
  cdh_Protocol :: string
  cdh_OrgName :: string

record clone_default_gitlab =
  cdl_RootPath :: string
  cdl_Provider :: string
  cdl_URL :: string
  cdl_Recursive :: bool
  cdl_Protocol :: string
  cdl_GroupName :: string

record clone_default =
  cdf_Protocol :: string
  cdf_Github :: clone_default_github
  cdf_Gitlab :: clone_default_gitlab

record clone_github =
  cgh_RootPath :: string
  cgh_Provider :: string
  cgh_Protocol :: string
  cgh_OrgName :: string

record clone_gitlab =
  cgl_RootPath :: string
  cgl_Provider :: string
  cgl_URL :: string
  cgl_Recursive :: bool
  cgl_Protocol :: string
  cgl_GroupName :: string

record legacy_config =
  lgc_Version :: string
  lgc_Default :: clone_default
  lgc_IgnoreNameRegexes :: "string list"
  lgc_RepoRoots :: "clone_github list"

definition zero_legacy_config :: legacy_config where
  "zero_legacy_config =
     \<lparr>lgc_Version = [],
      lgc_Default =
        \<lparr>cdf_Protocol = [],
         cdf_Github = \<lparr>cdh_RootPath = [], cdh_Provider = [], cdh_Protocol = [], cdh_OrgName = []\<rparr>,
         cdf_Gitlab = \<lparr>cdl_RootPath = [], cdl_Provider = [], cdl_URL = [], cdl_Recursive = False, cdl_Protocol = [], cdl_GroupName = []\<rparr>\<rparr>,
      lgc_IgnoreNameRegexes = [], lgc_RepoRoots = []\<rparr>"

datatype legacy_error =
    LegacyNotFound string
  | LegacyNoConfig
  | LegacyRead fs_error
  | LegacyUnmarshal string
  | LegacyInvalid string
  | OverlayFailed string legacy_error
  | NoOrganization string
  | NoGroup string

section \<open>Reading a file\<close>

type_synonym legacy_yaml = "string \<Rightarrow> string + legacy_config"
type_synonym legacy_validator = "legacy_config \<Rightarrow> string option"

definition clone_protocols :: "string list" where
  "clone_protocols = [''http'', ''https'', ''ssh'']"

definition clone_tags_hold :: "legacy_config \<Rightarrow> bool" where
  "clone_tags_hold cfg \<longleftrightarrow>
     cdf_Protocol (lgc_Default cfg) \<in> set clone_protocols \<and>
     list_all (\<lambda>r. cgh_RootPath r \<noteq> [] \<and> cgh_Provider r \<noteq> [] \<and> cgh_Protocol r \<in> set clone_protocols \<and> cgh_OrgName r \<noteq> [])
       (lgc_RepoRoots cfg)"

definition clone_file_exists :: "host \<Rightarrow> string \<Rightarrow> bool" where
  "clone_file_exists h p \<longleftrightarrow> os_stat h p \<noteq> Absent"

definition config_exists :: "host \<Rightarrow> string \<Rightarrow> bool" where
  "config_exists h target \<longleftrightarrow> clone_file_exists h (path_join [target, ''bulk-clone.yaml''])"

definition read_config_without_validation :: "host \<Rightarrow> legacy_yaml \<Rightarrow> string \<Rightarrow> legacy_error + legacy_config" where
  "read_config_without_validation h yaml p =
     (case os_read_file h p of
        Inl e \<Rightarrow> Inl (LegacyRead e)
      | Inr data \<Rightarrow> (case yaml data of Inl m \<Rightarrow> Inl (LegacyUnmarshal m) | Inr cfg \<Rightarrow> Inr cfg))"

definition read_legacy_config :: "host \<Rightarrow> legacy_yaml \<Rightarrow> legacy_validator \<Rightarrow> string \<Rightarrow> legacy_error + legacy_config" where
  "read_legacy_config h yaml validate p =
     (case os_read_file h p of
        Inl e \<Rightarrow> Inl (LegacyRead e)
      | Inr data \<Rightarrow>
          (case yaml data of
             Inl m \<Rightarrow> Inl (LegacyUnmarshal m)
           | Inr cfg \<Rightarrow> (case validate cfg of Some m \<Rightarrow> Inl (LegacyInvalid m) | None \<Rightarrow> Inr cfg)))"

text \<open>\<open>log.Fatal\<close> ends the process.\<close>

definition read_config_from_dir :: "host \<Rightarrow> legacy_yaml \<Rightarrow> legacy_validator \<Rightarrow> string \<Rightarrow> legacy_config option" where
  "read_config_from_dir h yaml validate target =
     (case read_legacy_config h yaml validate (path_join [target, ''bulk-clone.yaml'']) of
        Inl e \<Rightarrow> None
      | Inr cfg \<Rightarrow> Some cfg)"

section \<open>Searching\<close>

definition clone_config_paths :: "string list" where
  "clone_config_paths = [''./bulk-clone.yaml'', ''./bulk-clone.yml'']"

definition clone_overlay_paths :: "string list" where
  "clone_overlay_paths =
     [''./bulk-clone.home.yaml'', ''./bulk-clone.home.yml'', ''./bulk-clone.work.yaml'', ''./bulk-clone.work.yml'']"

definition get_config_paths :: "host \<Rightarrow> string list" where
  "get_config_paths h =
     clone_config_paths @
     (case user_home_dir h of
        None \<Rightarrow> []
      | Some d \<Rightarrow> [path_join [d, ''.config'', ''gzh-manager'', ''bulk-clone.yaml''],
                   path_join [d, ''.config'', ''gzh-manager'', ''bulk-clone.yml'']]) @
     [''/etc/gzh-manager/bulk-clone.yaml'', ''/etc/gzh-manager/bulk-clone.yml'']"

definition get_overlay_config_paths :: "host \<Rightarrow> string list" where
  "get_overlay_config_paths h =
     clone_overlay_paths @
     (case user_home_dir h of
        None \<Rightarrow> []
      | Some d \<Rightarrow> map (\<lambda>n. path_join [d, ''.config'', ''gzh-manager'', n])
          [''bulk-clone.home.yaml'', ''bulk-clone.home.yml'', ''bulk-clone.work.yaml'', ''bulk-clone.work.yml''])"

definition find_clone_config :: "host \<Rightarrow> (string \<Rightarrow> string) \<Rightarrow> legacy_error + string" where
  "find_clone_config h environment =
     (let p = environment ''GZH_CONFIG_PATH''
      in if p \<noteq> [] then if clone_file_exists h p then Inr p else Inl (LegacyNotFound p)
         else case List.find (clone_file_exists h) (get_config_paths h) of
                Some q \<Rightarrow> Inr q
              | None \<Rightarrow> Inl LegacyNoConfig)"

section \<open>Overlays\<close>

definition newer :: "string \<Rightarrow> string \<Rightarrow> string" where
  "newer base over = (if over \<noteq> [] then over else base)"

definition merge_defaults :: "clone_default \<Rightarrow> clone_default \<Rightarrow> clone_default" where
  "merge_defaults base over =
     (let bh = cdf_Github base; oh = cdf_Github over; bl = cdf_Gitlab base; ol = cdf_Gitlab over
      in \<lparr>cdf_Protocol = newer (cdf_Protocol base) (cdf_Protocol over),
          cdf_Github =
            \<lparr>cdh_RootPath = newer (cdh_RootPath bh) (cdh_RootPath oh),
             cdh_Provider = newer (cdh_Provider bh) (cdh_Provider oh),
             cdh_Protocol = newer (cdh_Protocol bh) (cdh_Protocol oh),
             cdh_OrgName = newer (cdh_OrgName bh) (cdh_OrgName oh)\<rparr>,
          cdf_Gitlab =
            \<lparr>cdl_RootPath = newer (cdl_RootPath bl) (cdl_RootPath ol),
             cdl_Provider = newer (cdl_Provider bl) (cdl_Provider ol),
             cdl_URL = newer (cdl_URL bl) (cdl_URL ol),
             cdl_Recursive = (cdl_Recursive bl \<or> cdl_Recursive ol),
             cdl_Protocol = newer (cdl_Protocol bl) (cdl_Protocol ol),
             cdl_GroupName = newer (cdl_GroupName bl) (cdl_GroupName ol)\<rparr>\<rparr>)"

fun put_repo_root :: "clone_github \<Rightarrow> clone_github list \<Rightarrow> clone_github list" where
  "put_repo_root r [] = [r]"
| "put_repo_root r (x # xs) = (if cgh_OrgName x = cgh_OrgName r then r # xs else x # put_repo_root r xs)"

definition merge_repo_roots :: "clone_github list \<Rightarrow> clone_github list \<Rightarrow> clone_github list" where
  "merge_repo_roots base over = foldl (\<lambda>roots r. put_repo_root r roots) base over"

definition merge_clone_config :: "legacy_config \<Rightarrow> legacy_config \<Rightarrow> legacy_config" where
  "merge_clone_config cfg over =
     \<lparr>lgc_Version = newer (lgc_Version cfg) (lgc_Version over),
      lgc_Default = merge_defaults (lgc_Default cfg) (lgc_Default over),
      lgc_IgnoreNameRegexes = lgc_IgnoreNameRegexes cfg @ lgc_IgnoreNameRegexes over,
      lgc_RepoRoots = merge_repo_roots (lgc_RepoRoots cfg) (lgc_RepoRoots over)\<rparr>"

definition apply_overlay :: "host \<Rightarrow> legacy_yaml \<Rightarrow> legacy_validator \<Rightarrow> legacy_config \<Rightarrow> string \<Rightarrow> legacy_error + legacy_config" where
  "apply_overlay h yaml validate cfg p =
     (case read_config_without_validation h yaml p of
        Inl e \<Rightarrow> Inl e
      | Inr over \<Rightarrow>
          (let merged = merge_clone_config cfg over
           in case validate merged of Some m \<Rightarrow> Inl (LegacyInvalid m) | None \<Rightarrow> Inr merged))"

fun apply_overlays :: "host \<Rightarrow> legacy_yaml \<Rightarrow> legacy_validator \<Rightarrow> legacy_config \<Rightarrow> string list \<Rightarrow> legacy_error + legacy_config" where
  "apply_overlays h yaml validate cfg [] = Inr cfg"
| "apply_overlays h yaml validate cfg (p # ps) =
     (if clone_file_exists h p then
        (case apply_overlay h yaml validate cfg p of
           Inl e \<Rightarrow> Inl (OverlayFailed p e)
         | Inr cfg' \<Rightarrow> apply_overlays h yaml validate cfg' ps)
      else apply_overlays h yaml validate cfg ps)"

definition load_legacy_config :: "host \<Rightarrow> legacy_yaml \<Rightarrow> legacy_validator \<Rightarrow> string \<Rightarrow> legacy_error + legacy_config" where
  "load_legacy_config h yaml validate p =
     (case (if p = [] then find_clone_config h (ho_env h) else Inr p) of
        Inl e \<Rightarrow> Inl e
      | Inr path \<Rightarrow>
          (case read_legacy_config h yaml validate path of
             Inl e \<Rightarrow> Inl e
           | Inr cfg \<Rightarrow> apply_overlays h yaml validate cfg (get_overlay_config_paths h)))"

definition load_config_with_overlays ::
  "host \<Rightarrow> legacy_yaml \<Rightarrow> legacy_validator \<Rightarrow> string \<Rightarrow> string list \<Rightarrow> legacy_error + legacy_config" where
  "load_config_with_overlays h yaml validate base overlays =
     (case read_legacy_config h yaml validate base of
        Inl e \<Rightarrow> Inl e
      | Inr cfg \<Rightarrow> apply_overlays h yaml validate cfg overlays)"

section \<open>Looking up an owner\<close>

definition get_github_org_config :: "legacy_config \<Rightarrow> string \<Rightarrow> legacy_error + clone_github" where
  "get_github_org_config cfg org =
     (case List.find (\<lambda>r. cgh_OrgName r = org) (lgc_RepoRoots cfg) of
        Some r \<Rightarrow> Inr r
      | None \<Rightarrow>
          (let d = lgc_Default cfg
           in if cdh_OrgName (cdf_Github d) = org then
                Inr \<lparr>cgh_RootPath = cdh_RootPath (cdf_Github d), cgh_Provider = cdh_Provider (cdf_Github d),
                     cgh_Protocol = cdf_Protocol d, cgh_OrgName = org\<rparr>
              else Inl (NoOrganization org)))"

definition get_gitlab_group_config :: "legacy_config \<Rightarrow> string \<Rightarrow> legacy_error + clone_gitlab" where
  "get_gitlab_group_config cfg name =
     (let d = lgc_Default cfg; l = cdf_Gitlab d
      in if cdl_GroupName l = name then
           Inr \<lparr>cgl_RootPath = cdl_RootPath l, cgl_Provider = cdl_Provider l, cgl_URL = cdl_URL l,
                cgl_Recursive = cdl_Recursive l, cgl_Protocol = cdf_Protocol d, cgl_GroupName = name\<rparr>
         else Inl (NoGroup name))"

definition expand_clone_path :: "host \<Rightarrow> (string \<Rightarrow> string) \<Rightarrow> string \<Rightarrow> string" where
  "expand_clone_path h environment path =
     (if path = [] then path
      else
        let home = (if environment ''HOME'' \<noteq> [] then environment ''HOME''
                    else case user_home_dir h of None \<Rightarrow> [] | Some d \<Rightarrow> d);
            p = (if prefix ''~/'' path \<and> home \<noteq> [] then path_join [home, drop 2 path] else path);
            q = os_expand environment p
        in if q = [] then [] else path_clean q)"

section \<open>Addresses\<close>

record url_builder =
  ub_Protocol :: string
  ub_Hostname :: string

definition build_url :: "url_builder \<Rightarrow> string \<Rightarrow> string \<Rightarrow> string" where
  "build_url b org repo =
     (if ub_Protocol b = ''ssh'' then ''git@'' @ ub_Hostname b @ '':'' @ org @ ''/'' @ repo @ ''.git''
      else if ub_Protocol b = ''https'' then ''https://'' @ ub_Hostname b @ ''/'' @ org @ ''/'' @ repo @ ''.git''
      else if ub_Protocol b = ''http'' then ''http://'' @ ub_Hostname b @ ''/'' @ org @ ''/'' @ repo @ ''.git''
      else ''https://'' @ ub_Hostname b @ ''/'' @ org @ ''/'' @ repo @ ''.git'')"

definition build_ssh_host_alias :: "url_builder \<Rightarrow> string \<Rightarrow> string" where
  "build_ssh_host_alias b org =
     (if ub_Protocol b \<noteq> ''ssh'' then ub_Hostname b
      else if ub_Hostname b = ''github.com'' then ''github-'' @ org
      else if ub_Hostname b = ''gitlab.com'' then ''gitlab-'' @ org
      else if ub_Hostname b = ''gitea.com'' then ''gitea-'' @ org
      else ub_Hostname b)"

definition build_url_with_host_alias :: "url_builder \<Rightarrow> string \<Rightarrow> string \<Rightarrow> string" where
  "build_url_with_host_alias b org repo =
     (if ub_Protocol b = ''ssh'' then ''git@'' @ build_ssh_host_alias b org @ '':'' @ org @ ''/'' @ repo @ ''.git''
      else build_url b org repo)"

definition get_default_hostname :: "string \<Rightarrow> string" where
  "get_default_hostname provider =
     (if provider = ''github'' then ''github.com''
      else if provider = ''gitlab'' then ''gitlab.com''
      else if provider = ''gitea'' then ''gitea.com''
      else provider)"

definition build_url_for_provider :: "string \<Rightarrow> string \<Rightarrow> string \<Rightarrow> string \<Rightarrow> string" where
  "build_url_for_provider provider protocol org repo =
     build_url \<lparr>ub_Protocol = protocol, ub_Hostname = get_default_hostname provider\<rparr> org repo"

definition build_url_with_host_alias_for_provider :: "string \<Rightarrow> string \<Rightarrow> string \<Rightarrow> string \<Rightarrow> string" where
  "build_url_with_host_alias_for_provider provider protocol org repo =
     build_url_with_host_alias \<lparr>ub_Protocol = protocol, ub_Hostname = get_default_hostname provider\<rparr> org repo"

section \<open>What overlays do\<close>

text \<open>The settings that an overlay may set; an empty string sets nothing.\<close>

datatype clone_setting =
    SetVersion | SetProtocol | SetGithubRoot | SetGithubProvider | SetGithubProtocol | SetGithubOrg
  | SetGitlabRoot | SetGitlabProvider | SetGitlabURL | SetGitlabProtocol | SetGitlabGroup

fun clone_setting_of :: "clone_setting \<Rightarrow> legacy_config \<Rightarrow> string" where
  "clone_setting_of SetVersion c = lgc_Version c"
| "clone_setting_of SetProtocol c = cdf_Protocol (lgc_Default c)"
| "clone_setting_of SetGithubRoot c = cdh_RootPath (cdf_Github (lgc_Default c))"
| "clone_setting_of SetGithubProvider c = cdh_Provider (cdf_Github (lgc_Default c))"
| "clone_setting_of SetGithubProtocol c = cdh_Protocol (cdf_Github (lgc_Default c))"
| "clone_setting_of SetGithubOrg c = cdh_OrgName (cdf_Github (lgc_Default c))"
| "clone_setting_of SetGitlabRoot c = cdl_RootPath (cdf_Gitlab (lgc_Default c))"
| "clone_setting_of SetGitlabProvider c = cdl_Provider (cdf_Gitlab (lgc_Default c))"
| "clone_setting_of SetGitlabURL c = cdl_URL (cdf_Gitlab (lgc_Default c))"
| "clone_setting_of SetGitlabProtocol c = cdl_Protocol (cdf_Gitlab (lgc_Default c))"
| "clone_setting_of SetGitlabGroup c = cdl_GroupName (cdf_Gitlab (lgc_Default c))"

definition clone_value :: "clone_setting \<Rightarrow> legacy_config \<Rightarrow> string option" where
  "clone_value s c = (if clone_setting_of s c = [] then None else Some (clone_setting_of s c))"

lemma clone_setting_merge: "clone_setting_of s (merge_clone_config a b) = newer (clone_setting_of s a) (clone_setting_of s b)"
  by (cases s) (simp_all add: merge_clone_config_def merge_defaults_def Let_def)

interpretation clone_layers: override_layers clone_value zero_legacy_config merge_clone_config "\<lambda>c. True"
proof unfold_locales
  fix s a b
  show "clone_value s zero_legacy_config = None" by (cases s) (simp_all add: clone_value_def zero_legacy_config_def)
  show "clone_value s (merge_clone_config a b) = override (clone_value s a) (clone_value s b)"
    by (simp add: clone_value_def clone_setting_merge newer_def)
qed simp_all

text \<open>Roots, looked up by the name of their owner.\<close>

definition root_of :: "string \<Rightarrow> clone_github list \<Rightarrow> clone_github option" where
  "root_of name roots = List.find (\<lambda>r. cgh_OrgName r = name) roots"

lemma root_of_Cons [simp]: "root_of name (r # rs) = (if cgh_OrgName r = name then Some r else root_of name rs)"
  and root_of_Nil [simp]: "root_of name [] = None"
  by (simp_all add: root_of_def)

lemma root_of_put: "root_of name (put_repo_root r roots) = (if name = cgh_OrgName r then Some r else root_of name roots)"
  by (induction roots) auto

lemma names_put: "set (map cgh_OrgName (put_repo_root r roots)) = insert (cgh_OrgName r) (set (map cgh_OrgName roots))"
  by (induction roots) auto

lemma distinct_put: "distinct (map cgh_OrgName roots) \<Longrightarrow> distinct (map cgh_OrgName (put_repo_root r roots))"
  using names_put [of r] by (induction roots) auto

lemma distinct_roots_merge: "distinct (map cgh_OrgName base) \<Longrightarrow> distinct (map cgh_OrgName (merge_repo_roots base new))"
  unfolding merge_repo_roots_def by (induction new arbitrary: base) (simp_all add: distinct_put)

lemma root_of_merge:
  "distinct (map cgh_OrgName new) \<Longrightarrow> root_of name (merge_repo_roots base new) = override (root_of name base) (root_of name new)"
proof (induction new arbitrary: base)
  case Nil
  then show ?case by (simp add: merge_repo_roots_def)
next
  case (Cons r new)
  have "root_of (cgh_OrgName r) new = None" using Cons.prems by (simp add: root_of_def find_None_iff) (metis image_eqI)
  moreover have "root_of name (merge_repo_roots (put_repo_root r base) new) = override (root_of name (put_repo_root r base)) (root_of name new)"
    using Cons by simp
  ultimately show ?case by (auto simp: merge_repo_roots_def root_of_put)
qed

interpretation root_layers: override_layers root_of "[]" merge_repo_roots "\<lambda>roots. distinct (map cgh_OrgName roots)"
by unfold_locales (simp_all add: root_of_merge distinct_roots_merge)

lemma apply_overlays_layers:
  assumes "apply_overlays h yaml validate cfg ps = Inr cfg'"
  shows "\<exists>news. map (read_config_without_validation h yaml) (filter (clone_file_exists h) ps) = map Inr news \<and>
    cfg' = foldl merge_clone_config cfg news \<and> (news = [] \<or> validate cfg' = None)"
  using assms
proof (induction h yaml validate cfg ps rule: apply_overlays.induct)
  case (2 h yaml validate cfg p ps)
  show ?case
  proof (cases "clone_file_exists h p")
    case False
    then show ?thesis using 2 by simp
  next
    case True
    then obtain new where r: "read_config_without_validation h yaml p = Inr new" and v: "validate (merge_clone_config cfg new) = None"
      and rest: "apply_overlays h yaml validate (merge_clone_config cfg new) ps = Inr cfg'"
      using 2(3) by (auto simp: apply_overlay_def Let_def split: sum.splits option.splits)
    have ap: "apply_overlay h yaml validate cfg p = Inr (merge_clone_config cfg new)" using r v by (simp add: apply_overlay_def)
    from 2(1) [OF True ap rest] obtain news where n:
      "map (read_config_without_validation h yaml) (filter (clone_file_exists h) ps) = map Inr news"
      "cfg' = foldl merge_clone_config (merge_clone_config cfg new) news" "news = [] \<or> validate cfg' = None" by blast
    then show ?thesis using True r v by (intro exI [of _ "new # news"]) auto
  qed
qed simp

lemma merged_lists:
  "lgc_IgnoreNameRegexes (foldl merge_clone_config cfg news) = lgc_IgnoreNameRegexes cfg @ concat (map lgc_IgnoreNameRegexes news)"
  "lgc_RepoRoots (foldl merge_clone_config cfg news) = foldl merge_repo_roots (lgc_RepoRoots cfg) (map lgc_RepoRoots news)"
  by (induction news arbitrary: cfg) (simp_all add: merge_clone_config_def)

lemma merged_recursive:
  "cdl_Recursive (cdf_Gitlab (lgc_Default (foldl merge_clone_config cfg news))) \<longleftrightarrow>
     (\<exists>c\<in>set (cfg # news). cdl_Recursive (cdf_Gitlab (lgc_Default c)))"
  by (induction news arbitrary: cfg) (auto simp: merge_clone_config_def merge_defaults_def Let_def)

text \<open>
  Property C36. A legacy configuration that loads from a file is the file with the overlays laid over it,
  those that exist in the order of the search: each setting has the last value that is not empty, the
  ignored names of all of them are kept in order, each owner has the root of the last file that has one
  for it, GitLab groups are recursive when one of the files says so, and the result satisfies the
  validator.
\<close>

theorem legacy_overlays:
  assumes "load_legacy_config h yaml validate p = Inr cfg" and "p \<noteq> []"
  shows "\<exists>base news.
    read_legacy_config h yaml validate p = Inr base \<and>
    map (read_config_without_validation h yaml) (filter (clone_file_exists h) (get_overlay_config_paths h)) = map Inr news \<and>
    (\<forall>s. clone_value s cfg = last_set (map (clone_value s) (base # news))) \<and>
    lgc_IgnoreNameRegexes cfg = concat (map lgc_IgnoreNameRegexes (base # news)) \<and>
    ((\<forall>c\<in>set (base # news). distinct (map cgh_OrgName (lgc_RepoRoots c))) \<longrightarrow>
      (\<forall>name. root_of name (lgc_RepoRoots cfg) = last_set (map (\<lambda>c. root_of name (lgc_RepoRoots c)) (base # news)))) \<and>
    (cdl_Recursive (cdf_Gitlab (lgc_Default cfg)) \<longleftrightarrow> (\<exists>c\<in>set (base # news). cdl_Recursive (cdf_Gitlab (lgc_Default c)))) \<and>
    validate cfg = None"
proof -
  obtain base where b: "read_legacy_config h yaml validate p = Inr base"
    and o: "apply_overlays h yaml validate base (get_overlay_config_paths h) = Inr cfg"
    using assms by (auto simp: load_legacy_config_def split: sum.splits)
  have vb: "validate base = None" using b by (auto simp: read_legacy_config_def split: sum.splits option.splits)
  obtain news where n: "map (read_config_without_validation h yaml) (filter (clone_file_exists h) (get_overlay_config_paths h)) = map Inr news"
    "cfg = foldl merge_clone_config base news" "news = [] \<or> validate cfg = None"
    using apply_overlays_layers [OF o] by blast
  have s: "clone_value s cfg = last_set (map (clone_value s) (base # news))" for s
    using clone_layers.view_foldl [where a = base and ls = news and k = s] n(2) by simp
  have r: "root_of name (lgc_RepoRoots cfg) = last_set (map (\<lambda>c. root_of name (lgc_RepoRoots c)) (base # news))"
    if "\<forall>c\<in>set (base # news). distinct (map cgh_OrgName (lgc_RepoRoots c))" for name
    using root_layers.view_foldl [where a = "lgc_RepoRoots base" and ls = "map lgc_RepoRoots news" and k = name] that
    by (simp add: n(2) merged_lists o_def)
  have v: "validate cfg = None" using n(2,3) vb by auto
  have i: "lgc_IgnoreNameRegexes cfg = concat (map lgc_IgnoreNameRegexes (base # news))" by (simp add: n(2) merged_lists)
  show ?thesis using b n(1) s i r v merged_recursive [of base news, folded n(2)] by blast
qed

definition sample_legacy :: legacy_config where
  "sample_legacy = zero_legacy_config\<lparr>lgc_Version := ''0.1'',
     lgc_Default := (lgc_Default zero_legacy_config)\<lparr>cdf_Protocol := ''ssh''\<rparr>,
     lgc_RepoRoots := [\<lparr>cgh_RootPath = ''/r'', cgh_Provider = ''github'', cgh_Protocol = ''ssh'', cgh_OrgName = ''acme''\<rparr>]\<rparr>"

definition sample_overlay :: legacy_config where
  "sample_overlay = zero_legacy_config\<lparr>lgc_Default := (lgc_Default zero_legacy_config)\<lparr>cdf_Protocol := ''https''\<rparr>,
     lgc_IgnoreNameRegexes := [''x'']\<rparr>"

definition sample_host :: host where
  "sample_host = \<lparr>ho_root = Folder [(''c.yaml'', Plain ''base''),
      (''home'', Folder [(''bulk-clone.home.yaml'', Plain ''over'')])], ho_cwd = ''/home'', ho_env = \<lambda>_. []\<rparr>"

definition sample_yaml :: legacy_yaml where
  "sample_yaml data = (if data = ''base'' then Inr sample_legacy else if data = ''over'' then Inr sample_overlay else Inl ''syntax'')"

lemma sample_legacy_loads:
  "load_legacy_config sample_host sample_yaml (\<lambda>c. if clone_tags_hold c then None else Some ''invalid'') ''/c.yaml''
     = Inr (merge_clone_config sample_legacy sample_overlay)"
  by code_simp

theorem legacy_overlays_witness:
  "\<exists>cfg. load_legacy_config sample_host sample_yaml (\<lambda>c. if clone_tags_hold c then None else Some ''invalid'') ''/c.yaml'' = Inr cfg \<and>
    clone_tags_hold cfg"
  using legacy_overlays [OF sample_legacy_loads] sample_legacy_loads by (auto split: if_splits)

end
