(* ===== verification/CloneTargets.thy ===== *)
theory CloneTargets
  imports HostFiles GoValue
begin

text \<open>
  The targets of a bulk clone as \<open>pkg/config\<close> has them: \<open>schema.go\<close> and \<open>errors.go\<close> (the
  configuration), \<open>parser.go\<close> (reading it), \<open>visibility.go\<close> and \<open>repository_filter.go\<close> (which
  repositories are meant), \<open>integration.go\<close> (the targets of a configuration) and
  \<open>directory_resolver.go\<close> (where repositories go). Regular expressions are compiled by a parameter:
  \<open>None\<close> is an error, \<open>Some\<close> the predicate of \<open>MatchString\<close>.
\<close>

section \<open>Configuration\<close>

record git_target =
  gtg_Name :: string
  gtg_Visibility :: string
  gtg_Recursive :: bool
  gtg_Flatten :: bool
  gtg_Match :: string
  gtg_CloneDir :: string
  gtg_Exclude :: "string list"
  gtg_Strategy :: string

record gzh_provider =
  gpv_Token :: string
  gpv_Orgs :: "git_target list"
  gpv_Groups :: "git_target list"

record gzh_config =
  gzc_Version :: string
  gzc_DefaultProvider :: string
  gzc_Providers :: "(string, gzh_provider) gomap"

datatype gzh_target_error =
    ErrMissingVersion | ErrMissingToken | ErrMissingName | ErrInvalidVisibility | ErrInvalidStrategy | ErrInvalidRegex
  | ErrFileNotFound | ErrInvalidYAML | ErrInvalidCloneDir | ErrUnsafePath
  | ReadFileFailed fs_error | ConfigInvalid gzh_target_error
  | InvalidVisibilityFilter string | InvalidNamePattern string | FilterFailed gzh_target_error
  | VisibilityNotValid string | MatchNotValid string | EmptyExclude nat | FilterConfigInvalid gzh_target_error
  | TargetNotFound string string | ProviderNotConfigured string

type_synonym pattern_compiler = "string \<Rightarrow> (string \<Rightarrow> bool) option"

definition set_defaults :: "git_target \<Rightarrow> git_target" where
  "set_defaults g =
     g\<lparr>gtg_Visibility := (if gtg_Visibility g = [] then ''all'' else gtg_Visibility g),
       gtg_Strategy := (if gtg_Strategy g = [] then ''reset'' else gtg_Strategy g)\<rparr>"

definition validate_target :: "pattern_compiler \<Rightarrow> git_target \<Rightarrow> gzh_target_error option" where
  "validate_target compile g =
     (if gtg_Name g = [] then Some ErrMissingName
      else if gtg_Visibility g \<noteq> [] \<and> gtg_Visibility g \<noteq> ''all'' \<and> gtg_Visibility g \<noteq> ''public'' \<and> gtg_Visibility g \<noteq> ''private''
      then Some ErrInvalidVisibility
      else if gtg_Strategy g \<noteq> [] \<and> gtg_Strategy g \<noteq> ''reset'' \<and> gtg_Strategy g \<noteq> ''pull'' \<and> gtg_Strategy g \<noteq> ''fetch''
      then Some ErrInvalidStrategy
      else if gtg_Match g \<noteq> [] \<and> compile (gtg_Match g) = None then Some ErrInvalidRegex
      else None)"

fun first_error :: "('a \<Rightarrow> 'e option) \<Rightarrow> 'a list \<Rightarrow> 'e option" where
  "first_error check [] = None"
| "first_error check (x # xs) = (case check x of Some e \<Rightarrow> Some e | None \<Rightarrow> first_error check xs)"

lemma first_error_None [simp]: "first_error check xs = None \<longleftrightarrow> (\<forall>x\<in>set xs. check x = None)"
  by (induction xs) (auto split: option.splits)

definition validate_git_provider :: "pattern_compiler \<Rightarrow> string \<Rightarrow> gzh_provider \<Rightarrow> gzh_target_error option" where
  "validate_git_provider compile name p =
     (if gpv_Token p = [] then Some ErrMissingToken
      else if name = ''gitlab'' then first_error (validate_target compile) (gpv_Groups p)
      else if name = ''github'' \<or> name = ''gitea'' then first_error (validate_target compile) (gpv_Orgs p)
      else None)"

definition validate_gzh_config :: "pattern_compiler \<Rightarrow> gzh_config \<Rightarrow> gzh_target_error option" where
  "validate_gzh_config compile c =
     (if gzc_Version c = [] then Some ErrMissingVersion
      else first_error (\<lambda>(name, p). validate_git_provider compile name p) (gzc_Providers c))"

section \<open>Reading\<close>

type_synonym gzh_yaml = "string \<Rightarrow> gzh_config option"

definition default_targets :: "gzh_provider \<Rightarrow> gzh_provider" where
  "default_targets p = p\<lparr>gpv_Orgs := map set_defaults (gpv_Orgs p), gpv_Groups := map set_defaults (gpv_Groups p)\<rparr>"

definition parse_yaml :: "host \<Rightarrow> gzh_yaml \<Rightarrow> pattern_compiler \<Rightarrow> string \<Rightarrow> gzh_target_error + gzh_config" where
  "parse_yaml h yaml compile content =
     (case yaml (expand_env h content) of
        None \<Rightarrow> Inl ErrInvalidYAML
      | Some c \<Rightarrow>
          (let c' = c\<lparr>gzc_Providers := map (\<lambda>(n, p). (n, default_targets p)) (gzc_Providers c)\<rparr>
           in case validate_gzh_config compile c' of Some e \<Rightarrow> Inl (ConfigInvalid e) | None \<Rightarrow> Inr c'))"

definition parse_yaml_file :: "host \<Rightarrow> gzh_yaml \<Rightarrow> pattern_compiler \<Rightarrow> string \<Rightarrow> gzh_target_error + gzh_config" where
  "parse_yaml_file h yaml compile path =
     (case os_read_file h path of Inl e \<Rightarrow> Inl (ReadFileFailed e) | Inr content \<Rightarrow> parse_yaml h yaml compile content)"

text \<open>\<open>strings.Cut\<close> and \<open>strings.Replace\<close> of the first occurrence.\<close>

fun str_cut :: "string \<Rightarrow> string \<Rightarrow> (string \<times> string) option" where
  "str_cut sep [] = (if sep = [] then Some ([], []) else None)"
| "str_cut sep (c # s) =
     (if prefix sep (c # s) then Some ([], drop (length sep) (c # s))
      else case str_cut sep s of None \<Rightarrow> None | Some (before, after) \<Rightarrow> Some (c # before, after))"

definition replace_first :: "string \<Rightarrow> string \<Rightarrow> string \<Rightarrow> string" where
  "replace_first s old new = (case str_cut old s of None \<Rightarrow> s | Some (before, after) \<Rightarrow> before @ new @ after)"

definition process_default_values :: "(string \<Rightarrow> string) \<Rightarrow> string \<Rightarrow> string" where
  "process_default_values env line =
     (case str_cut ''${'' line of
        None \<Rightarrow> line
      | Some (_, rest) \<Rightarrow>
          (case str_cut ''}'' rest of
             None \<Rightarrow> line
           | Some (expr, _) \<Rightarrow>
               (case str_cut '':'' expr of
                  None \<Rightarrow> line
                | Some (name, fallback) \<Rightarrow>
                    replace_first line (''${'' @ expr @ ''}'') (if env name \<noteq> [] then env name else fallback))))"

definition newline_char :: char where "newline_char = char_of (10 :: nat)"

definition preprocess_env_vars :: "(string \<Rightarrow> string) \<Rightarrow> string \<Rightarrow> string" where
  "preprocess_env_vars env content =
     join [newline_char]
       (map (\<lambda>line. if contains line ''${'' \<and> contains line '':'' then process_default_values env line else line)
         (split_on newline_char content))"

definition apply_config_defaults :: "gzh_config \<Rightarrow> gzh_config" where
  "apply_config_defaults c =
     c\<lparr>gzc_DefaultProvider := (if gzc_DefaultProvider c = [] then ''github'' else gzc_DefaultProvider c),
       gzc_Providers := map (\<lambda>(n, p). (n, default_targets p)) (gzc_Providers c)\<rparr>"

definition load_yaml_with_env :: "host \<Rightarrow> gzh_yaml \<Rightarrow> pattern_compiler \<Rightarrow> string \<Rightarrow> gzh_target_error + gzh_config" where
  "load_yaml_with_env h yaml compile path =
     (case os_read_file h path of
        Inl (NotExist p) \<Rightarrow> Inl ErrFileNotFound
      | Inl e \<Rightarrow> Inl (ReadFileFailed e)
      | Inr content \<Rightarrow>
          (case yaml (expand_env h (preprocess_env_vars (ho_env h) content)) of
             None \<Rightarrow> Inl ErrInvalidYAML
           | Some c \<Rightarrow>
               (let c' = apply_config_defaults c
                in case validate_gzh_config compile c' of Some e \<Rightarrow> Inl (ConfigInvalid e) | None \<Rightarrow> Inr c')))"

section \<open>Visibility and name filters\<close>

definition new_visibility_filter :: "string \<Rightarrow> gzh_target_error + string" where
  "new_visibility_filter wanted =
     (let f = to_lower (trim_space wanted)
      in if f \<in> {''public'', ''private'', ''all'', []} then Inr (if f = [] then ''all'' else f)
         else Inl (InvalidVisibilityFilter f))"

definition visible :: "string \<Rightarrow> bool \<Rightarrow> bool" where
  "visible wanted is_private \<longleftrightarrow>
     (if wanted = ''all'' then True
      else if wanted = ''public'' then \<not> is_private
      else if wanted = ''private'' then is_private
      else True)"

definition is_valid_visibility :: "string \<Rightarrow> bool" where
  "is_valid_visibility v \<longleftrightarrow> to_lower (trim_space v) \<in> {''public'', ''private'', ''all''}"

definition normalize_visibility :: "string \<Rightarrow> string" where
  "normalize_visibility v = (let n = to_lower (trim_space v) in if n = [] then ''all'' else n)"

record visibility_repository =
  vrp_Name :: string
  vrp_FullName :: string
  vrp_IsPrivate :: bool
  vrp_CloneURL :: string
  vrp_SSHURL :: string
  vrp_HTTPURL :: string

record name_filter =
  nfl_Visibility :: string
  nfl_NamePattern :: string
  nfl_ExcludePatterns :: "string list"

definition new_repository_filter ::
  "pattern_compiler \<Rightarrow> string \<Rightarrow> string \<Rightarrow> string list \<Rightarrow> gzh_target_error + name_filter" where
  "new_repository_filter compile visibility pattern excludes =
     (case new_visibility_filter visibility of
        Inl e \<Rightarrow> Inl (FilterFailed e)
      | Inr v \<Rightarrow>
          if pattern \<noteq> [] \<and> compile pattern = None then Inl (InvalidNamePattern pattern)
          else Inr \<lparr>nfl_Visibility = v, nfl_NamePattern = pattern, nfl_ExcludePatterns = excludes\<rparr>)"

definition glob_to_regex :: "string \<Rightarrow> string" where
  "glob_to_regex pattern = ''^'' @ replace_char (CHR ''*'') ''.*'' pattern @ ''$''"

definition matches_simple_glob :: "pattern_compiler \<Rightarrow> string \<Rightarrow> string \<Rightarrow> bool" where
  "matches_simple_glob compile name pattern =
     (case compile (glob_to_regex pattern) of None \<Rightarrow> False | Some m \<Rightarrow> m name)"

definition filter_matches_pattern :: "pattern_compiler \<Rightarrow> string \<Rightarrow> string \<Rightarrow> bool" where
  "filter_matches_pattern compile name pattern =
     (if contains pattern ''*'' then matches_simple_glob compile name pattern
      else case compile pattern of Some m \<Rightarrow> m name | None \<Rightarrow> contains name pattern)"

definition should_include_repository :: "pattern_compiler \<Rightarrow> name_filter \<Rightarrow> visibility_repository \<Rightarrow> bool" where
  "should_include_repository compile f repo =
     (if \<not> visible (nfl_Visibility f) (vrp_IsPrivate repo) then False
      else if nfl_NamePattern f \<noteq> [] \<and>
              (case compile (nfl_NamePattern f) of None \<Rightarrow> False | Some m \<Rightarrow> \<not> m (vrp_Name repo)) then False
      else \<not> list_ex (filter_matches_pattern compile (vrp_Name repo)) (nfl_ExcludePatterns f))"

definition filter_visible_repositories :: "pattern_compiler \<Rightarrow> name_filter \<Rightarrow> visibility_repository list \<Rightarrow> visibility_repository list" where
  "filter_visible_repositories compile f repos = filter (should_include_repository compile f) repos"

definition filter_summary :: "name_filter \<Rightarrow> string" where
  "filter_summary f =
     join '', ''
       ([''visibility='' @ nfl_Visibility f] @
        (if nfl_NamePattern f \<noteq> [] then [''pattern='' @ nfl_NamePattern f] else []) @
        (if nfl_ExcludePatterns f \<noteq> [] then [''exclude='' @ join '','' (nfl_ExcludePatterns f)] else []))"

record visibility_statistics =
  vst_TotalRepositories :: int
  vst_PublicRepositories :: int
  vst_PrivateRepositories :: int

definition calculate_visibility_statistics :: "visibility_repository list \<Rightarrow> visibility_statistics" where
  "calculate_visibility_statistics repos =
     foldl (\<lambda>st r. if vrp_IsPrivate r then st\<lparr>vst_PrivateRepositories := vst_PrivateRepositories st + 1\<rparr>
                  else st\<lparr>vst_PublicRepositories := vst_PublicRepositories st + 1\<rparr>)
       \<lparr>vst_TotalRepositories = int (length repos), vst_PublicRepositories = 0, vst_PrivateRepositories = 0\<rparr> repos"

definition percent_of :: "int \<Rightarrow> int \<Rightarrow> float64" where
  "percent_of part whole = fmul_const (fdiv (float_of_int part) (float_of_int whole)) 100"

definition get_visibility_percentage :: "visibility_statistics \<Rightarrow> float64 \<times> float64" where
  "get_visibility_percentage v =
     (if vst_TotalRepositories v = 0 then (FNum 0, FNum 0)
      else (percent_of (vst_PublicRepositories v) (vst_TotalRepositories v),
            percent_of (vst_PrivateRepositories v) (vst_TotalRepositories v)))"

section \<open>Filtering the repositories of a service\<close>

record service_repository =
  srp_Name :: string
  srp_FullName :: string
  srp_Description :: string
  srp_DefaultBranch :: string
  srp_CloneURL :: string
  srp_SSHURL :: string
  srp_HTMLURL :: string
  srp_Private :: bool
  srp_Archived :: bool
  srp_Language :: string
  srp_Size :: int

record repository_filter_config =
  rfc_Visibility :: string
  rfc_Match :: string
  rfc_Exclude :: "string list"

record repository_matcher =
  rmt_filter :: name_filter
  rmt_config :: repository_filter_config

record filtering_statistics =
  fst_OriginalStats :: visibility_statistics
  fst_FilteredStats :: visibility_statistics
  fst_FilterConfig :: repository_filter_config

definition new_repository_filter_config :: "git_target \<Rightarrow> repository_filter_config" where
  "new_repository_filter_config g =
     \<lparr>rfc_Visibility = gtg_Visibility g, rfc_Match = gtg_Match g, rfc_Exclude = gtg_Exclude g\<rparr>"

definition new_repository_matcher :: "pattern_compiler \<Rightarrow> repository_filter_config \<Rightarrow> gzh_target_error + repository_matcher" where
  "new_repository_matcher compile c =
     (case new_repository_filter compile (rfc_Visibility c) (rfc_Match c) (rfc_Exclude c) of
        Inl e \<Rightarrow> Inl (FilterFailed e)
      | Inr f \<Rightarrow> Inr \<lparr>rmt_filter = f, rmt_config = c\<rparr>)"

definition to_visibility :: "service_repository \<Rightarrow> visibility_repository" where
  "to_visibility r =
     \<lparr>vrp_Name = srp_Name r, vrp_FullName = srp_FullName r, vrp_IsPrivate = srp_Private r,
      vrp_CloneURL = srp_CloneURL r, vrp_SSHURL = srp_SSHURL r, vrp_HTTPURL = srp_HTMLURL r\<rparr>"

definition from_visibility :: "visibility_repository \<Rightarrow> service_repository" where
  "from_visibility v =
     \<lparr>srp_Name = vrp_Name v, srp_FullName = vrp_FullName v, srp_Description = [], srp_DefaultBranch = [],
      srp_CloneURL = vrp_CloneURL v, srp_SSHURL = vrp_SSHURL v, srp_HTMLURL = vrp_HTTPURL v,
      srp_Private = vrp_IsPrivate v, srp_Archived = False, srp_Language = [], srp_Size = 0\<rparr>"

definition should_clone_repository :: "pattern_compiler \<Rightarrow> repository_matcher \<Rightarrow> service_repository \<Rightarrow> bool" where
  "should_clone_repository compile m r = should_include_repository compile (rmt_filter m) (to_visibility r)"

definition filter_repository_list ::
  "pattern_compiler \<Rightarrow> repository_matcher \<Rightarrow> service_repository list \<Rightarrow> service_repository list" where
  "filter_repository_list compile m repos =
     map from_visibility (filter_visible_repositories compile (rmt_filter m) (map to_visibility repos))"

definition get_matcher_statistics ::
  "pattern_compiler \<Rightarrow> repository_matcher \<Rightarrow> service_repository list \<Rightarrow> filtering_statistics" where
  "get_matcher_statistics compile m repos =
     \<lparr>fst_OriginalStats = calculate_visibility_statistics (map to_visibility repos),
      fst_FilteredStats = calculate_visibility_statistics (map to_visibility (filter_repository_list compile m repos)),
      fst_FilterConfig = rmt_config m\<rparr>"

definition get_filtering_ratio :: "filtering_statistics \<Rightarrow> float64" where
  "get_filtering_ratio s =
     (if vst_TotalRepositories (fst_OriginalStats s) = 0 then FNum 0
      else percent_of (vst_TotalRepositories (fst_FilteredStats s)) (vst_TotalRepositories (fst_OriginalStats s)))"

definition matches_name_pattern :: "pattern_compiler \<Rightarrow> string \<Rightarrow> string \<Rightarrow> bool" where
  "matches_name_pattern compile name pattern =
     (if pattern = [] then True
      else if contains pattern ''*'' then matches_simple_glob compile name pattern
      else case compile pattern of Some m \<Rightarrow> m name | None \<Rightarrow> contains name pattern)"

definition matches_exclude_patterns :: "pattern_compiler \<Rightarrow> string \<Rightarrow> string list \<Rightarrow> bool" where
  "matches_exclude_patterns compile name patterns = list_ex (matches_name_pattern compile name) patterns"

fun empty_exclude :: "nat \<Rightarrow> string list \<Rightarrow> nat option" where
  "empty_exclude i [] = None"
| "empty_exclude i (p # ps) = (if p = [] then Some i else empty_exclude (Suc i) ps)"

definition validate_filter_config :: "pattern_compiler \<Rightarrow> repository_filter_config \<Rightarrow> gzh_target_error option" where
  "validate_filter_config compile c =
     (if rfc_Visibility c \<noteq> [] \<and> \<not> is_valid_visibility (rfc_Visibility c) then Some (VisibilityNotValid (rfc_Visibility c))
      else if rfc_Match c \<noteq> [] \<and> compile (rfc_Match c) = None then Some (MatchNotValid (rfc_Match c))
      else map_option EmptyExclude (empty_exclude 0 (rfc_Exclude c)))"

definition create_matcher_from_target :: "pattern_compiler \<Rightarrow> git_target \<Rightarrow> gzh_target_error + repository_matcher" where
  "create_matcher_from_target compile g =
     (let c = new_repository_filter_config g
      in case validate_filter_config compile c of
           Some e \<Rightarrow> Inl (FilterConfigInvalid e)
         | None \<Rightarrow> new_repository_matcher compile c)"

section \<open>The targets of a configuration\<close>

record bulk_target =
  btg_Provider :: string
  btg_Name :: string
  btg_CloneDir :: string
  btg_Token :: string
  btg_Visibility :: string
  btg_Strategy :: string
  btg_Match :: string
  btg_Exclude :: "string list"
  btg_Recursive :: bool
  btg_Flatten :: bool

definition resolve_clone_dir :: "host \<Rightarrow> string \<Rightarrow> string \<Rightarrow> string \<Rightarrow> bool \<Rightarrow> string" where
  "resolve_clone_dir h clone_dir provider target flatten =
     (if clone_dir \<noteq> [] then expand_env h clone_dir
      else
        let expanded = expand_env h ''${HOME}'';
            home = (if expanded \<noteq> ''${HOME}'' then expanded else ''~'');
            p = (if flatten then path_join [home, ''repos'', provider] else path_join [home, ''repos'', provider, target])
        in expand_env h p)"

definition org_target :: "host \<Rightarrow> string \<Rightarrow> gzh_provider \<Rightarrow> git_target \<Rightarrow> bulk_target" where
  "org_target h name p org =
     \<lparr>btg_Provider = name, btg_Name = gtg_Name org,
      btg_CloneDir = resolve_clone_dir h (gtg_CloneDir org) name (gtg_Name org) (gtg_Flatten org),
      btg_Token = expand_env h (gpv_Token p), btg_Visibility = gtg_Visibility org, btg_Strategy = gtg_Strategy org,
      btg_Match = gtg_Match org, btg_Exclude = gtg_Exclude org, btg_Recursive = False, btg_Flatten = gtg_Flatten org\<rparr>"

definition group_target :: "host \<Rightarrow> string \<Rightarrow> gzh_provider \<Rightarrow> git_target \<Rightarrow> bulk_target" where
  "group_target h name p g = (org_target h name p g)\<lparr>btg_Recursive := gtg_Recursive g\<rparr>"

definition get_all_targets :: "host \<Rightarrow> gzh_config \<Rightarrow> bulk_target list" where
  "get_all_targets h c =
     concat (map (\<lambda>(name, p). map (org_target h name p) (gpv_Orgs p) @ map (group_target h name p) (gpv_Groups p)) (gzc_Providers c))"

definition get_targets_by_provider :: "host \<Rightarrow> gzh_config \<Rightarrow> string \<Rightarrow> bulk_target list" where
  "get_targets_by_provider h c name = filter (\<lambda>t. btg_Provider t = name) (get_all_targets h c)"

definition get_target_by_name :: "host \<Rightarrow> gzh_config \<Rightarrow> string \<Rightarrow> string \<Rightarrow> gzh_target_error + bulk_target" where
  "get_target_by_name h c provider name =
     (case List.find (\<lambda>t. btg_Name t = name) (get_targets_by_provider h c provider) of
        Some t \<Rightarrow> Inr t
      | None \<Rightarrow> Inl (TargetNotFound name provider))"

definition validate_configured :: "gzh_config \<Rightarrow> string \<Rightarrow> gzh_target_error option" where
  "validate_configured c name = (if gm_get (gzc_Providers c) name = None then Some (ProviderNotConfigured name) else None)"

definition get_configured_providers :: "gzh_config \<Rightarrow> string list" where
  "get_configured_providers c = gm_keys (gzc_Providers c)"

definition get_default_provider :: "gzh_config \<Rightarrow> string" where
  "get_default_provider c =
     (if gzc_DefaultProvider c \<noteq> [] then gzc_DefaultProvider c
      else case gzc_Providers c of (name, _) # _ \<Rightarrow> name | [] \<Rightarrow> ''github'')"

definition should_process_target :: "pattern_compiler \<Rightarrow> bulk_target \<Rightarrow> (string, go_any) gomap \<Rightarrow> bool" where
  "should_process_target compile t filters \<longleftrightarrow>
     (case gm_get filters ''provider'' of Some (JString s) \<Rightarrow> s = btg_Provider t | _ \<Rightarrow> True) \<and>
     (case gm_get filters ''visibility'' of Some (JString s) \<Rightarrow> s = ''all'' \<or> s = btg_Visibility t | _ \<Rightarrow> True) \<and>
     (case gm_get filters ''name_pattern'' of
        Some (JString s) \<Rightarrow> s = [] \<or> (case compile s of None \<Rightarrow> True | Some m \<Rightarrow> m (btg_Name t))
      | _ \<Rightarrow> True)"

definition default_gzh_config :: gzh_config where
  "default_gzh_config =
     \<lparr>gzc_Version = ''1.0.0'', gzc_DefaultProvider = ''github'',
      gzc_Providers =
        [(''github'', \<lparr>gpv_Token = ''${GITHUB_TOKEN}'',
            gpv_Orgs = [\<lparr>gtg_Name = ''your-org-name'', gtg_Visibility = ''all'', gtg_Recursive = False, gtg_Flatten = False,
              gtg_Match = [], gtg_CloneDir = ''~/repos/github/your-org-name'', gtg_Exclude = [], gtg_Strategy = ''reset''\<rparr>],
            gpv_Groups = []\<rparr>),
         (''gitlab'', \<lparr>gpv_Token = ''${GITLAB_TOKEN}'', gpv_Orgs = [],
            gpv_Groups = [\<lparr>gtg_Name = ''your-group-name'', gtg_Visibility = ''public'', gtg_Recursive = True, gtg_Flatten = False,
              gtg_Match = [], gtg_CloneDir = ''~/repos/gitlab/your-group-name'', gtg_Exclude = [], gtg_Strategy = ''reset''\<rparr>]\<rparr>)]\<rparr>"

definition nl :: string where "nl = [newline_char]"

definition quote :: "string \<Rightarrow> string" where "quote s = CHR 0x22 # s @ [CHR 0x22]"

definition target_text :: "git_target \<Rightarrow> string" where
  "target_text g =
     ''      - name: '' @ quote (gtg_Name g) @ nl @
     ''        visibility: '' @ gtg_Visibility g @ nl @
     ''        strategy: '' @ gtg_Strategy g @ nl @
     ''        clone_dir: '' @ quote (gtg_CloneDir g) @ nl"

definition provider_text :: "string \<Rightarrow> gzh_provider \<Rightarrow> string" where
  "provider_text name p =
     ''  '' @ name @ '':'' @ nl @
     ''    token: '' @ quote (gpv_Token p) @ nl @
     (if gpv_Orgs p \<noteq> [] then ''    orgs:'' @ nl @ concat (map target_text (gpv_Orgs p)) else []) @
     (if gpv_Groups p \<noteq> [] then
        ''    groups:'' @ nl @
        concat (map (\<lambda>g. target_text g @ ''        recursive: '' @ (if gtg_Recursive g then ''true'' else ''false'') @ nl) (gpv_Groups p))
      else [])"

definition config_text :: "gzh_config \<Rightarrow> string" where
  "config_text c =
     ''version: '' @ quote (gzc_Version c) @ nl @
     ''default_provider: '' @ gzc_DefaultProvider c @ nl @ nl @
     ''providers:'' @ nl @
     concat (map (\<lambda>(n, p). provider_text n p) (gzc_Providers c))"

definition write_file_content :: "host \<Rightarrow> string \<Rightarrow> string \<Rightarrow> fs_error + host" where
  "write_file_content h path content =
     (case os_mkdir_all h (path_dir path) of
        Inl e \<Rightarrow> Inl e
      | Inr h' \<Rightarrow> os_write_file h' path content)"

definition save_config_to_file :: "host \<Rightarrow> gzh_config \<Rightarrow> string \<Rightarrow> fs_error + host" where
  "save_config_to_file h c path = write_file_content h path (config_text c)"

definition create_default_gzh_config :: "host \<Rightarrow> string \<Rightarrow> fs_error + host" where
  "create_default_gzh_config h path = save_config_to_file h (apply_config_defaults default_gzh_config) path"

section \<open>Where repositories go\<close>

definition resolve_repository_path :: "bulk_target \<Rightarrow> string \<Rightarrow> string" where
  "resolve_repository_path t repo =
     (if btg_Flatten t then path_join [btg_CloneDir t, repo] else path_join [btg_CloneDir t, btg_Name t, repo])"

definition get_organization_path :: "bulk_target \<Rightarrow> string" where
  "get_organization_path t = (if btg_Flatten t then btg_CloneDir t else path_join [btg_CloneDir t, btg_Name t])"

record directory_structure =
  dst_BasePath :: string
  dst_OrganizationPath :: string
  dst_IsFlattened :: bool
  dst_Provider :: string
  dst_TargetName :: string

definition get_directory_structure :: "bulk_target \<Rightarrow> directory_structure" where
  "get_directory_structure t =
     \<lparr>dst_BasePath = btg_CloneDir t, dst_OrganizationPath = get_organization_path t, dst_IsFlattened = btg_Flatten t,
      dst_Provider = btg_Provider t, dst_TargetName = btg_Name t\<rparr>"

definition get_example_path :: "directory_structure \<Rightarrow> string \<Rightarrow> string" where
  "get_example_path d repo = path_join [dst_OrganizationPath d, repo]"

record repository_path =
  rpt_Repository :: service_repository
  rpt_FullPath :: string
  rpt_RelativePath :: string

definition get_relative_path :: "bulk_target \<Rightarrow> string \<Rightarrow> string" where
  "get_relative_path t repo = (if btg_Flatten t then repo else path_join [btg_Name t, repo])"

definition generate_repository_paths :: "bulk_target \<Rightarrow> service_repository list \<Rightarrow> repository_path list" where
  "generate_repository_paths t repos =
     map (\<lambda>r. \<lparr>rpt_Repository = r, rpt_FullPath = resolve_repository_path t (srp_Name r),
              rpt_RelativePath = get_relative_path t (srp_Name r)\<rparr>) repos"

definition get_parent_directory :: "repository_path \<Rightarrow> string" where
  "get_parent_directory p = path_dir (rpt_FullPath p)"

definition path_is_valid :: "repository_path \<Rightarrow> bool" where
  "path_is_valid p \<longleftrightarrow> rpt_FullPath p \<noteq> [] \<and> srp_Name (rpt_Repository p) \<noteq> []"

definition validate_structure :: "bulk_target \<Rightarrow> gzh_target_error option" where
  "validate_structure t =
     (if btg_CloneDir t = [] then Some ErrInvalidCloneDir
      else if btg_Name t = [] then Some ErrMissingName
      else if contains (btg_CloneDir t) ''..'' then Some ErrUnsafePath
      else None)"

record structure_issue =
  sis_Type :: string
  sis_Severity :: string
  sis_Description :: string
  sis_Path :: string

definition path_issues :: "(string, string) gomap \<Rightarrow> repository_path \<Rightarrow> structure_issue list \<times> (string, string) gomap" where
  "path_issues seen p =
     (let name = srp_Name (rpt_Repository p);
          (conflict, seen') =
            (case gm_get seen (rpt_FullPath p) of
               Some existing \<Rightarrow>
                 ([\<lparr>sis_Type = ''path_conflict'', sis_Severity = ''error'',
                    sis_Description = ''Path conflict between repositories: '' @ name @ '' and '' @ existing,
                    sis_Path = rpt_FullPath p\<rparr>], seen)
             | None \<Rightarrow> ([], gm_put (rpt_FullPath p) name seen));
          invalid =
            (if \<not> path_is_valid p then
               [\<lparr>sis_Type = ''invalid_path'', sis_Severity = ''error'',
                 sis_Description = ''Invalid repository path for: '' @ name, sis_Path = rpt_FullPath p\<rparr>]
             else [])
      in (conflict @ invalid, seen'))"

fun validate_paths_from :: "(string, string) gomap \<Rightarrow> repository_path list \<Rightarrow> structure_issue list" where
  "validate_paths_from seen [] = []"
| "validate_paths_from seen (p # ps) = (case path_issues seen p of (issues, seen') \<Rightarrow> issues @ validate_paths_from seen' ps)"

definition validate_repository_paths :: "repository_path list \<Rightarrow> structure_issue list" where
  "validate_repository_paths paths = validate_paths_from [] paths"

record structure_statistics =
  sst_TotalRepositories :: int
  sst_UniqueDirectories :: int

record structure_analysis =
  san_Structure :: directory_structure
  san_RepositoryPaths :: "repository_path list"
  san_Statistics :: structure_statistics
  san_StructureError :: "gzh_target_error option"
  san_PathIssues :: "structure_issue list"
  san_IsValid :: bool

definition calculate_structure_statistics :: "repository_path list \<Rightarrow> structure_statistics" where
  "calculate_structure_statistics paths =
     \<lparr>sst_TotalRepositories = int (length paths),
      sst_UniqueDirectories = int (length (foldl (\<lambda>m p. gm_put (get_parent_directory p) True m) [] paths))\<rparr>"

definition analyze_structure :: "bulk_target \<Rightarrow> service_repository list \<Rightarrow> structure_analysis" where
  "analyze_structure t repos =
     (let paths = generate_repository_paths t repos;
          err = validate_structure t;
          issues = validate_repository_paths paths
      in \<lparr>san_Structure = get_directory_structure t, san_RepositoryPaths = paths,
          san_Statistics = calculate_structure_statistics paths, san_StructureError = err,
          san_PathIssues = issues, san_IsValid = (err = None \<and> issues = [])\<rparr>)"

definition structure_summary :: "structure_analysis \<Rightarrow> string" where
  "structure_summary s =
     (if \<not> san_IsValid s then ''Invalid directory structure configuration''
      else (if dst_IsFlattened (san_Structure s) then ''Flattened structure: '' else ''Nested structure: '') @
        show_int (sst_TotalRepositories (san_Statistics s)) @ '' repositories in '' @
        show_int (sst_UniqueDirectories (san_Statistics s)) @ '' directories'')"

section \<open>Facts\<close>

lemma new_filter_Inr:
  assumes "new_repository_filter compile visibility pattern excludes = Inr f"
  shows "f = \<lparr>nfl_Visibility = normalize_visibility visibility, nfl_NamePattern = pattern, nfl_ExcludePatterns = excludes\<rparr> \<and>
    normalize_visibility visibility \<in> {''all'', ''public'', ''private''} \<and> (pattern = [] \<or> compile pattern \<noteq> None)"
  using assms by (auto simp: new_repository_filter_def new_visibility_filter_def normalize_visibility_def Let_def split: sum.splits if_splits)

text \<open>A filter that could be built decides as its parts say.\<close>

lemma filter_exact:
  assumes "new_repository_filter compile visibility pattern excludes = Inr f"
  shows "should_include_repository compile f r \<longleftrightarrow>
    (normalize_visibility visibility = ''public'' \<longrightarrow> \<not> vrp_IsPrivate r) \<and>
    (normalize_visibility visibility = ''private'' \<longrightarrow> vrp_IsPrivate r) \<and>
    (pattern = [] \<or> (\<exists>m. compile pattern = Some m \<and> m (vrp_Name r))) \<and>
    (\<forall>e\<in>set excludes. \<not> filter_matches_pattern compile (vrp_Name r) e)"
  using new_filter_Inr [OF assms]
  by (auto simp: should_include_repository_def visible_def list_ex_iff split: option.splits)

lemma filter_repository_list_eq:
  "filter_repository_list compile m repos = map (from_visibility \<circ> to_visibility) (filter (should_clone_repository compile m) repos)"
  unfolding filter_repository_list_def filter_visible_repositories_def should_clone_repository_def [abs_def]
  by (simp add: filter_map o_def)

text \<open>The repositories of the filtered list have lost what the filter does not look at.\<close>

lemma filtered_repository_forgets:
  assumes "r \<in> set (filter_repository_list compile m repos)"
  shows "srp_Description r = [] \<and> srp_DefaultBranch r = [] \<and> \<not> srp_Archived r \<and> srp_Language r = [] \<and> srp_Size r = 0"
  using assms by (auto simp: filter_repository_list_eq from_visibility_def)

lemma statistics_fold:
  "foldl (\<lambda>st r. if vrp_IsPrivate r then st\<lparr>vst_PrivateRepositories := vst_PrivateRepositories st + 1\<rparr>
                  else st\<lparr>vst_PublicRepositories := vst_PublicRepositories st + 1\<rparr>) st repos =
     st\<lparr>vst_PublicRepositories := vst_PublicRepositories st + int (length (filter (\<lambda>r. \<not> vrp_IsPrivate r) repos)),
        vst_PrivateRepositories := vst_PrivateRepositories st + int (length (filter vrp_IsPrivate repos))\<rparr>"
  by (induction repos arbitrary: st) simp_all

lemma statistics_add_up:
  "vst_TotalRepositories (calculate_visibility_statistics repos) =
     vst_PublicRepositories (calculate_visibility_statistics repos) + vst_PrivateRepositories (calculate_visibility_statistics repos)"
  using sum_length_filter_compl [of vrp_IsPrivate repos] by (simp add: calculate_visibility_statistics_def statistics_fold)

text \<open>Paths conflict exactly when two of them are the same.\<close>

lemma validate_paths_from_Nil:
  "validate_paths_from seen ps = [] \<longleftrightarrow>
     distinct (map rpt_FullPath ps) \<and> set (gm_keys seen) \<inter> rpt_FullPath ` set ps = {} \<and> (\<forall>p\<in>set ps. path_is_valid p)"
proof (induction ps arbitrary: seen)
  case (Cons p ps)
  show ?case
  proof (cases "gm_get seen (rpt_FullPath p)")
    case None
    then have "rpt_FullPath p \<notin> set (gm_keys seen)" by (simp add: gm.keys_get)
    then show ?thesis by (auto simp: path_issues_def Let_def Cons.IH None)
  next
    case (Some n)
    then have "rpt_FullPath p \<in> set (gm_keys seen)" by (simp add: gm.keys_get)
    then show ?thesis by (auto simp: path_issues_def Let_def Some)
  qed
qed simp

lemma analysis_valid_iff:
  "san_IsValid (analyze_structure t repos) \<longleftrightarrow>
     btg_CloneDir t \<noteq> [] \<and> btg_Name t \<noteq> [] \<and> \<not> contains (btg_CloneDir t) ''..'' \<and>
     distinct (map (\<lambda>r. resolve_repository_path t (srp_Name r)) repos) \<and> (\<forall>r\<in>set repos. srp_Name r \<noteq> [])"
proof -
  have ne: "resolve_repository_path t n \<noteq> []" if "btg_CloneDir t \<noteq> []" for n
    using that by (auto simp: resolve_repository_path_def path_join_def path_clean_def Let_def)
  then show ?thesis
    by (auto simp: analyze_structure_def Let_def validate_structure_def validate_repository_paths_def validate_paths_from_Nil
        generate_repository_paths_def path_is_valid_def o_def)
qed

text \<open>With \<open>clone_dir\<close> left out the directory of the owner appears twice in every path.\<close>

lemma expand_home: "expand_env h ''${HOME}'' = ho_env h ''HOME''"
  by (simp add: expand_env_def shell_name_def)

theorem default_directory_doubled:
  assumes "ho_env h ''HOME'' = rooted_path home" and "home \<noteq> []"
    and "list_all plain_element (home @ [provider, gtg_Name org, repo])"
    and "CHR ''$'' \<notin> set (rooted_path (home @ [''repos'', provider, gtg_Name org]))"
    and "gtg_CloneDir org = []" and "\<not> gtg_Flatten org"
  shows "resolve_repository_path (org_target h provider p org) repo =
    rooted_path (home @ [''repos'', provider, gtg_Name org, gtg_Name org, repo])"
proof -
  have pl: "list_all plain_element (home @ [''repos'', provider, gtg_Name org])"
    using assms(3) by (simp add: plain_element_def)
  have "rooted_path home \<noteq> ''${HOME}''" by (simp add: rooted_path_def)
  then have "resolve_clone_dir h [] provider (gtg_Name org) False = rooted_path (home @ [''repos'', provider, gtg_Name org])"
    using path_join_rooted [OF pl assms(2)] assms(4)
    by (simp add: resolve_clone_dir_def expand_home assms(1) Let_def) (simp add: expand_env_def os_expand_no_dollar)
  moreover have "path_join (rooted_path (home @ [''repos'', provider, gtg_Name org]) # [gtg_Name org, repo]) =
      rooted_path ((home @ [''repos'', provider, gtg_Name org]) @ [gtg_Name org, repo])"
    by (rule path_join_rooted) (use assms(3) in \<open>simp_all add: plain_element_def\<close>)
  ultimately show ?thesis using assms(5,6) by (simp add: resolve_repository_path_def org_target_def)
qed

text \<open>Of the defaults on a line only the first is applied.\<close>

lemma str_cut_first:
  assumes "hd sep \<notin> set before" and "sep \<noteq> []"
  shows "str_cut sep (before @ sep @ after) = Some (before, after)"
  using assms by (induction before) (auto simp: neq_Nil_conv)

theorem first_default_only:
  assumes "CHR ''$'' \<notin> set before" and "CHR ''}'' \<notin> set name \<union> set fallback" and "CHR '':'' \<notin> set name"
  shows "process_default_values env (before @ ''${'' @ name @ '':'' @ fallback @ ''}'' @ after) =
    before @ (if env name \<noteq> [] then env name else fallback) @ after"
proof -
  define expr where "expr = name @ '':'' @ fallback"
  define line where "line = before @ ''${'' @ expr @ ''}'' @ after"
  have s: "str_cut ''${'' line = Some (before, expr @ ''}'' @ after)"
    unfolding line_def by (rule str_cut_first) (use assms(1) in auto)
  have e: "str_cut ''}'' (expr @ ''}'' @ after) = Some (expr, after)"
    by (rule str_cut_first) (use assms(2) in \<open>auto simp: expr_def\<close>)
  have n: "str_cut '':'' expr = Some (name, fallback)"
    unfolding expr_def by (rule str_cut_first) (use assms(3) in auto)
  have r: "str_cut (''${'' @ expr @ ''}'') line = Some (before, after)"
    using str_cut_first [of "''${'' @ expr @ ''}''" before after] assms(1) by (simp add: line_def)
  have "process_default_values env line = before @ (if env name \<noteq> [] then env name else fallback) @ after"
    by (simp only: process_default_values_def replace_first_def s e n r option.case prod.case)
  then show ?thesis by (simp add: line_def expr_def)
qed

lemma second_default_lost:
  "expand_env (h\<lparr>ho_env := \<lambda>_. []\<rparr>) (preprocess_env_vars (\<lambda>_. []) ''a: ${A:1} ${B:2}'') = ''a: 1 ''"
  unfolding expand_env_def by simp code_simp

end
