(* ===== verification/UnifiedTypes.thy ===== *)
theory UnifiedTypes
  imports GoValue
begin

text \<open>
  The unified configuration: the structs of \<open>pkg/config/unified_schema.go\<close>, the configuration
  that \<open>DefaultUnifiedConfig\<close> returns and the aliases of a provider's organisations. Struct tags for YAML
  and JSON are left out; the tags that ask the validator library for something are in the theory
  of the start-up validation. Slices of pointers hold no nil.
\<close>

section \<open>Structs\<close>

record timeout_settings =
  ts_HTTPTimeout :: int
  ts_GitTimeout :: int
  ts_RateLimitTimeout :: int

record concurrency_settings =
  cs2_CloneWorkers :: int
  cs2_UpdateWorkers :: int
  cs2_APIWorkers :: int

record global_settings =
  gs_CloneBaseDir :: string
  gs_DefaultStrategy :: string
  gs_GlobalIgnores :: "string list"
  gs_DefaultVisibility :: string
  gs_Timeouts :: "timeout_settings option"
  gs_Concurrency :: "concurrency_settings option"

record branch_protection_config =
  bpc_Enabled :: bool
  bpc_Branches :: "string list"
  bpc_RequireStatusChecks :: bool
  bpc_RequirePRReviews :: bool

record security_config =
  sc2_VulnerabilityAlerts :: bool
  sc2_AutomatedSecurityFixes :: bool
  sc2_RequiredPolicies :: "string list"

record repo_management_config =
  rmc_Enabled :: bool
  rmc_Templates :: "string list"
  rmc_BranchProtection :: "branch_protection_config option"
  rmc_Security :: "security_config option"

record organization_config =
  oc_Name :: string
  oc_CloneDir :: string
  oc_Visibility :: string
  oc_Strategy :: string
  oc_Include :: string
  oc_Exclude :: "string list"
  oc_Flatten :: bool
  oc_Recursive :: bool
  oc_RepoManagement :: "repo_management_config option"
  oc_Labels :: "(string, string) gomap"

record provider_rate_limit =
  prl_RequestsPerHour :: int
  prl_BurstLimit :: int
  prl_AutoDetect :: bool

record retry_config =
  rc2_MaxAttempts :: int
  rc2_BaseDelay :: int
  rc2_MaxDelay :: int
  rc2_ExponentialBackoff :: bool

record auth_config =
  ac2_TokenEnvVar :: string
  ac2_SSHKeyPath :: string
  ac2_UseSSH :: bool

record provider_settings =
  ps2_RateLimit :: "provider_rate_limit option"
  ps2_Retry :: "retry_config option"
  ps2_Auth :: "auth_config option"

record legacy_provider_config =
  lpc_RootPath :: string
  lpc_Protocol :: string
  lpc_OrgName :: string
  lpc_GroupName :: string
  lpc_URL :: string

record provider_config =
  pc3_Token :: string
  pc3_APIURL :: string
  pc3_Organizations :: "organization_config option list"
  pc3_OrgsAlias :: "organization_config option list"
  pc3_GroupsAlias :: "organization_config option list"
  pc3_Settings :: "provider_settings option"
  pc3_Legacy :: "legacy_provider_config option"

record migration_info =
  mi_SourceFormat :: string
  mi_MigrationDate :: int
  mi_SourcePath :: string
  mi_ToolVersion :: string

record ide_sync_settings =
  idess_Enabled :: bool
  idess_Interval :: int
  idess_SyncTypes :: "string list"
  idess_BackupBeforeSync :: bool

record log_rotation_config =
  lrc_MaxSizeMB :: int
  lrc_MaxBackups :: int
  lrc_MaxAgeDays :: int
  lrc_Compress :: bool

record ide_logging_config =
  idelc_Level :: string
  idelc_FilePath :: string
  idelc_Console :: bool
  idelc_Rotation :: "log_rotation_config option"

record ide_config =
  idec_Enabled :: bool
  idec_WatchDirectories :: "string list"
  idec_ExcludePatterns :: "string list"
  idec_JetBrainsProducts :: "string list"
  idec_AutoFixSync :: bool
  idec_SyncSettings :: "ide_sync_settings option"
  idec_Logging :: "ide_logging_config option"

record aws_config =
  awsc_DefaultProfile :: string
  awsc_PreferredRegions :: "string list"
  awsc_CredentialsFile :: string
  awsc_ConfigFile :: string
  awsc_EnableMFA :: bool

record gcp_config =
  gcpc_DefaultProject :: string
  gcpc_ServiceAccountKey :: string
  gcpc_PreferredRegions :: "string list"
  gcpc_UseADC :: bool

record azure_config =
  ac3_DefaultSubscription :: string
  ac3_DefaultTenant :: string
  ac3_PreferredRegions :: "string list"
  ac3_UseManagedIdentity :: bool

record dev_env_providers =
  dep_AWS :: "aws_config option"
  dep_GCP :: "gcp_config option"
  dep_Azure :: "azure_config option"

record registry_auth_config =
  rac_Username :: string
  rac_Password :: string
  rac_Email :: string
  rac_Auth :: string

record docker_build_options =
  dbo_DefaultContext :: string
  dbo_BuildArgs :: "(string, string) gomap"
  dbo_Target :: string
  dbo_EnableBuildKit :: bool

record docker_config =
  dc2_SocketPath :: string
  dc2_DefaultRegistry :: string
  dc2_RegistryAuth :: "(string, registry_auth_config option) gomap"
  dc2_BuildOptions :: "docker_build_options option"

record podman_remote_config =
  prc2_Host :: string
  prc2_Identity :: string
  prc2_Port :: int
  prc2_UseSSH :: bool

record podman_config =
  pc4_SocketPath :: string
  pc4_RemoteConnections :: "(string, podman_remote_config option) gomap"
  pc4_DefaultConnection :: string

record container_config =
  cc2_Docker :: "docker_config option"
  cc2_Podman :: "podman_config option"
  cc2_DefaultRuntime :: string

record k8s_cluster_config =
  kcc_Server :: string
  kcc_CertificateAuthority :: string
  kcc_InsecureSkipTLSVerify :: bool
  kcc_AuthMethod :: string
  kcc_AuthConfig :: "(string, go_any) gomap"

record kubernetes_config =
  kc_DefaultContext :: string
  kc_KubeconfigPath :: string
  kc_Clusters :: "(string, k8s_cluster_config option) gomap"
  kc_DefaultNamespace :: string
  kc_AutoDiscovery :: bool

record backup_encryption =
  be_Enabled :: bool
  be_Method :: string
  be_KeyPath :: string
  be_GPGRecipient :: string

record backup_config =
  bc2_Enabled :: bool
  bc2_Interval :: int
  bc2_RetentionPeriod :: int
  bc2_Compression :: string
  bc2_Destinations :: "string list"
  bc2_Encryption :: "backup_encryption option"

record dev_env_config =
  dec_Enabled :: bool
  dec_BackupLocation :: string
  dec_AutoBackup :: bool
  dec_Providers :: "dev_env_providers option"
  dec_Containers :: "container_config option"
  dec_Kubernetes :: "kubernetes_config option"
  dec_Backup :: "backup_config option"

record network_profile =
  np_SSID :: string
  np_Type :: string
  np_VPNConfig :: string
  np_DNSServers :: "string list"
  np_ProxyConfig :: string
  np_OnConnect :: "string list"
  np_OnDisconnect :: "string list"

record wi_fi_monitoring_config =
  wfmc_Enabled :: bool
  wfmc_Interval :: int
  wfmc_KnownNetworks :: "(string, network_profile option) gomap"
  wfmc_DefaultActions :: "string list"

record vpn_profile =
  vpnp_Type :: string
  vpnp_ConfigFile :: string
  vpnp_ConnectCommand :: string
  vpnp_DisconnectCommand :: string
  vpnp_StatusCommand :: string
  vpnp_AutoConnectNetworks :: "string list"

record vpn_auto_connect =
  vpnac_Enabled :: bool
  vpnac_OnUntrustedNetworks :: bool
  vpnac_TrustedNetworks :: "string list"
  vpnac_RetryAttempts :: int
  vpnac_RetryDelay :: int

record vpn_config =
  vpnc2_Profiles :: "(string, vpn_profile option) gomap"
  vpnc2_DefaultProfile :: string
  vpnc2_AutoConnect :: "vpn_auto_connect option"

record dns_profile =
  dnsp_Servers :: "string list"
  dnsp_SearchDomains :: "string list"
  dnsp_EnableIPv6 :: bool
  dnsp_Timeout :: int

record dns_config =
  dnsc_DefaultServers :: "string list"
  dnsc_Profiles :: "(string, dns_profile option) gomap"
  dnsc_EnableDoH :: bool
  dnsc_DoHProvider :: string
  dnsc_CustomMappings :: "(string, string) gomap"

record proxy_profile =
  pp_Type :: string
  pp_Host :: string
  pp_Port :: int
  pp_Username :: string
  pp_Password :: string
  pp_NoProxy :: "string list"
  pp_HTTPSProxy :: bool

record proxy_config =
  pc5_Profiles :: "(string, proxy_profile option) gomap"
  pc5_DefaultProfile :: string
  pc5_AutoConfigure :: bool
  pc5_PACUrl :: string

record action_retry_config =
  arc_MaxAttempts :: int
  arc_Delay :: int
  arc_BackoffMultiplier :: float64

record custom_action =
  ca_Name :: string
  ca_Description :: string
  ca_Command :: string
  ca_WorkingDir :: string
  ca_Environment :: "(string, string) gomap"
  ca_Timeout :: int
  ca_RunAsUser :: string
  ca_Retry :: "action_retry_config option"

record network_actions =
  na_OnNetworkChange :: "string list"
  na_OnWiFiConnect :: "string list"
  na_OnWiFiDisconnect :: "string list"
  na_OnVPNConnect :: "string list"
  na_OnVPNDisconnect :: "string list"
  na_CustomActions :: "(string, custom_action option) gomap"

record daemon_config =
  dc3_Enabled :: bool
  dc3_PIDFile :: string
  dc3_LogFile :: string
  dc3_LogLevel :: string
  dc3_User :: string
  dc3_Group :: string
  dc3_WorkingDir :: string
  dc3_SystemdIntegration :: bool

record net_env_config =
  nec_Enabled :: bool
  nec_WiFiMonitoring :: "wi_fi_monitoring_config option"
  nec_VPN :: "vpn_config option"
  nec_DNS :: "dns_config option"
  nec_Proxy :: "proxy_config option"
  nec_Actions :: "network_actions option"
  nec_Daemon :: "daemon_config option"

record ssh_provider_config =
  sshpc_Hostname :: string
  sshpc_User :: string
  sshpc_Port :: int
  sshpc_IdentityFile :: string
  sshpc_HostAlias :: string
  sshpc_Options :: "(string, string) gomap"

record ssh_key_management =
  sshkm_Enabled :: bool
  sshkm_KeyDir :: string
  sshkm_DefaultKeyType :: string
  sshkm_DefaultKeySize :: int
  sshkm_UseSSHAgent :: bool
  sshkm_SSHAgentSocket :: string

record ssh_host_alias =
  sshha_RealHostname :: string
  sshha_User :: string
  sshha_Port :: int
  sshha_IdentityFile :: string
  sshha_Options :: "(string, string) gomap"

record ssh_config_settings =
  sshcs_Enabled :: bool
  sshcs_ConfigFile :: string
  sshcs_BackupEnabled :: bool
  sshcs_BackupDir :: string
  sshcs_ProviderConfigs :: "(string, ssh_provider_config option) gomap"
  sshcs_KeyManagement :: "ssh_key_management option"
  sshcs_HostAliases :: "(string, ssh_host_alias option) gomap"

record unified_config =
  uc_Version :: string
  uc_DefaultProvider :: string
  uc_Global :: "global_settings option"
  uc_Providers :: "(string, provider_config option) gomap"
  uc_Migration :: "migration_info option"
  uc_IDE :: "ide_config option"
  uc_DevEnv :: "dev_env_config option"
  uc_NetEnv :: "net_env_config option"
  uc_SSHConfig :: "ssh_config_settings option"

section \<open>The default configuration\<close>

definition default_global :: global_settings where
  "default_global =
     \<lparr>gs_CloneBaseDir = ''$HOME/repos'', gs_DefaultStrategy = ''reset'', gs_GlobalIgnores = [],
      gs_DefaultVisibility = ''all'',
      gs_Timeouts =
       Some \<lparr>ts_HTTPTimeout = 30 * 10 ^ 9, ts_GitTimeout = 5 * (60 * 10 ^ 9),
             ts_RateLimitTimeout = 1 * (3600 * 10 ^ 9)\<rparr>,
      gs_Concurrency =
       Some \<lparr>cs2_CloneWorkers = 10, cs2_UpdateWorkers = 15, cs2_APIWorkers = 5\<rparr>\<rparr>"

definition default_ide :: ide_config where
  "default_ide =
     \<lparr>idec_Enabled = True, idec_WatchDirectories = [''$HOME/.config'', ''$HOME/.local/share/JetBrains''],
      idec_ExcludePatterns = [[CHR 0x5C] @ ''.git/.*'', ''node_modules/.*'', [CHR 0x5C] @ ''.DS_Store''],
      idec_JetBrainsProducts = [''IntelliJ'', ''PyCharm'', ''GoLand'', ''WebStorm''],
      idec_AutoFixSync = True,
      idec_SyncSettings =
       Some \<lparr>idess_Enabled = True, idess_Interval = 5 * (60 * 10 ^ 9),
             idess_SyncTypes = [''keymap'', ''editor'', ''ui'', ''plugins''],
             idess_BackupBeforeSync = True\<rparr>,
      idec_Logging =
       Some \<lparr>idelc_Level = ''info'', idelc_FilePath = ''$HOME/.local/share/gzh-manager/logs/ide.log'',
             idelc_Console = True,
             idelc_Rotation =
              Some \<lparr>lrc_MaxSizeMB = 10, lrc_MaxBackups = 5, lrc_MaxAgeDays = 30, lrc_Compress = True\<rparr>\<rparr>\<rparr>"

definition default_dev_env :: dev_env_config where
  "default_dev_env =
     \<lparr>dec_Enabled = True, dec_BackupLocation = ''$HOME/.gz/backups'', dec_AutoBackup = True,
      dec_Providers =
       Some \<lparr>dep_AWS =
              Some \<lparr>awsc_DefaultProfile = ''default'', awsc_PreferredRegions = [''us-west-2'', ''us-east-1''],
                    awsc_CredentialsFile = ''$HOME/.aws/credentials'',
                    awsc_ConfigFile = ''$HOME/.aws/config'', awsc_EnableMFA = False\<rparr>,
             dep_GCP =
              Some \<lparr>gcpc_DefaultProject = [], gcpc_ServiceAccountKey = [],
                    gcpc_PreferredRegions = [''us-central1'', ''us-west1''], gcpc_UseADC = True\<rparr>,
             dep_Azure =
              Some \<lparr>ac3_DefaultSubscription = [], ac3_DefaultTenant = [],
                    ac3_PreferredRegions = [''westus2'', ''eastus''], ac3_UseManagedIdentity = False\<rparr>\<rparr>,
      dec_Containers =
       Some \<lparr>cc2_Docker =
              Some \<lparr>dc2_SocketPath = ''/var/run/docker.sock'', dc2_DefaultRegistry = ''docker.io'',
                    dc2_RegistryAuth = [],
                    dc2_BuildOptions =
                     Some \<lparr>dbo_DefaultContext = ''.'', dbo_BuildArgs = [], dbo_Target = [], dbo_EnableBuildKit = True\<rparr>\<rparr>,
             cc2_Podman = None, cc2_DefaultRuntime = ''docker''\<rparr>,
      dec_Kubernetes =
       Some \<lparr>kc_DefaultContext = [], kc_KubeconfigPath = ''$HOME/.kube/config'', kc_Clusters = [],
             kc_DefaultNamespace = ''default'', kc_AutoDiscovery = True\<rparr>,
      dec_Backup =
       Some \<lparr>bc2_Enabled = False, bc2_Interval = 24 * (3600 * 10 ^ 9),
             bc2_RetentionPeriod = 30 * 24 * (3600 * 10 ^ 9), bc2_Compression = ''gzip'',
             bc2_Destinations = [],
             bc2_Encryption =
              Some \<lparr>be_Enabled = False, be_Method = ''aes256'', be_KeyPath = [], be_GPGRecipient = []\<rparr>\<rparr>\<rparr>"

definition default_net_env :: net_env_config where
  "default_net_env =
     \<lparr>nec_Enabled = True,
      nec_WiFiMonitoring =
       Some \<lparr>wfmc_Enabled = True, wfmc_Interval = 5 * 10 ^ 9, wfmc_KnownNetworks = [],
             wfmc_DefaultActions = []\<rparr>,
      nec_VPN =
       Some \<lparr>vpnc2_Profiles = [], vpnc2_DefaultProfile = [],
             vpnc2_AutoConnect =
              Some \<lparr>vpnac_Enabled = True, vpnac_OnUntrustedNetworks = True, vpnac_TrustedNetworks = [],
                    vpnac_RetryAttempts = 3, vpnac_RetryDelay = 5 * 10 ^ 9\<rparr>\<rparr>,
      nec_DNS =
       Some \<lparr>dnsc_DefaultServers = [''1.1.1.1'', ''1.0.0.1''], dnsc_Profiles = [], dnsc_EnableDoH = False,
             dnsc_DoHProvider = ''cloudflare'', dnsc_CustomMappings = []\<rparr>,
      nec_Proxy =
       Some \<lparr>pc5_Profiles = [], pc5_DefaultProfile = [], pc5_AutoConfigure = False, pc5_PACUrl = []\<rparr>,
      nec_Actions =
       Some \<lparr>na_OnNetworkChange = [''update-dns'', ''check-vpn''], na_OnWiFiConnect = [''sync-time''],
             na_OnWiFiDisconnect = [''pause-sync''], na_OnVPNConnect = [], na_OnVPNDisconnect = [],
             na_CustomActions = []\<rparr>,
      nec_Daemon =
       Some \<lparr>dc3_Enabled = False, dc3_PIDFile = ''/var/run/gzh-manager-netenv.pid'',
             dc3_LogFile = ''/var/log/gzh-manager-netenv.log'', dc3_LogLevel = ''info'', dc3_User = [],
             dc3_Group = [], dc3_WorkingDir = ''/'', dc3_SystemdIntegration = True\<rparr>\<rparr>"

definition default_ssh_config :: ssh_config_settings where
  "default_ssh_config =
     \<lparr>sshcs_Enabled = True, sshcs_ConfigFile = ''$HOME/.ssh/config'', sshcs_BackupEnabled = True,
      sshcs_BackupDir = ''$HOME/.ssh/backups'', sshcs_ProviderConfigs = [],
      sshcs_KeyManagement =
       Some \<lparr>sshkm_Enabled = True, sshkm_KeyDir = ''$HOME/.ssh'', sshkm_DefaultKeyType = ''ed25519'',
             sshkm_DefaultKeySize = 0, sshkm_UseSSHAgent = True, sshkm_SSHAgentSocket = []\<rparr>,
      sshcs_HostAliases = []\<rparr>"

definition default_unified_config :: unified_config where
  "default_unified_config =
     \<lparr>uc_Version = ''1.0.0'', uc_DefaultProvider = ''github'',
      uc_Global = Some default_global,
      uc_Providers = [], uc_Migration = None,
      uc_IDE = Some default_ide, uc_DevEnv = Some default_dev_env, uc_NetEnv = Some default_net_env, uc_SSHConfig = Some default_ssh_config\<rparr>"

definition supported_providers :: "string list" where
  "supported_providers = [''github'', ''gitlab'', ''gitea'', ''gogs'']"

definition validate_provider_name :: "string \<Rightarrow> bool" where
  "validate_provider_name name \<longleftrightarrow> name \<in> set supported_providers"

section \<open>Aliases\<close>

definition normalize_provider_aliases :: "provider_config \<Rightarrow> provider_config" where
  "normalize_provider_aliases p =
     (if pc3_Organizations p \<noteq> [] then p
      else if pc3_OrgsAlias p \<noteq> [] then p\<lparr>pc3_Organizations := pc3_OrgsAlias p\<rparr>
      else if pc3_GroupsAlias p \<noteq> [] then p\<lparr>pc3_Organizations := pc3_GroupsAlias p\<rparr>
      else p)\<lparr>pc3_OrgsAlias := [], pc3_GroupsAlias := []\<rparr>"

definition normalize_organization_aliases :: "unified_config \<Rightarrow> unified_config" where
  "normalize_organization_aliases c =
     c\<lparr>uc_Providers := map (\<lambda>(n, p). (n, map_option normalize_provider_aliases p)) (uc_Providers c)\<rparr>"

lemma normalize_aliases_idem [simp]: "normalize_provider_aliases (normalize_provider_aliases p) = normalize_provider_aliases p"
  by (simp add: normalize_provider_aliases_def)

lemma normalized_organizations:
  "pc3_Organizations (normalize_provider_aliases p) =
     (if pc3_Organizations p \<noteq> [] then pc3_Organizations p
      else if pc3_OrgsAlias p \<noteq> [] then pc3_OrgsAlias p else pc3_GroupsAlias p)"
  by (simp add: normalize_provider_aliases_def)

lemma normalized_others [simp]:
  "pc3_Token (normalize_provider_aliases p) = pc3_Token p" "pc3_APIURL (normalize_provider_aliases p) = pc3_APIURL p"
  "pc3_OrgsAlias (normalize_provider_aliases p) = []" "pc3_GroupsAlias (normalize_provider_aliases p) = []"
  by (simp_all add: normalize_provider_aliases_def)

end
