(* ===== verification/UnifiedLoader.thy ===== *)
theory UnifiedLoader
  imports LegacyClone CloneTargets UnifiedTypes
begin

text \<open>
  Loading the unified configuration, \<open>pkg/config/unified_loader.go\<close>, and the migration of the older
  format, \<open>migration.go\<close> and \<open>utils.go\<close>. YAML, the validator library, regular expressions and
  the clock are parameters; dereferencing nil ends in \<open>Crashed\<close> or \<open>Panicked\<close>.
\<close>

record config_tools =
  ct_yaml :: "string \<Rightarrow> string + unified_config"
  ct_marshal :: "unified_config \<Rightarrow> string + string"
  ct_legacy_yaml :: legacy_yaml
  ct_validator :: legacy_validator
  ct_compile :: pattern_compiler
  ct_error :: "fs_error \<Rightarrow> string"
  ct_now :: int
  ct_stamp :: string
  ct_date :: string

section \<open>Validation\<close>

datatype unified_problem =
    VersionRequired
  | UnsupportedVersion string
  | NoProviders
  | ProviderInvalid string unified_problem
  | TokenRequired string
  | NoOrganizations string
  | OrganizationInvalid string unified_problem
  | OrgNameRequired
  | CloneDirRequired string
  | InvalidOrgVisibility string string
  | InvalidOrgStrategy string string
  | InvalidInclude string
  | InvalidExcludePattern string string

datatype verdict = Accepted | Rejected unified_problem | Panicked

fun wrap_verdict :: "(unified_problem \<Rightarrow> unified_problem) \<Rightarrow> verdict \<Rightarrow> verdict" where
  "wrap_verdict f (Rejected e) = Rejected (f e)"
| "wrap_verdict f Accepted = Accepted"
| "wrap_verdict f Panicked = Panicked"

fun first_verdict :: "('a \<Rightarrow> verdict) \<Rightarrow> 'a list \<Rightarrow> verdict" where
  "first_verdict check [] = Accepted"
| "first_verdict check (x # xs) = (case check x of Accepted \<Rightarrow> first_verdict check xs | v \<Rightarrow> v)"

definition is_valid_target_visibility :: "string \<Rightarrow> bool" where
  "is_valid_target_visibility v \<longleftrightarrow> v \<in> {''public'', ''private'', ''all''}"

definition is_valid_strategy :: "string \<Rightarrow> bool" where
  "is_valid_strategy s \<longleftrightarrow> s \<in> {''reset'', ''pull'', ''fetch''}"

fun validate_organization :: "pattern_compiler \<Rightarrow> organization_config option \<Rightarrow> verdict" where
  "validate_organization compile None = Panicked"
| "validate_organization compile (Some org) =
     (if oc_Name org = [] then Rejected OrgNameRequired
      else if oc_CloneDir org = [] then Rejected (CloneDirRequired (oc_Name org))
      else if oc_Visibility org \<noteq> [] \<and> \<not> is_valid_target_visibility (oc_Visibility org)
      then Rejected (InvalidOrgVisibility (oc_Visibility org) (oc_Name org))
      else if oc_Strategy org \<noteq> [] \<and> \<not> is_valid_strategy (oc_Strategy org)
      then Rejected (InvalidOrgStrategy (oc_Strategy org) (oc_Name org))
      else if oc_Include org \<noteq> [] \<and> compile (oc_Include org) = None then Rejected (InvalidInclude (oc_Name org))
      else first_verdict (\<lambda>p. if compile p = None then Rejected (InvalidExcludePattern p (oc_Name org)) else Accepted) (oc_Exclude org))"

fun validate_unified_provider :: "pattern_compiler \<Rightarrow> string \<Rightarrow> provider_config option \<Rightarrow> verdict" where
  "validate_unified_provider compile name None = Panicked"
| "validate_unified_provider compile name (Some p) =
     (if pc3_Token p = [] then Rejected (TokenRequired name)
      else if pc3_Organizations p = [] then Rejected (NoOrganizations name)
      else first_verdict
        (\<lambda>org. wrap_verdict (OrganizationInvalid (case org of None \<Rightarrow> [] | Some g \<Rightarrow> oc_Name g)) (validate_organization compile org))
        (pc3_Organizations p))"

definition validate_unified_config :: "pattern_compiler \<Rightarrow> unified_config \<Rightarrow> verdict" where
  "validate_unified_config compile c =
     (if uc_Version c = [] then Rejected VersionRequired
      else if uc_Version c \<noteq> ''1.0.0'' then Rejected (UnsupportedVersion (uc_Version c))
      else if uc_Providers c = [] then Rejected NoProviders
      else first_verdict (\<lambda>(n, p). wrap_verdict (ProviderInvalid n) (validate_unified_provider compile n p)) (uc_Providers c))"

section \<open>Migration of the older format\<close>

record config_migration =
  mgr_Success :: bool
  mgr_SourcePath :: string
  mgr_TargetPath :: string
  mgr_BackupPath :: string
  mgr_MigratedTargets :: int
  mgr_Warnings :: "string list"
  mgr_RequiredActions :: "string list"
  mgr_UnifiedConfig :: "unified_config option"
  mgr_LegacyConfig :: "legacy_config option"
  mgr_MigrationReport :: string

record migrator =
  mig_SourcePath :: string
  mig_TargetPath :: string
  mig_CreateBackup :: bool
  mig_DryRun :: bool

definition new_migrator :: "string \<Rightarrow> string \<Rightarrow> migrator" where
  "new_migrator source target = \<lparr>mig_SourcePath = source, mig_TargetPath = target, mig_CreateBackup = True, mig_DryRun = False\<rparr>"

definition migrated_org :: "legacy_config \<Rightarrow> string \<Rightarrow> string \<Rightarrow> bool \<Rightarrow> organization_config" where
  "migrated_org legacy name dir rec =
     \<lparr>oc_Name = name, oc_CloneDir = dir, oc_Visibility = ''all'', oc_Strategy = ''reset'', oc_Include = [],
      oc_Exclude = lgc_IgnoreNameRegexes legacy, oc_Flatten = False, oc_Recursive = rec,
      oc_RepoManagement = None, oc_Labels = []\<rparr>"

definition migrated_provider :: "string \<Rightarrow> string \<Rightarrow> organization_config list \<Rightarrow> provider_config" where
  "migrated_provider token url orgs =
     \<lparr>pc3_Token = token, pc3_APIURL = url, pc3_Organizations = map Some orgs, pc3_OrgsAlias = [], pc3_GroupsAlias = [],
      pc3_Settings = None, pc3_Legacy = None\<rparr>"

definition github_roots :: "legacy_config \<Rightarrow> clone_github list" where
  "github_roots legacy = filter (\<lambda>r. cgh_Provider r = ''github'') (lgc_RepoRoots legacy)"

definition has_organization :: "organization_config list \<Rightarrow> string \<Rightarrow> bool" where
  "has_organization orgs name \<longleftrightarrow> list_ex (\<lambda>o'. oc_Name o' = name) orgs"

text \<open>The organisations of GitHub and what the user is asked to do.\<close>

definition convert_github :: "legacy_config \<Rightarrow> organization_config list \<times> string list" where
  "convert_github legacy =
     (let d = cdf_Github (lgc_Default legacy);
          roots = map (\<lambda>r. migrated_org legacy (cgh_OrgName r) (cgh_RootPath r) False) (github_roots legacy);
          ssh = map (\<lambda>r. ''Organization '' @ cgh_OrgName r @ '' used SSH protocol - configure SSH keys or use tokens'')
                  (filter (\<lambda>r. cgh_Protocol r = ''ssh'') (github_roots legacy));
          orgs = roots @
            (if cdh_OrgName d \<noteq> [] \<and> \<not> has_organization roots (cdh_OrgName d)
             then [migrated_org legacy (cdh_OrgName d) (cdh_RootPath d) False] else [])
      in if orgs = [] \<and> cdh_RootPath d \<noteq> [] then
           ([migrated_org legacy ''your-org-name'' (cdh_RootPath d) False],
            ssh @ [''Update organization name in GitHub configuration''])
         else (orgs, ssh))"

definition convert_gitlab :: "legacy_config \<Rightarrow> provider_config option \<times> string list \<times> string list" where
  "convert_gitlab legacy =
     (let l = cdf_Gitlab (lgc_Default legacy)
      in if cdl_RootPath l = [] then (None, [], [])
         else
           let custom = (cdl_URL l \<noteq> [] \<and> cdl_URL l \<noteq> ''https://gitlab.com'');
               org = migrated_org legacy (if cdl_GroupName l = [] then ''your-group-name'' else cdl_GroupName l)
                       (cdl_RootPath l) (cdl_Recursive l)
           in (Some (migrated_provider ''${GITLAB_TOKEN}'' (if custom then cdl_URL l else []) [org]),
               (if custom then [''Custom GitLab URL configured: '' @ cdl_URL l] else []),
               (if cdl_GroupName l = [] then [''Update group name in GitLab configuration''] else [])))"

definition convert_bulk_clone ::
  "int \<Rightarrow> string \<Rightarrow> legacy_config \<Rightarrow> unified_config \<times> string list \<times> string list" where
  "convert_bulk_clone now source legacy =
     (let d = lgc_Default legacy;
          (orgs, github_actions) = convert_github legacy;
          (gitlab, gitlab_warnings, gitlab_actions) = convert_gitlab legacy;
          ignores = lgc_IgnoreNameRegexes legacy;
          providers =
            (if orgs \<noteq> [] then [(''github'', Some (migrated_provider ''${GITHUB_TOKEN}'' [] orgs))] else []) @
            (case gitlab of None \<Rightarrow> [] | Some p \<Rightarrow> [(''gitlab'', Some p)]);
          config = default_unified_config
            \<lparr>uc_Migration := Some \<lparr>mi_SourceFormat = ''bulk-clone.yaml'', mi_MigrationDate = now, mi_SourcePath = source,
                               mi_ToolVersion = ''gzh-cli''\<rparr>,
             uc_DefaultProvider :=
               (if cdh_RootPath (cdf_Github d) \<noteq> [] \<or> lgc_RepoRoots legacy \<noteq> [] then ''github''
                else if cdl_RootPath (cdf_Gitlab d) \<noteq> [] then ''gitlab'' else uc_DefaultProvider default_unified_config),
             uc_Global := Some (if ignores \<noteq> [] then default_global\<lparr>gs_GlobalIgnores := ignores\<rparr> else default_global),
             uc_Providers := providers\<rparr>;
          warnings =
            (if lgc_Version legacy \<noteq> [] \<and> lgc_Version legacy \<noteq> ''0.1''
             then [''Legacy version '' @ lgc_Version legacy @ '' converted to 1.0.0''] else []) @ gitlab_warnings;
          actions =
            (if ignores \<noteq> [] then [''Global ignore patterns moved to per-organization exclude patterns''] else []) @
            github_actions @ gitlab_actions @
            (if orgs \<noteq> [] then [''Set GITHUB_TOKEN environment variable or update token field''] else []) @
            (if gitlab \<noteq> None then [''Set GITLAB_TOKEN environment variable or update token field''] else [])
      in (config, warnings, actions))"

definition count_targets :: "unified_config \<Rightarrow> int" where
  "count_targets c = (\<Sum>(n, p)\<leftarrow>uc_Providers c. case p of None \<Rightarrow> 0 | Some q \<Rightarrow> int (length (pc3_Organizations q)))"

text \<open>\<open>os.Open\<close>, \<open>os.Create\<close> and \<open>io.Copy\<close> of a file that could just be read.\<close>

definition copy_file :: "host \<Rightarrow> string \<Rightarrow> string \<Rightarrow> fs_error + host" where
  "copy_file h src dst = (case os_read_file h src of Inl e \<Rightarrow> Inl e | Inr c \<Rightarrow> os_write_file h dst c)"

datatype loader_error =
    NoConfiguration "string list"
  | ConfigFileNotFound string
  | DetectFailed loader_error
  | FormatUnreadable fs_error
  | ConfigUnreadable fs_error
  | UnifiedUnmarshal string
  | ConfigurationInvalid unified_problem
  | LegacyLoadFailed legacy_error
  | TargetDirectoryFailed fs_error
  | MarshalFailed string
  | ConfigWriteFailed fs_error
  | SaveFailed loader_error
  | AutoMigrationFailed loader_error
  | LoadFailed loader_error
  | EnvPathNotFound string
  | ConfigNotLoaded

definition saved_text :: "config_tools \<Rightarrow> migrator \<Rightarrow> string \<Rightarrow> string" where
  "saved_text tools m data =
     ''# gzh-manager unified configuration'' @ nl @
     ''# Generated by migration from: '' @ mig_SourcePath m @ nl @
     ''# Migration date: '' @ ct_date tools @ nl @
     ''# This file replaces the legacy bulk-clone.yaml format'' @ nl @
     ''# See https://github.com/gizzahub/gzh-cli/docs/configuration.md for documentation'' @ nl @ nl @ data"

definition save_unified_config :: "config_tools \<Rightarrow> migrator \<Rightarrow> host \<Rightarrow> unified_config \<Rightarrow> host \<times> loader_error option" where
  "save_unified_config tools m h c =
     (case os_mkdir_all h (path_dir (mig_TargetPath m)) of
        Inl e \<Rightarrow> (h, Some (TargetDirectoryFailed e))
      | Inr h1 \<Rightarrow>
          (case ct_marshal tools c of
             Inl e \<Rightarrow> (h1, Some (MarshalFailed e))
           | Inr data \<Rightarrow>
               (case os_write_file h1 (mig_TargetPath m) (saved_text tools m data) of
                  Inl e \<Rightarrow> (h1, Some (ConfigWriteFailed e))
                | Inr h2 \<Rightarrow> (h2, None))))"

definition report_list :: "string \<Rightarrow> string \<Rightarrow> string list \<Rightarrow> string" where
  "report_list title bullet items =
     (if items = [] then [] else title @ nl @ nl @ concat (map (\<lambda>i. bullet @ i @ nl) items) @ nl)"

definition report_closing :: string where
  "report_closing =
     ''## Migration Details'' @ nl @ nl @
     ''The following changes were made:'' @ nl @ nl @
     ''1. **Version updated:** Legacy version converted to 1.0.0'' @ nl @
     ''2. **Authentication:** Protocol-based auth converted to token-based'' @ nl @
     ''3. **Structure:** Reorganized into provider-specific sections'' @ nl @
     ''4. **Ignore patterns:** Moved to per-organization exclude patterns'' @ nl @
     ''5. **New features:** Added support for visibility filtering, strategies, and advanced options'' @ nl @ nl @
     ''## Next Steps'' @ nl @ nl @
     ''1. Review the generated configuration file'' @ nl @
     ''2. Configure authentication tokens (see Required Actions above)'' @ nl @
     ''3. Test the configuration with `gz synclone --dry-run`'' @ nl @
     ''4. Remove the legacy configuration file when satisfied'' @ nl"

definition report_status :: "config_migration \<Rightarrow> string" where
  "report_status r = ''**Status:** '' @ (if mgr_Success r then ''SUCCESS'' else ''FAILED'') @ nl"

definition generate_migration_report :: "string \<Rightarrow> config_migration \<Rightarrow> string" where
  "generate_migration_report date r =
     (''# Configuration Migration Report'' @ nl @ nl @
      ''**Migration Date:** '' @ date @ nl @
      ''**Source:** '' @ mgr_SourcePath r @ nl @
      ''**Target:** '' @ mgr_TargetPath r @ nl) @
     report_status r @
     (''**Migrated Targets:** '' @ show_int (mgr_MigratedTargets r) @ nl @ nl @
      (if mgr_BackupPath r \<noteq> [] then ''**Backup Created:** '' @ mgr_BackupPath r @ nl @ nl else []) @
      report_list ''## Warnings'' ''- '' (mgr_Warnings r) @
      report_list ''## Required Actions'' ''- [ ] '' (mgr_RequiredActions r) @
      report_closing)"

definition empty_migration :: "string \<Rightarrow> string \<Rightarrow> config_migration" where
  "empty_migration source target =
     \<lparr>mgr_Success = False, mgr_SourcePath = source, mgr_TargetPath = target, mgr_BackupPath = [], mgr_MigratedTargets = 0,
      mgr_Warnings = [], mgr_RequiredActions = [], mgr_UnifiedConfig = None, mgr_LegacyConfig = None, mgr_MigrationReport = []\<rparr>"

definition backup_step :: "config_tools \<Rightarrow> migrator \<Rightarrow> host \<Rightarrow> config_migration \<Rightarrow> host \<times> config_migration" where
  "backup_step tools m h r =
     (if mig_CreateBackup m \<and> \<not> mig_DryRun m then
        let backup = mig_SourcePath m @ ''.backup.'' @ ct_stamp tools
        in case copy_file h (mig_SourcePath m) backup of
             Inl e \<Rightarrow> (h, r\<lparr>mgr_Warnings := mgr_Warnings r @ [''Failed to create backup: '' @ ct_error tools e]\<rparr>)
           | Inr h' \<Rightarrow> (h', r\<lparr>mgr_BackupPath := backup\<rparr>)
      else (h, r))"

definition migrate_from_bulk_clone ::
  "config_tools \<Rightarrow> migrator \<Rightarrow> host \<Rightarrow> host \<times> config_migration \<times> loader_error option" where
  "migrate_from_bulk_clone tools m h =
     (let r0 = empty_migration (mig_SourcePath m) (mig_TargetPath m)
      in case load_legacy_config h (ct_legacy_yaml tools) (ct_validator tools) (mig_SourcePath m) of
           Inl e \<Rightarrow> (h, r0, Some (LegacyLoadFailed e))
         | Inr legacy \<Rightarrow>
             (let (c, warnings, actions) = convert_bulk_clone (ct_now tools) (mig_SourcePath m) legacy;
                  r1 = r0\<lparr>mgr_LegacyConfig := Some legacy, mgr_UnifiedConfig := Some c, mgr_Warnings := warnings,
                         mgr_RequiredActions := actions, mgr_MigratedTargets := count_targets c\<rparr>;
                  (h1, r2) = backup_step tools m h r1;
                  (h2, err) = (if mig_DryRun m then (h1, None) else save_unified_config tools m h1 c)
              in case err of
                   Some e \<Rightarrow> (h2, r2, Some (SaveFailed e))
                 | None \<Rightarrow>
                     (h2, r2\<lparr>mgr_MigrationReport := generate_migration_report (ct_date tools) r2, mgr_Success := True\<rparr>, None)))"

definition file_exists :: "host \<Rightarrow> string \<Rightarrow> bool" where
  "file_exists h p \<longleftrightarrow> os_stat h p \<in> {Directory, Regular}"

definition looks_legacy :: "string \<Rightarrow> bool" where
  "looks_legacy content \<longleftrightarrow>
     (let roots = contains content ''repo_roots:'';
          old = contains content (''version: '' @ quote ''0.1'') \<or> contains content (''version: '' @ [CHR 0x27] @ ''0.1'' @ [CHR 0x27]);
          ignores = contains content ''ignore_names:'';
          providers = contains content ''providers:'';
          new = contains content (''version: '' @ quote ''1.0.0'') \<or> contains content (''version: '' @ [CHR 0x27] @ ''1.0.0'' @ [CHR 0x27])
      in (roots \<or> old \<or> ignores) \<and> \<not> providers \<and> \<not> new)"

definition detect_legacy_format :: "host \<Rightarrow> string \<Rightarrow> loader_error + bool" where
  "detect_legacy_format h path =
     (if \<not> file_exists h path then Inl (ConfigFileNotFound path)
      else case os_read_file h path of Inl e \<Rightarrow> Inl (FormatUnreadable e) | Inr content \<Rightarrow> Inr (looks_legacy content))"

definition migrate_config_file ::
  "config_tools \<Rightarrow> host \<Rightarrow> string \<Rightarrow> string \<Rightarrow> bool \<Rightarrow> host \<times> config_migration \<times> loader_error option" where
  "migrate_config_file tools h source target dry_run =
     migrate_from_bulk_clone tools ((new_migrator source target)\<lparr>mig_DryRun := dry_run\<rparr>) h"

definition migration_target :: "config_tools \<Rightarrow> host \<Rightarrow> string \<Rightarrow> string" where
  "migration_target tools h path =
     (let target = path_join [path_dir path, ''gzh.yaml'']
      in if file_exists h target then path_join [path_dir path, ''gzh.migrated.'' @ ct_stamp tools @ ''.yaml''] else target)"

definition auto_migrate :: "config_tools \<Rightarrow> host \<Rightarrow> string \<Rightarrow> host \<times> config_migration option \<times> loader_error option" where
  "auto_migrate tools h path =
     (case detect_legacy_format h path of
        Inl e \<Rightarrow> (h, None, Some e)
      | Inr False \<Rightarrow> (h, Some ((empty_migration path path)\<lparr>mgr_Success := True\<rparr>), None)
      | Inr True \<Rightarrow>
          (case migrate_config_file tools h path (migration_target tools h path) False of
             (h', r, err) \<Rightarrow> (h', Some r, err)))"

section \<open>Loading\<close>

record unified_loader =
  ul_ConfigPaths :: "string list"
  ul_AutoMigrate :: bool
  ul_PreferUnified :: bool
  ul_CreateBackup :: bool

definition new_unified_loader :: unified_loader where
  "new_unified_loader =
     \<lparr>ul_ConfigPaths = [''./gzh.yaml'', ''./gzh.yml'', ''./config.yaml'', ''./config.yml'', ''./bulk-clone.yaml'', ''./bulk-clone.yml''],
      ul_AutoMigrate = False, ul_PreferUnified = True, ul_CreateBackup = True\<rparr>"

record load_result =
  lrs_Config :: unified_config
  lrs_ConfigPath :: string
  lrs_IsLegacy :: bool
  lrs_WasMigrated :: bool
  lrs_MigrationPath :: string
  lrs_Warnings :: "string list"
  lrs_RequiredActions :: "string list"

datatype 'a run = Done 'a | Failed loader_error | Crashed

definition is_unified_format_path :: "string \<Rightarrow> bool" where
  "is_unified_format_path p \<longleftrightarrow> path_base p \<in> {''gzh.yaml'', ''gzh.yml'', ''config.yaml'', ''config.yml''}"

definition sort_paths_by_preference :: "string list \<Rightarrow> string list" where
  "sort_paths_by_preference paths =
     (let (unified, legacy) =
        foldl (\<lambda>(u, l) p. if is_unified_format_path p then (u @ [p], l) else (u, l @ [p])) ([], []) paths
      in unified @ legacy)"

definition home_config_paths :: "string \<Rightarrow> string list" where
  "home_config_paths home =
     map (\<lambda>n. path_join [path_join [home, ''.config'', ''gzh-manager''], n])
       [''gzh.yaml'', ''gzh.yml'', ''config.yaml'', ''config.yml'', ''bulk-clone.yaml'', ''bulk-clone.yml'']"

definition system_config_paths :: "string list" where
  "system_config_paths =
     [''/etc/gzh-manager/gzh.yaml'', ''/etc/gzh-manager/gzh.yml'', ''/etc/gzh-manager/config.yaml'',
      ''/etc/gzh-manager/config.yml'', ''/etc/gzh-manager/bulk-clone.yaml'', ''/etc/gzh-manager/bulk-clone.yml'']"

definition get_search_paths :: "host \<Rightarrow> unified_loader \<Rightarrow> string list" where
  "get_search_paths h l =
     (let paths = ul_ConfigPaths l @ (case user_home_dir h of None \<Rightarrow> [] | Some d \<Rightarrow> home_config_paths d) @ system_config_paths
      in if ul_PreferUnified l then sort_paths_by_preference paths else paths)"

definition load_unified_config :: "config_tools \<Rightarrow> host \<Rightarrow> string \<Rightarrow> load_result run" where
  "load_unified_config tools h path =
     (case os_read_file h path of
        Inl e \<Rightarrow> Failed (ConfigUnreadable e)
      | Inr data \<Rightarrow>
          (case ct_yaml tools data of
             Inl m \<Rightarrow> Failed (UnifiedUnmarshal m)
           | Inr c \<Rightarrow>
               (let c' = normalize_organization_aliases c
                in case validate_unified_config (ct_compile tools) c' of
                     Panicked \<Rightarrow> Crashed
                   | Rejected e \<Rightarrow> Failed (ConfigurationInvalid e)
                   | Accepted \<Rightarrow>
                       Done \<lparr>lrs_Config = c', lrs_ConfigPath = path, lrs_IsLegacy = False, lrs_WasMigrated = False,
                             lrs_MigrationPath = [], lrs_Warnings = [], lrs_RequiredActions = []\<rparr>)))"

definition perform_auto_migration ::
  "config_tools \<Rightarrow> unified_loader \<Rightarrow> host \<Rightarrow> string \<Rightarrow> host \<times> config_migration \<times> loader_error option" where
  "perform_auto_migration tools l h path =
     migrate_from_bulk_clone tools ((new_migrator path (migration_target tools h path))\<lparr>mig_CreateBackup := ul_CreateBackup l\<rparr>) h"

definition convert_legacy_to_unified :: "config_tools \<Rightarrow> legacy_config \<Rightarrow> unified_config" where
  "convert_legacy_to_unified tools legacy = fst (convert_bulk_clone (ct_now tools) [] legacy)"

definition load_legacy_as_unified :: "config_tools \<Rightarrow> unified_loader \<Rightarrow> host \<Rightarrow> string \<Rightarrow> host \<times> load_result run" where
  "load_legacy_as_unified tools l h path =
     (case load_legacy_config h (ct_legacy_yaml tools) (ct_validator tools) path of
        Inl e \<Rightarrow> (h, Failed (LegacyLoadFailed e))
      | Inr legacy \<Rightarrow>
          if ul_AutoMigrate l then
            (case perform_auto_migration tools l h path of
               (h', r, Some e) \<Rightarrow> (h', Failed (AutoMigrationFailed e))
             | (h', r, None) \<Rightarrow>
                 (h', case mgr_UnifiedConfig r of
                        None \<Rightarrow> Crashed
                      | Some c \<Rightarrow>
                          Done \<lparr>lrs_Config = c, lrs_ConfigPath = path, lrs_IsLegacy = True, lrs_WasMigrated = True,
                                lrs_MigrationPath = mgr_TargetPath r, lrs_Warnings = mgr_Warnings r,
                                lrs_RequiredActions = mgr_RequiredActions r @
                                  [''Consider removing legacy configuration file: '' @ path]\<rparr>))
          else
            (h, Done \<lparr>lrs_Config = convert_legacy_to_unified tools legacy, lrs_ConfigPath = path, lrs_IsLegacy = True,
                      lrs_WasMigrated = False, lrs_MigrationPath = [], lrs_Warnings = [],
                      lrs_RequiredActions = [''Consider migrating to unified configuration format for better features'']\<rparr>))"

definition load_from_specific_path :: "config_tools \<Rightarrow> unified_loader \<Rightarrow> host \<Rightarrow> string \<Rightarrow> host \<times> load_result run" where
  "load_from_specific_path tools l h path =
     (if \<not> file_exists h path then (h, Failed (ConfigFileNotFound path))
      else case detect_legacy_format h path of
             Inl e \<Rightarrow> (h, Failed (DetectFailed e))
           | Inr True \<Rightarrow> load_legacy_as_unified tools l h path
           | Inr False \<Rightarrow> (h, load_unified_config tools h path))"

definition load_from_path :: "config_tools \<Rightarrow> unified_loader \<Rightarrow> host \<Rightarrow> string \<Rightarrow> host \<times> load_result run" where
  "load_from_path tools l h path =
     (if path \<noteq> [] then load_from_specific_path tools l h path
      else case List.find (file_exists h) (get_search_paths h l) of
             Some p \<Rightarrow> load_from_specific_path tools l h p
           | None \<Rightarrow> (h, Failed (NoConfiguration (get_search_paths h l))))"

section \<open>What is accepted\<close>

lemma wrap_Accepted [simp]: "wrap_verdict f v = Accepted \<longleftrightarrow> v = Accepted" and wrap_Panicked [simp]: "wrap_verdict f v = Panicked \<longleftrightarrow> v = Panicked"
  by (cases v; simp)+

lemma first_Accepted [simp]: "first_verdict check xs = Accepted \<longleftrightarrow> (\<forall>x\<in>set xs. check x = Accepted)"
  by (induction xs) (auto split: verdict.splits)

text \<open>The first element that is not accepted decides.\<close>

lemma first_Panicked:
  "first_verdict check xs = Panicked \<longleftrightarrow>
     (\<exists>before x after. xs = before @ x # after \<and> (\<forall>y\<in>set before. check y = Accepted) \<and> check x = Panicked)"
proof (induction xs)
  case (Cons y xs)
  show ?case
  proof (cases "check y")
    case Accepted
    then show ?thesis using Cons by (auto simp: Cons_eq_append_conv) (metis set_ConsD append_Cons)+
  next
    case (Rejected e)
    then show ?thesis by (auto simp: Cons_eq_append_conv)
  next
    case Panicked
    then show ?thesis by (auto intro: exI [of _ "[]"])
  qed
qed simp

definition organization_ok :: "pattern_compiler \<Rightarrow> organization_config \<Rightarrow> bool" where
  "organization_ok compile g \<longleftrightarrow>
     oc_Name g \<noteq> [] \<and> oc_CloneDir g \<noteq> [] \<and>
     (oc_Visibility g = [] \<or> is_valid_target_visibility (oc_Visibility g)) \<and>
     (oc_Strategy g = [] \<or> is_valid_strategy (oc_Strategy g)) \<and>
     (oc_Include g = [] \<or> compile (oc_Include g) \<noteq> None) \<and> (\<forall>p\<in>set (oc_Exclude g). compile p \<noteq> None)"

definition provider_ok :: "pattern_compiler \<Rightarrow> provider_config option \<Rightarrow> bool" where
  "provider_ok compile p \<longleftrightarrow>
     (case p of
        None \<Rightarrow> False
      | Some q \<Rightarrow> pc3_Token q \<noteq> [] \<and> pc3_Organizations q \<noteq> [] \<and>
          list_all (\<lambda>g. case g of None \<Rightarrow> False | Some o' \<Rightarrow> organization_ok compile o') (pc3_Organizations q))"

lemma validate_organization_iff:
  "validate_organization compile g = Accepted \<longleftrightarrow> (case g of None \<Rightarrow> False | Some o' \<Rightarrow> organization_ok compile o')"
  by (cases g) (auto simp: organization_ok_def)

lemma validate_provider_iff: "validate_unified_provider compile n p = Accepted \<longleftrightarrow> provider_ok compile p"
  by (cases p) (auto simp: provider_ok_def list_all_iff validate_organization_iff)

theorem configuration_accepted_iff:
  "validate_unified_config compile c = Accepted \<longleftrightarrow>
     uc_Version c = ''1.0.0'' \<and> uc_Providers c \<noteq> [] \<and> list_all (\<lambda>(n, p). provider_ok compile p) (uc_Providers c)"
  by (auto simp: validate_unified_config_def validate_provider_iff list_all_iff split: prod.splits)

text \<open>A provider without a value, as YAML has it after \<open>github:\<close>, ends the process.\<close>

lemma empty_provider_crashes:
  assumes "uc_Version c = ''1.0.0''" and "uc_Providers c = ps @ (n, None) # qs" and "list_all (\<lambda>(n, p). provider_ok compile p) ps"
  shows "validate_unified_config compile c = Panicked"
  using assms
  by (auto simp: validate_unified_config_def first_Panicked list_all_iff validate_provider_iff intro!: exI [of _ ps] split: prod.splits)

section \<open>What a migration gives\<close>

lemma default_unified_version: "uc_Version default_unified_config = ''1.0.0''"
  by (simp add: default_unified_config_def)

lemma convert_bulk_clone_config:
  "uc_Version (fst (convert_bulk_clone now source legacy)) = ''1.0.0''"
  "uc_Providers (fst (convert_bulk_clone now source legacy)) =
     (if fst (convert_github legacy) \<noteq> [] then [(''github'', Some (migrated_provider ''${GITHUB_TOKEN}'' [] (fst (convert_github legacy))))] else []) @
     (case fst (convert_gitlab legacy) of None \<Rightarrow> [] | Some p \<Rightarrow> [(''gitlab'', Some p)])"
  by (simp_all add: convert_bulk_clone_def default_unified_version Let_def split: prod.splits)

lemma migrated_org_ok:
  "organization_ok compile (migrated_org legacy name dir rec) \<longleftrightarrow>
     name \<noteq> [] \<and> dir \<noteq> [] \<and> (\<forall>p\<in>set (lgc_IgnoreNameRegexes legacy). compile p \<noteq> None)"
  by (auto simp: organization_ok_def migrated_org_def is_valid_target_visibility_def is_valid_strategy_def)

definition migratable :: "pattern_compiler \<Rightarrow> legacy_config \<Rightarrow> bool" where
  "migratable compile legacy \<longleftrightarrow>
     (let h = cdf_Github (lgc_Default legacy); l = cdf_Gitlab (lgc_Default legacy); roots = github_roots legacy
      in (roots \<noteq> [] \<or> cdh_RootPath h \<noteq> [] \<or> cdh_OrgName h \<noteq> [] \<or> cdl_RootPath l \<noteq> []) \<and>
         (cdh_OrgName h \<noteq> [] \<and> cdh_OrgName h \<notin> cgh_OrgName ` set roots \<longrightarrow> cdh_RootPath h \<noteq> []) \<and>
         (\<forall>p\<in>set (lgc_IgnoreNameRegexes legacy). compile p \<noteq> None))"

lemma has_organization_roots:
  "has_organization (map (\<lambda>r. migrated_org legacy (cgh_OrgName r) (cgh_RootPath r) False) roots) name \<longleftrightarrow> name \<in> cgh_OrgName ` set roots"
  by (auto simp: has_organization_def list_ex_iff migrated_org_def)

lemma convert_github_orgs:
  "fst (convert_github legacy) = [] \<longleftrightarrow>
     github_roots legacy = [] \<and> cdh_RootPath (cdf_Github (lgc_Default legacy)) = [] \<and> cdh_OrgName (cdf_Github (lgc_Default legacy)) = []"
  by (auto simp: convert_github_def Let_def has_organization_roots)

lemma convert_github_ok:
  assumes "clone_tags_hold legacy"
  shows "(\<forall>g\<in>set (fst (convert_github legacy)). organization_ok compile g) \<longleftrightarrow>
    fst (convert_github legacy) = [] \<or>
    (cdh_OrgName (cdf_Github (lgc_Default legacy)) \<noteq> [] \<and>
       cdh_OrgName (cdf_Github (lgc_Default legacy)) \<notin> cgh_OrgName ` set (github_roots legacy) \<longrightarrow>
       cdh_RootPath (cdf_Github (lgc_Default legacy)) \<noteq> []) \<and>
    (\<forall>p\<in>set (lgc_IgnoreNameRegexes legacy). compile p \<noteq> None)"
proof -
  define rs where "rs = map (\<lambda>r. migrated_org legacy (cgh_OrgName r) (cgh_RootPath r) False) (github_roots legacy)"
  define ign where "ign \<longleftrightarrow> (\<forall>p\<in>set (lgc_IgnoreNameRegexes legacy). compile p \<noteq> None)"
  let ?d = "cdf_Github (lgc_Default legacy)"
  have r: "cgh_OrgName r \<noteq> [] \<and> cgh_RootPath r \<noteq> []" if "r \<in> set (github_roots legacy)" for r
    using assms that by (auto simp: clone_tags_hold_def list_all_iff github_roots_def)
  have ok: "organization_ok compile (migrated_org legacy n dir b) \<longleftrightarrow> n \<noteq> [] \<and> dir \<noteq> [] \<and> ign" for n dir b
    unfolding migrated_org_ok ign_def ..
  have rs_ok: "(\<forall>g\<in>set rs. organization_ok compile g) \<longleftrightarrow> rs = [] \<or> ign"
    using r by (cases rs) (auto simp: rs_def ok)
  have has: "has_organization rs n \<longleftrightarrow> n \<in> cgh_OrgName ` set (github_roots legacy)" for n
    unfolding rs_def by (rule has_organization_roots)
  have eq: "fst (convert_github legacy) =
      (if rs = [] \<and> (cdh_OrgName ?d = [] \<or> has_organization rs (cdh_OrgName ?d)) \<and> cdh_RootPath ?d \<noteq> []
       then [migrated_org legacy ''your-org-name'' (cdh_RootPath ?d) False]
       else rs @ (if cdh_OrgName ?d \<noteq> [] \<and> \<not> has_organization rs (cdh_OrgName ?d)
                  then [migrated_org legacy (cdh_OrgName ?d) (cdh_RootPath ?d) False] else []))"
    unfolding convert_github_def Let_def rs_def [symmetric] by auto
  show ?thesis
    unfolding eq has [symmetric] ign_def [symmetric]
    by (cases "cdh_OrgName ?d \<noteq> [] \<and> \<not> has_organization rs (cdh_OrgName ?d)") (auto simp: ball_Un rs_ok ok)
qed

lemma convert_gitlab_ok:
  "(case fst (convert_gitlab legacy) of None \<Rightarrow> True | Some p \<Rightarrow> provider_ok compile (Some p)) \<longleftrightarrow>
     cdl_RootPath (cdf_Gitlab (lgc_Default legacy)) = [] \<or> (\<forall>p\<in>set (lgc_IgnoreNameRegexes legacy). compile p \<noteq> None)"
  by (auto simp: convert_gitlab_def Let_def provider_ok_def migrated_provider_def migrated_org_ok)

text \<open>
  The loader accepts what a migration makes of a legacy configuration exactly when there is
  something to migrate, the organisation named by the defaults has a root path or a root of its own, and
  every ignored name is a regular expression.
\<close>

theorem migration_accepted_iff:
  assumes "clone_tags_hold legacy"
  shows "validate_unified_config compile (fst (convert_bulk_clone now source legacy)) = Accepted \<longleftrightarrow> migratable compile legacy"
proof -
  let ?c = "fst (convert_bulk_clone now source legacy)" and ?orgs = "fst (convert_github legacy)"
  have gl: "fst (convert_gitlab legacy) = None \<longleftrightarrow> cdl_RootPath (cdf_Gitlab (lgc_Default legacy)) = []"
    by (simp add: convert_gitlab_def Let_def)
  have gh: "provider_ok compile (Some (migrated_provider t u ?orgs)) \<longleftrightarrow> t \<noteq> [] \<and> ?orgs \<noteq> [] \<and> (\<forall>g\<in>set ?orgs. organization_ok compile g)" for t u
    by (auto simp: provider_ok_def migrated_provider_def list_all_iff)
  have "validate_unified_config compile ?c = Accepted \<longleftrightarrow>
      (?orgs \<noteq> [] \<or> fst (convert_gitlab legacy) \<noteq> None) \<and> (\<forall>g\<in>set ?orgs. organization_ok compile g) \<and>
      (case fst (convert_gitlab legacy) of None \<Rightarrow> True | Some p \<Rightarrow> provider_ok compile (Some p))"
    unfolding configuration_accepted_iff convert_bulk_clone_config by (auto simp: gh split: option.splits)
  then show ?thesis
    unfolding convert_github_ok [OF assms] convert_gitlab_ok gl convert_github_orgs migratable_def Let_def by blast
qed

lemma migrate_done:
  assumes "migrate_from_bulk_clone tools m h = (h', r, None)"
  obtains legacy r2 h1 where
    "load_legacy_config h (ct_legacy_yaml tools) (ct_validator tools) (mig_SourcePath m) = Inr legacy"
    "r = r2\<lparr>mgr_MigrationReport := generate_migration_report (ct_date tools) r2, mgr_Success := True\<rparr>" "\<not> mgr_Success r2"
    "mgr_UnifiedConfig r2 = Some (fst (convert_bulk_clone (ct_now tools) (mig_SourcePath m) legacy))"
    "if mig_DryRun m then h' = h1
     else save_unified_config tools m h1 (fst (convert_bulk_clone (ct_now tools) (mig_SourcePath m) legacy)) = (h', None)"
proof -
  obtain legacy where l: "load_legacy_config h (ct_legacy_yaml tools) (ct_validator tools) (mig_SourcePath m) = Inr legacy"
    using assms by (auto simp: migrate_from_bulk_clone_def Let_def split: sum.splits)
  obtain c ws acts where c: "convert_bulk_clone (ct_now tools) (mig_SourcePath m) legacy = (c, ws, acts)" by (metis prod_cases3)
  define r1 where "r1 = (empty_migration (mig_SourcePath m) (mig_TargetPath m))\<lparr>mgr_LegacyConfig := Some legacy,
    mgr_UnifiedConfig := Some c, mgr_Warnings := ws, mgr_RequiredActions := acts, mgr_MigratedTargets := count_targets c\<rparr>"
  obtain h1 r2 where b: "backup_step tools m h r1 = (h1, r2)" by fastforce
  have r2: "\<not> mgr_Success r2" "mgr_UnifiedConfig r2 = Some c"
    using b by (auto simp: backup_step_def r1_def empty_migration_def Let_def split: if_splits sum.splits)
  have "(case (if mig_DryRun m then (h1, None) else save_unified_config tools m h1 c) of
      (h2, Some e) \<Rightarrow> (h2, r2, Some (SaveFailed e))
    | (h2, None) \<Rightarrow> (h2, r2\<lparr>mgr_MigrationReport := generate_migration_report (ct_date tools) r2, mgr_Success := True\<rparr>, None)) = (h', r, None)"
    using assms by (auto simp: migrate_from_bulk_clone_def l c Let_def r1_def [symmetric] b split: prod.splits option.splits)
  then show ?thesis using that [of legacy r2 h1] l r2 c by (auto split: prod.splits option.splits if_splits)
qed

text \<open>A migration that succeeded says in its report that it failed.\<close>

theorem migration_report_failed:
  assumes "migrate_from_bulk_clone tools m h = (h', r, None)"
  shows "mgr_Success r \<and> contains (mgr_MigrationReport r) ''**Status:** FAILED''"
proof -
  obtain r2 where r: "r = r2\<lparr>mgr_MigrationReport := generate_migration_report (ct_date tools) r2, mgr_Success := True\<rparr>" "\<not> mgr_Success r2"
    using migrate_done [OF assms] by metis
  have "sublist ''**Status:** FAILED'' (report_status r2)" using r(2) by (simp add: report_status_def sublist_def) (metis append_Nil)
  moreover have "sublist (report_status r2) (generate_migration_report (ct_date tools) r2)"
    unfolding generate_migration_report_def by (rule sublist_appendI)
  ultimately show ?thesis using r(1) sublist_order.order_trans by (auto simp: contains_def)
qed

lemma normalize_converted:
  "normalize_organization_aliases (fst (convert_bulk_clone now source legacy)) = fst (convert_bulk_clone now source legacy)"
proof -
  have n: "normalize_provider_aliases (migrated_provider t u orgs) = migrated_provider t u orgs" for t u orgs
    by (simp add: normalize_provider_aliases_def migrated_provider_def)
  have "map (\<lambda>(n, p). (n, map_option normalize_provider_aliases p)) (uc_Providers (fst (convert_bulk_clone now source legacy))) =
      uc_Providers (fst (convert_bulk_clone now source legacy))"
    by (auto simp: convert_bulk_clone_config n convert_gitlab_def Let_def)
  then show ?thesis by (simp add: normalize_organization_aliases_def)
qed

text \<open>
  Property C37. The file a successful migration writes is accepted by \<open>loadUnifiedConfig\<close>, which reads,
  normalises and validates a unified file, exactly when the legacy configuration is migratable; otherwise
  the migration reports success and leaves a file that is refused.
\<close>

theorem migrated_file_loads_iff:
  assumes migrated: "migrate_from_bulk_clone tools m h = (h', r, None)" and "\<not> mig_DryRun m"
    and legacy: "load_legacy_config h (ct_legacy_yaml tools) (ct_validator tools) (mig_SourcePath m) = Inr legacy"
    and tags: "clone_tags_hold legacy"
    and yaml: "\<And>c data. ct_marshal tools c = Inr data \<Longrightarrow> ct_yaml tools (saved_text tools m data) = Inr c"
  shows "mgr_Success r \<and> ((\<exists>res. load_unified_config tools h' (mig_TargetPath m) = Done res) \<longleftrightarrow> migratable (ct_compile tools) legacy)"
proof -
  let ?c = "fst (convert_bulk_clone (ct_now tools) (mig_SourcePath m) legacy)"
  obtain h1 where s: "save_unified_config tools m h1 ?c = (h', None)" and ok: "mgr_Success r"
    by (rule migrate_done [OF migrated]) (use assms(2) legacy in auto)
  then obtain data h2 where d: "ct_marshal tools ?c = Inr data" and w: "os_write_file h2 (mig_TargetPath m) (saved_text tools m data) = Inr h'"
    by (auto simp: save_unified_config_def split: sum.splits)
  have load: "load_unified_config tools h' (mig_TargetPath m) =
      (case validate_unified_config (ct_compile tools) ?c of
         Panicked \<Rightarrow> Crashed
       | Rejected e \<Rightarrow> Failed (ConfigurationInvalid e)
       | Accepted \<Rightarrow> Done \<lparr>lrs_Config = ?c, lrs_ConfigPath = mig_TargetPath m, lrs_IsLegacy = False, lrs_WasMigrated = False,
                             lrs_MigrationPath = [], lrs_Warnings = [], lrs_RequiredActions = []\<rparr>)"
    by (simp add: load_unified_config_def write_read(1) [OF w] yaml [OF d] normalize_converted Let_def)
  have m: "migratable (ct_compile tools) legacy \<longleftrightarrow> validate_unified_config (ct_compile tools) ?c = Accepted"
    using migration_accepted_iff [OF tags] by blast
  show ?thesis using ok by (cases "validate_unified_config (ct_compile tools) ?c") (auto simp: m load)
qed

section \<open>Where the loader looks\<close>

lemma sort_fold:
  "foldl (\<lambda>(u, l) p. if is_unified_format_path p then (u @ [p], l) else (u, l @ [p])) (u0, l0) paths =
     (u0 @ filter is_unified_format_path paths, l0 @ filter (\<lambda>p. \<not> is_unified_format_path p) paths)"
  by (induction paths arbitrary: u0 l0) auto

lemma sorted_paths:
  "sort_paths_by_preference paths = filter is_unified_format_path paths @ filter (\<lambda>p. \<not> is_unified_format_path p) paths"
  by (simp add: sort_paths_by_preference_def sort_fold)

lemma search_paths_set [simp]: "set (sort_paths_by_preference paths) = set paths"
  by (auto simp: sorted_paths)

text \<open>The file that is loaded is the first that exists, and a unified one if any of these exists.\<close>

lemma load_first_existing:
  "load_from_path tools l h [] =
     (case filter (file_exists h) (get_search_paths h l) of
        [] \<Rightarrow> (h, Failed (NoConfiguration (get_search_paths h l)))
      | p # _ \<Rightarrow> load_from_specific_path tools l h p)"
proof -
  have "List.find (file_exists h) ps = (case filter (file_exists h) ps of [] \<Rightarrow> None | p # _ \<Rightarrow> Some p)" for ps
    by (induction ps) auto
  then show ?thesis by (simp add: load_from_path_def split: list.splits)
qed

section \<open>Examples\<close>

definition sample_unified :: unified_config where
  "sample_unified = fst (convert_bulk_clone 0 ''/c.yaml'' (merge_clone_config sample_legacy sample_overlay))"

definition loader_tools :: config_tools where
  "loader_tools = \<lparr>ct_yaml = \<lambda>_. Inr sample_unified, ct_marshal = \<lambda>c. if c = sample_unified then Inr ''data'' else Inl ''other'',
     ct_legacy_yaml = sample_yaml, ct_validator = \<lambda>c. if clone_tags_hold c then None else Some ''invalid'',
     ct_compile = \<lambda>_. Some (\<lambda>_. True), ct_error = \<lambda>_. [], ct_now = 0, ct_stamp = ''now'', ct_date = ''today''\<rparr>"

definition sample_migrator :: migrator where
  "sample_migrator = \<lparr>mig_SourcePath = ''/c.yaml'', mig_TargetPath = ''/gzh.yaml'', mig_CreateBackup = False, mig_DryRun = False\<rparr>"

lemma sample_migrates: "\<exists>h' r. migrate_from_bulk_clone loader_tools sample_migrator sample_host = (h', r, None)"
proof -
  have "snd (snd (migrate_from_bulk_clone loader_tools sample_migrator sample_host)) = None" by code_simp
  then show ?thesis by (metis prod.collapse)
qed

lemma sample_tags: "clone_tags_hold (merge_clone_config sample_legacy sample_overlay)" by code_simp

lemma sample_legacy_read:
  "load_legacy_config sample_host (ct_legacy_yaml loader_tools) (ct_validator loader_tools) (mig_SourcePath sample_migrator)
     = Inr (merge_clone_config sample_legacy sample_overlay)"
  using sample_legacy_loads by (simp add: loader_tools_def sample_migrator_def)

theorem migration_accepted_iff_witness:
  "validate_unified_config (\<lambda>_. Some (\<lambda>_. True)) sample_unified = Accepted"
  using migration_accepted_iff [OF sample_tags] unfolding sample_unified_def by (simp, code_simp)

theorem migration_report_failed_witness:
  "\<exists>h' r. migrate_from_bulk_clone loader_tools sample_migrator sample_host = (h', r, None) \<and>
    contains (mgr_MigrationReport r) ''**Status:** FAILED''"
  using sample_migrates migration_report_failed by blast

theorem migrated_file_loads_iff_witness:
  "\<exists>h' r res. migrate_from_bulk_clone loader_tools sample_migrator sample_host = (h', r, None) \<and>
    load_unified_config loader_tools h' ''/gzh.yaml'' = Done res"
proof -
  obtain h' r where m: "migrate_from_bulk_clone loader_tools sample_migrator sample_host = (h', r, None)" using sample_migrates by blast
  have y: "ct_yaml loader_tools (saved_text loader_tools sample_migrator data) = Inr c" if "ct_marshal loader_tools c = Inr data" for c data
    using that by (auto simp: loader_tools_def split: if_splits)
  have d: "\<not> mig_DryRun sample_migrator" by (simp add: sample_migrator_def)
  have g: "migratable (ct_compile loader_tools) (merge_clone_config sample_legacy sample_overlay)"
    unfolding loader_tools_def by (simp, code_simp)
  show ?thesis
    using migrated_file_loads_iff [OF m d sample_legacy_read sample_tags y] g m by (auto simp: sample_migrator_def)
qed

end
