(* ===== verification/ConfigFactory.thy ===== *)
theory ConfigFactory
  imports UnifiedLoader
begin

text \<open>
  The entry points to the unified configuration: the factory of \<open>pkg/config/unified_factory.go\<close>, the
  functions of \<open>loader.go\<close> that keep the former interface and the facade of \<open>unified_facade.go\<close>.
  Loggers and wrapped messages of the callers are left out.
\<close>

section \<open>Factory\<close>

record config_factory =
  cff_environment :: "string \<Rightarrow> string"
  cff_searchPaths :: "string list"
  cff_autoMigrate :: bool
  cff_preferUnified :: bool
  cff_createBackup :: bool

record config_factory_options =
  cfo_Environment :: "(string \<Rightarrow> string) option"
  cfo_SearchPaths :: "string list"
  cfo_AutoMigrate :: bool
  cfo_PreferUnified :: bool
  cfo_CreateBackup :: bool

definition get_default_search_paths :: "string list" where
  "get_default_search_paths =
     [''./gzh.yaml'', ''./gzh.yml'', ''./config.yaml'', ''./config.yml'', ''./bulk-clone.yaml'', ''./bulk-clone.yml'',
      ''~/.config/gzh.yaml'', ''~/.config/gzh.yml'', ''~/.config/gzh-manager/gzh.yaml'', ''~/.config/gzh-manager/gzh.yml'',
      ''~/.config/gzh-manager/bulk-clone.yaml'', ''~/.config/gzh-manager/bulk-clone.yml'',
      ''/etc/gzh-manager/gzh.yaml'', ''/etc/gzh-manager/gzh.yml'', ''/etc/gzh-manager/bulk-clone.yaml'', ''/etc/gzh-manager/bulk-clone.yml'']"

definition new_config_factory :: "host \<Rightarrow> string list \<Rightarrow> config_factory" where
  "new_config_factory h config_search_paths =
     \<lparr>cff_environment = ho_env h, cff_searchPaths = config_search_paths, cff_autoMigrate = True, cff_preferUnified = True,
      cff_createBackup = True\<rparr>"

definition new_config_factory_with_options :: "host \<Rightarrow> string list \<Rightarrow> config_factory_options option \<Rightarrow> config_factory" where
  "new_config_factory_with_options h config_search_paths opts =
     (let f = new_config_factory h config_search_paths
      in case opts of
           None \<Rightarrow> f
         | Some o' \<Rightarrow>
             f\<lparr>cff_environment := (case cfo_Environment o' of None \<Rightarrow> cff_environment f | Some e \<Rightarrow> e),
               cff_searchPaths := (if cfo_SearchPaths o' \<noteq> [] then cfo_SearchPaths o' else cff_searchPaths f),
               cff_autoMigrate := cfo_AutoMigrate o', cff_preferUnified := cfo_PreferUnified o',
               cff_createBackup := cfo_CreateBackup o'\<rparr>)"

text \<open>A lookup that fails for another reason than absence leaves a nil \<open>FileInfo\<close>, which is used.\<close>

definition regular_file_exists :: "host \<Rightarrow> string \<Rightarrow> bool option" where
  "regular_file_exists h p =
     (case os_stat h p of Absent \<Rightarrow> Some False | StatFails \<Rightarrow> None | Directory \<Rightarrow> Some False | Regular \<Rightarrow> Some True)"

definition factory_expand_path :: "config_factory \<Rightarrow> host \<Rightarrow> string \<Rightarrow> string" where
  "factory_expand_path f h path =
     (if path \<noteq> [] \<and> hd path = CHR ''~'' then
        (if cff_environment f ''HOME'' = [] then path else path_join [cff_environment f ''HOME'', tl path])
      else
        let p = os_expand (cff_environment f) path
        in if is_abs p then p else path_abs h p)"

definition env_config_path :: "config_factory \<Rightarrow> host \<Rightarrow> string run" where
  "env_config_path f h =
     (let p = cff_environment f ''GZH_CONFIG_PATH''
      in if p = [] then Done []
         else case regular_file_exists h (factory_expand_path f h p) of
                None \<Rightarrow> Crashed
              | Some False \<Rightarrow> Failed (EnvPathNotFound (factory_expand_path f h p))
              | Some True \<Rightarrow> Done (factory_expand_path f h p))"

definition factory_loader :: "config_factory \<Rightarrow> unified_loader" where
  "factory_loader f =
     \<lparr>ul_ConfigPaths = cff_searchPaths f, ul_AutoMigrate = cff_autoMigrate f, ul_PreferUnified = cff_preferUnified f,
      ul_CreateBackup = cff_createBackup f\<rparr>"

definition factory_load_from_path :: "config_tools \<Rightarrow> config_factory \<Rightarrow> host \<Rightarrow> string \<Rightarrow> host \<times> unified_config run" where
  "factory_load_from_path tools f h path =
     (case load_from_path tools (factory_loader f) h path of
        (h', Done r) \<Rightarrow> (h', Done (lrs_Config r))
      | (h', Failed e) \<Rightarrow> (h', Failed (LoadFailed e))
      | (h', Crashed) \<Rightarrow> (h', Crashed))"

definition factory_load_config :: "config_tools \<Rightarrow> config_factory \<Rightarrow> host \<Rightarrow> host \<times> unified_config run" where
  "factory_load_config tools f h =
     (case env_config_path f h of
        Done p \<Rightarrow> factory_load_from_path tools f h p
      | Failed e \<Rightarrow> (h, Failed e)
      | Crashed \<Rightarrow> (h, Crashed))"

fun find_in_paths :: "config_factory \<Rightarrow> host \<Rightarrow> string list \<Rightarrow> string run" where
  "find_in_paths f h [] = Failed (NoConfiguration (cff_searchPaths f))"
| "find_in_paths f h (p # ps) =
     (case regular_file_exists h (factory_expand_path f h p) of
        None \<Rightarrow> Crashed
      | Some True \<Rightarrow> Done (factory_expand_path f h p)
      | Some False \<Rightarrow> find_in_paths f h ps)"

definition factory_find_config_file :: "config_factory \<Rightarrow> host \<Rightarrow> string run" where
  "factory_find_config_file f h =
     (case env_config_path f h of
        Done p \<Rightarrow> if p \<noteq> [] then Done p else find_in_paths f h (cff_searchPaths f)
      | r \<Rightarrow> r)"

definition default_config_text :: string where
  "default_config_text =
     ''version: '' @ quote ''1.0.0'' @ nl @
     ''default_provider: github'' @ nl @ nl @
     ''providers:'' @ nl @
     ''  github:'' @ nl @
     ''    token: '' @ quote ''${GITHUB_TOKEN}'' @ nl @
     ''    organizations:'' @ nl @
     ''      - name: '' @ quote ''your-org-name'' @ nl @
     ''        visibility: all'' @ nl @
     ''        clone_dir: '' @ quote ''./github'' @ nl @ nl @
     ''  gitlab:'' @ nl @
     ''    token: '' @ quote ''${GITLAB_TOKEN}'' @ nl @
     ''    organizations:'' @ nl @
     ''      - name: '' @ quote ''your-group-name'' @ nl @
     ''        visibility: public'' @ nl @
     ''        clone_dir: '' @ quote ''./gitlab'' @ nl"

definition create_default_config_file :: "host \<Rightarrow> string \<Rightarrow> fs_error + host" where
  "create_default_config_file h path =
     (case os_mkdir_all h (path_dir path) of Inl e \<Rightarrow> Inl e | Inr h' \<Rightarrow> os_write_file h' path default_config_text)"

definition get_default_config_path :: "config_factory \<Rightarrow> string" where
  "get_default_config_path f =
     (let home = cff_environment f ''HOME''
      in if home = [] then ''./gzh.yaml'' else path_join [home, ''.config'', ''gzh.yaml''])"

definition set_search_paths :: "string list \<Rightarrow> config_factory \<Rightarrow> config_factory" where
  "set_search_paths paths f = f\<lparr>cff_searchPaths := paths\<rparr>"

definition factory_get_search_paths :: "config_factory \<Rightarrow> host \<Rightarrow> string list" where
  "factory_get_search_paths f h = map (factory_expand_path f h) (cff_searchPaths f)"

section \<open>The former interface\<close>

text \<open>Dereferencing a nil element gives \<open>None\<close>.\<close>

fun map_present :: "('a \<Rightarrow> 'b) \<Rightarrow> 'a option list \<Rightarrow> 'b list option" where
  "map_present f [] = Some []"
| "map_present f (None # xs) = None"
| "map_present f (Some x # xs) = map_option (\<lambda>ys. f x # ys) (map_present f xs)"

fun convert_providers :: "(string \<Rightarrow> provider_config \<Rightarrow> gzh_provider option) \<Rightarrow>
    (string, provider_config option) gomap \<Rightarrow> (string, gzh_provider) gomap option" where
  "convert_providers f [] = Some []"
| "convert_providers f ((n, None) # ps) = None"
| "convert_providers f ((n, Some p) # ps) =
     (case f n p of
        None \<Rightarrow> None
      | Some q \<Rightarrow> map_option (\<lambda>qs. (n, q) # qs) (convert_providers f ps))"

definition loader_target :: "organization_config \<Rightarrow> git_target" where
  "loader_target org =
     \<lparr>gtg_Name = oc_Name org, gtg_Visibility = oc_Visibility org, gtg_Recursive = False, gtg_Flatten = False,
      gtg_Match = oc_Include org, gtg_CloneDir = oc_CloneDir org, gtg_Exclude = oc_Exclude org, gtg_Strategy = oc_Strategy org\<rparr>"

definition loader_provider :: "string \<Rightarrow> provider_config \<Rightarrow> gzh_provider option" where
  "loader_provider name p =
     map_option
       (\<lambda>orgs. if name = ''gitlab'' then \<lparr>gpv_Token = pc3_Token p, gpv_Orgs = [], gpv_Groups = orgs\<rparr>
              else \<lparr>gpv_Token = pc3_Token p, gpv_Orgs = orgs, gpv_Groups = []\<rparr>)
       (map_present loader_target (pc3_Organizations p))"

definition convert_unified_to_legacy :: "unified_config \<Rightarrow> gzh_config option" where
  "convert_unified_to_legacy c =
     map_option
       (\<lambda>ps. \<lparr>gzc_Version = uc_Version c, gzc_DefaultProvider = uc_DefaultProvider c, gzc_Providers = ps\<rparr>)
       (convert_providers loader_provider (uc_Providers c))"

definition former_options :: "(string \<Rightarrow> string) \<Rightarrow> config_factory_options" where
  "former_options environment =
     \<lparr>cfo_Environment = Some environment, cfo_SearchPaths = [], cfo_AutoMigrate = False, cfo_PreferUnified = False,
      cfo_CreateBackup = False\<rparr>"

definition to_former :: "host \<times> unified_config run \<Rightarrow> host \<times> gzh_config run" where
  "to_former x =
     (case x of
        (h, Done c) \<Rightarrow> (h, case convert_unified_to_legacy c of None \<Rightarrow> Crashed | Some g \<Rightarrow> Done g)
      | (h, Failed e) \<Rightarrow> (h, Failed e)
      | (h, Crashed) \<Rightarrow> (h, Crashed))"

definition load_config_with_env :: "config_tools \<Rightarrow> string list \<Rightarrow> (string \<Rightarrow> string) \<Rightarrow> host \<Rightarrow> host \<times> gzh_config run" where
  "load_config_with_env tools paths environment h =
     to_former (factory_load_config tools (new_config_factory_with_options h paths (Some (former_options environment))) h)"

definition load_config_from_file_with_env ::
  "config_tools \<Rightarrow> string list \<Rightarrow> string \<Rightarrow> (string \<Rightarrow> string) \<Rightarrow> host \<Rightarrow> host \<times> gzh_config run" where
  "load_config_from_file_with_env tools paths name environment h =
     to_former (factory_load_from_path tools (new_config_factory_with_options h paths (Some (former_options environment))) h name)"

definition find_config_file_with_env :: "string list \<Rightarrow> (string \<Rightarrow> string) \<Rightarrow> host \<Rightarrow> string run" where
  "find_config_file_with_env paths environment h =
     factory_find_config_file (new_config_factory_with_options h paths (Some (former_options environment))) h"

definition expand_path_with_env :: "host \<Rightarrow> (string \<Rightarrow> string) \<Rightarrow> string \<Rightarrow> string" where
  "expand_path_with_env h environment path =
     (if path \<noteq> [] \<and> hd path = CHR ''~'' then
        (case (if environment ''HOME'' = [] then user_home_dir h else Some (environment ''HOME'')) of
           None \<Rightarrow> path
         | Some home \<Rightarrow> path_join [home, tl path])
      else if is_abs path then path else path_abs h path)"

section \<open>Facade\<close>

record config_facade =
  ufc_loader :: unified_loader
  ufc_config :: "unified_config option"
  ufc_loadResult :: "load_result option"
  ufc_integration :: "gzh_config option"

definition new_config_facade :: config_facade where
  "new_config_facade = \<lparr>ufc_loader = new_unified_loader, ufc_config = None, ufc_loadResult = None, ufc_integration = None\<rparr>"

definition facade_target :: "organization_config \<Rightarrow> git_target" where
  "facade_target org =
     \<lparr>gtg_Name = oc_Name org, gtg_Visibility = oc_Visibility org, gtg_Recursive = oc_Recursive org, gtg_Flatten = oc_Flatten org,
      gtg_Match = oc_Include org, gtg_CloneDir = oc_CloneDir org, gtg_Exclude = oc_Exclude org, gtg_Strategy = oc_Strategy org\<rparr>"

definition facade_provider :: "string \<Rightarrow> provider_config \<Rightarrow> gzh_provider option" where
  "facade_provider name p =
     map_option
       (\<lambda>orgs. if name = ''gitlab'' then \<lparr>gpv_Token = pc3_Token p, gpv_Orgs = [], gpv_Groups = orgs\<rparr>
              else \<lparr>gpv_Token = pc3_Token p, gpv_Orgs = orgs, gpv_Groups = []\<rparr>)
       (map_present facade_target (pc3_Organizations p))"

definition convert_to_legacy_format :: "unified_config \<Rightarrow> gzh_config option" where
  "convert_to_legacy_format c =
     map_option
       (\<lambda>ps. \<lparr>gzc_Version = uc_Version c, gzc_DefaultProvider = uc_DefaultProvider c, gzc_Providers = ps\<rparr>)
       (convert_providers facade_provider (uc_Providers c))"

definition load_configuration_from_path ::
  "config_tools \<Rightarrow> config_facade \<Rightarrow> host \<Rightarrow> string \<Rightarrow> host \<times> config_facade run" where
  "load_configuration_from_path tools f h path =
     (case load_from_path tools (ufc_loader f) h path of
        (h', Done r) \<Rightarrow>
          (h', case convert_to_legacy_format (lrs_Config r) of
                 None \<Rightarrow> Crashed
               | Some g \<Rightarrow>
                   Done (f\<lparr>ufc_loadResult := Some r, ufc_config := Some (lrs_Config r), ufc_integration := Some g\<rparr>))
      | (h', Failed e) \<Rightarrow> (h', Failed (LoadFailed e))
      | (h', Crashed) \<Rightarrow> (h', Crashed))"

definition write_configuration :: "config_tools \<Rightarrow> host \<Rightarrow> unified_config option \<Rightarrow> string \<Rightarrow> host \<times> loader_error option" where
  "write_configuration tools h c path =
     (case c of
        None \<Rightarrow> (h, Some ConfigNotLoaded)
      | Some cfg \<Rightarrow>
          (case os_mkdir_all h (path_dir path) of
             Inl e \<Rightarrow> (h, Some (TargetDirectoryFailed e))
           | Inr h1 \<Rightarrow>
               (case ct_marshal tools cfg of
                  Inl m \<Rightarrow> (h1, Some (MarshalFailed m))
                | Inr data \<Rightarrow>
                    (case os_write_file h1 path
                       (''# gzh-manager unified configuration'' @ nl @
                        ''# Generated: '' @ ct_date tools @ nl @
                        ''# Version: '' @ uc_Version cfg @ nl @
                        ''# Documentation: https://github.com/gizzahub/gzh-cli/docs/configuration.md'' @ nl @ nl @ data) of
                       Inl e \<Rightarrow> (h1, Some (ConfigWriteFailed e))
                     | Inr h2 \<Rightarrow> (h2, None)))))"

definition save_configuration :: "config_tools \<Rightarrow> host \<Rightarrow> config_facade \<Rightarrow> string \<Rightarrow> host \<times> loader_error option" where
  "save_configuration tools h f path = write_configuration tools h (ufc_config f) path"

definition get_provider_config :: "config_facade \<Rightarrow> string \<Rightarrow> provider_config option" where
  "get_provider_config f name =
     (case ufc_config f of None \<Rightarrow> None | Some c \<Rightarrow> (case gm_get (uc_Providers c) name of None \<Rightarrow> None | Some p \<Rightarrow> p))"

definition update_config :: "(unified_config \<Rightarrow> unified_config) \<Rightarrow> config_facade \<Rightarrow> config_facade \<times> loader_error option" where
  "update_config upd f =
     (case ufc_config f of
        None \<Rightarrow> (f, Some ConfigNotLoaded)
      | Some c \<Rightarrow> (f\<lparr>ufc_config := Some (upd c)\<rparr>, None))"

definition update_ide_config :: "ide_config option \<Rightarrow> config_facade \<Rightarrow> config_facade \<times> loader_error option" where
  "update_ide_config v = update_config (\<lambda>c. c\<lparr>uc_IDE := v\<rparr>)"

definition update_dev_env_config :: "dev_env_config option \<Rightarrow> config_facade \<Rightarrow> config_facade \<times> loader_error option" where
  "update_dev_env_config v = update_config (\<lambda>c. c\<lparr>uc_DevEnv := v\<rparr>)"

definition update_net_env_config :: "net_env_config option \<Rightarrow> config_facade \<Rightarrow> config_facade \<times> loader_error option" where
  "update_net_env_config v = update_config (\<lambda>c. c\<lparr>uc_NetEnv := v\<rparr>)"

definition update_ssh_config :: "ssh_config_settings option \<Rightarrow> config_facade \<Rightarrow> config_facade \<times> loader_error option" where
  "update_ssh_config v = update_config (\<lambda>c. c\<lparr>uc_SSHConfig := v\<rparr>)"

datatype facade_verdict = NotLoaded | Verdict verdict

definition facade_validate_configuration :: "pattern_compiler \<Rightarrow> config_facade \<Rightarrow> facade_verdict" where
  "facade_validate_configuration compile f =
     (case ufc_config f of None \<Rightarrow> NotLoaded | Some c \<Rightarrow> Verdict (validate_unified_config compile c))"

definition is_feature_enabled :: "config_facade \<Rightarrow> string \<Rightarrow> bool" where
  "is_feature_enabled f feature =
     (case ufc_config f of
        None \<Rightarrow> False
      | Some c \<Rightarrow>
          if feature = ''ide'' then (case uc_IDE c of None \<Rightarrow> False | Some i \<Rightarrow> idec_Enabled i)
          else if feature = ''dev-env'' then (case uc_DevEnv c of None \<Rightarrow> False | Some d \<Rightarrow> dec_Enabled d)
          else if feature = ''net-env'' then (case uc_NetEnv c of None \<Rightarrow> False | Some n \<Rightarrow> nec_Enabled n)
          else False)"

text \<open>\<open>None\<close>: the concurrency settings of the global settings are dereferenced though they are nil.\<close>

definition get_configuration_summary :: "config_facade \<Rightarrow> (string, go_any) gomap option" where
  "get_configuration_summary f =
     (case ufc_config f of
        None \<Rightarrow> Some []
      | Some c \<Rightarrow>
          (case (case uc_Global c of
                   None \<Rightarrow> Some []
                 | Some g \<Rightarrow>
                     (case gs_Concurrency g of
                        None \<Rightarrow> None
                      | Some cc \<Rightarrow>
                          Some [(''global'', JMap
                            [(''clone_base_dir'', JString (gs_CloneBaseDir g)), (''default_strategy'', JString (gs_DefaultStrategy g)),
                             (''default_visibility'', JString (gs_DefaultVisibility g)),
                             (''clone_workers'', JInt (cs2_CloneWorkers cc)), (''update_workers'', JInt (cs2_UpdateWorkers cc))])])) of
             None \<Rightarrow> None
           | Some glob \<Rightarrow>
               Some ([(''version'', JString (uc_Version c)), (''default_provider'', JString (uc_DefaultProvider c))] @ glob @
                     [(''providers'', JInt (int (length (uc_Providers c)))),
                      (''features'', JMap (map (\<lambda>n. (n, JBool (is_feature_enabled f n))) [''ide'', ''dev-env'', ''net-env'']))])))"

definition example_configuration :: unified_config where
  "example_configuration =
     default_unified_config\<lparr>uc_Providers :=
       [(''github'', Some \<lparr>pc3_Token = ''${GITHUB_TOKEN}'', pc3_APIURL = [],
           pc3_Organizations = [Some \<lparr>oc_Name = ''your-org-name'', oc_CloneDir = ''~/repos/github/your-org-name'',
             oc_Visibility = ''all'', oc_Strategy = ''reset'', oc_Include = [], oc_Exclude = [''test-.*'', ''.*-archive''],
             oc_Flatten = False, oc_Recursive = False, oc_RepoManagement = None, oc_Labels = []\<rparr>],
           pc3_OrgsAlias = [], pc3_GroupsAlias = [], pc3_Settings = None, pc3_Legacy = None\<rparr>)]\<rparr>"

definition create_default_configuration ::
  "config_tools \<Rightarrow> host \<Rightarrow> config_facade \<Rightarrow> string \<Rightarrow> host \<times> config_facade \<times> loader_error option" where
  "create_default_configuration tools h f path =
     (let f' = f\<lparr>ufc_config := Some example_configuration\<rparr>; (h', err) = save_configuration tools h f' path
      in (h', f', err))"

definition facade_targets :: "host \<Rightarrow> config_facade \<Rightarrow> bulk_target list option" where
  "facade_targets h f = map_option (get_all_targets h) (ufc_integration f)"

definition facade_provider_targets :: "host \<Rightarrow> config_facade \<Rightarrow> string \<Rightarrow> bulk_target list option" where
  "facade_provider_targets h f name = map_option (\<lambda>g. get_targets_by_provider h g name) (ufc_integration f)"

definition facade_providers :: "config_facade \<Rightarrow> string list" where
  "facade_providers f = (case ufc_integration f of None \<Rightarrow> [] | Some g \<Rightarrow> get_configured_providers g)"

definition mask_token :: "string \<Rightarrow> string" where
  "mask_token token =
     (if token = [] then ''Not configured''
      else if hd token = CHR ''$'' then token
      else if 8 < length token then take 4 token @ ''***'' @ drop (length token - 4) token
      else ''***'')"

definition facade_warnings :: "config_facade \<Rightarrow> string list" where
  "facade_warnings f = (case ufc_loadResult f of None \<Rightarrow> [] | Some r \<Rightarrow> lrs_Warnings r)"

definition facade_required_actions :: "config_facade \<Rightarrow> string list" where
  "facade_required_actions f = (case ufc_loadResult f of None \<Rightarrow> [] | Some r \<Rightarrow> lrs_RequiredActions r)"

definition set_auto_migrate :: "bool \<Rightarrow> config_facade \<Rightarrow> config_facade" where
  "set_auto_migrate b f = f\<lparr>ufc_loader := (ufc_loader f)\<lparr>ul_AutoMigrate := b\<rparr>\<rparr>"

definition set_prefer_unified :: "bool \<Rightarrow> config_facade \<Rightarrow> config_facade" where
  "set_prefer_unified b f = f\<lparr>ufc_loader := (ufc_loader f)\<lparr>ul_PreferUnified := b\<rparr>\<rparr>"

section \<open>Conversions\<close>

text \<open>What a loaded configuration guarantees: no nil provider and no nil organisation.\<close>

definition no_nil :: "unified_config \<Rightarrow> bool" where
  "no_nil c \<longleftrightarrow> list_all (\<lambda>(n, p). p \<noteq> None \<and> None \<notin> set (pc3_Organizations (the p))) (uc_Providers c)"

lemma map_present_iff: "(\<exists>ys. map_present f xs = Some ys) \<longleftrightarrow> None \<notin> set xs"
  by (induction f xs rule: map_present.induct) auto

lemma map_present_map: "map_present (g \<circ> f) xs = map_option (map g) (map_present f xs)"
  by (induction f xs rule: map_present.induct) (auto simp: option.map_comp o_def)

lemma convert_providers_total:
  assumes "\<And>n p. None \<notin> set (pc3_Organizations p) \<Longrightarrow> \<exists>q. f n p = Some q"
    and "list_all (\<lambda>(n, p). p \<noteq> None \<and> None \<notin> set (pc3_Organizations (the p))) ps"
  shows "\<exists>qs. convert_providers f ps = Some qs"
  using assms(2)
proof (induction ps)
  case (Cons x ps)
  then obtain n p where x: "x = (n, Some p)" "None \<notin> set (pc3_Organizations p)" by (cases x) auto
  obtain q where "f n p = Some q" using assms(1) [OF x(2)] by blast
  moreover obtain qs where "convert_providers f ps = Some qs" using Cons by auto
  ultimately show ?case by (simp add: x(1))
qed simp

lemma accepted_no_nil: "validate_unified_config compile c = Accepted \<Longrightarrow> no_nil c"
  by (fastforce simp: configuration_accepted_iff no_nil_def list_all_iff provider_ok_def split: option.splits)

lemma converted_no_nil: "no_nil (fst (convert_bulk_clone now source legacy))"
  by (auto simp: no_nil_def convert_bulk_clone_config migrated_provider_def convert_gitlab_def Let_def)

lemma loaded_no_nil:
  assumes "load_from_path tools l h path = (h', Done r)"
  shows "no_nil (lrs_Config r)"
proof -
  obtain p where p: "load_from_specific_path tools l h p = (h', Done r)"
    using assms by (auto simp: load_from_path_def split: if_splits option.splits)
  show ?thesis
  proof (cases "load_legacy_as_unified tools l h p = (h', Done r)")
    case True
    then show ?thesis
      by (auto simp: load_legacy_as_unified_def perform_auto_migration_def convert_legacy_to_unified_def converted_no_nil
          split: sum.splits if_splits prod.splits option.splits elim!: migrate_done)
  next
    case False
    then have "load_unified_config tools h p = Done r"
      using p by (auto simp: load_from_specific_path_def split: if_splits sum.splits bool.splits)
    then show ?thesis
      by (auto simp: load_unified_config_def Let_def accepted_no_nil split: sum.splits verdict.splits)
  qed
qed

text \<open>So a facade never crashes on a configuration that the loader returned.\<close>

lemma facade_loads:
  assumes "load_from_path tools (ufc_loader f) h path = (h', Done r)"
  shows "\<exists>g. convert_to_legacy_format (lrs_Config r) = Some g \<and>
    load_configuration_from_path tools f h path =
      (h', Done (f\<lparr>ufc_loadResult := Some r, ufc_config := Some (lrs_Config r), ufc_integration := Some g\<rparr>))"
proof -
  have p: "\<exists>q. facade_provider n p = Some q" if "None \<notin> set (pc3_Organizations p)" for n p
    using that map_present_iff [of facade_target "pc3_Organizations p"] by (auto simp: facade_provider_def)
  have "\<exists>ps. convert_providers facade_provider (uc_Providers (lrs_Config r)) = Some ps"
    using loaded_no_nil [OF assms] by (intro convert_providers_total p) (simp_all add: no_nil_def)
  then show ?thesis using assms by (auto simp: convert_to_legacy_format_def load_configuration_from_path_def)
qed

definition forget_target :: "git_target \<Rightarrow> git_target" where
  "forget_target t = t\<lparr>gtg_Recursive := False, gtg_Flatten := False\<rparr>"

definition forget_provider :: "gzh_provider \<Rightarrow> gzh_provider" where
  "forget_provider p = p\<lparr>gpv_Orgs := map forget_target (gpv_Orgs p), gpv_Groups := map forget_target (gpv_Groups p)\<rparr>"

definition forget_config :: "gzh_config \<Rightarrow> gzh_config" where
  "forget_config g = g\<lparr>gzc_Providers := map (\<lambda>(n, p). (n, forget_provider p)) (gzc_Providers g)\<rparr>"

lemma loader_target_forgets: "loader_target = forget_target \<circ> facade_target"
  by (simp add: fun_eq_iff loader_target_def facade_target_def forget_target_def)

lemma loader_provider_forgets: "loader_provider n p = map_option forget_provider (facade_provider n p)"
  by (simp add: loader_provider_def facade_provider_def loader_target_forgets map_present_map [unfolded o_def] option.map_comp o_def forget_provider_def
      if_distrib cong: if_cong)

lemma former_conversion_forgets: "convert_unified_to_legacy c = map_option forget_config (convert_to_legacy_format c)"
proof -
  have "convert_providers loader_provider ps = map_option (map (\<lambda>(n, p). (n, forget_provider p))) (convert_providers facade_provider ps)" for ps
    by (induction facade_provider ps rule: convert_providers.induct)
      (auto simp: loader_provider_forgets option.map_comp o_def split: option.splits)
  then show ?thesis
    by (simp add: convert_unified_to_legacy_def convert_to_legacy_format_def option.map_comp o_def forget_config_def)
qed

text \<open>
  A configuration read through the former interface is the one of the facade without its
  \<open>recursive\<close> and \<open>flatten\<close>: no target of it is recursive or flattened.
\<close>

theorem former_interface_forgets:
  assumes "load_config_from_file_with_env tools paths name environment h = (h', Done g)"
  shows "\<exists>c full. snd (factory_load_from_path tools (new_config_factory_with_options h paths (Some (former_options environment))) h name) = Done c \<and>
    convert_to_legacy_format c = Some full \<and> g = forget_config full \<and>
    list_all (\<lambda>t. \<not> btg_Recursive t \<and> \<not> btg_Flatten t) (get_all_targets h g)"
proof -
  obtain c where c: "snd (factory_load_from_path tools (new_config_factory_with_options h paths (Some (former_options environment))) h name) = Done c"
    and g: "convert_unified_to_legacy c = Some g"
    using assms by (auto simp: load_config_from_file_with_env_def to_former_def split: prod.splits run.splits option.splits)
  obtain full where f: "convert_to_legacy_format c = Some full" "g = forget_config full"
    using g by (auto simp: former_conversion_forgets)
  have "list_all (\<lambda>t. \<not> btg_Recursive t \<and> \<not> btg_Flatten t) (get_all_targets h g)"
    by (auto simp: f(2) forget_config_def get_all_targets_def list_all_iff forget_provider_def forget_target_def org_target_def group_target_def)
  then show ?thesis using c f by blast
qed

section \<open>Where a configuration is looked for\<close>

lemma find_in_paths_single:
  assumes "\<And>p. p \<in> set ps \<Longrightarrow> factory_expand_path f h p \<noteq> target \<Longrightarrow> os_stat h (factory_expand_path f h p) = Absent"
    and "os_stat h target = Regular" and "\<exists>p\<in>set ps. factory_expand_path f h p = target"
  shows "find_in_paths f h ps = Done target"
  using assms(1,3)
proof (induction ps)
  case (Cons p ps)
  show ?case
  proof (cases "factory_expand_path f h p = target")
    case True
    then show ?thesis using assms(2) by (simp add: regular_file_exists_def)
  next
    case False
    then have "regular_file_exists h (factory_expand_path f h p) = Some False" using Cons.prems(1) by (simp add: regular_file_exists_def)
    then show ?thesis using Cons False by auto
  qed
qed simp

text \<open>
  The files of configurations on a machine: the names in the working directory, in the two directories of
  the user, in the directory of the system, and in directories named after the tilde. \<open>home\<close> and
  \<open>cwd\<close> are the elements of the home and the working directory.
\<close>

definition config_names :: "string list" where
  "config_names = [''gzh.yaml'', ''gzh.yml'', ''config.yaml'', ''config.yml'', ''bulk-clone.yaml'', ''bulk-clone.yml'']"

definition config_folders :: "string list \<Rightarrow> string list \<Rightarrow> string list list" where
  "config_folders home cwd =
     [cwd, home @ [''.config''], home @ [''.config'', ''gzh-manager''], [''etc'', ''gzh-manager''],
      cwd @ [''~'', ''.config''], cwd @ [''~'', ''.config'', ''gzh-manager'']]"

definition config_files :: "string list \<Rightarrow> string list \<Rightarrow> string list list" where
  "config_files home cwd = concat (map (\<lambda>d. map (\<lambda>n. d @ [n]) config_names) (config_folders home cwd))"

definition default_file :: "string list \<Rightarrow> string list" where
  "default_file home = home @ [''.config'', ''gzh.yaml'']"

text \<open>The directories of a user and of a process, and what a path of each kind stands for.\<close>

definition places :: "host \<Rightarrow> string list \<Rightarrow> string list \<Rightarrow> bool" where
  "places h home cwd \<longleftrightarrow>
     ho_env h ''HOME'' = rooted_path home \<and> home \<noteq> [] \<and> list_all plain_element home \<and>
     ho_cwd h = rooted_path cwd \<and> cwd \<noteq> [] \<and> list_all plain_element cwd \<and>
     cwd \<noteq> home @ [''.config''] \<and> home \<noteq> cwd @ [''~'']"

lemma config_file_plain: "places h home cwd \<Longrightarrow> es \<in> set (config_files home cwd) \<Longrightarrow> list_all plain_element es"
  by (auto simp: config_files_def config_folders_def config_names_def places_def plain_element_def)


lemma default_paths_by_element:
  "get_default_search_paths =
     map (\<lambda>n. join ''/'' [''.'', n]) config_names @
     map (\<lambda>n. join ''/'' [''~'', ''.config'', n]) [''gzh.yaml'', ''gzh.yml''] @
     map (\<lambda>n. join ''/'' [''~'', ''.config'', ''gzh-manager'', n]) [''gzh.yaml'', ''gzh.yml'', ''bulk-clone.yaml'', ''bulk-clone.yml''] @
     map (\<lambda>n. rooted_path [''etc'', ''gzh-manager'', n]) [''gzh.yaml'', ''gzh.yml'', ''bulk-clone.yaml'', ''bulk-clone.yml'']"
  "system_config_paths = map (\<lambda>n. rooted_path [''etc'', ''gzh-manager'', n]) config_names"
  by (simp_all add: get_default_search_paths_def system_config_paths_def config_names_def rooted_path_def)

lemma config_name_plain: "n \<in> set config_names \<Longrightarrow> plain_element n"
  by (auto simp: config_names_def plain_element_def)

lemma plain_folders [simp]: "plain_element ''.config''" "plain_element ''gzh-manager''" "plain_element ''etc''" "plain_element ''~''"
  by (simp_all add: plain_element_def)

lemma append_ends:
  "xs @ [a] = ys @ [e, f] \<longleftrightarrow> a = f \<and> xs = ys @ [e]"
  "xs @ [a, b, c] = ys @ [e, f] \<longleftrightarrow> b = e \<and> c = f \<and> ys = xs @ [a]"
  "xs @ [a, b, c, d] = ys @ [e, f] \<longleftrightarrow> c = e \<and> d = f \<and> ys = xs @ [a, b]"
  by (auto simp: append_eq_append_conv2 append_eq_Cons_conv)

text \<open>What the paths of the two searches stand for: to the loader the tilde is a name like any other.\<close>

definition candidates :: "string list \<Rightarrow> string list \<Rightarrow> string \<Rightarrow> (string \<times> string list) list" where
  "candidates home cwd n =
     [(join ''/'' [''.'', n], cwd @ [n]),
      (join ''/'' [''~'', ''.config'', n], cwd @ [''~'', ''.config'', n]),
      (join ''/'' [''~'', ''.config'', ''gzh-manager'', n], cwd @ [''~'', ''.config'', ''gzh-manager'', n]),
      (rooted_path [''etc'', ''gzh-manager'', n], [''etc'', ''gzh-manager'', n]),
      (path_join [path_join [rooted_path home, ''.config'', ''gzh-manager''], n], home @ [''.config'', ''gzh-manager'', n])]"

lemma candidate_denotes:
  assumes "places h home cwd" and "plain_element n" and "(p, es) \<in> set (candidates home cwd n)"
  shows "denotes_path h p es"
proof -
  have e: "home \<noteq> []" "list_all plain_element home" "ho_cwd h = rooted_path cwd" "list_all plain_element cwd" "cwd \<noteq> []" "n \<noteq> ''.''"
    using assms(1,2) by (simp_all add: places_def plain_element_def)
  note r = denotes_relative [OF e(3,4,5)]
  have "path_join [path_join [rooted_path home, ''.config'', ''gzh-manager''], n] = rooted_path (home @ [''.config'', ''gzh-manager'', n])"
    using path_join_rooted [of home "[''.config'', ''gzh-manager'']"] path_join_rooted [of "home @ [''.config'', ''gzh-manager'']" "[n]"] e(1,2) assms(2) by simp
  then have "denotes_path h (path_join [path_join [rooted_path home, ''.config'', ''gzh-manager''], n]) (home @ [''.config'', ''gzh-manager'', n])"
    using e(2) assms(2) by (simp only:) (rule denotes_rooted, simp)
  moreover have "denotes_path h (rooted_path [''etc'', ''gzh-manager'', n]) [''etc'', ''gzh-manager'', n]"
    using assms(2) by (intro denotes_rooted) simp
  ultimately show ?thesis
    using assms(2,3) e(6) r [of "[''.'', n]"] r [of "[''~'', ''.config'', n]"] r [of "[''~'', ''.config'', ''gzh-manager'', n]"]
    by (auto simp: candidates_def)
qed

lemma candidate_file:
  assumes "places h home cwd" and "n \<in> set config_names" and "(p, es) \<in> set (candidates home cwd n)"
  shows "es \<in> set (config_files home cwd) \<and> es \<noteq> default_file home"
proof
  show "es \<in> set (config_files home cwd)" using assms(2,3) by (auto simp: candidates_def config_files_def config_folders_def)
  have "home \<noteq> []" "cwd \<noteq> home @ [''.config'']" "home \<noteq> cwd @ [''~'']" using assms(1) by (simp_all add: places_def)
  then show "es \<noteq> default_file home" using assms(3) by (auto simp: candidates_def default_file_def append_ends Cons_eq_append_conv)
qed

lemma default_path_cases:
  assumes "p \<in> set get_default_search_paths"
  shows "\<exists>n\<in>set config_names. p = join ''/'' [''.'', n] \<or> p = join ''/'' [''~'', ''.config'', n] \<or>
    p = join ''/'' [''~'', ''.config'', ''gzh-manager'', n] \<or> p = rooted_path [''etc'', ''gzh-manager'', n]"
proof -
  have "set [''gzh.yaml'', ''gzh.yml''] \<subseteq> set config_names"
    "set [''gzh.yaml'', ''gzh.yml'', ''bulk-clone.yaml'', ''bulk-clone.yml''] \<subseteq> set config_names" by (simp_all add: config_names_def)
  then show ?thesis using assms unfolding default_paths_by_element(1) set_append set_map by blast
qed

lemma loader_path_candidate:
  assumes "places h home cwd" and "p \<in> set (get_search_paths h (factory_loader (new_config_factory h get_default_search_paths)))"
  shows "\<exists>n\<in>set config_names. \<exists>es. (p, es) \<in> set (candidates home cwd n)"
proof -
  have "ho_env h ''HOME'' = rooted_path home" using assms(1) by (simp add: places_def)
  then have "user_home_dir h = Some (rooted_path home)" by (simp add: user_home_dir_def rooted_path_def)
  then have "p \<in> set get_default_search_paths \<union> set (home_config_paths (rooted_path home)) \<union> set system_config_paths"
    using assms(2) by (auto simp: get_search_paths_def Let_def factory_loader_def new_config_factory_def split: if_splits)
  moreover have "home_config_paths d = map (\<lambda>n. path_join [path_join [d, ''.config'', ''gzh-manager''], n]) config_names" for d
    by (simp add: home_config_paths_def config_names_def)
  moreover have "\<exists>n\<in>set config_names. q \<in> fst ` set (candidates home cwd n)" if "q \<in> set get_default_search_paths" for q
    using default_path_cases [OF that] by (fastforce simp: candidates_def simp del: join.simps)
  ultimately have "\<exists>n\<in>set config_names. p \<in> fst ` set (candidates home cwd n)"
    unfolding default_paths_by_element(2) by (auto simp: candidates_def simp del: join.simps)
  then show ?thesis by force
qed

lemma loader_path_denotes:
  assumes "places h home cwd" and "p \<in> set (get_search_paths h (factory_loader (new_config_factory h get_default_search_paths)))"
  shows "\<exists>es\<in>set (config_files home cwd) - {default_file home}. denotes_path h p es"
proof -
  obtain n es where "n \<in> set config_names" "(p, es) \<in> set (candidates home cwd n)" using loader_path_candidate [OF assms] by blast
  then show ?thesis using candidate_file [OF assms(1)] candidate_denotes [OF assms(1) config_name_plain] by blast
qed

text \<open>The factory expands a path to the file that it stands for, the tilde to the home directory.\<close>

lemma home_path_expands:
  assumes "places h home cwd" and "n \<in> set config_names" and "list_all plain_element fs"
  shows "factory_expand_path (new_config_factory h paths) h (join ''/'' (''~'' # ''.config'' # fs @ [n])) = rooted_path (home @ ''.config'' # fs @ [n])"
proof -
  have e: "ho_env h ''HOME'' = rooted_path home" "list_all plain_element home" "home \<noteq> []"
    using assms(1) by (simp_all add: places_def)
  obtain g gs where g: "fs @ [n] = g # gs" by (cases "fs @ [n]") auto
  have j: "join ''/'' (''~'' # ''.config'' # fs @ [n]) = CHR ''~'' # join ''/'' ([] # ''.config'' # fs @ [n])" by (simp add: g)
  have "path_join [rooted_path home, join ''/'' ([] # ''.config'' # fs @ [n])] =
      rooted_path (home @ filter (\<lambda>e. e \<noteq> [] \<and> e \<noteq> ''.'') ([] # ''.config'' # fs @ [n]))"
  proof (rule path_join_elements [OF e(2,3)])
    show "list_all (\<lambda>e. e = [] \<or> e = ''.'' \<or> plain_element e) ([] # ''.config'' # fs @ [n])"
      using assms(3) config_name_plain [OF assms(2)] by (auto simp: list_all_iff)
  qed (simp_all add: g)
  moreover have "filter (\<lambda>e. e \<noteq> [] \<and> e \<noteq> ''.'') fs = fs" using assms(3) by (simp add: filter_id_conv list_all_iff plain_element_def)
  moreover have "n \<noteq> []" "n \<noteq> ''.''" using config_name_plain [OF assms(2)] by (simp_all add: plain_element_def)
  ultimately have "path_join [rooted_path home, join ''/'' ([] # ''.config'' # fs @ [n])] = rooted_path (home @ ''.config'' # fs @ [n])" by simp
  then show ?thesis unfolding j factory_expand_path_def by (simp add: new_config_factory_def e(1) del: join.simps) (simp add: rooted_path_def)
qed

lemma home_file_expands:
  "places h home cwd \<Longrightarrow> factory_expand_path (new_config_factory h paths) h ''~/.config/gzh.yaml'' = rooted_path (default_file home)"
  using home_path_expands [of h home cwd "''gzh.yaml''" "[]"] by (simp add: config_names_def default_file_def)

lemma factory_path_denotes:
  assumes "places h home cwd" and "p \<in> set get_default_search_paths"
  shows "\<exists>es\<in>set (config_files home cwd). factory_expand_path (new_config_factory h paths) h p = rooted_path es"
proof -
  let ?x = "factory_expand_path (new_config_factory h paths) h"
  have c: "?x (join ''/'' [''.'', n]) = rooted_path (cwd @ [n])" if "n \<in> set config_names" for n
  proof -
    have "denotes_path h (join ''/'' [''.'', n]) (cwd @ [n])"
      using candidate_denotes [OF assms(1) config_name_plain [OF that]] by (simp add: candidates_def)
    moreover have "CHR ''$'' \<notin> set n" using that by (auto simp: config_names_def)
    ultimately show ?thesis
      by (simp add: factory_expand_path_def new_config_factory_def os_expand_no_dollar is_abs_def denotes_path_def Let_def)
  qed
  note t = home_path_expands [OF assms(1)]
  have a: "?x (rooted_path [''etc'', ''gzh-manager'', n]) = rooted_path [''etc'', ''gzh-manager'', n]" if "n \<in> set config_names" for n
    using that by (auto simp: config_names_def factory_expand_path_def os_expand_no_dollar rooted_path_def is_abs_def)
  have m: "d @ [n] \<in> set (config_files home cwd)" if "d \<in> set (config_folders home cwd)" "n \<in> set config_names" for d n
    using that by (auto simp: config_files_def)
  consider n where "n \<in> set config_names" "p = join ''/'' [''.'', n]"
    | n where "n \<in> set config_names" "p = join ''/'' [''~'', ''.config'', n]"
    | n where "n \<in> set config_names" "p = join ''/'' [''~'', ''.config'', ''gzh-manager'', n]"
    | n where "n \<in> set config_names" "p = rooted_path [''etc'', ''gzh-manager'', n]"
    using default_path_cases [OF assms(2)] by blast
  then show ?thesis
  proof cases
    case 1
    then show ?thesis using c m [of cwd] by (auto simp: config_folders_def)
  next
    case 2
    then show ?thesis using t [of n "[]"] m [of "home @ [''.config'']" n] by (auto simp: config_folders_def)
  next
    case 3
    then show ?thesis using t [of n "[''gzh-manager'']"] m [of "home @ [''.config'', ''gzh-manager'']" n] by (auto simp: config_folders_def)
  next
    case 4
    then show ?thesis using a m [of "[''etc'', ''gzh-manager'']" n] by (auto simp: config_folders_def)
  qed
qed

text \<open>
  Property C38. On a machine whose only configuration is \<open>gzh.yaml\<close> in the \<open>.config\<close> directory of the
  user, with the default search paths, \<open>FindConfigFile\<close> returns that file and \<open>LoadConfig\<close> reports
  that there is no configuration: the loader searches the directory named by a tilde below the working
  directory instead of the user's, so the file is in none of its places.
\<close>

theorem default_file_found_not_loaded:
  assumes "places h home cwd" and "ho_env h ''GZH_CONFIG_PATH'' = []"
    and "os_stat h (rooted_path (default_file home)) = Regular"
    and "\<And>es. es \<in> set (config_files home cwd) \<Longrightarrow> es \<noteq> default_file home \<Longrightarrow> os_stat h (rooted_path es) = Absent"
  shows "factory_find_config_file (new_config_factory h get_default_search_paths) h = Done (rooted_path (default_file home)) \<and>
    (\<exists>paths. factory_load_config tools (new_config_factory h get_default_search_paths) h = (h, Failed (LoadFailed (NoConfiguration paths))))"
proof -
  let ?f = "new_config_factory h get_default_search_paths"
  have e: "env_config_path ?f h = Done []" using assms(2) by (simp add: env_config_path_def new_config_factory_def)
  have "find_in_paths ?f h (cff_searchPaths ?f) = Done (rooted_path (default_file home))"
  proof (rule find_in_paths_single)
    fix p
    assume "p \<in> set (cff_searchPaths ?f)" and n: "factory_expand_path ?f h p \<noteq> rooted_path (default_file home)"
    then obtain es where "es \<in> set (config_files home cwd)" "factory_expand_path ?f h p = rooted_path es"
      using factory_path_denotes [OF assms(1)] by (auto simp: new_config_factory_def)
    then show "os_stat h (factory_expand_path ?f h p) = Absent" using assms(4) n by auto
  next
    show "\<exists>p\<in>set (cff_searchPaths ?f). factory_expand_path ?f h p = rooted_path (default_file home)"
      using home_file_expands [OF assms(1)]
      by (intro bexI [of _ "''~/.config/gzh.yaml''"]) (simp_all add: new_config_factory_def get_default_search_paths_def)
  qed (rule assms(3))
  moreover have "os_stat h p = Absent" if "p \<in> set (get_search_paths h (factory_loader ?f))" for p
    using loader_path_denotes [OF assms(1) that] assms(4) stat_denoted by fastforce
  then have "List.find (file_exists h) (get_search_paths h (factory_loader ?f)) = None"
    by (auto simp: find_None_iff file_exists_def)
  ultimately show ?thesis
    by (simp add: factory_find_config_file_def e factory_load_config_def factory_load_from_path_def load_from_path_def)
qed

text \<open>The variable that names a path through a file ends the process.\<close>

lemma env_path_crash:
  assumes "cff_environment f ''GZH_CONFIG_PATH'' \<noteq> []"
    and "os_stat h (factory_expand_path f h (cff_environment f ''GZH_CONFIG_PATH'')) = StatFails"
  shows "factory_load_config tools f h = (h, Crashed)"
  using assms by (simp add: factory_load_config_def env_config_path_def regular_file_exists_def Let_def)

section \<open>The configuration that is written as a start\<close>

theorem example_accepted:
  assumes "compile ''test-.*'' \<noteq> None" and "compile ''.*-archive'' \<noteq> None"
  shows "validate_unified_config compile example_configuration = Accepted"
  using assms
  by (simp add: configuration_accepted_iff example_configuration_def default_unified_config_def provider_ok_def organization_ok_def
      is_valid_target_visibility_def is_valid_strategy_def)

lemma summary_crashes:
  assumes "ufc_config f = Some c" and "uc_Global c = Some g" and "gs_Concurrency g = None"
  shows "get_configuration_summary f = None"
  using assms by (simp add: get_configuration_summary_def)

section \<open>Examples\<close>

definition home_host :: host where
  "home_host = \<lparr>ho_root = Folder [(''u'', Folder [(''.config'', Folder [(''gzh.yaml'', Plain ''version'')])]), (''w'', Folder [])],
     ho_cwd = ''/w'', ho_env = \<lambda>n. if n = ''HOME'' then ''/u'' else []\<rparr>"

theorem default_file_found_not_loaded_witness:
  "factory_find_config_file (new_config_factory home_host get_default_search_paths) home_host = Done ''/u/.config/gzh.yaml'' \<and>
    (\<exists>paths. factory_load_config loader_tools (new_config_factory home_host get_default_search_paths) home_host = (home_host, Failed (LoadFailed (NoConfiguration paths))))"
proof -
  have p: "places home_host [''u''] [''w'']" by (simp add: places_def home_host_def rooted_path_def plain_element_def)
  have e: "ho_env home_host ''GZH_CONFIG_PATH'' = []" by (simp add: home_host_def)
  have t: "os_stat home_host (rooted_path (default_file [''u''])) = Regular" by code_simp
  have "list_all (\<lambda>es. es = default_file [''u''] \<or> os_stat home_host (rooted_path es) = Absent) (config_files [''u''] [''w''])" by code_simp
  then have o: "os_stat home_host (rooted_path es) = Absent"
    if "es \<in> set (config_files [''u''] [''w''])" "es \<noteq> default_file [''u'']" for es
    using that by (auto simp: list_all_iff)
  have r: "rooted_path (default_file [''u'']) = ''/u/.config/gzh.yaml''" by code_simp
  show ?thesis using default_file_found_not_loaded [OF p e t o, where tools = loader_tools] unfolding r .
qed

definition group_configuration :: unified_config where
  "group_configuration =
     example_configuration\<lparr>uc_Providers :=
       [(''gitlab'', Some \<lparr>pc3_Token = ''t'', pc3_APIURL = [],
           pc3_Organizations = [Some \<lparr>oc_Name = ''g'', oc_CloneDir = ''/r'', oc_Visibility = [], oc_Strategy = [], oc_Include = [],
             oc_Exclude = [], oc_Flatten = True, oc_Recursive = True, oc_RepoManagement = None, oc_Labels = []\<rparr>],
           pc3_OrgsAlias = [], pc3_GroupsAlias = [], pc3_Settings = None, pc3_Legacy = None\<rparr>)]\<rparr>"

definition group_tools :: config_tools where
  "group_tools = loader_tools\<lparr>ct_yaml := \<lambda>_. Inr group_configuration\<rparr>"

theorem former_interface_forgets_witness:
  "\<exists>h' g. load_config_from_file_with_env group_tools get_default_search_paths ''/u/.config/gzh.yaml'' (ho_env home_host) home_host = (h', Done g) \<and>
    list_all (\<lambda>t. \<not> btg_Recursive t) (get_all_targets home_host g)"
proof -
  have "case snd (load_config_from_file_with_env group_tools get_default_search_paths ''/u/.config/gzh.yaml'' (ho_env home_host) home_host) of
      Done g \<Rightarrow> True | _ \<Rightarrow> False" by code_simp
  then obtain h' g where
    l: "load_config_from_file_with_env group_tools get_default_search_paths ''/u/.config/gzh.yaml'' (ho_env home_host) home_host = (h', Done g)"
    by (cases "load_config_from_file_with_env group_tools get_default_search_paths ''/u/.config/gzh.yaml'' (ho_env home_host) home_host")
      (auto split: run.splits)
  then show ?thesis using former_interface_forgets [OF l] by (auto simp: list_all_iff)
qed

theorem example_accepted_witness: "validate_unified_config (\<lambda>_. Some (\<lambda>_. True)) example_configuration = Accepted"
  by (rule example_accepted) simp_all

end
