(* ===== verification/StartupCheck.thy ===== *)
theory StartupCheck
  imports ConfigFactory GoRegex
begin

text \<open>
  The two validators that collect everything they find: \<open>ConfigValidator\<close> of
  \<open>pkg/config/validator.go\<close> for the former configuration and \<open>StartupValidator\<close> of
  \<open>startup_validator.go\<close> for the unified one. What the validator library reports for the struct tags
  is a parameter, as are \<open>url.Parse\<close> and the messages of the regular expression compiler.
\<close>

section \<open>Patterns\<close>

definition full_match :: "regex \<Rightarrow> string \<Rightarrow> bool" where
  "full_match r s \<longleftrightarrow> nullable (foldl (\<lambda>q c. deriv c q) r s)"

lemma full_match_iff: "full_match r s \<longleftrightarrow> denotes r s"
  unfolding full_match_def by (induction s arbitrary: r) (simp_all add: nullable_iff denotes_deriv)

definition some_digits :: regex where "some_digits = RSeq (RClass is_digit) (RStar (RClass is_digit))"

definition word_char :: "char \<Rightarrow> bool" where
  "word_char c \<longleftrightarrow> is_alnum c \<or> c = CHR ''.'' \<or> c = CHR ''-''"

definition version_pattern :: regex where
  "version_pattern = seq_list [some_digits, literal ''.'', some_digits, literal ''.'', some_digits]"

definition suffix_pattern :: "string \<Rightarrow> regex" where
  "suffix_pattern mark = RAlt REmpty (seq_list [literal mark, RClass word_char, RStar (RClass word_char)])"

definition is_valid_version_format :: "string \<Rightarrow> bool" where
  "is_valid_version_format v = full_match (seq_list [version_pattern, suffix_pattern ''-'', suffix_pattern ''+'']) v"

definition sq :: "string \<Rightarrow> string" where "sq s = CHR 0x27 # s @ [CHR 0x27]"

section \<open>ConfigValidator\<close>

datatype config_issue = IssueError string | IssueWarning string

definition issue_errors :: "config_issue list \<Rightarrow> string list" where
  "issue_errors issues = List.map_filter (\<lambda>i. case i of IssueError m \<Rightarrow> Some (''ERROR: '' @ m) | _ \<Rightarrow> None) issues"

definition issue_warnings :: "config_issue list \<Rightarrow> string list" where
  "issue_warnings issues = List.map_filter (\<lambda>i. case i of IssueWarning m \<Rightarrow> Some (''WARNING: '' @ m) | _ \<Rightarrow> None) issues"

definition required_field_issues :: "gzh_config \<Rightarrow> config_issue list" where
  "required_field_issues c =
     (if gzc_Version c = [] then [IssueError (''missing required field '' @ sq ''version'')] else []) @
     (if gzc_Providers c = [] then [IssueWarning ''no providers configured''] else [])"

definition version_issues :: "string \<Rightarrow> config_issue list" where
  "version_issues v =
     (if v = [] \<or> full_match version_pattern v then []
      else [IssueError (''invalid version format '' @ sq v @ '', expected semantic version (e.g., '' @ sq ''1.0.0'' @ '')'')])"

definition target_providers :: "string list" where
  "target_providers = [''github'', ''gitlab'', ''gitea'']"

definition default_provider_issues :: "string \<Rightarrow> config_issue list" where
  "default_provider_issues p =
     (if p = [] \<or> p \<in> set target_providers then []
      else [IssueError (''invalid default_provider '' @ sq p @ '', must be one of: '' @ join '', '' target_providers)])"

definition token_issues :: "string \<Rightarrow> string \<Rightarrow> config_issue list" where
  "token_issues name token =
     (if prefix ''${'' token \<and> suffix ''}'' token then
        (if drop 2 (butlast token) = []
         then [IssueError (''provider '' @ sq name @ '': empty environment variable name in token'')] else [])
      else
        (if length token < 10 then [IssueWarning (''provider '' @ sq name @ '': token appears to be too short'')] else []) @
        (if name = ''github'' \<and> \<not> prefix ''ghp_'' token \<and> \<not> prefix ''github_pat_'' token
         then [IssueWarning (''provider '' @ sq name @ '': token does not match expected GitHub token format'')]
         else if name = ''gitlab'' \<and> \<not> prefix ''glpat-'' token
         then [IssueWarning (''provider '' @ sq name @ '': token does not match expected GitLab token format'')]
         else []))"

fun exclude_issues :: "string \<Rightarrow> nat \<Rightarrow> string list \<Rightarrow> config_issue list" where
  "exclude_issues path i [] = []"
| "exclude_issues path i (e # es) =
     (if 2 < count_list e (CHR ''*'')
      then [IssueWarning (path @ ''.exclude['' @ show_nat i @ '']: complex glob pattern '' @ sq e @ '' may not work as expected'')]
      else []) @ exclude_issues path (Suc i) es"

definition git_target_issues :: "pattern_compiler \<Rightarrow> (string \<Rightarrow> string) \<Rightarrow> string \<Rightarrow> git_target \<Rightarrow> config_issue list" where
  "git_target_issues compile why path g =
     (if gtg_Name g = [] then [IssueError (path @ '': missing required field '' @ sq ''name'')] else []) @
     (if gtg_Visibility g \<noteq> [] \<and> gtg_Visibility g \<notin> {''public'', ''private'', ''all''}
      then [IssueError (path @ '': invalid visibility '' @ sq (gtg_Visibility g) @ '', must be one of: public, private, all'')] else []) @
     (if gtg_Strategy g \<noteq> [] \<and> gtg_Strategy g \<notin> {''reset'', ''pull'', ''fetch''}
      then [IssueError (path @ '': invalid strategy '' @ sq (gtg_Strategy g) @ '', must be one of: reset, pull, fetch'')] else []) @
     (if gtg_Match g \<noteq> [] \<and> compile (gtg_Match g) = None
      then [IssueError (path @ '': invalid regex pattern '' @ sq (gtg_Match g) @ '': '' @ why (gtg_Match g))] else []) @
     (if gtg_CloneDir g \<noteq> [] \<and> contains (gtg_CloneDir g) ''..''
      then [IssueWarning (path @ '': clone_dir contains '' @ sq ''..'' @ '' which may be unsafe'')] else []) @
     exclude_issues path 0 (gtg_Exclude g)"

definition indexed :: "string \<Rightarrow> (string \<Rightarrow> 'a \<Rightarrow> 'b list) \<Rightarrow> 'a list \<Rightarrow> 'b list" where
  "indexed path check xs = concat (map (\<lambda>(i, x). check (path @ ''['' @ show_nat i @ '']'') x) (enumerate 0 xs))"

definition git_provider_issues :: "pattern_compiler \<Rightarrow> (string \<Rightarrow> string) \<Rightarrow> string \<Rightarrow> gzh_provider \<Rightarrow> config_issue list" where
  "git_provider_issues compile why name p =
     (if name \<notin> set target_providers
      then [IssueError (''invalid provider name '' @ sq name @ '', must be one of: '' @ join '', '' target_providers)] else []) @
     (if gpv_Token p = [] then [IssueError (''provider '' @ sq name @ '': missing required field '' @ sq ''token'')]
      else token_issues name (gpv_Token p)) @
     (if name = ''gitlab'' then
        (if gpv_Groups p = [] \<and> gpv_Orgs p \<noteq> []
         then [IssueWarning (''provider '' @ sq name @ '': '' @ sq ''orgs'' @ '' field should be '' @ sq ''groups'' @ '' for GitLab'')] else []) @
        indexed (name @ ''.groups'') (git_target_issues compile why) (gpv_Groups p)
      else
        (if gpv_Orgs p = [] \<and> gpv_Groups p \<noteq> []
         then [IssueWarning (''provider '' @ sq name @ '': '' @ sq ''groups'' @ '' field should be '' @ sq ''orgs'' @ '' for '' @ name)] else []) @
        indexed (name @ ''.orgs'') (git_target_issues compile why) (gpv_Orgs p)) @
     (if gpv_Orgs p = [] \<and> gpv_Groups p = []
      then [IssueWarning (''provider '' @ sq name @ '': no organizations or groups configured'')] else [])"

definition config_issues :: "pattern_compiler \<Rightarrow> (string \<Rightarrow> string) \<Rightarrow> gzh_config \<Rightarrow> config_issue list" where
  "config_issues compile why c =
     required_field_issues c @ version_issues (gzc_Version c) @ default_provider_issues (gzc_DefaultProvider c) @
     concat (map (\<lambda>(n, p). git_provider_issues compile why n p) (gzc_Providers c))"

text \<open>The message of the error, or none.\<close>

definition validate_config :: "pattern_compiler \<Rightarrow> (string \<Rightarrow> string) \<Rightarrow> gzh_config \<Rightarrow> string option" where
  "validate_config compile why c =
     (let errs = issue_errors (config_issues compile why c)
      in if errs = [] then None else Some (''configuration validation failed:'' @ nl @ join nl errs))"

record validation_outcome =
  vou_Valid :: bool
  vou_Errors :: "string list"
  vou_Warnings :: "string list"

definition has_issues :: "validation_outcome \<Rightarrow> bool" where
  "has_issues r \<longleftrightarrow> vou_Errors r \<noteq> [] \<or> vou_Warnings r \<noteq> []"

text \<open>
  An error that carries \<open>ErrConfigInvalid\<close> is the result of the check, every other one says that there
  was no check. \<open>text\<close> is the text of the loader's error.
\<close>

fun is_config_invalid :: "loader_error \<Rightarrow> bool" where
  "is_config_invalid (ConfigurationInvalid p) = True"
| "is_config_invalid (LoadFailed e) = is_config_invalid e"
| "is_config_invalid (DetectFailed e) = is_config_invalid e"
| "is_config_invalid (SaveFailed e) = is_config_invalid e"
| "is_config_invalid (AutoMigrationFailed e) = is_config_invalid e"
| "is_config_invalid e = False"

definition validate_config_file ::
  "pattern_compiler \<Rightarrow> (string \<Rightarrow> string) \<Rightarrow> (loader_error \<Rightarrow> string) \<Rightarrow> gzh_config run \<Rightarrow> (validation_outcome \<times> loader_error option) option" where
  "validate_config_file compile why error_text loaded =
     (case loaded of
        Crashed \<Rightarrow> None
      | Failed e \<Rightarrow>
          Some (\<lparr>vou_Valid = False, vou_Errors = [error_text e], vou_Warnings = []\<rparr>, if is_config_invalid e then None else Some e)
      | Done c \<Rightarrow>
          Some (\<lparr>vou_Valid = (validate_config compile why c = None),
                 vou_Errors = issue_errors (config_issues compile why c), vou_Warnings = issue_warnings (config_issues compile why c)\<rparr>, None))"

record validation_entry =
  ven_Field :: string
  ven_Value :: string
  ven_Message :: string
  ven_Severity :: string

definition get_validation_errors :: "pattern_compiler \<Rightarrow> (string \<Rightarrow> string) \<Rightarrow> gzh_config \<Rightarrow> validation_entry list" where
  "get_validation_errors compile why c =
     map (\<lambda>m. \<lparr>ven_Field = [], ven_Value = [], ven_Message = m, ven_Severity = ''error''\<rparr>) (issue_errors (config_issues compile why c)) @
     map (\<lambda>m. \<lparr>ven_Field = [], ven_Value = [], ven_Message = m, ven_Severity = ''warning''\<rparr>) (issue_warnings (config_issues compile why c))"

definition is_valid_config :: "pattern_compiler \<Rightarrow> (string \<Rightarrow> string) \<Rightarrow> gzh_config \<Rightarrow> bool" where
  "is_valid_config compile why c \<longleftrightarrow> validate_config compile why c = None"

section \<open>StartupValidator\<close>

record startup_error =
  sve_Field :: string
  sve_Tag :: string
  sve_Value :: string
  sve_Message :: string

record startup_warning =
  svw_Field :: string
  svw_Message :: string

record startup_result =
  svr_IsValid :: bool
  svr_Errors :: "startup_error list"
  svr_Warnings :: "startup_warning list"
  svr_Summary :: string

datatype startup_issue = SError startup_error | SWarn startup_warning

definition add_startup_error :: "string \<Rightarrow> string \<Rightarrow> string \<Rightarrow> string \<Rightarrow> startup_issue" where
  "add_startup_error field tag value message = SError \<lparr>sve_Field = field, sve_Tag = tag, sve_Value = value, sve_Message = message\<rparr>"

definition add_warning :: "string \<Rightarrow> string \<Rightarrow> startup_issue" where
  "add_warning field message = SWarn \<lparr>svw_Field = field, svw_Message = message\<rparr>"

definition startup_errors :: "startup_issue list \<Rightarrow> startup_error list" where
  "startup_errors issues = List.map_filter (\<lambda>i. case i of SError e \<Rightarrow> Some e | SWarn w \<Rightarrow> None) issues"

definition startup_warnings :: "startup_issue list \<Rightarrow> startup_warning list" where
  "startup_warnings issues = List.map_filter (\<lambda>i. case i of SWarn w \<Rightarrow> Some w | SError e \<Rightarrow> None) issues"

definition has_error_for_field :: "startup_issue list \<Rightarrow> string \<Rightarrow> bool" where
  "has_error_for_field issues field \<longleftrightarrow> list_ex (\<lambda>e. sve_Field e = field) (startup_errors issues)"

text \<open>An error of the validator library, with the parts the code reads.\<close>

record tag_error =
  tge_StructField :: string
  tge_Field :: string
  tge_Tag :: string
  tge_Param :: string
  tge_Value :: string

definition get_error_message :: "tag_error \<Rightarrow> string" where
  "get_error_message e =
     (let f = tge_Field e; t = tge_Tag e; p = tge_Param e
      in if t = ''required'' then f @ '' is required''
         else if t = ''oneof'' then f @ '' must be one of: '' @ p
         else if t = ''min'' then f @ '' must have at least '' @ p @ '' items''
         else if t = ''max'' then f @ '' must have at most '' @ p @ '' items''
         else if t = ''strategy'' then f @ '' must be '' @ sq ''reset'' @ '', '' @ sq ''pull'' @ '', or '' @ sq ''fetch''
         else if t = ''provider'' then f @ '' must be '' @ sq ''github'' @ '', '' @ sq ''gitlab'' @ '', '' @ sq ''gitea'' @ '', or '' @ sq ''gogs''
         else if t = ''visibility'' then f @ '' must be '' @ sq ''public'' @ '', '' @ sq ''private'' @ '', or '' @ sq ''all''
         else if t = ''dirpath'' then f @ '' must be a valid directory path''
         else if t = ''regexpattern'' then f @ '' must be a valid regular expression''
         else if t = ''envtoken'' then f @ '' must be a valid token or environment variable''
         else f @ '' failed validation for tag '' @ sq t)"

definition process_validation_errors :: "tag_error list \<Rightarrow> startup_issue list" where
  "process_validation_errors es = map (\<lambda>e. add_startup_error (tge_StructField e) (tge_Tag e) (tge_Value e) (get_error_message e)) es"

definition is_valid_provider :: "string \<Rightarrow> bool" where
  "is_valid_provider p \<longleftrightarrow> p \<in> {''github'', ''gitlab'', ''gitea'', ''gogs''}"

text \<open>The functions registered for custom tags.\<close>

definition tag_directory_path :: "string \<Rightarrow> bool" where
  "tag_directory_path p \<longleftrightarrow> p \<noteq> [] \<and> (prefix ''/'' p \<or> prefix ''~'' p \<or> prefix ''$'' p \<or> contains p '':'')"

definition tag_regex_pattern :: "pattern_compiler \<Rightarrow> string \<Rightarrow> bool" where
  "tag_regex_pattern compile p \<longleftrightarrow> p = [] \<or> compile p \<noteq> None"

definition tag_environment_token :: "string \<Rightarrow> bool" where
  "tag_environment_token t \<longleftrightarrow> t \<noteq> [] \<and> \<not> contains t '' ''"

definition tag_timeout :: "int \<Rightarrow> bool" where "tag_timeout d \<longleftrightarrow> 0 < d"

definition tag_concurrency :: "int \<Rightarrow> bool" where "tag_concurrency n \<longleftrightarrow> 0 < n \<and> n \<le> 100"

definition env_var_of :: "string \<Rightarrow> string option" where
  "env_var_of token =
     (if prefix ''${'' token \<and> suffix ''}'' token then Some (trim_with (\<lambda>c. c = CHR '' '') (drop 2 (butlast token))) else None)"

definition validate_token_format :: "string \<Rightarrow> string \<Rightarrow> startup_issue list" where
  "validate_token_format field token =
     (case env_var_of token of
        Some v \<Rightarrow> if v = [] then [add_startup_error field ''envtoken'' token ''environment variable name cannot be empty''] else []
      | None \<Rightarrow>
          if token \<noteq> [] \<and> list_all word_char token then []
          else [add_warning field ''Token contains special characters that may cause issues''])"

definition validate_directory_path_value :: "string \<Rightarrow> string \<Rightarrow> startup_issue list" where
  "validate_directory_path_value field p =
     (if contains p ''$'' then []
      else if \<not> prefix ''/'' p \<and> \<not> prefix ''~'' p \<and> \<not> prefix ''.'' p
      then [add_warning field ''Directory path should be absolute or start with ~, $, or .''] else [])"

definition visibility_issues :: "string \<Rightarrow> string \<Rightarrow> string \<Rightarrow> startup_issue list" where
  "visibility_issues field what v =
     (if v \<noteq> [] \<and> \<not> is_valid_target_visibility v
      then [add_startup_error field ''visibility'' v (what @ '' must be '' @ sq ''public'' @ '', '' @ sq ''private'' @ '', or '' @ sq ''all'')] else [])"

definition strategy_issues :: "string \<Rightarrow> string \<Rightarrow> string \<Rightarrow> startup_issue list" where
  "strategy_issues field what s =
     (if s \<noteq> [] \<and> \<not> is_valid_strategy s
      then [add_startup_error field ''strategy'' s (what @ '' must be '' @ sq ''reset'' @ '', '' @ sq ''pull'' @ '', or '' @ sq ''fetch'')] else [])"

definition startup_organization_issues ::
  "pattern_compiler \<Rightarrow> (string \<Rightarrow> string) \<Rightarrow> string \<Rightarrow> organization_config \<Rightarrow> startup_issue list" where
  "startup_organization_issues compile why field org =
     (if oc_Name org = [] then [add_startup_error (field @ ''.Name'') ''required'' [] ''organization name is required''] else []) @
     (if oc_CloneDir org = [] then [add_startup_error (field @ ''.CloneDir'') ''required'' [] ''clone directory is required'']
      else validate_directory_path_value (field @ ''.CloneDir'') (oc_CloneDir org)) @
     visibility_issues (field @ ''.Visibility'') ''visibility'' (oc_Visibility org) @
     strategy_issues (field @ ''.Strategy'') ''strategy'' (oc_Strategy org) @
     (if oc_Include org \<noteq> [] \<and> compile (oc_Include org) = None
      then [add_startup_error (field @ ''.Include'') ''regexpattern'' (oc_Include org)
              (''include pattern is not a valid regex: '' @ why (oc_Include org))] else []) @
     indexed (field @ ''.Exclude'')
       (\<lambda>f p. if compile p = None then [add_startup_error f ''regexpattern'' p (''exclude pattern is not a valid regex: '' @ why p)] else [])
       (oc_Exclude org)"

definition startup_provider_issues ::
  "pattern_compiler \<Rightarrow> (string \<Rightarrow> string) \<Rightarrow> (string \<Rightarrow> bool) \<Rightarrow> string \<Rightarrow> provider_config \<Rightarrow> startup_issue list option" where
  "startup_provider_issues compile why url_ok name p =
     (let field = ''Providers['' @ name @ '']''
      in case map_present id (pc3_Organizations p) of
           None \<Rightarrow> None
         | Some orgs \<Rightarrow>
             Some ((if pc3_Token p = [] then [add_startup_error (field @ ''.Token'') ''required'' [] ''provider token is required'']
                    else validate_token_format (field @ ''.Token'') (pc3_Token p)) @
                   (if pc3_APIURL p \<noteq> [] \<and> \<not> url_ok (pc3_APIURL p)
                    then [add_startup_error (field @ ''.APIURL'') ''url'' (pc3_APIURL p) ''API URL must be a valid URL''] else []) @
                   indexed (field @ ''.Organizations'') (startup_organization_issues compile why) orgs))"

definition validate_timeout_settings :: "timeout_settings \<Rightarrow> startup_issue list" where
  "validate_timeout_settings t =
     (if 0 < ts_HTTPTimeout t \<and> ts_HTTPTimeout t < nanosecond_second
      then [add_warning ''Global.Timeouts.HTTPTimeout'' ''HTTP timeout is very short (< 1s), this may cause request failures''] else []) @
     (if 0 < ts_GitTimeout t \<and> ts_GitTimeout t < 30 * nanosecond_second
      then [add_warning ''Global.Timeouts.GitTimeout'' ''Git timeout is short (< 30s), this may cause issues with large repositories''] else []) @
     (if 0 < ts_RateLimitTimeout t \<and> ts_RateLimitTimeout t < 300 * nanosecond_second
      then [add_warning ''Global.Timeouts.RateLimitTimeout'' ''Rate limit timeout is short (< 5m), this may cause frequent rate limit errors''] else [])"

definition validate_concurrency_settings :: "concurrency_settings \<Rightarrow> startup_issue list" where
  "validate_concurrency_settings c =
     (if 50 < cs2_CloneWorkers c
      then [add_warning ''Global.Concurrency.CloneWorkers'' ''Very high clone worker count (> 50) may overwhelm the system or API rate limits''] else []) @
     (if 50 < cs2_UpdateWorkers c
      then [add_warning ''Global.Concurrency.UpdateWorkers'' ''Very high update worker count (> 50) may overwhelm the system or API rate limits''] else []) @
     (if 20 < cs2_APIWorkers c
      then [add_warning ''Global.Concurrency.APIWorkers'' ''Very high API worker count (> 20) may trigger rate limits''] else [])"

definition validate_global_settings :: "global_settings \<Rightarrow> startup_issue list" where
  "validate_global_settings g =
     strategy_issues ''Global.DefaultStrategy'' ''default strategy'' (gs_DefaultStrategy g) @
     visibility_issues ''Global.DefaultVisibility'' ''default visibility'' (gs_DefaultVisibility g) @
     (if gs_CloneBaseDir g \<noteq> [] then validate_directory_path_value ''Global.CloneBaseDir'' (gs_CloneBaseDir g) else []) @
     (case gs_Timeouts g of None \<Rightarrow> [] | Some t \<Rightarrow> validate_timeout_settings t) @
     (case gs_Concurrency g of None \<Rightarrow> [] | Some c \<Rightarrow> validate_concurrency_settings c)"

fun all_provider_issues ::
  "(string \<Rightarrow> provider_config \<Rightarrow> startup_issue list option) \<Rightarrow> (string, provider_config option) gomap \<Rightarrow> startup_issue list option" where
  "all_provider_issues check [] = Some []"
| "all_provider_issues check ((n, None) # ps) = None"
| "all_provider_issues check ((n, Some p) # ps) =
     (case check n p of
        None \<Rightarrow> None
      | Some issues \<Rightarrow> map_option (\<lambda>rest. issues @ rest) (all_provider_issues check ps))"

text \<open>\<open>before\<close> holds what the struct tags gave.\<close>

definition validate_business_rules ::
  "pattern_compiler \<Rightarrow> (string \<Rightarrow> string) \<Rightarrow> (string \<Rightarrow> bool) \<Rightarrow> startup_issue list \<Rightarrow> unified_config \<Rightarrow> startup_issue list option" where
  "validate_business_rules compile why url_ok before c =
     (let version =
            (if uc_Version c \<noteq> [] \<and> \<not> has_error_for_field before ''Version'' \<and> \<not> is_valid_version_format (uc_Version c)
             then [add_startup_error ''Version'' ''version_format'' (uc_Version c) ''version must be in semantic versioning format (e.g., 1.0.0)'']
             else []);
          provider =
            (if uc_DefaultProvider c \<noteq> [] \<and> \<not> has_error_for_field (before @ version) ''DefaultProvider'' \<and>
                gm_get (uc_Providers c) (uc_DefaultProvider c) = None
             then [add_startup_error ''DefaultProvider'' ''provider_exists'' (uc_DefaultProvider c) ''default provider must exist in providers configuration'']
             else []);
          empty =
            (if uc_Providers c = [] then [add_startup_error ''Providers'' ''required'' [] ''at least one provider must be configured''] else [])
      in map_option
           (\<lambda>issues. version @ provider @ empty @ issues @
              (case uc_Global c of None \<Rightarrow> [] | Some g \<Rightarrow> validate_global_settings g))
           (all_provider_issues (startup_provider_issues compile why url_ok) (uc_Providers c)))"

definition check_configuration_warnings :: "(string \<Rightarrow> string) \<Rightarrow> unified_config \<Rightarrow> startup_issue list" where
  "check_configuration_warnings env c =
     (let orgs = (\<Sum>(n, p)\<leftarrow>uc_Providers c. case p of None \<Rightarrow> 0 | Some q \<Rightarrow> length (pc3_Organizations q))
      in (if uc_Providers c \<noteq> [] \<and> orgs = 0
          then [add_warning ''Providers'' ''No organizations configured, the application will not have any targets to process''] else []) @
         concat (map (\<lambda>(n, p).
           case p of
             None \<Rightarrow> []
           | Some q \<Rightarrow>
               (case env_var_of (pc3_Token q) of
                  Some v \<Rightarrow> if env v = []
                    then [add_warning (''Providers['' @ n @ ''].Token'') (''Environment variable '' @ v @ '' is not set'')] else []
                | None \<Rightarrow> [])) (uc_Providers c)))"

definition build_startup_result :: "startup_issue list \<Rightarrow> startup_result" where
  "build_startup_result issues =
     (let es = startup_errors issues; ws = startup_warnings issues
      in \<lparr>svr_IsValid = (es = []), svr_Errors = es, svr_Warnings = ws,
          svr_Summary =
            (if es = [] then
               (if ws \<noteq> [] then ''Configuration is valid with '' @ show_nat (length ws) @ '' warnings'' else ''Configuration is valid'')
             else ''Configuration is invalid with '' @ show_nat (length es) @ '' errors'' @
               (if ws \<noteq> [] then '' and '' @ show_nat (length ws) @ '' warnings'' else []))\<rparr>)"

definition validate_startup ::
  "pattern_compiler \<Rightarrow> (string \<Rightarrow> string) \<Rightarrow> (string \<Rightarrow> bool) \<Rightarrow> (string \<Rightarrow> string) \<Rightarrow> (unified_config \<Rightarrow> tag_error list) \<Rightarrow>
   unified_config \<Rightarrow> startup_result option" where
  "validate_startup compile why url_ok env tags c =
     (let before = process_validation_errors (tags c)
      in map_option
           (\<lambda>rules. build_startup_result (before @ rules @ check_configuration_warnings env c))
           (validate_business_rules compile why url_ok before c))"

definition basic_target_issues :: "string \<Rightarrow> git_target \<Rightarrow> startup_issue list" where
  "basic_target_issues field g =
     (if gtg_Name g = [] then [add_startup_error (field @ ''.Name'') ''required'' [] ''target name is required''] else []) @
     visibility_issues (field @ ''.Visibility'') ''visibility'' (gtg_Visibility g) @
     strategy_issues (field @ ''.Strategy'') ''strategy'' (gtg_Strategy g)"

definition basic_provider_issues :: "string \<Rightarrow> gzh_provider \<Rightarrow> startup_issue list" where
  "basic_provider_issues name p =
     (let field = ''Providers['' @ name @ '']''
      in (if gpv_Token p = [] then [add_startup_error (field @ ''.Token'') ''required'' [] ''provider token is required''] else []) @
         indexed (field @ ''.Orgs'') basic_target_issues (gpv_Orgs p) @
         indexed (field @ ''.Groups'') basic_target_issues (gpv_Groups p))"

definition validate_config_startup :: "(gzh_config \<Rightarrow> tag_error list) \<Rightarrow> gzh_config \<Rightarrow> startup_result" where
  "validate_config_startup tags c =
     build_startup_result
       (process_validation_errors (tags c) @
        (if gzc_Version c = [] then [add_startup_error ''Version'' ''required'' [] ''version is required''] else []) @
        concat (map (\<lambda>(n, p). basic_provider_issues n p) (gzc_Providers c)))"

section \<open>What the validators agree on\<close>

named_theorems issue_simps \<open>when a list of issues has no error\<close>

lemma startup_errors_append [issue_simps]: "startup_errors (xs @ ys) = startup_errors xs @ startup_errors ys"
  and startup_errors_Nil [issue_simps]: "startup_errors [] = []"
  and startup_errors_error [issue_simps]: "startup_errors (add_startup_error f t v m # xs) = \<lparr>sve_Field = f, sve_Tag = t, sve_Value = v, sve_Message = m\<rparr> # startup_errors xs"
  and startup_errors_warning [issue_simps]: "startup_errors (add_warning f m # xs) = startup_errors xs"
  by (simp_all add: startup_errors_def List.map_filter_def add_startup_error_def add_warning_def)

lemma startup_errors_concat: "startup_errors (concat xss) = [] \<longleftrightarrow> (\<forall>xs\<in>set xss. startup_errors xs = [])"
  by (induction xss) (simp_all add: issue_simps)

lemma indexed_errors:
  assumes "\<And>f x. startup_errors (check f x) = [] \<longleftrightarrow> ok x"
  shows "startup_errors (indexed path check xs) = [] \<longleftrightarrow> list_all ok xs"
proof -
  have "(\<forall>(i, x)\<in>set (enumerate 0 xs). ok x) \<longleftrightarrow> (\<forall>x\<in>set xs. ok x)"
    using map_snd_enumerate [of 0 xs] by (metis (no_types, lifting) case_prodD case_prodI2 imageE image_eqI list.set_map snd_conv surj_pair)
  then show ?thesis by (auto simp: indexed_def startup_errors_concat assms list_all_iff split: prod.splits)
qed

lemma no_errors_in [issue_simps]:
  "startup_errors (validate_directory_path_value f p) = []"
  "startup_errors (visibility_issues f w v) = [] \<longleftrightarrow> v = [] \<or> is_valid_target_visibility v"
  "startup_errors (strategy_issues f w v) = [] \<longleftrightarrow> v = [] \<or> is_valid_strategy v"
  by (simp_all add: validate_directory_path_value_def visibility_issues_def strategy_issues_def issue_simps)

lemma organization_errors: "startup_errors (startup_organization_issues compile why f org) = [] \<longleftrightarrow> organization_ok compile org"
  by (auto simp: startup_organization_issues_def organization_ok_def issue_simps list_all_iff
      indexed_errors [where ok = "\<lambda>p. compile p \<noteq> None"] split: if_splits)

lemma map_present_id: "map_present id xs = Some ys \<longleftrightarrow> xs = map Some ys"
  by (induction "id :: 'a \<Rightarrow> 'a" xs arbitrary: ys rule: map_present.induct) auto

lemma provider_errors:
  assumes "startup_provider_issues compile why url_ok n p = Some issues" and "startup_errors issues = []"
  shows "pc3_Token p \<noteq> [] \<and> list_all (\<lambda>g. case g of None \<Rightarrow> False | Some o' \<Rightarrow> organization_ok compile o') (pc3_Organizations p)"
proof -
  obtain orgs where o: "pc3_Organizations p = map Some orgs"
    and i: "startup_errors (indexed (''Providers['' @ n @ ''].Organizations'') (startup_organization_issues compile why) orgs) = []"
    and t: "pc3_Token p \<noteq> []"
    using assms by (auto simp: startup_provider_issues_def Let_def map_present_id issue_simps split: option.splits if_splits)
  show ?thesis using i t by (simp add: o indexed_errors [OF organization_errors] list_all_iff)
qed

lemma all_provider_errors:
  assumes "all_provider_issues check ps = Some issues" and "startup_errors issues = []" and "(n, p) \<in> set ps"
  shows "\<exists>q ys. p = Some q \<and> check n q = Some ys \<and> startup_errors ys = []"
  using assms
proof (induction check ps arbitrary: issues rule: all_provider_issues.induct)
  case (3 check m q ps)
  then show ?case by (auto simp: issue_simps split: option.splits)
qed auto

text \<open>
  Property C39. What the start-up validation finds valid is accepted by the loader exactly when every provider
  has an organisation; that the library checks the version as its tag says is the premise.
\<close>

theorem startup_agrees_with_loader:
  assumes tags: "(\<exists>e\<in>set (tags c). tge_StructField e = ''Version'') \<longleftrightarrow> uc_Version c \<noteq> ''1.0.0''"
    and run: "validate_startup compile why url_ok env tags c = Some r" and valid: "svr_IsValid r"
  shows "validate_unified_config compile c = Accepted \<longleftrightarrow>
    list_all (\<lambda>(n, p). \<exists>q. p = Some q \<and> pc3_Organizations q \<noteq> []) (uc_Providers c)"
proof -
  let ?before = "process_validation_errors (tags c)"
  obtain rules where rules: "validate_business_rules compile why url_ok ?before c = Some rules"
    and none: "startup_errors ?before = []" "startup_errors rules = []"
    using run valid by (auto simp: validate_startup_def Let_def build_startup_result_def issue_simps)
  have "tags c = []" using none(1) by (cases "tags c") (simp_all add: process_validation_errors_def issue_simps)
  then have version: "uc_Version c = ''1.0.0''" using tags by simp
  obtain issues where iss: "all_provider_issues (startup_provider_issues compile why url_ok) (uc_Providers c) = Some issues"
    and clean: "startup_errors issues = []" and ne: "uc_Providers c \<noteq> []"
    using rules none(2) by (auto simp: validate_business_rules_def Let_def issue_simps split: if_splits)
  have "provider_ok compile p \<longleftrightarrow> (\<exists>q. p = Some q \<and> pc3_Organizations q \<noteq> [])" if "(n, p) \<in> set (uc_Providers c)" for n p
    using all_provider_errors [OF iss clean that] provider_errors [of compile why url_ok n]
    by (auto simp: provider_ok_def)
  then show ?thesis using version ne by (auto simp: configuration_accepted_iff list_all_iff)
qed

section \<open>The validators of the former configuration\<close>

lemma issue_errors_append [issue_simps]: "issue_errors (xs @ ys) = issue_errors xs @ issue_errors ys"
  and issue_errors_Nil [issue_simps]: "issue_errors [] = []"
  and issue_errors_error [issue_simps]: "issue_errors (IssueError m # xs) = (''ERROR: '' @ m) # issue_errors xs"
  and issue_errors_warning [issue_simps]: "issue_errors (IssueWarning m # xs) = issue_errors xs"
  by (simp_all add: issue_errors_def List.map_filter_def)

lemma issue_errors_concat: "issue_errors (concat xss) = [] \<longleftrightarrow> (\<forall>xs\<in>set xss. issue_errors xs = [])"
  by (induction xss) (simp_all add: issue_simps)

lemma exclude_no_error [issue_simps]: "issue_errors (exclude_issues path i es) = []"
  by (induction es arbitrary: i) (simp_all add: issue_simps)

lemma git_target_errors: "issue_errors (git_target_issues compile why path g) = [] \<longleftrightarrow> validate_target compile g = None"
  by (auto simp: git_target_issues_def validate_target_def issue_simps)

lemma indexed_issue_errors:
  assumes "\<And>f x. issue_errors (check f x) = [] \<longleftrightarrow> ok x"
  shows "issue_errors (indexed path check xs) = [] \<longleftrightarrow> list_all ok xs"
proof -
  have "(\<forall>(i, x)\<in>set (enumerate 0 xs). ok x) \<longleftrightarrow> (\<forall>x\<in>set xs. ok x)"
    using map_snd_enumerate [of 0 xs] by (metis (no_types, lifting) case_prodD case_prodI2 imageE image_eqI list.set_map snd_conv surj_pair)
  then show ?thesis by (auto simp: indexed_def issue_errors_concat assms list_all_iff split: prod.splits)
qed

lemma git_provider_errors:
  "issue_errors (git_provider_issues compile why n p) = [] \<longleftrightarrow>
     n \<in> set target_providers \<and> gpv_Token p \<noteq> ''${}'' \<and> validate_git_provider compile n p = None"
proof -
  have t: "issue_errors (token_issues n t) = [] \<longleftrightarrow> t \<noteq> ''${}''" for t
  proof (cases "prefix ''${'' t \<and> suffix ''}'' t")
    case True
    then obtain v where t: "t = ''${'' @ v" by (auto simp: prefix_def)
    have l: "last t = CHR ''}''" using True by (auto simp: suffix_def)
    then have "v \<noteq> []" using t by (cases v) auto
    then have v: "t = ''${'' @ v" "v \<noteq> []" "last v = CHR ''}''" using t l by auto
    have "drop 2 (butlast t) = butlast v" using v(1,2) by (simp add: butlast_append)
    moreover have "butlast v = [] \<longleftrightarrow> v = ''}''" using v(2,3) by (cases v rule: rev_cases) auto
    ultimately show ?thesis using True v(1) by (simp add: token_issues_def issue_simps)
  next
    case False
    moreover have "prefix ''${'' ''${}'' \<and> suffix ''}'' ''${}''" by code_simp
    ultimately have "t \<noteq> ''${}''" by metis
    then show ?thesis using False by (auto simp: token_issues_def issue_simps)
  qed
  have known: "n \<in> set target_providers \<Longrightarrow> validate_git_provider compile n p = None \<longleftrightarrow>
      gpv_Token p \<noteq> [] \<and> (\<forall>g\<in>set (if n = ''gitlab'' then gpv_Groups p else gpv_Orgs p). validate_target compile g = None)"
    by (auto simp: validate_git_provider_def target_providers_def)
  have name: "issue_errors (if n \<notin> set target_providers then [IssueError m] else []) = [] \<longleftrightarrow> n \<in> set target_providers" for m
    by (simp add: issue_simps)
  have warn: "issue_errors (if b then [IssueWarning m] else []) = []" for b m by (simp add: issue_simps)
  have token: "issue_errors (if gpv_Token p = [] then [IssueError m] else token_issues n (gpv_Token p)) = [] \<longleftrightarrow>
      gpv_Token p \<noteq> [] \<and> gpv_Token p \<noteq> ''${}''" for m by (simp add: issue_simps t)
  have "issue_errors (git_provider_issues compile why n p) = [] \<longleftrightarrow>
      n \<in> set target_providers \<and> (gpv_Token p \<noteq> [] \<and> gpv_Token p \<noteq> ''${}'') \<and>
      list_all (\<lambda>g. validate_target compile g = None) (if n = ''gitlab'' then gpv_Groups p else gpv_Orgs p)"
    unfolding git_provider_issues_def issue_errors_append append_is_Nil_conv name token warn
    by (cases "n = ''gitlab''")
      (simp_all only: if_True if_False simp_thms issue_errors_append append_is_Nil_conv warn
        indexed_issue_errors [OF git_target_errors] split del: if_split)
  then show ?thesis using known unfolding list_all_iff by blast
qed

text \<open>
  The validator that collects finds no error exactly when the one that stops at the first finds
  none and moreover the version is numeric, the default provider and the provider names are supported and no
  token is an empty variable.
\<close>

theorem collecting_validator_exact:
  "validate_config compile why c = None \<longleftrightarrow>
     validate_gzh_config compile c = None \<and> full_match version_pattern (gzc_Version c) \<and>
     (gzc_DefaultProvider c = [] \<or> gzc_DefaultProvider c \<in> set target_providers) \<and>
     list_all (\<lambda>(n, p). n \<in> set target_providers \<and> gpv_Token p \<noteq> ''${}'') (gzc_Providers c)"
proof -
  have v: "\<not> full_match version_pattern []" by code_simp
  have p: "issue_errors (concat (map (\<lambda>(n, p). git_provider_issues compile why n p) ps)) = [] \<longleftrightarrow>
      (\<forall>(n, p)\<in>set ps. n \<in> set target_providers \<and> gpv_Token p \<noteq> ''${}'' \<and> validate_git_provider compile n p = None)" for ps
    by (induction ps) (auto simp: issue_simps git_provider_errors)
  have s: "validate_gzh_config compile c = None \<longleftrightarrow>
      gzc_Version c \<noteq> [] \<and> (\<forall>x\<in>set (gzc_Providers c). validate_git_provider compile (fst x) (snd x) = None)"
    by (simp add: validate_gzh_config_def case_prod_unfold)
  have "validate_config compile why c = None \<longleftrightarrow>
      gzc_Version c \<noteq> [] \<and> (gzc_Version c = [] \<or> full_match version_pattern (gzc_Version c)) \<and>
      (gzc_DefaultProvider c = [] \<or> gzc_DefaultProvider c \<in> set target_providers) \<and>
      (\<forall>(n, p)\<in>set (gzc_Providers c). n \<in> set target_providers \<and> gpv_Token p \<noteq> ''${}'' \<and> validate_git_provider compile n p = None)"
    by (simp add: validate_config_def Let_def config_issues_def issue_simps required_field_issues_def version_issues_def
        default_provider_issues_def p)
  then show ?thesis using v unfolding s list_all_iff case_prod_unfold by auto
qed

text \<open>A legacy file whose content breaks its rules is reported as a check that could not be made.\<close>

lemma legacy_rules_not_a_result:
  "validate_config_file compile why error_text (Failed (LoadFailed (LegacyLoadFailed (LegacyInvalid m)))) =
     Some (\<lparr>vou_Valid = False, vou_Errors = [error_text (LoadFailed (LegacyLoadFailed (LegacyInvalid m)))], vou_Warnings = []\<rparr>,
           Some (LoadFailed (LegacyLoadFailed (LegacyInvalid m))))"
  by (simp add: validate_config_file_def)

text \<open>The two rules for directories disagree on the directory of the default configuration.\<close>

lemma directory_rules_disagree: "\<not> tag_directory_path ''./github'' \<and> validate_directory_path_value f ''./github'' = []"
  by (simp add: tag_directory_path_def validate_directory_path_value_def contains_def) code_simp

section \<open>Examples\<close>

definition version_tags :: "unified_config \<Rightarrow> tag_error list" where
  "version_tags c =
     (if uc_Version c = ''1.0.0'' then []
      else [\<lparr>tge_StructField = ''Version'', tge_Field = ''Version'', tge_Tag = ''oneof'', tge_Param = ''1.0.0'', tge_Value = uc_Version c\<rparr>])"

lemma version_tags_documented: "(\<exists>e\<in>set (version_tags c). tge_StructField e = ''Version'') \<longleftrightarrow> uc_Version c \<noteq> ''1.0.0''"
  by (simp add: version_tags_def)

abbreviation startup_of :: "unified_config \<Rightarrow> startup_result option" where
  "startup_of \<equiv> validate_startup (\<lambda>_. Some (\<lambda>_. True)) (\<lambda>_. []) (\<lambda>_. True) (\<lambda>_. ''set'') version_tags"

theorem startup_agrees_with_loader_witness:
  "\<exists>r. startup_of example_configuration = Some r \<and> svr_IsValid r \<and>
    validate_unified_config (\<lambda>_. Some (\<lambda>_. True)) example_configuration = Accepted"
proof -
  have "case startup_of example_configuration of None \<Rightarrow> False | Some r \<Rightarrow> svr_IsValid r" by code_simp
  then obtain r where r: "startup_of example_configuration = Some r" "svr_IsValid r" by (auto split: option.splits)
  have "list_all (\<lambda>(n, p). \<exists>q. p = Some q \<and> pc3_Organizations q \<noteq> []) (uc_Providers example_configuration)"
    by (simp add: example_configuration_def)
  then show ?thesis using startup_agrees_with_loader [OF version_tags_documented r] r by blast
qed

text \<open>A provider without organisations is valid for the start-up validation and refused by the loader.\<close>

definition ownerless_configuration :: unified_config where
  "ownerless_configuration =
     default_unified_config\<lparr>uc_Providers := [(''github'', Some (migrated_provider ''t'' [] []))]\<rparr>"

lemma ownerless_disagreement:
  "\<exists>r. startup_of ownerless_configuration = Some r \<and> svr_IsValid r \<and>
    validate_unified_config compile ownerless_configuration = Rejected (ProviderInvalid ''github'' (NoOrganizations ''github''))"
proof -
  have "case startup_of ownerless_configuration of None \<Rightarrow> False | Some r \<Rightarrow> svr_IsValid r" by code_simp
  then show ?thesis
    by (auto simp: validate_unified_config_def ownerless_configuration_def default_unified_config_def migrated_provider_def split: option.splits)
qed

end
