(* ===== verification/CloneProgress.thy ===== *)
theory CloneProgress
  imports GoValue
begin

text \<open>
  The progress of a bulk clone, \<open>pkg/synclone/progress.go\<close>: the tracker, its totals and the estimate
  of the remaining time. A clock that is read is an argument; the rendered lines are left out but
  for the width of the bar. The conversion of a float that no integer can hold is a parameter.
\<close>

section \<open>Tracker\<close>

record repository_progress =
  rpg_Name :: string
  rpg_Status :: string
  rpg_StartTime :: int
  rpg_UpdatedTime :: "int option"
  rpg_Message :: string
  rpg_Error :: string
  rpg_Progress :: float64

record progress_tracker =
  pgt_repositories :: "(string, repository_progress) gomap"
  pgt_totalRepos :: int
  pgt_startTime :: int
  pgt_displayMode :: string

definition new_progress :: "int \<Rightarrow> string \<Rightarrow> repository_progress" where
  "new_progress now name =
     \<lparr>rpg_Name = name, rpg_Status = ''pending'', rpg_StartTime = now, rpg_UpdatedTime = None, rpg_Message = [], rpg_Error = [],
      rpg_Progress = FNum 0\<rparr>"

definition new_progress_tracker :: "int \<Rightarrow> string list \<Rightarrow> string \<Rightarrow> progress_tracker" where
  "new_progress_tracker now names mode =
     \<lparr>pgt_repositories = foldl (\<lambda>m n. gm_put n (new_progress now n) m) [] names,
      pgt_totalRepos = int (length names), pgt_startTime = now, pgt_displayMode = mode\<rparr>"

definition change_repository :: "string \<Rightarrow> (repository_progress \<Rightarrow> repository_progress) \<Rightarrow> progress_tracker \<Rightarrow> progress_tracker" where
  "change_repository name upd pt =
     (case gm_get (pgt_repositories pt) name of
        None \<Rightarrow> pt
      | Some r \<Rightarrow> pt\<lparr>pgt_repositories := gm_put name (upd r) (pgt_repositories pt)\<rparr>)"

text \<open>The start time is never zero: it is set when the tracker is made.\<close>

definition update_repository :: "int \<Rightarrow> string \<Rightarrow> string \<Rightarrow> string \<Rightarrow> float64 \<Rightarrow> progress_tracker \<Rightarrow> progress_tracker" where
  "update_repository now name status message progress =
     change_repository name
       (\<lambda>r. r\<lparr>rpg_Status := status, rpg_Message := message, rpg_Progress := progress, rpg_UpdatedTime := Some now\<rparr>)"

definition set_repository_error :: "int \<Rightarrow> string \<Rightarrow> string \<Rightarrow> progress_tracker \<Rightarrow> progress_tracker" where
  "set_repository_error now name err =
     change_repository name
       (\<lambda>r. r\<lparr>rpg_Status := ''failed'', rpg_Error := err, rpg_Progress := FNum 0, rpg_UpdatedTime := Some now\<rparr>)"

definition complete_repository :: "int \<Rightarrow> string \<Rightarrow> string \<Rightarrow> progress_tracker \<Rightarrow> progress_tracker" where
  "complete_repository now name message =
     change_repository name
       (\<lambda>r. r\<lparr>rpg_Status := ''completed'', rpg_Message := message, rpg_Progress := FNum 1, rpg_UpdatedTime := Some now\<rparr>)"

section \<open>Totals\<close>

record progress_totals =
  pto_completed :: int
  pto_failed :: int
  pto_pending :: int
  pto_progress :: float64

definition active_statuses :: "string list" where
  "active_statuses = [''started'', ''cloning'', ''pulling'', ''fetching'', ''resetting'']"

definition count_progress :: "progress_totals \<Rightarrow> repository_progress \<Rightarrow> progress_totals" where
  "count_progress t r =
     (if rpg_Status r = ''completed'' then
        t\<lparr>pto_completed := pto_completed t + 1, pto_progress := fadd (pto_progress t) (FNum 1)\<rparr>
      else if rpg_Status r = ''failed'' then t\<lparr>pto_failed := pto_failed t + 1\<rparr>
      else if rpg_Status r = ''pending'' then t\<lparr>pto_pending := pto_pending t + 1\<rparr>
      else if rpg_Status r \<in> set active_statuses then t\<lparr>pto_progress := fadd (pto_progress t) (rpg_Progress r)\<rparr>
      else if rpg_Status r = ''skipped'' then
        t\<lparr>pto_completed := pto_completed t + 1, pto_progress := fadd (pto_progress t) (FNum 1)\<rparr>
      else t\<lparr>pto_pending := pto_pending t + 1\<rparr>)"

definition progress_sums :: "repository_progress list \<Rightarrow> progress_totals" where
  "progress_sums rs =
     foldl count_progress \<lparr>pto_completed = 0, pto_failed = 0, pto_pending = 0, pto_progress = FNum 0\<rparr> rs"

text \<open>The last component is the percentage.\<close>

definition get_overall_clone_progress :: "progress_tracker \<Rightarrow> progress_totals" where
  "get_overall_clone_progress pt =
     (let t = progress_sums (map snd (pgt_repositories pt))
      in t\<lparr>pto_progress :=
            (if 0 < pgt_totalRepos pt then fmul_const (fdiv (pto_progress t) (float_of_int (pgt_totalRepos pt))) 100
             else FNum 0)\<rparr>)"

definition get_repository_progress :: "progress_tracker \<Rightarrow> string \<Rightarrow> repository_progress option" where
  "get_repository_progress pt name = gm_get (pgt_repositories pt) name"

definition get_all_progress :: "progress_tracker \<Rightarrow> repository_progress list" where
  "get_all_progress pt = map snd (pgt_repositories pt)"

definition finished_status :: "string \<Rightarrow> bool" where
  "finished_status s \<longleftrightarrow> s = ''completed'' \<or> s = ''failed'' \<or> s = ''skipped''"

definition progress_is_completed :: "progress_tracker \<Rightarrow> bool" where
  "progress_is_completed pt \<longleftrightarrow> list_all (\<lambda>(n, r). finished_status (rpg_Status r)) (pgt_repositories pt)"

section \<open>Time\<close>

fun truncate_float :: "(float64 \<Rightarrow> int) \<Rightarrow> float64 \<Rightarrow> int" where
  "truncate_float unfit (FNum x) =
     (let i = (if x < 0 then \<lceil>x\<rceil> else \<lfloor>x\<rfloor>) in if - (2 ^ 63) \<le> i \<and> i < 2 ^ 63 then i else unfit (FNum x))"
| "truncate_float unfit f = unfit f"

text \<open>Division of Go's integers truncates.\<close>

definition go_div :: "int \<Rightarrow> int \<Rightarrow> int" where
  "go_div a b = sgn a * sgn b * (\<bar>a\<bar> div \<bar>b\<bar>)"

definition get_duration :: "int \<Rightarrow> progress_tracker \<Rightarrow> int" where
  "get_duration now pt = time_sub now (pgt_startTime pt)"

text \<open>\<open>None\<close> is the panic of a division by zero.\<close>

definition get_eta :: "(float64 \<Rightarrow> int) \<Rightarrow> int \<Rightarrow> progress_tracker \<Rightarrow> int option" where
  "get_eta unfit now pt =
     (let percent = pto_progress (get_overall_clone_progress pt)
      in if fle percent (FNum 0) then Some 0
         else
           let elapsed = time_sub now (pgt_startTime pt); divisor = truncate_float unfit percent
           in if divisor = 0 then None
              else let remaining = wrap64 (go_div (wrap64 (elapsed * 100)) divisor - elapsed)
                   in Some (if remaining < 0 then 0 else remaining))"

section \<open>Display\<close>

text \<open>\<open>strings.Repeat\<close> panics on a negative count.\<close>

definition bar_widths :: "(float64 \<Rightarrow> int) \<Rightarrow> progress_tracker \<Rightarrow> (int \<times> int) option" where
  "bar_widths unfit pt =
     (let filled = truncate_float unfit (fdiv_const (fmul_const (pto_progress (get_overall_clone_progress pt)) 30) 100);
          empty = 30 - filled
      in if filled < 0 \<or> empty < 0 then None else Some (filled, empty))"

text \<open>The part of a long error that the summary keeps.\<close>

fun last_index :: "string \<Rightarrow> string \<Rightarrow> nat option" where
  "last_index sub [] = (if sub = [] then Some 0 else None)"
| "last_index sub (c # s) =
     (case last_index sub s of Some i \<Rightarrow> Some (Suc i) | None \<Rightarrow> if prefix sub (c # s) then Some 0 else None)"

definition short_error :: "string \<Rightarrow> string" where
  "short_error e =
     (if length e \<le> 80 then e
      else let e' = (case last_index ''err: '' e of Some i \<Rightarrow> drop (i + 5) e | None \<Rightarrow> e)
        in if 80 < length e' then take 77 e' @ ''...'' else e')"

section \<open>Counts\<close>

text \<open>Every repository is counted once or is being worked on.\<close>

theorem progress_accounts:
  "pto_completed (progress_sums rs) + pto_failed (progress_sums rs) + pto_pending (progress_sums rs) +
     int (length (filter (\<lambda>r. rpg_Status r \<in> set active_statuses) rs)) = int (length rs)"
  by (induction rs rule: rev_induct) (simp_all add: progress_sums_def count_progress_def active_statuses_def)

section \<open>Rounding of small values\<close>

lemma pow2_powi: "pow2 e = 2 powi e"
  by (simp add: pow2_power power_int_def field_simps)

lemma half_even_near: "\<bar>of_int (half_even x) - x\<bar> \<le> 1 / 2"
proof -
  have "of_int \<lfloor>x\<rfloor> \<le> x" "x < of_int \<lfloor>x\<rfloor> + 1" by linarith+
  then show ?thesis by (auto simp: half_even_def Let_def abs_le_iff)
qed

lemma round_magnitude_near:
  assumes "0 < q"
  shows "\<bar>round_magnitude q - q\<bar> \<le> q / 2 ^ 53 + 1 / 2 ^ 1075"
proof -
  define u where "u = pow2 (max (binade q - 52) (- 1074))"
  have u: "0 < u" by (simp add: u_def)
  have "u \<le> pow2 (binade q - 52) + pow2 (- 1074)"
    using less_imp_le [OF pow2_pos [of "binade q - 52"]] less_imp_le [OF pow2_pos [of "- 1074"]] by (simp add: u_def max_def)
  moreover have "pow2 (binade q - 52) \<le> q / 2 ^ 52"
    using binade_le [OF assms] by (simp add: pow2_powi power_int_diff)
  moreover have "pow2 (- 1074) = 1 / 2 ^ 1074" by (simp add: pow2_power)
  ultimately have half: "u / 2 \<le> q / 2 ^ 53 + 1 / 2 ^ 1075" by simp
  have "round_magnitude q - q = (of_int (half_even (q / u)) - q / u) * u"
    using u by (simp add: round_magnitude_def Let_def u_def [symmetric] field_simps)
  then have "\<bar>round_magnitude q - q\<bar> = \<bar>of_int (half_even (q / u)) - q / u\<bar> * u" using u by (simp add: abs_mult)
  also have "\<dots> \<le> 1 / 2 * u" using half_even_near [of "q / u"] u by (intro mult_right_mono) auto
  finally show ?thesis using half by simp
qed

lemma round64_near:
  assumes "1 / 2 ^ 60 \<le> q" and "q \<le> 2"
  shows "\<exists>r. round64 q = FNum r \<and> 0 < r \<and> \<bar>r - q\<bar> \<le> q / 2 ^ 52"
proof -
  have q: "0 < q" using assms(1) by (rule less_le_trans [rotated]) simp
  have "1 / 2 ^ 1075 \<le> (1 / 2 ^ 60) / (2 :: rat) ^ 53" by simp
  also have "\<dots> \<le> q / 2 ^ 53" using assms(1) by (intro divide_right_mono) auto
  finally have near: "\<bar>round_magnitude q - q\<bar> \<le> q / 2 ^ 52" using round_magnitude_near [OF q] by simp
  have pos: "0 < round_magnitude q"
  proof -
    have "q / 2 ^ 52 < q" using q by simp
    then show ?thesis using near by linarith
  qed
  have "q / 2 ^ 52 \<le> 1" using assms(2) by simp
  then have le: "round_magnitude q \<le> 3" using near assms(2) by linarith
  have "binade (round_magnitude q) < 1024"
  proof (rule ccontr)
    assume large: "\<not> ?thesis"
    then have "2 \<le> nat (binade (round_magnitude q))" by simp
    then have "(2 :: rat) ^ 2 \<le> 2 ^ nat (binade (round_magnitude q))" by (rule power_increasing) simp
    moreover have "pow2 (binade (round_magnitude q)) = 2 ^ nat (binade (round_magnitude q))"
      using large by (simp add: pow2_power)
    ultimately show False using binade_le [OF pos] le by simp
  qed
  then show ?thesis using near pos q by (auto simp: round64_def Let_def)
qed

section \<open>The estimate\<close>

lemma one_of_many:
  assumes "100 < n" and "n < 2 ^ 53"
  shows "\<exists>p. fmul_const (fdiv (FNum 1) (float_of_int n)) 100 = FNum p \<and> 0 < p \<and> p < 1"
proof -
  define q :: rat where "q = 1 / of_int n"
  have n: "(101 :: rat) \<le> of_int n" "(of_int n :: rat) \<le> 2 ^ 53"
  proof -
    show "(101 :: rat) \<le> of_int n" using assms(1) of_int_le_iff [of 101 n, where 'a = rat] by simp
    show "(of_int n :: rat) \<le> 2 ^ 53" using assms(2) of_int_le_iff [of n "2 ^ 53", where 'a = rat] by simp
  qed
  have q: "1 / 2 ^ 53 \<le> q" "q \<le> 1 / 101" using n by (simp_all add: q_def field_simps)
  have "1 / 2 ^ 60 \<le> (1 / 2 ^ 53 :: rat)" by simp
  then obtain r where r: "round64 q = FNum r" "0 < r" "\<bar>r - q\<bar> \<le> q / 2 ^ 52" using round64_near [of q] q by fastforce
  have r_up: "r \<le> q * (1 + 1 / 2 ^ 52)" and r_low: "q * (1 - 1 / 2 ^ 52) \<le> r" proof -
    have "r - q \<le> q / 2 ^ 52" "q - r \<le> q / 2 ^ 52" using r(3) by linarith+
    then show "r \<le> q * (1 + 1 / 2 ^ 52)" "q * (1 - 1 / 2 ^ 52) \<le> r" by (simp_all add: distrib_left right_diff_distrib)
  qed
  have low: "1 / 2 ^ 60 \<le> r * 100"
  proof -
    have "(1 / 2 ^ 60 :: rat) \<le> (1 / 2 ^ 53) * (1 - 1 / 2 ^ 52) * 100" by simp
    also have "\<dots> \<le> q * (1 - 1 / 2 ^ 52) * 100" using q(1) by (intro mult_right_mono) auto
    also have "\<dots> \<le> r * 100" by (rule mult_right_mono [OF r_low]) simp
    finally show ?thesis .
  qed
  have up: "r * 100 \<le> 100 / 101 * (1 + 1 / 2 ^ 52)"
  proof -
    have "q * (1 + 1 / 2 ^ 52) \<le> 1 / 101 * (1 + 1 / 2 ^ 52)" using q(2) by (intro mult_right_mono) auto
    then have "r \<le> 1 / 101 * (1 + 1 / 2 ^ 52)" by (rule order_trans [OF r_up])
    then have "r * 100 \<le> 1 / 101 * (1 + 1 / 2 ^ 52) * 100" by (rule mult_right_mono) simp
    then show ?thesis by simp
  qed
  then have "r * 100 \<le> 2" by (rule order_trans) simp
  then obtain p where p: "round64 (r * 100) = FNum p" "0 < p" "\<bar>p - r * 100\<bar> \<le> r * 100 / 2 ^ 52" using round64_near [OF low] by blast
  have "p \<le> r * 100 * (1 + 1 / 2 ^ 52)" 
  proof -
    have "p - r * 100 \<le> r * 100 / 2 ^ 52" using p(3) by linarith
    then show ?thesis by (simp add: distrib_left)
  qed
  also have "\<dots> \<le> 100 / 101 * (1 + 1 / 2 ^ 52) * (1 + 1 / 2 ^ 52)" using up by (intro mult_right_mono) auto
  also have "\<dots> < (1 :: rat)" by simp
  finally have "p < 1" .
  moreover have "float_of_int n = FNum (of_int n)" using assms by (intro float_of_int_exact) auto
  ultimately show ?thesis using r(1) p n by (simp add: q_def)
qed

lemma put_all_new:
  "distinct names \<Longrightarrow> set names \<inter> set (gm_keys m) = {} \<Longrightarrow>
     foldl (\<lambda>m n. gm_put n (new_progress now n) m) m names = m @ map (\<lambda>n. (n, new_progress now n)) names"
proof (induction names arbitrary: m)
  case (Cons n names)
  have "gm_put n v m = m @ [(n, v)]" for v
  proof -
    have "n \<notin> set (gm_keys m)" using Cons.prems(2) by simp
    then show ?thesis unfolding gm_put_def by (induction m) (auto simp: gm_keys_def)
  qed
  then show ?case using Cons by (auto simp: gm_keys_def)
qed simp

lemma complete_one:
  assumes "distinct names" and "name \<in> set names"
  shows "pto_progress (progress_sums (map snd (pgt_repositories (complete_repository t name msg (new_progress_tracker now names mode))))) = fadd (FNum 0) (FNum 1)"
proof -
  have reps: "pgt_repositories (new_progress_tracker now names mode) = map (\<lambda>n. (n, new_progress now n)) names"
    using put_all_new [OF assms(1), of "[]"] by (simp add: new_progress_tracker_def)
  have get: "gm_get (map (\<lambda>n. (n, new_progress now n)) names) name = Some (new_progress now name)"
    using assms(2) by (simp add: gm_get_def map_of_map_restrict)
  obtain xs ys where n: "names = xs @ name # ys" by (metis assms(2) split_list)
  then have nin: "name \<notin> set xs" using assms(1) by auto
  define v where "v = (new_progress now name)\<lparr>rpg_Status := ''completed'', rpg_Message := msg, rpg_Progress := FNum 1, rpg_UpdatedTime := Some t\<rparr>"
  have "gm_put name v (map (\<lambda>n. (n, new_progress now n)) (xs @ name # ys)) =
      map (\<lambda>n. (n, new_progress now n)) xs @ (name, v) # map (\<lambda>n. (n, new_progress now n)) ys"
    using nin unfolding gm_put_def by (induction xs) auto
  then have all: "map snd (pgt_repositories (complete_repository t name msg (new_progress_tracker now names mode))) =
      map (new_progress now) xs @ v # map (new_progress now) ys"
    unfolding complete_repository_def change_repository_def reps get v_def [symmetric] by (simp add: n v_def o_def)
  have pend: "pto_progress (foldl count_progress s (map (new_progress now) zs)) = pto_progress s" for s zs
    by (induction zs arbitrary: s) (simp_all add: count_progress_def new_progress_def)
  have one: "pto_progress (count_progress s v) = fadd (pto_progress s) (FNum 1)" for s
    by (simp add: count_progress_def v_def)
  show ?thesis unfolding all by (simp add: progress_sums_def pend one)
qed

text \<open>
  Property C40. With more than a hundred repositories the estimate of the remaining time divides by zero as
  soon as the first of them is completed.
\<close>

theorem eta_panics:
  assumes "distinct names" and "100 < length names" and "int (length names) < 2 ^ 53" and "name \<in> set names"
  shows "get_eta unfit now (complete_repository t name msg (new_progress_tracker start names mode)) = None"
proof -
  let ?pt = "complete_repository t name msg (new_progress_tracker start names mode)"
  have total: "pgt_totalRepos ?pt = int (length names)"
    by (simp add: complete_repository_def change_repository_def new_progress_tracker_def split: option.split)
  have one: "fadd (FNum 0) (FNum 1) = FNum 1" by code_simp
  obtain p where p: "fmul_const (fdiv (FNum 1) (float_of_int (int (length names)))) 100 = FNum p" "0 < p" "p < 1"
    using one_of_many [of "int (length names)"] assms(2,3) by auto
  have pct: "pto_progress (get_overall_clone_progress ?pt) = FNum p"
    using assms(2) p(1) complete_one [OF assms(1,4), of t msg start mode] by (simp only: one get_overall_clone_progress_def Let_def total) auto
  have "\<lfloor>p\<rfloor> = 0" using p(2,3) by (simp add: floor_eq_iff)
  then show ?thesis using p(2,3) by (simp add: get_eta_def Let_def pct fle_def feq_def)
qed

definition sample_names :: "string list" where "sample_names = map (\<lambda>n. replicate n (CHR ''r'')) [0..<101]"

lemma sample_names: "distinct sample_names" "length sample_names = 101" "[] \<in> set sample_names"
  by (simp_all add: sample_names_def distinct_map inj_on_def)

theorem eta_panics_witness:
  "get_eta (\<lambda>_. 0) 5 (complete_repository 4 [] ''done'' (new_progress_tracker 0 sample_names ''compact'')) = None"
  by (rule eta_panics) (simp_all add: sample_names)

end
