(* ===== verification/Spec2Isabelle.thy ===== *)
theory Spec2Isabelle
  imports DependencyResolver ComplianceAudit CloneSession Recovery RiskScan FindingIngest RepoGuard RateLimiter SyncRun SyncGit SyncMeta SyncIssues SyncTracker SecurityPolicy VersionPolicy DependabotPolicy ActionsPolicy WorkflowFindings WebhookBulk WebhookPolicies ConfigDiff ChangeLog ChangeLogger StartupCheck CloneProgress
begin

text \<open>
  A verification development for gzh-manager-go, the command-line tool \<open>gz\<close> that clones,
  configures, audits and synchronises the repositories of organisations. Paths are below \<open>src/\<close>.

  \<^bold>\<open>The program and its parts.\<close> A repository configuration (\<open>pkg/config\<close>) names
  templates, policies, exceptions and repositories; it is resolved to one effective configuration
  per repository, audited for compliance and applied through the GitHub client (\<open>pkg/github\<close>),
  which asks for consent before a sensitive change and waits for the rate limits of the service.
  Policy managers of \<open>pkg/github\<close> keep policies for Actions, Dependabot, security updates and
  dependency versions. A resumable clone (\<open>pkg/github\<close>, \<open>pkg/gitlab\<close>) runs the jobs
  of an organisation through worker pools (\<open>internal/workerpool\<close>) and keeps its progress in state
  files (\<open>pkg/synclone\<close>); \<open>internal/errors/recovery.go\<close> retries what fails. \<open>internal/git/sync\<close>
  synchronises the repositories of one service with those of another. The bootstrap of package
  managers (\<open>internal/pm/bootstrap\<close>) orders them by their dependencies. The module
  \<open>security\<close> checks the registry of accepted risks against the suppressions in the source and
  compares the reports of two security scans.

  \<^bold>\<open>Shared theories.\<close>
  \<^item> \<open>GoPrelude\<close>: Go's maps as association lists with the locale \<open>go_map\<close>, 64-bit
    wrap-around, ASCII strings (trimming, splitting, joining, decimal numbers), stable sorting, saturated
    time differences and the lemma collections the components use.
  \<^item> \<open>GoJson\<close>: structs as JSON values by the tags of their fields, with the locale \<open>json_codec\<close>;
    \<open>GoTime\<close>: dates of the layout \<open>2006-01-02\<close>; \<open>GoGlob\<close>:
    \<open>filepath.Match\<close>; \<open>GoValue\<close>: \<open>float64\<close> with rounding to 53 bits and the
    values of type \<open>any\<close>; \<open>GoRegex\<close>: matching of the regular expressions the code
    fixes, by derivatives; \<open>FileTree\<close>: directory trees and \<open>filepath.Walk\<close>;
    \<open>HostFiles\<close>: paths, files, working directory and environment of a machine, and which file a
    path stands for;
    \<open>PolicyStore\<close>: the contract the policy managers share.

  \<^bold>\<open>Package managers.\<close> \<open>DependencyResolver\<close> models
  \<open>internal/pm/bootstrap/dependencies.go\<close>: the dependency table, the graph of a request, Kahn's
  algorithm (\<open>resolve\<close>), the transitive closure and the check for cycles. It is shown that an
  order is returned exactly when the requested part has no cycle, that it lists the requested
  managers once and dependencies first, and that the closure is the reachable set.

  \<^bold>\<open>Repository configuration\<close> (\<open>pkg/config/repo_config_schema.go\<close>).
  \<open>RepoSchema\<close> has the structs, \<open>RepoMerge\<close> the merge functions with the locale of
  overriding merges, \<open>RepoTemplates\<close> inheritance and validation, \<open>RepoEffective\<close> loading
  and the effective configuration of a repository. A resolved template is shown to refine the walk
  along its bases, and each field of an effective configuration comes from the last layer that sets it; the default of the
  repositories section is laid over the patterns that match, where the example file gives it to the others.
  \<open>ComplianceAudit\<close> (\<open>repo_config_audit.go\<close>) models the rule checks, the exceptions
  and the summary. \<open>RepoChange\<close>, \<open>RepoClient\<close> and \<open>RepoGuard\<close> model
  \<open>pkg/github/confirmation.go\<close> and \<open>repo_config.go\<close>: the risks of a change, the
  dialogue, the filtered change and the calls that reach the service, with the service a parameter.
  \<open>RateLimiter\<close> models \<open>rate_limiter.go\<close> and \<open>makeRequest\<close> with an explicit clock.
  \<open>ConfigDiff\<close> (\<open>cmd/repo-config/diff/diff.go\<close>) compares what the service returns with
  the effective configuration; a report of compliance is characterised field by field, and a protected
  branch other than the default one is shown to be reported as missing whatever the service holds.

  \<^bold>\<open>Change log\<close> (\<open>pkg/github\<close>). \<open>ChangeStore\<close> models \<open>changelog.go\<close>
  and the file store of \<open>filestore.go\<close> over a directory tree, \<open>ChangeLog\<close> the contract of
  a store and what a recorded change, a listing and a rollback give under it, with the file store as
  its interpretation, and \<open>ChangeLogger\<close> the operation log of \<open>change_logger.go\<close>.

  \<^bold>\<open>Policy managers\<close> (\<open>pkg/github\<close>). \<open>SecurityTypes\<close> and
  \<open>SecurityPolicy\<close>: \<open>security_update_policy.go\<close>; \<open>VersionConfig\<close>,
  \<open>VersionTypes\<close> and \<open>VersionPolicy\<close>: \<open>dependency_version_policy.go\<close>;
  \<open>DependabotTypes\<close> and \<open>DependabotPolicy\<close>: \<open>dependabot_config.go\<close> and
  \<open>dependabot_policy_manager.go\<close>; \<open>ActionsTypes\<close>, \<open>ActionsRules\<close> and
  \<open>ActionsPolicy\<close>: \<open>actions_policy.go\<close>, its validation rules and its enforcer; \<open>WorkflowTypes\<close>, \<open>WorkflowAudit\<close> and
  \<open>WorkflowFindings\<close>: \<open>workflow_auditor.go\<close>.
  The theories of types have one record per struct with the fields of the struct, and the
  \<open>zero_\<close> values are Go's zero values. Shown are the exact conditions of a decision (an approval, a
  rejection, a violation), that every update or repository of a batch is accounted for, and what is
  reported when a rule cannot be evaluated.

  \<^bold>\<open>Webhooks\<close> (\<open>pkg/github\<close>). \<open>WebhookTypes\<close> has the structs of
  \<open>webhook.go\<close> and \<open>webhook_config.go\<close>, \<open>WebhookService\<close> the service over HTTP
  (\<open>webhook.go\<close>, \<open>base_url.go\<close>) and \<open>WebhookPolicies\<close> the policies of
  \<open>webhook_config_impl.go\<close>. \<open>WebhookBulk\<close> shows what a bulk deletion removes from a
  service that answers as documented, \<open>WebhookPolicies\<close> what an application reports; the
  placeholders of the code (migration, compliance, test deliveries) are modelled as such.

  \<^bold>\<open>Cloning.\<close> \<open>CloneState\<close> (\<open>pkg/synclone/state.go\<close>) has the state and its
  files, \<open>CloneSession\<close> the sessions of \<open>pkg/github/resumable_clone.go\<close> and
  \<open>pkg/gitlab/resumable_clone.go\<close>, \<open>WorkerPool\<close> the pools as step relations over channels,
  \<open>Recovery\<close> the retries, the circuit breaker and the health checks. Shown are the counts of a state
  as an invariant of its operations, the keys and the round trip of a state file, the capacity of a pool, the
  completion of a batch by the steps the relation allows, and the number of attempts of a retry.

  \<^bold>\<open>Configuration of clones\<close> (\<open>pkg/config\<close>, \<open>pkg/synclone\<close>).
  \<open>LegacyClone\<close> has the files of earlier versions with their overlays and the addresses of
  repositories (\<open>synclone_config.go\<close>, \<open>config_loader.go\<close>, \<open>url_builder.go\<close>),
  \<open>CloneTargets\<close> the targets, filters and directories (\<open>schema.go\<close>, \<open>parser.go\<close>,
  \<open>visibility.go\<close>, \<open>repository_filter.go\<close>, \<open>integration.go\<close>,
  \<open>directory_resolver.go\<close>), \<open>UnifiedTypes\<close> the structs of \<open>unified_schema.go\<close>,
  \<open>UnifiedLoader\<close> loading and migration (\<open>unified_loader.go\<close>, \<open>migration.go\<close>),
  \<open>ConfigFactory\<close> the entry points (\<open>unified_factory.go\<close>, \<open>loader.go\<close>,
  \<open>unified_facade.go\<close>), \<open>StartupCheck\<close> the collecting validators (\<open>validator.go\<close>,
  \<open>startup_validator.go\<close>) and \<open>CloneProgress\<close> the progress of a clone (\<open>progress.go\<close>).
  Shown are what overlays give, what is accepted and by which validator, when a migrated file loads again,
  where the search for a file and its loading disagree, and when the estimate of the remaining time panics.

  \<^bold>\<open>Synchronisation\<close> (\<open>internal/git/sync\<close>, \<open>pkg/git/provider\<close>).
  \<open>SyncPlan\<close> and \<open>SyncRun\<close> model targets, plans, filters and the engine, \<open>SyncGit\<close> the
  git commands of the code and wiki syncers, \<open>SyncMeta\<close> settings and releases,
  \<open>SyncIssues\<close> issues and \<open>SyncTracker\<close> the tracker. The run of the engine refines the
  sequence of its plan whatever the number of workers.

  \<^bold>\<open>Security gates\<close> (\<open>security/internal\<close>). \<open>RiskPolicy\<close>,
  \<open>RiskRegistry\<close>, \<open>RiskValidate\<close> and \<open>RiskGate\<close> model the policy, the records
  and the validation of accepted risks; \<open>RiskSuppression\<close> and \<open>RiskScan\<close> the scanner of
  suppressions with its analysis of build constraints; \<open>FindingCompare\<close>, \<open>FindingIngest\<close>
  and \<open>FindingReport\<close> the canonical findings, the ingestion of SARIF and the three classes of a comparison.

  \<^bold>\<open>How code is modelled.\<close> A struct is a record, an enumeration the Go string or integer it is,
  an error a value of a datatype whose constructors are the messages of the component, a method that
  changes its receiver a function that returns it, a panic the result \<open>None\<close> (\<open>Crashed\<close>
  and \<open>Panicked\<close> in the configuration of clones). A Go map is an
  association list without duplicate keys; where the code ranges over a map the order of the list is the
  order of the range, and the statements hold for every list. \<open>int\<close> arithmetic that can
  overflow is written with \<open>wrap64\<close>; lengths and counters of elements in memory are not
  wrapped. A time is the number of its nanoseconds, and a clock that is read is an argument.
  Some idealisations are deliberate: the percentage of a clone state is a rational, a \<open>float64\<close>
  converted to an integer does not overflow, adding days to a date does not wrap, the text of a time and the
  text of a JSON value are not modelled (a file of the clone state is the value, and what a string keeps
  of its bytes is), a nil slice is the empty list, and trimming and lower case are those of ASCII.
  The rate limiter is modelled for one caller at a time, the workers of the synchronisation engine as
  a permutation of the plan, and errors have neither \<open>errors.Join\<close> nor methods \<open>As\<close> of their own.
  Mutexes make the operations they protect atomic; goroutines that interleave visibly are inductive
  step relations (\<open>WorkerPool\<close>, \<open>DependabotPolicy\<close>).

  \<^bold>\<open>Interfaces.\<close> The locales state what one component relies on of another: \<open>go_map\<close>,
  the merges of \<open>RepoMerge\<close>, \<open>policy_store\<close>, \<open>change_log\<close>, \<open>ranked_names\<close>, \<open>validation_rule\<close> and
  others, each interpreted on the definitions of the model; the properties use the interpreted facts.

  \<^bold>\<open>Parameters.\<close> Code that is not in the repository is an argument: YAML, JSON and Go parsers,
  regular expressions, git, the file system, HTTP, the services, randomness and the clock. Where a
  statement needs their documented behaviour it is a premise and the witness discharges it.

  \<^bold>\<open>Bounds and fuel.\<close> Recursions are structural or have a measure; the retries of
  \<open>Recovery\<close> and \<open>RateLimiter\<close> are bounded by the attempts of their configuration; the
  runs of step relations are counted explicitly (a bulk operation of \<open>n\<close> repositories needs at
  most \<open>3 * n + 2\<close> steps). Where a definition takes fuel, a lemma of its theory shows that the fuel
  its caller passes is enough.

  \<^bold>\<open>Not modelled.\<close> Command trees and printing under \<open>cmd\<close>, wrappers of cloud,
  editor and package-manager commands, HTTP adapters of the services, profiling, logging and
  terminal interfaces, tests and generated mocks: their behaviour is that of the tools they call.
  Of modelled files: the text rendering of audits and summaries, progress bars and colours, wall-clock timeouts of jobs,
  the scan of the directory of state files and the recovery of panics in callers' functions.
  Not modelled though it has logic of its own: the service of \<open>internal/config\<close> over viper and the
  JSON schema of the older format. The risk report of \<open>cmd/repo-config\<close> works on placeholder
  data of the command.
\<close>

end
